(* ===== verification/Prelude.thy ===== *)
theory Prelude
  imports Main "HOL-Library.Word" "HOL-Library.Multiset"
begin

text \<open>
  What the components share: the outcome of a piece of Go code (a panic, a goroutine that is
  blocked for good, or a value), Go's errors as values, loops over a slice that carry the state,
  and the generic list and map lemmas. Nothing here models a file of the repository: it is the
  language the models of the other theories are written in.
\<close>

section \<open>Outcomes\<close>

text \<open>
  \<open>Panic\<close> is a Go run time panic (nil dereference, index out of range, send on or close of a closed
  channel, failed type assertion). \<open>Blocked\<close> is a goroutine waiting for an event that the
  environment never delivers. \<open>Ok\<close> is normal termination.
\<close>

datatype 'a outcome = Panic | Blocked | Ok 'a

primrec obind :: "'a outcome \<Rightarrow> ('a \<Rightarrow> 'b outcome) \<Rightarrow> 'b outcome" where
  "obind Panic f = Panic"
| "obind Blocked f = Blocked"
| "obind (Ok a) f = f a"

text \<open>A \<open>for\<close> loop over a slice whose body updates the state \<open>s\<close>.\<close>

primrec ofold :: "('x \<Rightarrow> 's \<Rightarrow> 's outcome) \<Rightarrow> 'x list \<Rightarrow> 's \<Rightarrow> 's outcome" where
  "ofold f [] s = Ok s"
| "ofold f (x # xs) s = obind (f x s) (ofold f xs)"

text \<open>
  \<open>wp m P\<close>: the code does not panic, and \<open>P\<close> holds of its result if it is not blocked.
  \<open>twp m P\<close>: the code returns, with a result that satisfies \<open>P\<close>.
\<close>

definition wp :: "'a outcome \<Rightarrow> ('a \<Rightarrow> bool) \<Rightarrow> bool" where
  "wp m P = (case m of Panic \<Rightarrow> False | Blocked \<Rightarrow> True | Ok a \<Rightarrow> P a)"

definition twp :: "'a outcome \<Rightarrow> ('a \<Rightarrow> bool) \<Rightarrow> bool" where
  "twp m P = (case m of Panic \<Rightarrow> False | Blocked \<Rightarrow> False | Ok a \<Rightarrow> P a)"

lemma wp_simps [simp]:
  "wp Panic P = False" "wp Blocked P = True" "wp (Ok a) P = P a"
  by (simp_all add: wp_def)

lemma twp_simps [simp]:
  "twp Panic P = False" "twp Blocked P = False" "twp (Ok a) P = P a"
  by (simp_all add: twp_def)

lemma wp_obind [simp]: "wp (obind m f) P = wp m (\<lambda>a. wp (f a) P)"
  by (cases m) simp_all

lemma twp_obind [simp]: "twp (obind m f) P = twp m (\<lambda>a. twp (f a) P)"
  by (cases m) simp_all

lemma wp_mono: "wp m P \<Longrightarrow> (\<And>a. P a \<Longrightarrow> Q a) \<Longrightarrow> wp m Q"
  by (cases m) simp_all

lemma twp_mono: "twp m P \<Longrightarrow> (\<And>a. P a \<Longrightarrow> Q a) \<Longrightarrow> twp m Q"
  by (cases m) simp_all

lemma wp_conj: "wp m P \<Longrightarrow> wp m Q \<Longrightarrow> wp m (\<lambda>a. P a \<and> Q a)"
  by (cases m) simp_all

lemma twp_wp: "twp m P \<Longrightarrow> wp m P"
  by (cases m) simp_all

lemma wp_Ok_D: "wp m P \<Longrightarrow> m = Ok a \<Longrightarrow> P a"
  by simp

lemma wp_not_Panic: "wp m P \<Longrightarrow> m \<noteq> Panic"
  by (cases m) simp_all

lemma wp_ofold:
  assumes "\<And>x s. x \<in> set xs \<Longrightarrow> I s \<Longrightarrow> wp (f x s) I" and "I s"
  shows "wp (ofold f xs s) I"
  using assms
proof (induction xs arbitrary: s)
  case Nil
  then show ?case by simp
next
  case (Cons x xs)
  have "wp (f x s) I" using Cons.prems by simp
  then show ?case
    using Cons.IH Cons.prems(1) by (cases "f x s") auto
qed

lemma twp_ofold:
  assumes "\<And>x s. x \<in> set xs \<Longrightarrow> I s \<Longrightarrow> twp (f x s) I" and "I s"
  shows "twp (ofold f xs s) I"
  using assms
proof (induction xs arbitrary: s)
  case Nil
  then show ?case by simp
next
  case (Cons x xs)
  have "twp (f x s) I" using Cons.prems by simp
  then show ?case
    using Cons.IH Cons.prems(1) by (cases "f x s") auto
qed

lemma obind_Ok_conv [simp]: "obind m Ok = m"
  by (cases m) simp_all

lemma ex_bool [simp]: "\<exists>v. v" "Ex Not"
  by auto

lemma obind_cong: "(\<And>a. m = Ok a \<Longrightarrow> f a = g a) \<Longrightarrow> obind m f = obind m g"
  by (cases m) simp_all

lemma obind_assoc: "obind (obind m f) g = obind m (\<lambda>a. obind (f a) g)"
  by (cases m) simp_all

lemma obind_eq_Ok: "obind m f = Ok b \<longleftrightarrow> (\<exists>a. m = Ok a \<and> f a = Ok b)"
  by (cases m) simp_all

lemma obind_eq_Blocked: "obind m f = Blocked \<longleftrightarrow> m = Blocked \<or> (\<exists>a. m = Ok a \<and> f a = Blocked)"
  by (cases m) simp_all

lemma obind_eq_Panic: "obind m f = Panic \<longleftrightarrow> m = Panic \<or> (\<exists>a. m = Ok a \<and> f a = Panic)"
  by (cases m) simp_all

lemma ofold_append: "ofold f (xs @ ys) s = obind (ofold f xs s) (ofold f ys)"
proof (induction xs arbitrary: s)
  case (Cons x xs)
  then show ?case by (cases "f x s") simp_all
qed simp

text \<open>The loop that maps a fallible function over a slice.\<close>

primrec omapM :: "('a \<Rightarrow> 'b outcome) \<Rightarrow> 'a list \<Rightarrow> 'b list outcome" where
  "omapM f [] = Ok []"
| "omapM f (x # xs) = obind (f x) (\<lambda>y. obind (omapM f xs) (\<lambda>ys. Ok (y # ys)))"

lemma omapM_cong [fundef_cong]:
  "xs = ys \<Longrightarrow> (\<And>x. x \<in> set ys \<Longrightarrow> f x = g x) \<Longrightarrow> omapM f xs = omapM g ys"
  by (induction ys arbitrary: xs) auto

lemma omapM_Ok:
  assumes "\<And>x. x \<in> set xs \<Longrightarrow> f x = Ok (g x)"
  shows "omapM f xs = Ok (map g xs)"
  using assms by (induction xs) auto

lemma omapM_total:
  assumes "\<And>x. x \<in> set xs \<Longrightarrow> \<exists>y. f x = Ok y \<and> P x y"
  shows "\<exists>ys. omapM f xs = Ok ys \<and> list_all2 P xs ys"
  using assms
proof (induction xs)
  case (Cons x xs)
  then obtain ys where "omapM f xs = Ok ys" "list_all2 P xs ys" by auto
  moreover obtain y where "f x = Ok y" "P x y" using Cons.prems [of x] by auto
  ultimately show ?case by auto
qed simp

section \<open>Numbers as text\<close>

fun dec :: "nat \<Rightarrow> string" where
  "dec n = (if n < 10 then [char_of (48 + n)] else dec (n div 10) @ [char_of (48 + n mod 10)])"

declare dec.simps [simp del]

definition decInt :: "int \<Rightarrow> string" where
  "decInt i = (if i < 0 then CHR ''-'' # dec (nat (- i)) else dec (nat i))"

section \<open>Errors\<close>

text \<open>
  A Go \<open>error\<close>. \<open>errors.New\<close> and \<open>errors.Errorf\<close> keep their format and arguments,
  \<open>errors.Wrap\<close> and \<open>errors.WithMessage\<close> of github.com/pkg/errors keep their cause. The other
  constructors are the error types of the repository (\<open>*status.Status\<close>, \<open>multi.Errors\<close>,
  \<open>DiscoveryError\<close>) and an error value of another package, of which only the text is known.
\<close>

datatype farg = FS string | FN nat | FI int

datatype goerr =
  ErrorF string "farg list"
| WithMsg goerr string "farg list"
| StatusErr "32 word" "32 word" string "detail list"
| MultiErr "goerr list"
| DiscErr goerr
| ExtErr string
and detail = DErr goerr | DStr string | DBytes "8 word list" | DEndorsement "(8 word list \<times> 8 word list) option"

abbreviation errorNew :: "string \<Rightarrow> goerr" where
  "errorNew m \<equiv> ErrorF m []"

abbreviation withMessage :: "goerr \<Rightarrow> string \<Rightarrow> goerr" where
  "withMessage e m \<equiv> WithMsg e m []"

text \<open>\<open>fmt.Sprintf\<close> for the verbs the error messages use: every verb takes the next argument.\<close>

primrec argText :: "farg \<Rightarrow> string" where
  "argText (FS s) = s"
| "argText (FN n) = dec n"
| "argText (FI i) = decInt i"

fun Sprintf :: "string \<Rightarrow> farg list \<Rightarrow> string" where
  "Sprintf [] as = []"
| "Sprintf [c] as = [c]"
| "Sprintf (c # v # s) as =
    (if c = CHR ''%'' then
       case as of [] \<Rightarrow> ''%!'' @ v # ''(MISSING)'' @ Sprintf s [] | a # as' \<Rightarrow> argText a @ Sprintf s as'
     else c # Sprintf (v # s) as)"

text \<open>\<open>errors.Cause\<close>: the innermost error below the wrappers of github.com/pkg/errors.\<close>

fun Cause :: "goerr \<Rightarrow> goerr" where
  "Cause (WithMsg e m as) = Cause e"
| "Cause e = e"

type_synonym 'a res = "goerr + 'a"

type_synonym bytes = "8 word list"

text \<open>\<open>strings.Join\<close>, \<open>hex.EncodeToString\<close> and the verb \<open>%v\<close> of a byte slice\<close>

primrec join :: "string \<Rightarrow> string list \<Rightarrow> string" where
  "join sep [] = []"
| "join sep (s # ss) = (if ss = [] then s else s @ sep @ join sep ss)"

definition hexDigit :: "8 word \<Rightarrow> char" where
  "hexDigit n = (if n < 10 then char_of (48 + unat n) else char_of (87 + unat n))"

definition EncodeToString :: "bytes \<Rightarrow> string" where
  "EncodeToString bs = concat (map (\<lambda>b. [hexDigit (drop_bit 4 b), hexDigit (take_bit 4 b)]) bs)"

definition bytes_text :: "bytes \<Rightarrow> string" where
  "bytes_text bs = ''['' @ join '' '' (map (\<lambda>b. dec (unat b)) bs) @ '']''"

section \<open>Association lists as Go maps\<close>

text \<open>
  A Go map that the code iterates over is an association list with distinct keys. Go does not
  specify the order of an iteration; the order of the list is one such order, and the theorems
  hold for every list, so for every order.
\<close>

definition al_keys :: "('k \<times> 'v) list \<Rightarrow> 'k list" where
  "al_keys m = map fst m"

definition al_delete :: "'k \<Rightarrow> ('k \<times> 'v) list \<Rightarrow> ('k \<times> 'v) list" where
  "al_delete k m = filter (\<lambda>p. fst p \<noteq> k) m"

lemma set_al_keys: "set (al_keys m) = dom (map_of m)"
  by (simp add: al_keys_def dom_map_of_conv_image_fst)

lemma map_of_al_delete: "map_of (al_delete k m) = (map_of m)(k := None)"
  by (induction m) (auto simp: al_delete_def)

lemma al_keys_delete: "al_keys (al_delete k m) = filter (\<lambda>x. x \<noteq> k) (al_keys m)"
  by (simp add: al_keys_def al_delete_def filter_map o_def)

lemma set_al_delete: "set (al_delete k m) = {p \<in> set m. fst p \<noteq> k}"
  by (auto simp: al_delete_def)

lemma al_delete_absent [simp]: "k \<notin> set (al_keys m) \<Longrightarrow> al_delete k m = m"
  by (auto simp: al_delete_def al_keys_def filter_id_conv)

lemma al_delete_Cons:
  "al_delete k (p # m) = (if fst p = k then al_delete k m else p # al_delete k m)"
  by (simp add: al_delete_def)

lemma al_delete_split:
  assumes "distinct (al_keys m)" and "map_of m k = Some v"
  shows "\<exists>xs ys. m = xs @ (k, v) # ys \<and> al_delete k m = xs @ ys"
  using assms
proof (induction m)
  case Nil
  then show ?case by simp
next
  case (Cons p m)
  show ?case
  proof (cases "fst p = k")
    case True
    with Cons.prems have "k \<notin> set (al_keys m)" and v: "p = (k, v)"
      by (auto simp: al_keys_def)
    then have "p # m = [] @ (k, v) # m \<and> al_delete k (p # m) = [] @ m"
      by (simp add: al_delete_Cons)
    then show ?thesis by blast
  next
    case False
    with Cons.prems have "distinct (al_keys m)" "map_of m k = Some v"
      by (auto simp: al_keys_def split: if_splits)
    then obtain xs ys where "m = xs @ (k, v) # ys" "al_delete k m = xs @ ys"
      using Cons.IH by blast
    then have "p # m = (p # xs) @ (k, v) # ys \<and> al_delete k (p # m) = (p # xs) @ ys"
      using False by (simp add: al_delete_def)
    then show ?thesis by blast
  qed
qed

section \<open>Adding to and removing from a list up to order\<close>

lemma distinct_add_mset:
  assumes "mset ys = add_mset x (mset xs)" and "distinct xs" and "x \<notin> set xs"
  shows "distinct ys \<and> set ys = insert x (set xs)"
proof -
  have "mset ys = mset (x # xs)" using assms(1) by simp
  then show ?thesis
    using assms(2,3) mset_eq_imp_distinct_iff [of ys "x # xs"] mset_eq_setD [of ys "x # xs"] by simp
qed

lemma distinct_remove_mset:
  assumes "mset xs = add_mset x (mset ys)" and "distinct xs"
  shows "distinct ys \<and> set ys = set xs - {x}"
proof -
  have "mset xs = mset (x # ys)" using assms(1) by simp
  then show ?thesis
    using assms(2) mset_eq_imp_distinct_iff [of xs "x # ys"] mset_eq_setD [of xs "x # ys"] by auto
qed

end
