(* ===== verification/Channels.thy ===== *)
theory Channels
  imports Prelude
begin

text \<open>
  Go channels as the event dispatcher uses them: a heap of buffered channels that the dispatcher
  sends on and closes, each with the consumer that reads from it. Closing a closed channel and
  sending on a closed channel panic. This is the run time of the language, not a file of the
  repository; \<open>deliver\<close> is the send statement that every publish routine of the dispatcher
  repeats.
\<close>

text \<open>
  What the consumer does while the dispatcher stands at a send: it never receives again
  (\<open>Absent\<close>), it receives if the dispatcher waits for it (\<open>Slow\<close>), or it is already waiting in
  a receive (\<open>Ready\<close>, which for a full buffered channel amounts to \<open>Slow\<close>).
\<close>

datatype receiver = Absent | Slow | Ready

record 'm chan =
  ch_cap :: nat
  ch_buf :: "'m list"
  ch_got :: "'m list"
  ch_closed :: bool
  ch_recv :: receiver

type_synonym chid = nat

text \<open>Everything sent on a channel so far, in order: what was received and what is buffered.\<close>

definition ch_sent :: "'m chan \<Rightarrow> 'm list" where
  "ch_sent c = ch_got c @ ch_buf c"

definition ch_push :: "'m \<Rightarrow> 'm chan \<Rightarrow> 'm chan" where
  "ch_push m c = c\<lparr>ch_buf := ch_buf c @ [m]\<rparr>"

text \<open>A receiver takes the oldest element once the new one is queued behind it.\<close>

definition ch_handoff :: "'m \<Rightarrow> 'm chan \<Rightarrow> 'm chan" where
  "ch_handoff m c =
     (let q = ch_buf c @ [m] in c\<lparr>ch_got := ch_got c @ [hd q], ch_buf := tl q\<rparr>)"

text \<open>
  \<open>send_now\<close> is a \<open>select\<close> with a \<open>default\<close> case, \<open>send_wait\<close> a plain send, \<open>send_timeout\<close> a
  \<open>select\<close> against \<open>time.After\<close>. The flag of the result says whether the message was sent.
\<close>

definition send_now :: "'m \<Rightarrow> 'm chan \<Rightarrow> 'm chan outcome" where
  "send_now m c =
     (if ch_closed c then Panic
      else if length (ch_buf c) < ch_cap c then Ok (ch_push m c)
      else if ch_cap c = 0 \<and> ch_recv c = Ready then Ok (ch_handoff m c)
      else Ok c)"

definition send_wait :: "'m \<Rightarrow> 'm chan \<Rightarrow> 'm chan outcome" where
  "send_wait m c =
     (if ch_closed c then Panic
      else if length (ch_buf c) < ch_cap c then Ok (ch_push m c)
      else if ch_recv c \<noteq> Absent then Ok (ch_handoff m c)
      else Blocked)"

definition send_timeout :: "'m \<Rightarrow> 'm chan \<Rightarrow> 'm chan outcome" where
  "send_timeout m c =
     (if ch_closed c then Panic
      else if length (ch_buf c) < ch_cap c then Ok (ch_push m c)
      else if ch_recv c \<noteq> Absent then Ok (ch_handoff m c)
      else Ok c)"

text \<open>The three way send of the publish routines, by the sign of the consumer timeout.\<close>

definition deliver :: "int \<Rightarrow> 'm \<Rightarrow> 'm chan \<Rightarrow> 'm chan outcome" where
  "deliver timeout m c =
     (if timeout < 0 then send_now m c
      else if timeout = 0 then send_wait m c
      else send_timeout m c)"

definition ch_close :: "'m chan \<Rightarrow> 'm chan outcome" where
  "ch_close c = (if ch_closed c then Panic else Ok (c\<lparr>ch_closed := True\<rparr>))"

text \<open>The channel can take a message right now, or its consumer reads when waited for.\<close>

definition can_take :: "int \<Rightarrow> 'm chan \<Rightarrow> bool" where
  "can_take timeout c \<longleftrightarrow>
     length (ch_buf c) < ch_cap c
     \<or> (if timeout < 0 then ch_cap c = 0 \<and> ch_recv c = Ready else ch_recv c \<noteq> Absent)"

lemmas send_defs = deliver_def send_now_def send_wait_def send_timeout_def

lemma ch_sent_push [simp]: "ch_sent (ch_push m c) = ch_sent c @ [m]"
  by (simp add: ch_sent_def ch_push_def)

lemma ch_sent_handoff [simp]: "ch_sent (ch_handoff m c) = ch_sent c @ [m]"
  by (cases "ch_buf c") (simp_all add: ch_sent_def ch_handoff_def)

lemma ch_push_frame [simp]:
  "ch_closed (ch_push m c) = ch_closed c" "ch_cap (ch_push m c) = ch_cap c"
  "ch_recv (ch_push m c) = ch_recv c"
  by (simp_all add: ch_push_def)

lemma ch_handoff_frame [simp]:
  "ch_closed (ch_handoff m c) = ch_closed c" "ch_cap (ch_handoff m c) = ch_cap c"
  "ch_recv (ch_handoff m c) = ch_recv c"
  by (simp_all add: ch_handoff_def Let_def)

lemma ch_sent_close [simp]: "ch_sent (c\<lparr>ch_closed := b\<rparr>) = ch_sent c"
  by (simp add: ch_sent_def)

text \<open>A send on an open channel keeps it open and appends the message or nothing.\<close>

lemma deliver_open:
  assumes "\<not> ch_closed c"
  shows "wp (deliver t m c) (\<lambda>c'. \<not> ch_closed c' \<and> (ch_sent c' = ch_sent c @ [m] \<or> c' = c))"
  using assms by (auto simp: send_defs)

lemma deliver_can_take:
  assumes "\<not> ch_closed c" and "can_take t c"
  shows "twp (deliver t m c) (\<lambda>c'. \<not> ch_closed c' \<and> ch_sent c' = ch_sent c @ [m])"
  using assms by (auto simp: send_defs can_take_def split: if_splits)

text \<open>Only a plain send can block.\<close>

lemma deliver_not_Blocked:
  assumes "\<not> ch_closed c" and "t \<noteq> 0"
  shows "twp (deliver t m c) (\<lambda>c'. \<not> ch_closed c')"
  using assms by (auto simp: send_defs)

lemma deliver_frame:
  "deliver t m c = Ok c' \<Longrightarrow> ch_recv c' = ch_recv c \<and> ch_cap c' = ch_cap c"
  by (auto simp: send_defs split: if_splits)

text \<open>The consumer keeps reading and the dispatcher is willing to wait for it.\<close>

definition alive :: "int \<Rightarrow> 'm chan \<Rightarrow> bool" where
  "alive t c \<longleftrightarrow> 0 \<le> t \<and> ch_recv c \<noteq> Absent"

lemma alive_can_take: "alive t c \<Longrightarrow> can_take t c"
  by (auto simp: alive_def can_take_def)

lemma deliver_closed: "ch_closed c \<Longrightarrow> deliver t m c = Panic"
  by (simp add: send_defs)

section \<open>A heap of channels\<close>

type_synonym 'm heap = "chid \<Rightarrow> 'm chan"

definition heap_deliver :: "int \<Rightarrow> 'm \<Rightarrow> chid \<Rightarrow> 'm heap \<Rightarrow> 'm heap outcome" where
  "heap_deliver t m i h = obind (deliver t m (h i)) (\<lambda>c. Ok (h(i := c)))"

definition heap_close :: "chid \<Rightarrow> 'm heap \<Rightarrow> 'm heap outcome" where
  "heap_close i h = obind (ch_close (h i)) (\<lambda>c. Ok (h(i := c)))"

definition open_in :: "'m heap \<Rightarrow> chid \<Rightarrow> bool" where
  "open_in h i \<longleftrightarrow> \<not> ch_closed (h i)"

text \<open>Closing every channel of a list, in order.\<close>

definition heap_close_all :: "chid list \<Rightarrow> 'm heap \<Rightarrow> 'm heap outcome" where
  "heap_close_all is h = ofold heap_close is h"

definition mark_closed :: "chid set \<Rightarrow> 'm heap \<Rightarrow> 'm heap" where
  "mark_closed S h = (\<lambda>i. if i \<in> S then (h i)\<lparr>ch_closed := True\<rparr> else h i)"

lemma heap_close_open: "open_in h i \<Longrightarrow> heap_close i h = Ok (mark_closed {i} h)"
  by (auto simp: heap_close_def ch_close_def open_in_def mark_closed_def)

lemma heap_close_closed: "\<not> open_in h i \<Longrightarrow> heap_close i h = Panic"
  by (simp add: heap_close_def ch_close_def open_in_def)

lemma open_mark_closed [simp]: "open_in (mark_closed S h) i \<longleftrightarrow> open_in h i \<and> i \<notin> S"
  by (auto simp: open_in_def mark_closed_def)

lemma mark_closed_sent [simp]: "ch_sent (mark_closed S h i) = ch_sent (h i)"
  by (simp add: mark_closed_def)

lemma mark_closed_empty [simp]: "mark_closed {} h = h"
  by (simp add: mark_closed_def)

lemma mark_closed_union: "mark_closed T (mark_closed S h) = mark_closed (S \<union> T) h"
  by (auto simp: mark_closed_def)

lemma heap_close_all_open:
  "distinct is \<Longrightarrow> \<forall>i \<in> set is. open_in h i \<Longrightarrow> heap_close_all is h = Ok (mark_closed (set is) h)"
proof (induction "is" arbitrary: h)
  case Nil
  then show ?case by (simp add: heap_close_all_def)
next
  case (Cons i js)
  then have "heap_close_all js (mark_closed {i} h) = Ok (mark_closed (set js) (mark_closed {i} h))"
    by (intro Cons.IH) auto
  then show ?case
    using Cons.prems
    by (simp add: heap_close_all_def heap_close_open mark_closed_union)
qed

lemma heap_deliver_open:
  assumes "open_in h i"
  shows "wp (heap_deliver t m i h) (\<lambda>h'. open_in h' = open_in h
     \<and> (\<forall>j. j \<noteq> i \<longrightarrow> h' j = h j)
     \<and> (ch_sent (h' i) = ch_sent (h i) @ [m] \<or> h' = h))"
proof -
  have "wp (deliver t m (h i))
      (\<lambda>c'. \<not> ch_closed c' \<and> (ch_sent c' = ch_sent (h i) @ [m] \<or> c' = h i))"
    using assms by (intro deliver_open) (simp add: open_in_def)
  then show ?thesis
    using assms
    by (cases "deliver t m (h i)") (auto simp: heap_deliver_def open_in_def fun_eq_iff)
qed

lemma heap_deliver_recv: "heap_deliver t m i h = Ok h' \<Longrightarrow> ch_recv (h' j) = ch_recv (h j)"
  by (auto simp: heap_deliver_def obind_eq_Ok dest: deliver_frame)

lemma heap_deliver_can_take:
  assumes "open_in h i" and "can_take t (h i)"
  shows "twp (heap_deliver t m i h) (\<lambda>h'. open_in h' = open_in h
     \<and> (\<forall>j. j \<noteq> i \<longrightarrow> h' j = h j) \<and> ch_sent (h' i) = ch_sent (h i) @ [m])"
proof -
  have "twp (deliver t m (h i)) (\<lambda>c'. \<not> ch_closed c' \<and> ch_sent c' = ch_sent (h i) @ [m])"
    using assms by (intro deliver_can_take) (simp_all add: open_in_def)
  then show ?thesis
    using assms
    by (cases "deliver t m (h i)") (auto simp: heap_deliver_def open_in_def fun_eq_iff)
qed

lemma heap_deliver_not_Blocked:
  assumes "open_in h i" and "t \<noteq> 0"
  shows "twp (heap_deliver t m i h) (\<lambda>h'. open_in h' = open_in h)"
proof -
  have "twp (deliver t m (h i)) (\<lambda>c'. \<not> ch_closed c')"
    using assms by (intro deliver_not_Blocked) (simp_all add: open_in_def)
  then show ?thesis
    using assms
    by (cases "deliver t m (h i)") (auto simp: heap_deliver_def open_in_def fun_eq_iff)
qed

end
