(* ===== verification/Block_Filter.thy ===== *)
theory Block_Filter
  imports Prelude
begin

text \<open>
  Blocks and what the event code reads out of them: the validation flags of
  \<open>sdkinternal/pkg/txflags\<close>, the unmarshalling wrappers of \<open>protoutil\<close>, the conversion of a full
  block to a filtered block (\<open>toFilteredBlock\<close> of \<open>service/dispatcher/dispatcher.go\<close>) and the
  header type block filter. Protocol buffer decoding itself is third party code: it is the
  parameter \<open>codec\<close>, one decoder per message type. Pointers that may be nil are options.
\<close>

section \<open>Messages\<close>

text \<open>The fields the modelled code reads; the constants are those of the protocol definitions.\<close>

type_synonym tx_code = int

definition TxValidationCode_VALID :: tx_code where
  "TxValidationCode_VALID = 0"

definition TxValidationCode_NOT_VALIDATED :: tx_code where
  "TxValidationCode_NOT_VALIDATED = 254"

definition HeaderType_ENDORSER_TRANSACTION :: int where
  "HeaderType_ENDORSER_TRANSACTION = 3"

definition BlockMetadataIndex_TRANSACTIONS_FILTER :: nat where
  "BlockMetadataIndex_TRANSACTIONS_FILTER = 2"

record block =
  blk_Number :: "64 word option" \<comment> \<open>\<open>Header.Number\<close>, \<open>None\<close> for a nil \<open>Header\<close>\<close>
  blk_Data :: "bytes list option"
  blk_Metadata :: "bytes list option"

record channel_header =
  chdr_Type :: int
  chdr_ChannelId :: string
  chdr_TxId :: string

record payload =
  pl_ChannelHeader :: "bytes option" \<comment> \<open>\<open>Header.ChannelHeader\<close>, \<open>None\<close> for a nil \<open>Header\<close>\<close>
  pl_Data :: bytes

record chaincode_event =
  ce_ChaincodeId :: string
  ce_TxId :: string
  ce_EventName :: string
  ce_Payload :: bytes

record filtered_tx =
  ftx_Type :: int
  ftx_Txid :: string
  ftx_Code :: tx_code
  ftx_Actions :: "chaincode_event option list option"

record filtered_block =
  fb_ChannelId :: string
  fb_Number :: "64 word"
  fb_Txs :: "filtered_tx list"

text \<open>One decoder per message: an error or the decoded message.\<close>

record codec =
  um_Envelope :: "bytes \<Rightarrow> bytes res"                    \<comment> \<open>the envelope's \<open>Payload\<close>\<close>
  um_Payload :: "bytes \<Rightarrow> payload res"
  um_ChannelHeader :: "bytes \<Rightarrow> channel_header res"
  um_Transaction :: "bytes \<Rightarrow> bytes list res"            \<comment> \<open>the payloads of its \<open>Actions\<close>\<close>
  um_CAP :: "bytes \<Rightarrow> bytes option res"                  \<comment> \<open>\<open>Action.ProposalResponsePayload\<close>\<close>
  um_PRP :: "bytes \<Rightarrow> bytes res"                         \<comment> \<open>its \<open>Extension\<close>\<close>
  um_ChaincodeAction :: "bytes \<Rightarrow> bytes res"             \<comment> \<open>its \<open>Events\<close>\<close>
  um_ChaincodeEvent :: "bytes \<Rightarrow> chaincode_event res"

section \<open>txflags/validation_flags.go\<close>

type_synonym ValidationFlags = "8 word list"

definition newWithValues :: "int \<Rightarrow> tx_code \<Rightarrow> ValidationFlags outcome" where
  "newWithValues n v = (if n < 0 then Panic else Ok (replicate (nat n) (word_of_int v)))"

definition flags_New :: "int \<Rightarrow> ValidationFlags outcome" where
  "flags_New n = newWithValues n TxValidationCode_NOT_VALIDATED"

definition flags_NewWithValues :: "int \<Rightarrow> tx_code \<Rightarrow> ValidationFlags outcome" where
  "flags_NewWithValues n v = newWithValues n v"

definition SetFlag :: "ValidationFlags \<Rightarrow> int \<Rightarrow> tx_code \<Rightarrow> ValidationFlags outcome" where
  "SetFlag obj i flag =
     (if 0 \<le> i \<and> i < int (length obj) then Ok (obj[nat i := word_of_int flag]) else Panic)"

definition Flag :: "ValidationFlags \<Rightarrow> int \<Rightarrow> tx_code outcome" where
  "Flag obj i =
     (if 0 \<le> i \<and> i < int (length obj) then Ok (uint (obj ! nat i)) else Panic)"

definition IsSetTo :: "ValidationFlags \<Rightarrow> int \<Rightarrow> tx_code \<Rightarrow> bool outcome" where
  "IsSetTo obj i flag = obind (Flag obj i) (\<lambda>f. Ok (f = flag))"

definition IsValid :: "ValidationFlags \<Rightarrow> int \<Rightarrow> bool outcome" where
  "IsValid obj i = IsSetTo obj i TxValidationCode_VALID"

definition IsInvalid :: "ValidationFlags \<Rightarrow> int \<Rightarrow> bool outcome" where
  "IsInvalid obj i = obind (IsValid obj i) (\<lambda>b. Ok (\<not> b))"

section \<open>protoutil\<close>

definition wrap_err :: "string \<Rightarrow> 'a res \<Rightarrow> 'a res" where
  "wrap_err msg r = (case r of Inl e \<Rightarrow> Inl (withMessage e msg) | Inr x \<Rightarrow> Inr x)"

definition GetEnvelopeFromBlock :: "codec \<Rightarrow> bytes \<Rightarrow> bytes res" where
  "GetEnvelopeFromBlock cd d = wrap_err ''error unmarshaling Envelope'' (um_Envelope cd d)"

definition UnmarshalPayload :: "codec \<Rightarrow> bytes \<Rightarrow> payload res" where
  "UnmarshalPayload cd d = wrap_err ''error unmarshaling Payload'' (um_Payload cd d)"

definition UnmarshalChannelHeader :: "codec \<Rightarrow> bytes \<Rightarrow> channel_header res" where
  "UnmarshalChannelHeader cd d =
     wrap_err ''error unmarshaling ChannelHeader'' (um_ChannelHeader cd d)"

definition UnmarshalTransaction :: "codec \<Rightarrow> bytes \<Rightarrow> bytes list res" where
  "UnmarshalTransaction cd d = wrap_err ''error unmarshaling Transaction'' (um_Transaction cd d)"

definition UnmarshalChaincodeActionPayload :: "codec \<Rightarrow> bytes \<Rightarrow> bytes option res" where
  "UnmarshalChaincodeActionPayload cd d =
     wrap_err ''error unmarshaling ChaincodeActionPayload'' (um_CAP cd d)"

definition UnmarshalProposalResponsePayload :: "codec \<Rightarrow> bytes \<Rightarrow> bytes res" where
  "UnmarshalProposalResponsePayload cd d =
     wrap_err ''error unmarshaling ProposalResponsePayload'' (um_PRP cd d)"

definition UnmarshalChaincodeAction :: "codec \<Rightarrow> bytes \<Rightarrow> bytes res" where
  "UnmarshalChaincodeAction cd d =
     wrap_err ''error unmarshaling ChaincodeAction'' (um_ChaincodeAction cd d)"

definition UnmarshalChaincodeEvents :: "codec \<Rightarrow> bytes \<Rightarrow> chaincode_event res" where
  "UnmarshalChaincodeEvents cd d =
     wrap_err ''error unmarshaling ChaicnodeEvent'' (um_ChaincodeEvent cd d)"

definition ExtractEnvelope :: "codec \<Rightarrow> block \<Rightarrow> int \<Rightarrow> bytes res" where
  "ExtractEnvelope cd b i =
     (case blk_Data b of
        None \<Rightarrow> Inl (errorNew ''block data is nil'')
      | Some ds \<Rightarrow>
          if i < 0 \<or> int (length ds) \<le> i then Inl (errorNew ''envelope index out of bounds'')
          else (case GetEnvelopeFromBlock cd (ds ! nat i) of
                  Inl e \<Rightarrow> Inl (WithMsg e ''block data does not carry an envelope at index %d'' [FI i])
                | Inr env \<Rightarrow> Inr env))"

section \<open>Full block to filtered block\<close>

text \<open>
  \<open>tx.Actions[0]\<close> panics for a transaction without actions, and reading through a nil \<open>Action\<close>
  panics. The unmarshalled chaincode event is never nil.
\<close>

definition getFilteredTransactionActions ::
  "codec \<Rightarrow> bytes \<Rightarrow> chaincode_event option list res outcome" where
  "getFilteredTransactionActions cd data =
     (case UnmarshalTransaction cd data of
        Inl e \<Rightarrow> Ok (Inl (withMessage e ''error unmarshalling transaction payload''))
      | Inr [] \<Rightarrow> Panic
      | Inr (a # _) \<Rightarrow>
     (case UnmarshalChaincodeActionPayload cd a of
        Inl e \<Rightarrow> Ok (Inl (withMessage e ''error unmarshalling chaincode action payload''))
      | Inr None \<Rightarrow> Panic
      | Inr (Some prp) \<Rightarrow>
     (case UnmarshalProposalResponsePayload cd prp of
        Inl e \<Rightarrow> Ok (Inl (withMessage e ''error unmarshalling response payload''))
      | Inr ext \<Rightarrow>
     (case UnmarshalChaincodeAction cd ext of
        Inl e \<Rightarrow> Ok (Inl (withMessage e ''error unmarshalling chaincode action''))
      | Inr evs \<Rightarrow>
     (case UnmarshalChaincodeEvents cd evs of
        Inl e \<Rightarrow> Ok (Inl (withMessage e ''error getting chaincode events''))
      | Inr ev \<Rightarrow> Ok (Inr [Some ev]))))))"

definition getFilteredTx ::
  "codec \<Rightarrow> bytes \<Rightarrow> tx_code \<Rightarrow> (filtered_tx \<times> string) res outcome" where
  "getFilteredTx cd data code =
     (case GetEnvelopeFromBlock cd data of
        Inl e \<Rightarrow> Ok (Inl (withMessage e ''error extracting Envelope from block''))
      | Inr env \<Rightarrow>
     (case UnmarshalPayload cd env of
        Inl e \<Rightarrow> Ok (Inl (withMessage e ''error extracting Payload from envelope''))
      | Inr p \<Rightarrow>
     (case pl_ChannelHeader p of
        None \<Rightarrow> Panic
      | Some ch \<Rightarrow>
     (case um_ChannelHeader cd ch of
        Inl e \<Rightarrow> Ok (Inl (withMessage e ''error extracting ChannelHeader from payload''))
      | Inr h \<Rightarrow>
          let tx = \<lparr>ftx_Type = chdr_Type h, ftx_Txid = chdr_TxId h, ftx_Code = code,
                    ftx_Actions = None\<rparr>
          in if chdr_Type h = HeaderType_ENDORSER_TRANSACTION
             then obind (getFilteredTransactionActions cd (pl_Data p)) (\<lambda>r.
                    case r of
                      Inl e \<Rightarrow> Ok (Inl (withMessage e ''error getting filtered transaction actions''))
                    | Inr acts \<Rightarrow> Ok (Inr (tx\<lparr>ftx_Actions := Some acts\<rparr>, chdr_ChannelId h)))
             else Ok (Inr (tx, chdr_ChannelId h))))))"

text \<open>
  The loop over the envelopes of the block: the accumulator holds the channel ID of the last
  envelope that could be read and the filtered transactions so far; unreadable envelopes are
  skipped.
\<close>

definition toFilteredBlock_step ::
  "codec \<Rightarrow> ValidationFlags \<Rightarrow> nat \<times> bytes \<Rightarrow> string \<times> filtered_tx list
     \<Rightarrow> (string \<times> filtered_tx list) outcome" where
  "toFilteredBlock_step cd flags x acc =
     obind (Flag flags (int (fst x))) (\<lambda>code.
     obind (getFilteredTx cd (snd x) code) (\<lambda>r.
       case r of
         Inl e \<Rightarrow> Ok acc
       | Inr (tx, chID) \<Rightarrow> Ok (chID, snd acc @ [tx])))"

definition toFilteredBlock :: "codec \<Rightarrow> block \<Rightarrow> filtered_block outcome" where
  "toFilteredBlock cd b =
     (case blk_Metadata b of
        None \<Rightarrow> Panic
      | Some md \<Rightarrow>
          if length md \<le> BlockMetadataIndex_TRANSACTIONS_FILTER then Panic
          else (case blk_Data b of
             None \<Rightarrow> Panic
           | Some ds \<Rightarrow>
               obind (ofold (toFilteredBlock_step cd (md ! BlockMetadataIndex_TRANSACTIONS_FILTER))
                        (enumerate 0 ds) ('''', []))
                 (\<lambda>(chID, txs).
                   case blk_Number b of
                     None \<Rightarrow> Panic
                   | Some n \<Rightarrow> Ok \<lparr>fb_ChannelId = chID, fb_Number = n, fb_Txs = txs\<rparr>)))"

section \<open>Block filters\<close>

type_synonym block_filter = "block \<Rightarrow> bool outcome"

definition AcceptAny :: block_filter where
  "AcceptAny b = Ok True"

text \<open>The body of the loop of \<open>hasType\<close> at index \<open>i\<close>; the rest of the loop is \<open>k\<close>.\<close>

fun hasType_from :: "codec \<Rightarrow> block \<Rightarrow> int list \<Rightarrow> nat list \<Rightarrow> bool outcome" where
  "hasType_from cd b types [] = Ok False"
| "hasType_from cd b types (i # is) =
     (case ExtractEnvelope cd b (int i) of
        Inl e \<Rightarrow> hasType_from cd b types is
      | Inr env \<Rightarrow>
     (case UnmarshalPayload cd env of
        Inl e \<Rightarrow> hasType_from cd b types is
      | Inr p \<Rightarrow>
     (case pl_ChannelHeader p of
        None \<Rightarrow> Panic
      | Some ch \<Rightarrow>
     (case UnmarshalChannelHeader cd ch of
        Inl e \<Rightarrow> hasType_from cd b types is
      | Inr h \<Rightarrow> if list_ex (\<lambda>t. chdr_Type h = t) types then Ok True
                else hasType_from cd b types is))))"

definition hasType :: "codec \<Rightarrow> block \<Rightarrow> int list \<Rightarrow> bool outcome" where
  "hasType cd b types =
     (case blk_Data b of None \<Rightarrow> Panic | Some ds \<Rightarrow> hasType_from cd b types [0..<length ds])"

definition headertype_New :: "codec \<Rightarrow> int list \<Rightarrow> block_filter" where
  "headertype_New cd types = (\<lambda>b. hasType cd b types)"

section \<open>Flags\<close>

lemma Flag_SetFlag:
  assumes "0 \<le> i" "i < int (length obj)" "0 \<le> f" "f < 256"
  shows "\<exists>obj'. SetFlag obj i f = Ok obj' \<and> length obj' = length obj \<and> Flag obj' i = Ok f
     \<and> (\<forall>j. j \<noteq> i \<longrightarrow> Flag obj' j = Flag obj j)"
proof -
  have "uint (word_of_int f :: 8 word) = f"
    using assms by (simp add: uint_word_of_int)
  then show ?thesis
    using assms by (auto simp: SetFlag_def Flag_def nth_list_update nat_eq_iff)
qed

lemma Flag_range: "Flag obj i = Ok f \<Longrightarrow> 0 \<le> f \<and> f < 256"
  using uint_bounded [where 'a = 8] by (auto simp: Flag_def split: if_splits)

lemma Flag_defined: "i < length obj \<Longrightarrow> Flag obj (int i) = Ok (uint (obj ! i))"
  by (simp add: Flag_def)

lemma Flag_New:
  assumes "0 \<le> n" "0 \<le> i" "i < n"
  shows "twp (flags_New n) (\<lambda>obj. Flag obj i = Ok TxValidationCode_NOT_VALIDATED \<and> IsInvalid obj i = Ok True)"
  using assms
  by (simp add: flags_New_def newWithValues_def Flag_def IsInvalid_def IsValid_def IsSetTo_def
      TxValidationCode_NOT_VALIDATED_def TxValidationCode_VALID_def)

section \<open>Well formed blocks\<close>

text \<open>
  What a block must look like for the conversion not to panic: header, data and transaction
  filter are there, the filter has a flag for every envelope, every readable payload has a
  header, and every readable endorser transaction has an action.
\<close>

definition action_ok :: "codec \<Rightarrow> bytes \<Rightarrow> bool" where
  "action_ok cd d =
     (case um_Transaction cd d of
        Inl e \<Rightarrow> True
      | Inr [] \<Rightarrow> False
      | Inr (a # _) \<Rightarrow> (case um_CAP cd a of Inl e \<Rightarrow> True | Inr None \<Rightarrow> False | Inr (Some _) \<Rightarrow> True))"

definition envelope_ok :: "codec \<Rightarrow> bytes \<Rightarrow> bool" where
  "envelope_ok cd d =
     (case um_Envelope cd d of Inl e \<Rightarrow> True | Inr env \<Rightarrow>
     (case um_Payload cd env of Inl e \<Rightarrow> True | Inr p \<Rightarrow>
     (case pl_ChannelHeader p of None \<Rightarrow> False | Some ch \<Rightarrow>
     (case um_ChannelHeader cd ch of Inl e \<Rightarrow> True | Inr h \<Rightarrow>
        chdr_Type h \<noteq> HeaderType_ENDORSER_TRANSACTION \<or> action_ok cd (pl_Data p)))))"

definition block_ok :: "codec \<Rightarrow> block \<Rightarrow> bool" where
  "block_ok cd b =
     (case (blk_Number b, blk_Metadata b, blk_Data b) of
        (Some n, Some md, Some ds) \<Rightarrow>
          BlockMetadataIndex_TRANSACTIONS_FILTER < length md
          \<and> length ds \<le> length (md ! BlockMetadataIndex_TRANSACTIONS_FILTER)
          \<and> list_all (envelope_ok cd) ds
      | _ \<Rightarrow> False)"

lemmas unmarshal_defs =
  wrap_err_def GetEnvelopeFromBlock_def UnmarshalPayload_def UnmarshalTransaction_def
  UnmarshalChaincodeActionPayload_def UnmarshalProposalResponsePayload_def
  UnmarshalChaincodeAction_def UnmarshalChaincodeEvents_def UnmarshalChannelHeader_def

lemma getFilteredTransactionActions_total:
  "action_ok cd d \<Longrightarrow> twp (getFilteredTransactionActions cd d) (\<lambda>_. True)"
  by (auto simp: action_ok_def getFilteredTransactionActions_def unmarshal_defs
      split: sum.splits list.splits option.splits)

lemma getFilteredTx_total:
  assumes "envelope_ok cd d"
  shows "twp (getFilteredTx cd d code) (\<lambda>r. case r of Inl e \<Rightarrow> True | Inr (tx, _) \<Rightarrow> ftx_Code tx = code)"
proof -
  have "twp (getFilteredTransactionActions cd pd) (\<lambda>r. case r of Inl e \<Rightarrow> True | Inr _ \<Rightarrow> True)"
    if "action_ok cd pd" for pd
    using getFilteredTransactionActions_total [OF that] by (rule twp_mono) (simp split: sum.split)
  with assms show ?thesis
    by (auto simp: envelope_ok_def getFilteredTx_def Let_def unmarshal_defs
        split: sum.splits option.splits elim!: twp_mono)
qed

text \<open>The transactions of a block that can be read, each with the flag of its position.\<close>

definition readable_tx :: "codec \<Rightarrow> ValidationFlags \<Rightarrow> nat \<times> bytes \<Rightarrow> filtered_tx option" where
  "readable_tx cd flags x =
     (case getFilteredTx cd (snd x) (uint (flags ! fst x)) of
        Ok (Inr (tx, _)) \<Rightarrow> Some tx
      | _ \<Rightarrow> None)"

lemma toFilteredBlock_step_total:
  assumes "fst x < length flags" and "envelope_ok cd (snd x)"
  shows "twp (toFilteredBlock_step cd flags x acc)
     (\<lambda>acc'. snd acc' = snd acc @ List.map_filter (readable_tx cd flags) [x])"
proof -
  have "twp (getFilteredTx cd (snd x) (uint (flags ! fst x))) (\<lambda>_. True)"
    using assms(2) by (auto intro: twp_mono [OF getFilteredTx_total])
  then show ?thesis
    using assms(1)
    by (cases "getFilteredTx cd (snd x) (uint (flags ! fst x))")
      (auto simp: toFilteredBlock_step_def Flag_defined readable_tx_def List.map_filter_simps
        split: sum.splits)
qed

lemma toFilteredBlock_loop:
  assumes "\<forall>x \<in> set xs. fst x < length flags \<and> envelope_ok cd (snd x)"
  shows "twp (ofold (toFilteredBlock_step cd flags) xs acc)
     (\<lambda>acc'. snd acc' = snd acc @ List.map_filter (readable_tx cd flags) xs)"
  using assms
proof (induction xs arbitrary: acc)
  case Nil
  then show ?case by (simp add: List.map_filter_simps)
next
  case (Cons x xs)
  have "twp (toFilteredBlock_step cd flags x acc)
     (\<lambda>acc'. snd acc' = snd acc @ List.map_filter (readable_tx cd flags) [x])"
    using Cons.prems by (intro toFilteredBlock_step_total) simp_all
  then show ?case
    unfolding ofold.simps twp_obind
  proof (rule twp_mono)
    fix a :: "string \<times> filtered_tx list"
    assume a: "snd a = snd acc @ List.map_filter (readable_tx cd flags) [x]"
    from Cons have "twp (ofold (toFilteredBlock_step cd flags) xs a)
       (\<lambda>acc'. snd acc' = snd a @ List.map_filter (readable_tx cd flags) xs)" by simp
    then show "twp (ofold (toFilteredBlock_step cd flags) xs a)
       (\<lambda>acc'. snd acc' = snd acc @ List.map_filter (readable_tx cd flags) (x # xs))"
      by (rule twp_mono) (simp add: a List.map_filter_simps split: option.split)
  qed
qed

lemma toFilteredBlock_correct:
  assumes "block_ok cd b"
  shows "twp (toFilteredBlock cd b) (\<lambda>fb. Some (fb_Number fb) = blk_Number b
     \<and> fb_Txs fb = List.map_filter
         (readable_tx cd (the (blk_Metadata b) ! BlockMetadataIndex_TRANSACTIONS_FILTER))
         (enumerate 0 (the (blk_Data b))))"
proof -
  obtain n md ds where
    b: "blk_Number b = Some n" "blk_Metadata b = Some md" "blk_Data b = Some ds" and
    ok: "BlockMetadataIndex_TRANSACTIONS_FILTER < length md"
      "length ds \<le> length (md ! BlockMetadataIndex_TRANSACTIONS_FILTER)" "list_all (envelope_ok cd) ds"
    using assms by (auto simp: block_ok_def split: option.splits)
  have "\<forall>x \<in> set (enumerate 0 ds).
      fst x < length (md ! BlockMetadataIndex_TRANSACTIONS_FILTER) \<and> envelope_ok cd (snd x)"
    using ok by (auto simp: in_set_enumerate_eq list_all_length)
  from toFilteredBlock_loop [OF this, of "('''', [])"] show ?thesis
    using b ok(1) by (auto simp: toFilteredBlock_def elim!: twp_mono)
qed

lemma readable_tx_code: "readable_tx cd flags x = Some tx \<Longrightarrow> envelope_ok cd (snd x)
    \<Longrightarrow> ftx_Code tx = uint (flags ! fst x)"
  using getFilteredTx_total [of cd "snd x" "uint (flags ! fst x)"]
  by (auto simp: readable_tx_def split: outcome.splits sum.splits)

end
