(* ===== verification/Event_Types.thy ===== *)
theory Event_Types
  imports Channels Block_Filter
begin

text \<open>
  The events, registrations and snapshots of the event subsystem: \<open>events.go\<close>,
  \<open>registrations.go\<close> and \<open>opts.go\<close> of \<open>pkg/fab/events/service/dispatcher\<close>, and \<open>events.go\<close> of
  the client and deliver dispatchers that are built on it. A registration is a pointer in the
  code: \<open>ref\<close> is its identity, \<open>Eventch\<close> the channel it publishes on. The response channels of
  a request (\<open>RegCh\<close>, \<open>ErrCh\<close>, \<open>SnapshotCh\<close>, \<open>RegInfoCh\<close>) are named by the request number
  \<open>rq\<close>; the answers are kept in a log of pairs of request and response.
\<close>

section \<open>Registrations\<close>

type_synonym ref = nat

record BlockReg =
  breg_ref :: ref
  breg_Filter :: block_filter
  breg_Eventch :: chid

record FilteredBlockReg =
  fbreg_ref :: ref
  fbreg_Eventch :: chid

text \<open>A compiled regular expression is the function that matches a string against it.\<close>

type_synonym regexp = "string \<Rightarrow> bool"

record ChaincodeReg =
  ccreg_ref :: ref
  ccreg_ChaincodeID :: string
  ccreg_EventFilter :: string
  ccreg_EventRegExp :: "regexp option"
  ccreg_Eventch :: chid

record TxStatusReg =
  txreg_ref :: ref
  txreg_TxID :: string
  txreg_Eventch :: chid

record ConnectionReg =
  creg_Eventch :: "chid option" \<comment> \<open>\<open>None\<close> for a nil channel\<close>

datatype registration =
  RBlock BlockReg
| RFiltered FilteredBlockReg
| RCC ChaincodeReg
| RTx TxStatusReg
| RConn ConnectionReg
| ROther

record snapshot =
  sn_lastBlockReceived :: "64 word"
  sn_blockRegistrations :: "BlockReg list"
  sn_filteredBlockRegistrations :: "FilteredBlockReg list"
  sn_ccRegistrations :: "ChaincodeReg list"
  sn_txStatusRegistrations :: "TxStatusReg list"

definition fromBlockReg :: "BlockReg list \<Rightarrow> registration list" where
  "fromBlockReg rs = map RBlock rs"

definition fromFBlockReg :: "FilteredBlockReg list \<Rightarrow> registration list" where
  "fromFBlockReg rs = map RFiltered rs"

definition fromCCReg :: "ChaincodeReg list \<Rightarrow> registration list" where
  "fromCCReg rs = map RCC rs"

definition fromTxReg :: "TxStatusReg list \<Rightarrow> registration list" where
  "fromTxReg rs = map RTx rs"

text \<open>The \<open>fab.EventSnapshot\<close> interface of a snapshot.\<close>

definition LastBlockReceived :: "snapshot \<Rightarrow> 64 word" where
  "LastBlockReceived s = sn_lastBlockReceived s"

definition BlockRegistrations :: "snapshot \<Rightarrow> registration list" where
  "BlockRegistrations s = fromBlockReg (sn_blockRegistrations s)"

definition FilteredBlockRegistrations :: "snapshot \<Rightarrow> registration list" where
  "FilteredBlockRegistrations s = fromFBlockReg (sn_filteredBlockRegistrations s)"

definition CCRegistrations :: "snapshot \<Rightarrow> registration list" where
  "CCRegistrations s = fromCCReg (sn_ccRegistrations s)"

definition TxStatusRegistrations :: "snapshot \<Rightarrow> registration list" where
  "TxStatusRegistrations s = fromTxReg (sn_txStatusRegistrations s)"

text \<open>\<open>Close\<close> of a snapshot closes the channels of all its registrations.\<close>

definition snapshot_chans :: "snapshot \<Rightarrow> chid list" where
  "snapshot_chans s =
     map breg_Eventch (sn_blockRegistrations s)
     @ map fbreg_Eventch (sn_filteredBlockRegistrations s)
     @ map ccreg_Eventch (sn_ccRegistrations s)
     @ map txreg_Eventch (sn_txStatusRegistrations s)"

definition snapshot_Close :: "snapshot \<Rightarrow> 'm heap \<Rightarrow> 'm heap outcome" where
  "snapshot_Close s h =
     obind (heap_close_all (map breg_Eventch (sn_blockRegistrations s)) h) (\<lambda>h1.
     obind (heap_close_all (map fbreg_Eventch (sn_filteredBlockRegistrations s)) h1) (\<lambda>h2.
     obind (heap_close_all (map ccreg_Eventch (sn_ccRegistrations s)) h2) (\<lambda>h3.
     heap_close_all (map txreg_Eventch (sn_txStatusRegistrations s)) h3)))"

section \<open>Parameters of the dispatcher\<close>

record params =
  eventConsumerBufferSize :: nat
  eventConsumerTimeout :: int \<comment> \<open>nanoseconds\<close>
  initialLastBlockNum :: "64 word"
  initialBlockRegistrations :: "BlockReg list"
  initialFilteredBlockRegistrations :: "FilteredBlockReg list"
  initialCCRegistrations :: "ChaincodeReg list"
  initialTxStatusRegistrations :: "TxStatusReg list"

definition defaultParams :: params where
  "defaultParams =
     \<lparr>eventConsumerBufferSize = 100, eventConsumerTimeout = 500000000, initialLastBlockNum = 0,
      initialBlockRegistrations = [], initialFilteredBlockRegistrations = [],
      initialCCRegistrations = [], initialTxStatusRegistrations = []\<rparr>"

definition SetEventConsumerBufferSize :: "nat \<Rightarrow> params \<Rightarrow> params" where
  "SetEventConsumerBufferSize v p = p\<lparr>eventConsumerBufferSize := v\<rparr>"

definition SetEventConsumerTimeout :: "int \<Rightarrow> params \<Rightarrow> params" where
  "SetEventConsumerTimeout v p = p\<lparr>eventConsumerTimeout := v\<rparr>"

text \<open>The type assertions on the registrations of a snapshot, stopping at the first that fails.\<close>

fun asBlockRegistrations :: "registration list \<Rightarrow> BlockReg list res" where
  "asBlockRegistrations [] = Inr []"
| "asBlockRegistrations (RBlock r # rs) = map_sum id (Cons r) (asBlockRegistrations rs)"
| "asBlockRegistrations (_ # rs) = Inl (errorNew ''invalid block registration'')"

fun asFBlockRegistrations :: "registration list \<Rightarrow> FilteredBlockReg list res" where
  "asFBlockRegistrations [] = Inr []"
| "asFBlockRegistrations (RFiltered r # rs) = map_sum id (Cons r) (asFBlockRegistrations rs)"
| "asFBlockRegistrations (_ # rs) = Inl (errorNew ''invalid filtered block registration'')"

fun asCCRegistrations :: "registration list \<Rightarrow> ChaincodeReg list res" where
  "asCCRegistrations [] = Inr []"
| "asCCRegistrations (RCC r # rs) = map_sum id (Cons r) (asCCRegistrations rs)"
| "asCCRegistrations (_ # rs) = Inl (errorNew ''invalid chaincode registration'')"

fun asTxRegistrations :: "registration list \<Rightarrow> TxStatusReg list res" where
  "asTxRegistrations [] = Inr []"
| "asTxRegistrations (RTx r # rs) = map_sum id (Cons r) (asTxRegistrations rs)"
| "asTxRegistrations (_ # rs) = Inl (errorNew ''invalid TxStatus registration'')"

definition SetSnapshot :: "snapshot \<Rightarrow> params \<Rightarrow> params res" where
  "SetSnapshot value p =
     (case asBlockRegistrations (BlockRegistrations value) of Inl e \<Rightarrow> Inl e | Inr bs \<Rightarrow>
     (case asFBlockRegistrations (FilteredBlockRegistrations value) of Inl e \<Rightarrow> Inl e | Inr fbs \<Rightarrow>
     (case asCCRegistrations (CCRegistrations value) of Inl e \<Rightarrow> Inl e | Inr ccs \<Rightarrow>
     (case asTxRegistrations (TxStatusRegistrations value) of Inl e \<Rightarrow> Inl e | Inr txs \<Rightarrow>
        Inr (p\<lparr>initialLastBlockNum := LastBlockReceived value, initialBlockRegistrations := bs,
               initialFilteredBlockRegistrations := fbs, initialCCRegistrations := ccs,
               initialTxStatusRegistrations := txs\<rparr>)))))"

text \<open>\<open>WithSnapshot\<close> logs an error of \<open>SetSnapshot\<close> and leaves the parameters as they were.\<close>

definition WithSnapshot :: "snapshot \<Rightarrow> params \<Rightarrow> params" where
  "WithSnapshot value p = (case SetSnapshot value p of Inl e \<Rightarrow> p | Inr p' \<Rightarrow> p')"

lemma asBlockRegistrations_from [simp]: "asBlockRegistrations (fromBlockReg rs) = Inr rs"
  by (induction rs) (simp_all add: fromBlockReg_def)

lemma asFBlockRegistrations_from [simp]: "asFBlockRegistrations (fromFBlockReg rs) = Inr rs"
  by (induction rs) (simp_all add: fromFBlockReg_def)

lemma asCCRegistrations_from [simp]: "asCCRegistrations (fromCCReg rs) = Inr rs"
  by (induction rs) (simp_all add: fromCCReg_def)

lemma asTxRegistrations_from [simp]: "asTxRegistrations (fromTxReg rs) = Inr rs"
  by (induction rs) (simp_all add: fromTxReg_def)

lemma WithSnapshot_eq:
  "WithSnapshot s p = p\<lparr>initialLastBlockNum := sn_lastBlockReceived s,
     initialBlockRegistrations := sn_blockRegistrations s,
     initialFilteredBlockRegistrations := sn_filteredBlockRegistrations s,
     initialCCRegistrations := sn_ccRegistrations s,
     initialTxStatusRegistrations := sn_txStatusRegistrations s\<rparr>"
  by (simp add: WithSnapshot_def SetSnapshot_def BlockRegistrations_def LastBlockReceived_def
      FilteredBlockRegistrations_def CCRegistrations_def TxStatusRegistrations_def)

section \<open>Published events\<close>

record CCEvent =
  cce_TxID :: string
  cce_ChaincodeID :: string
  cce_EventName :: string
  cce_Payload :: bytes
  cce_BlockNumber :: "64 word"
  cce_SourceURL :: string

record TxStatusEvent =
  txe_TxID :: string
  txe_TxValidationCode :: tx_code
  txe_BlockNumber :: "64 word"
  txe_SourceURL :: string

text \<open>The error of a disconnect carries whether a reconnect is pointless.\<close>

record disconnectedError =
  de_cause :: goerr
  de_fatal :: bool

datatype evmsg =
  MBlock block string
| MFiltered filtered_block string
| MCC CCEvent
| MTx TxStatusEvent
| MConn bool "disconnectedError option"

definition NewBlockEvent :: "block \<Rightarrow> string \<Rightarrow> evmsg" where
  "NewBlockEvent b url = MBlock b url"

definition NewFilteredBlockEvent :: "filtered_block \<Rightarrow> string \<Rightarrow> evmsg" where
  "NewFilteredBlockEvent fb url = MFiltered fb url"

definition NewChaincodeEvent ::
  "string \<Rightarrow> string \<Rightarrow> string \<Rightarrow> bytes \<Rightarrow> 64 word \<Rightarrow> string \<Rightarrow> evmsg" where
  "NewChaincodeEvent ccid name tx pl n url =
     MCC \<lparr>cce_TxID = tx, cce_ChaincodeID = ccid, cce_EventName = name, cce_Payload = pl,
          cce_BlockNumber = n, cce_SourceURL = url\<rparr>"

definition NewTxStatusEvent :: "string \<Rightarrow> tx_code \<Rightarrow> 64 word \<Rightarrow> string \<Rightarrow> evmsg" where
  "NewTxStatusEvent tx code n url =
     MTx \<lparr>txe_TxID = tx, txe_TxValidationCode = code, txe_BlockNumber = n, txe_SourceURL = url\<rparr>"

definition NewConnectionEvent :: "bool \<Rightarrow> disconnectedError option \<Rightarrow> evmsg" where
  "NewConnectionEvent c e = MConn c e"

section \<open>Events sent to the dispatchers\<close>

type_synonym rq = nat

datatype deliver_response =
  DR_Status int
| DR_Block block
| DR_FilteredBlock filtered_block
| DR_Other

datatype event =
  RegisterChaincodeEvent rq ChaincodeReg
| RegisterTxStatusEvent rq TxStatusReg
| RegisterBlockEvent rq BlockReg
| RegisterFilteredBlockEvent rq FilteredBlockReg
| UnregisterEvent registration
| StopEvent rq
| TransferEvent rq
| StopAndTransferEvent rq
| RegistrationInfoEvent rq
| BlockEvent block string
| FilteredBlockEvent filtered_block string
| ConnectEvent rq
| DisconnectEvent rq
| ConnectedEvent
| DisconnectedEvent disconnectedError
| RegisterConnectionEvent rq ConnectionReg
| SeekEvent rq
| DeliverEvent deliver_response string
| OtherEvent

text \<open>\<open>reflect.TypeOf\<close> of an event.\<close>

datatype evtype =
  T_RegisterChaincode | T_RegisterTxStatus | T_RegisterBlock | T_RegisterFilteredBlock
| T_Unregister | T_Stop | T_Transfer | T_StopAndTransfer | T_RegistrationInfo
| T_Block | T_FilteredBlock | T_Connect | T_Disconnect | T_Connected | T_Disconnected
| T_RegisterConnection | T_Seek | T_Deliver | T_Other

fun TypeOf :: "event \<Rightarrow> evtype" where
  "TypeOf (RegisterChaincodeEvent _ _) = T_RegisterChaincode"
| "TypeOf (RegisterTxStatusEvent _ _) = T_RegisterTxStatus"
| "TypeOf (RegisterBlockEvent _ _) = T_RegisterBlock"
| "TypeOf (RegisterFilteredBlockEvent _ _) = T_RegisterFilteredBlock"
| "TypeOf (UnregisterEvent _) = T_Unregister"
| "TypeOf (StopEvent _) = T_Stop"
| "TypeOf (TransferEvent _) = T_Transfer"
| "TypeOf (StopAndTransferEvent _) = T_StopAndTransfer"
| "TypeOf (RegistrationInfoEvent _) = T_RegistrationInfo"
| "TypeOf (BlockEvent _ _) = T_Block"
| "TypeOf (FilteredBlockEvent _ _) = T_FilteredBlock"
| "TypeOf (ConnectEvent _) = T_Connect"
| "TypeOf (DisconnectEvent _) = T_Disconnect"
| "TypeOf ConnectedEvent = T_Connected"
| "TypeOf (DisconnectedEvent _) = T_Disconnected"
| "TypeOf (RegisterConnectionEvent _ _) = T_RegisterConnection"
| "TypeOf (SeekEvent _) = T_Seek"
| "TypeOf (DeliverEvent _ _) = T_Deliver"
| "TypeOf OtherEvent = T_Other"

record RegistrationInfo =
  ri_Total :: nat
  ri_NumBlock :: nat
  ri_NumFiltered :: nat
  ri_NumCC :: nat
  ri_NumTxStatus :: nat

datatype response =
  RespReg registration
| RespErr "goerr option"
| RespSnapshot snapshot
| RespInfo RegistrationInfo

definition NewDisconnectedEvent :: "goerr \<Rightarrow> event" where
  "NewDisconnectedEvent cause = DisconnectedEvent \<lparr>de_cause = cause, de_fatal = False\<rparr>"

definition NewFatalDisconnectedEvent :: "goerr \<Rightarrow> event" where
  "NewFatalDisconnectedEvent cause = DisconnectedEvent \<lparr>de_cause = cause, de_fatal = True\<rparr>"

end
