(* ===== verification/Dispatcher.thy ===== *)
theory Dispatcher
  imports Event_Types
begin

text \<open>
  The event dispatcher of \<open>pkg/fab/events/service/dispatcher/dispatcher.go\<close>: its state, one
  definition per method, and the loop of its single goroutine. Log statements are left out. The
  state record is extensible, so that the client dispatcher can embed it as the code does. The
  record also holds the heap of event channels and the log of responses, which in the code are
  reached through the registrations and the request events.
\<close>

section \<open>State\<close>

datatype dstate = StateInitial | StateStarted | StateStopped

text \<open>The methods that are registered as handlers, here and in the dispatchers built on this one.\<close>

datatype hname =
  H_registerCC | H_registerTxStatus | H_registerBlock | H_registerFilteredBlock | H_unregister
| H_stop | H_transfer | H_stopAndTransfer | H_registrationInfo | H_block | H_filteredBlock
| H_clientStop | H_connect | H_disconnect | H_connected | H_disconnected
| H_registerConnection | H_seek | H_deliver

record disp =
  lastBlockNum :: "64 word"
  d_params :: params
  updateLastBlockInfoOnly :: bool
  d_state :: dstate
  blockRegistrations :: "BlockReg list"
  filteredBlockRegistrations :: "FilteredBlockReg list"
  handlers :: "evtype \<rightharpoonup> hname"
  txRegistrations :: "(string \<times> TxStatusReg) list"
  ccRegistrations :: "(string \<times> ChaincodeReg) list"
  chans :: "evmsg heap"
  resps :: "(rq \<times> response) list"

text \<open>What the dispatcher uses of other libraries: protobuf decoding and \<open>regexp.Compile\<close>.\<close>

record runtime =
  rt_codec :: codec
  rt_regexp :: "string \<Rightarrow> regexp res"

definition MaxUint64 :: "64 word" where
  "MaxUint64 = - 1"

definition dispatcher_New :: "params \<Rightarrow> evmsg heap \<Rightarrow> disp" where
  "dispatcher_New p h =
     \<lparr>lastBlockNum = MaxUint64, d_params = p, updateLastBlockInfoOnly = False,
      d_state = StateInitial, blockRegistrations = [], filteredBlockRegistrations = [],
      handlers = Map.empty, txRegistrations = [], ccRegistrations = [], chans = h, resps = []\<rparr>"

definition reply :: "rq \<Rightarrow> response \<Rightarrow> 'z disp_scheme \<Rightarrow> 'z disp_scheme" where
  "reply rq r ed = ed\<lparr>resps := resps ed @ [(rq, r)]\<rparr>"

definition setState :: "dstate \<Rightarrow> dstate \<Rightarrow> 'z disp_scheme \<Rightarrow> bool \<times> 'z disp_scheme" where
  "setState old new ed =
     (if d_state ed = old then (True, ed\<lparr>d_state := new\<rparr>) else (False, ed))"

text \<open>The state number of the code, for the error of \<open>EventCh\<close>.\<close>

primrec state_num :: "dstate \<Rightarrow> int" where
  "state_num StateInitial = 0"
| "state_num StateStarted = 1"
| "state_num StateStopped = 2"

definition EventCh :: "'z disp_scheme \<Rightarrow> unit res" where
  "EventCh ed =
     (if d_state ed = StateStarted then Inr ()
      else Inl (ErrorF ''dispatcher not started - Current state [%d]'' [FI (state_num (d_state ed))]))"

definition RegisterHandler :: "evtype \<Rightarrow> hname \<Rightarrow> 'z disp_scheme \<Rightarrow> 'z disp_scheme" where
  "RegisterHandler t h ed =
     (case handlers ed t of None \<Rightarrow> ed\<lparr>handlers := (handlers ed)(t \<mapsto> h)\<rparr> | Some _ \<Rightarrow> ed)"

definition RegisterHandlers :: "'z disp_scheme \<Rightarrow> 'z disp_scheme" where
  "RegisterHandlers ed =
     fold (\<lambda>(t, h). RegisterHandler t h)
       [(T_RegisterChaincode, H_registerCC), (T_RegisterTxStatus, H_registerTxStatus),
        (T_RegisterBlock, H_registerBlock), (T_RegisterFilteredBlock, H_registerFilteredBlock),
        (T_Unregister, H_unregister), (T_Stop, H_stop), (T_Transfer, H_transfer),
        (T_StopAndTransfer, H_stopAndTransfer), (T_RegistrationInfo, H_registrationInfo),
        (T_Block, H_block), (T_FilteredBlock, H_filteredBlock)] ed"

section \<open>Registration and unregistration\<close>

definition registerBlockEvent :: "BlockReg \<Rightarrow> 'z disp_scheme \<Rightarrow> 'z disp_scheme" where
  "registerBlockEvent reg ed = ed\<lparr>blockRegistrations := blockRegistrations ed @ [reg]\<rparr>"

definition registerFilteredBlockEvent :: "FilteredBlockReg \<Rightarrow> 'z disp_scheme \<Rightarrow> 'z disp_scheme" where
  "registerFilteredBlockEvent reg ed =
     ed\<lparr>filteredBlockRegistrations := filteredBlockRegistrations ed @ [reg]\<rparr>"

definition getCCKey :: "string \<Rightarrow> string \<Rightarrow> string" where
  "getCCKey ccID eventFilter = ccID @ ''/'' @ eventFilter"

definition registerCCEvent ::
  "ChaincodeReg \<Rightarrow> 'z disp_scheme \<Rightarrow> goerr option \<times> 'z disp_scheme" where
  "registerCCEvent reg ed =
     (let key = getCCKey (ccreg_ChaincodeID reg) (ccreg_EventFilter reg)
      in if key \<in> set (al_keys (ccRegistrations ed))
         then (Some (ErrorF ''registration already exists for chaincode [%s] and event [%s]''
                 [FS (ccreg_ChaincodeID reg), FS (ccreg_EventFilter reg)]), ed)
         else (None, ed\<lparr>ccRegistrations := ccRegistrations ed @ [(key, reg)]\<rparr>))"

definition registerTxStatusEvent ::
  "TxStatusReg \<Rightarrow> 'z disp_scheme \<Rightarrow> goerr option \<times> 'z disp_scheme" where
  "registerTxStatusEvent reg ed =
     (if txreg_TxID reg \<in> set (al_keys (txRegistrations ed))
      then (Some (ErrorF ''registration already exists for TX ID [%s]'' [FS (txreg_TxID reg)]), ed)
      else (None, ed\<lparr>txRegistrations := txRegistrations ed @ [(txreg_TxID reg, reg)]\<rparr>))"

definition handleRegisterBlockEvent :: "event \<Rightarrow> 'z disp_scheme \<Rightarrow> 'z disp_scheme outcome" where
  "handleRegisterBlockEvent e ed =
     (case e of
        RegisterBlockEvent rq reg \<Rightarrow> Ok (reply rq (RespReg (RBlock reg)) (registerBlockEvent reg ed))
      | _ \<Rightarrow> Panic)"

definition handleRegisterFilteredBlockEvent ::
  "event \<Rightarrow> 'z disp_scheme \<Rightarrow> 'z disp_scheme outcome" where
  "handleRegisterFilteredBlockEvent e ed =
     (case e of
        RegisterFilteredBlockEvent rq reg \<Rightarrow>
          Ok (reply rq (RespReg (RFiltered reg)) (registerFilteredBlockEvent reg ed))
      | _ \<Rightarrow> Panic)"

definition handleRegisterCCEvent ::
  "runtime \<Rightarrow> event \<Rightarrow> 'z disp_scheme \<Rightarrow> 'z disp_scheme outcome" where
  "handleRegisterCCEvent rt e ed =
     (case e of
        RegisterChaincodeEvent rq reg \<Rightarrow>
          (case rt_regexp rt (ccreg_EventFilter reg) of
             Inl err \<Rightarrow>
               Ok (reply rq (RespErr (Some (WithMsg err
                    ''error compiling regular expression for event filter [%s]''
                    [FS (ccreg_EventFilter reg)]))) ed)
           | Inr re \<Rightarrow>
               let reg' = reg\<lparr>ccreg_EventRegExp := Some re\<rparr>
               in (case registerCCEvent reg' ed of
                     (Some err, ed') \<Rightarrow> Ok (reply rq (RespErr (Some err)) ed')
                   | (None, ed') \<Rightarrow> Ok (reply rq (RespReg (RCC reg')) ed')))
      | _ \<Rightarrow> Panic)"

definition handleRegisterTxStatusEvent :: "event \<Rightarrow> 'z disp_scheme \<Rightarrow> 'z disp_scheme outcome" where
  "handleRegisterTxStatusEvent e ed =
     (case e of
        RegisterTxStatusEvent rq reg \<Rightarrow>
          (case registerTxStatusEvent reg ed of
             (Some err, ed') \<Rightarrow> Ok (reply rq (RespErr (Some err)) ed')
           | (None, ed') \<Rightarrow> Ok (reply rq (RespReg (RTx reg)) ed'))
      | _ \<Rightarrow> Panic)"

text \<open>\<open>close(reg.Eventch)\<close>\<close>

definition closeCh :: "chid \<Rightarrow> 'z disp_scheme \<Rightarrow> 'z disp_scheme outcome" where
  "closeCh c ed = obind (heap_close c (chans ed)) (\<lambda>h. Ok (ed\<lparr>chans := h\<rparr>))"

text \<open>
  Removal from a slice at index \<open>i\<close>: the 0'th item moves to \<open>i\<close> and the 0'th slot is dropped.
  \<open>index_of\<close> is the index at which the loop stops.
\<close>

fun index_of :: "('a \<Rightarrow> bool) \<Rightarrow> 'a list \<Rightarrow> nat option" where
  "index_of p [] = None"
| "index_of p (x # xs) = (if p x then Some 0 else map_option Suc (index_of p xs))"

definition drop_at :: "nat \<Rightarrow> 'a list \<Rightarrow> 'a list" where
  "drop_at i xs = tl (xs[i := hd xs])"

definition invalid_registration :: goerr where
  "invalid_registration = errorNew ''the provided registration is invalid''"

definition unregisterBlockEvents ::
  "BlockReg \<Rightarrow> 'z disp_scheme \<Rightarrow> (goerr option \<times> 'z disp_scheme) outcome" where
  "unregisterBlockEvents registration ed =
     (case index_of (\<lambda>reg. breg_ref reg = breg_ref registration) (blockRegistrations ed) of
        None \<Rightarrow> Ok (Some invalid_registration, ed)
      | Some i \<Rightarrow>
          obind (closeCh (breg_Eventch (blockRegistrations ed ! i))
                   (ed\<lparr>blockRegistrations := drop_at i (blockRegistrations ed)\<rparr>))
            (\<lambda>ed'. Ok (None, ed')))"

definition unregisterFilteredBlockEvents ::
  "FilteredBlockReg \<Rightarrow> 'z disp_scheme \<Rightarrow> (goerr option \<times> 'z disp_scheme) outcome" where
  "unregisterFilteredBlockEvents registration ed =
     (case index_of (\<lambda>reg. fbreg_ref reg = fbreg_ref registration)
             (filteredBlockRegistrations ed) of
        None \<Rightarrow> Ok (Some invalid_registration, ed)
      | Some i \<Rightarrow>
          obind (closeCh (fbreg_Eventch (filteredBlockRegistrations ed ! i))
                   (ed\<lparr>filteredBlockRegistrations := drop_at i (filteredBlockRegistrations ed)\<rparr>))
            (\<lambda>ed'. Ok (None, ed')))"

definition unregisterCCEvents ::
  "ChaincodeReg \<Rightarrow> 'z disp_scheme \<Rightarrow> (goerr option \<times> 'z disp_scheme) outcome" where
  "unregisterCCEvents registration ed =
     (let key = getCCKey (ccreg_ChaincodeID registration) (ccreg_EventFilter registration)
      in case map_of (ccRegistrations ed) key of
           None \<Rightarrow> Ok (Some invalid_registration, ed)
         | Some reg \<Rightarrow>
             obind (closeCh (ccreg_Eventch reg) ed)
               (\<lambda>ed'. Ok (None, ed'\<lparr>ccRegistrations := al_delete key (ccRegistrations ed')\<rparr>)))"

definition unregisterTXEvents ::
  "TxStatusReg \<Rightarrow> 'z disp_scheme \<Rightarrow> (goerr option \<times> 'z disp_scheme) outcome" where
  "unregisterTXEvents registration ed =
     (case map_of (txRegistrations ed) (txreg_TxID registration) of
        None \<Rightarrow> Ok (Some invalid_registration, ed)
      | Some reg \<Rightarrow>
          obind (closeCh (txreg_Eventch reg) ed)
            (\<lambda>ed'. Ok (None, ed'\<lparr>txRegistrations :=
                            al_delete (txreg_TxID registration) (txRegistrations ed')\<rparr>)))"

text \<open>The error of an unregister is only logged.\<close>

definition handleUnregisterEvent :: "event \<Rightarrow> 'z disp_scheme \<Rightarrow> 'z disp_scheme outcome" where
  "handleUnregisterEvent e ed =
     (case e of
        UnregisterEvent reg \<Rightarrow>
          obind (case reg of
                   RBlock r \<Rightarrow> unregisterBlockEvents r ed
                 | RFiltered r \<Rightarrow> unregisterFilteredBlockEvents r ed
                 | RCC r \<Rightarrow> unregisterCCEvents r ed
                 | RTx r \<Rightarrow> unregisterTXEvents r ed
                 | _ \<Rightarrow> Ok (Some (errorNew ''Unsupported registration type''), ed))
            (\<lambda>r. Ok (snd r))
      | _ \<Rightarrow> Panic)"

section \<open>Clearing, stopping, transferring\<close>

definition closeAll :: "chid list \<Rightarrow> 'z disp_scheme \<Rightarrow> 'z disp_scheme outcome" where
  "closeAll cs ed = obind (heap_close_all cs (chans ed)) (\<lambda>h. Ok (ed\<lparr>chans := h\<rparr>))"

definition clearBlockRegistrations :: "bool \<Rightarrow> 'z disp_scheme \<Rightarrow> 'z disp_scheme outcome" where
  "clearBlockRegistrations closeChannel ed =
     obind (if closeChannel then closeAll (map breg_Eventch (blockRegistrations ed)) ed else Ok ed)
       (\<lambda>ed'. Ok (ed'\<lparr>blockRegistrations := []\<rparr>))"

definition clearFilteredBlockRegistrations ::
  "bool \<Rightarrow> 'z disp_scheme \<Rightarrow> 'z disp_scheme outcome" where
  "clearFilteredBlockRegistrations closeChannel ed =
     obind (if closeChannel then closeAll (map fbreg_Eventch (filteredBlockRegistrations ed)) ed
            else Ok ed)
       (\<lambda>ed'. Ok (ed'\<lparr>filteredBlockRegistrations := []\<rparr>))"

definition clearTxRegistrations :: "bool \<Rightarrow> 'z disp_scheme \<Rightarrow> 'z disp_scheme outcome" where
  "clearTxRegistrations closeChannel ed =
     obind (if closeChannel then closeAll (map (txreg_Eventch \<circ> snd) (txRegistrations ed)) ed
            else Ok ed)
       (\<lambda>ed'. Ok (ed'\<lparr>txRegistrations := []\<rparr>))"

definition clearChaincodeRegistrations :: "bool \<Rightarrow> 'z disp_scheme \<Rightarrow> 'z disp_scheme outcome" where
  "clearChaincodeRegistrations closeChannel ed =
     obind (if closeChannel then closeAll (map (ccreg_Eventch \<circ> snd) (ccRegistrations ed)) ed
            else Ok ed)
       (\<lambda>ed'. Ok (ed'\<lparr>ccRegistrations := []\<rparr>))"

definition clearRegistrations :: "bool \<Rightarrow> 'z disp_scheme \<Rightarrow> 'z disp_scheme outcome" where
  "clearRegistrations closeChannel ed =
     obind (clearBlockRegistrations closeChannel ed) (\<lambda>ed1.
     obind (clearFilteredBlockRegistrations closeChannel ed1) (\<lambda>ed2.
     obind (clearTxRegistrations closeChannel ed2) (\<lambda>ed3.
     clearChaincodeRegistrations closeChannel ed3)))"

definition newSnapshot :: "'z disp_scheme \<Rightarrow> snapshot" where
  "newSnapshot ed =
     \<lparr>sn_lastBlockReceived = lastBlockNum ed,
      sn_blockRegistrations = blockRegistrations ed,
      sn_filteredBlockRegistrations = filteredBlockRegistrations ed,
      sn_ccRegistrations = map snd (ccRegistrations ed),
      sn_txStatusRegistrations = map snd (txRegistrations ed)\<rparr>"

definition HandleStopEvent :: "event \<Rightarrow> 'z disp_scheme \<Rightarrow> 'z disp_scheme outcome" where
  "HandleStopEvent e ed =
     (case e of
        StopEvent rq \<Rightarrow>
          (case setState StateStarted StateStopped ed of
             (False, ed') \<Rightarrow> Ok (reply rq (RespErr (Some (errorNew ''dispatcher already stopped''))) ed')
           | (True, ed') \<Rightarrow>
               obind (clearRegistrations True ed') (\<lambda>ed''. Ok (reply rq (RespErr None) ed'')))
      | _ \<Rightarrow> Panic)"

definition HandleTransferEvent :: "event \<Rightarrow> 'z disp_scheme \<Rightarrow> 'z disp_scheme outcome" where
  "HandleTransferEvent e ed =
     (case e of
        TransferEvent rq \<Rightarrow>
          clearRegistrations False (reply rq (RespSnapshot (newSnapshot ed)) ed)
      | _ \<Rightarrow> Panic)"

definition HandleStopAndTransferEvent :: "event \<Rightarrow> 'z disp_scheme \<Rightarrow> 'z disp_scheme outcome" where
  "HandleStopAndTransferEvent e ed =
     (case e of
        StopAndTransferEvent rq \<Rightarrow>
          (case setState StateStarted StateStopped ed of
             (False, ed') \<Rightarrow> Ok (reply rq (RespErr (Some (errorNew ''dispatcher already stopped''))) ed')
           | (True, ed') \<Rightarrow>
               clearRegistrations False (reply rq (RespSnapshot (newSnapshot ed')) ed'))
      | _ \<Rightarrow> Panic)"

definition handleRegistrationInfoEvent :: "event \<Rightarrow> 'z disp_scheme \<Rightarrow> 'z disp_scheme outcome" where
  "handleRegistrationInfoEvent e ed =
     (case e of
        RegistrationInfoEvent rq \<Rightarrow>
          let nb = length (blockRegistrations ed);
              nf = length (filteredBlockRegistrations ed);
              nc = length (ccRegistrations ed);
              nt = length (txRegistrations ed)
          in Ok (reply rq (RespInfo \<lparr>ri_Total = nb + nf + nc + nt, ri_NumBlock = nb,
                    ri_NumFiltered = nf, ri_NumCC = nc, ri_NumTxStatus = nt\<rparr>) ed)
      | _ \<Rightarrow> Panic)"

section \<open>Publishing\<close>

definition publish :: "evmsg \<Rightarrow> chid \<Rightarrow> 'z disp_scheme \<Rightarrow> 'z disp_scheme outcome" where
  "publish m c ed =
     obind (heap_deliver (eventConsumerTimeout (d_params ed)) m c (chans ed))
       (\<lambda>h. Ok (ed\<lparr>chans := h\<rparr>))"

definition publishBlockEvents ::
  "block \<Rightarrow> string \<Rightarrow> 'z disp_scheme \<Rightarrow> 'z disp_scheme outcome" where
  "publishBlockEvents b url ed =
     ofold (\<lambda>reg ed'. obind (breg_Filter reg b) (\<lambda>pass.
              if pass then publish (NewBlockEvent b url) (breg_Eventch reg) ed' else Ok ed'))
       (blockRegistrations ed) ed"

definition checkFilteredBlockRegistrations ::
  "filtered_block \<Rightarrow> string \<Rightarrow> 'z disp_scheme \<Rightarrow> 'z disp_scheme outcome" where
  "checkFilteredBlockRegistrations fb url ed =
     ofold (\<lambda>reg ed'. publish (NewFilteredBlockEvent fb url) (fbreg_Eventch reg) ed')
       (filteredBlockRegistrations ed) ed"

definition publishTxStatusEvents ::
  "filtered_tx \<Rightarrow> 64 word \<Rightarrow> string \<Rightarrow> 'z disp_scheme \<Rightarrow> 'z disp_scheme outcome" where
  "publishTxStatusEvents tx n url ed =
     (case map_of (txRegistrations ed) (ftx_Txid tx) of
        None \<Rightarrow> Ok ed
      | Some reg \<Rightarrow>
          publish (NewTxStatusEvent (ftx_Txid tx) (ftx_Code tx) n url) (txreg_Eventch reg) ed)"

text \<open>Matching against a registration whose expression was never compiled panics.\<close>

definition publishCCEvents ::
  "chaincode_event \<Rightarrow> 64 word \<Rightarrow> string \<Rightarrow> 'z disp_scheme \<Rightarrow> 'z disp_scheme outcome" where
  "publishCCEvents ev n url ed =
     ofold (\<lambda>reg ed'.
         if ccreg_ChaincodeID reg = ce_ChaincodeId ev
         then (case ccreg_EventRegExp reg of
                 None \<Rightarrow> Panic
               | Some re \<Rightarrow>
                   if re (ce_EventName ev)
                   then publish (NewChaincodeEvent (ce_ChaincodeId ev) (ce_EventName ev) (ce_TxId ev)
                                   (ce_Payload ev) n url) (ccreg_Eventch reg) ed'
                   else Ok ed')
         else Ok ed')
       (map snd (ccRegistrations ed)) ed"

definition publishTx ::
  "64 word \<Rightarrow> string \<Rightarrow> filtered_tx \<Rightarrow> 'z disp_scheme \<Rightarrow> 'z disp_scheme outcome" where
  "publishTx n url tx ed =
     obind (publishTxStatusEvents tx n url ed) (\<lambda>ed'.
       if ftx_Code tx = TxValidationCode_VALID
       then (case ftx_Actions tx of
               None \<Rightarrow> Ok ed'
             | Some acts \<Rightarrow>
                 ofold (\<lambda>a ed''. case a of
                          None \<Rightarrow> Ok ed''
                        | Some ev \<Rightarrow> publishCCEvents ev n url ed'') acts ed')
       else Ok ed')"

definition publishFilteredBlockEvents ::
  "filtered_block option \<Rightarrow> string \<Rightarrow> 'z disp_scheme \<Rightarrow> 'z disp_scheme outcome" where
  "publishFilteredBlockEvents fbo url ed =
     (case fbo of
        None \<Rightarrow> Ok ed
      | Some fb \<Rightarrow>
          obind (checkFilteredBlockRegistrations fb url ed)
            (ofold (publishTx (fb_Number fb) url) (fb_Txs fb)))"

definition updateLastBlockNum ::
  "64 word \<Rightarrow> 'z disp_scheme \<Rightarrow> goerr option \<times> 'z disp_scheme" where
  "updateLastBlockNum n ed =
     (if lastBlockNum ed = MaxUint64 \<or> n > lastBlockNum ed
      then (None, ed\<lparr>lastBlockNum := n\<rparr>)
      else (Some (ErrorF ''Expecting a block number greater than %d but received block number %d''
              [FN (unat (lastBlockNum ed)), FN (unat n)]), ed))"

definition HandleBlock ::
  "runtime \<Rightarrow> block \<Rightarrow> string \<Rightarrow> 'z disp_scheme \<Rightarrow> 'z disp_scheme outcome" where
  "HandleBlock rt b url ed =
     (case blk_Number b of
        None \<Rightarrow> Panic
      | Some n \<Rightarrow>
          (case updateLastBlockNum n ed of
             (Some err, ed1) \<Rightarrow> Ok ed1
           | (None, ed1) \<Rightarrow>
               if updateLastBlockInfoOnly ed1 then Ok (ed1\<lparr>updateLastBlockInfoOnly := False\<rparr>)
               else obind (publishBlockEvents b url ed1) (\<lambda>ed2.
                    obind (toFilteredBlock (rt_codec rt) b) (\<lambda>fb.
                    publishFilteredBlockEvents (Some fb) url ed2))))"

definition HandleFilteredBlock ::
  "filtered_block \<Rightarrow> string \<Rightarrow> 'z disp_scheme \<Rightarrow> 'z disp_scheme outcome" where
  "HandleFilteredBlock fb url ed =
     (case updateLastBlockNum (fb_Number fb) ed of
        (Some err, ed1) \<Rightarrow> Ok ed1
      | (None, ed1) \<Rightarrow>
          if updateLastBlockInfoOnly ed1 then Ok (ed1\<lparr>updateLastBlockInfoOnly := False\<rparr>)
          else publishFilteredBlockEvents (Some fb) url ed1)"

definition UpdateLastBlockInfoOnly :: "'z disp_scheme \<Rightarrow> 'z disp_scheme" where
  "UpdateLastBlockInfoOnly ed = ed\<lparr>updateLastBlockInfoOnly := True\<rparr>"

definition handleBlockEvent ::
  "runtime \<Rightarrow> event \<Rightarrow> 'z disp_scheme \<Rightarrow> 'z disp_scheme outcome" where
  "handleBlockEvent rt e ed = (case e of BlockEvent b url \<Rightarrow> HandleBlock rt b url ed | _ \<Rightarrow> Panic)"

definition handleFilteredBlockEvent :: "event \<Rightarrow> 'z disp_scheme \<Rightarrow> 'z disp_scheme outcome" where
  "handleFilteredBlockEvent e ed =
     (case e of FilteredBlockEvent fb url \<Rightarrow> HandleFilteredBlock fb url ed | _ \<Rightarrow> Panic)"

section \<open>Start and the dispatch loop\<close>

text \<open>Registers the initial registrations one after the other, up to the first error.\<close>

fun register_until_err ::
  "('r \<Rightarrow> 's \<Rightarrow> goerr option \<times> 's) \<Rightarrow> 'r list \<Rightarrow> 's \<Rightarrow> goerr option \<times> 's" where
  "register_until_err f [] s = (None, s)"
| "register_until_err f (r # rs) s =
     (case f r s of (Some e, s') \<Rightarrow> (Some e, s') | (None, s') \<Rightarrow> register_until_err f rs s')"

definition initRegistrations :: "'z disp_scheme \<Rightarrow> goerr option \<times> 'z disp_scheme" where
  "initRegistrations ed =
     (let p = d_params ed;
          ed1 = fold registerBlockEvent (initialBlockRegistrations p) ed;
          ed2 = fold registerFilteredBlockEvent (initialFilteredBlockRegistrations p) ed1
      in case register_until_err registerCCEvent (initialCCRegistrations p) ed2 of
           (Some e, ed3) \<Rightarrow> (Some e, ed3)
         | (None, ed3) \<Rightarrow> register_until_err registerTxStatusEvent (initialTxStatusRegistrations p) ed3)"

text \<open>
  \<open>Start\<close> up to the point where the goroutine is spawned; the flag of the result is the error.
  An error of \<open>updateLastBlockNum\<close> is only logged.
\<close>

definition Start :: "'z disp_scheme \<Rightarrow> goerr option \<times> 'z disp_scheme" where
  "Start ed =
     (case setState StateInitial StateStarted ed of
        (False, ed1) \<Rightarrow>
          (Some (errorNew ''cannot start dispatcher since it's not in its initial state''), ed1)
      | (True, ed1) \<Rightarrow>
          (case initRegistrations (RegisterHandlers ed1) of
             (Some e, ed2) \<Rightarrow> (Some (withMessage e ''error initializing registrations''), ed2)
           | (None, ed2) \<Rightarrow>
               (None, if initialLastBlockNum (d_params ed2) > 0
                      then snd (updateLastBlockNum (initialLastBlockNum (d_params ed2)) ed2)
                      else ed2)))"

text \<open>The handlers of this dispatcher; the others belong to the dispatchers built on it.\<close>

definition run_handler ::
  "runtime \<Rightarrow> hname \<Rightarrow> event \<Rightarrow> 'z disp_scheme \<Rightarrow> 'z disp_scheme outcome" where
  "run_handler rt h e ed =
     (case h of
        H_registerCC \<Rightarrow> handleRegisterCCEvent rt e ed
      | H_registerTxStatus \<Rightarrow> handleRegisterTxStatusEvent e ed
      | H_registerBlock \<Rightarrow> handleRegisterBlockEvent e ed
      | H_registerFilteredBlock \<Rightarrow> handleRegisterFilteredBlockEvent e ed
      | H_unregister \<Rightarrow> handleUnregisterEvent e ed
      | H_stop \<Rightarrow> HandleStopEvent e ed
      | H_transfer \<Rightarrow> HandleTransferEvent e ed
      | H_stopAndTransfer \<Rightarrow> HandleStopAndTransferEvent e ed
      | H_registrationInfo \<Rightarrow> handleRegistrationInfoEvent e ed
      | H_block \<Rightarrow> handleBlockEvent rt e ed
      | H_filteredBlock \<Rightarrow> handleFilteredBlockEvent e ed
      | _ \<Rightarrow> Panic)"

text \<open>One iteration: an event without a handler is only logged.\<close>

definition dispatch ::
  "(hname \<Rightarrow> event \<Rightarrow> 'z disp_scheme \<Rightarrow> 'z disp_scheme outcome) \<Rightarrow> event \<Rightarrow> 'z disp_scheme
     \<Rightarrow> 'z disp_scheme outcome" where
  "dispatch run e ed =
     (case handlers ed (TypeOf e) of None \<Rightarrow> Ok ed | Some h \<Rightarrow> run h e ed)"

text \<open>The loop over the events in the order in which they arrive, until the dispatcher is stopped.\<close>

fun dispatch_loop ::
  "(hname \<Rightarrow> event \<Rightarrow> 'z disp_scheme \<Rightarrow> 'z disp_scheme outcome) \<Rightarrow> event list \<Rightarrow> 'z disp_scheme
     \<Rightarrow> 'z disp_scheme outcome" where
  "dispatch_loop run [] ed = Ok ed"
| "dispatch_loop run (e # es) ed =
     (if d_state ed = StateStopped then Ok ed
      else obind (dispatch run e ed) (dispatch_loop run es))"

end
