(* ===== verification/Dispatcher_Publish.thy ===== *)
theory Dispatcher_Publish
  imports Dispatcher "HOL-Library.Sublist"
begin

text \<open>
  What publishing a block does. The publish routines of the dispatcher walk over registrations,
  transactions and chaincode actions and send as they go; here they are shown to carry out a
  \<^emph>\<open>plan\<close>, the list of the messages to send and the channels to send them on, computed from the
  block and the registrations alone. Everything about delivery (which registration gets what, in
  which order, what is lost when a consumer does not read) is then a fact about sending a list.
\<close>

section \<open>Sending a plan\<close>

definition publish_all ::
  "(chid \<times> evmsg) list \<Rightarrow> 'z disp_scheme \<Rightarrow> 'z disp_scheme outcome" where
  "publish_all plan = ofold (\<lambda>(c, m). publish m c) plan"

lemma publish_all_simps [simp]:
  "publish_all [] = Ok"
  "publish_all ((c, m) # plan) ed = obind (publish m c ed) (publish_all plan)"
  by (simp_all add: publish_all_def fun_eq_iff)

lemma publish_all_append:
  "publish_all (p @ q) ed = obind (publish_all p ed) (publish_all q)"
  by (simp add: publish_all_def ofold_append)

text \<open>Publishing changes the heap of channels and nothing else.\<close>

definition chans_only :: "'z disp_scheme \<Rightarrow> 'z disp_scheme \<Rightarrow> bool" where
  "chans_only ed ed' \<longleftrightarrow> (\<exists>h. ed' = ed\<lparr>chans := h\<rparr>)"

lemma chans_only_refl [simp]: "chans_only ed ed"
  unfolding chans_only_def by (rule exI [of _ "chans ed"]) simp

lemma chans_only_update [simp]: "chans_only ed (ed\<lparr>chans := h\<rparr>)"
  by (auto simp: chans_only_def)

lemma chans_only_trans: "chans_only a b \<Longrightarrow> chans_only b c \<Longrightarrow> chans_only a c"
  by (auto simp: chans_only_def)

lemma publish_chans_only: "publish m c ed = Ok ed' \<Longrightarrow> chans_only ed ed'"
  by (auto simp: publish_def obind_eq_Ok)

lemma publish_all_chans_only: "publish_all p ed = Ok ed' \<Longrightarrow> chans_only ed ed'"
proof (induction p arbitrary: ed)
  case Nil
  then show ?case by simp
next
  case (Cons a p)
  then show ?case
    by (cases a) (auto simp: obind_eq_Ok intro: chans_only_trans publish_chans_only)
qed

text \<open>
  A loop whose body carries out a plan that does not depend on the heap carries out the
  concatenation of the plans.
\<close>

lemma ofold_plan:
  assumes "\<And>x h. x \<in> set xs \<Longrightarrow> body x (ed\<lparr>chans := h\<rparr>) = publish_all (f x) (ed\<lparr>chans := h\<rparr>)"
  shows "ofold body xs (ed\<lparr>chans := h\<rparr>) = publish_all (concat (map f xs)) (ed\<lparr>chans := h\<rparr>)"
  using assms
proof (induction xs arbitrary: h)
  case Nil
  then show ?case by simp
next
  case (Cons x xs)
  have "obind (publish_all (f x) (ed\<lparr>chans := h\<rparr>)) (ofold body xs)
      = obind (publish_all (f x) (ed\<lparr>chans := h\<rparr>)) (publish_all (concat (map f xs)))"
  proof (cases "publish_all (f x) (ed\<lparr>chans := h\<rparr>)")
    case (Ok ed')
    then obtain h' where "ed' = ed\<lparr>chans := h'\<rparr>"
      using publish_all_chans_only [OF Ok] by (auto simp: chans_only_def)
    then show ?thesis
      using Ok Cons.IH [of h'] Cons.prems by simp
  qed simp_all
  then show ?case
    using Cons.prems by (simp add: publish_all_append)
qed

lemma ofold_plan':
  assumes "\<And>x h. x \<in> set xs \<Longrightarrow> body x (ed\<lparr>chans := h\<rparr>) = publish_all (f x) (ed\<lparr>chans := h\<rparr>)"
  shows "ofold body xs ed = publish_all (concat (map f xs)) ed"
proof -
  have "ofold body xs (ed\<lparr>chans := chans ed\<rparr>)
      = publish_all (concat (map f xs)) (ed\<lparr>chans := chans ed\<rparr>)"
    using assms by (rule ofold_plan)
  then show ?thesis by simp
qed

section \<open>The plans\<close>

text \<open>A block goes to the block registrations whose filter accepts it.\<close>

definition block_plan :: "block \<Rightarrow> string \<Rightarrow> 'z disp_scheme \<Rightarrow> (chid \<times> evmsg) list" where
  "block_plan b url ed =
     map (\<lambda>reg. (breg_Eventch reg, NewBlockEvent b url))
       (filter (\<lambda>reg. breg_Filter reg b = Ok True) (blockRegistrations ed))"

text \<open>A chaincode event goes to the registrations of its chaincode whose filter matches its name.\<close>

definition cc_plan ::
  "64 word \<Rightarrow> string \<Rightarrow> 'z disp_scheme \<Rightarrow> chaincode_event \<Rightarrow> (chid \<times> evmsg) list" where
  "cc_plan n url ed ev =
     map (\<lambda>reg. (ccreg_Eventch reg, NewChaincodeEvent (ce_ChaincodeId ev) (ce_EventName ev)
                   (ce_TxId ev) (ce_Payload ev) n url))
       (filter (\<lambda>reg. ccreg_ChaincodeID reg = ce_ChaincodeId ev
                      \<and> the (ccreg_EventRegExp reg) (ce_EventName ev))
          (map snd (ccRegistrations ed)))"

definition tx_status_plan ::
  "64 word \<Rightarrow> string \<Rightarrow> 'z disp_scheme \<Rightarrow> filtered_tx \<Rightarrow> (chid \<times> evmsg) list" where
  "tx_status_plan n url ed tx =
     (case map_of (txRegistrations ed) (ftx_Txid tx) of
        None \<Rightarrow> []
      | Some reg \<Rightarrow> [(txreg_Eventch reg, NewTxStatusEvent (ftx_Txid tx) (ftx_Code tx) n url)])"

text \<open>The chaincode events of a transaction are those of a valid transaction only.\<close>

definition tx_cc_events :: "filtered_tx \<Rightarrow> chaincode_event list" where
  "tx_cc_events tx =
     (if ftx_Code tx = TxValidationCode_VALID
      then (case ftx_Actions tx of None \<Rightarrow> [] | Some acts \<Rightarrow> List.map_filter id acts)
      else [])"

definition tx_plan ::
  "64 word \<Rightarrow> string \<Rightarrow> 'z disp_scheme \<Rightarrow> filtered_tx \<Rightarrow> (chid \<times> evmsg) list" where
  "tx_plan n url ed tx =
     tx_status_plan n url ed tx @ concat (map (cc_plan n url ed) (tx_cc_events tx))"

definition filtered_plan ::
  "filtered_block \<Rightarrow> string \<Rightarrow> 'z disp_scheme \<Rightarrow> (chid \<times> evmsg) list" where
  "filtered_plan fb url ed =
     map (\<lambda>reg. (fbreg_Eventch reg, NewFilteredBlockEvent fb url)) (filteredBlockRegistrations ed)
     @ concat (map (tx_plan (fb_Number fb) url ed) (fb_Txs fb))"

text \<open>Every chaincode registration that is in place has been compiled.\<close>

definition regexps_compiled :: "'z disp_scheme \<Rightarrow> bool" where
  "regexps_compiled ed \<longleftrightarrow> list_all (\<lambda>p. ccreg_EventRegExp (snd p) \<noteq> None) (ccRegistrations ed)"

lemma block_plan_chans [simp]: "block_plan b url (ed\<lparr>chans := h\<rparr>) = block_plan b url ed"
  by (simp add: block_plan_def)

lemma cc_plan_chans [simp]: "cc_plan n url (ed\<lparr>chans := h\<rparr>) = cc_plan n url ed"
  by (simp add: cc_plan_def fun_eq_iff)

lemma tx_status_plan_chans [simp]:
  "tx_status_plan n url (ed\<lparr>chans := h\<rparr>) = tx_status_plan n url ed"
  by (simp add: tx_status_plan_def fun_eq_iff)

lemma tx_plan_chans [simp]: "tx_plan n url (ed\<lparr>chans := h\<rparr>) = tx_plan n url ed"
  by (rule ext) (simp add: tx_plan_def)

lemma filtered_plan_chans [simp]: "filtered_plan fb url (ed\<lparr>chans := h\<rparr>) = filtered_plan fb url ed"
  by (simp add: filtered_plan_def)

lemma regexps_compiled_chans [simp]: "regexps_compiled (ed\<lparr>chans := h\<rparr>) = regexps_compiled ed"
  by (simp add: regexps_compiled_def)

lemma concat_map_if: "concat (map (\<lambda>x. if P x then [f x] else []) xs) = map f (filter P xs)"
  by (induction xs) simp_all

lemma publishBlockEvents_plan:
  assumes "\<forall>reg \<in> set (blockRegistrations ed). \<exists>v. breg_Filter reg b = Ok v"
  shows "publishBlockEvents b url ed = publish_all (block_plan b url ed) ed"
proof -
  have "publishBlockEvents b url ed = publish_all (concat (map (\<lambda>reg.
      if breg_Filter reg b = Ok True then [(breg_Eventch reg, NewBlockEvent b url)] else [])
      (blockRegistrations ed))) ed"
    unfolding publishBlockEvents_def
  proof (rule ofold_plan')
    fix reg h
    assume "reg \<in> set (blockRegistrations ed)"
    then obtain v where "breg_Filter reg b = Ok v" using assms by blast
    then show "obind (breg_Filter reg b) (\<lambda>pass.
        if pass then publish (NewBlockEvent b url) (breg_Eventch reg) (ed\<lparr>chans := h\<rparr>)
        else Ok (ed\<lparr>chans := h\<rparr>))
      = publish_all (if breg_Filter reg b = Ok True
           then [(breg_Eventch reg, NewBlockEvent b url)] else []) (ed\<lparr>chans := h\<rparr>)"
      by simp
  qed
  then show ?thesis by (simp only: concat_map_if block_plan_def)
qed

lemma checkFilteredBlockRegistrations_plan:
  "checkFilteredBlockRegistrations fb url ed
     = publish_all (map (\<lambda>reg. (fbreg_Eventch reg, NewFilteredBlockEvent fb url))
                      (filteredBlockRegistrations ed)) ed"
proof -
  have "checkFilteredBlockRegistrations fb url ed = publish_all (concat (map (\<lambda>reg.
      [(fbreg_Eventch reg, NewFilteredBlockEvent fb url)]) (filteredBlockRegistrations ed))) ed"
    unfolding checkFilteredBlockRegistrations_def by (rule ofold_plan') simp
  then show ?thesis by (simp add: concat_map_singleton)
qed

lemma publishTxStatusEvents_plan:
  "publishTxStatusEvents tx n url ed = publish_all (tx_status_plan n url ed tx) ed"
  by (simp add: publishTxStatusEvents_def tx_status_plan_def split: option.split)

lemma publishCCEvents_plan:
  assumes "regexps_compiled ed"
  shows "publishCCEvents ev n url ed = publish_all (cc_plan n url ed ev) ed"
proof -
  have "publishCCEvents ev n url ed = publish_all (concat (map (\<lambda>reg.
      if ccreg_ChaincodeID reg = ce_ChaincodeId ev
         \<and> the (ccreg_EventRegExp reg) (ce_EventName ev)
      then [(ccreg_Eventch reg, NewChaincodeEvent (ce_ChaincodeId ev) (ce_EventName ev)
                   (ce_TxId ev) (ce_Payload ev) n url)] else [])
      (map snd (ccRegistrations ed)))) ed"
    unfolding publishCCEvents_def using assms
    by (intro ofold_plan') (force simp: regexps_compiled_def list_all_iff)
  then show ?thesis by (simp only: concat_map_if cc_plan_def)
qed

lemma publishActions_plan:
  assumes "regexps_compiled ed"
  shows "ofold (\<lambda>a ed'. case a of None \<Rightarrow> Ok ed' | Some ev \<Rightarrow> publishCCEvents ev n url ed') acts ed
     = publish_all (concat (map (cc_plan n url ed) (List.map_filter id acts))) ed"
proof -
  have "ofold (\<lambda>a ed'. case a of None \<Rightarrow> Ok ed' | Some ev \<Rightarrow> publishCCEvents ev n url ed') acts ed
     = publish_all (concat (map (\<lambda>a. case a of None \<Rightarrow> [] | Some ev \<Rightarrow> cc_plan n url ed ev) acts)) ed"
    using assms by (intro ofold_plan') (auto simp: publishCCEvents_plan split: option.split)
  moreover have "concat (map (\<lambda>a. case a of None \<Rightarrow> [] | Some ev \<Rightarrow> cc_plan n url ed ev) acts)
     = concat (map (cc_plan n url ed) (List.map_filter id acts))"
    by (induction acts) (auto simp: List.map_filter_simps split: option.split)
  ultimately show ?thesis by simp
qed

lemma publishTx_plan:
  assumes "regexps_compiled ed"
  shows "publishTx n url tx ed = publish_all (tx_plan n url ed tx) ed"
proof -
  have step: "(if ftx_Code tx = TxValidationCode_VALID
       then (case ftx_Actions tx of None \<Rightarrow> Ok ed'
             | Some acts \<Rightarrow> ofold (\<lambda>a ed''. case a of None \<Rightarrow> Ok ed''
                              | Some ev \<Rightarrow> publishCCEvents ev n url ed'') acts ed')
       else Ok ed') = publish_all (concat (map (cc_plan n url ed) (tx_cc_events tx))) ed'"
    if "chans_only ed ed'" for ed'
  proof -
    from that obtain h where ed': "ed' = ed\<lparr>chans := h\<rparr>" by (simp add: chans_only_def) blast
    with assms have "regexps_compiled ed'" by simp
    then show ?thesis
      by (auto simp: tx_cc_events_def publishActions_plan ed' split: option.split)
  qed
  show ?thesis
    unfolding publishTx_def tx_plan_def publish_all_append publishTxStatusEvents_plan
    by (rule obind_cong) (simp add: step publish_all_chans_only)
qed

lemma publishFilteredBlockEvents_plan:
  assumes "regexps_compiled ed"
  shows "publishFilteredBlockEvents (Some fb) url ed = publish_all (filtered_plan fb url ed) ed"
proof -
  have "ofold (publishTx (fb_Number fb) url) (fb_Txs fb) (ed\<lparr>chans := h\<rparr>)
     = publish_all (concat (map (tx_plan (fb_Number fb) url ed) (fb_Txs fb))) (ed\<lparr>chans := h\<rparr>)" for h
    using assms by (intro ofold_plan) (simp add: publishTx_plan)
  then have "ofold (publishTx (fb_Number fb) url) (fb_Txs fb) ed'
     = publish_all (concat (map (tx_plan (fb_Number fb) url ed) (fb_Txs fb))) ed'"
    if "chans_only ed ed'" for ed'
    using that by (auto simp: chans_only_def)
  then show ?thesis
    by (cases "checkFilteredBlockRegistrations fb url ed")
      (auto simp: publishFilteredBlockEvents_def filtered_plan_def publish_all_append
        checkFilteredBlockRegistrations_plan dest: publish_all_chans_only)
qed

section \<open>What a plan delivers\<close>

definition msgs_for :: "chid \<Rightarrow> (chid \<times> evmsg) list \<Rightarrow> evmsg list" where
  "msgs_for c plan = map snd (filter (\<lambda>p. fst p = c) plan)"

lemma msgs_for_simps [simp]:
  "msgs_for c [] = []"
  "msgs_for c ((d, m) # plan) = (if d = c then m # msgs_for c plan else msgs_for c plan)"
  "msgs_for c (p @ q) = msgs_for c p @ msgs_for c q"
  by (simp_all add: msgs_for_def)

lemma msgs_for_none: "c \<notin> fst ` set plan \<Longrightarrow> msgs_for c plan = []"
  by (auto simp: msgs_for_def filter_empty_conv)

text \<open>
  Sending to open channels never panics. Each channel receives a subsequence of the messages
  planned for it, in order; channels outside the plan are untouched.
\<close>

definition delivered :: "(chid \<times> evmsg) list \<Rightarrow> 'z disp_scheme \<Rightarrow> 'z disp_scheme \<Rightarrow> bool" where
  "delivered plan ed ed' \<longleftrightarrow>
     chans_only ed ed' \<and> open_in (chans ed') = open_in (chans ed)
     \<and> (\<forall>c. \<exists>ms. subseq ms (msgs_for c plan) \<and> ch_sent (chans ed' c) = ch_sent (chans ed c) @ ms)
     \<and> (\<forall>c. c \<notin> fst ` set plan \<longrightarrow> chans ed' c = chans ed c)"

definition delivered_all :: "(chid \<times> evmsg) list \<Rightarrow> 'z disp_scheme \<Rightarrow> 'z disp_scheme \<Rightarrow> bool" where
  "delivered_all plan ed ed' \<longleftrightarrow>
     chans_only ed ed' \<and> open_in (chans ed') = open_in (chans ed)
     \<and> (\<forall>c. ch_sent (chans ed' c) = ch_sent (chans ed c) @ msgs_for c plan)"

lemma delivered_Nil: "delivered [] ed ed"
  by (simp add: delivered_def)

lemma delivered_Cons:
  assumes "delivered [(c, m)] ed ed1" and "delivered plan ed1 ed2"
  shows "delivered ((c, m) # plan) ed ed2"
  unfolding delivered_def
proof (intro conjI allI impI)
  show "chans_only ed ed2" "open_in (chans ed2) = open_in (chans ed)"
    using assms by (auto simp: delivered_def intro: chans_only_trans)
next
  fix d
  obtain ms where ms: "subseq ms (msgs_for d [(c, m)])" "ch_sent (chans ed1 d) = ch_sent (chans ed d) @ ms"
    using assms(1) unfolding delivered_def by blast
  obtain ns where ns: "subseq ns (msgs_for d plan)" "ch_sent (chans ed2 d) = ch_sent (chans ed1 d) @ ns"
    using assms(2) unfolding delivered_def by blast
  have "subseq (ms @ ns) (msgs_for d [(c, m)] @ msgs_for d plan)"
    using ms(1) ns(1) by (rule list_emb_append_mono)
  moreover have "msgs_for d ((c, m) # plan) = msgs_for d [(c, m)] @ msgs_for d plan"
    by simp
  ultimately show "\<exists>ms. subseq ms (msgs_for d ((c, m) # plan))
      \<and> ch_sent (chans ed2 d) = ch_sent (chans ed d) @ ms"
    using ms(2) ns(2) by (metis append.assoc)
next
  fix d
  assume "d \<notin> fst ` set ((c, m) # plan)"
  then show "chans ed2 d = chans ed d" using assms by (simp add: delivered_def)
qed

lemma publish_delivered:
  assumes "open_in (chans ed) c"
  shows "wp (publish m c ed) (\<lambda>ed'. delivered [(c, m)] ed ed')"
  using heap_deliver_open [OF assms, of "eventConsumerTimeout (d_params ed)" m]
  by (cases "heap_deliver (eventConsumerTimeout (d_params ed)) m c (chans ed)")
    (auto simp: publish_def delivered_def intro: exI [of _ "[]"] exI [of _ "[m]"])

lemma publish_all_delivered:
  assumes "\<forall>c \<in> fst ` set plan. open_in (chans ed) c"
  shows "wp (publish_all plan ed) (\<lambda>ed'. delivered plan ed ed')"
  using assms
proof (induction plan arbitrary: ed)
  case Nil
  then show ?case by (simp add: delivered_Nil)
next
  case (Cons p plan)
  obtain c m where p: "p = (c, m)" by (cases p)
  have "wp (publish m c ed) (\<lambda>ed'. delivered [(c, m)] ed ed')"
    using Cons.prems p by (intro publish_delivered) simp
  then show ?case
    unfolding p publish_all_simps wp_obind
  proof (rule wp_mono)
    fix ed1
    assume d: "delivered [(c, m)] ed ed1"
    then have "wp (publish_all plan ed1) (\<lambda>ed'. delivered plan ed1 ed')"
      using Cons.prems by (intro Cons.IH) (simp add: delivered_def)
    then show "wp (publish_all plan ed1) (\<lambda>ed'. delivered ((c, m) # plan) ed ed')"
      by (rule wp_mono) (rule delivered_Cons [OF d])
  qed
qed

text \<open>Where every consumer keeps reading and the dispatcher waits for it, nothing is lost.\<close>

definition all_alive :: "(chid \<times> evmsg) list \<Rightarrow> 'z disp_scheme \<Rightarrow> bool" where
  "all_alive plan ed \<longleftrightarrow>
     (\<forall>c \<in> fst ` set plan. open_in (chans ed) c
        \<and> alive (eventConsumerTimeout (d_params ed)) (chans ed c))"

lemma publish_delivered_all:
  assumes "open_in (chans ed) c" and "alive (eventConsumerTimeout (d_params ed)) (chans ed c)"
  shows "twp (publish m c ed) (\<lambda>ed'. delivered_all [(c, m)] ed ed'
     \<and> (\<forall>d. ch_recv (chans ed' d) = ch_recv (chans ed d)))"
  using heap_deliver_can_take [OF assms(1) alive_can_take [OF assms(2)], of m]
  by (cases "heap_deliver (eventConsumerTimeout (d_params ed)) m c (chans ed)")
    (auto simp: publish_def delivered_all_def dest: heap_deliver_recv)

lemma publish_all_delivered_all:
  assumes "all_alive plan ed"
  shows "twp (publish_all plan ed) (\<lambda>ed'. delivered_all plan ed ed')"
  using assms
proof (induction plan arbitrary: ed)
  case Nil
  then show ?case by (simp add: delivered_all_def)
next
  case (Cons p plan)
  obtain c m where p: "p = (c, m)" by (cases p)
  have "twp (publish m c ed) (\<lambda>ed'. delivered_all [(c, m)] ed ed'
      \<and> (\<forall>d. ch_recv (chans ed' d) = ch_recv (chans ed d)))"
    using Cons.prems p by (intro publish_delivered_all) (simp_all add: all_alive_def)
  then show ?case
    unfolding p publish_all_simps twp_obind
  proof (rule twp_mono)
    fix ed1
    assume d: "delivered_all [(c, m)] ed ed1 \<and> (\<forall>d. ch_recv (chans ed1 d) = ch_recv (chans ed d))"
    then have "all_alive plan ed1"
      using Cons.prems by (auto simp: all_alive_def delivered_all_def alive_def chans_only_def)
    then have "twp (publish_all plan ed1) (\<lambda>ed'. delivered_all plan ed1 ed')"
      by (rule Cons.IH)
    then show "twp (publish_all plan ed1) (\<lambda>ed'. delivered_all ((c, m) # plan) ed ed')"
      by (rule twp_mono) (use d in \<open>auto simp: delivered_all_def intro: chans_only_trans\<close>)
  qed
qed

end
