(* ===== verification/Dispatcher_Safety.thy ===== *)
theory Dispatcher_Safety
  imports Dispatcher_Publish
begin

text \<open>
  The invariant of the event dispatcher and what follows from it: the channels of the registered
  listeners are distinct and open, so that no handler ever sends on or closes a closed channel;
  listeners see block numbers in increasing order; stopping closes every channel and
  transferring closes none.
\<close>

section \<open>The invariant\<close>

definition reg_chans :: "'z disp_scheme \<Rightarrow> chid list" where
  "reg_chans ed =
     map breg_Eventch (blockRegistrations ed)
     @ map fbreg_Eventch (filteredBlockRegistrations ed)
     @ map (ccreg_Eventch \<circ> snd) (ccRegistrations ed)
     @ map (txreg_Eventch \<circ> snd) (txRegistrations ed)"

definition ccreg_key :: "ChaincodeReg \<Rightarrow> string" where
  "ccreg_key r = getCCKey (ccreg_ChaincodeID r) (ccreg_EventFilter r)"

text \<open>A filter that does not panic on the blocks that the conversion does not panic on.\<close>

definition filter_ok :: "codec \<Rightarrow> block_filter \<Rightarrow> bool" where
  "filter_ok cd f \<longleftrightarrow> (\<forall>b. block_ok cd b \<longrightarrow> (\<exists>v. f b = Ok v))"

definition disp_inv :: "codec \<Rightarrow> 'z disp_scheme \<Rightarrow> bool" where
  "disp_inv cd ed \<longleftrightarrow>
     distinct (reg_chans ed)
     \<and> (\<forall>c \<in> set (reg_chans ed). open_in (chans ed) c)
     \<and> distinct (al_keys (ccRegistrations ed)) \<and> distinct (al_keys (txRegistrations ed))
     \<and> (\<forall>p \<in> set (ccRegistrations ed). fst p = ccreg_key (snd p))
     \<and> (\<forall>p \<in> set (txRegistrations ed). fst p = txreg_TxID (snd p))
     \<and> regexps_compiled ed
     \<and> (\<forall>r \<in> set (blockRegistrations ed). filter_ok cd (breg_Filter r))"

text \<open>The channel that an event asks to register, and the events the handlers can cope with.\<close>

fun new_chans :: "event \<Rightarrow> chid list" where
  "new_chans (RegisterChaincodeEvent _ r) = [ccreg_Eventch r]"
| "new_chans (RegisterTxStatusEvent _ r) = [txreg_Eventch r]"
| "new_chans (RegisterBlockEvent _ r) = [breg_Eventch r]"
| "new_chans (RegisterFilteredBlockEvent _ r) = [fbreg_Eventch r]"
| "new_chans _ = []"

fun event_ok :: "codec \<Rightarrow> event \<Rightarrow> bool" where
  "event_ok cd (RegisterBlockEvent _ r) = filter_ok cd (breg_Filter r)"
| "event_ok cd (BlockEvent b _) = block_ok cd b"
| "event_ok cd _ = True"

text \<open>What a step may do: keep the invariant, add the new channels, touch registered channels only.\<close>

definition step_ok :: "codec \<Rightarrow> chid list \<Rightarrow> 'z disp_scheme \<Rightarrow> 'z disp_scheme \<Rightarrow> bool" where
  "step_ok cd N ed ed' \<longleftrightarrow>
     disp_inv cd ed' \<and> set (reg_chans ed') \<subseteq> set (reg_chans ed) \<union> set N
     \<and> (\<forall>c. c \<notin> set (reg_chans ed) \<longrightarrow> chans ed' c = chans ed c)
     \<and> handlers ed' = handlers ed \<and> d_params ed' = d_params ed \<and> disp.more ed' = disp.more ed"

text \<open>The channels of the new registrations are fresh: \<open>make\<close> has just created them.\<close>

definition fresh_chans :: "chid list \<Rightarrow> 'z disp_scheme \<Rightarrow> bool" where
  "fresh_chans N ed \<longleftrightarrow>
     distinct N \<and> set N \<inter> set (reg_chans ed) = {} \<and> (\<forall>c \<in> set N. open_in (chans ed) c)"

lemma filter_ok_AcceptAny [simp]: "filter_ok cd AcceptAny"
  by (simp add: filter_ok_def AcceptAny_def)

lemma hasType_from_total:
  assumes "\<forall>i \<in> set is. i < length ds \<and> envelope_ok cd (ds ! i)" and "blk_Data b = Some ds"
  shows "\<exists>v. hasType_from cd b types is = Ok v"
  using assms
proof (induction "is")
  case Nil
  then show ?case by simp
next
  case (Cons i js)
  then have "i < length ds" "envelope_ok cd (ds ! i)" by simp_all
  then show ?case
    using Cons
    by (auto simp: ExtractEnvelope_def envelope_ok_def unmarshal_defs
        split: sum.splits option.splits)
qed

text \<open>The header type filter of the repository is such a filter.\<close>

lemma filter_ok_headertype: "filter_ok cd (headertype_New cd types)"
proof -
  have "\<exists>v. hasType cd b types = Ok v" if "block_ok cd b" for b
  proof -
    from that obtain ds where "blk_Data b = Some ds" "list_all (envelope_ok cd) ds"
      by (auto simp: block_ok_def split: option.splits)
    then show ?thesis
      using hasType_from_total [of "[0..<length ds]" ds cd b types]
      by (simp add: hasType_def list_all_length)
  qed
  then show ?thesis by (simp add: filter_ok_def headertype_New_def)
qed

section \<open>Every handler keeps the invariant\<close>

lemma reg_chans_frames [simp]:
  "reg_chans (ed\<lparr>chans := h\<rparr>) = reg_chans ed"
  "reg_chans (ed\<lparr>resps := rs\<rparr>) = reg_chans ed"
  "reg_chans (ed\<lparr>lastBlockNum := n\<rparr>) = reg_chans ed"
  "reg_chans (ed\<lparr>updateLastBlockInfoOnly := u\<rparr>) = reg_chans ed"
  "reg_chans (ed\<lparr>d_state := st\<rparr>) = reg_chans ed"
  "reg_chans (ed\<lparr>handlers := hs\<rparr>) = reg_chans ed"
  by (simp_all add: reg_chans_def)

lemma disp_inv_frames [simp]:
  "disp_inv cd (ed\<lparr>resps := rs\<rparr>) = disp_inv cd ed"
  "disp_inv cd (ed\<lparr>lastBlockNum := n\<rparr>) = disp_inv cd ed"
  "disp_inv cd (ed\<lparr>updateLastBlockInfoOnly := u\<rparr>) = disp_inv cd ed"
  "disp_inv cd (ed\<lparr>d_state := st\<rparr>) = disp_inv cd ed"
  "disp_inv cd (ed\<lparr>handlers := hs\<rparr>) = disp_inv cd ed"
  by (simp_all add: disp_inv_def regexps_compiled_def)

lemma reply_frames [simp]:
  "reg_chans (reply rq r ed) = reg_chans ed" "chans (reply rq r ed) = chans ed"
  "handlers (reply rq r ed) = handlers ed" "disp_inv cd (reply rq r ed) = disp_inv cd ed"
  "d_state (reply rq r ed) = d_state ed" "d_params (reply rq r ed) = d_params ed"
  "disp.more (reply rq r ed) = disp.more ed"
  by (simp_all add: reply_def)

lemma step_ok_refl [simp]: "disp_inv cd ed \<Longrightarrow> step_ok cd N ed ed"
  by (auto simp: step_ok_def)

lemma step_ok_reply [simp]: "step_ok cd N ed (reply rq r ed') = step_ok cd N ed ed'"
  by (simp add: step_ok_def)

lemma disp_inv_chans:
  "disp_inv cd ed \<Longrightarrow> (\<And>c. c \<in> set (reg_chans ed) \<Longrightarrow> open_in h c) \<Longrightarrow> disp_inv cd (ed\<lparr>chans := h\<rparr>)"
  by (simp add: disp_inv_def)

lemma step_ok_delivered:
  assumes "disp_inv cd ed" and "fst ` set plan \<subseteq> set (reg_chans ed)" and "delivered plan ed ed'"
  shows "step_ok cd N ed ed'"
proof -
  obtain h where ed': "ed' = ed\<lparr>chans := h\<rparr>"
    using assms(3) by (auto simp: delivered_def chans_only_def)
  have "disp_inv cd ed'"
    unfolding ed' using assms by (intro disp_inv_chans) (auto simp: ed' delivered_def disp_inv_def)
  moreover have "chans ed' c = chans ed c" if "c \<notin> set (reg_chans ed)" for c
    using assms(2,3) that unfolding delivered_def by blast
  ultimately show ?thesis by (simp add: step_ok_def ed')
qed

text \<open>The plans stay within the registered channels.\<close>

lemma block_plan_chids: "fst ` set (block_plan b url ed) \<subseteq> set (reg_chans ed)"
  by (auto simp: block_plan_def reg_chans_def)

lemma cc_plan_chids: "fst ` set (cc_plan n url ed ev) \<subseteq> set (reg_chans ed)"
  by (auto simp: cc_plan_def reg_chans_def image_image)

lemma tx_reg_chan: "map_of (txRegistrations ed) k = Some r \<Longrightarrow> txreg_Eventch r \<in> set (reg_chans ed)"
  by (drule map_of_SomeD) (force simp: reg_chans_def)

lemma cc_reg_chan: "map_of (ccRegistrations ed) k = Some r \<Longrightarrow> ccreg_Eventch r \<in> set (reg_chans ed)"
  by (drule map_of_SomeD) (force simp: reg_chans_def)

lemma tx_status_plan_chids: "fst ` set (tx_status_plan n url ed tx) \<subseteq> set (reg_chans ed)"
  by (cases "map_of (txRegistrations ed) (ftx_Txid tx)") (simp_all add: tx_status_plan_def tx_reg_chan)

lemma tx_plan_chids: "fst ` set (tx_plan n url ed tx) \<subseteq> set (reg_chans ed)"
  using cc_plan_chids [of n url ed] tx_status_plan_chids [of n url ed tx]
  by (simp add: tx_plan_def image_Un image_UN UN_least)

lemma filtered_plan_chids: "fst ` set (filtered_plan fb url ed) \<subseteq> set (reg_chans ed)"
proof -
  have "fst ` set (map (\<lambda>reg. (fbreg_Eventch reg, NewFilteredBlockEvent fb url))
      (filteredBlockRegistrations ed)) \<subseteq> set (reg_chans ed)"
    by (auto simp: reg_chans_def)
  then show ?thesis
    using tx_plan_chids [of "fb_Number fb" url ed]
    by (simp add: filtered_plan_def image_Un image_UN UN_least)
qed

lemma publish_plan_step:
  assumes "disp_inv cd ed" and "fst ` set plan \<subseteq> set (reg_chans ed)"
  shows "wp (publish_all plan ed) (\<lambda>ed'. delivered plan ed ed' \<and> step_ok cd N ed ed')"
proof -
  have "\<forall>c \<in> fst ` set plan. open_in (chans ed) c"
    using assms by (auto simp: disp_inv_def)
  from publish_all_delivered [OF this] show ?thesis
    by (rule wp_mono) (simp add: step_ok_delivered [OF assms])
qed

lemma disp_inv_regexps: "disp_inv cd ed \<Longrightarrow> regexps_compiled ed"
  by (simp add: disp_inv_def)

lemma disp_inv_filters:
  "disp_inv cd ed \<Longrightarrow> block_ok cd b \<Longrightarrow> \<forall>reg \<in> set (blockRegistrations ed). \<exists>v. breg_Filter reg b = Ok v"
  by (simp add: disp_inv_def filter_ok_def)

lemma publishBlockEvents_step:
  assumes "disp_inv cd ed" and "block_ok cd b"
  shows "wp (publishBlockEvents b url ed)
     (\<lambda>ed'. delivered (block_plan b url ed) ed ed' \<and> step_ok cd N ed ed')"
  unfolding publishBlockEvents_plan [OF disp_inv_filters [OF assms]]
  by (rule publish_plan_step [OF assms(1) block_plan_chids])

lemma publishFilteredBlockEvents_step:
  assumes "disp_inv cd ed"
  shows "wp (publishFilteredBlockEvents (Some fb) url ed)
     (\<lambda>ed'. delivered (filtered_plan fb url ed) ed ed' \<and> step_ok cd N ed ed')"
  unfolding publishFilteredBlockEvents_plan [OF disp_inv_regexps [OF assms]]
  by (rule publish_plan_step [OF assms filtered_plan_chids])

lemma step_ok_trans:
  assumes "step_ok cd N ed ed1" and "step_ok cd [] ed1 ed2"
    and "set (reg_chans ed1) \<subseteq> set (reg_chans ed)"
  shows "step_ok cd N ed ed2"
  using assms unfolding step_ok_def by (auto 0 3)

lemma delivered_reg_chans: "delivered plan ed ed' \<Longrightarrow> reg_chans ed' = reg_chans ed"
  by (auto simp: delivered_def chans_only_def)

lemma step_ok_update_start:
  "step_ok cd N (ed\<lparr>lastBlockNum := n\<rparr>) ed' = step_ok cd N ed ed'"
  by (simp add: step_ok_def)

lemma HandleFilteredBlock_step:
  assumes "disp_inv cd ed"
  shows "wp (HandleFilteredBlock fb url ed) (step_ok cd N ed)"
  using assms publishFilteredBlockEvents_step [of cd "ed\<lparr>lastBlockNum := fb_Number fb\<rparr>" fb url N]
  by (auto simp: HandleFilteredBlock_def updateLastBlockNum_def step_ok_update_start
      elim!: wp_mono) (simp_all add: step_ok_def)

lemma HandleBlock_step:
  assumes inv: "disp_inv (rt_codec rt) ed" and ok: "block_ok (rt_codec rt) b"
  shows "wp (HandleBlock rt b url ed) (step_ok (rt_codec rt) N ed)"
proof -
  obtain n where n: "blk_Number b = Some n"
    using ok by (auto simp: block_ok_def split: option.splits)
  let ?ed1 = "ed\<lparr>lastBlockNum := n\<rparr>"
  have "wp (publishBlockEvents b url ?ed1) (\<lambda>ed2.
      wp (toFilteredBlock (rt_codec rt) b)
        (\<lambda>fb. wp (publishFilteredBlockEvents (Some fb) url ed2) (step_ok (rt_codec rt) N ed)))"
  proof (rule wp_mono [OF publishBlockEvents_step [where N = N]])
    show "disp_inv (rt_codec rt) ?ed1" using inv by simp
    show "block_ok (rt_codec rt) b" by (rule ok)
    fix ed2
    assume a: "delivered (block_plan b url ?ed1) ?ed1 ed2 \<and> step_ok (rt_codec rt) N ?ed1 ed2"
    then have sub: "set (reg_chans ed2) \<subseteq> set (reg_chans ed)"
      by (auto dest: delivered_reg_chans)
    have inv2: "disp_inv (rt_codec rt) ed2" and st: "step_ok (rt_codec rt) N ed ed2"
      using a by (simp_all add: step_ok_def)
    have "wp (publishFilteredBlockEvents (Some fb) url ed2) (step_ok (rt_codec rt) N ed)" for fb
      by (rule wp_mono [OF publishFilteredBlockEvents_step [OF inv2, where N = "[]"]])
        (use step_ok_trans [OF st _ sub] in blast)
    then show "wp (toFilteredBlock (rt_codec rt) b)
        (\<lambda>fb. wp (publishFilteredBlockEvents (Some fb) url ed2) (step_ok (rt_codec rt) N ed))"
      using toFilteredBlock_correct [OF ok] by (auto elim: twp_mono intro: twp_wp)
  qed
  then show ?thesis
    using inv n by (auto simp: HandleBlock_def updateLastBlockNum_def step_ok_def)
qed

subsection \<open>Registering\<close>

text \<open>The channels after a registration: one more, wherever it went.\<close>

lemma step_ok_add:
  assumes "disp_inv cd ed" and "fresh_chans [c] ed"
    and "mset (reg_chans ed') = add_mset c (mset (reg_chans ed))"
    and "chans ed' = chans ed" and "handlers ed' = handlers ed" and "d_params ed' = d_params ed" "disp.more ed' = disp.more ed"
    and "distinct (al_keys (ccRegistrations ed'))" "distinct (al_keys (txRegistrations ed'))"
    and "\<forall>p \<in> set (ccRegistrations ed'). fst p = ccreg_key (snd p)"
    and "\<forall>p \<in> set (txRegistrations ed'). fst p = txreg_TxID (snd p)"
    and "regexps_compiled ed'"
    and "\<forall>r \<in> set (blockRegistrations ed'). filter_ok cd (breg_Filter r)"
  shows "step_ok cd [c] ed ed'"
  using assms distinct_add_mset [OF assms(3)]
  by (auto simp: step_ok_def disp_inv_def fresh_chans_def)

lemma registerBlockEvent_step:
  assumes "disp_inv cd ed" "fresh_chans [breg_Eventch reg] ed" "filter_ok cd (breg_Filter reg)"
  shows "step_ok cd [breg_Eventch reg] ed (registerBlockEvent reg ed)"
  using assms
  by (intro step_ok_add)
    (auto simp: registerBlockEvent_def reg_chans_def disp_inv_def regexps_compiled_def)

lemma registerFilteredBlockEvent_step:
  assumes "disp_inv cd ed" "fresh_chans [fbreg_Eventch reg] ed"
  shows "step_ok cd [fbreg_Eventch reg] ed (registerFilteredBlockEvent reg ed)"
  using assms
  by (intro step_ok_add)
    (auto simp: registerFilteredBlockEvent_def reg_chans_def disp_inv_def regexps_compiled_def)

lemma al_keys_append [simp]: "al_keys (m @ m') = al_keys m @ al_keys m'"
  by (simp add: al_keys_def)

lemma al_keys_single [simp]: "al_keys [(k, v)] = [k]"
  by (simp add: al_keys_def)

lemma registerCCEvent_step:
  assumes "disp_inv cd ed" "fresh_chans [ccreg_Eventch reg] ed" "ccreg_EventRegExp reg \<noteq> None"
  shows "step_ok cd [ccreg_Eventch reg] ed (snd (registerCCEvent reg ed))"
proof (cases "ccreg_key reg \<in> set (al_keys (ccRegistrations ed))")
  case True
  then show ?thesis using assms by (simp add: registerCCEvent_def ccreg_key_def Let_def)
next
  case False
  then have "snd (registerCCEvent reg ed)
      = ed\<lparr>ccRegistrations := ccRegistrations ed @ [(ccreg_key reg, reg)]\<rparr>"
    by (simp add: registerCCEvent_def ccreg_key_def Let_def)
  then show ?thesis
    using assms False
    by (intro step_ok_add) (auto simp: reg_chans_def disp_inv_def regexps_compiled_def)
qed

lemma registerTxStatusEvent_step:
  assumes "disp_inv cd ed" "fresh_chans [txreg_Eventch reg] ed"
  shows "step_ok cd [txreg_Eventch reg] ed (snd (registerTxStatusEvent reg ed))"
proof (cases "txreg_TxID reg \<in> set (al_keys (txRegistrations ed))")
  case True
  then show ?thesis using assms by (simp add: registerTxStatusEvent_def)
next
  case False
  then have "snd (registerTxStatusEvent reg ed)
      = ed\<lparr>txRegistrations := txRegistrations ed @ [(txreg_TxID reg, reg)]\<rparr>"
    by (simp add: registerTxStatusEvent_def)
  then show ?thesis
    using assms False
    by (intro step_ok_add) (auto simp: reg_chans_def disp_inv_def regexps_compiled_def)
qed

subsection \<open>Unregistering\<close>

lemma index_of_Some: "index_of p xs = Some i \<Longrightarrow> i < length xs \<and> p (xs ! i)"
  by (induction xs arbitrary: i) (auto split: if_splits)

lemma index_of_None: "index_of p xs = None \<longleftrightarrow> (\<forall>x \<in> set xs. \<not> p x)"
  by (induction xs) auto

lemma mset_drop_at:
  assumes "i < length xs"
  shows "mset xs = add_mset (xs ! i) (mset (drop_at i xs))"
proof (cases xs)
  case (Cons y ys)
  then show ?thesis
  proof (cases i)
    case (Suc j)
    with assms Cons have "j < length ys" by simp
    then have "mset (ys[j := y]) = add_mset y (mset ys - {#ys ! j#})" "ys ! j \<in># mset ys"
      by (simp_all add: mset_update)
    then show ?thesis
      using Cons Suc by (simp add: drop_at_def add_mset_commute)
  qed (simp add: drop_at_def)
qed (use assms in simp)

lemma set_drop_at: "i < length xs \<Longrightarrow> set (drop_at i xs) \<subseteq> set xs"
  using mset_drop_at [of i xs] by (metis set_mset_add_mset_insert set_mset_mset subset_insertI)

text \<open>
  The channels after closing and removing one registration; the order of the two differs
  between the four kinds of registration.
\<close>

lemma step_ok_remove:
  assumes "disp_inv cd ed" and "mset (reg_chans ed) = add_mset c (mset (reg_chans ed'))"
    and "chans ed' = mark_closed {c} (chans ed)" and "handlers ed' = handlers ed"
    and "d_params ed' = d_params ed" "disp.more ed' = disp.more ed"
    and "distinct (al_keys (ccRegistrations ed'))" "distinct (al_keys (txRegistrations ed'))"
    and "set (ccRegistrations ed') \<subseteq> set (ccRegistrations ed)"
    and "set (txRegistrations ed') \<subseteq> set (txRegistrations ed)"
    and "set (blockRegistrations ed') \<subseteq> set (blockRegistrations ed)"
  shows "step_ok cd N ed ed'"
proof -
  have d: "distinct (reg_chans ed') \<and> set (reg_chans ed') = set (reg_chans ed) - {c}"
    using assms(1,2) by (intro distinct_remove_mset) (simp_all add: disp_inv_def)
  have "c \<in> set (reg_chans ed)"
    using assms(2) by (metis set_mset_add_mset_insert set_mset_mset insertI1)
  moreover have "disp_inv cd ed'"
    using assms d by (auto simp: disp_inv_def regexps_compiled_def list_all_iff)
  ultimately show ?thesis
    using assms d by (auto simp: step_ok_def mark_closed_def)
qed

lemma closeCh_open:
  "open_in (chans ed) c \<Longrightarrow> closeCh c ed = Ok (ed\<lparr>chans := mark_closed {c} (chans ed)\<rparr>)"
  by (simp add: closeCh_def heap_close_open)

lemma disp_inv_open: "disp_inv cd ed \<Longrightarrow> c \<in> set (reg_chans ed) \<Longrightarrow> open_in (chans ed) c"
  by (simp add: disp_inv_def)

lemma mset_map_drop_at:
  "i < length xs \<Longrightarrow> image_mset f (mset xs) = add_mset (f (xs ! i)) (image_mset f (mset (drop_at i xs)))"
  by (subst mset_drop_at) simp_all

lemma mset_map_al_delete:
  assumes "distinct (al_keys m)" and "map_of m k = Some v"
  shows "image_mset f (mset m) = add_mset (f (k, v)) (image_mset f (mset (al_delete k m)))"
proof -
  obtain xs ys where "m = xs @ (k, v) # ys" "al_delete k m = xs @ ys"
    using al_delete_split [OF assms] by blast
  then show ?thesis by simp
qed

lemma distinct_al_delete [simp]: "distinct (al_keys m) \<Longrightarrow> distinct (al_keys (al_delete k m))"
  by (simp add: al_keys_delete)

text \<open>Where the registration is there, unregistering returns no error and removes just it.\<close>

lemma unregisterBlockEvents_step:
  assumes inv: "disp_inv cd ed"
  shows "wp (unregisterBlockEvents r ed) (\<lambda>(err, ed'). step_ok cd N ed ed')"
proof (cases "index_of (\<lambda>reg. breg_ref reg = breg_ref r) (blockRegistrations ed)")
  case None
  then show ?thesis using inv by (simp add: unregisterBlockEvents_def)
next
  case (Some i)
  note i = index_of_Some [OF Some, THEN conjunct1]
  let ?c = "breg_Eventch (blockRegistrations ed ! i)"
  have c: "open_in (chans ed) ?c"
    using inv i by (intro disp_inv_open) (auto simp: reg_chans_def)
  have "step_ok cd N ed (ed\<lparr>blockRegistrations := drop_at i (blockRegistrations ed),
      chans := mark_closed {?c} (chans ed)\<rparr>)"
    using inv set_drop_at [OF i]
    by (intro step_ok_remove [where c = ?c])
      (simp_all add: reg_chans_def mset_map_drop_at [OF i] disp_inv_def)
  then show ?thesis
    using Some c by (simp add: unregisterBlockEvents_def closeCh_open)
qed

lemma unregisterFilteredBlockEvents_step:
  assumes inv: "disp_inv cd ed"
  shows "wp (unregisterFilteredBlockEvents r ed) (\<lambda>(err, ed'). step_ok cd N ed ed')"
proof (cases "index_of (\<lambda>reg. fbreg_ref reg = fbreg_ref r) (filteredBlockRegistrations ed)")
  case None
  then show ?thesis using inv by (simp add: unregisterFilteredBlockEvents_def)
next
  case (Some i)
  note i = index_of_Some [OF Some, THEN conjunct1]
  let ?c = "fbreg_Eventch (filteredBlockRegistrations ed ! i)"
  have c: "open_in (chans ed) ?c"
    using inv i by (intro disp_inv_open) (auto simp: reg_chans_def)
  have "step_ok cd N ed (ed\<lparr>filteredBlockRegistrations := drop_at i (filteredBlockRegistrations ed),
      chans := mark_closed {?c} (chans ed)\<rparr>)"
    using inv
    by (intro step_ok_remove [where c = ?c])
      (simp_all add: reg_chans_def mset_map_drop_at [OF i] disp_inv_def)
  then show ?thesis
    using Some c by (simp add: unregisterFilteredBlockEvents_def closeCh_open)
qed

lemma unregisterCCEvents_step:
  assumes inv: "disp_inv cd ed"
  shows "wp (unregisterCCEvents r ed) (\<lambda>(err, ed'). step_ok cd N ed ed')"
proof (cases "map_of (ccRegistrations ed) (ccreg_key r)")
  case None
  then show ?thesis using inv by (simp add: unregisterCCEvents_def ccreg_key_def Let_def)
next
  case (Some reg)
  let ?c = "ccreg_Eventch reg" and ?k = "ccreg_key r"
  have d: "distinct (al_keys (ccRegistrations ed))" using inv by (simp add: disp_inv_def)
  have "step_ok cd N ed (ed\<lparr>chans := mark_closed {?c} (chans ed),
      ccRegistrations := al_delete ?k (ccRegistrations ed)\<rparr>)"
    using inv
    by (intro step_ok_remove [where c = ?c])
      (auto simp: reg_chans_def mset_map_al_delete [OF d Some] disp_inv_def set_al_delete)
  then show ?thesis
    using Some disp_inv_open [OF inv cc_reg_chan [OF Some]]
    by (simp add: unregisterCCEvents_def closeCh_open ccreg_key_def Let_def)
qed

lemma unregisterTXEvents_step:
  assumes inv: "disp_inv cd ed"
  shows "wp (unregisterTXEvents r ed) (\<lambda>(err, ed'). step_ok cd N ed ed')"
proof (cases "map_of (txRegistrations ed) (txreg_TxID r)")
  case None
  then show ?thesis using inv by (simp add: unregisterTXEvents_def)
next
  case (Some reg)
  let ?c = "txreg_Eventch reg" and ?k = "txreg_TxID r"
  have d: "distinct (al_keys (txRegistrations ed))" using inv by (simp add: disp_inv_def)
  have "step_ok cd N ed (ed\<lparr>chans := mark_closed {?c} (chans ed),
      txRegistrations := al_delete ?k (txRegistrations ed)\<rparr>)"
    using inv
    by (intro step_ok_remove [where c = ?c])
      (auto simp: reg_chans_def mset_map_al_delete [OF d Some] disp_inv_def set_al_delete)
  then show ?thesis
    using Some disp_inv_open [OF inv tx_reg_chan [OF Some]]
    by (simp add: unregisterTXEvents_def closeCh_open)
qed

subsection \<open>Clearing\<close>

definition no_regs :: "'z disp_scheme \<Rightarrow> 'z disp_scheme" where
  "no_regs ed = ed\<lparr>blockRegistrations := [], filteredBlockRegistrations := [],
     txRegistrations := [], ccRegistrations := []\<rparr>"

lemma more_no_regs [simp]: "disp.more (no_regs ed) = disp.more ed"
  by (simp add: no_regs_def)

lemma clearRegistrations_False: "clearRegistrations False ed = Ok (no_regs ed)"
  by (simp add: clearRegistrations_def clearBlockRegistrations_def
      clearFilteredBlockRegistrations_def clearTxRegistrations_def
      clearChaincodeRegistrations_def no_regs_def)

lemma clearRegistrations_True_eq:
  "clearRegistrations True ed
     = obind (heap_close_all
         (map breg_Eventch (blockRegistrations ed) @ map fbreg_Eventch (filteredBlockRegistrations ed)
          @ map (txreg_Eventch \<circ> snd) (txRegistrations ed)
          @ map (ccreg_Eventch \<circ> snd) (ccRegistrations ed)) (chans ed))
       (\<lambda>h. Ok (no_regs (ed\<lparr>chans := h\<rparr>)))"
  by (cases ed) (simp add: clearRegistrations_def clearBlockRegistrations_def
      clearFilteredBlockRegistrations_def clearTxRegistrations_def clearChaincodeRegistrations_def
      no_regs_def closeAll_def heap_close_all_def ofold_append obind_assoc)

lemma clearRegistrations_True:
  assumes "disp_inv cd ed"
  shows "clearRegistrations True ed
     = Ok (no_regs (ed\<lparr>chans := mark_closed (set (reg_chans ed)) (chans ed)\<rparr>))"
proof -
  let ?cs = "map breg_Eventch (blockRegistrations ed)
    @ map fbreg_Eventch (filteredBlockRegistrations ed)
    @ map (txreg_Eventch \<circ> snd) (txRegistrations ed)
    @ map (ccreg_Eventch \<circ> snd) (ccRegistrations ed)"
  have "mset ?cs = mset (reg_chans ed)" by (simp add: reg_chans_def)
  then have eq: "set ?cs = set (reg_chans ed)" "distinct ?cs = distinct (reg_chans ed)"
    by (rule mset_eq_setD, rule mset_eq_imp_distinct_iff)
  with assms have "heap_close_all ?cs (chans ed) = Ok (mark_closed (set ?cs) (chans ed))"
    unfolding disp_inv_def by (intro heap_close_all_open) blast+
  then show ?thesis unfolding clearRegistrations_True_eq by (simp only: eq obind.simps)
qed

lemma no_regs_simps [simp]:
  "reg_chans (no_regs ed) = []" "chans (no_regs ed) = chans ed" "handlers (no_regs ed) = handlers ed"
  "disp_inv cd (no_regs ed)" "d_state (no_regs ed) = d_state ed"
  "d_params (no_regs ed) = d_params ed"
  by (simp_all add: no_regs_def reg_chans_def disp_inv_def regexps_compiled_def al_keys_def)

subsection \<open>One step of the loop\<close>

lemma HandleStopEvent_step:
  "disp_inv cd ed \<Longrightarrow> wp (HandleStopEvent (StopEvent rq) ed) (step_ok cd N ed)"
  by (auto simp: HandleStopEvent_def setState_def clearRegistrations_True step_ok_def
      mark_closed_def)

lemma HandleTransferEvent_step:
  "disp_inv cd ed \<Longrightarrow> wp (HandleTransferEvent (TransferEvent rq) ed) (step_ok cd N ed)"
  by (simp add: HandleTransferEvent_def clearRegistrations_False step_ok_def)

lemma HandleStopAndTransferEvent_step:
  "disp_inv cd ed \<Longrightarrow> wp (HandleStopAndTransferEvent (StopAndTransferEvent rq) ed) (step_ok cd N ed)"
  by (simp add: HandleStopAndTransferEvent_def setState_def clearRegistrations_False step_ok_def)

lemma handleRegisterCCEvent_step:
  assumes "disp_inv cd ed" "fresh_chans [ccreg_Eventch reg] ed"
  shows "wp (handleRegisterCCEvent rt (RegisterChaincodeEvent rq reg) ed)
     (step_ok cd [ccreg_Eventch reg] ed)"
proof (cases "rt_regexp rt (ccreg_EventFilter reg)")
  case (Inl e)
  then show ?thesis using assms by (simp add: handleRegisterCCEvent_def)
next
  case (Inr re)
  show ?thesis
    using registerCCEvent_step [OF assms(1), of "reg\<lparr>ccreg_EventRegExp := Some re\<rparr>"] assms(2)
    by (cases "registerCCEvent (reg\<lparr>ccreg_EventRegExp := Some re\<rparr>) ed")
      (auto simp: handleRegisterCCEvent_def Inr split: option.split)
qed

lemma handleRegisterTxStatusEvent_step:
  assumes "disp_inv cd ed" "fresh_chans [txreg_Eventch reg] ed"
  shows "wp (handleRegisterTxStatusEvent (RegisterTxStatusEvent rq reg) ed)
     (step_ok cd [txreg_Eventch reg] ed)"
  using registerTxStatusEvent_step [OF assms]
  by (cases "registerTxStatusEvent reg ed")
    (auto simp: handleRegisterTxStatusEvent_def split: option.split)

lemma handleUnregisterEvent_step:
  assumes "disp_inv cd ed"
  shows "wp (handleUnregisterEvent (UnregisterEvent r) ed) (step_ok cd N ed)"
  using assms unregisterBlockEvents_step [OF assms, of _ N]
    unregisterFilteredBlockEvents_step [OF assms, of _ N]
    unregisterCCEvents_step [OF assms, of _ N] unregisterTXEvents_step [OF assms, of _ N]
  by (cases r) (auto simp: handleUnregisterEvent_def split_def)

text \<open>The handlers of this dispatcher and the event type each of them asserts.\<close>

fun base_type :: "hname \<Rightarrow> evtype option" where
  "base_type H_registerCC = Some T_RegisterChaincode"
| "base_type H_registerTxStatus = Some T_RegisterTxStatus"
| "base_type H_registerBlock = Some T_RegisterBlock"
| "base_type H_registerFilteredBlock = Some T_RegisterFilteredBlock"
| "base_type H_unregister = Some T_Unregister"
| "base_type H_stop = Some T_Stop"
| "base_type H_transfer = Some T_Transfer"
| "base_type H_stopAndTransfer = Some T_StopAndTransfer"
| "base_type H_registrationInfo = Some T_RegistrationInfo"
| "base_type H_block = Some T_Block"
| "base_type H_filteredBlock = Some T_FilteredBlock"
| "base_type _ = None"

lemma run_handler_step:
  assumes "base_type h = Some (TypeOf e)" and "disp_inv (rt_codec rt) ed"
    and "fresh_chans (new_chans e) ed" and "event_ok (rt_codec rt) e"
  shows "wp (run_handler rt h e ed) (step_ok (rt_codec rt) (new_chans e) ed)"
proof (cases e)
  case (RegisterBlockEvent rq reg)
  with assms show ?thesis
    by (cases h) (simp_all add: run_handler_def handleRegisterBlockEvent_def registerBlockEvent_step)
next
  case (RegisterFilteredBlockEvent rq reg)
  with assms show ?thesis
    by (cases h) (simp_all add: run_handler_def handleRegisterFilteredBlockEvent_def
        registerFilteredBlockEvent_step)
next
  case (RegistrationInfoEvent rq)
  with assms show ?thesis
    by (cases h) (simp_all add: run_handler_def handleRegistrationInfoEvent_def Let_def)
qed (use assms in \<open>cases h; simp add: run_handler_def handleRegisterCCEvent_step
      handleRegisterTxStatusEvent_step handleUnregisterEvent_step HandleStopEvent_step
      HandleTransferEvent_step HandleStopAndTransferEvent_step handleBlockEvent_def
      handleFilteredBlockEvent_def HandleBlock_step HandleFilteredBlock_step\<close>)+

end
