(* ===== verification/Dispatcher_Properties.thy ===== *)
theory Dispatcher_Properties
  imports Dispatcher_Safety
begin

text \<open>
  The properties of the event dispatcher over whole runs of its loop: no run panics, block
  numbers reach every listener in order, a block is delivered to exactly the registrations that
  asked for it, unregistering and stopping close what they must, and a snapshot carries all
  registrations over to a new dispatcher.
\<close>

section \<open>Runs of the loop\<close>

definition handlers_base :: "'z disp_scheme \<Rightarrow> bool" where
  "handlers_base ed \<longleftrightarrow> (\<forall>t h. handlers ed t = Some h \<longrightarrow> base_type h = Some t)"

definition events_chans :: "event list \<Rightarrow> chid list" where
  "events_chans es = concat (map new_chans es)"

lemma dispatch_step:
  assumes "disp_inv (rt_codec rt) ed" "handlers_base ed" "fresh_chans (new_chans e) ed"
    and "event_ok (rt_codec rt) e"
  shows "wp (dispatch (run_handler rt) e ed) (step_ok (rt_codec rt) (new_chans e) ed)"
  using assms
  by (cases "handlers ed (TypeOf e)") (auto simp: dispatch_def handlers_base_def intro: run_handler_step)

lemma fresh_chans_append:
  "fresh_chans (M @ N) ed \<Longrightarrow> fresh_chans M ed"
  by (auto simp: fresh_chans_def)

lemma fresh_chans_step:
  assumes "fresh_chans (M @ N) ed" and "step_ok cd M ed ed'"
  shows "fresh_chans N ed'"
proof -
  have "open_in (chans ed') c" if "c \<in> set N" for c
    using assms that by (auto simp: fresh_chans_def step_ok_def open_in_def)
  then show ?thesis using assms by (auto simp: fresh_chans_def step_ok_def)
qed

lemma dispatch_loop_step:
  assumes "disp_inv (rt_codec rt) ed" "handlers_base ed" "fresh_chans (events_chans es) ed"
    and "list_all (event_ok (rt_codec rt)) es"
  shows "wp (dispatch_loop (run_handler rt) es ed)
     (\<lambda>ed'. disp_inv (rt_codec rt) ed' \<and> handlers ed' = handlers ed)"
  using assms
proof (induction es arbitrary: ed)
  case Nil
  then show ?case by simp
next
  case (Cons e es)
  have fr: "fresh_chans (new_chans e @ events_chans es) ed"
    using Cons.prems by (simp add: events_chans_def)
  have "wp (dispatch (run_handler rt) e ed) (step_ok (rt_codec rt) (new_chans e) ed)"
    using Cons.prems fr by (intro dispatch_step) (auto intro: fresh_chans_append)
  then have "wp (obind (dispatch (run_handler rt) e ed) (dispatch_loop (run_handler rt) es))
      (\<lambda>ed'. disp_inv (rt_codec rt) ed' \<and> handlers ed' = handlers ed)"
    unfolding wp_obind
  proof (rule wp_mono)
    fix ed1
    assume st: "step_ok (rt_codec rt) (new_chans e) ed ed1"
    have "wp (dispatch_loop (run_handler rt) es ed1)
        (\<lambda>ed'. disp_inv (rt_codec rt) ed' \<and> handlers ed' = handlers ed1)"
      using Cons.prems st
      by (intro Cons.IH fresh_chans_step [OF fr st]) (simp_all add: step_ok_def handlers_base_def)
    then show "wp (dispatch_loop (run_handler rt) es ed1)
        (\<lambda>ed'. disp_inv (rt_codec rt) ed' \<and> handlers ed' = handlers ed)"
      using st by (simp add: step_ok_def)
  qed
  then show ?case using Cons.prems by simp
qed

section \<open>Start\<close>

text \<open>The handlers of a dispatcher that has just been started.\<close>

lemma RegisterHandlers_base:
  "handlers ed = Map.empty \<Longrightarrow> handlers_base (RegisterHandlers ed)"
  by (auto simp: RegisterHandlers_def RegisterHandler_def handlers_base_def split: if_splits)

lemma RegisterHandlers_frame:
  "handlers ed = Map.empty \<Longrightarrow> \<exists>hs. RegisterHandlers ed = ed\<lparr>handlers := hs\<rparr>"
  by (auto simp: RegisterHandlers_def RegisterHandler_def)

lemma fold_registerBlockEvent:
  "fold registerBlockEvent rs ed = ed\<lparr>blockRegistrations := blockRegistrations ed @ rs\<rparr>"
  by (induction rs arbitrary: ed) (simp_all add: registerBlockEvent_def)

lemma fold_registerFilteredBlockEvent:
  "fold registerFilteredBlockEvent rs ed
     = ed\<lparr>filteredBlockRegistrations := filteredBlockRegistrations ed @ rs\<rparr>"
  by (induction rs arbitrary: ed) (simp_all add: registerFilteredBlockEvent_def)

lemma register_until_err_cc:
  assumes "distinct (al_keys (ccRegistrations ed) @ map ccreg_key rs)"
  shows "register_until_err registerCCEvent rs ed
     = (None, ed\<lparr>ccRegistrations := ccRegistrations ed @ map (\<lambda>r. (ccreg_key r, r)) rs\<rparr>)"
  using assms
proof (induction rs arbitrary: ed)
  case Nil
  then show ?case by simp
next
  case (Cons r rs)
  then show ?case
    by (simp add: registerCCEvent_def ccreg_key_def [symmetric] Let_def)
qed

lemma register_until_err_tx:
  assumes "distinct (al_keys (txRegistrations ed) @ map txreg_TxID rs)"
  shows "register_until_err registerTxStatusEvent rs ed
     = (None, ed\<lparr>txRegistrations := txRegistrations ed @ map (\<lambda>r. (txreg_TxID r, r)) rs\<rparr>)"
  using assms
proof (induction rs arbitrary: ed)
  case Nil
  then show ?case by simp
next
  case (Cons r rs)
  then show ?case by (simp add: registerTxStatusEvent_def)
qed

text \<open>Starting a new dispatcher on the registrations of a snapshot of a good dispatcher.\<close>

definition snapshot_ok :: "snapshot \<Rightarrow> bool" where
  "snapshot_ok s \<longleftrightarrow>
     distinct (map ccreg_key (sn_ccRegistrations s))
     \<and> distinct (map txreg_TxID (sn_txStatusRegistrations s))"

lemma pairs_of_keys: "\<forall>p \<in> set m. fst p = f (snd p) \<Longrightarrow> map (\<lambda>r. (f r, r)) (map snd m) = m"
  by (induction m) auto

lemma newSnapshot_ok: "disp_inv cd ed \<Longrightarrow> snapshot_ok (newSnapshot ed)"
proof -
  assume inv: "disp_inv cd ed"
  have "map ccreg_key (map snd (ccRegistrations ed)) = al_keys (ccRegistrations ed)"
    "map txreg_TxID (map snd (txRegistrations ed)) = al_keys (txRegistrations ed)"
    using inv by (auto simp: disp_inv_def al_keys_def)
  then show ?thesis using inv by (simp add: snapshot_ok_def newSnapshot_def disp_inv_def)
qed

lemma initRegistrations_snapshot:
  assumes "snapshot_ok s" and "d_params ed = WithSnapshot s p"
    and "blockRegistrations ed = []" "filteredBlockRegistrations ed = []"
    and "ccRegistrations ed = []" "txRegistrations ed = []"
  shows "initRegistrations ed = (None, ed\<lparr>blockRegistrations := sn_blockRegistrations s,
     filteredBlockRegistrations := sn_filteredBlockRegistrations s,
     ccRegistrations := map (\<lambda>r. (ccreg_key r, r)) (sn_ccRegistrations s),
     txRegistrations := map (\<lambda>r. (txreg_TxID r, r)) (sn_txStatusRegistrations s)\<rparr>)"
  using assms
  by (simp add: initRegistrations_def WithSnapshot_eq Let_def fold_registerBlockEvent
      fold_registerFilteredBlockEvent register_until_err_cc register_until_err_tx snapshot_ok_def
      al_keys_def)

lemma Start_snapshot:
  assumes "snapshot_ok s"
  shows "\<exists>hs. Start (dispatcher_New (WithSnapshot s p) h)
    = (None, (dispatcher_New (WithSnapshot s p) h)\<lparr>d_state := StateStarted, handlers := hs,
         lastBlockNum := (if sn_lastBlockReceived s = 0 then MaxUint64 else sn_lastBlockReceived s),
         blockRegistrations := sn_blockRegistrations s,
         filteredBlockRegistrations := sn_filteredBlockRegistrations s,
         ccRegistrations := map (\<lambda>r. (ccreg_key r, r)) (sn_ccRegistrations s),
         txRegistrations := map (\<lambda>r. (txreg_TxID r, r)) (sn_txStatusRegistrations s)\<rparr>)
      \<and> handlers_base ((dispatcher_New (WithSnapshot s p) h)\<lparr>handlers := hs\<rparr>)"
proof -
  let ?n = "dispatcher_New (WithSnapshot s p) h"
  let ?ed = "?n\<lparr>d_state := StateStarted\<rparr>"
  have emp: "handlers ?ed = Map.empty" by (simp add: dispatcher_New_def)
  obtain hs where hs: "RegisterHandlers ?ed = ?ed\<lparr>handlers := hs\<rparr>"
    using RegisterHandlers_frame [OF emp] by blast
  have "handlers_base (?n\<lparr>handlers := hs\<rparr>)"
    using RegisterHandlers_base [OF emp] by (simp add: hs handlers_base_def)
  moreover have "initRegistrations (?ed\<lparr>handlers := hs\<rparr>)
    = (None, ?ed\<lparr>handlers := hs, blockRegistrations := sn_blockRegistrations s,
     filteredBlockRegistrations := sn_filteredBlockRegistrations s,
     ccRegistrations := map (\<lambda>r. (ccreg_key r, r)) (sn_ccRegistrations s),
     txRegistrations := map (\<lambda>r. (txreg_TxID r, r)) (sn_txStatusRegistrations s)\<rparr>)"
    using assms by (subst initRegistrations_snapshot [where p = p])
      (simp_all add: dispatcher_New_def)
  ultimately show ?thesis
    using hs by (auto simp: Start_def setState_def dispatcher_New_def updateLastBlockNum_def
        WithSnapshot_eq word_neq_0_conv [symmetric] intro!: exI [of _ hs])
qed

section \<open>Handling a block is sending its plan\<close>

text \<open>The block is newer than every block seen so far.\<close>

definition newer :: "64 word \<Rightarrow> 'z disp_scheme \<Rightarrow> bool" where
  "newer n ed \<longleftrightarrow> lastBlockNum ed = MaxUint64 \<or> n > lastBlockNum ed"

lemma updateLastBlockNum_newer:
  "newer n ed \<Longrightarrow> updateLastBlockNum n ed = (None, ed\<lparr>lastBlockNum := n\<rparr>)"
  by (simp add: newer_def updateLastBlockNum_def)

lemma updateLastBlockNum_old:
  "\<not> newer n ed \<Longrightarrow> \<exists>err. updateLastBlockNum n ed = (Some err, ed)"
  by (simp add: newer_def updateLastBlockNum_def)

text \<open>The messages for a full block: the block itself, then those of its filtered form.\<close>

definition full_plan ::
  "block \<Rightarrow> filtered_block \<Rightarrow> string \<Rightarrow> 'z disp_scheme \<Rightarrow> (chid \<times> evmsg) list" where
  "full_plan b fb url ed = block_plan b url ed @ filtered_plan fb url ed"

lemma plan_lastBlockNum [simp]:
  "block_plan b url (ed\<lparr>lastBlockNum := n\<rparr>) = block_plan b url ed"
  "filtered_plan fb url (ed\<lparr>lastBlockNum := n\<rparr>) = filtered_plan fb url ed"
  by (simp_all add: block_plan_def filtered_plan_def tx_plan_def [abs_def] tx_status_plan_def
      cc_plan_def [abs_def])

lemma full_plan_chids: "fst ` set (full_plan b fb url ed) \<subseteq> set (reg_chans ed)"
  using block_plan_chids [of b url ed] filtered_plan_chids [of fb url ed]
  by (simp add: full_plan_def image_Un)

lemma HandleFilteredBlock_plan:
  assumes "regexps_compiled ed" "newer (fb_Number fb) ed" "\<not> updateLastBlockInfoOnly ed"
  shows "HandleFilteredBlock fb url ed
     = publish_all (filtered_plan fb url ed) (ed\<lparr>lastBlockNum := fb_Number fb\<rparr>)"
  using assms publishFilteredBlockEvents_plan [of "ed\<lparr>lastBlockNum := fb_Number fb\<rparr>" fb url]
  by (simp add: HandleFilteredBlock_def updateLastBlockNum_newer regexps_compiled_def)

lemma HandleBlock_plan_filters:
  assumes inv: "disp_inv (rt_codec rt) ed" and fl: "\<forall>reg \<in> set (blockRegistrations ed). \<exists>v. breg_Filter reg b = Ok v"
    and n: "blk_Number b = Some n" and nw: "newer n ed" and nf: "\<not> updateLastBlockInfoOnly ed"
    and fb: "toFilteredBlock (rt_codec rt) b = Ok fb"
  shows "HandleBlock rt b url ed = publish_all (full_plan b fb url ed) (ed\<lparr>lastBlockNum := n\<rparr>)"
proof -
  let ?ed1 = "ed\<lparr>lastBlockNum := n\<rparr>"
  have "\<forall>reg \<in> set (blockRegistrations ?ed1). \<exists>v. breg_Filter reg b = Ok v" using fl by simp
  from publishBlockEvents_plan [OF this, of url]
  have pb: "publishBlockEvents b url ?ed1 = publish_all (block_plan b url ed) ?ed1" by simp
  have pf: "publishFilteredBlockEvents (Some fb) url ed2 = publish_all (filtered_plan fb url ed) ed2"
    if "chans_only ?ed1 ed2" for ed2
  proof -
    from that obtain h where h: "ed2 = ?ed1\<lparr>chans := h\<rparr>" by (auto simp: chans_only_def)
    have "regexps_compiled ed2" using inv by (simp add: h disp_inv_def regexps_compiled_def)
    from publishFilteredBlockEvents_plan [OF this, of fb url] show ?thesis
      by (simp add: h)
  qed
  have "HandleBlock rt b url ed
      = obind (publish_all (block_plan b url ed) ?ed1) (publishFilteredBlockEvents (Some fb) url)"
    using n nf fb by (simp add: HandleBlock_def updateLastBlockNum_newer [OF nw] pb)
  also have "\<dots> = obind (publish_all (block_plan b url ed) ?ed1) (publish_all (filtered_plan fb url ed))"
    by (rule obind_cong) (simp add: pf publish_all_chans_only)
  finally show ?thesis by (simp add: full_plan_def publish_all_append)
qed

lemma HandleBlock_plan:
  assumes "disp_inv (rt_codec rt) ed" "block_ok (rt_codec rt) b" "blk_Number b = Some n" "newer n ed"
    "\<not> updateLastBlockInfoOnly ed" "toFilteredBlock (rt_codec rt) b = Ok fb"
  shows "HandleBlock rt b url ed = publish_all (full_plan b fb url ed) (ed\<lparr>lastBlockNum := n\<rparr>)"
  by (rule HandleBlock_plan_filters [OF assms(1) disp_inv_filters [OF assms(1,2)] assms(3-6)])

text \<open>A block that has been handled: its filters have returned, and it could be converted.\<close>

lemma ofold_guard_Ok:
  "ofold (\<lambda>x s. obind (g x) (\<lambda>v. h x v s)) xs s = Ok s' \<Longrightarrow> x \<in> set xs \<Longrightarrow> \<exists>v. g x = Ok v"
  by (induction xs arbitrary: s) (auto simp: obind_eq_Ok)

lemma publishBlockEvents_filters:
  assumes "publishBlockEvents b url ed = Ok ed'" "reg \<in> set (blockRegistrations ed)"
  shows "\<exists>v. breg_Filter reg b = Ok v"
  by (rule ofold_guard_Ok [OF assms(1) [unfolded publishBlockEvents_def] assms(2)])

lemma toFilteredBlock_number: "toFilteredBlock cd b = Ok fb \<Longrightarrow> blk_Number b = Some (fb_Number fb)"
  by (auto simp: toFilteredBlock_def obind_eq_Ok split: option.splits if_splits)

lemma HandleBlock_delivered:
  assumes inv: "disp_inv (rt_codec rt) ed" and n: "blk_Number b = Some n" and nw: "newer n ed"
    and nf: "\<not> updateLastBlockInfoOnly ed" and ok: "HandleBlock rt b url ed = Ok ed'"
  obtains fb where "fb_Number fb = n" "delivered (full_plan b fb url ed) (ed\<lparr>lastBlockNum := n\<rparr>) ed'"
    "step_ok (rt_codec rt) [] (ed\<lparr>lastBlockNum := n\<rparr>) ed'"
proof -
  let ?ed1 = "ed\<lparr>lastBlockNum := n\<rparr>"
  have "obind (publishBlockEvents b url ?ed1) (\<lambda>ed2. obind (toFilteredBlock (rt_codec rt) b)
      (\<lambda>fb. publishFilteredBlockEvents (Some fb) url ed2)) = Ok ed'"
    using ok n nf by (simp add: HandleBlock_def updateLastBlockNum_newer [OF nw])
  then obtain ed2 fb where e: "publishBlockEvents b url ?ed1 = Ok ed2" "toFilteredBlock (rt_codec rt) b = Ok fb"
    unfolding obind_eq_Ok by blast
  have fl: "\<forall>reg \<in> set (blockRegistrations ed). \<exists>v. breg_Filter reg b = Ok v"
    using publishBlockEvents_filters [OF e(1)] by simp
  have "publish_all (full_plan b fb url ed) ?ed1 = Ok ed'"
    using HandleBlock_plan_filters [OF inv fl n nw nf e(2)] ok by simp
  moreover have "disp_inv (rt_codec rt) ?ed1" "fst ` set (full_plan b fb url ed) \<subseteq> set (reg_chans ?ed1)"
    using inv full_plan_chids [of b fb url ed] by simp_all
  note publish_plan_step [OF this, of "[]"]
  ultimately have "delivered (full_plan b fb url ed) ?ed1 ed' \<and> step_ok (rt_codec rt) [] ?ed1 ed'" by simp
  moreover have "fb_Number fb = n" using toFilteredBlock_number [OF e(2)] n by simp
  ultimately show ?thesis using that by blast
qed

lemma toFilteredBlock_Ok:
  assumes "block_ok cd b"
  obtains fb where "toFilteredBlock cd b = Ok fb" "blk_Number b = Some (fb_Number fb)"
  using toFilteredBlock_correct [OF assms] by (cases "toFilteredBlock cd b") auto

section \<open>The order of block numbers\<close>

primrec msg_block :: "evmsg \<Rightarrow> 64 word option" where
  "msg_block (MBlock b _) = blk_Number b"
| "msg_block (MFiltered fb _) = Some (fb_Number fb)"
| "msg_block (MCC e) = Some (cce_BlockNumber e)"
| "msg_block (MTx e) = Some (txe_BlockNumber e)"
| "msg_block (MConn _ _) = None"

primrec is_block_msg :: "evmsg \<Rightarrow> bool" where
  "is_block_msg (MBlock _ _) = True"
| "is_block_msg (MFiltered _ _) = True"
| "is_block_msg (MCC _) = False"
| "is_block_msg (MTx _) = False"
| "is_block_msg (MConn _ _) = False"

definition block_nums :: "evmsg list \<Rightarrow> 64 word list" where
  "block_nums ms = List.map_filter msg_block ms"

text \<open>
  What a listener has been sent so far: block numbers never decrease, the blocks themselves have
  strictly increasing numbers, and nothing is newer than the last block the dispatcher has seen.
\<close>

definition chan_ordered :: "64 word \<Rightarrow> evmsg list \<Rightarrow> bool" where
  "chan_ordered lst ms \<longleftrightarrow>
     sorted (block_nums ms) \<and> sorted_wrt (<) (block_nums (filter is_block_msg ms))
     \<and> (\<forall>n \<in> set (block_nums ms). lst \<noteq> MaxUint64 \<and> n \<le> lst)"

definition blocks_ordered :: "'z disp_scheme \<Rightarrow> bool" where
  "blocks_ordered ed \<longleftrightarrow> (\<forall>c. chan_ordered (lastBlockNum ed) (ch_sent (chans ed c)))"

lemma block_nums_simps [simp]:
  "block_nums [] = []"
  "block_nums (ms @ ns) = block_nums ms @ block_nums ns"
  by (simp_all add: block_nums_def List.map_filter_def)

lemma block_nums_replicate:
  "\<forall>m \<in> set ms. msg_block m = Some n \<Longrightarrow> block_nums ms = replicate (length ms) n"
  by (induction ms) (simp_all add: block_nums_def List.map_filter_simps)

lemma chan_ordered_append:
  assumes "chan_ordered lst ms" and "lst = MaxUint64 \<or> lst < n" and "n \<noteq> MaxUint64"
    and "\<forall>m \<in> set ns. msg_block m = Some n" and "length (filter is_block_msg ns) \<le> 1"
  shows "chan_ordered n (ms @ ns)"
proof -
  have old: "\<forall>k \<in> set (block_nums ms). k < n"
    using assms(1,2) by (auto simp: chan_ordered_def)
  have sub: "set (block_nums (filter is_block_msg ms)) \<subseteq> set (block_nums ms)"
    by (auto simp: block_nums_def List.map_filter_def)
  have nums: "block_nums ns = replicate (length ns) n"
    "block_nums (filter is_block_msg ns) = replicate (length (filter is_block_msg ns)) n"
    using assms(4) by (simp_all add: block_nums_replicate)
  have one: "sorted_wrt (<) (block_nums (filter is_block_msg ns))"
    using assms(5) by (cases "filter is_block_msg ns")
      (auto simp: block_nums_def List.map_filter_simps split: option.split)
  show ?thesis
    using assms(1,3) old sub one nums
    by (auto simp: chan_ordered_def sorted_append sorted_wrt_append less_imp_le)
qed

lemma chan_ordered_refl_last:
  "chan_ordered lst ms \<Longrightarrow> lst = MaxUint64 \<or> lst < n \<Longrightarrow> n \<noteq> MaxUint64 \<Longrightarrow> chan_ordered n ms"
  using chan_ordered_append [of lst ms n "[]"] by simp

text \<open>The messages of a plan are all of the one block, and at most one of them is the block.\<close>

lemma filtered_plan_block: "\<forall>m \<in> snd ` set (filtered_plan fb url ed). msg_block m = Some (fb_Number fb)"
  by (auto simp: filtered_plan_def tx_plan_def tx_status_plan_def cc_plan_def NewFilteredBlockEvent_def
      NewTxStatusEvent_def NewChaincodeEvent_def split: option.splits)

lemma block_plan_block: "blk_Number b = Some n \<Longrightarrow> \<forall>m \<in> snd ` set (block_plan b url ed). msg_block m = Some n"
  by (auto simp: block_plan_def NewBlockEvent_def)

text \<open>A channel is planned a block message at most once: it has one registration.\<close>

lemma block_msgs_nil: "\<forall>p \<in> set plan. \<not> is_block_msg (snd p) \<Longrightarrow> filter is_block_msg (msgs_for c plan) = []"
  by (auto simp: msgs_for_def filter_empty_conv)

lemma tx_plan_no_block: "\<forall>p \<in> set (tx_plan n url ed tx). \<not> is_block_msg (snd p)"
  by (auto simp: tx_plan_def tx_status_plan_def cc_plan_def NewTxStatusEvent_def
      NewChaincodeEvent_def split: option.splits)

lemma msgs_for_single:
  assumes "distinct (map f rs)"
  shows "length (msgs_for c (map (\<lambda>r. (f r, m)) rs)) \<le> 1"
    and "c \<notin> set (map f rs) \<Longrightarrow> msgs_for c (map (\<lambda>r. (f r, m)) rs) = []"
  using assms by (induction rs) (auto simp: image_iff)

lemma block_msgs_once:
  assumes "disp_inv cd ed"
  shows "length (filter is_block_msg (msgs_for c (full_plan b fb url ed))) \<le> 1"
proof -
  let ?B = "map (\<lambda>r. (breg_Eventch r, NewBlockEvent b url))
    (filter (\<lambda>reg. breg_Filter reg b = Ok True) (blockRegistrations ed))"
  let ?F = "map (\<lambda>r. (fbreg_Eventch r, NewFilteredBlockEvent fb url)) (filteredBlockRegistrations ed)"
  have d: "distinct (map breg_Eventch (blockRegistrations ed))"
    "distinct (map fbreg_Eventch (filteredBlockRegistrations ed))"
    "set (map breg_Eventch (blockRegistrations ed))
       \<inter> set (map fbreg_Eventch (filteredBlockRegistrations ed)) = {}"
    using assms by (auto simp: disp_inv_def reg_chans_def)
  have dB: "distinct (map breg_Eventch (filter (\<lambda>reg. breg_Filter reg b = Ok True) (blockRegistrations ed)))"
    using d(1) by (rule distinct_map_filter)
  have "filter is_block_msg (msgs_for c (full_plan b fb url ed))
      = filter is_block_msg (msgs_for c ?B @ msgs_for c ?F)"
    using block_msgs_nil [of "concat (map (tx_plan (fb_Number fb) url ed) (fb_Txs fb))" c] tx_plan_no_block
    by (simp add: full_plan_def block_plan_def filtered_plan_def) blast
  also have "length \<dots> \<le> length (msgs_for c ?B @ msgs_for c ?F)" by (rule length_filter_le)
  also have "\<dots> \<le> 1"
  proof (cases "c \<in> set (map breg_Eventch (blockRegistrations ed))")
    case True
    then have "msgs_for c ?F = []" using d by (intro msgs_for_single) auto
    then show ?thesis using msgs_for_single(1) [OF dB] by simp
  next
    case False
    then have "msgs_for c ?B = []" using dB by (intro msgs_for_single) auto
    then show ?thesis using msgs_for_single(1) [OF d(2)] by simp
  qed
  finally show ?thesis .
qed

lemma set_subseq: "subseq xs ys \<Longrightarrow> set xs \<subseteq> set ys"
  by (metis notin_set_nthsI subseq_conv_nths subsetI)

lemma blocks_ordered_delivered:
  assumes "disp_inv cd ed" "blocks_ordered ed" "newer n ed" "n \<noteq> MaxUint64"
    and "delivered plan (ed\<lparr>lastBlockNum := n\<rparr>) ed'"
    and "\<forall>m \<in> snd ` set plan. msg_block m = Some n"
    and "\<forall>c. length (filter is_block_msg (msgs_for c plan)) \<le> 1"
  shows "blocks_ordered ed' \<and> lastBlockNum ed' = n"
proof -
  have l: "lastBlockNum ed' = n"
    using assms(5) by (auto simp: delivered_def chans_only_def)
  have "chan_ordered n (ch_sent (chans ed' c))" for c
  proof -
    obtain ms where ms: "subseq ms (msgs_for c plan)" "ch_sent (chans ed' c) = ch_sent (chans ed c) @ ms"
      using assms(5) by (auto simp: delivered_def)
    have "set (msgs_for c plan) \<subseteq> snd ` set plan" by (auto simp: msgs_for_def)
    then have "\<forall>m \<in> set ms. msg_block m = Some n"
      using set_subseq [OF ms(1)] assms(6) by blast
    moreover have "length (filter is_block_msg ms) \<le> 1"
      using subseq_filter [OF ms(1), of is_block_msg] assms(7)
      by (meson list_emb_length order_trans)
    ultimately show ?thesis
      unfolding ms(2) using assms(2-4)
      by (intro chan_ordered_append [of "lastBlockNum ed"]) (auto simp: blocks_ordered_def newer_def)
  qed
  then show ?thesis by (simp add: blocks_ordered_def l)
qed

text \<open>A step that sends nothing.\<close>

definition quiet :: "'z disp_scheme \<Rightarrow> 'z disp_scheme \<Rightarrow> bool" where
  "quiet ed ed' \<longleftrightarrow>
     lastBlockNum ed' = lastBlockNum ed \<and> (\<forall>c. ch_sent (chans ed' c) = ch_sent (chans ed c))"

lemma quiet_ordered: "quiet ed ed' \<Longrightarrow> blocks_ordered ed \<Longrightarrow> blocks_ordered ed'"
  by (simp add: quiet_def blocks_ordered_def)

lemma quiet_intros [simp]:
  "quiet ed ed"
  "quiet ed (reply rq r ed') = quiet ed ed'"
  "quiet ed (no_regs ed') = quiet ed ed'"
  by (simp_all add: quiet_def reply_def no_regs_def)

lemma heap_close_sent: "heap_close c h = Ok h' \<Longrightarrow> ch_sent (h' d) = ch_sent (h d)"
  by (auto simp: heap_close_def ch_close_def obind_eq_Ok split: if_splits)

lemma heap_close_all_sent: "heap_close_all cs h = Ok h' \<Longrightarrow> ch_sent (h' d) = ch_sent (h d)"
  by (induction cs arbitrary: h) (auto simp: heap_close_all_def obind_eq_Ok heap_close_sent)

lemma closeCh_quiet: "closeCh c ed = Ok ed' \<Longrightarrow> quiet ed ed'"
  by (auto simp: closeCh_def obind_eq_Ok quiet_def heap_close_sent)

lemma clearRegistrations_quiet: "clearRegistrations b ed = Ok ed' \<Longrightarrow> quiet ed ed'"
  by (cases b) (auto simp: clearRegistrations_True_eq clearRegistrations_False obind_eq_Ok
      quiet_def heap_close_all_sent no_regs_def)

fun is_block_event :: "event \<Rightarrow> bool" where
  "is_block_event (BlockEvent _ _) = True"
| "is_block_event (FilteredBlockEvent _ _) = True"
| "is_block_event _ = False"

lemma unregister_quiet:
  "unregisterBlockEvents r1 ed = Ok (err, ed') \<Longrightarrow> quiet ed ed'"
  "unregisterFilteredBlockEvents r2 ed = Ok (err, ed') \<Longrightarrow> quiet ed ed'"
  "unregisterCCEvents r3 ed = Ok (err, ed') \<Longrightarrow> quiet ed ed'"
  "unregisterTXEvents r4 ed = Ok (err, ed') \<Longrightarrow> quiet ed ed'"
  by (auto simp: unregisterBlockEvents_def unregisterFilteredBlockEvents_def unregisterCCEvents_def
      unregisterTXEvents_def obind_eq_Ok Let_def quiet_def dest!: closeCh_quiet split: option.splits)

lemma register_quiet:
  "registerCCEvent r3 ed = (err, ed') \<Longrightarrow> quiet ed ed'"
  "registerTxStatusEvent r4 ed = (err, ed') \<Longrightarrow> quiet ed ed'"
  by (auto simp: registerCCEvent_def registerTxStatusEvent_def Let_def quiet_def split: if_splits)

lemma simple_handlers_quiet:
  "handleRegisterBlockEvent e ed = Ok ed' \<Longrightarrow> quiet ed ed'"
  "handleRegisterFilteredBlockEvent e ed = Ok ed' \<Longrightarrow> quiet ed ed'"
  "handleRegistrationInfoEvent e ed = Ok ed' \<Longrightarrow> quiet ed ed'"
  by (cases e; auto simp: handleRegisterBlockEvent_def handleRegisterFilteredBlockEvent_def
      handleRegistrationInfoEvent_def registerBlockEvent_def registerFilteredBlockEvent_def
      Let_def quiet_def reply_def)+

lemma register_handlers_quiet:
  "handleRegisterCCEvent rt e ed = Ok ed' \<Longrightarrow> quiet ed ed'"
  "handleRegisterTxStatusEvent e ed = Ok ed' \<Longrightarrow> quiet ed ed'"
  by (cases e; auto simp: handleRegisterCCEvent_def handleRegisterTxStatusEvent_def Let_def
      dest!: register_quiet split: sum.splits prod.splits option.splits)+

lemma unregister_handler_quiet: "handleUnregisterEvent e ed = Ok ed' \<Longrightarrow> quiet ed ed'"
  by (cases e) (auto simp: handleUnregisterEvent_def obind_eq_Ok dest!: unregister_quiet
      split: registration.splits)

lemma stop_handlers_quiet:
  "HandleStopEvent e ed = Ok ed' \<Longrightarrow> quiet ed ed'"
  "HandleTransferEvent e ed = Ok ed' \<Longrightarrow> quiet ed ed'"
  "HandleStopAndTransferEvent e ed = Ok ed' \<Longrightarrow> quiet ed ed'"
  by (cases e; auto simp: HandleStopEvent_def HandleTransferEvent_def
      HandleStopAndTransferEvent_def setState_def obind_eq_Ok quiet_def reply_def
      dest!: clearRegistrations_quiet split: if_splits)+

lemma block_handlers_Panic:
  "\<not> is_block_event e \<Longrightarrow> handleBlockEvent rt e ed = Panic"
  "\<not> is_block_event e \<Longrightarrow> handleFilteredBlockEvent e ed = Panic"
  by (cases e; simp add: handleBlockEvent_def handleFilteredBlockEvent_def)+

lemmas handlers_quiet =
  simple_handlers_quiet register_handlers_quiet unregister_handler_quiet stop_handlers_quiet

lemma handler_quiet:
  assumes "run_handler rt h e ed = Ok ed'" and "\<not> is_block_event e"
  shows "quiet ed ed'"
  using assms by (cases h) (simp_all add: run_handler_def block_handlers_Panic handlers_quiet)

fun event_block :: "event \<Rightarrow> 64 word option" where
  "event_block (BlockEvent b _) = blk_Number b"
| "event_block (FilteredBlockEvent fb _) = Some (fb_Number fb)"
| "event_block _ = None"

end
