(* ===== verification/Dispatcher_Theorems.thy ===== *)
theory Dispatcher_Theorems
  imports Dispatcher_Properties
begin

text \<open>The properties of the event dispatcher, each with a run of the dispatcher as its witness.\<close>

section \<open>An example dispatcher\<close>

text \<open>
  A runtime whose decoders read every envelope as an endorser transaction \<open>tx1\<close> of chaincode
  \<open>cc\<close> that sets the event \<open>ev\<close>, and whose regular expressions match literally.
\<close>

definition ex_runtime :: runtime where
  "ex_runtime = \<lparr>rt_codec = \<lparr>um_Envelope = Inr,
      um_Payload = (\<lambda>b. Inr \<lparr>pl_ChannelHeader = Some [], pl_Data = b\<rparr>),
      um_ChannelHeader = (\<lambda>_. Inr \<lparr>chdr_Type = 3, chdr_ChannelId = ''ch'', chdr_TxId = ''tx1''\<rparr>),
      um_Transaction = (\<lambda>b. Inr [b]), um_CAP = (\<lambda>b. Inr (Some b)), um_PRP = Inr,
      um_ChaincodeAction = Inr,
      um_ChaincodeEvent = (\<lambda>_. Inr \<lparr>ce_ChaincodeId = ''cc'', ce_TxId = ''tx1'',
                                 ce_EventName = ''ev'', ce_Payload = []\<rparr>)\<rparr>,
    rt_regexp = (\<lambda>f. Inr (\<lambda>s. s = f))\<rparr>"

definition ex_block :: "64 word \<Rightarrow> block" where
  "ex_block n = \<lparr>blk_Number = Some n, blk_Data = Some [[1]], blk_Metadata = Some [[], [], [0]]\<rparr>"

definition ex_heap :: "evmsg heap" where
  "ex_heap = (\<lambda>_. \<lparr>ch_cap = 1, ch_buf = [], ch_got = [], ch_closed = False, ch_recv = Slow\<rparr>)"

definition ex_disp :: disp where
  "ex_disp = snd (Start (dispatcher_New defaultParams ex_heap))"

definition ex_breg :: BlockReg where
  "ex_breg = \<lparr>breg_ref = 1, breg_Filter = AcceptAny, breg_Eventch = 1\<rparr>"

definition ex_ccreg :: ChaincodeReg where
  "ex_ccreg = \<lparr>ccreg_ref = 2, ccreg_ChaincodeID = ''cc'', ccreg_EventFilter = ''ev'',
     ccreg_EventRegExp = None, ccreg_Eventch = 2\<rparr>"

definition ex_txreg :: TxStatusReg where
  "ex_txreg = \<lparr>txreg_ref = 3, txreg_TxID = ''tx1'', txreg_Eventch = 3\<rparr>"

text \<open>Two listeners, two blocks (the second one twice), an unregistration, a stop.\<close>

definition ex_run :: "event list" where
  "ex_run = [RegisterBlockEvent 1 ex_breg, RegisterChaincodeEvent 2 ex_ccreg,
     BlockEvent (ex_block 4) ''peer0'', BlockEvent (ex_block 5) ''peer0'',
     BlockEvent (ex_block 5) ''peer1'', UnregisterEvent (RBlock ex_breg), StopEvent 3]"

lemma ex_disp_good:
  "disp_inv cd ex_disp" "handlers_base ex_disp" "d_state ex_disp = StateStarted"
  "reg_chans ex_disp = []" "chans ex_disp = ex_heap" "blocks_ordered ex_disp"
  "updateLastBlockInfoOnly ex_disp = False" "lastBlockNum ex_disp = MaxUint64"
  "d_params ex_disp = defaultParams"
proof -
  let ?s = "\<lparr>sn_lastBlockReceived = 0, sn_blockRegistrations = [], sn_filteredBlockRegistrations = [],
    sn_ccRegistrations = [], sn_txStatusRegistrations = []\<rparr>"
  have p: "WithSnapshot ?s defaultParams = defaultParams" by (simp add: WithSnapshot_eq defaultParams_def)
  have "snapshot_ok ?s" by (simp add: snapshot_ok_def)
  from Start_snapshot [OF this, of defaultParams ex_heap] obtain hs where
    E: "ex_disp = (dispatcher_New defaultParams ex_heap)\<lparr>d_state := StateStarted, handlers := hs\<rparr>"
    and hs: "handlers_base ((dispatcher_New defaultParams ex_heap)\<lparr>handlers := hs\<rparr>)"
    unfolding p ex_disp_def by (auto simp: dispatcher_New_def)
  show "disp_inv cd ex_disp" "handlers_base ex_disp" "d_state ex_disp = StateStarted"
    "reg_chans ex_disp = []" "chans ex_disp = ex_heap" "blocks_ordered ex_disp"
    "updateLastBlockInfoOnly ex_disp = False" "lastBlockNum ex_disp = MaxUint64"
    "d_params ex_disp = defaultParams"
    using hs
    by (simp_all add: E disp_inv_def reg_chans_def dispatcher_New_def al_keys_def regexps_compiled_def
        handlers_base_def blocks_ordered_def chan_ordered_def ex_heap_def ch_sent_def)
qed

lemma ex_block_ok [simp]: "block_ok (rt_codec ex_runtime) (ex_block n)"
  by (simp add: block_ok_def ex_block_def BlockMetadataIndex_TRANSACTIONS_FILTER_def envelope_ok_def
      ex_runtime_def action_ok_def)

lemma ex_run_good:
  "fresh_chans (events_chans ex_run) ex_disp" "list_all (event_ok (rt_codec ex_runtime)) ex_run"
  by (simp_all add: fresh_chans_def events_chans_def ex_run_def ex_disp_good ex_heap_def open_in_def
      ex_breg_def ex_ccreg_def)

section \<open>No run panics\<close>

text \<open>
  C4: On a started dispatcher whose registered channels are distinct and open, no sequence of
  events makes the dispatch loop panic (no send on and no close of a closed channel, no failed
  type assertion, no use of an uncompiled expression), as long as every registration brings a
  fresh channel and the blocks are well formed; the channels of the registrations that are then in
  place are again distinct and open.
\<close>

theorem dispatcher_run_safe:
  assumes "disp_inv (rt_codec rt) ed" "handlers_base ed" "fresh_chans (events_chans es) ed"
    and "list_all (event_ok (rt_codec rt)) es"
  shows "dispatch_loop (run_handler rt) es ed \<noteq> Panic
    \<and> (\<forall>ed'. dispatch_loop (run_handler rt) es ed = Ok ed' \<longrightarrow> disp_inv (rt_codec rt) ed')"
  using dispatch_loop_step [OF assms] by (auto dest: wp_not_Panic)

theorem dispatcher_run_safe_witness:
  "dispatch_loop (run_handler ex_runtime) ex_run ex_disp \<noteq> Panic"
  using dispatcher_run_safe [OF ex_disp_good(1,2) ex_run_good] by blast

section \<open>No run is stuck\<close>

lemma publish_all_not_Blocked:
  assumes "\<forall>c \<in> fst ` set plan. open_in (chans ed) c" and "eventConsumerTimeout (d_params ed) \<noteq> 0"
  shows "publish_all plan ed \<noteq> Blocked"
  using assms
proof (induction plan arbitrary: ed)
  case Nil
  then show ?case by simp
next
  case (Cons p plan)
  obtain c m where p: "p = (c, m)" by (cases p)
  have "twp (heap_deliver (eventConsumerTimeout (d_params ed)) m c (chans ed))
      (\<lambda>h. open_in h = open_in (chans ed))"
    using Cons.prems p by (intro heap_deliver_not_Blocked) simp_all
  then obtain h where "publish m c ed = Ok (ed\<lparr>chans := h\<rparr>)" "open_in h = open_in (chans ed)"
    by (cases "heap_deliver (eventConsumerTimeout (d_params ed)) m c (chans ed)")
      (auto simp: publish_def)
  then show ?case using Cons.prems Cons.IH [of "ed\<lparr>chans := h\<rparr>"] by (simp add: p)
qed

lemma close_not_Blocked [simp]: "heap_close c h \<noteq> Blocked" "heap_close_all cs h \<noteq> Blocked"
proof -
  show c: "heap_close c h \<noteq> Blocked" for c :: chid and h :: "'a heap"
    by (simp add: heap_close_def ch_close_def)
  show "heap_close_all cs h \<noteq> Blocked"
    by (induction cs arbitrary: h) (simp_all add: heap_close_all_def obind_eq_Blocked c)
qed

lemma clearRegistrations_not_Blocked [simp]: "clearRegistrations b ed \<noteq> Blocked"
  by (cases b) (simp_all add: clearRegistrations_True_eq clearRegistrations_False obind_eq_Blocked)

lemma unregister_not_Blocked [simp]:
  "unregisterBlockEvents r1 ed \<noteq> Blocked" "unregisterFilteredBlockEvents r2 ed \<noteq> Blocked"
  "unregisterCCEvents r3 ed \<noteq> Blocked" "unregisterTXEvents r4 ed \<noteq> Blocked"
  by (simp_all add: unregisterBlockEvents_def unregisterFilteredBlockEvents_def
      unregisterCCEvents_def unregisterTXEvents_def closeCh_def obind_eq_Blocked Let_def
      split: option.split)

lemma block_free_handlers_not_Blocked:
  "handleRegisterBlockEvent e ed \<noteq> Blocked" "handleRegisterFilteredBlockEvent e ed \<noteq> Blocked"
  "handleRegistrationInfoEvent e ed \<noteq> Blocked" "handleRegisterCCEvent rt e ed \<noteq> Blocked"
  "handleRegisterTxStatusEvent e ed \<noteq> Blocked" "handleUnregisterEvent e ed \<noteq> Blocked"
  "HandleStopEvent e ed \<noteq> Blocked" "HandleTransferEvent e ed \<noteq> Blocked"
  "HandleStopAndTransferEvent e ed \<noteq> Blocked"
  by (cases e; simp add: handleRegisterBlockEvent_def handleRegisterFilteredBlockEvent_def
      handleRegistrationInfoEvent_def handleRegisterCCEvent_def handleRegisterTxStatusEvent_def
      handleUnregisterEvent_def HandleStopEvent_def HandleTransferEvent_def
      HandleStopAndTransferEvent_def setState_def Let_def obind_eq_Blocked
      split: sum.split prod.split option.split registration.split)+

lemma HandleFilteredBlock_not_Blocked:
  assumes "disp_inv cd ed" "eventConsumerTimeout (d_params ed) \<noteq> 0"
  shows "HandleFilteredBlock fb url ed \<noteq> Blocked"
proof (cases "newer (fb_Number fb) ed \<and> \<not> updateLastBlockInfoOnly ed")
  case True
  have "\<forall>c \<in> fst ` set (filtered_plan fb url ed). open_in (chans ed) c"
    using assms(1) filtered_plan_chids [of fb url ed] by (auto simp: disp_inv_def)
  then show ?thesis
    using HandleFilteredBlock_plan [OF disp_inv_regexps [OF assms(1)], of fb url] True assms(2)
      publish_all_not_Blocked [of "filtered_plan fb url ed" "ed\<lparr>lastBlockNum := fb_Number fb\<rparr>"]
    by simp
next
  case False
  then show ?thesis
    by (auto simp: HandleFilteredBlock_def updateLastBlockNum_def newer_def)
qed

lemma HandleBlock_not_Blocked:
  assumes inv: "disp_inv (rt_codec rt) ed" and ok: "block_ok (rt_codec rt) b"
    and t: "eventConsumerTimeout (d_params ed) \<noteq> 0"
  shows "HandleBlock rt b url ed \<noteq> Blocked"
proof -
  obtain fb where fb: "toFilteredBlock (rt_codec rt) b = Ok fb" and n: "blk_Number b = Some (fb_Number fb)"
    using toFilteredBlock_Ok [OF ok] by blast
  show ?thesis
  proof (cases "newer (fb_Number fb) ed \<and> \<not> updateLastBlockInfoOnly ed")
    case True
    have "\<forall>c \<in> fst ` set (full_plan b fb url ed). open_in (chans ed) c"
      using inv full_plan_chids [of b fb url ed] by (auto simp: disp_inv_def)
    then show ?thesis
      using HandleBlock_plan [OF inv ok n _ _ fb, of url] True t
        publish_all_not_Blocked [of "full_plan b fb url ed" "ed\<lparr>lastBlockNum := fb_Number fb\<rparr>"]
      by simp
  next
    case False
    then show ?thesis
      using n by (auto simp: HandleBlock_def updateLastBlockNum_def newer_def)
  qed
qed

lemma run_handler_not_Blocked:
  assumes "disp_inv (rt_codec rt) ed" "event_ok (rt_codec rt) e" "base_type h = Some (TypeOf e)"
    and "eventConsumerTimeout (d_params ed) \<noteq> 0"
  shows "run_handler rt h e ed \<noteq> Blocked"
proof (cases "is_block_event e")
  case True
  then show ?thesis
    using assms by (cases e; cases h) (auto simp: run_handler_def handleBlockEvent_def
        handleFilteredBlockEvent_def HandleBlock_not_Blocked HandleFilteredBlock_not_Blocked)
next
  case False
  then show ?thesis
    by (cases h) (simp_all add: run_handler_def block_free_handlers_not_Blocked block_handlers_Panic)
qed

lemma dispatch_loop_returns:
  assumes "disp_inv (rt_codec rt) ed" "handlers_base ed" "fresh_chans (events_chans es) ed"
    and "list_all (event_ok (rt_codec rt)) es" "eventConsumerTimeout (d_params ed) \<noteq> 0"
  shows "\<exists>ed'. dispatch_loop (run_handler rt) es ed = Ok ed'"
  using assms
proof (induction es arbitrary: ed)
  case Nil
  then show ?case by simp
next
  case (Cons e es)
  have fr: "fresh_chans (new_chans e @ events_chans es) ed"
    using Cons.prems by (simp add: events_chans_def)
  have st: "wp (dispatch (run_handler rt) e ed) (step_ok (rt_codec rt) (new_chans e) ed)"
    using Cons.prems fr by (intro dispatch_step) (auto intro: fresh_chans_append)
  have "dispatch (run_handler rt) e ed \<noteq> Blocked"
    using Cons.prems run_handler_not_Blocked [of rt ed e]
    by (cases "handlers ed (TypeOf e)") (auto simp: dispatch_def handlers_base_def)
  then obtain ed1 where ed1: "dispatch (run_handler rt) e ed = Ok ed1"
    using st by (cases "dispatch (run_handler rt) e ed") simp_all
  then have s1: "step_ok (rt_codec rt) (new_chans e) ed ed1" using st by simp
  have "\<exists>ed'. dispatch_loop (run_handler rt) es ed1 = Ok ed'"
    using Cons.prems s1
    by (intro Cons.IH fresh_chans_step [OF fr s1]) (simp_all add: step_ok_def handlers_base_def)
  then show ?case using ed1 by simp
qed

text \<open>
  C5: Unless the dispatcher is configured to wait for its consumers (a consumer timeout of 0),
  every run of the dispatch loop over well-formed events comes to its end, whatever the consumers do: a
  consumer that never reads its channel cannot stall the dispatcher. Well-formed events are full blocks whose
  envelopes convert to a filtered block and registrations of a filter that returns on such blocks; the
  dispatcher has been started, its registered channels are distinct and open, and registrations bring fresh
  ones. On a malformed block the loop does not come to its end but panics (\<open>no_actions_panics\<close>).
\<close>

theorem dispatcher_run_returns:
  assumes "disp_inv (rt_codec rt) ed" "handlers_base ed" "fresh_chans (events_chans es) ed"
    and "list_all (event_ok (rt_codec rt)) es" "eventConsumerTimeout (d_params ed) \<noteq> 0"
  shows "\<exists>ed'. dispatch_loop (run_handler rt) es ed = Ok ed'"
  using assms by (rule dispatch_loop_returns)

theorem dispatcher_run_returns_witness:
  "\<exists>ed'. dispatch_loop (run_handler ex_runtime) ex_run ex_disp = Ok ed'"
  using dispatcher_run_returns [OF ex_disp_good(1,2) ex_run_good]
  by (simp add: ex_disp_good defaultParams_def)

section \<open>Blocks arrive in order\<close>

lemma HandleFilteredBlock_ordered:
  assumes "disp_inv cd ed" "blocks_ordered ed" "fb_Number fb \<noteq> MaxUint64"
  shows "wp (HandleFilteredBlock fb url ed) blocks_ordered"
proof (cases "newer (fb_Number fb) ed")
  case False
  then show ?thesis
    using assms updateLastBlockNum_old [OF False] by (auto simp: HandleFilteredBlock_def)
next
  case True
  show ?thesis
  proof (cases "updateLastBlockInfoOnly ed")
    case True': True
    then show ?thesis
      using assms True
      by (auto simp: HandleFilteredBlock_def updateLastBlockNum_newer blocks_ordered_def newer_def
          intro: chan_ordered_refl_last)
  next
    case False
    have "disp_inv cd (ed\<lparr>lastBlockNum := fb_Number fb\<rparr>)" using assms by simp
    from publish_plan_step [OF this, of "filtered_plan fb url ed" "[]"]
    have "wp (HandleFilteredBlock fb url ed)
        (\<lambda>ed'. delivered (filtered_plan fb url ed) (ed\<lparr>lastBlockNum := fb_Number fb\<rparr>) ed')"
      using HandleFilteredBlock_plan [OF disp_inv_regexps [OF assms(1)] True False, of url]
        filtered_plan_chids [of fb url ed] by (auto elim: wp_mono)
    then show ?thesis
    proof (rule wp_mono)
      fix ed'
      assume d: "delivered (filtered_plan fb url ed) (ed\<lparr>lastBlockNum := fb_Number fb\<rparr>) ed'"
      have "length (filter is_block_msg (msgs_for c (filtered_plan fb url ed))) \<le> 1" for c
        using block_msgs_once [OF assms(1), of c undefined fb url]
        by (simp add: full_plan_def)
      then show "blocks_ordered ed'"
        using blocks_ordered_delivered [OF assms(1,2) True assms(3) d filtered_plan_block] by blast
    qed
  qed
qed

lemma HandleBlock_ordered:
  assumes inv: "disp_inv (rt_codec rt) ed" and ok: "HandleBlock rt b url ed = Ok ed'"
    and ord: "blocks_ordered ed" and max: "blk_Number b \<noteq> Some MaxUint64"
  shows "blocks_ordered ed' \<and> step_ok (rt_codec rt) [] ed ed'"
proof -
  obtain n where n: "blk_Number b = Some n" using ok by (cases "blk_Number b") (auto simp: HandleBlock_def)
  show ?thesis
  proof (cases "newer n ed")
    case False
    then show ?thesis using ok ord n inv updateLastBlockNum_old [OF False] by (auto simp: HandleBlock_def)
  next
    case nw: True
    show ?thesis
    proof (cases "updateLastBlockInfoOnly ed")
      case True
      then have ed': "ed' = ed\<lparr>lastBlockNum := n, updateLastBlockInfoOnly := False\<rparr>"
        using ok n nw by (simp add: HandleBlock_def updateLastBlockNum_newer)
      have "n \<noteq> MaxUint64" using max n by blast
      have "chan_ordered n (ch_sent (chans ed c))" for c
      proof (rule chan_ordered_refl_last)
        show "chan_ordered (lastBlockNum ed) (ch_sent (chans ed c))" using ord unfolding blocks_ordered_def by (rule spec)
        show "lastBlockNum ed = MaxUint64 \<or> lastBlockNum ed < n" using nw unfolding newer_def .
      qed (rule \<open>n \<noteq> MaxUint64\<close>)
      then show ?thesis using inv by (simp add: ed' blocks_ordered_def step_ok_def)
    next
      case False
      obtain fb where fb: "fb_Number fb = n" "delivered (full_plan b fb url ed) (ed\<lparr>lastBlockNum := n\<rparr>) ed'"
        "step_ok (rt_codec rt) [] (ed\<lparr>lastBlockNum := n\<rparr>) ed'"
        by (rule HandleBlock_delivered [OF inv n nw False ok])
      have "\<forall>m \<in> snd ` set (full_plan b fb url ed). msg_block m = Some n"
        using filtered_plan_block [of fb url ed] block_plan_block [OF n, of url ed] fb(1)
        by (auto simp: full_plan_def)
      then show ?thesis
        using blocks_ordered_delivered [OF inv ord nw _ fb(2)] block_msgs_once [OF inv] max n fb(3)
        by (auto simp: step_ok_def)
    qed
  qed
qed

text \<open>
  The filters that are registered return on well-formed blocks; this is all that is asked of the events of a run, beside
  their channels. On other blocks a filter or the conversion to a filtered block may panic, which ends the run.
\<close>

fun filters_cope :: "codec \<Rightarrow> event \<Rightarrow> bool" where
  "filters_cope cd (RegisterBlockEvent rq r) \<longleftrightarrow> filter_ok cd (breg_Filter r)"
| "filters_cope cd e \<longleftrightarrow> True"

lemma dispatch_ordered:
  assumes "disp_inv (rt_codec rt) ed" "handlers_base ed" "filters_cope (rt_codec rt) e"
    and "fresh_chans (new_chans e) ed" "blocks_ordered ed" "event_block e \<noteq> Some MaxUint64"
    and ok: "dispatch (run_handler rt) e ed = Ok ed'"
  shows "blocks_ordered ed' \<and> step_ok (rt_codec rt) (new_chans e) ed ed'"
proof (cases "\<exists>b url h. e = BlockEvent b url \<and> handlers ed (TypeOf e) = Some h")
  case True
  then obtain b url h where e: "e = BlockEvent b url" and h: "handlers ed (TypeOf e) = Some h" by blast
  then have "base_type h = Some (TypeOf e)" and run: "run_handler rt h e ed = Ok ed'"
    using assms(2) ok by (auto simp: handlers_base_def dispatch_def)
  then have "HandleBlock rt b url ed = Ok ed'"
    by (cases h) (auto simp: e run_handler_def handleBlockEvent_def)
  from HandleBlock_ordered [OF assms(1) this assms(5)] assms(6) show ?thesis by (simp add: e)
next
  case False
  show ?thesis
  proof (cases "handlers ed (TypeOf e)")
    case None
    then have "ed' = ed" using ok by (simp add: dispatch_def)
    then show ?thesis using assms(1,5) by (simp add: step_ok_def)
  next
    case (Some h)
    then have h: "base_type h = Some (TypeOf e)" and run: "run_handler rt h e ed = Ok ed'"
      using assms(2) ok by (auto simp: handlers_base_def dispatch_def)
    have eo: "event_ok (rt_codec rt) e" using False Some assms(3) by (cases e) auto
    have st: "step_ok (rt_codec rt) (new_chans e) ed ed'"
      using run_handler_step [OF h assms(1,4) eo] run by simp
    have "blocks_ordered ed'"
    proof (cases "is_block_event e")
      case bl: True
      then have "wp (run_handler rt h e ed) blocks_ordered"
        using h False Some assms(1,5,6) HandleFilteredBlock_ordered [of "rt_codec rt" ed]
        by (cases e; cases h) (auto simp: run_handler_def handleFilteredBlockEvent_def)
      then show ?thesis using run by simp
    qed (use quiet_ordered [OF handler_quiet [OF run] assms(5)] in blast)
    then show ?thesis using st by blast
  qed
qed

lemma dispatch_loop_ordered:
  assumes "disp_inv (rt_codec rt) ed" "handlers_base ed" "fresh_chans (events_chans es) ed"
    and "list_all (filters_cope (rt_codec rt)) es" "blocks_ordered ed"
    and "list_all (\<lambda>e. event_block e \<noteq> Some MaxUint64) es"
    and "dispatch_loop (run_handler rt) es ed = Ok ed'"
  shows "blocks_ordered ed'"
  using assms
proof (induction es arbitrary: ed)
  case Nil
  then show ?case by simp
next
  case (Cons e es)
  show ?case
  proof (cases "d_state ed = StateStopped")
    case True
    then show ?thesis using Cons.prems by simp
  next
    case False
    then obtain ed1 where ed1: "dispatch (run_handler rt) e ed = Ok ed1" "dispatch_loop (run_handler rt) es ed1 = Ok ed'"
      using Cons.prems(7) by (auto simp: obind_eq_Ok)
    have fr: "fresh_chans (new_chans e @ events_chans es) ed"
      using Cons.prems(3) by (simp add: events_chans_def)
    have s1: "blocks_ordered ed1" "step_ok (rt_codec rt) (new_chans e) ed ed1"
      using dispatch_ordered [OF Cons.prems(1,2) _ fresh_chans_append [OF fr] Cons.prems(5) _ ed1(1)] Cons.prems(4,6)
      by simp_all
    show ?thesis
      by (rule Cons.IH [OF _ _ fresh_chans_step [OF fr s1(2)] _ s1(1) _ ed1(2)])
        (use Cons.prems s1 in \<open>simp_all add: step_ok_def handlers_base_def\<close>)
  qed
qed

text \<open>
  C2: Whatever blocks the peers send, malformed ones and ones that come twice or out of order included, and wherever a
  run of the dispatcher has got to: every listener's channel has been sent events whose block numbers never decrease and
  blocks whose numbers strictly increase, none newer than the last block number the dispatcher has recorded. The run
  starts from distinct, open channels on which this holds, registrations bring fresh channels and filters that return on
  well-formed blocks; a malformed block that makes a filter or the conversion panic ends the run, so that the
  statement is about the runs without it. The block number \<open>MaxUint64\<close>, which the code uses for ``none yet'', is
  excluded.
\<close>

theorem blocks_arrive_in_order:
  assumes "disp_inv (rt_codec rt) ed" "handlers_base ed" "fresh_chans (events_chans es) ed"
    and "list_all (filters_cope (rt_codec rt)) es" "blocks_ordered ed"
    and "list_all (\<lambda>e. event_block e \<noteq> Some MaxUint64) es"
    and "dispatch_loop (run_handler rt) es ed = Ok ed'"
  shows "sorted (block_nums (ch_sent (chans ed' c)))
    \<and> sorted_wrt (<) (block_nums (filter is_block_msg (ch_sent (chans ed' c))))
    \<and> (\<forall>n \<in> set (block_nums (ch_sent (chans ed' c))). n \<le> lastBlockNum ed')"
proof -
  have "blocks_ordered ed'" by (rule dispatch_loop_ordered [OF assms])
  then show ?thesis unfolding blocks_ordered_def chan_ordered_def by blast
qed

lemma ex_run_cope: "list_all (filters_cope (rt_codec ex_runtime)) ex_run"
  using ex_run_good(2) by (simp add: ex_run_def)

lemma ex_run_blocks: "list_all (\<lambda>e. event_block e \<noteq> Some MaxUint64) ex_run"
  by (simp add: ex_run_def ex_block_def MaxUint64_def)

lemma ex_run_returns: "\<exists>ed'. dispatch_loop (run_handler ex_runtime) ex_run ex_disp = Ok ed'"
  using dispatch_loop_returns [OF ex_disp_good(1,2) ex_run_good] by (simp add: ex_disp_good defaultParams_def)

theorem blocks_arrive_in_order_witness:
  "\<exists>ed'. dispatch_loop (run_handler ex_runtime) ex_run ex_disp = Ok ed'
    \<and> sorted_wrt (<) (block_nums (filter is_block_msg (ch_sent (chans ed' 1))))"
proof -
  obtain ed' where "dispatch_loop (run_handler ex_runtime) ex_run ex_disp = Ok ed'"
    using ex_run_returns by blast
  with blocks_arrive_in_order [OF ex_disp_good(1,2) ex_run_good(1) ex_run_cope ex_disp_good(6) ex_run_blocks this, of 1]
  show ?thesis by blast
qed

section \<open>Who gets what\<close>

lemma msgs_for_concat: "msgs_for c (concat (map f xs)) = concat (map (\<lambda>x. msgs_for c (f x)) xs)"
  by (induction xs) simp_all

lemma concat_map_concat: "concat (map f (concat xss)) = concat (map (\<lambda>xs. concat (map f xs)) xss)"
  by (induction xss) simp_all

lemma msgs_for_map_filter:
  "msgs_for c (map (\<lambda>r. (f r, m)) (filter P rs)) = map (\<lambda>_. m) (filter (\<lambda>r. P r \<and> f r = c) rs)"
  by (induction rs) auto

lemma filter_distinct_key:
  assumes "distinct (map f rs)" and "r \<in> set rs"
  shows "filter (\<lambda>x. P x \<and> f x = f r) rs = (if P r then [r] else [])"
  using assms by (induction rs) (auto simp: filter_empty_conv image_iff)

lemma reg_chans_disjoint:
  assumes "disp_inv cd ed"
  shows "distinct (map breg_Eventch (blockRegistrations ed))"
    "distinct (map fbreg_Eventch (filteredBlockRegistrations ed))"
    "distinct (map (ccreg_Eventch \<circ> snd) (ccRegistrations ed))"
    "distinct (map (txreg_Eventch \<circ> snd) (txRegistrations ed))"
    "\<lbrakk>r1 \<in> set (blockRegistrations ed); r2 \<in> set (filteredBlockRegistrations ed)\<rbrakk>
       \<Longrightarrow> breg_Eventch r1 \<noteq> fbreg_Eventch r2"
    "\<lbrakk>r1 \<in> set (blockRegistrations ed); p3 \<in> set (ccRegistrations ed)\<rbrakk>
       \<Longrightarrow> breg_Eventch r1 \<noteq> ccreg_Eventch (snd p3)"
    "\<lbrakk>r1 \<in> set (blockRegistrations ed); p4 \<in> set (txRegistrations ed)\<rbrakk>
       \<Longrightarrow> breg_Eventch r1 \<noteq> txreg_Eventch (snd p4)"
    "\<lbrakk>r2 \<in> set (filteredBlockRegistrations ed); p3 \<in> set (ccRegistrations ed)\<rbrakk>
       \<Longrightarrow> fbreg_Eventch r2 \<noteq> ccreg_Eventch (snd p3)"
    "\<lbrakk>r2 \<in> set (filteredBlockRegistrations ed); p4 \<in> set (txRegistrations ed)\<rbrakk>
       \<Longrightarrow> fbreg_Eventch r2 \<noteq> txreg_Eventch (snd p4)"
    "\<lbrakk>p3 \<in> set (ccRegistrations ed); p4 \<in> set (txRegistrations ed)\<rbrakk>
       \<Longrightarrow> ccreg_Eventch (snd p3) \<noteq> txreg_Eventch (snd p4)"
proof -
  have d: "distinct (reg_chans ed)" using assms by (simp add: disp_inv_def)
  show "distinct (map breg_Eventch (blockRegistrations ed))"
    "distinct (map fbreg_Eventch (filteredBlockRegistrations ed))"
    "distinct (map (ccreg_Eventch \<circ> snd) (ccRegistrations ed))"
    "distinct (map (txreg_Eventch \<circ> snd) (txRegistrations ed))"
    using d by (simp_all add: reg_chans_def)
  have dis: "\<And>x y A B. x \<in> A \<Longrightarrow> y \<in> B \<Longrightarrow> A \<inter> B = {} \<Longrightarrow> x \<noteq> y" by blast
  note D = d [unfolded reg_chans_def distinct_append set_append set_map image_comp [symmetric]]
  show "breg_Eventch r1 \<noteq> fbreg_Eventch r2"
    if "r1 \<in> set (blockRegistrations ed)" "r2 \<in> set (filteredBlockRegistrations ed)" for r1 r2
    using D that by (intro dis [OF imageI imageI]) auto
  show "breg_Eventch r1 \<noteq> ccreg_Eventch (snd p3)"
    if "r1 \<in> set (blockRegistrations ed)" "p3 \<in> set (ccRegistrations ed)" for r1 p3
    using D that by (intro dis [OF imageI [of r1] imageI [OF imageI [of p3]]]) auto
  show "breg_Eventch r1 \<noteq> txreg_Eventch (snd p4)"
    if "r1 \<in> set (blockRegistrations ed)" "p4 \<in> set (txRegistrations ed)" for r1 p4
    using D that by (intro dis [OF imageI [of r1] imageI [OF imageI [of p4]]]) auto
  show "fbreg_Eventch r2 \<noteq> ccreg_Eventch (snd p3)"
    if "r2 \<in> set (filteredBlockRegistrations ed)" "p3 \<in> set (ccRegistrations ed)" for r2 p3
    using D that by (intro dis [OF imageI [of r2] imageI [OF imageI [of p3]]]) auto
  show "fbreg_Eventch r2 \<noteq> txreg_Eventch (snd p4)"
    if "r2 \<in> set (filteredBlockRegistrations ed)" "p4 \<in> set (txRegistrations ed)" for r2 p4
    using D that by (intro dis [OF imageI [of r2] imageI [OF imageI [of p4]]]) auto
  show "ccreg_Eventch (snd p3) \<noteq> txreg_Eventch (snd p4)"
    if "p3 \<in> set (ccRegistrations ed)" "p4 \<in> set (txRegistrations ed)" for p3 p4
    using D that by (intro dis [OF imageI [OF imageI [of p3]] imageI [OF imageI [of p4]]]) auto
qed

lemma cc_plan_chan: "p \<in> set (cc_plan n url ed ev) \<Longrightarrow> \<exists>q \<in> set (ccRegistrations ed). fst p = ccreg_Eventch (snd q)"
  by (force simp: cc_plan_def)

lemma tx_status_plan_chan:
  assumes "p \<in> set (tx_status_plan n url ed tx)"
  shows "\<exists>q \<in> set (txRegistrations ed). fst p = txreg_Eventch (snd q)"
proof -
  obtain r where "map_of (txRegistrations ed) (ftx_Txid tx) = Some r" "fst p = txreg_Eventch r"
    using assms by (cases "map_of (txRegistrations ed) (ftx_Txid tx)") (auto simp: tx_status_plan_def)
  then show ?thesis by (force dest: map_of_SomeD)
qed

lemma distinct_map_eqD: "distinct (map f xs) \<Longrightarrow> x \<in> set xs \<Longrightarrow> y \<in> set xs \<Longrightarrow> f x = f y \<Longrightarrow> x = y"
  by (auto simp: distinct_map inj_on_def)

lemma tx_plan_chan: "p \<in> set (tx_plan n url ed tx) \<Longrightarrow>
    (\<exists>q \<in> set (txRegistrations ed). fst p = txreg_Eventch (snd q))
    \<or> (\<exists>q \<in> set (ccRegistrations ed). fst p = ccreg_Eventch (snd q))"
  by (auto simp: tx_plan_def dest: cc_plan_chan tx_status_plan_chan)

lemma msgs_for_nil: "(\<And>p. p \<in> set plan \<Longrightarrow> fst p \<noteq> c) \<Longrightarrow> msgs_for c plan = []"
  by (auto simp: msgs_for_def filter_empty_conv)

lemma filtered_regs_msgs_nil:
  "c \<notin> fbreg_Eventch ` set (filteredBlockRegistrations ed) \<Longrightarrow>
    msgs_for c (map (\<lambda>reg. (fbreg_Eventch reg, m)) (filteredBlockRegistrations ed)) = []"
  by (intro msgs_for_nil) auto

lemma tx_status_msgs:
  assumes inv: "disp_inv cd ed" and r: "(k, r) \<in> set (txRegistrations ed)"
  shows "msgs_for (txreg_Eventch r) (tx_status_plan n url ed tx)
     = (if ftx_Txid tx = txreg_TxID r then [NewTxStatusEvent (ftx_Txid tx) (ftx_Code tx) n url] else [])"
proof (cases "map_of (txRegistrations ed) (ftx_Txid tx)")
  case None
  then have "ftx_Txid tx \<noteq> k" using r by (force simp: map_of_eq_None_iff)
  moreover have "k = txreg_TxID r" using inv r by (force simp: disp_inv_def)
  ultimately show ?thesis by (simp add: tx_status_plan_def None)
next
  case (Some r')
  have r': "(ftx_Txid tx, r') \<in> set (txRegistrations ed)" using Some by (rule map_of_SomeD)
  have k: "k = txreg_TxID r" "ftx_Txid tx = txreg_TxID r'"
    using inv r r' by (force simp: disp_inv_def)+
  have "txreg_Eventch r' = txreg_Eventch r \<longleftrightarrow> ftx_Txid tx = txreg_TxID r"
  proof
    assume "txreg_Eventch r' = txreg_Eventch r"
    then have "(ftx_Txid tx, r') = (k, r)"
      using distinct_map_eqD [OF reg_chans_disjoint(4) [OF inv] r' r] by simp
    then show "ftx_Txid tx = txreg_TxID r" by (simp add: k)
  next
    assume "ftx_Txid tx = txreg_TxID r"
    moreover have "distinct (map fst (txRegistrations ed))"
      using inv by (simp add: disp_inv_def al_keys_def)
    ultimately have "r' = r" using r r' k by (metis eq_key_imp_eq_value)
    then show "txreg_Eventch r' = txreg_Eventch r" by simp
  qed
  then show ?thesis by (simp add: tx_status_plan_def Some)
qed

lemma tx_reg_msgs:
  assumes inv: "disp_inv cd ed" and r: "(k, r) \<in> set (txRegistrations ed)"
  shows "msgs_for (txreg_Eventch r) (filtered_plan fb url ed)
     = map (\<lambda>tx. NewTxStatusEvent (txreg_TxID r) (ftx_Code tx) (fb_Number fb) url)
         (filter (\<lambda>tx. ftx_Txid tx = txreg_TxID r) (fb_Txs fb))"
proof -
  let ?c = "txreg_Eventch r"
  have "msgs_for ?c (cc_plan n url ed ev) = []" for n ev
    using reg_chans_disjoint(10) [OF inv _ r] by (intro msgs_for_nil) (metis cc_plan_chan snd_conv)
  then have cc: "concat (map (\<lambda>ev. msgs_for ?c (cc_plan n url ed ev)) evs) = []" for n evs
    by simp
  have "?c \<notin> fbreg_Eventch ` set (filteredBlockRegistrations ed)"
    using reg_chans_disjoint(9) [OF inv _ r] by (metis imageE snd_conv)
  then have "msgs_for ?c (filtered_plan fb url ed)
      = concat (map (\<lambda>tx. msgs_for ?c (tx_status_plan (fb_Number fb) url ed tx)) (fb_Txs fb))"
    by (simp add: filtered_plan_def filtered_regs_msgs_nil msgs_for_concat tx_plan_def cc)
  then show ?thesis
    by (simp only: tx_status_msgs [OF inv r] concat_map_if) (rule map_cong; simp)
qed

lemma cc_plan_msgs:
  assumes inv: "disp_inv cd ed" and r: "(k, r) \<in> set (ccRegistrations ed)"
  shows "msgs_for (ccreg_Eventch r) (cc_plan n url ed ev)
     = (if ccreg_ChaincodeID r = ce_ChaincodeId ev \<and> the (ccreg_EventRegExp r) (ce_EventName ev)
        then [NewChaincodeEvent (ce_ChaincodeId ev) (ce_EventName ev) (ce_TxId ev) (ce_Payload ev) n url]
        else [])"
proof -
  have d: "distinct (map ccreg_Eventch (map snd (ccRegistrations ed)))"
    using reg_chans_disjoint(3) [OF inv] by simp
  have m: "r \<in> set (map snd (ccRegistrations ed))" using r by force
  show ?thesis
    unfolding cc_plan_def msgs_for_map_filter filter_distinct_key [OF d m] by simp
qed

lemma cc_reg_msgs:
  assumes inv: "disp_inv cd ed" and r: "(k, r) \<in> set (ccRegistrations ed)"
  shows "msgs_for (ccreg_Eventch r) (filtered_plan fb url ed)
     = map (\<lambda>ev. NewChaincodeEvent (ce_ChaincodeId ev) (ce_EventName ev) (ce_TxId ev) (ce_Payload ev)
              (fb_Number fb) url)
         (filter (\<lambda>ev. ccreg_ChaincodeID r = ce_ChaincodeId ev
                     \<and> the (ccreg_EventRegExp r) (ce_EventName ev))
            (concat (map tx_cc_events (fb_Txs fb))))"
proof -
  let ?c = "ccreg_Eventch r"
  have tx: "msgs_for ?c (tx_status_plan n url ed tx) = []" for n tx
    using reg_chans_disjoint(10) [OF inv r] by (intro msgs_for_nil) (metis tx_status_plan_chan snd_conv)
  have "?c \<notin> fbreg_Eventch ` set (filteredBlockRegistrations ed)"
    using reg_chans_disjoint(8) [OF inv _ r] by (metis imageE snd_conv)
  then have "msgs_for ?c (filtered_plan fb url ed) = concat (map (\<lambda>tx.
      concat (map (\<lambda>ev. msgs_for ?c (cc_plan (fb_Number fb) url ed ev)) (tx_cc_events tx))) (fb_Txs fb))"
    by (simp add: filtered_plan_def filtered_regs_msgs_nil msgs_for_concat tx_plan_def tx)
  also have "\<dots> = concat (map (\<lambda>ev. msgs_for ?c (cc_plan (fb_Number fb) url ed ev))
      (concat (map tx_cc_events (fb_Txs fb))))"
    by (simp only: concat_map_concat map_map o_def)
  finally show ?thesis by (simp only: cc_plan_msgs [OF inv r] concat_map_if)
qed

text \<open>The dispatcher is ready to publish the block: it is new and not just for the record.\<close>

definition publishes :: "64 word \<Rightarrow> 'z disp_scheme \<Rightarrow> bool" where
  "publishes n ed \<longleftrightarrow> newer n ed \<and> \<not> updateLastBlockInfoOnly ed"

lemma HandleFilteredBlock_delivered_all:
  assumes "disp_inv cd ed" "publishes (fb_Number fb) ed" "all_alive (filtered_plan fb url ed) ed"
  shows "twp (HandleFilteredBlock fb url ed)
    (\<lambda>ed'. \<forall>c. ch_sent (chans ed' c) = ch_sent (chans ed c) @ msgs_for c (filtered_plan fb url ed))"
proof -
  have "all_alive (filtered_plan fb url ed) (ed\<lparr>lastBlockNum := fb_Number fb\<rparr>)"
    using assms(3) by (simp add: all_alive_def)
  from publish_all_delivered_all [OF this]
  show ?thesis
    using HandleFilteredBlock_plan [OF disp_inv_regexps [OF assms(1)], of fb url] assms(2)
    by (auto simp: publishes_def delivered_all_def elim!: twp_mono)
qed

text \<open>
  C13: When the consumers keep reading, handling a new filtered block sends the listener of a
  transaction the status of exactly the transactions of the block with its transaction ID, in
  block order, with their validation codes (valid or not).
\<close>

theorem tx_status_delivery:
  assumes "disp_inv cd ed" "publishes (fb_Number fb) ed" "all_alive (filtered_plan fb url ed) ed"
    and "(k, r) \<in> set (txRegistrations ed)"
  shows "twp (HandleFilteredBlock fb url ed) (\<lambda>ed'.
     ch_sent (chans ed' (txreg_Eventch r)) = ch_sent (chans ed (txreg_Eventch r))
       @ map (\<lambda>tx. NewTxStatusEvent (txreg_TxID r) (ftx_Code tx) (fb_Number fb) url)
           (filter (\<lambda>tx. ftx_Txid tx = txreg_TxID r) (fb_Txs fb)))"
  using HandleFilteredBlock_delivered_all [OF assms(1-3)]
  by (rule twp_mono) (simp add: tx_reg_msgs [OF assms(1,4)])

text \<open>
  When the consumers keep reading, handling a new filtered block sends a chaincode listener
  exactly the events of its chaincode whose name its filter matches, in block order, and only
  those set by transactions whose validation code is VALID.
\<close>

theorem cc_event_delivery:
  assumes "disp_inv cd ed" "publishes (fb_Number fb) ed" "all_alive (filtered_plan fb url ed) ed"
    and "(k, r) \<in> set (ccRegistrations ed)"
  shows "twp (HandleFilteredBlock fb url ed) (\<lambda>ed'.
     ch_sent (chans ed' (ccreg_Eventch r)) = ch_sent (chans ed (ccreg_Eventch r))
       @ map (\<lambda>ev. NewChaincodeEvent (ce_ChaincodeId ev) (ce_EventName ev) (ce_TxId ev)
                (ce_Payload ev) (fb_Number fb) url)
           (filter (\<lambda>ev. ccreg_ChaincodeID r = ce_ChaincodeId ev
                       \<and> the (ccreg_EventRegExp r) (ce_EventName ev))
              (concat (map (\<lambda>tx. if ftx_Code tx = TxValidationCode_VALID
                   then (case ftx_Actions tx of None \<Rightarrow> [] | Some acts \<Rightarrow> List.map_filter id acts)
                   else []) (fb_Txs fb)))))"
  using HandleFilteredBlock_delivered_all [OF assms(1-3)]
  by (rule twp_mono) (simp add: cc_reg_msgs [OF assms(1,4)] tx_cc_events_def [abs_def])

text \<open>
  A dispatcher with a transaction and a chaincode listener, and a block with a valid and an
  invalid transaction.
\<close>

definition ex_disp2 :: disp where
  "ex_disp2 = ex_disp\<lparr>txRegistrations := [(''tx1'', ex_txreg)],
     ccRegistrations := [(''cc/ev'', ex_ccreg\<lparr>ccreg_EventRegExp := Some (\<lambda>s. s = ''ev'')\<rparr>)]\<rparr>"

definition ex_ccevent :: chaincode_event where
  "ex_ccevent = \<lparr>ce_ChaincodeId = ''cc'', ce_TxId = ''tx1'', ce_EventName = ''ev'', ce_Payload = []\<rparr>"

definition ex_fblock :: filtered_block where
  "ex_fblock = \<lparr>fb_ChannelId = ''ch'', fb_Number = 7, fb_Txs =
     [\<lparr>ftx_Type = 3, ftx_Txid = ''tx1'', ftx_Code = 0, ftx_Actions = Some [Some ex_ccevent]\<rparr>,
      \<lparr>ftx_Type = 3, ftx_Txid = ''tx2'', ftx_Code = 11, ftx_Actions = Some [Some ex_ccevent]\<rparr>]\<rparr>"

lemma ex_disp2_good:
  "disp_inv cd ex_disp2" "publishes (fb_Number ex_fblock) ex_disp2"
  "all_alive (filtered_plan ex_fblock ''peer0'' ex_disp2) ex_disp2"
  "chans ex_disp2 = ex_heap"
proof -
  have e: "reg_chans ex_disp = []" by (rule ex_disp_good)
  show inv: "disp_inv cd ex_disp2"
    using e ex_disp_good(1) [of cd]
    by (simp add: disp_inv_def ex_disp2_def reg_chans_def ex_txreg_def ex_ccreg_def al_keys_def
        ex_disp_good(5) ex_heap_def open_in_def ccreg_key_def getCCKey_def regexps_compiled_def)
  show "publishes (fb_Number ex_fblock) ex_disp2"
    by (simp add: publishes_def newer_def ex_disp2_def ex_disp_good)
  show c: "chans ex_disp2 = ex_heap" by (simp add: ex_disp2_def ex_disp_good)
  show "all_alive (filtered_plan ex_fblock ''peer0'' ex_disp2) ex_disp2"
    by (simp add: all_alive_def c alive_def ex_heap_def open_in_def)
      (simp add: ex_disp2_def ex_disp_good defaultParams_def)
qed

theorem tx_status_delivery_witness:
  "twp (HandleFilteredBlock ex_fblock ''peer0'' ex_disp2) (\<lambda>ed'. ch_sent (chans ed' 3)
     = [NewTxStatusEvent ''tx1'' 0 7 ''peer0''])"
proof -
  have r: "(''tx1'', ex_txreg) \<in> set (txRegistrations ex_disp2)" by (simp add: ex_disp2_def)
  from tx_status_delivery [OF ex_disp2_good(1-3) r] show ?thesis
    by (simp add: ex_disp2_good(4) ex_heap_def ch_sent_def ex_txreg_def ex_fblock_def)
qed

theorem cc_event_delivery_witness:
  "twp (HandleFilteredBlock ex_fblock ''peer0'' ex_disp2) (\<lambda>ed'. ch_sent (chans ed' 2)
     = [NewChaincodeEvent ''cc'' ''ev'' ''tx1'' [] 7 ''peer0''])"
proof -
  have r: "(''cc/ev'', ex_ccreg\<lparr>ccreg_EventRegExp := Some (\<lambda>s. s = ''ev'')\<rparr>)
      \<in> set (ccRegistrations ex_disp2)" by (simp add: ex_disp2_def)
  from cc_event_delivery [OF ex_disp2_good(1-3) r] show ?thesis
    by (simp add: ex_disp2_good(4) ex_heap_def ch_sent_def ex_ccreg_def ex_fblock_def ex_ccevent_def
        TxValidationCode_VALID_def List.map_filter_simps)
qed

section \<open>Full blocks\<close>

lemma publish_lastBlockNum:
  "publish m c (ed\<lparr>lastBlockNum := n\<rparr>) = obind (publish m c ed) (\<lambda>ed1. Ok (ed1\<lparr>lastBlockNum := n\<rparr>))"
  by (cases ed) (simp add: publish_def obind_assoc)

lemma publish_all_lastBlockNum:
  "obind (publish_all p ed) (\<lambda>ed1. f (ed1\<lparr>lastBlockNum := n\<rparr>))
     = obind (publish_all p (ed\<lparr>lastBlockNum := n\<rparr>)) f"
proof (induction p arbitrary: ed)
  case (Cons a p)
  then show ?case by (cases a) (simp add: publish_lastBlockNum obind_assoc)
qed simp

lemma readable_txs_code: "block_ok cd b \<Longrightarrow> toFilteredBlock cd b = Ok fb \<Longrightarrow>
    fb_Txs fb = List.map_filter
         (readable_tx cd (the (blk_Metadata b) ! BlockMetadataIndex_TRANSACTIONS_FILTER))
         (enumerate 0 (the (blk_Data b)))"
  using toFilteredBlock_correct [of cd b] by simp



text \<open>
  A full block with an endorser transaction that has no actions makes the conversion to a
  filtered block panic (\<open>tx.Actions[0]\<close>): no check of the decoded transaction stands before the
  index, so that one such envelope in a block takes the dispatcher's goroutine down.
\<close>

theorem no_actions_panics:
  assumes "um_Envelope cd d = Inr env" "um_Payload cd env = Inr p" "pl_ChannelHeader p = Some ch"
    and "um_ChannelHeader cd ch = Inr h" "chdr_Type h = HeaderType_ENDORSER_TRANSACTION"
    and "um_Transaction cd (pl_Data p) = Inr []"
  shows "toFilteredBlock cd \<lparr>blk_Number = Some n, blk_Data = Some [d], blk_Metadata = Some [m0, m1, [f]]\<rparr>
     = Panic"
  using assms
  by (simp add: toFilteredBlock_def BlockMetadataIndex_TRANSACTIONS_FILTER_def
      toFilteredBlock_step_def Flag_def getFilteredTx_def getFilteredTransactionActions_def
      unmarshal_defs Let_def)

definition ex_codec_noactions :: codec where
  "ex_codec_noactions = (rt_codec ex_runtime)\<lparr>um_Transaction := (\<lambda>_. Inr [])\<rparr>"

theorem no_actions_panics_witness:
  "toFilteredBlock ex_codec_noactions
     \<lparr>blk_Number = Some 1, blk_Data = Some [[1]], blk_Metadata = Some [[], [], [0]]\<rparr> = Panic"
  by (rule no_actions_panics [where p = "\<lparr>pl_ChannelHeader = Some [], pl_Data = [1]\<rparr>" and env = "[1]"
        and h = "\<lparr>chdr_Type = 3, chdr_ChannelId = ''ch'', chdr_TxId = ''tx1''\<rparr>" and ch = "[]"])
    (simp_all add: ex_codec_noactions_def ex_runtime_def HeaderType_ENDORSER_TRANSACTION_def)

text \<open>
  Setting the validation flag of a transaction is read back by \<open>Flag\<close>, leaves the flags of all
  other transactions and the number of flags alone, for every code that fits the byte it is
  stored in.
\<close>

theorem flags_roundtrip:
  assumes "0 \<le> i" "i < int (length obj)" "0 \<le> f" "f < 256"
  shows "\<exists>obj'. SetFlag obj i f = Ok obj' \<and> length obj' = length obj \<and> Flag obj' i = Ok f
     \<and> (\<forall>j. j \<noteq> i \<longrightarrow> Flag obj' j = Flag obj j)"
  using assms by (rule Flag_SetFlag)

theorem flags_roundtrip_witness:
  "\<exists>obj'. SetFlag [254, 254] 1 11 = Ok obj' \<and> Flag obj' 1 = Ok 11 \<and> Flag obj' 0 = Flag [254, 254] 0"
  using flags_roundtrip [of 1 "[254, 254]" 11] by force

section \<open>Unregistering, stopping, transferring\<close>

text \<open>
  Unregistering a block listener that is registered removes just this registration (the
  others keep their multiplicity), closes its channel and no other, and reports no error;
  unregistering it again reports an error and changes nothing.
\<close>

theorem unregister_block_exact:
  assumes inv: "disp_inv cd ed" and r: "reg \<in> set (blockRegistrations ed)"
    and refs: "distinct (map breg_ref (blockRegistrations ed))"
  shows "\<exists>ed'. unregisterBlockEvents reg ed = Ok (None, ed')
    \<and> mset (blockRegistrations ed) = add_mset reg (mset (blockRegistrations ed'))
    \<and> chans ed' = mark_closed {breg_Eventch reg} (chans ed)
    \<and> disp_inv cd ed'
    \<and> unregisterBlockEvents reg ed' = Ok (Some invalid_registration, ed')"
proof -
  let ?p = "\<lambda>x. breg_ref x = breg_ref reg"
  obtain i where i: "index_of ?p (blockRegistrations ed) = Some i"
    using r index_of_None [of ?p] by (cases "index_of ?p (blockRegistrations ed)") auto
  note i2 = index_of_Some [OF i]
  then have "blockRegistrations ed ! i = reg"
    using distinct_map_eqD [OF refs _ r] by simp
  note m = mset_drop_at [OF conjunct1 [OF i2], unfolded this]
  let ?ed' = "ed\<lparr>blockRegistrations := drop_at i (blockRegistrations ed),
    chans := mark_closed {breg_Eventch reg} (chans ed)\<rparr>"
  have op: "open_in (chans ed) (breg_Eventch reg)"
    using inv r by (intro disp_inv_open) (auto simp: reg_chans_def)
  have eq: "unregisterBlockEvents reg ed = Ok (None, ?ed')"
    using i op \<open>blockRegistrations ed ! i = reg\<close> by (simp add: unregisterBlockEvents_def closeCh_open)
  have "mset (map breg_ref (blockRegistrations ed))
      = add_mset (breg_ref reg) (mset (map breg_ref (drop_at i (blockRegistrations ed))))"
    by (simp add: m)
  then have "breg_ref reg \<notin> set (map breg_ref (drop_at i (blockRegistrations ed)))"
    using distinct_remove_mset [OF _ refs] by blast
  then have "\<forall>x\<in>set (drop_at i (blockRegistrations ed)). breg_ref x \<noteq> breg_ref reg"
    by (metis (no_types, lifting) image_eqI list.set_map)
  then have "index_of ?p (blockRegistrations ?ed') = None"
    by (simp add: index_of_None)
  then have "unregisterBlockEvents reg ?ed' = Ok (Some invalid_registration, ?ed')"
    by (simp add: unregisterBlockEvents_def)
  moreover have "disp_inv cd ?ed'"
    using unregisterBlockEvents_step [OF inv, of reg "[]"] eq by (simp add: step_ok_def)
  ultimately show ?thesis using eq m by (intro exI [of _ ?ed']) simp
qed

definition ex_disp3 :: disp where
  "ex_disp3 = ex_disp\<lparr>blockRegistrations := [ex_breg, ex_breg\<lparr>breg_ref := 9, breg_Eventch := 9\<rparr>]\<rparr>"

lemma ex_disp3_good: "disp_inv cd ex_disp3"
  using ex_disp_good(4) ex_disp_good(1) [of cd]
  by (simp add: disp_inv_def ex_disp3_def reg_chans_def ex_breg_def al_keys_def ex_disp_good(5)
      ex_heap_def open_in_def regexps_compiled_def)

theorem unregister_block_exact_witness:
  "\<exists>ed'. unregisterBlockEvents ex_breg ex_disp3 = Ok (None, ed') \<and> disp_inv (rt_codec ex_runtime) ed'"
proof -
  have "ex_breg \<in> set (blockRegistrations ex_disp3)" "distinct (map breg_ref (blockRegistrations ex_disp3))"
    by (simp_all add: ex_disp3_def ex_breg_def)
  from unregister_block_exact [OF ex_disp3_good this] show ?thesis by blast
qed

text \<open>
  Stopping a started dispatcher closes the channel of every registration and no other channel,
  drops all registrations and answers the request without error; from then on the loop handles
  no further event.
\<close>

theorem stop_closes_everything:
  assumes "disp_inv cd ed" "d_state ed = StateStarted"
  shows "\<exists>ed'. HandleStopEvent (StopEvent rq) ed = Ok ed'
    \<and> reg_chans ed' = [] \<and> d_state ed' = StateStopped
    \<and> (\<forall>c. open_in (chans ed') c \<longleftrightarrow> open_in (chans ed) c \<and> c \<notin> set (reg_chans ed))
    \<and> (\<forall>c. ch_sent (chans ed' c) = ch_sent (chans ed c))
    \<and> resps ed' = resps ed @ [(rq, RespErr None)]
    \<and> (\<forall>run es. dispatch_loop run es ed' = Ok ed')"
proof -
  let ?ed' = "reply rq (RespErr None) (no_regs (ed\<lparr>d_state := StateStopped,
     chans := mark_closed (set (reg_chans ed)) (chans ed)\<rparr>))"
  have "HandleStopEvent (StopEvent rq) ed = Ok ?ed'"
    using assms by (simp add: HandleStopEvent_def setState_def clearRegistrations_True)
  moreover have st: "d_state ?ed' = StateStopped" by simp
  moreover have "dispatch_loop run es ?ed' = Ok ?ed'" for run es
    using st by (cases es) simp_all
  moreover have "resps ?ed' = resps ed @ [(rq, RespErr None)]"
    by (simp add: reply_def no_regs_def)
  ultimately show ?thesis by (intro exI [of _ ?ed']) simp
qed

theorem stop_closes_everything_witness:
  "\<exists>ed'. HandleStopEvent (StopEvent 1) ex_disp2 = Ok ed' \<and> reg_chans ed' = []"
proof -
  have "d_state ex_disp2 = StateStarted" by (simp add: ex_disp2_def ex_disp_good)
  from stop_closes_everything [OF ex_disp2_good(1) this, of 1] show ?thesis by blast
qed

text \<open>A dispatcher that is started on a snapshot.\<close>

definition restart :: "snapshot \<Rightarrow> params \<Rightarrow> evmsg heap \<Rightarrow> goerr option \<times> disp" where
  "restart s p h = Start (dispatcher_New (WithSnapshot s p) h)"

lemma restart_newSnapshot:
  assumes inv: "disp_inv cd ed"
  obtains ed2 where "restart (newSnapshot ed) p (chans ed) = (None, ed2)"
    "blockRegistrations ed2 = blockRegistrations ed"
    "filteredBlockRegistrations ed2 = filteredBlockRegistrations ed"
    "ccRegistrations ed2 = ccRegistrations ed" "txRegistrations ed2 = txRegistrations ed"
    "chans ed2 = chans ed" "disp_inv cd ed2" "handlers_base ed2"
    "lastBlockNum ed2 = (if lastBlockNum ed = 0 then MaxUint64 else lastBlockNum ed)"
proof -
  have sn: "sn_lastBlockReceived (newSnapshot ed) = lastBlockNum ed"
    "sn_blockRegistrations (newSnapshot ed) = blockRegistrations ed"
    "sn_filteredBlockRegistrations (newSnapshot ed) = filteredBlockRegistrations ed"
    "sn_ccRegistrations (newSnapshot ed) = map snd (ccRegistrations ed)"
    "sn_txStatusRegistrations (newSnapshot ed) = map snd (txRegistrations ed)"
    by (simp_all add: newSnapshot_def)
  obtain hs where st: "Start (dispatcher_New (WithSnapshot (newSnapshot ed) p) (chans ed))
    = (None, (dispatcher_New (WithSnapshot (newSnapshot ed) p) (chans ed))\<lparr>d_state := StateStarted, handlers := hs,
         lastBlockNum := (if lastBlockNum ed = 0 then MaxUint64 else lastBlockNum ed),
         blockRegistrations := blockRegistrations ed,
         filteredBlockRegistrations := filteredBlockRegistrations ed,
         ccRegistrations := map (\<lambda>r. (ccreg_key r, r)) (map snd (ccRegistrations ed)),
         txRegistrations := map (\<lambda>r. (txreg_TxID r, r)) (map snd (txRegistrations ed))\<rparr>)"
    and hb: "handlers_base ((dispatcher_New (WithSnapshot (newSnapshot ed) p) (chans ed))\<lparr>handlers := hs\<rparr>)"
    using Start_snapshot [OF newSnapshot_ok [OF inv], of p "chans ed"] unfolding sn by blast
  have pk: "map (\<lambda>r. (ccreg_key r, r)) (map snd (ccRegistrations ed)) = ccRegistrations ed"
    "map (\<lambda>r. (txreg_TxID r, r)) (map snd (txRegistrations ed)) = txRegistrations ed"
    using inv by (intro pairs_of_keys; simp add: disp_inv_def)+
  show ?thesis
    by (rule that [OF st [folded restart_def]])
      (use inv hb in \<open>simp_all add: pk [simplified] dispatcher_New_def disp_inv_def reg_chans_def
        regexps_compiled_def handlers_base_def\<close>)
qed

text \<open>
  Transferring the registrations closes and loses nothing: the snapshot that answers the
  request, given to a new dispatcher, restores on start the same block, filtered block, chaincode
  and transaction registrations on the same, untouched channels, with the same last block number
  unless that number was 0; the old dispatcher is left without registrations.
\<close>

theorem transfer_roundtrip:
  assumes "disp_inv cd ed"
  shows "\<exists>ed' s ed2. HandleTransferEvent (TransferEvent rq) ed = Ok ed'
    \<and> resps ed' = resps ed @ [(rq, RespSnapshot s)]
    \<and> reg_chans ed' = [] \<and> chans ed' = chans ed
    \<and> restart s p (chans ed') = (None, ed2)
    \<and> blockRegistrations ed2 = blockRegistrations ed
    \<and> filteredBlockRegistrations ed2 = filteredBlockRegistrations ed
    \<and> ccRegistrations ed2 = ccRegistrations ed \<and> txRegistrations ed2 = txRegistrations ed
    \<and> chans ed2 = chans ed \<and> disp_inv cd ed2
    \<and> (lastBlockNum ed \<noteq> 0 \<longrightarrow> lastBlockNum ed2 = lastBlockNum ed)"
proof -
  let ?ed' = "no_regs (reply rq (RespSnapshot (newSnapshot ed)) ed)"
  have "HandleTransferEvent (TransferEvent rq) ed = Ok ?ed'"
    by (simp add: HandleTransferEvent_def clearRegistrations_False)
  moreover have "resps ?ed' = resps ed @ [(rq, RespSnapshot (newSnapshot ed))]"
    "reg_chans ?ed' = []" "chans ?ed' = chans ed"
    by (simp_all add: no_regs_def reply_def reg_chans_def)
  ultimately show ?thesis
    by (rule_tac restart_newSnapshot [OF assms, of p]) (intro exI [of _ ?ed'] exI [of _ "newSnapshot ed"], auto)
qed

theorem transfer_roundtrip_witness:
  "\<exists>ed' s ed2. HandleTransferEvent (TransferEvent 1) ex_disp2 = Ok ed'
    \<and> resps ed' = resps ex_disp2 @ [(1, RespSnapshot s)]
    \<and> restart s defaultParams (chans ed') = (None, ed2)
    \<and> txRegistrations ed2 = [(''tx1'', ex_txreg)]"
  using transfer_roundtrip [OF ex_disp2_good(1) [of undefined], of 1 defaultParams]
  by (simp add: ex_disp2_def) blast

text \<open>
  A dispatcher whose last block was block 0 refuses block 0, but after a transfer the new
  dispatcher accepts it again: \<open>Start\<close> takes an initial block number of 0 for ``none'', so the
  snapshot of a dispatcher that has seen just the genesis block loses that fact and its
  listeners may get block 0 twice.
\<close>

theorem transfer_forgets_block_zero:
  assumes "disp_inv cd ed" "lastBlockNum ed = 0"
  shows "fst (updateLastBlockNum 0 ed) \<noteq> None
    \<and> fst (restart (newSnapshot ed) p (chans ed)) = None
    \<and> fst (updateLastBlockNum 0 (snd (restart (newSnapshot ed) p (chans ed)))) = None"
proof -
  obtain ed2 where "restart (newSnapshot ed) p (chans ed) = (None, ed2)" "lastBlockNum ed2 = MaxUint64"
    using restart_newSnapshot [OF assms(1), of p] assms(2) by metis
  then show ?thesis using assms(2) by (simp add: updateLastBlockNum_def MaxUint64_def)
qed

theorem transfer_forgets_block_zero_witness:
  "fst (updateLastBlockNum 0 (snd (restart (newSnapshot (ex_disp\<lparr>lastBlockNum := 0\<rparr>)) defaultParams ex_heap))) = None"
proof -
  have "disp_inv undefined (ex_disp\<lparr>lastBlockNum := 0\<rparr>)" by (simp add: ex_disp_good)
  from transfer_forgets_block_zero [OF this, of defaultParams] show ?thesis
    by (simp add: ex_disp_good)
qed

section \<open>Keys of chaincode registrations\<close>

text \<open>
  Chaincode registrations are kept under the key ``chaincode/filter''. Two registrations whose
  chaincode IDs have no slash share a key only if both ID and filter agree, so that unregistering
  one never closes the other's channel.
\<close>

theorem cc_key_injective:
  assumes "CHR ''/'' \<notin> set (ccreg_ChaincodeID r)" "CHR ''/'' \<notin> set (ccreg_ChaincodeID r')"
    and "getCCKey (ccreg_ChaincodeID r) (ccreg_EventFilter r)
       = getCCKey (ccreg_ChaincodeID r') (ccreg_EventFilter r')"
  shows "ccreg_ChaincodeID r = ccreg_ChaincodeID r' \<and> ccreg_EventFilter r = ccreg_EventFilter r'"
proof -
  have "takeWhile (\<lambda>c. c \<noteq> CHR ''/'') (xs @ CHR ''/'' # ys) = xs" if "CHR ''/'' \<notin> set xs" for xs ys
    using that by (induction xs) auto
  then have "ccreg_ChaincodeID r = ccreg_ChaincodeID r'"
    using assms unfolding getCCKey_def by (metis append_Cons append_Nil)
  then show ?thesis using assms(3) by (simp add: getCCKey_def)
qed

theorem cc_key_injective_witness:
  "getCCKey (ccreg_ChaincodeID ex_ccreg) (ccreg_EventFilter ex_ccreg) = getCCKey ''cc'' ''ev''
    \<and> ccreg_ChaincodeID ex_ccreg = ''cc''"
proof -
  have "ccreg_ChaincodeID ex_ccreg = ccreg_ChaincodeID (ex_ccreg\<lparr>ccreg_Eventch := 5\<rparr>)"
    using cc_key_injective [of ex_ccreg "ex_ccreg\<lparr>ccreg_Eventch := 5\<rparr>"] by (simp add: ex_ccreg_def)
  then show ?thesis by (simp add: ex_ccreg_def)
qed

end
