(* ===== verification/Peers.thy ===== *)
theory Peers
  imports Prelude
begin

text \<open>
  Peers as the selection components see them (\<open>fab.Peer\<close> and \<open>fab.PeerState\<close> of
  pkg/common/providers/fab/peer.go), and the draws of \<open>math/rand\<close>.

  A value of the interface type \<open>fab.Peer\<close> is a reference: the code compares such values with
  \<open>==\<close>, so a peer carries the identity \<open>peer_ref\<close> of the object. A peer that implements
  \<open>fab.PeerState\<close> has a block height; for one that does not \<open>peer_height\<close> is \<open>None\<close>.
\<close>

record peer =
  peer_ref :: nat
  peer_URL :: string
  peer_MSPID :: string
  peer_height :: "64 word option"

definition mkPeer :: "nat \<Rightarrow> string \<Rightarrow> string \<Rightarrow> 64 word option \<Rightarrow> peer" where
  "mkPeer r u m h = \<lparr>peer_ref = r, peer_URL = u, peer_MSPID = m, peer_height = h\<rparr>"

lemma mkPeer_sel [simp]:
  "peer_ref (mkPeer r u m h) = r" "peer_URL (mkPeer r u m h) = u"
  "peer_MSPID (mkPeer r u m h) = m" "peer_height (mkPeer r u m h) = h"
  by (simp_all add: mkPeer_def)

text \<open>
  \<open>rand.Intn n\<close> is an arbitrary number below \<open>n\<close> and panics when \<open>n\<close> is not positive. The random
  source is explicit: an operation that draws takes the raw draw \<open>r\<close> as an argument, and every
  value below \<open>n\<close> is the result of some draw.
\<close>

definition rand_Intn :: "nat \<Rightarrow> nat \<Rightarrow> nat" where
  "rand_Intn r n = r mod n"

lemma rand_Intn_less [simp, intro]: "0 < n \<Longrightarrow> rand_Intn r n < n"
  by (simp add: rand_Intn_def)

end
