(* ===== verification/PgResolver.thy ===== *)
theory PgResolver
  imports Peers
begin

text \<open>
  The peer group resolver of the dynamic selection service
  (pkg/client/common/selection/dynamicselection/pgresolver): groups of peers (groupsimpl.go), the
  signature policy compiler and the resolver (pgresolverimpl.go), and the load balance policies
  (lbpolicyimpl.go). Logging and the \<open>String\<close> methods that only logging uses are left out.
\<close>

section \<open>Items and groups\<close>

text \<open>
  An \<open>Item\<close> is any value, in fact a \<open>fab.Peer\<close>, a \<open>*peerWrapper\<close> or one of the implementations of
  \<open>Group\<close>. A wrapper is a pointer that \<open>asPeerWrappers\<close> allocates, so it carries its identity. A
  \<open>mspPeerGroup\<close> holds the closure that retrieves its peers.
\<close>

datatype item =
  Peer peer
| Wrapper nat peer
| GroupImpl "item list"
| GroupsImpl "item list"
| PeerGroup "(nat \<times> peer) list"
| MspPeerGroup string "string \<Rightarrow> peer list"

type_synonym MSPPeerRetriever = "string \<Rightarrow> peer list"

definition is_group :: "item \<Rightarrow> bool" where
  "is_group i = (case i of Peer _ \<Rightarrow> False | Wrapper _ _ \<Rightarrow> False | _ \<Rightarrow> True)"

text \<open>\<open>NewPeerGroup\<close> allocates its wrappers from the reference \<open>n\<close> on.\<close>

definition asPeerWrappers :: "nat \<Rightarrow> peer list \<Rightarrow> (nat \<times> peer) list" where
  "asPeerWrappers n ps = zip [n..<n + length ps] ps"

definition NewGroupOfGroups :: "item list \<Rightarrow> item" where
  "NewGroupOfGroups gs = GroupsImpl gs"

definition NewGroup :: "item list \<Rightarrow> item" where
  "NewGroup is = GroupImpl is"

definition NewPeerGroup :: "nat \<Rightarrow> peer list \<Rightarrow> item" where
  "NewPeerGroup n ps = PeerGroup (asPeerWrappers n ps)"

definition NewMSPPeerGroup :: "string \<Rightarrow> MSPPeerRetriever \<Rightarrow> item" where
  "NewMSPPeerGroup mspID f = MspPeerGroup mspID f"

text \<open>The methods \<open>Items\<close> of all groups; a peer has no such method, and the code never calls it on one.\<close>

primrec Items :: "item \<Rightarrow> item list" where
  "Items (GroupImpl is) = is"
| "Items (GroupsImpl gs) = gs"
| "Items (PeerGroup ws) = map (\<lambda>(r, p). Wrapper r p) ws"
| "Items (MspPeerGroup m f) = map Peer (f m)"
| "Items (Peer p) = []"
| "Items (Wrapper r p) = []"

text \<open>\<open>Peers\<close> of the two implementations of the interface \<open>PeerGroup\<close>.\<close>

primrec Peers :: "item \<Rightarrow> peer list option" where
  "Peers (PeerGroup ws) = Some (map snd ws)"
| "Peers (MspPeerGroup m f) = Some (f m)"
| "Peers (GroupImpl is) = None"
| "Peers (GroupsImpl gs) = None"
| "Peers (Peer p) = None"
| "Peers (Wrapper r p) = None"

text \<open>Go's \<open>==\<close> on two items of which one at least is no group: pointers to the same object.\<close>

fun sameItem :: "item \<Rightarrow> item \<Rightarrow> bool" where
  "sameItem (Peer p) (Peer q) = (peer_ref p = peer_ref q)"
| "sameItem (Wrapper r p) (Wrapper s q) = (r = s)"
| "sameItem a b = False"

text \<open>\<open>containsItem\<close>, with the \<open>Equals\<close> of the item it looks for.\<close>

definition containsItem_by :: "(item \<Rightarrow> bool) \<Rightarrow> item list \<Rightarrow> item \<Rightarrow> bool" where
  "containsItem_by eq is i =
    (if is_group i then list_ex (\<lambda>j. is_group j \<and> eq j) is
     else list_ex (\<lambda>j. sameItem j i) is)"

fun Equals :: "item \<Rightarrow> item \<Rightarrow> bool" where
  "Equals (GroupImpl is) other = (length is = length (Items other)
     \<and> list_all (\<lambda>i. containsItem_by (\<lambda>j. Equals i j) (Items other) i) is)"
| "Equals (GroupsImpl gs) other = (length gs = length (Items other)
     \<and> list_all (\<lambda>i. containsItem_by (\<lambda>j. Equals i j) (Items other) i) gs)"
| "Equals (PeerGroup ws) other = (length ws = length (Items other)
     \<and> list_all (\<lambda>(r, p). containsItem_by (\<lambda>j. False) (Items other) (Wrapper r p)) ws)"
| "Equals (MspPeerGroup m f) other = (case other of MspPeerGroup m' f' \<Rightarrow> m' = m | _ \<Rightarrow> False)"
| "Equals (Peer p) other = False"
| "Equals (Wrapper r p) other = False"

definition containsItem :: "item list \<Rightarrow> item \<Rightarrow> bool" where
  "containsItem is i = containsItem_by (Equals i) is i"

definition containsGroup :: "item list \<Rightarrow> item \<Rightarrow> bool" where
  "containsGroup gs g = list_ex (\<lambda>h. Equals h g) gs"

text \<open>\<open>and\<close>: the operation's stack holds a group and an index into its items for each level.\<close>

definition and_items :: "(item \<times> nat) list \<Rightarrow> item list" where
  "and_items stack = concat (map (\<lambda>(g, j). if j < length (Items g) then [Items g ! j] else []) stack)"

primrec and_op :: "(item \<times> nat) list \<Rightarrow> item list \<Rightarrow> item list" where
  "and_op stack [] = (if and_items stack = [] then [] else [NewGroup (and_items stack)])"
| "and_op stack (g # gs) = concat (map (\<lambda>j. and_op (stack @ [(g, j)]) gs) [0..<length (Items g)])"

definition and_groups :: "item list \<Rightarrow> item list" where
  "and_groups gs = and_op [] gs"

text \<open>\<open>Collapse\<close>: a peer is not \<open>Collapsable\<close>, every group is.\<close>

fun Collapse :: "item \<Rightarrow> item" where
  "Collapse (GroupImpl is) =
    (let (col, non) = fold (\<lambda>i (col, non).
         if is_group i
         then (fold (\<lambda>ci c. if containsItem c ci then c else c @ [ci]) (Items (Collapse i)) col, non)
         else (col, if containsItem non i then non else non @ [i])) is ([], [])
     in if col = [] then NewGroup non
        else if non = [] then NewGroup col
        else NewGroup (non @ [NewGroup col]))"
| "Collapse (GroupsImpl gs) = GroupsImpl gs"
| "Collapse (PeerGroup ws) = NewGroup [PeerGroup ws]"
| "Collapse (MspPeerGroup m f) = NewGroup [MspPeerGroup m f]"
| "Collapse (Peer p) = Peer p"
| "Collapse (Wrapper r p) = Wrapper r p"

definition prune :: "item list \<Rightarrow> item list" where
  "prune gs = foldl (\<lambda>ps g. if containsGroup ps g then ps else ps @ [g]) [] gs"

text \<open>\<open>Reduce\<close>, with the panic of \<open>asGroupsOrPanic\<close> and of \<open>Groups\<close> on an item that is no group.\<close>

fun Reduce :: "item \<Rightarrow> item list outcome" where
  "Reduce (GroupImpl is) =
    (if list_all is_group is then
       (case is of
          [g] \<Rightarrow> Reduce g
        | _ \<Rightarrow> obind (omapM (\<lambda>g. Reduce g) is) (\<lambda>rs.
            Ok (prune (map (\<lambda>g. if is_group g then Collapse g else g)
              (and_groups (map NewGroupOfGroups rs))))))
     else Panic)"
| "Reduce (GroupsImpl gs) =
    (if list_all is_group gs then obind (omapM (\<lambda>g. Reduce g) gs) (\<lambda>rs. Ok (concat rs)) else Panic)"
| "Reduce (PeerGroup ws) = Ok [PeerGroup ws]"
| "Reduce (MspPeerGroup m f) = Ok [MspPeerGroup m f]"
| "Reduce (Peer p) = Panic"
| "Reduce (Wrapper r p) = Panic"

section \<open>Combinations\<close>

text \<open>
  \<open>getCombinations\<close>. The loop over \<open>i\<close> runs while \<open>i < len(items) - length + 1\<close>; it is a recursion
  over the suffix of the items from \<open>i\<close> on, for which the condition reads \<open>length \<le> len(suffix)\<close>.
  The parameter \<open>r\<close> of the Go function is the depth and is not used by it; the error it returns is
  always nil.
\<close>

fun getCombinations :: "item list \<Rightarrow> int \<Rightarrow> item outcome"
and combinations_loop :: "item list \<Rightarrow> int \<Rightarrow> item list outcome" where
  "getCombinations is len =
    (if len = 1 then Ok (NewGroupOfGroups (map (\<lambda>i. NewGroup [i]) is))
     else obind (combinations_loop is len) (\<lambda>gs. Ok (NewGroupOfGroups gs)))"
| "combinations_loop is len =
    (if len \<le> int (length is) then
       (case is of [] \<Rightarrow> Panic
        | leftItem # right \<Rightarrow> obind (getCombinations right (len - 1)) (\<lambda>rc.
            obind (combinations_loop right len) (\<lambda>rest.
            Ok (map (\<lambda>g. NewGroup (leftItem # Items g)) (Items rc) @ rest))))
     else Ok [])"

definition Nof :: "item \<Rightarrow> int \<Rightarrow> item res outcome" where
  "Nof g threshold =
    (if threshold > int (length (Items g)) then Ok (Inl (errorNew ''N is greater than length of the group''))
     else if threshold \<le> 0 then Ok (Inl (errorNew ''N must be greater than 0''))
     else obind (getCombinations (Items g) threshold) (\<lambda>c. Ok (Inr c)))"

section \<open>The signature policy compiler\<close>

text \<open>
  The messages of the protobuf package common: a \<open>SignaturePolicy\<close> pointer may be nil (\<open>None\<close>), its
  oneof may be unset (\<open>UnknownPolicy\<close>). \<open>SignedBy\<close> and \<open>N\<close> are int32 values, kept as integers:
  nothing is computed with them but the decreasing count of the combinations.
\<close>

datatype SigPolicy = SignedBy int | NOutOf int "SigPolicy option list" | UnknownPolicy

datatype PrincipalClass = ROLE | ORGANIZATION_UNIT | IDENTITY | OtherClass

record MSPPrincipal =
  PrincipalClassification :: PrincipalClass
  Principal :: bytes

record SigPolicyEnv =
  spe_Rule :: "SigPolicy option"
  spe_Identities :: "MSPPrincipal list"

text \<open>\<open>proto.Unmarshal\<close> of a role and of an organization unit, as far as their MSP identifier goes.\<close>

record principal_codec =
  un_MSPRole :: "bytes \<Rightarrow> string res"
  un_OrganizationUnit :: "bytes \<Rightarrow> string res"

definition mspPrincipalToString :: "principal_codec \<Rightarrow> MSPPrincipal \<Rightarrow> string res" where
  "mspPrincipalToString c p = (case PrincipalClassification p of
     ROLE \<Rightarrow> (case un_MSPRole c (Principal p) of
         Inl e \<Rightarrow> Inl (withMessage e ''unmarshal of principal failed'') | Inr m \<Rightarrow> Inr m)
   | ORGANIZATION_UNIT \<Rightarrow> (case un_OrganizationUnit c (Principal p) of
         Inl e \<Rightarrow> Inl (withMessage e ''unmarshal of principal failed'') | Inr m \<Rightarrow> Inr m)
   | IDENTITY \<Rightarrow> Inl (ErrorF ''unsupported PrincipalClassification type: %s'' [FS ''msp.MSPPrincipal_Classification''])
   | OtherClass \<Rightarrow> Inl (ErrorF ''unknown PrincipalClassification type: %s'' [FS ''msp.MSPPrincipal_Classification'']))"

type_synonym GroupRetriever = "MSPPeerRetriever \<Rightarrow> item res outcome"

definition signaturePolicySignedBy :: "principal_codec \<Rightarrow> int \<Rightarrow> MSPPrincipal list \<Rightarrow> GroupRetriever res" where
  "signaturePolicySignedBy c i ids = Inr (\<lambda>peerRetriever.
     if 0 \<le> i \<and> i < int (length ids) then
       (case mspPrincipalToString c (ids ! nat i) of
          Inl e \<Rightarrow> Ok (Inl (withMessage e ''error getting MSP ID from MSP principal''))
        | Inr mspID \<Rightarrow> Ok (Inr (NewGroupOfGroups [NewMSPPeerGroup mspID peerRetriever])))
     else Panic)"

definition signaturePolicySignedByAny :: "GroupRetriever res" where
  "signaturePolicySignedByAny = Inr (\<lambda>peerRetriever. Ok (Inr (NewGroupOfGroups [NewMSPPeerGroup [] peerRetriever])))"

text \<open>Two loops of \<open>signaturePolicyNOutOf\<close>: compiling the rules, and running the compiled functions.\<close>

primrec run_pfuncs :: "GroupRetriever list \<Rightarrow> MSPPeerRetriever \<Rightarrow> item list res outcome" where
  "run_pfuncs [] pr = Ok (Inr [])"
| "run_pfuncs (f # fs) pr = obind (f pr) (\<lambda>r. case r of
     Inl e \<Rightarrow> Ok (Inl e)
   | Inr g \<Rightarrow> obind (run_pfuncs fs pr) (\<lambda>rs. case rs of Inl e \<Rightarrow> Ok (Inl e) | Inr gs \<Rightarrow> Ok (Inr (g # gs))))"

definition nOutOf_retriever :: "int \<Rightarrow> GroupRetriever list \<Rightarrow> GroupRetriever" where
  "nOutOf_retriever n pfuncs = (\<lambda>peerRetriever. obind (run_pfuncs pfuncs peerRetriever) (\<lambda>r. case r of
     Inl e \<Rightarrow> Ok (Inl e) | Inr groups \<Rightarrow> Nof (NewGroupOfGroups groups) n))"

fun compile :: "principal_codec \<Rightarrow> MSPPrincipal list \<Rightarrow> SigPolicy option \<Rightarrow> GroupRetriever res"
and compile_rules :: "principal_codec \<Rightarrow> MSPPrincipal list \<Rightarrow> SigPolicy option list \<Rightarrow> GroupRetriever list res" where
  "compile c ids None = Inl (errorNew ''nil signature policy'')"
| "compile c ids (Some (SignedBy i)) = signaturePolicySignedBy c i ids"
| "compile c ids (Some (NOutOf n rules)) =
    (if n = 0 then signaturePolicySignedByAny
     else case compile_rules c ids rules of
       Inl e \<Rightarrow> Inl e | Inr pfuncs \<Rightarrow> Inr (nOutOf_retriever n pfuncs))"
| "compile c ids (Some UnknownPolicy) = Inl (ErrorF ''unsupported signature policy type: %v'' [FS ''<nil>''])"
| "compile_rules c ids [] = Inr []"
| "compile_rules c ids (r # rs) = (case compile c ids r of
     Inl e \<Rightarrow> Inl e
   | Inr f \<Rightarrow> (case compile_rules c ids rs of Inl e \<Rightarrow> Inl e | Inr fs \<Rightarrow> Inr (f # fs)))"

definition CompileSignaturePolicy :: "principal_codec \<Rightarrow> SigPolicyEnv \<Rightarrow> GroupRetriever res" where
  "CompileSignaturePolicy c env = (case compile c (spe_Identities env) (spe_Rule env) of
     Inl e \<Rightarrow> Inl (withMessage e ''error compiling chaincode signature policy'')
   | Inr f \<Rightarrow> Inr f)"

section \<open>Load balance policies\<close>

text \<open>
  The state of a policy is \<open>'s\<close>; \<open>Choose\<close> also takes the draw of the random source. The randomly
  choosing policy has no state. The index of the round robin policy starts at -1.
\<close>

type_synonym 's LoadBalancePolicy = "nat \<Rightarrow> 's \<Rightarrow> item list \<Rightarrow> item \<times> 's"

definition randomLBP_Choose :: "unit LoadBalancePolicy" where
  "randomLBP_Choose r s peerGroups =
    (if peerGroups = [] then (NewPeerGroup 0 [], s)
     else (peerGroups ! rand_Intn r (length peerGroups), s))"

definition NewRoundRobinLBP :: int where
  "NewRoundRobinLBP = - 1"

definition roundRobinLBP_Choose :: "int LoadBalancePolicy" where
  "roundRobinLBP_Choose r index peerGroups =
    (if peerGroups = [] then (NewPeerGroup 0 [], index)
     else let i = (if index = - 1 then int (rand_Intn r (length peerGroups)) else index + 1);
              i' = (if i \<ge> int (length peerGroups) then 0 else i)
          in (peerGroups ! nat i', i'))"

section \<open>Resolving peer groups\<close>

text \<open>
  \<open>mustGetPeerGroup\<close>, with the next free reference: a new peer group takes one for each wrapper.
\<close>

primrec item_peers :: "item list \<Rightarrow> peer list outcome" where
  "item_peers [] = Ok []"
| "item_peers (i # is) = (case i of Peer p \<Rightarrow> obind (item_peers is) (\<lambda>ps. Ok (p # ps)) | _ \<Rightarrow> Panic)"

definition mustGetPeerGroup :: "item \<Rightarrow> nat \<Rightarrow> (item \<times> nat) outcome" where
  "mustGetPeerGroup g n = (case Peers g of
     Some _ \<Rightarrow> Ok (g, n)
   | None \<Rightarrow> obind (item_peers (Items g)) (\<lambda>ps. Ok (NewPeerGroup n ps, n + length ps)))"

primrec getPeerGroup_loop :: "item list \<Rightarrow> nat \<Rightarrow> (item list \<times> nat) outcome" where
  "getPeerGroup_loop [] n = Ok ([], n)"
| "getPeerGroup_loop (g # gs) n = obind (mustGetPeerGroup g n) (\<lambda>(pg, n).
     obind (getPeerGroup_loop gs n) (\<lambda>(pgs, n). Ok (pg # pgs, n)))"

definition mustGetPeerGroups :: "item \<Rightarrow> nat \<Rightarrow> (item list \<times> nat) outcome" where
  "mustGetPeerGroups grp n = (case Items grp of
     [] \<Rightarrow> Ok ([], n)
   | i # _ \<Rightarrow>
     (let grp = (if is_group i then grp else NewGroup [grp])
      in if list_all (\<lambda>i. Peers i \<noteq> None) (Items grp)
         then getPeerGroup_loop (and_groups (Items grp)) n
         else Panic))"

primrec allPeerGroups_loop :: "item list \<Rightarrow> nat \<Rightarrow> item list outcome" where
  "allPeerGroups_loop [] n = Ok []"
| "allPeerGroups_loop (g # gs) n = obind (mustGetPeerGroups g n) (\<lambda>(pgs, n).
     obind (allPeerGroups_loop gs n) (\<lambda>rest. Ok (pgs @ rest)))"

definition getPeerGroups :: "GroupRetriever \<Rightarrow> MSPPeerRetriever \<Rightarrow> item list res outcome" where
  "getPeerGroups groupRetriever peerRetriever = obind (groupRetriever peerRetriever) (\<lambda>r. case r of
     Inl e \<Rightarrow> Ok (Inl e)
   | Inr groupHierarchy \<Rightarrow> obind (Reduce groupHierarchy) (\<lambda>mspGroups.
       obind (allPeerGroups_loop mspGroups 0) (\<lambda>pgs. Ok (Inr pgs))))"

definition peerRetriever :: "peer list \<Rightarrow> MSPPeerRetriever" where
  "peerRetriever peers = (\<lambda>mspID. filter (\<lambda>p. mspID = [] \<or> peer_MSPID p = mspID) peers)"

text \<open>A resolver is its group retriever with a load balance policy and the policy's state.\<close>

definition Resolve :: "GroupRetriever \<Rightarrow> 's LoadBalancePolicy \<Rightarrow> nat \<Rightarrow> 's \<Rightarrow> peer list
    \<Rightarrow> (item res \<times> 's) outcome" where
  "Resolve groupRetriever lbp r s peers =
    obind (getPeerGroups groupRetriever (peerRetriever peers)) (\<lambda>x. case x of
      Inl e \<Rightarrow> Ok (Inl e, s)
    | Inr peerGroups \<Rightarrow> (let (pg, s') = lbp r s peerGroups in Ok (Inr pg, s')))"

definition newResolver :: "principal_codec \<Rightarrow> SigPolicyEnv \<Rightarrow> GroupRetriever res" where
  "newResolver c env = (case CompileSignaturePolicy c env of
     Inl e \<Rightarrow> Inl (withMessage e ''error evaluating signature policy'')
   | Inr f \<Rightarrow> Inr f)"

end
