(* ===== verification/PgResolver_Groups.thy ===== *)
theory PgResolver_Groups
  imports PgResolver "HOL-Library.Sublist"
begin

text \<open>
  What a group of groups means and that the group operations respect it: \<open>gsat P g\<close> says that the
  peers of \<open>P\<close> satisfy the group \<open>g\<close>, where a \<open>groupImpl\<close> asks for all of its items, a \<open>groupsImpl\<close>
  for one of them and an \<open>mspPeerGroup\<close> for a peer of the organization.
\<close>

section \<open>The meaning of a group\<close>

fun gsat :: "peer set \<Rightarrow> item \<Rightarrow> bool" where
  "gsat P (Peer p) = (p \<in> P)"
| "gsat P (Wrapper r p) = (p \<in> P)"
| "gsat P (GroupImpl is) = list_all (\<lambda>i. gsat P i) is"
| "gsat P (GroupsImpl gs) = list_ex (\<lambda>i. gsat P i) gs"
| "gsat P (PeerGroup ws) = list_all (\<lambda>w. snd w \<in> P) ws"
| "gsat P (MspPeerGroup m f) = (\<exists>p\<in>P. m = [] \<or> peer_MSPID p = m)"

text \<open>The groups that a policy compiles to, over one retriever.\<close>

fun wfg :: "MSPPeerRetriever \<Rightarrow> item \<Rightarrow> bool" where
  "wfg f (MspPeerGroup m f') = (f' = f)"
| "wfg f (GroupImpl is) = (is \<noteq> [] \<and> list_all (\<lambda>i. wfg f i) is)"
| "wfg f (GroupsImpl gs) = list_all (\<lambda>i. wfg f i) gs"
| "wfg f i = False"

definition msps :: "MSPPeerRetriever \<Rightarrow> string list \<Rightarrow> item list" where
  "msps f ms = map (\<lambda>m. MspPeerGroup m f) ms"

text \<open>The groups that \<open>Reduce\<close> returns: one organization, or a conjunction of distinct ones.\<close>

definition flat :: "MSPPeerRetriever \<Rightarrow> item \<Rightarrow> bool" where
  "flat f g \<longleftrightarrow> (\<exists>m. g = MspPeerGroup m f) \<or> (\<exists>ms. ms \<noteq> [] \<and> distinct ms \<and> g = GroupImpl (msps f ms))"

fun mnames :: "item \<Rightarrow> string list" where
  "mnames (MspPeerGroup m f) = [m]"
| "mnames (GroupImpl is) = concat (map (\<lambda>i. mnames i) is)"
| "mnames i = []"

lemma mnames_msps [simp]: "concat (map mnames (msps f ms)) = ms"
  by (induction ms) (simp_all add: msps_def)

lemma msps_simps [simp]: "msps f [] = []" "msps f (m # ms) = MspPeerGroup m f # msps f ms"
  "length (msps f ms) = length ms" "msps f ms = [] \<longleftrightarrow> ms = []"
  "msps f (xs @ ys) = msps f xs @ msps f ys"
  by (simp_all add: msps_def)

lemma wfg_is_group: "wfg f g \<Longrightarrow> is_group g"
  by (cases g) (simp_all add: is_group_def)

lemma flat_is_group: "flat f g \<Longrightarrow> is_group g"
  by (auto simp: flat_def is_group_def)

lemma flat_mnames: "flat f g \<Longrightarrow> mnames g \<noteq> [] \<and> distinct (mnames g)"
  by (auto simp: flat_def)

definition matches :: "string \<Rightarrow> peer \<Rightarrow> bool" where
  "matches m p \<longleftrightarrow> m = [] \<or> peer_MSPID p = m"

lemma gsat_flat: "flat f g \<Longrightarrow> gsat P g \<longleftrightarrow> (\<forall>m\<in>set (mnames g). \<exists>p\<in>P. matches m p)"
  by (auto simp: flat_def msps_def list_all_iff matches_def)

section \<open>Combinations\<close>

lemma subseqs_Cons: "subseqs (x # xs) = map (Cons x) (subseqs xs) @ subseqs xs"
  by (simp add: Let_def)

declare subseqs.simps(2) [simp del] subseqs_Cons [simp]

lemma filter_subseqs_0: "filter (\<lambda>s. s = []) (subseqs xs) = [[]]"
  by (induction xs) (simp_all add: filter_map o_def)

lemma filter_subseqs_1: "filter (\<lambda>s. int (length s) = 1) (subseqs xs) = map (\<lambda>x. [x]) xs"
proof (induction xs)
  case (Cons x xs)
  then show ?case using filter_subseqs_0 [of xs] by (simp add: filter_map o_def)
qed simp

lemma filter_subseqs_long: "int (length xs) < k \<Longrightarrow> filter (\<lambda>s. int (length s) = k) (subseqs xs) = []"
  using list_emb_length by (fastforce simp: filter_empty_conv)

lemma filter_subseqs_Cons:
  "filter (\<lambda>s. int (length s) = k) (subseqs (x # xs))
    = map (Cons x) (filter (\<lambda>s. int (length s) = k - 1) (subseqs xs)) @ filter (\<lambda>s. int (length s) = k) (subseqs xs)"
  by (simp add: filter_map o_def algebra_simps)

lemma getCombinations_subseqs:
  shows "1 \<le> k \<Longrightarrow> getCombinations is k
      = Ok (GroupsImpl (map GroupImpl (filter (\<lambda>s. int (length s) = k) (subseqs is))))"
    and "2 \<le> k \<Longrightarrow> combinations_loop is k
      = Ok (map GroupImpl (filter (\<lambda>s. int (length s) = k) (subseqs is)))"
proof (induction "is" k and "is" k rule: getCombinations_combinations_loop.induct)
  case (1 "is" len)
  show ?case
  proof (cases "len = 1")
    case True
    then show ?thesis using filter_subseqs_1 [of "is"]
      by (simp add: NewGroupOfGroups_def NewGroup_def o_def)
  next
    case False
    then have "2 \<le> len" using 1 by linarith
    then show ?thesis using "1.IH" [OF False] False
      by (simp add: NewGroupOfGroups_def del: combinations_loop.simps)
  qed
next
  case (2 "is" len)
  show ?case
  proof (cases "len \<le> int (length is)")
    case False
    then show ?thesis using filter_subseqs_long [of "is" len] by simp
  next
    case True
    then obtain x xs where is_eq: "is = x # xs" using 2 by (cases "is") auto
    have "getCombinations xs (len - 1)
        = Ok (GroupsImpl (map GroupImpl (filter (\<lambda>s. int (length s) = len - 1) (subseqs xs))))"
      using "2.IH"(1) [OF True is_eq] "2.prems" by linarith
    moreover have "combinations_loop xs len
        = Ok (map GroupImpl (filter (\<lambda>s. int (length s) = len) (subseqs xs)))"
      using "2.IH"(2) [OF True is_eq] "2.prems" calculation by blast
    ultimately show ?thesis using True
      by (simp add: is_eq filter_subseqs_Cons NewGroup_def o_def
          del: getCombinations.simps combinations_loop.simps(1) subseqs_Cons
          add: combinations_loop.simps [of "x # xs"])
  qed
qed

lemma Nof_subseqs:
  assumes "1 \<le> n" "n \<le> int (length gs)"
  shows "Nof (GroupsImpl gs) n
    = Ok (Inr (GroupsImpl (map GroupImpl (filter (\<lambda>s. int (length s) = n) (subseqs gs)))))"
  using assms by (simp add: Nof_def getCombinations_subseqs(1) del: getCombinations.simps)

lemma ex_subseq_iff:
  "(\<exists>s \<in> set (subseqs xs). int (length s) = k \<and> list_all Q s) \<longleftrightarrow> 0 \<le> k \<and> k \<le> int (length (filter Q xs))"
proof
  assume "\<exists>s \<in> set (subseqs xs). int (length s) = k \<and> list_all Q s"
  then obtain s where s: "subseq s xs" "int (length s) = k" "list_all Q s" by auto
  have "filter Q s = s" using s(3) by (simp add: filter_id_conv list_all_iff)
  then have "subseq s (filter Q xs)" using subseq_filter [OF s(1), of Q] by simp
  then show "0 \<le> k \<and> k \<le> int (length (filter Q xs))" using s(2) list_emb_length by fastforce
next
  assume k: "0 \<le> k \<and> k \<le> int (length (filter Q xs))"
  let ?s = "take (nat k) (filter Q xs)"
  have "subseq ?s xs"
    using prefix_imp_subseq [OF take_is_prefix] subseq_filter_left subseq_order.trans by blast
  moreover have "list_all Q ?s" using set_take_subset by (fastforce simp: list_all_iff)
  ultimately show "\<exists>s \<in> set (subseqs xs). int (length s) = k \<and> list_all Q s"
    using k by (intro bexI [of _ ?s]) auto
qed

lemma gsat_Nof:
  assumes "1 \<le> n"
  shows "gsat P (GroupsImpl (map GroupImpl (filter (\<lambda>s. int (length s) = n) (subseqs gs))))
    \<longleftrightarrow> n \<le> int (length (filter (gsat P) gs))"
  using ex_subseq_iff [of gs n "gsat P"] assms by (auto simp: list_ex_iff)

section \<open>The and operation\<close>

lemma and_items_snoc: "j < length (Items g) \<Longrightarrow> and_items (st @ [(g, j)]) = and_items st @ [Items g ! j]"
  by (simp add: and_items_def)

lemma and_op_product:
  "and_op st gs = map GroupImpl (filter (\<lambda>xs. xs \<noteq> []) (map (\<lambda>xs. and_items st @ xs) (product_lists (map Items gs))))"
proof (induction gs arbitrary: st)
  case Nil
  then show ?case by (simp add: NewGroup_def)
next
  case (Cons g gs)
  let ?R = "\<lambda>st. map GroupImpl (filter (\<lambda>xs. xs \<noteq> []) (map (\<lambda>xs. and_items st @ xs) (product_lists (map Items gs))))"
  have "map (\<lambda>j. and_op (st @ [(g, j)]) gs) [0..<length (Items g)]
      = map (\<lambda>j. map GroupImpl (map (\<lambda>xs. and_items st @ (Items g ! j) # xs) (product_lists (map Items gs)))) [0..<length (Items g)]"
    by (rule map_cong) (simp_all add: Cons.IH and_items_snoc filter_map o_def)
  also have "\<dots> = map (\<lambda>x. map GroupImpl (map (\<lambda>xs. and_items st @ x # xs) (product_lists (map Items gs)))) (Items g)"
    by (rule nth_equalityI) simp_all
  finally show ?case
    by (simp add: map_concat filter_concat o_def filter_map)
qed

lemma and_groups_product:
  "and_groups gs = map GroupImpl (filter (\<lambda>xs. xs \<noteq> []) (product_lists (map Items gs)))"
  by (simp add: and_groups_def and_op_product and_items_def)

lemma and_groups_nonempty:
  "gs \<noteq> [] \<Longrightarrow> and_groups gs = map GroupImpl (product_lists (map Items gs))"
  by (cases gs) (auto simp: and_groups_product filter_concat filter_map o_def map_concat)

lemma gsat_product:
  "(\<exists>xs \<in> set (product_lists rs). list_all (gsat P) xs) \<longleftrightarrow> (\<forall>r \<in> set rs. \<exists>g \<in> set r. gsat P g)"
proof (induction rs)
  case (Cons r rs)
  have "(\<exists>xs \<in> set (product_lists (r # rs)). list_all (gsat P) xs)
      \<longleftrightarrow> (\<exists>g \<in> set r. gsat P g) \<and> (\<exists>xs \<in> set (product_lists rs). list_all (gsat P) xs)"
    by auto
  then show ?case using Cons.IH by simp
qed simp

lemma product_lists_length: "xs \<in> set (product_lists rs) \<Longrightarrow> length xs = length rs"
  by (simp add: product_lists_set list_all2_lengthD)

lemma product_lists_in:
  assumes "xs \<in> set (product_lists rs)" and "x \<in> set xs"
  shows "\<exists>r \<in> set rs. x \<in> set r"
  using assms by (auto simp: product_lists_set list_all2_conv_all_nth in_set_conv_nth) (metis nth_mem)

section \<open>Collapsing and pruning\<close>

definition ins_all :: "string list \<Rightarrow> string list \<Rightarrow> string list" where
  "ins_all xs ms = fold (\<lambda>x ms. if x \<in> set ms then ms else ms @ [x]) xs ms"

lemma ins_all_simps [simp]: "ins_all [] ms = ms"
  "ins_all (x # xs) ms = ins_all xs (if x \<in> set ms then ms else ms @ [x])"
  by (simp_all add: ins_all_def)

lemma ins_all_props: "distinct ms \<Longrightarrow> distinct (ins_all xs ms) \<and> set (ins_all xs ms) = set ms \<union> set xs"
  by (induction xs arbitrary: ms) auto

lemma ins_all_distinct: "distinct (ms @ xs) \<Longrightarrow> ins_all xs ms = ms @ xs"
proof (induction xs arbitrary: ms)
  case (Cons x xs)
  then have "x \<notin> set ms" "distinct ((ms @ [x]) @ xs)" by auto
  then show ?case using Cons.IH [of "ms @ [x]"] by simp
qed simp

lemma ins_all_append: "ins_all (xs @ ys) ms = ins_all ys (ins_all xs ms)"
  by (simp add: ins_all_def)

lemma containsItem_msps: "containsItem (msps f ms) (MspPeerGroup m f) \<longleftrightarrow> m \<in> set ms"
  by (auto simp: containsItem_def containsItem_by_def is_group_def msps_def list_ex_iff)

lemma fold_col_msps:
  "fold (\<lambda>ci c. if containsItem c ci then c else c @ [ci]) (msps f xs) (msps f ms) = msps f (ins_all xs ms)"
proof (induction xs arbitrary: ms)
  case (Cons x xs)
  show ?case using Cons.IH [of ms] Cons.IH [of "ms @ [x]"] by (simp add: containsItem_msps)
qed simp

lemma Collapse_GroupImpl:
  assumes "\<And>i. i \<in> set is \<Longrightarrow> is_group i \<and> Items (Collapse i) = msps f (mnames i)"
    and "concat (map mnames is) \<noteq> []"
  shows "Collapse (GroupImpl is) = GroupImpl (msps f (ins_all (concat (map mnames is)) []))"
proof -
  let ?step = "\<lambda>i (col, non).
         if is_group i
         then (fold (\<lambda>ci c. if containsItem c ci then c else c @ [ci]) (Items (Collapse i)) col, non)
         else (col, if containsItem non i then non else non @ [i])"
  have "fold ?step is (msps f ms, []) = (msps f (ins_all (concat (map mnames is)) ms), [])" for ms
    using assms(1)
  proof (induction "is" arbitrary: ms)
    case (Cons i "is")
    then show ?case by (simp add: fold_col_msps ins_all_append)
  qed simp
  from this [of "[]"] have "fold ?step is ([], []) = (msps f (ins_all (concat (map mnames is)) []), [])"
    by simp
  moreover have "ins_all (concat (map mnames is)) [] \<noteq> []"
    using ins_all_props [of "[]" "concat (map mnames is)"] assms(2) by fastforce
  ultimately show ?thesis by (simp add: NewGroup_def)
qed

lemma Collapse_flat:
  assumes "flat f g"
  shows "Items (Collapse g) = msps f (mnames g)"
proof -
  consider m where "g = MspPeerGroup m f" | ms where "ms \<noteq> []" "distinct ms" "g = GroupImpl (msps f ms)"
    using assms by (auto simp: flat_def)
  then show ?thesis
  proof cases
    case 1
    then show ?thesis by (simp add: NewGroup_def)
  next
    case 2
    have "Collapse (GroupImpl (msps f ms)) = GroupImpl (msps f (ins_all (concat (map mnames (msps f ms))) []))"
      by (rule Collapse_GroupImpl) (use 2 in \<open>auto simp: msps_def is_group_def NewGroup_def\<close>)
    then show ?thesis using 2 by (simp add: ins_all_distinct)
  qed
qed

lemma Collapse_flats:
  assumes "\<And>i. i \<in> set is \<Longrightarrow> flat f i" and "is \<noteq> []"
  shows "flat f (Collapse (GroupImpl is)) \<and> (\<forall>P. gsat P (Collapse (GroupImpl is)) = list_all (gsat P) is)"
proof -
  let ?ns = "concat (map mnames is)"
  have ne: "?ns \<noteq> []" using assms flat_mnames by (cases "is") auto
  have c: "Collapse (GroupImpl is) = GroupImpl (msps f (ins_all ?ns []))"
  proof (rule Collapse_GroupImpl [OF _ ne])
    fix i assume "i \<in> set is"
    then have "flat f i" by (rule assms(1))
    then show "is_group i \<and> Items (Collapse i) = msps f (mnames i)"
      using Collapse_flat flat_is_group by blast
  qed
  have p: "distinct (ins_all ?ns [])" "set (ins_all ?ns []) = set ?ns"
    using ins_all_props [of "[]" ?ns] by simp_all
  then have "ins_all ?ns [] \<noteq> []" using ne by fastforce
  then have fl: "flat f (Collapse (GroupImpl is))" using c p by (auto simp: flat_def)
  moreover have "gsat P (Collapse (GroupImpl is)) = list_all (gsat P) is" for P
  proof -
    have "gsat P (Collapse (GroupImpl is)) \<longleftrightarrow> (\<forall>m\<in>set ?ns. \<exists>p\<in>P. matches m p)"
      using gsat_flat [OF fl, of P] c p by simp
    also have "\<dots> \<longleftrightarrow> list_all (gsat P) is"
      using gsat_flat [OF assms(1), of _ P] by (auto simp: list_all_iff)
    finally show ?thesis .
  qed
  ultimately show ?thesis by blast
qed

lemma Equals_GroupImpl_msps:
  "Equals (GroupImpl (msps f ms)) (GroupImpl (msps f ns)) \<longleftrightarrow> length ms = length ns \<and> set ms \<subseteq> set ns"
proof -
  have "list_all (\<lambda>i. containsItem_by (Equals i) (msps f ns) i) (msps f ms) \<longleftrightarrow> set ms \<subseteq> set ns"
    using containsItem_msps by (auto simp: list_all_iff msps_def containsItem_def)
  then show ?thesis by simp
qed

lemma Equals_flat:
  assumes "flat f h" "flat f g" "Equals h g"
  shows "gsat P h = gsat P g"
proof -
  consider m where "h = MspPeerGroup m f" | ms where "ms \<noteq> []" "distinct ms" "h = GroupImpl (msps f ms)"
    using assms(1) by (auto simp: flat_def)
  then have "set (mnames h) = set (mnames g)"
  proof cases
    case 1
    then show ?thesis using assms(3) by (cases g) simp_all
  next
    case 2
    consider m where "g = MspPeerGroup m f" | ns where "distinct ns" "g = GroupImpl (msps f ns)"
      using assms(2) by (auto simp: flat_def)
    then show ?thesis
    proof cases
      case 1
      then show ?thesis using 2 assms(3)
        by (cases ms) (simp_all add: containsItem_by_def is_group_def list_ex_iff)
    next
      case ns: 2
      then have "set ms \<subseteq> set ns" "card (set ms) = card (set ns)"
        using assms(3) 2 Equals_GroupImpl_msps distinct_card by metis+
      then have "set ms = set ns" by (simp add: card_subset_eq)
      then show ?thesis using 2 ns by simp
    qed
  qed
  then show ?thesis using gsat_flat assms by metis
qed

definition prune_step :: "item list \<Rightarrow> item \<Rightarrow> item list" where
  "prune_step ps g = (if containsGroup ps g then ps else ps @ [g])"

lemma prune_step_props:
  "set ps \<subseteq> set (prune_step ps g)" "set (prune_step ps g) \<subseteq> insert g (set ps)"
  "\<exists>h \<in> set (prune_step ps g). h = g \<or> Equals h g"
  by (auto simp: prune_step_def containsGroup_def list_ex_iff)

lemma foldl_prune_mono: "set ps \<subseteq> set (foldl prune_step ps gs)"
  by (induction gs arbitrary: ps) (auto dest: subsetD [OF prune_step_props(1)])

lemma foldl_prune_subset: "set (foldl prune_step ps gs) \<subseteq> set ps \<union> set gs"
proof (induction gs arbitrary: ps)
  case (Cons g gs)
  then show ?case using Cons.IH [of "prune_step ps g"] prune_step_props(2) [of ps g] by simp blast
qed simp

lemma foldl_prune_covers: "g \<in> set gs \<Longrightarrow> \<exists>h \<in> set (foldl prune_step ps gs). h = g \<or> Equals h g"
proof (induction gs arbitrary: ps)
  case (Cons a gs)
  show ?case
  proof (cases "g = a")
    case True
    obtain h where "h \<in> set (prune_step ps a)" "h = a \<or> Equals h a" using prune_step_props(3) by blast
    then show ?thesis using True foldl_prune_mono [of "prune_step ps a" gs] by auto
  next
    case False
    then show ?thesis using Cons by simp
  qed
qed simp

lemma prune_props:
  "set (prune gs) \<subseteq> set gs" "g \<in> set gs \<Longrightarrow> \<exists>h \<in> set (prune gs). h = g \<or> Equals h g"
  using foldl_prune_subset [of "[]" gs] foldl_prune_covers [of g gs "[]"]
  by (simp_all add: prune_def prune_step_def [abs_def])

section \<open>Reduction\<close>

text \<open>
  Reducing the group of a policy does not panic, gives only conjunctions of distinct
  organizations, and as a disjunction these mean the same as the group.
\<close>

definition reduces :: "MSPPeerRetriever \<Rightarrow> item \<Rightarrow> item list \<Rightarrow> bool" where
  "reduces f g rs \<longleftrightarrow> list_all (flat f) rs \<and> (\<forall>P. list_ex (gsat P) rs = gsat P g)"

lemma reduces_concat:
  assumes "list_all2 (reduces f) gs rs"
  shows "reduces f (GroupsImpl gs) (concat rs)"
  using assms by (induction rule: list_all2_induct) (auto simp: reduces_def)

lemma reduces_and:
  assumes "list_all2 (reduces f) gs rs" and "gs \<noteq> []"
  shows "reduces f (GroupImpl gs) (prune (map Collapse (map GroupImpl (product_lists rs))))"
proof -
  let ?cs = "map Collapse (map GroupImpl (product_lists rs))"
  have rs: "rs \<noteq> []" "\<And>r g. r \<in> set rs \<Longrightarrow> g \<in> set r \<Longrightarrow> flat f g"
    using assms by (auto simp: reduces_def list_all2_conv_all_nth list_all_iff in_set_conv_nth [of _ rs])
  have cs: "flat f (Collapse (GroupImpl xs)) \<and> (\<forall>P. gsat P (Collapse (GroupImpl xs)) = list_all (gsat P) xs)"
    if "xs \<in> set (product_lists rs)" for xs
  proof (rule Collapse_flats)
    show "flat f i" if "i \<in> set xs" for i
      using product_lists_in [OF \<open>xs \<in> set (product_lists rs)\<close> that] rs(2) by blast
    show "xs \<noteq> []" using product_lists_length [OF that] rs(1) by auto
  qed
  have "list_all (flat f) (prune ?cs)"
    using cs prune_props(1) [of ?cs] by (fastforce simp: list_all_iff)
  moreover have "list_ex (gsat P) (prune ?cs) = gsat P (GroupImpl gs)" for P
  proof -
    have "list_ex (gsat P) (prune ?cs) = list_ex (gsat P) ?cs"
    proof
      assume "list_ex (gsat P) ?cs"
      then obtain g where g: "g \<in> set ?cs" "gsat P g" by (auto simp: list_ex_iff)
      obtain h where h: "h \<in> set (prune ?cs)" "h = g \<or> Equals h g" using prune_props(2) [OF g(1)] by blast
      have "flat f h" "flat f g" using h(1) g(1) cs prune_props(1) [of ?cs] by fastforce+
      then have "gsat P h" using Equals_flat h(2) g(2) by blast
      then show "list_ex (gsat P) (prune ?cs)" using h(1) by (auto simp: list_ex_iff)
    next
      assume "list_ex (gsat P) (prune ?cs)"
      then show "list_ex (gsat P) ?cs" using prune_props(1) [of ?cs] by (fastforce simp: list_ex_iff)
    qed
    also have "\<dots> \<longleftrightarrow> (\<exists>xs \<in> set (product_lists rs). list_all (gsat P) xs)"
      using cs by (auto simp: list_ex_iff)
    also have "\<dots> \<longleftrightarrow> (\<forall>r \<in> set rs. list_ex (gsat P) r)"
      by (simp add: gsat_product list_ex_iff)
    also have "\<dots> \<longleftrightarrow> list_all (gsat P) gs"
      using assms(1) by (induction rule: list_all2_induct) (auto simp: reduces_def)
    finally show ?thesis by simp
  qed
  ultimately show ?thesis by (simp add: reduces_def)
qed

lemma Reduce_wfg: "wfg f g \<Longrightarrow> \<exists>rs. Reduce g = Ok rs \<and> reduces f g rs"
proof (induction g rule: Reduce.induct)
  case (1 "is")
  have grp: "list_all is_group is" using "1.prems" wfg_is_group by (auto simp: list_all_iff)
  show ?case
  proof (cases "\<exists>g. is = [g]")
    case True
    then obtain g where g: "is = [g]" by blast
    then obtain rs where "Reduce g = Ok rs" "reduces f g rs" using "1.IH"(2) [OF grp g refl] "1.prems" by auto
    then show ?thesis using g grp by (simp add: reduces_def)
  next
    case False
    then have ne: "is \<noteq> []" and many: "\<And>x A B. (case is of [] \<Rightarrow> B | [g] \<Rightarrow> A g | g # h # t \<Rightarrow> B) = B"
      using "1.prems" by (auto split: list.splits)
    have "\<exists>y. Reduce g = Ok y \<and> reduces f g y" if "g \<in> set is" for g
    proof -
      obtain a b t where ab: "is = a # b # t" using False ne by (metis list.exhaust)
      show ?thesis using "1.IH"(3) [OF grp ab refl that] "1.prems" that by (auto simp: list_all_iff)
    qed
    then obtain rs where rs: "omapM Reduce is = Ok rs" "list_all2 (reduces f) is rs"
      using omapM_total [of "is" Reduce "reduces f"] by blast
    have "rs \<noteq> []" using rs(2) ne by auto
    then have ag: "and_groups (map NewGroupOfGroups rs) = map GroupImpl (product_lists rs)"
      by (simp add: and_groups_nonempty NewGroupOfGroups_def o_def)
    have cl: "map (\<lambda>g. if is_group g then Collapse g else g) (map GroupImpl (product_lists rs))
        = map Collapse (map GroupImpl (product_lists rs))"
      by (rule map_cong) (auto simp: is_group_def simp del: Collapse.simps)
    have "Reduce (GroupImpl is) = Ok (prune (map Collapse (map GroupImpl (product_lists rs))))"
      by (simp only: Reduce.simps grp if_True many rs(1) obind.simps ag cl)
    then show ?thesis using reduces_and [OF rs(2) ne] by blast
  qed
next
  case (2 gs)
  have grp: "list_all is_group gs" using 2(2) wfg_is_group by (auto simp: list_all_iff)
  have "\<exists>y. Reduce g = Ok y \<and> reduces f g y" if "g \<in> set gs" for g
    using 2(1) [OF grp that] 2(2) that by (auto simp: list_all_iff)
  then obtain rs where rs: "omapM Reduce gs = Ok rs" "list_all2 (reduces f) gs rs"
    using omapM_total [of gs Reduce "reduces f"] by blast
  then show ?case using grp reduces_concat [OF rs(2)] by simp
next
  case (4 m f')
  then show ?case by (auto simp: reduces_def flat_def)
qed simp_all

end
