(* ===== verification/PgResolver_Theorems.thy ===== *)
theory PgResolver_Theorems
  imports PgResolver_Groups
begin

text \<open>
  The resolver implements the endorsement policy: the meaning of a signature policy
  (\<open>satisfied\<close>), that compiling and reducing it keeps the meaning, the contract of a load balance
  policy as a locale with its two interpretations, and the properties of the resolver.
\<close>

section \<open>The meaning of a signature policy\<close>

text \<open>
  \<open>satisfied c ids P pol\<close>: the organizations of the peers of \<open>P\<close> satisfy \<open>pol\<close>, each rule being
  satisfied or not on its own. \<open>policy_ok\<close> is what the compiler and its result rely on.
\<close>

fun satisfied :: "principal_codec \<Rightarrow> MSPPrincipal list \<Rightarrow> peer set \<Rightarrow> SigPolicy option \<Rightarrow> bool" where
  "satisfied c ids P None = False"
| "satisfied c ids P (Some UnknownPolicy) = False"
| "satisfied c ids P (Some (SignedBy i)) = (case mspPrincipalToString c (ids ! nat i) of
     Inl e \<Rightarrow> False | Inr m \<Rightarrow> (\<exists>p\<in>P. matches m p))"
| "satisfied c ids P (Some (NOutOf n rules)) =
    (if n = 0 then P \<noteq> {} else n \<le> int (length (filter (\<lambda>r. satisfied c ids P r) rules)))"

fun policy_ok :: "principal_codec \<Rightarrow> MSPPrincipal list \<Rightarrow> SigPolicy option \<Rightarrow> bool" where
  "policy_ok c ids None = False"
| "policy_ok c ids (Some UnknownPolicy) = False"
| "policy_ok c ids (Some (SignedBy i)) =
    (0 \<le> i \<and> i < int (length ids) \<and> (case mspPrincipalToString c (ids ! nat i) of Inl e \<Rightarrow> False | Inr m \<Rightarrow> True))"
| "policy_ok c ids (Some (NOutOf n rules)) =
    (n = 0 \<or> 0 < n \<and> n \<le> int (length rules) \<and> list_all (\<lambda>r. policy_ok c ids r) rules)"

section \<open>Signatures\<close>

text \<open>
  \<open>can_sign c ids P pol\<close>: the peers of \<open>P\<close> can give the signatures that \<open>pol\<close> asks for, each peer one signature. This is what
  the peers check at the end, and more than \<open>satisfied\<close>, which asks for the organizations only: the resolver works with
  organizations. \<open>signers\<close> are the organizations that a policy names, as often as it names them.
\<close>

fun can_sign :: "principal_codec \<Rightarrow> MSPPrincipal list \<Rightarrow> peer set \<Rightarrow> SigPolicy option \<Rightarrow> bool"
and deals :: "principal_codec \<Rightarrow> MSPPrincipal list \<Rightarrow> peer set \<Rightarrow> int \<Rightarrow> SigPolicy option list \<Rightarrow> bool" where
  "can_sign c ids P None = False"
| "can_sign c ids P (Some UnknownPolicy) = False"
| "can_sign c ids P (Some (SignedBy i)) = (case mspPrincipalToString c (ids ! nat i) of
     Inl e \<Rightarrow> False | Inr m \<Rightarrow> (\<exists>p\<in>P. matches m p))"
| "can_sign c ids P (Some (NOutOf n rules)) = (n = 0 \<or> deals c ids P n rules)"
| "deals c ids P n [] = (n \<le> 0)"
| "deals c ids P n (r # rs) = (deals c ids P n rs \<or> (\<exists>Q\<in>Pow P. can_sign c ids Q r \<and> deals c ids (P - Q) (n - 1) rs))"

fun signers :: "principal_codec \<Rightarrow> MSPPrincipal list \<Rightarrow> SigPolicy option \<Rightarrow> string list" where
  "signers c ids None = []"
| "signers c ids (Some UnknownPolicy) = []"
| "signers c ids (Some (SignedBy i)) = (case mspPrincipalToString c (ids ! nat i) of Inl e \<Rightarrow> [] | Inr m \<Rightarrow> [m])"
| "signers c ids (Some (NOutOf n rules)) = (if n = 0 then [] else concat (map (\<lambda>r. signers c ids r) rules))"

definition each_once :: "principal_codec \<Rightarrow> MSPPrincipal list \<Rightarrow> SigPolicy option \<Rightarrow> bool" where
  "each_once c ids pol \<longleftrightarrow> distinct (signers c ids pol) \<and> [] \<notin> set (signers c ids pol)"

lemma signed_mono:
  "can_sign c ids P pol \<Longrightarrow> P \<subseteq> P' \<Longrightarrow> can_sign c ids P' pol"
  "deals c ids P n rules \<Longrightarrow> P \<subseteq> P' \<Longrightarrow> deals c ids P' n rules"
proof (induction c ids P pol and c ids P n rules arbitrary: P' and P' rule: can_sign_deals.induct)
  case (6 c ids P n r rs)
  show ?case
  proof (cases "deals c ids P n rs")
    case False
    then obtain Q where Q: "Q \<subseteq> P" "can_sign c ids Q r" "deals c ids (P - Q) (n - 1) rs" using 6(4) by auto
    then have "deals c ids (P' - Q) (n - 1) rs" using 6(3) [of Q "P' - Q"] 6(5) by blast
    then show ?thesis using Q 6(5) by auto
  qed (use 6(1) [of P'] 6(5) in auto)
qed (auto split: sum.splits)

lemma signed_satisfied:
  "can_sign c ids P pol \<Longrightarrow> P \<subseteq> P' \<Longrightarrow> P' \<noteq> {} \<Longrightarrow> satisfied c ids P' pol"
  "deals c ids P n rules \<Longrightarrow> P \<subseteq> P' \<Longrightarrow> P' \<noteq> {} \<Longrightarrow> n \<le> int (length (filter (\<lambda>r. satisfied c ids P' r) rules))"
proof (induction c ids P pol and c ids P n rules arbitrary: P' and P' rule: can_sign_deals.induct)
  case (6 c ids P n r rs)
  show ?case
  proof (cases "deals c ids P n rs")
    case True
    then show ?thesis using 6(1) [OF True 6(5,6)] by simp
  next
    case False
    then obtain Q where Q: "Q \<subseteq> P" "can_sign c ids Q r" "deals c ids (P - Q) (n - 1) rs" using 6(4) by auto
    have "satisfied c ids P' r" using 6(2) [of Q P'] Q 6(5,6) by auto
    moreover have "n - 1 \<le> int (length (filter (\<lambda>r. satisfied c ids P' r) rs))" using 6(3) [of Q P'] Q 6(5,6) by auto
    ultimately show ?thesis by simp
  qed
qed (auto split: sum.splits)

text \<open>Of a policy that names an organization at most once, every organization can send one peer.\<close>

lemma satisfied_signed:
  "satisfied c ids P pol \<Longrightarrow> distinct (signers c ids pol) \<Longrightarrow> [] \<notin> set (signers c ids pol)
    \<Longrightarrow> can_sign c ids {p \<in> P. peer_MSPID p \<in> set (signers c ids pol)} pol"
proof (induction c ids P pol rule: satisfied.induct)
  case (4 c ids P n rules)
  have deal: "deals c ids {p \<in> P. peer_MSPID p \<in> set (concat (map (signers c ids) rs))} k rs"
    if "k \<le> int (length (filter (\<lambda>r. satisfied c ids P r) rs))" "distinct (concat (map (signers c ids) rs))"
      "[] \<notin> set (concat (map (signers c ids) rs))" "set rs \<subseteq> set rules" "n \<noteq> 0" for k rs
    using that
  proof (induction rs arbitrary: k)
    case (Cons r rs)
    let ?R = "set (signers c ids r)" and ?S = "set (concat (map (signers c ids) rs))"
    let ?P = "{p \<in> P. peer_MSPID p \<in> set (concat (map (signers c ids) (r # rs)))}"
    have d: "distinct (signers c ids r)" "distinct (concat (map (signers c ids) rs))" "?R \<inter> ?S = {}" "[] \<notin> ?R" "[] \<notin> ?S"
      using Cons.prems(2,3) by auto
    show ?case
    proof (cases "satisfied c ids P r")
      case True
      let ?Q = "{p \<in> P. peer_MSPID p \<in> ?R}"
      have "can_sign c ids ?Q r" using "4.IH" [OF \<open>n \<noteq> 0\<close> _ True d(1,4)] Cons.prems(4) by simp
      moreover have "?P - ?Q = {p \<in> P. peer_MSPID p \<in> ?S}" using d(3) by auto
      moreover have "deals c ids {p \<in> P. peer_MSPID p \<in> ?S} (k - 1) rs"
        using Cons.IH [of "k - 1"] True Cons.prems(1,4,5) d(2,5) by simp
      ultimately have "?Q \<in> Pow ?P \<and> can_sign c ids ?Q r \<and> deals c ids (?P - ?Q) (k - 1) rs" by auto
      then show ?thesis unfolding deals.simps(2) by blast
    next
      case False
      then have "deals c ids {p \<in> P. peer_MSPID p \<in> ?S} k rs" using Cons.IH [of k] Cons.prems(1,4,5) d(2,5) by simp
      then have "deals c ids ?P k rs" by (rule signed_mono(2)) auto
      then show ?thesis by simp
    qed
  qed simp
  show ?case using deal [of n rules] "4.prems" by (cases "n = 0") auto
qed (auto simp: matches_def split: sum.splits if_splits)

lemma signed_iff:
  assumes "each_once c ids pol" "P \<noteq> {}"
  shows "can_sign c ids P pol \<longleftrightarrow> satisfied c ids P pol"
  using assms signed_satisfied(1) [OF _ subset_refl] satisfied_signed(1) [of c ids P pol]
  by (auto simp: each_once_def intro: signed_mono(1))

lemma choice_signed:
  assumes "if satisfied c ids P pol then satisfied c ids (set ps) pol else ps = []" "each_once c ids pol" "P \<noteq> {}" "can_sign c ids P pol"
  shows "can_sign c ids (set ps) pol"
proof -
  have "satisfied c ids P pol" using assms(2-4) by (simp add: signed_iff)
  then have "satisfied c ids (set ps) pol" using assms(1) by simp
  then show ?thesis using assms(2) satisfied_signed [of c ids "set ps" pol]
    by (auto simp: each_once_def intro: signed_mono(1))
qed

text \<open>A retriever of groups that mean \<open>S\<close>.\<close>

definition retrieves_sat :: "(peer set \<Rightarrow> bool) \<Rightarrow> GroupRetriever \<Rightarrow> bool" where
  "retrieves_sat S f \<longleftrightarrow> (\<forall>pr. \<exists>g. f pr = Ok (Inr g) \<and> wfg pr g \<and> (\<forall>P. gsat P g = S P))"

abbreviation retrieves :: "principal_codec \<Rightarrow> MSPPrincipal list \<Rightarrow> SigPolicy option \<Rightarrow> GroupRetriever \<Rightarrow> bool" where
  "retrieves c ids pol \<equiv> retrieves_sat (\<lambda>P. satisfied c ids P pol)"

lemma run_pfuncs_ok:
  assumes "list_all2 retrieves_sat Ss fs"
  shows "\<exists>gs. run_pfuncs fs pr = Ok (Inr gs) \<and> length gs = length Ss \<and> list_all (wfg pr) gs
    \<and> (\<forall>P. map (gsat P) gs = map (\<lambda>S. S P) Ss)"
  using assms
proof (induction rule: list_all2_induct)
  case (Cons S Ss f fs)
  obtain g where "f pr = Ok (Inr g)" "wfg pr g" "\<forall>P. gsat P g = S P"
    using Cons.hyps(1) by (auto simp: retrieves_sat_def)
  then show ?case using Cons.IH by auto
qed simp

lemma length_filter_map_eq: "map Q xs = map R ys \<Longrightarrow> length (filter Q xs) = length (filter R ys)"
proof (induction xs arbitrary: ys)
  case (Cons x xs)
  then show ?case by (cases ys) auto
qed simp

lemma nOutOf_retrieves:
  assumes "list_all2 retrieves_sat Ss fs" and "0 < n" and "n \<le> int (length Ss)"
  shows "retrieves_sat (\<lambda>P. n \<le> int (length (filter (\<lambda>S. S P) Ss))) (nOutOf_retriever n fs)"
proof -
  have "\<exists>g. nOutOf_retriever n fs pr = Ok (Inr g) \<and> wfg pr g
      \<and> (\<forall>P. gsat P g = (n \<le> int (length (filter (\<lambda>S. S P) Ss))))" for pr
  proof -
    obtain gs where gs: "run_pfuncs fs pr = Ok (Inr gs)" "length gs = length Ss" "list_all (wfg pr) gs"
      "\<And>P. map (gsat P) gs = map (\<lambda>S. S P) Ss"
      using run_pfuncs_ok [OF assms(1), of pr] by blast
    let ?g = "GroupsImpl (map GroupImpl (filter (\<lambda>s. int (length s) = n) (subseqs gs)))"
    have "nOutOf_retriever n fs pr = Ok (Inr ?g)"
      using gs(1,2) assms(2,3) by (simp add: nOutOf_retriever_def NewGroupOfGroups_def Nof_subseqs)
    moreover have "wfg pr ?g"
    proof -
      have "s \<noteq> [] \<and> list_all (wfg pr) s" if "int (length s) = n" "subseq s gs" for s
        using that gs(3) assms(2) list_emb_set [OF that(2)] by (fastforce simp: list_all_iff)
      then show ?thesis by (auto simp: list_all_iff)
    qed
    moreover have "gsat P ?g = (n \<le> int (length (filter (\<lambda>S. S P) Ss)))" for P
      using gsat_Nof [of n P gs] length_filter_map_eq [OF gs(4) [of P]] assms(2) by simp
    ultimately show ?thesis by blast
  qed
  then show ?thesis by (simp add: retrieves_sat_def)
qed

lemma compile_retrieves:
  shows "policy_ok c ids pol \<Longrightarrow> \<exists>f. compile c ids pol = Inr f \<and> retrieves c ids pol f"
    and "list_all (policy_ok c ids) rules \<Longrightarrow>
      \<exists>fs. compile_rules c ids rules = Inr fs \<and> list_all2 retrieves_sat (map (\<lambda>r P. satisfied c ids P r) rules) fs"
proof (induction c ids pol and c ids rules rule: compile_compile_rules.induct)
  case (2 c ids i)
  then obtain m where "mspPrincipalToString c (ids ! nat i) = Inr m" by (auto split: sum.splits)
  then show ?case using 2
    by (auto simp: signaturePolicySignedBy_def retrieves_sat_def NewGroupOfGroups_def NewMSPPeerGroup_def matches_def)
next
  case (3 c ids n rules)
  show ?case
  proof (cases "n = 0")
    case True
    then show ?thesis
      by (auto simp: signaturePolicySignedByAny_def retrieves_sat_def NewGroupOfGroups_def NewMSPPeerGroup_def)
  next
    case False
    then obtain fs where fs: "compile_rules c ids rules = Inr fs" "list_all2 retrieves_sat (map (\<lambda>r P. satisfied c ids P r) rules) fs"
      using 3 by auto
    have "retrieves c ids (Some (NOutOf n rules)) (nOutOf_retriever n fs)"
      using nOutOf_retrieves [OF fs(2), of n] 3(2) False by (simp add: filter_map comp_def)
    then show ?thesis using fs(1) False by simp
  qed
next
  case (6 c ids r rs)
  then obtain f fs where "compile c ids r = Inr f" "retrieves c ids r f"
    "compile_rules c ids rs = Inr fs" "list_all2 retrieves_sat (map (\<lambda>r P. satisfied c ids P r) rs) fs" by auto
  then show ?case by simp
qed simp_all

section \<open>Peer groups\<close>

lemma product_lists_map: "product_lists (map (map h) xss) = map (map h) (product_lists xss)"
  by (induction xss) (simp_all add: map_concat o_def)

lemma item_peers_map [simp]: "item_peers (map Peer ps) = Ok ps"
  by (induction ps) simp_all

lemma getPeerGroup_loop_ok:
  "\<exists>pgs n'. getPeerGroup_loop (map (\<lambda>ps. GroupImpl (map Peer ps)) pss) n = Ok (pgs, n')
    \<and> map Peers pgs = map Some pss"
proof (induction pss arbitrary: n)
  case (Cons ps pss)
  obtain pgs n' where "getPeerGroup_loop (map (\<lambda>ps. GroupImpl (map Peer ps)) pss) (n + length ps) = Ok (pgs, n')"
    "map Peers pgs = map Some pss" using Cons.IH by blast
  then show ?case
    by (simp add: mustGetPeerGroup_def NewPeerGroup_def asPeerWrappers_def)
qed simp

lemma mustGetPeerGroups_flat:
  assumes "flat pr g"
  shows "\<exists>pgs n'. mustGetPeerGroups g n = Ok (pgs, n')
    \<and> map Peers pgs = map Some (product_lists (map pr (mnames g)))"
proof -
  consider m where "g = MspPeerGroup m pr" | ms where "ms \<noteq> []" "g = GroupImpl (msps pr ms)"
    using assms by (auto simp: flat_def)
  then show ?thesis
  proof cases
    case 1
    have "product_lists [map Peer (pr m)] = map (\<lambda>p. [Peer p]) (pr m)"
      "product_lists [pr m] = map (\<lambda>p. [p]) (pr m)" by (simp_all add: concat_map_singleton o_def)
    then have eq: "and_groups [MspPeerGroup m pr] = map (\<lambda>ps. GroupImpl (map Peer ps)) (product_lists [pr m])"
      by (simp add: and_groups_nonempty del: product_lists.simps)
    show ?thesis
    proof (cases "pr m")
      case Nil
      then show ?thesis using 1 by (simp add: mustGetPeerGroups_def)
    next
      case (Cons p ps)
      have "mustGetPeerGroups g n = getPeerGroup_loop (and_groups [MspPeerGroup m pr]) n"
        using 1 Cons by (simp add: mustGetPeerGroups_def NewGroup_def is_group_def)
      then show ?thesis
        using getPeerGroup_loop_ok [of "product_lists [pr m]" n] 1 by (simp only: eq mnames.simps list.map)
    qed
  next
    case 2
    obtain m ms' where ms: "ms = m # ms'" using 2(1) by (cases ms) auto
    have "map Items (msps pr ms) = map (map Peer) (map pr ms)" by (simp add: msps_def)
    then have eq: "and_groups (msps pr ms) = map (\<lambda>ps. GroupImpl (map Peer ps)) (product_lists (map pr ms))"
      using 2(1) and_groups_nonempty [of "msps pr ms"] product_lists_map [of Peer "map pr ms"] by simp
    have "mustGetPeerGroups g n = getPeerGroup_loop (and_groups (msps pr ms)) n"
      using 2 by (simp add: mustGetPeerGroups_def is_group_def ms list_all_iff) (simp add: msps_def)
    then show ?thesis
      using getPeerGroup_loop_ok [of "product_lists (map pr ms)" n] 2 by (simp add: eq)
  qed
qed

lemma allPeerGroups_loop_flat:
  assumes "list_all (flat pr) rs"
  shows "\<exists>pgs. allPeerGroups_loop rs n = Ok pgs
    \<and> map Peers pgs = map Some (concat (map (\<lambda>g. product_lists (map pr (mnames g))) rs))"
  using assms
proof (induction rs arbitrary: n)
  case (Cons g rs)
  obtain pgs n' where "mustGetPeerGroups g n = Ok (pgs, n')"
    "map Peers pgs = map Some (product_lists (map pr (mnames g)))"
    using mustGetPeerGroups_flat Cons.prems by fastforce
  moreover obtain pgs' where "allPeerGroups_loop rs n' = Ok pgs'"
    "map Peers pgs' = map Some (concat (map (\<lambda>g. product_lists (map pr (mnames g))) rs))"
    using Cons by fastforce
  ultimately show ?case by simp
qed simp

text \<open>What \<open>getPeerGroups\<close> returns for the peers that are available.\<close>

definition peer_groups_ok :: "(peer set \<Rightarrow> bool) \<Rightarrow> peer list \<Rightarrow> item list \<Rightarrow> bool" where
  "peer_groups_ok sat peers pgs \<longleftrightarrow>
     (\<forall>pg \<in> set pgs. \<exists>ps. Peers pg = Some ps \<and> set ps \<subseteq> set peers \<and> sat (set ps))
   \<and> (pgs = [] \<longleftrightarrow> \<not> sat (set peers))"

lemma getPeerGroups_ok:
  assumes "retrieves_sat S f"
  shows "\<exists>pgs. getPeerGroups f (peerRetriever peers) = Ok (Inr pgs)
    \<and> peer_groups_ok S peers pgs"
proof -
  let ?pr = "peerRetriever peers"
  obtain g where g: "f ?pr = Ok (Inr g)" "wfg ?pr g" "\<And>P. gsat P g = S P"
    using assms by (auto simp: retrieves_sat_def)
  obtain rs where rs: "Reduce g = Ok rs" "list_all (flat ?pr) rs" "\<And>P. list_ex (gsat P) rs = gsat P g"
    using Reduce_wfg [OF g(2)] by (auto simp: reduces_def)
  obtain pgs where pgs: "allPeerGroups_loop rs 0 = Ok pgs"
    "map Peers pgs = map Some (concat (map (\<lambda>g. product_lists (map ?pr (mnames g))) rs))"
    using allPeerGroups_loop_flat [OF rs(2)] by blast
  have avail: "p \<in> set (?pr m) \<longleftrightarrow> p \<in> set peers \<and> matches m p" for m p
    by (auto simp: peerRetriever_def matches_def)
  have sat: "set ps \<subseteq> set peers \<and> gsat (set ps) g"
    if r: "r \<in> set rs" and ps: "ps \<in> set (product_lists (map ?pr (mnames r)))" for r ps
  proof -
    have "list_all2 (\<lambda>p m. p \<in> set (?pr m)) ps (mnames r)"
      using ps by (simp add: product_lists_set list_all2_map2)
    then have "\<forall>m \<in> set (mnames r). \<exists>p \<in> set ps. matches m p" "set ps \<subseteq> set peers"
      using avail by (fastforce simp: list_all2_conv_all_nth in_set_conv_nth)+
    moreover have "flat ?pr r" using rs(2) r by (simp add: list_all_iff)
    ultimately have "gsat (set ps) r" using gsat_flat by blast
    then have "list_ex (gsat (set ps)) rs" using r by (auto simp: list_ex_iff)
    then show ?thesis using rs(3) \<open>set ps \<subseteq> set peers\<close> by simp
  qed
  have "\<exists>ps. Peers pg = Some ps \<and> set ps \<subseteq> set peers \<and> S (set ps)" if "pg \<in> set pgs" for pg
  proof -
    have "Peers pg \<in> set (map Some (concat (map (\<lambda>g. product_lists (map ?pr (mnames g))) rs)))"
      using that by (simp only: pgs(2) [symmetric] set_map image_eqI)
    then show ?thesis using sat g(3) by auto
  qed
  moreover have "pgs = [] \<longleftrightarrow> \<not> S (set peers)"
  proof -
    have "pgs = [] \<longleftrightarrow> (\<forall>r \<in> set rs. product_lists (map ?pr (mnames r)) = [])"
      using arg_cong [OF pgs(2), of "\<lambda>xs. xs = []"] by auto
    also have "\<dots> \<longleftrightarrow> (\<forall>r \<in> set rs. \<exists>m \<in> set (mnames r). ?pr m = [])"
    proof -
      have "product_lists (map ?pr ms) = [] \<longleftrightarrow> (\<exists>m \<in> set ms. ?pr m = [])" for ms
        by (induction ms) (auto simp: neq_Nil_conv)
      then show ?thesis by simp
    qed
    also have "\<dots> \<longleftrightarrow> (\<forall>r \<in> set rs. \<not> gsat (set peers) r)"
    proof -
      have "?pr m = [] \<longleftrightarrow> \<not> (\<exists>p \<in> set peers. matches m p)" for m
        using avail [of _ m] by (metis all_not_in_conv set_empty)
      then show ?thesis using gsat_flat rs(2) by (fastforce simp: list_all_iff)
    qed
    also have "\<dots> \<longleftrightarrow> \<not> S (set peers)"
      using rs(3) g(3) by (auto simp: list_ex_iff)
    finally show ?thesis .
  qed
  ultimately have "peer_groups_ok S peers pgs"
    by (simp add: peer_groups_ok_def)
  then show ?thesis using g(1) rs(1) pgs(1) by (simp add: getPeerGroups_def)
qed

section \<open>The contract of a load balance policy\<close>

text \<open>
  The interface \<open>LoadBalancePolicy\<close> of pgresolver.go: the choice is one of the groups, a peer group
  without peers if there is none, and the policy stays in a good state.
\<close>

locale load_balance_policy =
  fixes lbp :: "'s LoadBalancePolicy" and good :: "'s \<Rightarrow> bool"
  assumes lbp_in: "good s \<Longrightarrow> gs \<noteq> [] \<Longrightarrow> fst (lbp r s gs) \<in> set gs"
    and lbp_empty: "Peers (fst (lbp r s [])) = Some []"
    and lbp_good: "good s \<Longrightarrow> good (snd (lbp r s gs))"
begin

lemma resolves_sat:
  assumes "retrieves_sat S f" and "good s"
  shows "\<exists>pg ps s'. Resolve f lbp r s peers = Ok (Inr pg, s') \<and> good s'
    \<and> Peers pg = Some ps \<and> set ps \<subseteq> set peers \<and> (if S (set peers) then S (set ps) else ps = [])"
proof -
  obtain pgs where pgs: "getPeerGroups f (peerRetriever peers) = Ok (Inr pgs)" "peer_groups_ok S peers pgs"
    using getPeerGroups_ok [OF assms(1)] by blast
  obtain pg s' where c: "lbp r s pgs = (pg, s')" by (cases "lbp r s pgs")
  have "\<exists>ps. Peers pg = Some ps \<and> set ps \<subseteq> set peers \<and> (if S (set peers) then S (set ps) else ps = [])"
  proof (cases "pgs = []")
    case True
    then show ?thesis using lbp_empty [of r s] c pgs(2) by (simp add: peer_groups_ok_def)
  next
    case False
    then have "pg \<in> set pgs" using lbp_in [OF assms(2), of pgs r] c by simp
    then show ?thesis using pgs(2) False by (simp add: peer_groups_ok_def)
  qed
  moreover have "good s'" using lbp_good [OF assms(2), of r pgs] c by simp
  ultimately show ?thesis using pgs(1) c by (auto simp: Resolve_def)
qed

lemma resolves:
  assumes "policy_ok c (spe_Identities env) (spe_Rule env)" and "good s"
  shows "\<exists>f pg ps s'. newResolver c env = Inr f
    \<and> Resolve f lbp r s peers = Ok (Inr pg, s') \<and> good s'
    \<and> Peers pg = Some ps \<and> set ps \<subseteq> set peers
    \<and> (if satisfied c (spe_Identities env) (set peers) (spe_Rule env)
       then satisfied c (spe_Identities env) (set ps) (spe_Rule env) else ps = [])"
proof -
  obtain f where f: "compile c (spe_Identities env) (spe_Rule env) = Inr f"
    "retrieves c (spe_Identities env) (spe_Rule env) f"
    using compile_retrieves(1) [OF assms(1)] by blast
  then show ?thesis
    using resolves_sat [OF f(2) assms(2), of r peers] by (simp add: newResolver_def CompileSignaturePolicy_def)
qed

end

lemma Peers_NewPeerGroup_Nil [simp]: "Peers (NewPeerGroup n []) = Some []"
  by (simp add: NewPeerGroup_def asPeerWrappers_def)

definition rr_good :: "int \<Rightarrow> bool" where
  "rr_good i \<longleftrightarrow> - 1 \<le> i"

interpretation random_lbp: load_balance_policy randomLBP_Choose "\<lambda>s. True"
  by unfold_locales (simp_all add: randomLBP_Choose_def)

interpretation rr_lbp: load_balance_policy roundRobinLBP_Choose rr_good
  by unfold_locales (auto simp: roundRobinLBP_Choose_def rr_good_def Let_def nat_less_iff)

section \<open>Properties of the resolver\<close>


definition ex_pcodec :: principal_codec where
  "ex_pcodec = \<lparr>un_MSPRole = \<lambda>b. Inr (map (\<lambda>w. char_of (unat w)) b), un_OrganizationUnit = \<lambda>b. Inl (errorNew ''bad'')\<rparr>"

definition ex_ids :: "MSPPrincipal list" where
  "ex_ids = [\<lparr>PrincipalClassification = ROLE, Principal = [65]\<rparr>, \<lparr>PrincipalClassification = ROLE, Principal = [66]\<rparr>]"

definition ex_env :: SigPolicyEnv where
  "ex_env = \<lparr>spe_Rule = Some (NOutOf 2 [Some (SignedBy 0), Some (SignedBy 1)]), spe_Identities = ex_ids\<rparr>"

definition ex_peers :: "peer list" where
  "ex_peers = [mkPeer 1 ''p1'' ''A'' None, mkPeer 2 ''p2'' ''B'' None, mkPeer 3 ''p3'' ''A'' None]"

lemma ex_policy_ok: "policy_ok ex_pcodec (spe_Identities ex_env) (spe_Rule ex_env)"
  by code_simp

lemma ex_signed:
  "each_once ex_pcodec (spe_Identities ex_env) (spe_Rule ex_env)"
  "can_sign ex_pcodec (spe_Identities ex_env) (set ex_peers) (spe_Rule ex_env)"
proof -
  show once: "each_once ex_pcodec (spe_Identities ex_env) (spe_Rule ex_env)" by code_simp
  have "satisfied ex_pcodec (spe_Identities ex_env) (set ex_peers) (spe_Rule ex_env)" by code_simp
  moreover have "set ex_peers \<noteq> {}" by (simp add: ex_peers_def)
  ultimately show "can_sign ex_pcodec (spe_Identities ex_env) (set ex_peers) (spe_Rule ex_env)"
    using signed_iff [OF once] by blast
qed


text \<open>
  The random resolver of a well-formed signature policy gives the same guarantee as the round
  robin one, whatever the draw.
\<close>

theorem random_resolves:
  assumes "policy_ok c (spe_Identities env) (spe_Rule env)"
  shows "\<exists>f pg ps. newResolver c env = Inr f
    \<and> Resolve f randomLBP_Choose r () peers = Ok (Inr pg, ())
    \<and> Peers pg = Some ps \<and> set ps \<subseteq> set peers
    \<and> (if satisfied c (spe_Identities env) (set peers) (spe_Rule env)
       then satisfied c (spe_Identities env) (set ps) (spe_Rule env) else ps = [])"
  using random_lbp.resolves [OF assms TrueI, of r "()" peers] by (simp del: if_split)

theorem random_resolves_witness:
  "\<exists>f pg ps. newResolver ex_pcodec ex_env = Inr f
    \<and> Resolve f randomLBP_Choose 5 () (take 1 ex_peers) = Ok (Inr pg, ()) \<and> Peers pg = Some ps \<and> ps = []"
proof -
  have "\<not> satisfied ex_pcodec (spe_Identities ex_env) (set (take 1 ex_peers)) (spe_Rule ex_env)" by code_simp
  then show ?thesis
    using random_resolves [OF ex_policy_ok, of 5 "take 1 ex_peers"] by (metis (full_types))
qed

definition twice_env :: SigPolicyEnv where
  "twice_env = \<lparr>spe_Rule = Some (NOutOf 2 [Some (SignedBy 0), Some (SignedBy 0)]), spe_Identities = ex_ids\<rparr>"

definition two_single_groups :: "item list res outcome \<Rightarrow> bool" where
  "two_single_groups x = (case x of
     Ok (Inr gs) \<Rightarrow> map (\<lambda>g. map_option length (Peers g)) gs = [Some 1, Some 1] | _ \<Rightarrow> False)"

lemma two_single_groups_D:
  "two_single_groups x \<Longrightarrow> \<exists>g h ps qs. x = Ok (Inr [g, h]) \<and> Peers g = Some ps \<and> length ps = 1
    \<and> Peers h = Some qs \<and> length qs = 1"
  by (auto simp: two_single_groups_def split: outcome.splits sum.splits)

text \<open>
  Two signatures of one organization are never asked for: for the policy that wants two
  signatures, both by the same organization, every group the resolver can choose has a single peer, and that peer cannot
  give them.
\<close>
theorem two_signatures_of_one_org:
  "\<exists>f pg ps. newResolver ex_pcodec twice_env = Inr f
    \<and> Resolve f roundRobinLBP_Choose r NewRoundRobinLBP ex_peers = Ok (Inr pg, int (rand_Intn r 2))
    \<and> Peers pg = Some ps \<and> length ps = 1 \<and> \<not> can_sign ex_pcodec ex_ids (set ps) (spe_Rule twice_env)"
proof -
  have short: "\<not> can_sign ex_pcodec ex_ids (set ps) (spe_Rule twice_env)" if one: "length ps = 1" for ps
  proof
    assume s: "can_sign ex_pcodec ex_ids (set ps) (spe_Rule twice_env)"
    obtain p where "set ps = {p}" using one by (auto simp: length_Suc_conv)
    moreover have "mspPrincipalToString ex_pcodec (ex_ids ! 0) = Inr ''A''" by code_simp
    ultimately show False using s by (auto simp: twice_env_def Pow_insert matches_def)
  qed
  have "case newResolver ex_pcodec twice_env of Inl e \<Rightarrow> False
    | Inr f \<Rightarrow> two_single_groups (getPeerGroups f (peerRetriever ex_peers))"
    by code_simp
  then obtain f where f: "newResolver ex_pcodec twice_env = Inr f"
    "two_single_groups (getPeerGroups f (peerRetriever ex_peers))" by (auto split: sum.splits)
  then obtain g h ps qs where g: "getPeerGroups f (peerRetriever ex_peers) = Ok (Inr [g, h])"
    "Peers g = Some ps" "length ps = 1" "Peers h = Some qs" "length qs = 1"
    using two_single_groups_D by blast
  have "rand_Intn r (Suc (Suc 0)) < Suc (Suc 0)" by simp
  then have "rand_Intn r (Suc (Suc 0)) = 0 \<or> rand_Intn r (Suc (Suc 0)) = Suc 0" by linarith
  then show ?thesis
    using f(1) g short by (auto simp: Resolve_def roundRobinLBP_Choose_def NewRoundRobinLBP_def numeral_2_eq_2)
qed

text \<open>
  Combining \<open>n\<close> groups enumerates exactly the sub-lists of length \<open>n\<close>, in order, each once; a
  threshold that is not positive or larger than the number of groups is an error.
\<close>

theorem Nof_enumerates:
  "Nof (NewGroupOfGroups gs) n =
    (if int (length gs) < n then Ok (Inl (errorNew ''N is greater than length of the group''))
     else if n \<le> 0 then Ok (Inl (errorNew ''N must be greater than 0''))
     else Ok (Inr (NewGroupOfGroups (map NewGroup (filter (\<lambda>s. int (length s) = n) (subseqs gs))))))"
proof (cases "1 \<le> n \<and> n \<le> int (length gs)")
  case True
  then show ?thesis using Nof_subseqs [of n gs]
    by (auto simp: NewGroupOfGroups_def NewGroup_def cong: map_cong)
next
  case False
  then show ?thesis by (auto simp: Nof_def NewGroupOfGroups_def simp del: getCombinations.simps)
qed

section \<open>Fairness of the round robin policy\<close>

primrec rr_run :: "nat list \<Rightarrow> int \<Rightarrow> item list \<Rightarrow> item list" where
  "rr_run [] s gs = []"
| "rr_run (r # rs) s gs = (case roundRobinLBP_Choose r s gs of (g, s') \<Rightarrow> g # rr_run rs s' gs)"

lemma rr_next:
  assumes "0 \<le> i" "i < int (length gs)"
  shows "roundRobinLBP_Choose r i gs
    = (gs ! ((nat i + 1) mod length gs), int ((nat i + 1) mod length gs))"
proof (cases "i + 1 = int (length gs)")
  case True
  then have "nat i + 1 = length gs" using assms by linarith
  then show ?thesis using True assms by (auto simp: roundRobinLBP_Choose_def)
next
  case False
  then have "nat i + 1 < length gs" using assms by linarith
  then show ?thesis using False assms
    by (auto simp: roundRobinLBP_Choose_def Let_def nat_add_distrib)
qed

lemma rr_run_cycle:
  assumes "k < length gs"
  shows "rr_run rs (int k) gs = map (\<lambda>j. gs ! ((k + 1 + j) mod length gs)) [0..<length rs]"
  using assms
proof (induction rs arbitrary: k)
  case (Cons r rs)
  let ?n = "length gs"
  have n: "0 < ?n" using Cons.prems by linarith
  have "rr_run rs (int ((k + 1) mod ?n)) gs
      = map (\<lambda>j. gs ! (((k + 1) mod ?n + 1 + j) mod ?n)) [0..<length rs]"
    using Cons.IH [of "(k + 1) mod ?n"] n by simp
  also have "\<dots> = map (\<lambda>j. gs ! ((k + 1 + Suc j) mod ?n)) [0..<length rs]"
  proof -
    have "((k + 1) mod ?n + 1 + j) mod ?n = (k + 1 + Suc j) mod ?n" for j
      using mod_add_left_eq [of "k + 1" ?n "1 + j"] by (simp only: add.assoc plus_1_eq_Suc)
    then show ?thesis by simp
  qed
  finally show ?case
    using n rr_next [of "int k" gs r] Cons.prems by (auto simp: upt_conv_Cons map_Suc_upt [symmetric] simp del: upt_Suc)
qed simp

text \<open>
  The round robin policy is fair: from any state that it reaches, as many consecutive choices
  among the same groups as there are groups choose every group once.
\<close>

theorem round_robin_fair:
  assumes "- 1 \<le> s" and "length rs = length gs"
  shows "mset (rr_run rs s gs) = mset gs"
proof (cases rs)
  case Nil
  then show ?thesis using assms by simp
next
  case (Cons r rs')
  have ne: "gs \<noteq> []" using Cons assms by auto
  obtain k where k: "k < length gs" "roundRobinLBP_Choose r s gs = (gs ! k, int k)"
  proof -
    let ?i = "if s = - 1 then int (rand_Intn r (length gs)) else s + 1"
    let ?k = "if ?i \<ge> int (length gs) then 0 else nat ?i"
    have "?k < length gs" "roundRobinLBP_Choose r s gs = (gs ! ?k, int ?k)"
      using ne assms(1) by (auto simp: roundRobinLBP_Choose_def Let_def nat_less_iff)
    then show thesis by (rule that)
  qed
  have "rr_run rs s gs = gs ! k # map (\<lambda>j. gs ! ((k + 1 + j) mod length gs)) [0..<length rs']"
    using Cons k rr_run_cycle [OF k(1)] by simp
  also have "\<dots> = map (\<lambda>j. gs ! ((k + j) mod length gs)) [0..<length gs]"
    using Cons assms(2) k(1) ne by (simp add: upt_conv_Cons map_Suc_upt [symmetric] flip: assms(2) del: upt_Suc)
  also have "\<dots> = rotate k gs"
    by (rule nth_equalityI) (simp_all add: nth_rotate)
  finally show ?thesis
    by (simp add: rotate_drop_take) (metis append_take_drop_id mset_append union_commute)
qed

theorem round_robin_fair_witness:
  "mset (rr_run [7, 7, 7] NewRoundRobinLBP (map Peer ex_peers)) = mset (map Peer ex_peers)"
  by (rule round_robin_fair) (simp_all add: NewRoundRobinLBP_def ex_peers_def)

end
