(* ===== verification/Status.thy ===== *)
theory Status
  imports Prelude
begin

text \<open>
  The errors of the SDK: multi-errors (pkg/common/errors/multi/multi.go), status codes and groups
  (pkg/common/errors/status/codes.go) and statuses (status.go). The names that the enumerations of
  gRPC and of the Fabric protocol buffers give to a code, and the codes themselves, belong to other
  modules: they are the fields of \<open>wire\<close>.
\<close>

record wire =
  w_grpc_name :: "32 word \<Rightarrow> string"
  w_common_name :: "32 word \<Rightarrow> string"
  w_txval_name :: "32 word \<Rightarrow> string"
  w_SERVICE_UNAVAILABLE :: "32 word"
  w_INTERNAL_SERVER_ERROR :: "32 word"
  w_BAD_REQUEST :: "32 word"
  w_NOT_FOUND :: "32 word"
  w_DUPLICATE_TXID :: "32 word"
  w_ENDORSEMENT_POLICY_FAILURE :: "32 word"
  w_MVCC_READ_CONFLICT :: "32 word"
  w_PHANTOM_READ_CONFLICT :: "32 word"
  w_Unavailable :: "32 word"

section \<open>Groups and codes\<close>

type_synonym Group = "32 word"
type_synonym Code = "32 word"

definition UnknownStatus :: Group where "UnknownStatus = 0"
definition GRPCTransportStatus :: Group where "GRPCTransportStatus = 1"
definition HTTPTransportStatus :: Group where "HTTPTransportStatus = 2"
definition EndorserServerStatus :: Group where "EndorserServerStatus = 3"
definition EventServerStatus :: Group where "EventServerStatus = 4"
definition OrdererServerStatus :: Group where "OrdererServerStatus = 5"
definition FabricCAServerStatus :: Group where "FabricCAServerStatus = 6"
definition EndorserClientStatus :: Group where "EndorserClientStatus = 7"
definition OrdererClientStatus :: Group where "OrdererClientStatus = 8"
definition ClientStatus :: Group where "ClientStatus = 9"
definition ChaincodeStatus :: Group where "ChaincodeStatus = 10"
definition DiscoveryServerStatus :: Group where "DiscoveryServerStatus = 11"
definition TestStatus :: Group where "TestStatus = 12"

definition OK :: Code where "OK = 0"
definition Unknown :: Code where "Unknown = 1"
definition ConnectionFailed :: Code where "ConnectionFailed = 2"
definition EndorsementMismatch :: Code where "EndorsementMismatch = 3"
definition EmptyCert :: Code where "EmptyCert = 4"
definition Timeout :: Code where "Timeout = 5"
definition NoPeersFound :: Code where "NoPeersFound = 6"
definition MultipleErrors :: Code where "MultipleErrors = 7"
definition SignatureVerificationFailed :: Code where "SignatureVerificationFailed = 8"
definition MissingEndorsement :: Code where "MissingEndorsement = 9"
definition QueryEndorsers :: Code where "QueryEndorsers = 11"
definition GenericTransient :: Code where "GenericTransient = 12"
definition ChaincodeNameNotFound :: Code where "ChaincodeNameNotFound = 23"
definition PvtDataDisseminationFailed :: Code where "PvtDataDisseminationFailed = 24"

lemmas status_groups =
  UnknownStatus_def GRPCTransportStatus_def HTTPTransportStatus_def EndorserServerStatus_def
  EventServerStatus_def OrdererServerStatus_def FabricCAServerStatus_def EndorserClientStatus_def
  OrdererClientStatus_def ClientStatus_def ChaincodeStatus_def DiscoveryServerStatus_def TestStatus_def

lemmas status_codes =
  OK_def Unknown_def ConnectionFailed_def EndorsementMismatch_def EmptyCert_def Timeout_def
  NoPeersFound_def MultipleErrors_def SignatureVerificationFailed_def MissingEndorsement_def
  QueryEndorsers_def GenericTransient_def ChaincodeNameNotFound_def PvtDataDisseminationFailed_def

text \<open>The maps \<open>CodeName\<close> and \<open>GroupName\<close>.\<close>

definition CodeName :: "(32 word \<times> string) list" where
  "CodeName = [
    (0, ''OK''), (1, ''UNKNOWN''), (2, ''CONNECTION_FAILED''), (3, ''ENDORSEMENT_MISMATCH''),
    (4, ''EMPTY_CERT''), (5, ''TIMEOUT''), (6, ''NO_PEERS_FOUND''), (7, ''MULTIPLE_ERRORS''),
    (8, ''SIGNATURE_VERIFICATION_FAILED''), (9, ''MISSING_ENDORSEMENT''), (11, ''QUERY_ENDORSERS''),
    (12, ''GENERIC_TRANSIENT''), (23, ''CHAINCODE_NAME_NOT_FOUND''),
    (24, ''PRIVATE_DATA_DISSEMINATION_FAILED'')]"

definition GroupName :: "(32 word \<times> string) list" where
  "GroupName = [
    (0, ''Unknown''), (1, ''gRPC Transport Status''), (2, ''HTTP Transport Status''),
    (3, ''Endorser Server Status''), (4, ''Event Server Status''), (5, ''Orderer Server Status''),
    (6, ''Fabric CA Server Status''), (7, ''Endorser Client Status''), (8, ''Orderer Client Status''),
    (9, ''Client Status''), (10, ''Chaincode status''), (11, ''Discovery status''), (12, ''Test status'')]"

text \<open>A \<open>Code\<close> is a uint32 and \<open>strconv.Itoa(int(c))\<close> prints it without sign.\<close>

definition Code_String :: "Code \<Rightarrow> string" where
  "Code_String c = (case map_of CodeName c of Some s \<Rightarrow> s | None \<Rightarrow> dec (unat c))"

definition Group_String :: "Group \<Rightarrow> string" where
  "Group_String g = (case map_of GroupName g of Some s \<Rightarrow> s | None \<Rightarrow> the (map_of GroupName UnknownStatus))"

section \<open>Multi-errors\<close>

text \<open>\<open>multi.New\<close>, \<open>multi.Append\<close> and \<open>Errors.ToError\<close>; a nil error is \<open>None\<close>.\<close>

definition multi_New :: "goerr option list \<Rightarrow> goerr option" where
  "multi_New errs = (case concat (map (\<lambda>e. case e of None \<Rightarrow> [] | Some x \<Rightarrow> [x]) errs) of
     [] \<Rightarrow> None
   | [e] \<Rightarrow> Some e
   | es \<Rightarrow> Some (MultiErr es))"

definition multi_Append :: "goerr option \<Rightarrow> goerr option \<Rightarrow> goerr option" where
  "multi_Append errs err = (case errs of
     Some (MultiErr m) \<Rightarrow> (case err of None \<Rightarrow> errs | Some e \<Rightarrow> Some (MultiErr (m @ [e])))
   | _ \<Rightarrow> multi_New [errs, err])"

definition ToError :: "goerr list \<Rightarrow> goerr option" where
  "ToError errs = (case errs of [] \<Rightarrow> None | [e] \<Rightarrow> Some e | _ \<Rightarrow> Some (MultiErr errs))"

section \<open>Error texts\<close>

definition codeString :: "wire \<Rightarrow> Group \<Rightarrow> 32 word \<Rightarrow> string" where
  "codeString w g c =
    (if g = GRPCTransportStatus then w_grpc_name w c
     else if g = EndorserServerStatus \<or> g = OrdererServerStatus then w_common_name w c
     else if g = EventServerStatus then w_txval_name w c
     else if g = EndorserClientStatus \<or> g = OrdererClientStatus \<or> g = ClientStatus then Code_String c
     else Code_String Unknown)"

fun errorText :: "wire \<Rightarrow> goerr \<Rightarrow> string" where
  "errorText w (ErrorF m as) = Sprintf m as"
| "errorText w (WithMsg e m as) = Sprintf m as @ '': '' @ errorText w e"
| "errorText w (StatusErr g c m ds) =
    Sprintf ''%s Code: (%d) %s. Description: %s'' [FS (Group_String g), FI (sint c), FS (codeString w g c), FS m]"
| "errorText w (MultiErr es) = (case es of
     [] \<Rightarrow> []
   | [e] \<Rightarrow> errorText w e
   | _ \<Rightarrow> join '' - '' (''Multiple errors occurred:'' # map (\<lambda>e. errorText w e) es))"
| "errorText w (DiscErr e) = errorText w e"
| "errorText w (ExtErr s) = s"

section \<open>Statuses\<close>

record Status =
  st_Group :: Group
  st_Code :: "32 word"
  st_Message :: string
  st_Details :: "detail list"

definition status_New :: "Group \<Rightarrow> 32 word \<Rightarrow> string \<Rightarrow> detail list \<Rightarrow> Status" where
  "status_New g c m ds = \<lparr>st_Group = g, st_Code = c, st_Message = m, st_Details = ds\<rparr>"

text \<open>The status as an error value.\<close>

definition asError :: "Status \<Rightarrow> goerr" where
  "asError s = StatusErr (st_Group s) (st_Code s) (st_Message s) (st_Details s)"

definition FromError :: "wire \<Rightarrow> goerr option \<Rightarrow> Status option" where
  "FromError w err = (case err of
     None \<Rightarrow> Some (status_New UnknownStatus OK [] [])
   | Some (StatusErr g c m ds) \<Rightarrow> Some (status_New g c m ds)
   | Some e \<Rightarrow> (case Cause e of
        StatusErr g c m ds \<Rightarrow> Some (status_New g c m ds)
      | MultiErr es \<Rightarrow> Some (status_New ClientStatus MultipleErrors (errorText w (MultiErr es)) (map DErr es))
      | _ \<Rightarrow> None))"

text \<open>
  A proposal response as far as a status reads it; \<open>res.Response\<close> is a pointer and is dereferenced.
\<close>

record Response =
  r_Status :: "32 word"
  r_Message :: string
  r_Payload :: bytes

definition NewFromProposalResponse :: "Response option option \<Rightarrow> string \<Rightarrow> Status option outcome" where
  "NewFromProposalResponse res endorser = (case res of
     None \<Rightarrow> Ok None
   | Some None \<Rightarrow> Panic
   | Some (Some r) \<Rightarrow> Ok (Some (status_New EndorserServerStatus (r_Status r) (r_Message r)
        [DStr endorser, DBytes (r_Payload r)])))"

text \<open>A gRPC status: code, message and details.\<close>

definition NewFromGRPCStatus :: "(32 word \<times> string \<times> detail list) option \<Rightarrow> Status option" where
  "NewFromGRPCStatus s = (case s of None \<Rightarrow> None
   | Some (c, m, ds) \<Rightarrow> Some (status_New GRPCTransportStatus c m ds))"

text \<open>The conversion \<open>int32(code)\<close> of a Go \<open>int\<close> keeps the low 32 bits.\<close>

definition NewFromExtractedChaincodeError :: "int \<Rightarrow> string \<Rightarrow> Status" where
  "NewFromExtractedChaincodeError code message = status_New ChaincodeStatus (word_of_int code) message []"

section \<open>Lemmas\<close>

lemma FromError_status [simp]: "FromError w (Some (StatusErr g c m ds)) = Some (status_New g c m ds)"
  by (simp add: FromError_def)

lemma FromError_wrap: "FromError w (Some (WithMsg e m as)) = FromError w (Some e)"
proof (cases e)
  case (WithMsg e' m' as')
  then show ?thesis by (simp add: FromError_def)
qed (simp_all add: FromError_def)

lemma FromError_multi:
  "FromError w (Some (MultiErr es))
    = Some (status_New ClientStatus MultipleErrors (errorText w (MultiErr es)) (map DErr es))"
  by (simp add: FromError_def)

end
