(* ===== verification/Retry.thy ===== *)
theory Retry
  imports Status
begin

text \<open>
  Retrying (pkg/common/errors/retry: retry.go, defaults.go, invoker.go). A \<open>time.Duration\<close> is an
  integer of nanoseconds. The back-off is computed in float64, an ordered type \<open>'f\<close> with a
  multiplication that is a parameter of the model, with the two conversions in \<open>dur_conv\<close>; sleeping
  is recorded in the handler.
\<close>

section \<open>Options\<close>

type_synonym codes = "(Group \<times> Code list) list"

record 'f Opts =
  Attempts :: int
  InitialBackoff :: int
  MaxBackoff :: int
  BackoffFactor :: 'f
  RetryableCodes :: codes

record 'f dur_conv =
  float64 :: "int \<Rightarrow> 'f"
  duration :: "'f \<Rightarrow> int"

definition Millisecond :: int where "Millisecond = 1000000"
definition Second :: int where "Second = 1000 * Millisecond"

definition DefaultRetryableCodes :: "wire \<Rightarrow> codes" where
  "DefaultRetryableCodes w = [
    (EndorserClientStatus, [EndorsementMismatch, ChaincodeNameNotFound]),
    (EndorserServerStatus, [w_SERVICE_UNAVAILABLE w, w_INTERNAL_SERVER_ERROR w]),
    (OrdererServerStatus, [w_SERVICE_UNAVAILABLE w, w_INTERNAL_SERVER_ERROR w]),
    (EventServerStatus, [w_DUPLICATE_TXID w, w_ENDORSEMENT_POLICY_FAILURE w, w_MVCC_READ_CONFLICT w,
      w_PHANTOM_READ_CONFLICT w]),
    (GRPCTransportStatus, [w_Unavailable w])]"

definition ResMgmtDefaultRetryableCodes :: "wire \<Rightarrow> codes" where
  "ResMgmtDefaultRetryableCodes w = [
    (EndorserClientStatus, [ConnectionFailed, EndorsementMismatch, ChaincodeNameNotFound]),
    (EndorserServerStatus, [w_SERVICE_UNAVAILABLE w, w_INTERNAL_SERVER_ERROR w]),
    (OrdererServerStatus, [w_SERVICE_UNAVAILABLE w, w_INTERNAL_SERVER_ERROR w, w_BAD_REQUEST w, w_NOT_FOUND w]),
    (EventServerStatus, [w_DUPLICATE_TXID w, w_ENDORSEMENT_POLICY_FAILURE w, w_MVCC_READ_CONFLICT w,
      w_PHANTOM_READ_CONFLICT w]),
    (GRPCTransportStatus, [w_Unavailable w])]"

definition ChannelClientRetryableCodes :: "wire \<Rightarrow> codes" where
  "ChannelClientRetryableCodes w = [
    (EndorserClientStatus, [ConnectionFailed, EndorsementMismatch, w_MVCC_READ_CONFLICT w, ChaincodeNameNotFound]),
    (EndorserServerStatus, [w_SERVICE_UNAVAILABLE w, w_INTERNAL_SERVER_ERROR w, PvtDataDisseminationFailed]),
    (OrdererClientStatus, [ConnectionFailed]),
    (OrdererServerStatus, [w_SERVICE_UNAVAILABLE w, w_INTERNAL_SERVER_ERROR w]),
    (EventServerStatus, [w_DUPLICATE_TXID w, w_ENDORSEMENT_POLICY_FAILURE w, w_MVCC_READ_CONFLICT w,
      w_PHANTOM_READ_CONFLICT w]),
    (GRPCTransportStatus, [w_Unavailable w])]"

definition ChannelConfigRetryableCodes :: codes where
  "ChannelConfigRetryableCodes = [(EndorserClientStatus, [EndorsementMismatch])]"

text \<open>The float64 literals 2.0 and 2.5 are parameters of the option values that use them.\<close>

definition DefaultOpts :: "wire \<Rightarrow> 'f \<Rightarrow> 'f Opts" where
  "DefaultOpts w f2_0 = \<lparr>Attempts = 3, InitialBackoff = 500 * Millisecond, MaxBackoff = 60 * Second,
     BackoffFactor = f2_0, RetryableCodes = DefaultRetryableCodes w\<rparr>"

definition DefaultChannelOpts :: "wire \<Rightarrow> 'f \<Rightarrow> 'f Opts" where
  "DefaultChannelOpts w f2_0 = \<lparr>Attempts = 3, InitialBackoff = 500 * Millisecond, MaxBackoff = 60 * Second,
     BackoffFactor = f2_0, RetryableCodes = ChannelClientRetryableCodes w\<rparr>"

definition DefaultResMgmtOpts :: "wire \<Rightarrow> 'f \<Rightarrow> 'f Opts" where
  "DefaultResMgmtOpts w f2_5 = \<lparr>Attempts = 5, InitialBackoff = Second, MaxBackoff = 60 * Second,
     BackoffFactor = f2_5, RetryableCodes = ResMgmtDefaultRetryableCodes w\<rparr>"

section \<open>The handler\<close>

record 'f impl =
  h_opts :: "'f Opts"
  h_retries :: nat
  h_slept :: "int list"

definition retry_New :: "wire \<Rightarrow> 'f Opts \<Rightarrow> 'f impl" where
  "retry_New w opts = \<lparr>h_opts = (if RetryableCodes opts = [] then opts\<lparr>RetryableCodes := DefaultRetryableCodes w\<rparr> else opts),
     h_retries = 0, h_slept = []\<rparr>"

definition WithDefaults :: "wire \<Rightarrow> 'f \<Rightarrow> 'f impl" where
  "WithDefaults w f2_0 = \<lparr>h_opts = DefaultOpts w f2_0, h_retries = 0, h_slept = []\<rparr>"

definition WithAttempts :: "wire \<Rightarrow> 'f \<Rightarrow> int \<Rightarrow> 'f impl" where
  "WithAttempts w f2_0 attempts = \<lparr>h_opts = (DefaultOpts w f2_0)\<lparr>Attempts := attempts\<rparr>, h_retries = 0, h_slept = []\<rparr>"

text \<open>The loop of \<open>backoffPeriod\<close>: \<open>n\<close> is \<open>i.retries - j\<close>.\<close>

primrec backoff_loop :: "nat \<Rightarrow> 'f::{linorder,times} \<Rightarrow> 'f \<Rightarrow> 'f \<Rightarrow> 'f" where
  "backoff_loop 0 backoff mx factor = backoff"
| "backoff_loop (Suc n) backoff mx factor =
    (if backoff < mx then backoff_loop n (backoff * factor) mx factor else backoff)"

definition backoffPeriod :: "'f::{linorder,times} dur_conv \<Rightarrow> 'f impl \<Rightarrow> int" where
  "backoffPeriod cv i =
    (let mx = float64 cv (MaxBackoff (h_opts i));
         backoff = backoff_loop (h_retries i) (float64 cv (InitialBackoff (h_opts i))) mx (BackoffFactor (h_opts i))
     in duration cv (if backoff > mx then mx else backoff))"

definition isRetryable :: "codes \<Rightarrow> Group \<Rightarrow> 32 word \<Rightarrow> bool" where
  "isRetryable rc g c = list_ex (\<lambda>(grp, cs). g = grp \<and> list_ex (\<lambda>code. c = code) cs) rc"

definition Required :: "wire \<Rightarrow> 'f::{linorder,times} dur_conv \<Rightarrow> goerr \<Rightarrow> 'f impl \<Rightarrow> bool \<times> 'f impl" where
  "Required w cv err i =
    (if int (h_retries i) = Attempts (h_opts i) then (False, i)
     else (case FromError w (Some err) of
       None \<Rightarrow> (False, i)
     | Some s \<Rightarrow>
         if isRetryable (RetryableCodes (h_opts i)) (st_Group s) (st_Code s)
         then (True, i\<lparr>h_slept := h_slept i @ [backoffPeriod cv i], h_retries := h_retries i + 1\<rparr>)
         else (False, i)))"

section \<open>The invoker\<close>

text \<open>
  An \<open>Invocation\<close> changes the world \<open>'w\<close> and returns a value or an error. The invoker calls the
  method \<open>Required\<close> of its \<open>Handler\<close>, whose state is \<open>'h\<close>. The loop of \<open>Invoke\<close> may run forever, in
  which case the result is \<open>None\<close>; the attempt number and the last error are only logged.
\<close>

type_synonym ('w, 'v) Invocation = "'w \<Rightarrow> 'v res \<times> 'w"
type_synonym 'h required = "goerr \<Rightarrow> 'h \<Rightarrow> bool \<times> 'h"
type_synonym 'w BeforeRetryHandler = "goerr \<Rightarrow> 'w \<Rightarrow> 'w"

definition errs_of :: "goerr \<Rightarrow> goerr list" where
  "errs_of err = (case err of MultiErr es \<Rightarrow> es | _ \<Rightarrow> [err])"

primrec resolve_loop :: "'h required \<Rightarrow> 'w BeforeRetryHandler option \<Rightarrow> goerr \<Rightarrow> goerr list \<Rightarrow> 'h \<Rightarrow> 'w
    \<Rightarrow> bool \<times> 'h \<times> 'w" where
  "resolve_loop req before err [] h w = (False, h, w)"
| "resolve_loop req before err (e # es) h w =
    (case req e h of (b, h') \<Rightarrow>
      if b then (True, h', case before of None \<Rightarrow> w | Some f \<Rightarrow> f err w)
      else resolve_loop req before err es h' w)"

definition resolveRetry :: "'h required \<Rightarrow> 'w BeforeRetryHandler option \<Rightarrow> goerr \<Rightarrow> 'h \<Rightarrow> 'w
    \<Rightarrow> bool \<times> 'h \<times> 'w" where
  "resolveRetry req before err h w = resolve_loop req before err (errs_of err) h w"

partial_function (option) Invoke :: "'h required \<Rightarrow> 'w BeforeRetryHandler option \<Rightarrow> ('w, 'v) Invocation
    \<Rightarrow> 'h \<Rightarrow> 'w \<Rightarrow> ('v res \<times> 'h \<times> 'w) option" where
  "Invoke req before invocation h w =
    (case invocation w of
       (Inr retval, w1) \<Rightarrow> Some (Inr retval, h, w1)
     | (Inl err, w1) \<Rightarrow>
        (case resolveRetry req before err h w1 of
           (warranted, h2, w2) \<Rightarrow>
             if warranted then Invoke req before invocation h2 w2 else Some (Inl err, h2, w2)))"

end
