(* ===== verification/Retry_Theorems.thy ===== *)
theory Retry_Theorems
  imports Retry Complex_Main
begin

text \<open>
  Properties of errors and of retrying. The contract of a retry handler is the locale
  \<open>retry_handler\<close>, in which the invoker is proved to end; the handler of retry.go is its
  interpretation.
\<close>

section \<open>The contract of a retry handler\<close>

text \<open>
  A handler that is \<open>good\<close> has \<open>left\<close> retries to give, gives one for an error that warrants it as
  long as there is one left, and does not change when it refuses.
\<close>

locale retry_handler =
  fixes req :: "'h required" and good :: "'h \<Rightarrow> bool" and left :: "'h \<Rightarrow> nat"
    and warrants :: "goerr \<Rightarrow> bool"
  assumes grants: "good h \<Longrightarrow> fst (req e h) \<longleftrightarrow> 0 < left h \<and> warrants e"
    and granted: "good h \<Longrightarrow> req e h = (True, h') \<Longrightarrow> good h' \<and> left h = Suc (left h')"
    and refused: "good h \<Longrightarrow> req e h = (False, h') \<Longrightarrow> h' = h"
begin

definition warranted :: "goerr \<Rightarrow> bool" where
  "warranted err \<longleftrightarrow> list_ex warrants (errs_of err)"

definition redo :: "'w BeforeRetryHandler option \<Rightarrow> ('w, 'v) Invocation \<Rightarrow> 'w \<Rightarrow> 'w" where
  "redo before invocation w = (case invocation w of
     (Inl err, w1) \<Rightarrow> (case before of None \<Rightarrow> w1 | Some f \<Rightarrow> f err w1)
   | (Inr v, w1) \<Rightarrow> w1)"

lemma resolve_loop_cases:
  assumes "good h"
  shows "if 0 < left h \<and> list_ex warrants es
    then \<exists>h'. resolve_loop req before err es h w = (True, h', case before of None \<Rightarrow> w | Some f \<Rightarrow> f err w)
      \<and> good h' \<and> left h = Suc (left h')
    else resolve_loop req before err es h w = (False, h, w)"
proof (induction es)
  case (Cons e es)
  obtain b h' where r: "req e h = (b, h')" by (cases "req e h")
  show ?case
  proof (cases b)
    case True
    then show ?thesis using r grants [OF assms, of e] granted [OF assms] by auto
  next
    case False
    then have "h' = h" "\<not> (0 < left h \<and> warrants e)"
      using r grants [OF assms, of e] refused [OF assms] by auto
    then show ?thesis using r False Cons.IH by auto
  qed
qed simp

lemma resolveRetry_yes:
  assumes "good h" "0 < left h" "warranted err"
  obtains h' where
    "resolveRetry req before err h w = (True, h', case before of None \<Rightarrow> w | Some f \<Rightarrow> f err w)"
    "good h'" "left h = Suc (left h')"
  using resolve_loop_cases [OF assms(1), of "errs_of err" before err w] assms(2,3)
  by (auto simp: resolveRetry_def warranted_def)

lemma resolveRetry_no:
  assumes "good h" "left h = 0 \<or> \<not> warranted err"
  shows "resolveRetry req before err h w = (False, h, w)"
  using resolve_loop_cases [OF assms(1), of "errs_of err" before err w] assms(2)
  by (auto simp: resolveRetry_def warranted_def split: if_splits)

text \<open>
  The invoker returns after at most \<open>left h\<close> retries: the result is that of attempt \<open>k\<close> (counted
  from 0), all attempts before it failed with an error that warrants a retry, and it is a success,
  the last attempt or an error that warrants none.
\<close>

lemma Invoke_ends:
  assumes "good h"
  shows "\<exists>k h' wk r w'. k \<le> left h \<and> wk = (redo before invocation ^^ k) w \<and> invocation wk = (r, w')
    \<and> Invoke req before invocation h w = Some (r, h', w') \<and> good h' \<and> left h' = left h - k
    \<and> (\<forall>j<k. \<exists>e. fst (invocation ((redo before invocation ^^ j) w)) = Inl e \<and> warranted e)
    \<and> (\<forall>e. r = Inl e \<longrightarrow> k = left h \<or> \<not> warranted e)"
  using assms
proof (induction "left h" arbitrary: h w)
  case 0
  obtain r w1 where inv: "invocation w = (r, w1)" by (cases "invocation w")
  have "resolveRetry req before e h w' = (False, h, w')" for e w'
    using resolveRetry_no [OF 0(2)] 0(1) by simp
  then have "Invoke req before invocation h w = Some (r, h, w1)"
    using inv by (subst Invoke.simps) (auto split: sum.splits)
  then show ?case using inv 0 by auto
next
  case (Suc n)
  obtain r w1 where inv: "invocation w = (r, w1)" by (cases "invocation w")
  show ?case
  proof (cases "\<exists>e. r = Inl e \<and> warranted e")
    case False
    then have "resolveRetry req before e h w1 = (False, h, w1)" if "r = Inl e" for e
      using resolveRetry_no [OF Suc(3), of e] that by simp
    then have "Invoke req before invocation h w = Some (r, h, w1)"
      using inv by (subst Invoke.simps) (auto split: sum.splits)
    then show ?thesis using inv False Suc(3) by (intro exI [of _ 0] exI [of _ h]) auto
  next
    case True
    then obtain e where e: "r = Inl e" "warranted e" by blast
    obtain h2 where h2: "resolveRetry req before e h w1
        = (True, h2, case before of None \<Rightarrow> w1 | Some f \<Rightarrow> f e w1)" "good h2" "left h = Suc (left h2)"
      using resolveRetry_yes [OF Suc(3) _ e(2)] Suc(2) by (metis zero_less_Suc)
    let ?w2 = "redo before invocation w"
    have w2: "?w2 = (case before of None \<Rightarrow> w1 | Some f \<Rightarrow> f e w1)" using inv e by (simp add: redo_def)
    have step: "Invoke req before invocation h w = Invoke req before invocation h2 ?w2"
      using inv e h2(1) w2 by (subst Invoke.simps) simp
    obtain k h' r' w' where k: "k \<le> left h2" "invocation ((redo before invocation ^^ k) ?w2) = (r', w')"
      "Invoke req before invocation h2 ?w2 = Some (r', h', w')" "good h'" "left h' = left h2 - k"
      "\<forall>j<k. \<exists>e. fst (invocation ((redo before invocation ^^ j) ?w2)) = Inl e \<and> warranted e"
      "\<forall>e. r' = Inl e \<longrightarrow> k = left h2 \<or> \<not> warranted e"
      using Suc(1) [OF _ h2(2), of ?w2] Suc(2) h2(3) by (metis Suc_inject)
    have "\<exists>e. fst (invocation ((redo before invocation ^^ j) w)) = Inl e \<and> warranted e" if "j < Suc k" for j
    proof (cases j)
      case 0
      then show ?thesis using inv e by simp
    next
      case (Suc i)
      then show ?thesis using k(6) that by (simp add: funpow_swap1)
    qed
    moreover have "invocation ((redo before invocation ^^ Suc k) w) = (r', w')"
      using k(2) by (simp add: funpow_swap1)
    ultimately show ?thesis
      using k h2(3) step by (intro exI [of _ "Suc k"] exI [of _ h'] exI) auto
  qed
qed

end

section \<open>The handler of retry.go\<close>

definition impl_good :: "codes \<Rightarrow> nat \<Rightarrow> 'f impl \<Rightarrow> bool" where
  "impl_good rc n i \<longleftrightarrow> RetryableCodes (h_opts i) = rc \<and> Attempts (h_opts i) = int n \<and> h_retries i \<le> n"

definition impl_left :: "nat \<Rightarrow> 'f impl \<Rightarrow> nat" where
  "impl_left n i = n - h_retries i"

definition impl_warrants :: "wire \<Rightarrow> codes \<Rightarrow> goerr \<Rightarrow> bool" where
  "impl_warrants w rc e = (case FromError w (Some e) of
     None \<Rightarrow> False | Some s \<Rightarrow> isRetryable rc (st_Group s) (st_Code s))"

interpretation impl_handler: retry_handler "Required w cv" "impl_good rc n" "impl_left n" "impl_warrants w rc"
  for w cv rc n
  by unfold_locales
    (auto simp: Required_def impl_good_def impl_left_def impl_warrants_def split: if_splits option.splits)

text \<open>An error, or one of the errors of a multi-error, has a retryable status.\<close>

definition retry_wanted :: "wire \<Rightarrow> codes \<Rightarrow> goerr \<Rightarrow> bool" where
  "retry_wanted w rc err = list_ex (impl_warrants w rc) (errs_of err)"

definition attempt :: "'w BeforeRetryHandler option \<Rightarrow> ('w, 'v) Invocation \<Rightarrow> nat \<Rightarrow> 'w \<Rightarrow> 'v res \<times> 'w" where
  "attempt before invocation k w = invocation ((impl_handler.redo before invocation ^^ k) w)"

text \<open>
  C37: With a number of attempts that is not negative the invoker always returns. Its result is that
  of the \<open>k\<close>-th retry for some \<open>k\<close> up to the number of attempts; every call before it failed with a
  retryable error, and an error is returned only after the last retry or when it is not retryable.
\<close>

theorem invoke_returns:
  assumes "Attempts opts = int n"
  shows "\<exists>k i' r w'. k \<le> n \<and> attempt before invocation k w = (r, w')
    \<and> Invoke (Required wr cv) before invocation (retry_New wr opts) w = Some (r, i', w')
    \<and> h_retries i' = k
    \<and> (\<forall>j<k. \<exists>e. fst (attempt before invocation j w) = Inl e
         \<and> retry_wanted wr (RetryableCodes (h_opts (retry_New wr opts))) e)
    \<and> (\<forall>e. r = Inl e \<longrightarrow> k = n \<or> \<not> retry_wanted wr (RetryableCodes (h_opts (retry_New wr opts))) e)"
proof -
  let ?i = "retry_New wr opts"
  let ?rc = "RetryableCodes (h_opts ?i)"
  have g: "impl_good ?rc n ?i" and l: "impl_left n ?i = n"
    using assms by (simp_all add: retry_New_def impl_good_def impl_left_def)
  obtain k i' r w' where k: "k \<le> n" "invocation ((impl_handler.redo before invocation ^^ k) w) = (r, w')"
    "Invoke (Required wr cv) before invocation ?i w = Some (r, i', w')"
    "impl_good ?rc n i'" "impl_left n i' = n - k"
    "\<forall>j<k. \<exists>e. fst (invocation ((impl_handler.redo before invocation ^^ j) w)) = Inl e
       \<and> impl_handler.warranted wr ?rc e"
    "\<forall>e. r = Inl e \<longrightarrow> k = n \<or> \<not> impl_handler.warranted wr ?rc e"
    using impl_handler.Invoke_ends [OF g, of before invocation w wr cv] unfolding l by blast
  have "h_retries i' = k"
    using k(1,4,5) by (auto simp: impl_good_def impl_left_def)
  then show ?thesis
    using k unfolding attempt_def retry_wanted_def impl_handler.warranted_def by blast
qed

definition ex_wire :: wire where
  "ex_wire = \<lparr>w_grpc_name = \<lambda>c. ''g'', w_common_name = \<lambda>c. ''c'', w_txval_name = \<lambda>c. ''t'',
    w_SERVICE_UNAVAILABLE = 503, w_INTERNAL_SERVER_ERROR = 500, w_BAD_REQUEST = 400, w_NOT_FOUND = 404,
    w_DUPLICATE_TXID = 9, w_ENDORSEMENT_POLICY_FAILURE = 10, w_MVCC_READ_CONFLICT = 11,
    w_PHANTOM_READ_CONFLICT = 12, w_Unavailable = 14\<rparr>"

text \<open>An endorser that fails twice with a mismatch and then succeeds; the world counts the calls.\<close>

definition ex_invocation :: "(nat, string) Invocation" where
  "ex_invocation n = (if n < 2 then Inl (StatusErr EndorserClientStatus EndorsementMismatch ''mismatch'' [])
     else Inr ''ok'', n + 1)"

definition ex_conv :: "rat dur_conv" where
  "ex_conv = \<lparr>float64 = of_int, duration = floor\<rparr>"

theorem invoke_returns_witness:
  "\<exists>k i' r w'. k \<le> 3 \<and> Invoke (Required ex_wire ex_conv) None ex_invocation
     (retry_New ex_wire (DefaultOpts ex_wire 2)) 0 = Some (r, i', w') \<and> h_retries i' = k"
proof -
  have "Attempts (DefaultOpts ex_wire (2::rat)) = int 3" by (simp add: DefaultOpts_def)
  from invoke_returns [OF this, of None ex_invocation 0 ex_wire ex_conv] show ?thesis by blast
qed

lemma negative_attempts_step:
  assumes "Attempts (h_opts i) < 0" "retry_wanted wr (RetryableCodes (h_opts i)) err"
  shows "\<exists>i'. resolveRetry (Required wr cv) None err i w = (True, i', w) \<and> h_opts i' = h_opts i"
proof -
  have req: "Required wr cv e i = (if impl_warrants wr (RetryableCodes (h_opts i)) e
      then (True, i\<lparr>h_slept := h_slept i @ [backoffPeriod cv i], h_retries := h_retries i + 1\<rparr>) else (False, i))" for e
    using assms(1) by (auto simp: Required_def impl_warrants_def split: option.splits)
  have "list_ex (impl_warrants wr (RetryableCodes (h_opts i))) es \<Longrightarrow>
    \<exists>i'. resolve_loop (Required wr cv) None err es i w = (True, i', w) \<and> h_opts i' = h_opts i" for es
    by (induction es) (auto simp: req)
  then show ?thesis using assms(2) by (simp add: retry_wanted_def resolveRetry_def)
qed

lemma negative_attempts_diverge:
  assumes "Invoke req before invocation i w = Some z"
    and "req = Required wr cv" "before = None" "Attempts (h_opts i) < 0"
    and "\<forall>w. \<exists>err. fst (invocation w) = Inl err \<and> retry_wanted wr (RetryableCodes (h_opts i)) err"
  shows False
  using assms
proof (induction req before invocation i w z rule: Invoke.raw_induct [rotated, consumes 1, case_names step])
  case (step Inv req before invocation h w z)
  obtain err where "fst (invocation w) = Inl err" "retry_wanted wr (RetryableCodes (h_opts h)) err"
    using step(6) by blast
  then obtain w1 where e: "invocation w = (Inl err, w1)" "retry_wanted wr (RetryableCodes (h_opts h)) err"
    by (cases "invocation w") simp
  obtain h' where h: "resolveRetry (Required wr cv) None err h w1 = (True, h', w1)" "h_opts h' = h_opts h"
    using negative_attempts_step [OF step(5) e(2), of cv w1] by (elim exE conjE)
  have "Inv req before invocation h' w1 = Some z"
    using step(2) unfolding step(3,4) e(1) by (simp add: h(1))
  from step(1) [OF this step(3,4)] show ?case using step(5,6) h(2) by simp
qed

text \<open>
  A negative number of attempts is no limit: when every call fails with a retryable error, the
  invoker never returns.
\<close>
theorem negative_attempts_never_return:
  assumes "Attempts (h_opts i) < 0"
    and "\<forall>w. \<exists>err. fst (invocation w) = Inl err \<and> retry_wanted wr (RetryableCodes (h_opts i)) err"
  shows "Invoke (Required wr cv) None invocation i w = None"
  using negative_attempts_diverge [OF _ refl refl assms]
  by (cases "Invoke (Required wr cv) None invocation i w") auto

theorem negative_attempts_never_return_witness:
  "Invoke (Required ex_wire ex_conv) None
     (\<lambda>w. (Inl (StatusErr EndorserClientStatus EndorsementMismatch ''mismatch'' []), w) :: unit res \<times> nat)
     (WithAttempts ex_wire 2 (- 1)) 0 = None"
  by (rule negative_attempts_never_return)
    (simp_all add: WithAttempts_def DefaultOpts_def retry_wanted_def errs_of_def impl_warrants_def
      DefaultRetryableCodes_def isRetryable_def status_New_def)

section \<open>Back-off\<close>

lemma backoff_loop_closed:
  fixes b :: "'f::linordered_field"
  assumes "0 \<le> b" "1 \<le> f"
  shows "min mx (backoff_loop n b mx f) = min mx (b * f ^ n)"
  using assms(1)
proof (induction n arbitrary: b)
  case (Suc n)
  show ?case
  proof (cases "b < mx")
    case True
    have "0 \<le> b * f" using Suc.prems assms(2) by simp
    then show ?thesis using Suc.IH [of "b * f"] True by (simp add: mult.assoc)
  next
    case False
    have "b * 1 \<le> b * f ^ Suc n"
      by (rule mult_left_mono [OF one_le_power [OF assms(2)] Suc.prems])
    then show ?thesis using False by (simp add: min_def)
  qed
qed simp

text \<open>
  With exact arithmetic, a factor of at least 1 and no negative initial back-off, the sleep
  before retry number \<open>k + 1\<close> is the initial back-off times the factor to the power \<open>k\<close>, capped by
  the maximum: the first retry waits the initial back-off, the second the factor once (and not twice).
\<close>

theorem backoff_period_closed:
  fixes cv :: "'f::linordered_field dur_conv"
  assumes "0 \<le> float64 cv (InitialBackoff (h_opts i))" "1 \<le> BackoffFactor (h_opts i)"
  shows "backoffPeriod cv i = duration cv (min (float64 cv (MaxBackoff (h_opts i)))
    (float64 cv (InitialBackoff (h_opts i)) * BackoffFactor (h_opts i) ^ h_retries i))"
proof -
  have m: "(if x > mx then mx else x) = min mx x" for x mx :: 'f by (simp add: min_def)
  show ?thesis
    unfolding backoffPeriod_def Let_def m
    using backoff_loop_closed [OF assms, of "float64 cv (MaxBackoff (h_opts i))" "h_retries i"] by simp
qed

theorem backoff_period_closed_witness:
  "backoffPeriod ex_conv ((WithDefaults ex_wire 2)\<lparr>h_retries := 1\<rparr>) = 1000000000"
proof -
  let ?i = "(WithDefaults ex_wire (2::rat))\<lparr>h_retries := 1\<rparr>"
  have "0 \<le> float64 ex_conv (InitialBackoff (h_opts ?i))" "1 \<le> BackoffFactor (h_opts ?i)"
    by (simp_all add: WithDefaults_def DefaultOpts_def ex_conv_def Millisecond_def)
  from backoff_period_closed [OF this] show ?thesis
    by (simp add: WithDefaults_def DefaultOpts_def ex_conv_def Millisecond_def Second_def)
qed

section \<open>Multi-errors and statuses\<close>

text \<open>
  Appending errors one by one to no error keeps them all, in order: the result is nil for none,
  the error itself for one and the multi-error of all of them otherwise.
\<close>

theorem multi_append_collects:
  assumes "\<forall>e \<in> set es. \<forall>m. e \<noteq> MultiErr m"
  shows "foldl multi_Append None (map Some es) = ToError es"
  using assms
proof (induction es rule: rev_induct)
  case Nil
  then show ?case by (simp add: ToError_def)
next
  case (snoc e es)
  have "multi_Append (ToError es) (Some e) = ToError (es @ [e])"
    using snoc.prems
    by (cases es; cases "tl es"; cases "hd es")
      (auto simp: ToError_def multi_Append_def multi_New_def split: list.splits)
  then show ?case using snoc by simp
qed

theorem multi_append_collects_witness:
  "foldl multi_Append None (map Some [errorNew ''a'', errorNew ''b'', errorNew ''c''])
    = Some (MultiErr [errorNew ''a'', errorNew ''b'', errorNew ''c''])"
  using multi_append_collects [of "[errorNew ''a'', errorNew ''b'', errorNew ''c'']"] by (simp add: ToError_def)

definition wraps :: "(string \<times> farg list) list \<Rightarrow> goerr \<Rightarrow> goerr" where
  "wraps ws e = fold (\<lambda>(m, as) e. WithMsg e m as) ws e"

lemma FromError_wraps: "FromError w (Some (wraps ws e)) = FromError w (Some e)"
proof (induction ws arbitrary: e)
  case (Cons p ws)
  have "wraps (p # ws) e = wraps ws (WithMsg e (fst p) (snd p))" by (cases p) (simp add: wraps_def)
  then show ?case using Cons.IH by (simp add: FromError_wrap)
qed (simp add: wraps_def)

text \<open>
  Wrapping hides no status and changes no retry decision of a handler: through any number of
  \<open>errors.Wrap\<close> and \<open>errors.WithMessage\<close> layers \<open>FromError\<close> finds the same status.
\<close>

theorem wraps_keep_status:
  "FromError w (Some (wraps ws e)) = FromError w (Some e)
    \<and> Required w cv (wraps ws e) i = Required w cv e i"
  by (simp add: FromError_wraps Required_def)

text \<open>
  But wrapping a multi-error hides its members from the invoker: a bare multi-error is retried
  when one of its members is retryable, a wrapped one never is under the default, the channel
  client's and the resource management client's codes.
\<close>

theorem wrapped_multi_not_retried:
  assumes "ws \<noteq> []" "rc \<in> {DefaultRetryableCodes w, ChannelClientRetryableCodes w, ResMgmtDefaultRetryableCodes w}"
  shows "\<not> retry_wanted w rc (wraps ws (MultiErr es))
    \<and> (retry_wanted w rc (MultiErr es) \<longleftrightarrow> list_ex (impl_warrants w rc) es)"
proof -
  obtain e' m as where wr: "wraps ws (MultiErr es) = WithMsg e' m as"
    using assms(1) by (cases ws rule: rev_cases) (auto simp: wraps_def)
  have st: "FromError w (Some (wraps ws (MultiErr es)))
      = Some (status_New ClientStatus MultipleErrors (errorText w (MultiErr es)) (map DErr es))"
    using FromError_wraps FromError_multi by simp
  have "\<not> isRetryable rc ClientStatus MultipleErrors"
    using assms(2) by (auto simp: isRetryable_def DefaultRetryableCodes_def ChannelClientRetryableCodes_def
        ResMgmtDefaultRetryableCodes_def status_groups)
  then have "\<not> impl_warrants w rc (wraps ws (MultiErr es))"
    by (simp add: impl_warrants_def st status_New_def)
  then have "\<not> retry_wanted w rc (wraps ws (MultiErr es))"
    by (simp add: retry_wanted_def errs_of_def wr)
  then show ?thesis by (simp add: retry_wanted_def errs_of_def)
qed

theorem wrapped_multi_not_retried_witness:
  "\<not> retry_wanted ex_wire (DefaultRetryableCodes ex_wire)
      (wraps [(''no response'', [])] (MultiErr [StatusErr EndorserClientStatus EndorsementMismatch [] []]))"
  using wrapped_multi_not_retried [of "[(''no response'', [])]" "DefaultRetryableCodes ex_wire" ex_wire] by simp

end
