(* ===== verification/Client_Dispatcher.thy ===== *)
theory Client_Dispatcher
  imports Dispatcher Peers
begin

text \<open>
  The dispatchers of the event clients: pkg/fab/events/client/dispatcher/dispatcher.go, which
  embeds the base dispatcher and adds the connection to the event server, the connection
  registration and the peer monitor, and pkg/fab/events/deliverclient/dispatcher/dispatcher.go,
  which embeds that one and adds the events of the deliver service. Both are one goroutine, the
  loop of the base dispatcher.
\<close>

section \<open>State\<close>

text \<open>
  Connections, the \<open>done\<close> channels of the monitors and the goroutines are identities; the record
  keeps what was done to them: the connections opened, the calls of \<open>Close\<close>, the monitors started
  (each waits on the \<open>done\<close> channel of its number) and the \<open>done\<close> channels closed.
\<close>

record cdisp = disp +
  cd_connection :: "nat option"
  cd_connectionRegistration :: "ConnectionReg option"
  cd_peerMonitorDone :: "nat option"
  cd_peer :: "peer option"
  cd_peerMonitorPeriod :: int
  conns_opened :: "nat list"
  conns_closed :: "nat list"
  monitors :: "nat list"
  done_closed :: "nat list"

text \<open>
  What the dispatcher asks of others while it handles one event: the discovery service, the peer
  resolver (whose answer may be a nil peer), the connection provider, the connection (\<open>Send\<close> of a seek info), and the deliver
  status codes with their names, which belong to the protocol buffers.
\<close>

record cenv =
  ce_GetPeers :: "peer list res"
  ce_Resolve :: "peer list \<Rightarrow> peer option res"
  ce_ShouldDisconnect :: "peer list \<Rightarrow> peer \<Rightarrow> bool"
  ce_connectionProvider :: "peer option \<Rightarrow> nat res"
  ce_Send :: "nat \<Rightarrow> goerr option"
  ce_channelID :: string
  ce_SUCCESS :: int
  ce_FORBIDDEN :: int
  ce_statusText :: "int \<Rightarrow> string"

definition cdispatcher_New :: "int \<Rightarrow> params \<Rightarrow> evmsg heap \<Rightarrow> cdisp" where
  "cdispatcher_New period p h = disp.extend (dispatcher_New p h)
     \<lparr>cd_connection = None, cd_connectionRegistration = None, cd_peerMonitorDone = None, cd_peer = None,
      cd_peerMonitorPeriod = period, conns_opened = [], conns_closed = [], monitors = [], done_closed = []\<rparr>"

definition ConnectedPeer :: "cdisp \<Rightarrow> peer option" where
  "ConnectedPeer ed = cd_peer ed"

definition setConnectedPeer :: "peer option \<Rightarrow> cdisp \<Rightarrow> cdisp" where
  "setConnectedPeer p ed = ed\<lparr>cd_peer := p\<rparr>"

section \<open>Connections\<close>

text \<open>\<open>ed.connection.Close(); ed.connection = nil\<close>\<close>

definition close_connection :: "nat \<Rightarrow> cdisp \<Rightarrow> cdisp" where
  "close_connection c ed = ed\<lparr>conns_closed := conns_closed ed @ [c], cd_connection := None\<rparr>"

definition HandleConnectEvent :: "cenv \<Rightarrow> event \<Rightarrow> cdisp \<Rightarrow> cdisp outcome" where
  "HandleConnectEvent env e ed = (case e of
     ConnectEvent rq \<Rightarrow>
       (case cd_connection ed of
          Some _ \<Rightarrow> Ok (reply rq (RespErr None) ed)
        | None \<Rightarrow>
       (case EventCh ed of
          Inl err \<Rightarrow> Ok (reply rq (RespErr (Some err)) ed)
        | Inr _ \<Rightarrow>
       (case ce_GetPeers env of
          Inl err \<Rightarrow> Ok (reply rq (RespErr (Some err)) ed)
        | Inr peers \<Rightarrow>
       if peers = [] then Ok (reply rq (RespErr (Some (errorNew ''no peers to connect to''))) ed)
       else
       (case ce_Resolve env peers of
          Inl err \<Rightarrow> Ok (reply rq (RespErr (Some err)) ed)
        | Inr p \<Rightarrow>
       (case ce_connectionProvider env p of
          Inl err \<Rightarrow> Ok (reply rq (RespErr (Some (withMessage err ''could not create client conn''))) ed)
        | Inr conn \<Rightarrow>
          Ok (reply rq (RespErr None)
            (setConnectedPeer p (ed\<lparr>cd_connection := Some conn, conns_opened := conns_opened ed @ [conn]\<rparr>))))))))
   | _ \<Rightarrow> Panic)"

text \<open>The body of \<open>HandleDisconnectEvent\<close>, with the value it sends on the error channel.\<close>

definition disconnect_body :: "cdisp \<Rightarrow> goerr option \<times> cdisp" where
  "disconnect_body ed = (case cd_connection ed of
     None \<Rightarrow> (Some (errorNew ''connection already closed''), ed)
   | Some c \<Rightarrow> (None, setConnectedPeer None (close_connection c ed)))"

definition HandleDisconnectEvent :: "event \<Rightarrow> cdisp \<Rightarrow> cdisp outcome" where
  "HandleDisconnectEvent e ed = (case e of
     DisconnectEvent rq \<Rightarrow> (case disconnect_body ed of (err, ed') \<Rightarrow> Ok (reply rq (RespErr err) ed'))
   | _ \<Rightarrow> Panic)"

definition HandleRegisterConnectionEvent :: "event \<Rightarrow> cdisp \<Rightarrow> cdisp outcome" where
  "HandleRegisterConnectionEvent e ed = (case e of
     RegisterConnectionEvent rq reg \<Rightarrow>
       (case cd_connectionRegistration ed of
          Some _ \<Rightarrow> Ok (reply rq (RespErr (Some (errorNew ''registration already exists for connection event''))) ed)
        | None \<Rightarrow> Ok (reply rq (RespReg (RConn reg)) (ed\<lparr>cd_connectionRegistration := Some reg\<rparr>)))
   | _ \<Rightarrow> Panic)"

text \<open>
  The \<open>select\<close> with a \<open>default\<close> that notifies the listener. On a nil channel it takes the default
  case; \<open>HandleConnectedEvent\<close> tests for nil as well. Closing a nil channel panics.
\<close>

definition notify_connection :: "evmsg \<Rightarrow> cdisp \<Rightarrow> cdisp outcome" where
  "notify_connection m ed = (case cd_connectionRegistration ed of
     None \<Rightarrow> Ok ed
   | Some reg \<Rightarrow> (case creg_Eventch reg of
        None \<Rightarrow> Ok ed
      | Some c \<Rightarrow> obind (heap_deliver (- 1) m c (chans ed)) (\<lambda>h. Ok (ed\<lparr>chans := h\<rparr>))))"

definition HandleConnectedEvent :: "event \<Rightarrow> cdisp \<Rightarrow> cdisp outcome" where
  "HandleConnectedEvent e ed = (case e of
     ConnectedEvent \<Rightarrow>
       obind (notify_connection (NewConnectionEvent True None) ed) (\<lambda>ed1.
         if cd_peerMonitorPeriod ed1 > 0
         then (let d = length (monitors ed1)
               in Ok (ed1\<lparr>cd_peerMonitorDone := Some d, monitors := monitors ed1 @ [d]\<rparr>))
         else Ok ed1)
   | _ \<Rightarrow> Panic)"

text \<open>\<open>close(ed.peerMonitorDone); ed.peerMonitorDone = nil\<close>\<close>

definition stop_monitor :: "cdisp \<Rightarrow> cdisp outcome" where
  "stop_monitor ed = (case cd_peerMonitorDone ed of
     None \<Rightarrow> Ok ed
   | Some d \<Rightarrow> if d \<in> set (done_closed ed) then Panic
       else Ok (ed\<lparr>done_closed := done_closed ed @ [d], cd_peerMonitorDone := None\<rparr>))"

definition HandleDisconnectedEvent :: "event \<Rightarrow> cdisp \<Rightarrow> cdisp outcome" where
  "HandleDisconnectedEvent e ed = (case e of
     DisconnectedEvent err \<Rightarrow>
       (let ed1 = (case cd_connection ed of None \<Rightarrow> ed | Some c \<Rightarrow> close_connection c ed)
        in obind (notify_connection (NewConnectionEvent False (Some err)) ed1) stop_monitor)
   | _ \<Rightarrow> Panic)"

definition clearConnectionRegistration :: "cdisp \<Rightarrow> cdisp outcome" where
  "clearConnectionRegistration ed = (case cd_connectionRegistration ed of
     None \<Rightarrow> Ok ed
   | Some reg \<Rightarrow> (case creg_Eventch reg of
        None \<Rightarrow> Panic
      | Some c \<Rightarrow> obind (closeCh c ed) (\<lambda>ed'. Ok (ed'\<lparr>cd_connectionRegistration := None\<rparr>))))"

definition client_HandleStopEvent :: "event \<Rightarrow> cdisp \<Rightarrow> cdisp outcome" where
  "client_HandleStopEvent e ed =
     obind (clearConnectionRegistration ed) (\<lambda>ed1. obind (stop_monitor ed1) (HandleStopEvent e))"

definition client_registerHandlers :: "cdisp \<Rightarrow> cdisp" where
  "client_registerHandlers ed = fold (\<lambda>(t, h). RegisterHandler t h)
     [(T_Stop, H_clientStop), (T_Connect, H_connect), (T_Disconnect, H_disconnect),
      (T_Connected, H_connected), (T_Disconnected, H_disconnected),
      (T_RegisterConnection, H_registerConnection)] ed"

definition client_Start :: "cdisp \<Rightarrow> goerr option \<times> cdisp" where
  "client_Start ed = (case Start (client_registerHandlers ed) of
     (Some err, ed') \<Rightarrow> (Some (withMessage err ''error starting client event dispatcher''), ed')
   | (None, ed') \<Rightarrow> (None, ed'))"

section \<open>The peer monitor\<close>

text \<open>
  \<open>disconnect\<close> runs in the goroutine of the monitor: it sends events to the dispatcher and waits for
  the answer of the first one. The result is its error and the events it has sent.
\<close>

definition disconnect :: "cdisp \<Rightarrow> rq \<Rightarrow> goerr option \<Rightarrow> goerr option \<times> event list" where
  "disconnect ed rq answer = (case EventCh ed of
     Inl err \<Rightarrow> (Some (withMessage err ''unable to get event dispatcher channel''), [])
   | Inr _ \<Rightarrow> (case answer of
        Some err \<Rightarrow> (Some err, [DisconnectEvent rq])
      | None \<Rightarrow> (None, [DisconnectEvent rq,
          NewDisconnectedEvent (errorNew ''event client was forced to disconnect'')])))"

definition disconnected :: "cenv \<Rightarrow> cdisp \<Rightarrow> rq \<Rightarrow> goerr option \<Rightarrow> bool \<times> event list" where
  "disconnected env ed rq answer = (case ConnectedPeer ed of
     None \<Rightarrow> (False, [])
   | Some p \<Rightarrow> (case ce_GetPeers env of
        Inl err \<Rightarrow> (False, [])
      | Inr peers \<Rightarrow>
          if \<not> ce_ShouldDisconnect env peers p then (False, [])
          else (case disconnect ed rq answer of
             (Some err, es) \<Rightarrow> (False, es)
           | (None, es) \<Rightarrow> (True, es))))"

section \<open>The deliver dispatcher\<close>

definition handleSeekEvent :: "cenv \<Rightarrow> event \<Rightarrow> cdisp \<Rightarrow> cdisp outcome" where
  "handleSeekEvent env e ed = (case e of
     SeekEvent rq \<Rightarrow>
       (case cd_connection ed of
          None \<Rightarrow> Ok ed
        | Some c \<Rightarrow> (case ce_Send env c of
             Some err \<Rightarrow> Ok (reply rq (RespErr (Some (WithMsg err
                 ''error sending seek info for channel [%s]'' [FS (ce_channelID env)]))) ed)
           | None \<Rightarrow> Ok (reply rq (RespErr None) ed)))
   | _ \<Rightarrow> Panic)"

definition disconnectedEventFromStatus :: "cenv \<Rightarrow> int \<Rightarrow> event" where
  "disconnectedEventFromStatus env status =
     (let err = ErrorF ''got error status from deliver server: %s'' [FS (ce_statusText env status)]
      in if status = ce_FORBIDDEN env then NewFatalDisconnectedEvent err else NewDisconnectedEvent err)"

definition handleDeliverResponseStatus :: "cenv \<Rightarrow> int \<Rightarrow> cdisp \<Rightarrow> cdisp outcome" where
  "handleDeliverResponseStatus env status ed =
     (if status = ce_SUCCESS env then Ok ed
      else (case disconnect_body ed of (err, ed1) \<Rightarrow>
        HandleDisconnectedEvent (disconnectedEventFromStatus env status) ed1))"

definition handleEvent :: "runtime \<Rightarrow> cenv \<Rightarrow> event \<Rightarrow> cdisp \<Rightarrow> cdisp outcome" where
  "handleEvent rt env e ed = (case e of
     DeliverEvent response url \<Rightarrow> (case response of
        DR_Status status \<Rightarrow> handleDeliverResponseStatus env status ed
      | DR_Block b \<Rightarrow> HandleBlock rt b url ed
      | DR_FilteredBlock fb \<Rightarrow> HandleFilteredBlock fb url ed
      | DR_Other \<Rightarrow> Ok ed)
   | _ \<Rightarrow> Panic)"

definition deliver_registerHandlers :: "cdisp \<Rightarrow> cdisp" where
  "deliver_registerHandlers ed =
     fold (\<lambda>(t, h). RegisterHandler t h) [(T_Seek, H_seek), (T_Deliver, H_deliver)] ed"

definition deliver_Start :: "cdisp \<Rightarrow> goerr option \<times> cdisp" where
  "deliver_Start ed = (case client_Start (deliver_registerHandlers ed) of
     (Some err, ed') \<Rightarrow> (Some (withMessage err ''error starting deliver event dispatcher''), ed')
   | (None, ed') \<Rightarrow> (None, ed'))"

section \<open>The loop\<close>

definition run_deliver :: "runtime \<Rightarrow> cenv \<Rightarrow> hname \<Rightarrow> event \<Rightarrow> cdisp \<Rightarrow> cdisp outcome" where
  "run_deliver rt env h e ed = (case h of
     H_clientStop \<Rightarrow> client_HandleStopEvent e ed
   | H_connect \<Rightarrow> HandleConnectEvent env e ed
   | H_disconnect \<Rightarrow> HandleDisconnectEvent e ed
   | H_connected \<Rightarrow> HandleConnectedEvent e ed
   | H_disconnected \<Rightarrow> HandleDisconnectedEvent e ed
   | H_registerConnection \<Rightarrow> HandleRegisterConnectionEvent e ed
   | H_seek \<Rightarrow> handleSeekEvent env e ed
   | H_deliver \<Rightarrow> handleEvent rt env e ed
   | _ \<Rightarrow> run_handler rt h e ed)"

text \<open>The loop of the base dispatcher, where the answers of the environment go with each event.\<close>

fun deliver_loop :: "runtime \<Rightarrow> (cenv \<times> event) list \<Rightarrow> cdisp \<Rightarrow> cdisp outcome" where
  "deliver_loop rt [] ed = Ok ed"
| "deliver_loop rt ((env, e) # es) ed =
     (if d_state ed = StateStopped then Ok ed
      else obind (dispatch (run_deliver rt env) e ed) (deliver_loop rt es))"

end
