(* ===== verification/Client_Theorems.thy ===== *)
theory Client_Theorems
  imports Client_Dispatcher Dispatcher_Properties
begin

text \<open>
  The client and deliver dispatchers: their invariant, which adds to that of the base dispatcher the
  connection listener's channel, the monitor's \<open>done\<close> channel and the account of the connections;
  the contract of an event loop as a locale, which the base and the deliver dispatcher interpret;
  and the properties of connecting, disconnecting and monitoring.
\<close>

section \<open>The contract of an event loop\<close>

text \<open>
  A loop that runs its events one after the other until it is stopped. If each event keeps the
  invariant and leaves the channels of the later events fresh then so does the loop, without a panic.
\<close>

primrec gloop :: "('s \<Rightarrow> bool) \<Rightarrow> ('e \<Rightarrow> 's \<Rightarrow> 's outcome) \<Rightarrow> 'e list \<Rightarrow> 's \<Rightarrow> 's outcome" where
  "gloop stopped run [] s = Ok s"
| "gloop stopped run (e # es) s = (if stopped s then Ok s else obind (run e s) (gloop stopped run es))"

locale event_loop =
  fixes run :: "'e \<Rightarrow> 's \<Rightarrow> 's outcome" and stopped :: "'s \<Rightarrow> bool" and inv :: "'s \<Rightarrow> bool"
    and fresh :: "'e list \<Rightarrow> 's \<Rightarrow> bool" and ok :: "'e \<Rightarrow> bool"
  assumes step: "inv s \<Longrightarrow> fresh (e # es) s \<Longrightarrow> ok e \<Longrightarrow> wp (run e s) (\<lambda>s'. inv s' \<and> fresh es s')"
begin

lemma loop_safe:
  assumes "inv s" "fresh es s" "list_all ok es"
  shows "wp (gloop stopped run es s) inv"
  using assms
proof (induction es arbitrary: s)
  case (Cons e es)
  have "wp (run e s) (\<lambda>s'. inv s' \<and> fresh es s')" using step Cons.prems by simp
  then have "wp (run e s) (\<lambda>s'. wp (gloop stopped run es s') inv)"
    by (rule wp_mono) (use Cons in auto)
  then show ?case using Cons.prems by simp
qed simp

end

interpretation base_loop: event_loop
  "\<lambda>e ed. dispatch (run_handler rt) e ed" "\<lambda>ed. d_state ed = StateStopped"
  "\<lambda>ed. disp_inv (rt_codec rt) ed \<and> handlers_base ed"
  "\<lambda>es ed. fresh_chans (events_chans es) ed" "event_ok (rt_codec rt)" for rt
proof
  fix ed :: "'a disp_scheme" and e es
  assume a: "disp_inv (rt_codec rt) ed \<and> handlers_base ed" "fresh_chans (events_chans (e # es)) ed"
    "event_ok (rt_codec rt) e"
  then have f: "fresh_chans (new_chans e @ events_chans es) ed" by (simp add: events_chans_def)
  have "wp (dispatch (run_handler rt) e ed) (step_ok (rt_codec rt) (new_chans e) ed)"
    using a f by (intro dispatch_step) (auto intro: fresh_chans_append)
  then show "wp (dispatch (run_handler rt) e ed)
      (\<lambda>s'. (disp_inv (rt_codec rt) s' \<and> handlers_base s') \<and> fresh_chans (events_chans es) s')"
    by (rule wp_mono) (use a fresh_chans_step [OF f] in \<open>auto simp: step_ok_def handlers_base_def\<close>)
qed

section \<open>The invariant\<close>

definition cchan :: "cdisp \<Rightarrow> chid list" where
  "cchan ed = (case cd_connectionRegistration ed of
     None \<Rightarrow> [] | Some r \<Rightarrow> (case creg_Eventch r of None \<Rightarrow> [] | Some c \<Rightarrow> [c]))"

definition creg_ok :: "cdisp \<Rightarrow> bool" where
  "creg_ok ed \<longleftrightarrow> (\<forall>r. cd_connectionRegistration ed = Some r \<longrightarrow> creg_Eventch r \<noteq> None)
     \<and> (\<forall>c \<in> set (cchan ed). open_in (chans ed) c \<and> c \<notin> set (reg_chans ed))"

definition monitor_ok :: "cdisp \<Rightarrow> bool" where
  "monitor_ok ed \<longleftrightarrow> distinct (done_closed ed) \<and> set (done_closed ed) \<subseteq> {..<length (monitors ed)}
     \<and> (\<forall>d. cd_peerMonitorDone ed = Some d \<longrightarrow> d < length (monitors ed) \<and> d \<notin> set (done_closed ed))"

text \<open>Every connection ever opened has been closed once, except for the current one.\<close>

definition conns_ok :: "cdisp \<Rightarrow> bool" where
  "conns_ok ed \<longleftrightarrow> mset (conns_opened ed) = mset (conns_closed ed) + mset_set (set_option (cd_connection ed))"

definition cd_inv :: "codec \<Rightarrow> cdisp \<Rightarrow> bool" where
  "cd_inv cd ed \<longleftrightarrow> disp_inv cd ed \<and> creg_ok ed \<and> monitor_ok ed \<and> conns_ok ed"

fun cnew_chans :: "event \<Rightarrow> chid list" where
  "cnew_chans (RegisterConnectionEvent rq r) = (case creg_Eventch r of None \<Rightarrow> [] | Some c \<Rightarrow> [c])"
| "cnew_chans e = new_chans e"

fun cevent_ok :: "codec \<Rightarrow> event \<Rightarrow> bool" where
  "cevent_ok cd (RegisterConnectionEvent rq r) = (creg_Eventch r \<noteq> None)"
| "cevent_ok cd (DeliverEvent (DR_Block b) url) = block_ok cd b"
| "cevent_ok cd e = event_ok cd e"

definition all_chans :: "cdisp \<Rightarrow> chid list" where
  "all_chans ed = reg_chans ed @ cchan ed"

definition cfresh :: "chid list \<Rightarrow> cdisp \<Rightarrow> bool" where
  "cfresh N ed \<longleftrightarrow> distinct N \<and> set N \<inter> set (all_chans ed) = {} \<and> (\<forall>c \<in> set N. open_in (chans ed) c)"

definition cstep_ok :: "codec \<Rightarrow> chid list \<Rightarrow> cdisp \<Rightarrow> cdisp \<Rightarrow> bool" where
  "cstep_ok cd N ed ed' \<longleftrightarrow> cd_inv cd ed' \<and> set (all_chans ed') \<subseteq> set (all_chans ed) \<union> set N
     \<and> (\<forall>c. c \<notin> set (all_chans ed) \<longrightarrow> chans ed' c = chans ed c) \<and> handlers ed' = handlers ed"

lemma cstep_ok_refl [simp]: "cd_inv cd ed \<Longrightarrow> cstep_ok cd N ed ed"
  by (auto simp: cstep_ok_def)

lemma more_fields:
  assumes "disp.more ed' = disp.more (ed :: cdisp)"
  shows "cd_connection ed' = cd_connection ed" "cd_connectionRegistration ed' = cd_connectionRegistration ed"
    "cd_peerMonitorDone ed' = cd_peerMonitorDone ed" "conns_opened ed' = conns_opened ed"
    "conns_closed ed' = conns_closed ed" "monitors ed' = monitors ed" "done_closed ed' = done_closed ed"
  using assms by (cases ed; cases ed'; simp)+

lemma step_ok_cstep:
  assumes "cd_inv cd ed" "cfresh N ed" "step_ok cd N ed ed'"
  shows "cstep_ok cd N ed ed'"
proof -
  note m = more_fields [of ed' ed]
  have more: "disp.more ed' = disp.more ed" using assms(3) by (simp add: step_ok_def)
  have cc: "cchan ed' = cchan ed" by (simp add: cchan_def m(2) [OF more])
  have "creg_ok ed'"
    using assms cc m(2) [OF more]
    by (auto simp: creg_ok_def cd_inv_def step_ok_def cfresh_def all_chans_def open_in_def)
  moreover have "monitor_ok ed'" "conns_ok ed'"
    using assms(1) m [OF more] by (simp_all add: cd_inv_def monitor_ok_def conns_ok_def)
  ultimately show ?thesis
    using assms(3) cc by (auto simp: cstep_ok_def cd_inv_def step_ok_def all_chans_def)
qed

section \<open>Every handler keeps the invariant\<close>

lemma cd_frames [simp]:
  fixes ed :: cdisp
  shows "reg_chans (ed\<lparr>cd_connection := x1\<rparr>) = reg_chans ed" "disp_inv cd (ed\<lparr>cd_connection := x1\<rparr>) = disp_inv cd ed"
    "reg_chans (ed\<lparr>cd_connectionRegistration := x2\<rparr>) = reg_chans ed"
    "disp_inv cd (ed\<lparr>cd_connectionRegistration := x2\<rparr>) = disp_inv cd ed"
    "reg_chans (ed\<lparr>cd_peerMonitorDone := x3\<rparr>) = reg_chans ed" "disp_inv cd (ed\<lparr>cd_peerMonitorDone := x3\<rparr>) = disp_inv cd ed"
    "reg_chans (ed\<lparr>cd_peer := x4\<rparr>) = reg_chans ed" "disp_inv cd (ed\<lparr>cd_peer := x4\<rparr>) = disp_inv cd ed"
    "reg_chans (ed\<lparr>conns_opened := x5\<rparr>) = reg_chans ed" "disp_inv cd (ed\<lparr>conns_opened := x5\<rparr>) = disp_inv cd ed"
    "reg_chans (ed\<lparr>conns_closed := x5\<rparr>) = reg_chans ed" "disp_inv cd (ed\<lparr>conns_closed := x5\<rparr>) = disp_inv cd ed"
    "reg_chans (ed\<lparr>monitors := x5\<rparr>) = reg_chans ed" "disp_inv cd (ed\<lparr>monitors := x5\<rparr>) = disp_inv cd ed"
    "reg_chans (ed\<lparr>done_closed := x5\<rparr>) = reg_chans ed" "disp_inv cd (ed\<lparr>done_closed := x5\<rparr>) = disp_inv cd ed"
  by (simp_all add: reg_chans_def disp_inv_def regexps_compiled_def)

lemma creply_frames [simp]:
  "cd_connection (reply rq r ed) = cd_connection ed"
  "cd_connectionRegistration (reply rq r ed) = cd_connectionRegistration ed"
  "cd_peerMonitorDone (reply rq r ed) = cd_peerMonitorDone ed"
  "cd_peer (reply rq r ed) = cd_peer ed"
  "conns_opened (reply rq r ed) = conns_opened ed" "conns_closed (reply rq r ed) = conns_closed ed"
  "monitors (reply rq r ed) = monitors ed" "done_closed (reply rq r ed) = done_closed ed"
  by (simp_all add: reply_def)

lemmas cd_defs = cd_inv_def creg_ok_def monitor_ok_def conns_ok_def cchan_def

lemma cd_inv_reply [simp]: "cd_inv cd (reply rq r ed) = cd_inv cd ed"
  by (simp add: cd_defs)

lemma cstep_ok_reply [simp]: "cstep_ok cd N ed (reply rq r ed') = cstep_ok cd N ed ed'"
  by (simp add: cstep_ok_def all_chans_def cchan_def)

text \<open>Steps that leave the channels and the listener alone.\<close>

lemma cstep_ok_quiet:
  assumes "cd_inv cd ed'" "reg_chans ed' = reg_chans ed" "chans ed' = chans ed" "handlers ed' = handlers ed"
    "cd_connectionRegistration ed' = cd_connectionRegistration ed"
  shows "cstep_ok cd N ed ed'"
  using assms by (simp add: cstep_ok_def all_chans_def cchan_def)

lemma HandleConnectEvent_step:
  assumes "cd_inv cd ed"
  shows "wp (HandleConnectEvent env (ConnectEvent rq) ed) (cstep_ok cd N ed)"
proof -
  have "cstep_ok cd N ed (setConnectedPeer p (ed\<lparr>cd_connection := Some conn, conns_opened := conns_opened ed @ [conn]\<rparr>))"
    if "cd_connection ed = None" for p conn
    by (rule cstep_ok_quiet) (use assms that in \<open>auto simp: cd_defs setConnectedPeer_def\<close>)
  then show ?thesis
    using assms by (auto simp: HandleConnectEvent_def split: option.splits sum.splits)
qed

lemma close_connection_inv:
  "cd_inv cd ed \<Longrightarrow> cd_connection ed = Some c \<Longrightarrow> cd_inv cd (close_connection c ed)"
  by (auto simp: cd_defs close_connection_def)

lemma close_connection_step:
  "cd_inv cd ed \<Longrightarrow> cd_connection ed = Some c \<Longrightarrow> cstep_ok cd N ed (close_connection c ed)"
  by (rule cstep_ok_quiet [OF close_connection_inv]) (simp_all add: close_connection_def)

lemma disconnect_body_step:
  assumes "cd_inv cd ed"
  shows "cstep_ok cd N ed (snd (disconnect_body ed))"
proof (cases "cd_connection ed")
  case None
  then show ?thesis using assms by (simp add: disconnect_body_def)
next
  case (Some c)
  have "cd_inv cd (setConnectedPeer None (close_connection c ed))"
    using close_connection_inv [OF assms Some] by (simp add: setConnectedPeer_def cd_defs)
  then show ?thesis
    unfolding disconnect_body_def Some
    by (intro cstep_ok_quiet) (simp_all add: setConnectedPeer_def close_connection_def)
qed

lemma HandleDisconnectEvent_step:
  "cd_inv cd ed \<Longrightarrow> wp (HandleDisconnectEvent (DisconnectEvent rq) ed) (cstep_ok cd N ed)"
  using disconnect_body_step [of cd ed N]
  by (cases "disconnect_body ed") (simp add: HandleDisconnectEvent_def)

lemma HandleRegisterConnectionEvent_step:
  assumes "cd_inv cd ed" "cfresh (cnew_chans (RegisterConnectionEvent rq r)) ed" "creg_Eventch r \<noteq> None"
  shows "wp (HandleRegisterConnectionEvent (RegisterConnectionEvent rq r) ed)
    (cstep_ok cd (cnew_chans (RegisterConnectionEvent rq r)) ed)"
proof -
  obtain c where c: "creg_Eventch r = Some c" using assms(3) by auto
  have "cstep_ok cd [c] ed (ed\<lparr>cd_connectionRegistration := Some r\<rparr>)"
    using assms(1,2) c by (auto simp: cstep_ok_def cd_defs all_chans_def cfresh_def)
  then show ?thesis
    using assms(1) c by (simp add: HandleRegisterConnectionEvent_def split: option.split)
qed

lemma cd_disp_inv_open:
  "open_in h = open_in (chans ed) \<Longrightarrow> disp_inv cd (ed\<lparr>chans := h\<rparr>) = disp_inv cd ed"
  by (simp add: disp_inv_def regexps_compiled_def)

text \<open>Notifying the listener.\<close>

definition notified :: "evmsg \<Rightarrow> cdisp \<Rightarrow> cdisp \<Rightarrow> bool" where
  "notified m ed ed' \<longleftrightarrow> (\<exists>h. ed' = ed\<lparr>chans := h\<rparr> \<and> open_in h = open_in (chans ed)
     \<and> (\<forall>c. c \<notin> set (cchan ed) \<longrightarrow> h c = chans ed c)
     \<and> (\<forall>c \<in> set (cchan ed). ch_sent (h c) = ch_sent (chans ed c) @ [m]
          \<or> h c = chans ed c \<and> \<not> can_take (- 1) (chans ed c)))"

lemma notify_connection_twp:
  assumes "creg_ok ed"
  shows "twp (notify_connection m ed) (notified m ed)"
proof (cases "cchan ed")
  case Nil
  then have "cd_connectionRegistration ed = None"
    using assms by (auto simp: creg_ok_def cchan_def split: option.splits)
  then show ?thesis using Nil by (simp add: notify_connection_def notified_def) (intro exI [of _ "chans ed"], simp)
next
  case (Cons c cs)
  then obtain r where r: "cd_connectionRegistration ed = Some r" "creg_Eventch r = Some c" "cs = []"
    by (auto simp: cchan_def split: option.splits)
  have op: "open_in (chans ed) c" using assms Cons by (simp add: creg_ok_def)
  have "twp (heap_deliver (- 1) m c (chans ed)) (\<lambda>h. open_in h = open_in (chans ed))"
    by (rule heap_deliver_not_Blocked [OF op]) simp
  moreover have "wp (heap_deliver (- 1) m c (chans ed)) (\<lambda>h. can_take (- 1) (chans ed c) \<longrightarrow>
      ch_sent (h c) = ch_sent (chans ed c) @ [m])"
    using heap_deliver_can_take [OF op, of "- 1" m] heap_deliver_open [OF op, of "- 1" m]
    by (cases "can_take (- 1) (chans ed c)"; cases "heap_deliver (- 1) m c (chans ed)") auto
  moreover have "wp (heap_deliver (- 1) m c (chans ed)) (\<lambda>h. open_in h = open_in (chans ed)
      \<and> (\<forall>j. j \<noteq> c \<longrightarrow> h j = chans ed j) \<and> (ch_sent (h c) = ch_sent (chans ed c) @ [m] \<or> h c = chans ed c))"
    using heap_deliver_open [OF op, of "- 1" m] by (rule wp_mono) auto
  ultimately show ?thesis
    using r Cons by (cases "heap_deliver (- 1) m c (chans ed)") (auto simp: notify_connection_def notified_def)
qed

lemma notified_step:
  assumes "cd_inv cd ed" "notified m ed ed'"
  shows "cstep_ok cd N ed ed'"
proof -
  obtain h where h: "ed' = ed\<lparr>chans := h\<rparr>" "open_in h = open_in (chans ed)"
    "\<forall>c. c \<notin> set (cchan ed) \<longrightarrow> h c = chans ed c"
    using assms(2) by (auto simp: notified_def)
  then have "cd_inv cd ed'"
    using assms(1) by (simp add: cd_defs cd_disp_inv_open)
  moreover have "cchan ed' = cchan ed" by (simp add: h(1) cchan_def)
  ultimately show ?thesis using h by (auto simp: cstep_ok_def all_chans_def)
qed

lemma cstep_ok_trans:
  assumes "cstep_ok cd N ed ed1" "cstep_ok cd [] ed1 ed2" "set (all_chans ed1) \<subseteq> set (all_chans ed)"
  shows "cstep_ok cd N ed ed2"
  using assms unfolding cstep_ok_def by (auto 0 3)

lemma cstep_ok_trans_nil:
  "cstep_ok cd [] ed ed1 \<Longrightarrow> cstep_ok cd [] ed1 ed2 \<Longrightarrow> cstep_ok cd [] ed ed2"
  by (rule cstep_ok_trans) (auto simp: cstep_ok_def)

lemma cstep_ok_weaken: "cstep_ok cd [] ed ed' \<Longrightarrow> cstep_ok cd N ed ed'"
  by (auto simp: cstep_ok_def)

lemma HandleConnectedEvent_step:
  assumes "cd_inv cd ed"
  shows "wp (HandleConnectedEvent ConnectedEvent ed) (cstep_ok cd N ed)"
proof -
  have "cstep_ok cd N ed (ed1\<lparr>cd_peerMonitorDone := Some (length (monitors ed1)), monitors := monitors ed1 @ [length (monitors ed1)]\<rparr>)"
    if st: "cstep_ok cd N ed ed1" for ed1
  proof -
    have "cd_inv cd (ed1\<lparr>cd_peerMonitorDone := Some (length (monitors ed1)), monitors := monitors ed1 @ [length (monitors ed1)]\<rparr>)"
      using st by (auto simp: cstep_ok_def cd_defs)
    then show ?thesis using st by (simp add: cstep_ok_def all_chans_def cchan_def)
  qed
  moreover have "wp (notify_connection (NewConnectionEvent True None) ed) (cstep_ok cd N ed)"
    by (rule wp_mono [OF twp_wp [OF notify_connection_twp] notified_step [OF assms]])
      (use assms in \<open>simp_all add: cd_inv_def\<close>)
  ultimately show ?thesis
    by (simp add: HandleConnectedEvent_def Let_def) (erule wp_mono, simp)
qed

lemma stop_monitor_ok:
  assumes "cd_inv cd ed"
  shows "\<exists>ed'. stop_monitor ed = Ok ed' \<and> cd_peerMonitorDone ed' = None \<and> cstep_ok cd [] ed ed'
    \<and> cd_connectionRegistration ed' = cd_connectionRegistration ed \<and> chans ed' = chans ed
    \<and> cd_connection ed' = cd_connection ed \<and> cd_peer ed' = cd_peer ed \<and> d_state ed' = d_state ed"
proof (cases "cd_peerMonitorDone ed")
  case None
  then show ?thesis using assms by (simp add: stop_monitor_def)
next
  case (Some d)
  let ?ed' = "ed\<lparr>done_closed := done_closed ed @ [d], cd_peerMonitorDone := None\<rparr>"
  have "cd_inv cd ?ed'" using assms Some by (auto simp: cd_defs)
  then have "cstep_ok cd [] ed ?ed'" by (rule cstep_ok_quiet) simp_all
  then show ?thesis using assms Some by (simp add: stop_monitor_def cd_defs)
qed

text \<open>A disconnected event: the connection is closed, the listener notified, the monitor stopped.\<close>

lemma HandleDisconnectedEvent_twp:
  assumes "cd_inv cd ed"
  shows "twp (HandleDisconnectedEvent (DisconnectedEvent err) ed) (\<lambda>ed'. cstep_ok cd [] ed ed'
    \<and> cd_connection ed' = None \<and> cd_peerMonitorDone ed' = None \<and> cd_peer ed' = cd_peer ed
    \<and> cchan ed' = cchan ed \<and> (\<forall>c \<in> set (cchan ed). chans ed' c = chans ed c \<and> \<not> can_take (- 1) (chans ed c)
         \<or> ch_sent (chans ed' c) = ch_sent (chans ed c) @ [MConn False (Some err)]))"
proof -
  let ?ed1 = "case cd_connection ed of None \<Rightarrow> ed | Some c \<Rightarrow> close_connection c ed"
  have st1: "cstep_ok cd [] ed ?ed1"
    using assms close_connection_step by (auto split: option.split)
  then have inv1: "cd_inv cd ?ed1" by (simp add: cstep_ok_def)
  have f: "cd_connection ?ed1 = None" "cd_peer ?ed1 = cd_peer ed" "cchan ?ed1 = cchan ed" "chans ?ed1 = chans ed"
    by (auto simp: close_connection_def cchan_def split: option.split)
  have "twp (notify_connection (NewConnectionEvent False (Some err)) ?ed1)
      (\<lambda>ed2. twp (stop_monitor ed2) (\<lambda>ed'. cstep_ok cd [] ed ed'
    \<and> cd_connection ed' = None \<and> cd_peerMonitorDone ed' = None \<and> cd_peer ed' = cd_peer ed
    \<and> cchan ed' = cchan ed \<and> (\<forall>c \<in> set (cchan ed). chans ed' c = chans ed c \<and> \<not> can_take (- 1) (chans ed c)
         \<or> ch_sent (chans ed' c) = ch_sent (chans ed c) @ [MConn False (Some err)])))"
  proof (rule twp_mono [OF notify_connection_twp])
    show "creg_ok ?ed1" using inv1 by (simp add: cd_inv_def)
    fix ed2 assume n: "notified (NewConnectionEvent False (Some err)) ?ed1 ed2"
    then have st2: "cstep_ok cd [] ed ed2" using notified_step [OF inv1] cstep_ok_trans_nil [OF st1] by blast
    then have "cd_inv cd ed2" by (simp add: cstep_ok_def)
    then obtain ed3 where e3: "stop_monitor ed2 = Ok ed3" "cd_peerMonitorDone ed3 = None" "cstep_ok cd [] ed2 ed3"
      "cd_connectionRegistration ed3 = cd_connectionRegistration ed2" "chans ed3 = chans ed2"
      "cd_connection ed3 = cd_connection ed2" "cd_peer ed3 = cd_peer ed2"
      using stop_monitor_ok by blast
    obtain h where h: "ed2 = ?ed1\<lparr>chans := h\<rparr>"
      "\<forall>c \<in> set (cchan ?ed1). ch_sent (h c) = ch_sent (chans ?ed1 c) @ [NewConnectionEvent False (Some err)]
          \<or> h c = chans ?ed1 c \<and> \<not> can_take (- 1) (chans ?ed1 c)"
      using n unfolding notified_def by blast
    have "cchan ed3 = cchan ed" using e3(4) h(1) f(3) by (simp add: cchan_def)
    then show "twp (stop_monitor ed2) (\<lambda>ed'. cstep_ok cd [] ed ed'
    \<and> cd_connection ed' = None \<and> cd_peerMonitorDone ed' = None \<and> cd_peer ed' = cd_peer ed
    \<and> cchan ed' = cchan ed \<and> (\<forall>c \<in> set (cchan ed). chans ed' c = chans ed c \<and> \<not> can_take (- 1) (chans ed c)
         \<or> ch_sent (chans ed' c) = ch_sent (chans ed c) @ [MConn False (Some err)]))"
      using e3 h f cstep_ok_trans_nil [OF st2 e3(3)] by (auto simp: NewConnectionEvent_def)
  qed
  then show ?thesis by (simp add: HandleDisconnectedEvent_def Let_def)
qed

lemma client_HandleStopEvent_step:
  assumes "cd_inv cd ed"
  shows "wp (client_HandleStopEvent (StopEvent rq) ed) (cstep_ok cd N ed)"
proof -
  have "\<exists>ed1. clearConnectionRegistration ed = Ok ed1 \<and> cstep_ok cd [] ed ed1"
  proof (cases "cd_connectionRegistration ed")
    case None
    then show ?thesis using assms by (simp add: clearConnectionRegistration_def)
  next
    case (Some r)
    then obtain c where c: "creg_Eventch r = Some c" "cchan ed = [c]" "open_in (chans ed) c" "c \<notin> set (reg_chans ed)"
      using assms by (auto simp: cd_inv_def creg_ok_def cchan_def)
    let ?ed1 = "ed\<lparr>chans := mark_closed {c} (chans ed), cd_connectionRegistration := None\<rparr>"
    have "clearConnectionRegistration ed = Ok ?ed1"
      using Some c by (simp add: clearConnectionRegistration_def closeCh_def heap_close_open)
    moreover have "cd_inv cd ?ed1"
      using assms c by (auto simp: cd_defs disp_inv_def regexps_compiled_def)
    then have "cstep_ok cd [] ed ?ed1"
      using c by (auto simp: cstep_ok_def all_chans_def mark_closed_def) (simp_all add: cchan_def)
    ultimately show ?thesis by blast
  qed
  then obtain ed1 where e1: "clearConnectionRegistration ed = Ok ed1" "cstep_ok cd [] ed ed1" by blast
  then obtain ed2 where e2: "stop_monitor ed1 = Ok ed2" "cstep_ok cd [] ed1 ed2"
    using stop_monitor_ok [of cd ed1] by (auto simp: cstep_ok_def)
  have i2: "cd_inv cd ed2" "disp_inv cd ed2" using e2(2) by (simp_all add: cstep_ok_def cd_inv_def)
  have "wp (HandleStopEvent (StopEvent rq) ed2) (cstep_ok cd [] ed2)"
    by (rule wp_mono [OF HandleStopEvent_step [OF i2(2)] step_ok_cstep [OF i2(1)]]) (simp_all add: cfresh_def)
  then have "wp (HandleStopEvent (StopEvent rq) ed2) (cstep_ok cd N ed)"
    by (rule wp_mono) (rule cstep_ok_weaken, rule cstep_ok_trans_nil [OF e1(2)], rule cstep_ok_trans_nil [OF e2(2)])
  then show ?thesis using e1(1) e2(1) by (simp add: client_HandleStopEvent_def)
qed

lemma handleSeekEvent_step:
  "cd_inv cd ed \<Longrightarrow> wp (handleSeekEvent env (SeekEvent rq) ed) (cstep_ok cd N ed)"
  by (simp add: handleSeekEvent_def split: option.split)

lemma disconnectedEventFromStatus_eq:
  "\<exists>err. disconnectedEventFromStatus env status = DisconnectedEvent err \<and> de_fatal err = (status = ce_FORBIDDEN env)"
  by (simp add: disconnectedEventFromStatus_def NewFatalDisconnectedEvent_def NewDisconnectedEvent_def Let_def)

lemma handleDeliverResponseStatus_step:
  assumes "cd_inv cd ed"
  shows "wp (handleDeliverResponseStatus env status ed) (cstep_ok cd N ed)"
proof (cases "status = ce_SUCCESS env")
  case True
  then show ?thesis using assms by (simp add: handleDeliverResponseStatus_def)
next
  case False
  obtain err where err: "disconnectedEventFromStatus env status = DisconnectedEvent err"
    using disconnectedEventFromStatus_eq by blast
  let ?ed1 = "snd (disconnect_body ed)"
  have st: "cstep_ok cd [] ed ?ed1" by (rule disconnect_body_step [OF assms])
  then have "cd_inv cd ?ed1" by (simp add: cstep_ok_def)
  then have "wp (HandleDisconnectedEvent (DisconnectedEvent err) ?ed1) (cstep_ok cd N ed)"
    by (rule wp_mono [OF twp_wp [OF HandleDisconnectedEvent_twp]])
      (auto intro: cstep_ok_weaken cstep_ok_trans_nil [OF st])
  then show ?thesis using False err
    by (cases "disconnect_body ed") (simp add: handleDeliverResponseStatus_def)
qed

lemma handleEvent_step:
  assumes "cd_inv (rt_codec rt) ed" "cevent_ok (rt_codec rt) (DeliverEvent resp url)"
  shows "wp (handleEvent rt env (DeliverEvent resp url) ed) (cstep_ok (rt_codec rt) [] ed)"
proof -
  have base: "disp_inv (rt_codec rt) ed" using assms by (simp add: cd_inv_def)
  have c: "step_ok (rt_codec rt) [] ed ed' \<Longrightarrow> cstep_ok (rt_codec rt) [] ed ed'" for ed'
    by (rule step_ok_cstep [OF assms(1)]) (simp_all add: cfresh_def)
  show ?thesis
  proof (cases resp)
    case (DR_Block b)
    then have "wp (HandleBlock rt b url ed) (step_ok (rt_codec rt) [] ed)"
      using HandleBlock_step [OF base] assms(2) by simp
    then show ?thesis using DR_Block c by (simp add: handleEvent_def) (erule wp_mono)
  next
    case (DR_FilteredBlock fb)
    have "wp (HandleFilteredBlock fb url ed) (step_ok (rt_codec rt) [] ed)"
      using HandleFilteredBlock_step [OF base] by simp
    then show ?thesis using DR_FilteredBlock c by (simp add: handleEvent_def) (erule wp_mono)
  qed (use assms handleDeliverResponseStatus_step in \<open>simp_all add: handleEvent_def\<close>)
qed

section \<open>The deliver dispatcher's loop\<close>

fun client_type :: "hname \<Rightarrow> evtype option" where
  "client_type H_clientStop = Some T_Stop"
| "client_type H_connect = Some T_Connect"
| "client_type H_disconnect = Some T_Disconnect"
| "client_type H_connected = Some T_Connected"
| "client_type H_disconnected = Some T_Disconnected"
| "client_type H_registerConnection = Some T_RegisterConnection"
| "client_type H_seek = Some T_Seek"
| "client_type H_deliver = Some T_Deliver"
| "client_type h = base_type h"

definition handlers_deliver :: "cdisp \<Rightarrow> bool" where
  "handlers_deliver ed \<longleftrightarrow> (\<forall>t h. handlers ed t = Some h \<longrightarrow> client_type h = Some t)"

lemma run_base_step:
  assumes "base_type h = Some (TypeOf e)" "cd_inv (rt_codec rt) ed" "cfresh (cnew_chans e) ed"
    "cevent_ok (rt_codec rt) e"
  shows "wp (run_handler rt h e ed) (cstep_ok (rt_codec rt) (cnew_chans e) ed)"
proof -
  have e: "cnew_chans e = new_chans e" "event_ok (rt_codec rt) e"
    using assms(1,4) by (cases e; cases h; simp)+
  have "wp (run_handler rt h e ed) (step_ok (rt_codec rt) (new_chans e) ed)"
    using assms e by (intro run_handler_step) (auto simp: cd_inv_def fresh_chans_def cfresh_def all_chans_def)
  then show ?thesis unfolding e(1)
    by (rule wp_mono) (use step_ok_cstep [OF assms(2,3)] e(1) in simp)
qed

lemma run_deliver_step:
  assumes "client_type h = Some (TypeOf e)" "cd_inv (rt_codec rt) ed" "cfresh (cnew_chans e) ed"
    "cevent_ok (rt_codec rt) e"
  shows "wp (run_deliver rt env h e ed) (cstep_ok (rt_codec rt) (cnew_chans e) ed)"
proof (cases "base_type h")
  case (Some t)
  then have "run_deliver rt env h e ed = run_handler rt h e ed" "base_type h = Some (TypeOf e)"
    using assms(1) by (cases h; simp add: run_deliver_def)+
  then show ?thesis using run_base_step assms by simp
next
  case None
  note hs = client_HandleStopEvent_step HandleConnectEvent_step HandleDisconnectEvent_step
    HandleConnectedEvent_step handleSeekEvent_step handleEvent_step
    HandleRegisterConnectionEvent_step
  have d: "wp (HandleDisconnectedEvent (DisconnectedEvent err) ed) (cstep_ok (rt_codec rt) [] ed)" for err
    by (rule wp_mono [OF twp_wp [OF HandleDisconnectedEvent_twp [OF assms(2)]]]) simp
  show ?thesis
    using None assms by (cases h; cases e) (simp_all add: run_deliver_def hs d del: cnew_chans.simps(1))
qed

lemma dispatch_deliver_step:
  assumes "handlers_deliver ed" "cd_inv (rt_codec rt) ed" "cfresh (cnew_chans e) ed" "cevent_ok (rt_codec rt) e"
  shows "wp (dispatch (run_deliver rt env) e ed) (cstep_ok (rt_codec rt) (cnew_chans e) ed)"
  using assms by (cases "handlers ed (TypeOf e)") (auto simp: dispatch_def handlers_deliver_def intro: run_deliver_step)

definition cevents_chans :: "(cenv \<times> event) list \<Rightarrow> chid list" where
  "cevents_chans es = concat (map (cnew_chans \<circ> snd) es)"

lemma cfresh_step:
  assumes "cfresh (M @ N) ed" "cstep_ok cd M ed ed'"
  shows "cfresh N ed'"
proof -
  have "open_in (chans ed') c" if "c \<in> set N" for c
    using assms that by (auto simp: cfresh_def cstep_ok_def open_in_def)
  then show ?thesis using assms by (auto simp: cfresh_def cstep_ok_def)
qed

interpretation deliver_event_loop: event_loop
  "\<lambda>(env, e) ed. dispatch (run_deliver rt env) e ed" "\<lambda>ed. d_state ed = StateStopped"
  "\<lambda>ed. cd_inv (rt_codec rt) ed \<and> handlers_deliver ed"
  "\<lambda>es ed. cfresh (cevents_chans es) ed" "\<lambda>(env, e). cevent_ok (rt_codec rt) e" for rt
proof
  fix ed p es
  assume a: "cd_inv (rt_codec rt) ed \<and> handlers_deliver ed" "cfresh (cevents_chans (p # es)) ed"
    "(\<lambda>(env, e). cevent_ok (rt_codec rt) e) p"
  obtain env e where p: "p = (env, e)" by (cases p)
  then have f: "cfresh (cnew_chans e @ cevents_chans es) ed" using a(2) by (simp add: cevents_chans_def)
  then have "cfresh (cnew_chans e) ed" by (auto simp: cfresh_def)
  then have "wp (dispatch (run_deliver rt env) e ed) (cstep_ok (rt_codec rt) (cnew_chans e) ed)"
    using a p by (intro dispatch_deliver_step) auto
  then have "wp (dispatch (run_deliver rt env) e ed)
      (\<lambda>s'. (cd_inv (rt_codec rt) s' \<and> handlers_deliver s') \<and> cfresh (cevents_chans es) s')"
    by (rule wp_mono) (use a cfresh_step [OF f] in \<open>auto simp: cstep_ok_def handlers_deliver_def\<close>)
  then show "wp ((\<lambda>(env, e) ed. dispatch (run_deliver rt env) e ed) p ed)
      (\<lambda>s'. (cd_inv (rt_codec rt) s' \<and> handlers_deliver s') \<and> cfresh (cevents_chans es) s')"
    by (simp add: p)
qed

lemma deliver_loop_gloop:
  "deliver_loop rt es ed = gloop (\<lambda>ed. d_state ed = StateStopped)
     (\<lambda>(env, e) ed. dispatch (run_deliver rt env) e ed) es ed"
proof (induction es arbitrary: ed)
  case (Cons p es)
  have "deliver_loop rt es = gloop (\<lambda>ed. d_state ed = StateStopped)
     (\<lambda>(env, e) ed. dispatch (run_deliver rt env) e ed) es" using Cons.IH by blast
  then show ?case by (cases p) simp
qed simp

end
