(* ===== verification/Client_Properties.thy ===== *)
theory Client_Properties
  imports Client_Theorems
begin

text \<open>
  Properties of the client and deliver dispatchers.
\<close>

section \<open>Start\<close>

lemma RegisterHandler_deliver:
  "handlers_deliver ed \<Longrightarrow> client_type h = Some t \<Longrightarrow> handlers_deliver (RegisterHandler t h ed)"
  by (auto simp: handlers_deliver_def RegisterHandler_def split: option.split)

lemma RegisterHandler_same:
  "RegisterHandler t h ed = ed\<lparr>handlers := handlers (RegisterHandler t h ed)\<rparr>"
  by (cases ed) (simp add: RegisterHandler_def split: option.split)

lemma registerHandlers_deliver:
  "handlers_deliver ed \<Longrightarrow> handlers_deliver (deliver_registerHandlers ed)"
  "handlers_deliver ed \<Longrightarrow> handlers_deliver (client_registerHandlers ed)"
  "handlers_deliver ed \<Longrightarrow> handlers_deliver (RegisterHandlers ed)"
  by (simp_all add: deliver_registerHandlers_def client_registerHandlers_def RegisterHandlers_def RegisterHandler_deliver)

lemma fold_RegisterHandler_same:
  "\<exists>hs. fold (\<lambda>(t, h). RegisterHandler t h) ths ed = ed\<lparr>handlers := hs\<rparr>"
proof (induction ths arbitrary: ed)
  case Nil
  show ?case by (intro exI [of _ "handlers ed"]) simp
next
  case (Cons p ths)
  obtain hs where "fold (\<lambda>(t, h). RegisterHandler t h) ths (RegisterHandler (fst p) (snd p) ed)
      = (RegisterHandler (fst p) (snd p) ed)\<lparr>handlers := hs\<rparr>" using Cons.IH by blast
  moreover have "\<dots> = ed\<lparr>handlers := hs\<rparr>" by (subst RegisterHandler_same) simp
  ultimately show ?case by (cases p) auto
qed

definition no_initial :: "params \<Rightarrow> bool" where
  "no_initial p \<longleftrightarrow> initialBlockRegistrations p = [] \<and> initialFilteredBlockRegistrations p = []
    \<and> initialCCRegistrations p = [] \<and> initialTxStatusRegistrations p = []"

lemma deliver_Start_ok:
  assumes "no_initial p"
  shows "\<exists>ed. deliver_Start (cdispatcher_New period p h) = (None, ed) \<and> cd_inv cd ed \<and> handlers_deliver ed
    \<and> d_state ed = StateStarted \<and> all_chans ed = [] \<and> chans ed = h"
proof -
  let ?n = "cdispatcher_New period p h"
  have n: "handlers_deliver ?n" "d_state ?n = StateInitial" "d_params ?n = p"
    by (simp_all add: cdispatcher_New_def dispatcher_New_def disp.defs handlers_deliver_def)
  let ?c = "client_registerHandlers (deliver_registerHandlers ?n)"
  obtain hs where hs: "?c = ?n\<lparr>handlers := hs\<rparr>"
    using fold_RegisterHandler_same unfolding client_registerHandlers_def deliver_registerHandlers_def
    by (metis (no_types, lifting) disp.update_convs(7) disp.surjective)
  have hc: "handlers_deliver ?c" using n(1) registerHandlers_deliver by blast
  let ?s = "?c\<lparr>d_state := StateStarted\<rparr>"
  have "handlers_deliver ?s" using hc by (simp add: handlers_deliver_def)
  then have hr: "handlers_deliver (RegisterHandlers ?s)" by (rule registerHandlers_deliver(3))
  obtain hs2 where hs2: "RegisterHandlers ?s = ?s\<lparr>handlers := hs2\<rparr>"
    using fold_RegisterHandler_same unfolding RegisterHandlers_def by blast
  let ?m = "if initialLastBlockNum p > 0 then initialLastBlockNum p else MaxUint64"
  let ?ed = "?n\<lparr>handlers := hs2, d_state := StateStarted, lastBlockNum := ?m\<rparr>"
  have "Start ?c = (None, ?ed)"
    using assms n hs hs2
    by (simp add: Start_def setState_def initRegistrations_def no_initial_def updateLastBlockNum_def
        cdispatcher_New_def dispatcher_New_def disp.defs)
  then have "deliver_Start ?n = (None, ?ed)" by (simp add: deliver_Start_def client_Start_def)
  moreover have "cd_inv cd ?ed"
    by (simp add: cd_defs disp_inv_def reg_chans_def regexps_compiled_def al_keys_def
        cdispatcher_New_def dispatcher_New_def disp.defs)
  moreover have "handlers_deliver ?ed" using hr hs2 by (simp add: handlers_deliver_def)
  ultimately show ?thesis
    by (intro exI [of _ ?ed])
      (simp add: all_chans_def cchan_def reg_chans_def cdispatcher_New_def dispatcher_New_def disp.defs)
qed

text \<open>
  C35: A deliver dispatcher that is started without initial registrations never panics, whatever its
  environment answers and whatever events arrive, as long as new registrations bring new channels
  and the blocks decode. At every point the channels of all listeners are open and distinct, and
  every connection that was ever opened has been closed exactly once, except for the current one.
\<close>

theorem deliver_run_safe:
  assumes "no_initial p" "distinct (cevents_chans es)" "\<forall>c \<in> set (cevents_chans es). open_in h c"
    and "\<forall>(env, e) \<in> set es. cevent_ok (rt_codec rt) e"
  shows "wp (deliver_loop rt es (snd (deliver_Start (cdispatcher_New period p h))))
    (\<lambda>ed. disp_inv (rt_codec rt) ed \<and> creg_ok ed
      \<and> mset (conns_opened ed) = mset (conns_closed ed) + mset_set (set_option (cd_connection ed)))"
proof -
  obtain ed where ed: "deliver_Start (cdispatcher_New period p h) = (None, ed)" "cd_inv (rt_codec rt) ed"
    "handlers_deliver ed" "all_chans ed = []" "chans ed = h"
    using deliver_Start_ok [OF assms(1)] by blast
  have "wp (gloop (\<lambda>ed. d_state ed = StateStopped) (\<lambda>(env, e) ed. dispatch (run_deliver rt env) e ed) es ed)
      (\<lambda>ed. cd_inv (rt_codec rt) ed \<and> handlers_deliver ed)"
    by (rule deliver_event_loop.loop_safe) (use ed assms in \<open>auto simp: cfresh_def list_all_iff\<close>)
  then show ?thesis
    using ed(1) by (simp add: deliver_loop_gloop) (erule wp_mono, simp add: cd_inv_def conns_ok_def)
qed

definition ex_env0 :: cenv where
  "ex_env0 = \<lparr>ce_GetPeers = Inr [mkPeer 1 ''peer1'' ''Org1'' None], ce_Resolve = \<lambda>ps. Inr (Some (hd ps)),
    ce_ShouldDisconnect = \<lambda>ps p. False, ce_connectionProvider = \<lambda>p. Inr 7, ce_Send = \<lambda>c. None,
    ce_channelID = ''ch'', ce_SUCCESS = 200, ce_FORBIDDEN = 403, ce_statusText = \<lambda>i. ''FORBIDDEN''\<rparr>"

definition ex_rt :: runtime where
  "ex_rt = \<lparr>rt_codec = undefined, rt_regexp = \<lambda>s. Inl (errorNew ''none'')\<rparr>"

definition open_heap :: "evmsg heap" where
  "open_heap = (\<lambda>i. \<lparr>ch_cap = 5, ch_buf = [], ch_got = [], ch_closed = False, ch_recv = Slow\<rparr>)"

definition ex_events :: "(cenv \<times> event) list" where
  "ex_events = [(ex_env0, ConnectEvent 1), (ex_env0, RegisterConnectionEvent 2 \<lparr>creg_Eventch = Some 3\<rparr>),
     (ex_env0, ConnectedEvent), (ex_env0, DeliverEvent (DR_Status 403) ''peer1''), (ex_env0, StopEvent 4)]"

lemma no_initial_default: "no_initial defaultParams"
  by (simp add: no_initial_def defaultParams_def)

theorem deliver_run_safe_witness:
  "wp (deliver_loop ex_rt ex_events (snd (deliver_Start (cdispatcher_New 1 defaultParams open_heap))))
    (\<lambda>ed. creg_ok ed)"
  by (rule wp_mono [OF deliver_run_safe [OF no_initial_default]])
    (simp_all add: ex_events_def cevents_chans_def open_heap_def open_in_def)

section \<open>Connecting\<close>

text \<open>
  Every connect request is answered exactly once. It succeeds at once on an existing connection;
  otherwise it succeeds only by connecting to the peer that the resolver chose among the discovered
  peers, which then is the connected peer, and an error leaves the client unconnected.
\<close>

theorem connect_contract:
  "\<exists>ans ed'. HandleConnectEvent env (ConnectEvent rq) ed = Ok ed'
    \<and> resps ed' = resps ed @ [(rq, RespErr ans)]
    \<and> (ans = None \<longrightarrow> cd_connection ed' \<noteq> None)
    \<and> (ans \<noteq> None \<longrightarrow> cd_connection ed' = None \<and> conns_opened ed' = conns_opened ed \<and> cd_peer ed' = cd_peer ed)
    \<and> (cd_connection ed \<noteq> None \<longrightarrow> ans = None \<and> conns_opened ed' = conns_opened ed)
    \<and> (cd_connection ed = None \<and> ans = None \<longrightarrow> (\<exists>peers p c. ce_GetPeers env = Inr peers \<and> peers \<noteq> []
         \<and> ce_Resolve env peers = Inr p \<and> ce_connectionProvider env p = Inr c
         \<and> cd_connection ed' = Some c \<and> ConnectedPeer ed' = p))"
  by (auto simp: HandleConnectEvent_def setConnectedPeer_def ConnectedPeer_def reply_def
      split: option.splits sum.splits)

theorem connect_contract_witness:
  "\<exists>ed'. HandleConnectEvent ex_env0 (ConnectEvent 1) ((cdispatcher_New 1 defaultParams open_heap)\<lparr>d_state := StateStarted\<rparr>) = Ok ed'
    \<and> cd_connection ed' = Some 7 \<and> ConnectedPeer ed' = Some (mkPeer 1 ''peer1'' ''Org1'' None)"
proof -
  let ?ed = "(cdispatcher_New 1 defaultParams open_heap)\<lparr>d_state := StateStarted\<rparr>"
  have "cd_connection ?ed = None" "EventCh ?ed = Inr ()"
    by (simp_all add: cdispatcher_New_def dispatcher_New_def disp.defs EventCh_def)
  moreover from this have "\<exists>ed'. HandleConnectEvent ex_env0 (ConnectEvent 1) ?ed = Ok ed'
      \<and> resps ed' = resps ?ed @ [(1, RespErr None)]"
    by (simp add: HandleConnectEvent_def ex_env0_def reply_def setConnectedPeer_def)
  ultimately show ?thesis using connect_contract [of ex_env0 1 ?ed] by (auto simp: ex_env0_def)
qed

section \<open>Disconnecting\<close>

text \<open>
  A deliver response with any status but success disconnects: the connection, if there is one,
  is closed and forgotten together with its peer, the monitor is stopped, and the connection
  listener is sent one disconnected event if it can take it, which is fatal exactly for the status
  forbidden.
\<close>

theorem error_status_disconnects:
  assumes "cd_inv (rt_codec rt) ed" "status \<noteq> ce_SUCCESS env"
  shows "\<exists>err ed'. handleEvent rt env (DeliverEvent (DR_Status status) url) ed = Ok ed'
    \<and> cd_inv (rt_codec rt) ed' \<and> cd_connection ed' = None \<and> cd_peerMonitorDone ed' = None
    \<and> (cd_connection ed \<noteq> None \<longrightarrow> ConnectedPeer ed' = None)
    \<and> (de_fatal err \<longleftrightarrow> status = ce_FORBIDDEN env)
    \<and> (\<forall>c \<in> set (cchan ed). can_take (- 1) (chans ed c) \<longrightarrow>
         ch_sent (chans ed' c) = ch_sent (chans ed c) @ [MConn False (Some err)])"
proof -
  obtain err where err: "disconnectedEventFromStatus env status = DisconnectedEvent err"
    "de_fatal err = (status = ce_FORBIDDEN env)" using disconnectedEventFromStatus_eq by blast
  let ?ed1 = "snd (disconnect_body ed)"
  have inv1: "cd_inv (rt_codec rt) ?ed1"
    using disconnect_body_step [OF assms(1), of "[]"] by (simp add: cstep_ok_def)
  have f: "cchan ?ed1 = cchan ed" "chans ?ed1 = chans ed" "cd_connection ed \<noteq> None \<longrightarrow> cd_peer ?ed1 = None"
    by (auto simp: disconnect_body_def setConnectedPeer_def close_connection_def cchan_def split: option.split)
  obtain ed' where h: "HandleDisconnectedEvent (DisconnectedEvent err) ?ed1 = Ok ed'"
    "cstep_ok (rt_codec rt) [] ?ed1 ed'" "cd_connection ed' = None" "cd_peerMonitorDone ed' = None"
    "cd_peer ed' = cd_peer ?ed1"
    "\<forall>c \<in> set (cchan ?ed1). chans ed' c = chans ?ed1 c \<and> \<not> can_take (- 1) (chans ?ed1 c)
         \<or> ch_sent (chans ed' c) = ch_sent (chans ?ed1 c) @ [MConn False (Some err)]"
    using HandleDisconnectedEvent_twp [OF inv1, of err]
    by (cases "HandleDisconnectedEvent (DisconnectedEvent err) ?ed1") auto
  have "handleEvent rt env (DeliverEvent (DR_Status status) url) ed = Ok ed'"
    using assms(2) err(1) h(1)
    by (cases "disconnect_body ed") (simp add: handleEvent_def handleDeliverResponseStatus_def)
  then show ?thesis
    using h(2-6) f err(2) by (intro exI [of _ err] exI [of _ ed']) (auto simp: cstep_ok_def ConnectedPeer_def)
qed

definition ex_cdisp :: cdisp where
  "ex_cdisp = (cdispatcher_New 1 defaultParams open_heap)\<lparr>cd_connection := Some 7, conns_opened := [7],
     cd_peer := Some (mkPeer 1 ''peer1'' ''Org1'' None), cd_connectionRegistration := Some \<lparr>creg_Eventch = Some 3\<rparr>\<rparr>"

lemma ex_cdisp_inv: "cd_inv cd ex_cdisp"
  by (simp add: cd_defs ex_cdisp_def cdispatcher_New_def dispatcher_New_def disp.defs disp_inv_def
      reg_chans_def regexps_compiled_def al_keys_def open_heap_def open_in_def)

theorem error_status_disconnects_witness:
  "\<exists>ed' (err :: disconnectedError). handleEvent ex_rt ex_env0 (DeliverEvent (DR_Status 403) ''peer1'') ex_cdisp = Ok ed'
    \<and> cd_connection ed' = None \<and> de_fatal err"
proof -
  have ne: "(403::int) \<noteq> ce_SUCCESS ex_env0" and eq: "403 = ce_FORBIDDEN ex_env0"
    by (simp_all add: ex_env0_def)
  obtain err :: disconnectedError and ed' where a: "handleEvent ex_rt ex_env0 (DeliverEvent (DR_Status 403) ''peer1'') ex_cdisp = Ok ed'"
    "cd_connection ed' = None" "de_fatal err \<longleftrightarrow> 403 = ce_FORBIDDEN ex_env0"
    using error_status_disconnects [OF ex_cdisp_inv ne, of ex_rt "''peer1''"] by (elim exE conjE) (rule that)
  show ?thesis by (intro exI [of _ ed'] exI [of _ err]) (use a eq in simp)
qed

text \<open>
  A disconnected event leaves no connection and no monitor, but unlike a disconnect request it
  does not forget the connected peer: \<open>ConnectedPeer\<close> still names the peer of the closed connection.
\<close>

theorem disconnected_event_keeps_peer:
  assumes "cd_inv cd ed"
  shows "\<exists>ed'. HandleDisconnectedEvent (DisconnectedEvent err) ed = Ok ed'
    \<and> cd_connection ed' = None \<and> cd_peerMonitorDone ed' = None \<and> ConnectedPeer ed' = ConnectedPeer ed"
  using HandleDisconnectedEvent_twp [OF assms, of err]
  by (cases "HandleDisconnectedEvent (DisconnectedEvent err) ed") (auto simp: ConnectedPeer_def)

theorem disconnected_event_keeps_peer_witness:
  "\<exists>ed'. HandleDisconnectedEvent (DisconnectedEvent \<lparr>de_cause = errorNew ''EOF'', de_fatal = False\<rparr>) ex_cdisp = Ok ed'
    \<and> cd_connection ed' = None \<and> ConnectedPeer ed' = Some (mkPeer 1 ''peer1'' ''Org1'' None)"
proof -
  have "ConnectedPeer ex_cdisp = Some (mkPeer 1 ''peer1'' ''Org1'' None)"
    by (simp add: ConnectedPeer_def ex_cdisp_def)
  then show ?thesis
    using disconnected_event_keeps_peer [OF ex_cdisp_inv, of "\<lparr>de_cause = errorNew ''EOF'', de_fatal = False\<rparr>"]
    by metis
qed

text \<open>
  A seek request is answered with the result of sending it when there is a connection, and
  never answered when there is none: its sender waits until it times out.
\<close>

theorem seek_answered_iff_connected:
  "\<exists>ed'. handleSeekEvent env (SeekEvent rq) ed = Ok ed'
    \<and> resps ed' = resps ed @ (case cd_connection ed of
         None \<Rightarrow> []
       | Some c \<Rightarrow> [(rq, RespErr (map_option (\<lambda>err. WithMsg err
           ''error sending seek info for channel [%s]'' [FS (ce_channelID env)]) (ce_Send env c)))])"
  by (auto simp: handleSeekEvent_def reply_def split: option.split)

section \<open>The peer monitor\<close>

text \<open>
  The handlers that run when a connection breaks before the connected event of the connect is
  handled, and the client then reconnects and is stopped.
\<close>

definition broken_connect :: "cenv \<Rightarrow> disconnectedError \<Rightarrow> cdisp \<Rightarrow> cdisp outcome" where
  "broken_connect env err ed =
     obind (HandleConnectEvent env (ConnectEvent 1) ed) (\<lambda>ed.
     obind (HandleDisconnectedEvent (DisconnectedEvent err) ed) (\<lambda>ed.
     obind (HandleConnectedEvent ConnectedEvent ed) (\<lambda>ed.
     obind (HandleConnectEvent env (ConnectEvent 2) ed) (\<lambda>ed.
     obind (HandleConnectedEvent ConnectedEvent ed)
       (client_HandleStopEvent (StopEvent 3))))))"

lemma HandleStopEvent_more:
  assumes "disp_inv cd ed"
  shows "twp (HandleStopEvent (StopEvent rq) ed) (\<lambda>ed'. disp.more ed' = disp.more ed)"
  using assms by (simp add: HandleStopEvent_def setState_def clearRegistrations_True)

text \<open>
  A monitor can leak. If the connection breaks before the connected event of the first
  connect is handled, that event still starts a monitor, and the connected event of the reconnect
  replaces its \<open>done\<close> channel: two monitors have been started, and stopping the client stops only
  the second.
\<close>

theorem monitor_leaks:
  assumes "disp_inv cd ed" "d_state ed = StateStarted" "cd_connection ed = None"
    "cd_connectionRegistration ed = None" "cd_peerMonitorDone ed = None" "cd_peerMonitorPeriod ed > 0"
    "monitors ed = []" "done_closed ed = []"
    and "ce_GetPeers env = Inr peers" "peers \<noteq> []" "ce_Resolve env peers = Inr p" "ce_connectionProvider env p = Inr c"
  shows "\<exists>ed'. broken_connect env err ed = Ok ed' \<and> monitors ed' = [0, 1] \<and> done_closed ed' = [1]"
proof -
  let ?ed = "reply 2 (RespErr None) (reply 1 (RespErr None) ed)\<lparr>cd_peer := p, cd_connection := Some c,
    conns_opened := conns_opened ed @ [c, c], conns_closed := conns_closed ed @ [c],
    monitors := [0, 1], done_closed := [1], cd_peerMonitorDone := None\<rparr>"
  have "broken_connect env err ed = HandleStopEvent (StopEvent 3) ?ed"
    using assms
    by (cases ed) (simp add: broken_connect_def HandleConnectEvent_def EventCh_def setConnectedPeer_def
      HandleDisconnectedEvent_def close_connection_def notify_connection_def stop_monitor_def
      HandleConnectedEvent_def Let_def client_HandleStopEvent_def clearConnectionRegistration_def reply_def)
  moreover have "disp_inv cd ?ed" using assms(1) by simp
  then obtain ed' where ed': "HandleStopEvent (StopEvent 3) ?ed = Ok ed'" "disp.more ed' = disp.more ?ed"
    using HandleStopEvent_more [of cd ?ed 3] by (cases "HandleStopEvent (StopEvent 3) ?ed") simp_all
  have "monitors ed' = monitors ?ed" "done_closed ed' = done_closed ?ed"
    by (rule more_fields [OF ed'(2)])+
  ultimately show ?thesis using ed'(1) by (intro exI [of _ ed']) simp
qed

theorem monitor_leaks_witness:
  "\<exists>ed'. broken_connect ex_env0 \<lparr>de_cause = errorNew ''EOF'', de_fatal = False\<rparr>
      ((cdispatcher_New 1 defaultParams open_heap)\<lparr>d_state := StateStarted\<rparr>) = Ok ed'
    \<and> monitors ed' = [0, 1] \<and> done_closed ed' = [1]"
  by (rule monitor_leaks [where cd = undefined and peers = "[mkPeer 1 ''peer1'' ''Org1'' None]"])
    (simp_all add: cdispatcher_New_def dispatcher_New_def disp.defs disp_inv_def reg_chans_def
      regexps_compiled_def al_keys_def ex_env0_def)

end
