(* ===== verification/Event_Client.thy ===== *)
theory Event_Client
  imports Event_Types
begin

text \<open>
  The event client (pkg/fab/events/client/client.go): its connection state, connecting with and
  without retries, closing, and the reaction to connection events. The operations run in several
  goroutines and meet at the atomic connection state; each one is modelled as a function of the
  client that also takes the answers it gets from the dispatcher, and of \<open>ac_interfere\<close>, the change
  that the other goroutines make to the client while it waits for its \<open>n\<close>-th answer. Requests
  that the client submits are recorded in \<open>c_submitted\<close>.
\<close>

section \<open>State\<close>

datatype ConnectionState = Disconnected | Connecting | Connected

primrec ConnectionState_String :: "ConnectionState \<Rightarrow> string" where
  "ConnectionState_String Disconnected = ''Disconnected''"
| "ConnectionState_String Connecting = ''Connecting''"
| "ConnectionState_String Connected = ''Connected''"

datatype request =
  SubConnect | SubDisconnect | SubRegisterConnection | SubConnected | SubRegistrationInfo

text \<open>
  \<open>c_connEvent\<close> is the channel of the connection listener (\<open>None\<close> for nil), \<open>c_monitors\<close> the number
  of monitors started, \<open>c_subscriber\<close> the channel \<open>connEventCh\<close> of the options, if there is one, with
  whether it has been closed, and \<open>c_notified\<close> the events sent on it. \<open>c_stops\<close> counts the runs of
  the stop handler.
\<close>

record client =
  c_state :: ConnectionState
  c_stopped :: bool
  c_registered :: bool
  c_connEvent :: "chid option"
  c_monitors :: nat
  c_subscriber :: "bool option"
  c_notified :: "(bool \<times> disconnectedError option) list"
  c_submitted :: "request list"
  c_stops :: nat
  c_reconn :: bool
  c_maxConnAttempts :: nat
  c_maxReconnAttempts :: nat

text \<open>The answers that one call of \<open>connect\<close> meets; \<open>ac_text\<close> is the method \<open>Error\<close> of errors.\<close>

record connect_answers =
  ac_submitConnect :: "goerr option"
  ac_connect :: "goerr option"
  ac_submitRegister :: "goerr option"
  ac_register :: "chid res"
  ac_afterConnect :: "goerr option option"
  ac_submitDisconnect :: "goerr option"
  ac_submitConnected :: "goerr option"
  ac_interfere :: "nat \<Rightarrow> client \<Rightarrow> client"
  ac_text :: "goerr \<Rightarrow> string"

definition Stopped :: "client \<Rightarrow> bool" where
  "Stopped c = c_stopped c"

text \<open>The two compare-and-swaps and the store.\<close>

definition setStopped :: "client \<Rightarrow> bool \<times> client" where
  "setStopped c = (if c_stopped c then (False, c) else (True, c\<lparr>c_stopped := True\<rparr>))"

definition setConnectionState :: "ConnectionState \<Rightarrow> ConnectionState \<Rightarrow> client \<Rightarrow> bool \<times> client" where
  "setConnectionState old new c = (if c_state c = old then (True, c\<lparr>c_state := new\<rparr>) else (False, c))"

definition mustSetConnectionState :: "ConnectionState \<Rightarrow> client \<Rightarrow> client" where
  "mustSetConnectionState new c = c\<lparr>c_state := new\<rparr>"

definition submit :: "request \<Rightarrow> client \<Rightarrow> client" where
  "submit r c = c\<lparr>c_submitted := c_submitted c @ [r]\<rparr>"

section \<open>Connecting\<close>

text \<open>
  \<open>registerConnectionEvent\<close>; the pair of the results is the channel (nil with an error).
\<close>

definition registerConnectionEvent :: "connect_answers \<Rightarrow> client \<Rightarrow> chid res \<times> client" where
  "registerConnectionEvent a c =
     (if Stopped c then (Inl (errorNew ''event client is closed''), c)
      else (case ac_submitRegister a of
         Some err \<Rightarrow> (Inl err, submit SubRegisterConnection c)
       | None \<Rightarrow> (ac_register a, submit SubRegisterConnection c)))"

text \<open>
  The function that \<open>registerOnce\<close> runs. It tests \<open>err\<close>, the answer of the connect request, which is
  nil here, and not the error of the registration, so its branch that closes the client is dead.
\<close>

definition register_once :: "connect_answers \<Rightarrow> client \<Rightarrow> client" where
  "register_once a c =
     (if c_registered c then c
      else (case registerConnectionEvent a (c\<lparr>c_registered := True\<rparr>) of
         (r, c1) \<Rightarrow> c1\<lparr>c_connEvent := (case r of Inl err \<Rightarrow> None | Inr ch \<Rightarrow> Some ch),
                       c_monitors := c_monitors c1 + 1\<rparr>))"

text \<open>\<open>t\<close>: the handler that runs after connecting, and the disconnect when it fails.\<close>

definition after_connect :: "connect_answers \<Rightarrow> client \<Rightarrow> goerr option \<times> client" where
  "after_connect a c = (case ac_afterConnect a of
     None \<Rightarrow> (None, c)
   | Some None \<Rightarrow> (None, ac_interfere a 3 c)
   | Some (Some err) \<Rightarrow>
       (let c1 = ac_interfere a 4 (submit SubDisconnect (ac_interfere a 3 c))
        in (Some (withMessage err ''error invoking afterConnect handler''),
            snd (setConnectionState Connecting Disconnected c1))))"

definition connect :: "connect_answers \<Rightarrow> client \<Rightarrow> goerr option \<times> client" where
  "connect a c =
     (if Stopped c then (Some (errorNew ''event client is closed''), c)
      else (case setConnectionState Disconnected Connecting c of
        (False, c1) \<Rightarrow> (Some (ErrorF
            ''unable to connect event client since client is [%s]. Expecting client to be in state [%s]''
            [FS (ConnectionState_String (c_state c1)), FS (ConnectionState_String Disconnected)]), c1)
      | (True, c1) \<Rightarrow>
        (case ac_submitConnect a of
          Some e \<Rightarrow> (Some (ErrorF ''Submit failed %s'' [FS (ac_text a e)]), submit SubConnect c1)
        | None \<Rightarrow>
          (let c2 = ac_interfere a 1 (submit SubConnect c1)
           in case ac_connect a of
             Some err \<Rightarrow> (Some err, mustSetConnectionState Disconnected c2)
           | None \<Rightarrow>
             (let c3 = ac_interfere a 2 (register_once a c2)
              in case after_connect a c3 of
                (Some err, c4) \<Rightarrow> (Some err, c4)
              | (None, c4) \<Rightarrow>
                (None, submit SubConnected (snd (setConnectionState Connecting Connected c4))))))))"

text \<open>
  \<open>connectWithRetry\<close>: the answers of the attempts, and what other goroutines do while it sleeps, come
  from a function of the attempt number. The result is \<open>None\<close> if it never returns.
\<close>

partial_function (option) connect_loop ::
  "(nat \<Rightarrow> connect_answers) \<Rightarrow> (nat \<Rightarrow> client \<Rightarrow> client) \<Rightarrow> nat \<Rightarrow> nat \<Rightarrow> client \<Rightarrow> (goerr option \<times> client) option" where
  "connect_loop answers asleep maxAttempts attempts c =
    (if Stopped c then Some (Some (errorNew ''event client is closed''), c)
     else (case connect (answers (attempts + 1)) c of (err, c1) \<Rightarrow>
       (if err \<noteq> None then
          (if 0 < maxAttempts \<and> maxAttempts \<le> attempts + 1
           then Some (Some (errorNew ''maximum connect attempts exceeded''), c1)
           else connect_loop answers asleep maxAttempts (attempts + 1) (asleep (attempts + 1) c1))
        else Some (None, c1))))"

definition connectWithRetry ::
  "(nat \<Rightarrow> connect_answers) \<Rightarrow> (nat \<Rightarrow> client \<Rightarrow> client) \<Rightarrow> nat \<Rightarrow> client \<Rightarrow> (goerr option \<times> client) option" where
  "connectWithRetry answers asleep maxAttempts c =
    (if Stopped c then Some (Some (errorNew ''event client is closed''), c)
     else connect_loop answers asleep maxAttempts 0 c)"

definition Connect ::
  "(nat \<Rightarrow> connect_answers) \<Rightarrow> (nat \<Rightarrow> client \<Rightarrow> client) \<Rightarrow> client \<Rightarrow> (goerr option \<times> client) option" where
  "Connect answers asleep c =
    (if c_maxConnAttempts c = 1 then Some (connect (answers 1) c)
     else connectWithRetry answers asleep (c_maxConnAttempts c) c)"

section \<open>Closing\<close>

text \<open>\<open>closeConnectEventChan\<close>: closing a closed channel panics.\<close>

definition closeConnectEventChan :: "client \<Rightarrow> client outcome" where
  "closeConnectEventChan c = (case c_subscriber c of
     None \<Rightarrow> Ok c
   | Some closed \<Rightarrow> if closed then Panic else Ok (c\<lparr>c_subscriber := Some True\<rparr>))"

definition client_close :: "goerr option \<Rightarrow> client \<Rightarrow> client outcome" where
  "client_close submitDisconnect c = (case setStopped c of
     (False, c1) \<Rightarrow> Ok c1
   | (True, c1) \<Rightarrow> obind (closeConnectEventChan c1) (\<lambda>c2.
       (let c3 = submit SubDisconnect c2
        in case submitDisconnect of
          Some err \<Rightarrow> Ok c3
        | None \<Rightarrow> Ok (mustSetConnectionState Disconnected (c3\<lparr>c_stops := c_stops c3 + 1\<rparr>)))))"

text \<open>\<open>CloseIfIdle\<close>: the answer is the number of registrations, or the error of the request.\<close>

definition CloseIfIdle :: "nat res \<Rightarrow> goerr option \<Rightarrow> client \<Rightarrow> (bool \<times> client) outcome" where
  "CloseIfIdle regInfo submitDisconnect c =
    (let c1 = submit SubRegistrationInfo c
     in case regInfo of
       Inl err \<Rightarrow> Ok (False, c1)
     | Inr n \<Rightarrow> if n > 0 then Ok (False, c1)
         else obind (client_close submitDisconnect c1) (\<lambda>c2. Ok (True, c2)))"

section \<open>Connection events\<close>

definition notifyConnectEventChan :: "bool \<times> disconnectedError option \<Rightarrow> client \<Rightarrow> client outcome" where
  "notifyConnectEventChan ev c = (case c_subscriber c of
     None \<Rightarrow> Ok c
   | Some closed \<Rightarrow> if closed then Panic else Ok (c\<lparr>c_notified := c_notified c @ [ev]\<rparr>))"

text \<open>
  What the monitor does after an event: go on, start a reconnect and go on, or end, with or without
  a call of \<open>Close\<close>. Between its test of \<open>Stopped\<close> and the notification, and before the next event,
  other goroutines may run: the first is \<open>between\<close>.
\<close>

datatype monitor_action = MContinue | MReconnect | MClose | MStop

definition monitor_event :: "(client \<Rightarrow> client) \<Rightarrow> bool \<Rightarrow> disconnectedError option \<Rightarrow> client
    \<Rightarrow> (monitor_action \<times> client) outcome" where
  "monitor_event between connected err c =
    (if Stopped c then Ok (MStop, c)
     else obind (notifyConnectEventChan (connected, err) (between c)) (\<lambda>c1.
       if connected then Ok (MContinue, c1)
       else if c_reconn c1 then
         (case setConnectionState Connected Disconnected c1 of
            (True, c2) \<Rightarrow> (case err of
                None \<Rightarrow> Panic
              | Some e \<Rightarrow> if de_fatal e then Ok (MClose, c2) else Ok (MReconnect, c2))
          | (False, c2) \<Rightarrow> Ok (MContinue, snd (setConnectionState Connecting Disconnected c2)))
       else Ok (MClose, c1)))"

text \<open>\<open>reconnect\<close>, started by \<open>MReconnect\<close>; the handler that runs before it may forbid it.\<close>

definition reconnect ::
  "goerr option option \<Rightarrow> (nat \<Rightarrow> connect_answers) \<Rightarrow> (nat \<Rightarrow> client \<Rightarrow> client) \<Rightarrow> goerr option \<Rightarrow> client
     \<Rightarrow> client outcome option" where
  "reconnect beforeReconnect answers asleep submitDisconnect c =
    (case beforeReconnect of
       Some (Some err) \<Rightarrow> Some (Ok c)
     | _ \<Rightarrow> (case connectWithRetry answers asleep (c_maxReconnAttempts c) c of
          None \<Rightarrow> None
        | Some (Some err, c1) \<Rightarrow> Some (if Stopped c1 then Ok c1 else client_close submitDisconnect c1)
        | Some (None, c1) \<Rightarrow> Some (Ok c1)))"

section \<open>Properties\<close>

definition no_interference :: "connect_answers \<Rightarrow> bool" where
  "no_interference a \<longleftrightarrow> ac_interfere a = (\<lambda>n c. c)"

text \<open>
  Left alone by other goroutines, a connect that succeeds leaves the client connected, one that
  the dispatcher or the handler after connecting refuses leaves it disconnected, so that it can
  be tried again, and one on a client in any other state changes nothing.
\<close>

theorem connect_state:
  assumes "no_interference a" "ac_submitConnect a = None" "connect a c = (err, c')"
  shows "(err = None \<longrightarrow> c_state c = Disconnected \<and> c_state c' = Connected)
    \<and> (err \<noteq> None \<and> c_state c = Disconnected \<longrightarrow> c_state c' = Disconnected)
    \<and> (c_state c \<noteq> Disconnected \<longrightarrow> err \<noteq> None \<and> c' = c)"
  using assms
  by (auto simp: connect_def setConnectionState_def submit_def mustSetConnectionState_def register_once_def
      registerConnectionEvent_def after_connect_def no_interference_def Let_def
      split: if_splits option.splits prod.splits)

definition ex_client :: client where
  "ex_client = \<lparr>c_state = Disconnected, c_stopped = False, c_registered = False, c_connEvent = None,
    c_monitors = 0, c_subscriber = Some False, c_notified = [], c_submitted = [], c_stops = 0,
    c_reconn = True, c_maxConnAttempts = 1, c_maxReconnAttempts = 0\<rparr>"

definition ex_answers :: connect_answers where
  "ex_answers = \<lparr>ac_submitConnect = None, ac_connect = None, ac_submitRegister = None, ac_register = Inr 5,
    ac_afterConnect = None, ac_submitDisconnect = None, ac_submitConnected = None,
    ac_interfere = (\<lambda>n c. c), ac_text = (\<lambda>e. [])\<rparr>"

theorem connect_state_witness:
  "c_state (snd (connect ex_answers ex_client)) = Connected"
proof -
  have a: "no_interference ex_answers" "ac_submitConnect ex_answers = None"
    by (simp_all add: no_interference_def ex_answers_def)
  have "fst (connect ex_answers ex_client) = None"
    by (simp add: connect_def setConnectionState_def submit_def register_once_def registerConnectionEvent_def
        after_connect_def ex_answers_def ex_client_def Stopped_def Let_def)
  then show ?thesis
    using connect_state [OF a surjective_pairing, of ex_client] by simp
qed

text \<open>
  When the connect request cannot be submitted the client is left connecting for good: the call
  fails, and so does every later call of \<open>connect\<close>, without changing the client.
\<close>

theorem submit_failure_sticks:
  assumes "ac_submitConnect a = Some e" "\<not> Stopped c" "c_state c = Disconnected"
  shows "\<exists>err c'. connect a c = (Some err, c') \<and> c_state c' = Connecting
    \<and> (\<forall>a'. \<exists>err'. connect a' c' = (Some err', c'))"
  using assms
  by (auto simp: connect_def setConnectionState_def submit_def Stopped_def split: prod.splits)

theorem submit_failure_sticks_witness:
  "\<exists>err c'. connect (ex_answers\<lparr>ac_submitConnect := Some (errorNew ''not started'')\<rparr>) ex_client = (Some err, c')
    \<and> (\<exists>err'. connect ex_answers c' = (Some err', c'))"
proof -
  let ?a = "ex_answers\<lparr>ac_submitConnect := Some (errorNew ''not started'')\<rparr>"
  have "ac_submitConnect ?a = Some (errorNew ''not started'')" "\<not> Stopped ex_client" "c_state ex_client = Disconnected"
    by (simp_all add: Stopped_def ex_client_def)
  from submit_failure_sticks [OF this] show ?thesis by blast
qed

text \<open>
  An error of the registration for connection events is lost: the connect succeeds, the
  client is not closed, its listener channel is nil, and the monitor that waits on it never learns
  of a disconnect.
\<close>

theorem register_error_ignored:
  assumes "no_interference a" "\<not> Stopped c" "c_state c = Disconnected" "\<not> c_registered c"
    "ac_submitConnect a = None" "ac_connect a = None" "ac_submitRegister a = None" "ac_register a = Inl e"
    "ac_afterConnect a = None"
  shows "\<exists>c'. connect a c = (None, c') \<and> c_state c' = Connected \<and> \<not> Stopped c'
    \<and> c_connEvent c' = None \<and> c_registered c' \<and> c_monitors c' = c_monitors c + 1"
  using assms
  by (simp add: connect_def setConnectionState_def submit_def Stopped_def no_interference_def
      register_once_def registerConnectionEvent_def after_connect_def Let_def)

theorem register_error_ignored_witness:
  "\<exists>c'. connect (ex_answers\<lparr>ac_register := Inl (errorNew ''exists'')\<rparr>) ex_client = (None, c')
    \<and> c_state c' = Connected \<and> c_connEvent c' = None"
proof -
  let ?a = "ex_answers\<lparr>ac_register := Inl (errorNew ''exists'')\<rparr>"
  have "\<exists>c'. connect ?a ex_client = (None, c') \<and> c_state c' = Connected \<and> \<not> Stopped c'
    \<and> c_connEvent c' = None \<and> c_registered c' \<and> c_monitors c' = c_monitors ex_client + 1"
    by (rule register_error_ignored) (simp_all add: no_interference_def ex_answers_def ex_client_def Stopped_def)
  then show ?thesis by blast
qed


lemma connect_loop_returns:
  assumes "attempts < m"
  shows "\<exists>err c'. connect_loop answers asleep m attempts c = Some (err, c')
    \<and> (err = None \<or> err = Some (errorNew ''maximum connect attempts exceeded'')
       \<or> err = Some (errorNew ''event client is closed''))"
  using assms
proof (induction "m - attempts" arbitrary: attempts c)
  case (Suc n)
  show ?case
  proof (cases "m \<le> attempts + 1")
    case True
    then show ?thesis using Suc.prems
      by (subst connect_loop.simps) (auto split: prod.split)
  next
    case False
    then have "\<exists>err c'. connect_loop answers asleep m (attempts + 1) c1 = Some (err, c')
      \<and> (err = None \<or> err = Some (errorNew ''maximum connect attempts exceeded'')
         \<or> err = Some (errorNew ''event client is closed''))" for c1
      using Suc(1) [of "attempts + 1" c1] Suc(2) by simp
    then show ?thesis using False Suc.prems
      by (subst connect_loop.simps) (auto split: prod.split)
  qed
qed simp

text \<open>
  With a limit on the attempts, connecting with retries always returns after at most that many
  attempts: with success, or with an error because the attempts are exceeded or the client is closed.
\<close>
theorem connect_with_retry_returns:
  assumes "0 < m"
  shows "\<exists>err c'. connectWithRetry answers asleep m c = Some (err, c')
    \<and> (err = None \<or> err = Some (errorNew ''maximum connect attempts exceeded'')
       \<or> err = Some (errorNew ''event client is closed''))"
  using connect_loop_returns [of 0 m] assms by (simp add: connectWithRetry_def)

theorem connect_with_retry_returns_witness:
  "\<exists>err c'. connectWithRetry (\<lambda>n. ex_answers\<lparr>ac_connect := Some (errorNew ''no peers'')\<rparr>) (\<lambda>n c. c) 3 ex_client
    = Some (err, c')"
  using connect_with_retry_returns [of 3] by fastforce

text \<open>
  Closing an event client is idempotent and runs the stop handler once: the first call closes the
  subscriber's channel, disconnects and stops; a second call does nothing.
\<close>

theorem close_once:
  assumes "\<not> Stopped c" "c_subscriber c \<noteq> Some True"
  shows "\<exists>c'. client_close None c = Ok c' \<and> Stopped c' \<and> c_state c' = Disconnected
    \<and> c_stops c' = c_stops c + 1 \<and> c_subscriber c' = map_option (\<lambda>b. True) (c_subscriber c)
    \<and> (\<forall>s. client_close s c' = Ok c')"
  using assms
  by (auto simp: client_close_def setStopped_def Stopped_def closeConnectEventChan_def submit_def
      mustSetConnectionState_def Let_def split: option.split)

theorem close_once_witness:
  "\<exists>c'. client_close None ex_client = Ok c' \<and> c_stops c' = 1 \<and> client_close None c' = Ok c'"
proof -
  have "\<not> Stopped ex_client" "c_subscriber ex_client \<noteq> Some True" "c_stops ex_client = 0"
    by (simp_all add: Stopped_def ex_client_def)
  then show ?thesis using close_once [of ex_client] by auto
qed

text \<open>
  Closing a client that has a subscriber for connection events while its monitor is about to
  pass an event on makes the monitor panic: it sends on the channel that the close has closed.
\<close>

theorem notify_after_close_panics:
  assumes "\<not> Stopped c" "c_subscriber c = Some False" "client_close s c = Ok c'"
  shows "monitor_event (\<lambda>_. c') connected err c = Panic"
  using assms
  by (auto simp: monitor_event_def notifyConnectEventChan_def client_close_def setStopped_def Stopped_def
      closeConnectEventChan_def submit_def mustSetConnectionState_def Let_def split: option.splits)

theorem notify_after_close_panics_witness:
  "\<exists>c'. client_close None ex_client = Ok c' \<and> monitor_event (\<lambda>_. c') True None ex_client = Panic"
proof -
  have a: "\<not> Stopped ex_client" "c_subscriber ex_client = Some False"
    by (simp_all add: Stopped_def ex_client_def)
  then obtain c' where "client_close None ex_client = Ok c'"
    by (simp add: client_close_def setStopped_def Stopped_def closeConnectEventChan_def Let_def)
  then show ?thesis using notify_after_close_panics [OF a] by blast
qed

end
