(* ===== verification/Balancing.thy ===== *)
theory Balancing
  imports Peers
begin

text \<open>
  Balancing between peers: the rolling counter (pkg/util/concurrent/rollingcounter), the load
  balance policies of the event client (pkg/fab/events/client/lbp), the balancers of the selection
  service (pkg/client/common/selection/balancer) and its peer sorters (sorter/balancedsorter and
  sorter/blockheightsorter). The draws of the random source are arguments.
\<close>

section \<open>The rolling counter\<close>

definition counter_New :: int where
  "counter_New = - 1"

text \<open>The index that \<open>Next\<close> computes from the one it has loaded.\<close>

definition next_index :: "nat \<Rightarrow> nat \<Rightarrow> int \<Rightarrow> nat" where
  "next_index r n current =
     (if current = - 1 then rand_Intn r n
      else let i = nat (current + 1) in if i \<ge> n then 0 else i)"

text \<open>
  The loop of \<open>Next\<close>. Each iteration has its draw and, if another goroutine changes the counter
  between the load and the compare-and-swap, the value it stores. A result of \<open>None\<close> means that the
  loop is still running when the list of iterations ends.
\<close>

fun counter_loop :: "nat \<Rightarrow> (nat \<times> int option) list \<Rightarrow> int \<Rightarrow> (nat \<times> int) option" where
  "counter_loop n [] c = None"
| "counter_loop n ((r, other) # its) c =
     (let i = next_index r n c;
          now = (case other of None \<Rightarrow> c | Some v \<Rightarrow> v)
      in if now = c then Some (i, int i) else counter_loop n its now)"

definition counter_Next :: "nat \<Rightarrow> (nat \<times> int option) list \<Rightarrow> int \<Rightarrow> (nat \<times> int) option outcome" where
  "counter_Next n its c = (if n = 0 then Panic else Ok (counter_loop n its c))"

text \<open>\<open>Next\<close> with no other goroutine in the way.\<close>

definition Next :: "nat \<Rightarrow> nat \<Rightarrow> int \<Rightarrow> (nat \<times> int) outcome" where
  "Next n r c = (if n = 0 then Panic else Ok (next_index r n c, int (next_index r n c)))"

lemma Next_alone: "counter_Next n [(r, None)] c = obind (Next n r c) (\<lambda>p. Ok (Some p))"
  by (simp add: counter_Next_def Next_def Let_def)

lemma next_index_less: "0 < n \<Longrightarrow> next_index r n c < n"
  by (simp add: next_index_def Let_def)

text \<open>
  A call that ends returns an index below \<open>n\<close>, stores it, and computed it from the value that it
  replaced.
\<close>

lemma counter_loop_index:
  assumes "0 < n" "counter_loop n its c = Some (i, c')"
  shows "i < n \<and> c' = int i \<and> (\<exists>c0 r other. (r, other) \<in> set its \<and> i = next_index r n c0)"
  using assms(2)
proof (induction its arbitrary: c)
  case (Cons p its)
  obtain r other where p: "p = (r, other)" by (cases p)
  show ?case
  proof (cases "(case other of None \<Rightarrow> c | Some v \<Rightarrow> v) = c")
    case True
    then show ?thesis using Cons.prems p next_index_less [OF assms(1)] by (auto simp: Let_def)
  next
    case False
    then show ?thesis using Cons p by (fastforce simp: Let_def)
  qed
qed simp

section \<open>Load balance policies\<close>

text \<open>\<open>Choose\<close> returns a nil peer (\<open>None\<close>) when there are no peers; its error is always nil.\<close>

type_synonym 's peer_lbp = "nat \<Rightarrow> 's \<Rightarrow> peer list \<Rightarrow> (peer option \<times> 's) outcome"

definition Random_Choose :: "'s peer_lbp" where
  "Random_Choose r s peers =
    (if peers = [] then Ok (None, s) else Ok (Some (peers ! rand_Intn r (length peers)), s))"

definition RoundRobin_Choose :: "int peer_lbp" where
  "RoundRobin_Choose r c peers =
    (if peers = [] then Ok (None, c)
     else obind (Next (length peers) r c) (\<lambda>(i, c'). Ok (Some (peers ! i), c')))"

locale peer_chooser =
  fixes pick :: "'s peer_lbp"
  assumes pick_none: "pick r s [] = Ok (None, s)"
    and pick_some: "ps \<noteq> [] \<Longrightarrow> \<exists>p s'. pick r s ps = Ok (Some p, s') \<and> p \<in> set ps"

interpretation random_chooser: peer_chooser Random_Choose
  by unfold_locales (simp_all add: Random_Choose_def)

interpretation round_robin_chooser: peer_chooser RoundRobin_Choose
  by unfold_locales (simp_all add: RoundRobin_Choose_def Next_def next_index_less)

text \<open>The policy that a channel's configuration names (the type \<open>BalancerType\<close> is a string).\<close>

definition GetBalancer :: "string \<Rightarrow> int peer_lbp" where
  "GetBalancer policyBalancer =
    (if policyBalancer = ''RoundRobin'' then RoundRobin_Choose
     else if policyBalancer = ''Random'' then Random_Choose
     else Random_Choose)"

interpretation configured_chooser: peer_chooser "GetBalancer b"
  by unfold_locales
    (use random_chooser.pick_some round_robin_chooser.pick_some in \<open>force simp: GetBalancer_def
      random_chooser.pick_none round_robin_chooser.pick_none\<close>)+

section \<open>Balancers\<close>

text \<open>\<open>rand.Perm\<close>, by the draws \<open>d 0, d 1, \<dots>\<close> below 1, 2, \<dots>\<close>

primrec rand_Perm :: "(nat \<Rightarrow> nat) \<Rightarrow> nat \<Rightarrow> nat list" where
  "rand_Perm d 0 = []"
| "rand_Perm d (Suc n) =
    (let m = rand_Perm d n; j = rand_Intn (d n) (Suc n)
     in if j = n then m @ [n] else (m @ [m ! j])[j := n])"

lemma rand_Perm_mset: "mset (rand_Perm d n) = mset [0..<n]"
proof (induction n)
  case (Suc n)
  have len: "length (rand_Perm d n) = n" using arg_cong [OF Suc, of size] by simp
  show ?case
  proof (cases "rand_Intn (d n) (Suc n) = n")
    case False
    moreover have "rand_Intn (d n) (Suc n) < Suc n" by simp
    ultimately have j: "rand_Intn (d n) (Suc n) < n" by linarith
    then have "rand_Perm d n ! rand_Intn (d n) (Suc n) \<in># mset [0..<n]"
      using nth_mem [of _ "rand_Perm d n"] len by (simp only: Suc [symmetric] set_mset_mset)
    then show ?thesis using Suc len False j
      by (simp add: Let_def mset_update list_update_append nth_append)
  qed (use Suc in \<open>simp add: Let_def\<close>)
qed simp

lemma rand_Perm_less: "i \<in> set (rand_Perm d n) \<Longrightarrow> i < n"
  using rand_Perm_mset [of d n] mset_eq_setD by fastforce

type_synonym 's balancer = "(nat \<Rightarrow> nat) \<Rightarrow> 's \<Rightarrow> peer list \<Rightarrow> (peer list \<times> 's) outcome"

definition balancer_Random :: "'s balancer" where
  "balancer_Random d s peers = Ok (map (\<lambda>i. peers ! i) (rand_Perm d (length peers)), s)"

definition balancer_RoundRobin :: "int balancer" where
  "balancer_RoundRobin d c peers =
    obind (Next (length peers) (d 0) c) (\<lambda>(index, c'). Ok (drop index peers @ take index peers, c'))"

text \<open>
  What a balancer promises to the sorters: on a list that is not empty it returns a permutation of
  it, from a state in \<open>good\<close> to a state in \<open>good\<close>.
\<close>

locale peer_balancer =
  fixes bal :: "'s balancer" and good :: "'s \<Rightarrow> bool"
  assumes bal_perm: "good s \<Longrightarrow> ps \<noteq> [] \<Longrightarrow> \<exists>qs s'. bal d s ps = Ok (qs, s') \<and> good s' \<and> mset qs = mset ps"

lemma map_nth_perm: "mset is = mset [0..<length xs] \<Longrightarrow> mset (map ((!) xs) is) = mset xs"
  by (metis map_nth mset_map)

lemma mset_rotated: "mset (drop i xs @ take i xs) = mset xs"
  by (metis append_take_drop_id mset_append union_commute)

interpretation random_balancer: peer_balancer balancer_Random "\<lambda>_. True"
  by unfold_locales (simp add: balancer_Random_def map_nth_perm [OF rand_Perm_mset] del: mset_map)

interpretation round_robin_balancer: peer_balancer balancer_RoundRobin "\<lambda>c. - 1 \<le> c"
  by unfold_locales (simp add: balancer_RoundRobin_def Next_def mset_rotated del: mset_append)

section \<open>Sorters\<close>

text \<open>The maximal block height of the peers that have a state, 0 if there is none.\<close>

definition getMaxBlockHeight :: "peer list \<Rightarrow> 64 word" where
  "getMaxBlockHeight peers = fold (\<lambda>p maxHeight. case peer_height p of
     None \<Rightarrow> maxHeight | Some h \<Rightarrow> if h > maxHeight then h else maxHeight) peers 0"

text \<open>
  \<open>sort.Sort(sort.Reverse(...))\<close> with the \<open>Less\<close> of the peer sorter. The library does not say in which
  order it leaves equal elements; this is one such order.
\<close>

definition Less :: "peer \<Rightarrow> peer \<Rightarrow> bool" where
  "Less p q = (case (peer_height p, peer_height q) of (Some h, Some k) \<Rightarrow> h < k | _ \<Rightarrow> False)"

primrec insert_by :: "('a \<Rightarrow> 'a \<Rightarrow> bool) \<Rightarrow> 'a \<Rightarrow> 'a list \<Rightarrow> 'a list" where
  "insert_by lt x [] = [x]"
| "insert_by lt x (y # ys) = (if lt y x then y # insert_by lt x ys else x # y # ys)"

definition sort_by :: "('a \<Rightarrow> 'a \<Rightarrow> bool) \<Rightarrow> 'a list \<Rightarrow> 'a list" where
  "sort_by lt xs = foldr (insert_by lt) xs []"

definition accepted :: "64 word \<Rightarrow> peer \<Rightarrow> bool" where
  "accepted cutoffHeight p = (case peer_height p of None \<Rightarrow> True | Some h \<Rightarrow> h \<ge> cutoffHeight)"

definition blockheight_Sort :: "int \<Rightarrow> 's balancer \<Rightarrow> 's balancer" where
  "blockheight_Sort lagThreshold balance d s peers =
    (if length peers \<le> 1 then Ok (peers, s)
     else if lagThreshold < 0 then balance d s peers
     else let maxHeight = getMaxBlockHeight peers
       in if maxHeight \<le> word_of_int lagThreshold then balance d s peers
          else let cutoffHeight = maxHeight - word_of_int lagThreshold;
                   preferredPeers = filter (accepted cutoffHeight) peers;
                   otherPeers = filter (\<lambda>p. \<not> accepted cutoffHeight p) peers
            in obind (balance d s preferredPeers) (\<lambda>(preferred, s').
                 Ok (preferred @ sort_by (\<lambda>p q. Less q p) otherPeers, s')))"

definition balanced_Sort :: "'s balancer \<Rightarrow> 's balancer" where
  "balanced_Sort balance d s peers = balance d s peers"

text \<open>
  How the fabric selection service makes its sorter from the selection policy of the channel. The
  sorter by block height is created with its default threshold.
\<close>

record SelectionPolicy =
  SortingStrategy :: string
  pol_Balancer :: string
  pol_BlockHeightLagThreshold :: int

definition resolveBalancer :: "SelectionPolicy \<Rightarrow> int balancer" where
  "resolveBalancer policy = (if pol_Balancer policy = ''Random'' then balancer_Random else balancer_RoundRobin)"

definition resolveSortingStrategy :: "SelectionPolicy \<Rightarrow> int balancer \<Rightarrow> int balancer" where
  "resolveSortingStrategy policy balance =
    (if SortingStrategy policy = ''Balanced'' then balanced_Sort balance else blockheight_Sort 5 balance)"

definition resolvePeerSorter :: "SelectionPolicy \<Rightarrow> int balancer" where
  "resolvePeerSorter policy = resolveSortingStrategy policy (resolveBalancer policy)"

section \<open>Lemmas on sorting and heights\<close>

lemma insert_by_mset [simp]: "mset (insert_by lt x ys) = add_mset x (mset ys)"
  by (induction ys) simp_all

lemma sort_by_mset [simp]: "mset (sort_by lt xs) = mset xs"
  by (induction xs) (simp_all add: sort_by_def)

lemma set_sort_by [simp]: "set (sort_by lt xs) = set xs"
  by (rule mset_eq_setD) simp

lemma insert_by_sorted:
  assumes "\<And>x y z. R x y \<Longrightarrow> R y z \<Longrightarrow> R x z" "\<And>x y. lt x y \<Longrightarrow> R x y" "\<And>x y. \<not> lt x y \<Longrightarrow> R y x"
    and "sorted_wrt R ys"
  shows "sorted_wrt R (insert_by lt x ys)"
  using assms(4)
proof (induction ys)
  case (Cons y ys)
  have set: "set (insert_by lt x ys) = insert x (set ys)"
    using mset_eq_setD [of "insert_by lt x ys" "x # ys"] by simp
  show ?case
  proof (cases "lt y x")
    case True
    then show ?thesis using Cons assms(2) set by auto
  next
    case False
    then show ?thesis using Cons.prems assms(1) [OF assms(3) [OF False]] assms(3) [OF False] by auto
  qed
qed simp

lemma sort_by_sorted:
  assumes "\<And>x y z. R x y \<Longrightarrow> R y z \<Longrightarrow> R x z" "\<And>x y. lt x y \<Longrightarrow> R x y" "\<And>x y. \<not> lt x y \<Longrightarrow> R y x"
  shows "sorted_wrt R (sort_by lt xs)"
  by (induction xs) (simp_all add: sort_by_def insert_by_sorted [OF assms])

lemma insert_by_cong:
  "(\<And>a. a \<in> set ys \<Longrightarrow> lt a x = lt' a x) \<Longrightarrow> insert_by lt x ys = insert_by lt' x ys"
  by (induction ys) simp_all

lemma sort_by_cong:
  "(\<And>a b. a \<in> set xs \<Longrightarrow> b \<in> set xs \<Longrightarrow> lt a b = lt' a b) \<Longrightarrow> sort_by lt xs = sort_by lt' xs"
proof (induction xs)
  case (Cons x xs)
  have "insert_by lt x (sort_by lt' xs) = insert_by lt' x (sort_by lt' xs)"
    using Cons.prems by (intro insert_by_cong) simp
  then show ?case using Cons by (simp add: sort_by_def)
qed (simp add: sort_by_def)

text \<open>Peers that have a height, sorted by \<open>Less\<close> in reverse, are in descending order of height.\<close>

lemma sort_by_height:
  assumes "\<And>p. p \<in> set ps \<Longrightarrow> peer_height p \<noteq> None"
  shows "sorted_wrt (\<lambda>p q. the (peer_height q) \<le> the (peer_height p)) (sort_by (\<lambda>p q. Less q p) ps)"
proof -
  have "sort_by (\<lambda>p q. Less q p) ps = sort_by (\<lambda>p q. the (peer_height q) < the (peer_height p)) ps"
  proof (rule sort_by_cong)
    fix p q assume "p \<in> set ps" "q \<in> set ps"
    then show "Less q p = (the (peer_height q) < the (peer_height p))"
      using assms [of p] assms [of q] by (auto simp: Less_def)
  qed
  then show ?thesis by (auto intro!: sort_by_sorted)
qed

lemma fold_max_height:
  fixes m :: "64 word"
  defines "f \<equiv> \<lambda>p maxHeight. case peer_height p of None \<Rightarrow> maxHeight | Some h \<Rightarrow> if h > maxHeight then h else maxHeight"
  shows "m \<le> fold f ps m \<and> (\<forall>p \<in> set ps. \<forall>h. peer_height p = Some h \<longrightarrow> h \<le> fold f ps m)
    \<and> (fold f ps m = m \<or> (\<exists>p \<in> set ps. peer_height p = Some (fold f ps m)))"
proof (induction ps arbitrary: m)
  case (Cons p ps)
  have "m \<le> f p m" by (auto simp: f_def split: option.split)
  moreover have "peer_height p = Some h \<Longrightarrow> h \<le> f p m" for h by (auto simp: f_def)
  moreover have "f p m = m \<or> peer_height p = Some (f p m)" by (auto simp: f_def split: option.split)
  ultimately show ?case using Cons.IH [of "f p m"] by (auto intro: order_trans)
qed simp

lemma getMaxBlockHeight_ge: "p \<in> set ps \<Longrightarrow> peer_height p = Some h \<Longrightarrow> h \<le> getMaxBlockHeight ps"
  using fold_max_height [where m = 0] unfolding getMaxBlockHeight_def by blast

lemma getMaxBlockHeight_attained:
  "getMaxBlockHeight ps = 0 \<or> (\<exists>p \<in> set ps. peer_height p = Some (getMaxBlockHeight ps))"
  using fold_max_height [where m = 0] unfolding getMaxBlockHeight_def by blast

lemma max_height_accepted:
  assumes "0 < getMaxBlockHeight ps" "cutoff \<le> getMaxBlockHeight ps"
  shows "\<exists>p \<in> set ps. accepted cutoff p"
  using getMaxBlockHeight_attained [of ps] assms unfolding accepted_def by (metis less_irrefl option.simps(5))

end
