(* ===== verification/Peer_Resolvers.thy ===== *)
theory Peer_Resolvers
  imports Balancing Status "HOL-Library.Sublist"
begin

text \<open>
  Choosing peers: the resolvers of the event client (pkg/fab/events/client/peerresolver:
  minblockheight, preferorg, preferpeer, balanced), the greylist and endpoint filters
  (pkg/client/common/discovery/greylist, pkg/client/common/filter), the filter that the fabric
  selection service applies to the endorsers of a discovery response
  (pkg/client/common/selection/fabricselection/selectionfilter.go) and static selection.
\<close>

section \<open>The resolver by minimal block height\<close>

record mbh_params =
  blockHeightLagThreshold :: int
  reconnectBlockHeightLagThreshold :: int
  minBlockHeight :: "64 word"

text \<open>The modes of \<open>EventServicePolicy.MinBlockHeightResolverMode\<close>, a string.\<close>

datatype resolver_mode = ResolveLatest | ResolveByThreshold | OtherMode

definition getBlockHeightLagThreshold :: "resolver_mode \<Rightarrow> int \<Rightarrow> int" where
  "getBlockHeightLagThreshold mode policyThreshold = (case mode of
     ResolveLatest \<Rightarrow> 0
   | ResolveByThreshold \<Rightarrow> if policyThreshold \<le> 0 then 5 else policyThreshold
   | OtherMode \<Rightarrow> if policyThreshold \<le> 0 then 5 else policyThreshold)"

definition getReconnectBlockHeightLagThreshold :: "int \<Rightarrow> int" where
  "getReconnectBlockHeightLagThreshold policyThreshold = (if policyThreshold \<le> 0 then 10 else policyThreshold)"

definition mbh_defaultParams :: "resolver_mode \<Rightarrow> int \<Rightarrow> int \<Rightarrow> mbh_params" where
  "mbh_defaultParams mode lag reconnectLag =
     \<lparr>blockHeightLagThreshold = getBlockHeightLagThreshold mode lag,
      reconnectBlockHeightLagThreshold = getReconnectBlockHeightLagThreshold reconnectLag,
      minBlockHeight = 0\<rparr>"

definition SetBlockHeightLagThreshold :: "int \<Rightarrow> mbh_params \<Rightarrow> mbh_params" where
  "SetBlockHeightLagThreshold v p = p\<lparr>blockHeightLagThreshold := v\<rparr>"

definition SetReconnectBlockHeightLagThreshold :: "int \<Rightarrow> mbh_params \<Rightarrow> mbh_params" where
  "SetReconnectBlockHeightLagThreshold v p = p\<lparr>reconnectBlockHeightLagThreshold := v\<rparr>"

definition mbh_SetFromBlock :: "64 word \<Rightarrow> mbh_params \<Rightarrow> mbh_params" where
  "mbh_SetFromBlock v p = p\<lparr>minBlockHeight := v + 1\<rparr>"

definition mbh_SetSnapshot :: "64 word \<Rightarrow> mbh_params \<Rightarrow> mbh_params" where
  "mbh_SetSnapshot lastBlockReceived p = p\<lparr>minBlockHeight := lastBlockReceived + 1\<rparr>"

definition doFilterByBlockHeight :: "mbh_params \<Rightarrow> 64 word \<Rightarrow> peer list \<Rightarrow> peer list" where
  "doFilterByBlockHeight p minHeight peers =
    (if minHeight > 0 then filter (accepted minHeight) peers
     else if blockHeightLagThreshold p < 0 \<or> length peers = 1 then peers
     else let maxHeight = getMaxBlockHeight peers
       in if maxHeight \<le> word_of_int (blockHeightLagThreshold p) then peers
          else filter (accepted (maxHeight - word_of_int (blockHeightLagThreshold p))) peers)"

text \<open>\<open>lastBlock\<close> is what the dispatcher answers, \<open>MaxUint64\<close> if it has received no block.\<close>

definition mbh_Filter :: "mbh_params \<Rightarrow> 64 word \<Rightarrow> peer list \<Rightarrow> peer list" where
  "mbh_Filter p lastBlock peers =
    (let minHeight =
       (if minBlockHeight p > 0 then
          (if lastBlock = - 1 then minBlockHeight p
           else if minBlockHeight p > lastBlock then minBlockHeight p
           else lastBlock + 1)
        else 0);
         retPeers = doFilterByBlockHeight p minHeight peers
     in if retPeers = [] \<and> minHeight > 0 then
          (let retPeers2 = doFilterByBlockHeight p (minHeight - 1) peers
           in if retPeers2 = [] then doFilterByBlockHeight p 0 peers else retPeers2)
        else retPeers)"

definition mbh_ShouldDisconnect :: "mbh_params \<Rightarrow> 64 word \<Rightarrow> peer list \<Rightarrow> peer \<Rightarrow> bool" where
  "mbh_ShouldDisconnect p lastBlock peers connectedPeer = (case peer_height connectedPeer of
     None \<Rightarrow> False
   | Some connectedPeerBlockHeight \<Rightarrow>
      (let maxHeight = getMaxBlockHeight peers;
           threshold = word_of_int (reconnectBlockHeightLagThreshold p)
       in if maxHeight \<le> threshold then False
          else if lastBlock + 1 < connectedPeerBlockHeight then False
          else let cutoffHeight = maxHeight - threshold;
                   peerBlockHeight = lastBlock + 1
               in \<not> peerBlockHeight \<ge> cutoffHeight))"

definition mbh_Resolve :: "'s peer_lbp \<Rightarrow> mbh_params \<Rightarrow> 64 word \<Rightarrow> nat \<Rightarrow> 's \<Rightarrow> peer list \<Rightarrow> (peer option \<times> 's) outcome" where
  "mbh_Resolve pick p lastBlock r s peers = pick r s (mbh_Filter p lastBlock peers)"

section \<open>The resolvers that prefer an organization or given peers\<close>

definition org_Resolve :: "'s peer_lbp \<Rightarrow> mbh_params \<Rightarrow> string \<Rightarrow> 64 word \<Rightarrow> nat \<Rightarrow> 's \<Rightarrow> peer list
    \<Rightarrow> (peer option \<times> 's) outcome" where
  "org_Resolve pick p mspID lastBlock r s peers =
    (let filteredPeers = mbh_Filter p lastBlock peers;
         orgPeers = filter (\<lambda>q. peer_MSPID q = mspID) filteredPeers
     in if length orgPeers > 0 then pick r s orgPeers else pick r s filteredPeers)"

definition org_ShouldDisconnect :: "mbh_params \<Rightarrow> string \<Rightarrow> 64 word \<Rightarrow> peer list \<Rightarrow> peer \<Rightarrow> bool" where
  "org_ShouldDisconnect p mspID lastBlock peers connectedPeer =
    (if peer_MSPID connectedPeer \<noteq> mspID
        \<and> list_ex (\<lambda>q. peer_MSPID q = mspID) (mbh_Filter p lastBlock peers) then True
     else mbh_ShouldDisconnect p lastBlock peers connectedPeer)"

text \<open>\<open>strings.Contains\<close>\<close>

definition isPreferred :: "string list \<Rightarrow> peer \<Rightarrow> bool" where
  "isPreferred preferredPeers p = list_ex (\<lambda>url. sublist url (peer_URL p)) preferredPeers"

definition getPreferredPeers :: "string list \<Rightarrow> peer list \<Rightarrow> peer list" where
  "getPreferredPeers preferredPeers peers = filter (isPreferred preferredPeers) peers"

text \<open>
  The "prefer peer" resolver has a balancer and minimal height parameters of its own, and those of
  the "prefer org" resolver that it falls back to.
\<close>

definition pref_Resolve :: "'s peer_lbp \<Rightarrow> 't peer_lbp \<Rightarrow> mbh_params \<Rightarrow> string list \<Rightarrow> string \<Rightarrow> 64 word \<Rightarrow> nat
    \<Rightarrow> 's \<times> 't \<Rightarrow> peer list \<Rightarrow> (peer option \<times> ('s \<times> 't)) outcome" where
  "pref_Resolve pick pickOrg p preferred mspID lastBlock r st peers =
    (let preferredPeers = getPreferredPeers preferred (mbh_Filter p lastBlock peers)
     in if length preferredPeers > 0
        then obind (pick r (fst st) preferredPeers) (\<lambda>(q, s'). Ok (q, (s', snd st)))
        else obind (org_Resolve pickOrg p mspID lastBlock r (snd st) peers) (\<lambda>(q, t'). Ok (q, (fst st, t'))))"

definition pref_ShouldDisconnect :: "mbh_params \<Rightarrow> string list \<Rightarrow> string \<Rightarrow> 64 word \<Rightarrow> peer list \<Rightarrow> peer \<Rightarrow> bool" where
  "pref_ShouldDisconnect p preferred mspID lastBlock peers connectedPeer =
    (if \<not> isPreferred preferred connectedPeer
        \<and> length (getPreferredPeers preferred (mbh_Filter p lastBlock peers)) > 0 then True
     else org_ShouldDisconnect p mspID lastBlock peers connectedPeer)"

definition balanced_Resolve :: "'s peer_lbp \<Rightarrow> nat \<Rightarrow> 's \<Rightarrow> peer list \<Rightarrow> (peer option \<times> 's) outcome" where
  "balanced_Resolve pick r s peers = pick r s peers"

definition balanced_ShouldDisconnect :: "peer list \<Rightarrow> peer \<Rightarrow> bool" where
  "balanced_ShouldDisconnect peers connectedPeer = False"

section \<open>The greylist and the endpoint filter\<close>

text \<open>\<open>endpoint.ToAddress\<close>\<close>

definition trimPrefix :: "string \<Rightarrow> string \<Rightarrow> string" where
  "trimPrefix pre s = (if prefix pre s then drop (length pre) s else s)"

definition ToAddress :: "string \<Rightarrow> string" where
  "ToAddress url =
    (if prefix ''grpc://'' url then trimPrefix ''grpc://'' url
     else if prefix ''grpcs://'' url then trimPrefix ''grpcs://'' url
     else url)"

text \<open>A greylist maps an address to the time (in nanoseconds) at which it was greylisted.\<close>

record greylist =
  greylistURLs :: "string \<rightharpoonup> int"
  expiryInterval :: int

definition greylist_New :: "int \<Rightarrow> greylist" where
  "greylist_New expire = \<lparr>greylistURLs = Map.empty, expiryInterval = expire\<rparr>"

definition greylist_Accept :: "int \<Rightarrow> peer \<Rightarrow> greylist \<Rightarrow> bool \<times> greylist" where
  "greylist_Accept now p b =
    (let peerAddress = ToAddress (peer_URL p)
     in case greylistURLs b peerAddress of
          None \<Rightarrow> (True, b)
        | Some timeAdded \<Rightarrow>
            if timeAdded + expiryInterval b > now then (False, b)
            else (True, b\<lparr>greylistURLs := (greylistURLs b)(peerAddress := None)\<rparr>))"

definition peerURLFromConnectionFailedStatus :: "detail list \<Rightarrow> string" where
  "peerURLFromConnectionFailedStatus details = (case details of
     DStr url # _ \<Rightarrow> ToAddress url | _ \<Rightarrow> [])"

definition greylist_required :: "Status \<Rightarrow> bool \<times> string" where
  "greylist_required s =
    (if st_Group s = EndorserClientStatus \<and> st_Code s = ConnectionFailed
     then (True, peerURLFromConnectionFailedStatus (st_Details s)) else (False, []))"

definition Greylist :: "wire \<Rightarrow> int \<Rightarrow> goerr option \<Rightarrow> greylist \<Rightarrow> greylist" where
  "Greylist w now err b = (case FromError w err of
     None \<Rightarrow> b
   | Some s \<Rightarrow> (case greylist_required s of (ok, peerURL) \<Rightarrow>
       if ok \<and> peerURL \<noteq> [] then b\<lparr>greylistURLs := (greylistURLs b)(peerURL \<mapsto> now)\<rparr> else b))"

text \<open>The endpoint filter: the configuration of the channel's peers, and the search for a peer's own.\<close>

datatype EndpointType = ChaincodeQuery | EndorsingPeer | LedgerQuery | EventSource | OtherEndpoint

record ChannelPeer =
  cp_URL :: string
  cp_ChaincodeQuery :: bool
  cp_EndorsingPeer :: bool
  cp_LedgerQuery :: bool
  cp_EventSource :: bool

text \<open>\<open>comm.SearchPeerConfigFromURL\<close>, with the configuration's matching of a URL to a peer's URL.\<close>

definition SearchPeerConfigFromURL :: "(string \<Rightarrow> string option) \<Rightarrow> string list \<Rightarrow> string \<Rightarrow> string res" where
  "SearchPeerConfigFromURL peerConfig networkPeers url = (case peerConfig url of
     Some u \<Rightarrow> Inr u
   | None \<Rightarrow> if url \<in> set networkPeers then Inr url
       else Inl (ErrorF ''unable to get peerconfig for given url : %s'' [FS url]))"

definition getChannelPeer :: "ChannelPeer list \<Rightarrow> string \<Rightarrow> ChannelPeer option" where
  "getChannelPeer chPeers url = find (\<lambda>cp. cp_URL cp = url) chPeers"

definition endpoint_Accept :: "(string \<Rightarrow> string option) \<Rightarrow> string list \<Rightarrow> EndpointType \<Rightarrow> ChannelPeer list \<Rightarrow> peer \<Rightarrow> bool" where
  "endpoint_Accept peerConfig networkPeers et chPeers p =
    (case SearchPeerConfigFromURL peerConfig networkPeers (peer_URL p) of
       Inl err \<Rightarrow> True
     | Inr u \<Rightarrow> (case getChannelPeer chPeers u of
          None \<Rightarrow> True
        | Some chPeer \<Rightarrow> (case et of
             ChaincodeQuery \<Rightarrow> cp_ChaincodeQuery chPeer
           | EndorsingPeer \<Rightarrow> cp_EndorsingPeer chPeer
           | LedgerQuery \<Rightarrow> cp_LedgerQuery chPeer
           | EventSource \<Rightarrow> cp_EventSource chPeer
           | OtherEndpoint \<Rightarrow> True)))"

section \<open>The selection filter\<close>

text \<open>
  An endorser of a discovery response: its endpoint, its MSP and its ledger height, if it has told
  it. \<open>peerConfig\<close> is the configuration's mapping of a URL, \<open>ref\<close> the identity of the new value.
\<close>

record endorser =
  en_Endpoint :: string
  en_MSPID :: string
  en_LedgerHeight :: "64 word option"

definition asPeerValue :: "(string \<Rightarrow> string option) \<Rightarrow> nat \<Rightarrow> endorser \<Rightarrow> peer" where
  "asPeerValue peerConfig r e =
    mkPeer r (case peerConfig (en_Endpoint e) of Some u \<Rightarrow> u | None \<Rightarrow> en_Endpoint e) (en_MSPID e)
      (Some (case en_LedgerHeight e of None \<Rightarrow> 0 | Some h \<Rightarrow> h))"

definition asPeerValues :: "(string \<Rightarrow> string option) \<Rightarrow> endorser list \<Rightarrow> peer list" where
  "asPeerValues peerConfig endorsers = map (\<lambda>(r, e). asPeerValue peerConfig r e) (zip [0..<length endorsers] endorsers)"

text \<open>Go compares strings bytewise.\<close>

fun string_less :: "string \<Rightarrow> string \<Rightarrow> bool" where
  "string_less [] [] = False"
| "string_less [] (y # ys) = True"
| "string_less (x # xs) [] = False"
| "string_less (x # xs) (y # ys) =
    (of_char x < (of_char y :: nat) \<or> of_char x = (of_char y :: nat) \<and> string_less xs ys)"

definition sortByURL :: "peer list \<Rightarrow> peer list" where
  "sortByURL peers = sort_by (\<lambda>p q. string_less (peer_URL p) (peer_URL q)) peers"

definition containsPeer :: "peer list \<Rightarrow> peer \<Rightarrow> bool" where
  "containsPeer peers p = list_ex (\<lambda>q. peer_URL q = peer_URL p) peers"

definition filterDiscovered :: "peer list \<Rightarrow> peer list \<Rightarrow> peer list" where
  "filterDiscovered discovered peers = filter (containsPeer discovered) peers"

definition filterPeers :: "(peer \<Rightarrow> bool) option \<Rightarrow> peer list \<Rightarrow> peer list" where
  "filterPeers flt peers = (case flt of None \<Rightarrow> peers | Some f \<Rightarrow> filter f peers)"

definition sortPeers :: "'s balancer option \<Rightarrow> 's balancer" where
  "sortPeers sorter d s peers = (case sorter of None \<Rightarrow> Ok (peers, s) | Some f \<Rightarrow> f d s peers)"

definition asEndorser :: "(string \<Rightarrow> string option) \<Rightarrow> endorser list \<Rightarrow> peer \<Rightarrow> endorser option" where
  "asEndorser peerConfig endorsers p = find (\<lambda>e. peer_URL (asPeerValue peerConfig 0 e) = peer_URL p) endorsers"

definition asEndorsers :: "(string \<Rightarrow> string option) \<Rightarrow> endorser list \<Rightarrow> peer list \<Rightarrow> endorser list" where
  "asEndorsers peerConfig endorsers peers =
    concat (map (\<lambda>p. case asEndorser peerConfig endorsers p of None \<Rightarrow> [] | Some e \<Rightarrow> [e]) peers)"

definition selection_Filter :: "(string \<Rightarrow> string option) \<Rightarrow> peer list \<Rightarrow> (peer \<Rightarrow> bool) option \<Rightarrow> 's balancer option
    \<Rightarrow> (nat \<Rightarrow> nat) \<Rightarrow> 's \<Rightarrow> endorser list \<Rightarrow> (endorser list \<times> 's) outcome" where
  "selection_Filter peerConfig discovered flt sorter d s endorsers =
    (let peers = sortByURL (asPeerValues peerConfig endorsers);
         discoveredPeers = filterDiscovered discovered peers;
         filteredPeers = filterPeers (Some (case flt of None \<Rightarrow> (\<lambda>p. True) | Some f \<Rightarrow> f)) discoveredPeers
     in obind (sortPeers sorter d s filteredPeers) (\<lambda>(sortedPeers, s').
          Ok (asEndorsers peerConfig endorsers sortedPeers, s')))"

section \<open>Static selection\<close>

text \<open>An error of the discovery service is logged and gives no peers and no error.\<close>

definition static_GetEndorsersForChaincode :: "peer list res \<Rightarrow> (peer \<Rightarrow> bool) option \<Rightarrow> 's balancer option
    \<Rightarrow> (nat \<Rightarrow> nat) \<Rightarrow> 's \<Rightarrow> (peer list \<times> 's) outcome" where
  "static_GetEndorsersForChaincode getPeers flt sorter d s = (case getPeers of
     Inl err \<Rightarrow> Ok ([], s)
   | Inr channelPeers \<Rightarrow> sortPeers sorter d s (filterPeers flt channelPeers))"

end
