(* ===== verification/Resolver_Theorems.thy ===== *)
theory Resolver_Theorems
  imports Peer_Resolvers
begin

text \<open>
  What the peer resolvers of the event client and the greylist guarantee: the filter by block
  height never leaves a caller without a peer and does not wrap around, the preferences for peers
  and organizations are kept in their order, a peer just resolved is not disconnected at once, and
  a greylisted peer is rejected until its interval has passed.
\<close>

section \<open>The filter by block height\<close>

named_theorems height_defs

lemmas [height_defs] = doFilterByBlockHeight_def mbh_Filter_def mbh_ShouldDisconnect_def accepted_def Let_def

lemma doFilter_subseq: "subseq (doFilterByBlockHeight p m ps) ps"
  by (simp add: doFilterByBlockHeight_def Let_def)

lemma doFilter_zero_nonempty: "ps \<noteq> [] \<Longrightarrow> doFilterByBlockHeight p 0 ps \<noteq> []"
proof -
  assume ps: "ps \<noteq> []"
  let ?m = "getMaxBlockHeight ps" and ?l = "word_of_int (blockHeightLagThreshold p) :: 64 word"
  show ?thesis
  proof (cases "?m \<le> ?l")
    case False
    then have "0 < ?m" "?m - ?l \<le> ?m" by (simp_all add: not_le word_sub_le order.strict_implies_order)
      (use order.strict_trans1 [of 0 ?l ?m] in simp)
    from max_height_accepted [OF this] show ?thesis
      using ps False by (auto simp: doFilterByBlockHeight_def Let_def filter_empty_conv)
  qed (use ps in \<open>simp add: doFilterByBlockHeight_def Let_def\<close>)
qed

lemma mbh_Filter_nonempty: "ps \<noteq> [] \<Longrightarrow> mbh_Filter p lastBlock ps \<noteq> []"
  using doFilter_zero_nonempty [of ps p]
  by (auto simp: mbh_Filter_def Let_def word_neq_0_conv eq_neg_iff_add_eq_0 simp flip: word_neq_0_conv)

lemma mbh_Filter_subseq: "subseq (mbh_Filter p lastBlock ps) ps"
  using doFilter_subseq by (auto simp: mbh_Filter_def Let_def)

lemma mbh_Filter_subset: "q \<in> set (mbh_Filter p lastBlock ps) \<Longrightarrow> q \<in> set ps"
  using mbh_Filter_subseq by (meson subseq_singleton_left subseq_order.trans)

lemma mbh_Filter_no_min: "minBlockHeight p = 0 \<Longrightarrow> mbh_Filter p lastBlock ps = doFilterByBlockHeight p 0 ps"
  by (simp add: mbh_Filter_def Let_def)

lemma unat_word_of_int: "0 \<le> k \<Longrightarrow> k < 2 ^ 64 \<Longrightarrow> unat (word_of_int k :: 64 word) = nat k"
  by (simp add: unat_eq_nat_uint uint_word_of_int)

text \<open>The cutoff does not wrap around: it is the maximum less the lag, as natural numbers.\<close>

lemma doFilter_zero_lag:
  assumes lag: "0 \<le> blockHeightLagThreshold p" "blockHeightLagThreshold p < 2 ^ 63" and len: "length ps \<noteq> 1"
  shows "doFilterByBlockHeight p 0 ps = filter (\<lambda>q. case peer_height q of None \<Rightarrow> True
    | Some h \<Rightarrow> unat (getMaxBlockHeight ps) \<le> unat h + nat (blockHeightLagThreshold p)) ps"
proof -
  let ?m = "getMaxBlockHeight ps" and ?l = "word_of_int (blockHeightLagThreshold p) :: 64 word"
  have l: "unat ?l = nat (blockHeightLagThreshold p)" using lag by (simp add: unat_word_of_int)
  show ?thesis
  proof (cases "?m \<le> ?l")
    case True
    then have "unat ?m \<le> nat (blockHeightLagThreshold p)" by (simp add: word_le_nat_alt l)
    then have all: "case peer_height q of None \<Rightarrow> True
        | Some h \<Rightarrow> unat ?m \<le> unat h + nat (blockHeightLagThreshold p)" for q by (simp split: option.split)
    have "doFilterByBlockHeight p 0 ps = ps" using True by (simp add: doFilterByBlockHeight_def Let_def)
    then show ?thesis by (metis (mono_tags, lifting) all filter_True)
  next
    case False
    have "?m - ?l \<le> h \<longleftrightarrow> unat ?m \<le> unat h + unat ?l" for h
      using False by (auto simp: word_le_nat_alt unat_sub)
    then have "accepted (?m - ?l) = (\<lambda>q. case peer_height q of None \<Rightarrow> True
        | Some h \<Rightarrow> unat ?m \<le> unat h + nat (blockHeightLagThreshold p))"
      by (simp add: accepted_def fun_eq_iff l split: option.split)
    then show ?thesis using False lag len by (simp add: doFilterByBlockHeight_def Let_def not_le [symmetric])
  qed
qed


definition w_peers :: "peer list" where
  "w_peers = [mkPeer 0 ''grpc://p0'' ''Org1'' (Some 3), mkPeer 1 ''grpc://p1'' ''Org2'' (Some 9),
     mkPeer 2 ''grpc://p2'' ''Org2'' None, mkPeer 3 ''grpc://p3'' ''Org1'' (Some 8)]"

definition w_params :: mbh_params where
  "w_params = \<lparr>blockHeightLagThreshold = 2, reconnectBlockHeightLagThreshold = 4, minBlockHeight = 0\<rparr>"


section \<open>Disconnecting\<close>

lemma ShouldDisconnect_iff:
  assumes "0 \<le> reconnectBlockHeightLagThreshold p" "reconnectBlockHeightLagThreshold p < 2 ^ 63"
  shows "mbh_ShouldDisconnect p lastBlock ps c \<longleftrightarrow>
    (\<exists>h. peer_height c = Some h \<and> h \<le> lastBlock + 1
       \<and> unat (lastBlock + 1) + nat (reconnectBlockHeightLagThreshold p) < unat (getMaxBlockHeight ps))"
proof (cases "peer_height c")
  case (Some h)
  let ?t = "word_of_int (reconnectBlockHeightLagThreshold p) :: 64 word" and ?m = "getMaxBlockHeight ps"
  have t: "unat ?t = nat (reconnectBlockHeightLagThreshold p)" using assms by (simp add: unat_word_of_int)
  have "\<not> ?m \<le> ?t \<Longrightarrow> unat (?m - ?t) = unat ?m - unat ?t" by (simp add: unat_sub)
  then show ?thesis using Some t
    by (auto simp: mbh_ShouldDisconnect_def Let_def not_le not_less word_less_nat_alt word_le_nat_alt)
qed (simp add: mbh_ShouldDisconnect_def)

text \<open>
  the minimal-block-height resolver disconnects the client from a peer exactly when every block that
  the peer is known to have has been received and the number of received blocks lags behind the highest
  peer by more than the reconnect threshold; no wrap-around can change the decision.
\<close>
theorem disconnect_exact:
  assumes "0 \<le> reconnectBlockHeightLagThreshold p" "reconnectBlockHeightLagThreshold p < 2 ^ 63"
    and "lastBlock \<noteq> - 1"
  shows "mbh_ShouldDisconnect p lastBlock ps c \<longleftrightarrow>
    (\<exists>h. peer_height c = Some h \<and> unat h \<le> unat lastBlock + 1
       \<and> unat lastBlock + 1 + nat (reconnectBlockHeightLagThreshold p) < unat (getMaxBlockHeight ps))"
proof -
  have "unat (lastBlock + 1) = unat lastBlock + 1"
    using assms(3) unatSuc [of lastBlock] by (simp add: eq_neg_iff_add_eq_0 add.commute)
  then show ?thesis by (simp add: ShouldDisconnect_iff [OF assms(1,2)] word_le_nat_alt)
qed

theorem disconnect_exact_witness:
  "mbh_ShouldDisconnect w_params 3 w_peers (w_peers ! 0) \<and> \<not> mbh_ShouldDisconnect w_params 4 w_peers (w_peers ! 0)"
proof -
  have m: "getMaxBlockHeight w_peers = 9" "peer_height (w_peers ! 0) = Some 3"
    by (simp_all add: w_peers_def getMaxBlockHeight_def)
  have ne: "(3 :: 64 word) \<noteq> - 1" "(4 :: 64 word) \<noteq> - 1" by simp_all
  show ?thesis
    using disconnect_exact [of w_params 3 w_peers "w_peers ! 0"] disconnect_exact [of w_params 4 w_peers "w_peers ! 0"] m ne
    by (simp add: w_params_def)
qed

text \<open>
  setting the reconnect threshold to 0 does not disable the disconnection. With it, a client that has
  received every block its peer is known to have is disconnected as soon as any peer is one block
  higher.
\<close>
theorem reconnect_zero_disconnects:
  assumes "peer_height c = Some h" "h \<le> lastBlock + 1" "q \<in> set ps" "peer_height q = Some k" "lastBlock + 1 < k"
  shows "mbh_ShouldDisconnect (SetReconnectBlockHeightLagThreshold 0 p) lastBlock ps c"
proof -
  have "lastBlock + 1 < getMaxBlockHeight ps"
    using assms(5) getMaxBlockHeight_ge [OF assms(3,4)] by (rule less_le_trans)
  then show ?thesis using assms(1,2)
    by (subst ShouldDisconnect_iff) (simp_all add: SetReconnectBlockHeightLagThreshold_def word_less_nat_alt)
qed

theorem reconnect_zero_disconnects_witness:
  "mbh_ShouldDisconnect (SetReconnectBlockHeightLagThreshold 0 w_params) 7 w_peers (w_peers ! 3)"
  by (rule reconnect_zero_disconnects [where h = 8 and q = "w_peers ! 1" and k = 9]) (simp_all add: w_peers_def)

section \<open>Preferences\<close>

lemma org_Resolve_some:
  assumes "ps \<noteq> []"
  shows "\<exists>q s'. org_Resolve (GetBalancer b) p msp lastBlock r s ps = Ok (Some q, s') \<and> q \<in> set (mbh_Filter p lastBlock ps)
    \<and> ((\<exists>x \<in> set (mbh_Filter p lastBlock ps). peer_MSPID x = msp) \<longrightarrow> peer_MSPID q = msp)"
proof -
  let ?fs = "mbh_Filter p lastBlock ps" and ?os = "filter (\<lambda>q. peer_MSPID q = msp) (mbh_Filter p lastBlock ps)"
  show ?thesis
  proof (cases "?os = []")
    case True
    then show ?thesis using configured_chooser.pick_some [OF mbh_Filter_nonempty [OF assms], of b r s p lastBlock]
      by (auto simp: org_Resolve_def Let_def filter_empty_conv)
  next
    case False
    then show ?thesis using configured_chooser.pick_some [of ?os b r s] by (auto simp: org_Resolve_def Let_def)
  qed
qed

lemma pref_Resolve_some:
  assumes "ps \<noteq> []"
  shows "\<exists>q st'. pref_Resolve (GetBalancer b) (GetBalancer b') p pref msp lastBlock r st ps = Ok (Some q, st')
    \<and> q \<in> set (mbh_Filter p lastBlock ps)
    \<and> (if \<exists>x \<in> set (mbh_Filter p lastBlock ps). isPreferred pref x then isPreferred pref q
       else (\<exists>x \<in> set (mbh_Filter p lastBlock ps). peer_MSPID x = msp) \<longrightarrow> peer_MSPID q = msp)"
proof (cases "getPreferredPeers pref (mbh_Filter p lastBlock ps) = []")
  case True
  then have "\<not> (\<exists>x \<in> set (mbh_Filter p lastBlock ps). isPreferred pref x)"
    by (simp add: getPreferredPeers_def filter_empty_conv)
  then show ?thesis using org_Resolve_some [OF assms, of b' p msp lastBlock r "snd st"] True
    by (auto simp: pref_Resolve_def)
next
  case False
  then have "\<exists>x \<in> set (mbh_Filter p lastBlock ps). isPreferred pref x"
    by (auto simp: getPreferredPeers_def filter_empty_conv)
  then show ?thesis using configured_chooser.pick_some [OF False, of b r "fst st"] False
    by (auto simp: pref_Resolve_def getPreferredPeers_def)
qed

text \<open>
  from a list of peers that is not empty the prefer-peer resolver always chooses a peer that is at an
  acceptable height: one of the preferred peers if there is one among those, else one of the client's
  organization if there is one, whatever load balancers are configured.
\<close>
theorem preferences_in_order:
  assumes "ps \<noteq> []"
  shows "\<exists>q st'. pref_Resolve (GetBalancer b) (GetBalancer b') p pref msp lastBlock r st ps = Ok (Some q, st')
    \<and> q \<in> set (mbh_Filter p lastBlock ps)
    \<and> (if \<exists>x \<in> set (mbh_Filter p lastBlock ps). isPreferred pref x then isPreferred pref q
       else (\<exists>x \<in> set (mbh_Filter p lastBlock ps). peer_MSPID x = msp) \<longrightarrow> peer_MSPID q = msp)"
  using assms by (rule pref_Resolve_some)

theorem preferences_in_order_witness:
  "\<exists>q st'. pref_Resolve (GetBalancer ''RoundRobin'') (GetBalancer []) w_params [''p0''] ''Org2'' 5 7 (- 1, - 1) w_peers
     = Ok (Some q, st') \<and> q \<in> set (mbh_Filter w_params 5 w_peers)"
  using preferences_in_order [of w_peers "''RoundRobin''" "[]" w_params "[''p0'']" "''Org2''" 5 7 "(- 1, - 1)"]
  by (auto simp: w_peers_def)

text \<open>The peer that the filter accepts is not so far behind that it is to be disconnected.\<close>

lemma accepted_not_disconnected:
  assumes "minBlockHeight p = 0" "0 \<le> blockHeightLagThreshold p"
    and lt: "blockHeightLagThreshold p \<le> reconnectBlockHeightLagThreshold p" "reconnectBlockHeightLagThreshold p < 2 ^ 63"
    and q: "q \<in> set (mbh_Filter p lastBlock ps)"
  shows "\<not> mbh_ShouldDisconnect p lastBlock ps q"
proof
  assume "mbh_ShouldDisconnect p lastBlock ps q"
  then obtain h where h: "peer_height q = Some h" "h \<le> lastBlock + 1"
      "unat (lastBlock + 1) + nat (reconnectBlockHeightLagThreshold p) < unat (getMaxBlockHeight ps)"
    using assms by (subst (asm) ShouldDisconnect_iff) auto
  have "unat (getMaxBlockHeight ps) \<le> unat h + nat (blockHeightLagThreshold p)"
  proof (cases "length ps = 1")
    case True
    then have "ps = [q]" using mbh_Filter_subset [OF q] by (cases ps) auto
    then show ?thesis using h(1) by (auto simp: getMaxBlockHeight_def word_neq_0_conv)
  next
    case False
    then show ?thesis using q h(1) assms by (simp add: mbh_Filter_no_min doFilter_zero_lag)
  qed
  moreover have "unat h \<le> unat (lastBlock + 1)" using h(2) by (simp add: word_le_nat_alt)
  moreover have "nat (blockHeightLagThreshold p) \<le> nat (reconnectBlockHeightLagThreshold p)" using lt(1) by simp
  ultimately show False using h(3) by linarith
qed



section \<open>The greylist\<close>

text \<open>The error that greylists a peer: a failed connection of the endorser client, wrapped or not.\<close>

fun connection_failed :: "string \<Rightarrow> goerr \<Rightarrow> bool" where
  "connection_failed url (StatusErr g c m ds) =
    (g = EndorserClientStatus \<and> c = ConnectionFailed \<and> (\<exists>rest. ds = DStr url # rest))"
| "connection_failed url (WithMsg e m as) = connection_failed url e"
| "connection_failed url e = False"

lemma Greylist_wrap: "Greylist w now (Some (WithMsg e m as)) b = Greylist w now (Some e) b"
  by (simp add: Greylist_def FromError_wrap)

lemma Greylist_connection_failed:
  "connection_failed url e \<Longrightarrow> ToAddress url \<noteq> [] \<Longrightarrow>
    Greylist w now (Some e) b = b\<lparr>greylistURLs := (greylistURLs b)(ToAddress url \<mapsto> now)\<rparr>"
  by (induction e) (auto simp: Greylist_wrap, auto simp: Greylist_def greylist_required_def status_New_def
      peerURLFromConnectionFailedStatus_def)

text \<open>A sequence of questions to the greylist, each with the time at which it is asked.\<close>

primrec accept_all :: "(int \<times> peer) list \<Rightarrow> greylist \<Rightarrow> bool list \<times> greylist" where
  "accept_all [] b = ([], b)"
| "accept_all (q # qs) b =
    (case greylist_Accept (fst q) (snd q) b of (r, b') \<Rightarrow>
       case accept_all qs b' of (rs, b'') \<Rightarrow> (r # rs, b''))"

lemma Accept_answer:
  assumes "greylist_Accept now p b = (r, b')"
  shows "r = (case greylistURLs b (ToAddress (peer_URL p)) of None \<Rightarrow> True | Some t \<Rightarrow> \<not> now < t + expiryInterval b)"
    and "expiryInterval b' = expiryInterval b"
    and "greylistURLs b' a = (if a = ToAddress (peer_URL p) \<and> r then None else greylistURLs b a)"
  using assms by (auto simp: greylist_Accept_def Let_def split: option.splits if_splits)

lemma accept_all_answers:
  assumes "sorted (map fst qs)"
  shows "fst (accept_all qs b) = map (\<lambda>(now, p). case greylistURLs b (ToAddress (peer_URL p)) of
    None \<Rightarrow> True | Some t \<Rightarrow> \<not> now < t + expiryInterval b) qs"
  using assms
proof (induction qs arbitrary: b)
  case (Cons q qs)
  obtain r b' where r: "greylist_Accept (fst q) (snd q) b = (r, b')" by (rule prod.exhaust)
  have "(case greylistURLs b' (ToAddress (peer_URL p)) of None \<Rightarrow> True | Some t \<Rightarrow> \<not> now < t + expiryInterval b')
      = (case greylistURLs b (ToAddress (peer_URL p)) of None \<Rightarrow> True | Some t \<Rightarrow> \<not> now < t + expiryInterval b)"
    if "(now, p) \<in> set qs" for now p
  proof -
    have "fst q \<le> now" using Cons.prems that by (auto simp: image_iff)
    then show ?thesis using Accept_answer [OF r] by (auto split: option.splits if_splits)
  qed
  then show ?case using Cons Accept_answer(1) [OF r] r
    by (auto simp: case_prod_beta split: prod.split)
qed simp

text \<open>
  once an error says that the connection to a peer failed, at the time \<open>t0\<close>, the greylist filter
  rejects every peer of that address, whatever the scheme of its URL, at exactly the times before
  \<open>t0\<close> plus the expiry interval, in any sequence of questions at non-decreasing times; its answers
  about other addresses are what they were.
\<close>
theorem greylisted_until_expiry:
  assumes "connection_failed url e" "ToAddress url \<noteq> []" "sorted (map fst qs)"
  shows "fst (accept_all qs (Greylist w t0 (Some e) b)) = map (\<lambda>(now, p).
    if ToAddress (peer_URL p) = ToAddress url then t0 + expiryInterval b \<le> now
    else case greylistURLs b (ToAddress (peer_URL p)) of None \<Rightarrow> True | Some t \<Rightarrow> t + expiryInterval b \<le> now) qs"
  using assms by (auto simp: accept_all_answers Greylist_connection_failed split: option.split)

definition resolver_wire :: wire where
  "resolver_wire = \<lparr>w_grpc_name = (\<lambda>_. []), w_common_name = (\<lambda>_. []), w_txval_name = (\<lambda>_. []),
     w_SERVICE_UNAVAILABLE = 503, w_INTERNAL_SERVER_ERROR = 500, w_BAD_REQUEST = 400, w_NOT_FOUND = 404,
     w_DUPLICATE_TXID = 9, w_ENDORSEMENT_POLICY_FAILURE = 10, w_MVCC_READ_CONFLICT = 11,
     w_PHANTOM_READ_CONFLICT = 12, w_Unavailable = 14\<rparr>"

theorem greylisted_until_expiry_witness:
  "fst (accept_all [(12, w_peers ! 0), (14, w_peers ! 1), (15, w_peers ! 0), (16, w_peers ! 0)]
      (Greylist resolver_wire 5 (Some (WithMsg (StatusErr EndorserClientStatus ConnectionFailed ''x'' [DStr ''grpcs://p0'']) ''y'' []))
        (greylist_New 10))) = [False, True, True, True]"
  using greylisted_until_expiry [of "''grpcs://p0''"
      "WithMsg (StatusErr EndorserClientStatus ConnectionFailed ''x'' [DStr ''grpcs://p0'']) ''y'' []"
      "[(12, w_peers ! 0), (14, w_peers ! 1), (15, w_peers ! 0), (16, w_peers ! 0)]" resolver_wire 5 "greylist_New 10"]
  by (simp add: ToAddress_def trimPrefix_def greylist_New_def w_peers_def)

end
