(* ===== verification/Fabric_Selection.thy ===== *)
theory Fabric_Selection
  imports Peer_Resolvers Retry
begin

text \<open>
  The fabric selection service (pkg/client/common/selection/fabricselection/fabricselection.go), the
  part of the discovery client that it calls to choose the endorsers of a layout
  (internal/.../fabric-gm/discovery/client: client.go, selection.go) and how a discovery request to
  several targets collects its responses (pkg/fab/discovery/discovery.go).

  The iteration order of a Go map is the order of the list that stands for it; the random permutations
  are given by their draws; the peers' answers arrive in the order of the list of responses.
\<close>

section \<open>The discovery client: responses\<close>

record ChaincodeCall =
  cc_ID :: string
  cc_Collections :: "string list"

record endorsementDescriptor =
  endorsersByGroups :: "string \<rightharpoonup> endorser list"
  layouts :: "(string \<times> nat) list list"

datatype QueryType = ConfigQueryType | PeerMembershipQueryType | ChaincodeQueryType | LocalMembershipQueryType

text \<open>The entry of a response for a query: the values have the type \<open>interface{}\<close>.\<close>

datatype resultOrError = ErrResult goerr | EndorsersResult endorsementDescriptor | PeersResult "endorser list"

record key =
  k_queryType :: QueryType
  k_k :: string
  k_invocationChain :: string

record channelResponse =
  cr_response :: "key \<rightharpoonup> resultOrError"
  cr_channel :: string

definition ErrNotFound :: goerr where "ErrNotFound = errorNew ''not found''"

section \<open>The discovery client: choosing the endorsers of a layout\<close>

text \<open>A filter of endorsers has a state (the balancer's) and may panic.\<close>

type_synonym 's efilter = "'s \<Rightarrow> endorser list \<Rightarrow> (endorser list \<times> 's) outcome"

fun selectPeersForLayout :: "(string \<rightharpoonup> endorser list) \<Rightarrow> 's efilter \<Rightarrow> (string \<times> nat) list \<Rightarrow> endorser list \<Rightarrow> 's
    \<Rightarrow> (endorser list option \<times> 's) outcome" where
  "selectPeersForLayout byGroups f [] endorsers s = Ok (Some endorsers, s)"
| "selectPeersForLayout byGroups f ((grp, cnt) # layout) endorsers s =
    obind (f s (case byGroups grp of None \<Rightarrow> [] | Some es \<Rightarrow> es)) (\<lambda>(endorsersOfGrp, s').
      if length endorsersOfGrp < cnt then Ok (None, s')
      else selectPeersForLayout byGroups f layout (endorsers @ take cnt endorsersOfGrp) s')"

fun tryLayouts :: "(string \<rightharpoonup> endorser list) \<Rightarrow> 's efilter \<Rightarrow> (string \<times> nat) list list \<Rightarrow> 's
    \<Rightarrow> (endorser list res \<times> 's) outcome" where
  "tryLayouts byGroups f [] s = Ok (Inl (errorNew ''no endorsement combination can be satisfied''), s)"
| "tryLayouts byGroups f (layout # ls) s =
    obind (selectPeersForLayout byGroups f layout [] s) (\<lambda>(r, s'). case r of
       Some endorsers \<Rightarrow> Ok (Inr endorsers, s')
     | None \<Rightarrow> tryLayouts byGroups f ls s')"

text \<open>
  \<open>channelResponse.Endorsers\<close>: \<open>chain\<close> is the JSON text of the invocation chain and \<open>d\<close> draws the order
  of the layouts. A value of an unexpected type fails a type assertion.
\<close>

definition Endorsers :: "channelResponse \<Rightarrow> string \<Rightarrow> (nat \<Rightarrow> nat) \<Rightarrow> 's efilter \<Rightarrow> 's \<Rightarrow> (endorser list res \<times> 's) outcome" where
  "Endorsers cr chain d f s =
    (case cr_response cr \<lparr>k_queryType = ChaincodeQueryType, k_k = cr_channel cr, k_invocationChain = []\<rparr> of
       Some (ErrResult e) \<Rightarrow> Ok (Inl e, s)
     | Some _ \<Rightarrow> Panic
     | None \<Rightarrow>
        (case cr_response cr \<lparr>k_queryType = ChaincodeQueryType, k_k = cr_channel cr, k_invocationChain = chain\<rparr> of
           None \<Rightarrow> Ok (Inl ErrNotFound, s)
         | Some (EndorsersResult desc) \<Rightarrow>
             tryLayouts (endorsersByGroups desc) f
               (map (\<lambda>i. layouts desc ! i) (rand_Perm d (length (layouts desc)))) s
         | Some _ \<Rightarrow> Panic))"

text \<open>\<open>NoFilter\<close> shuffles, excludes nobody and sorts without priorities.\<close>

definition Shuffle :: "(nat \<Rightarrow> nat) \<Rightarrow> 'a list \<Rightarrow> 'a list" where
  "Shuffle d es = map (\<lambda>i. es ! i) (rand_Perm d (length es))"

definition NoFilter :: "(nat \<Rightarrow> nat) \<Rightarrow> 's efilter" where
  "NoFilter d s es = Ok (sort_by (\<lambda>x y. False) (Shuffle d es), s)"

text \<open>The peers of a channel response: the key joins the channel and the invocation chain.\<close>

definition parsePeers :: "QueryType \<Rightarrow> (key \<rightharpoonup> resultOrError) \<Rightarrow> string \<Rightarrow> string \<Rightarrow> endorser list res outcome" where
  "parsePeers qt r channel chain =
    (case r \<lparr>k_queryType = qt, k_k = Sprintf ''%s %s'' [FS channel, FS chain], k_invocationChain = []\<rparr> of
       None \<Rightarrow> Ok (Inl ErrNotFound)
     | Some (PeersResult ps) \<Rightarrow> Ok (Inr ps)
     | Some (ErrResult e) \<Rightarrow> Ok (Inl e)
     | Some _ \<Rightarrow> Panic)"

section \<open>A discovery request\<close>

record discResponse =
  rs_target :: string
  rs_Response :: "(key \<rightharpoonup> resultOrError) option"
  rs_err :: "goerr option"

definition isContextCanceled :: "wire \<Rightarrow> goerr \<Rightarrow> bool" where
  "isContextCanceled w err = sublist ''context canceled'' (errorText w err)"

text \<open>What the goroutine of \<open>Send\<close> puts on the channel for a target.\<close>

definition asResponse :: "wire \<Rightarrow> string \<times> (key \<rightharpoonup> resultOrError) res \<Rightarrow> discResponse" where
  "asResponse w t = (case snd t of
     Inl err \<Rightarrow>
       if \<not> isContextCanceled w err
       then \<lparr>rs_target = fst t, rs_Response = None, rs_err = Some (WithMsg err ''From target: %s'' [FS (fst t)])\<rparr>
       else \<lparr>rs_target = fst t, rs_Response = None, rs_err = None\<rparr>
   | Inr r \<Rightarrow> \<lparr>rs_target = fst t, rs_Response = Some r, rs_err = None\<rparr>)"

text \<open>The answers of the targets, in the order in which they arrive.\<close>

definition Send :: "wire \<Rightarrow> (string \<times> (key \<rightharpoonup> resultOrError) res) list \<Rightarrow> discResponse list res" where
  "Send w answers =
    (if length answers = 0 then Inl (errorNew ''no targets specified'') else Inr (map (asResponse w) answers))"

definition ForChannel :: "discResponse \<Rightarrow> string \<Rightarrow> channelResponse outcome" where
  "ForChannel r ch = (case rs_Response r of
     None \<Rightarrow> Panic | Some m \<Rightarrow> Ok \<lparr>cr_response = m, cr_channel = ch\<rparr>)"

section \<open>Querying the endorsers\<close>

definition IsTransient :: "wire \<Rightarrow> goerr \<Rightarrow> bool" where
  "IsTransient w e \<longleftrightarrow>
    sublist ''failed constructing descriptor for chaincodes'' (errorText w e)
    \<or> sublist ''no endorsement combination can be satisfied'' (errorText w e)"

definition IsAccessDenied :: "wire \<Rightarrow> goerr \<Rightarrow> bool" where
  "IsAccessDenied w e = sublist ''access denied'' (errorText w e)"

definition newDiscoveryError :: "goerr \<Rightarrow> goerr" where
  "newDiscoveryError err = DiscErr err"

text \<open>The two loops of \<open>query\<close>: over the responses and, if none is good, over the discovery errors.\<close>

fun query_responses :: "string \<Rightarrow> string \<Rightarrow> (nat \<Rightarrow> nat) \<Rightarrow> discResponse list \<Rightarrow> goerr list \<Rightarrow> goerr list
    \<Rightarrow> ((goerr list \<times> goerr list) + channelResponse) outcome" where
  "query_responses channelID chain d [] respErrors discErrs = Ok (Inl (respErrors, discErrs))"
| "query_responses channelID chain d (r # rs) respErrors discErrs =
    (case rs_err r of
       Some err \<Rightarrow> query_responses channelID chain d rs (respErrors @ [err]) discErrs
     | None \<Rightarrow> obind (ForChannel r channelID) (\<lambda>chResp.
         obind (Endorsers chResp chain d (NoFilter d) ()) (\<lambda>(e, _). case e of
           Inl err \<Rightarrow> query_responses channelID chain d rs respErrors (discErrs @ [newDiscoveryError err])
         | Inr _ \<Rightarrow> Ok (Inr chResp))))"

text \<open>The interface value may be nil (\<open>None\<close>): \<open>errors.Wrap\<close> of a nil error is nil.\<close>

fun query_errors :: "wire \<Rightarrow> goerr list \<Rightarrow> goerr list \<Rightarrow> channelResponse option res" where
  "query_errors w respErrors [] = (case multi_New (map Some respErrors) of
     None \<Rightarrow> Inr None
   | Some e \<Rightarrow> Inl (withMessage e ''no successful response received from any peer''))"
| "query_errors w respErrors (e # es) =
    (if IsTransient w e
     then Inl (asError (status_New DiscoveryServerStatus QueryEndorsers
       (Sprintf ''error received from Discovery Server: %s'' [FS (errorText w e)]) []))
     else query_errors w (respErrors @ [e]) es)"

definition query :: "wire \<Rightarrow> string \<Rightarrow> string \<Rightarrow> (nat \<Rightarrow> nat) \<Rightarrow> (string \<times> (key \<rightharpoonup> resultOrError) res) list
    \<Rightarrow> channelResponse option res outcome" where
  "query w channelID chain d answers = (case Send w answers of
     Inl err \<Rightarrow> Ok (Inl (withMessage err ''error calling discover service send for selection''))
   | Inr responses \<Rightarrow>
       obind (query_responses channelID chain d responses [] []) (\<lambda>r. case r of
         Inr chResp \<Rightarrow> Ok (Inr (Some chResp))
       | Inl (respErrors, discErrs) \<Rightarrow> Ok (query_errors w respErrors discErrs)))"

text \<open>
  Code that may panic as an invocation of the invoker: a panic leaves the loop with the value that
  stands for it.
\<close>

definition as_invocation :: "('w \<Rightarrow> ('v res \<times> 'w) outcome) \<Rightarrow> ('w, 'v outcome) Invocation" where
  "as_invocation m w = (case m w of
     Panic \<Rightarrow> (Inr Panic, w)
   | Blocked \<Rightarrow> (Inr Blocked, w)
   | Ok (Inl e, w') \<Rightarrow> (Inl e, w')
   | Ok (Inr v, w') \<Rightarrow> (Inr (Ok v), w'))"

text \<open>The invoker with a handler made by \<open>retry.New\<close>; \<open>None\<close> if it never returns.\<close>

definition invoke_retry :: "wire \<Rightarrow> 'f::{linorder,times} dur_conv \<Rightarrow> 'f Opts \<Rightarrow> ('w \<Rightarrow> ('v res \<times> 'w) outcome) \<Rightarrow> 'w
    \<Rightarrow> (('v res \<times> 'w) outcome) option" where
  "invoke_retry w cv opts m s =
    (case Invoke (Required w cv) None (as_invocation m) (retry_New w opts) s of
       None \<Rightarrow> None
     | Some (Inl e, _, s') \<Rightarrow> Some (Ok (Inl e, s'))
     | Some (Inr v, _, s') \<Rightarrow> Some (obind v (\<lambda>x. Ok (Inr x, s'))))"

text \<open>
  \<open>queryEndorsers\<close> with the targets chosen by \<open>getTargets\<close>. The world is the list of the answers that the
  further queries get, one entry per query.
\<close>

definition queryEndorsers :: "wire \<Rightarrow> 'f::{linorder,times} dur_conv \<Rightarrow> 'f Opts \<Rightarrow> string \<Rightarrow> string \<Rightarrow> (nat \<Rightarrow> nat)
    \<Rightarrow> string list res \<Rightarrow> (nat \<Rightarrow> (string \<times> (key \<rightharpoonup> resultOrError) res) list) \<Rightarrow> nat
    \<Rightarrow> ((channelResponse res \<times> nat) outcome) option" where
  "queryEndorsers w cv opts channelID chain d getTargets answers n = (case getTargets of
     Inl err \<Rightarrow> Some (Ok (Inl err, n))
   | Inr targets \<Rightarrow>
       if length targets = 0
       then Some (Ok (Inl (ErrorF ''no peers configured for channel [%s]'' [FS channelID]), n))
       else (case invoke_retry w cv opts
                (\<lambda>k. obind (query w channelID chain d (answers k)) (\<lambda>r. Ok (r, k + 1))) n of
          None \<Rightarrow> None
        | Some m \<Rightarrow> Some (obind m (\<lambda>(r, n'). case r of
            Inl err \<Rightarrow> Ok (Inl (newDiscoveryError err), n')
          | Inr None \<Rightarrow> Panic
          | Inr (Some chResponse) \<Rightarrow> Ok (Inr chResponse, n')))))"

section \<open>Getting the endorsers of a chaincode\<close>

text \<open>
  \<open>getEndorsers\<close>: the selection filter is called once per group, the \<open>k\<close>th call with the draws \<open>draws k\<close>.
\<close>

definition group_filter :: "(string \<Rightarrow> string option) \<Rightarrow> peer list \<Rightarrow> (peer \<Rightarrow> bool) option \<Rightarrow> 's balancer option
    \<Rightarrow> (nat \<Rightarrow> nat \<Rightarrow> nat) \<Rightarrow> (nat \<times> 's) efilter" where
  "group_filter peerConfig peers flt sorter draws = (\<lambda>(k, s) endorsers.
    obind (selection_Filter peerConfig peers flt sorter (draws k) s endorsers) (\<lambda>(es, s'). Ok (es, (k + 1, s'))))"

definition getEndorsers :: "wire \<Rightarrow> string \<Rightarrow> (string \<Rightarrow> string option) \<Rightarrow> string \<Rightarrow> channelResponse
    \<Rightarrow> (peer \<Rightarrow> bool) option \<Rightarrow> 's balancer option \<Rightarrow> (nat \<Rightarrow> nat) \<Rightarrow> (nat \<Rightarrow> nat \<Rightarrow> nat) \<Rightarrow> peer list res
    \<Rightarrow> nat \<times> 's \<Rightarrow> (endorser list res \<times> (nat \<times> 's)) outcome" where
  "getEndorsers w channelID peerConfig chain chResponse flt sorter d draws getPeers s = (case getPeers of
     Inl err \<Rightarrow> Ok (Inl (WithMsg err ''error getting peers from discovery service for channel [%s]'' [FS channelID]), s)
   | Inr peers \<Rightarrow>
       obind (Endorsers chResponse chain d (group_filter peerConfig peers flt sorter draws) s) (\<lambda>(r, s'). case r of
         Inl err \<Rightarrow>
           if IsTransient w (newDiscoveryError err)
           then Ok (Inl (asError (status_New DiscoveryServerStatus QueryEndorsers
               (Sprintf ''error getting endorsers: %s'' [FS (errorText w err)]) [])), s')
           else Ok (Inl err, s')
       | Inr endpoints \<Rightarrow> Ok (Inr endpoints, s')))"

text \<open>\<open>asPeers\<close> skips the endorsers for which no peer can be created.\<close>

definition asPeers :: "(endorser \<Rightarrow> peer res) \<Rightarrow> endorser list \<Rightarrow> peer list" where
  "asPeers createPeer endpoints = concat (map (\<lambda>e. case createPeer e of Inl _ \<Rightarrow> [] | Inr p \<Rightarrow> [p]) endpoints)"

text \<open>
  The world of the retries of \<open>getEndorsers\<close>: the number of calls so far, which selects what the
  discovery service answers, and the state of the sorter.
\<close>

definition GetEndorsersForChaincode :: "wire \<Rightarrow> 'f::{linorder,times} dur_conv \<Rightarrow> 'f Opts \<Rightarrow> string
    \<Rightarrow> (string \<Rightarrow> string option) \<Rightarrow> (endorser \<Rightarrow> peer res) \<Rightarrow> (ChaincodeCall list \<Rightarrow> string) \<Rightarrow> bool
    \<Rightarrow> (ChaincodeCall list \<Rightarrow> channelResponse res) \<Rightarrow> 's balancer \<Rightarrow> (peer \<Rightarrow> bool) option \<Rightarrow> 's balancer option
    \<Rightarrow> (nat \<Rightarrow> nat) \<Rightarrow> (nat \<Rightarrow> nat \<Rightarrow> nat) \<Rightarrow> (nat \<Rightarrow> peer list res) \<Rightarrow> ChaincodeCall list \<Rightarrow> nat \<times> nat \<times> 's
    \<Rightarrow> ((peer list res \<times> (nat \<times> nat \<times> 's)) outcome) option" where
  "GetEndorsersForChaincode w cv retryOpts channelID peerConfig createPeer json closed getChannelResponse
      defaultSorter flt sorter d draws getPeers chaincodes st =
    (if closed then Some (Ok (Inl (ErrorF ''Selection service has been closed'' []), st))
     else if length chaincodes = 0 then Some (Ok (Inl (errorNew ''no chaincode IDs provided''), st))
     else let peerSorter = (case sorter of None \<Rightarrow> defaultSorter | Some f \<Rightarrow> f)
       in case getChannelResponse chaincodes of
          Inl err \<Rightarrow> Some (Ok (Inl (WithMsg err ''error getting channel response for channel [%s]'' [FS channelID]), st))
        | Inr chResponse \<Rightarrow>
           (case invoke_retry w cv retryOpts (\<lambda>(n, s).
                obind (getEndorsers w channelID peerConfig (json chaincodes) chResponse flt (Some peerSorter) d draws
                    (getPeers n) s) (\<lambda>(r, s'). Ok (r, (n + 1, s')))) st of
              None \<Rightarrow> None
            | Some m \<Rightarrow> Some (obind m (\<lambda>(r, st'). case r of
                Inl err \<Rightarrow> Ok (Inl err, st')
              | Inr endpoints \<Rightarrow> Ok (Inr (asPeers createPeer endpoints), st')))))"

end
