(* ===== verification/Selection_Theorems.thy ===== *)
theory Selection_Theorems
  imports Fabric_Selection
begin

text \<open>
  What the selection of endorsers guarantees: the sorter by block height returns every peer, the
  up-to-date ones first; the selection filter returns exactly the acceptable endorsers of a group; the
  endorsers that the discovery client chooses satisfy one of the layouts, and there are none only if no
  layout can be satisfied; where the selection panics; and what a query to several targets returns.
\<close>

section \<open>Sorters\<close>

text \<open>A sorter returns a permutation of every list, the empty one included.\<close>

locale peer_sorter =
  fixes sorter :: "'s balancer" and good :: "'s \<Rightarrow> bool"
  assumes sorter_perm: "good s \<Longrightarrow> \<exists>qs s'. sorter d s ps = Ok (qs, s') \<and> good s' \<and> mset qs = mset ps"

lemma mset_partition: "mset (filter P xs) + mset (filter (\<lambda>x. \<not> P x) xs) = mset xs"
  by (induction xs) simp_all

lemma preferred_nonempty:
  assumes "\<not> getMaxBlockHeight ps \<le> l"
  shows "filter (accepted (getMaxBlockHeight ps - l)) ps \<noteq> []"
proof -
  have "0 < getMaxBlockHeight ps" "getMaxBlockHeight ps - l \<le> getMaxBlockHeight ps"
    using assms order.strict_trans1 [of 0 l "getMaxBlockHeight ps"]
    by (simp_all add: not_le word_sub_le order.strict_implies_order)
  from max_height_accepted [OF this] show ?thesis by (auto simp: filter_empty_conv)
qed

context peer_balancer
begin

lemma blockheight_Sort_perm:
  assumes "good s"
  shows "\<exists>qs s'. blockheight_Sort lag bal d s ps = Ok (qs, s') \<and> good s' \<and> mset qs = mset ps"
proof -
  let ?l = "word_of_int lag :: 64 word"
  have bal: "ps \<noteq> [] \<Longrightarrow> \<exists>qs s'. bal d s ps = Ok (qs, s') \<and> good s' \<and> mset qs = mset ps" for ps
    by (rule bal_perm [OF assms])
  show ?thesis
  proof (cases "length ps \<le> 1 \<or> lag < 0 \<or> getMaxBlockHeight ps \<le> ?l")
    case True
    show ?thesis
    proof (cases "length ps \<le> 1")
      case False
      then have "ps \<noteq> []" by auto
      then show ?thesis using True False bal [of ps] by (auto simp: blockheight_Sort_def Let_def)
    qed (use assms in \<open>simp add: blockheight_Sort_def\<close>)
  next
    case False
    then obtain qs s' where "bal d s (filter (accepted (getMaxBlockHeight ps - ?l)) ps) = Ok (qs, s')" "good s'"
        "mset qs = mset (filter (accepted (getMaxBlockHeight ps - ?l)) ps)"
      using bal [OF preferred_nonempty] by blast
    then show ?thesis using False
      by (simp add: blockheight_Sort_def mset_partition [of "accepted (getMaxBlockHeight ps - ?l)" ps]
          del: mset_filter)
  qed
qed

lemma blockheight_Sort_order:
  assumes "good s" "0 \<le> lag" "lag < 2 ^ 63" "2 \<le> length ps"
    and res: "blockheight_Sort lag bal d s ps = Ok (qs, s')"
  shows "\<exists>ups others. qs = ups @ others
    \<and> mset ups = mset (filter (\<lambda>p. case peer_height p of None \<Rightarrow> True
        | Some h \<Rightarrow> unat (getMaxBlockHeight ps) \<le> unat h + nat lag) ps)
    \<and> (\<forall>p \<in> set others. peer_height p \<noteq> None)
    \<and> sorted_wrt (\<lambda>p q. the (peer_height q) \<le> the (peer_height p)) others"
proof -
  let ?l = "word_of_int lag :: 64 word" and ?m = "getMaxBlockHeight ps"
  let ?P = "\<lambda>p. case peer_height p of None \<Rightarrow> True | Some h \<Rightarrow> unat ?m \<le> unat h + nat lag"
  have l: "unat ?l = nat lag" using assms by (simp add: unat_eq_nat_uint uint_word_of_int)
  have ne: "ps \<noteq> []" using assms(4) by auto
  show ?thesis
  proof (cases "?m \<le> ?l")
    case True
    then have "?P p" for p by (simp add: word_le_nat_alt l split: option.split)
    then have "filter ?P ps = ps" by (metis (mono_tags, lifting) filter_True)
    moreover have "mset qs = mset ps"
      using True res assms bal_perm [OF assms(1) ne, of d] by (auto simp: blockheight_Sort_def)
    ultimately show ?thesis by (intro exI [of _ qs] exI [of _ "[]"]) simp
  next
    case False
    then have P: "accepted (?m - ?l) = ?P"
      by (auto simp: accepted_def fun_eq_iff word_le_nat_alt unat_sub l split: option.split)
    obtain ups s1 where ups: "bal d s (filter ?P ps) = Ok (ups, s1)" "mset ups = mset (filter ?P ps)"
      using bal_perm [OF assms(1) preferred_nonempty [OF False], of d] P by auto
    let ?os = "filter (\<lambda>p. \<not> ?P p) ps"
    have qs: "qs = ups @ sort_by (\<lambda>p q. Less q p) ?os"
      using res ups False assms P by (simp add: blockheight_Sort_def)
    have heights: "\<forall>p \<in> set ?os. peer_height p \<noteq> None" by (auto split: option.splits)
    then have "sorted_wrt (\<lambda>p q. the (peer_height q) \<le> the (peer_height p)) (sort_by (\<lambda>p q. Less q p) ?os)"
      by (intro sort_by_height) blast
    then show ?thesis using ups qs heights by (intro exI [of _ ups] exI [of _ "sort_by (\<lambda>p q. Less q p) ?os"]) simp
  qed
qed

end

sublocale peer_balancer \<subseteq> by_height: peer_sorter "blockheight_Sort lag bal" good for lag
  by unfold_locales (rule blockheight_Sort_perm)

interpretation configured_balancer: peer_balancer "resolveBalancer policy" "\<lambda>c. - 1 \<le> c"
proof unfold_locales
  fix s :: int and ps :: "peer list" and d
  assume "- 1 \<le> s" "ps \<noteq> []"
  then show "\<exists>qs s'. resolveBalancer policy d s ps = Ok (qs, s') \<and> - 1 \<le> s' \<and> mset qs = mset ps"
    using round_robin_balancer.bal_perm by (simp add: resolveBalancer_def balancer_Random_def map_nth_perm [OF rand_Perm_mset] del: mset_map)
qed

text \<open>
  the default sorter of the fabric selection service (by block height) loses no peer and puts
  first, in the balancer's order, the peers that lag behind the highest one by at most 5 blocks, then
  the others in descending order of height. The threshold is 5 whatever threshold the selection
  policy of the channel configures.
\<close>
theorem block_height_priority:
  assumes "SortingStrategy policy \<noteq> ''Balanced''" "- 1 \<le> c" "2 \<le> length ps"
  shows "\<exists>ups others c'. resolvePeerSorter policy d c ps = Ok (ups @ others, c') \<and> mset (ups @ others) = mset ps
    \<and> mset ups = mset (filter (\<lambda>p. case peer_height p of None \<Rightarrow> True
        | Some h \<Rightarrow> unat (getMaxBlockHeight ps) \<le> unat h + 5) ps)
    \<and> (\<forall>p \<in> set others. peer_height p \<noteq> None)
    \<and> sorted_wrt (\<lambda>p q. the (peer_height q) \<le> the (peer_height p)) others"
proof -
  have sorter: "resolvePeerSorter policy = blockheight_Sort 5 (resolveBalancer policy)"
    using assms(1) by (simp add: resolvePeerSorter_def resolveSortingStrategy_def)
  obtain qs c' where qs: "blockheight_Sort 5 (resolveBalancer policy) d c ps = Ok (qs, c')" "mset qs = mset ps"
    using configured_balancer.blockheight_Sort_perm [OF assms(2)] by blast
  obtain ups others where "qs = ups @ others"
      "mset ups = mset (filter (\<lambda>p. case peer_height p of None \<Rightarrow> True
          | Some h \<Rightarrow> unat (getMaxBlockHeight ps) \<le> unat h + nat 5) ps)"
      "\<forall>p \<in> set others. peer_height p \<noteq> None"
      "sorted_wrt (\<lambda>p q. the (peer_height q) \<le> the (peer_height p)) others"
    using configured_balancer.blockheight_Sort_order [OF assms(2) _ _ assms(3) qs(1)] by auto
  then show ?thesis using qs unfolding sorter nat_numeral by blast
qed

definition w_policy :: SelectionPolicy where
  "w_policy = \<lparr>SortingStrategy = [], pol_Balancer = ''RoundRobin'', pol_BlockHeightLagThreshold = 0\<rparr>"

definition w_heights :: "peer list" where
  "w_heights = [mkPeer 0 ''a'' ''O'' (Some 2), mkPeer 1 ''b'' ''O'' (Some 15), mkPeer 2 ''c'' ''O'' (Some 20),
     mkPeer 3 ''d'' ''O'' (Some 7)]"

theorem block_height_priority_witness:
  "\<exists>ups others c'. resolvePeerSorter w_policy (\<lambda>_. 1) (- 1) w_heights = Ok (ups @ others, c')
     \<and> mset (map peer_ref ups) = {#1, 2#}"
proof -
  have m: "getMaxBlockHeight w_heights = 20" by (simp add: w_heights_def getMaxBlockHeight_def)
  have "\<exists>ups others c'. resolvePeerSorter w_policy (\<lambda>_. 1) (- 1) w_heights = Ok (ups @ others, c')
      \<and> mset (ups @ others) = mset w_heights
      \<and> mset ups = mset (filter (\<lambda>p. case peer_height p of None \<Rightarrow> True
          | Some h \<Rightarrow> unat (getMaxBlockHeight w_heights) \<le> unat h + 5) w_heights)
      \<and> (\<forall>p \<in> set others. peer_height p \<noteq> None)
      \<and> sorted_wrt (\<lambda>p q. the (peer_height q) \<le> the (peer_height p)) others"
    by (rule block_height_priority) (simp_all add: w_policy_def w_heights_def)
  then obtain ups others c' where
      "resolvePeerSorter w_policy (\<lambda>_. 1) (- 1) w_heights = Ok (ups @ others, c')"
      "mset ups = mset (filter (\<lambda>p. case peer_height p of None \<Rightarrow> True
          | Some h \<Rightarrow> unat (getMaxBlockHeight w_heights) \<le> unat h + 5) w_heights)"
    by blast
  moreover from this(2) [unfolded m] have "mset (map peer_ref ups) = {#1, 2#}"
    by (simp add: w_heights_def)
  ultimately show ?thesis by blast
qed

section \<open>The selection filter\<close>

definition endorser_url :: "(string \<Rightarrow> string option) \<Rightarrow> endorser \<Rightarrow> string" where
  "endorser_url cfg e = (case cfg (en_Endpoint e) of Some u \<Rightarrow> u | None \<Rightarrow> en_Endpoint e)"

lemma url_of_value: "peer_URL (asPeerValue cfg r e) = endorser_url cfg e"
  by (simp add: asPeerValue_def endorser_url_def)

text \<open>The endorsers that the discovery service knows and the caller's filter accepts.\<close>

definition acceptable :: "(string \<Rightarrow> string option) \<Rightarrow> peer list \<Rightarrow> (peer \<Rightarrow> bool) option \<Rightarrow> endorser list \<Rightarrow> endorser list" where
  "acceptable cfg discovered flt es = map snd (filter
     (\<lambda>(r, e). containsPeer discovered (asPeerValue cfg r e)
        \<and> (case flt of None \<Rightarrow> True | Some f \<Rightarrow> f (asPeerValue cfg r e))) (zip [0..<length es] es))"

lemma asEndorser_value:
  "distinct (map (endorser_url cfg) es) \<Longrightarrow> e \<in> set es \<Longrightarrow> asEndorser cfg es (asPeerValue cfg r e) = Some e"
  by (induction es) (auto simp: asEndorser_def url_of_value image_iff)

lemma asEndorsers_mset:
  assumes "distinct (map (endorser_url cfg) es)" "mset ps = mset (map (\<lambda>(r, e). asPeerValue cfg r e) vs)" "snd ` set vs \<subseteq> set es"
  shows "mset (asEndorsers cfg es ps) = mset (map snd vs)"
proof -
  let ?g = "\<lambda>p. case asEndorser cfg es p of None \<Rightarrow> [] | Some e \<Rightarrow> [e]"
  have "mset (asEndorsers cfg es ps) = (\<Sum>p \<in># mset ps. mset (?g p))"
    by (simp add: asEndorsers_def mset_concat o_def flip: sum_mset_sum_list)
  also have "\<dots> = (\<Sum>v \<in># mset vs. mset (?g (asPeerValue cfg (fst v) (snd v))))"
    by (simp add: assms(2) case_prod_beta image_mset.compositionality o_def)
  also have "\<dots> = (\<Sum>v \<in># mset vs. {#snd v#})"
    using assms(1,3) by (intro arg_cong [of _ _ sum_mset] image_mset_cong) (auto simp: asEndorser_value)
  finally show ?thesis by simp
qed

abbreviation accepted_values :: "(string \<Rightarrow> string option) \<Rightarrow> peer list \<Rightarrow> (peer \<Rightarrow> bool) option \<Rightarrow> endorser list
    \<Rightarrow> (nat \<times> endorser) list" where
  "accepted_values cfg discovered flt es \<equiv> filter (\<lambda>(r, e). containsPeer discovered (asPeerValue cfg r e)
      \<and> (case flt of None \<Rightarrow> True | Some f \<Rightarrow> f (asPeerValue cfg r e))) (zip [0..<length es] es)"

abbreviation filtered_peers :: "(string \<Rightarrow> string option) \<Rightarrow> peer list \<Rightarrow> (peer \<Rightarrow> bool) option \<Rightarrow> endorser list \<Rightarrow> peer list" where
  "filtered_peers cfg discovered flt es \<equiv> filterPeers (Some (case flt of None \<Rightarrow> (\<lambda>p. True) | Some f \<Rightarrow> f))
    (filterDiscovered discovered (sortByURL (asPeerValues cfg es)))"

lemma filtered_peers_mset:
  "mset (filtered_peers cfg discovered flt es) =
     mset (map (\<lambda>(r, e). asPeerValue cfg r e) (accepted_values cfg discovered flt es))"
  by (cases flt) (simp_all add: filterPeers_def filterDiscovered_def sortByURL_def asPeerValues_def filter_mset_image_mset
      filter_filter_mset conj_commute case_prod_beta)

lemma selection_Filter_acceptable:
  assumes dist: "distinct (map (endorser_url cfg) es)"
    and sorter: "\<And>ps. \<exists>qs s'. sorter d s ps = Ok (qs, s') \<and> P s' \<and> mset qs = mset ps"
  shows "\<exists>rs s'. selection_Filter cfg discovered flt (Some sorter) d s es = Ok (rs, s') \<and> P s'
    \<and> mset rs = mset (acceptable cfg discovered flt es)"
proof -
  let ?ps = "filtered_peers cfg discovered flt es"
  obtain qs s' where qs: "sorter d s ?ps = Ok (qs, s')" "P s'" "mset qs = mset ?ps" using sorter [of ?ps] by blast
  have "mset (asEndorsers cfg es qs) = mset (map snd (accepted_values cfg discovered flt es))"
    by (rule asEndorsers_mset [OF dist]) (use qs(3) filtered_peers_mset in \<open>auto dest: set_zip_rightD\<close>)
  then show ?thesis using qs
    by (simp add: selection_Filter_def sortPeers_def acceptable_def Let_def)
qed

section \<open>Choosing the endorsers of a layout\<close>

text \<open>
  What the discovery client needs of a filter: on the groups in \<open>ok\<close> it returns a permutation of the
  acceptable endorsers of the group.
\<close>

locale group_chooser =
  fixes f :: "'s efilter" and ok :: "endorser list \<Rightarrow> bool" and acc :: "endorser list \<Rightarrow> endorser list" and good :: "'s \<Rightarrow> bool"
  assumes choose_group: "good s \<Longrightarrow> ok g \<Longrightarrow> \<exists>es s'. f s g = Ok (es, s') \<and> good s' \<and> mset es = mset (acc g)"

definition members :: "(string \<rightharpoonup> endorser list) \<Rightarrow> string \<Rightarrow> endorser list" where
  "members byGroups grp = (case byGroups grp of None \<Rightarrow> [] | Some es \<Rightarrow> es)"

text \<open>Every group of the layout has enough acceptable endorsers.\<close>

definition layout_met :: "(endorser list \<Rightarrow> endorser list) \<Rightarrow> (string \<rightharpoonup> endorser list) \<Rightarrow> (string \<times> nat) list \<Rightarrow> bool" where
  "layout_met acc byGroups layout \<longleftrightarrow> (\<forall>(grp, n) \<in> set layout. n \<le> length (acc (members byGroups grp)))"

text \<open>The endorsers consist of exactly as many acceptable ones of every group as the layout says.\<close>

definition layout_choice :: "(endorser list \<Rightarrow> endorser list) \<Rightarrow> (string \<rightharpoonup> endorser list) \<Rightarrow> (string \<times> nat) list
    \<Rightarrow> endorser list \<Rightarrow> bool" where
  "layout_choice acc byGroups layout es \<longleftrightarrow> (\<exists>chosen. es = concat chosen
    \<and> list_all2 (\<lambda>(grp, n) c. length c = n \<and> mset c \<subseteq># mset (acc (members byGroups grp))) layout chosen)"

lemma layout_choice_Cons:
  assumes "length c = n" "mset c \<subseteq># mset (acc (members byGroups grp))" "layout_choice acc byGroups layout es"
  shows "layout_choice acc byGroups ((grp, n) # layout) (c @ es)"
proof -
  obtain chosen where "es = concat chosen"
      "list_all2 (\<lambda>(grp, n) c. length c = n \<and> mset c \<subseteq># mset (acc (members byGroups grp))) layout chosen"
    using assms(3) by (auto simp: layout_choice_def)
  then show ?thesis using assms(1,2) unfolding layout_choice_def by (intro exI [of _ "c # chosen"]) simp
qed

lemma layout_choice_met: "layout_choice acc byGroups layout es \<Longrightarrow> layout_met acc byGroups layout"
proof -
  assume "layout_choice acc byGroups layout es"
  then obtain chosen where
      "list_all2 (\<lambda>(grp, n) c. length c = n \<and> mset c \<subseteq># mset (acc (members byGroups grp))) layout chosen"
    by (auto simp: layout_choice_def)
  then show ?thesis
    by (induction rule: list_all2_induct) (auto simp: layout_met_def dest: size_mset_mono)
qed

lemma take_subset_mset: "mset es = mset xs \<Longrightarrow> mset (take n es) \<subseteq># mset xs"
  by (metis append_take_drop_id mset_append mset_subset_eq_add_left)

context group_chooser
begin

lemma selectPeers_layout:
  assumes "good s" "\<And>grp. ok (members byGroups grp)"
  shows "\<exists>r s'. selectPeersForLayout byGroups f layout es0 s = Ok (r, s') \<and> good s'
    \<and> (case r of None \<Rightarrow> \<not> layout_met acc byGroups layout
        | Some es \<Rightarrow> \<exists>es'. es = es0 @ es' \<and> layout_choice acc byGroups layout es')"
  using assms(1)
proof (induction layout arbitrary: es0 s)
  case Nil
  then show ?case by (force simp: layout_choice_def)
next
  case (Cons gn layout)
  obtain grp n where gn: "gn = (grp, n)" by (cases gn)
  obtain es s1 where es: "f s (members byGroups grp) = Ok (es, s1)" "good s1" "mset es = mset (acc (members byGroups grp))"
    using choose_group [OF Cons.prems assms(2)] by blast
  have len: "length es = length (acc (members byGroups grp))" using es(3) by (rule mset_eq_length)
  note f_es = es(1) [unfolded members_def]
  show ?case
  proof (cases "length es < n")
    case True
    then show ?thesis using f_es es(2) len gn by (auto simp: layout_met_def)
  next
    case False
    obtain r s2 where r: "selectPeersForLayout byGroups f layout (es0 @ take n es) s1 = Ok (r, s2)" "good s2"
        "case r of None \<Rightarrow> \<not> layout_met acc byGroups layout
          | Some es' \<Rightarrow> \<exists>es''. es' = (es0 @ take n es) @ es'' \<and> layout_choice acc byGroups layout es''"
      using Cons.IH [OF es(2), of "es0 @ take n es"] by blast
    have "layout_choice acc byGroups layout es'' \<Longrightarrow> layout_choice acc byGroups (gn # layout) (take n es @ es'')" for es''
      using False gn by (simp add: layout_choice_Cons take_subset_mset [OF es(3)])
    moreover have "\<not> layout_met acc byGroups layout \<Longrightarrow> \<not> layout_met acc byGroups (gn # layout)"
      by (auto simp: layout_met_def)
    ultimately show ?thesis using f_es r False gn by (force split: option.splits)
  qed
qed

lemma tryLayouts_result:
  assumes "good s" "\<And>grp. ok (members byGroups grp)"
  shows "\<exists>r s'. tryLayouts byGroups f ls s = Ok (r, s') \<and> good s'
    \<and> (case r of Inl e \<Rightarrow> e = errorNew ''no endorsement combination can be satisfied''
            \<and> (\<forall>l \<in> set ls. \<not> layout_met acc byGroups l)
        | Inr es \<Rightarrow> \<exists>l \<in> set ls. layout_choice acc byGroups l es)"
  using assms(1)
proof (induction ls arbitrary: s)
  case (Cons l ls)
  obtain r s1 where r: "selectPeersForLayout byGroups f l [] s = Ok (r, s1)" "good s1"
      "case r of None \<Rightarrow> \<not> layout_met acc byGroups l | Some es \<Rightarrow> \<exists>es'. es = [] @ es' \<and> layout_choice acc byGroups l es'"
    using selectPeers_layout [OF Cons.prems assms(2)] by blast
  show ?case
  proof (cases r)
    case None
    then show ?thesis using r Cons.IH [OF r(2)] by (fastforce split: sum.splits)
  qed (use r in auto)
qed simp

end

text \<open>The sorters that never panic: all but the plain round-robin one.\<close>

definition total_sorter :: "SelectionPolicy \<Rightarrow> bool" where
  "total_sorter policy \<longleftrightarrow> SortingStrategy policy \<noteq> ''Balanced'' \<or> pol_Balancer policy = ''Random''"

interpretation configured_sorter: peer_sorter "resolvePeerSorter policy" "\<lambda>c. total_sorter policy \<and> - 1 \<le> c"
proof unfold_locales
  fix s :: int and ps :: "peer list" and d
  assume s: "total_sorter policy \<and> - 1 \<le> s"
  show "\<exists>qs s'. resolvePeerSorter policy d s ps = Ok (qs, s') \<and> (total_sorter policy \<and> - 1 \<le> s') \<and> mset qs = mset ps"
  proof (cases "SortingStrategy policy = ''Balanced''")
    case True
    then show ?thesis using s
      by (simp add: resolvePeerSorter_def resolveSortingStrategy_def resolveBalancer_def balanced_Sort_def total_sorter_def
          balancer_Random_def map_nth_perm [OF rand_Perm_mset] del: mset_map)
  next
    case False
    then show ?thesis using s configured_balancer.blockheight_Sort_perm [OF conjunct2 [OF s]]
      by (simp add: resolvePeerSorter_def resolveSortingStrategy_def)
  qed
qed

interpretation configured_filter: group_chooser
  "group_filter cfg peers flt (Some (resolvePeerSorter policy)) draws"
  "\<lambda>es. distinct (map (endorser_url cfg) es)" "acceptable cfg peers flt"
  "\<lambda>(k, c). total_sorter policy \<and> - 1 \<le> c"
proof unfold_locales
  fix s :: "nat \<times> int" and g :: "endorser list"
  assume s: "case s of (k, c) \<Rightarrow> total_sorter policy \<and> - 1 \<le> c" and g: "distinct (map (endorser_url cfg) g)"
  obtain k c where kc: "s = (k, c)" by (cases s)
  have sorter: "\<exists>qs s'. resolvePeerSorter policy (draws k) c ps = Ok (qs, s') \<and> (total_sorter policy \<and> - 1 \<le> s')
      \<and> mset qs = mset ps" for ps
    using s kc by (intro configured_sorter.sorter_perm) simp
  have "\<exists>rs s'. selection_Filter cfg peers flt (Some (resolvePeerSorter policy)) (draws k) c g = Ok (rs, s')
      \<and> (total_sorter policy \<and> - 1 \<le> s') \<and> mset rs = mset (acceptable cfg peers flt g)"
    by (rule selection_Filter_acceptable [OF g]) (rule sorter)
  then show "\<exists>es s'. group_filter cfg peers flt (Some (resolvePeerSorter policy)) draws s g = Ok (es, s')
      \<and> (case s' of (k, c) \<Rightarrow> total_sorter policy \<and> - 1 \<le> c) \<and> mset es = mset (acceptable cfg peers flt g)"
    by (auto simp: group_filter_def kc)
qed

section \<open>Getting endorsers\<close>

lemma permuted_layouts: "set (map (\<lambda>i. ls ! i) (rand_Perm d (length ls))) = set ls"
  by (rule mset_eq_setD) (rule map_nth_perm [OF rand_Perm_mset])

lemma no_combination_transient:
  "IsTransient w (newDiscoveryError (errorNew ''no endorsement combination can be satisfied''))"
  by (simp add: IsTransient_def newDiscoveryError_def)

text \<open>
  C11: when the discovery service has answered the query for the endorsers of a chaincode with a response that
  describes them, in which the endorsers of a group have different URLs, and the sorter is not the
  round-robin balancer under the strategy ``Balanced'' (with a counter of at least -1), the service returns endorsers exactly when some layout can be met
  with endorsers that the discovery service knows and the filter accepts; they are then, group by group,
  as many acceptable endorsers of the group as that layout asks for. Otherwise it returns an error
  with the status that a retry can wait on.
\<close>
theorem endorsers_satisfy_layout:
  assumes "total_sorter policy" "- 1 \<le> c"
    and "cr_response cr \<lparr>k_queryType = ChaincodeQueryType, k_k = cr_channel cr, k_invocationChain = []\<rparr> = None"
    and "cr_response cr \<lparr>k_queryType = ChaincodeQueryType, k_k = cr_channel cr, k_invocationChain = chain\<rparr>
      = Some (EndorsersResult desc)"
    and dist: "\<And>grp. distinct (map (endorser_url cfg) (members (endorsersByGroups desc) grp))"
  shows "\<exists>r s'. getEndorsers w ch cfg chain cr flt (Some (resolvePeerSorter policy)) d draws (Inr peers) (k, c) = Ok (r, s')
    \<and> (case r of
         Inr es \<Rightarrow> \<exists>l \<in> set (layouts desc). layout_choice (acceptable cfg peers flt) (endorsersByGroups desc) l es
       | Inl e \<Rightarrow> (\<forall>l \<in> set (layouts desc). \<not> layout_met (acceptable cfg peers flt) (endorsersByGroups desc) l)
          \<and> (\<exists>m. e = StatusErr DiscoveryServerStatus QueryEndorsers m []))"
proof -
  let ?f = "group_filter cfg peers flt (Some (resolvePeerSorter policy)) draws"
  let ?ls = "map (\<lambda>i. layouts desc ! i) (rand_Perm d (length (layouts desc)))"
  obtain r s' where "tryLayouts (endorsersByGroups desc) ?f ?ls (k, c) = Ok (r, s')"
    and r: "case r of Inl e \<Rightarrow> e = errorNew ''no endorsement combination can be satisfied''
          \<and> (\<forall>l \<in> set ?ls. \<not> layout_met (acceptable cfg peers flt) (endorsersByGroups desc) l)
        | Inr es \<Rightarrow> \<exists>l \<in> set ?ls. layout_choice (acceptable cfg peers flt) (endorsersByGroups desc) l es"
    using configured_filter.tryLayouts_result [where s = "(k, c)" and policy = policy and flt = flt and peers = peers
      and draws = draws and ls = ?ls, OF _ dist] assms(1,2) by auto
  then have "Endorsers cr chain d ?f (k, c) = Ok (r, s')" using assms(3,4) by (simp add: Endorsers_def)
  then show ?thesis using r unfolding permuted_layouts
    by (cases r) (simp_all add: getEndorsers_def no_combination_transient asError_def status_New_def)
qed

definition w_endorser :: "string \<Rightarrow> endorser" where
  "w_endorser u = \<lparr>en_Endpoint = u, en_MSPID = ''Org1'', en_LedgerHeight = Some 4\<rparr>"

definition w_desc :: endorsementDescriptor where
  "w_desc = \<lparr>endorsersByGroups = [''G'' \<mapsto> [w_endorser ''a'', w_endorser ''b'']], layouts = [[(''G'', 1)]]\<rparr>"

definition w_response :: "channelResponse" where
  "w_response = \<lparr>cr_response = [\<lparr>k_queryType = ChaincodeQueryType, k_k = ''ch'', k_invocationChain = ''cc''\<rparr> \<mapsto>
     EndorsersResult w_desc], cr_channel = ''ch''\<rparr>"

definition selection_wire :: wire where
  "selection_wire = \<lparr>w_grpc_name = (\<lambda>_. []), w_common_name = (\<lambda>_. []), w_txval_name = (\<lambda>_. []),
     w_SERVICE_UNAVAILABLE = 503, w_INTERNAL_SERVER_ERROR = 500, w_BAD_REQUEST = 400, w_NOT_FOUND = 404,
     w_DUPLICATE_TXID = 9, w_ENDORSEMENT_POLICY_FAILURE = 10, w_MVCC_READ_CONFLICT = 11,
     w_PHANTOM_READ_CONFLICT = 12, w_Unavailable = 14\<rparr>"

theorem endorsers_satisfy_layout_witness:
  "\<exists>r s'. getEndorsers selection_wire ''ch'' (\<lambda>_. None) ''cc'' w_response None (Some (resolvePeerSorter w_policy)) id (\<lambda>_. id)
     (Inr [mkPeer 0 ''b'' ''Org1'' None]) (0, - 1) = Ok (r, s')
   \<and> (case r of Inr es \<Rightarrow> mset es = {#w_endorser ''b''#} | Inl e \<Rightarrow> False)"
proof -
  let ?acc = "acceptable (\<lambda>_. None) [mkPeer 0 ''b'' ''Org1'' None] None"
  have acc: "?acc (members (endorsersByGroups w_desc) ''G'') = [w_endorser ''b'']"
    by (simp add: acceptable_def members_def w_desc_def containsPeer_def asPeerValue_def w_endorser_def)
  have "\<exists>r s'. getEndorsers selection_wire ''ch'' (\<lambda>_. None) ''cc'' w_response None (Some (resolvePeerSorter w_policy)) id (\<lambda>_. id)
      (Inr [mkPeer 0 ''b'' ''Org1'' None]) (0, - 1) = Ok (r, s')
    \<and> (case r of
         Inr es \<Rightarrow> \<exists>l \<in> set (layouts w_desc). layout_choice ?acc (endorsersByGroups w_desc) l es
       | Inl e \<Rightarrow> (\<forall>l \<in> set (layouts w_desc). \<not> layout_met ?acc (endorsersByGroups w_desc) l)
          \<and> (\<exists>m. e = StatusErr DiscoveryServerStatus QueryEndorsers m []))"
    by (rule endorsers_satisfy_layout)
      (auto simp: total_sorter_def w_policy_def w_response_def members_def w_desc_def endorser_url_def w_endorser_def)
  moreover have "layout_met ?acc (endorsersByGroups w_desc) [(''G'', 1)]" by (simp add: layout_met_def acc)
  moreover have "layout_choice ?acc (endorsersByGroups w_desc) [(''G'', 1)] es \<Longrightarrow> mset es = {#w_endorser ''b''#}" for es
    by (auto simp: layout_choice_def acc list_all2_Cons1 length_Suc_conv)
  moreover have "layouts w_desc = [[(''G'', 1)]]" by (simp add: w_desc_def)
  ultimately show ?thesis by (force split: sum.splits)
qed

text \<open>
  with the sorting strategy "Balanced" and the round-robin balancer (the default one) the selection
  panics, instead of returning the error of the previous property, when the group of a layout has no
  acceptable endorser.
\<close>
theorem balanced_round_robin_panics:
  assumes "SortingStrategy policy = ''Balanced''" "pol_Balancer policy \<noteq> ''Random''"
    and "cr_response cr \<lparr>k_queryType = ChaincodeQueryType, k_k = cr_channel cr, k_invocationChain = []\<rparr> = None"
    and "cr_response cr \<lparr>k_queryType = ChaincodeQueryType, k_k = cr_channel cr, k_invocationChain = chain\<rparr>
      = Some (EndorsersResult desc)"
    and "layouts desc = [(grp, n) # layout]" "acceptable cfg peers flt (members (endorsersByGroups desc) grp) = []"
  shows "getEndorsers w ch cfg chain cr flt (Some (resolvePeerSorter policy)) d draws (Inr peers) s = Panic"
proof -
  let ?g = "members (endorsersByGroups desc) grp"
  obtain k c where s: "s = (k, c)" by (cases s)
  have "mset (filtered_peers cfg peers flt ?g) = {#}"
    using assms(6) by (simp add: filtered_peers_mset acceptable_def del: mset_filter)
  then have "filtered_peers cfg peers flt ?g = []" by simp
  then have "selection_Filter cfg peers flt (Some (resolvePeerSorter policy)) (draws k) c ?g = Panic"
    using assms(1,2) by (simp add: selection_Filter_def sortPeers_def resolvePeerSorter_def resolveSortingStrategy_def
        resolveBalancer_def balanced_Sort_def balancer_RoundRobin_def Next_def Let_def)
  moreover have "rand_Perm d 1 = [0]" by (simp add: rand_Intn_def)
  ultimately show ?thesis using assms(3-5)
    by (simp add: getEndorsers_def Endorsers_def group_filter_def s flip: members_def)
qed

theorem balanced_round_robin_panics_witness:
  "getEndorsers selection_wire ''ch'' (\<lambda>_. None) ''cc'' w_response None
     (Some (resolvePeerSorter (w_policy\<lparr>SortingStrategy := ''Balanced''\<rparr>))) id (\<lambda>_. id) (Inr []) (0, - 1) = Panic"
  by (rule balanced_round_robin_panics [where desc = w_desc and grp = "''G''" and n = 1 and layout = "[]"])
    (simp_all add: w_policy_def w_response_def w_desc_def acceptable_def containsPeer_def)

end
