(* ===== verification/Transactions.thy ===== *)
theory Transactions
  imports Status Balancing Block_Filter
begin

text \<open>
  Transactions and proposals (pkg/fab/txn: env.go, proposal.go, txn.go) with the helpers of protoutil
  (proputils.go, txutils.go, unmarshalers.go) that they call: the transaction header and its identifier,
  the proposal of an invocation, sending a proposal to its targets, making a transaction of the
  endorsed responses and broadcasting it to the orderers.

  Encoding and decoding of protocol buffers, hashing and signing are third-party code: they are the
  fields of \<open>pcodec\<close> and \<open>clientCtx\<close>. Targets and orderers are called through a function that may
  change the world \<open>'w\<close>. A slice of bytes of which the code tests for nil is an option.
\<close>

section \<open>Messages\<close>

record Header =
  hd_ChannelHeader :: bytes
  hd_SignatureHeader :: bytes

record ChannelHeader =
  ch_Type :: int
  ch_TxId :: string
  ch_ChannelId :: string
  ch_Extension :: bytes
  ch_Epoch :: "64 word"
  ch_Timestamp :: int
  ch_TlsCertHash :: bytes

record SignatureHeader =
  sh_Nonce :: bytes
  sh_Creator :: bytes

record ChaincodeInvocationSpec =
  ci_Lang :: int
  ci_ChaincodeId :: string
  ci_Args :: "bytes list"
  ci_IsInit :: bool

record ChaincodeProposalPayload =
  cpp_Input :: bytes
  cpp_TransientMap :: "(string \<times> bytes) list"

record Proposal =
  pp_Header :: bytes
  pp_Payload :: bytes

record Endorsement =
  en_Endorser :: bytes
  en_Signature :: bytes

record ProposalResponse =
  pr_Response :: "Response option"
  pr_Payload :: "bytes option"
  pr_Endorsement :: "Endorsement option"

record ChaincodeEndorsedAction =
  cea_ProposalResponsePayload :: bytes
  cea_Endorsements :: "Endorsement option list"

record ChaincodeActionPayload =
  cap_ChaincodeProposalPayload :: bytes
  cap_Action :: ChaincodeEndorsedAction

record TransactionAction =
  ta_Header :: bytes
  ta_Payload :: bytes

record Payload =
  py_Header :: Header
  py_Data :: bytes

record ChaincodeAction =
  ca_Results :: bytes
  ca_Response :: "Response option"

text \<open>The encoders and decoders, and the constants of the enumeration \<open>common.Status\<close>.\<close>

record pcodec =
  d_Header :: "bytes \<Rightarrow> Header res"
  d_CPP :: "bytes \<Rightarrow> ChaincodeProposalPayload res"
  d_PRP :: "bytes \<Rightarrow> bytes res"                        \<comment> \<open>the \<open>Extension\<close> of a response payload\<close>
  d_ChaincodeAction :: "bytes \<Rightarrow> ChaincodeAction res"
  e_HdrExt :: "string \<Rightarrow> bytes res"                     \<comment> \<open>a \<open>ChaincodeHeaderExtension\<close>\<close>
  e_CIS :: "ChaincodeInvocationSpec \<Rightarrow> bytes res"
  e_CPP :: "ChaincodeProposalPayload \<Rightarrow> bytes res"
  e_ChannelHeader :: "ChannelHeader \<Rightarrow> bytes res"
  e_SignatureHeader :: "SignatureHeader \<Rightarrow> bytes res"
  e_Header :: "Header \<Rightarrow> bytes res"
  e_Proposal :: "Proposal option \<Rightarrow> bytes res"
  e_CAP :: "ChaincodeActionPayload \<Rightarrow> bytes res"
  e_Transaction :: "TransactionAction list \<Rightarrow> bytes res"
  e_Payload :: "Payload \<Rightarrow> bytes res"
  c_SUCCESS :: int
  c_BAD_REQUEST :: int

text \<open>The client context of a request: the signing manager may be nil.\<close>

record clientCtx =
  cx_Sign :: "(bytes \<Rightarrow> bytes res) option"
  cx_Serialize :: "bytes res"
  cx_GetHash :: "(bytes \<Rightarrow> bytes res) res"

definition bytes_of :: "bytes option \<Rightarrow> bytes" where
  "bytes_of b = (case b of None \<Rightarrow> [] | Some x \<Rightarrow> x)"

text \<open>The conversion of a string to a slice of bytes.\<close>

definition string_bytes :: "string \<Rightarrow> bytes" where
  "string_bytes s = map of_char s"

definition rbind :: "'a res \<Rightarrow> ('a \<Rightarrow> 'b res) \<Rightarrow> 'b res" where
  "rbind r f = (case r of Inl e \<Rightarrow> Inl e | Inr x \<Rightarrow> f x)"

lemma rbind_simps [simp]: "rbind (Inl e) f = Inl e" "rbind (Inr x) f = f x"
  by (simp_all add: rbind_def)

lemma rbind_eq_Inr: "rbind r f = Inr y \<longleftrightarrow> (\<exists>x. r = Inr x \<and> f x = Inr y)"
  by (cases r) simp_all

lemma wrap_err_simps [simp]: "wrap_err m (Inl e) = Inl (withMessage e m)" "wrap_err m (Inr x) = Inr x"
  by (simp_all add: wrap_err_def)

lemma wrap_err_eq_Inr [simp]: "wrap_err m r = Inr x \<longleftrightarrow> r = Inr x"
  by (cases r) simp_all

section \<open>env.go: transaction headers\<close>

record TransactionHeader =
  th_id :: string
  th_creator :: bytes
  th_nonce :: bytes
  th_channelID :: string

record TxnHeaderOptions =
  tho_Nonce :: "bytes option"
  tho_Creator :: "bytes option"

type_synonym TxnHeaderOpt = "TxnHeaderOptions \<Rightarrow> TxnHeaderOptions"

definition WithNonce :: "bytes \<Rightarrow> TxnHeaderOpt" where
  "WithNonce nonce options = options\<lparr>tho_Nonce := Some nonce\<rparr>"

definition WithCreator :: "bytes \<Rightarrow> TxnHeaderOpt" where
  "WithCreator creator options = options\<lparr>tho_Creator := Some creator\<rparr>"

definition computeTxnID :: "bytes \<Rightarrow> bytes \<Rightarrow> (bytes \<Rightarrow> bytes res) \<Rightarrow> string res" where
  "computeTxnID nonce creator h = rbind (h (nonce @ creator)) (\<lambda>digest. Inr (EncodeToString digest))"

text \<open>\<open>random\<close> is the answer of the random source.\<close>

definition NewHeader :: "clientCtx \<Rightarrow> bytes res \<Rightarrow> string \<Rightarrow> TxnHeaderOpt list \<Rightarrow> TransactionHeader res" where
  "NewHeader ctx random channelID opts =
    (let options = fold (\<lambda>opt o'. opt o') opts \<lparr>tho_Nonce = None, tho_Creator = None\<rparr>
     in rbind (case tho_Nonce options of Some n \<Rightarrow> Inr n | None \<Rightarrow> wrap_err ''nonce creation failed'' random) (\<lambda>nonce.
        rbind (case tho_Creator options of Some c \<Rightarrow> Inr c
               | None \<Rightarrow> wrap_err ''identity from context failed'' (cx_Serialize ctx)) (\<lambda>creator.
        rbind (wrap_err ''hash function creation failed'' (cx_GetHash ctx)) (\<lambda>h.
        rbind (wrap_err ''txn ID computation failed'' (computeTxnID nonce creator h)) (\<lambda>id'.
          Inr \<lparr>th_id = id', th_creator = creator, th_nonce = nonce, th_channelID = channelID\<rparr>)))))"

record SignedEnvelope =
  se_Payload :: bytes
  se_Signature :: bytes

definition signPayload :: "pcodec \<Rightarrow> clientCtx \<Rightarrow> Payload \<Rightarrow> SignedEnvelope res outcome" where
  "signPayload pc ctx payload = (case wrap_err ''marshaling of payload failed'' (e_Payload pc payload) of
     Inl e \<Rightarrow> Ok (Inl e)
   | Inr payloadBytes \<Rightarrow> (case cx_Sign ctx of
        None \<Rightarrow> Panic
      | Some sign \<Rightarrow> Ok (rbind (wrap_err ''signing of payload failed'' (sign payloadBytes)) (\<lambda>signature.
          Inr \<lparr>se_Payload = payloadBytes, se_Signature = signature\<rparr>))))"

text \<open>A time is an integer of nanoseconds, 0 for the zero time; \<open>tsProto\<close> is the protocol buffer conversion.\<close>

record ChannelHeaderOpts =
  cho_TxnHeader :: TransactionHeader
  cho_Epoch :: "64 word"
  cho_ChaincodeID :: string
  cho_Timestamp :: int
  cho_TLSCertHash :: bytes

definition CreateChannelHeader :: "pcodec \<Rightarrow> int \<Rightarrow> (int \<Rightarrow> int res) \<Rightarrow> int \<Rightarrow> ChannelHeaderOpts \<Rightarrow> ChannelHeader res" where
  "CreateChannelHeader pc now tsProto headerType opts =
    (let t = (if cho_Timestamp opts = 0 then now else cho_Timestamp opts)
     in rbind (wrap_err ''failed to create timestamp in channel header'' (tsProto t)) (\<lambda>ts.
        rbind (if cho_ChaincodeID opts \<noteq> []
               then wrap_err ''marshal header extension failed'' (e_HdrExt pc (cho_ChaincodeID opts)) else Inr []) (\<lambda>ext.
          Inr \<lparr>ch_Type = headerType, ch_TxId = th_id (cho_TxnHeader opts),
               ch_ChannelId = th_channelID (cho_TxnHeader opts), ch_Extension = ext, ch_Epoch = cho_Epoch opts,
               ch_Timestamp = ts, ch_TlsCertHash = cho_TLSCertHash opts\<rparr>)))"

definition createHeader :: "pcodec \<Rightarrow> TransactionHeader \<Rightarrow> ChannelHeader \<Rightarrow> Header res" where
  "createHeader pc th channelHeader =
    rbind (wrap_err ''marshal signatureHeader failed''
      (e_SignatureHeader pc \<lparr>sh_Nonce = th_nonce th, sh_Creator = th_creator th\<rparr>)) (\<lambda>sh.
    rbind (wrap_err ''marshal channelHeader failed'' (e_ChannelHeader pc channelHeader)) (\<lambda>ch.
      Inr \<lparr>hd_ChannelHeader = ch, hd_SignatureHeader = sh\<rparr>))"

definition CreatePayload :: "pcodec \<Rightarrow> TransactionHeader \<Rightarrow> ChannelHeader \<Rightarrow> bytes \<Rightarrow> Payload res" where
  "CreatePayload pc txh channelHeader data =
    rbind (wrap_err ''header creation failed'' (createHeader pc txh channelHeader)) (\<lambda>header.
      Inr \<lparr>py_Header = header, py_Data = data\<rparr>)"

definition CreateSignatureHeader :: "TransactionHeader \<Rightarrow> SignatureHeader res" where
  "CreateSignatureHeader txh = Inr \<lparr>sh_Nonce = th_nonce txh, sh_Creator = th_creator txh\<rparr>"

text \<open>\<open>protoutil.ComputeTxID\<close> and \<open>protoutil.CheckTxID\<close> with the hash function sm3 as an argument.\<close>

definition ComputeTxID :: "(bytes \<Rightarrow> bytes) \<Rightarrow> bytes \<Rightarrow> bytes \<Rightarrow> string" where
  "ComputeTxID sm3 nonce creator = EncodeToString (sm3 (nonce @ creator))"

definition CheckTxID :: "(bytes \<Rightarrow> bytes) \<Rightarrow> string \<Rightarrow> bytes \<Rightarrow> bytes \<Rightarrow> goerr option" where
  "CheckTxID sm3 txid nonce creator =
    (let computedTxID = ComputeTxID sm3 nonce creator
     in if txid \<noteq> computedTxID then Some (ErrorF ''invalid txid. got [%s], expected [%s]'' [FS txid, FS computedTxID])
        else None)"

section \<open>proposal.go\<close>

record ChaincodeInvokeRequest =
  ir_ChaincodeID :: string
  ir_Lang :: int
  ir_TransientMap :: "(string \<times> bytes) list"
  ir_Fcn :: string
  ir_Args :: "bytes list"
  ir_IsInit :: bool

record TransactionProposal =
  tp_TxnID :: string
  tp_Proposal :: "Proposal option"

record TransactionProposalResponse =
  tpr_Endorser :: string
  tpr_Status :: "32 word"
  tpr_ChaincodeStatus :: "32 word"
  tpr_ProposalResponse :: "ProposalResponse option"

definition MarshalOrPanic :: "bytes res \<Rightarrow> bytes outcome" where
  "MarshalOrPanic r = (case r of Inl e \<Rightarrow> Panic | Inr b \<Rightarrow> Ok b)"

definition CreateChaincodeProposalWithTxIDNonceAndTransient :: "pcodec \<Rightarrow> int res \<Rightarrow> string \<Rightarrow> int \<Rightarrow> string
    \<Rightarrow> ChaincodeInvocationSpec \<Rightarrow> bytes \<Rightarrow> bytes \<Rightarrow> (string \<times> bytes) list \<Rightarrow> Proposal res outcome" where
  "CreateChaincodeProposalWithTxIDNonceAndTransient pc timestamp txid typ channelID cis nonce creator transientMap =
    (case rbind (wrap_err ''error marshaling ChaincodeHeaderExtension'' (e_HdrExt pc (ci_ChaincodeId cis))) (\<lambda>ccHdrExtBytes.
          rbind (wrap_err ''error marshaling ChaincodeInvocationSpec'' (e_CIS pc cis)) (\<lambda>cisBytes.
          rbind (wrap_err ''error marshaling ChaincodeProposalPayload''
                  (e_CPP pc \<lparr>cpp_Input = cisBytes, cpp_TransientMap = transientMap\<rparr>)) (\<lambda>ccPropPayloadBytes.
          rbind (wrap_err ''error validating Timestamp'' timestamp) (\<lambda>ts.
            Inr (ccHdrExtBytes, ccPropPayloadBytes, ts))))) of
       Inl e \<Rightarrow> Ok (Inl e)
     | Inr (ccHdrExtBytes, ccPropPayloadBytes, ts) \<Rightarrow>
         obind (MarshalOrPanic (e_ChannelHeader pc
             \<lparr>ch_Type = typ, ch_TxId = txid, ch_ChannelId = channelID, ch_Extension = ccHdrExtBytes, ch_Epoch = 0,
              ch_Timestamp = ts, ch_TlsCertHash = []\<rparr>)) (\<lambda>ch.
         obind (MarshalOrPanic (e_SignatureHeader pc \<lparr>sh_Nonce = nonce, sh_Creator = creator\<rparr>)) (\<lambda>sh.
           Ok (rbind (e_Header pc \<lparr>hd_ChannelHeader = ch, hd_SignatureHeader = sh\<rparr>) (\<lambda>hdrBytes.
             Inr \<lparr>pp_Header = hdrBytes, pp_Payload = ccPropPayloadBytes\<rparr>)))))"

definition CreateChaincodeInvokeProposal :: "pcodec \<Rightarrow> int res \<Rightarrow> TransactionHeader \<Rightarrow> ChaincodeInvokeRequest
    \<Rightarrow> TransactionProposal res outcome" where
  "CreateChaincodeInvokeProposal pc timestamp txh request =
    (if ir_ChaincodeID request = [] then Ok (Inl (errorNew ''ChaincodeID is required''))
     else if ir_Fcn request = [] then Ok (Inl (errorNew ''Fcn is required''))
     else let argsArray = string_bytes (ir_Fcn request) # ir_Args request;
              ccis = \<lparr>ci_Lang = ir_Lang request, ci_ChaincodeId = ir_ChaincodeID request, ci_Args = argsArray,
                      ci_IsInit = ir_IsInit request\<rparr>
          in obind (CreateChaincodeProposalWithTxIDNonceAndTransient pc timestamp (th_id txh)
                HeaderType_ENDORSER_TRANSACTION (th_channelID txh) ccis (th_nonce txh) (th_creator txh)
                (ir_TransientMap request)) (\<lambda>r.
             Ok (rbind (wrap_err ''failed to create chaincode proposal'' r) (\<lambda>proposal.
               Inr \<lparr>tp_TxnID = th_id txh, tp_Proposal = Some proposal\<rparr>))))"

record SignedProposal =
  sp_ProposalBytes :: bytes
  sp_Signature :: bytes

definition signProposal :: "pcodec \<Rightarrow> clientCtx \<Rightarrow> Proposal option \<Rightarrow> SignedProposal res" where
  "signProposal pc ctx proposal =
    rbind (wrap_err ''mashal proposal failed'' (e_Proposal pc proposal)) (\<lambda>proposalBytes.
      case cx_Sign ctx of
        None \<Rightarrow> Inl (errorNew ''signing manager is nil'')
      | Some sign \<Rightarrow> rbind (wrap_err ''sign failed'' (sign proposalBytes)) (\<lambda>signature.
          Inr \<lparr>sp_ProposalBytes = proposalBytes, sp_Signature = signature\<rparr>))"

text \<open>A proposal processor is a peer or a value of another type that implements the interface.\<close>

datatype ProposalProcessor = PeerProcessor peer | OtherProcessor nat

text \<open>\<open>seen\<close> are the keys of \<open>peerUrlsToTargets\<close>.\<close>

fun dedup_loop :: "ProposalProcessor list \<Rightarrow> string set \<Rightarrow> ProposalProcessor list \<Rightarrow> ProposalProcessor list option" where
  "dedup_loop [] seen uniqueTargets = Some uniqueTargets"
| "dedup_loop (OtherProcessor n # ts) seen uniqueTargets = None"
| "dedup_loop (PeerProcessor p # ts) seen uniqueTargets =
    (if peer_URL p \<in> seen then dedup_loop ts seen uniqueTargets
     else dedup_loop ts (insert (peer_URL p) seen) (uniqueTargets @ [PeerProcessor p]))"

definition getTargetsWithoutDuplicates :: "ProposalProcessor list \<Rightarrow> ProposalProcessor list" where
  "getTargetsWithoutDuplicates targets = (case dedup_loop targets {} [] of None \<Rightarrow> targets | Some ts \<Rightarrow> ts)"

text \<open>
  The goroutines of \<open>SendProposal\<close> append their answer to one of two lists under a lock. \<open>collect\<close> takes
  the targets in the order in which they do so.
\<close>

type_synonym 'w process = "ProposalProcessor \<Rightarrow> SignedProposal \<Rightarrow> 'w \<Rightarrow> TransactionProposalResponse res \<times> 'w"

primrec collect :: "(ProposalProcessor \<Rightarrow> 'w \<Rightarrow> TransactionProposalResponse res \<times> 'w) \<Rightarrow> ProposalProcessor list
    \<Rightarrow> TransactionProposalResponse list \<Rightarrow> goerr list \<Rightarrow> 'w
    \<Rightarrow> (TransactionProposalResponse list \<times> goerr list) \<times> 'w" where
  "collect f [] resps errs w = ((resps, errs), w)"
| "collect f (p # ps) resps errs w = (case f p w of
     (Inl err, w') \<Rightarrow> collect f ps resps (errs @ [err]) w'
   | (Inr resp, w') \<Rightarrow> collect f ps (resps @ [resp]) errs w')"

definition SendProposal :: "pcodec \<Rightarrow> clientCtx option \<Rightarrow> 'w process \<Rightarrow> (ProposalProcessor list \<Rightarrow> ProposalProcessor list)
    \<Rightarrow> TransactionProposal option \<Rightarrow> ProposalProcessor option list \<Rightarrow> 'w
    \<Rightarrow> (TransactionProposalResponse list \<times> goerr option) \<times> 'w" where
  "SendProposal pc reqCtx process arrival proposal targets w = (case proposal of
     None \<Rightarrow> (([], Some (errorNew ''proposal is required'')), w)
   | Some prop \<Rightarrow>
      if length targets < 1 then (([], Some (errorNew ''targets is required'')), w)
      else if None \<in> set targets then (([], Some (errorNew ''target is nil'')), w)
      else let ts = getTargetsWithoutDuplicates (map the targets) in
       (case reqCtx of
          None \<Rightarrow> (([], Some (errorNew ''failed get client context from reqContext for signProposal'')), w)
        | Some ctx \<Rightarrow> (case wrap_err ''sign proposal failed'' (signProposal pc ctx (tp_Proposal prop)) of
            Inl err \<Rightarrow> (([], Some err), w)
          | Inr signedProposal \<Rightarrow>
             (case collect (\<lambda>p. process p signedProposal) (arrival ts) [] [] w of
                ((resps, errs), w') \<Rightarrow> ((resps, ToError errs), w')))))"

section \<open>txn.go: transactions\<close>

record Transaction =
  tr_Proposal :: "TransactionProposal option"
  tr_Transaction :: "TransactionAction list"

definition GetBytesProposalPayloadForTx :: "pcodec \<Rightarrow> ChaincodeProposalPayload \<Rightarrow> bytes res" where
  "GetBytesProposalPayloadForTx pc payload =
    wrap_err ''error marshaling ChaincodeProposalPayload''
      (e_CPP pc \<lparr>cpp_Input = cpp_Input payload, cpp_TransientMap = []\<rparr>)"

definition failed_status :: "pcodec \<Rightarrow> 32 word \<Rightarrow> bool" where
  "failed_status pc s \<longleftrightarrow> sint s < c_SUCCESS pc \<or> sint s \<ge> c_BAD_REQUEST pc"

primrec validateProposalResponses :: "pcodec \<Rightarrow> TransactionProposalResponse list \<Rightarrow> goerr option outcome" where
  "validateProposalResponses pc [] = Ok None"
| "validateProposalResponses pc (r # rs) = (case tpr_ProposalResponse r of
     None \<Rightarrow> Panic
   | Some pr \<Rightarrow> (case pr_Response pr of
        None \<Rightarrow> Panic
      | Some resp \<Rightarrow>
          if failed_status pc (r_Status resp)
          then Ok (Some (ErrorF ''proposal response was not successful, error code %d, msg %s''
                 [FI (sint (r_Status resp)), FS (r_Message resp)]))
          else validateProposalResponses pc rs))"

text \<open>The endorsements of the responses: \<open>r.ProposalResponse.Endorsement\<close> dereferences the response.\<close>

definition txn_New :: "pcodec \<Rightarrow> TransactionProposal option \<Rightarrow> TransactionProposalResponse list \<Rightarrow> Transaction res outcome" where
  "txn_New pc proposal resps =
    (if length resps = 0 then Ok (Inl (errorNew ''at least one proposal response is necessary''))
     else (case Option.bind proposal tp_Proposal of
       None \<Rightarrow> Panic
     | Some p \<Rightarrow>
        (case rbind (wrap_err ''unmarshal proposal header failed'' (wrap_err ''error unmarshaling Header'' (d_Header pc (pp_Header p)))) (\<lambda>hdr.
              rbind (wrap_err ''unmarshal proposal payload failed''
                  (wrap_err ''error unmarshaling ChaincodeProposalPayload'' (d_CPP pc (pp_Payload p)))) (\<lambda>pPayl. Inr (hdr, pPayl))) of
           Inl e \<Rightarrow> Ok (Inl e)
         | Inr (hdr, pPayl) \<Rightarrow> (case tpr_ProposalResponse (hd resps) of
             None \<Rightarrow> Panic
           | Some pr0 \<Rightarrow>
              obind (validateProposalResponses pc resps) (\<lambda>vprErr. case vprErr of
                Some e \<Rightarrow> Ok (Inl e)
              | None \<Rightarrow>
                 let endorsements = map (\<lambda>r. Option.bind (tpr_ProposalResponse r) pr_Endorsement) resps;
                     cea = \<lparr>cea_ProposalResponsePayload = bytes_of (pr_Payload pr0), cea_Endorsements = endorsements\<rparr>
                 in Ok (rbind (GetBytesProposalPayloadForTx pc pPayl) (\<lambda>propPayloadBytes.
                    rbind (wrap_err ''error marshaling ChaincodeActionPayload''
                      (e_CAP pc \<lparr>cap_ChaincodeProposalPayload = propPayloadBytes, cap_Action = cea\<rparr>)) (\<lambda>capBytes.
                      Inr \<lparr>tr_Proposal = proposal,
                           tr_Transaction = [\<lparr>ta_Header = hd_SignatureHeader hdr, ta_Payload = capBytes\<rparr>]\<rparr>))))))))"

section \<open>txn.go: broadcasting\<close>

text \<open>
  Orderers are tried in the order of a random permutation until one succeeds; the error of the last
  one is returned if none does. A result and an error that are nil are \<open>None\<close>.
\<close>

primrec try_orderers :: "('o \<Rightarrow> 'w \<Rightarrow> 'r res \<times> 'w) \<Rightarrow> 'o list \<Rightarrow> goerr option \<Rightarrow> 'w
    \<Rightarrow> ('r option \<times> goerr option) \<times> 'w" where
  "try_orderers f [] errResp w = ((None, errResp), w)"
| "try_orderers f (o' # os) errResp w = (case f o' w of
     (Inl err, w') \<Rightarrow> try_orderers f os (Some err) w'
   | (Inr resp, w') \<Rightarrow> ((Some resp, None), w'))"

type_synonym 'w broadcast = "string \<Rightarrow> SignedEnvelope \<Rightarrow> 'w \<Rightarrow> 32 word res \<times> 'w"

text \<open>An orderer is given by its URL.\<close>

definition sendBroadcast :: "'w broadcast \<Rightarrow> SignedEnvelope \<Rightarrow> string \<Rightarrow> 'w \<Rightarrow> string res \<times> 'w" where
  "sendBroadcast bc envelope orderer w = (case bc orderer envelope w of
     (Inl err, w') \<Rightarrow> (Inl (WithMsg err ''calling orderer '%s' failed'' [FS orderer]), w')
   | (Inr _, w') \<Rightarrow> (Inr orderer, w'))"

definition broadcastEnvelope :: "clientCtx option \<Rightarrow> 'w broadcast \<Rightarrow> (nat \<Rightarrow> nat) \<Rightarrow> SignedEnvelope \<Rightarrow> string list \<Rightarrow> 'w
    \<Rightarrow> (string option \<times> goerr option) \<times> 'w" where
  "broadcastEnvelope reqCtx bc d envelope orderers w =
    (if length orderers = 0 then ((None, Some (errorNew ''orderers not set'')), w)
     else (case reqCtx of
       None \<Rightarrow> ((None, Some (errorNew ''failed get client context from reqContext for SendTransaction'')), w)
     | Some _ \<Rightarrow> try_orderers (\<lambda>i. sendBroadcast bc envelope (orderers ! i)) (rand_Perm d (length orderers)) None w))"

definition BroadcastPayload :: "pcodec \<Rightarrow> clientCtx option \<Rightarrow> 'w broadcast \<Rightarrow> (nat \<Rightarrow> nat) \<Rightarrow> Payload \<Rightarrow> string list \<Rightarrow> 'w
    \<Rightarrow> ((string option \<times> goerr option) \<times> 'w) outcome" where
  "BroadcastPayload pc reqCtx bc d payload orderers w =
    (if length orderers = 0 then Ok ((None, Some (errorNew ''orderers not set'')), w)
     else (case reqCtx of
       None \<Rightarrow> Ok ((None, Some (errorNew ''failed get client context from reqContext for signPayload'')), w)
     | Some ctx \<Rightarrow> obind (signPayload pc ctx payload) (\<lambda>r. case r of
         Inl err \<Rightarrow> Ok ((None, Some err), w)
       | Inr envelope \<Rightarrow> Ok (broadcastEnvelope reqCtx bc d envelope orderers w))))"

definition txn_Send :: "pcodec \<Rightarrow> clientCtx option \<Rightarrow> 'w broadcast \<Rightarrow> (nat \<Rightarrow> nat) \<Rightarrow> Transaction option \<Rightarrow> string list \<Rightarrow> 'w
    \<Rightarrow> ((string option \<times> goerr option) \<times> 'w) outcome" where
  "txn_Send pc reqCtx bc d tx orderers w =
    (if length orderers = 0 then Ok ((None, Some (errorNew ''orderers is nil'')), w)
     else (case tx of
       None \<Rightarrow> Ok ((None, Some (errorNew ''transaction is nil'')), w)
     | Some t \<Rightarrow> (case Option.bind (tr_Proposal t) tp_Proposal of
         None \<Rightarrow> Ok ((None, Some (errorNew ''proposal is nil'')), w)
       | Some p \<Rightarrow>
          (case rbind (wrap_err ''unmarshal proposal header failed'' (wrap_err ''error unmarshaling Header'' (d_Header pc (pp_Header p)))) (\<lambda>hdr.
                rbind (wrap_err ''error unmarshaling Transaction'' (e_Transaction pc (tr_Transaction t))) (\<lambda>txBytes.
                  Inr \<lparr>py_Header = hdr, py_Data = txBytes\<rparr>)) of
             Inl e \<Rightarrow> Ok ((None, Some e), w)
           | Inr payload \<Rightarrow> BroadcastPayload pc reqCtx bc d payload orderers w))))"

section \<open>txn.go: requests answered by a block\<close>

text \<open>
  What \<open>SendDeliver\<close> delivers: the blocks and errors in the order in which the loop receives them,
  whether the channel of blocks is closed after them, and the errors still buffered then.
\<close>

record delivery =
  dl_events :: "(block + goerr) list"
  dl_closed :: bool
  dl_left :: "goerr list"

primrec read_loop :: "('b + goerr) list \<Rightarrow> 'b option \<Rightarrow> goerr list \<Rightarrow> 'b option \<times> goerr list" where
  "read_loop [] b errs = (b, errs)"
| "read_loop (e # es) b errs = (case e of
     Inl blk \<Rightarrow> read_loop es (Some blk) errs
   | Inr err \<Rightarrow> read_loop es b (errs @ [err]))"

text \<open>The loop that drains the buffered errors: its bound is the number of errors still in the channel.\<close>

function drain :: "nat \<Rightarrow> goerr list \<Rightarrow> goerr list \<Rightarrow> goerr list" where
  "drain i left errs = (if i < length left then drain (i + 1) (tl left) (errs @ [hd left]) else errs)"
  by pat_completeness auto
termination by (relation "measure (\<lambda>(i, left, errs). length left)") auto

declare drain.simps [simp del]

definition sendEnvelope :: "(string \<Rightarrow> SignedEnvelope \<Rightarrow> 'w \<Rightarrow> delivery \<times> 'w) \<Rightarrow> SignedEnvelope \<Rightarrow> string \<Rightarrow> 'w
    \<Rightarrow> ((block option \<times> goerr option) \<times> 'w) outcome" where
  "sendEnvelope deliver envelope orderer w = (case deliver orderer envelope w of (dl, w') \<Rightarrow>
     if \<not> dl_closed dl then Blocked
     else (case read_loop (dl_events dl) None [] of
       (blk, errs) \<Rightarrow> Ok ((blk, ToError (drain 0 (dl_left dl) errs)), w')))"

primrec try_deliver :: "('o \<Rightarrow> 'w \<Rightarrow> (('r \<times> goerr option) \<times> 'w) outcome) \<Rightarrow> 'o list \<Rightarrow> goerr option \<Rightarrow> 'w
    \<Rightarrow> (('r option \<times> goerr option) \<times> 'w) outcome" where
  "try_deliver f [] errResp w = Ok ((None, errResp), w)"
| "try_deliver f (o' # os) errResp w = obind (f o' w) (\<lambda>((resp, err), w'). case err of
     Some e \<Rightarrow> try_deliver f os (Some e) w'
   | None \<Rightarrow> Ok ((Some resp, None), w'))"

definition SendPayload :: "pcodec \<Rightarrow> clientCtx option \<Rightarrow> (string \<Rightarrow> SignedEnvelope \<Rightarrow> 'w \<Rightarrow> delivery \<times> 'w) \<Rightarrow> (nat \<Rightarrow> nat)
    \<Rightarrow> Payload \<Rightarrow> string list \<Rightarrow> 'w \<Rightarrow> ((block option option \<times> goerr option) \<times> 'w) outcome" where
  "SendPayload pc reqCtx deliver d payload orderers w =
    (if length orderers = 0 then Ok ((None, Some (errorNew ''orderers not set'')), w)
     else (case reqCtx of
       None \<Rightarrow> Ok ((None, Some (errorNew ''failed get client context from reqContext for signPayload'')), w)
     | Some ctx \<Rightarrow> obind (signPayload pc ctx payload) (\<lambda>r. case r of
         Inl err \<Rightarrow> Ok ((None, Some err), w)
       | Inr envelope \<Rightarrow> try_deliver (\<lambda>i. sendEnvelope deliver envelope (orderers ! i))
             (rand_Perm d (length orderers)) None w)))"

end
