(* ===== verification/Endpoints.thy ===== *)
theory Endpoints
  imports Transactions "HOL-Library.Sublist"
begin

text \<open>
  The remote ends of a transaction: the endorser (pkg/fab/peer/peerendorser.go), from the call of the peer
  to the response or the error with its status, and the orderer (pkg/fab/orderer/orderer.go), whose
  goroutines put what the stream delivers on two channels that the callers read.

  The connection, the gRPC calls and the conversion of their errors to a gRPC status
  (\<open>grpcstatus.FromError\<close>, the argument \<open>gs\<close>) are third-party code: the arguments of the definitions are
  their results.
\<close>

type_synonym fromGRPC = "goerr \<Rightarrow> (32 word \<times> string \<times> detail list) option"

definition grpcError :: "fromGRPC \<Rightarrow> goerr \<Rightarrow> goerr" where
  "grpcError gs err = (case NewFromGRPCStatus (gs err) of None \<Rightarrow> err | Some s \<Rightarrow> asError s)"

definition connError :: "wire \<Rightarrow> fromGRPC \<Rightarrow> 32 word \<Rightarrow> detail list \<Rightarrow> goerr \<Rightarrow> goerr" where
  "connError w gs g ds err = (case NewFromGRPCStatus (gs err) of
     Some s \<Rightarrow> withMessage (asError s) ''connection failed''
   | None \<Rightarrow> asError (status_New g ConnectionFailed (errorText w err) ds))"

section \<open>The endorser\<close>

text \<open>\<open>chaincodeNotFoundPattern\<close>\<close>

definition name_not_found :: "string \<Rightarrow> bool" where
  "name_not_found s \<longleftrightarrow> prefix ''chaincode '' s
    \<and> (let name = takeWhile (\<lambda>c. c \<noteq> CHR '' '') (drop 10 s)
       in name \<noteq> [] \<and> prefix '' not found'' (drop (10 + length name) s))"

definition chaincodeNotFound :: "string \<Rightarrow> bool" where
  "chaincodeNotFound m \<longleftrightarrow> list_ex name_not_found (suffixes m)
    \<or> sublist ''could not find chaincode with name'' m \<or> sublist ''cannot get package for chaincode'' m"

definition endorsement_detail :: "Endorsement option \<Rightarrow> detail" where
  "endorsement_detail e = DEndorsement (map_option (\<lambda>x. (en_Endorser x, en_Signature x)) e)"

definition extractChaincodeErrorFromResponse :: "pcodec \<Rightarrow> ProposalResponse \<Rightarrow> goerr option outcome" where
  "extractChaincodeErrorFromResponse pc resp = (case pr_Response resp of
     None \<Rightarrow> Panic
   | Some r \<Rightarrow>
      if failed_status pc (r_Status r)
      then let details = [endorsement_detail (pr_Endorsement resp), DBytes (r_Payload r)]
           in if chaincodeNotFound (r_Message r)
              then Ok (Some (asError (status_New EndorserClientStatus ChaincodeNameNotFound (r_Message r) details)))
              else Ok (Some (asError (status_New ChaincodeStatus (r_Status r) (r_Message r) details)))
      else Ok None)"

definition sendProposal :: "wire \<Rightarrow> pcodec \<Rightarrow> fromGRPC \<Rightarrow> string \<Rightarrow> unit res \<Rightarrow> ProposalResponse res
    \<Rightarrow> (ProposalResponse option \<times> goerr option) outcome" where
  "sendProposal w pc gs target conn rpc = (case conn of
     Inl err \<Rightarrow> Ok (None, Some (connError w gs EndorserClientStatus [DStr target] err))
   | Inr _ \<Rightarrow> (case rpc of
        Inl err \<Rightarrow> Ok (None, Some (grpcError gs err))
      | Inr resp \<Rightarrow> obind (extractChaincodeErrorFromResponse pc resp) (\<lambda>err. Ok (Some resp, err))))"

definition getChaincodeResponseStatus :: "pcodec \<Rightarrow> ProposalResponse \<Rightarrow> 32 word res outcome" where
  "getChaincodeResponseStatus pc response =
    (let fallback = (case pr_Response response of None \<Rightarrow> Panic | Some r \<Rightarrow> Ok (Inr (r_Status r)))
     in case pr_Payload response of
       None \<Rightarrow> fallback
     | Some b \<Rightarrow>
        (case rbind (wrap_err ''unmarshal of proposal response payload failed''
                (wrap_err ''error unmarshaling ProposalResponsePayload'' (d_PRP pc b))) (\<lambda>extension.
              wrap_err ''unmarshal of chaincode action failed''
                (wrap_err ''error unmarshaling ChaincodeAction'' (d_ChaincodeAction pc extension))) of
           Inl e \<Rightarrow> Ok (Inl e)
         | Inr act \<Rightarrow> (case ca_Response act of Some r \<Rightarrow> Ok (Inr (r_Status r)) | None \<Rightarrow> fallback)))"

text \<open>With an error of the call a response that only has the endorser is returned too.\<close>

definition ProcessTransactionProposal :: "wire \<Rightarrow> pcodec \<Rightarrow> fromGRPC \<Rightarrow> string \<Rightarrow> unit res \<Rightarrow> ProposalResponse res
    \<Rightarrow> (TransactionProposalResponse option \<times> goerr option) outcome" where
  "ProcessTransactionProposal w pc gs target conn rpc =
    obind (sendProposal w pc gs target conn rpc) (\<lambda>(resp, err). case err of
      Some e \<Rightarrow> Ok (Some \<lparr>tpr_Endorser = target, tpr_Status = 0, tpr_ChaincodeStatus = 0, tpr_ProposalResponse = None\<rparr>,
           Some (WithMsg e ''Transaction processing for endorser [%s]'' [FS target]))
    | None \<Rightarrow> (case resp of
        None \<Rightarrow> Panic
      | Some pr \<Rightarrow> obind (getChaincodeResponseStatus pc pr) (\<lambda>st. case st of
          Inl e \<Rightarrow> Ok (None, Some (withMessage e ''chaincode response status parsing failed''))
        | Inr chaincodeStatus \<Rightarrow> (case pr_Response pr of
            None \<Rightarrow> Panic
          | Some r \<Rightarrow> Ok (Some \<lparr>tpr_Endorser = target, tpr_Status = r_Status r, tpr_ChaincodeStatus = chaincodeStatus,
               tpr_ProposalResponse = Some pr\<rparr>, None)))))"

section \<open>The orderer: streams\<close>

text \<open>
  What \<open>Recv\<close> returns, call by call. A stream goroutine sends on the channel of responses (\<open>Inl\<close>, not
  buffered) and on the channel of errors (\<open>Inr\<close>, with one place); the second component says whether it
  has closed the channel of responses. If the list of results ends first, \<open>Recv\<close> blocks.
\<close>

datatype broadcast_recv = BEof | BErr goerr | BResp "32 word" string
datatype deliver_recv = DvEof | DvErr goerr | DvStatus "32 word" | DvBlock block | DvUnknown

fun broadcastStream :: "pcodec \<Rightarrow> fromGRPC \<Rightarrow> broadcast_recv list \<Rightarrow> (32 word + goerr) list \<times> bool" where
  "broadcastStream pc gs [] = ([], False)"
| "broadcastStream pc gs (BEof # rs) = ([], True)"
| "broadcastStream pc gs (BErr err # rs) = ([Inr (withMessage (grpcError gs err) ''broadcast recv failed'')], True)"
| "broadcastStream pc gs (BResp st info # rs) = (case broadcastStream pc gs rs of (es, closed) \<Rightarrow>
     (if sint st = c_SUCCESS pc then (Inl st # es, closed)
      else (Inr (asError (status_New OrdererServerStatus st info [])) # es, closed)))"

fun blockStream :: "pcodec \<Rightarrow> deliver_recv list \<Rightarrow> (block + goerr) list \<times> bool" where
  "blockStream pc [] = ([], False)"
| "blockStream pc (DvEof # rs) = ([], True)"
| "blockStream pc (DvErr err # rs) = ([Inr (withMessage err ''recv from ordering service failed'')], True)"
| "blockStream pc (DvStatus st # rs) = (case blockStream pc rs of (es, closed) \<Rightarrow>
     (if sint st \<noteq> c_SUCCESS pc
      then (Inr (asError (status_New OrdererServerStatus st ''error status from ordering service'' [])) # es, closed)
      else (es, closed)))"
| "blockStream pc (DvBlock b # rs) = (case blockStream pc rs of (es, closed) \<Rightarrow> (Inl b # es, closed))"
| "blockStream pc (DvUnknown # rs) = blockStream pc rs"

text \<open>
  How a reader may receive what was sent before the channel of responses is closed: each channel keeps its
  order, and an error may still be in the buffer (\<open>left\<close>).
\<close>

fun lefts :: "('a + 'b) list \<Rightarrow> 'a list" where
  "lefts [] = []"
| "lefts (Inl a # xs) = a # lefts xs"
| "lefts (Inr b # xs) = lefts xs"

fun rights :: "('a + 'b) list \<Rightarrow> 'b list" where
  "rights [] = []"
| "rights (Inl a # xs) = rights xs"
| "rights (Inr b # xs) = b # rights xs"

definition received :: "('a + goerr) list \<Rightarrow> ('a + goerr) list \<Rightarrow> goerr list \<Rightarrow> bool" where
  "received sent events left \<longleftrightarrow> lefts events = lefts sent \<and> rights events @ left = rights sent \<and> length left \<le> 1"

definition wrapStreamStatusRPC :: "(32 word + goerr) list \<Rightarrow> bool \<Rightarrow> goerr list \<Rightarrow> (32 word \<times> goerr option) outcome" where
  "wrapStreamStatusRPC events closed left =
    (if \<not> closed then Blocked
     else (case read_loop events None [] of (st, errs) \<Rightarrow>
       Ok (case st of None \<Rightarrow> 0 | Some s \<Rightarrow> s, ToError (drain 0 left errs))))"

text \<open>
  \<open>SendBroadcast\<close>: the results of connecting, of opening the stream and of sending the envelope, what
  \<open>Recv\<close> returns, and \<open>arrive\<close>, how it is received.
\<close>

definition SendBroadcast :: "wire \<Rightarrow> pcodec \<Rightarrow> fromGRPC \<Rightarrow> unit res \<Rightarrow> unit res \<Rightarrow> unit res \<Rightarrow> broadcast_recv list
    \<Rightarrow> ((32 word + goerr) list \<Rightarrow> (32 word + goerr) list \<times> goerr list) \<Rightarrow> (32 word option \<times> goerr option) outcome" where
  "SendBroadcast w pc gs conn open_stream send recv arrive = (case conn of
     Inl err \<Rightarrow> Ok (None, Some (connError w gs OrdererClientStatus [] err))
   | Inr _ \<Rightarrow> (case open_stream of
        Inl err \<Rightarrow> Ok (None, Some (withMessage (grpcError gs err) ''NewAtomicBroadcastClient failed''))
      | Inr _ \<Rightarrow> (case send of
           Inl err \<Rightarrow> Ok (None, Some (withMessage err ''failed to send envelope to orderer''))
         | Inr _ \<Rightarrow> (case broadcastStream pc gs recv of (sent, closed) \<Rightarrow>
             (case arrive sent of (events, left) \<Rightarrow>
               obind (wrapStreamStatusRPC events closed left) (\<lambda>(st, err). Ok (Some st, err)))))))"

text \<open>\<open>SendDeliver\<close>: what is sent on the channels; a failure to send the envelope is only logged.\<close>

definition SendDeliver :: "wire \<Rightarrow> pcodec \<Rightarrow> fromGRPC \<Rightarrow> unit res \<Rightarrow> unit res \<Rightarrow> deliver_recv list
    \<Rightarrow> (block + goerr) list \<times> bool" where
  "SendDeliver w pc gs conn open_stream recv = (case conn of
     Inl err \<Rightarrow> ([Inr (connError w gs OrdererClientStatus [] err)], True)
   | Inr _ \<Rightarrow> (case open_stream of
        Inl err \<Rightarrow> ([Inr (withMessage err ''deliver failed'')], True)
      | Inr _ \<Rightarrow> blockStream pc recv))"

end
