(* ===== verification/RWSets.thy ===== *)
theory RWSets
  imports Transactions
begin

text \<open>
  Read-write sets and their protocol buffer messages (internal/.../rwsetutil/rwset_proto_util.go), which the
  channel client reads out of a proposal response. The messages \<open>KVRWSet\<close> and \<open>HashedRWSet\<close> are only passed
  through: they are the types \<open>'kv\<close> and \<open>'h\<close>. The encoders and decoders are the fields of \<open>rwcodec\<close>.
\<close>

section \<open>Types\<close>

record 'h CollHashedRwSet =
  chr_CollectionName :: string
  chr_HashedRwSet :: 'h
  chr_PvtRwSetHash :: bytes

record ('kv, 'h) NsRwSet =
  nrw_NameSpace :: string
  nrw_KvRwSet :: 'kv
  nrw_CollHashedRwSets :: "'h CollHashedRwSet list"

record 'kv CollPvtRwSet =
  cpr_CollectionName :: string
  cpr_KvRwSet :: 'kv

record 'kv NsPvtRwSet =
  npr_NameSpace :: string
  npr_CollPvtRwSets :: "'kv CollPvtRwSet list"

text \<open>The messages of package rwset; \<open>DataModel\<close> is always \<open>TxReadWriteSet_KV\<close>.\<close>

record CollectionHashedReadWriteSet =
  pm_CollectionName :: string
  pm_HashedRwset :: bytes
  pm_PvtRwsetHash :: bytes

record NsReadWriteSet =
  pm_Namespace :: string
  pm_Rwset :: bytes
  pm_CollectionHashedRwset :: "CollectionHashedReadWriteSet list"

record CollectionPvtReadWriteSet =
  pm_PvtCollectionName :: string
  pm_PvtRwset :: bytes

record NsPvtReadWriteSet =
  pm_PvtNamespace :: string
  pm_CollectionPvtRwset :: "CollectionPvtReadWriteSet list"

datatype DataModel = TxReadWriteSet_KV

record ('kv, 'h) rwcodec =
  e_KV :: "'kv \<Rightarrow> bytes res"
  d_KV :: "bytes \<Rightarrow> 'kv res"
  e_Hashed :: "'h \<Rightarrow> bytes res"
  d_Hashed :: "bytes \<Rightarrow> 'h res"
  e_TxRW :: "DataModel \<times> NsReadWriteSet list \<Rightarrow> bytes res"
  d_TxRW :: "bytes \<Rightarrow> (DataModel \<times> NsReadWriteSet list) res"
  e_TxPvtRW :: "DataModel \<times> NsPvtReadWriteSet list \<Rightarrow> bytes res"
  d_TxPvtRW :: "bytes \<Rightarrow> (DataModel \<times> NsPvtReadWriteSet list) res"

text \<open>The loops that convert one element after the other and return the first error.\<close>

primrec rmapM :: "('a \<Rightarrow> 'b res) \<Rightarrow> 'a list \<Rightarrow> 'b list res" where
  "rmapM f [] = Inr []"
| "rmapM f (x # xs) = rbind (f x) (\<lambda>y. rbind (rmapM f xs) (\<lambda>ys. Inr (y # ys)))"

section \<open>Public read-write sets\<close>

definition coll_toProtoMsg :: "('kv, 'h) rwcodec \<Rightarrow> 'h CollHashedRwSet \<Rightarrow> CollectionHashedReadWriteSet res" where
  "coll_toProtoMsg rc s = rbind (e_Hashed rc (chr_HashedRwSet s)) (\<lambda>b.
     Inr \<lparr>pm_CollectionName = chr_CollectionName s, pm_HashedRwset = b, pm_PvtRwsetHash = chr_PvtRwSetHash s\<rparr>)"

definition collHashedRwSetFromProtoMsg :: "('kv, 'h) rwcodec \<Rightarrow> CollectionHashedReadWriteSet \<Rightarrow> 'h CollHashedRwSet res" where
  "collHashedRwSetFromProtoMsg rc m = rbind (d_Hashed rc (pm_HashedRwset m)) (\<lambda>h.
     Inr \<lparr>chr_CollectionName = pm_CollectionName m, chr_HashedRwSet = h, chr_PvtRwSetHash = pm_PvtRwsetHash m\<rparr>)"

definition ns_toProtoMsg :: "('kv, 'h) rwcodec \<Rightarrow> ('kv, 'h) NsRwSet \<Rightarrow> NsReadWriteSet res" where
  "ns_toProtoMsg rc s = rbind (e_KV rc (nrw_KvRwSet s)) (\<lambda>b. rbind (rmapM (coll_toProtoMsg rc) (nrw_CollHashedRwSets s)) (\<lambda>cs.
     Inr \<lparr>pm_Namespace = nrw_NameSpace s, pm_Rwset = b, pm_CollectionHashedRwset = cs\<rparr>))"

definition nsRwSetFromProtoMsg :: "('kv, 'h) rwcodec \<Rightarrow> NsReadWriteSet \<Rightarrow> ('kv, 'h) NsRwSet res" where
  "nsRwSetFromProtoMsg rc m = rbind (d_KV rc (pm_Rwset m)) (\<lambda>kv.
     rbind (rmapM (collHashedRwSetFromProtoMsg rc) (pm_CollectionHashedRwset m)) (\<lambda>cs.
       Inr \<lparr>nrw_NameSpace = pm_Namespace m, nrw_KvRwSet = kv, nrw_CollHashedRwSets = cs\<rparr>))"

definition tx_toProtoMsg :: "('kv, 'h) rwcodec \<Rightarrow> ('kv, 'h) NsRwSet list \<Rightarrow> (DataModel \<times> NsReadWriteSet list) res" where
  "tx_toProtoMsg rc nsRwSets = rbind (rmapM (ns_toProtoMsg rc) nsRwSets) (\<lambda>ms. Inr (TxReadWriteSet_KV, ms))"

definition TxRwSetFromProtoMsg :: "('kv, 'h) rwcodec \<Rightarrow> DataModel \<times> NsReadWriteSet list \<Rightarrow> ('kv, 'h) NsRwSet list res" where
  "TxRwSetFromProtoMsg rc m = rmapM (nsRwSetFromProtoMsg rc) (snd m)"

definition ToProtoBytes :: "('kv, 'h) rwcodec \<Rightarrow> ('kv, 'h) NsRwSet list \<Rightarrow> bytes res" where
  "ToProtoBytes rc txRwSet = rbind (tx_toProtoMsg rc txRwSet) (e_TxRW rc)"

text \<open>The error and the new contents of the receiver, which an error leaves unchanged.\<close>

definition FromProtoBytes :: "('kv, 'h) rwcodec \<Rightarrow> bytes \<Rightarrow> ('kv, 'h) NsRwSet list \<Rightarrow> goerr option \<times> ('kv, 'h) NsRwSet list" where
  "FromProtoBytes rc protoBytes txRwSet = (case rbind (d_TxRW rc protoBytes) (TxRwSetFromProtoMsg rc) of
     Inl err \<Rightarrow> (Some err, txRwSet)
   | Inr s \<Rightarrow> (None, s))"

section \<open>Private read-write sets\<close>

definition collPvt_toProtoMsg :: "('kv, 'h) rwcodec \<Rightarrow> 'kv CollPvtRwSet \<Rightarrow> CollectionPvtReadWriteSet res" where
  "collPvt_toProtoMsg rc s = rbind (e_KV rc (cpr_KvRwSet s)) (\<lambda>b.
     Inr \<lparr>pm_PvtCollectionName = cpr_CollectionName s, pm_PvtRwset = b\<rparr>)"

definition collPvtRwSetFromProtoMsg :: "('kv, 'h) rwcodec \<Rightarrow> CollectionPvtReadWriteSet \<Rightarrow> 'kv CollPvtRwSet res" where
  "collPvtRwSetFromProtoMsg rc m = rbind (d_KV rc (pm_PvtRwset m)) (\<lambda>kv.
     Inr \<lparr>cpr_CollectionName = pm_PvtCollectionName m, cpr_KvRwSet = kv\<rparr>)"

definition nsPvt_toProtoMsg :: "('kv, 'h) rwcodec \<Rightarrow> 'kv NsPvtRwSet \<Rightarrow> NsPvtReadWriteSet res" where
  "nsPvt_toProtoMsg rc s = rbind (rmapM (collPvt_toProtoMsg rc) (npr_CollPvtRwSets s)) (\<lambda>cs.
     Inr \<lparr>pm_PvtNamespace = npr_NameSpace s, pm_CollectionPvtRwset = cs\<rparr>)"

definition nsPvtRwSetFromProtoMsg :: "('kv, 'h) rwcodec \<Rightarrow> NsPvtReadWriteSet \<Rightarrow> 'kv NsPvtRwSet res" where
  "nsPvtRwSetFromProtoMsg rc m = rbind (rmapM (collPvtRwSetFromProtoMsg rc) (pm_CollectionPvtRwset m)) (\<lambda>cs.
     Inr \<lparr>npr_NameSpace = pm_PvtNamespace m, npr_CollPvtRwSets = cs\<rparr>)"

definition txPvt_toProtoMsg :: "('kv, 'h) rwcodec \<Rightarrow> 'kv NsPvtRwSet list \<Rightarrow> (DataModel \<times> NsPvtReadWriteSet list) res" where
  "txPvt_toProtoMsg rc nsPvtRwSet = rbind (rmapM (nsPvt_toProtoMsg rc) nsPvtRwSet) (\<lambda>ms. Inr (TxReadWriteSet_KV, ms))"

definition TxPvtRwSetFromProtoMsg :: "('kv, 'h) rwcodec \<Rightarrow> DataModel \<times> NsPvtReadWriteSet list \<Rightarrow> 'kv NsPvtRwSet list res" where
  "TxPvtRwSetFromProtoMsg rc m = rmapM (nsPvtRwSetFromProtoMsg rc) (snd m)"

definition pvt_ToProtoBytes :: "('kv, 'h) rwcodec \<Rightarrow> 'kv NsPvtRwSet list \<Rightarrow> bytes res" where
  "pvt_ToProtoBytes rc txPvtRwSet = rbind (txPvt_toProtoMsg rc txPvtRwSet) (e_TxPvtRW rc)"

definition pvt_FromProtoBytes :: "('kv, 'h) rwcodec \<Rightarrow> bytes \<Rightarrow> 'kv NsPvtRwSet list \<Rightarrow> goerr option \<times> 'kv NsPvtRwSet list" where
  "pvt_FromProtoBytes rc protoBytes txPvtRwSet = (case rbind (d_TxPvtRW rc protoBytes) (TxPvtRwSetFromProtoMsg rc) of
     Inl err \<Rightarrow> (Some err, txPvtRwSet)
   | Inr s \<Rightarrow> (None, s))"

section \<open>Round trips\<close>

text \<open>An encoder and its decoder: what was encoded is decoded unchanged.\<close>

locale encoding =
  fixes enc :: "'a \<Rightarrow> 'b res" and decode :: "'b \<Rightarrow> 'a res"
  assumes round_trip: "enc x = Inr b \<Longrightarrow> decode b = Inr x"
begin

lemma list_round_trip: "rmapM enc xs = Inr bs \<Longrightarrow> rmapM decode bs = Inr xs"
  by (induction xs arbitrary: bs) (auto simp: rbind_eq_Inr round_trip)

lemma enc_inj: "enc x = Inr b \<Longrightarrow> enc y = Inr b \<Longrightarrow> x = y"
  by (metis round_trip Inr_inject)

end

locale rwset_codec =
  fixes rc :: "('kv, 'h) rwcodec"
  assumes kv: "encoding (e_KV rc) (d_KV rc)"
    and hashed: "encoding (e_Hashed rc) (d_Hashed rc)"
    and tx: "encoding (e_TxRW rc) (d_TxRW rc)"
    and tx_pvt: "encoding (e_TxPvtRW rc) (d_TxPvtRW rc)"

sublocale rwset_codec \<subseteq> coll: encoding "coll_toProtoMsg rc" "collHashedRwSetFromProtoMsg rc"
  by unfold_locales
    (auto simp: coll_toProtoMsg_def collHashedRwSetFromProtoMsg_def rbind_eq_Inr encoding.round_trip [OF hashed])

sublocale rwset_codec \<subseteq> ns: encoding "ns_toProtoMsg rc" "nsRwSetFromProtoMsg rc"
  by unfold_locales
    (auto simp: ns_toProtoMsg_def nsRwSetFromProtoMsg_def rbind_eq_Inr encoding.round_trip [OF kv] coll.list_round_trip)

sublocale rwset_codec \<subseteq> coll_pvt: encoding "collPvt_toProtoMsg rc" "collPvtRwSetFromProtoMsg rc"
  by unfold_locales
    (auto simp: collPvt_toProtoMsg_def collPvtRwSetFromProtoMsg_def rbind_eq_Inr encoding.round_trip [OF kv])

sublocale rwset_codec \<subseteq> ns_pvt: encoding "nsPvt_toProtoMsg rc" "nsPvtRwSetFromProtoMsg rc"
  by unfold_locales
    (auto simp: nsPvt_toProtoMsg_def nsPvtRwSetFromProtoMsg_def rbind_eq_Inr coll_pvt.list_round_trip)

context rwset_codec begin

lemma tx_round_trip: "ToProtoBytes rc s = Inr b \<Longrightarrow> FromProtoBytes rc b old = (None, s)"
  by (auto simp: ToProtoBytes_def FromProtoBytes_def tx_toProtoMsg_def TxRwSetFromProtoMsg_def rbind_eq_Inr
      encoding.round_trip [OF tx] ns.list_round_trip)

lemma tx_pvt_round_trip: "pvt_ToProtoBytes rc s = Inr b \<Longrightarrow> pvt_FromProtoBytes rc b old = (None, s)"
  by (auto simp: pvt_ToProtoBytes_def pvt_FromProtoBytes_def txPvt_toProtoMsg_def TxPvtRwSetFromProtoMsg_def rbind_eq_Inr
      encoding.round_trip [OF tx_pvt] ns_pvt.list_round_trip)

end

text \<open>
  Read-write sets, public and private, survive the round trip through their messages: whenever encoding
  succeeds, decoding the bytes gives no error and exactly the encoded set, whatever the receiver held
  before, given that the protocol buffer library decodes what it has encoded.
\<close>
theorem rwset_round_trip:
  assumes "\<forall>x b. e_KV rc x = Inr b \<longrightarrow> d_KV rc b = Inr x" "\<forall>x b. e_Hashed rc x = Inr b \<longrightarrow> d_Hashed rc b = Inr x"
    and "\<forall>x b. e_TxRW rc x = Inr b \<longrightarrow> d_TxRW rc b = Inr x" "\<forall>x b. e_TxPvtRW rc x = Inr b \<longrightarrow> d_TxPvtRW rc b = Inr x"
  shows "(ToProtoBytes rc s = Inr b \<longrightarrow> FromProtoBytes rc b old = (None, s))
    \<and> (pvt_ToProtoBytes rc p = Inr b \<longrightarrow> pvt_FromProtoBytes rc b oldp = (None, p))"
proof -
  have "rwset_codec rc" using assms by (simp add: rwset_codec_def encoding_def)
  then show ?thesis using rwset_codec.tx_round_trip rwset_codec.tx_pvt_round_trip by metis
qed

text \<open>A codec that encodes few messages.\<close>

definition id_codec :: "(bytes, bytes) rwcodec" where
  "id_codec = \<lparr>e_KV = Inr, d_KV = Inr, e_Hashed = Inr, d_Hashed = Inr,
     e_TxRW = (\<lambda>(dm, ms). if ms = [] then Inr [] else if ms = [\<lparr>pm_Namespace = ''cc'', pm_Rwset = [5], pm_CollectionHashedRwset = []\<rparr>]
        then Inr [1] else Inl (errorNew ''too large'')),
     d_TxRW = (\<lambda>b. Inr (TxReadWriteSet_KV, if b = [] then [] else [\<lparr>pm_Namespace = ''cc'', pm_Rwset = [5], pm_CollectionHashedRwset = []\<rparr>])),
     e_TxPvtRW = (\<lambda>(dm, ms). if ms = [] then Inr [] else Inl (errorNew ''too large'')),
     d_TxPvtRW = (\<lambda>b. Inr (TxReadWriteSet_KV, []))\<rparr>"

lemma DataModel_eq: "TxReadWriteSet_KV = d"
  by (cases d) simp

interpretation id_rw: rwset_codec id_codec
  by unfold_locales (auto simp: id_codec_def DataModel_eq split: if_splits prod.splits)

theorem rwset_round_trip_witness:
  "ToProtoBytes id_codec [\<lparr>nrw_NameSpace = ''cc'', nrw_KvRwSet = [5], nrw_CollHashedRwSets = []\<rparr>] = Inr [1]
    \<and> FromProtoBytes id_codec [1] [] = (None, [\<lparr>nrw_NameSpace = ''cc'', nrw_KvRwSet = [5], nrw_CollHashedRwSets = []\<rparr>])"
proof -
  have c: "\<forall>x b. e_KV id_codec x = Inr b \<longrightarrow> d_KV id_codec b = Inr x" "\<forall>x b. e_Hashed id_codec x = Inr b \<longrightarrow> d_Hashed id_codec b = Inr x"
    "\<forall>x b. e_TxRW id_codec x = Inr b \<longrightarrow> d_TxRW id_codec b = Inr x" "\<forall>x b. e_TxPvtRW id_codec x = Inr b \<longrightarrow> d_TxPvtRW id_codec b = Inr x"
    by (auto simp: id_codec_def DataModel_eq split: if_splits)
  let ?s = "[\<lparr>nrw_NameSpace = ''cc'', nrw_KvRwSet = [5], nrw_CollHashedRwSets = []\<rparr>]"
  have "ToProtoBytes id_codec ?s = Inr [1]" by (simp add: ToProtoBytes_def tx_toProtoMsg_def ns_toProtoMsg_def id_codec_def)
  then show ?thesis using rwset_round_trip [OF c, of ?s "[1]" "[]" "[]" "[]"] by simp
qed

end
