(* ===== verification/Invoke_Handlers.thy ===== *)
theory Invoke_Handlers
  imports Fabric_Selection Endpoints RWSets
begin

text \<open>
  The handlers of the channel client (pkg/client/channel/invoke: txnhandler.go, selectendorsehandler.go,
  signature.go, api.go), the verifier of signatures (pkg/client/common/verifier/signature.go) and the options
  of a selection request (pkg/client/common/selection/options).

  The services that a handler calls are the fields of \<open>ClientContext\<close>; they may change the world \<open>'w\<close>. The
  request context, which the handlers share and change, is threaded through them. \<open>'f\<close> is the type of the
  floating point numbers of the retry options.
\<close>

section \<open>Options of a selection request\<close>

type_synonym 'w peerFilter = "peer \<Rightarrow> 'w \<Rightarrow> bool \<times> 'w"
type_synonym 'w peerSorter = "peer list \<Rightarrow> 'w \<Rightarrow> peer list \<times> 'w"

record ('w, 'f) Params =
  sp_PeerFilter :: "'w peerFilter option"
  sp_PeerSorter :: "'w peerSorter option"
  sp_RetryOpts :: "'f Opts"

type_synonym ('w, 'f) selOpt = "('w, 'f) Params \<Rightarrow> ('w, 'f) Params"

text \<open>\<open>retry.Opts{}\<close>\<close>

definition zeroOpts :: "'f::zero Opts" where
  "zeroOpts = \<lparr>Attempts = 0, InitialBackoff = 0, MaxBackoff = 0, BackoffFactor = 0, RetryableCodes = []\<rparr>"

definition NewParams :: "('w, 'f::zero) selOpt list \<Rightarrow> ('w, 'f) Params" where
  "NewParams opts = fold (\<lambda>opt p. opt p) opts \<lparr>sp_PeerFilter = None, sp_PeerSorter = None, sp_RetryOpts = zeroOpts\<rparr>"

definition WithPeerFilter :: "'w peerFilter \<Rightarrow> ('w, 'f) selOpt" where
  "WithPeerFilter value p = p\<lparr>sp_PeerFilter := Some value\<rparr>"

definition WithPeerSorter :: "'w peerSorter \<Rightarrow> ('w, 'f) selOpt" where
  "WithPeerSorter value p = p\<lparr>sp_PeerSorter := Some value\<rparr>"

definition sel_sortPeers :: "peer list \<Rightarrow> (peer \<Rightarrow> peer \<Rightarrow> int) \<Rightarrow> peer list" where
  "sel_sortPeers peers ps = sort_by (\<lambda>p q. ps p q > 0) peers"

definition WithPrioritySelector :: "(peer \<Rightarrow> peer \<Rightarrow> int) \<Rightarrow> ('w, 'f) selOpt" where
  "WithPrioritySelector value = WithPeerSorter (\<lambda>peers w. (sel_sortPeers peers value, w))"

definition WithRetryOpts :: "'f Opts \<Rightarrow> ('w, 'f) selOpt" where
  "WithRetryOpts value p = p\<lparr>sp_RetryOpts := value\<rparr>"

section \<open>Contexts\<close>

record Request =
  rq_ChaincodeID :: string
  rq_Fcn :: string
  rq_Args :: "bytes list"
  rq_TransientMap :: "(string \<times> bytes) list"
  rq_InvocationChain :: "ChaincodeCall list"
  rq_IsInit :: bool

record InvokeResponse =
  rp_Proposal :: "TransactionProposal option"
  rp_Responses :: "TransactionProposalResponse list"
  rp_TransactionID :: string
  rp_TxValidationCode :: tx_code
  rp_ChaincodeStatus :: "32 word"
  rp_Payload :: bytes

definition emptyResponse :: InvokeResponse where
  "emptyResponse = \<lparr>rp_Proposal = None, rp_Responses = [], rp_TransactionID = [], rp_TxValidationCode = 0,
     rp_ChaincodeStatus = 0, rp_Payload = []\<rparr>"

datatype TimeoutType = QueryTimeout | ExecuteTimeout | OtherTimeout nat

record ('w, 'f) invokeOpts =
  io_Targets :: "peer list"
  io_TargetFilter :: "'w peerFilter option"
  io_TargetSorter :: "'w peerSorter option"
  io_Retry :: "'f Opts"
  io_BeforeRetry :: "(goerr \<Rightarrow> 'w \<Rightarrow> 'w) option"
  io_Timeouts :: "TimeoutType \<rightharpoonup> int"
  io_ParentContext :: "nat option"
  io_CCFilter :: "(string \<Rightarrow> bool) option"

record ('w, 'f) RequestContext =
  rc_Request :: Request
  rc_Opts :: "('w, 'f) invokeOpts"
  rc_Response :: InvokeResponse
  rc_Error :: "goerr option"
  rc_SelectionFilter :: "'w peerFilter option"
  rc_PeerSorter :: "'w peerSorter option"

text \<open>
  What the wait for the status of a transaction ends with: the status event, a receive from the closed
  channel, or the end of the request's context.
\<close>

datatype awaited = TxStatus tx_code | NotifierClosed | CtxDone

record ('w, 'f) ClientContext =
  cl_GetEndorsersForChaincode :: "ChaincodeCall list \<Rightarrow> ('w, 'f) selOpt list \<Rightarrow> 'w \<Rightarrow> (peer list res \<times> 'w) outcome"
  cl_Validate :: "bytes \<Rightarrow> goerr option"
  cl_Verify :: "bytes \<Rightarrow> bytes \<Rightarrow> bytes \<Rightarrow> goerr option"
  cl_CreateTransactionHeader :: "TxnHeaderOpt list \<Rightarrow> 'w \<Rightarrow> TransactionHeader res \<times> 'w"
  cl_Timestamp :: "'w \<Rightarrow> int res"
  cl_SendTransactionProposal :: "TransactionProposal option \<Rightarrow> ProposalProcessor option list \<Rightarrow> 'w
     \<Rightarrow> (TransactionProposalResponse list \<times> goerr option) \<times> 'w"
  cl_CreateTransaction :: "TransactionProposal option \<Rightarrow> TransactionProposalResponse list \<Rightarrow> Transaction res outcome"
  cl_SendTransaction :: "Transaction \<Rightarrow> 'w \<Rightarrow> ((string option \<times> goerr option) \<times> 'w) outcome"
  cl_RegisterTxStatusEvent :: "string \<Rightarrow> 'w \<Rightarrow> nat res \<times> 'w"
  cl_AwaitTxStatus :: "nat \<Rightarrow> 'w \<Rightarrow> (awaited \<times> 'w) outcome"
  cl_Unregister :: "nat \<Rightarrow> 'w \<Rightarrow> 'w"

text \<open>What the handlers use of the environment: error names, message codecs and the services.\<close>

record ('w, 'f, 'kv, 'h) invokeEnv =
  ie_wire :: wire
  ie_pc :: pcodec
  ie_rw :: "('kv, 'h) rwcodec"
  ie_cl :: "('w, 'f) ClientContext"

type_synonym ('w, 'f) step = "('w, 'f) RequestContext \<Rightarrow> 'w \<Rightarrow> (('w, 'f) RequestContext \<times> 'w) outcome"

text \<open>\<open>if e.next != nil { e.next.Handle(...) }\<close>\<close>

definition delegate :: "('w, 'f) step option \<Rightarrow> ('w, 'f) step" where
  "delegate next rc w = (case next of None \<Rightarrow> Ok (rc, w) | Some h \<Rightarrow> h rc w)"

definition fail :: "goerr \<Rightarrow> ('w, 'f) step" where
  "fail e rc w = Ok (rc\<lparr>rc_Error := Some e\<rparr>, w)"

section \<open>Endorsement\<close>

definition PeersToTxnProcessors :: "peer list \<Rightarrow> ProposalProcessor option list" where
  "PeersToTxnProcessors peers = map (Some \<circ> PeerProcessor) peers"

definition checkEndorserServerError :: "wire \<Rightarrow> goerr \<Rightarrow> goerr" where
  "checkEndorserServerError w err =
    (if sublist ''failed to distribute private collection'' (errorText w err)
     then asError (status_New EndorserServerStatus PvtDataDisseminationFailed (errorText w err) []) else err)"

definition getResultFromProposalResponsePayload :: "pcodec \<Rightarrow> bytes \<Rightarrow> bytes res" where
  "getResultFromProposalResponsePayload pc extension =
    rbind (wrap_err ''failed to deserialize chaincode action'' (d_ChaincodeAction pc extension)) (\<lambda>action.
      Inr (case ca_Response action of None \<Rightarrow> [] | Some r \<Rightarrow> r_Payload r))"

definition getResultFromProposalResponse :: "pcodec \<Rightarrow> ProposalResponse option \<Rightarrow> bytes res" where
  "getResultFromProposalResponse pc proposalResponse =
    rbind (wrap_err ''failed to deserialize proposal response payload''
        (d_PRP pc (bytes_of (Option.bind proposalResponse pr_Payload))))
      (getResultFromProposalResponsePayload pc)"

definition createAndSendTransactionProposal :: "('w, 'f, 'kv, 'h) invokeEnv \<Rightarrow> Request \<Rightarrow> ProposalProcessor option list
    \<Rightarrow> TxnHeaderOpt list \<Rightarrow> 'w
    \<Rightarrow> ((TransactionProposalResponse list \<times> TransactionProposal option \<times> goerr option) \<times> 'w) outcome" where
  "createAndSendTransactionProposal env chrequest targets opts w =
    (let request = \<lparr>ir_ChaincodeID = rq_ChaincodeID chrequest, ir_Lang = 0, ir_TransientMap = rq_TransientMap chrequest,
           ir_Fcn = rq_Fcn chrequest, ir_Args = rq_Args chrequest, ir_IsInit = rq_IsInit chrequest\<rparr>
     in case cl_CreateTransactionHeader (ie_cl env) opts w of
       (Inl err, w1) \<Rightarrow> Ok (([], None, Some (withMessage err ''creating transaction header failed'')), w1)
     | (Inr txh, w1) \<Rightarrow>
         obind (CreateChaincodeInvokeProposal (ie_pc env) (cl_Timestamp (ie_cl env) w1) txh request) (\<lambda>r. case r of
           Inl err \<Rightarrow> Ok (([], None, Some (withMessage err ''creating transaction proposal failed'')), w1)
         | Inr proposal \<Rightarrow> (case cl_SendTransactionProposal (ie_cl env) (Some proposal) targets w1 of
             ((resps, err), w2) \<Rightarrow> Ok ((resps, Some proposal, err), w2))))"

text \<open>The transaction ID is read from the proposal before the error is tested.\<close>

definition EndorsementHandler_Handle :: "('w, 'f, 'kv, 'h) invokeEnv \<Rightarrow> TxnHeaderOpt list option \<Rightarrow> ('w, 'f) step option
    \<Rightarrow> ('w, 'f) step" where
  "EndorsementHandler_Handle env headerOpts next rc w =
    (if length (io_Targets (rc_Opts rc)) = 0
     then fail (asError (status_New ClientStatus NoPeersFound ''targets were not provided'' [])) rc w
     else obind (createAndSendTransactionProposal env (rc_Request rc) (PeersToTxnProcessors (io_Targets (rc_Opts rc)))
        (case headerOpts of None \<Rightarrow> [] | Some os \<Rightarrow> os) w) (\<lambda>((resps, proposal, err), w'). case proposal of
          None \<Rightarrow> Panic
        | Some p \<Rightarrow>
           let rc1 = rc\<lparr>rc_Response := (rc_Response rc)\<lparr>rp_Proposal := Some p, rp_TransactionID := tp_TxnID p\<rparr>\<rparr>
           in (case err of
             Some e \<Rightarrow> fail (checkEndorserServerError (ie_wire env) e) rc1 w'
           | None \<Rightarrow>
              let rc2 = rc1\<lparr>rc_Response := (rc_Response rc1)\<lparr>rp_Responses := resps\<rparr>\<rparr>
              in (case resps of
                [] \<Rightarrow> delegate next rc2 w'
              | r # _ \<Rightarrow> (case getResultFromProposalResponse (ie_pc env) (tpr_ProposalResponse r) of
                  Inl e \<Rightarrow> fail e rc2 w'
                | Inr responsePayload \<Rightarrow> delegate next (rc2\<lparr>rc_Response := (rc_Response rc2)
                     \<lparr>rp_Payload := responsePayload, rp_ChaincodeStatus := tpr_ChaincodeStatus r\<rparr>\<rparr>) w')))))"

section \<open>Selecting endorsers\<close>

definition selectionOpts :: "('w, 'f) RequestContext \<Rightarrow> ('w, 'f) selOpt list" where
  "selectionOpts rc =
    (case rc_SelectionFilter rc of None \<Rightarrow> [] | Some f \<Rightarrow> [WithPeerFilter f])
    @ (case rc_PeerSorter rc of None \<Rightarrow> [] | Some s \<Rightarrow> [WithPeerSorter s])"

fun new_chain_loop :: "ChaincodeCall \<Rightarrow> ChaincodeCall list \<Rightarrow> ChaincodeCall list \<Rightarrow> ChaincodeCall list" where
  "new_chain_loop c rest [] = c # rest"
| "new_chain_loop c rest (ccCall # calls) =
    (if cc_ID ccCall = cc_ID c then new_chain_loop (c\<lparr>cc_Collections := cc_Collections ccCall\<rparr>) rest calls
     else new_chain_loop c (rest @ [ccCall]) calls)"

definition newInvocationChain :: "Request \<Rightarrow> ChaincodeCall list" where
  "newInvocationChain rq =
    new_chain_loop \<lparr>cc_ID = rq_ChaincodeID rq, cc_Collections = []\<rparr> [] (rq_InvocationChain rq)"

definition ProposalProcessorHandler_Handle :: "('w, 'f, 'kv, 'h) invokeEnv \<Rightarrow> ('w, 'f) step option \<Rightarrow> ('w, 'f) step" where
  "ProposalProcessorHandler_Handle env next rc w =
    (if length (io_Targets (rc_Opts rc)) = 0
     then obind (cl_GetEndorsersForChaincode (ie_cl env) (newInvocationChain (rc_Request rc)) (selectionOpts rc) w)
       (\<lambda>(r, w'). case r of
          Inl err \<Rightarrow> fail (withMessage err ''Failed to get endorsing peers'') rc w'
        | Inr endorsers \<Rightarrow> delegate next (rc\<lparr>rc_Opts := (rc_Opts rc)\<lparr>io_Targets := endorsers\<rparr>\<rparr>) w')
     else delegate next rc w)"

text \<open>The invocation chain and the endorsers.\<close>

definition handler_getEndorsers :: "('w, 'f, 'kv, 'h) invokeEnv \<Rightarrow> ('w, 'f) RequestContext \<Rightarrow> ('w, 'f) selOpt list \<Rightarrow> 'w
    \<Rightarrow> (ChaincodeCall list \<times> peer list res \<times> 'w) outcome" where
  "handler_getEndorsers env rc opts w =
    obind (cl_GetEndorsersForChaincode (ie_cl env) (newInvocationChain (rc_Request rc)) (opts @ selectionOpts rc) w)
      (\<lambda>(r, w'). Ok (newInvocationChain (rc_Request rc), r, w'))"

section \<open>Merging invocation chains\<close>

definition lsccFilter :: "string \<Rightarrow> bool" where
  "lsccFilter ccID \<longleftrightarrow> ccID \<noteq> ''lscc'' \<and> ccID \<noteq> ''_lifecycle''"

primrec NewChainedCCFilter :: "(string \<Rightarrow> bool) list \<Rightarrow> string \<Rightarrow> bool" where
  "NewChainedCCFilter [] ccID = True"
| "NewChainedCCFilter (f # fs) ccID = (if \<not> f ccID then False else NewChainedCCFilter fs ccID)"

definition getCCFilter :: "('w, 'f) RequestContext \<Rightarrow> string \<Rightarrow> bool" where
  "getCCFilter rc = (case io_CCFilter (rc_Opts rc) of
     Some f \<Rightarrow> NewChainedCCFilter [lsccFilter, f] | None \<Rightarrow> lsccFilter)"

primrec containsMSP :: "peer list \<Rightarrow> string \<Rightarrow> bool" where
  "containsMSP [] mspID = False"
| "containsMSP (p # ps) mspID = (if peer_MSPID p = mspID then True else containsMSP ps mspID)"

primrec containsPeerURL :: "peer list \<Rightarrow> peer \<Rightarrow> bool" where
  "containsPeerURL [] q = False"
| "containsPeerURL (p # ps) q = (if peer_URL p = peer_URL q then True else containsPeerURL ps q)"

definition prioritizePeers :: "peer list \<Rightarrow> peer \<Rightarrow> peer \<Rightarrow> int" where
  "prioritizePeers peers peer1 peer2 =
    (let hasPeer1 = containsPeerURL peers peer1; hasPeer2 = containsPeerURL peers peer2
     in if hasPeer1 \<and> hasPeer2 then 0 else if hasPeer1 then 1 else if hasPeer2 then - 1 else 0)"

text \<open>The loop of \<open>merge\<close>: the collections so far and whether one was added.\<close>

fun merge_colls :: "string list \<Rightarrow> string list \<Rightarrow> bool \<Rightarrow> string list \<times> bool" where
  "merge_colls cs [] merged = (cs, merged)"
| "merge_colls cs (coll # colls) merged =
    (if \<not> coll \<in> set cs then merge_colls (cs @ [coll]) colls True else merge_colls cs colls merged)"

definition merge :: "ChaincodeCall \<Rightarrow> ChaincodeCall \<Rightarrow> ChaincodeCall \<times> bool" where
  "merge c1 c2 = (case merge_colls (cc_Collections c1) (cc_Collections c2) False of
     (cs, merged) \<Rightarrow> (\<lparr>cc_ID = cc_ID c1, cc_Collections = cs\<rparr>, merged))"

primrec getCCCall :: "ChaincodeCall list \<Rightarrow> string \<Rightarrow> ChaincodeCall option" where
  "getCCCall [] ccID = None"
| "getCCCall (ccCall # cs) ccID = (if cc_ID ccCall = ccID then Some ccCall else getCCCall cs ccID)"

definition mergeCCCall :: "ChaincodeCall list \<Rightarrow> ChaincodeCall \<Rightarrow> ChaincodeCall \<times> bool" where
  "mergeCCCall invocChain respCCCall = (case getCCCall invocChain (cc_ID respCCCall) of
     Some ccCall \<Rightarrow> merge ccCall respCCCall
   | None \<Rightarrow> (respCCCall, True))"

fun merge_chains_loop :: "ChaincodeCall list \<Rightarrow> ChaincodeCall list \<Rightarrow> (string \<Rightarrow> bool) \<Rightarrow> ChaincodeCall list \<Rightarrow> bool
    \<Rightarrow> ChaincodeCall list \<times> bool" where
  "merge_chains_loop invocChain [] flt merged changed = (merged, changed)"
| "merge_chains_loop invocChain (respCCCall # rs) flt merged changed =
    (if \<not> flt (cc_ID respCCCall) then merge_chains_loop invocChain rs flt merged changed
     else (case mergeCCCall invocChain respCCCall of (mergedCCCall, m) \<Rightarrow>
       merge_chains_loop invocChain rs flt (merged @ [mergedCCCall]) (if m then True else changed)))"

definition mergeInvocationChains :: "ChaincodeCall list \<Rightarrow> ChaincodeCall list \<Rightarrow> (string \<Rightarrow> bool) \<Rightarrow> ChaincodeCall list \<times> bool" where
  "mergeInvocationChains invocChain respInvocChain flt = merge_chains_loop invocChain respInvocChain flt [] False"

section \<open>The read-write sets of a response\<close>

definition getRWSetsFromProposalResponse :: "pcodec \<Rightarrow> ('kv, 'h) rwcodec \<Rightarrow> ProposalResponse option \<Rightarrow> ('kv, 'h) NsRwSet list res" where
  "getRWSetsFromProposalResponse pc rw response = (case response of
     None \<Rightarrow> Inr []
   | Some resp \<Rightarrow>
      rbind (d_PRP pc (bytes_of (pr_Payload resp))) (\<lambda>extension.
      rbind (d_ChaincodeAction pc extension) (\<lambda>chaincodeAction.
        if length (ca_Results chaincodeAction) = 0 then Inr []
        else (case FromProtoBytes rw (ca_Results chaincodeAction) [] of
          (Some err, _) \<Rightarrow> Inl err
        | (None, s) \<Rightarrow> Inr s))))"

definition getInvocationChainFromResponse :: "pcodec \<Rightarrow> ('kv, 'h) rwcodec \<Rightarrow> TransactionProposalResponse \<Rightarrow> ChaincodeCall list res" where
  "getInvocationChainFromResponse pc rw response =
    rbind (getRWSetsFromProposalResponse pc rw (tpr_ProposalResponse response)) (\<lambda>rwSets.
      Inr (map (\<lambda>s. \<lparr>cc_ID = nrw_NameSpace s, cc_Collections = map chr_CollectionName (nrw_CollHashedRwSets s)\<rparr>) rwSets))"

text \<open>
  \<open>getAdditionalEndorsers\<close> changes the invocation chain of the request when it has found another chaincode or
  collection, also if selecting endorsers fails then.
\<close>

definition getAdditionalEndorsers :: "('w, 'f::zero, 'kv, 'h) invokeEnv \<Rightarrow> ('w, 'f) RequestContext \<Rightarrow> ChaincodeCall list \<Rightarrow> 'w
    \<Rightarrow> (peer list res \<times> ('w, 'f) RequestContext \<times> 'w) outcome" where
  "getAdditionalEndorsers env rc invocationChain w = (case rp_Responses (rc_Response rc) of
     [] \<Rightarrow> Panic
   | r # _ \<Rightarrow> (case getInvocationChainFromResponse (ie_pc env) (ie_rw env) r of
       Inl err \<Rightarrow> Ok (Inl (withMessage err ''error getting invocation chain from proposal response''), rc, w)
     | Inr fromResponse \<Rightarrow> (case mergeInvocationChains invocationChain fromResponse (getCCFilter rc) of
         (chain, foundAdditional) \<Rightarrow>
           if \<not> foundAdditional then Ok (Inr [], rc, w)
           else let rc' = rc\<lparr>rc_Request := (rc_Request rc)\<lparr>rq_InvocationChain := chain\<rparr>\<rparr>;
                    targets = io_Targets (rc_Opts rc')
             in obind (handler_getEndorsers env rc' [WithRetryOpts zeroOpts, WithPrioritySelector (prioritizePeers targets)] w)
              (\<lambda>(_, e, w'). case e of
                 Inl err \<Rightarrow> Ok (Inl (withMessage err ''error getting additional endorsers''), rc', w')
               | Inr endorsers \<Rightarrow> Ok (Inr (filter (\<lambda>p. \<not> containsMSP targets (peer_MSPID p)) endorsers), rc', w')))))"

text \<open>\<open>Handle\<close> after the endorsement: asking additional endorsers, and the rest of the handler.\<close>

definition add_endorsements :: "('w, 'f::zero, 'kv, 'h) invokeEnv \<Rightarrow> ('w, 'f) step option \<Rightarrow> ChaincodeCall list \<Rightarrow> ('w, 'f) step" where
  "add_endorsements env next ccCalls rc w =
    obind (getAdditionalEndorsers env rc ccCalls w) (\<lambda>(a, rc1, w1). case a of
      Inl err \<Rightarrow> delegate next rc1 w1
    | Inr additionalEndorsers \<Rightarrow>
       if length additionalEndorsers > 0
       then let rc2 = rc1\<lparr>rc_Opts := (rc_Opts rc1)\<lparr>io_Targets := additionalEndorsers\<rparr>\<rparr>
         in (case cl_SendTransactionProposal (ie_cl env) (rp_Proposal (rc_Response rc2))
                (PeersToTxnProcessors additionalEndorsers) w1 of
           ((_, Some err), w2) \<Rightarrow> fail (withMessage err ''error sending transaction proposal'') rc2 w2
         | ((additionalResponses, None), w2) \<Rightarrow> delegate next (rc2\<lparr>rc_Response := (rc_Response rc2)
             \<lparr>rp_Responses := rp_Responses (rc_Response rc2) @ additionalResponses\<rparr>\<rparr>) w2)
       else delegate next rc1 w1)"

definition endorse_selected :: "('w, 'f::zero, 'kv, 'h) invokeEnv \<Rightarrow> bool \<Rightarrow> ('w, 'f) step option \<Rightarrow> ChaincodeCall list \<Rightarrow> ('w, 'f) step" where
  "endorse_selected env noTargets next ccCalls rc w =
    obind (EndorsementHandler_Handle env None None rc w) (\<lambda>(rc1, w1).
      if rc_Error rc1 \<noteq> None then Ok (rc1, w1)
      else if noTargets \<and> length (rp_Responses (rc_Response rc1)) > 0 then add_endorsements env next ccCalls rc1 w1
      else delegate next rc1 w1)"

definition SelectAndEndorseHandler_Handle :: "('w, 'f::zero, 'kv, 'h) invokeEnv \<Rightarrow> ('w, 'f) step option \<Rightarrow> ('w, 'f) step" where
  "SelectAndEndorseHandler_Handle env next rc w =
    (if length (io_Targets (rc_Opts rc)) = 0
     then obind (handler_getEndorsers env rc [] w) (\<lambda>(ccCalls, r, w1). case r of
       Inl err \<Rightarrow> fail err (rc\<lparr>rc_Opts := (rc_Opts rc)\<lparr>io_Targets := []\<rparr>\<rparr>) w1
     | Inr peers \<Rightarrow> endorse_selected env True next ccCalls (rc\<lparr>rc_Opts := (rc_Opts rc)\<lparr>io_Targets := peers\<rparr>\<rparr>) w1)
     else endorse_selected env False next [] rc w)"

section \<open>Validating endorsements\<close>

text \<open>\<open>a1\<close> is the first response, once it has been seen.\<close>

primrec ev_validate :: "pcodec \<Rightarrow> ProposalResponse option \<Rightarrow> TransactionProposalResponse list \<Rightarrow> goerr option outcome" where
  "ev_validate pc a1 [] = Ok None"
| "ev_validate pc a1 (r # rs) = (case tpr_ProposalResponse r of
     None \<Rightarrow> Panic
   | Some pr \<Rightarrow> (case pr_Response pr of
        None \<Rightarrow> Panic
      | Some response \<Rightarrow>
          if failed_status pc (r_Status response)
          then obind (NewFromProposalResponse (Some (pr_Response pr)) (tpr_Endorser r)) (\<lambda>s. Ok (map_option asError s))
          else (case a1 of
             None \<Rightarrow> ev_validate pc (Some pr) rs
           | Some a \<Rightarrow>
              if bytes_of (pr_Payload a) \<noteq> bytes_of (pr_Payload pr)
                 \<or> (case pr_Response a of None \<Rightarrow> True | Some ra \<Rightarrow> r_Payload ra \<noteq> r_Payload response)
              then Ok (Some (asError (status_New EndorserClientStatus EndorsementMismatch ''ProposalResponsePayloads do not match'' [])))
              else ev_validate pc a1 rs)))"

definition EndorsementValidationHandler_Handle :: "('w, 'f, 'kv, 'h) invokeEnv \<Rightarrow> ('w, 'f) step option \<Rightarrow> ('w, 'f) step" where
  "EndorsementValidationHandler_Handle env next rc w =
    obind (ev_validate (ie_pc env) None (rp_Responses (rc_Response rc))) (\<lambda>err. case err of
      Some e \<Rightarrow> fail (withMessage e ''endorsement validation failed'') rc w
    | None \<Rightarrow> delegate next rc w)"

text \<open>\<open>errors.WithStack\<close> only adds a stack trace: neither the text nor the cause of the error changes.\<close>

definition withStack :: "goerr \<Rightarrow> goerr" where
  "withStack e = e"

definition Verify :: "('w, 'f, 'kv, 'h) invokeEnv \<Rightarrow> TransactionProposalResponse \<Rightarrow> goerr option outcome" where
  "Verify env response = (case tpr_ProposalResponse response of
     None \<Rightarrow> Panic
   | Some res \<Rightarrow> (case pr_Response res of
      None \<Rightarrow> Panic
    | Some r \<Rightarrow>
       if failed_status (ie_pc env) (r_Status r)
       then obind (NewFromProposalResponse (Some (pr_Response res)) (tpr_Endorser response)) (\<lambda>s. Ok (map_option asError s))
       else (case pr_Endorsement res of
         None \<Rightarrow> Ok (Some (withStack (asError (status_New EndorserClientStatus MissingEndorsement
                   ''missing endorsement in proposal response'' []))))
       | Some e \<Rightarrow> (case cl_Validate (ie_cl env) (en_Endorser e) of
           Some err \<Rightarrow> Ok (Some (withStack (asError (status_New EndorserClientStatus SignatureVerificationFailed
                   ''the creator certificate is not valid'' [DStr (errorText (ie_wire env) err)]))))
         | None \<Rightarrow>
            let digest = bytes_of (pr_Payload res) @ en_Endorser e
            in (case cl_Verify (ie_cl env) (en_Endorser e) digest (en_Signature e) of
              Some err \<Rightarrow> Ok (Some (withStack (asError (status_New EndorserClientStatus SignatureVerificationFailed
                   ''the creator's signature over the proposal is not valid'' [DStr (errorText (ie_wire env) err)]))))
            | None \<Rightarrow> Ok None)))))"

primrec sv_validate :: "('w, 'f, 'kv, 'h) invokeEnv \<Rightarrow> TransactionProposalResponse list \<Rightarrow> goerr option outcome" where
  "sv_validate env [] = Ok None"
| "sv_validate env (r # rs) = obind (Verify env r) (\<lambda>err. if err \<noteq> None then Ok err else sv_validate env rs)"

definition SignatureValidationHandler_Handle :: "('w, 'f, 'kv, 'h) invokeEnv \<Rightarrow> ('w, 'f) step option \<Rightarrow> ('w, 'f) step" where
  "SignatureValidationHandler_Handle env next rc w =
    obind (sv_validate env (rp_Responses (rc_Response rc))) (\<lambda>err. case err of
      Some e \<Rightarrow> fail (withMessage e ''signature validation failed'') rc w
    | None \<Rightarrow> delegate next rc w)"

section \<open>Committing\<close>

definition createAndSendTransaction :: "('w, 'f, 'kv, 'h) invokeEnv \<Rightarrow> TransactionProposal option \<Rightarrow> TransactionProposalResponse list \<Rightarrow> 'w
    \<Rightarrow> (string option res \<times> 'w) outcome" where
  "createAndSendTransaction env proposal resps w =
    obind (cl_CreateTransaction (ie_cl env) proposal resps) (\<lambda>r. case r of
      Inl err \<Rightarrow> Ok (Inl (withMessage err ''CreateTransaction failed''), w)
    | Inr tx \<Rightarrow> obind (cl_SendTransaction (ie_cl env) tx w) (\<lambda>((resp, err), w'). case err of
        Some e \<Rightarrow> Ok (Inl (withMessage e ''SendTransaction failed''), w')
      | None \<Rightarrow> Ok (Inr resp, w')))"

text \<open>
  The body of the handler after the registration, with the deferred \<open>Unregister\<close> applied to its result. A
  closed channel delivers a nil event, whose validation code is then read.
\<close>

definition commit_body :: "('w, 'f, 'kv, 'h) invokeEnv \<Rightarrow> nat \<Rightarrow> ('w, 'f) step option \<Rightarrow> ('w, 'f) step" where
  "commit_body env reg next rc w =
    obind (createAndSendTransaction env (rp_Proposal (rc_Response rc)) (rp_Responses (rc_Response rc)) w) (\<lambda>(r, w1). case r of
      Inl err \<Rightarrow> fail (withMessage err ''CreateAndSendTransaction failed'') rc w1
    | Inr _ \<Rightarrow> obind (cl_AwaitTxStatus (ie_cl env) reg w1) (\<lambda>(a, w2). case a of
        NotifierClosed \<Rightarrow> Panic
      | CtxDone \<Rightarrow> fail (asError (status_New ClientStatus Timeout ''Execute didn't receive block event'' [])) rc w2
      | TxStatus code \<Rightarrow>
          let rc1 = rc\<lparr>rc_Response := (rc_Response rc)\<lparr>rp_TxValidationCode := code\<rparr>\<rparr>
          in if code \<noteq> TxValidationCode_VALID
             then fail (asError (status_New EventServerStatus (word_of_int code) ''received invalid transaction'' [])) rc1 w2
             else delegate next rc1 w2))"

definition CommitTxHandler_Handle :: "('w, 'f, 'kv, 'h) invokeEnv \<Rightarrow> ('w, 'f) step option \<Rightarrow> ('w, 'f) step" where
  "CommitTxHandler_Handle env next rc w =
    (case cl_RegisterTxStatusEvent (ie_cl env) (rp_TransactionID (rc_Response rc)) w of
       (Inl err, w1) \<Rightarrow> fail (withMessage err ''error registering for TxStatus event'') rc w1
     | (Inr reg, w1) \<Rightarrow>
         obind (commit_body env reg next rc w1) (\<lambda>(rc', w2). Ok (rc', cl_Unregister (ie_cl env) reg w2)))"

section \<open>Chains of handlers\<close>

datatype ('w, 'f) Handler =
  EndorsementHandler "('w, 'f) Handler option" "TxnHeaderOpt list option"
| ProposalProcessorHandler "('w, 'f) Handler option"
| EndorsementValidationHandler "('w, 'f) Handler option"
| SignatureValidationHandler "('w, 'f) Handler option"
| CommitTxHandler "('w, 'f) Handler option"
| SelectAndEndorseHandler "('w, 'f) Handler option"
| CustomHandler "('w, 'f) step"

primrec Handle :: "('w, 'f::zero, 'kv, 'h) invokeEnv \<Rightarrow> ('w, 'f) Handler \<Rightarrow> ('w, 'f) step" where
  "Handle env (EndorsementHandler next provider) = EndorsementHandler_Handle env provider (map_option (Handle env) next)"
| "Handle env (ProposalProcessorHandler next) = ProposalProcessorHandler_Handle env (map_option (Handle env) next)"
| "Handle env (EndorsementValidationHandler next) = EndorsementValidationHandler_Handle env (map_option (Handle env) next)"
| "Handle env (SignatureValidationHandler next) = SignatureValidationHandler_Handle env (map_option (Handle env) next)"
| "Handle env (CommitTxHandler next) = CommitTxHandler_Handle env (map_option (Handle env) next)"
| "Handle env (SelectAndEndorseHandler next) = SelectAndEndorseHandler_Handle env (map_option (Handle env) next)"
| "Handle env (CustomHandler h) = h"

definition getNext :: "('w, 'f) Handler list \<Rightarrow> ('w, 'f) Handler option" where
  "getNext next = (if length next > 0 then Some (next ! 0) else None)"

definition NewQueryHandler :: "('w, 'f) Handler list \<Rightarrow> ('w, 'f) Handler" where
  "NewQueryHandler next = ProposalProcessorHandler (getNext [EndorsementHandler (getNext
     [EndorsementValidationHandler (getNext [SignatureValidationHandler (getNext next)])]) None])"

definition NewExecuteHandler :: "('w, 'f) Handler list \<Rightarrow> ('w, 'f) Handler" where
  "NewExecuteHandler next = SelectAndEndorseHandler (getNext [EndorsementValidationHandler (getNext
     [SignatureValidationHandler (getNext [CommitTxHandler (getNext next)])])])"

end
