(* ===== verification/Channel_Client.thy ===== *)
theory Channel_Client
  imports Invoke_Handlers
begin

text \<open>
  The channel client (pkg/client/channel: chclient.go, chclientrun_std.go, api.go) with the timeout of a request
  context (pkg/context/context.go) and the lookup of a target's configuration (pkg/fab/comm/network.go).

  The world of the handlers is the pair of the client's greylist and the rest \<open>'v\<close> of the world. The client
  waits for the goroutine of the invoker or for the end of its context: which comes first is the argument
  \<open>ctxDone\<close> of \<open>InvokeHandler\<close>.
\<close>

type_synonym 'v cworld = "greylist \<times> 'v"
type_synonym ('v, 'f) requestOptions = "('v cworld, 'f) invokeOpts"

text \<open>
  The client's context: the endpoint configuration, the creation of peers and the services of the channel,
  each of which may fail to be created.
\<close>

record ('v, 'f, 'kv, 'h) channelCtx =
  cx_Timeout :: "TimeoutType \<Rightarrow> int"
  cx_PeerConfig :: "string \<Rightarrow> string option"               \<comment> \<open>the URL of the configured peer\<close>
  cx_NetworkPeers :: "(string \<times> string) list"             \<comment> \<open>their URLs and MSPs\<close>
  cx_CreatePeerFromConfig :: "string \<times> string \<Rightarrow> peer option res"
  cx_ChannelPeers :: "(string \<times> ChannelPeer) list"
  cx_Transactor :: "unit res"
  cx_Selection :: "unit res"
  cx_Discovery :: "unit res"
  cx_env :: "('v cworld, 'f, 'kv, 'h) invokeEnv"
  cx_Now :: "'v \<Rightarrow> int"
  cx_EndpointFilter :: "EndpointType \<Rightarrow> peer \<Rightarrow> bool"

type_synonym ('v, 'f, 'kv, 'h) RequestOption =
  "('v, 'f, 'kv, 'h) channelCtx \<Rightarrow> ('v, 'f) requestOptions \<Rightarrow> ('v, 'f) requestOptions res"

section \<open>Options\<close>

definition emptyOptions :: "('v, 'f::zero) requestOptions" where
  "emptyOptions = \<lparr>io_Targets = [], io_TargetFilter = None, io_TargetSorter = None, io_Retry = zeroOpts, io_BeforeRetry = None,
     io_Timeouts = Map.empty, io_ParentContext = None, io_CCFilter = None\<rparr>"

definition WithTargets :: "peer option list \<Rightarrow> ('v, 'f, 'kv, 'h) RequestOption" where
  "WithTargets targets ctx o' =
    (if None \<in> set targets then Inl (errorNew ''target is nil'') else Inr (o'\<lparr>io_Targets := map the targets\<rparr>))"

text \<open>\<open>comm.NetworkPeerConfig\<close>: the configuration of a peer and its MSP.\<close>

definition NetworkPeerConfig :: "('v, 'f, 'kv, 'h) channelCtx \<Rightarrow> string \<Rightarrow> (string \<times> string) res" where
  "NetworkPeerConfig ctx key = (case cx_PeerConfig ctx key of
     None \<Rightarrow> Inl (ErrorF ''peer [%s] not found'' [FS key])
   | Some url \<Rightarrow> Inr (url, case find (\<lambda>p. fst p = url) (cx_NetworkPeers ctx) of None \<Rightarrow> [] | Some p \<Rightarrow> snd p))"

primrec endpoint_targets :: "('v, 'f, 'kv, 'h) channelCtx \<Rightarrow> string list \<Rightarrow> peer option list \<Rightarrow> peer option list res" where
  "endpoint_targets ctx [] targets = Inr targets"
| "endpoint_targets ctx (url # urls) targets = rbind (NetworkPeerConfig ctx url) (\<lambda>peerCfg.
     rbind (wrap_err ''creating peer from config failed'' (cx_CreatePeerFromConfig ctx peerCfg)) (\<lambda>peer.
       endpoint_targets ctx urls (targets @ [peer])))"

definition WithTargetEndpoints :: "string list \<Rightarrow> ('v, 'f, 'kv, 'h) RequestOption" where
  "WithTargetEndpoints keys ctx o' = rbind (endpoint_targets ctx keys []) (\<lambda>targets. WithTargets targets ctx o')"

definition WithTargetFilter :: "'v cworld peerFilter \<Rightarrow> ('v, 'f, 'kv, 'h) RequestOption" where
  "WithTargetFilter flt ctx o' = Inr (o'\<lparr>io_TargetFilter := Some flt\<rparr>)"

definition WithTargetSorter :: "'v cworld peerSorter \<Rightarrow> ('v, 'f, 'kv, 'h) RequestOption" where
  "WithTargetSorter sorter ctx o' = Inr (o'\<lparr>io_TargetSorter := Some sorter\<rparr>)"

definition WithRetry :: "'f Opts \<Rightarrow> ('v, 'f, 'kv, 'h) RequestOption" where
  "WithRetry retryOpt ctx o' = Inr (o'\<lparr>io_Retry := retryOpt\<rparr>)"

definition WithBeforeRetry :: "(goerr \<Rightarrow> 'v cworld \<Rightarrow> 'v cworld) \<Rightarrow> ('v, 'f, 'kv, 'h) RequestOption" where
  "WithBeforeRetry beforeRetry ctx o' = Inr (o'\<lparr>io_BeforeRetry := Some beforeRetry\<rparr>)"

definition WithTimeout :: "TimeoutType \<Rightarrow> int \<Rightarrow> ('v, 'f, 'kv, 'h) RequestOption" where
  "WithTimeout timeoutType timeout ctx o' = Inr (o'\<lparr>io_Timeouts := (io_Timeouts o')(timeoutType \<mapsto> timeout)\<rparr>)"

definition WithParentContext :: "nat \<Rightarrow> ('v, 'f, 'kv, 'h) RequestOption" where
  "WithParentContext parentContext ctx o' = Inr (o'\<lparr>io_ParentContext := Some parentContext\<rparr>)"

definition WithChaincodeFilter :: "(string \<Rightarrow> bool) \<Rightarrow> ('v, 'f, 'kv, 'h) RequestOption" where
  "WithChaincodeFilter ccFilter ctx o' = Inr (o'\<lparr>io_CCFilter := Some ccFilter\<rparr>)"

text \<open>A missing key of a Go map reads as the zero value.\<close>

definition timeout_of :: "(TimeoutType \<rightharpoonup> int) \<Rightarrow> TimeoutType \<Rightarrow> int" where
  "timeout_of m tt = (case m tt of None \<Rightarrow> 0 | Some t \<Rightarrow> t)"

definition addDefaultTargetFilter :: "EndpointType \<Rightarrow> ('v, 'f, 'kv, 'h) RequestOption" where
  "addDefaultTargetFilter ft ctx o' =
    (if length (io_Targets o') = 0 \<and> io_TargetFilter o' = None
     then WithTargetFilter (\<lambda>p w. (cx_EndpointFilter ctx ft p, w)) ctx o' else Inr o')"

definition addDefaultTimeout :: "TimeoutType \<Rightarrow> ('v, 'f, 'kv, 'h) RequestOption" where
  "addDefaultTimeout tt ctx o' =
    (if timeout_of (io_Timeouts o') tt = 0 then WithTimeout tt (cx_Timeout ctx tt) ctx o' else Inr o')"

primrec apply_options :: "('v, 'f, 'kv, 'h) channelCtx \<Rightarrow> ('v, 'f, 'kv, 'h) RequestOption list \<Rightarrow> ('v, 'f) requestOptions
    \<Rightarrow> ('v, 'f) requestOptions res" where
  "apply_options ctx [] txnOpts = Inr txnOpts"
| "apply_options ctx (option # options) txnOpts =
    rbind (wrap_err ''Failed to read opts'' (option ctx txnOpts)) (apply_options ctx options)"

definition prepareOptsFromOptions :: "('v, 'f::zero, 'kv, 'h) channelCtx \<Rightarrow> ('v, 'f, 'kv, 'h) RequestOption list
    \<Rightarrow> ('v, 'f) requestOptions res" where
  "prepareOptsFromOptions ctx options = apply_options ctx options emptyOptions"

section \<open>The contexts of a request\<close>

text \<open>The timeout that \<open>context.NewRequest\<close> gives a context: an option, an override of the parent, the configuration.\<close>

definition request_timeout :: "('v, 'f, 'kv, 'h) channelCtx \<Rightarrow> int \<Rightarrow> (TimeoutType \<rightharpoonup> int) option \<Rightarrow> TimeoutType \<Rightarrow> int" where
  "request_timeout ctx timeout overrides tt =
    (if timeout > 0 then timeout
     else let t = (case overrides of None \<Rightarrow> 0 | Some m \<Rightarrow> timeout_of m tt)
          in if t > 0 then t else cx_Timeout ctx tt)"

text \<open>\<open>createReqContext\<close>: the completed options and the timeout of the request (the type \<open>-1\<close> is not given one).\<close>

definition createReqContext :: "('v, 'f, 'kv, 'h) channelCtx \<Rightarrow> (TimeoutType \<rightharpoonup> int) option \<Rightarrow> TimeoutType \<Rightarrow> ('v, 'f) requestOptions
    \<Rightarrow> ('v, 'f) requestOptions \<times> int" where
  "createReqContext ctx parent noType txnOpts =
    (let o' = (if timeout_of (io_Timeouts txnOpts) ExecuteTimeout = 0
               then txnOpts\<lparr>io_Timeouts := (io_Timeouts txnOpts)(ExecuteTimeout \<mapsto> cx_Timeout ctx ExecuteTimeout)\<rparr> else txnOpts)
     in (o', request_timeout ctx (timeout_of (io_Timeouts o') ExecuteTimeout) parent noType))"

definition client_peerFilter :: "('v, 'f, 'kv, 'h) channelCtx \<Rightarrow> ('v, 'f) requestOptions \<Rightarrow> 'v cworld peerFilter" where
  "client_peerFilter ctx o' p w = (case greylist_Accept (cx_Now ctx (snd w)) p (fst w) of (ok, g) \<Rightarrow>
     let w1 = (g, snd w)
     in if \<not> ok then (False, w1)
        else (case io_TargetFilter o' of
          None \<Rightarrow> (True, w1)
        | Some f \<Rightarrow> (case f p w1 of (acc, w2) \<Rightarrow> if \<not> acc then (False, w2) else (True, w2))))"

definition prepareHandlerContexts :: "('v, 'f, 'kv, 'h) channelCtx \<Rightarrow> Request \<Rightarrow> ('v, 'f) requestOptions
    \<Rightarrow> ('v cworld, 'f) RequestContext res" where
  "prepareHandlerContexts ctx request o' =
    (if rq_ChaincodeID request = [] \<or> rq_Fcn request = [] then Inl (errorNew ''ChaincodeID and Fcn are required'')
     else rbind (wrap_err ''failed to create transactor'' (cx_Transactor ctx)) (\<lambda>_.
          rbind (wrap_err ''failed to create selection service'' (cx_Selection ctx)) (\<lambda>_.
          rbind (wrap_err ''failed to create discovery service'' (cx_Discovery ctx)) (\<lambda>_.
            Inr \<lparr>rc_Request = request, rc_Opts = o', rc_Response = emptyResponse, rc_Error = None,
                 rc_SelectionFilter = Some (client_peerFilter ctx o'), rc_PeerSorter = io_TargetSorter o'\<rparr>))))"

section \<open>Invoking a handler\<close>

text \<open>The call that the invoker repeats, and what it does before a further attempt.\<close>

definition client_invocation :: "('v, 'f::zero, 'kv, 'h) channelCtx \<Rightarrow> ('v cworld, 'f) Handler
    \<Rightarrow> ('v cworld, 'f) RequestContext \<times> 'v cworld \<Rightarrow> (unit res \<times> (('v cworld, 'f) RequestContext \<times> 'v cworld)) outcome" where
  "client_invocation ctx handler st = obind (Handle (cx_env ctx) handler (fst st) (snd st)) (\<lambda>(rc, w).
     Ok (case rc_Error rc of Some e \<Rightarrow> Inl e | None \<Rightarrow> Inr (), (rc, w)))"

definition client_beforeRetry :: "('v, 'f, 'kv, 'h) channelCtx \<Rightarrow> ('v, 'f) requestOptions
    \<Rightarrow> (('v cworld, 'f) RequestContext \<times> 'v cworld) BeforeRetryHandler" where
  "client_beforeRetry ctx txnOpts err st =
    (let w1 = (case io_BeforeRetry (rc_Opts (fst st)) of None \<Rightarrow> snd st | Some f \<Rightarrow> f err (snd st));
         g = Greylist (ie_wire (cx_env ctx)) (cx_Now ctx (snd w1)) (Some err) (fst w1)
     in ((fst st)\<lparr>rc_Opts := (rc_Opts (fst st))\<lparr>io_Targets := io_Targets txnOpts\<rparr>, rc_Error := None,
           rc_Response := emptyResponse\<rparr>, (g, snd w1)))"

text \<open>What the goroutine leaves in the request context: it may panic, or never get to the end (\<open>Blocked\<close>).\<close>

definition client_run :: "('v, 'f::{linorder,times,zero}, 'kv, 'h) channelCtx \<Rightarrow> 'f dur_conv \<Rightarrow> ('v cworld, 'f) Handler
    \<Rightarrow> ('v, 'f) requestOptions \<Rightarrow> ('v cworld, 'f) RequestContext \<Rightarrow> 'v cworld
    \<Rightarrow> (('v cworld, 'f) RequestContext \<times> 'v cworld) outcome" where
  "client_run ctx cv handler txnOpts rc w =
    (case Invoke (Required (ie_wire (cx_env ctx)) cv) (Some (client_beforeRetry ctx txnOpts))
        (as_invocation (client_invocation ctx handler)) (retry_New (ie_wire (cx_env ctx)) (io_Retry txnOpts)) (rc, w) of
       None \<Rightarrow> Blocked
     | Some (Inl _, _, st) \<Rightarrow> Ok st
     | Some (Inr v, _, st) \<Rightarrow> obind v (\<lambda>_. Ok st))"

text \<open>
  The response and the error; the world after the call is only known when the goroutine has ended.
\<close>

definition InvokeHandler :: "('v, 'f::{linorder,times,zero}, 'kv, 'h) channelCtx \<Rightarrow> 'f dur_conv \<Rightarrow> ('v cworld, 'f) Handler
    \<Rightarrow> Request \<Rightarrow> ('v, 'f, 'kv, 'h) RequestOption list \<Rightarrow> bool \<Rightarrow> 'v cworld
    \<Rightarrow> ((InvokeResponse \<times> goerr option) \<times> 'v cworld option) outcome" where
  "InvokeHandler ctx cv handler request options ctxDone w =
    (case prepareOptsFromOptions ctx options of
       Inl err \<Rightarrow> Ok ((emptyResponse, Some err), Some w)
     | Inr opts0 \<Rightarrow> let txnOpts = fst (createReqContext ctx None ExecuteTimeout opts0)
        in (case prepareHandlerContexts ctx request txnOpts of
          Inl err \<Rightarrow> Ok ((emptyResponse, Some err), Some w)
        | Inr rc \<Rightarrow>
           if ctxDone
           then Ok ((emptyResponse, Some (asError (status_New ClientStatus Timeout ''request timed out or been cancelled'' []))), None)
           else obind (client_run ctx cv handler txnOpts rc w) (\<lambda>(rc', w').
             Ok ((rc_Response rc', rc_Error rc'), Some w'))))"

definition callQuery :: "('v, 'f::{linorder,times,zero}, 'kv, 'h) channelCtx \<Rightarrow> 'f dur_conv \<Rightarrow> Request
    \<Rightarrow> ('v, 'f, 'kv, 'h) RequestOption list \<Rightarrow> bool \<Rightarrow> 'v cworld
    \<Rightarrow> ((InvokeResponse \<times> goerr option) \<times> 'v cworld option) outcome" where
  "callQuery ctx cv request options = InvokeHandler ctx cv (NewQueryHandler []) request options"

definition callExecute :: "('v, 'f::{linorder,times,zero}, 'kv, 'h) channelCtx \<Rightarrow> 'f dur_conv \<Rightarrow> Request
    \<Rightarrow> ('v, 'f, 'kv, 'h) RequestOption list \<Rightarrow> bool \<Rightarrow> 'v cworld
    \<Rightarrow> ((InvokeResponse \<times> goerr option) \<times> 'v cworld option) outcome" where
  "callExecute ctx cv request options = InvokeHandler ctx cv (NewExecuteHandler []) request options"

definition Query :: "('v, 'f::{linorder,times,zero}, 'kv, 'h) channelCtx \<Rightarrow> 'f dur_conv \<Rightarrow> Request
    \<Rightarrow> ('v, 'f, 'kv, 'h) RequestOption list \<Rightarrow> bool \<Rightarrow> 'v cworld
    \<Rightarrow> ((InvokeResponse \<times> goerr option) \<times> 'v cworld option) outcome" where
  "Query ctx cv request options =
    callQuery ctx cv request (options @ [addDefaultTimeout QueryTimeout, addDefaultTargetFilter ChaincodeQuery])"

definition Execute :: "('v, 'f::{linorder,times,zero}, 'kv, 'h) channelCtx \<Rightarrow> 'f dur_conv \<Rightarrow> Request
    \<Rightarrow> ('v, 'f, 'kv, 'h) RequestOption list \<Rightarrow> bool \<Rightarrow> 'v cworld
    \<Rightarrow> ((InvokeResponse \<times> goerr option) \<times> 'v cworld option) outcome" where
  "Execute ctx cv request options =
    callExecute ctx cv request (options @ [addDefaultTimeout ExecuteTimeout, addDefaultTargetFilter EndorsingPeer])"

end
