(* ===== verification/Transaction_Theorems.thy ===== *)
theory Transaction_Theorems
  imports Endpoints Retry_Theorems
begin

text \<open>
  What the sending of proposals and transactions guarantees: every target is asked once and no answer is
  lost, a broadcast goes on exactly until an orderer accepts, the outcome of a stream does not depend on
  how its two channels are interleaved, the identifier of a transaction is the one that the network
  computes, and private data of a proposal does not reach the transaction.
\<close>

section \<open>Transaction identifiers\<close>

lemma hexDigit_inj:
  assumes "a < 16" "b < 16" "hexDigit a = hexDigit b"
  shows "a = b"
proof -
  have u: "unat a < 16" "unat b < 16" using assms(1,2) by (simp_all add: word_less_nat_alt)
  have d: "a < 10 \<longleftrightarrow> unat a < 10" "b < 10 \<longleftrightarrow> unat b < 10" by (simp_all add: word_less_nat_alt)
  have "of_char (hexDigit a) = (of_char (hexDigit b) :: nat)" using assms(3) by simp
  then have "unat a = unat b" using u d by (auto simp: hexDigit_def split: if_splits)
  then show ?thesis by (rule word_unat_eq_iff [THEN iffD2])
qed

lemma nibbles_inj:
  assumes "hexDigit (drop_bit 4 a) = hexDigit (drop_bit 4 b)" "hexDigit (take_bit 4 a) = hexDigit (take_bit 4 (b :: 8 word))"
  shows "a = b"
proof -
  have lt: "drop_bit 4 x < 16" "take_bit 4 x < 16" for x :: "8 word"
  proof -
    have "unat x < 2 ^ LENGTH(8)" by (rule unsigned_less)
    then have "unat x < 256" by simp
    then show "drop_bit 4 x < 16" by (simp add: word_less_nat_alt drop_bit_eq_div unat_div)
    show "take_bit 4 x < 16" by (simp add: word_less_nat_alt take_bit_eq_mod unat_mod)
  qed
  have "drop_bit 4 a = drop_bit 4 b" "take_bit 4 a = take_bit 4 b"
    using hexDigit_inj [OF lt(1) lt(1) assms(1)] hexDigit_inj [OF lt(2) lt(2) assms(2)] by simp_all
  then show ?thesis by (metis bits_ident)
qed

lemma EncodeToString_Cons:
  "EncodeToString (b # bs) = hexDigit (drop_bit 4 b) # hexDigit (take_bit 4 b) # EncodeToString bs"
  by (simp add: EncodeToString_def)

lemma EncodeToString_inj: "EncodeToString xs = EncodeToString ys \<Longrightarrow> xs = ys"
proof (induction xs arbitrary: ys)
  case Nil
  then show ?case by (cases ys) (simp_all add: EncodeToString_def)
next
  case (Cons x xs)
  then obtain y zs where ys: "ys = y # zs" by (cases ys) (simp_all add: EncodeToString_def)
  show ?case using Cons.prems Cons.IH [of zs] nibbles_inj [of x y] by (simp add: ys EncodeToString_Cons)
qed

text \<open>
  The identifier of a transaction header is the one that \<open>protoutil.CheckTxID\<close> accepts for the header's
  nonce and creator, provided the crypto suite's hash is the one protoutil uses, and headers with the same
  identifier have the same digest of nonce and creator; the options win over the random source and the
  user's identity.
\<close>
theorem header_id_checks:
  assumes "cx_GetHash ctx = Inr (\<lambda>b. Inr (sm3 b))"
    and "NewHeader ctx random ch opts = Inr th"
  shows "CheckTxID sm3 (th_id th) (th_nonce th) (th_creator th) = None \<and> th_channelID th = ch
    \<and> NewHeader ctx random' ch (opts @ [WithNonce n, WithCreator c])
        = Inr \<lparr>th_id = ComputeTxID sm3 n c, th_creator = c, th_nonce = n, th_channelID = ch\<rparr>
    \<and> (th_id th = ComputeTxID sm3 n c \<longleftrightarrow> sm3 (th_nonce th @ th_creator th) = sm3 (n @ c))"
proof -
  obtain nonce creator where th: "th = \<lparr>th_id = ComputeTxID sm3 nonce creator, th_creator = creator, th_nonce = nonce, th_channelID = ch\<rparr>"
    using assms by (auto simp: NewHeader_def Let_def rbind_eq_Inr computeTxnID_def ComputeTxID_def)
  have "NewHeader ctx random' ch (opts @ [WithNonce n, WithCreator c])
        = Inr \<lparr>th_id = ComputeTxID sm3 n c, th_creator = c, th_nonce = n, th_channelID = ch\<rparr>"
    by (simp add: NewHeader_def Let_def assms(1) computeTxnID_def ComputeTxID_def WithNonce_def WithCreator_def)
  then show ?thesis using EncodeToString_inj by (auto simp: th CheckTxID_def ComputeTxID_def)
qed

definition ex_ctx :: clientCtx where
  "ex_ctx = \<lparr>cx_Sign = Some (\<lambda>b. Inr (rev b)), cx_Serialize = Inr [7], cx_GetHash = Inr (\<lambda>b. Inr (rev b))\<rparr>"

theorem header_id_checks_witness:
  "NewHeader ex_ctx (Inr [1, 2]) ''ch'' [] = Inr \<lparr>th_id = ''070201'', th_creator = [7], th_nonce = [1, 2], th_channelID = ''ch''\<rparr>
    \<and> CheckTxID rev ''070201'' [1, 2] [7] = None"
proof -
  have h: "cx_GetHash ex_ctx = Inr (\<lambda>b. Inr (rev b))" by (simp add: ex_ctx_def)
  have n: "NewHeader ex_ctx (Inr [1, 2]) ''ch'' [] = Inr \<lparr>th_id = ''070201'', th_creator = [7], th_nonce = [1, 2], th_channelID = ''ch''\<rparr>"
    by (simp add: NewHeader_def ex_ctx_def computeTxnID_def EncodeToString_def hexDigit_def drop_bit_eq_div take_bit_eq_mod char_of_def bit_0)
  show ?thesis using header_id_checks [OF h n] n by simp
qed

section \<open>Sending a proposal\<close>

lemma dedup_loop_spec:
  "dedup_loop ts seen us = Some us' \<Longrightarrow>
     \<exists>new. us' = us @ map PeerProcessor new \<and> distinct (map peer_URL new)
       \<and> set (map peer_URL new) = {peer_URL p | p. PeerProcessor p \<in> set ts} - seen
       \<and> subseq (map PeerProcessor new) ts"
proof (induction ts seen us rule: dedup_loop.induct)
  case (1 seen us)
  then show ?case by (intro exI [of _ "[]"]) simp
next
  case (3 p ts seen us)
  show ?case
  proof (cases "peer_URL p \<in> seen")
    case True
    then obtain new where "us' = us @ map PeerProcessor new" "distinct (map peer_URL new)"
      "set (map peer_URL new) = {peer_URL q | q. PeerProcessor q \<in> set ts} - seen" "subseq (map PeerProcessor new) ts"
      using 3 by auto
    then show ?thesis using True by (intro exI [of _ new]) auto
  next
    case False
    then obtain new where "us' = (us @ [PeerProcessor p]) @ map PeerProcessor new" "distinct (map peer_URL new)"
      "set (map peer_URL new) = {peer_URL q | q. PeerProcessor q \<in> set ts} - insert (peer_URL p) seen"
      "subseq (map PeerProcessor new) ts"
      using 3 by auto
    then show ?thesis using False by (intro exI [of _ "p # new"]) (auto simp: image_iff)
  qed
qed simp

lemma dedup_peers:
  "\<exists>new. getTargetsWithoutDuplicates (map PeerProcessor ps) = map PeerProcessor new \<and> distinct (map peer_URL new)
     \<and> set (map peer_URL new) = peer_URL ` set ps \<and> subseq (map PeerProcessor new) (map PeerProcessor ps)"
proof -
  have "dedup_loop (map PeerProcessor ps) seen us \<noteq> None" for seen us
    by (induction ps arbitrary: seen us) auto
  then obtain us' where u: "dedup_loop (map PeerProcessor ps) {} [] = Some us'" by blast
  have e: "{peer_URL p | p. PeerProcessor p \<in> set (map PeerProcessor ps)} = peer_URL ` set ps" by auto
  from dedup_loop_spec [OF u, unfolded e] obtain new where "us' = map PeerProcessor new" "distinct (map peer_URL new)"
    "set (map peer_URL new) = peer_URL ` set ps" "subseq (map PeerProcessor new) (map PeerProcessor ps)"
    by auto
  then show ?thesis using u by (intro exI [of _ new]) (simp add: getTargetsWithoutDuplicates_def)
qed

text \<open>The calls and what they answer, recorded in the world.\<close>

definition recorded :: "('p \<Rightarrow> 'w \<Rightarrow> 'r \<times> 'w) \<Rightarrow> 'p \<Rightarrow> 'w \<times> ('p \<times> 'r) list \<Rightarrow> 'r \<times> 'w \<times> ('p \<times> 'r) list" where
  "recorded f p wl = (case f p (fst wl) of (r, w') \<Rightarrow> (r, w', snd wl @ [(p, r)]))"

lemma recorded_eq: "recorded f p (w, l) = (fst (f p w), snd (f p w), l @ [(p, fst (f p w))])"
  by (simp add: recorded_def split: prod.split)

lemma collect_spec:
  "\<exists>log w'. collect (recorded f) ps resps errs (w, l)
      = ((resps @ rights (map snd log), errs @ lefts (map snd log)), w', l @ log) \<and> map fst log = ps"
proof (induction ps arbitrary: resps errs w l)
  case (Cons p ps)
  obtain r w1 where f: "f p w = (r, w1)" by (cases "f p w")
  show ?case
  proof (cases r)
    case (Inl e)
    obtain log w' where "collect (recorded f) ps resps (errs @ [e]) (w1, l @ [(p, r)])
      = ((resps @ rights (map snd log), (errs @ [e]) @ lefts (map snd log)), w', (l @ [(p, r)]) @ log)" "map fst log = ps"
      using Cons.IH by blast
    then show ?thesis using Inl by (intro exI [of _ "(p, r) # log"]) (simp add: recorded_eq f)
  next
    case (Inr x)
    obtain log w' where "collect (recorded f) ps (resps @ [x]) errs (w1, l @ [(p, r)])
      = (((resps @ [x]) @ rights (map snd log), errs @ lefts (map snd log)), w', (l @ [(p, r)]) @ log)" "map fst log = ps"
      using Cons.IH by blast
    then show ?thesis using Inr by (intro exI [of _ "(p, r) # log"]) (simp add: recorded_eq f)
  qed
qed (intro exI [of _ "[]"], simp)

lemma ToError_None [simp]: "ToError es = None \<longleftrightarrow> es = []"
  by (auto simp: ToError_def split: list.splits)

lemma lefts_rights_length: "length (lefts xs) + length (rights xs) = length xs"
  by (induction xs rule: lefts.induct) simp_all

text \<open>
  Sending a proposal to peers asks every distinct address exactly once, in an order left to the
  scheduler, and loses no answer: the responses and the errors returned are those that were received, so
  the call reports no error exactly when every address has answered with a response.
\<close>
theorem proposal_asks_each_once:
  assumes "ps \<noteq> []" "signProposal pc ctx (tp_Proposal pp) = Inr sp" "\<And>xs. mset (arrival xs) = mset xs"
  shows "\<exists>us log w'. SendProposal pc (Some ctx) (\<lambda>p sp. recorded (\<lambda>p. process p sp) p) arrival (Some pp)
        (map (Some \<circ> PeerProcessor) ps) (w, [])
      = ((rights (map snd log), ToError (lefts (map snd log))), w', log)
    \<and> mset (map fst log) = mset (map PeerProcessor us) \<and> distinct (map peer_URL us) \<and> set (map peer_URL us) = peer_URL ` set ps
    \<and> (lefts (map snd log) = [] \<longleftrightarrow> length (rights (map snd log)) = card (peer_URL ` set ps))"
proof -
  obtain us where us: "getTargetsWithoutDuplicates (map PeerProcessor ps) = map PeerProcessor us"
      "distinct (map peer_URL us)" "set (map peer_URL us) = peer_URL ` set ps"
    using dedup_peers by blast
  obtain log w' where c: "collect (recorded (\<lambda>p. process p sp)) (arrival (map PeerProcessor us)) [] [] (w, [])
      = ((rights (map snd log), lefts (map snd log)), w', log)" "map fst log = arrival (map PeerProcessor us)"
    using collect_spec [of "\<lambda>p. process p sp" "arrival (map PeerProcessor us)" "[]" "[]" w "[]"] by auto
  have m: "mset (map fst log) = mset (map PeerProcessor us)" using c(2) assms(3) by metis
  have "length us = card (peer_URL ` set ps)" using us(2,3) distinct_card by fastforce
  moreover have "length log = length us" using m by (metis length_map size_mset)
  ultimately have "lefts (map snd log) = [] \<longleftrightarrow> length (rights (map snd log)) = card (peer_URL ` set ps)"
    using lefts_rights_length [of "map snd log"] by auto
  moreover have "SendProposal pc (Some ctx) (\<lambda>p sp. recorded (\<lambda>p. process p sp) p) arrival (Some pp)
        (map (Some \<circ> PeerProcessor) ps) (w, []) = ((rights (map snd log), ToError (lefts (map snd log))), w', log)"
    using assms(1,2) us(1) c(1) by (auto simp: SendProposal_def image_iff Suc_le_eq o_def)
  ultimately show ?thesis using us m by blast
qed

definition ex_codec :: pcodec where
  "ex_codec = \<lparr>d_Header = \<lambda>b. Inr \<lparr>hd_ChannelHeader = [], hd_SignatureHeader = b\<rparr>,
     d_CPP = \<lambda>b. Inr \<lparr>cpp_Input = take 1 b, cpp_TransientMap = [(''key'', drop 1 b)]\<rparr>, d_PRP = Inr,
     d_ChaincodeAction = \<lambda>b. Inr \<lparr>ca_Results = b, ca_Response = None\<rparr>, e_HdrExt = \<lambda>b. Inr [],
     e_CIS = \<lambda>c. Inr (concat (ci_Args c)), e_CPP = \<lambda>c. Inr (cpp_Input c @ concat (map snd (cpp_TransientMap c))),
     e_ChannelHeader = \<lambda>h. Inr [], e_SignatureHeader = \<lambda>h. Inr (sh_Nonce h), e_Header = \<lambda>h. Inr (hd_SignatureHeader h),
     e_Proposal = \<lambda>p. Inr [3], e_CAP = \<lambda>c. Inr (cap_ChaincodeProposalPayload c),
     e_Transaction = \<lambda>t. Inr (concat (map ta_Payload t)), e_Payload = \<lambda>p. Inr (py_Data p), c_SUCCESS = 200, c_BAD_REQUEST = 400\<rparr>"

definition ex_peers :: "peer list" where
  "ex_peers = [mkPeer 0 ''grpc://p0'' ''Org1'' None, mkPeer 1 ''grpc://p1'' ''Org2'' None, mkPeer 2 ''grpc://p0'' ''Org1'' None]"

definition ex_process :: "unit process" where
  "ex_process p sp w = (case p of
     PeerProcessor q \<Rightarrow> if peer_ref q = 1 then (Inl (errorNew ''down''), w)
       else (Inr \<lparr>tpr_Endorser = peer_URL q, tpr_Status = 200, tpr_ChaincodeStatus = 200, tpr_ProposalResponse = None\<rparr>, w)
   | OtherProcessor n \<Rightarrow> (Inl (errorNew ''unknown''), w))"

theorem proposal_asks_each_once_witness:
  "\<exists>resps err w' log. SendProposal ex_codec (Some ex_ctx) (\<lambda>p sp. recorded (\<lambda>p. ex_process p sp) p) rev
      (Some \<lparr>tp_TxnID = ''t'', tp_Proposal = None\<rparr>) (map (Some \<circ> PeerProcessor) ex_peers) ((), []) = ((resps, err), w', log)
    \<and> length log = 2"
proof -
  let ?pp = "\<lparr>tp_TxnID = ''t'', tp_Proposal = None\<rparr>"
  have ne: "ex_peers \<noteq> []" by (simp add: ex_peers_def)
  have sg: "signProposal ex_codec ex_ctx (tp_Proposal ?pp) = Inr \<lparr>sp_ProposalBytes = [3], sp_Signature = [3]\<rparr>"
    by (simp add: signProposal_def ex_codec_def ex_ctx_def)
  obtain us log w' where r: "SendProposal ex_codec (Some ex_ctx) (\<lambda>p sp. recorded (\<lambda>p. ex_process p sp) p) rev
      (Some ?pp) (map (Some \<circ> PeerProcessor) ex_peers) ((), [])
      = ((rights (map snd log), ToError (lefts (map snd log))), w', log)"
    "mset (map fst log) = mset (map PeerProcessor us)" "distinct (map peer_URL us)"
    "set (map peer_URL us) = peer_URL ` set ex_peers"
    using proposal_asks_each_once [OF ne sg, of rev ex_process "()"] by auto
  have "length log = card (peer_URL ` set ex_peers)"
    using r(2-4) distinct_card by (metis length_map size_mset)
  then show ?thesis using r(1) by (simp add: ex_peers_def card_insert_if)
qed

section \<open>Broadcasting\<close>

definition refused :: "string \<Rightarrow> goerr \<Rightarrow> goerr" where
  "refused o' e = WithMsg e ''calling orderer '%s' failed'' [FS o']"

text \<open>\<open>outcome_of\<close>: what the loop returns after the calls \<open>calls\<close>, none of which but the last was accepted.\<close>

definition outcome_of :: "(string \<times> 32 word res) list \<Rightarrow> string option \<times> goerr option \<Rightarrow> bool" where
  "outcome_of calls r = (case snd (List.last calls) of
     Inr st \<Rightarrow> r = (Some (fst (List.last calls)), None)
   | Inl e \<Rightarrow> r = (None, Some (refused (fst (List.last calls)) e)))"

lemma outcome_of_Cons [simp]: "calls \<noteq> [] \<Longrightarrow> outcome_of (x # calls) r = outcome_of calls r"
proof -
  assume "calls \<noteq> []"
  then have "List.last (x # calls) = List.last calls" by simp
  then show ?thesis unfolding outcome_of_def by (simp only:)
qed

lemma outcome_of_single [simp]:
  "outcome_of [(o', Inl e)] r \<longleftrightarrow> r = (None, Some (refused o' e))" "outcome_of [(o', Inr st)] r \<longleftrightarrow> r = (Some o', None)"
  by (simp_all add: outcome_of_def)

lemma broadcast_loop:
  fixes bc :: "'w broadcast" and orderers :: "string list" and envelope :: SignedEnvelope
  defines "F \<equiv> (\<lambda>i. sendBroadcast (\<lambda>o' e. recorded (\<lambda>o'. bc o' e) o') envelope (orderers ! i))"
  shows "\<exists>log r w'. try_orderers F is err (w, l) = (r, w', l @ log)
    \<and> map fst log = take (length log) (map ((!) orderers) is) \<and> (\<forall>x \<in> set (butlast log). isl (snd x))
    \<and> (if is = [] then log = [] \<and> r = (None, err)
       else log \<noteq> [] \<and> outcome_of log r \<and> (isl (snd (List.last log)) \<longrightarrow> length log = length is))"
proof (induction "is" arbitrary: err w l)
  case (Cons i "is")
  obtain x w1 where f: "bc (orderers ! i) envelope w = (x, w1)" by (cases "bc (orderers ! i) envelope w")
  have F: "F i (w, l) = (case x of Inl e \<Rightarrow> Inl (refused (orderers ! i) e) | Inr _ \<Rightarrow> Inr (orderers ! i), w1, l @ [(orderers ! i, x)])"
    by (simp add: F_def sendBroadcast_def recorded_eq f refused_def split: sum.split)
  show ?case
  proof (cases x)
    case (Inl e)
    obtain log r w' where h: "try_orderers F is (Some (refused (orderers ! i) e)) (w1, l @ [(orderers ! i, x)])
        = (r, w', (l @ [(orderers ! i, x)]) @ log)"
      "map fst log = take (length log) (map ((!) orderers) is)" "\<forall>x \<in> set (butlast log). isl (snd x)"
      "if is = [] then log = [] \<and> r = (None, Some (refused (orderers ! i) e))
       else log \<noteq> [] \<and> outcome_of log r \<and> (isl (snd (List.last log)) \<longrightarrow> length log = length is)"
      using Cons.IH [of "Some (refused (orderers ! i) e)" w1 "l @ [(orderers ! i, x)]"] by blast
    then show ?thesis using Inl
      by (intro exI [of _ "(orderers ! i, x) # log"] exI [of _ r] exI [of _ w'])
        (auto simp: F split: if_splits)
  next
    case (Inr y)
    then show ?thesis by (intro exI [of _ "[(orderers ! i, x)]"]) (simp add: F)
  qed
qed simp

text \<open>
  Broadcasting an envelope goes through the orderers in a random order, each at most once, and stops at
  the first that accepts it: the result names that orderer; only when every orderer has refused is an
  error returned, and then it is the error of the last one asked.
\<close>
theorem broadcast_until_accepted:
  assumes "orderers \<noteq> []"
  shows "\<exists>log r w'. broadcastEnvelope (Some ctx) (\<lambda>o' e. recorded (\<lambda>o'. bc o' e) o') d envelope orderers (w, []) = (r, w', log)
    \<and> log \<noteq> [] \<and> map fst log = take (length log) (map ((!) orderers) (rand_Perm d (length orderers)))
    \<and> (\<forall>x \<in> set (butlast log). isl (snd x))
    \<and> (case snd (List.last log) of
         Inr st \<Rightarrow> r = (Some (fst (List.last log)), None)
       | Inl e \<Rightarrow> r = (None, Some (WithMsg e ''calling orderer '%s' failed'' [FS (fst (List.last log))]))
                  \<and> mset (map fst log) = mset orderers)"
proof -
  let ?is = "rand_Perm d (length orderers)"
  have ne: "?is \<noteq> []" using assms rand_Perm_mset [of d "length orderers"] by (cases "length orderers") auto
  obtain log r w' where h: "try_orderers (\<lambda>i. sendBroadcast (\<lambda>o' e. recorded (\<lambda>o'. bc o' e) o') envelope (orderers ! i)) ?is None (w, [])
        = (r, w', log)"
    "map fst log = take (length log) (map ((!) orderers) ?is)" "\<forall>x \<in> set (butlast log). isl (snd x)" "log \<noteq> []"
    "outcome_of log r" "isl (snd (List.last log)) \<longrightarrow> length log = length ?is"
    using broadcast_loop [of bc envelope orderers ?is None w "[]"] ne by auto
  have "length log = length ?is \<Longrightarrow> mset (map fst log) = mset orderers"
    using map_nth_perm [OF rand_Perm_mset, of orderers d] h(2) by (simp del: mset_map)
  then show ?thesis using h assms
    by (intro exI [of _ log] exI [of _ r] exI [of _ w'])
      (simp add: broadcastEnvelope_def outcome_of_def refused_def split: sum.splits)
qed

theorem broadcast_until_accepted_witness:
  "\<exists>log r w'. broadcastEnvelope (Some ex_ctx)
      (\<lambda>o' e. recorded (\<lambda>o' w. if o' = ''o1'' then (Inr 200, w) else (Inl (errorNew ''down''), w)) o')
      (\<lambda>_. 0) \<lparr>se_Payload = [], se_Signature = []\<rparr> [''o1'', ''o2''] ((), []) = (r, w', log) \<and> log \<noteq> []"
proof -
  have "[''o1'', ''o2''] \<noteq> []" by simp
  from broadcast_until_accepted [OF this, of ex_ctx
      "\<lambda>o' e w. if o' = ''o1'' then (Inr 200, w) else (Inl (errorNew ''down''), w)" "\<lambda>_. 0"
      "\<lparr>se_Payload = [], se_Signature = []\<rparr>" "()"]
  show ?thesis by blast
qed

section \<open>Streams\<close>

lemma drain_closed: "drain i left errs = errs @ take ((length left + 1 - i) div 2) left"
proof (induction i left errs rule: drain.induct)
  case (1 i left errs)
  show ?case
  proof (cases "i < length left")
    case True
    then obtain x xs where l: "left = x # xs" by (cases left) auto
    have "drain i left errs = drain (i + 1) xs (errs @ [x])" using True l by (subst drain.simps) simp
    also have "\<dots> = errs @ x # take ((length xs + 1 - (i + 1)) div 2) xs" using 1 True l by simp
    also have "\<dots> = errs @ take ((length left + 1 - i) div 2) left"
    proof -
      have "(length left + 1 - i) div 2 = Suc ((length xs + 1 - (i + 1)) div 2)" using True l by simp
      then show ?thesis by (simp add: l)
    qed
    finally show ?thesis .
  next
    case False
    then show ?thesis by (subst drain.simps) simp
  qed
qed

text \<open>
  The loop that drains the buffered errors after the stream has ended takes only half of them (rounded
  up), because its bound shrinks while its index grows; with the single place that the orderer's channel
  has nothing is lost.
\<close>
theorem drain_takes_half:
  "drain 0 left errs = errs @ take ((length left + 1) div 2) left"
  by (simp add: drain_closed)

lemma drain_one: "length left \<le> 1 \<Longrightarrow> drain 0 left errs = errs @ left"
  by (cases left) (simp_all add: drain_closed)

lemma read_loop_spec: "read_loop es b errs = (case lefts es of [] \<Rightarrow> b | xs \<Rightarrow> Some (List.last xs), errs @ rights es)"
  by (induction es arbitrary: b errs rule: lefts.induct) (auto split: list.splits)

lemma wrapStream_spec:
  assumes "received sent events left"
  shows "wrapStreamStatusRPC events True left
    = Ok (case lefts sent of [] \<Rightarrow> 0 | xs \<Rightarrow> List.last xs, ToError (rights sent))"
  using assms by (auto simp: wrapStreamStatusRPC_def received_def read_loop_spec drain_one split: list.splits)

lemma broadcastStream_accepted:
  "snd (broadcastStream pc gs recv) \<and> rights (fst (broadcastStream pc gs recv)) = []
    \<longleftrightarrow> (\<exists>oks rest. recv = map (\<lambda>(st, info). BResp st info) oks @ BEof # rest \<and> (\<forall>x \<in> set oks. sint (fst x) = c_SUCCESS pc))"
proof (induction pc gs recv rule: broadcastStream.induct)
  case (2 pc gs rs)
  then show ?case by (auto intro: exI [of _ "[]"])
next
  case (4 pc gs st info rs)
  show ?case
  proof
    assume "snd (broadcastStream pc gs (BResp st info # rs)) \<and> rights (fst (broadcastStream pc gs (BResp st info # rs))) = []"
    then have "sint st = c_SUCCESS pc" "snd (broadcastStream pc gs rs)" "rights (fst (broadcastStream pc gs rs)) = []"
      by (auto split: prod.splits if_splits)
    with 4 obtain oks rest where "rs = map (\<lambda>(st, info). BResp st info) oks @ BEof # rest"
      "\<forall>x \<in> set oks. sint (fst x) = c_SUCCESS pc" by blast
    then show "\<exists>oks rest. BResp st info # rs = map (\<lambda>(st, info). BResp st info) oks @ BEof # rest
        \<and> (\<forall>x \<in> set oks. sint (fst x) = c_SUCCESS pc)"
      using \<open>sint st = _\<close> by (intro exI [of _ "(st, info) # oks"] exI [of _ rest]) simp
  next
    assume "\<exists>oks rest. BResp st info # rs = map (\<lambda>(st, info). BResp st info) oks @ BEof # rest
        \<and> (\<forall>x \<in> set oks. sint (fst x) = c_SUCCESS pc)"
    then obtain oks rest where o: "BResp st info # rs = map (\<lambda>(st, info). BResp st info) oks @ BEof # rest"
      "\<forall>x \<in> set oks. sint (fst x) = c_SUCCESS pc" by blast
    then obtain y ys where oks: "oks = y # ys" by (cases oks) auto
    then have "rs = map (\<lambda>(st, info). BResp st info) ys @ BEof # rest" "\<forall>x \<in> set ys. sint (fst x) = c_SUCCESS pc"
      "sint st = c_SUCCESS pc" using o by (auto split: prod.splits)
    then show "snd (broadcastStream pc gs (BResp st info # rs)) \<and> rights (fst (broadcastStream pc gs (BResp st info # rs))) = []"
      using 4 by (auto split: prod.splits)
  qed
next
  case (3 pc gs err rs)
  have "BErr err # rs \<noteq> map (\<lambda>(st, info). BResp st info) oks @ BEof # rest" for oks rest
    by (cases oks) auto
  then show ?case by auto
qed auto

text \<open>
  Once the connection stands, the stream is open and the envelope is sent, what \<open>SendBroadcast\<close> returns
  does not depend on how the two channels of the stream are interleaved. It succeeds exactly when the
  orderer ends the stream after answers that are all successes, which includes an orderer that ends the
  stream without any answer: that one is reported as a success too, with the status 0.
\<close>
theorem broadcast_outcome:
  assumes "\<And>sent. case arrive sent of (events, left) \<Rightarrow> received sent events left"
    and "snd (broadcastStream pc gs recv)"
  shows "\<exists>st err. SendBroadcast w pc gs (Inr ()) (Inr ()) (Inr ()) recv arrive = Ok (Some st, err)
    \<and> err = ToError (rights (fst (broadcastStream pc gs recv)))
    \<and> (err = None \<longleftrightarrow> (\<exists>oks rest. recv = map (\<lambda>(st, info). BResp st info) oks @ BEof # rest
         \<and> (\<forall>x \<in> set oks. sint (fst x) = c_SUCCESS pc)))
    \<and> (hd recv = BEof \<longrightarrow> st = 0)"
proof -
  obtain sent where b: "broadcastStream pc gs recv = (sent, True)"
    using assms(2) by (metis prod.collapse)
  obtain events left where a: "arrive sent = (events, left)" by (cases "arrive sent")
  then have rc: "received sent events left" using assms(1) [of sent] by simp
  have "hd recv = BEof \<Longrightarrow> sent = []" using b by (cases recv) auto
  then show ?thesis
    using wrapStream_spec [OF rc] broadcastStream_accepted [of pc gs recv] b a by (auto simp: SendBroadcast_def)
qed

theorem broadcast_outcome_witness:
  "SendBroadcast ex_wire ex_codec (\<lambda>_. None) (Inr ()) (Inr ()) (Inr ()) [BEof] (\<lambda>sent. (sent, [])) = Ok (Some 0, None)"
proof -
  have arr: "case (sent, []) of (events, left) \<Rightarrow> received sent events left" for sent :: "(32 word + goerr) list"
    by (simp add: received_def)
  have cl: "snd (broadcastStream ex_codec (\<lambda>_. None) [BEof])" by simp
  from broadcast_outcome [of "\<lambda>sent. (sent, [])", OF arr cl, of ex_wire] show ?thesis by (auto simp: ToError_def)
qed

section \<open>Making a transaction\<close>

text \<open>A response that reports success: its status is in the range from SUCCESS to BAD_REQUEST.\<close>

definition successful :: "pcodec \<Rightarrow> TransactionProposalResponse \<Rightarrow> bool" where
  "successful pc r = (case Option.bind (tpr_ProposalResponse r) pr_Response of
     None \<Rightarrow> False | Some resp \<Rightarrow> \<not> failed_status pc (r_Status resp))"

lemma validateProposalResponses_None:
  "validateProposalResponses pc rs = Ok None \<longleftrightarrow> (\<forall>r \<in> set rs. successful pc r)"
  by (induction rs) (auto simp: successful_def split: option.splits)

lemma txn_New_Ok:
  assumes "txn_New pc proposal resps = Ok (Inr t)"
  shows "\<exists>p hdr cpp pr0 capBytes b. Option.bind proposal tp_Proposal = Some p \<and> d_Header pc (pp_Header p) = Inr hdr
    \<and> d_CPP pc (pp_Payload p) = Inr cpp \<and> resps \<noteq> [] \<and> tpr_ProposalResponse (hd resps) = Some pr0
    \<and> (\<forall>r \<in> set resps. successful pc r)
    \<and> e_CPP pc \<lparr>cpp_Input = cpp_Input cpp, cpp_TransientMap = []\<rparr> = Inr b
    \<and> e_CAP pc \<lparr>cap_ChaincodeProposalPayload = b, cap_Action = \<lparr>cea_ProposalResponsePayload = bytes_of (pr_Payload pr0),
         cea_Endorsements = map (\<lambda>r. Option.bind (tpr_ProposalResponse r) pr_Endorsement) resps\<rparr>\<rparr> = Inr capBytes
    \<and> t = \<lparr>tr_Proposal = proposal, tr_Transaction = [\<lparr>ta_Header = hd_SignatureHeader hdr, ta_Payload = capBytes\<rparr>]\<rparr>"
  using assms validateProposalResponses_None [of pc resps]
  by (auto simp: txn_New_def Let_def obind_eq_Ok rbind_eq_Inr GetBytesProposalPayloadForTx_def split: if_splits option.splits sum.splits)

text \<open>
  A transaction is only made of at least one response, all of them successful; it has one action, with the
  signature header of the proposal, the payload of the first response, the endorsements of all responses in
  their order, and the invocation with an empty transient map. So the transient map of the proposal has no
  influence on the transaction: private data does not reach the orderers.
\<close>
theorem transaction_contents:
  assumes "txn_New pc (Some \<lparr>tp_TxnID = i, tp_Proposal = Some p\<rparr>) resps = Ok (Inr t)"
    and "pp_Header p' = pp_Header p" "d_CPP pc (pp_Payload p) = Inr cpp"
    and "d_CPP pc (pp_Payload p') = Inr (cpp\<lparr>cpp_TransientMap := secret\<rparr>)"
  shows "resps \<noteq> [] \<and> (\<forall>r \<in> set resps. successful pc r)
    \<and> (\<exists>hdr pr0 b c. d_Header pc (pp_Header p) = Inr hdr \<and> tpr_ProposalResponse (hd resps) = Some pr0
        \<and> e_CPP pc \<lparr>cpp_Input = cpp_Input cpp, cpp_TransientMap = []\<rparr> = Inr b
        \<and> e_CAP pc \<lparr>cap_ChaincodeProposalPayload = b, cap_Action = \<lparr>cea_ProposalResponsePayload = bytes_of (pr_Payload pr0),
             cea_Endorsements = map (\<lambda>r. Option.bind (tpr_ProposalResponse r) pr_Endorsement) resps\<rparr>\<rparr> = Inr c
        \<and> tr_Transaction t = [\<lparr>ta_Header = hd_SignatureHeader hdr, ta_Payload = c\<rparr>])
    \<and> (\<exists>t'. txn_New pc (Some \<lparr>tp_TxnID = i, tp_Proposal = Some p'\<rparr>) resps = Ok (Inr t') \<and> tr_Transaction t' = tr_Transaction t)"
proof -
  obtain hdr pr0 c b where h: "d_Header pc (pp_Header p) = Inr hdr" "resps \<noteq> []" "tpr_ProposalResponse (hd resps) = Some pr0"
    "\<forall>r \<in> set resps. successful pc r" "e_CPP pc \<lparr>cpp_Input = cpp_Input cpp, cpp_TransientMap = []\<rparr> = Inr b"
    "e_CAP pc \<lparr>cap_ChaincodeProposalPayload = b, cap_Action = \<lparr>cea_ProposalResponsePayload = bytes_of (pr_Payload pr0),
         cea_Endorsements = map (\<lambda>r. Option.bind (tpr_ProposalResponse r) pr_Endorsement) resps\<rparr>\<rparr> = Inr c"
    "tr_Transaction t = [\<lparr>ta_Header = hd_SignatureHeader hdr, ta_Payload = c\<rparr>]"
    using txn_New_Ok [OF assms(1)] assms(3) by auto
  have "\<exists>t'. txn_New pc (Some \<lparr>tp_TxnID = i, tp_Proposal = Some p'\<rparr>) resps = Ok (Inr t') \<and> tr_Transaction t' = tr_Transaction t"
    using h validateProposalResponses_None [of pc resps] assms(2,4)
    by (simp add: txn_New_def Let_def GetBytesProposalPayloadForTx_def)
  then show ?thesis using h by blast
qed

definition ex_response :: TransactionProposalResponse where
  "ex_response = \<lparr>tpr_Endorser = ''p0'', tpr_Status = 200, tpr_ChaincodeStatus = 200,
     tpr_ProposalResponse = Some \<lparr>pr_Response = Some \<lparr>r_Status = 200, r_Message = [], r_Payload = [9]\<rparr>, pr_Payload = Some [8],
       pr_Endorsement = Some \<lparr>en_Endorser = [1], en_Signature = [2]\<rparr>\<rparr>\<rparr>"

theorem transaction_contents_witness:
  "\<exists>t'. txn_New ex_codec (Some \<lparr>tp_TxnID = ''t'', tp_Proposal = Some \<lparr>pp_Header = [4], pp_Payload = [5, 66, 67]\<rparr>\<rparr>) [ex_response] = Ok (Inr t')
     \<and> tr_Transaction t' = [\<lparr>ta_Header = [4], ta_Payload = [5]\<rparr>]"
proof -
  let ?p = "\<lparr>pp_Header = [4], pp_Payload = [5]\<rparr>" and ?p' = "\<lparr>pp_Header = [4], pp_Payload = [5, 66, 67]\<rparr>"
  let ?cpp = "\<lparr>cpp_Input = [5], cpp_TransientMap = [(''key'', [])]\<rparr>"
  have t: "txn_New ex_codec (Some \<lparr>tp_TxnID = ''t'', tp_Proposal = Some ?p\<rparr>) [ex_response]
    = Ok (Inr \<lparr>tr_Proposal = Some \<lparr>tp_TxnID = ''t'', tp_Proposal = Some ?p\<rparr>, tr_Transaction = [\<lparr>ta_Header = [4], ta_Payload = [5]\<rparr>]\<rparr>)"
    by (simp add: txn_New_def ex_codec_def ex_response_def failed_status_def GetBytesProposalPayloadForTx_def)
  have d: "pp_Header ?p' = pp_Header ?p" "d_CPP ex_codec (pp_Payload ?p) = Inr ?cpp"
    "d_CPP ex_codec (pp_Payload ?p') = Inr (?cpp\<lparr>cpp_TransientMap := [(''key'', [66, 67])]\<rparr>)"
    by (simp_all add: ex_codec_def)
  from transaction_contents [OF t d] show ?thesis by auto
qed

section \<open>Endorsers\<close>

lemma ProcessTransactionProposal_ok:
  "ProcessTransactionProposal w pc gs target conn rpc = Ok (Some r, None)
    \<longleftrightarrow> (\<exists>u pr resp st. conn = Inr u \<and> rpc = Inr pr \<and> pr_Response pr = Some resp \<and> \<not> failed_status pc (r_Status resp)
        \<and> getChaincodeResponseStatus pc pr = Ok (Inr st)
        \<and> r = \<lparr>tpr_Endorser = target, tpr_Status = r_Status resp, tpr_ChaincodeStatus = st, tpr_ProposalResponse = Some pr\<rparr>)"
  by (auto simp: ProcessTransactionProposal_def sendProposal_def extractChaincodeErrorFromResponse_def Let_def obind_eq_Ok
      split: sum.splits option.splits if_splits) (metis sum.exhaust)+

text \<open>
  An endorser's answer that is not an error is always a successful response, so a failed simulation never
  counts as an endorsement; and when a peer answers that it has no such chaincode, the error keeps a status
  that every retry handler with the default codes retries, whatever code the peer used.
\<close>
theorem endorser_answers:
  "(ProcessTransactionProposal w pc gs target conn rpc = Ok (Some r, None) \<longrightarrow> successful pc r)
   \<and> (pr_Response pr = Some resp \<and> failed_status pc (r_Status resp) \<and> chaincodeNotFound (r_Message resp)
       \<longrightarrow> (\<exists>r e. ProcessTransactionProposal w pc gs target (Inr ()) (Inr pr) = Ok (Some r, Some e)
            \<and> retry_wanted w (DefaultRetryableCodes w) e \<and> retry_wanted w (ChannelClientRetryableCodes w) e))"
  by (auto simp: ProcessTransactionProposal_ok successful_def)
    (auto simp: ProcessTransactionProposal_def sendProposal_def extractChaincodeErrorFromResponse_def Let_def retry_wanted_def
      errs_of_def impl_warrants_def FromError_wrap asError_def status_New_def isRetryable_def DefaultRetryableCodes_def
      ChannelClientRetryableCodes_def)

theorem endorser_answers_witness:
  "\<exists>r e. ProcessTransactionProposal ex_wire ex_codec (\<lambda>_. None) ''p0'' (Inr ())
      (Inr \<lparr>pr_Response = Some \<lparr>r_Status = 500, r_Message = ''make sure the chaincode mycc not found here'', r_Payload = []\<rparr>,
         pr_Payload = None, pr_Endorsement = None\<rparr>) = Ok (Some r, Some e)
    \<and> retry_wanted ex_wire (DefaultRetryableCodes ex_wire) e"
proof -
  let ?resp = "\<lparr>r_Status = 500, r_Message = ''make sure the chaincode mycc not found here'', r_Payload = []\<rparr>"
  let ?pr = "\<lparr>pr_Response = Some ?resp, pr_Payload = None, pr_Endorsement = None\<rparr>"
  have "failed_status ex_codec (r_Status ?resp)" by (simp add: failed_status_def ex_codec_def)
  moreover have "chaincodeNotFound (r_Message ?resp)"
    by (simp add: chaincodeNotFound_def name_not_found_def)
  ultimately show ?thesis
    using endorser_answers [of ex_wire ex_codec "\<lambda>_. None" "''p0''" "Inr ()" "Inr ?pr" undefined ?pr ?resp] by auto
qed

end
