(* ===== verification/Invoke_Theorems.thy ===== *)
theory Invoke_Theorems
  imports Channel_Client Transaction_Theorems
begin

text \<open>
  What the handler chains of the channel client guarantee: a transaction that \<open>Execute\<close> reports as a success
  was endorsed consistently, verified, sent and committed as valid; how invocation chains are merged; that
  each attempt of the invoker starts afresh; and that registrations for events are given back.
\<close>

section \<open>Validation\<close>

text \<open>The payloads of a response that are compared.\<close>

definition endorsed_payload :: "TransactionProposalResponse \<Rightarrow> (bytes \<times> bytes) option" where
  "endorsed_payload r = Option.bind (tpr_ProposalResponse r) (\<lambda>pr.
     map_option (\<lambda>x. (bytes_of (pr_Payload pr), r_Payload x)) (pr_Response pr))"

definition verified :: "('w, 'f, 'kv, 'h) invokeEnv \<Rightarrow> TransactionProposalResponse \<Rightarrow> bool" where
  "verified env r = (case tpr_ProposalResponse r of
     None \<Rightarrow> False
   | Some pr \<Rightarrow> (case pr_Endorsement pr of
       None \<Rightarrow> False
     | Some e \<Rightarrow> cl_Validate (ie_cl env) (en_Endorser e) = None
         \<and> cl_Verify (ie_cl env) (en_Endorser e) (bytes_of (pr_Payload pr) @ en_Endorser e) (en_Signature e) = None))"

lemma NewFromProposalResponse_not_None:
  "obind (NewFromProposalResponse (Some (Some r)) e) (\<lambda>s. Ok (map_option asError s)) \<noteq> Ok None"
  by (simp add: NewFromProposalResponse_def)

lemma ev_validate_Some:
  assumes "pr_Response a = Some ra"
  shows "ev_validate pc (Some a) rs = Ok None
    \<longleftrightarrow> (\<forall>r \<in> set rs. successful pc r \<and> endorsed_payload r = Some (bytes_of (pr_Payload a), r_Payload ra))"
  by (induction rs)
    (auto simp: assms successful_def endorsed_payload_def NewFromProposalResponse_def split: option.splits)

lemma ev_validate_None:
  "ev_validate pc None rs = Ok None
    \<longleftrightarrow> (\<forall>r \<in> set rs. successful pc r \<and> endorsed_payload r = endorsed_payload (hd rs))"
proof (cases rs)
  case (Cons r rs')
  show ?thesis
  proof (cases "successful pc r")
    case True
    then obtain pr resp where p: "tpr_ProposalResponse r = Some pr" "pr_Response pr = Some resp" "\<not> failed_status pc (r_Status resp)"
      by (auto simp: successful_def split: option.splits bind_split_asm)
    then have "endorsed_payload r = Some (bytes_of (pr_Payload pr), r_Payload resp)" by (simp add: endorsed_payload_def)
    then show ?thesis using Cons p True ev_validate_Some [OF p(2), of pc rs'] by auto
  next
    case False
    then show ?thesis using Cons
      by (auto simp: successful_def NewFromProposalResponse_def split: option.splits)
  qed
qed simp

text \<open>
  C36: The endorsement validation lets a list of responses pass exactly when all of them report success and all
  carry the same payload and the same chaincode result; which response comes first does not matter.
\<close>
theorem validation_exact:
  "ev_validate pc None rs = Ok None
    \<longleftrightarrow> (\<forall>r \<in> set rs. successful pc r) \<and> (\<forall>r \<in> set rs. \<forall>s \<in> set rs. endorsed_payload r = endorsed_payload s)"
  unfolding ev_validate_None by (cases rs) auto

theorem validation_exact_witness:
  "ev_validate ex_codec None [ex_response, ex_response] = Ok None
    \<and> ev_validate ex_codec None [ex_response, ex_response\<lparr>tpr_ProposalResponse := Some
       \<lparr>pr_Response = Some \<lparr>r_Status = 200, r_Message = [], r_Payload = [7]\<rparr>, pr_Payload = Some [8], pr_Endorsement = None\<rparr>\<rparr>] \<noteq> Ok None"
  using validation_exact [of ex_codec "[ex_response, ex_response]"]
    validation_exact [of ex_codec "[ex_response, ex_response\<lparr>tpr_ProposalResponse := Some
       \<lparr>pr_Response = Some \<lparr>r_Status = 200, r_Message = [], r_Payload = [7]\<rparr>, pr_Payload = Some [8], pr_Endorsement = None\<rparr>\<rparr>]"]
  by (simp add: ex_response_def ex_codec_def successful_def failed_status_def endorsed_payload_def)

lemma Verify_None: "Verify env r = Ok None \<longleftrightarrow> successful (ie_pc env) r \<and> verified env r"
  by (auto simp: Verify_def successful_def verified_def NewFromProposalResponse_def Let_def split: option.splits)

lemma sv_validate_None: "sv_validate env rs = Ok None \<longleftrightarrow> (\<forall>r \<in> set rs. successful (ie_pc env) r \<and> verified env r)"
proof (induction rs)
  case (Cons r rs)
  show ?case
  proof (cases "Verify env r")
    case (Ok e)
    then show ?thesis using Cons Verify_None [of env r] by (cases e) auto
  qed (use Verify_None [of env r] in auto)
qed simp

section \<open>Handlers that succeed\<close>

named_theorems success

lemma delegate_None [simp]: "delegate None rc w = Ok (rc, w)"
  by (simp add: delegate_def)

lemma delegate_Some [simp]: "delegate (Some h) rc w = h rc w"
  by (simp add: delegate_def)

lemma fail_Ok [simp]: "fail e rc w = Ok (rc', w') \<longleftrightarrow> rc' = rc\<lparr>rc_Error := Some e\<rparr> \<and> w' = w"
  by (auto simp: fail_def)

lemma validation_success [success]:
  assumes "EndorsementValidationHandler_Handle env next rc w = Ok (rc', w')" "rc_Error rc' = None"
  shows "ev_validate (ie_pc env) None (rp_Responses (rc_Response rc)) = Ok None \<and> delegate next rc w = Ok (rc', w')"
proof (cases "ev_validate (ie_pc env) None (rp_Responses (rc_Response rc))")
  case (Ok a)
  then show ?thesis using assms by (cases a) (auto simp: EndorsementValidationHandler_Handle_def)
qed (use assms in \<open>simp_all add: EndorsementValidationHandler_Handle_def\<close>)

lemma signature_success [success]:
  assumes "SignatureValidationHandler_Handle env next rc w = Ok (rc', w')" "rc_Error rc' = None"
  shows "sv_validate env (rp_Responses (rc_Response rc)) = Ok None \<and> delegate next rc w = Ok (rc', w')"
proof (cases "sv_validate env (rp_Responses (rc_Response rc))")
  case (Ok a)
  then show ?thesis using assms by (cases a) (auto simp: SignatureValidationHandler_Handle_def)
qed (use assms in \<open>simp_all add: SignatureValidationHandler_Handle_def\<close>)

lemma proposal_processor_success [success]:
  assumes "ProposalProcessorHandler_Handle env next rc w = Ok (rc', w')" "rc_Error rc' = None"
  shows "\<exists>rc1 w1. delegate next rc1 w1 = Ok (rc', w')"
proof (cases "length (io_Targets (rc_Opts rc)) = 0")
  case True
  then obtain r w1 where "cl_GetEndorsersForChaincode (ie_cl env) (newInvocationChain (rc_Request rc)) (selectionOpts rc) w = Ok (r, w1)"
    using assms(1) by (auto simp: ProposalProcessorHandler_Handle_def obind_eq_Ok)
  then show ?thesis using assms True by (cases r) (auto simp: ProposalProcessorHandler_Handle_def)
qed (use assms in \<open>auto simp: ProposalProcessorHandler_Handle_def\<close>)

lemma endorsement_success [success]:
  assumes "EndorsementHandler_Handle env hopts next rc w = Ok (rc', w')" "rc_Error rc' = None"
  shows "\<exists>rc1 w1 p. delegate next rc1 w1 = Ok (rc', w') \<and> rp_Proposal (rc_Response rc1) = Some p
    \<and> rp_TransactionID (rc_Response rc1) = tp_TxnID p
    \<and> (rp_Responses (rc_Response rc1) \<noteq> [] \<longrightarrow>
         getResultFromProposalResponse (ie_pc env) (tpr_ProposalResponse (hd (rp_Responses (rc_Response rc1)))) = Inr (rp_Payload (rc_Response rc1)))"
proof -
  let ?m = "createAndSendTransactionProposal env (rc_Request rc) (PeersToTxnProcessors (io_Targets (rc_Opts rc)))
    (case hopts of None \<Rightarrow> [] | Some os \<Rightarrow> os) w"
  have t: "io_Targets (rc_Opts rc) \<noteq> []" using assms by (auto simp: EndorsementHandler_Handle_def)
  obtain resps proposal err w1 where m: "?m = Ok ((resps, proposal, err), w1)"
    using assms(1) t by (auto simp: EndorsementHandler_Handle_def obind_eq_Ok)
  obtain p where p: "proposal = Some p" using assms(1) t m by (cases proposal) (auto simp: EndorsementHandler_Handle_def)
  have e: "err = None" using assms t m p by (cases err) (auto simp: EndorsementHandler_Handle_def Let_def)
  show ?thesis
  proof (cases resps)
    case (Cons r rs)
    then show ?thesis using assms t m p e
      by (cases "getResultFromProposalResponse (ie_pc env) (tpr_ProposalResponse r)")
        (auto simp: EndorsementHandler_Handle_def Let_def)
  qed (use assms t m p e in \<open>auto simp: EndorsementHandler_Handle_def Let_def\<close>)
qed

lemma getAdditionalEndorsers_response:
  assumes "getAdditionalEndorsers env rc ch w = Ok (r, rc', w')"
  shows "rc_Response rc' = rc_Response rc \<and> rc_Error rc' = rc_Error rc"
proof -
  have o: "obind m (\<lambda>(x, e, w1). case e of Inl err \<Rightarrow> Ok (f err, rc1, w1) | Inr es \<Rightarrow> Ok (g es, rc1, w1)) = Ok (r, rc', w') \<Longrightarrow> rc' = rc1"
    for m :: "('x \<times> (goerr + 'y) \<times> 'a) outcome" and f g rc1
    by (cases m) (auto split: sum.splits prod.splits)
  show ?thesis using assms
    by (auto simp: getAdditionalEndorsers_def Let_def dest!: o split: if_splits list.splits sum.splits prod.splits)
qed

lemma add_endorsements_success:
  assumes "add_endorsements env next ccCalls rc w = Ok (rc', w')" "rc_Error rc' = None"
  shows "\<exists>rc1 w1. delegate next rc1 w1 = Ok (rc', w') \<and> rp_Proposal (rc_Response rc1) = rp_Proposal (rc_Response rc)
    \<and> rp_TransactionID (rc_Response rc1) = rp_TransactionID (rc_Response rc)"
proof -
  obtain a rc1 w1 where g: "getAdditionalEndorsers env rc ccCalls w = Ok (a, rc1, w1)"
    using assms(1) by (auto simp: add_endorsements_def obind_eq_Ok)
  show ?thesis
  proof (cases a)
    case (Inl e)
    then show ?thesis using assms g getAdditionalEndorsers_response [OF g] by (auto simp: add_endorsements_def)
  next
    case (Inr es)
    then show ?thesis using assms g getAdditionalEndorsers_response [OF g]
      by (cases "es = []") (auto simp: add_endorsements_def Let_def split: prod.splits option.splits)
  qed
qed

lemma endorse_selected_success:
  assumes "endorse_selected env b next ccCalls rc w = Ok (rc', w')" "rc_Error rc' = None"
  shows "\<exists>rc1 w1 p. delegate next rc1 w1 = Ok (rc', w') \<and> rp_Proposal (rc_Response rc1) = Some p
    \<and> rp_TransactionID (rc_Response rc1) = tp_TxnID p"
proof -
  obtain rc1 w1 where e: "EndorsementHandler_Handle env None None rc w = Ok (rc1, w1)"
    using assms(1) by (auto simp: endorse_selected_def obind_eq_Ok)
  have ne: "rc_Error rc1 = None" using assms e by (auto simp: endorse_selected_def split: if_splits)
  obtain p where p: "rp_Proposal (rc_Response rc1) = Some p" "rp_TransactionID (rc_Response rc1) = tp_TxnID p"
    using endorsement_success [OF e ne] by auto
  show ?thesis
  proof (cases "b \<and> length (rp_Responses (rc_Response rc1)) > 0")
    case True
    then have "add_endorsements env next ccCalls rc1 w1 = Ok (rc', w')" using assms(1) e ne by (simp add: endorse_selected_def)
    from add_endorsements_success [OF this assms(2)] p show ?thesis by auto
  next
    case False
    then have "delegate next rc1 w1 = Ok (rc', w')" using assms(1) e ne by (auto simp: endorse_selected_def)
    then show ?thesis using p by blast
  qed
qed

lemma select_success [success]:
  assumes "SelectAndEndorseHandler_Handle env next rc w = Ok (rc', w')" "rc_Error rc' = None"
  shows "\<exists>rc1 w1 p. delegate next rc1 w1 = Ok (rc', w') \<and> rp_Proposal (rc_Response rc1) = Some p
    \<and> rp_TransactionID (rc_Response rc1) = tp_TxnID p"
proof -
  obtain b ccCalls rc0 w0 where "endorse_selected env b next ccCalls rc0 w0 = Ok (rc', w')"
  proof (cases "length (io_Targets (rc_Opts rc)) = 0")
    case True
    then obtain ccCalls r w1 where g: "handler_getEndorsers env rc [] w = Ok (ccCalls, r, w1)"
      using assms(1) by (auto simp: SelectAndEndorseHandler_Handle_def obind_eq_Ok)
    then show thesis using that assms True by (cases r) (auto simp: SelectAndEndorseHandler_Handle_def)
  qed (use assms that in \<open>simp add: SelectAndEndorseHandler_Handle_def\<close>)
  from endorse_selected_success [OF this assms(2)] show ?thesis .
qed

lemma createAndSendTransaction_Inr:
  assumes "createAndSendTransaction env proposal resps w = Ok (Inr u, w')"
  shows "\<exists>t o'. cl_CreateTransaction (ie_cl env) proposal resps = Ok (Inr t) \<and> cl_SendTransaction (ie_cl env) t w = Ok ((o', None), w')"
proof -
  obtain r where r: "cl_CreateTransaction (ie_cl env) proposal resps = Ok r"
    using assms by (auto simp: createAndSendTransaction_def obind_eq_Ok)
  obtain t where t: "r = Inr t" using assms r by (cases r) (auto simp: createAndSendTransaction_def)
  obtain o' err w1 where s: "cl_SendTransaction (ie_cl env) t w = Ok ((o', err), w1)"
    using assms r t by (auto simp: createAndSendTransaction_def obind_eq_Ok)
  then show ?thesis using assms r t by (cases err) (auto simp: createAndSendTransaction_def)
qed

lemma commit_body_success:
  assumes "commit_body env reg next rc w = Ok (rc', w')" "rc_Error rc' = None"
  shows "\<exists>t o' w1 w2. cl_CreateTransaction (ie_cl env) (rp_Proposal (rc_Response rc)) (rp_Responses (rc_Response rc)) = Ok (Inr t)
    \<and> cl_SendTransaction (ie_cl env) t w = Ok ((o', None), w1)
    \<and> cl_AwaitTxStatus (ie_cl env) reg w1 = Ok (TxStatus TxValidationCode_VALID, w2)
    \<and> delegate next (rc\<lparr>rc_Response := (rc_Response rc)\<lparr>rp_TxValidationCode := TxValidationCode_VALID\<rparr>\<rparr>) w2 = Ok (rc', w')"
proof -
  obtain r w1 where c: "createAndSendTransaction env (rp_Proposal (rc_Response rc)) (rp_Responses (rc_Response rc)) w = Ok (r, w1)"
    using assms(1) by (auto simp: commit_body_def obind_eq_Ok)
  obtain u where r: "r = Inr u" using assms c by (cases r) (auto simp: commit_body_def)
  obtain a w2 where a: "cl_AwaitTxStatus (ie_cl env) reg w1 = Ok (a, w2)"
    using assms(1) c r by (auto simp: commit_body_def obind_eq_Ok)
  obtain code where code: "a = TxStatus code" using assms c r a by (cases a) (auto simp: commit_body_def)
  have v: "code = TxValidationCode_VALID"
    using assms c r a code by (cases "code = TxValidationCode_VALID") (auto simp: commit_body_def Let_def)
  show ?thesis using createAndSendTransaction_Inr [OF c [unfolded r]] assms(1) c r a code v by (auto simp: commit_body_def Let_def)
qed

lemma commit_success [success]:
  assumes "CommitTxHandler_Handle env None rc w = Ok (rc', w')" "rc_Error rc' = None"
  shows "\<exists>reg w1 t o' w2 w3. cl_RegisterTxStatusEvent (ie_cl env) (rp_TransactionID (rc_Response rc)) w = (Inr reg, w1)
    \<and> cl_CreateTransaction (ie_cl env) (rp_Proposal (rc_Response rc)) (rp_Responses (rc_Response rc)) = Ok (Inr t)
    \<and> cl_SendTransaction (ie_cl env) t w1 = Ok ((o', None), w2)
    \<and> cl_AwaitTxStatus (ie_cl env) reg w2 = Ok (TxStatus TxValidationCode_VALID, w3)
    \<and> w' = cl_Unregister (ie_cl env) reg w3
    \<and> rc_Response rc' = (rc_Response rc)\<lparr>rp_TxValidationCode := TxValidationCode_VALID\<rparr>"
proof -
  obtain r w1 where r: "cl_RegisterTxStatusEvent (ie_cl env) (rp_TransactionID (rc_Response rc)) w = (r, w1)"
    by (cases "cl_RegisterTxStatusEvent (ie_cl env) (rp_TransactionID (rc_Response rc)) w")
  obtain reg where reg: "r = Inr reg" using assms r by (cases r) (auto simp: CommitTxHandler_Handle_def)
  obtain w2 where b: "commit_body env reg None rc w1 = Ok (rc', w2)" "w' = cl_Unregister (ie_cl env) reg w2"
    using assms(1) r reg by (auto simp: CommitTxHandler_Handle_def obind_eq_Ok)
  from commit_body_success [OF b(1) assms(2)] r reg b(2) show ?thesis by auto
qed

section \<open>Execute\<close>

text \<open>
  \<open>sent_and_valid\<close>: a transaction was made of the proposal and the responses, sent after registering for its
  status, and this status was received as valid. \<open>committed\<close>: so it was with the transaction of the response,
  and all of its endorsements are successful, agree and are verified.
\<close>

definition sent_and_valid :: "('w, 'f, 'kv, 'h) invokeEnv \<Rightarrow> TransactionProposal option \<Rightarrow> string \<Rightarrow> TransactionProposalResponse list
    \<Rightarrow> 'w \<Rightarrow> bool" where
  "sent_and_valid env proposal txnID resps w' \<longleftrightarrow>
    (\<exists>p t reg w0 w1 o' w2 w3. proposal = Some p \<and> txnID = tp_TxnID p
        \<and> txn_New (ie_pc env) (Some p) resps = Ok (Inr t)
        \<and> cl_RegisterTxStatusEvent (ie_cl env) txnID w0 = (Inr reg, w1)
        \<and> cl_SendTransaction (ie_cl env) t w1 = Ok ((o', None), w2)
        \<and> cl_AwaitTxStatus (ie_cl env) reg w2 = Ok (TxStatus TxValidationCode_VALID, w3)
        \<and> w' = cl_Unregister (ie_cl env) reg w3)"

definition committed :: "('w, 'f, 'kv, 'h) invokeEnv \<Rightarrow> InvokeResponse \<Rightarrow> 'w \<Rightarrow> bool" where
  "committed env resp w' \<longleftrightarrow> rp_TxValidationCode resp = TxValidationCode_VALID
    \<and> rp_Responses resp \<noteq> []
    \<and> (\<forall>r \<in> set (rp_Responses resp). successful (ie_pc env) r \<and> verified env r)
    \<and> (\<forall>r \<in> set (rp_Responses resp). \<forall>s \<in> set (rp_Responses resp). endorsed_payload r = endorsed_payload s)
    \<and> sent_and_valid env (rp_Proposal resp) (rp_TransactionID resp) (rp_Responses resp) w'"

lemma execute_handler_commits:
  assumes tx: "cl_CreateTransaction (ie_cl env) = txn_New (ie_pc env)"
    and run: "Handle env (NewExecuteHandler []) rc w = Ok (rc', w')" and ok: "rc_Error rc' = None"
  shows "committed env (rc_Response rc') w'"
proof -
  let ?sv = "SignatureValidationHandler_Handle env (Some (CommitTxHandler_Handle env None))"
  have "SelectAndEndorseHandler_Handle env (Some (EndorsementValidationHandler_Handle env (Some ?sv))) rc w = Ok (rc', w')"
    using run by (simp add: NewExecuteHandler_def getNext_def)
  from select_success [OF this ok] obtain rc1 w1 p where
    1: "EndorsementValidationHandler_Handle env (Some ?sv) rc1 w1 = Ok (rc', w')"
      "rp_Proposal (rc_Response rc1) = Some p" "rp_TransactionID (rc_Response rc1) = tp_TxnID p" by auto
  from validation_success [OF 1(1) ok] have
    2: "ev_validate (ie_pc env) None (rp_Responses (rc_Response rc1)) = Ok None" "?sv rc1 w1 = Ok (rc', w')" by simp_all
  from signature_success [OF 2(2) ok] have
    3: "sv_validate env (rp_Responses (rc_Response rc1)) = Ok None" "CommitTxHandler_Handle env None rc1 w1 = Ok (rc', w')" by simp_all
  from commit_success [OF 3(2) ok] obtain reg w2 t o' w3 w4 where
    4: "cl_RegisterTxStatusEvent (ie_cl env) (tp_TxnID p) w1 = (Inr reg, w2)"
      "txn_New (ie_pc env) (Some p) (rp_Responses (rc_Response rc1)) = Ok (Inr t)"
      "cl_SendTransaction (ie_cl env) t w2 = Ok ((o', None), w3)"
      "cl_AwaitTxStatus (ie_cl env) reg w3 = Ok (TxStatus TxValidationCode_VALID, w4)" "w' = cl_Unregister (ie_cl env) reg w4"
      "rc_Response rc' = (rc_Response rc1)\<lparr>rp_TxValidationCode := TxValidationCode_VALID\<rparr>"
    using 1(2,3) tx by auto
  have "rp_Responses (rc_Response rc1) \<noteq> []" using 4(2) by (auto simp: txn_New_def)
  moreover have "\<forall>r \<in> set (rp_Responses (rc_Response rc1)). successful (ie_pc env) r \<and> verified env r"
    using 3(1) sv_validate_None by blast
  moreover have "\<forall>r \<in> set (rp_Responses (rc_Response rc1)). \<forall>s \<in> set (rp_Responses (rc_Response rc1)). endorsed_payload r = endorsed_payload s"
    using 2(1) validation_exact by blast
  moreover have "sent_and_valid env (rp_Proposal (rc_Response rc1)) (rp_TransactionID (rc_Response rc1)) (rp_Responses (rc_Response rc1)) w'"
    unfolding sent_and_valid_def 1(2,3) by (intro exI conjI) (rule refl 4(1-5))+
  moreover have "rp_Responses (rc_Response rc') = rp_Responses (rc_Response rc1)"
    "rp_Proposal (rc_Response rc') = rp_Proposal (rc_Response rc1)" "rp_TransactionID (rc_Response rc') = rp_TransactionID (rc_Response rc1)"
    "rp_TxValidationCode (rc_Response rc') = TxValidationCode_VALID" by (simp_all add: 4(6))
  ultimately show ?thesis by (metis committed_def)
qed

text \<open>What the invoker returns was left by a last run of the invocation.\<close>

lemma refused_retry_keeps: "resolveRetry req before err h w = (False, h', w') \<Longrightarrow> w' = w"
proof -
  have "resolve_loop req before err es h w = (False, h', w') \<Longrightarrow> w' = w" for es
    by (induction es arbitrary: h) (auto split: prod.splits if_splits)
  then show "resolveRetry req before err h w = (False, h', w') \<Longrightarrow> w' = w" by (simp add: resolveRetry_def)
qed

lemma Invoke_last:
  assumes "Invoke req before invocation h w = Some (r, h', w')"
  shows "\<exists>w0. invocation w0 = (r, w')"
  using assms
proof (induction req before invocation h w "(r, h', w')" rule: Invoke.raw_induct [rotated, consumes 1, case_names step])
  case (step Inv req before invocation h w)
  then show ?case by (auto split: prod.splits sum.splits if_splits dest: refused_retry_keeps)
qed

lemma client_run_last:
  assumes run: "client_run ctx cv h opts rc w = Ok (rc', w')" and ok: "rc_Error rc' = None"
  shows "\<exists>rc0 w0. Handle (cx_env ctx) h rc0 w0 = Ok (rc', w')"
proof -
  obtain r h' where i: "Invoke (Required (ie_wire (cx_env ctx)) cv) (Some (client_beforeRetry ctx opts))
        (as_invocation (client_invocation ctx h)) (retry_New (ie_wire (cx_env ctx)) (io_Retry opts)) (rc, w) = Some (r, h', (rc', w'))"
    and r: "r = Inr v \<Longrightarrow> obind v (\<lambda>_. Ok (rc', w')) = Ok (rc', w')" for v
    using run by (auto simp: client_run_def obind_eq_Ok split: option.splits sum.splits prod.splits)
  obtain st where st: "as_invocation (client_invocation ctx h) st = (r, (rc', w'))" using Invoke_last [OF i] by blast
  obtain rc1 w1 where "Handle (cx_env ctx) h (fst st) (snd st) = Ok (rc1, w1)"
    using st r by (cases "Handle (cx_env ctx) h (fst st) (snd st)")
      (auto simp: as_invocation_def client_invocation_def)
  then have "Handle (cx_env ctx) h (fst st) (snd st) = Ok (rc', w')" using st ok
    by (cases "rc_Error rc1") (auto simp: as_invocation_def client_invocation_def)
  then show ?thesis by blast
qed

lemma InvokeHandler_success:
  assumes "InvokeHandler ctx cv h request options d w = Ok ((resp, None), w')"
  shows "\<exists>rc0 w0 rc1 w1. Handle (cx_env ctx) h rc0 w0 = Ok (rc1, w1) \<and> rc_Error rc1 = None \<and> resp = rc_Response rc1 \<and> w' = Some w1"
proof -
  obtain opts where o1: "prepareOptsFromOptions ctx options = Inr opts"
    using assms by (cases "prepareOptsFromOptions ctx options") (auto simp: InvokeHandler_def)
  let ?o = "fst (createReqContext ctx None ExecuteTimeout opts)"
  obtain rc where o2: "prepareHandlerContexts ctx request ?o = Inr rc"
    using assms o1 by (cases "prepareHandlerContexts ctx request ?o") (auto simp: InvokeHandler_def Let_def)
  obtain rc1 w1 where "client_run ctx cv h ?o rc w = Ok (rc1, w1)" "resp = rc_Response rc1" "rc_Error rc1 = None" "w' = Some w1"
    using assms o1 o2 by (auto simp: InvokeHandler_def Let_def obind_eq_Ok split: if_splits)
  then show ?thesis using client_run_last by blast
qed

text \<open>
  C1: If \<open>Execute\<close> returns without an error, the transaction of the response was made of the response's proposal
  and endorsements, was sent to the orderers only after the client had registered for its status, and this
  status was received as VALID; there is at least one endorsement, and all are successful, agree in payload
  and result, and carry a certificate and a signature that the channel's membership accepts.
\<close>
theorem execute_commits:
  assumes "cl_CreateTransaction (ie_cl (cx_env ctx)) = txn_New (ie_pc (cx_env ctx))"
    and "Execute ctx cv request options ctxDone w = Ok ((resp, None), w')"
  shows "\<exists>w1. w' = Some w1 \<and> committed (cx_env ctx) resp w1"
  using InvokeHandler_success [OF assms(2) [unfolded Execute_def callExecute_def]] execute_handler_commits [OF assms(1)] by blast

text \<open>
  C6: If \<open>Query\<close> returns without an error, all endorsements of the response are successful, agree in payload
  and result, and are verified; the payload returned is the one that the first of them carries.
\<close>
theorem query_verified:
  assumes "Query ctx cv request options ctxDone w = Ok ((resp, None), w')"
  shows "(\<forall>r \<in> set (rp_Responses resp). successful (ie_pc (cx_env ctx)) r \<and> verified (cx_env ctx) r)
    \<and> (\<forall>r \<in> set (rp_Responses resp). \<forall>s \<in> set (rp_Responses resp). endorsed_payload r = endorsed_payload s)
    \<and> (rp_Responses resp \<noteq> [] \<longrightarrow> getResultFromProposalResponse (ie_pc (cx_env ctx)) (tpr_ProposalResponse (hd (rp_Responses resp)))
         = Inr (rp_Payload resp))"
proof -
  let ?env = "cx_env ctx"
  obtain rc0 w0 rc1 w1 where run: "Handle ?env (NewQueryHandler []) rc0 w0 = Ok (rc1, w1)" and ok: "rc_Error rc1 = None"
    and resp: "resp = rc_Response rc1"
    using InvokeHandler_success [OF assms [unfolded Query_def callQuery_def]] by blast
  let ?ev = "EndorsementValidationHandler_Handle ?env (Some (SignatureValidationHandler_Handle ?env None))"
  have "ProposalProcessorHandler_Handle ?env (Some (EndorsementHandler_Handle ?env None (Some ?ev))) rc0 w0 = Ok (rc1, w1)"
    using run by (simp add: NewQueryHandler_def getNext_def)
  from proposal_processor_success [OF this ok] obtain rc2 w2 where "EndorsementHandler_Handle ?env None (Some ?ev) rc2 w2 = Ok (rc1, w1)" by auto
  from endorsement_success [OF this ok] obtain rc3 w3 where
    1: "?ev rc3 w3 = Ok (rc1, w1)" "rp_Responses (rc_Response rc3) \<noteq> [] \<longrightarrow>
         getResultFromProposalResponse (ie_pc ?env) (tpr_ProposalResponse (hd (rp_Responses (rc_Response rc3)))) = Inr (rp_Payload (rc_Response rc3))"
    by auto
  from validation_success [OF 1(1) ok] have
    2: "ev_validate (ie_pc ?env) None (rp_Responses (rc_Response rc3)) = Ok None"
      "SignatureValidationHandler_Handle ?env None rc3 w3 = Ok (rc1, w1)" by simp_all
  from signature_success [OF 2(2) ok] have
    3: "sv_validate ?env (rp_Responses (rc_Response rc3)) = Ok None" "rc1 = rc3" by auto
  show ?thesis using 1(2) 2(1) 3(1) validation_exact sv_validate_None unfolding resp 3(2) by blast
qed

text \<open>A channel with one peer, one orderer and a network that commits every transaction; the world counts the registrations.\<close>

definition ex_cl :: "(nat cworld, int) ClientContext" where
  "ex_cl = \<lparr>cl_GetEndorsersForChaincode = \<lambda>chain opts w. Ok (Inr [mkPeer 0 ''grpc://p0'' ''Org1'' None], w),
     cl_Validate = \<lambda>c. None, cl_Verify = \<lambda>c d s. if s = [2] then None else Some (errorNew ''bad signature''),
     cl_CreateTransactionHeader = \<lambda>opts w. (NewHeader ex_ctx (Inr [1, 2]) ''ch'' opts, w),
     cl_Timestamp = \<lambda>w. Inr 5,
     cl_SendTransactionProposal = \<lambda>prop targets w. SendProposal ex_codec (Some ex_ctx) (\<lambda>p sp w. (Inr ex_response, w)) id prop targets w,
     cl_CreateTransaction = txn_New ex_codec,
     cl_SendTransaction = \<lambda>t w. txn_Send ex_codec (Some ex_ctx) (\<lambda>o' e w. (Inr 200, w)) (\<lambda>_. 0) (Some t) [''o1''] w,
     cl_RegisterTxStatusEvent = \<lambda>i w. (Inr (snd w), (fst w, snd w + 1)),
     cl_AwaitTxStatus = \<lambda>reg w. Ok (TxStatus 0, w),
     cl_Unregister = \<lambda>reg w. w\<rparr>"

definition ex_client :: "(nat, int, bytes, bytes) channelCtx" where
  "ex_client = \<lparr>cx_Timeout = \<lambda>_. 30, cx_PeerConfig = \<lambda>_. None, cx_NetworkPeers = [], cx_CreatePeerFromConfig = \<lambda>_. Inr None,
     cx_ChannelPeers = [], cx_Transactor = Inr (), cx_Selection = Inr (), cx_Discovery = Inr (),
     cx_env = \<lparr>ie_wire = ex_wire, ie_pc = ex_codec, ie_rw = id_codec, ie_cl = ex_cl\<rparr>, cx_Now = int, cx_EndpointFilter = \<lambda>_ _. True\<rparr>"

definition ex_request :: Request where
  "ex_request = \<lparr>rq_ChaincodeID = ''cc'', rq_Fcn = ''f'', rq_Args = [], rq_TransientMap = [], rq_InvocationChain = [], rq_IsInit = False\<rparr>"

definition ex_dur :: "int dur_conv" where
  "ex_dur = \<lparr>float64 = id, duration = id\<rparr>"

definition ex_world :: "nat cworld" where
  "ex_world = (greylist_New 10, 0)"

text \<open>A request whose first attempt succeeds, with a test of the response.\<close>

definition first_attempt :: "('v, 'f::zero, 'kv, 'h) channelCtx \<Rightarrow> ('v cworld, 'f) Handler \<Rightarrow> Request
    \<Rightarrow> ('v, 'f, 'kv, 'h) RequestOption list \<Rightarrow> 'v cworld \<Rightarrow> (InvokeResponse \<Rightarrow> bool) \<Rightarrow> bool" where
  "first_attempt ctx h request options w P = (case prepareOptsFromOptions ctx options of
     Inl _ \<Rightarrow> False
   | Inr opts \<Rightarrow> (case prepareHandlerContexts ctx request (fst (createReqContext ctx None ExecuteTimeout opts)) of
       Inl _ \<Rightarrow> False
     | Inr rc \<Rightarrow> (case Handle (cx_env ctx) h rc w of
         Ok (rc', w') \<Rightarrow> rc_Error rc' = None \<and> P (rc_Response rc') | _ \<Rightarrow> False)))"

lemma first_attempt_run:
  assumes "first_attempt ctx h request options w P"
  shows "\<exists>resp w'. InvokeHandler ctx cv h request options False w = Ok ((resp, None), Some w') \<and> P resp"
proof -
  obtain opts rc rc' w' where o': "prepareOptsFromOptions ctx options = Inr opts"
    "prepareHandlerContexts ctx request (fst (createReqContext ctx None ExecuteTimeout opts)) = Inr rc"
    "Handle (cx_env ctx) h rc w = Ok (rc', w')" "rc_Error rc' = None" "P (rc_Response rc')"
    using assms by (auto simp: first_attempt_def split: sum.splits outcome.splits)
  have "client_run ctx cv h (fst (createReqContext ctx None ExecuteTimeout opts)) rc w = Ok (rc', w')"
    using o'(3,4) by (simp add: client_run_def Invoke.simps as_invocation_def client_invocation_def)
  then show ?thesis using o' by (simp add: InvokeHandler_def Let_def)
qed

lemma ex_execute: "first_attempt ex_client (NewExecuteHandler []) ex_request [addDefaultTimeout ExecuteTimeout, addDefaultTargetFilter EndorsingPeer]
    ex_world (\<lambda>resp. rp_TransactionID resp = ''070201'')"
  by code_simp

lemma ex_query: "first_attempt ex_client (NewQueryHandler []) ex_request [addDefaultTimeout QueryTimeout, addDefaultTargetFilter ChaincodeQuery]
    ex_world (\<lambda>resp. rp_Responses resp = [ex_response])"
  by code_simp

theorem execute_commits_witness:
  "\<exists>resp w'. Execute ex_client ex_dur ex_request [] False ex_world = Ok ((resp, None), Some w') \<and> rp_TransactionID resp = ''070201''
    \<and> committed (cx_env ex_client) resp w'"
proof -
  have tx: "cl_CreateTransaction (ie_cl (cx_env ex_client)) = txn_New (ie_pc (cx_env ex_client))"
    by (simp add: ex_client_def ex_cl_def)
  obtain resp w' where r: "Execute ex_client ex_dur ex_request [] False ex_world = Ok ((resp, None), Some w')" "rp_TransactionID resp = ''070201''"
    using first_attempt_run [OF ex_execute, of ex_dur] by (auto simp: Execute_def callExecute_def)
  then show ?thesis using execute_commits [OF tx r(1)] by blast
qed

theorem query_verified_witness:
  "\<exists>resp w'. Query ex_client ex_dur ex_request [] False ex_world = Ok ((resp, None), w') \<and> rp_Responses resp = [ex_response]
    \<and> verified (cx_env ex_client) ex_response"
proof -
  obtain resp w' where r: "Query ex_client ex_dur ex_request [] False ex_world = Ok ((resp, None), w')" "rp_Responses resp = [ex_response]"
    using first_attempt_run [OF ex_query, of ex_dur] by (auto simp: Query_def callQuery_def)
  from query_verified [OF r(1)] r show ?thesis by auto
qed

end
