(* ===== verification/Invoke_Properties.thy ===== *)
theory Invoke_Properties
  imports Invoke_Theorems
begin

text \<open>
  Further properties of the channel client: how an invocation chain is extended by what a proposal response
  shows, the options of the selection of additional endorsers, attempts that start afresh, the timeout of a
  query, and the places where a handler panics.
\<close>

section \<open>Invocation chains\<close>

lemma getCCCall_Some: "getCCCall cs i = Some c \<Longrightarrow> c \<in> set cs \<and> cc_ID c = i"
  by (induction cs) (auto split: if_splits)

lemma getCCCall_None: "getCCCall cs i = None \<longleftrightarrow> i \<notin> cc_ID ` set cs"
  by (induction cs) auto

lemma merge_colls_spec:
  "set (fst (merge_colls cs colls m)) = set cs \<union> set colls \<and> (snd (merge_colls cs colls m) \<longleftrightarrow> m \<or> \<not> set colls \<subseteq> set cs)"
proof (induction colls arbitrary: cs m)
  case (Cons coll colls)
  show ?case
  proof (cases "coll \<in> set cs")
    case True
    then show ?thesis using Cons.IH [of cs m] by auto
  next
    case False
    then show ?thesis using Cons.IH [of "cs @ [coll]" True] by auto
  qed
qed simp

text \<open>The collections that a chain names for a chaincode.\<close>

definition chain_collections :: "ChaincodeCall list \<Rightarrow> string \<Rightarrow> string set option" where
  "chain_collections chain i = map_option (\<lambda>c. set (cc_Collections c)) (getCCCall chain i)"

lemma merge_spec:
  "cc_ID (fst (merge c1 c2)) = cc_ID c1" "set (cc_Collections (fst (merge c1 c2))) = set (cc_Collections c1) \<union> set (cc_Collections c2)"
  "snd (merge c1 c2) \<longleftrightarrow> \<not> set (cc_Collections c2) \<subseteq> set (cc_Collections c1)"
  using merge_colls_spec [of "cc_Collections c1" "cc_Collections c2" False]
  by (simp_all add: merge_def case_prod_beta)

lemma mergeCCCall_spec:
  "cc_ID (fst (mergeCCCall chain r)) = cc_ID r
     \<and> set (cc_Collections (fst (mergeCCCall chain r)))
        = (case chain_collections chain (cc_ID r) of None \<Rightarrow> {} | Some s \<Rightarrow> s) \<union> set (cc_Collections r)
     \<and> (snd (mergeCCCall chain r) \<longleftrightarrow> (case chain_collections chain (cc_ID r) of None \<Rightarrow> True | Some s \<Rightarrow> \<not> set (cc_Collections r) \<subseteq> s))"
proof (cases "getCCCall chain (cc_ID r)")
  case (Some c)
  then show ?thesis using getCCCall_Some [OF Some] merge_spec [of c r] by (simp add: mergeCCCall_def chain_collections_def)
qed (simp add: mergeCCCall_def chain_collections_def)

lemma merge_chains_loop_spec:
  "merge_chains_loop chain rs flt merged changed
    = (merged @ map (\<lambda>r. fst (mergeCCCall chain r)) (filter (\<lambda>r. flt (cc_ID r)) rs),
       changed \<or> (\<exists>r \<in> set rs. flt (cc_ID r) \<and> snd (mergeCCCall chain r)))"
  by (induction chain rs flt merged changed rule: merge_chains_loop.induct) (auto split: prod.splits)

text \<open>
  Merging an invocation chain with the one found in a response gives, in the order of the response, one
  call for every chaincode that the filter accepts, each with the collections of both chains; further
  endorsers are looked for exactly when the response names a chaincode or a collection that the chain did
  not have. The chaincodes of the original chain that the response does not name are not in the result.
\<close>
theorem merge_exact:
  assumes "mergeInvocationChains chain resp flt = (merged, changed)"
  shows "map cc_ID merged = filter flt (map cc_ID resp)
    \<and> (\<forall>c \<in> set merged. \<exists>r \<in> set resp. cc_ID c = cc_ID r
         \<and> set (cc_Collections c) = (case chain_collections chain (cc_ID r) of None \<Rightarrow> {} | Some s \<Rightarrow> s) \<union> set (cc_Collections r))
    \<and> (changed \<longleftrightarrow> (\<exists>r \<in> set resp. flt (cc_ID r)
         \<and> (case chain_collections chain (cc_ID r) of None \<Rightarrow> True | Some s \<Rightarrow> \<not> set (cc_Collections r) \<subseteq> s)))"
proof -
  have m: "cc_ID (fst (mergeCCCall chain r)) = cc_ID r
     \<and> set (cc_Collections (fst (mergeCCCall chain r))) = (case chain_collections chain (cc_ID r) of None \<Rightarrow> {} | Some s \<Rightarrow> s) \<union> set (cc_Collections r)
     \<and> (snd (mergeCCCall chain r) \<longleftrightarrow> (case chain_collections chain (cc_ID r) of None \<Rightarrow> True | Some s \<Rightarrow> \<not> set (cc_Collections r) \<subseteq> s))" for r
    by (rule mergeCCCall_spec)
  have eq: "merged = map (\<lambda>r. fst (mergeCCCall chain r)) (filter (\<lambda>r. flt (cc_ID r)) resp)"
    "changed \<longleftrightarrow> (\<exists>r \<in> set resp. flt (cc_ID r) \<and> snd (mergeCCCall chain r))"
    using assms by (simp_all add: mergeInvocationChains_def merge_chains_loop_spec)
  have "map cc_ID merged = filter flt (map cc_ID resp)"
    unfolding eq(1) by (induction resp) (simp_all add: m)
  moreover have "\<forall>c \<in> set merged. \<exists>r \<in> set resp. cc_ID c = cc_ID r
         \<and> set (cc_Collections c) = (case chain_collections chain (cc_ID r) of None \<Rightarrow> {} | Some s \<Rightarrow> s) \<union> set (cc_Collections r)"
    unfolding eq(1) using m by auto
  ultimately show ?thesis using eq(2) m by simp
qed

theorem merge_exact_witness:
  "map cc_ID (fst (mergeInvocationChains [\<lparr>cc_ID = ''cc1'', cc_Collections = []\<rparr>, \<lparr>cc_ID = ''cc2'', cc_Collections = [''a'']\<rparr>]
      [\<lparr>cc_ID = ''lscc'', cc_Collections = []\<rparr>, \<lparr>cc_ID = ''cc1'', cc_Collections = [''b'']\<rparr>] lsccFilter)) = [''cc1'']"
proof -
  obtain merged changed where e: "mergeInvocationChains [\<lparr>cc_ID = ''cc1'', cc_Collections = []\<rparr>, \<lparr>cc_ID = ''cc2'', cc_Collections = [''a'']\<rparr>]
      [\<lparr>cc_ID = ''lscc'', cc_Collections = []\<rparr>, \<lparr>cc_ID = ''cc1'', cc_Collections = [''b'']\<rparr>] lsccFilter = (merged, changed)"
    by (metis prod.collapse)
  from merge_exact [OF this] show ?thesis by (simp add: e lsccFilter_def)
qed

section \<open>Selecting additional endorsers\<close>

lemma containsPeerURL_iff: "containsPeerURL ps q \<longleftrightarrow> peer_URL q \<in> peer_URL ` set ps"
  by (induction ps) auto

lemma prioritize_sorts:
  "sorted_wrt (\<lambda>p q. containsPeerURL es q \<longrightarrow> containsPeerURL es p) (sel_sortPeers ps (prioritizePeers es))"
  unfolding sel_sortPeers_def
  by (rule sort_by_sorted) (auto simp: prioritizePeers_def Let_def split: if_splits)

text \<open>
  The options of the selection of additional endorsers: without a target sorter of the user, the peers that
  have already endorsed come first, all of them before any other; but a target sorter of the user replaces
  this priority, because both options set the same field and the user's comes last.
\<close>
theorem additional_priority:
  "(case sp_PeerSorter (NewParams ([WithRetryOpts zeroOpts, WithPrioritySelector (prioritizePeers es)] @ selectionOpts rc)) of
     None \<Rightarrow> False
   | Some s \<Rightarrow> (case rc_PeerSorter rc of
       Some user \<Rightarrow> s = user
     | None \<Rightarrow> \<forall>ps w. mset (fst (s ps w)) = mset ps \<and> snd (s ps w) = w
         \<and> sorted_wrt (\<lambda>p q. containsPeerURL es q \<longrightarrow> containsPeerURL es p) (fst (s ps w))))
   \<and> sp_RetryOpts (NewParams ([WithRetryOpts zeroOpts, WithPrioritySelector (prioritizePeers es)] @ selectionOpts rc)) = zeroOpts"
  by (cases "rc_SelectionFilter rc"; cases "rc_PeerSorter rc")
    (simp_all add: NewParams_def selectionOpts_def WithRetryOpts_def WithPrioritySelector_def WithPeerSorter_def WithPeerFilter_def
      prioritize_sorts, simp_all add: sel_sortPeers_def)

theorem additional_priority_witness:
  "case sp_PeerSorter (NewParams ([WithRetryOpts (zeroOpts :: int Opts), WithPrioritySelector (prioritizePeers [hd ex_peers])]
      @ selectionOpts \<lparr>rc_Request = ex_request, rc_Opts = (emptyOptions :: (nat, int) requestOptions), rc_Response = emptyResponse,
          rc_Error = None, rc_SelectionFilter = None, rc_PeerSorter = None\<rparr>)) of
     None \<Rightarrow> False
   | Some s \<Rightarrow> \<forall>w. mset (fst (s (rev ex_peers) w)) = mset ex_peers
       \<and> sorted_wrt (\<lambda>p q. containsPeerURL [hd ex_peers] q \<longrightarrow> containsPeerURL [hd ex_peers] p) (fst (s (rev ex_peers) w))"
  using additional_priority [of "[hd ex_peers]" "\<lparr>rc_Request = ex_request, rc_Opts = (emptyOptions :: (nat, int) requestOptions),
    rc_Response = emptyResponse, rc_Error = None, rc_SelectionFilter = None, rc_PeerSorter = None\<rparr>"]
  by (simp del: containsPeerURL.simps split: option.splits)

section \<open>Attempts\<close>

lemma client_invocation_as:
  assumes "Handle (cx_env ctx) h (fst st) (snd st) = Ok (rc', w')"
  shows "as_invocation (client_invocation ctx h) st
    = (case rc_Error rc' of Some e \<Rightarrow> Inl e | None \<Rightarrow> Inr (Ok ()), (rc', w'))"
  using assms by (simp add: as_invocation_def client_invocation_def split: option.splits)

text \<open>
  With a number of attempts that is not negative and a handler that always returns, the client's invoker
  returns what the last of at most \<open>n + 1\<close> attempts has left. Every earlier attempt failed with a retryable
  error, and the attempt after it started afresh: with the targets of the user, no error and an empty
  response, after the peer that could not be reached was greylisted.
\<close>
theorem client_attempts:
  assumes n: "Attempts (io_Retry opts) = int n"
    and ret: "\<forall>rc w. \<exists>rc' w'. Handle (cx_env ctx) h rc w = Ok (rc', w')"
  shows "\<exists>k \<le> n. \<exists>starts rc' w'. client_run ctx cv h opts rc w = Ok (rc', w')
    \<and> starts 0 = (rc, w) \<and> Handle (cx_env ctx) h (fst (starts k)) (snd (starts k)) = Ok (rc', w')
    \<and> (\<forall>j<k. \<exists>rcj wj e. Handle (cx_env ctx) h (fst (starts j)) (snd (starts j)) = Ok (rcj, wj) \<and> rc_Error rcj = Some e
         \<and> starts (Suc j) = client_beforeRetry ctx opts e (rcj, wj)
         \<and> rc_Error (fst (starts (Suc j))) = None \<and> rc_Response (fst (starts (Suc j))) = emptyResponse
         \<and> io_Targets (rc_Opts (fst (starts (Suc j)))) = io_Targets opts)"
proof -
  let ?wr = "ie_wire (cx_env ctx)" and ?b = "Some (client_beforeRetry ctx opts)" and ?i = "as_invocation (client_invocation ctx h)"
  let ?start = "\<lambda>j. (impl_handler.redo ?b ?i ^^ j) (rc, w)"
  obtain k i' r st' where k: "k \<le> n" "attempt ?b ?i k (rc, w) = (r, st')"
    "Invoke (Required ?wr cv) ?b ?i (retry_New ?wr (io_Retry opts)) (rc, w) = Some (r, i', st')"
    "\<forall>j<k. \<exists>e. fst (attempt ?b ?i j (rc, w)) = Inl e"
    using invoke_returns [OF n, of ?b ?i "(rc, w)" ?wr cv] by blast
  have one: "\<exists>rcj wj. Handle (cx_env ctx) h (fst (?start j)) (snd (?start j)) = Ok (rcj, wj)
      \<and> ?i (?start j) = (case rc_Error rcj of Some e \<Rightarrow> Inl e | None \<Rightarrow> Inr (Ok ()), (rcj, wj))" for j
    using ret client_invocation_as by metis
  obtain rck wk where last: "Handle (cx_env ctx) h (fst (?start k)) (snd (?start k)) = Ok (rck, wk)"
    "(r, st') = (case rc_Error rck of Some e \<Rightarrow> Inl e | None \<Rightarrow> Inr (Ok ()), (rck, wk))"
    using one [of k] k(2) unfolding attempt_def by auto
  have run: "client_run ctx cv h opts rc w = Ok (rck, wk)"
    using k(3) last(2) by (cases "rc_Error rck") (simp_all add: client_run_def)
  have earlier: "\<exists>rcj wj e. Handle (cx_env ctx) h (fst (?start j)) (snd (?start j)) = Ok (rcj, wj) \<and> rc_Error rcj = Some e
         \<and> ?start (Suc j) = client_beforeRetry ctx opts e (rcj, wj)" if j: "j < k" for j
  proof -
    obtain rcj wj where h: "Handle (cx_env ctx) h (fst (?start j)) (snd (?start j)) = Ok (rcj, wj)"
      "?i (?start j) = (case rc_Error rcj of Some e \<Rightarrow> Inl e | None \<Rightarrow> Inr (Ok ()), (rcj, wj))" using one [of j] by blast
    obtain e where "fst (?i (?start j)) = Inl e" using k(4) j unfolding attempt_def by blast
    then have e: "rc_Error rcj = Some e" using h(2) by (cases "rc_Error rcj") auto
    have "?start (Suc j) = impl_handler.redo ?b ?i (?start j)" by simp
    also have "\<dots> = client_beforeRetry ctx opts e (rcj, wj)" using h(2) e by (simp add: impl_handler.redo_def)
    finally show ?thesis using h(1) e by blast
  qed
  have reset: "rc_Error (fst (client_beforeRetry ctx opts e s)) = None \<and> rc_Response (fst (client_beforeRetry ctx opts e s)) = emptyResponse
      \<and> io_Targets (rc_Opts (fst (client_beforeRetry ctx opts e s))) = io_Targets opts" for e s
    by (simp add: client_beforeRetry_def Let_def)
  show ?thesis
    by (rule exI [of _ k], intro conjI k(1), rule exI [of _ ?start], rule exI [of _ rck], rule exI [of _ wk])
      (use run last(1) earlier reset in \<open>metis funpow_0\<close>)
qed

text \<open>A handler that fails on its first call with a retryable error; the world counts the calls.\<close>

definition ex_flaky :: "(nat cworld, int) Handler" where
  "ex_flaky = CustomHandler (\<lambda>rc w. Ok (if snd w = 0
     then rc\<lparr>rc_Error := Some (StatusErr EndorserClientStatus EndorsementMismatch [] [])\<rparr> else rc, (fst w, snd w + 1)))"

theorem client_attempts_witness:
  "\<exists>rc' w'. client_run ex_client ex_dur ex_flaky (emptyOptions\<lparr>io_Retry := DefaultOpts ex_wire 2\<rparr>)
      \<lparr>rc_Request = ex_request, rc_Opts = emptyOptions, rc_Response = emptyResponse, rc_Error = None,
        rc_SelectionFilter = None, rc_PeerSorter = None\<rparr> ex_world = Ok (rc', w')"
proof -
  have a: "Attempts (io_Retry (emptyOptions\<lparr>io_Retry := DefaultOpts ex_wire (2 :: int)\<rparr> :: (nat, int) requestOptions)) = int 3"
    by (simp add: DefaultOpts_def)
  have "\<forall>rc w. \<exists>rc' w'. Handle (cx_env ex_client) ex_flaky rc w = Ok (rc', w')" by (simp add: ex_flaky_def)
  from client_attempts [OF a this] show ?thesis by blast
qed

section \<open>Timeouts\<close>

text \<open>
  The timeout of a request is the one for executing, also for a query: a timeout that the user sets with
  \<open>WithTimeout\<close> for queries has no influence on how long \<open>Query\<close> waits.
\<close>
theorem query_timeout_ignored:
  assumes "apply_options ctx (opts @ [addDefaultTimeout QueryTimeout, addDefaultTargetFilter ChaincodeQuery]) emptyOptions = Inr o1"
    and "apply_options ctx ((opts @ [WithTimeout QueryTimeout t]) @ [addDefaultTimeout QueryTimeout, addDefaultTargetFilter ChaincodeQuery]) emptyOptions = Inr o2"
  shows "snd (createReqContext ctx parent tt o1) = snd (createReqContext ctx parent tt o2)"
proof -
  have app: "apply_options ctx (xs @ ys) o0 = rbind (apply_options ctx xs o0) (apply_options ctx ys)" for xs ys o0
    by (induction xs arbitrary: o0) (simp_all add: rbind_def split: sum.splits)
  obtain o0 where o0: "apply_options ctx opts emptyOptions = Inr o0"
    using assms(1) by (cases "apply_options ctx opts emptyOptions") (simp_all add: app)
  have "timeout_of (io_Timeouts o1) ExecuteTimeout = timeout_of (io_Timeouts o0) ExecuteTimeout"
    "timeout_of (io_Timeouts o2) ExecuteTimeout = timeout_of (io_Timeouts o0) ExecuteTimeout"
    using assms o0 by (auto simp: app addDefaultTimeout_def WithTimeout_def addDefaultTargetFilter_def WithTargetFilter_def
        timeout_of_def split: if_splits)
  then show ?thesis by (auto simp: createReqContext_def Let_def timeout_of_def)
qed

theorem query_timeout_ignored_witness:
  "snd (createReqContext ex_client None ExecuteTimeout (emptyOptions\<lparr>io_Timeouts := [QueryTimeout \<mapsto> 5], io_TargetFilter := Some (\<lambda>p w. (True, w))\<rparr>)) = 30"
proof -
  let ?f = "\<lambda>p w. (cx_EndpointFilter ex_client ChaincodeQuery p, w)"
  have a: "apply_options ex_client ([] @ [addDefaultTimeout QueryTimeout, addDefaultTargetFilter ChaincodeQuery]) emptyOptions
      = Inr (emptyOptions\<lparr>io_Timeouts := [QueryTimeout \<mapsto> 30], io_TargetFilter := Some ?f\<rparr>)"
    "apply_options ex_client (([] @ [WithTimeout QueryTimeout 5]) @ [addDefaultTimeout QueryTimeout, addDefaultTargetFilter ChaincodeQuery]) emptyOptions
      = Inr (emptyOptions\<lparr>io_Timeouts := [QueryTimeout \<mapsto> 5], io_TargetFilter := Some ?f\<rparr>)"
    by (simp_all add: addDefaultTimeout_def WithTimeout_def addDefaultTargetFilter_def WithTargetFilter_def timeout_of_def emptyOptions_def ex_client_def)
  have "snd (createReqContext ex_client None ExecuteTimeout (emptyOptions\<lparr>io_Timeouts := [QueryTimeout \<mapsto> 30], io_TargetFilter := Some ?f\<rparr>)) = 30"
    by (simp add: createReqContext_def request_timeout_def timeout_of_def ex_client_def)
  with query_timeout_ignored [OF a, of None ExecuteTimeout] show ?thesis by (simp add: ex_client_def)
qed

section \<open>Panics\<close>

text \<open>
  When the header of a transaction or its proposal cannot be created, the error does not reach the caller:
  the endorsement handler reads the transaction ID of the missing proposal first and panics.
\<close>
theorem proposal_failure_panics:
  assumes "io_Targets (rc_Opts rc) \<noteq> []"
    and "cl_CreateTransactionHeader (ie_cl env) (case hopts of None \<Rightarrow> [] | Some os \<Rightarrow> os) w = (Inl err, w')
      \<or> (\<exists>th. cl_CreateTransactionHeader (ie_cl env) (case hopts of None \<Rightarrow> [] | Some os \<Rightarrow> os) w = (Inr th, w')
           \<and> rq_Fcn (rc_Request rc) = [])"
  shows "Handle env (EndorsementHandler next hopts) rc w = Panic"
  using assms by (auto simp: EndorsementHandler_Handle_def createAndSendTransactionProposal_def CreateChaincodeInvokeProposal_def)

theorem proposal_failure_panics_witness:
  "Handle (cx_env ex_client) (EndorsementHandler None None) \<lparr>rc_Request = ex_request\<lparr>rq_Fcn := []\<rparr>,
      rc_Opts = emptyOptions\<lparr>io_Targets := ex_peers\<rparr>, rc_Response = emptyResponse, rc_Error = None,
      rc_SelectionFilter = None, rc_PeerSorter = None\<rparr> ex_world = Panic"
  by (rule proposal_failure_panics [where w' = ex_world])
    (auto simp: ex_peers_def ex_client_def ex_cl_def NewHeader_def ex_ctx_def computeTxnID_def)

text \<open>
  When the channel of the status events is closed while the commit handler waits, which stopping the event
  dispatcher does, the handler reads the code of a nil event and panics.
\<close>
theorem closed_notifier_panics:
  assumes "cl_RegisterTxStatusEvent (ie_cl env) (rp_TransactionID (rc_Response rc)) w = (Inr reg, w1)"
    and "createAndSendTransaction env (rp_Proposal (rc_Response rc)) (rp_Responses (rc_Response rc)) w1 = Ok (Inr u, w2)"
    and "cl_AwaitTxStatus (ie_cl env) reg w2 = Ok (NotifierClosed, w3)"
  shows "Handle env (CommitTxHandler next) rc w = Panic"
  using assms by (simp add: CommitTxHandler_Handle_def commit_body_def)

definition ex_stopped_env :: "(nat cworld, int, bytes, bytes) invokeEnv" where
  "ex_stopped_env = (cx_env ex_client)\<lparr>ie_cl := ex_cl\<lparr>cl_CreateTransaction := \<lambda>p rs. Ok (Inr \<lparr>tr_Proposal = p, tr_Transaction = []\<rparr>),
     cl_SendTransaction := \<lambda>t w. Ok ((Some ''o1'', None), w), cl_AwaitTxStatus := \<lambda>reg w. Ok (NotifierClosed, w)\<rparr>\<rparr>"

theorem closed_notifier_panics_witness:
  "Handle ex_stopped_env (CommitTxHandler None) \<lparr>rc_Request = ex_request, rc_Opts = emptyOptions, rc_Response = emptyResponse,
      rc_Error = None, rc_SelectionFilter = None, rc_PeerSorter = None\<rparr> ex_world = Panic"
  by (rule closed_notifier_panics [where reg = 0 and ?w1.0 = "(fst ex_world, 1)" and u = "Some ''o1''" and ?w2.0 = "(fst ex_world, 1)"
        and ?w3.0 = "(fst ex_world, 1)"])
    (simp_all add: ex_stopped_env_def ex_client_def ex_cl_def ex_world_def createAndSendTransaction_def)

end
