(* ===== verification/Event_Service.thy ===== *)
theory Event_Service
  imports Dispatcher
begin

text \<open>
  The event service (pkg/fab/events/service/service.go): its calls are made by any number of
  goroutines and meet the goroutine of the dispatcher at the event channel. A call gets a number
  when it begins; the number also names the registration, its channel and the request, which the
  call has just created. \<open>begin_call\<close> is a call up to the send on the event channel, \<open>send_event\<close> the
  send, \<open>dispatch_one\<close> one turn of the dispatcher's goroutine, \<open>finish_call\<close> the \<open>select\<close> that waits for
  the answer. \<open>svc_step\<close> interleaves them in every order.
\<close>

section \<open>Calls\<close>

datatype call =
  RegisterBlockCall "block_filter list"
| RegisterFilteredBlockCall
| RegisterChaincodeCall string string
| RegisterTxStatusCall string
| UnregisterCall registration
| StopCall
| TransferCall
| StopAndTransferCall
| SubmitCall event

datatype result =
  GotRegistration registration chid
| GotSnapshot snapshot
| GotError "goerr option"
| GotNothing

datatype phase = Sending call event | Waiting call | Returned result

record 'z svc =
  sv_disp :: "'z disp_scheme"
  sv_bufsize :: nat
  sv_queue :: "event list"
  sv_calls :: "nat \<rightharpoonup> phase"
  sv_next :: nat
  sv_panicked :: bool

text \<open>The argument checks of a call and the event that it submits; \<open>n\<close> is the number of the call.\<close>

fun call_event :: "nat \<Rightarrow> call \<Rightarrow> event res" where
  "call_event n (RegisterBlockCall filter') =
    (if length filter' > 1 then Inl (errorNew ''only one block filter may be specified'')
     else Inr (RegisterBlockEvent n \<lparr>breg_ref = n,
        breg_Filter = (if length filter' = 1 then filter' ! 0 else AcceptAny), breg_Eventch = n\<rparr>))"
| "call_event n RegisterFilteredBlockCall = Inr (RegisterFilteredBlockEvent n \<lparr>fbreg_ref = n, fbreg_Eventch = n\<rparr>)"
| "call_event n (RegisterChaincodeCall ccID eventFilter) =
    (if ccID = [] then Inl (errorNew ''chaincode ID is required'')
     else if eventFilter = [] then Inl (errorNew ''event filter is required'')
     else Inr (RegisterChaincodeEvent n \<lparr>ccreg_ref = n, ccreg_ChaincodeID = ccID, ccreg_EventFilter = eventFilter,
        ccreg_EventRegExp = None, ccreg_Eventch = n\<rparr>))"
| "call_event n (RegisterTxStatusCall txID) =
    (if txID = [] then Inl (errorNew ''txID must be provided'')
     else Inr (RegisterTxStatusEvent n \<lparr>txreg_ref = n, txreg_TxID = txID, txreg_Eventch = n\<rparr>))"
| "call_event n (UnregisterCall reg) = Inr (UnregisterEvent reg)"
| "call_event n StopCall = Inr (StopEvent n)"
| "call_event n TransferCall = Inr (TransferEvent n)"
| "call_event n StopAndTransferCall = Inr (StopAndTransferEvent n)"
| "call_event n (SubmitCall e) = Inr e"

text \<open>The result of a call that does not get the event channel.\<close>

definition submit_error :: "goerr \<Rightarrow> goerr" where
  "submit_error err = withMessage err ''Error submitting to event dispatcher''"

fun call_refused :: "call \<Rightarrow> goerr \<Rightarrow> result" where
  "call_refused (RegisterBlockCall _) err = GotError (Some (withMessage (submit_error err) ''error registering for block events''))"
| "call_refused RegisterFilteredBlockCall err =
     GotError (Some (withMessage (submit_error err) ''error registering for filtered block events''))"
| "call_refused (RegisterChaincodeCall _ _) err =
     GotError (Some (withMessage (submit_error err) ''error registering for chaincode events''))"
| "call_refused (RegisterTxStatusCall _) err =
     GotError (Some (withMessage (submit_error err) ''error registering for Tx Status events''))"
| "call_refused (UnregisterCall _) err = GotNothing"
| "call_refused StopCall err = GotNothing"
| "call_refused TransferCall err = GotError (Some err)"
| "call_refused StopAndTransferCall err = GotError (Some err)"
| "call_refused (SubmitCall _) err = GotError (Some (submit_error err))"

text \<open>After the send: \<open>Unregister\<close> and \<open>Submit\<close> do not wait for an answer.\<close>

fun after_send :: "call \<Rightarrow> phase" where
  "after_send (UnregisterCall _) = Returned GotNothing"
| "after_send (SubmitCall _) = Returned (GotError None)"
| "after_send c = Waiting c"

text \<open>The result of the answer that arrives first.\<close>

fun call_result :: "nat \<Rightarrow> call \<Rightarrow> response \<Rightarrow> result" where
  "call_result n StopCall r = GotNothing"
| "call_result n c (RespReg reg) = GotRegistration reg n"
| "call_result n c (RespSnapshot sn) = GotSnapshot sn"
| "call_result n c (RespErr e) = GotError e"
| "call_result n c (RespInfo i) = GotNothing"

text \<open>The result of the calls whose \<open>select\<close> has a timeout.\<close>

fun call_timeout :: "call \<Rightarrow> result option" where
  "call_timeout StopCall = Some GotNothing"
| "call_timeout TransferCall = Some (GotError (Some (errorNew ''timed out waiting to transfer event registrations'')))"
| "call_timeout StopAndTransferCall = Some (GotError (Some (errorNew ''timed out waiting for dispatcher to stop'')))"
| "call_timeout _ = None"

section \<open>Steps\<close>

definition service_New :: "'z disp_scheme \<Rightarrow> params \<Rightarrow> nat \<Rightarrow> 'z svc" where
  "service_New dispatcher params fresh =
    \<lparr>sv_disp = dispatcher, sv_bufsize = eventConsumerBufferSize params, sv_queue = [], sv_calls = Map.empty,
     sv_next = fresh, sv_panicked = False\<rparr>"

text \<open>\<open>make(chan ..., s.eventConsumerBufferSize)\<close>, whose receiver behaves like \<open>rcv\<close>.\<close>

definition make_chan :: "nat \<Rightarrow> receiver \<Rightarrow> evmsg chan" where
  "make_chan n rcv = \<lparr>ch_cap = n, ch_buf = [], ch_got = [], ch_closed = False, ch_recv = rcv\<rparr>"

definition begin_call :: "call \<Rightarrow> receiver \<Rightarrow> 'z svc \<Rightarrow> 'z svc" where
  "begin_call c rcv s =
    (let n = sv_next s;
         h = (chans (sv_disp s))(n := make_chan (sv_bufsize s) rcv);
         s1 = s\<lparr>sv_next := n + 1, sv_disp := (sv_disp s)\<lparr>chans := h\<rparr>\<rparr>
     in s1\<lparr>sv_calls := (sv_calls s)(n \<mapsto> (case call_event n c of
          Inl err \<Rightarrow> Returned (GotError (Some err))
        | Inr e \<Rightarrow> (case EventCh (sv_disp s) of
            Inl err \<Rightarrow> Returned (call_refused c err)
          | Inr _ \<Rightarrow> Sending c e)))\<rparr>)"

text \<open>\<open>eventch <- event\<close> on a buffered channel, which waits while the buffer is full.\<close>

definition send_event :: "nat \<Rightarrow> 'z svc \<Rightarrow> 'z svc option" where
  "send_event n s = (case sv_calls s n of
     Some (Sending c e) \<Rightarrow>
       if length (sv_queue s) < eventConsumerBufferSize (d_params (sv_disp s))
       then Some (s\<lparr>sv_queue := sv_queue s @ [e], sv_calls := (sv_calls s)(n \<mapsto> after_send c)\<rparr>) else None
   | _ \<Rightarrow> None)"

type_synonym 'z turn = "event \<Rightarrow> 'z disp_scheme \<Rightarrow> 'z disp_scheme outcome"

text \<open>A turn that blocks for ever is no step.\<close>

definition take_turn :: "'z turn \<Rightarrow> event \<Rightarrow> 'z svc \<Rightarrow> 'z svc option" where
  "take_turn run e s = (case run e (sv_disp s) of
     Ok ed \<Rightarrow> Some (s\<lparr>sv_disp := ed\<rparr>)
   | Panic \<Rightarrow> Some (s\<lparr>sv_panicked := True\<rparr>)
   | Blocked \<Rightarrow> None)"

definition dispatch_one :: "'z turn \<Rightarrow> 'z svc \<Rightarrow> 'z svc option" where
  "dispatch_one run s = (case sv_queue s of
     [] \<Rightarrow> None
   | e # es \<Rightarrow> if d_state (sv_disp s) = StateStopped \<or> sv_panicked s then None
              else take_turn run e (s\<lparr>sv_queue := es\<rparr>))"

text \<open>A send on an event channel without a buffer is a rendezvous with the dispatcher.\<close>

definition hand_over :: "'z turn \<Rightarrow> nat \<Rightarrow> 'z svc \<Rightarrow> 'z svc option" where
  "hand_over run n s = (case sv_calls s n of
     Some (Sending c e) \<Rightarrow>
       if eventConsumerBufferSize (d_params (sv_disp s)) > 0 \<or> d_state (sv_disp s) = StateStopped \<or> sv_panicked s then None
       else take_turn run e (s\<lparr>sv_calls := (sv_calls s)(n \<mapsto> after_send c)\<rparr>)
   | _ \<Rightarrow> None)"

definition answer_of :: "nat \<Rightarrow> 'z disp_scheme \<Rightarrow> response option" where
  "answer_of n ed = map_option snd (find (\<lambda>p. fst p = n) (resps ed))"

definition finish_call :: "nat \<Rightarrow> 'z svc \<Rightarrow> 'z svc option" where
  "finish_call n s = (case sv_calls s n of
     Some (Waiting c) \<Rightarrow> (case answer_of n (sv_disp s) of
        None \<Rightarrow> None
      | Some r \<Rightarrow> Some (s\<lparr>sv_calls := (sv_calls s)(n \<mapsto> Returned (call_result n c r))\<rparr>))
   | _ \<Rightarrow> None)"

definition time_out :: "nat \<Rightarrow> 'z svc \<Rightarrow> 'z svc option" where
  "time_out n s = (case sv_calls s n of
     Some (Waiting c) \<Rightarrow> (case call_timeout c of
        None \<Rightarrow> None
      | Some r \<Rightarrow> Some (s\<lparr>sv_calls := (sv_calls s)(n \<mapsto> Returned r)\<rparr>))
   | _ \<Rightarrow> None)"

text \<open>
  The runs of the system: \<open>run\<close> is a turn of the dispatcher, which may depend on what its environment
  answers (\<open>'x\<close>), and \<open>allowed\<close> restricts what the goroutines submit.
\<close>

inductive svc_step :: "('x \<Rightarrow> 'z turn) \<Rightarrow> (nat \<Rightarrow> event \<Rightarrow> bool) \<Rightarrow> 'z svc \<Rightarrow> 'z svc \<Rightarrow> bool"
  for run allowed where
  step_begin: "\<forall>e. call_event (sv_next s) c = Inr e \<longrightarrow> allowed (sv_next s) e \<Longrightarrow> svc_step run allowed s (begin_call c rcv s)"
| step_send: "send_event n s = Some s' \<Longrightarrow> svc_step run allowed s s'"
| step_dispatch: "dispatch_one (run x) s = Some s' \<Longrightarrow> svc_step run allowed s s'"
| step_hand_over: "hand_over (run x) n s = Some s' \<Longrightarrow> svc_step run allowed s s'"
| step_finish: "finish_call n s = Some s' \<Longrightarrow> svc_step run allowed s s'"
| step_timeout: "time_out n s = Some s' \<Longrightarrow> svc_step run allowed s s'"

inductive svc_reach :: "('x \<Rightarrow> 'z turn) \<Rightarrow> (nat \<Rightarrow> event \<Rightarrow> bool) \<Rightarrow> 'z svc \<Rightarrow> 'z svc \<Rightarrow> bool"
  for run allowed s0 where
  reach_init: "svc_reach run allowed s0 s0"
| reach_step: "svc_reach run allowed s0 s \<Longrightarrow> svc_step run allowed s s' \<Longrightarrow> svc_reach run allowed s0 s'"

inductive_cases svc_stepE: "svc_step run allowed s s'"

end
