(* ===== verification/Service_Theorems.thy ===== *)
theory Service_Theorems
  imports Event_Service Client_Theorems
begin

text \<open>
  The event service together with its dispatcher: whatever the goroutines that use the service do, and
  in whichever order their calls meet the dispatcher, the dispatcher does not panic, a registration
  belongs to the call that made it, and what happens to calls that race with the stop of the dispatcher.
\<close>

section \<open>A dispatcher behind the service\<close>

text \<open>
  \<open>held\<close> are the channels that the dispatcher may send on or close, \<open>needs e\<close> those that the event \<open>e\<close>
  gives it, and \<open>ok\<close> the events that it can cope with.
\<close>

locale served_dispatcher =
  fixes run :: "'x \<Rightarrow> 'z turn" and inv :: "'z disp_scheme \<Rightarrow> bool" and held :: "'z disp_scheme \<Rightarrow> chid list"
    and needs :: "event \<Rightarrow> chid list" and ok :: "event \<Rightarrow> bool"
  assumes turn: "inv ed \<Longrightarrow> ok e \<Longrightarrow> distinct (needs e) \<Longrightarrow> set (needs e) \<inter> set (held ed) = {}
      \<Longrightarrow> \<forall>c \<in> set (needs e). open_in (chans ed) c
      \<Longrightarrow> wp (run x e ed) (\<lambda>ed'. inv ed' \<and> set (held ed') \<subseteq> set (held ed) \<union> set (needs e)
            \<and> (\<forall>c. c \<notin> set (held ed) \<longrightarrow> chans ed' c = chans ed c))"
    and held_heap: "held (ed\<lparr>chans := h\<rparr>) = held ed"
    and inv_heap: "inv ed \<Longrightarrow> \<forall>c \<in> set (held ed). h c = chans ed c \<Longrightarrow> inv (ed\<lparr>chans := h\<rparr>)"
begin

definition allowed :: "nat \<Rightarrow> event \<Rightarrow> bool" where
  "allowed n e \<longleftrightarrow> ok e \<and> distinct (needs e) \<and> set (needs e) \<subseteq> {n}"

definition queued :: "'z svc \<Rightarrow> chid list" where
  "queued s = concat (map needs (sv_queue s))"

text \<open>The channels of the events still to come are nobody's, and those of different calls are different.\<close>

definition send_ok :: "'z svc \<Rightarrow> nat \<Rightarrow> event \<Rightarrow> bool" where
  "send_ok s n e \<longleftrightarrow> allowed n e
     \<and> (needs e \<noteq> [] \<longrightarrow> n \<notin> set (held (sv_disp s)) \<and> n \<notin> set (queued s) \<and> open_in (chans (sv_disp s)) n)"

definition queue_ok :: "'z svc \<Rightarrow> bool" where
  "queue_ok s \<longleftrightarrow> inv (sv_disp s) \<and> \<not> sv_panicked s \<and> list_all (\<lambda>e. ok e \<and> distinct (needs e)) (sv_queue s)
     \<and> (\<forall>c \<in> set (held (sv_disp s)). c < sv_next s) \<and> dom (sv_calls s) \<subseteq> {..<sv_next s} \<and> distinct (queued s)
     \<and> (\<forall>c \<in> set (queued s). c \<notin> set (held (sv_disp s)) \<and> open_in (chans (sv_disp s)) c \<and> c < sv_next s)"

definition svc_inv :: "'z svc \<Rightarrow> bool" where
  "svc_inv s \<longleftrightarrow> queue_ok s \<and> (\<forall>n c e. sv_calls s n = Some (Sending c e) \<longrightarrow> send_ok s n e)"

lemma needs_single: "allowed n e \<Longrightarrow> needs e \<noteq> [] \<Longrightarrow> needs e = [n]"
  by (cases "needs e"; cases "tl (needs e)") (auto simp: allowed_def)

lemma after_send_not_Sending [simp]: "after_send c \<noteq> Sending c' e"
  by (cases c) simp_all

lemma queued_frames [simp]:
  "queued (s\<lparr>sv_disp := ed\<rparr>) = queued s" "queued (s\<lparr>sv_calls := cs\<rparr>) = queued s"
  by (simp_all add: queued_def)

lemma begin_inv:
  assumes "svc_inv s" "\<forall>e. call_event (sv_next s) c = Inr e \<longrightarrow> allowed (sv_next s) e"
  shows "svc_inv (begin_call c rcv s)"
proof -
  let ?n = "sv_next s" and ?s = "begin_call c rcv s"
  let ?h = "(chans (sv_disp s))(?n := make_chan (sv_bufsize s) rcv)"
  have d: "sv_disp ?s = (sv_disp s)\<lparr>chans := ?h\<rparr>" "sv_queue ?s = sv_queue s" "sv_next ?s = ?n + 1"
    "sv_panicked ?s = sv_panicked s" "queued ?s = queued s"
    by (simp_all add: begin_call_def Let_def queued_def)
  have old: "sv_calls ?s m = sv_calls s m" if "m \<noteq> ?n" for m
    using that by (simp add: begin_call_def Let_def)
  have new: "allowed ?n e" if "sv_calls ?s ?n = Some (Sending c' e)" for c' e
    using that assms(2) by (auto simp: begin_call_def Let_def split: sum.splits)
  have n: "?n \<notin> set (held (sv_disp s))" "?n \<notin> set (queued s)" "?n \<notin> dom (sv_calls s)"
    using assms(1) by (auto simp: svc_inv_def queue_ok_def)
  have o: "open_in ?h ?n" "open_in ?h m = open_in (chans (sv_disp s)) m" if "m \<noteq> ?n" for m
    using that by (simp_all add: open_in_def make_chan_def)
  have "inv (sv_disp ?s)"
    unfolding d using assms(1) n by (intro inv_heap) (auto simp: svc_inv_def queue_ok_def)
  moreover have "dom (sv_calls ?s) \<subseteq> {..<?n + 1}"
    using assms(1) by (auto simp: begin_call_def Let_def svc_inv_def queue_ok_def less_Suc_eq)
  moreover have "open_in ?h c" if "c \<in> set (queued s)" for c
    using that assms(1) n o(2) by (cases "c = ?n") (auto simp: svc_inv_def queue_ok_def)
  ultimately have "queue_ok ?s"
    using assms(1) n unfolding svc_inv_def queue_ok_def d held_heap by (auto simp: less_Suc_eq)
  moreover have "send_ok ?s m e" if "sv_calls ?s m = Some (Sending c' e)" for m c' e
  proof (cases "m = ?n")
    case True
    then show ?thesis using n new that by (simp add: send_ok_def d held_heap open_in_def make_chan_def)
  next
    case False
    then have "send_ok s m e" using that old assms(1) by (auto simp: svc_inv_def)
    then show ?thesis using False by (simp add: send_ok_def d held_heap open_in_def)
  qed
  ultimately show ?thesis by (simp add: svc_inv_def)
qed

text \<open>An event that a call puts anywhere into the queue.\<close>

lemma enqueue_inv:
  assumes "svc_inv s" "sv_calls s n = Some (Sending c e)" "sv_queue s = xs @ ys"
  shows "svc_inv (s\<lparr>sv_queue := xs @ e # ys, sv_calls := (sv_calls s)(n \<mapsto> after_send c)\<rparr>)" (is "svc_inv ?s")
proof -
  have e: "send_ok s n e" and "queue_ok s" and "n \<in> dom (sv_calls s)"
    using assms by (auto simp: svc_inv_def)
  then have n: "n < sv_next s" by (auto simp: queue_ok_def)
  have q: "set (queued ?s) = set (queued s) \<union> set (needs e)" "queued s = concat (map needs xs) @ concat (map needs ys)"
    "queued ?s = concat (map needs xs) @ needs e @ concat (map needs ys)"
    using assms(3) by (auto simp: queued_def)
  have ne: "needs e = [] \<or> needs e = [n]" using e needs_single by (auto simp: send_ok_def)
  then have "distinct (queued ?s)"
    using e \<open>queue_ok s\<close> q(2,3) by (auto simp: send_ok_def queue_ok_def)
  moreover have "c' \<notin> set (held (sv_disp s)) \<and> open_in (chans (sv_disp s)) c' \<and> c' < sv_next s"
    if "c' \<in> set (queued ?s)" for c'
    using that e n ne \<open>queue_ok s\<close> unfolding q(1) by (auto simp: send_ok_def queue_ok_def)
  ultimately have "queue_ok ?s"
    using \<open>queue_ok s\<close> e n assms(3) by (auto simp: queue_ok_def send_ok_def allowed_def)
  moreover have "send_ok ?s m e'" if "sv_calls ?s m = Some (Sending c' e')" for m c' e'
  proof -
    have "m \<noteq> n" "sv_calls s m = Some (Sending c' e')" using that by (auto split: if_splits)
    then have "send_ok s m e'" "m \<notin> set (needs e)" using assms(1) ne by (auto simp: svc_inv_def)
    then show ?thesis unfolding send_ok_def q(1) by auto
  qed
  ultimately show ?thesis by (simp add: svc_inv_def)
qed

text \<open>A turn of the dispatcher on the event at the head of the queue.\<close>

lemma take_turn_inv:
  assumes "svc_inv (s\<lparr>sv_queue := e # sv_queue s\<rparr>)" "take_turn (run x) e s = Some s'"
  shows "svc_inv s'"
proof -
  let ?t = "s\<lparr>sv_queue := e # sv_queue s\<rparr>"
  have q: "queue_ok ?t" "queued ?t = needs e @ queued s" using assms(1) by (simp_all add: svc_inv_def queued_def)
  then have "inv (sv_disp s)" "ok e" "distinct (needs e)" "set (needs e) \<inter> set (held (sv_disp s)) = {}"
    "\<forall>c \<in> set (needs e). open_in (chans (sv_disp s)) c" by (auto simp: queue_ok_def)
  note w = turn [OF this, of x]
  then obtain ed' where r: "run x e (sv_disp s) = Ok ed'" "s' = s\<lparr>sv_disp := ed'\<rparr>"
    using assms(2) by (cases "run x e (sv_disp s)") (auto simp: take_turn_def)
  have st: "inv ed'" "set (held ed') \<subseteq> set (held (sv_disp s)) \<union> set (needs e)"
    "\<And>c. c \<notin> set (held (sv_disp s)) \<Longrightarrow> chans ed' c = chans (sv_disp s) c"
    using w r(1) by auto
  have "queued s' = queued s" using r by (simp add: queued_def)
  moreover have "queue_ok s'"
    using q st by (auto simp: queue_ok_def r open_in_def)
  moreover have "send_ok s' m e'" if "sv_calls s' m = Some (Sending c' e')" for m c' e'
  proof -
    have "send_ok ?t m e'" using that assms(1) r by (auto simp: svc_inv_def)
    then show ?thesis using st(2,3) unfolding send_ok_def q(2) calculation(1) by (auto simp: r open_in_def)
  qed
  ultimately show ?thesis by (simp add: svc_inv_def)
qed

lemma return_inv:
  assumes "svc_inv s" "n \<in> dom (sv_calls s)"
  shows "svc_inv (s\<lparr>sv_calls := (sv_calls s)(n \<mapsto> Returned r)\<rparr>)"
  using assms by (auto simp: svc_inv_def queue_ok_def send_ok_def queued_def)

lemma step_inv:
  assumes "svc_step run allowed s s'" "svc_inv s"
  shows "svc_inv s'"
  using assms(1)
proof cases
  case (step_begin c rcv)
  then show ?thesis using begin_inv assms(2) by auto
next
  case (step_send n)
  then obtain c e where "sv_calls s n = Some (Sending c e)"
    "s' = s\<lparr>sv_queue := sv_queue s @ [e], sv_calls := (sv_calls s)(n \<mapsto> after_send c)\<rparr>"
    by (auto simp: send_event_def split: option.splits phase.splits if_splits)
  then show ?thesis using enqueue_inv [OF assms(2), of n c e "sv_queue s" "[]"] by simp
next
  case (step_dispatch x)
  then obtain e es where q: "sv_queue s = e # es" "take_turn (run x) e (s\<lparr>sv_queue := es\<rparr>) = Some s'"
    by (auto simp: dispatch_one_def split: list.splits if_splits)
  then have "s\<lparr>sv_queue := es, sv_queue := e # es\<rparr> = s" by simp
  then show ?thesis using take_turn_inv [OF _ q(2)] assms(2) by simp
next
  case (step_hand_over x n)
  then obtain c e where "sv_calls s n = Some (Sending c e)"
    "take_turn (run x) e (s\<lparr>sv_calls := (sv_calls s)(n \<mapsto> after_send c)\<rparr>) = Some s'"
    by (auto simp: hand_over_def split: option.splits phase.splits if_splits)
  moreover have "svc_inv (s\<lparr>sv_calls := (sv_calls s)(n \<mapsto> after_send c),
      sv_queue := e # sv_queue (s\<lparr>sv_calls := (sv_calls s)(n \<mapsto> after_send c)\<rparr>)\<rparr>)"
    using enqueue_inv [OF assms(2) calculation(1), of "[]" "sv_queue s"] by (cases s) simp
  ultimately show ?thesis using take_turn_inv by blast
next
  case (step_finish n)
  then show ?thesis
    using return_inv [OF assms(2)] by (auto simp: finish_call_def split: option.splits phase.splits)
next
  case (step_timeout n)
  then show ?thesis
    using return_inv [OF assms(2)] by (auto simp: time_out_def split: option.splits phase.splits)
qed

lemma reach_inv: "svc_reach run allowed s0 s \<Longrightarrow> svc_inv s0 \<Longrightarrow> svc_inv s"
  by (induction rule: svc_reach.induct) (auto intro: step_inv)

lemma init_inv:
  assumes "inv ed" "\<forall>c \<in> set (held ed). c < fresh"
  shows "svc_inv (service_New ed p fresh)"
  using assms by (simp add: svc_inv_def queue_ok_def queued_def service_New_def)

end

section \<open>The dispatchers of the repository\<close>

lemma disp_inv_heap:
  assumes "disp_inv cd ed" "\<forall>c \<in> set (reg_chans ed). h c = chans ed c"
  shows "disp_inv cd (ed\<lparr>chans := h\<rparr>)"
  using assms by (auto simp: disp_inv_def open_in_def regexps_compiled_def)

interpretation base_service: served_dispatcher "\<lambda>_ :: unit. dispatch (run_handler rt)"
  "\<lambda>ed. disp_inv (rt_codec rt) ed \<and> handlers_base ed" reg_chans new_chans "event_ok (rt_codec rt)" for rt
proof
  fix ed :: "'a disp_scheme" and e and x :: unit
  assume a: "disp_inv (rt_codec rt) ed \<and> handlers_base ed" "event_ok (rt_codec rt) e" "distinct (new_chans e)"
    "set (new_chans e) \<inter> set (reg_chans ed) = {}" "\<forall>c \<in> set (new_chans e). open_in (chans ed) c"
  then have "wp (dispatch (run_handler rt) e ed) (step_ok (rt_codec rt) (new_chans e) ed)"
    by (intro dispatch_step) (auto simp: fresh_chans_def)
  then show "wp (dispatch (run_handler rt) e ed) (\<lambda>ed'. (disp_inv (rt_codec rt) ed' \<and> handlers_base ed')
      \<and> set (reg_chans ed') \<subseteq> set (reg_chans ed) \<union> set (new_chans e)
      \<and> (\<forall>c. c \<notin> set (reg_chans ed) \<longrightarrow> chans ed' c = chans ed c))"
    by (rule wp_mono) (use a in \<open>auto simp: step_ok_def handlers_base_def\<close>)
qed (auto intro: disp_inv_heap simp: handlers_base_def)

lemma all_chans_heap [simp]: "all_chans (ed\<lparr>chans := h\<rparr>) = all_chans ed"
  by (simp add: all_chans_def cchan_def)

lemma cd_inv_heap:
  assumes "cd_inv cd ed" "\<forall>c \<in> set (all_chans ed). h c = chans ed c"
  shows "cd_inv cd (ed\<lparr>chans := h\<rparr>)"
  using assms disp_inv_heap [of cd ed h]
  by (auto simp: cd_inv_def all_chans_def creg_ok_def cchan_def monitor_ok_def conns_ok_def open_in_def)

interpretation deliver_service: served_dispatcher "\<lambda>env. dispatch (run_deliver rt env)"
  "\<lambda>ed. cd_inv (rt_codec rt) ed \<and> handlers_deliver ed" all_chans cnew_chans "cevent_ok (rt_codec rt)" for rt
proof
  fix ed e env
  assume a: "cd_inv (rt_codec rt) ed \<and> handlers_deliver ed" "cevent_ok (rt_codec rt) e" "distinct (cnew_chans e)"
    "set (cnew_chans e) \<inter> set (all_chans ed) = {}" "\<forall>c \<in> set (cnew_chans e). open_in (chans ed) c"
  then have "wp (dispatch (run_deliver rt env) e ed) (cstep_ok (rt_codec rt) (cnew_chans e) ed)"
    by (intro dispatch_deliver_step) (auto simp: cfresh_def)
  then show "wp (dispatch (run_deliver rt env) e ed) (\<lambda>ed'. (cd_inv (rt_codec rt) ed' \<and> handlers_deliver ed')
      \<and> set (all_chans ed') \<subseteq> set (all_chans ed) \<union> set (cnew_chans e)
      \<and> (\<forall>c. c \<notin> set (all_chans ed) \<longrightarrow> chans ed' c = chans ed c))"
    by (rule wp_mono) (use a in \<open>auto simp: cstep_ok_def handlers_deliver_def\<close>)
qed (auto intro: cd_inv_heap simp: handlers_deliver_def)

section \<open>What the goroutines may submit\<close>

text \<open>The number of the request that an event answers.\<close>

fun rq_of :: "event \<Rightarrow> rq option" where
  "rq_of (RegisterChaincodeEvent rq _) = Some rq"
| "rq_of (RegisterTxStatusEvent rq _) = Some rq"
| "rq_of (RegisterBlockEvent rq _) = Some rq"
| "rq_of (RegisterFilteredBlockEvent rq _) = Some rq"
| "rq_of (StopEvent rq) = Some rq"
| "rq_of (TransferEvent rq) = Some rq"
| "rq_of (StopAndTransferEvent rq) = Some rq"
| "rq_of (RegistrationInfoEvent rq) = Some rq"
| "rq_of _ = None"

fun reg_own :: "nat \<Rightarrow> registration \<Rightarrow> bool" where
  "reg_own n (RBlock r) \<longleftrightarrow> breg_ref r = n \<and> breg_Eventch r = n"
| "reg_own n (RFiltered r) \<longleftrightarrow> fbreg_ref r = n \<and> fbreg_Eventch r = n"
| "reg_own n (RCC r) \<longleftrightarrow> ccreg_ref r = n \<and> ccreg_Eventch r = n"
| "reg_own n (RTx r) \<longleftrightarrow> txreg_ref r = n \<and> txreg_Eventch r = n"
| "reg_own n _ \<longleftrightarrow> False"

text \<open>The event is about the request, and makes the registration, of the call \<open>n\<close>.\<close>

fun own :: "nat \<Rightarrow> event \<Rightarrow> bool" where
  "own n (RegisterChaincodeEvent rq r) \<longleftrightarrow> rq = n \<and> reg_own n (RCC r)"
| "own n (RegisterTxStatusEvent rq r) \<longleftrightarrow> rq = n \<and> reg_own n (RTx r)"
| "own n (RegisterBlockEvent rq r) \<longleftrightarrow> rq = n \<and> reg_own n (RBlock r)"
| "own n (RegisterFilteredBlockEvent rq r) \<longleftrightarrow> rq = n \<and> reg_own n (RFiltered r)"
| "own n e \<longleftrightarrow> rq_of e \<in> {None, Some n}"

definition may_submit :: "codec \<Rightarrow> nat \<Rightarrow> event \<Rightarrow> bool" where
  "may_submit cd n e \<longleftrightarrow> event_ok cd e \<and> own n e"

text \<open>The calls other than \<open>Submit\<close> and block registrations with a filter submit such events.\<close>

lemma call_own: "call_event n c = Inr e \<Longrightarrow> (\<And>e'. c \<noteq> SubmitCall e') \<Longrightarrow> own n e"
  by (cases c) (auto split: if_splits)

lemma own_allowed: "own n e \<Longrightarrow> distinct (new_chans e) \<and> set (new_chans e) \<subseteq> {n}"
  by (cases e) auto

lemma may_submit_allowed: "may_submit (rt_codec rt) n e \<Longrightarrow> base_service.allowed rt n e"
  using own_allowed [of n e] by (simp add: may_submit_def base_service.allowed_def)

lemma svc_reach_mono:
  assumes "svc_reach run w s0 s" "\<And>n e. w n e \<Longrightarrow> w' n e"
  shows "svc_reach run w' s0 s"
  using assms(1)
proof (induction rule: svc_reach.induct)
  case (reach_step s s')
  have "svc_step run w' s s'"
    using reach_step.hyps(2) by cases (auto intro: svc_step.intros assms(2))
  with reach_step.IH show ?case by (rule svc_reach.reach_step)
qed (rule svc_reach.reach_init)

end
