(* ===== verification/Service_Answers.thy ===== *)
theory Service_Answers
  imports Service_Theorems Dispatcher_Theorems
begin

text \<open>
  What the dispatcher answers and to whom: every request once, and a registration only to the call that made
  it. \<open>ans_inv\<close> relates the phases of the calls to the queue and the answers, along all interleavings.
\<close>

section \<open>What the dispatcher answers\<close>

text \<open>A part of a handler that answers nothing and does not stop the dispatcher.\<close>

definition mute :: "'z disp_scheme \<Rightarrow> 'z disp_scheme \<Rightarrow> bool" where
  "mute ed ed' \<longleftrightarrow> resps ed' = resps ed \<and> d_state ed' = d_state ed"

lemma mute_refl [simp]: "mute ed ed"
  by (simp add: mute_def)

lemma mute_trans: "mute a b \<Longrightarrow> mute b c \<Longrightarrow> mute a c"
  by (simp add: mute_def)

lemma ofold_mute:
  assumes "\<And>x s s'. f x s = Ok s' \<Longrightarrow> mute s s'" "ofold f xs s = Ok s'"
  shows "mute s s'"
  using assms(2)
proof (induction xs arbitrary: s)
  case (Cons x xs)
  then show ?case by (auto simp: obind_eq_Ok intro: mute_trans [OF assms(1)])
qed simp

lemma publish_mute: "publish m c ed = Ok ed' \<Longrightarrow> mute ed ed'"
  by (auto simp: publish_def obind_eq_Ok mute_def)

lemma publishBlockEvents_mute: "publishBlockEvents b url ed = Ok ed' \<Longrightarrow> mute ed ed'"
  unfolding publishBlockEvents_def
  by (erule ofold_mute [rotated]) (auto simp: obind_eq_Ok split: if_splits dest: publish_mute)

lemma publishCCEvents_mute: "publishCCEvents ev n url ed = Ok ed' \<Longrightarrow> mute ed ed'"
  unfolding publishCCEvents_def
  by (erule ofold_mute [rotated]) (auto split: if_splits option.splits dest: publish_mute)

lemma publishTx_mute:
  assumes "publishTx n url tx ed = Ok ed'"
  shows "mute ed ed'"
proof -
  have acts: "ofold (\<lambda>a ed''. case a of None \<Rightarrow> Ok ed'' | Some ev \<Rightarrow> publishCCEvents ev n url ed'') acts s = Ok s' \<Longrightarrow> mute s s'"
    for acts s s'
    by (erule ofold_mute [rotated]) (auto split: option.splits dest: publishCCEvents_mute)
  obtain ed1 where 1: "publishTxStatusEvents tx n url ed = Ok ed1" "mute ed1 ed'"
    using assms by (auto simp: publishTx_def obind_eq_Ok split: if_splits option.splits dest!: acts)
  then have "mute ed ed1" by (auto simp: publishTxStatusEvents_def split: option.splits dest: publish_mute)
  with 1(2) show ?thesis by (rule mute_trans [rotated])
qed

lemma publishFilteredBlockEvents_mute:
  assumes "publishFilteredBlockEvents (Some fb) url ed = Ok ed'"
  shows "mute ed ed'"
proof -
  obtain ed1 where 1: "checkFilteredBlockRegistrations fb url ed = Ok ed1"
    "ofold (publishTx (fb_Number fb) url) (fb_Txs fb) ed1 = Ok ed'"
    using assms by (auto simp: publishFilteredBlockEvents_def obind_eq_Ok)
  have "mute ed ed1"
    using 1(1) unfolding checkFilteredBlockRegistrations_def by (rule ofold_mute [rotated]) (rule publish_mute)
  moreover have "mute ed1 ed'" using 1(2) by (rule ofold_mute [rotated]) (rule publishTx_mute)
  ultimately show ?thesis by (rule mute_trans)
qed

lemma updateLastBlockNum_mute: "updateLastBlockNum n ed = (e, ed') \<Longrightarrow> mute ed ed'"
  by (auto simp: updateLastBlockNum_def mute_def split: if_splits)

lemma mute_infoOnly [simp]: "mute ed (ed'\<lparr>updateLastBlockInfoOnly := b\<rparr>) = mute ed ed'"
  by (simp add: mute_def)

lemma HandleFilteredBlock_mute: "HandleFilteredBlock fb url ed = Ok ed' \<Longrightarrow> mute ed ed'"
  by (auto simp: HandleFilteredBlock_def split: prod.splits option.splits if_splits
      dest!: updateLastBlockNum_mute publishFilteredBlockEvents_mute intro: mute_trans)

lemma HandleBlock_mute: "HandleBlock rt b url ed = Ok ed' \<Longrightarrow> mute ed ed'"
  by (auto simp: HandleBlock_def obind_eq_Ok split: prod.splits option.splits if_splits
      dest!: updateLastBlockNum_mute publishFilteredBlockEvents_mute publishBlockEvents_mute intro: mute_trans)

lemma unregister_mute:
  "unregisterBlockEvents r1 ed = Ok (err, ed') \<Longrightarrow> mute ed ed'"
  "unregisterFilteredBlockEvents r2 ed = Ok (err, ed') \<Longrightarrow> mute ed ed'"
  "unregisterCCEvents r3 ed = Ok (err, ed') \<Longrightarrow> mute ed ed'"
  "unregisterTXEvents r4 ed = Ok (err, ed') \<Longrightarrow> mute ed ed'"
  by (auto simp: unregisterBlockEvents_def unregisterFilteredBlockEvents_def unregisterCCEvents_def
      unregisterTXEvents_def closeCh_def obind_eq_Ok Let_def mute_def split: option.splits)

lemma clear_mute: "clearRegistrations b ed = Ok ed' \<Longrightarrow> mute ed ed'"
  by (cases b) (auto simp: clearRegistrations_True_eq clearRegistrations_False obind_eq_Ok mute_def no_regs_def)

lemma register_mute:
  "registerCCEvent r3 ed = (err, ed') \<Longrightarrow> mute ed ed'"
  "registerTxStatusEvent r4 ed = (err, ed') \<Longrightarrow> mute ed ed'"
  by (auto simp: registerCCEvent_def registerTxStatusEvent_def Let_def mute_def split: if_splits)

fun stops :: "event \<Rightarrow> bool" where
  "stops (StopEvent _) \<longleftrightarrow> True"
| "stops (StopAndTransferEvent _) \<longleftrightarrow> True"
| "stops _ \<longleftrightarrow> False"

text \<open>An event that is a request is answered once, to the one who asked, the others not at all.\<close>

definition answers :: "event \<Rightarrow> 'z disp_scheme \<Rightarrow> 'z disp_scheme \<Rightarrow> bool" where
  "answers e ed ed' \<longleftrightarrow> (case rq_of e of
     None \<Rightarrow> resps ed' = resps ed
   | Some q \<Rightarrow> \<exists>r. resps ed' = resps ed @ [(q, r)] \<and> (\<forall>n reg. r = RespReg reg \<and> own n e \<longrightarrow> reg_own n reg))
   \<and> (\<not> stops e \<longrightarrow> d_state ed' = d_state ed)"

lemma run_handler_answers:
  assumes "run_handler rt h e ed = Ok ed'" "base_type h = Some (TypeOf e)"
  shows "answers e ed ed'"
proof (cases e)
  case (RegisterChaincodeEvent rq r)
  with assms show ?thesis
    by (cases h) (auto simp: run_handler_def handleRegisterCCEvent_def answers_def reply_def Let_def mute_def
        dest!: register_mute split: sum.splits prod.splits option.splits)
next
  case (RegisterTxStatusEvent rq r)
  with assms show ?thesis
    by (cases h) (auto simp: run_handler_def handleRegisterTxStatusEvent_def answers_def reply_def mute_def
        dest!: register_mute split: prod.splits option.splits)
next
  case (UnregisterEvent reg)
  with assms show ?thesis
    by (cases h; cases reg) (auto simp: run_handler_def handleUnregisterEvent_def answers_def obind_eq_Ok mute_def
        dest!: unregister_mute)
next
  case (BlockEvent b url)
  with assms show ?thesis
    by (cases h) (auto simp: run_handler_def handleBlockEvent_def answers_def mute_def dest!: HandleBlock_mute)
next
  case (FilteredBlockEvent fb url)
  with assms show ?thesis
    by (cases h) (auto simp: run_handler_def handleFilteredBlockEvent_def answers_def mute_def dest!: HandleFilteredBlock_mute)
qed (use assms in \<open>cases h; auto simp: run_handler_def handleRegisterBlockEvent_def handleRegisterFilteredBlockEvent_def
    registerBlockEvent_def registerFilteredBlockEvent_def HandleStopEvent_def HandleTransferEvent_def
    HandleStopAndTransferEvent_def handleRegistrationInfoEvent_def setState_def reply_def answers_def Let_def
    obind_eq_Ok mute_def dest!: clear_mute split: if_splits\<close>)+

text \<open>A dispatcher on which all the handlers of \<open>RegisterHandlers\<close> are registered.\<close>

definition serves :: "'z disp_scheme \<Rightarrow> bool" where
  "serves ed \<longleftrightarrow> handlers_base ed \<and> (\<forall>h t. base_type h = Some t \<longrightarrow> handlers ed t \<noteq> None)"

lemma rq_of_type: "rq_of e \<noteq> None \<Longrightarrow> \<exists>h. base_type h = Some (TypeOf e)"
  by (cases e) (auto intro: exI [of _ H_registerCC] exI [of _ H_registerTxStatus] exI [of _ H_registerBlock]
      exI [of _ H_registerFilteredBlock] exI [of _ H_stop] exI [of _ H_transfer] exI [of _ H_stopAndTransfer]
      exI [of _ H_registrationInfo])

lemma dispatch_answers:
  assumes "dispatch (run_handler rt) e ed = Ok ed'" "serves ed"
  shows "answers e ed ed'"
proof (cases "handlers ed (TypeOf e)")
  case None
  then have "rq_of e = None" using assms(2) rq_of_type [of e] unfolding serves_def by metis
  then show ?thesis using assms(1) None by (simp add: dispatch_def answers_def)
next
  case (Some h)
  then have "base_type h = Some (TypeOf e)" using assms(2) by (auto simp: serves_def handlers_base_def)
  then show ?thesis using assms(1) Some by (auto simp: dispatch_def intro: run_handler_answers)
qed

lemma turn_answers:
  assumes "base_service.svc_inv rt (s\<lparr>sv_queue := e # sv_queue s\<rparr>)" "serves (sv_disp s)"
    and "take_turn (dispatch (run_handler rt)) e s = Some s'"
  obtains ed' where "s' = s\<lparr>sv_disp := ed'\<rparr>" "answers e (sv_disp s) ed'" "serves ed'" "d_params ed' = d_params (sv_disp s)"
proof -
  let ?ed = "sv_disp s"
  have q: "disp_inv (rt_codec rt) ?ed" "handlers_base ?ed" "event_ok (rt_codec rt) e" "fresh_chans (new_chans e) ?ed"
    using assms(1) by (auto simp: base_service.svc_inv_def base_service.queue_ok_def base_service.queued_def fresh_chans_def)
  note w = dispatch_step [OF q(1,2,4,3)]
  then obtain ed' where r: "dispatch (run_handler rt) e ?ed = Ok ed'"
    using assms(3) by (cases "dispatch (run_handler rt) e ?ed") (auto simp: take_turn_def base_service.svc_inv_def)
  then have "step_ok (rt_codec rt) (new_chans e) ?ed ed'" using w by simp
  moreover have "s' = s\<lparr>sv_disp := ed'\<rparr>" using assms(3) r by (simp add: take_turn_def)
  ultimately show ?thesis
    using that [of ed'] dispatch_answers [OF r assms(2)] assms(2)
    by (simp add: step_ok_def serves_def handlers_base_def)
qed

section \<open>Requests and answers\<close>

definition rqs :: "'z svc \<Rightarrow> nat list" where
  "rqs s = List.map_filter rq_of (sv_queue s)"

definition answered :: "'z svc \<Rightarrow> nat list" where
  "answered s = map fst (resps (sv_disp s))"

text \<open>What is known of a call in each of its phases.\<close>

fun phase_ok :: "'z svc \<Rightarrow> nat \<Rightarrow> phase \<Rightarrow> bool" where
  "phase_ok s n (Sending c e) \<longleftrightarrow> call_event n c = Inr e \<and> own n e \<and> n \<notin> set (answered s) \<union> set (rqs s)"
| "phase_ok s n (Waiting c) \<longleftrightarrow> n \<in> set (answered s) \<union> set (rqs s)"
| "phase_ok s n (Returned (GotRegistration reg ch)) \<longleftrightarrow> ch = n \<and> reg_own n reg \<and> n \<in> set (answered s)"
| "phase_ok s n (Returned _) \<longleftrightarrow> True"

definition ans_inv :: "'z svc \<Rightarrow> bool" where
  "ans_inv s \<longleftrightarrow> serves (sv_disp s) \<and> distinct (answered s @ rqs s)
     \<and> (\<forall>n \<in> set (answered s @ rqs s). n < sv_next s)
     \<and> (\<forall>n reg. (n, RespReg reg) \<in> set (resps (sv_disp s)) \<longrightarrow> reg_own n reg)
     \<and> (\<forall>e \<in> set (sv_queue s). \<exists>n. own n e)
     \<and> (\<forall>n ph. sv_calls s n = Some ph \<longrightarrow> n < sv_next s \<and> phase_ok s n ph)"

lemma phase_ok_mono:
  assumes "phase_ok s n ph" "set (answered s) \<subseteq> set (answered t)"
    and "set (answered s) \<union> set (rqs s) \<subseteq> set (answered t) \<union> set (rqs t)"
    and "\<And>c e. ph = Sending c e \<Longrightarrow> n \<notin> set (answered t) \<union> set (rqs t)"
  shows "phase_ok t n ph"
  using assms by (cases "(s, n, ph)" rule: phase_ok.cases) auto

lemma rqs_frames [simp]:
  "rqs (s\<lparr>sv_disp := ed\<rparr>) = rqs s" "rqs (s\<lparr>sv_calls := cs\<rparr>) = rqs s" "answered (s\<lparr>sv_calls := cs\<rparr>) = answered s"
  "answered (s\<lparr>sv_queue := q\<rparr>) = answered s" "answered (s\<lparr>sv_disp := (sv_disp s)\<lparr>chans := h\<rparr>\<rparr>) = answered s"
  by (simp_all add: rqs_def answered_def)

lemma begin_frame:
  "sv_queue (begin_call c rcv s) = sv_queue s" "sv_next (begin_call c rcv s) = sv_next s + 1"
  "\<exists>h. sv_disp (begin_call c rcv s) = (sv_disp s)\<lparr>chans := h\<rparr>"
  "m \<noteq> sv_next s \<Longrightarrow> sv_calls (begin_call c rcv s) m = sv_calls s m"
  "\<exists>ph. sv_calls (begin_call c rcv s) (sv_next s) = Some ph
     \<and> (case ph of Sending c' e \<Rightarrow> c' = c \<and> call_event (sv_next s) c = Inr e
        | Waiting _ \<Rightarrow> False | Returned (GotRegistration _ _) \<Rightarrow> False | _ \<Rightarrow> True)"
proof -
  have "case call_refused c err of GotRegistration _ _ \<Rightarrow> False | _ \<Rightarrow> True" for err
    by (cases c) simp_all
  then show "\<exists>ph. sv_calls (begin_call c rcv s) (sv_next s) = Some ph
     \<and> (case ph of Sending c' e \<Rightarrow> c' = c \<and> call_event (sv_next s) c = Inr e
        | Waiting _ \<Rightarrow> False | Returned (GotRegistration _ _) \<Rightarrow> False | _ \<Rightarrow> True)"
    by (auto simp: begin_call_def Let_def split: sum.splits result.splits)
qed (auto simp: begin_call_def Let_def)

lemma begin_ans:
  assumes "ans_inv s" "\<forall>e. call_event (sv_next s) c = Inr e \<longrightarrow> own (sv_next s) e"
  shows "ans_inv (begin_call c rcv s)"
proof -
  let ?s = "begin_call c rcv s" and ?n = "sv_next s"
  obtain h where h: "sv_disp ?s = (sv_disp s)\<lparr>chans := h\<rparr>" using begin_frame(3) by blast
  have a: "answered ?s = answered s" "rqs ?s = rqs s" "serves (sv_disp ?s) = serves (sv_disp s)"
    by (simp_all add: answered_def rqs_def h begin_frame serves_def handlers_base_def)
  have n: "?n \<notin> set (answered s) \<union> set (rqs s)" using assms(1) by (auto simp: ans_inv_def)
  have "m < ?n + 1 \<and> phase_ok ?s m ph" if "sv_calls ?s m = Some ph" for m ph
  proof (cases "m = ?n")
    case True
    then show ?thesis
      using that begin_frame(5) [of c rcv s] n assms(2)
      by (cases "(?s, m, ph)" rule: phase_ok.cases) (auto simp: a)
  next
    case False
    then have "m < ?n \<and> phase_ok s m ph" using that assms(1) by (auto simp: begin_frame ans_inv_def)
    then show ?thesis using phase_ok_mono [of s m ph ?s] by (cases ph) (auto simp: a)
  qed
  then show ?thesis using assms(1) unfolding ans_inv_def a by (auto simp: h begin_frame less_Suc_eq)
qed

lemma map_filter_mid:
  "List.map_filter f (xs @ y # ys) = List.map_filter f xs @ (case f y of None \<Rightarrow> [] | Some z \<Rightarrow> [z]) @ List.map_filter f ys"
  by (auto simp: List.map_filter_def split: option.splits)

lemma own_rq: "own n e \<Longrightarrow> rq_of e = None \<or> rq_of e = Some n"
  by (cases e) auto

lemma after_send_cases:
  "call_event n c = Inr e \<Longrightarrow> (after_send c = Waiting c \<and> rq_of e = Some n) \<or> after_send c = Returned GotNothing
     \<or> after_send c = Returned (GotError None)"
  by (cases c) (auto split: if_splits)

lemma enqueue_ans:
  assumes "ans_inv s" "sv_calls s n = Some (Sending c e)" "sv_queue s = xs @ ys"
  shows "ans_inv (s\<lparr>sv_queue := xs @ e # ys, sv_calls := (sv_calls s)(n \<mapsto> after_send c)\<rparr>)" (is "ans_inv ?s")
proof -
  have "n < sv_next s" "phase_ok s n (Sending c e)" using assms(1,2) unfolding ans_inv_def by blast+
  then have n: "n < sv_next s" "call_event n c = Inr e" "own n e" "n \<notin> set (answered s)" "n \<notin> set (rqs s)" by auto
  have r: "rqs s = List.map_filter rq_of xs @ List.map_filter rq_of ys"
    "rqs ?s = List.map_filter rq_of xs @ (case rq_of e of None \<Rightarrow> [] | Some z \<Rightarrow> [z]) @ List.map_filter rq_of ys"
    by (simp_all add: rqs_def assms(3) map_filter_mid) (simp add: List.map_filter_def)
  have a: "answered ?s = answered s" by (simp add: answered_def)
  have new: "rq_of e = None \<and> set (rqs ?s) = set (rqs s) \<and> distinct (rqs ?s) = distinct (rqs s)
      \<or> rq_of e = Some n \<and> set (rqs ?s) = insert n (set (rqs s)) \<and> distinct (rqs ?s) = distinct (rqs s)"
    unfolding r using own_rq [OF n(3)] n(5) [unfolded r(1)] by (elim disjE) auto
  have "m < sv_next s \<and> phase_ok ?s m ph" if m: "sv_calls ?s m = Some ph" for m ph
  proof (cases "m = n")
    case True
    then have ph: "ph = after_send c" using m by simp
    then show ?thesis
      using True n(1) new after_send_cases [OF n(2)] by (auto simp: a)
  next
    case False
    then have "m < sv_next s" "phase_ok s m ph" using m assms(1) by (auto simp: ans_inv_def)
    moreover have "phase_ok ?s m ph"
      using new False by (intro phase_ok_mono [OF calculation(2)]) (use calculation(2) in \<open>auto simp: a\<close>)
    ultimately show ?thesis by simp
  qed
  moreover have "distinct (answered ?s @ rqs ?s)" "\<forall>m \<in> set (answered ?s @ rqs ?s). m < sv_next s"
    using assms(1) n new by (auto simp: a ans_inv_def)
  ultimately show ?thesis using assms(1,3) n(3) by (auto simp: ans_inv_def)
qed

lemma turn_ans:
  assumes "ans_inv (s\<lparr>sv_queue := e # sv_queue s\<rparr>)" "base_service.svc_inv rt (s\<lparr>sv_queue := e # sv_queue s\<rparr>)"
    and "take_turn (dispatch (run_handler rt)) e s = Some s'"
  shows "ans_inv s'"
proof -
  let ?t = "s\<lparr>sv_queue := e # sv_queue s\<rparr>"
  have "serves (sv_disp s)" using assms(1) by (simp add: ans_inv_def)
  then obtain ed' where t: "s' = s\<lparr>sv_disp := ed'\<rparr>" "answers e (sv_disp s) ed'" "serves ed'"
    using turn_answers [OF assms(2) _ assms(3)] by metis
  have all: "answered s' @ rqs s' = answered ?t @ rqs ?t" "set (answered s) \<subseteq> set (answered s')"
    using t(2) map_filter_mid [of rq_of "[]" e "sv_queue s"]
    by (auto simp: t(1) answered_def rqs_def answers_def split: option.splits)
  have sets: "set (answered s') \<union> set (rqs s') = set (answered ?t) \<union> set (rqs ?t)"
    using arg_cong [OF all(1), of set] by simp
  have "reg_own n reg" if "(n, RespReg reg) \<in> set (resps ed')" for n reg
  proof (cases "(n, RespReg reg) \<in> set (resps (sv_disp s))")
    case True
    then show ?thesis using assms(1) by (auto simp: ans_inv_def)
  next
    case False
    then have "rq_of e = Some n" "\<forall>m. own m e \<longrightarrow> reg_own m reg"
      using t(2) that by (auto simp: answers_def split: option.splits)
    moreover obtain m where "own m e" using assms(1) by (auto simp: ans_inv_def)
    ultimately show ?thesis using own_rq [of m e] by auto
  qed
  moreover have "n < sv_next s \<and> phase_ok s' n ph" if "sv_calls s n = Some ph" for n ph
  proof -
    have "n < sv_next s" "phase_ok ?t n ph" using that assms(1) by (auto simp: ans_inv_def)
    moreover have "phase_ok s' n ph"
      using all(2) sets calculation(2) by (intro phase_ok_mono [OF calculation(2)]) auto
    ultimately show ?thesis by simp
  qed
  ultimately show ?thesis
    using assms(1) t(3) unfolding ans_inv_def all(1) by (auto simp: t(1))
qed

lemma answer_of_Some: "answer_of n ed = Some r \<Longrightarrow> (n, r) \<in> set (resps ed)"
  unfolding answer_of_def find_Some_iff map_option_eq_Some by (metis nth_mem prod.collapse)

lemma answer_of_None: "answer_of n ed = None \<longleftrightarrow> n \<notin> fst ` set (resps ed)"
  by (force simp: answer_of_def find_None_iff)

lemma return_ans:
  assumes "ans_inv s" "n \<in> dom (sv_calls s)" "\<And>reg ch. r = GotRegistration reg ch \<Longrightarrow> ch = n \<and> reg_own n reg \<and> n \<in> set (answered s)"
  shows "ans_inv (s\<lparr>sv_calls := (sv_calls s)(n \<mapsto> Returned r)\<rparr>)"
proof -
  let ?s = "s\<lparr>sv_calls := (sv_calls s)(n \<mapsto> Returned r)\<rparr>"
  have "m < sv_next s \<and> phase_ok ?s m ph" if "sv_calls ?s m = Some ph" for m ph
  proof (cases "m = n")
    case True
    then show ?thesis using that assms by (cases r) (auto simp: ans_inv_def)
  next
    case False
    then have "m < sv_next s" "phase_ok s m ph" using that assms(1) by (auto simp: ans_inv_def)
    then show ?thesis using phase_ok_mono [of s m ph ?s] by (cases ph) auto
  qed
  then show ?thesis using assms(1) by (auto simp: ans_inv_def)
qed

lemma call_result_registration: "call_result n c r = GotRegistration reg ch \<Longrightarrow> r = RespReg reg \<and> ch = n"
  by (cases "(n, c, r)" rule: call_result.cases) auto

lemma step_ans:
  assumes "svc_step (\<lambda>_ :: unit. dispatch (run_handler rt)) (may_submit (rt_codec rt)) s s'"
    and "ans_inv s" "base_service.svc_inv rt s"
  shows "ans_inv s'"
  using assms(1)
proof cases
  case (step_begin c rcv)
  then show ?thesis using begin_ans [OF assms(2)] by (auto simp: may_submit_def)
next
  case (step_send n)
  then obtain c e where "sv_calls s n = Some (Sending c e)"
    "s' = s\<lparr>sv_queue := sv_queue s @ [e], sv_calls := (sv_calls s)(n \<mapsto> after_send c)\<rparr>"
    by (auto simp: send_event_def split: option.splits phase.splits if_splits)
  then show ?thesis using enqueue_ans [OF assms(2), of n c e "sv_queue s" "[]"] by simp
next
  case (step_dispatch x)
  then obtain e es where q: "sv_queue s = e # es" "take_turn (dispatch (run_handler rt)) e (s\<lparr>sv_queue := es\<rparr>) = Some s'"
    by (auto simp: dispatch_one_def split: list.splits if_splits)
  then have "s\<lparr>sv_queue := es, sv_queue := e # es\<rparr> = s" by simp
  then show ?thesis using turn_ans [OF _ _ q(2)] assms(2,3) by simp
next
  case (step_hand_over x n)
  then obtain c e where h: "sv_calls s n = Some (Sending c e)"
    "take_turn (dispatch (run_handler rt)) e (s\<lparr>sv_calls := (sv_calls s)(n \<mapsto> after_send c)\<rparr>) = Some s'"
    by (auto simp: hand_over_def split: option.splits phase.splits if_splits)
  let ?t = "s\<lparr>sv_calls := (sv_calls s)(n \<mapsto> after_send c)\<rparr>"
  have "?t\<lparr>sv_queue := e # sv_queue ?t\<rparr>
      = s\<lparr>sv_queue := [] @ e # sv_queue s, sv_calls := (sv_calls s)(n \<mapsto> after_send c)\<rparr>" by (cases s) simp
  moreover have "ans_inv (s\<lparr>sv_queue := [] @ e # sv_queue s, sv_calls := (sv_calls s)(n \<mapsto> after_send c)\<rparr>)"
    "base_service.svc_inv rt (s\<lparr>sv_queue := [] @ e # sv_queue s, sv_calls := (sv_calls s)(n \<mapsto> after_send c)\<rparr>)"
    by (rule enqueue_ans [OF assms(2) h(1)] base_service.enqueue_inv [OF assms(3) h(1)], simp)+
  ultimately have "ans_inv (?t\<lparr>sv_queue := e # sv_queue ?t\<rparr>)" "base_service.svc_inv rt (?t\<lparr>sv_queue := e # sv_queue ?t\<rparr>)"
    by metis+
  then show ?thesis using turn_ans [OF _ _ h(2)] by blast
next
  case (step_finish n)
  then obtain c r where f: "sv_calls s n = Some (Waiting c)" "answer_of n (sv_disp s) = Some r"
    "s' = s\<lparr>sv_calls := (sv_calls s)(n \<mapsto> Returned (call_result n c r))\<rparr>"
    by (auto simp: finish_call_def split: option.splits phase.splits)
  have "(n, r) \<in> set (resps (sv_disp s))" using f(2) by (rule answer_of_Some)
  then have "n \<in> set (answered s)" "\<And>reg. r = RespReg reg \<Longrightarrow> reg_own n reg"
    using assms(2) by (auto simp: answered_def ans_inv_def intro: rev_image_eqI)
  then show ?thesis
    unfolding f(3) using f(1) by (intro return_ans [OF assms(2)]) (auto dest: call_result_registration)
next
  case (step_timeout n)
  then obtain c r where t: "sv_calls s n = Some (Waiting c)" "call_timeout c = Some r"
    "s' = s\<lparr>sv_calls := (sv_calls s)(n \<mapsto> Returned r)\<rparr>"
    by (auto simp: time_out_def split: option.splits phase.splits)
  then show ?thesis
    unfolding t(3) by (intro return_ans [OF assms(2)]) (cases c; auto)+
qed

end
