(* ===== verification/Service_Properties.thy ===== *)
theory Service_Properties
  imports Service_Answers Client_Properties
begin

text \<open>
  The properties of the event service over all its runs: no interleaving of calls makes the dispatcher panic,
  answers go to those who asked, calls return while the dispatcher runs, and what happens to a registration
  that races with a stop and to an old registration that is unregistered again.
\<close>

section \<open>Runs of the service\<close>

abbreviation service_run :: "runtime \<Rightarrow> 'z svc \<Rightarrow> 'z svc \<Rightarrow> bool" where
  "service_run rt \<equiv> svc_reach (\<lambda>_ :: unit. dispatch (run_handler rt)) (may_submit (rt_codec rt))"

text \<open>The service has been made for a dispatcher that is running and has answered nothing yet.\<close>

definition service_start :: "codec \<Rightarrow> 'z disp_scheme \<Rightarrow> nat \<Rightarrow> bool" where
  "service_start cd ed fresh \<longleftrightarrow> disp_inv cd ed \<and> serves ed \<and> (\<forall>c \<in> set (reg_chans ed). c < fresh) \<and> resps ed = []"

lemma service_run_base:
  assumes "service_run rt s0 s"
  shows "svc_reach (\<lambda>_ :: unit. dispatch (run_handler rt)) (base_service.allowed rt) s0 s"
  using assms by (rule svc_reach_mono) (rule may_submit_allowed)

lemma service_inv:
  assumes "service_run rt (service_New ed p fresh) s" "service_start (rt_codec rt) ed fresh"
  shows "base_service.svc_inv rt s \<and> ans_inv s"
proof -
  have "base_service.svc_inv rt (service_New ed p fresh)"
    using assms(2) by (intro base_service.init_inv) (simp_all add: service_start_def serves_def)
  moreover have "ans_inv (service_New ed p fresh)"
    using assms(2) by (simp add: service_start_def ans_inv_def answered_def rqs_def service_New_def List.map_filter_def)
  ultimately have i: "base_service.svc_inv rt (service_New ed p fresh)" "ans_inv (service_New ed p fresh)" by simp_all
  show ?thesis
    using assms(1)
  proof (induction rule: svc_reach.induct)
    case (reach_step s s')
    have "service_run rt (service_New ed p fresh) s'" using reach_step.hyps by (rule svc_reach.reach_step)
    from base_service.reach_inv [OF service_run_base [OF this] i(1)]
    show ?case using step_ans [OF reach_step.hyps(2)] reach_step.IH by simp
  qed (use i in simp)
qed

text \<open>A system in which a transaction status and a stop have been asked for.\<close>

lemma RegisterHandler_handlers: "handlers ed t = None \<Longrightarrow> handlers (RegisterHandler t h ed) = (handlers ed)(t \<mapsto> h)"
  by (simp add: RegisterHandler_def)

lemma RegisterHandlers_handlers:
  "handlers ed = Map.empty \<Longrightarrow> handlers (RegisterHandlers ed) =
     [T_RegisterChaincode \<mapsto> H_registerCC, T_RegisterTxStatus \<mapsto> H_registerTxStatus, T_RegisterBlock \<mapsto> H_registerBlock,
      T_RegisterFilteredBlock \<mapsto> H_registerFilteredBlock, T_Unregister \<mapsto> H_unregister, T_Stop \<mapsto> H_stop,
      T_Transfer \<mapsto> H_transfer, T_StopAndTransfer \<mapsto> H_stopAndTransfer, T_RegistrationInfo \<mapsto> H_registrationInfo,
      T_Block \<mapsto> H_block, T_FilteredBlock \<mapsto> H_filteredBlock]"
  by (simp add: RegisterHandlers_def RegisterHandler_handlers)

lemma RegisterHandlers_all:
  "handlers ed = Map.empty \<Longrightarrow> base_type h = Some t \<Longrightarrow> handlers (RegisterHandlers ed) t = Some h"
  by (cases h) (auto simp: RegisterHandlers_handlers)

lemma ex_disp_eq: "ex_disp = RegisterHandlers ((dispatcher_New defaultParams ex_heap)\<lparr>d_state := StateStarted\<rparr>)"
proof -
  let ?n = "(dispatcher_New defaultParams ex_heap)\<lparr>d_state := StateStarted\<rparr>"
  obtain hs where hs: "RegisterHandlers ?n = ?n\<lparr>handlers := hs\<rparr>"
    using RegisterHandlers_frame [of ?n] by (auto simp: dispatcher_New_def)
  have "initRegistrations (RegisterHandlers ?n) = (None, RegisterHandlers ?n)"
    unfolding hs by (simp add: initRegistrations_def dispatcher_New_def defaultParams_def)
  then show ?thesis
    by (simp add: ex_disp_def Start_def setState_def hs) (simp add: dispatcher_New_def defaultParams_def)
qed

lemma ex_disp_serves: "serves ex_disp" "resps ex_disp = []"
proof -
  show "serves ex_disp"
    using ex_disp_good(2) RegisterHandlers_all [of "(dispatcher_New defaultParams ex_heap)\<lparr>d_state := StateStarted\<rparr>"]
    by (auto simp: serves_def ex_disp_eq dispatcher_New_def)
  show "resps ex_disp = []"
    using RegisterHandlers_frame [of "(dispatcher_New defaultParams ex_heap)\<lparr>d_state := StateStarted\<rparr>"]
    by (auto simp: ex_disp_eq dispatcher_New_def)
qed

lemma ex_service_start: "service_start cd ex_disp 0"
  by (simp add: service_start_def ex_disp_good ex_disp_serves)

definition ex_svc :: "unit svc" where
  "ex_svc = service_New ex_disp defaultParams 0"

definition ex_asked :: "unit svc" where
  "ex_asked = begin_call StopCall Slow (begin_call (RegisterTxStatusCall ''tx1'') Slow ex_svc)"

lemma ex_asked_run: "service_run ex_runtime ex_svc ex_asked"
  unfolding ex_asked_def
  by (rule reach_step [OF reach_step [OF reach_init]]; rule step_begin) (auto simp: may_submit_def)

lemma ex_asked_calls:
  "sv_calls ex_asked = [0 \<mapsto> Sending (RegisterTxStatusCall ''tx1'') (RegisterTxStatusEvent 0 \<lparr>txreg_ref = 0, txreg_TxID = ''tx1'', txreg_Eventch = 0\<rparr>),
     1 \<mapsto> Sending StopCall (StopEvent 1)]" "sv_queue ex_asked = []" "d_params (sv_disp ex_asked) = defaultParams"
  "sv_next ex_asked = 2" "d_state (sv_disp ex_asked) = StateStarted" "resps (sv_disp ex_asked) = []"
  "handlers (sv_disp ex_asked) = handlers ex_disp" "\<not> sv_panicked ex_asked" "reg_chans (sv_disp ex_asked) = []"
  by (simp_all add: ex_asked_def ex_svc_def begin_call_def service_New_def EventCh_def ex_disp_good ex_disp_serves Let_def)

section \<open>No interleaving panics\<close>

text \<open>
  C3: Whatever registrations, unregistrations, stops, transfers and well-formed blocks any number of goroutines
  submit to the event service, and in whichever order their steps and those of the dispatcher interleave, the
  dispatcher's goroutine does not panic, and the channels of the registrations stay distinct and open. Well-formed
  blocks are those whose envelopes convert to a filtered block, and the filters that are registered return on
  them; every call makes its own registration, channels and answer channel, as the methods of the service do; and
  the service starts with a started dispatcher whose registered channels are distinct and open and in which the
  channels still to be made are not yet used. A block that is not well formed can take the goroutine down
  (\<open>no_actions_panics\<close>).
\<close>
theorem service_safe:
  assumes "service_run rt (service_New ed p fresh) s" "service_start (rt_codec rt) ed fresh"
  shows "\<not> sv_panicked s \<and> disp_inv (rt_codec rt) (sv_disp s)"
  using service_inv [OF assms] by (simp add: base_service.svc_inv_def base_service.queue_ok_def)

theorem service_safe_witness: "\<not> sv_panicked ex_asked \<and> disp_inv (rt_codec ex_runtime) (sv_disp ex_asked)"
  by (rule service_safe [OF ex_asked_run [unfolded ex_svc_def] ex_service_start])

text \<open>
  C10: Every request is answered at most once, and the registration that a call returns is the one that this
  very call has made, with the channel that it returns.
\<close>
theorem answers_are_own:
  assumes "service_run rt (service_New ed p fresh) s" "service_start (rt_codec rt) ed fresh"
  shows "distinct (map fst (resps (sv_disp s)))
    \<and> (\<forall>n reg ch. sv_calls s n = Some (Returned (GotRegistration reg ch)) \<longrightarrow> ch = n \<and> reg_own n reg)"
proof -
  have a: "ans_inv s" using service_inv [OF assms] by blast
  have "ch = n \<and> reg_own n reg" if "sv_calls s n = Some (Returned (GotRegistration reg ch))" for n reg ch
  proof -
    have "phase_ok s n (Returned (GotRegistration reg ch))" using a that unfolding ans_inv_def by blast
    then show ?thesis by simp
  qed
  then show ?thesis using a by (auto simp: ans_inv_def answered_def)
qed

definition ex_waiting :: "unit svc" where
  "ex_waiting = the (send_event 0 ex_asked)"

lemma ex_waiting_eq:
  "send_event 0 ex_asked = Some ex_waiting"
  "sv_calls ex_waiting = (sv_calls ex_asked)(0 \<mapsto> Waiting (RegisterTxStatusCall ''tx1''))" "sv_disp ex_waiting = sv_disp ex_asked"
  "sv_queue ex_waiting = [RegisterTxStatusEvent 0 \<lparr>txreg_ref = 0, txreg_TxID = ''tx1'', txreg_Eventch = 0\<rparr>]"
  "\<not> sv_panicked ex_waiting"
  by (simp_all add: ex_waiting_def send_event_def ex_asked_calls defaultParams_def)

lemma no_tx: "txRegistrations (sv_disp ex_asked) = []"
  using RegisterHandlers_frame [of "(dispatcher_New defaultParams ex_heap)\<lparr>d_state := StateStarted\<rparr>"]
  by (auto simp: ex_asked_def ex_svc_def begin_call_def service_New_def EventCh_def ex_disp_good Let_def ex_disp_eq dispatcher_New_def)

theorem answers_are_own_witness:
  "\<exists>s reg. service_run ex_runtime ex_svc s \<and> sv_calls s 0 = Some (Returned (GotRegistration (RTx reg) 0)) \<and> reg_own 0 (RTx reg)"
proof -
  let ?reg = "\<lparr>txreg_ref = 0, txreg_TxID = ''tx1'', txreg_Eventch = 0\<rparr>"
  have "handlers ex_disp T_RegisterTxStatus = Some H_registerTxStatus"
    unfolding ex_disp_eq by (rule RegisterHandlers_all) (simp_all add: dispatcher_New_def)
  then obtain s1 where s1: "dispatch_one (dispatch (run_handler ex_runtime)) ex_waiting = Some s1"
    "sv_calls s1 = sv_calls ex_waiting" "resps (sv_disp s1) = [(0, RespReg (RTx ?reg))]"
    by (simp add: dispatch_one_def take_turn_def dispatch_def ex_asked_calls ex_waiting_eq run_handler_def
        handleRegisterTxStatusEvent_def registerTxStatusEvent_def no_tx al_keys_def reply_def)
  have "service_run ex_runtime ex_svc ex_waiting"
    by (rule reach_step [OF ex_asked_run step_send [OF ex_waiting_eq(1)]])
  then have run1: "service_run ex_runtime ex_svc s1" by (rule reach_step) (rule step_dispatch, rule s1(1))
  obtain s2 where s2: "finish_call 0 s1 = Some s2" "sv_calls s2 0 = Some (Returned (GotRegistration (RTx ?reg) 0))"
    by (simp add: finish_call_def s1 ex_waiting_eq answer_of_def)
  have run2: "service_run ex_runtime ex_svc s2" by (rule reach_step [OF run1 step_finish [OF s2(1)]])
  have "reg_own 0 (RTx ?reg)"
    using answers_are_own [OF run2 [unfolded ex_svc_def] ex_service_start] s2(2) by blast
  then show ?thesis using run2 s2(2) by blast
qed


section \<open>Calls return while the dispatcher runs\<close>

lemma svc_reach_trans: "svc_reach run w b c \<Longrightarrow> svc_reach run w a b \<Longrightarrow> svc_reach run w a c"
  by (induction rule: svc_reach.induct) (auto intro: svc_reach.reach_step)

lemma dispatch_not_Blocked:
  assumes "disp_inv (rt_codec rt) ed" "handlers_base ed" "event_ok (rt_codec rt) e" "eventConsumerTimeout (d_params ed) \<noteq> 0"
  shows "dispatch (run_handler rt) e ed \<noteq> Blocked"
  using assms run_handler_not_Blocked [OF assms(1,3) _ assms(4)]
  by (cases "handlers ed (TypeOf e)") (auto simp: dispatch_def handlers_base_def)

text \<open>The dispatcher works its queue off.\<close>

lemma queue_drains:
  assumes "base_service.svc_inv rt s" "ans_inv s" "d_state (sv_disp s) = StateStarted"
    and "list_all (\<lambda>e. \<not> stops e) (sv_queue s)" "eventConsumerTimeout (d_params (sv_disp s)) \<noteq> 0"
  shows "\<exists>s'. service_run rt s s' \<and> ans_inv s' \<and> sv_queue s' = [] \<and> sv_calls s' = sv_calls s"
  using assms
proof (induction "sv_queue s" arbitrary: s)
  case Nil
  then show ?case by (intro exI [of _ s]) (simp add: svc_reach.reach_init)
next
  case (Cons e es)
  let ?s = "s\<lparr>sv_queue := es\<rparr>"
  have t: "?s\<lparr>sv_queue := e # sv_queue ?s\<rparr> = s" using Cons.hyps(2) by simp
  have q: "disp_inv (rt_codec rt) (sv_disp s)" "handlers_base (sv_disp s)" "event_ok (rt_codec rt) e" "\<not> sv_panicked s"
    "distinct (new_chans e)" "\<forall>c \<in> set (new_chans e). c \<notin> set (reg_chans (sv_disp s)) \<and> open_in (chans (sv_disp s)) c"
    using Cons.prems(1) Cons.hyps(2) [symmetric]
    by (auto simp: base_service.svc_inv_def base_service.queue_ok_def base_service.queued_def)
  have "dispatch (run_handler rt) e (sv_disp s) \<noteq> Panic"
    using q by (intro wp_not_Panic [OF dispatch_step]) (auto simp: fresh_chans_def)
  with dispatch_not_Blocked [OF q(1-3) Cons.prems(5)] obtain s1 where
    s1: "take_turn (dispatch (run_handler rt)) e ?s = Some s1"
    by (cases "dispatch (run_handler rt) e (sv_disp s)") (auto simp: take_turn_def)
  then obtain ed' where ed': "s1 = ?s\<lparr>sv_disp := ed'\<rparr>" "answers e (sv_disp s) ed'"
    "d_params ed' = d_params (sv_disp s)"
    using turn_answers [OF _ _ s1] Cons.prems(1,2) t by (auto simp: ans_inv_def)
  have step: "svc_step (\<lambda>_ :: unit. dispatch (run_handler rt)) (may_submit (rt_codec rt)) s s1"
    using s1 Cons.prems(3) q(4) Cons.hyps(2) [symmetric] by (intro step_dispatch) (simp add: dispatch_one_def)
  have "base_service.svc_inv rt s1" "ans_inv s1"
    using base_service.take_turn_inv [OF _ s1] turn_ans [OF _ _ s1] t Cons.prems(1,2) by auto
  moreover have "d_state (sv_disp s1) = StateStarted" "list_all (\<lambda>e. \<not> stops e) (sv_queue s1)" "es = sv_queue s1"
    "eventConsumerTimeout (d_params (sv_disp s1)) \<noteq> 0" "sv_calls s1 = sv_calls s"
    using Cons.prems(3,4,5) Cons.hyps(2) [symmetric] ed' by (auto simp: answers_def)
  ultimately obtain s' where "service_run rt s1 s'" "ans_inv s'" "sv_queue s' = []" "sv_calls s' = sv_calls s"
    using Cons.hyps(1) [of s1] by metis
  then show ?case using svc_reach_trans [OF _ reach_step [OF reach_init step]] by blast
qed

text \<open>
  C9: As long as the dispatcher runs, is not configured to wait for its consumers, and no stop is queued,
  every call that waits for an answer can return: the dispatcher works off its queue, and the answer to the
  call is then there, whatever the consumers and the other goroutines do.
\<close>
theorem call_can_return:
  assumes "service_run rt (service_New ed p fresh) s" "service_start (rt_codec rt) ed fresh"
    and "d_state (sv_disp s) = StateStarted" "list_all (\<lambda>e. \<not> stops e) (sv_queue s)"
    and "eventConsumerTimeout (d_params (sv_disp s)) \<noteq> 0" "sv_calls s n = Some (Waiting c)"
  shows "\<exists>s'. service_run rt s s' \<and> (\<exists>r. sv_calls s' n = Some (Returned r))"
proof -
  obtain s1 where s1: "service_run rt s s1" "ans_inv s1" "sv_queue s1 = []" "sv_calls s1 = sv_calls s"
    using queue_drains service_inv [OF assms(1,2)] assms(3-5) by blast
  have "phase_ok s1 n (Waiting c)" using s1(2,4) assms(6) unfolding ans_inv_def by metis
  then obtain r where "answer_of n (sv_disp s1) = Some r"
    using s1(3) answer_of_None [of n "sv_disp s1"]
    by (cases "answer_of n (sv_disp s1)") (auto simp: answered_def rqs_def List.map_filter_def)
  then have "finish_call n s1 = Some (s1\<lparr>sv_calls := (sv_calls s1)(n \<mapsto> Returned (call_result n c r))\<rparr>)"
    using s1(4) assms(6) by (simp add: finish_call_def)
  then have "service_run rt s (s1\<lparr>sv_calls := (sv_calls s1)(n \<mapsto> Returned (call_result n c r))\<rparr>)"
    by (intro reach_step [OF s1(1)] step_finish)
  then show ?thesis by (intro exI conjI) (assumption, simp)
qed

theorem call_can_return_witness:
  "\<exists>s'. service_run ex_runtime ex_waiting s' \<and> (\<exists>r. sv_calls s' 0 = Some (Returned r))"
proof -
  have "service_run ex_runtime ex_svc ex_waiting"
    by (rule reach_step [OF ex_asked_run step_send [OF ex_waiting_eq(1)]])
  from call_can_return [OF this [unfolded ex_svc_def] ex_service_start, of 0 "RegisterTxStatusCall ''tx1''"]
  show ?thesis by (simp add: ex_waiting_eq ex_asked_calls defaultParams_def)
qed

section \<open>Calls that race with a stop\<close>

text \<open>
  A call that has got the event channel before the dispatcher stops, but whose event the dispatcher has not
  taken by then, never returns if it is one of those that wait without a timeout, which all registrations are:
  no step of any goroutine answers it.
\<close>
theorem registration_hangs:
  assumes "d_state (sv_disp s) = StateStopped" "n \<notin> set (answered s)" "n < sv_next s"
    and "sv_calls s n = Some (Sending c e) \<or> sv_calls s n = Some (Waiting c)"
    and "after_send c = Waiting c" "call_timeout c = None" "svc_reach run w s s'"
  shows "\<not> (\<exists>r. sv_calls s' n = Some (Returned r))"
proof -
  let ?P = "\<lambda>t. d_state (sv_disp t) = StateStopped \<and> n \<notin> set (answered t) \<and> n < sv_next t
    \<and> ((\<exists>e. sv_calls t n = Some (Sending c e)) \<or> sv_calls t n = Some (Waiting c))"
  have "?P s'"
    using assms(7)
  proof (induction rule: svc_reach.induct)
    case reach_init
    then show ?case using assms(1-4) by auto
  next
    case (reach_step t t')
    then have P: "?P t" by simp
    show ?case
      using reach_step.hyps(2)
    proof cases
      case (step_begin c' rcv)
      obtain h where "sv_disp t' = (sv_disp t)\<lparr>chans := h\<rparr>" using begin_frame(3) step_begin(1) by blast
      then show ?thesis using P begin_frame(4) [of n t] by (simp add: step_begin(1) begin_frame(2) answered_def less_Suc_eq)
    next
      case (step_send m)
      then show ?thesis
        using P assms(5) by (auto simp: send_event_def answered_def split: option.splits phase.splits if_splits)
    next
      case (step_dispatch x)
      then show ?thesis using P by (auto simp: dispatch_one_def split: list.splits if_splits)
    next
      case (step_hand_over x m)
      then show ?thesis using P by (auto simp: hand_over_def split: option.splits phase.splits if_splits)
    next
      case (step_finish m)
      have "answer_of n (sv_disp t) = None" using P by (simp add: answer_of_None answered_def)
      then show ?thesis
        using step_finish P by (cases "m = n") (auto simp: finish_call_def answered_def split: option.splits phase.splits)
    next
      case (step_timeout m)
      then show ?thesis
        using P assms(6) by (cases "m = n") (auto simp: time_out_def answered_def split: option.splits phase.splits)
    qed
  qed
  then show ?thesis by auto
qed

text \<open>The stop of the example is handled while the registration has not been sent yet.\<close>

theorem registration_hangs_witness:
  "\<exists>s. service_run ex_runtime ex_svc s \<and> d_state (sv_disp s) = StateStopped
    \<and> (\<forall>s'. service_run ex_runtime s s' \<longrightarrow> \<not> (\<exists>r. sv_calls s' 0 = Some (Returned r)))"
proof -
  obtain sa where sa: "send_event 1 ex_asked = Some sa" "sv_queue sa = [StopEvent 1]" "sv_disp sa = sv_disp ex_asked"
    "sv_calls sa 0 = sv_calls ex_asked 0" "sv_next sa = 2" "\<not> sv_panicked sa"
    by (simp add: send_event_def ex_asked_calls defaultParams_def)
  have "disp_inv (rt_codec ex_runtime) (sv_disp ex_asked)"
    using service_inv [OF ex_asked_run [unfolded ex_svc_def] ex_service_start] by (simp add: base_service.svc_inv_def base_service.queue_ok_def)
  from stop_closes_everything [OF this ex_asked_calls(5), of 1] obtain ed' where
    ed': "HandleStopEvent (StopEvent 1) (sv_disp ex_asked) = Ok ed'" "d_state ed' = StateStopped" "resps ed' = [(1, RespErr None)]"
    by (auto simp: ex_asked_calls)
  have "handlers ex_disp T_Stop = Some H_stop"
    unfolding ex_disp_eq by (rule RegisterHandlers_all) (simp_all add: dispatcher_New_def)
  then have "dispatch_one (dispatch (run_handler ex_runtime)) sa = Some (sa\<lparr>sv_queue := [], sv_disp := ed'\<rparr>)"
    using sa ed'(1) by (simp add: dispatch_one_def take_turn_def dispatch_def ex_asked_calls run_handler_def)
  then have run: "service_run ex_runtime ex_svc (sa\<lparr>sv_queue := [], sv_disp := ed'\<rparr>)"
    by (intro reach_step [OF reach_step [OF ex_asked_run step_send [OF sa(1)]]] step_dispatch)
  moreover have "\<not> (\<exists>r. sv_calls s' 0 = Some (Returned r))"
    if "service_run ex_runtime (sa\<lparr>sv_queue := [], sv_disp := ed'\<rparr>) s'" for s'
    by (rule registration_hangs [OF _ _ _ _ _ _ that, where c = "RegisterTxStatusCall ''tx1''"])
      (simp_all add: ed' answered_def sa ex_asked_calls)
  ultimately show ?thesis using ed'(2) by (intro exI conjI) (assumption | simp)+
qed

text \<open>
  Unregistering a transaction status closes the channel of whichever registration there is for the
  transaction, also when the given registration is an old one that was unregistered before: a second
  \<open>Unregister\<close> of the old one takes the events from its successor. Block registrations are compared by identity.
\<close>
theorem stale_unregister:
  assumes "disp_inv cd ed" "map_of (txRegistrations ed) (txreg_TxID old) = Some r"
  shows "(\<exists>ed'. handleUnregisterEvent (UnregisterEvent (RTx old)) ed = Ok ed' \<and> \<not> open_in (chans ed') (txreg_Eventch r)
      \<and> map_of (txRegistrations ed') (txreg_TxID old) = None)
    \<and> (\<forall>oldb. breg_ref oldb \<notin> breg_ref ` set (blockRegistrations ed)
        \<longrightarrow> handleUnregisterEvent (UnregisterEvent (RBlock oldb)) ed = Ok ed)"
proof
  have "open_in (chans ed) (txreg_Eventch r)" using assms tx_reg_chan disp_inv_open by blast
  then have "closeCh (txreg_Eventch r) ed = Ok (ed\<lparr>chans := mark_closed {txreg_Eventch r} (chans ed)\<rparr>)"
    by (rule closeCh_open)
  then show "\<exists>ed'. handleUnregisterEvent (UnregisterEvent (RTx old)) ed = Ok ed' \<and> \<not> open_in (chans ed') (txreg_Eventch r)
      \<and> map_of (txRegistrations ed') (txreg_TxID old) = None"
    using assms(2) by (auto simp: handleUnregisterEvent_def unregisterTXEvents_def al_delete_def map_of_eq_None_iff)
  show "\<forall>oldb. breg_ref oldb \<notin> breg_ref ` set (blockRegistrations ed)
      \<longrightarrow> handleUnregisterEvent (UnregisterEvent (RBlock oldb)) ed = Ok ed"
  proof (intro allI impI)
    fix oldb :: BlockReg
    assume "breg_ref oldb \<notin> breg_ref ` set (blockRegistrations ed)"
    then have "index_of (\<lambda>reg. breg_ref reg = breg_ref oldb) (blockRegistrations ed) = None"
      unfolding index_of_None by (metis image_eqI)
    then show "handleUnregisterEvent (UnregisterEvent (RBlock oldb)) ed = Ok ed"
      by (simp add: handleUnregisterEvent_def unregisterBlockEvents_def)
  qed
qed

theorem stale_unregister_witness:
  "\<exists>ed'. handleUnregisterEvent (UnregisterEvent (RTx ex_txreg))
      (ex_disp\<lparr>txRegistrations := [(''tx1'', ex_txreg\<lparr>txreg_ref := 8, txreg_Eventch := 8\<rparr>)]\<rparr>) = Ok ed' \<and> \<not> open_in (chans ed') 8"
proof -
  have r: "reg_chans ex_disp = []" "disp_inv undefined ex_disp" by (simp_all add: ex_disp_good)
  have "disp_inv undefined (ex_disp\<lparr>txRegistrations := [(''tx1'', ex_txreg\<lparr>txreg_ref := 8, txreg_Eventch := 8\<rparr>)]\<rparr>)"
    using r by (simp add: disp_inv_def reg_chans_def al_keys_def ex_txreg_def regexps_compiled_def ex_disp_good(5) ex_heap_def open_in_def)
  from stale_unregister [OF this, of ex_txreg "ex_txreg\<lparr>txreg_ref := 8, txreg_Eventch := 8\<rparr>"] show ?thesis
    by (auto simp: ex_txreg_def)
qed

section \<open>The deliver dispatcher\<close>

text \<open>
  The same for the service of the deliver client, whose dispatcher also handles connections: no interleaving
  of calls, connection events, seeks and deliveries makes its goroutine panic.
\<close>
theorem deliver_service_safe:
  assumes "svc_reach (\<lambda>env. dispatch (run_deliver rt env)) (\<lambda>n e. cevent_ok (rt_codec rt) e \<and> distinct (cnew_chans e)
      \<and> set (cnew_chans e) \<subseteq> {n}) (service_New (snd (deliver_Start (cdispatcher_New period p h))) p fresh) s"
    and "no_initial p"
  shows "\<not> sv_panicked s \<and> cd_inv (rt_codec rt) (sv_disp s)"
proof -
  obtain ed where ed: "deliver_Start (cdispatcher_New period p h) = (None, ed)" "cd_inv (rt_codec rt) ed"
    "handlers_deliver ed" "all_chans ed = []"
    using deliver_Start_ok [OF assms(2)] by blast
  have "svc_reach (\<lambda>env. dispatch (run_deliver rt env)) (deliver_service.allowed rt) (service_New ed p fresh) s"
    using assms(1) unfolding ed(1) snd_conv by (rule svc_reach_mono) (simp add: deliver_service.allowed_def)
  moreover have "deliver_service.svc_inv rt (service_New ed p fresh)"
    using ed by (intro deliver_service.init_inv) simp_all
  ultimately show ?thesis
    using deliver_service.reach_inv by (auto simp: deliver_service.svc_inv_def deliver_service.queue_ok_def)
qed

theorem deliver_service_safe_witness:
  "\<not> sv_panicked (begin_call RegisterFilteredBlockCall Slow
     (service_New (snd (deliver_Start (cdispatcher_New 1 defaultParams open_heap))) defaultParams 0))"
proof -
  have "svc_reach (\<lambda>env. dispatch (run_deliver ex_rt env)) (\<lambda>n e. cevent_ok (rt_codec ex_rt) e \<and> distinct (cnew_chans e)
      \<and> set (cnew_chans e) \<subseteq> {n}) (service_New (snd (deliver_Start (cdispatcher_New 1 defaultParams open_heap))) defaultParams 0)
     (begin_call RegisterFilteredBlockCall Slow
       (service_New (snd (deliver_Start (cdispatcher_New 1 defaultParams open_heap))) defaultParams 0))"
    by (rule reach_step [OF reach_init step_begin]) simp
  from deliver_service_safe [OF this no_initial_default] show ?thesis by simp
qed

end
