(* ===== verification/Config_Update.thy ===== *)
theory Config_Update
  imports Prelude "HOL-Library.Word"
begin

text \<open>
  Computing the update between two channel configurations
  (internal/.../sdkinternal/configtxlator/update/update.go): from the original and the updated
  configuration tree the read set and the write set of a \<open>ConfigUpdate\<close>.

  A map of messages is an association list whose order is the iteration order; its keys are distinct and
  no message in it is nil. \<open>'p\<close> is the message \<open>Policy\<close>, whose equality is \<open>proto.Equal\<close>.
\<close>

section \<open>Configuration trees\<close>

record 'p ConfigPolicy =
  cpo_Version :: "64 word"
  cpo_ModPolicy :: string
  cpo_Policy :: "'p option"

record ConfigValue =
  cva_Version :: "64 word"
  cva_ModPolicy :: string
  cva_Value :: bytes

datatype 'p ConfigGroup =
  ConfigGroup (cg_Version: "64 word") (cg_ModPolicy: string) (cg_Policies: "(string \<times> 'p ConfigPolicy) list")
    (cg_Values: "(string \<times> ConfigValue) list") (cg_Groups: "(string \<times> 'p ConfigGroup) list")

definition NewConfigGroup :: "'p ConfigGroup" where
  "NewConfigGroup = ConfigGroup 0 [] [] [] []"

record 'p ConfigUpdate =
  cu_ReadSet :: "'p ConfigGroup"
  cu_WriteSet :: "'p ConfigGroup"

section \<open>Differences\<close>

text \<open>
  The two loops of \<open>computePoliciesMapUpdate\<close>, and in the same words those of \<open>computeValuesMapUpdate\<close>: over the
  original entries and over the updated ones that are not original. The results are the entries for the
  write set, the entries that are the same, and whether the keys differ.
\<close>

definition elems_update :: "('e \<Rightarrow> 'e \<Rightarrow> bool) \<Rightarrow> ('e \<Rightarrow> 'e) \<Rightarrow> (64 word \<Rightarrow> 'e \<Rightarrow> 'e) \<Rightarrow> ('e \<Rightarrow> 64 word)
    \<Rightarrow> (string \<times> 'e) list \<Rightarrow> (string \<times> 'e) list \<Rightarrow> (string \<times> 'e) list \<times> (string \<times> 'e) list \<times> bool" where
  "elems_update same stub copy ver original updated =
    (List.map_filter (\<lambda>(k, oe). map_option (Pair k) (case map_of updated k of
         None \<Rightarrow> None
       | Some ue \<Rightarrow> if same oe ue then None else Some (copy (ver oe + 1) ue))) original
     @ List.map_filter (\<lambda>(k, ue). map_option (Pair k) (if k \<in> set (map fst original) then None else Some (copy 0 ue))) updated,
     List.map_filter (\<lambda>(k, oe). map_option (Pair k) (case map_of updated k of
         None \<Rightarrow> None
       | Some ue \<Rightarrow> if same oe ue then Some (stub oe) else None)) original,
     \<not> set (map fst original) \<subseteq> set (map fst updated) \<or> \<not> set (map fst updated) \<subseteq> set (map fst original))"

definition computePoliciesMapUpdate :: "(string \<times> 'p ConfigPolicy) list \<Rightarrow> (string \<times> 'p ConfigPolicy) list
    \<Rightarrow> (string \<times> 'p ConfigPolicy) list \<times> (string \<times> 'p ConfigPolicy) list \<times> (string \<times> 'p ConfigPolicy) list \<times> bool" where
  "computePoliciesMapUpdate original updated = ([],
     elems_update (\<lambda>op up. cpo_ModPolicy op = cpo_ModPolicy up \<and> cpo_Policy op = cpo_Policy up)
       (\<lambda>op. \<lparr>cpo_Version = cpo_Version op, cpo_ModPolicy = [], cpo_Policy = None\<rparr>)
       (\<lambda>n up. \<lparr>cpo_Version = n, cpo_ModPolicy = cpo_ModPolicy up, cpo_Policy = cpo_Policy up\<rparr>) cpo_Version original updated)"

definition computeValuesMapUpdate :: "(string \<times> ConfigValue) list \<Rightarrow> (string \<times> ConfigValue) list
    \<Rightarrow> (string \<times> ConfigValue) list \<times> (string \<times> ConfigValue) list \<times> (string \<times> ConfigValue) list \<times> bool" where
  "computeValuesMapUpdate original updated = ([],
     elems_update (\<lambda>ov uv. cva_ModPolicy ov = cva_ModPolicy uv \<and> cva_Value ov = cva_Value uv)
       (\<lambda>ov. \<lparr>cva_Version = cva_Version ov, cva_ModPolicy = [], cva_Value = []\<rparr>)
       (\<lambda>n uv. \<lparr>cva_Version = n, cva_ModPolicy = cva_ModPolicy uv, cva_Value = cva_Value uv\<rparr>) cva_Version original updated)"

lemma map_of_size: "map_of xs k = Some v \<Longrightarrow> size v < Suc (size_list (size_prod (\<lambda>_. 0) size) xs)"
  by (induction xs) (auto split: if_splits)

text \<open>
  \<open>original_groups\<close> is the loop over the original groups, \<open>added_groups\<close> the loop over the updated ones that
  skips the keys \<open>ks\<close> of the original.
\<close>

function computeGroupUpdate :: "'p ConfigGroup \<Rightarrow> 'p ConfigGroup \<Rightarrow> 'p ConfigGroup \<times> 'p ConfigGroup \<times> bool"
  and original_groups :: "(string \<times> 'p ConfigGroup) list \<Rightarrow> (string \<times> 'p ConfigGroup) list
    \<Rightarrow> (string \<times> 'p ConfigGroup) list \<times> (string \<times> 'p ConfigGroup) list \<times> (string \<times> 'p ConfigGroup) list \<times> bool"
  and added_groups :: "string list \<Rightarrow> (string \<times> 'p ConfigGroup) list \<Rightarrow> (string \<times> 'p ConfigGroup) list \<times> bool" where
  "computeGroupUpdate (ConfigGroup ov om ops ovs ogs) (ConfigGroup uv um ups uvs ugs) =
    (case computePoliciesMapUpdate ops ups of (readSetPolicies, writeSetPolicies, sameSetPolicies, policiesMembersUpdated) \<Rightarrow>
     case computeValuesMapUpdate ovs uvs of (readSetValues, writeSetValues, sameSetValues, valuesMembersUpdated) \<Rightarrow>
     case original_groups ogs ugs of (readSetGroups, writeSetGroups1, sameSetGroups, groupsMembersUpdated1) \<Rightarrow>
     case added_groups (map fst ogs) ugs of (writeSetGroups2, groupsMembersUpdated2) \<Rightarrow>
      (let writeSetGroups = writeSetGroups1 @ writeSetGroups2;
           groupsMembersUpdated = (groupsMembersUpdated1 \<or> groupsMembersUpdated2)
       in if \<not> (policiesMembersUpdated \<or> valuesMembersUpdated \<or> groupsMembersUpdated \<or> om \<noteq> um)
          then if length readSetPolicies = 0 \<and> length writeSetPolicies = 0 \<and> length readSetValues = 0
                  \<and> length writeSetValues = 0 \<and> length readSetGroups = 0 \<and> length writeSetGroups = 0
               then (ConfigGroup ov [] [] [] [], ConfigGroup ov [] [] [] [], False)
               else (ConfigGroup ov [] readSetPolicies readSetValues readSetGroups,
                     ConfigGroup ov [] writeSetPolicies writeSetValues writeSetGroups, True)
          else (ConfigGroup ov [] (readSetPolicies @ sameSetPolicies) (readSetValues @ sameSetValues) (readSetGroups @ sameSetGroups),
                ConfigGroup (ov + 1) um (writeSetPolicies @ sameSetPolicies) (writeSetValues @ sameSetValues)
                  (writeSetGroups @ sameSetGroups), True)))"
| "original_groups [] updated = ([], [], [], False)"
| "original_groups ((groupName, originalGroup) # rest) updated =
    (case original_groups rest updated of (readSet, writeSet, sameSet, updatedMembers) \<Rightarrow>
      (case map_of updated groupName of
         None \<Rightarrow> (readSet, writeSet, sameSet, True)
       | Some updatedGroup \<Rightarrow>
          (case computeGroupUpdate originalGroup updatedGroup of (groupReadSet, groupWriteSet, groupUpdated) \<Rightarrow>
             if \<not> groupUpdated then (readSet, writeSet, (groupName, groupReadSet) # sameSet, updatedMembers)
             else ((groupName, groupReadSet) # readSet, (groupName, groupWriteSet) # writeSet, sameSet, updatedMembers))))"
| "added_groups ks [] = ([], False)"
| "added_groups ks ((groupName, updatedGroup) # rest) =
    (case added_groups ks rest of (writeSet, updatedMembers) \<Rightarrow>
      if groupName \<in> set ks then (writeSet, updatedMembers)
      else (case computeGroupUpdate NewConfigGroup updatedGroup of (_, groupWriteSet, _) \<Rightarrow>
        ((groupName, ConfigGroup 0 (cg_ModPolicy updatedGroup) (cg_Policies groupWriteSet) (cg_Values groupWriteSet)
            (cg_Groups groupWriteSet)) # writeSet, True)))"
  by pat_completeness auto
termination
  by (relation "measures [\<lambda>x. case x of Inl (ov, uv) \<Rightarrow> 2 * size uv
        | Inr (Inl (os, us)) \<Rightarrow> Suc (2 * size_list (size_prod (\<lambda>_. 0) size) us)
        | Inr (Inr (ks, us)) \<Rightarrow> Suc (2 * size_list (size_prod (\<lambda>_. 0) size) us),
      \<lambda>x. case x of Inl _ \<Rightarrow> 0 | Inr (Inl (os, us)) \<Rightarrow> length os | Inr (Inr (ks, us)) \<Rightarrow> length us]")
    (auto dest: map_of_size)

definition Compute :: "'p ConfigGroup option \<Rightarrow> 'p ConfigGroup option \<Rightarrow> 'p ConfigUpdate res" where
  "Compute original updated = (case original of
     None \<Rightarrow> Inl (errorNew ''no channel group included for original config'')
   | Some og \<Rightarrow> (case updated of
       None \<Rightarrow> Inl (errorNew ''no channel group included for updated config'')
     | Some ug \<Rightarrow> (case computeGroupUpdate og ug of (readSet, writeSet, groupUpdated) \<Rightarrow>
         if \<not> groupUpdated then Inl (errorNew ''no differences detected between original and updated config'')
         else Inr \<lparr>cu_ReadSet = readSet, cu_WriteSet = writeSet\<rparr>)))"

end
