(* ===== verification/Config_Update_Theorems.thy ===== *)
theory Config_Update_Theorems
  imports Config_Update
begin

text \<open>
  The specification of configuration updates and the theorem that \<open>Compute\<close> meets it: a peer that applies
  the computed write set to the original configuration gets the updated one, up to the version numbers;
  \<open>Compute\<close> reports that there is no difference exactly when there is none; and the read set names versions
  of the original only.
\<close>

section \<open>The specification\<close>

definition same_map :: "('a \<Rightarrow> 'b \<Rightarrow> bool) \<Rightarrow> (string \<times> 'a) list \<Rightarrow> (string \<times> 'b) list \<Rightarrow> bool" where
  "same_map R xs ys \<longleftrightarrow> set (map fst xs) = set (map fst ys)
     \<and> list_all (\<lambda>(k, x). case map_of ys k of None \<Rightarrow> False | Some y \<Rightarrow> R x y) xs"

definition same_policy :: "'p ConfigPolicy \<Rightarrow> 'p ConfigPolicy \<Rightarrow> bool" where
  "same_policy p q \<longleftrightarrow> cpo_ModPolicy p = cpo_ModPolicy q \<and> cpo_Policy p = cpo_Policy q"

definition same_value :: "ConfigValue \<Rightarrow> ConfigValue \<Rightarrow> bool" where
  "same_value p q \<longleftrightarrow> cva_ModPolicy p = cva_ModPolicy q \<and> cva_Value p = cva_Value q"

text \<open>Two configurations that differ in their version numbers at most.\<close>

fun same_config :: "'p ConfigGroup \<Rightarrow> 'p ConfigGroup \<Rightarrow> bool" where
  "same_config (ConfigGroup ov om ops ovs ogs) (ConfigGroup uv um ups uvs ugs) \<longleftrightarrow> om = um
     \<and> same_map same_policy ops ups \<and> same_map same_value ovs uvs
     \<and> set (map fst ogs) = set (map fst ugs)
     \<and> list_all (\<lambda>(k, og). case map_of ugs k of None \<Rightarrow> False | Some ug \<Rightarrow> same_config og ug) ogs"

text \<open>
  Applying a write set, as a peer does: an element with the version of the current one is not modified, any
  other replaces it; a group with the version of the current one keeps its members and its modification
  policy, any other has the members of the write set.
\<close>

definition apply_map :: "('e \<Rightarrow> 'e \<Rightarrow> 'e) \<Rightarrow> bool \<Rightarrow> (string \<times> 'e) list \<Rightarrow> (string \<times> 'e) list \<Rightarrow> (string \<times> 'e) list" where
  "apply_map app same_group cur ws =
    (if same_group then map (\<lambda>(k, c). (k, case map_of ws k of None \<Rightarrow> c | Some w \<Rightarrow> app c w)) cur
     else map (\<lambda>(k, w). (k, case map_of cur k of None \<Rightarrow> w | Some c \<Rightarrow> app c w)) ws)"

definition apply_elem :: "('e \<Rightarrow> 64 word) \<Rightarrow> 'e \<Rightarrow> 'e \<Rightarrow> 'e" where
  "apply_elem ver c w = (if ver w = ver c then c else w)"

lemma pair_size: "(k, v) \<in> set xs \<Longrightarrow> size v < Suc (size_list (size_prod (\<lambda>_. 0) size) xs)"
  by (induction xs) auto

function apply_group :: "'p ConfigGroup \<Rightarrow> 'p ConfigGroup \<Rightarrow> 'p ConfigGroup" where
  "apply_group (ConfigGroup cv cm cps cvs cgs) (ConfigGroup wv wm wps wvs wgs) =
    ConfigGroup wv (if wv = cv then cm else wm) (apply_map (apply_elem cpo_Version) (wv = cv) cps wps)
      (apply_map (apply_elem cva_Version) (wv = cv) cvs wvs)
      (if wv = cv then map (\<lambda>(k, c). (k, case map_of wgs k of None \<Rightarrow> c | Some w \<Rightarrow> apply_group c w)) cgs
       else map (\<lambda>(k, w). (k, case map_of cgs k of None \<Rightarrow> w | Some c \<Rightarrow> apply_group c w)) wgs)"
  by pat_completeness auto
termination
  by (relation "measure (\<lambda>(c, w). size w)") (auto dest: map_of_size pair_size simp: less_Suc_eq_le trans_le_add2)

fun wf_group :: "'p ConfigGroup \<Rightarrow> bool" where
  "wf_group (ConfigGroup v m ps vs gs) \<longleftrightarrow> distinct (map fst ps) \<and> distinct (map fst vs) \<and> distinct (map fst gs)
     \<and> list_all (\<lambda>(k, g). wf_group g) gs"

text \<open>Every entry of the read set is one of the original, at its version.\<close>

fun reads :: "'p ConfigGroup \<Rightarrow> 'p ConfigGroup \<Rightarrow> bool" where
  "reads (ConfigGroup ov om ops ovs ogs) (ConfigGroup rv rm rps rvs rgs) \<longleftrightarrow> rv = ov
     \<and> list_all (\<lambda>(k, r). map_option cpo_Version (map_of ops k) = Some (cpo_Version r)) rps
     \<and> list_all (\<lambda>(k, r). map_option cva_Version (map_of ovs k) = Some (cva_Version r)) rvs
     \<and> list_all (\<lambda>(k, r). case map_of ogs k of None \<Rightarrow> False | Some og \<Rightarrow> reads og r) rgs"

section \<open>Maps as association lists\<close>

lemma same_map_iff: "distinct (map fst xs) \<Longrightarrow> same_map R xs ys \<longleftrightarrow> (\<forall>k. rel_option R (map_of xs k) (map_of ys k))"
proof
  assume d: "distinct (map fst xs)" and s: "same_map R xs ys"
  show "\<forall>k. rel_option R (map_of xs k) (map_of ys k)"
  proof
    fix k
    show "rel_option R (map_of xs k) (map_of ys k)"
    proof (cases "map_of xs k")
      case None
      then have "k \<notin> set (map fst ys)" using s by (simp add: map_of_eq_None_iff same_map_def)
      then have "map_of ys k = None" by (simp add: map_of_eq_None_iff)
      with None show ?thesis by simp
    next
      case (Some x)
      then have "(k, x) \<in> set xs" by (rule map_of_SomeD)
      then show ?thesis using s Some by (auto simp: same_map_def list_all_iff split: option.splits)
    qed
  qed
next
  assume d: "distinct (map fst xs)" and r: "\<forall>k. rel_option R (map_of xs k) (map_of ys k)"
  have "map_of xs k = None \<longleftrightarrow> map_of ys k = None" for k
    using r [rule_format, of k] by (cases "map_of xs k"; cases "map_of ys k") auto
  then have "set (map fst xs) = set (map fst ys)" by (auto simp: map_of_eq_None_iff)
  moreover have "case map_of ys k of None \<Rightarrow> False | Some y \<Rightarrow> R x y" if "(k, x) \<in> set xs" for k x
    using r [rule_format, of k] map_of_is_SomeI [OF d that] by (cases "map_of ys k") auto
  ultimately show "same_map R xs ys" by (auto simp: same_map_def list_all_iff)
qed

lemma map_of_keep:
  "distinct (map fst xs) \<Longrightarrow> map_of (List.map_filter (\<lambda>(k, x). map_option (Pair k) (f k x)) xs) k = Option.bind (map_of xs k) (f k)"
proof (induction xs)
  case (Cons a xs)
  obtain j x where a: "a = (j, x)" by (cases a)
  have n: "map_of xs j = None" using Cons.prems a by (simp add: map_of_eq_None_iff)
  show ?case
    using Cons n a by (cases "f j x") (auto simp: List.map_filter_def)
qed (simp add: List.map_filter_def)

lemma keys_keep: "fst ` set (List.map_filter (\<lambda>(k, x). map_option (Pair k) (f k x)) xs) \<subseteq> fst ` set xs"
  by (force simp: List.map_filter_def)

lemma map_of_mapk: "map_of (map (\<lambda>(k, x). (k, f k x)) xs) k = map_option (f k) (map_of xs k)"
  by (induction xs) auto

lemma same_config_iff:
  "same_config (ConfigGroup ov om ops ovs ogs) (ConfigGroup uv um ups uvs ugs) \<longleftrightarrow> om = um
     \<and> same_map same_policy ops ups \<and> same_map same_value ovs uvs \<and> same_map same_config ogs ugs"
  by (simp add: same_map_def)

declare same_config.simps [simp del] same_config_iff [simp]

section \<open>Entries\<close>

lemma distinct_keep:
  "distinct (map fst xs) \<Longrightarrow> distinct (map fst (List.map_filter (\<lambda>(k, x). map_option (Pair k) (f k x)) xs))"
proof (induction xs)
  case (Cons a xs)
  obtain j x where a: "a = (j, x)" by (cases a)
  show ?case using Cons keys_keep [of f xs] a by (cases "f j x") (auto simp: List.map_filter_simps)
qed (simp add: List.map_filter_simps)

declare computeGroupUpdate.simps [simp del]

text \<open>
  The loops in general: \<open>chg\<close> makes the entry of a modified element, \<open>new\<close> that of a new one and \<open>stub\<close> that of one
  that is the same.
\<close>

definition diff_entries :: "('e \<Rightarrow> 'e \<Rightarrow> bool) \<Rightarrow> ('e \<Rightarrow> 'e \<Rightarrow> 'e) \<Rightarrow> ('e \<Rightarrow> 'e) \<Rightarrow> ('e \<Rightarrow> 'e \<Rightarrow> 'e)
    \<Rightarrow> (string \<times> 'e) list \<Rightarrow> (string \<times> 'e) list \<Rightarrow> (string \<times> 'e) list \<times> (string \<times> 'e) list \<times> bool" where
  "diff_entries same chg new stub original updated =
    (List.map_filter (\<lambda>(k, oe). map_option (Pair k) (case map_of updated k of
         None \<Rightarrow> None | Some ue \<Rightarrow> if same oe ue then None else Some (chg oe ue))) original
     @ List.map_filter (\<lambda>(k, ue). map_option (Pair k) (if k \<in> set (map fst original) then None else Some (new ue))) updated,
     List.map_filter (\<lambda>(k, oe). map_option (Pair k) (case map_of updated k of
         None \<Rightarrow> None | Some ue \<Rightarrow> if same oe ue then Some (stub oe ue) else None)) original,
     \<not> set (map fst original) \<subseteq> set (map fst updated) \<or> \<not> set (map fst updated) \<subseteq> set (map fst original))"

lemma elems_update_diff:
  "elems_update same stub copy ver = diff_entries same (\<lambda>oe ue. copy (ver oe + 1) ue) (copy 0) (\<lambda>oe ue. stub oe)"
  by (simp add: fun_eq_iff elems_update_def diff_entries_def)

lemma diff_entries_lookup:
  assumes "diff_entries same chg new stub original updated = (w, s, m)"
    and "distinct (map fst original)" "distinct (map fst updated)"
  shows "map_of w k = (case map_of updated k of None \<Rightarrow> None | Some ue \<Rightarrow> (case map_of original k of
       None \<Rightarrow> Some (new ue) | Some oe \<Rightarrow> if same oe ue then None else Some (chg oe ue)))"
    and "map_of s k = (case map_of updated k of None \<Rightarrow> None | Some ue \<Rightarrow> (case map_of original k of
       None \<Rightarrow> None | Some oe \<Rightarrow> if same oe ue then Some (stub oe ue) else None))"
    and "m \<longleftrightarrow> (\<exists>j. (map_of original j = None) \<noteq> (map_of updated j = None))"
    and "distinct (map fst (w @ s))"
proof -
  let ?f = "\<lambda>k oe. case map_of updated k of None \<Rightarrow> None | Some ue \<Rightarrow> if same oe ue then None else Some (chg oe ue)"
  let ?g = "\<lambda>k ue. if k \<in> set (map fst original) then None else Some (new ue)"
  let ?h = "\<lambda>k oe. case map_of updated k of None \<Rightarrow> None | Some ue \<Rightarrow> if same oe ue then Some (stub oe ue) else None"
  let ?w1 = "List.map_filter (\<lambda>(k, oe). map_option (Pair k) (?f k oe)) original"
  let ?w2 = "List.map_filter (\<lambda>(k, ue). map_option (Pair k) (?g k ue)) updated"
  have w: "w = ?w1 @ ?w2" and s: "s = List.map_filter (\<lambda>(k, oe). map_option (Pair k) (?h k oe)) original"
    and m: "m \<longleftrightarrow> set (map fst original) \<noteq> set (map fst updated)"
    using assms(1) unfolding diff_entries_def by auto
  have look: "map_of ?w1 j = Option.bind (map_of original j) (?f j)" "map_of ?w2 j = Option.bind (map_of updated j) (?g j)"
    "map_of s j = Option.bind (map_of original j) (?h j)" for j
    unfolding s by (rule map_of_keep [OF assms(2)] map_of_keep [OF assms(3)])+
  have mem: "j \<in> set (map fst original) \<longleftrightarrow> map_of original j \<noteq> None" for j by (simp add: map_of_eq_None_iff)
  show "map_of w k = (case map_of updated k of None \<Rightarrow> None | Some ue \<Rightarrow> (case map_of original k of
       None \<Rightarrow> Some (new ue) | Some oe \<Rightarrow> if same oe ue then None else Some (chg oe ue)))"
    unfolding w map_of_append map_add_def look unfolding mem by (cases "map_of updated k"; cases "map_of original k") auto
  show "map_of s k = (case map_of updated k of None \<Rightarrow> None | Some ue \<Rightarrow> (case map_of original k of
       None \<Rightarrow> None | Some oe \<Rightarrow> if same oe ue then Some (stub oe ue) else None))"
    unfolding look by (cases "map_of updated k"; cases "map_of original k") auto
  show "m \<longleftrightarrow> (\<exists>j. (map_of original j = None) \<noteq> (map_of updated j = None))"
    unfolding m set_eq_iff by (simp add: map_of_eq_None_iff)
  have "map_of ?w1 j = None \<or> map_of ?w2 j = None \<and> map_of s j = None" "map_of ?w2 j = None \<or> map_of s j = None" for j
    unfolding look unfolding mem by (cases "map_of updated j"; cases "map_of original j"; simp)+
  then have "set (map fst ?w1) \<inter> set (map fst ?w2) = {}" "set (map fst w) \<inter> set (map fst s) = {}"
    unfolding w map_of_eq_None_iff by (auto simp: disjoint_iff)
  then show "distinct (map fst (w @ s))"
    using distinct_keep [OF assms(2), of ?f] distinct_keep [OF assms(3), of ?g] distinct_keep [OF assms(2), of ?h]
    unfolding w s map_append distinct_append by blast
qed

lemma map_of_apply_map:
  "map_of (apply_map app b cur ws) k =
    (if b then map_option (\<lambda>c. case map_of ws k of None \<Rightarrow> c | Some w \<Rightarrow> app c w) (map_of cur k)
     else map_option (\<lambda>w. case map_of cur k of None \<Rightarrow> w | Some c \<Rightarrow> app c w) (map_of ws k))"
  by (simp add: apply_map_def map_of_mapk)

lemma distinct_apply_map:
  "distinct (map fst cur) \<Longrightarrow> distinct (map fst ws) \<Longrightarrow> distinct (map fst (apply_map app b cur ws))"
  by (simp add: apply_map_def comp_def case_prod_beta)

text \<open>Applying the computed entries gives the updated ones.\<close>

lemma apply_diff:
  assumes "diff_entries same chg new stub original updated = (w, s, m)"
    and d: "distinct (map fst original)" "distinct (map fst updated)"
    and c: "\<And>k oe ue. map_of original k = Some oe \<Longrightarrow> map_of updated k = Some ue \<Longrightarrow> \<not> same oe ue \<Longrightarrow> R (app oe (chg oe ue)) ue"
    and t: "\<And>k oe ue. map_of original k = Some oe \<Longrightarrow> map_of updated k = Some ue \<Longrightarrow> same oe ue \<Longrightarrow> R oe ue \<and> R (app oe (stub oe ue)) ue"
    and n: "\<And>k ue. map_of updated k = Some ue \<Longrightarrow> R (new ue) ue"
    and b: "b \<Longrightarrow> \<not> m"
  shows "same_map R (apply_map app b original (if b then w else w @ s)) updated"
proof -
  note l = diff_entries_lookup [OF assms(1) d]
  let ?ws = "if b then w else w @ s"
  have "distinct (map fst ?ws)" using l(4) by simp
  then have "distinct (map fst (apply_map app b original ?ws))" using d(1) by (rule distinct_apply_map [rotated])
  moreover have "rel_option R (map_of (apply_map app b original ?ws) k) (map_of updated k)" for k
  proof (cases b)
    case True
    then have "(map_of original k = None) = (map_of updated k = None)" using b l(3) by blast
    then show ?thesis
      using True unfolding map_of_apply_map
      by (cases "map_of original k"; cases "map_of updated k") (auto simp: l(1) intro: c dest: t)
  next
    case False
    then show ?thesis
      unfolding map_of_apply_map
      by (cases "map_of original k"; cases "map_of updated k")
        (auto simp: map_add_def l(1,2) intro: c n dest: t split: option.splits)
  qed
  ultimately show ?thesis by (simp add: same_map_iff)
qed

text \<open>Nothing to write and no change of the keys: that is, the entries are the same.\<close>

lemma diff_none:
  assumes "diff_entries same chg new stub original updated = (w, s, m)"
    and d: "distinct (map fst original)" "distinct (map fst updated)"
  shows "\<not> m \<and> w = [] \<longleftrightarrow> same_map same original updated"
proof -
  note l = diff_entries_lookup [OF assms(1) d]
  have "w = [] \<longleftrightarrow> (\<forall>k. map_of w k = None)" by (cases w) (auto simp: fun_eq_iff split: if_splits)
  moreover have "\<not> m \<longleftrightarrow> (\<forall>k. (map_of original k = None) = (map_of updated k = None))" using l(3) by blast
  moreover have "(map_of original k = None) = (map_of updated k = None) \<and> map_of w k = None
      \<longleftrightarrow> rel_option same (map_of original k) (map_of updated k)" for k
    by (cases "map_of original k"; cases "map_of updated k") (auto simp: l(1))
  ultimately show ?thesis unfolding same_map_iff [OF d(1)] by blast
qed

text \<open>The entries that are the same are entries of the original.\<close>

lemma diff_same_reads:
  assumes "diff_entries same chg new stub original updated = (w, s, m)"
    and d: "distinct (map fst original)" "distinct (map fst updated)"
    and "(k, r) \<in> set s"
  obtains oe ue where "map_of original k = Some oe" "map_of updated k = Some ue" "same oe ue" "r = stub oe ue"
proof -
  note l = diff_entries_lookup [OF assms(1) d]
  have "distinct (map fst s)" using l(4) by simp
  then have "map_of s k = Some r" using assms(4) by (rule map_of_is_SomeI)
  then show ?thesis using that unfolding l(2) by (auto split: option.splits if_splits)
qed

section \<open>Groups\<close>

abbreviation rset :: "'p ConfigGroup \<Rightarrow> 'p ConfigGroup \<Rightarrow> 'p ConfigGroup" where
  "rset og ug \<equiv> fst (computeGroupUpdate og ug)"

abbreviation wset :: "'p ConfigGroup \<Rightarrow> 'p ConfigGroup \<Rightarrow> 'p ConfigGroup" where
  "wset og ug \<equiv> fst (snd (computeGroupUpdate og ug))"

abbreviation unchanged :: "'p ConfigGroup \<Rightarrow> 'p ConfigGroup \<Rightarrow> bool" where
  "unchanged og ug \<equiv> \<not> snd (snd (computeGroupUpdate og ug))"

definition new_group :: "'p ConfigGroup \<Rightarrow> 'p ConfigGroup" where
  "new_group ug = ConfigGroup 0 (cg_ModPolicy ug) (cg_Policies (wset NewConfigGroup ug)) (cg_Values (wset NewConfigGroup ug))
     (cg_Groups (wset NewConfigGroup ug))"

lemma original_groups_eq:
  "original_groups os us =
    (List.map_filter (\<lambda>(k, oe). map_option (Pair k) (case map_of us k of None \<Rightarrow> None
        | Some ue \<Rightarrow> if unchanged oe ue then None else Some (rset oe ue))) os,
     List.map_filter (\<lambda>(k, oe). map_option (Pair k) (case map_of us k of None \<Rightarrow> None
        | Some ue \<Rightarrow> if unchanged oe ue then None else Some (wset oe ue))) os,
     List.map_filter (\<lambda>(k, oe). map_option (Pair k) (case map_of us k of None \<Rightarrow> None
        | Some ue \<Rightarrow> if unchanged oe ue then Some (rset oe ue) else None)) os,
     \<exists>k \<in> set (map fst os). map_of us k = None)"
proof (induction os)
  case (Cons a os)
  obtain k og where a: "a = (k, og)" by (cases a)
  show ?case
    by (cases "map_of us k") (auto simp: a Cons List.map_filter_simps case_prod_beta)
qed (simp add: List.map_filter_simps)

lemma added_groups_eq:
  "added_groups ks us =
    (List.map_filter (\<lambda>(k, ue). map_option (Pair k) (if k \<in> set ks then None else Some (new_group ue))) us,
     \<not> set (map fst us) \<subseteq> set ks)"
proof (induction us)
  case (Cons a us)
  obtain k ug where a: "a = (k, ug)" by (cases a)
  show ?case by (simp add: a Cons List.map_filter_simps new_group_def case_prod_beta)
qed (simp add: List.map_filter_simps)

lemma groups_diff:
  assumes "original_groups os us = (r, w1, s, m1)" "added_groups (map fst os) us = (w2, m2)"
  shows "diff_entries unchanged wset new_group rset os us = (w1 @ w2, s, m1 \<or> m2)"
  using assms unfolding original_groups_eq added_groups_eq diff_entries_def
  by (auto simp: map_of_eq_None_iff)

text \<open>The entries of the read set that are modified groups.\<close>

lemma original_groups_reads:
  assumes "original_groups os us = (r, w1, s, m1)" "(k, g) \<in> set r" "distinct (map fst os)"
  obtains og ug where "map_of os k = Some og" "map_of us k = Some ug" "g = rset og ug"
proof -
  obtain og ug where "(k, og) \<in> set os" "map_of us k = Some ug" "g = rset og ug"
    using assms(1,2) unfolding original_groups_eq
    by (auto simp: List.map_filter_def split: option.splits if_splits)
  then show ?thesis using that assms(3) by simp
qed

text \<open>What is shown of every group, by induction on the size of the updated one.\<close>

definition update_ok :: "'p ConfigGroup \<Rightarrow> 'p ConfigGroup \<Rightarrow> bool" where
  "update_ok og ug \<longleftrightarrow> (case computeGroupUpdate og ug of (r, w, changed) \<Rightarrow>
     same_config (apply_group og w) ug \<and> (changed \<longleftrightarrow> \<not> same_config og ug) \<and> reads og r \<and> (\<not> changed \<longrightarrow> r = w)
     \<and> (og = NewConfigGroup \<longrightarrow> cg_Version w \<noteq> 0 \<or> cg_Policies w = [] \<and> cg_Values w = [] \<and> cg_Groups w = []))"

lemma apply_group_map:
  "apply_group (ConfigGroup cv cm cps cvs cgs) (ConfigGroup wv wm wps wvs wgs) =
    ConfigGroup wv (if wv = cv then cm else wm) (apply_map (apply_elem cpo_Version) (wv = cv) cps wps)
      (apply_map (apply_elem cva_Version) (wv = cv) cvs wvs) (apply_map apply_group (wv = cv) cgs wgs)"
  by (simp add: apply_map_def)

lemma apply_map_none [simp]: "apply_map app True cur [] = cur" "apply_map app False [] ws = ws"
  by (induction cur) (auto simp: apply_map_def)

lemma new_group_ok:
  assumes "update_ok NewConfigGroup ug"
  shows "same_config (new_group ug) ug"
proof -
  obtain r w changed where c: "computeGroupUpdate NewConfigGroup ug = (r, w, changed)" by (cases "computeGroupUpdate NewConfigGroup ug")
  obtain v m ps vs gs where w: "w = ConfigGroup v m ps vs gs" by (cases w)
  obtain v' m' ps' vs' gs' where u: "ug = ConfigGroup v' m' ps' vs' gs'" by (cases ug)
  have n: "new_group ug = ConfigGroup 0 m' ps vs gs" unfolding new_group_def c by (simp add: w u)
  have "same_config (apply_group NewConfigGroup w) ug" "v \<noteq> 0 \<or> ps = [] \<and> vs = [] \<and> gs = []"
    using assms c w by (auto simp: update_ok_def)
  then show ?thesis
    unfolding n by (cases "v = 0") (auto simp: w u NewConfigGroup_def apply_group_map simp del: apply_group.simps)
qed

lemma original_groups_keys: "original_groups os us = (r, w, s, m) \<Longrightarrow> map fst r = map fst w"
proof (induction os arbitrary: r w s m)
  case (Cons a os)
  obtain k og where a: "a = (k, og)" by (cases a)
  obtain r' w' s' m' where o: "original_groups os us = (r', w', s', m')" by (cases "original_groups os us")
  show ?case using Cons.prems Cons.IH [OF o]
    by (auto simp: a o split: option.splits prod.splits if_splits)
qed simp

lemma diff_same_versions:
  assumes "diff_entries same chg new (\<lambda>oe ue. stub oe) original updated = (w, s, m)" "distinct (map fst original)"
    "distinct (map fst updated)" "\<And>oe. ver (stub oe) = ver oe"
  shows "list_all (\<lambda>(k, r). map_option ver (map_of original k) = Some (ver r)) s"
  unfolding list_all_iff using assms(4) by (auto elim: diff_same_reads [OF assms(1-3)])

lemma diff_empty: "diff_entries same chg new stub [] updated = (w, s, False) \<Longrightarrow> w = []"
  by (auto simp: diff_entries_def List.map_filter_simps)

lemma update_ok_all: "wf_group og \<Longrightarrow> wf_group ug \<Longrightarrow> update_ok og ug"
proof (induction ug arbitrary: og rule: measure_induct_rule [of size])
  case (less u oo)
  obtain ov om ops ovs ogs where o: "oo = ConfigGroup ov om ops ovs ogs" by (cases oo)
  obtain uv um ups uvs ugs where u: "u = ConfigGroup uv um ups uvs ugs" by (cases u)
  have d: "distinct (map fst ops)" "distinct (map fst ovs)" "distinct (map fst ogs)" "distinct (map fst ups)"
    "distinct (map fst uvs)" "distinct (map fst ugs)"
    using less.prems by (simp_all add: o u)
  obtain wp sp pm where p: "computePoliciesMapUpdate ops ups = ([], wp, sp, pm)"
    by (cases "computePoliciesMapUpdate ops ups") (auto simp: computePoliciesMapUpdate_def)
  obtain wv sv vm where v: "computeValuesMapUpdate ovs uvs = ([], wv, sv, vm)"
    by (cases "computeValuesMapUpdate ovs uvs") (auto simp: computeValuesMapUpdate_def)
  obtain rg w1 sg m1 where g1: "original_groups ogs ugs = (rg, w1, sg, m1)" by (cases "original_groups ogs ugs")
  obtain w2 m2 where g2: "added_groups (map fst ogs) ugs = (w2, m2)" by (cases "added_groups (map fst ogs) ugs")
  note dp = p [unfolded computePoliciesMapUpdate_def elems_update_diff same_policy_def [symmetric] prod.inject, THEN conjunct2]
  note dv = v [unfolded computeValuesMapUpdate_def elems_update_diff same_value_def [symmetric] prod.inject, THEN conjunct2]
  note dg = groups_diff [OF g1 g2]
  have sub: "update_ok g ug" if "map_of ugs k = Some ug" "wf_group g" for k ug g
  proof (rule less.IH)
    have "(k, ug) \<in> set ugs" using that(1) by (rule map_of_SomeD)
    then show "size ug < size u" "wf_group ug" using less.prems(2) pair_size [of k ug ugs] by (auto simp: u list_all_iff)
  qed (rule that(2))
  have wo: "wf_group g" if "map_of ogs k = Some g" for k g
    using less.prems(1) map_of_SomeD [OF that] by (auto simp: o list_all_iff)
  let ?b = "\<not> (pm \<or> vm \<or> (m1 \<or> m2) \<or> om \<noteq> um)"
  let ?wg = "w1 @ w2"
  have pol: "same_map same_policy (apply_map (apply_elem cpo_Version) ?b ops (if ?b then wp else wp @ sp)) ups"
    by (rule apply_diff [OF dp d(1,4)]) (auto simp: apply_elem_def same_policy_def)
  have val: "same_map same_value (apply_map (apply_elem cva_Version) ?b ovs (if ?b then wv else wv @ sv)) uvs"
    by (rule apply_diff [OF dv d(2,5)]) (auto simp: apply_elem_def same_value_def)
  have same: "unchanged og ug \<longleftrightarrow> same_config og ug" "same_config og ug \<longrightarrow> same_config (apply_group og (rset og ug)) ug"
    "same_config (apply_group og (wset og ug)) ug" "reads og (rset og ug)"
    if "map_of ogs k = Some og" "map_of ugs k = Some ug" for k og ug
    using sub [OF that(2) wo [OF that(1)]] by (auto simp: update_ok_def split: prod.splits)
  have grp: "same_map same_config (apply_map apply_group ?b ogs (if ?b then ?wg else ?wg @ sg)) ugs"
    by (rule apply_diff [OF dg d(3,6)])
      (use same sub [THEN new_group_ok] in \<open>auto simp: NewConfigGroup_def\<close>)
  have none: "same_config oo u \<longleftrightarrow> ?b \<and> wp = [] \<and> wv = [] \<and> ?wg = []"
  proof -
    have "rel_option unchanged (map_of ogs k) (map_of ugs k) \<longleftrightarrow> rel_option same_config (map_of ogs k) (map_of ugs k)" for k
      using same(1) [of k] by (cases "map_of ogs k"; cases "map_of ugs k") auto
    then have "same_map same_config ogs ugs \<longleftrightarrow> same_map unchanged ogs ugs" using d(3) by (simp add: same_map_iff)
    then show ?thesis
      using diff_none [OF dp d(1,4)] diff_none [OF dv d(2,5)] diff_none [OF dg d(3,6)] by (auto simp: o u)
  qed
  have rd1: "list_all (\<lambda>(k, r). map_option cpo_Version (map_of ops k) = Some (cpo_Version r)) sp"
    by (rule diff_same_versions [OF dp d(1,4)]) simp
  have rd2: "list_all (\<lambda>(k, r). map_option cva_Version (map_of ovs k) = Some (cva_Version r)) sv"
    by (rule diff_same_versions [OF dv d(2,5)]) simp
  have "case map_of ogs k of None \<Rightarrow> False | Some og \<Rightarrow> reads og r" if "(k, r) \<in> set rg" for k r
    by (rule original_groups_reads [OF g1 that d(3)]) (simp add: same(4))
  moreover have "case map_of ogs k of None \<Rightarrow> False | Some og \<Rightarrow> reads og r" if "(k, r) \<in> set sg" for k r
    by (rule diff_same_reads [OF dg d(3,6) that]) (simp add: same(4))
  ultimately have rd3: "list_all (\<lambda>(k, r). case map_of ogs k of None \<Rightarrow> False | Some og \<Rightarrow> reads og r) (rg @ sg)"
    by (auto simp: list_all_iff)
  note rd = rd1 rd2 rd3
  have rw: "rg = [] \<longleftrightarrow> w1 = []" using original_groups_keys [OF g1] by (metis map_is_Nil_conv)
  have new: "wp = [] \<and> wv = [] \<and> ?wg = []" if "oo = NewConfigGroup" ?b
    using that dp dv dg by (auto simp: o NewConfigGroup_def dest: diff_empty)
  consider (eq) "?b" "wp = []" "wv = []" "?wg = []" | (inner) "?b" "\<not> (wp = [] \<and> wv = [] \<and> ?wg = [])" | (bump) "\<not> ?b" by blast
  then show ?case
  proof cases
    case eq
    then have "computeGroupUpdate oo u = (ConfigGroup ov [] [] [] [], ConfigGroup ov [] [] [] [], False)"
      using rw by (simp add: o u computeGroupUpdate.simps p v g1 g2)
    moreover have "same_config oo u" using none eq by blast
    ultimately show ?thesis by (simp add: update_ok_def o apply_group_map del: apply_group.simps)
  next
    case inner
    then have "computeGroupUpdate oo u = (ConfigGroup ov [] [] [] rg, ConfigGroup ov [] wp wv ?wg, True)"
      using rw by (auto simp: o u computeGroupUpdate.simps p v g1 g2)
    moreover have "\<not> same_config oo u" "oo \<noteq> NewConfigGroup" using none inner new by blast+
    ultimately show ?thesis
      using inner pol val grp rd by (auto simp: update_ok_def o u apply_group_map simp del: apply_group.simps)
  next
    case bump
    then have "computeGroupUpdate oo u = (ConfigGroup ov [] sp sv (rg @ sg), ConfigGroup (ov + 1) um (wp @ sp) (wv @ sv) (?wg @ sg), True)"
      by (auto simp: o u computeGroupUpdate.simps p v g1 g2 Let_def)
    moreover have "\<not> same_config oo u" using none bump by blast
    ultimately show ?thesis
      using bump pol val grp rd by (auto simp: update_ok_def o u apply_group_map NewConfigGroup_def simp del: apply_group.simps)
  qed
qed

section \<open>The computed update\<close>

text \<open>
  C34: The computed update is right: for two configurations without repeated keys, \<open>Compute\<close> fails, with the error
  that there is no difference, exactly when they are the same up to version numbers; otherwise applying the
  write set to the original configuration, as a peer does, gives the updated one up to version numbers, and
  every entry of the read set is an entry of the original with the version it has there.
\<close>

theorem computed_update_correct:
  assumes "wf_group og" "wf_group ug"
  shows "case Compute (Some og) (Some ug) of
     Inl e \<Rightarrow> e = errorNew ''no differences detected between original and updated config'' \<and> same_config og ug
   | Inr cu \<Rightarrow> \<not> same_config og ug \<and> same_config (apply_group og (cu_WriteSet cu)) ug \<and> reads og (cu_ReadSet cu)"
  using update_ok_all [OF assms] by (auto simp: Compute_def update_ok_def split: prod.splits)

theorem computed_update_correct_witness:
  defines "og \<equiv> ConfigGroup 3 ''Admins'' [(''Writers'', \<lparr>cpo_Version = 1, cpo_ModPolicy = ''Admins'', cpo_Policy = Some (0::nat)\<rparr>)]
      [(''Capabilities'', \<lparr>cva_Version = 0, cva_ModPolicy = ''Admins'', cva_Value = [1, 2]\<rparr>)]
      [(''Org1'', ConfigGroup 5 ''Admins'' [] [(''MSP'', \<lparr>cva_Version = 7, cva_ModPolicy = ''Admins'', cva_Value = [9]\<rparr>)] []),
       (''Org2'', NewConfigGroup)]"
    and "ug \<equiv> ConfigGroup 3 ''Admins'' [(''Writers'', \<lparr>cpo_Version = 1, cpo_ModPolicy = ''Admins'', cpo_Policy = Some (1::nat)\<rparr>)]
      [(''Capabilities'', \<lparr>cva_Version = 0, cva_ModPolicy = ''Admins'', cva_Value = [1, 2]\<rparr>)]
      [(''Org3'', NewConfigGroup),
       (''Org1'', ConfigGroup 5 ''Admins'' [] [(''MSP'', \<lparr>cva_Version = 7, cva_ModPolicy = ''Admins'', cva_Value = [8]\<rparr>)] [])]"
  shows "\<not> same_config og ug \<and> (case Compute (Some og) (Some ug) of Inl e \<Rightarrow> False
     | Inr cu \<Rightarrow> same_config (apply_group og (cu_WriteSet cu)) ug \<and> cg_Version (cu_WriteSet cu) = 4)"
proof -
  have w: "wf_group og" "wf_group ug" by (simp_all add: og_def ug_def NewConfigGroup_def)
  have "case Compute (Some og) (Some ug) of Inl e \<Rightarrow> False | Inr cu \<Rightarrow> cg_Version (cu_WriteSet cu) = 4"
    unfolding og_def ug_def by code_simp
  then show ?thesis using computed_update_correct [OF w] by (cases "Compute (Some og) (Some ug)") auto
qed

end
