(* ===== verification/Connector.thy ===== *)
theory Connector
  imports Prelude
begin

text \<open>
  The caching connector (pkg/fab/comm/connector.go): connections shared by target, counted by their users,
  and a janitor goroutine that closes those that nobody uses. The functions below are the sections of the
  code that run under the lock, or between two waits; the goroutines interleave at these points.

  A cached connection and its gRPC connection are made together and never exchanged, so both have the same
  identity. The state of a gRPC connection is the environment's, except that closing it shuts it down.
\<close>

section \<open>State\<close>

datatype conn_state = Conn_Idle | Conn_Connecting | Conn_Ready | Conn_TransientFailure | Conn_Shutdown

type_synonym connid = nat

record cachedConn =
  con_target :: string
  con_open :: int
  con_lastClose :: int

text \<open>
  A goroutine that uses the connector: in \<open>DialContext\<close> it waits for its connection, has seen it ready, or has
  seen it fail; then it holds the connection until it releases it. In \<open>Close\<close> it stands before the select
  statement, the send on \<open>janitorDone\<close>, the wait for the janitors, or the final section.
\<close>

datatype caller =
  Dialing connid | Dialed connid | DialFailed connid goerr | Holding connid | Failed goerr | Released
| CloseSelect | CloseSend | CloseWait | CloseFlush | CloseReturned

text \<open>
  A janitor evaluates \<open>cc.janitorDone\<close> when it enters its select statement: \<open>JSelect True\<close> has seen the channel,
  \<open>JSelect False\<close> has seen nil. \<open>JExit\<close> has found no connection and is about to announce it.
\<close>

datatype janitor = JTop | JSelect bool | JExit

record connector =
  conns :: "string \<rightharpoonup> connid"
  cindex :: "connid list"
  cobj :: "connid \<Rightarrow> cachedConn"
  idleTime :: int
  janitorDone :: "nat option"
  janitorClosed :: nat
  janitorClosed_closed :: bool
  waitgroup :: nat
  gstate :: "connid \<Rightarrow> conn_state"
  gnext :: connid
  time_now :: int
  callers :: "caller list"
  janitors :: "janitor list"
  panicked :: bool

definition NewCachingConnector :: "int \<Rightarrow> connector" where
  "NewCachingConnector idle = \<lparr>conns = (\<lambda>_. None), cindex = [],
     cobj = (\<lambda>_. \<lparr>con_target = [], con_open = 0, con_lastClose = 0\<rparr>), idleTime = idle, janitorDone = Some 0,
     janitorClosed = 1, janitorClosed_closed = False, waitgroup = 0, gstate = (\<lambda>_. Conn_Idle), gnext = 0,
     time_now = 1, callers = [], janitors = [], panicked = False\<rparr>"

section \<open>Operations\<close>

text \<open>A receive from the closed channel succeeds at once.\<close>

definition ensureJanitorStarted :: "connector \<Rightarrow> connector" where
  "ensureJanitorStarted cc =
     (if janitorClosed cc > 0
      then cc\<lparr>janitorClosed := janitorClosed cc - 1, waitgroup := waitgroup cc + 1, janitors := janitors cc @ [JTop]\<rparr>
      else if janitorClosed_closed cc
      then cc\<lparr>waitgroup := waitgroup cc + 1, janitors := janitors cc @ [JTop]\<rparr>
      else cc)"

definition shutdownConn :: "connid \<Rightarrow> connector \<Rightarrow> connector" where
  "shutdownConn c cc =
     (if janitorDone cc = None then cc
      else ensureJanitorStarted (cc\<lparr>conns := (conns cc)(con_target (cobj cc c) := None), cindex := removeAll c (cindex cc)\<rparr>))"

definition loadConn :: "string \<Rightarrow> connector \<Rightarrow> connid option \<times> connector" where
  "loadConn target cc = (case conns cc target of
     Some c \<Rightarrow> if gstate cc c \<noteq> Conn_Shutdown
       then (Some c, cc\<lparr>cobj := (cobj cc)(c := (cobj cc c)\<lparr>con_open := con_open (cobj cc c) + 1\<rparr>)\<rparr>)
       else (None, shutdownConn c cc)
   | None \<Rightarrow> (None, cc))"

text \<open>\<open>dial\<close> is the result of \<open>grpc.DialContext\<close>: an error, or a new connection in a first state.\<close>

definition createConn :: "string \<Rightarrow> goerr + conn_state \<Rightarrow> connector \<Rightarrow> (goerr + connid) \<times> connector" where
  "createConn target dial cc =
     (if janitorDone cc = None then (Inl (errorNew ''caching connector is closed''), cc)
      else (case loadConn target cc of
        (Some c, cc1) \<Rightarrow> (Inr c, cc1)
      | (None, cc1) \<Rightarrow> (case dial of
          Inl err \<Rightarrow> (Inl (withMessage err ''dialing node failed''), cc1)
        | Inr st \<Rightarrow> (Inr (gnext cc1),
            cc1\<lparr>gstate := (gstate cc1)(gnext cc1 := st), gnext := gnext cc1 + 1,
                cobj := (cobj cc1)(gnext cc1 := \<lparr>con_target = target, con_open = 1, con_lastClose = 0\<rparr>),
                conns := (conns cc1)(target \<mapsto> gnext cc1), cindex := cindex cc1 @ [gnext cc1]\<rparr>))))"

text \<open>
  The loop of \<open>waitConn\<close> for the state ready: it returns without an error or with one, or it goes on waiting.
\<close>

definition waitConn :: "conn_state \<Rightarrow> bool \<Rightarrow> goerr option option" where
  "waitConn state ctx_done =
     (if state = Conn_Ready then Some None
      else if state = Conn_TransientFailure then Some (Some (ErrorF ''connection is in %s'' [FS ''TRANSIENT_FAILURE'']))
      else if ctx_done then Some (Some (withMessage (ExtErr ''context'') ''waiting for connection failed''))
      else None)"

definition setClosed :: "connid \<Rightarrow> connector \<Rightarrow> connector" where
  "setClosed c cc =
     (if con_open (cobj cc c) > 0
      then cc\<lparr>cobj := (cobj cc)(c := (cobj cc c)\<lparr>con_lastClose := time_now cc, con_open := con_open (cobj cc c) - 1\<rparr>)\<rparr>
      else cc)"

definition conn_Close :: "connid \<Rightarrow> connector \<Rightarrow> connector" where
  "conn_Close c cc = cc\<lparr>gstate := (gstate cc)(c := Conn_Shutdown)\<rparr>"

definition removeConn :: "connid \<Rightarrow> connector \<Rightarrow> connector" where
  "removeConn c cc =
     conn_Close c (cc\<lparr>cindex := removeAll c (cindex cc), conns := (conns cc)(con_target (cobj cc c) := None)\<rparr>)"

definition ReleaseConn :: "connid \<Rightarrow> connector \<Rightarrow> connector" where
  "ReleaseConn c cc =
     (if janitorDone cc = None then (if gstate cc c \<noteq> Conn_Shutdown then conn_Close c cc else cc)
      else if c \<notin> set (cindex cc) then cc
      else ensureJanitorStarted (setClosed c cc))"

definition sweep_one :: "connid \<Rightarrow> connector \<Rightarrow> connector" where
  "sweep_one c cc =
     (if con_open (cobj cc c) = 0 \<and> time_now cc > con_lastClose (cobj cc c) + idleTime cc then removeConn c cc
      else if gstate cc c = Conn_Shutdown then removeConn c cc
      else cc)"

definition sweepAndRemove :: "connector \<Rightarrow> connector" where
  "sweepAndRemove cc = fold sweep_one (cindex cc) cc"

definition flush :: "connector \<Rightarrow> connector" where
  "flush cc = fold conn_Close (cindex cc) cc"

section \<open>Goroutines\<close>

text \<open>A call of \<open>DialContext\<close> up to its wait.\<close>

definition DialContext :: "string \<Rightarrow> goerr + conn_state \<Rightarrow> connector \<Rightarrow> connector" where
  "DialContext target dial cc = (case createConn target dial cc of
     (Inl err, cc1) \<Rightarrow> cc1\<lparr>callers := callers cc1 @ [Failed (withMessage err ''connection creation failed'')]\<rparr>
   | (Inr c, cc1) \<Rightarrow> cc1\<lparr>callers := callers cc1 @ [Dialing c]\<rparr>)"

text \<open>A call of \<open>Close\<close> up to its select statement.\<close>

definition Close :: "connector \<Rightarrow> connector" where
  "Close cc = cc\<lparr>callers := callers cc @ [if janitorDone cc = None then CloseReturned else CloseSelect]\<rparr>"

text \<open>
  The last section of \<open>Close\<close>. Closing \<open>janitorClosed\<close> a second time panics, after the flush; \<open>janitorDone\<close> is nil
  only when both have been closed. A token that is left in the channel can still be received.
\<close>

definition close_flush :: "nat \<Rightarrow> connector \<Rightarrow> connector" where
  "close_flush i cc = (let cc1 = flush cc in
     if janitorClosed_closed cc1 then cc1\<lparr>panicked := True\<rparr>
     else cc1\<lparr>janitorClosed_closed := True, janitorDone := None, callers := (callers cc1)[i := CloseReturned]\<rparr>)"

definition caller_step :: "nat \<Rightarrow> bool \<Rightarrow> connector \<Rightarrow> connector option" where
  "caller_step i ctx_done cc = (case callers cc ! i of
     Dialing c \<Rightarrow> (case waitConn (gstate cc c) ctx_done of
         None \<Rightarrow> None
       | Some None \<Rightarrow> Some (cc\<lparr>callers := (callers cc)[i := Dialed c]\<rparr>)
       | Some (Some err) \<Rightarrow> Some (cc\<lparr>callers := (callers cc)[i := DialFailed c err]\<rparr>))
   | Dialed c \<Rightarrow> Some ((ensureJanitorStarted cc)\<lparr>callers := (callers cc)[i := Holding c]\<rparr>)
   | DialFailed c err \<Rightarrow> Some ((removeConn c (setClosed c cc))\<lparr>callers := (callers cc)[i :=
         Failed (WithMsg err ''dialing connection on target [%s]'' [FS (con_target (cobj cc c))])]\<rparr>)
   | Holding c \<Rightarrow> Some ((ReleaseConn c cc)\<lparr>callers := (callers cc)[i := Released]\<rparr>)
   | CloseSelect \<Rightarrow>
       if janitorClosed cc > 0 then Some (cc\<lparr>janitorClosed := janitorClosed cc - 1, callers := (callers cc)[i := CloseFlush]\<rparr>)
       else if janitorClosed_closed cc then Some (cc\<lparr>callers := (callers cc)[i := CloseFlush]\<rparr>)
       else Some (cc\<lparr>callers := (callers cc)[i := CloseSend]\<rparr>)
   | CloseSend \<Rightarrow> (case janitorDone cc of
         Some 0 \<Rightarrow> Some (cc\<lparr>janitorDone := Some 1, callers := (callers cc)[i := CloseWait]\<rparr>)
       | _ \<Rightarrow> None)
   | CloseWait \<Rightarrow> if waitgroup cc = 0 then Some (cc\<lparr>callers := (callers cc)[i := CloseFlush]\<rparr>) else None
   | CloseFlush \<Rightarrow> Some (close_flush i cc)
   | _ \<Rightarrow> None)"

definition janitor_return :: "nat \<Rightarrow> connector \<Rightarrow> connector" where
  "janitor_return i cc = cc\<lparr>janitors := take i (janitors cc) @ drop (Suc i) (janitors cc), waitgroup := waitgroup cc - 1\<rparr>"

text \<open>
  A step of a janitor. In its select statement \<open>tick\<close> says whether the ticker is taken; otherwise the janitor
  takes a message from \<open>janitorDone\<close> or sees that it is closed. A send on the closed \<open>janitorClosed\<close> panics, and
  one on a full channel waits.
\<close>

definition janitor_step :: "nat \<Rightarrow> bool \<Rightarrow> connector \<Rightarrow> connector option" where
  "janitor_step i tick cc = (case janitors cc ! i of
     JTop \<Rightarrow> Some (cc\<lparr>janitors := (janitors cc)[i := JSelect (janitorDone cc \<noteq> None)]\<rparr>)
   | JSelect sees \<Rightarrow>
       if tick then (let cc1 = sweepAndRemove cc in
         Some (cc1\<lparr>janitors := (janitors cc)[i := if length (cindex cc1) = 0 then JExit else JTop]\<rparr>))
       else if sees then (case janitorDone cc of
           None \<Rightarrow> Some (janitor_return i cc)
         | Some n \<Rightarrow> if n > 0 then Some (janitor_return i (cc\<lparr>janitorDone := Some (n - 1)\<rparr>)) else None)
       else None
   | JExit \<Rightarrow>
       if janitorClosed_closed cc then Some (cc\<lparr>panicked := True\<rparr>)
       else if janitorClosed cc = 0 then Some (janitor_return i (cc\<lparr>janitorClosed := 1\<rparr>))
       else None)"

text \<open>
  The gRPC library, and holders that close a connection themselves, change the state of a connection, but
  one that is shut down stays so; time passes.
\<close>

inductive conn_step :: "connector \<Rightarrow> connector \<Rightarrow> bool" where
  conn_dial: "conn_step cc (DialContext target dial cc)" if "\<not> panicked cc"
| conn_close: "conn_step cc (Close cc)" if "\<not> panicked cc"
| conn_caller: "conn_step cc cc'" if "\<not> panicked cc" "i < length (callers cc)" "caller_step i ctx_done cc = Some cc'"
| conn_janitor: "conn_step cc cc'" if "\<not> panicked cc" "i < length (janitors cc)" "janitor_step i tick cc = Some cc'"
| conn_grpc: "conn_step cc (cc\<lparr>gstate := (gstate cc)(c := st)\<rparr>)" if "\<not> panicked cc" "gstate cc c \<noteq> Conn_Shutdown"
| conn_time: "conn_step cc (cc\<lparr>time_now := t\<rparr>)" if "\<not> panicked cc" "time_now cc \<le> t"

abbreviation conn_reach :: "connector \<Rightarrow> connector \<Rightarrow> bool" where
  "conn_reach \<equiv> conn_step\<^sup>*\<^sup>*"

end
