(* ===== verification/Interleaving.thy ===== *)
theory Interleaving
  imports Prelude
begin

text \<open>
  What the models of interleaved goroutines share: the goroutines of a component are a list of phases, in
  which a goroutine keeps its place, and the components count those in certain phases.
\<close>

definition in_phase :: "('p \<Rightarrow> bool) \<Rightarrow> 'p list \<Rightarrow> nat" where
  "in_phase P ps = length (filter P ps)"

lemma in_phase_simps [simp]:
  "in_phase P [] = 0" "in_phase P (p # ps) = of_bool (P p) + in_phase P ps" "in_phase P (ps @ qs) = in_phase P ps + in_phase P qs"
  by (simp_all add: in_phase_def)

lemma in_phase_update:
  "i < length ps \<Longrightarrow> in_phase P (ps[i := p]) + of_bool (P (ps ! i)) = in_phase P ps + of_bool (P p)"
proof (induction ps arbitrary: i)
  case (Cons q ps)
  then show ?case by (cases i) auto
qed simp

lemma in_phase_move: "i < length ps \<Longrightarrow> P (ps ! i) = P p \<Longrightarrow> in_phase P (ps[i := p]) = in_phase P ps"
  using in_phase_update [of i ps P p] by simp

lemma in_phase_enter: "i < length ps \<Longrightarrow> \<not> P (ps ! i) \<Longrightarrow> P p \<Longrightarrow> in_phase P (ps[i := p]) = Suc (in_phase P ps)"
  using in_phase_update [of i ps P p] by simp

lemma in_phase_leave: "i < length ps \<Longrightarrow> P (ps ! i) \<Longrightarrow> \<not> P p \<Longrightarrow> Suc (in_phase P (ps[i := p])) = in_phase P ps"
  using in_phase_update [of i ps P p] by simp

lemma in_phase_pos: "in_phase P ps > 0 \<longleftrightarrow> (\<exists>p\<in>set ps. P p)"
  by (auto simp: in_phase_def filter_empty_conv)

lemma in_phase_nth: "i < length ps \<Longrightarrow> P (ps ! i) \<Longrightarrow> in_phase P ps > 0"
  by (auto simp: in_phase_pos)

lemma in_phase_zero: "in_phase P ps = 0 \<longleftrightarrow> (\<forall>p\<in>set ps. \<not> P p)"
  by (auto simp: in_phase_def filter_empty_conv)

lemma in_phase_one:
  assumes "in_phase P ps \<le> 1" "i < length ps" "P (ps ! i)" "j < length ps" "P (ps ! j)"
  shows "i = j"
proof (rule ccontr)
  assume "i \<noteq> j"
  let ?qs = "map P ps"
  have "in_phase P ps = in_phase id ?qs" by (simp add: in_phase_def comp_def filter_map)
  moreover have "Suc (in_phase id (?qs[i := False])) = in_phase id ?qs"
    by (rule in_phase_leave) (use assms in auto)
  moreover have "in_phase id (?qs[i := False]) > 0"
    by (rule in_phase_nth [of j]) (use assms \<open>i \<noteq> j\<close> in auto)
  ultimately show False using assms(1) by simp
qed

text \<open>
  Runs that are given by the list of their steps, so that they can be computed. \<open>f\<close> is \<open>None\<close> for a step that is
  not possible.
\<close>

fun run_steps :: "('a \<Rightarrow> 's \<Rightarrow> 's option) \<Rightarrow> 'a list \<Rightarrow> 's \<Rightarrow> 's option" where
  "run_steps f [] s = Some s"
| "run_steps f (a # as) s = (case f a s of None \<Rightarrow> None | Some s' \<Rightarrow> run_steps f as s')"

lemma run_steps_star:
  assumes "\<And>a s s'. f a s = Some s' \<Longrightarrow> step s s'" "run_steps f as s = Some s'"
  shows "step\<^sup>*\<^sup>* s s'"
  using assms(2)
proof (induction as arbitrary: s)
  case (Cons a as)
  then obtain s1 where "f a s = Some s1" "run_steps f as s1 = Some s'" by (auto split: option.splits)
  then show ?case using Cons.IH assms(1) by (blast intro: converse_rtranclp_into_rtranclp)
qed simp

lemma run_steps_append:
  "run_steps f (as @ bs) s = (case run_steps f as s of None \<Rightarrow> None | Some s' \<Rightarrow> run_steps f bs s')"
  by (induction as arbitrary: s) (auto split: option.splits)

end
