(* ===== verification/Connector_Theorems.thy ===== *)
theory Connector_Theorems
  imports Connector Interleaving
begin

text \<open>
  The invariant of the caching connector (the index and the targets agree, and a connection is open as many
  times as it has users), that the janitor spares connections in use and sweeps all others, and what
  happens when \<open>Close\<close> races with a dial.
\<close>

section \<open>Users\<close>

fun uses :: "connid \<Rightarrow> caller \<Rightarrow> bool" where
  "uses c (Dialing d) \<longleftrightarrow> c = d"
| "uses c (Dialed d) \<longleftrightarrow> c = d"
| "uses c (DialFailed d err) \<longleftrightarrow> c = d"
| "uses c (Holding d) \<longleftrightarrow> c = d"
| "uses c _ \<longleftrightarrow> False"

definition users :: "connid \<Rightarrow> connector \<Rightarrow> nat" where
  "users c cc = in_phase (uses c) (callers cc)"

lemma users_update:
  "i < length (callers cc) \<Longrightarrow> users c (cc\<lparr>callers := (callers cc)[i := p]\<rparr>) + of_bool (uses c (callers cc ! i))
     = users c cc + of_bool (uses c p)"
  by (simp add: users_def in_phase_update)

lemma users_append: "users c (cc\<lparr>callers := callers cc @ [p]\<rparr>) = users c cc + of_bool (uses c p)"
  by (simp add: users_def)

lemma users_pos: "users c cc > 0 \<longleftrightarrow> (\<exists>p\<in>set (callers cc). uses c p)"
  by (simp add: users_def in_phase_pos)

section \<open>The invariant\<close>

definition conn_inv :: "connector \<Rightarrow> bool" where
  "conn_inv cc \<longleftrightarrow> distinct (cindex cc) \<and> (\<forall>c\<in>set (cindex cc). c < gnext cc)
     \<and> (janitorDone cc \<noteq> None \<longrightarrow> (\<forall>c\<in>set (cindex cc). con_open (cobj cc c) = int (users c cc)))
     \<and> (\<forall>t c. conns cc t = Some c \<longrightarrow> c \<in> set (cindex cc) \<and> con_target (cobj cc c) = t)
     \<and> (\<forall>p\<in>set (callers cc). \<forall>c. uses c p \<longrightarrow> c < gnext cc)"

text \<open>Only these fields matter to it.\<close>

definition conn_core :: "connector \<Rightarrow> (string \<rightharpoonup> connid) \<times> connid list \<times> (connid \<Rightarrow> cachedConn) \<times> connid \<times> caller list \<times> bool" where
  "conn_core cc = (conns cc, cindex cc, cobj cc, gnext cc, callers cc, janitorDone cc = None)"

lemma conn_inv_core: "conn_core cc = conn_core cc' \<Longrightarrow> conn_inv cc = conn_inv cc'"
  by (simp add: conn_core_def conn_inv_def users_def)

lemma ensure_frame [simp]:
  "conns (ensureJanitorStarted cc) = conns cc" "cindex (ensureJanitorStarted cc) = cindex cc"
  "cobj (ensureJanitorStarted cc) = cobj cc" "gnext (ensureJanitorStarted cc) = gnext cc"
  "callers (ensureJanitorStarted cc) = callers cc" "gstate (ensureJanitorStarted cc) = gstate cc"
  "janitorDone (ensureJanitorStarted cc) = janitorDone cc" "panicked (ensureJanitorStarted cc) = panicked cc"
  "janitorClosed_closed (ensureJanitorStarted cc) = janitorClosed_closed cc" "idleTime (ensureJanitorStarted cc) = idleTime cc"
  "time_now (ensureJanitorStarted cc) = time_now cc"
  by (simp_all add: ensureJanitorStarted_def)

lemma setClosed_frame [simp]:
  "conns (setClosed c cc) = conns cc" "cindex (setClosed c cc) = cindex cc" "gnext (setClosed c cc) = gnext cc"
  "callers (setClosed c cc) = callers cc" "gstate (setClosed c cc) = gstate cc" "janitorDone (setClosed c cc) = janitorDone cc"
  "panicked (setClosed c cc) = panicked cc" "janitors (setClosed c cc) = janitors cc" "janitorClosed (setClosed c cc) = janitorClosed cc"
  "janitorClosed_closed (setClosed c cc) = janitorClosed_closed cc" "con_target (cobj (setClosed c cc) d) = con_target (cobj cc d)"
  "con_open (cobj (setClosed c cc) d) = (if c = d then max 0 (con_open (cobj cc c) - 1) + min 0 (con_open (cobj cc c)) else con_open (cobj cc d))"
  "idleTime (setClosed c cc) = idleTime cc" "time_now (setClosed c cc) = time_now cc"
  by (auto simp: setClosed_def)

lemma removeConn_frame [simp]:
  "conns (removeConn c cc) = (conns cc)(con_target (cobj cc c) := None)" "cindex (removeConn c cc) = removeAll c (cindex cc)"
  "gnext (removeConn c cc) = gnext cc" "callers (removeConn c cc) = callers cc" "gstate (removeConn c cc) = (gstate cc)(c := Conn_Shutdown)"
  "janitorDone (removeConn c cc) = janitorDone cc" "panicked (removeConn c cc) = panicked cc" "janitors (removeConn c cc) = janitors cc"
  "janitorClosed (removeConn c cc) = janitorClosed cc" "janitorClosed_closed (removeConn c cc) = janitorClosed_closed cc"
  "cobj (removeConn c cc) = cobj cc" "idleTime (removeConn c cc) = idleTime cc" "time_now (removeConn c cc) = time_now cc"
  by (simp_all add: removeConn_def conn_Close_def)

text \<open>Taking a connection out of the cache keeps the targets.\<close>

lemma removed_inv:
  assumes "conn_inv cc" "cindex cc' = removeAll c (cindex cc)" "conns cc' = (conns cc)(con_target (cobj cc c) := None)"
    "callers cc' = callers cc" "cobj cc' = cobj cc" "gnext cc' = gnext cc" "janitorDone cc' = janitorDone cc"
  shows "conn_inv cc'"
proof -
  have u: "users d cc' = users d cc" for d using assms(4) by (simp add: users_def)
  have "d \<in> set (cindex cc') \<and> con_target (cobj cc' d) = t" if "conns cc' t = Some d" for t d
    using assms(1) that unfolding assms(2,3,5) conn_inv_def by (auto split: if_splits)
  then show ?thesis
    using assms(1) u unfolding conn_inv_def by (auto simp: assms(2,4,5,6,7) distinct_removeAll)
qed

lemma shutdownConn_inv: "conn_inv cc \<Longrightarrow> conn_inv (shutdownConn c cc)"
  unfolding shutdownConn_def by (auto intro: removed_inv)

lemma sweep_one_inv: "conn_inv cc \<Longrightarrow> conn_inv (sweep_one c cc)"
  unfolding sweep_one_def by (auto intro: removed_inv)

lemma sweep_inv: "conn_inv cc \<Longrightarrow> conn_inv (fold sweep_one cs cc)"
  by (induction cs arbitrary: cc) (simp_all add: sweep_one_inv)

lemma flush_core: "conn_core (flush cc) = conn_core cc"
proof -
  have "conn_core (fold conn_Close cs cc) = conn_core cc" for cs
    by (induction cs arbitrary: cc) (simp_all add: conn_core_def conn_Close_def)
  then show ?thesis by (simp add: flush_def)
qed

text \<open>A caller moves between two phases with the same connection, or with none.\<close>

lemma conn_inv_move:
  assumes "conn_inv cc" "i < length (callers cc)" "\<And>c. uses c p = uses c (callers cc ! i)"
    "conn_core cc' = conn_core (cc\<lparr>callers := (callers cc)[i := p]\<rparr>)"
  shows "conn_inv cc'"
proof -
  have "users c (cc\<lparr>callers := (callers cc)[i := p]\<rparr>) = users c cc" for c
    using users_update [OF assms(2), of c p] assms(3) [of c] by simp
  moreover have "c < gnext cc" if "uses c p" for c
    using assms(1-3) that unfolding conn_inv_def by (auto dest: nth_mem)
  ultimately have "conn_inv (cc\<lparr>callers := (callers cc)[i := p]\<rparr>)"
    using assms(1) set_update_subset_insert [of "callers cc" i p] unfolding conn_inv_def by auto
  then show ?thesis using conn_inv_core [OF assms(4)] by simp
qed

lemmas inv_phase = conn_inv_move [OF _ _ _ refl]

text \<open>A caller gives its connection back.\<close>

lemma inv_give_back:
  assumes "conn_inv cc" "i < length (callers cc)" "\<And>d. uses d (callers cc ! i) \<longleftrightarrow> d = c" "\<And>d. \<not> uses d p"
  shows "conn_inv ((setClosed c cc)\<lparr>callers := (callers cc)[i := p]\<rparr>)"
proof -
  let ?cc = "(setClosed c cc)\<lparr>callers := (callers cc)[i := p]\<rparr>"
  have u: "users d ?cc + of_bool (d = c) = users d cc" for d
    using users_update [OF assms(2), of d p] assms(3,4) by (simp add: users_def)
  have "con_open (cobj ?cc d) = int (users d ?cc)" if "janitorDone cc \<noteq> None" "d \<in> set (cindex cc)" for d
  proof -
    have "con_open (cobj cc d) = int (users d cc)" using assms(1) that by (simp add: conn_inv_def)
    then show ?thesis using u [of d] by (cases "d = c") auto
  qed
  moreover have "e < gnext cc" if "q \<in> set ((callers cc)[i := p])" "uses e q" for e q
    using assms(1,4) that set_update_subset_insert [of "callers cc" i p] unfolding conn_inv_def by blast
  ultimately show ?thesis using assms(1) unfolding conn_inv_def by simp
qed

lemma createConn_inv:
  assumes "conn_inv cc" "createConn target dial cc = (Inr c, cc')"
  shows "conn_inv (cc'\<lparr>callers := callers cc' @ [Dialing c]\<rparr>)"
proof -
  have new: "conn_inv (cc2\<lparr>callers := callers cc2 @ [Dialing c]\<rparr>)"
    if "conn_inv cc1" "c = gnext cc1" "cc2 = cc1\<lparr>gstate := (gstate cc1)(gnext cc1 := st), gnext := gnext cc1 + 1,
        cobj := (cobj cc1)(gnext cc1 := \<lparr>con_target = target, con_open = 1, con_lastClose = 0\<rparr>),
        conns := (conns cc1)(target \<mapsto> gnext cc1), cindex := cindex cc1 @ [gnext cc1]\<rparr>" for cc1 cc2 st
  proof -
    have "users c cc1 = 0" using that(1,2) users_pos [of c cc1] by (force simp: conn_inv_def)
    moreover have "c \<notin> set (cindex cc1)" using that(1,2) by (auto simp: conn_inv_def)
    ultimately show ?thesis
      using that(1,2) unfolding conn_inv_def that(3)
      by (auto simp: users_def split: if_splits intro: less_SucI)
  qed
  show ?thesis
  proof (cases "loadConn target cc")
    case (Pair r cc1)
    show ?thesis
    proof (cases r)
      case None
      have "conn_inv cc1"
        using Pair None assms(1) by (auto simp: loadConn_def shutdownConn_inv split: option.splits if_splits)
      then show ?thesis
        using assms(2) Pair None new by (auto simp: createConn_def split: if_splits sum.splits)
    next
      case (Some d)
      have c: "c = d" "cc' = cc1" using assms(2) Pair Some by (auto simp: createConn_def split: if_splits)
      have d: "conns cc target = Some d" "cc1 = cc\<lparr>cobj := (cobj cc)(d := (cobj cc d)\<lparr>con_open := con_open (cobj cc d) + 1\<rparr>)\<rparr>"
        using Pair Some by (auto simp: loadConn_def split: option.splits if_splits)
      then show ?thesis
        using assms(1) unfolding c conn_inv_def by (auto simp: users_def)
    qed
  qed
qed

lemma createConn_inv_fail: "conn_inv cc \<Longrightarrow> createConn target dial cc = (Inl err, cc') \<Longrightarrow> conn_inv cc'"
  by (auto simp: createConn_def loadConn_def shutdownConn_inv split: option.splits if_splits sum.splits)

lemma add_idle_caller: "conn_inv cc \<Longrightarrow> (\<And>c. \<not> uses c p) \<Longrightarrow> conn_inv (cc\<lparr>callers := callers cc @ [p]\<rparr>)"
  by (auto simp: conn_inv_def users_def)

lemma caller_step_inv:
  assumes "conn_inv cc" "i < length (callers cc)" "caller_step i ctx_done cc = Some cc'"
  shows "conn_inv cc'"
proof (cases "callers cc ! i")
  case (Dialing c)
  then show ?thesis using assms
    by (auto simp: caller_step_def inv_phase split: option.splits)
next
  case (Dialed c)
  then show ?thesis using assms
    by (auto simp: caller_step_def conn_core_def intro!: conn_inv_move [OF assms(1,2), of "Holding c"])
next
  case (DialFailed c err)
  let ?p = "Failed (WithMsg err ''dialing connection on target [%s]'' [FS (con_target (cobj cc c))])"
  have "conn_inv ((setClosed c cc)\<lparr>callers := (callers cc)[i := ?p]\<rparr>)"
    by (rule inv_give_back [OF assms(1,2)]) (simp_all add: DialFailed)
  then show ?thesis using assms(3) DialFailed by (auto simp: caller_step_def intro: removed_inv)
next
  case (Holding c)
  show ?thesis
  proof (cases "janitorDone cc = None \<or> c \<notin> set (cindex cc)")
    case False
    have "conn_inv ((setClosed c cc)\<lparr>callers := (callers cc)[i := Released]\<rparr>)"
      by (rule inv_give_back [OF assms(1,2)]) (simp_all add: Holding)
    then show ?thesis
      by (rule iffD1 [OF conn_inv_core, rotated])
        (use assms(3) False in \<open>auto simp: caller_step_def Holding ReleaseConn_def conn_core_def\<close>)
  next
    case True
    have "users d (cc\<lparr>callers := (callers cc)[i := Released]\<rparr>) = (if d = c then users c cc - 1 else users d cc)" for d
      using users_update [OF assms(2), of d Released] by (cases "d = c") (simp_all add: Holding)
    then have "conn_inv (cc\<lparr>callers := (callers cc)[i := Released]\<rparr>)"
      using assms(1) True set_update_subset_insert [of "callers cc" i Released] unfolding conn_inv_def by auto
    then show ?thesis
      by (rule iffD1 [OF conn_inv_core, rotated])
        (use assms(3) True in \<open>auto simp: caller_step_def Holding ReleaseConn_def conn_core_def conn_Close_def split: if_splits\<close>)
  qed
next
  case CloseFlush
  have "conn_inv (cc\<lparr>janitorDone := None, callers := (callers cc)[i := CloseReturned]\<rparr>)"
    using assms(1) set_update_subset_insert [of "callers cc" i CloseReturned] unfolding conn_inv_def by auto
  then have "conn_inv ((flush cc)\<lparr>janitorClosed_closed := True, janitorDone := None, callers := (callers cc)[i := CloseReturned]\<rparr>)"
    by (rule iffD1 [OF conn_inv_core, rotated]) (use flush_core [of cc] in \<open>simp add: conn_core_def\<close>)
  moreover have "conn_inv ((flush cc)\<lparr>panicked := True\<rparr>)"
    using assms(1) by (rule iffD1 [OF conn_inv_core, rotated]) (use flush_core [of cc] in \<open>simp add: conn_core_def\<close>)
  ultimately show ?thesis
    using assms(3) flush_core [of cc] CloseFlush
    by (auto simp: caller_step_def close_flush_def conn_core_def Let_def split: if_splits)
qed (use assms conn_inv_move [OF assms(1,2), of CloseFlush cc'] conn_inv_move [OF assms(1,2), of CloseSend cc']
      conn_inv_move [OF assms(1,2), of CloseWait cc'] in
    \<open>auto simp: caller_step_def conn_core_def split: option.splits if_splits nat.splits\<close>)

lemma sweep_frame:
  "callers (fold sweep_one cs cc) = callers cc" "janitorDone (fold sweep_one cs cc) = janitorDone cc"
  "janitorClosed_closed (fold sweep_one cs cc) = janitorClosed_closed cc" "janitorClosed (fold sweep_one cs cc) = janitorClosed cc"
  "panicked (fold sweep_one cs cc) = panicked cc" "janitors (fold sweep_one cs cc) = janitors cc"
  "cobj (fold sweep_one cs cc) = cobj cc" "time_now (fold sweep_one cs cc) = time_now cc" "idleTime (fold sweep_one cs cc) = idleTime cc"
  by (induction cs arbitrary: cc) (simp_all add: sweep_one_def)

text \<open>A sweep takes out the idle and the shut down connections, and closes them.\<close>

definition to_sweep :: "connector \<Rightarrow> connid \<Rightarrow> bool" where
  "to_sweep cc c \<longleftrightarrow> con_open (cobj cc c) = 0 \<and> time_now cc > con_lastClose (cobj cc c) + idleTime cc
     \<or> gstate cc c = Conn_Shutdown"

lemma sweep_one_eq: "sweep_one c cc = (if to_sweep cc c then removeConn c cc else cc)"
  by (simp add: sweep_one_def to_sweep_def)

lemma to_sweep_fold: "c \<notin> set cs \<Longrightarrow> to_sweep (fold sweep_one cs cc) c = to_sweep cc c"
  by (induction cs arbitrary: cc) (simp_all add: sweep_one_def to_sweep_def)

lemma sweep_result:
  "distinct cs \<Longrightarrow> set (cindex (fold sweep_one cs cc)) = set (cindex cc) - {c\<in>set cs. to_sweep cc c}
    \<and> gstate (fold sweep_one cs cc) = (\<lambda>c. if c \<in> set cs \<and> to_sweep cc c then Conn_Shutdown else gstate cc c)"
proof (induction cs arbitrary: cc)
  case (Cons a cs)
  have "to_sweep (removeConn a cc) c \<longleftrightarrow> c = a \<or> to_sweep cc c" for c
    by (simp add: to_sweep_def)
  then show ?case
    using Cons by (auto simp: sweep_one_eq fun_eq_iff)
qed simp

lemma janitor_step_inv: "conn_inv cc \<Longrightarrow> janitor_step i tick cc = Some cc' \<Longrightarrow> conn_inv cc'"
proof (cases "janitors cc ! i")
  case (JSelect sees)
  assume i: "conn_inv cc" and s: "janitor_step i tick cc = Some cc'"
  show ?thesis
  proof (cases tick)
    case True
    have "conn_inv (sweepAndRemove cc)" unfolding sweepAndRemove_def using i by (rule sweep_inv)
    then show ?thesis
      by (rule iffD1 [OF conn_inv_core, rotated]) (use s True JSelect in \<open>auto simp: janitor_step_def conn_core_def Let_def\<close>)
  next
    case False
    show ?thesis
      using i by (rule iffD1 [OF conn_inv_core, rotated])
        (use s False JSelect in \<open>auto simp: janitor_step_def janitor_return_def conn_core_def split: if_splits option.splits\<close>)
  qed
qed (erule iffD1 [OF conn_inv_core, rotated];
     auto simp: janitor_step_def janitor_return_def conn_core_def split: if_splits option.splits)+

lemma conn_step_inv: "conn_step cc cc' \<Longrightarrow> conn_inv cc \<Longrightarrow> conn_inv cc'"
proof (induction rule: conn_step.induct)
  case (conn_dial cc target dial)
  then show ?case
    by (auto simp: DialContext_def add_idle_caller createConn_inv createConn_inv_fail split: prod.splits sum.splits)
next
  case (conn_close cc)
  then show ?case by (simp add: Close_def add_idle_caller)
next
  case (conn_caller cc i ctx_done cc')
  then show ?case by (blast intro: caller_step_inv)
next
  case (conn_janitor cc i tick cc')
  then show ?case by (blast intro: janitor_step_inv)
qed (auto elim!: iffD1 [OF conn_inv_core, rotated] simp: conn_core_def)

lemma conn_new_inv: "conn_inv (NewCachingConnector idle)"
  by (simp add: conn_inv_def NewCachingConnector_def)

lemma conn_reach_inv: "conn_reach (NewCachingConnector idle) cc \<Longrightarrow> conn_inv cc"
  by (induction rule: rtranclp_induct) (auto intro: conn_step_inv conn_new_inv)

text \<open>Once the connector is closed, so are all its connections.\<close>

definition all_shut :: "connector \<Rightarrow> bool" where
  "all_shut cc \<longleftrightarrow> (janitorDone cc = None \<longrightarrow> (\<forall>c\<in>set (cindex cc). gstate cc c = Conn_Shutdown))"

lemma all_shut_mono:
  "all_shut cc \<Longrightarrow> (janitorDone cc' = None \<Longrightarrow> janitorDone cc = None) \<Longrightarrow> set (cindex cc') \<subseteq> set (cindex cc)
    \<Longrightarrow> (\<And>c. gstate cc c = Conn_Shutdown \<Longrightarrow> gstate cc' c = Conn_Shutdown) \<Longrightarrow> all_shut cc'"
  by (auto simp: all_shut_def)

lemma flush_result:
  "gstate (flush cc) = (\<lambda>c. if c \<in> set (cindex cc) then Conn_Shutdown else gstate cc c)"
  "cindex (flush cc) = cindex cc" "janitorClosed_closed (flush cc) = janitorClosed_closed cc" "panicked (flush cc) = panicked cc"
  "janitorDone (flush cc) = janitorDone cc"
proof -
  have "gstate (fold conn_Close cs cc) = (\<lambda>c. if c \<in> set cs then Conn_Shutdown else gstate cc c)
    \<and> cindex (fold conn_Close cs cc) = cindex cc \<and> janitorClosed_closed (fold conn_Close cs cc) = janitorClosed_closed cc
    \<and> panicked (fold conn_Close cs cc) = panicked cc \<and> janitorDone (fold conn_Close cs cc) = janitorDone cc" for cs
    by (induction cs arbitrary: cc) (auto simp: conn_Close_def)
  then show "gstate (flush cc) = (\<lambda>c. if c \<in> set (cindex cc) then Conn_Shutdown else gstate cc c)"
    "cindex (flush cc) = cindex cc" "janitorClosed_closed (flush cc) = janitorClosed_closed cc" "panicked (flush cc) = panicked cc"
    "janitorDone (flush cc) = janitorDone cc"
    by (simp_all add: flush_def)
qed

lemma sweep_keeps:
  assumes "conn_inv cc"
  shows "set (cindex (sweepAndRemove cc)) = {c \<in> set (cindex cc). \<not> to_sweep cc c}"
    "gstate (sweepAndRemove cc) = (\<lambda>c. if c \<in> set (cindex cc) \<and> to_sweep cc c then Conn_Shutdown else gstate cc c)"
proof -
  have "distinct (cindex cc)" using assms by (simp add: conn_inv_def)
  from sweep_result [OF this, of cc]
  show "set (cindex (sweepAndRemove cc)) = {c \<in> set (cindex cc). \<not> to_sweep cc c}"
    "gstate (sweepAndRemove cc) = (\<lambda>c. if c \<in> set (cindex cc) \<and> to_sweep cc c then Conn_Shutdown else gstate cc c)"
    by (auto simp: sweepAndRemove_def)
qed

text \<open>What a step of a janitor changes.\<close>

lemma janitor_step_cases:
  assumes "janitor_step i tick cc = Some cc'"
  shows "(cindex cc' = cindex (sweepAndRemove cc) \<and> gstate cc' = gstate (sweepAndRemove cc) \<and> janitorDone cc' = janitorDone cc)
    \<or> cindex cc' = cindex cc \<and> gstate cc' = gstate cc \<and> (janitorDone cc' = None \<longleftrightarrow> janitorDone cc = None)"
  using assms sweep_frame(2) [of "cindex cc" cc]
  by (cases "janitors cc ! i")
    (auto simp: janitor_step_def janitor_return_def sweepAndRemove_def Let_def split: if_splits option.splits)

lemma createConn_closed: "janitorDone cc = None \<Longrightarrow> createConn target dial cc = (Inl (errorNew ''caching connector is closed''), cc)"
  by (simp add: createConn_def)

lemma createConn_frame:
  "createConn target dial cc = (r, cc') \<Longrightarrow> janitorDone cc' = janitorDone cc \<and> callers cc' = callers cc \<and> panicked cc' = panicked cc
    \<and> janitorClosed_closed cc' = janitorClosed_closed cc"
  by (auto simp: createConn_def loadConn_def shutdownConn_def split: if_splits option.splits sum.splits)

lemma step_all_shut: "conn_step cc cc' \<Longrightarrow> conn_inv cc \<Longrightarrow> all_shut cc \<Longrightarrow> all_shut cc'"
proof (induction rule: conn_step.induct)
  case (conn_dial cc target dial)
  then show ?case
    by (cases "janitorDone cc")
      (auto simp: DialContext_def createConn_closed all_shut_def dest: createConn_frame split: prod.splits sum.splits)
next
  case (conn_caller cc i ctx_done cc')
  show ?case
  proof (cases "callers cc ! i = CloseFlush")
    case True
    then show ?thesis
      using conn_caller by (auto simp: caller_step_def close_flush_def Let_def flush_result all_shut_def split: if_splits)
  next
    case False
    then show ?thesis
      using conn_caller.prems(2) conn_caller.hyps(3)
      by (auto simp: all_shut_def caller_step_def ReleaseConn_def conn_Close_def
          split: caller.splits option.splits if_splits nat.splits)
  qed
next
  case (conn_janitor cc i tick cc')
  then show ?case
    using janitor_step_cases [OF conn_janitor.hyps(3)] by (auto simp: all_shut_def sweep_keeps)
qed (auto simp: all_shut_def Close_def)

lemma reach_all_shut: "conn_reach (NewCachingConnector idle) cc \<Longrightarrow> all_shut cc"
proof (induction rule: rtranclp_induct)
  case base
  then show ?case by (simp add: all_shut_def NewCachingConnector_def)
next
  case (step cc cc')
  then show ?case by (blast intro: step_all_shut conn_reach_inv)
qed

section \<open>Executable runs\<close>

datatype act = ADial string "goerr + conn_state" | AClose | ACaller nat bool | AJanitor nat bool | AGrpc connid conn_state | ATime int

fun act_step :: "act \<Rightarrow> connector \<Rightarrow> connector option" where
  "act_step a cc = (if panicked cc then None else case a of
     ADial t d \<Rightarrow> Some (DialContext t d cc)
   | AClose \<Rightarrow> Some (Close cc)
   | ACaller i b \<Rightarrow> if i < length (callers cc) then caller_step i b cc else None
   | AJanitor i b \<Rightarrow> if i < length (janitors cc) then janitor_step i b cc else None
   | AGrpc c st \<Rightarrow> if gstate cc c = Conn_Shutdown then None else Some (cc\<lparr>gstate := (gstate cc)(c := st)\<rparr>)
   | ATime t \<Rightarrow> if time_now cc \<le> t then Some (cc\<lparr>time_now := t\<rparr>) else None)"

abbreviation run_acts :: "act list \<Rightarrow> connector \<Rightarrow> connector option" where
  "run_acts \<equiv> run_steps act_step"

lemma run_acts_reach: "run_acts as cc = Some cc' \<Longrightarrow> conn_reach cc cc'"
proof (rule run_steps_star)
  fix a s s'
  assume "act_step a s = Some s'"
  then show "conn_step s s'" by (cases a) (auto split: if_splits intro: conn_step.intros)
qed

text \<open>One connection in use, the janitor in its select statement, and a second caller that has released.\<close>

definition ex_acts :: "act list" where
  "ex_acts = [ADial ''peer1:7051'' (Inr Conn_Idle), ADial ''peer1:7051'' (Inl (ExtErr ''unused'')), AGrpc 0 Conn_Ready,
     ACaller 0 False, ACaller 1 False, ACaller 0 False, ACaller 1 False, ACaller 1 False, AJanitor 0 False, ATime 100]"

definition ex_cc :: connector where
  "ex_cc = the (run_acts ex_acts (NewCachingConnector 10))"

lemma ex_cc_eq:
  "run_acts ex_acts (NewCachingConnector 10) = Some ex_cc" "callers ex_cc = [Holding 0, Released]" "janitors ex_cc = [JSelect True]"
  "cindex ex_cc = [0]" "con_open (cobj ex_cc 0) = 1" "gstate ex_cc 0 = Conn_Ready" "janitorDone ex_cc = Some 0"
  "time_now ex_cc = 100" "idleTime ex_cc = 10" "con_lastClose (cobj ex_cc 0) = 1" "janitorClosed ex_cc = 0"
  by (simp_all add: ex_cc_def ex_acts_def NewCachingConnector_def DialContext_def createConn_def loadConn_def caller_step_def
      waitConn_def ensureJanitorStarted_def ReleaseConn_def setClosed_def janitor_step_def)

lemma ex_cc_reach: "conn_reach (NewCachingConnector 10) ex_cc"
  by (rule run_acts_reach [OF ex_cc_eq(1)])

section \<open>Properties\<close>

text \<open>
  Reference counting: while the connector is not closed, a cached connection is counted open exactly as
  often as there are callers that dial it or hold it, and a target leads to a cached connection to it.
\<close>
theorem connections_counted:
  assumes "conn_reach (NewCachingConnector idle) cc" "janitorDone cc \<noteq> None" "c \<in> set (cindex cc)"
  shows "con_open (cobj cc c) = int (length (filter (uses c) (callers cc)))
    \<and> (\<forall>t d. conns cc t = Some d \<longrightarrow> d \<in> set (cindex cc) \<and> con_target (cobj cc d) = t)"
  using conn_reach_inv [OF assms(1)] assms(2,3) by (simp add: conn_inv_def users_def in_phase_def)

theorem connections_counted_witness: "con_open (cobj ex_cc 0) = int (length (filter (uses 0) [Holding 0, Released]))"
  using connections_counted [OF ex_cc_reach, of 0] by (simp add: ex_cc_eq)

text \<open>
  No step of a janitor, whatever the other goroutines did before, closes a connection that some caller dials
  or holds.
\<close>
theorem janitor_spares_used:
  assumes "conn_reach (NewCachingConnector idle) cc" "janitor_step i tick cc = Some cc'"
    and "p \<in> set (callers cc)" "uses c p"
  shows "gstate cc' c = gstate cc c"
proof -
  have inv: "conn_inv cc" "all_shut cc" using conn_reach_inv [OF assms(1)] reach_all_shut [OF assms(1)] by auto
  have "users c cc > 0" using assms(3,4) by (auto simp: users_pos)
  then have "gstate cc c = Conn_Shutdown" if "c \<in> set (cindex cc)" "to_sweep cc c"
    using inv that by (cases "janitorDone cc") (auto simp: conn_inv_def all_shut_def to_sweep_def)
  then show ?thesis
    using janitor_step_cases [OF assms(2)] by (auto simp: sweep_keeps [OF inv(1)])
qed

theorem janitor_spares_used_witness:
  "\<exists>cc'. janitor_step 0 True ex_cc = Some cc' \<and> gstate cc' 0 = Conn_Ready"
proof -
  obtain cc' where "janitor_step 0 True ex_cc = Some cc'" by (simp add: janitor_step_def ex_cc_eq Let_def)
  then show ?thesis
    using janitor_spares_used [OF ex_cc_reach, of 0 True cc' "Holding 0" 0] by (simp add: ex_cc_eq)
qed

text \<open>
  A sweep removes and closes exactly the connections that nobody has used for longer than the idle time and
  those that are shut down already, and leaves the others as they are.
\<close>
theorem sweep_exact:
  assumes "conn_reach (NewCachingConnector idle) cc"
  shows "set (cindex (sweepAndRemove cc)) = {c \<in> set (cindex cc). gstate cc c \<noteq> Conn_Shutdown
      \<and> (con_open (cobj cc c) \<noteq> 0 \<or> time_now cc \<le> con_lastClose (cobj cc c) + idleTime cc)}
    \<and> (\<forall>c. gstate (sweepAndRemove cc) c =
        (if c \<in> set (cindex cc) - set (cindex (sweepAndRemove cc)) then Conn_Shutdown else gstate cc c))"
proof
  note k = sweep_keeps [OF conn_reach_inv [OF assms]]
  show "set (cindex (sweepAndRemove cc)) = {c \<in> set (cindex cc). gstate cc c \<noteq> Conn_Shutdown
      \<and> (con_open (cobj cc c) \<noteq> 0 \<or> time_now cc \<le> con_lastClose (cobj cc c) + idleTime cc)}"
    unfolding k(1) by (auto simp: to_sweep_def)
  show "\<forall>c. gstate (sweepAndRemove cc) c =
        (if c \<in> set (cindex cc) - set (cindex (sweepAndRemove cc)) then Conn_Shutdown else gstate cc c)"
    unfolding k by simp
qed

theorem sweep_exact_witness: "cindex (sweepAndRemove ex_cc) \<noteq> []"
proof -
  have "0 \<in> set (cindex (sweepAndRemove ex_cc))"
    unfolding sweep_exact [OF ex_cc_reach, THEN conjunct1] by (simp add: ex_cc_eq)
  then show ?thesis by (metis empty_iff empty_set)
qed

fun closing :: "caller \<Rightarrow> bool" where
  "closing CloseSelect \<longleftrightarrow> True" | "closing CloseSend \<longleftrightarrow> True" | "closing CloseWait \<longleftrightarrow> True"
| "closing CloseFlush \<longleftrightarrow> True" | "closing CloseReturned \<longleftrightarrow> True" | "closing _ \<longleftrightarrow> False"

definition unclosed :: "connector \<Rightarrow> bool" where
  "unclosed cc \<longleftrightarrow> \<not> panicked cc \<and> \<not> janitorClosed_closed cc \<and> janitorDone cc = Some 0
     \<and> janitorClosed cc + length (janitors cc) = 1 \<and> waitgroup cc = length (janitors cc)"

lemma ensure_unclosed [simp]: "unclosed cc \<Longrightarrow> unclosed (ensureJanitorStarted cc)"
  by (auto simp: unclosed_def ensureJanitorStarted_def simp flip: length_0_conv)

lemma unclosed_same:
  "unclosed cc \<Longrightarrow> panicked cc' = panicked cc \<Longrightarrow> janitorClosed_closed cc' = janitorClosed_closed cc \<Longrightarrow> janitorDone cc' = janitorDone cc
    \<Longrightarrow> janitorClosed cc' = janitorClosed cc \<Longrightarrow> length (janitors cc') = length (janitors cc) \<Longrightarrow> waitgroup cc' = waitgroup cc \<Longrightarrow> unclosed cc'"
  by (simp add: unclosed_def)

lemma unclosed_simps [simp]:
  "unclosed (cc\<lparr>callers := cs\<rparr>) = unclosed cc" "unclosed (cc\<lparr>cobj := ob\<rparr>) = unclosed cc"
  "unclosed (cc\<lparr>conns := m\<rparr>) = unclosed cc" "unclosed (cc\<lparr>cindex := ix\<rparr>) = unclosed cc"
  "unclosed (cc\<lparr>gnext := n\<rparr>) = unclosed cc" "unclosed (cc\<lparr>gstate := g\<rparr>) = unclosed cc" "unclosed (cc\<lparr>time_now := t\<rparr>) = unclosed cc"
  "unclosed (setClosed c cc) = unclosed cc" "unclosed (removeConn c cc) = unclosed cc"
  by (simp_all add: unclosed_def setClosed_def removeConn_def conn_Close_def)

lemma createConn_unclosed: "createConn target dial cc = (r, cc') \<Longrightarrow> unclosed cc \<Longrightarrow> unclosed cc'"
  by (auto simp: createConn_def loadConn_def shutdownConn_def split: if_splits option.splits sum.splits)

lemma sweep_unclosed: "unclosed cc \<Longrightarrow> unclosed (fold sweep_one cs cc)"
  by (induction cs arbitrary: cc) (simp_all add: sweep_one_eq)

lemma janitor_unclosed:
  assumes "unclosed cc" "janitor_step i tick cc = Some cc'" "i < length (janitors cc)"
  shows "unclosed cc'"
proof (cases "janitors cc ! i")
  case (JSelect sees)
  then show ?thesis
    using assms sweep_unclosed [OF assms(1), of "cindex cc"] sweep_frame(6) [of "cindex cc" cc]
    by (auto simp: janitor_step_def sweepAndRemove_def Let_def unclosed_def split: if_splits option.splits)
qed (use assms in \<open>auto simp: janitor_step_def janitor_return_def unclosed_def split: if_splits\<close>)

text \<open>As long as nobody calls \<open>Close\<close>, nothing panics, and there is one janitor or the token to start it.\<close>

lemma step_unclosed:
  assumes "conn_step cc cc'" "\<not> list_ex closing (callers cc) \<Longrightarrow> unclosed cc" "\<not> list_ex closing (callers cc')"
  shows "unclosed cc'"
  using assms(1,2,3)
proof (induction rule: conn_step.induct)
  case (conn_dial cc target dial)
  obtain r cc1 where r: "createConn target dial cc = (r, cc1)" by (cases "createConn target dial cc")
  then have "unclosed cc1" if "\<not> list_ex closing (callers cc1)"
    using that createConn_frame [OF r] conn_dial.prems(1) createConn_unclosed by simp
  then show ?case
    using conn_dial.prems(2) r by (auto simp: DialContext_def split: sum.splits)
next
  case (conn_caller cc i ctx_done cc')
  have "\<not> list_ex closing (callers cc)"
  proof (cases "closing (callers cc ! i)")
    case True
    then have "i < length (callers cc') \<and> closing (callers cc' ! i)"
      using conn_caller.hyps(2,3) flush_core [of cc]
      by (cases "callers cc ! i")
        (auto simp: caller_step_def close_flush_def conn_core_def Let_def split: if_splits option.splits nat.splits)
    then show ?thesis using conn_caller.prems(2) by (auto simp: list_ex_length)
  next
    case False
    then obtain p where "callers cc' = (callers cc)[i := p]"
      using conn_caller.hyps(3) by (cases "callers cc ! i") (auto simp: caller_step_def split: option.splits)
    then show ?thesis
      using conn_caller.prems(2) False conn_caller.hyps(2)
      by (auto simp: list_ex_length) (metis length_list_update nth_list_update_neq)
  qed
  then have u: "unclosed cc" and n: "\<not> closing (callers cc ! i)"
    using conn_caller.prems(1) conn_caller.hyps(2) by (auto simp: list_ex_length)
  show ?case
    using conn_caller.hyps(3) u n
    by (cases "callers cc ! i") (auto simp: caller_step_def ReleaseConn_def conn_Close_def split: option.splits if_splits)
next
  case (conn_janitor cc i tick cc')
  have "callers cc' = callers cc"
    using conn_janitor.hyps(3) sweep_frame(1) [of "cindex cc" cc]
    by (cases "janitors cc ! i")
      (auto simp: janitor_step_def janitor_return_def sweepAndRemove_def Let_def split: if_splits option.splits)
  then show ?case using conn_janitor janitor_unclosed by simp
qed (auto simp: Close_def split: if_splits)

theorem one_janitor:
  assumes "conn_reach (NewCachingConnector idle) cc" "\<not> list_ex closing (callers cc)"
  shows "\<not> panicked cc \<and> janitorClosed cc + length (janitors cc) = 1"
proof -
  have "\<not> list_ex closing (callers cc) \<Longrightarrow> unclosed cc"
    using assms(1)
  proof (induction rule: rtranclp_induct)
    case base
    then show ?case by (simp add: unclosed_def NewCachingConnector_def)
  next
    case (step cc cc')
    then show ?case by (blast intro: step_unclosed)
  qed
  then show ?thesis using assms(2) by (simp add: unclosed_def)
qed

theorem one_janitor_witness: "\<not> panicked ex_cc \<and> janitorClosed ex_cc + length (janitors ex_cc) = 1"
  using one_janitor [OF ex_cc_reach] by (simp add: ex_cc_eq)

section \<open>Races\<close>

text \<open>
  A dial that finds its connection ready just before another goroutine closes the connector starts a janitor
  afterwards, because a receive from the closed channel succeeds; the janitor finds no connection and sends
  on the closed channel, which panics.
\<close>
theorem close_race_panics:
  "\<exists>cc. conn_reach (NewCachingConnector idle) cc \<and> panicked cc \<and> length (filter closing (callers cc)) = 1"
proof -
  let ?acts = "[ADial ''peer1:7051'' (Inr Conn_Ready), ACaller 0 False, AClose, ACaller 1 False, ACaller 1 False, ACaller 0 False,
    AJanitor 0 False, AJanitor 0 True, AJanitor 0 False]"
  obtain cc where cc: "run_acts ?acts (NewCachingConnector idle) = Some cc" "panicked cc" "length (filter closing (callers cc)) = 1"
    by (simp add: NewCachingConnector_def DialContext_def createConn_def loadConn_def caller_step_def waitConn_def
        ensureJanitorStarted_def close_flush_def flush_def conn_Close_def Close_def sweepAndRemove_def sweep_one_def removeConn_def
        janitor_step_def Let_def)
  show ?thesis using run_acts_reach [OF cc(1)] cc(2,3) by blast
qed

text \<open>
  A connection that is dialed and released while the janitor, having found none, has not yet announced its
  end, stays in the cache without a janitor, however long it is idle.
\<close>
theorem idle_connection_left:
  "\<exists>cc. conn_reach (NewCachingConnector idle) cc \<and> callers cc = [Released, Released] \<and> janitors cc = []
    \<and> cindex cc = [1] \<and> con_open (cobj cc 1) = 0 \<and> gstate cc 1 = Conn_Ready"
proof -
  obtain t where t: "1 \<le> t" "1 + idle < t" using that [of "max 2 (idle + 2)"] by simp
  let ?dial = "[ADial ''peer1:7051'' (Inr Conn_Ready)]"
  let ?acts = "?dial @ [ACaller 0 False, ACaller 0 False, ACaller 0 False, ATime t, AJanitor 0 False, AJanitor 0 True]
    @ ?dial @ [ACaller 1 False, ACaller 1 False, ACaller 1 False, AJanitor 0 False]"
  obtain cc where cc: "run_acts ?acts (NewCachingConnector idle) = Some cc" "callers cc = [Released, Released]" "janitors cc = []"
    "cindex cc = [1]" "con_open (cobj cc 1) = 0" "gstate cc 1 = Conn_Ready"
    by (simp add: NewCachingConnector_def DialContext_def createConn_def loadConn_def caller_step_def waitConn_def
        ensureJanitorStarted_def ReleaseConn_def setClosed_def sweepAndRemove_def sweep_one_def removeConn_def conn_Close_def
        janitor_step_def janitor_return_def Let_def t)
  show ?thesis using run_acts_reach [OF cc(1)] cc(2-) by blast
qed

end
