(* ===== verification/Lazy_Ref.thy ===== *)
theory Lazy_Ref
  imports Interleaving
begin

text \<open>
  The lazy reference (pkg/util/concurrent/lazyref): a value that the first \<open>Get\<close> initializes, and that a timer
  goroutine resets or refreshes when it expires. Callers of \<open>Get\<close> and \<open>Close\<close> and the timers interleave; what
  runs under the lock of the reference is one step.

  A value is the number of its initialization, so that two values are never the same. The log \<open>finalized\<close> has the
  arguments that the finalizer was called with, \<open>None\<close> for nil. The results of the initializer and of the
  expiration provider are arguments of the steps.
\<close>

section \<open>The reference\<close>

datatype ExpirationType = LastAccessed | LastInitialized | Refreshing

datatype get_result = Got nat | GetErr goerr

text \<open>
  A caller of \<open>Get\<close> has passed the test of \<open>IsClosed\<close>, has not found a value outside of the lock, or has its
  result. A caller of \<open>Close\<close> is to notify the timer, to wait for it, to call the finalizer, or is done.
\<close>

datatype ref_call = GetChecked | GetLocking | GetDone get_result | CloseNotify | CloseWaiting | CloseFinal | CloseDone | CloseAlready

text \<open>
  A timer goroutine before \<open>setTimerRunning\<close>, in its select statement until a time, about to handle an expiration,
  about to stop, and at its end.
\<close>

datatype timer = TStart int | TSelect int | TExpire int | TStop | TEnd

record lazyref =
  expires :: bool
  expiryType :: ExpirationType
  has_finalizer :: bool
  initialExpiration :: int
  lr_ref :: "nat option"
  lr_inits :: nat
  lastTimeAccessed :: int
  lr_closed :: bool
  lr_running :: bool
  closech :: nat
  lr_wg :: nat
  lr_now :: int
  finalized :: "nat option list"
  lr_calls :: "ref_call list"
  lr_timers :: "timer list"

definition setLastAccessed :: "lazyref \<Rightarrow> lazyref" where
  "setLastAccessed r = r\<lparr>lastTimeAccessed := lr_now r\<rparr>"

definition ensureTimerStarted :: "int \<Rightarrow> lazyref \<Rightarrow> lazyref" where
  "ensureTimerStarted e r = (if lr_running r then r
     else (setLastAccessed r)\<lparr>lr_timers := lr_timers r @ [TStart e]\<rparr>)"

text \<open>\<open>initialInit\<close> is the delay of the first initialization of a refreshing reference, negative for none.\<close>

definition NewWithData :: "bool \<Rightarrow> ExpirationType \<Rightarrow> bool \<Rightarrow> int \<Rightarrow> int \<Rightarrow> int \<Rightarrow> lazyref" where
  "NewWithData expiring type finalizer expiration initialInit now =
    (let r = \<lparr>expires = expiring, expiryType = type, has_finalizer = finalizer, initialExpiration = expiration,
          lr_ref = None, lr_inits = 0, lastTimeAccessed = 0, lr_closed = False, lr_running = False, closech = 0,
          lr_wg = 0, lr_now = now, finalized = [], lr_calls = [], lr_timers = []\<rparr>
     in if expiring \<and> initialInit \<ge> 0 then ensureTimerStarted initialInit r else r)"

section \<open>Values\<close>

text \<open>\<open>get\<close> is the access outside of any lock, with its effect on the time of the last access.\<close>

definition get :: "lazyref \<Rightarrow> nat option \<times> lazyref" where
  "get r = (lr_ref r, setLastAccessed r)"

definition initializer :: "goerr option \<Rightarrow> lazyref \<Rightarrow> (goerr + nat) \<times> lazyref" where
  "initializer res r = (case res of
     Some err \<Rightarrow> (Inl err, r)
   | None \<Rightarrow> (Inr (lr_inits r),
       (if expires r then ensureTimerStarted (initialExpiration r) (r\<lparr>lr_inits := lr_inits r + 1\<rparr>)
        else r\<lparr>lr_inits := lr_inits r + 1\<rparr>)))"

definition finalize :: "lazyref \<Rightarrow> lazyref" where
  "finalize r = (if \<not> has_finalizer r then r
     else if lr_ref r \<noteq> None then (setLastAccessed r)\<lparr>finalized := finalized r @ [lr_ref r]\<rparr>
     else r)"

definition resetValue :: "lazyref \<Rightarrow> lazyref" where
  "resetValue r =
     (if has_finalizer r then (setLastAccessed r)\<lparr>finalized := finalized r @ [lr_ref r], lr_ref := None\<rparr>
      else r\<lparr>lr_ref := None\<rparr>)"

definition refreshValue :: "goerr option \<Rightarrow> lazyref \<Rightarrow> lazyref" where
  "refreshValue res r = (case initializer res r of
     (Inl err, r1) \<Rightarrow> r1
   | (Inr v, r1) \<Rightarrow> r1\<lparr>lr_ref := Some v\<rparr>)"

definition handleExpiration :: "goerr option \<Rightarrow> lazyref \<Rightarrow> lazyref" where
  "handleExpiration res r = (if expiryType r = Refreshing then refreshValue res r else resetValue r)"

section \<open>Callers\<close>

definition Get :: "lazyref \<Rightarrow> lazyref" where
  "Get r = r\<lparr>lr_calls := lr_calls r @
     [if lr_closed r then GetDone (GetErr (errorNew ''reference is already closed'')) else GetChecked]\<rparr>"

definition Close :: "lazyref \<Rightarrow> lazyref" where
  "Close r = (if lr_closed r then r\<lparr>lr_calls := lr_calls r @ [CloseAlready]\<rparr>
     else r\<lparr>lr_closed := True, lr_calls := lr_calls r @ [CloseNotify]\<rparr>)"

text \<open>\<open>res\<close> is the error of the initializer, if it is called. The channel \<open>closech\<close> holds one message.\<close>

definition call_step :: "nat \<Rightarrow> goerr option \<Rightarrow> lazyref \<Rightarrow> lazyref option" where
  "call_step i res r = (case lr_calls r ! i of
     GetChecked \<Rightarrow> (case get r of
         (Some v, r1) \<Rightarrow> Some (r1\<lparr>lr_calls := (lr_calls r)[i := GetDone (Got v)]\<rparr>)
       | (None, r1) \<Rightarrow> Some (r1\<lparr>lr_calls := (lr_calls r)[i := GetLocking]\<rparr>))
   | GetLocking \<Rightarrow> (case get r of
         (Some v, r1) \<Rightarrow> Some (r1\<lparr>lr_calls := (lr_calls r)[i := GetDone (Got v)]\<rparr>)
       | (None, r1) \<Rightarrow> (case initializer res r1 of
             (Inl err, r2) \<Rightarrow> Some (r2\<lparr>lr_calls := (lr_calls r)[i := GetDone (GetErr err)]\<rparr>)
           | (Inr v, r2) \<Rightarrow> Some (r2\<lparr>lr_ref := Some v, lr_calls := (lr_calls r)[i := GetDone (Got v)]\<rparr>)))
   | CloseNotify \<Rightarrow>
       if \<not> lr_running r then Some (r\<lparr>lr_calls := (lr_calls r)[i := CloseWaiting]\<rparr>)
       else if closech r = 0 then Some (r\<lparr>closech := 1, lr_calls := (lr_calls r)[i := CloseWaiting]\<rparr>)
       else None
   | CloseWaiting \<Rightarrow> if lr_wg r = 0 then Some (r\<lparr>lr_calls := (lr_calls r)[i := CloseFinal]\<rparr>) else None
   | CloseFinal \<Rightarrow> Some ((finalize r)\<lparr>lr_calls := (lr_calls r)[i := CloseDone]\<rparr>)
   | _ \<Rightarrow> None)"

section \<open>Timers\<close>

definition setTimerRunning :: "lazyref \<Rightarrow> bool \<times> lazyref" where
  "setTimerRunning r = (if lr_running r \<or> lr_closed r then (False, r)
     else (True, r\<lparr>lr_running := True, lr_wg := lr_wg r + 1\<rparr>))"

definition setTimerStopped :: "lazyref \<Rightarrow> lazyref" where
  "setTimerStopped r = r\<lparr>lr_running := False, lr_wg := lr_wg r - 1\<rparr>"

text \<open>
  One round of the loop of \<open>checkTimeStarted\<close>: the closed event if \<open>stop\<close>, otherwise the timer, with \<open>expiration\<close> as
  the result of the expiration provider.
\<close>

definition timer_select :: "int \<Rightarrow> bool \<Rightarrow> int \<Rightarrow> lazyref \<Rightarrow> (timer \<times> lazyref) option" where
  "timer_select deadline stop expiration r =
    (if stop then (if closech r > 0 then Some (TStop, r\<lparr>closech := closech r - 1\<rparr>) else None)
     else if lr_now r < deadline then None
     else if lr_ref r = None \<and> expiryType r \<noteq> Refreshing then Some (TSelect (lr_now r + expiration), r)
     else if expiryType r = LastInitialized \<or> expiryType r = Refreshing then Some (TExpire expiration, r)
     else (let durSinceLastAccess = lr_now r - lastTimeAccessed r in
       if durSinceLastAccess > expiration then Some (TExpire expiration, r)
       else Some (TSelect (lr_now r + (expiration - durSinceLastAccess)), r)))"

definition timer_step :: "nat \<Rightarrow> bool \<Rightarrow> int \<Rightarrow> goerr option \<Rightarrow> lazyref \<Rightarrow> lazyref option" where
  "timer_step j stop expiration res r = (case lr_timers r ! j of
     TStart e \<Rightarrow> (case setTimerRunning r of
         (False, r1) \<Rightarrow> Some (r1\<lparr>lr_timers := (lr_timers r)[j := TEnd]\<rparr>)
       | (True, r1) \<Rightarrow> Some (r1\<lparr>lr_timers := (lr_timers r)[j := TSelect (lr_now r + e)]\<rparr>))
   | TSelect deadline \<Rightarrow> (case timer_select deadline stop expiration r of
         None \<Rightarrow> None
       | Some (t, r1) \<Rightarrow> Some (r1\<lparr>lr_timers := (lr_timers r)[j := t]\<rparr>))
   | TExpire e \<Rightarrow> (let r1 = handleExpiration res r in Some (r1\<lparr>lr_timers := (lr_timers r1)[j := TSelect (lr_now r1 + e)]\<rparr>))
   | TStop \<Rightarrow> Some ((setTimerStopped r)\<lparr>lr_timers := (lr_timers r)[j := TEnd]\<rparr>)
   | TEnd \<Rightarrow> None)"

section \<open>Interleavings\<close>

inductive ref_step :: "lazyref \<Rightarrow> lazyref \<Rightarrow> bool" where
  ref_get: "ref_step r (Get r)"
| ref_close: "ref_step r (Close r)"
| ref_call: "ref_step r r'" if "i < length (lr_calls r)" "call_step i res r = Some r'"
| ref_timer: "ref_step r r'" if "j < length (lr_timers r)" "timer_step j stop expiration res r = Some r'"
| ref_time: "ref_step r (r\<lparr>lr_now := t\<rparr>)" if "lr_now r \<le> t"

end
