(* ===== verification/Lazy_Ref_Theorems.thy ===== *)
theory Lazy_Ref_Theorems
  imports Lazy_Ref
begin

text \<open>
  The lazy reference under all interleavings of callers and timers: there is at most one timer, \<open>Close\<close> is never
  stuck, and every value is finalized at most once, and once when the reference is closed; and the races.
\<close>

section \<open>Synchronization\<close>

fun closer :: "ref_call \<Rightarrow> bool" where
  "closer CloseNotify \<longleftrightarrow> True" | "closer CloseWaiting \<longleftrightarrow> True" | "closer CloseFinal \<longleftrightarrow> True"
| "closer CloseDone \<longleftrightarrow> True" | "closer _ \<longleftrightarrow> False"

fun notified :: "ref_call \<Rightarrow> bool" where
  "notified CloseWaiting \<longleftrightarrow> True" | "notified CloseFinal \<longleftrightarrow> True" | "notified CloseDone \<longleftrightarrow> True" | "notified _ \<longleftrightarrow> False"

fun final :: "ref_call \<Rightarrow> bool" where
  "final CloseFinal \<longleftrightarrow> True" | "final CloseDone \<longleftrightarrow> True" | "final _ \<longleftrightarrow> False"

fun active :: "timer \<Rightarrow> bool" where
  "active (TSelect d) \<longleftrightarrow> True" | "active (TExpire e) \<longleftrightarrow> True" | "active TStop \<longleftrightarrow> True" | "active _ \<longleftrightarrow> False"

fun stopping :: "timer \<Rightarrow> bool" where
  "stopping TStop \<longleftrightarrow> True" | "stopping _ \<longleftrightarrow> False"

definition sync_inv :: "lazyref \<Rightarrow> bool" where
  "sync_inv r \<longleftrightarrow> lr_wg r = in_phase active (lr_timers r) \<and> lr_wg r = (if lr_running r then 1 else 0)
     \<and> in_phase closer (lr_calls r) = (if lr_closed r then 1 else 0)
     \<and> closech r + in_phase stopping (lr_timers r) = (if lr_running r \<and> in_phase notified (lr_calls r) > 0 then 1 else 0)
     \<and> (in_phase final (lr_calls r) > 0 \<longrightarrow> \<not> lr_running r)"

lemma notified_closer: "in_phase notified cs \<le> in_phase closer cs" "in_phase final cs \<le> in_phase notified cs"
  by (induction cs) (auto elim: notified.elims closer.elims final.elims)

text \<open>These fields decide it.\<close>

definition sync_core :: "lazyref \<Rightarrow> nat \<times> bool \<times> bool \<times> nat" where
  "sync_core r = (lr_wg r, lr_running r, lr_closed r, closech r)"

lemma sync_core_simps [simp]:
  "sync_core (r\<lparr>lr_ref := v\<rparr>) = sync_core r" "sync_core (r\<lparr>lr_calls := cs\<rparr>) = sync_core r"
  "sync_core (r\<lparr>lr_timers := ts\<rparr>) = sync_core r" "sync_core (r\<lparr>finalized := l\<rparr>) = sync_core r"
  "sync_core (r\<lparr>lr_now := t\<rparr>) = sync_core r" "sync_core (r\<lparr>lr_inits := n\<rparr>) = sync_core r"
  by (simp_all add: sync_core_def)

lemma sync_same:
  assumes "sync_inv r" "sync_core r' = sync_core r" "in_phase active (lr_timers r') = in_phase active (lr_timers r)"
    "in_phase stopping (lr_timers r') = in_phase stopping (lr_timers r)" "lr_calls r' = lr_calls r"
  shows "sync_inv r'"
  using assms by (simp add: sync_inv_def sync_core_def)

lemma ensureTimerStarted_frame [simp]:
  "sync_core (ensureTimerStarted e r) = sync_core r" "in_phase active (lr_timers (ensureTimerStarted e r)) = in_phase active (lr_timers r)"
  "in_phase stopping (lr_timers (ensureTimerStarted e r)) = in_phase stopping (lr_timers r)"
  "lr_ref (ensureTimerStarted e r) = lr_ref r" "lr_inits (ensureTimerStarted e r) = lr_inits r"
  "finalized (ensureTimerStarted e r) = finalized r" "expiryType (ensureTimerStarted e r) = expiryType r"
  "has_finalizer (ensureTimerStarted e r) = has_finalizer r" "lr_calls (ensureTimerStarted e r) = lr_calls r"
  "lr_closed (ensureTimerStarted e r) = lr_closed r" "lr_running (ensureTimerStarted e r) = lr_running r"
  by (simp_all add: ensureTimerStarted_def setLastAccessed_def sync_core_def)

lemma sync_move:
  assumes "sync_inv r" "i < length (lr_calls r)" "\<not> closer (lr_calls r ! i)" "\<not> closer c"
    "sync_core x = sync_core r"
    "in_phase active (lr_timers x) = in_phase active (lr_timers r)" "in_phase stopping (lr_timers x) = in_phase stopping (lr_timers r)"
  shows "sync_inv (x\<lparr>lr_calls := (lr_calls r)[i := c]\<rparr>)"
proof -
  have n: "\<not> notified d" "\<not> final d" if "\<not> closer d" for d using that by (cases d; simp)+
  have "in_phase closer ((lr_calls r)[i := c]) = in_phase closer (lr_calls r)"
    "in_phase notified ((lr_calls r)[i := c]) = in_phase notified (lr_calls r)"
    "in_phase final ((lr_calls r)[i := c]) = in_phase final (lr_calls r)"
    using assms(2-4) n by (simp_all add: in_phase_move)
  then show ?thesis using assms(1,5-7) by (simp add: sync_inv_def sync_core_def)
qed

text \<open>The initializer fails, or makes the next value and possibly starts a timer.\<close>

lemma initializer_Some [simp]: "initializer (Some err) r = (Inl err, r)"
  by (simp add: initializer_def)

lemma initializer_None:
  obtains r2 where "initializer None r = (Inr (lr_inits r), r2)" "sync_core r2 = sync_core r"
    "in_phase active (lr_timers r2) = in_phase active (lr_timers r)"
    "in_phase stopping (lr_timers r2) = in_phase stopping (lr_timers r)" "lr_ref r2 = lr_ref r" "finalized r2 = finalized r"
    "expiryType r2 = expiryType r" "has_finalizer r2 = has_finalizer r" "lr_calls r2 = lr_calls r" "lr_closed r2 = lr_closed r"
    "lr_inits r2 = Suc (lr_inits r)" "lr_running r \<Longrightarrow> lr_timers r2 = lr_timers r"
    "set (lr_timers r2) \<subseteq> set (lr_timers r) \<union> range TStart"
  by (rule that [of "snd (initializer None r)"])
    (auto simp: initializer_def sync_core_def ensureTimerStarted_def setLastAccessed_def)

lemma get_frame [simp]:
  "sync_core (setLastAccessed r) = sync_core r" "lr_timers (setLastAccessed r) = lr_timers r" "lr_ref (setLastAccessed r) = lr_ref r"
  "lr_inits (setLastAccessed r) = lr_inits r" "finalized (setLastAccessed r) = finalized r" "expiryType (setLastAccessed r) = expiryType r"
  "has_finalizer (setLastAccessed r) = has_finalizer r" "lr_calls (setLastAccessed r) = lr_calls r" "lr_closed (setLastAccessed r) = lr_closed r"
  "lr_running (setLastAccessed r) = lr_running r" "closech (setLastAccessed r) = closech r" "lr_wg (setLastAccessed r) = lr_wg r"
  by (simp_all add: setLastAccessed_def sync_core_def)

lemma finalize_frame [simp]:
  "sync_core (finalize r) = sync_core r" "lr_timers (finalize r) = lr_timers r" "lr_ref (finalize r) = lr_ref r"
  "lr_inits (finalize r) = lr_inits r" "expiryType (finalize r) = expiryType r" "has_finalizer (finalize r) = has_finalizer r"
  "lr_calls (finalize r) = lr_calls r" "lr_closed (finalize r) = lr_closed r"
  by (simp_all add: finalize_def setLastAccessed_def sync_core_def)

lemma call_step_sync:
  assumes "sync_inv r" "i < length (lr_calls r)" "call_step i res r = Some r'"
  shows "sync_inv r'"
proof (cases "lr_calls r ! i")
  case GetChecked
  then show ?thesis
    using assms by (auto simp: call_step_def get_def split: option.splits intro!: sync_move [OF assms(1,2)])
next
  case GetLocking
  obtain r2 where r2: "initializer None (setLastAccessed r) = (Inr (lr_inits r), r2)" "sync_core r2 = sync_core r"
    "in_phase active (lr_timers r2) = in_phase active (lr_timers r)" "in_phase stopping (lr_timers r2) = in_phase stopping (lr_timers r)"
    by (rule initializer_None [of "setLastAccessed r"]) simp
  show ?thesis
    using assms(3) GetLocking r2
    by (cases res) (auto simp: call_step_def get_def split: option.splits intro!: sync_move [OF assms(1,2)])
next
  case CloseNotify
  note u = in_phase_update [OF assms(2), of _ CloseWaiting]
  show ?thesis
    using assms(1,3) CloseNotify u [of closer] u [of notified] u [of final] notified_closer(1) [of "(lr_calls r)[i := CloseWaiting]"]
    by (auto simp: call_step_def sync_inv_def split: if_splits)
next
  case CloseWaiting
  note u = in_phase_update [OF assms(2), of _ CloseFinal]
  show ?thesis
    using assms(1,3) CloseWaiting u [of closer] u [of notified] u [of final]
    by (auto simp: call_step_def sync_inv_def split: if_splits)
next
  case CloseFinal
  have "in_phase P ((lr_calls r)[i := CloseDone]) = in_phase P (lr_calls r)" if "P \<in> {closer, notified, final}" for P
    by (rule in_phase_move [OF assms(2)]) (use that CloseFinal in auto)
  moreover have "r' = (finalize r)\<lparr>lr_calls := (lr_calls r)[i := CloseDone]\<rparr>" using assms(3) CloseFinal by (simp add: call_step_def)
  ultimately show ?thesis
    using assms(1) finalize_frame(1) [of r] by (simp add: sync_inv_def sync_core_def)
qed (use assms(3) in \<open>simp_all add: call_step_def\<close>)

lemma handleExpiration_frame:
  "sync_core (handleExpiration res r) = sync_core r" "in_phase active (lr_timers (handleExpiration res r)) = in_phase active (lr_timers r)"
  "in_phase stopping (lr_timers (handleExpiration res r)) = in_phase stopping (lr_timers r)"
  "lr_calls (handleExpiration res r) = lr_calls r" "lr_running r \<Longrightarrow> lr_timers (handleExpiration res r) = lr_timers r"
proof -
  obtain r2 where r2: "initializer None r = (Inr (lr_inits r), r2)" "sync_core r2 = sync_core r"
    "in_phase active (lr_timers r2) = in_phase active (lr_timers r)" "in_phase stopping (lr_timers r2) = in_phase stopping (lr_timers r)"
    "lr_calls r2 = lr_calls r" "lr_running r \<Longrightarrow> lr_timers r2 = lr_timers r"
    by (rule initializer_None [of r]) simp
  show "sync_core (handleExpiration res r) = sync_core r"
    "in_phase active (lr_timers (handleExpiration res r)) = in_phase active (lr_timers r)"
    "in_phase stopping (lr_timers (handleExpiration res r)) = in_phase stopping (lr_timers r)"
    "lr_calls (handleExpiration res r) = lr_calls r" "lr_running r \<Longrightarrow> lr_timers (handleExpiration res r) = lr_timers r"
    using r2 by (cases res; auto simp: handleExpiration_def refreshValue_def resetValue_def)+
qed

text \<open>An active timer means that the reference is running, with this timer only.\<close>

lemma active_running:
  assumes "sync_inv r" "j < length (lr_timers r)" "active (lr_timers r ! j)"
  shows "lr_running r" "in_phase active (lr_timers r) = 1"
  using assms(1) in_phase_nth [OF assms(2), of active, OF assms(3)] by (auto simp: sync_inv_def split: if_splits)

lemma timer_step_sync:
  assumes "sync_inv r" "j < length (lr_timers r)" "timer_step j stop expiration res r = Some r'"
  shows "sync_inv r'"
proof (cases "lr_timers r ! j")
  case (TStart e)
  note u = in_phase_update [OF assms(2), of _ TEnd] in_phase_update [OF assms(2), of _ "TSelect (lr_now r + e)"]
  show ?thesis
    using assms(1,3) TStart u(1) [of active] u(1) [of stopping] u(2) [of active] u(2) [of stopping] notified_closer [of "lr_calls r"]
    by (auto simp: timer_step_def setTimerRunning_def sync_inv_def split: if_splits)
next
  case (TSelect d)
  note u = in_phase_update [OF assms(2)]
  obtain t r1 where t: "timer_select d stop expiration r = Some (t, r1)" "r' = r1\<lparr>lr_timers := (lr_timers r)[j := t]\<rparr>"
    using assms(3) TSelect by (auto simp: timer_step_def split: option.splits)
  show ?thesis
    using assms(1) t TSelect u [of active t] u [of stopping t]
    by (auto simp: timer_select_def sync_inv_def Let_def split: if_splits)
next
  case (TExpire e)
  have r: "lr_running r" using active_running [OF assms(1,2)] TExpire by simp
  let ?t = "TSelect (lr_now (handleExpiration res r) + e)"
  have "in_phase active ((lr_timers r)[j := ?t]) = in_phase active (lr_timers r)"
    "in_phase stopping ((lr_timers r)[j := ?t]) = in_phase stopping (lr_timers r)"
    by (rule in_phase_move [OF assms(2)]; simp add: TExpire)+
  then show ?thesis
    using assms(3) TExpire handleExpiration_frame [where res = res and r = r] r
    by (auto simp: timer_step_def Let_def intro!: sync_same [OF assms(1)])
next
  case TStop
  note u = in_phase_update [OF assms(2), of _ TEnd]
  show ?thesis
    using assms(1,3) TStop u [of active] u [of stopping] active_running [OF assms(1,2)]
    by (auto simp: timer_step_def setTimerStopped_def sync_inv_def split: if_splits)
qed (use assms(3) in \<open>simp_all add: timer_step_def\<close>)

lemma step_sync: "ref_step r r' \<Longrightarrow> sync_inv r \<Longrightarrow> sync_inv r'"
proof (induction rule: ref_step.induct)
  case (ref_close r)
  then show ?case using notified_closer [of "lr_calls r"] by (auto simp: Close_def sync_inv_def)
next
  case (ref_call i r res r')
  then show ?case by (blast intro: call_step_sync)
next
  case (ref_timer j r stop expiration res r')
  then show ?case by (blast intro: timer_step_sync)
qed (auto simp: Get_def sync_inv_def)

section \<open>Values\<close>

fun expiring :: "timer \<Rightarrow> bool" where
  "expiring (TExpire e) \<longleftrightarrow> True" | "expiring _ \<longleftrightarrow> False"

text \<open>
  Finalized values are distinct, and the current one is finalized by \<open>Close\<close> only; with a finalizer and without
  refreshing, every value that is not the current one has been finalized.
\<close>

definition value_inv :: "lazyref \<Rightarrow> bool" where
  "value_inv r \<longleftrightarrow> (\<forall>v. lr_ref r = Some v \<longrightarrow> v < lr_inits r)
     \<and> (\<forall>x\<in>set (finalized r). \<exists>v<lr_inits r. x = Some v) \<and> distinct (finalized r)
     \<and> (\<forall>v. lr_ref r = Some v \<longrightarrow> Some v \<in> set (finalized r) \<longrightarrow> CloseDone \<in> set (lr_calls r))
     \<and> (expiryType r \<noteq> Refreshing \<longrightarrow> in_phase expiring (lr_timers r) > 0 \<longrightarrow> lr_ref r \<noteq> None)
     \<and> (has_finalizer r \<longrightarrow> expiryType r \<noteq> Refreshing \<longrightarrow> (\<forall>v<lr_inits r. Some v \<in> set (finalized r) \<or> lr_ref r = Some v))"

lemma expiring_active: "in_phase expiring ts \<le> in_phase active ts"
  by (induction ts) (auto elim: expiring.elims active.elims)

lemma value_same:
  assumes "value_inv r" "lr_ref r' = lr_ref r" "lr_inits r' = lr_inits r" "finalized r' = finalized r" "expiryType r' = expiryType r"
    "has_finalizer r' = has_finalizer r" "CloseDone \<in> set (lr_calls r) \<Longrightarrow> CloseDone \<in> set (lr_calls r')"
    "expiryType r \<noteq> Refreshing \<Longrightarrow> in_phase expiring (lr_timers r') > 0 \<Longrightarrow> lr_ref r \<noteq> None"
  shows "value_inv r'"
  using assms unfolding value_inv_def by auto

text \<open>A new value.\<close>

lemma value_new:
  assumes "value_inv r" "lr_ref r' = Some (lr_inits r)" "lr_inits r' = Suc (lr_inits r)" "finalized r' = finalized r"
    "expiryType r' = expiryType r" "has_finalizer r' = has_finalizer r" "expiryType r = Refreshing \<or> lr_ref r = None"
  shows "value_inv r'"
  using assms unfolding value_inv_def by (auto simp: less_Suc_eq)

lemma done_kept: "i < length cs \<Longrightarrow> cs ! i \<noteq> CloseDone \<Longrightarrow> CloseDone \<in> set cs \<Longrightarrow> CloseDone \<in> set (cs[i := c])"
  by (metis in_set_conv_nth length_list_update nth_list_update_neq)

lemma call_step_value:
  assumes "value_inv r" "sync_inv r" "i < length (lr_calls r)" "call_step i res r = Some r'"
  shows "value_inv r'"
proof (cases "lr_calls r ! i")
  case GetChecked
  then show ?thesis
    using assms(1,3,4) by (auto simp: call_step_def get_def done_kept value_inv_def split: option.splits)
next
  case GetLocking
  obtain r2 where r2: "initializer None (setLastAccessed r) = (Inr (lr_inits r), r2)" "lr_ref r2 = lr_ref r" "finalized r2 = finalized r"
    "expiryType r2 = expiryType r" "has_finalizer r2 = has_finalizer r" "lr_inits r2 = Suc (lr_inits r)"
    by (rule initializer_None [of "setLastAccessed r"]) simp
  have n: "value_inv (r2\<lparr>lr_ref := Some (lr_inits r), lr_calls := cs\<rparr>)" if "lr_ref r = None" for cs
    by (rule value_new [OF assms(1)]) (simp_all add: r2 that)
  have s: "value_inv ((setLastAccessed r)\<lparr>lr_calls := (lr_calls r)[i := c]\<rparr>)" for c
    using assms(1,3) GetLocking by (auto simp: done_kept value_inv_def)
  show ?thesis
    using assms(4) GetLocking r2(1) n s by (cases res) (auto simp: call_step_def get_def split: option.splits)
next
  case CloseFinal
  have "CloseDone \<notin> set (lr_calls r)"
  proof
    assume "CloseDone \<in> set (lr_calls r)"
    then obtain j where j: "j < length (lr_calls r)" "lr_calls r ! j = CloseDone" by (auto simp: in_set_conv_nth)
    have "in_phase closer (lr_calls r) \<le> 1" using assms(2) by (auto simp: sync_inv_def)
    from in_phase_one [OF this assms(3) _ j(1)] show False using CloseFinal j(2) by auto
  qed
  moreover have "r' = (finalize r)\<lparr>lr_calls := (lr_calls r)[i := CloseDone]\<rparr>" using assms(4) CloseFinal by (simp add: call_step_def)
  moreover have "CloseDone \<in> set ((lr_calls r)[i := CloseDone])" using assms(3) by (simp add: set_update_memI)
  ultimately show ?thesis
    using assms(1) by (cases "lr_ref r") (auto simp: value_inv_def finalize_def)
qed (use assms(1,3,4) in \<open>auto simp: call_step_def done_kept value_inv_def split: if_splits\<close>)

lemma timer_step_value:
  assumes "value_inv r" "sync_inv r" "j < length (lr_timers r)" "timer_step j stop expiration res r = Some r'"
  shows "value_inv r'"
proof (cases "lr_timers r ! j")
  case (TStart e)
  then show ?thesis
    using assms(1,3,4) in_phase_move [OF assms(3), of expiring]
    by (auto simp: timer_step_def setTimerRunning_def split: if_splits intro!: value_same [OF assms(1)]) (auto simp: value_inv_def)
next
  case (TSelect d)
  obtain t r1 where t: "timer_select d stop expiration r = Some (t, r1)" "r' = r1\<lparr>lr_timers := (lr_timers r)[j := t]\<rparr>"
    using assms(4) TSelect by (auto simp: timer_step_def split: option.splits)
  have "lr_ref r \<noteq> None" if "expiryType r \<noteq> Refreshing" "in_phase expiring ((lr_timers r)[j := t]) > 0"
  proof (cases "expiring t")
    case True
    then show ?thesis using t(1) that(1) by (auto simp: timer_select_def Let_def split: if_splits)
  next
    case False
    then show ?thesis using that assms(1) in_phase_move [OF assms(3), of expiring t] TSelect by (simp add: value_inv_def)
  qed
  moreover have "lr_ref r1 = lr_ref r" "lr_inits r1 = lr_inits r" "finalized r1 = finalized r" "expiryType r1 = expiryType r"
    "has_finalizer r1 = has_finalizer r" "lr_calls r1 = lr_calls r"
    using t(1) by (auto simp: timer_select_def Let_def split: if_splits)
  ultimately show ?thesis by (intro value_same [OF assms(1)]) (simp_all add: t(2))
next
  case (TExpire e)
  have run: "lr_running r" "in_phase active (lr_timers r) = 1" using active_running [OF assms(2,3)] TExpire by simp_all
  let ?ts = "(lr_timers r)[j := TSelect (lr_now (handleExpiration res r) + e)]"
  have "in_phase expiring ?ts = 0"
    using in_phase_leave [OF assms(3), of expiring "TSelect (lr_now (handleExpiration res r) + e)"] TExpire
      expiring_active [of "lr_timers r"] run(2) by simp
  have r': "r' = (handleExpiration res r)\<lparr>lr_timers := ?ts\<rparr>"
    using assms(4) TExpire handleExpiration_frame(5) [OF run(1), of res] by (simp add: timer_step_def Let_def)
  show ?thesis
  proof (cases "expiryType r = Refreshing")
    case True
    obtain r2 where r2: "initializer None r = (Inr (lr_inits r), r2)" "finalized r2 = finalized r"
      "expiryType r2 = expiryType r" "has_finalizer r2 = has_finalizer r" "lr_inits r2 = Suc (lr_inits r)"
      by (rule initializer_None [of r]) simp
    have "value_inv (r2\<lparr>lr_ref := Some (lr_inits r), lr_timers := ts\<rparr>)" for ts
      by (rule value_new [OF assms(1)]) (simp_all add: r2 True)
    moreover have "value_inv (r\<lparr>lr_timers := ts\<rparr>)" for ts using True by (intro value_same [OF assms(1)]) simp_all
    ultimately show ?thesis
      using True r2(1) unfolding r' by (cases res) (auto simp: handleExpiration_def refreshValue_def)
  next
    case False
    have "in_phase expiring (lr_timers r) > 0" using in_phase_nth [OF assms(3), of expiring] TExpire by simp
    then obtain v where v: "lr_ref r = Some v" using assms(1) False by (auto simp: value_inv_def)
    have "CloseDone \<notin> set (lr_calls r)"
      using assms(2) run(1) in_phase_pos [of final "lr_calls r"] by (force simp: sync_inv_def)
    then have "Some v \<notin> set (finalized r)" using assms(1) v by (auto simp: value_inv_def)
    then show ?thesis
      using assms(1) v False \<open>in_phase expiring ?ts = 0\<close> unfolding r'
      by (auto simp: handleExpiration_def resetValue_def value_inv_def)
  qed
next
  case TStop
  then show ?thesis
    using assms(1,3,4) in_phase_move [OF assms(3), of expiring TEnd]
    by (auto simp: timer_step_def setTimerStopped_def value_inv_def)
qed (use assms(4) in \<open>simp_all add: timer_step_def\<close>)

lemma step_value: "ref_step r r' \<Longrightarrow> sync_inv r \<Longrightarrow> value_inv r \<Longrightarrow> value_inv r'"
proof (induction rule: ref_step.induct)
  case (ref_call i r res r')
  then show ?case by (blast intro: call_step_value)
next
  case (ref_timer j r stop expiration res r')
  then show ?case by (blast intro: timer_step_value)
qed (auto simp: Get_def Close_def value_inv_def)

definition ref_inv :: "lazyref \<Rightarrow> bool" where
  "ref_inv r \<longleftrightarrow> sync_inv r \<and> value_inv r"

abbreviation ref_run :: "lazyref \<Rightarrow> lazyref \<Rightarrow> bool" where
  "ref_run \<equiv> ref_step\<^sup>*\<^sup>*"

lemma ref_run_inv: "ref_run r r' \<Longrightarrow> ref_inv r \<Longrightarrow> ref_inv r'"
  by (induction rule: rtranclp_induct) (auto simp: ref_inv_def step_sync step_value)

lemma ref_new_inv: "ref_inv (NewWithData ex type fin expiration initialInit now)"
  by (simp add: ref_inv_def NewWithData_def ensureTimerStarted_def setLastAccessed_def sync_inv_def value_inv_def Let_def)

lemmas new_run_inv = ref_run_inv [OF _ ref_new_inv]

section \<open>Closing\<close>

text \<open>Once closed without a \<open>Get\<close> on its way, the reference gets no further value from a caller.\<close>

fun getting :: "ref_call \<Rightarrow> bool" where
  "getting GetChecked \<longleftrightarrow> True" | "getting GetLocking \<longleftrightarrow> True" | "getting _ \<longleftrightarrow> False"

definition quiet :: "lazyref \<Rightarrow> bool" where
  "quiet r \<longleftrightarrow> lr_closed r \<and> in_phase getting (lr_calls r) = 0
     \<and> (has_finalizer r \<longrightarrow> CloseDone \<in> set (lr_calls r) \<longrightarrow> (\<forall>v. lr_ref r = Some v \<longrightarrow> Some v \<in> set (finalized r)))"

lemma quiet_call:
  assumes "quiet r" "sync_inv r" "i < length (lr_calls r)" "call_step i res r = Some r'"
  shows "quiet r'"
proof -
  have g: "\<not> getting (lr_calls r ! i)" using assms(1,3) by (auto simp: quiet_def in_phase_zero)
  have n: "in_phase getting ((lr_calls r)[i := c]) = in_phase getting (lr_calls r)" if "\<not> getting c" for c
    using in_phase_move [OF assms(3), of getting c] g that by simp
  have d: "CloseDone \<in> set (lr_calls r)" if "CloseDone \<in> set ((lr_calls r)[i := c])" "c \<in> {CloseWaiting, CloseFinal}" for c
    using that set_update_subset_insert [of "lr_calls r" i c] by auto
  show ?thesis
  proof (cases "lr_calls r ! i")
    case CloseFinal
    then show ?thesis
      using assms(1,4) n [of CloseDone] by (auto simp: call_step_def quiet_def finalize_def)
  qed (use assms(1,4) g n d [of CloseWaiting] d [of CloseFinal] in \<open>auto simp: call_step_def quiet_def split: if_splits\<close>)
qed

lemma quiet_timer:
  assumes "quiet r" "sync_inv r" "j < length (lr_timers r)" "timer_step j stop expiration res r = Some r'"
  shows "quiet r'"
proof (cases "lr_timers r ! j")
  case (TExpire e)
  have run: "lr_running r" using active_running [OF assms(2,3)] TExpire by simp
  have "CloseDone \<notin> set (lr_calls r)"
    using assms(2) run in_phase_pos [of final "lr_calls r"] by (force simp: sync_inv_def)
  moreover have "lr_calls r' = lr_calls r" "lr_closed r' = lr_closed r"
    using assms(4) TExpire handleExpiration_frame(1,4) [where res = res and r = r]
    by (auto simp: timer_step_def Let_def sync_core_def)
  ultimately show ?thesis using assms(1) by (simp add: quiet_def)
qed (use assms(1,4) in \<open>auto simp: timer_step_def setTimerRunning_def setTimerStopped_def timer_select_def Let_def quiet_def
      split: if_splits option.splits\<close>)

lemma step_quiet: "ref_step r r' \<Longrightarrow> sync_inv r \<Longrightarrow> quiet r \<Longrightarrow> quiet r'"
proof (induction rule: ref_step.induct)
  case (ref_call i r res r')
  then show ?case by (blast intro: quiet_call)
next
  case (ref_timer j r stop expiration res r')
  then show ?case by (blast intro: quiet_timer)
qed (auto simp: Get_def Close_def quiet_def)

lemma run_quiet: "ref_run r r' \<Longrightarrow> ref_inv r \<Longrightarrow> quiet r \<Longrightarrow> quiet r'"
proof (induction rule: rtranclp_induct)
  case (step s s')
  then have "ref_inv s" by (blast intro: ref_run_inv)
  then show ?case using step step_quiet by (auto simp: ref_inv_def)
qed

text \<open>The way to the end of \<open>Close\<close>.\<close>

lemma timer_ends:
  assumes "sync_inv r" "lr_running r" "in_phase notified (lr_calls r) > 0"
  shows "\<exists>r'. ref_run r r' \<and> \<not> lr_running r' \<and> lr_calls r' = lr_calls r"
proof -
  obtain j where j: "j < length (lr_timers r)" "active (lr_timers r ! j)"
    using assms(1,2) in_phase_pos [of active "lr_timers r"] by (auto simp: sync_inv_def in_set_conv_nth)
  have stop: "\<exists>r'. ref_run s r' \<and> \<not> lr_running r' \<and> lr_calls r' = lr_calls s"
    if "j < length (lr_timers s)" "lr_timers s ! j = TStop" for s
  proof (intro exI conjI)
    show "ref_run s ((setTimerStopped s)\<lparr>lr_timers := (lr_timers s)[j := TEnd]\<rparr>)"
      by (rule r_into_rtranclp, rule ref_timer [OF that(1)]) (simp add: timer_step_def that(2))
  qed (simp_all add: setTimerStopped_def)
  have sel: "\<exists>r'. ref_run s r' \<and> \<not> lr_running r' \<and> lr_calls r' = lr_calls s"
    if "sync_inv s" "lr_running s" "in_phase notified (lr_calls s) > 0" "j < length (lr_timers s)" "lr_timers s ! j = TSelect d" for s d
  proof -
    have "in_phase active (lr_timers s) = 1" using active_running [OF that(1,4)] that(5) by simp
    then have "in_phase stopping (lr_timers s) = 0"
      using in_phase_one [of active "lr_timers s" j] that(4,5) by (auto simp: in_phase_zero in_set_conv_nth elim!: stopping.elims)
    then have "closech s = 1" using that(1-3) by (simp add: sync_inv_def)
    then have "ref_step s (s\<lparr>closech := 0, lr_timers := (lr_timers s)[j := TStop]\<rparr>)"
      by (intro ref_timer [OF that(4), of True]) (simp add: timer_step_def timer_select_def that(5))
    then show ?thesis
      using stop [of "s\<lparr>closech := 0, lr_timers := (lr_timers s)[j := TStop]\<rparr>"] that(4)
      by (auto intro: converse_rtranclp_into_rtranclp)
  qed
  show ?thesis
  proof (cases "lr_timers r ! j")
    case (TExpire e)
    let ?r = "handleExpiration None r"
    let ?s = "?r\<lparr>lr_timers := (lr_timers ?r)[j := TSelect (lr_now ?r + e)]\<rparr>"
    have "ref_step r ?s" by (rule ref_timer [OF j(1)]) (simp add: timer_step_def TExpire Let_def)
    moreover have "sync_inv ?s" by (rule step_sync [OF calculation assms(1)])
    moreover have "\<exists>r'. ref_run ?s r' \<and> \<not> lr_running r' \<and> lr_calls r' = lr_calls ?s"
      by (rule sel [OF calculation(2)])
        (use assms(2,3) j(1) handleExpiration_frame(1,4,5) [where r = r and res = None] in \<open>auto simp: sync_core_def\<close>)
    ultimately show ?thesis
      using handleExpiration_frame(4) [where r = r and res = None] by (auto intro: converse_rtranclp_into_rtranclp)
  qed (use j sel [OF assms(1-3) j(1)] stop [OF j(1)] in \<open>auto\<close>)
qed

lemma close_ends:
  assumes "ref_inv r" "i < length (lr_calls r)" "closer (lr_calls r ! i)"
  shows "\<exists>r'. ref_run r r' \<and> lr_calls r' ! i = CloseDone"
proof -
  have fin: "\<exists>r'. ref_run s r' \<and> lr_calls r' ! i = CloseDone" if "i < length (lr_calls s)" "lr_calls s ! i = CloseFinal" for s
  proof (intro exI conjI)
    show "ref_run s ((finalize s)\<lparr>lr_calls := (lr_calls s)[i := CloseDone]\<rparr>)"
      by (rule r_into_rtranclp, rule ref_call [OF that(1)]) (simp add: call_step_def that(2))
  qed (simp add: that(1))
  have free: "\<exists>r'. ref_run s r' \<and> lr_calls r' ! i = CloseDone"
    if "i < length (lr_calls s)" "lr_calls s ! i = CloseWaiting" "lr_wg s = 0" for s
  proof -
    have "ref_step s (s\<lparr>lr_calls := (lr_calls s)[i := CloseFinal]\<rparr>)"
      by (rule ref_call [OF that(1)]) (simp add: call_step_def that(2,3))
    then show ?thesis
      using fin [of "s\<lparr>lr_calls := (lr_calls s)[i := CloseFinal]\<rparr>"] that(1)
      by (auto intro: converse_rtranclp_into_rtranclp)
  qed
  have wait: "\<exists>r'. ref_run s r' \<and> lr_calls r' ! i = CloseDone"
    if s: "ref_inv s" "i < length (lr_calls s)" "lr_calls s ! i = CloseWaiting" for s
  proof (cases "lr_running s")
    case True
    have "in_phase notified (lr_calls s) > 0" using in_phase_nth [OF s(2), of notified] s(3) by simp
    with timer_ends [of s] s(1) True obtain t where t: "ref_run s t" "\<not> lr_running t" "lr_calls t = lr_calls s"
      by (auto simp: ref_inv_def)
    have "ref_inv t" using ref_run_inv [OF t(1) s(1)] .
    then have "lr_wg t = 0" using t(2) by (simp add: ref_inv_def sync_inv_def)
    then show ?thesis using free [of t] s t by (auto intro: rtranclp_trans)
  next
    case False
    then have "lr_wg s = 0" using s(1) by (simp add: ref_inv_def sync_inv_def)
    then show ?thesis using free s by blast
  qed
  show ?thesis
  proof (cases "lr_calls r ! i")
    case CloseNotify
    let ?s = "r\<lparr>closech := if lr_running r then 1 else closech r, lr_calls := (lr_calls r)[i := CloseWaiting]\<rparr>"
    have "closech r = 0" if "lr_running r"
    proof -
      have "in_phase closer (lr_calls r) = 1"
        using assms(1) in_phase_nth [OF assms(2), of closer] CloseNotify by (auto simp: ref_inv_def sync_inv_def split: if_splits)
      then have "in_phase notified (lr_calls r) = 0"
        using in_phase_update [OF assms(2), of closer CloseWaiting] in_phase_update [OF assms(2), of notified CloseWaiting]
          notified_closer(1) [of "(lr_calls r)[i := CloseWaiting]"] CloseNotify by simp
      then show ?thesis using assms(1) by (simp add: ref_inv_def sync_inv_def)
    qed
    then have "ref_step r ?s"
      by (intro ref_call [OF assms(2)]) (auto simp: call_step_def CloseNotify)
    moreover from this have "ref_inv ?s" using assms(1) by (blast intro: ref_run_inv)
    ultimately show ?thesis
      using wait [of ?s] assms(2) by (auto intro: converse_rtranclp_into_rtranclp)
  qed (use assms fin wait in auto)
qed

section \<open>Computed runs\<close>

datatype act = AGet | AClose | ACall nat "goerr option" | ATimer nat bool int "goerr option" | ATime int

fun act_step :: "act \<Rightarrow> lazyref \<Rightarrow> lazyref option" where
  "act_step AGet r = Some (Get r)"
| "act_step AClose r = Some (Close r)"
| "act_step (ACall i res) r = (if i < length (lr_calls r) then call_step i res r else None)"
| "act_step (ATimer j stop e res) r = (if j < length (lr_timers r) then timer_step j stop e res r else None)"
| "act_step (ATime t) r = (if lr_now r \<le> t then Some (r\<lparr>lr_now := t\<rparr>) else None)"

lemma act_step_ref: "act_step a r = Some r' \<Longrightarrow> ref_step r r'"
  by (cases a) (auto split: if_splits intro: ref_step.intros)

lemma run_ref: "run_steps act_step as r = Some r' \<Longrightarrow> ref_run r r'"
  by (rule run_steps_star [OF act_step_ref])

lemmas ref_defs = NewWithData_def Get_def Close_def call_step_def get_def initializer_def finalize_def
  ensureTimerStarted_def setLastAccessed_def timer_step_def setTimerRunning_def setTimerStopped_def timer_select_def
  handleExpiration_def resetValue_def Let_def

text \<open>A reference whose value expired once and was made again, with a second value in use and nobody on the way.\<close>

definition ex_new :: lazyref where
  "ex_new = NewWithData True LastInitialized True 10 (- 1) 0"

definition ex_acts :: "act list" where
  "ex_acts = [AGet, ACall 0 None, ACall 0 None, ATimer 0 False 10 None, ATime 10, ATimer 0 False 10 None, ATimer 0 False 10 None,
     AGet, ACall 1 None, ACall 1 None, AClose]"

definition ex_ref :: lazyref where
  "ex_ref = the (run_steps act_step ex_acts ex_new)"

lemma ex_ref_eq:
  "run_steps act_step ex_acts ex_new = Some ex_ref" "finalized ex_ref = [Some 0]" "lr_ref ex_ref = Some 1" "lr_inits ex_ref = 2"
  "lr_closed ex_ref" "lr_calls ex_ref = [GetDone (Got 0), GetDone (Got 1), CloseNotify]" "has_finalizer ex_ref"
  "expiryType ex_ref = LastInitialized"
  by (simp_all add: ex_ref_def ex_acts_def ex_new_def ref_defs)

lemma ex_ref_run: "ref_run (NewWithData True LastInitialized True 10 (- 1) 0) ex_ref"
  using run_ref [OF ex_ref_eq(1)] by (simp add: ex_new_def)

section \<open>Properties\<close>

text \<open>
  Whatever callers and timers do, at most one timer goroutine runs, and the finalizer is called at most once for
  a value, never for one that was not made and never for nil.
\<close>
theorem finalized_once:
  assumes "ref_run (NewWithData ex type fin expiration initialInit now) r"
  shows "in_phase active (lr_timers r) \<le> 1 \<and> distinct (finalized r) \<and> set (finalized r) \<subseteq> Some ` {..<lr_inits r}"
proof -
  have "sync_inv r" "value_inv r" using new_run_inv [OF assms] by (simp_all add: ref_inv_def)
  then have "in_phase active (lr_timers r) \<le> 1" "distinct (finalized r)" "\<forall>x\<in>set (finalized r). \<exists>v<lr_inits r. x = Some v"
    by (auto simp: sync_inv_def value_inv_def split: if_splits)
  then show ?thesis by auto
qed

theorem finalized_once_witness: "distinct (finalized ex_ref) \<and> finalized ex_ref = [Some 0]"
  using finalized_once [OF ex_ref_run] by (simp add: ex_ref_eq)

lemma initializer_kind: "initializer res r = (x, r2) \<Longrightarrow> has_finalizer r2 = has_finalizer r \<and> expiryType r2 = expiryType r"
  by (auto simp: initializer_def split: option.splits if_splits)

lemma handleExpiration_kind: "has_finalizer (handleExpiration res r) = has_finalizer r \<and> expiryType (handleExpiration res r) = expiryType r"
  by (cases "initializer res r") (auto simp: handleExpiration_def refreshValue_def resetValue_def dest: initializer_kind split: sum.splits)

lemma step_kind: "ref_step r r' \<Longrightarrow> has_finalizer r' = has_finalizer r \<and> expiryType r' = expiryType r"
proof (induction rule: ref_step.induct)
  case (ref_call i r res r')
  then show ?case
    by (cases "lr_calls r ! i") (auto simp: call_step_def get_def dest: initializer_kind split: option.splits if_splits sum.splits prod.splits)
next
  case (ref_timer j r stop expiration res r')
  then show ?case
  proof (cases "lr_timers r ! j")
    case (TExpire e)
    then show ?thesis
      using ref_timer handleExpiration_kind [of res r] by (auto simp: timer_step_def Let_def)
  qed (auto simp: timer_step_def setTimerRunning_def setTimerStopped_def timer_select_def Let_def split: if_splits option.splits)
qed (auto simp: Get_def Close_def)

lemma run_kind: "ref_run r r' \<Longrightarrow> has_finalizer r' = has_finalizer r \<and> expiryType r' = expiryType r"
  by (induction rule: rtranclp_induct) (auto dest: step_kind)

text \<open>
  Closing is clean: when the reference is being closed at a point where no \<open>Get\<close> is on its way, then once \<open>Close\<close> has
  returned every value ever made has been finalized exactly once (for a reference with a finalizer that is not a
  refreshing one).
\<close>
theorem close_finalizes_all:
  assumes "ref_run (NewWithData ex type True expiration initialInit now) r" "type \<noteq> Refreshing"
    and "lr_closed r" "in_phase getting (lr_calls r) = 0" "CloseDone \<notin> set (lr_calls r)"
    and "ref_run r r'" "CloseDone \<in> set (lr_calls r')"
  shows "set (finalized r') = Some ` {..<lr_inits r'} \<and> distinct (finalized r')"
proof -
  have new: "has_finalizer (NewWithData ex type True expiration initialInit now) \<and>
      expiryType (NewWithData ex type True expiration initialInit now) = type"
    by (simp add: ref_defs)
  have run: "ref_run (NewWithData ex type True expiration initialInit now) r'" using assms(1,6) by (rule rtranclp_trans)
  have k: "has_finalizer r'" "expiryType r' \<noteq> Refreshing" using run_kind [OF run] new assms(2) by auto
  have "quiet r" using assms(3-5) by (simp add: quiet_def)
  then have "quiet r'" using run_quiet [OF assms(6) new_run_inv [OF assms(1)]] by simp
  then have q: "\<And>v. lr_ref r' = Some v \<Longrightarrow> Some v \<in> set (finalized r')" using k(1) assms(7) by (simp add: quiet_def)
  have "value_inv r'" using new_run_inv [OF run] by (simp add: ref_inv_def)
  then have v: "\<forall>x\<in>set (finalized r'). \<exists>v<lr_inits r'. x = Some v" "distinct (finalized r')"
    "\<forall>v<lr_inits r'. Some v \<in> set (finalized r') \<or> lr_ref r' = Some v"
    using k by (auto simp: value_inv_def)
  then have "Some v \<in> set (finalized r')" if "v < lr_inits r'" for v using q that by blast
  then show ?thesis using v(1,2) by auto
qed

theorem close_finalizes_all_witness: "\<exists>r'. ref_run ex_ref r' \<and> set (finalized r') = {Some 0, Some 1}"
proof -
  let ?acts = "[ACall 2 None, ATimer 0 True 0 None, ATimer 0 False 0 None, ACall 2 None, ACall 2 None]"
  obtain r' where r': "run_steps act_step (ex_acts @ ?acts) ex_new = Some r'" "CloseDone \<in> set (lr_calls r')" "lr_inits r' = 2"
    by (simp add: ex_acts_def ex_new_def ref_defs)
  then have run: "ref_run ex_ref r'"
    by (intro run_ref [of ?acts]) (simp add: run_steps_append ex_ref_eq)
  have "{..<2} = {0, 1::nat}" by auto
  then show ?thesis
    using close_finalizes_all [OF ex_ref_run, of r'] run r'(2,3) by (auto simp: ex_ref_eq)
qed

text \<open>
  \<open>Close\<close> does not get stuck: from wherever a call of it stands, whatever the others did before, there is a way on
  to its return.
\<close>
theorem close_returns:
  assumes "ref_run (NewWithData ex type fin expiration initialInit now) r" "i < length (lr_calls r)" "closer (lr_calls r ! i)"
  shows "\<exists>r'. ref_run r r' \<and> lr_calls r' ! i = CloseDone"
  by (rule close_ends [OF new_run_inv [OF assms(1)] assms(2,3)])

theorem close_returns_witness: "\<exists>r'. ref_run ex_ref r' \<and> lr_calls r' ! 2 = CloseDone"
  by (rule close_returns [OF ex_ref_run]) (simp_all add: ex_ref_eq)

text \<open>
  A \<open>Get\<close> that has passed the test of \<open>IsClosed\<close> before \<open>Close\<close> makes a value after it, which is never finalized: the
  calls have all returned.
\<close>
theorem value_after_close:
  "\<exists>r. ref_run (NewWithData False LastAccessed True 0 (- 1) 0) r \<and> lr_calls r = [GetDone (Got 0), CloseDone]
     \<and> lr_ref r = Some 0 \<and> finalized r = [] \<and> lr_timers r = []"
proof -
  let ?acts = "[AGet, AClose, ACall 1 None, ACall 1 None, ACall 1 None, ACall 0 None, ACall 0 None]"
  obtain r where r: "run_steps act_step ?acts (NewWithData False LastAccessed True 0 (- 1) 0) = Some r"
    "lr_calls r = [GetDone (Got 0), CloseDone]" "lr_ref r = Some 0" "finalized r = []" "lr_timers r = []"
    by (simp add: ref_defs)
  show ?thesis using run_ref [OF r(1)] r(2-) by blast
qed

text \<open>
  The absolute expiration counts from the timer, not from the initialization: a value that is made again after an
  expiration of 10 can be reset one tick later, though its type promises that it lives for 10.
\<close>
theorem expires_early:
  "\<exists>s s' r. ref_run (NewWithData True LastInitialized False 10 (- 1) 0) s \<and> ref_step s s' \<and> ref_run s' r
     \<and> lr_now s = 19 \<and> lr_inits s = 1 \<and> lr_inits s' = 2 \<and> lr_ref s' = Some 1 \<and> lr_now r = 20 \<and> lr_ref r = None"
proof -
  let ?new = "NewWithData True LastInitialized False 10 (- 1) 0"
  let ?as = "[AGet, ACall 0 None, ACall 0 None, ATimer 0 False 10 None, ATime 10, ATimer 0 False 10 None, ATimer 0 False 10 None,
    ATime 19, AGet, ACall 1 None]"
  let ?bs = "[ATime 20, ATimer 0 False 10 None, ATimer 0 False 10 None]"
  obtain s where s: "run_steps act_step ?as ?new = Some s" "lr_now s = 19" "lr_inits s = 1"
    by (simp add: ref_defs)
  obtain s' where s': "run_steps act_step (?as @ [ACall 1 None]) ?new = Some s'" "lr_inits s' = 2" "lr_ref s' = Some 1"
    by (simp add: ref_defs)
  obtain r where r: "run_steps act_step ((?as @ [ACall 1 None]) @ ?bs) ?new = Some r" "lr_now r = 20" "lr_ref r = None"
    by (simp add: ref_defs)
  have "act_step (ACall 1 None) s = Some s'" "run_steps act_step ?bs s' = Some r"
    using s(1) s'(1) r(1) unfolding run_steps_append by (simp_all del: act_step.simps split: option.splits)
  then show ?thesis
    using run_ref [OF s(1)] act_step_ref [of _ s s'] run_ref [of ?bs s' r] s s' r by blast
qed

end
