(* ===== verification/Lazy_Cache.thy ===== *)
theory Lazy_Cache
  imports Interleaving
begin

text \<open>
  The lazy cache (pkg/util/concurrent/lazycache) over future values (pkg/util/concurrent/futurevalue): a \<open>sync.Map\<close>
  from keys to futures, where the caller that stores a future initializes it and the others wait for it. Every
  access to the map is one step of its caller, so that callers interleave between them.

  A cached value is the number of its initialization, in which \<open>c_made\<close> has its key. With the options of lazy
  references the cached value is such a reference, and a \<open>Get\<close> returns what the \<open>Get\<close> of the reference answers: an
  error, or a value of the reference, which is made anew when the old one has expired (theory \<open>Lazy_Ref\<close>).
  \<open>c_closedvals\<close> logs the calls of \<open>Close\<close> on cached values. Initializers return: one that panics takes the process
  with it.
\<close>

section \<open>Future values\<close>

text \<open>The write lock of a future is held from \<open>New\<close> until \<open>Initialize\<close> returns, so that \<open>Get\<close> waits for the value.\<close>

record future =
  fut_key :: string
  fut_value :: "(goerr + nat) option"

definition future_New :: "string \<Rightarrow> future" where
  "future_New key = \<lparr>fut_key = key, fut_value = None\<rparr>"

definition future_set :: "goerr + nat \<Rightarrow> future \<Rightarrow> future" where
  "future_set r f = f\<lparr>fut_value := Some r\<rparr>"

definition IsSet :: "future \<Rightarrow> bool" where
  "IsSet f \<longleftrightarrow> fut_value f \<noteq> None"

section \<open>The cache\<close>

text \<open>
  A caller of \<open>Get\<close> is to load its key, to store a future, to start the initializer, to run it, to remove the key
  after an error, to wait for a future, or to take the value out of what is cached. It returns an error of the
  initializer, the cached value itself, or what the cached reference answers. A caller of \<open>Delete\<close> has closed the value and is to delete the key; one
  of \<open>DeleteAll\<close> ranges over the map and then deletes the keys it has seen.
\<close>

datatype cache_result = GErr goerr | GVal nat | GRef nat "goerr + nat"

datatype cache_call =
  GetLoad string | GetStore string | GetInit string nat | GetRun string nat | GetClean string goerr | GetWait string nat
| GetValue string nat | GetDone string cache_result
| DelKey string | DelRange "string list" "string list" | DelKeys "string list" | DelDone

record cache =
  c_name :: string
  c_m :: "(string \<times> nat) list"
  c_futures :: "future list"
  c_closed :: bool
  c_closable :: bool
  c_useRef :: bool
  c_made :: "string list"
  c_closedvals :: "nat list"
  c_calls :: "cache_call list"

text \<open>A reference has a \<open>Close\<close>.\<close>

definition cache_New :: "string \<Rightarrow> bool \<Rightarrow> bool \<Rightarrow> cache" where
  "cache_New name useRef closable = \<lparr>c_name = name, c_m = [], c_futures = [], c_closed = False,
     c_closable = (useRef \<or> closable), c_useRef = useRef, c_made = [], c_closedvals = [], c_calls = []\<rparr>"

definition m_delete :: "string \<Rightarrow> (string \<times> nat) list \<Rightarrow> (string \<times> nat) list" where
  "m_delete k m = filter (\<lambda>e. fst e \<noteq> k) m"

text \<open>\<open>close\<close>: the value of a future that is set and has no error is closed, if it can be.\<close>

definition cache_close :: "nat \<Rightarrow> cache \<Rightarrow> cache" where
  "cache_close f c = (case fut_value (c_futures c ! f) of
     None \<Rightarrow> c
   | Some (Inl err) \<Rightarrow> c
   | Some (Inr v) \<Rightarrow> if c_closable c then c\<lparr>c_closedvals := c_closedvals c @ [v]\<rparr> else c)"

section \<open>Operations\<close>

definition cache_Get :: "string \<Rightarrow> cache \<Rightarrow> cache" where
  "cache_Get key c = c\<lparr>c_calls := c_calls c @ [GetLoad key]\<rparr>"

text \<open>\<open>Delete\<close> loads its key and closes the value.\<close>

definition cache_Delete :: "string \<Rightarrow> cache \<Rightarrow> cache" where
  "cache_Delete key c = (case map_of (c_m c) key of
     Some f \<Rightarrow> (cache_close f c)\<lparr>c_calls := c_calls c @ [DelKey key]\<rparr>
   | None \<Rightarrow> c\<lparr>c_calls := c_calls c @ [DelDone]\<rparr>)"

text \<open>\<open>DeleteAll\<close> starts with the keys that its range has to visit, as long as they stay in the map.\<close>

definition DeleteAll :: "cache \<Rightarrow> cache" where
  "DeleteAll c = c\<lparr>c_calls := c_calls c @ [DelRange (map fst (c_m c)) []]\<rparr>"

definition cache_Close :: "cache \<Rightarrow> cache" where
  "cache_Close c = (if c_closed c then c\<lparr>c_calls := c_calls c @ [DelDone]\<rparr> else DeleteAll (c\<lparr>c_closed := True\<rparr>))"

text \<open>The range of \<open>DeleteAll\<close> comes to the key \<open>k\<close>, which it has not visited.\<close>

definition visit :: "nat \<Rightarrow> string \<Rightarrow> cache \<Rightarrow> cache option" where
  "visit i k c = (case c_calls c ! i of
     DelRange must visited \<Rightarrow> (case map_of (c_m c) k of
         Some f \<Rightarrow> if k \<in> set visited then None
            else Some ((cache_close f c)\<lparr>c_calls := (c_calls c)[i := DelRange must (visited @ [k])]\<rparr>)
       | None \<Rightarrow> None)
   | _ \<Rightarrow> None)"

text \<open>\<open>res\<close> is the error of the initializer, if it has one.\<close>

definition cache_step :: "nat \<Rightarrow> goerr option \<Rightarrow> cache \<Rightarrow> cache option" where
  "cache_step i res c = (case c_calls c ! i of
     GetLoad k \<Rightarrow> (case map_of (c_m c) k of
         Some f \<Rightarrow> Some (c\<lparr>c_calls := (c_calls c)[i := GetWait k f]\<rparr>)
       | None \<Rightarrow> Some (c\<lparr>c_calls := (c_calls c)[i := GetStore k]\<rparr>))
   | GetStore k \<Rightarrow> (case map_of (c_m c) k of
         Some f \<Rightarrow> Some (c\<lparr>c_calls := (c_calls c)[i := GetWait k f]\<rparr>)
       | None \<Rightarrow> Some (c\<lparr>c_m := (k, length (c_futures c)) # c_m c, c_futures := c_futures c @ [future_New k],
                   c_calls := (c_calls c)[i := GetInit k (length (c_futures c))]\<rparr>))
   | GetInit k f \<Rightarrow>
       if c_closed c
       then (let err = ErrorF ''%s - cache is closed'' [FS (c_name c)] in
         Some (c\<lparr>c_futures := (c_futures c)[f := future_set (Inl err) (c_futures c ! f)], c_calls := (c_calls c)[i := GetClean k err]\<rparr>))
       else Some (c\<lparr>c_calls := (c_calls c)[i := GetRun k f]\<rparr>)
   | GetRun k f \<Rightarrow> (case res of
         Some err \<Rightarrow> Some (c\<lparr>c_futures := (c_futures c)[f := future_set (Inl err) (c_futures c ! f)],
             c_calls := (c_calls c)[i := GetClean k err]\<rparr>)
       | None \<Rightarrow> Some (c\<lparr>c_futures := (c_futures c)[f := future_set (Inr (length (c_made c))) (c_futures c ! f)],
             c_made := c_made c @ [k], c_calls := (c_calls c)[i := GetValue k (length (c_made c))]\<rparr>))
   | GetClean k err \<Rightarrow> Some (c\<lparr>c_m := m_delete k (c_m c), c_calls := (c_calls c)[i := GetDone k (GErr err)]\<rparr>)
   | GetWait k f \<Rightarrow> (case fut_value (c_futures c ! f) of
         None \<Rightarrow> None
       | Some (Inl err) \<Rightarrow> Some (c\<lparr>c_calls := (c_calls c)[i := GetDone k (GErr err)]\<rparr>)
       | Some (Inr v) \<Rightarrow> Some (c\<lparr>c_calls := (c_calls c)[i := GetValue k v]\<rparr>))
   | DelKey k \<Rightarrow> Some (c\<lparr>c_m := m_delete k (c_m c), c_calls := (c_calls c)[i := DelDone]\<rparr>)
   | DelRange must visited \<Rightarrow>
       if set must \<inter> set (map fst (c_m c)) \<subseteq> set visited then Some (c\<lparr>c_calls := (c_calls c)[i := DelKeys visited]\<rparr>) else None
   | DelKeys [] \<Rightarrow> Some (c\<lparr>c_calls := (c_calls c)[i := DelDone]\<rparr>)
   | DelKeys (k # ks) \<Rightarrow> Some (c\<lparr>c_m := m_delete k (c_m c), c_calls := (c_calls c)[i := DelKeys ks]\<rparr>)
   | _ \<Rightarrow> None)"

text \<open>
  \<open>value\<close>: what the call returns of the cached value \<open>v\<close>; \<open>x\<close> is the answer of the reference, if it is one and has not
  been closed.
\<close>

definition cache_value :: "nat \<Rightarrow> goerr + nat \<Rightarrow> cache \<Rightarrow> cache option" where
  "cache_value i x c = (case c_calls c ! i of
     GetValue k v \<Rightarrow> Some (c\<lparr>c_calls := (c_calls c)[i := GetDone k
       (if c_useRef c
        then GRef v (if v \<in> set (c_closedvals c) then Inl (errorNew ''reference is already closed'') else x)
        else GVal v)]\<rparr>)
   | _ \<Rightarrow> None)"

section \<open>Interleavings\<close>

inductive lc_step :: "cache \<Rightarrow> cache \<Rightarrow> bool" where
  lc_get: "lc_step c (cache_Get k c)"
| lc_delete: "lc_step c (cache_Delete k c)"
| lc_delete_all: "lc_step c (DeleteAll c)"
| lc_close: "lc_step c (cache_Close c)"
| lc_call: "lc_step c c'" if "i < length (c_calls c)" "cache_step i res c = Some c'"
| lc_value: "lc_step c c'" if "i < length (c_calls c)" "cache_value i x c = Some c'"
| lc_visit: "lc_step c c'" if "i < length (c_calls c)" "visit i k c = Some c'"

end
