(* ===== verification/Lazy_Cache_Theorems.thy ===== *)
theory Lazy_Cache_Theorems
  imports Lazy_Cache
begin

text \<open>
  The lazy cache under all interleavings: a \<open>Get\<close> gets a value that was made for its key, never waits for a future
  that nobody initializes, errors are not cached, and without deletions there is one value for a key; and what
  \<open>Close\<close> misses.
\<close>

section \<open>The invariant\<close>

fun inits :: "nat \<Rightarrow> cache_call \<Rightarrow> bool" where
  "inits f (GetInit k g) \<longleftrightarrow> f = g" | "inits f (GetRun k g) \<longleftrightarrow> f = g" | "inits f _ \<longleftrightarrow> False"

text \<open>What a caller knows: of its future, or of its result.\<close>

definition result_ok :: "string list \<Rightarrow> string \<Rightarrow> goerr + nat \<Rightarrow> bool" where
  "result_ok made k r \<longleftrightarrow> (case r of Inl err \<Rightarrow> True | Inr v \<Rightarrow> v < length made \<and> made ! v = k)"

fun gives :: "cache_result \<Rightarrow> nat option" where
  "gives (GErr e) = None" | "gives (GVal v) = Some v" | "gives (GRef v x) = Some v"

fun call_ok :: "cache \<Rightarrow> cache_call \<Rightarrow> bool" where
  "call_ok c (GetInit k f) \<longleftrightarrow> f < length (c_futures c) \<and> fut_key (c_futures c ! f) = k"
| "call_ok c (GetRun k f) \<longleftrightarrow> f < length (c_futures c) \<and> fut_key (c_futures c ! f) = k"
| "call_ok c (GetWait k f) \<longleftrightarrow> f < length (c_futures c) \<and> fut_key (c_futures c ! f) = k"
| "call_ok c (GetValue k v) \<longleftrightarrow> result_ok (c_made c) k (Inr v)"
| "call_ok c (GetDone k r) \<longleftrightarrow> (case gives r of None \<Rightarrow> True | Some v \<Rightarrow> result_ok (c_made c) k (Inr v))"
| "call_ok c _ \<longleftrightarrow> True"

definition cache_inv :: "cache \<Rightarrow> bool" where
  "cache_inv c \<longleftrightarrow> (\<forall>p\<in>set (c_calls c). call_ok c p)
     \<and> (\<forall>k f. map_of (c_m c) k = Some f \<longrightarrow> f < length (c_futures c) \<and> fut_key (c_futures c ! f) = k)
     \<and> (\<forall>f<length (c_futures c). in_phase (inits f) (c_calls c) = (if IsSet (c_futures c ! f) then 0 else 1))
     \<and> (\<forall>f<length (c_futures c). \<forall>r. fut_value (c_futures c ! f) = Some r \<longrightarrow> result_ok (c_made c) (fut_key (c_futures c ! f)) r)
     \<and> (\<forall>k f err. map_of (c_m c) k = Some f \<longrightarrow> fut_value (c_futures c ! f) = Some (Inl err) \<longrightarrow> (\<exists>e. GetClean k e \<in> set (c_calls c)))"

lemma map_of_delete [simp]: "map_of (m_delete k m) = (map_of m)(k := None)"
  by (induction m) (auto simp: m_delete_def)

lemma cache_close_frame [simp]:
  "c_m (cache_close f c) = c_m c" "c_futures (cache_close f c) = c_futures c" "c_made (cache_close f c) = c_made c"
  "c_calls (cache_close f c) = c_calls c" "c_closed (cache_close f c) = c_closed c"
  by (auto simp: cache_close_def split: option.splits sum.splits)

text \<open>These fields decide the invariant.\<close>

lemma call_ok_same: "c_futures c' = c_futures c \<Longrightarrow> c_made c' = c_made c \<Longrightarrow> call_ok c' p = call_ok c p"
  by (cases p) (simp_all add: result_ok_def split: option.split)

text \<open>A caller that owns no future before or after, while the futures stay the same, and entries go from the map only.\<close>

lemma cache_inv_move:
  assumes "cache_inv c" "i < length (c_calls c)" "c_calls c' = (c_calls c)[i := p]" "c_futures c' = c_futures c" "c_made c' = c_made c"
    "\<And>f. inits f p = inits f (c_calls c ! i)" "call_ok c p"
    "\<And>k f. map_of (c_m c') k = Some f \<Longrightarrow> map_of (c_m c) k = Some f"
    "\<And>k e. c_calls c ! i = GetClean k e \<Longrightarrow> map_of (c_m c') k = None"
  shows "cache_inv c'"
proof -
  have n: "in_phase (inits f) (c_calls c') = in_phase (inits f) (c_calls c)" for f
    unfolding assms(3) by (rule in_phase_move [OF assms(2)]) (simp add: assms(6))
  have ok: "call_ok c' q" if "q \<in> set (c_calls c')" for q
    using assms(1,7) that set_update_subset_insert [of "c_calls c" i p]
    unfolding assms(3) call_ok_same [OF assms(4,5)] cache_inv_def by blast
  have cl: "\<exists>e. GetClean k e \<in> set (c_calls c')" if m: "map_of (c_m c') k = Some f" and v: "fut_value (c_futures c ! f) = Some (Inl err)" for k f err
  proof -
    obtain e where "GetClean k e \<in> set (c_calls c)" using assms(1) assms(8) [OF m] v unfolding cache_inv_def by blast
    then obtain j where j: "j < length (c_calls c)" "c_calls c ! j = GetClean k e" by (auto simp: in_set_conv_nth)
    then have "j \<noteq> i" using assms(9) m by auto
    then have "c_calls c' ! j = GetClean k e" "j < length (c_calls c')" using j unfolding assms(3) by auto
    then show ?thesis by (metis nth_mem)
  qed
  have m: "f < length (c_futures c) \<and> fut_key (c_futures c ! f) = k" if "map_of (c_m c') k = Some f" for k f
    using assms(1) assms(8) [OF that] by (simp add: cache_inv_def)
  show ?thesis
    unfolding cache_inv_def
  proof (intro conjI allI impI)
    show "\<forall>q\<in>set (c_calls c'). call_ok c' q" using ok by blast
  next
    fix k f err assume "map_of (c_m c') k = Some f" "fut_value (c_futures c' ! f) = Some (Inl err)"
    then show "\<exists>e. GetClean k e \<in> set (c_calls c')" using cl assms(4) by simp
  qed (use assms(1) m n in \<open>auto simp: cache_inv_def assms(4,5)\<close>)
qed

text \<open>The owner of a future sets it.\<close>

lemma inv_set:
  assumes "cache_inv c" "i < length (c_calls c)" "inits f (c_calls c ! i)" "\<And>g. \<not> inits g p"
    "c_calls c' = (c_calls c)[i := p]" "c_futures c' = (c_futures c)[f := future_set r (c_futures c ! f)]"
    "c_made c' = c_made c @ ks" "c_m c' = c_m c" "call_ok c' p" "result_ok (c_made c') (fut_key (c_futures c ! f)) r"
    "\<And>err. r = Inl err \<Longrightarrow> p = GetClean (fut_key (c_futures c ! f)) err"
  shows "cache_inv c'"
proof -
  have i: "call_ok c (c_calls c ! i)" using assms(1,2) by (simp add: cache_inv_def)
  then have f: "f < length (c_futures c)" using assms(3) by (cases "c_calls c ! i") auto
  have only: "inits g (c_calls c ! i) \<longleftrightarrow> g = f" for g using assms(3) by (cases "c_calls c ! i") auto
  have n: "in_phase (inits g) (c_calls c') = (if g = f then in_phase (inits f) (c_calls c) - 1 else in_phase (inits g) (c_calls c))" for g
    using in_phase_update [OF assms(2), of "inits g" p] assms(4) [of g] only [of g] unfolding assms(5) by (cases "g = f") auto
  have fut: "fut_key (c_futures c' ! g) = fut_key (c_futures c ! g)"
    "fut_value (c_futures c' ! g) = (if g = f then Some r else fut_value (c_futures c ! g))" if "g < length (c_futures c)" for g
    using f by (simp_all add: assms(6) nth_list_update future_set_def)
  have len: "length (c_futures c') = length (c_futures c)" using assms(6) by simp
  have res: "result_ok (c_made c) k r \<Longrightarrow> result_ok (c_made c') k r" for k r
    by (auto simp: result_ok_def assms(7) nth_append split: sum.splits)
  have "call_ok c' q" if "call_ok c q" for q
    using that res fut(1) len by (cases q) (auto split: option.splits)
  then have ok: "call_ok c' q" if "q \<in> set (c_calls c')" for q
    using assms(1,9) that set_update_subset_insert [of "c_calls c" i p] unfolding assms(5) cache_inv_def by blast
  have keep: "GetClean k e \<in> set (c_calls c')" if g: "GetClean k e \<in> set (c_calls c)" for k e
  proof -
    obtain j where j: "j < length (c_calls c)" "c_calls c ! j = GetClean k e" using g by (auto simp: in_set_conv_nth)
    then have "j \<noteq> i" using assms(3) by auto
    then have "c_calls c' ! j = GetClean k e" "j < length (c_calls c')" using j unfolding assms(5) by auto
    then show ?thesis by (metis nth_mem)
  qed
  have "p \<in> set (c_calls c')" using assms(2) unfolding assms(5) by (simp add: set_update_memI)
  then have cl: "\<exists>e. GetClean k e \<in> set (c_calls c')"
    if "map_of (c_m c) k = Some g" "fut_value (c_futures c' ! g) = Some (Inl err)" for k g err
  proof (cases "g = f")
    case True
    have "fut_key (c_futures c ! g) = k" using assms(1) that(1) by (auto simp: cache_inv_def)
    then show ?thesis using True that fut(2) [OF f] assms(11) \<open>p \<in> set (c_calls c')\<close> by auto
  next
    case False
    have g: "g < length (c_futures c)" using assms(1) that(1) by (auto simp: cache_inv_def)
    then have "fut_value (c_futures c ! g) = Some (Inl err)" using that(2) fut(2) [OF g] False by simp
    then show ?thesis using assms(1) that(1) keep unfolding cache_inv_def by blast
  qed
  show ?thesis
    unfolding cache_inv_def
  proof (intro conjI allI impI)
    show "\<forall>q\<in>set (c_calls c'). call_ok c' q" using ok by blast
  next
    fix k g assume "map_of (c_m c') k = Some g"
    then show "g < length (c_futures c')" "fut_key (c_futures c' ! g) = k"
      using assms(1) fut(1) unfolding cache_inv_def len assms(8) by auto
  next
    fix g assume "g < length (c_futures c')"
    then show "in_phase (inits g) (c_calls c') = (if IsSet (c_futures c' ! g) then 0 else 1)"
      using assms(1) n [of g] fut(2) [of g] len unfolding cache_inv_def IsSet_def by auto
  next
    fix g s assume "g < length (c_futures c')" "fut_value (c_futures c' ! g) = Some s"
    then show "result_ok (c_made c') (fut_key (c_futures c' ! g)) s"
      using assms(1,10) fut [of g] len res unfolding cache_inv_def by (auto split: if_splits)
  next
    fix k g err assume "map_of (c_m c') k = Some g" "fut_value (c_futures c' ! g) = Some (Inl err)"
    then show "\<exists>e. GetClean k e \<in> set (c_calls c')" using cl unfolding assms(8) by blast
  qed
qed

text \<open>A new future is stored for a key that has none; its caller owns it.\<close>

lemma inv_store:
  assumes "cache_inv c" "i < length (c_calls c)" "c_calls c ! i = GetStore k" "map_of (c_m c) k = None"
    "c' = c\<lparr>c_m := (k, length (c_futures c)) # c_m c, c_futures := c_futures c @ [future_New k],
       c_calls := (c_calls c)[i := GetInit k (length (c_futures c))]\<rparr>"
  shows "cache_inv c'"
proof -
  let ?n = "length (c_futures c)" and ?p = "GetInit k (length (c_futures c))"
  have fields: "c_m c' = (k, ?n) # c_m c" "c_futures c' = c_futures c @ [future_New k]" "c_calls c' = (c_calls c)[i := ?p]"
    "c_made c' = c_made c" by (simp_all add: assms(5))
  have keep: "GetClean j e \<in> set (c_calls c')" if g: "GetClean j e \<in> set (c_calls c)" for j e
  proof -
    obtain m where m: "m < length (c_calls c)" "c_calls c ! m = GetClean j e" using g by (auto simp: in_set_conv_nth)
    then have "m \<noteq> i" using assms(3) by auto
    then have "c_calls c' ! m = GetClean j e" "m < length (c_calls c')" using m unfolding fields by auto
    then show ?thesis by (metis nth_mem)
  qed
  have n: "in_phase (inits f) (c_calls c') = in_phase (inits f) (c_calls c) + (if f = ?n then 1 else 0)" for f
    using in_phase_update [OF assms(2), of "inits f" ?p] assms(3) unfolding fields by (cases "f = ?n") auto
  have none: "in_phase (inits ?n) (c_calls c) = 0"
    using assms(1) unfolding cache_inv_def in_phase_zero by (metis call_ok.simps(1,2) inits.elims(2) less_irrefl)
  have "call_ok c' q" if "call_ok c q" for q using that by (cases q) (auto simp: fields nth_append split: option.splits)
  moreover have "call_ok c' ?p" by (simp add: fields nth_append future_New_def)
  ultimately have ok: "call_ok c' q" if "q \<in> set (c_calls c')" for q
    using assms(1) that set_update_subset_insert [of "c_calls c" i ?p] unfolding fields(3) cache_inv_def by blast
  show ?thesis
    unfolding cache_inv_def
  proof (intro conjI allI impI)
    show "\<forall>q\<in>set (c_calls c'). call_ok c' q" using ok by blast
  next
    fix f assume "f < length (c_futures c')"
    then show "in_phase (inits f) (c_calls c') = (if IsSet (c_futures c' ! f) then 0 else 1)"
      using assms(1) n [of f] none unfolding cache_inv_def fields
      by (cases "f = ?n") (auto simp: nth_append future_New_def IsSet_def)
  next
    fix j f err assume "map_of (c_m c') j = Some f" "fut_value (c_futures c' ! f) = Some (Inl err)"
    then have "map_of (c_m c) j = Some f" "fut_value (c_futures c ! f) = Some (Inl err)"
      using assms(1) unfolding cache_inv_def fields by (auto simp: nth_append future_New_def split: if_splits)
    then show "\<exists>e. GetClean j e \<in> set (c_calls c')" using assms(1) keep unfolding cache_inv_def by blast
  next
    fix j f assume "map_of (c_m c') j = Some f"
    then have "j = k \<and> f = ?n \<or> f < ?n \<and> fut_key (c_futures c ! f) = j"
      using assms(1) unfolding cache_inv_def fields by (auto split: if_splits)
    then show "f < length (c_futures c')" "fut_key (c_futures c' ! f) = j"
      unfolding fields by (auto simp: nth_append future_New_def)
  qed (use assms(1) in \<open>auto simp: cache_inv_def fields nth_append future_New_def split: if_splits\<close>)
qed

lemma call_step_inv:
  assumes "cache_inv c" "i < length (c_calls c)" "cache_step i res c = Some c'"
  shows "cache_inv c'"
proof -
  have i: "call_ok c (c_calls c ! i)" using assms(1,2) by (simp add: cache_inv_def)
  have m: "f < length (c_futures c) \<and> fut_key (c_futures c ! f) = k" if "map_of (c_m c) k = Some f" for k f
    using assms(1) that by (simp add: cache_inv_def)
  show ?thesis
  proof (cases "c_calls c ! i")
    case (GetLoad k)
    then show ?thesis
      using assms(3) m [of k]
      by (cases "map_of (c_m c) k") (auto simp: cache_step_def intro!: cache_inv_move [OF assms(1,2)])
  next
    case (GetStore k)
    show ?thesis
    proof (cases "map_of (c_m c) k")
      case None
      let ?n = "length (c_futures c)"
      have c': "c' = c\<lparr>c_m := (k, ?n) # c_m c, c_futures := c_futures c @ [future_New k], c_calls := (c_calls c)[i := GetInit k ?n]\<rparr>"
        using assms(3) GetStore None by (simp add: cache_step_def)
      show ?thesis by (rule inv_store [OF assms(1,2) _ None c']) (simp add: GetStore)
    next
      case (Some f)
      then show ?thesis
        using assms(3) m [of k] GetStore by (auto simp: cache_step_def intro!: cache_inv_move [OF assms(1,2)])
    qed
  next
    case (GetInit k f)
    then have f: "f < length (c_futures c)" "fut_key (c_futures c ! f) = k" using i by simp_all
    show ?thesis
    proof (cases "c_closed c")
      case True
      then show ?thesis
        using assms(3) GetInit f
        by (auto simp: cache_step_def Let_def result_ok_def intro!: inv_set [OF assms(1,2), of f _ _ _ "[]"])
    next
      case False
      then show ?thesis using assms(3) GetInit f by (auto simp: cache_step_def intro!: cache_inv_move [OF assms(1,2)])
    qed
  next
    case (GetRun k f)
    then have f: "f < length (c_futures c)" "fut_key (c_futures c ! f) = k" using i by simp_all
    show ?thesis
    proof (cases res)
      case None
      then show ?thesis
        using assms(3) GetRun f by (auto simp: cache_step_def result_ok_def intro!: inv_set [OF assms(1,2), of f _ _ _ "[k]"])
    next
      case (Some err)
      then show ?thesis
        using assms(3) GetRun f by (auto simp: cache_step_def result_ok_def intro!: inv_set [OF assms(1,2), of f _ _ _ "[]"])
    qed
  next
    case (GetWait k f)
    then have f: "f < length (c_futures c)" "fut_key (c_futures c ! f) = k" using i by simp_all
    have "result_ok (c_made c) k r" if "fut_value (c_futures c ! f) = Some r" for r
      using assms(1) f that unfolding cache_inv_def by blast
    then show ?thesis
      using assms(3) GetWait by (auto simp: cache_step_def split: option.splits sum.splits intro!: cache_inv_move [OF assms(1,2)])
  next
    case (DelKeys ks)
    then show ?thesis
      using assms(3) by (cases ks) (auto simp: cache_step_def split: if_splits intro!: cache_inv_move [OF assms(1,2)])
  qed (use assms(3) in \<open>auto simp: cache_step_def result_ok_def split: if_splits intro!: cache_inv_move [OF assms(1,2)]\<close>)
qed

lemma value_inv:
  assumes "cache_inv c" "i < length (c_calls c)" "cache_value i x c = Some c'"
  shows "cache_inv c'"
proof -
  obtain k v where v: "c_calls c ! i = GetValue k v" using assms(3) by (auto simp: cache_value_def split: cache_call.splits)
  moreover have "call_ok c (c_calls c ! i)" using assms(1,2) by (simp add: cache_inv_def)
  ultimately show ?thesis
    using assms(3) by (auto simp: cache_value_def split: if_splits intro!: cache_inv_move [OF assms(1,2)])
qed

lemma inv_append:
  "cache_inv c \<Longrightarrow> (\<And>f. \<not> inits f p) \<Longrightarrow> call_ok c p \<Longrightarrow> c_calls c' = c_calls c @ [p] \<Longrightarrow> c_m c' = c_m c
    \<Longrightarrow> c_futures c' = c_futures c \<Longrightarrow> c_made c' = c_made c \<Longrightarrow> cache_inv c'"
  using call_ok_same [of c' c] unfolding cache_inv_def by simp blast

lemma lc_step_inv: "lc_step c c' \<Longrightarrow> cache_inv c \<Longrightarrow> cache_inv c'"
proof (induction rule: lc_step.induct)
  case (lc_get c k)
  then show ?case by (rule inv_append [where p = "GetLoad k"]) (simp_all add: cache_Get_def)
next
  case (lc_delete c k)
  then show ?case
    by (cases "map_of (c_m c) k") (auto simp: cache_Delete_def intro: inv_append [where p = DelDone] inv_append [where p = "DelKey k"])
next
  case (lc_delete_all c)
  then show ?case by (rule inv_append [where p = "DelRange (map fst (c_m c)) []"]) (simp_all add: DeleteAll_def)
next
  case (lc_close c)
  then show ?case
    by (cases "c_closed c") (auto simp: cache_Close_def DeleteAll_def intro: inv_append [where p = DelDone]
        inv_append [where p = "DelRange (map fst (c_m c)) []"])
next
  case (lc_call i c res c')
  then show ?case by (blast intro: call_step_inv)
next
  case (lc_value i c x c')
  then show ?case by (blast intro: value_inv)
next
  case (lc_visit i c k c')
  then show ?case
    by (auto simp: visit_def split: cache_call.splits option.splits if_splits intro!: cache_inv_move [OF lc_visit.prems lc_visit.hyps(1)])
qed

abbreviation lc_run :: "cache \<Rightarrow> cache \<Rightarrow> bool" where
  "lc_run \<equiv> lc_step\<^sup>*\<^sup>*"

lemma cache_new_inv: "cache_inv (cache_New name useRef closable)"
  by (simp add: cache_inv_def cache_New_def)

lemma cache_run_inv: "lc_run (cache_New name useRef closable) c \<Longrightarrow> cache_inv c"
  by (induction rule: rtranclp_induct) (auto intro: lc_step_inv cache_new_inv)

lemma owner_unset:
  assumes "cache_inv c" "i < length (c_calls c)" "inits f (c_calls c ! i)"
  shows "f < length (c_futures c)" "\<not> IsSet (c_futures c ! f)"
proof -
  have "call_ok c (c_calls c ! i)" using assms(1,2) by (simp add: cache_inv_def)
  then show f: "f < length (c_futures c)" using assms(3) by (cases "c_calls c ! i") auto
  have "in_phase (inits f) (c_calls c) > 0" using in_phase_nth [OF assms(2), of "inits f"] assms(3) by simp
  then show "\<not> IsSet (c_futures c ! f)" using assms(1) f by (auto simp: cache_inv_def)
qed

section \<open>Without deletions\<close>

fun deletes :: "cache_call \<Rightarrow> bool" where
  "deletes (DelKey k) \<longleftrightarrow> True" | "deletes (DelRange m v) \<longleftrightarrow> True" | "deletes (DelKeys ks) \<longleftrightarrow> True" | "deletes DelDone \<longleftrightarrow> True"
| "deletes _ \<longleftrightarrow> False"

fun cleans :: "string \<Rightarrow> cache_call \<Rightarrow> bool" where
  "cleans k (GetClean j e) \<longleftrightarrow> j = k" | "cleans k _ \<longleftrightarrow> False"

fun owns :: "cache \<Rightarrow> cache_call \<Rightarrow> bool" where
  "owns c (GetInit k f) \<longleftrightarrow> map_of (c_m c) k = Some f" | "owns c (GetRun k f) \<longleftrightarrow> map_of (c_m c) k = Some f" | "owns c _ \<longleftrightarrow> True"

text \<open>The future of a key that is being made is in the map, one that has failed is cleaned once, and the value of a key is in the map.\<close>

definition kept_inv :: "cache \<Rightarrow> bool" where
  "kept_inv c \<longleftrightarrow> (\<forall>p\<in>set (c_calls c). owns c p)
     \<and> (\<forall>k. in_phase (cleans k) (c_calls c) \<le> 1 \<and> (in_phase (cleans k) (c_calls c) > 0
          \<longrightarrow> (\<exists>f err. map_of (c_m c) k = Some f \<and> fut_value (c_futures c ! f) = Some (Inl err))))
     \<and> (\<forall>v<length (c_made c). \<exists>f. map_of (c_m c) (c_made c ! v) = Some f \<and> fut_value (c_futures c ! f) = Some (Inr v))"

lemma kept_same:
  assumes "kept_inv c" "i < length (c_calls c)" "c_calls c' = (c_calls c)[i := p]" "c_m c' = c_m c" "c_futures c' = c_futures c"
    "c_made c' = c_made c" "owns c p" "\<And>k. cleans k p = cleans k (c_calls c ! i)"
  shows "kept_inv c'"
proof -
  have "owns c' q = owns c q" for q by (cases q) (auto simp: assms(4))
  moreover have "in_phase (cleans k) (c_calls c') = in_phase (cleans k) (c_calls c)" for k
    unfolding assms(3) by (rule in_phase_move [OF assms(2)]) (simp add: assms(8))
  ultimately show ?thesis
    using assms(1,7) set_update_subset_insert [of "c_calls c" i p] unfolding kept_inv_def assms(3-6) by auto
qed

text \<open>The owner of a future sets it.\<close>

lemma kept_set:
  assumes "kept_inv c" "cache_inv c" "i < length (c_calls c)" "inits f (c_calls c ! i)" "owns c (c_calls c ! i)"
    "k = fut_key (c_futures c ! f)" "map_of (c_m c) k = Some f" "c_calls c' = (c_calls c)[i := p]" "c_m c' = c_m c"
    "c_futures c' = (c_futures c)[f := future_set r (c_futures c ! f)]" "\<And>g. \<not> inits g p"
    "r = Inl e \<and> p = GetClean k e \<and> c_made c' = c_made c
      \<or> r = Inr (length (c_made c)) \<and> (\<forall>k. \<not> cleans k p) \<and> c_made c' = c_made c @ [k]"
  shows "kept_inv c'"
proof -
  note u = owner_unset [OF assms(2-4)]
  have fut: "fut_value (c_futures c' ! g) = (if g = f then Some r else fut_value (c_futures c ! g))" for g
    using u(1) by (simp add: assms(10) nth_list_update future_set_def)
  have "owns c' q = owns c q" for q by (cases q) (auto simp: assms(9))
  moreover have "owns c p" using assms(11) by (cases p) auto
  ultimately have o: "\<forall>q\<in>set (c_calls c'). owns c' q"
    using assms(1) set_update_subset_insert [of "c_calls c" i p] unfolding kept_inv_def assms(8) by auto
  have none: "in_phase (cleans k) (c_calls c) = 0"
  proof (rule ccontr)
    assume "in_phase (cleans k) (c_calls c) \<noteq> 0"
    then obtain g err where "map_of (c_m c) k = Some g" "fut_value (c_futures c ! g) = Some (Inl err)"
      using assms(1) unfolding kept_inv_def by blast
    then show False using u(2) assms(7) by (simp add: IsSet_def)
  qed
  have n: "in_phase (cleans j) (c_calls c') = in_phase (cleans j) (c_calls c) + of_bool (cleans j p)" for j
  proof -
    have "\<not> cleans j (c_calls c ! i)" using assms(4) by (cases "c_calls c ! i") auto
    then show ?thesis using in_phase_update [OF assms(3), of "cleans j" p] unfolding assms(8) by simp
  qed
  have cl: "in_phase (cleans j) (c_calls c') \<le> 1 \<and> (in_phase (cleans j) (c_calls c') > 0
      \<longrightarrow> (\<exists>g err. map_of (c_m c') j = Some g \<and> fut_value (c_futures c' ! g) = Some (Inl err)))" for j
  proof (cases "cleans j p")
    case True
    then have "j = k" "r = Inl e" using assms(12) by auto
    then show ?thesis using n [of j] none True assms(7) fut [of f] unfolding assms(9) by auto
  next
    case False
    have "in_phase (cleans j) (c_calls c) \<le> 1 \<and> (in_phase (cleans j) (c_calls c) > 0
      \<longrightarrow> (\<exists>g err. map_of (c_m c) j = Some g \<and> fut_value (c_futures c ! g) = Some (Inl err)))"
      using assms(1) unfolding kept_inv_def by blast
    then show ?thesis using n [of j] False u(2) fut unfolding assms(9) IsSet_def by auto
  qed
  have old: "\<exists>g. map_of (c_m c') (c_made c ! v) = Some g \<and> fut_value (c_futures c' ! g) = Some (Inr v)" if "v < length (c_made c)" for v
    using assms(1) that u(2) fut unfolding kept_inv_def assms(9) IsSet_def by (metis option.distinct(1))
  then have "\<forall>v<length (c_made c'). \<exists>g. map_of (c_m c') (c_made c' ! v) = Some g \<and> fut_value (c_futures c' ! g) = Some (Inr v)"
    using assms(7,12) fut [of f] unfolding assms(9) by (auto simp: nth_append less_Suc_eq)
  then show ?thesis using o cl unfolding kept_inv_def by blast
qed

lemma kept_step:
  assumes "kept_inv c" "cache_inv c" "i < length (c_calls c)" "cache_step i res c = Some c'" "\<not> deletes (c_calls c ! i)"
  shows "kept_inv c'"
proof -
  have ok: "call_ok c (c_calls c ! i)" "owns c (c_calls c ! i)"
    using assms(1-3) by (simp_all add: cache_inv_def kept_inv_def)
  show ?thesis
  proof (cases "c_calls c ! i")
    case (GetLoad k)
    then show ?thesis using assms(4) by (auto simp: cache_step_def split: option.splits intro!: kept_same [OF assms(1,3)])
  next
    case (GetStore k)
    show ?thesis
    proof (cases "map_of (c_m c) k")
      case None
      let ?n = "length (c_futures c)"
      have c': "c_m c' = (k, ?n) # c_m c" "c_futures c' = c_futures c @ [future_New k]" "c_calls c' = (c_calls c)[i := GetInit k ?n]"
        "c_made c' = c_made c"
        using assms(4) GetStore None by (auto simp: cache_step_def)
      have m: "map_of (c_m c') j = Some f \<and> c_futures c' ! f = c_futures c ! f" if "map_of (c_m c) j = Some f" for j f
        using assms(2) that None unfolding c' cache_inv_def by (auto simp: nth_append)
      have "owns c' q" if "owns c q" for q using that m by (cases q) auto
      then have "\<forall>q\<in>set (c_calls c'). owns c' q"
        using assms(1) set_update_subset_insert [of "c_calls c" i "GetInit k ?n"] unfolding kept_inv_def c'(3) by (auto simp: c'(1))
      moreover have n: "in_phase (cleans j) (c_calls c') = in_phase (cleans j) (c_calls c)" for j
        unfolding c'(3) by (rule in_phase_move [OF assms(3)]) (simp add: GetStore)
      have look: "\<exists>f. map_of (c_m c') j = Some f \<and> fut_value (c_futures c' ! f) = Some r"
        if g: "map_of (c_m c) j = Some f" "fut_value (c_futures c ! f) = Some r" for j f r
        using m [OF g(1)] g(2) by auto
      have "in_phase (cleans j) (c_calls c') \<le> 1 \<and> (in_phase (cleans j) (c_calls c') > 0
          \<longrightarrow> (\<exists>f err. map_of (c_m c') j = Some f \<and> fut_value (c_futures c' ! f) = Some (Inl err)))" for j
        using assms(1) look unfolding kept_inv_def n by blast
      moreover have "\<forall>v<length (c_made c'). \<exists>f. map_of (c_m c') (c_made c' ! v) = Some f \<and> fut_value (c_futures c' ! f) = Some (Inr v)"
        using assms(1) look unfolding kept_inv_def c'(4) by blast
      ultimately show ?thesis unfolding kept_inv_def by blast
    next
      case (Some f)
      then show ?thesis using assms(4) GetStore by (auto simp: cache_step_def intro!: kept_same [OF assms(1,3)])
    qed
  next
    case (GetInit k f)
    show ?thesis
    proof (cases "c_closed c")
      case True
      then show ?thesis
        using assms(4) GetInit ok by (auto simp: cache_step_def Let_def intro!: kept_set [OF assms(1-3), of f k])
    next
      case False
      then show ?thesis using assms(4) GetInit ok by (auto simp: cache_step_def intro!: kept_same [OF assms(1,3)])
    qed
  next
    case (GetRun k f)
    then show ?thesis
      using assms(4) ok by (cases res) (auto simp: cache_step_def intro!: kept_set [OF assms(1-3), of f k])
  next
    case (GetWait k f)
    then show ?thesis using assms(4) by (auto simp: cache_step_def split: option.splits sum.splits intro!: kept_same [OF assms(1,3)])
  next
    case (GetClean k e)
    have c': "c_m c' = m_delete k (c_m c)" "c_futures c' = c_futures c" "c_calls c' = (c_calls c)[i := GetDone k (GErr e)]"
        "c_made c' = c_made c"
      using assms(4) GetClean by (auto simp: cache_step_def)
    have "in_phase (cleans k) (c_calls c) > 0" using in_phase_nth [OF assms(3), of "cleans k"] GetClean by simp
    then obtain f err where f: "in_phase (cleans k) (c_calls c) = 1" "map_of (c_m c) k = Some f" "fut_value (c_futures c ! f) = Some (Inl err)"
      using assms(1) unfolding kept_inv_def by (metis One_nat_def Suc_leI le_antisym)
    have n: "in_phase (cleans j) (c_calls c') = (if j = k then 0 else in_phase (cleans j) (c_calls c))" for j
      using in_phase_update [OF assms(3), of "cleans j" "GetDone k (GErr e)"] f(1) unfolding c'(3) by (auto simp: GetClean)
    have "owns c' q" if q: "q \<in> set (c_calls c)" for q
    proof (cases "\<exists>g. q = GetInit k g \<or> q = GetRun k g")
      case True
      then have "q = GetInit k f \<or> q = GetRun k f" using assms(1) q f(2) unfolding kept_inv_def by fastforce
      moreover obtain j where "j < length (c_calls c)" "c_calls c ! j = q" using q by (auto simp: in_set_conv_nth)
      ultimately show ?thesis using owner_unset(2) [OF assms(2), of j f] f(3) by (auto simp: IsSet_def)
    next
      case False
      moreover have "owns c q" using assms(1) q unfolding kept_inv_def by blast
      ultimately show ?thesis by (cases q) (auto simp: c'(1))
    qed
    moreover have "set (c_calls c') \<subseteq> insert (GetDone k (GErr e)) (set (c_calls c))" unfolding c'(3) by (rule set_update_subset_insert)
    ultimately have "\<forall>q\<in>set (c_calls c'). owns c' q" by auto
    moreover have "c_made c ! v \<noteq> k" if "v < length (c_made c)" for v
      using assms(1) that f(2,3) unfolding kept_inv_def by fastforce
    ultimately show ?thesis
      using assms(1) n unfolding kept_inv_def c'(1,2,4) by auto
  qed (use assms(4,5) in \<open>auto simp: cache_step_def\<close>)
qed

lemma kept_append:
  "kept_inv c \<Longrightarrow> c_calls c' = c_calls c @ [GetLoad k] \<Longrightarrow> c_m c' = c_m c \<Longrightarrow> c_futures c' = c_futures c
    \<Longrightarrow> c_made c' = c_made c \<Longrightarrow> kept_inv c'"
proof -
  assume a: "kept_inv c" "c_calls c' = c_calls c @ [GetLoad k]" "c_m c' = c_m c" "c_futures c' = c_futures c" "c_made c' = c_made c"
  have "owns c' q = owns c q" for q by (cases q) (auto simp: a(3))
  then show ?thesis using a(1) unfolding kept_inv_def a(2-5) by simp
qed

text \<open>A deletion stays one.\<close>

lemma deletes_stay:
  assumes "lc_step c c'" "list_ex deletes (c_calls c)"
  shows "list_ex deletes (c_calls c')"
  using assms
proof (induction rule: lc_step.induct)
  case (lc_call i c res c')
  obtain j where j: "j < length (c_calls c)" "deletes (c_calls c ! j)" using lc_call.prems by (auto simp: list_ex_length)
  have "j < length (c_calls c') \<and> deletes (c_calls c' ! j)"
  proof (cases "j = i")
    case True
    then show ?thesis
      using lc_call.hyps j by (cases "c_calls c ! i") (auto simp: cache_step_def split: if_splits list.splits)
  next
    case False
    obtain p where "c_calls c' = (c_calls c)[i := p]"
      using lc_call.hyps(2) by (cases "c_calls c ! i") (auto simp: cache_step_def Let_def split: if_splits list.splits option.splits sum.splits)
    then show ?thesis using j False by simp
  qed
  then show ?case by (auto simp: list_ex_length)
next
  case (lc_value i c x c')
  obtain j where j: "j < length (c_calls c)" "deletes (c_calls c ! j)" using lc_value.prems by (auto simp: list_ex_length)
  obtain k v p where v: "c_calls c ! i = GetValue k v" "c_calls c' = (c_calls c)[i := p]"
    using lc_value.hyps(2) by (auto simp: cache_value_def split: cache_call.splits)
  then have "j \<noteq> i" using j(2) by auto
  then have "j < length (c_calls c')" "deletes (c_calls c' ! j)" using j by (simp_all add: v(2))
  then show ?case by (auto simp: list_ex_length)
next
  case (lc_visit i c k c')
  obtain m v where v: "c_calls c ! i = DelRange m v" "c_calls c' = (c_calls c)[i := DelRange m (v @ [k])]"
    using lc_visit.hyps(2) by (auto simp: visit_def split: cache_call.splits option.splits if_splits)
  have "i < length (c_calls c')" "deletes (c_calls c' ! i)" using lc_visit.hyps(1) by (simp_all add: v(2))
  then show ?case by (auto simp: list_ex_length)
qed (auto simp: cache_Get_def cache_Delete_def DeleteAll_def cache_Close_def split: option.splits)

lemma step_kept:
  assumes "lc_step c c'" "cache_inv c" "\<not> list_ex deletes (c_calls c) \<Longrightarrow> kept_inv c" "\<not> list_ex deletes (c_calls c')"
  shows "kept_inv c'"
proof -
  have n: "\<not> list_ex deletes (c_calls c)" using deletes_stay [OF assms(1)] assms(4) by blast
  from assms(1) show ?thesis
  proof cases
    case (lc_get k)
    show ?thesis by (rule kept_append [OF assms(3) [OF n], where k = k]) (simp_all add: lc_get cache_Get_def)
  next
    case (lc_call i res)
    then show ?thesis using assms(2,3) n by (auto simp: list_ex_length intro: kept_step)
  next
    case (lc_value i x)
    then obtain k v where "c_calls c ! i = GetValue k v" by (auto simp: cache_value_def split: cache_call.splits)
    then show ?thesis
      using lc_value by (auto simp: cache_value_def intro!: kept_same [OF assms(3) [OF n]])
  next
    case (lc_visit i k)
    then obtain m v where "c_calls c ! i = DelRange m v" by (auto simp: visit_def split: cache_call.splits)
    then show ?thesis using n lc_visit(1) by (auto simp: list_ex_length)
  qed (use assms(4) in \<open>auto simp: cache_Delete_def DeleteAll_def cache_Close_def split: option.splits if_splits\<close>)
qed

lemma run_kept: "lc_run (cache_New name useRef closable) c \<Longrightarrow> \<not> list_ex deletes (c_calls c) \<Longrightarrow> kept_inv c"
proof (induction rule: rtranclp_induct)
  case base
  then show ?case by (simp add: cache_New_def kept_inv_def)
next
  case (step c c')
  then show ?case by (blast intro: step_kept cache_run_inv)
qed

section \<open>Every Get can return\<close>

lemma one_call: "i < length (c_calls c) \<Longrightarrow> cache_step i res c = Some c' \<Longrightarrow> lc_run c c'"
  by (blast intro: lc_call)

lemma one_value: "i < length (c_calls c) \<Longrightarrow> cache_value i x c = Some c' \<Longrightarrow> lc_run c c'"
  by (blast intro: lc_value)

lemma owner_finishes:
  assumes "cache_inv c" "j < length (c_calls c)" "inits f (c_calls c ! j)"
  obtains c' where "lc_run c c'" "IsSet (c_futures c' ! f)" "\<And>i. i \<noteq> j \<Longrightarrow> c_calls c' ! i = c_calls c ! i"
    "length (c_calls c') = length (c_calls c)" "(\<exists>k e. c_calls c' ! j = GetClean k e) \<or> (\<exists>k v. c_calls c' ! j = GetValue k v)"
proof -
  note fin = that
  have f: "f < length (c_futures c)" by (rule owner_unset(1) [OF assms])
  have run: thesis if k: "c_calls s ! j = GetRun k f" "j < length (c_calls s)" "f < length (c_futures s)" "lc_run c s"
    "\<And>i. i \<noteq> j \<Longrightarrow> c_calls s ! i = c_calls c ! i" "length (c_calls s) = length (c_calls c)" for s k
  proof -
    have "lc_run s (s\<lparr>c_futures := (c_futures s)[f := future_set (Inr (length (c_made s))) (c_futures s ! f)],
             c_made := c_made s @ [k], c_calls := (c_calls s)[j := GetValue k (length (c_made s))]\<rparr>)" (is "lc_run s ?s")
      by (rule one_call [OF k(2), of None]) (simp add: cache_step_def k(1))
    then have "lc_run c ?s" using k(4) by (rule rtranclp_trans [rotated])
    then show ?thesis by (rule fin) (use k in \<open>auto simp: future_set_def IsSet_def\<close>)
  qed
  consider k where "c_calls c ! j = GetInit k f" | k where "c_calls c ! j = GetRun k f"
    using assms(3) by (cases "c_calls c ! j") auto
  then show ?thesis
  proof cases
    case (1 k)
    show ?thesis
    proof (cases "c_closed c")
      case True
      let ?err = "ErrorF ''%s - cache is closed'' [FS (c_name c)]"
      have "lc_run c (c\<lparr>c_futures := (c_futures c)[f := future_set (Inl ?err) (c_futures c ! f)], c_calls := (c_calls c)[j := GetClean k ?err]\<rparr>)"
        by (rule one_call [OF assms(2), of None]) (simp add: cache_step_def 1 True Let_def)
      then show ?thesis by (rule fin) (use f assms(2) in \<open>auto simp: future_set_def IsSet_def\<close>)
    next
      case False
      have "lc_run c (c\<lparr>c_calls := (c_calls c)[j := GetRun k f]\<rparr>)"
        by (rule one_call [OF assms(2), of None]) (simp add: cache_step_def 1 False)
      then show ?thesis by (rule run [rotated 3]) (use f assms(2) in auto)
    qed
  next
    case (2 k)
    show ?thesis by (rule run [OF 2 assms(2) f]) auto
  qed
qed

fun asks :: "cache_call \<Rightarrow> bool" where
  "asks (GetLoad k) \<longleftrightarrow> True" | "asks (GetStore k) \<longleftrightarrow> True" | "asks (GetInit k f) \<longleftrightarrow> True" | "asks (GetRun k f) \<longleftrightarrow> True"
| "asks (GetClean k e) \<longleftrightarrow> True" | "asks (GetValue k v) \<longleftrightarrow> True" | "asks (GetWait k f) \<longleftrightarrow> True" | "asks (GetDone k r) \<longleftrightarrow> True" | "asks _ \<longleftrightarrow> False"

lemma get_ends:
  assumes "cache_inv c" "i < length (c_calls c)" "asks (c_calls c ! i)"
  shows "\<exists>c' k r. lc_run c c' \<and> c_calls c' ! i = GetDone k r"
proof -
  have clean: "\<exists>c' k r. lc_run s c' \<and> c_calls c' ! i = GetDone k r"
    if s: "i < length (c_calls s)" "c_calls s ! i = GetClean k e" for s k e
  proof (intro exI conjI)
    show "lc_run s (s\<lparr>c_m := m_delete k (c_m s), c_calls := (c_calls s)[i := GetDone k (GErr e)]\<rparr>)"
      by (rule one_call [OF s(1), of None]) (simp add: cache_step_def s(2))
  qed (simp add: s(1))
  have val: "\<exists>c' k r. lc_run s c' \<and> c_calls c' ! i = GetDone k r"
    if s: "i < length (c_calls s)" "c_calls s ! i = GetValue k v" for s k v
  proof -
    obtain t where t: "cache_value i (Inr 0) s = Some t" by (simp add: cache_value_def s(2))
    then have "\<exists>r. c_calls t ! i = GetDone k r" using s by (auto simp: cache_value_def)
    then show ?thesis using one_value [OF s(1) t] by blast
  qed
  have own: "\<exists>c' k r. lc_run s c' \<and> c_calls c' ! i = GetDone k r"
    if s: "cache_inv s" "i < length (c_calls s)" "inits f (c_calls s ! i)" for s f
  proof -
    obtain t where t: "lc_run s t" "length (c_calls t) = length (c_calls s)"
      "(\<exists>k e. c_calls t ! i = GetClean k e) \<or> (\<exists>k v. c_calls t ! i = GetValue k v)"
      by (rule owner_finishes [OF s]) blast
    then show ?thesis using clean [of t] val [of t] s(2) by (metis rtranclp_trans)
  qed
  have wait: "\<exists>c' k r. lc_run s c' \<and> c_calls c' ! i = GetDone k r"
    if s: "cache_inv s" "i < length (c_calls s)" "c_calls s ! i = GetWait k f" for s k f
  proof -
    have go: "\<exists>c' k r. lc_run t c' \<and> c_calls c' ! i = GetDone k r"
      if t: "i < length (c_calls t)" "c_calls t ! i = GetWait k f" "IsSet (c_futures t ! f)" for t
    proof -
      obtain r where r: "fut_value (c_futures t ! f) = Some r" using t(3) by (auto simp: IsSet_def)
      obtain u where u: "cache_step i None t = Some u" "length (c_calls u) = length (c_calls t)"
        "(\<exists>k r. c_calls u ! i = GetDone k r) \<or> (\<exists>k v. c_calls u ! i = GetValue k v)"
        using t(1) by (cases r) (auto simp: cache_step_def t(2) r)
      then show ?thesis using one_call [OF t(1) u(1)] val [of u] t(1) by (metis rtranclp_trans)
    qed
    have "call_ok s (c_calls s ! i)" using s(1,2) by (simp add: cache_inv_def)
    then have f: "f < length (c_futures s)" using s(3) by simp
    show ?thesis
    proof (cases "IsSet (c_futures s ! f)")
      case False
      then have "in_phase (inits f) (c_calls s) > 0" using s(1) f by (auto simp: cache_inv_def)
      then obtain j where j: "j < length (c_calls s)" "inits f (c_calls s ! j)" by (auto simp: in_phase_pos in_set_conv_nth)
      then have "i \<noteq> j" using s(3) by auto
      obtain t where "lc_run s t" "IsSet (c_futures t ! f)" "c_calls t ! i = c_calls s ! i" "length (c_calls t) = length (c_calls s)"
        by (rule owner_finishes [OF s(1) j]) (use \<open>i \<noteq> j\<close> in blast)
      then show ?thesis using go [of t] s(2,3) by (metis rtranclp_trans)
    qed (use go s in blast)
  qed
  have keep: "cache_inv s'" if "lc_run s s'" "cache_inv s" for s s'
    using that by (induction rule: rtranclp_induct) (auto intro: lc_step_inv)
  have store: "\<exists>c' k r. lc_run s c' \<and> c_calls c' ! i = GetDone k r"
    if s: "cache_inv s" "i < length (c_calls s)" "c_calls s ! i = GetStore k" for s k
  proof -
    obtain t where t: "cache_step i None s = Some t" "length (c_calls t) = length (c_calls s)"
      "inits (length (c_futures s)) (c_calls t ! i) \<or> (\<exists>f. c_calls t ! i = GetWait k f)"
      using s by (cases "map_of (c_m s) k") (auto simp: cache_step_def)
    have "lc_run s t" by (rule one_call [OF s(2) t(1)])
    then show ?thesis using own [of t] wait [of t] keep s(1,2) t(2,3) by (metis rtranclp_trans)
  qed
  show ?thesis
  proof (cases "c_calls c ! i")
    case (GetLoad k)
    obtain t where t: "cache_step i None c = Some t" "length (c_calls t) = length (c_calls c)"
      "c_calls t ! i = GetStore k \<or> (\<exists>f. c_calls t ! i = GetWait k f)"
      using assms(2) GetLoad by (cases "map_of (c_m c) k") (auto simp: cache_step_def)
    have "lc_run c t" by (rule one_call [OF assms(2) t(1)])
    then show ?thesis using store [of t k] wait [of t k] keep assms(1,2) t(2,3) by (metis rtranclp_trans)
  qed (use assms store own clean wait val in \<open>auto\<close>)
qed

section \<open>Computed runs\<close>

datatype act = AGet string | ADelete string | AClose | ACall nat "goerr option" | AVisit nat string
| AValue nat "goerr + nat"

fun act_step :: "act \<Rightarrow> cache \<Rightarrow> cache option" where
  "act_step (AGet k) c = Some (cache_Get k c)"
| "act_step (ADelete k) c = Some (cache_Delete k c)"
| "act_step AClose c = Some (cache_Close c)"
| "act_step (ACall i res) c = (if i < length (c_calls c) then cache_step i res c else None)"
| "act_step (AVisit i k) c = (if i < length (c_calls c) then visit i k c else None)"
| "act_step (AValue i x) c = (if i < length (c_calls c) then cache_value i x c else None)"

lemma run_cache: "run_steps act_step as c = Some c' \<Longrightarrow> lc_run c c'"
proof (rule run_steps_star)
  fix a s s'
  assume "act_step a s = Some s'"
  then show "lc_step s s'" by (cases a) (auto split: if_splits intro: lc_step.intros)
qed

lemmas cache_defs = cache_New_def cache_Get_def cache_Delete_def cache_Close_def DeleteAll_def cache_step_def cache_value_def visit_def cache_close_def
  future_New_def future_set_def m_delete_def Let_def

text \<open>One key that two callers ask for, and a key that failed.\<close>

definition ex_cache :: cache where
  "ex_cache = the (run_steps act_step [AGet ''ch1'', AGet ''ch1'', ACall 0 None, ACall 0 None, ACall 1 None, ACall 0 None, ACall 0 None,
     ACall 1 None, AValue 0 (Inr 0), AValue 1 (Inr 1), AGet ''ch2'', ACall 2 None, ACall 2 None, ACall 2 None,
     ACall 2 (Some (ExtErr ''no such channel''))]
     (cache_New ''Channel_Cfg_Cache'' True False))"

lemma ex_cache_eq:
  "run_steps act_step [AGet ''ch1'', AGet ''ch1'', ACall 0 None, ACall 0 None, ACall 1 None, ACall 0 None, ACall 0 None,
     ACall 1 None, AValue 0 (Inr 0), AValue 1 (Inr 1), AGet ''ch2'', ACall 2 None, ACall 2 None, ACall 2 None,
     ACall 2 (Some (ExtErr ''no such channel''))]
     (cache_New ''Channel_Cfg_Cache'' True False) = Some ex_cache"
  "c_calls ex_cache = [GetDone ''ch1'' (GRef 0 (Inr 0)), GetDone ''ch1'' (GRef 0 (Inr 1)), GetClean ''ch2'' (ExtErr ''no such channel'')]"
  "c_made ex_cache = [''ch1'']" "c_m ex_cache = [(''ch2'', 1), (''ch1'', 0)]"
  by (simp_all add: ex_cache_def cache_defs)

lemma ex_cache_run: "lc_run (cache_New ''Channel_Cfg_Cache'' True False) ex_cache"
  by (rule run_cache [OF ex_cache_eq(1)])

text \<open>Whether a cache holds references does not change, and decides what a \<open>Get\<close> returns.\<close>

fun kind_ok :: "bool \<Rightarrow> cache_call \<Rightarrow> bool" where
  "kind_ok useRef (GetDone k (GVal v)) \<longleftrightarrow> \<not> useRef" | "kind_ok useRef (GetDone k (GRef v x)) \<longleftrightarrow> useRef" | "kind_ok useRef p \<longleftrightarrow> True"

definition kinds_inv :: "bool \<Rightarrow> cache \<Rightarrow> bool" where
  "kinds_inv useRef c \<longleftrightarrow> c_useRef c = useRef \<and> (\<forall>p\<in>set (c_calls c). kind_ok useRef p)"

lemma cache_close_useRef [simp]: "c_useRef (cache_close f c) = c_useRef c"
  by (auto simp: cache_close_def split: option.splits sum.splits)

lemma kinds_update:
  "kinds_inv useRef c \<Longrightarrow> kind_ok useRef p \<Longrightarrow> c_calls c' = (c_calls c)[i := p] \<Longrightarrow> c_useRef c' = c_useRef c \<Longrightarrow> kinds_inv useRef c'"
  unfolding kinds_inv_def using set_update_subset_insert [of "c_calls c" i p] by auto

lemma kinds_step: "lc_step c c' \<Longrightarrow> kinds_inv useRef c \<Longrightarrow> kinds_inv useRef c'"
proof (induction rule: lc_step.induct)
  case (lc_call i c res c')
  obtain p where "c_calls c' = (c_calls c)[i := p]" "kind_ok useRef p" "c_useRef c' = c_useRef c"
    using lc_call.hyps(2) by (cases "c_calls c ! i")
      (auto simp: cache_step_def Let_def split: if_splits list.splits option.splits sum.splits)
  then show ?case using kinds_update [OF lc_call.prems] by blast
next
  case (lc_value i c x c')
  have "c_useRef c = useRef" using lc_value.prems by (simp add: kinds_inv_def)
  then obtain p where "c_calls c' = (c_calls c)[i := p]" "kind_ok useRef p" "c_useRef c' = c_useRef c"
    using lc_value.hyps(2) by (auto simp: cache_value_def split: cache_call.splits)
  then show ?case using kinds_update [OF lc_value.prems] by blast
next
  case (lc_visit i c k c')
  obtain m v where "c_calls c' = (c_calls c)[i := DelRange m (v @ [k])]" "c_useRef c' = c_useRef c"
    using lc_visit.hyps(2) by (auto simp: visit_def split: cache_call.splits option.splits if_splits)
  then show ?case by (intro kinds_update [OF lc_visit.prems]) auto
qed (auto simp: kinds_inv_def cache_Get_def cache_Delete_def DeleteAll_def cache_Close_def split: option.splits)

lemma run_kinds: "lc_run (cache_New name useRef closable) c \<Longrightarrow> kinds_inv useRef c"
proof (induction rule: rtranclp_induct)
  case base
  show ?case by (simp add: kinds_inv_def cache_New_def)
next
  case (step c c')
  show ?case by (rule kinds_step [OF step.hyps(2) step.IH])
qed

section \<open>Properties\<close>

text \<open>
  C31: A \<open>Get\<close> that succeeds gives what was made for its key. Without the options of lazy references this is the cached
  value itself; with them it is the answer of the cached reference, whose value is made anew when it expires and which
  answers with an error when that fails or when it has been closed. As long as nothing is deleted, all the calls for a
  key are given the same cached value or the same reference: the cache's initializer succeeds once for a key, whatever
  callers race for it. Initializers are taken to return.
\<close>
theorem one_value_per_key:
  assumes "lc_run (cache_New name useRef closable) c" "GetDone k r \<in> set (c_calls c)" "gives r = Some v"
  shows "v < length (c_made c) \<and> c_made c ! v = k \<and> (\<exists>x. r = (if useRef then GRef v x else GVal v))
    \<and> (list_ex deletes (c_calls c) \<or> (\<forall>w<length (c_made c). c_made c ! w = k \<longrightarrow> w = v))"
proof -
  have r: "v < length (c_made c)" "c_made c ! v = k"
    using cache_run_inv [OF assms(1)] assms(2,3) by (auto simp: cache_inv_def result_ok_def)
  have "kind_ok useRef (GetDone k r)" using run_kinds [OF assms(1)] assms(2) by (auto simp: kinds_inv_def)
  then have "\<exists>x. r = (if useRef then GRef v x else GVal v)" using assms(3) by (cases r) auto
  moreover have "w = v" if "\<not> list_ex deletes (c_calls c)" "w < length (c_made c)" "c_made c ! w = k" for w
  proof -
    have "\<exists>f. map_of (c_m c) (c_made c ! u) = Some f \<and> fut_value (c_futures c ! f) = Some (Inr u)" if "u < length (c_made c)" for u
      using run_kept [OF assms(1)] \<open>\<not> list_ex deletes (c_calls c)\<close> that unfolding kept_inv_def by blast
    from this [OF that(2)] this [OF r(1)] show ?thesis using that(3) r(2) by auto
  qed
  ultimately show ?thesis using r by blast
qed

theorem one_value_per_key_witness:
  "c_made ex_cache ! 0 = ''ch1'' \<and> \<not> (\<exists>w. 0 < w \<and> w < length (c_made ex_cache) \<and> c_made ex_cache ! w = ''ch1'')"
  using one_value_per_key [OF ex_cache_run, of "''ch1''" "GRef 0 (Inr 1)" 0] by (auto simp add: ex_cache_eq)

text \<open>
  Errors are not cached: when no \<open>Get\<close> is initializing or cleaning up, every key of the map leads to a value.
\<close>
theorem errors_not_cached:
  assumes "lc_run (cache_New name useRef closable) c" "map_of (c_m c) k = Some f"
    and "\<forall>p\<in>set (c_calls c). (\<forall>g. \<not> inits g p) \<and> \<not> cleans k p"
  shows "\<exists>v. fut_value (c_futures c ! f) = Some (Inr v) \<and> c_made c ! v = k"
proof -
  have inv: "cache_inv c" by (rule cache_run_inv [OF assms(1)])
  then have f: "f < length (c_futures c)" "fut_key (c_futures c ! f) = k" using assms(2) by (auto simp: cache_inv_def)
  have "in_phase (inits f) (c_calls c) = 0" using assms(3) by (auto simp: in_phase_zero)
  then have "IsSet (c_futures c ! f)" using inv f(1) by (auto simp: cache_inv_def split: if_splits)
  then obtain r where r: "fut_value (c_futures c ! f) = Some r" by (auto simp: IsSet_def)
  show ?thesis
  proof (cases r)
    case (Inl err)
    then obtain e where "GetClean k e \<in> set (c_calls c)" using inv assms(2) r unfolding cache_inv_def by blast
    then show ?thesis using assms(3) by force
  next
    case (Inr v)
    then show ?thesis using inv f r unfolding cache_inv_def result_ok_def by fastforce
  qed
qed

theorem errors_not_cached_witness:
  "\<exists>c v. lc_run ex_cache c \<and> map_of (c_m c) ''ch2'' = None \<and> fut_value (c_futures c ! 0) = Some (Inr v) \<and> c_made c ! v = ''ch1''"
proof -
  obtain c where c: "act_step (ACall 2 None) ex_cache = Some c" "c_m c = [(''ch1'', 0)]"
    "c_calls c = [GetDone ''ch1'' (GRef 0 (Inr 0)), GetDone ''ch1'' (GRef 0 (Inr 1)), GetDone ''ch2'' (GErr (ExtErr ''no such channel''))]"
    by (simp add: cache_step_def ex_cache_eq m_delete_def)
  have run: "lc_run ex_cache c" by (rule run_cache [of "[ACall 2 None]"]) (simp del: act_step.simps add: c(1))
  then have "lc_run (cache_New ''Channel_Cfg_Cache'' True False) c" using ex_cache_run by (rule rtranclp_trans [rotated])
  from errors_not_cached [OF this, of "''ch1''" 0] show ?thesis using run by (auto simp: c)
qed

text \<open>
  C32: A \<open>Get\<close> never waits for a future that nobody sets: from wherever a call of it stands there is a way on to its return,
  also when the cache has been closed or the key deleted in between.
\<close>
theorem get_returns:
  assumes "lc_run (cache_New name useRef closable) c" "i < length (c_calls c)" "asks (c_calls c ! i)"
  shows "\<exists>c' k r. lc_run c c' \<and> c_calls c' ! i = GetDone k r"
  by (rule get_ends [OF cache_run_inv [OF assms(1)] assms(2,3)])

theorem get_returns_witness: "\<exists>c' k r. lc_run ex_cache c' \<and> c_calls c' ! 2 = GetDone k r"
  by (rule get_returns [OF ex_cache_run]) (simp_all add: ex_cache_eq)

text \<open>
  A \<open>Get\<close> that is initializing a value while the cache is closed completes afterwards: its value is handed out, but is
  neither in the map nor ever closed, although the cache is closed.
\<close>
theorem value_missed_by_close:
  "\<exists>c. lc_run (cache_New name False True) c \<and> c_closed c \<and> c_calls c = [GetDone k (GVal 0), DelDone] \<and> c_m c = [] \<and> c_closedvals c = []"
proof -
  let ?acts = "[AGet k, ACall 0 None, ACall 0 None, ACall 0 None, AClose, AVisit 1 k, ACall 1 None, ACall 1 None, ACall 1 None, ACall 0 None,
    AValue 0 (Inr 0)]"
  obtain c where c: "run_steps act_step ?acts (cache_New name False True) = Some c"
    "c_closed c" "c_calls c = [GetDone k (GVal 0), DelDone]" "c_m c = []" "c_closedvals c = []"
    by (simp add: cache_defs)
  show ?thesis using run_cache [OF c(1)] c(2-) by blast
qed

end
