(* ===== verification/Dynamic_Selection.thy ===== *)
theory Dynamic_Selection
  imports PgResolver Peer_Resolvers Status
begin

text \<open>
  The dynamic selection service (pkg/client/common/selection/dynamicselection): the provider of the
  signature policies of the chaincodes (ccpolicyprovider.go) and the choice of endorsers that satisfy the
  policies of all chaincodes of a request (dynamicselection.go), with the peer group resolver.

  The service is called by one goroutine at a time here; its cache of resolvers under concurrent calls is the
  theory \<open>Lazy_Cache\<close>, and an expired entry is one that the step \<open>expireResolver\<close> drops.
\<close>

section \<open>What the service gets from elsewhere\<close>

text \<open>
  A channel client that may fail to be created, the payload that a query to one peer returns, the messages
  \<open>ChaincodeData\<close> (of which the policy is read) and \<open>SignaturePolicyEnvelope\<close>, and the codec of principals.
  \<open>pe_text\<close> is the text of an error of another package.
\<close>

record policy_env =
  pe_channel_New :: "goerr option"
  pe_Query :: "string \<Rightarrow> string \<Rightarrow> bytes list \<Rightarrow> peer \<Rightarrow> bytes res"
  pe_ChaincodeData :: "bytes \<Rightarrow> bytes res"
  pe_Envelope :: "bytes \<Rightarrow> SigPolicyEnv res"
  pe_codec :: principal_codec
  pe_text :: "goerr \<Rightarrow> string"

definition string_bytes :: "string \<Rightarrow> bytes" where
  "string_bytes s = map (\<lambda>c. of_char c) s"

section \<open>Keys\<close>

record resolverKey =
  rk_channelID :: string
  rk_chaincodeIDs :: "string list"
  rk_key :: string

text \<open>\<open>newResolverKey\<close> sorts the slice of its argument; the loop that joins the sorted names is \<open>join_ids\<close>.\<close>

primrec join_ids :: "string list \<Rightarrow> string" where
  "join_ids [] = []"
| "join_ids (s # arr) = s @ (if arr \<noteq> [] then '':'' else []) @ join_ids arr"

definition newResolverKey :: "string \<Rightarrow> string list \<Rightarrow> resolverKey" where
  "newResolverKey channelID chaincodeIDs =
    (let arr = sort_by string_less chaincodeIDs
     in \<lparr>rk_channelID = channelID, rk_chaincodeIDs = arr, rk_key = channelID @ ''-'' @ join_ids arr\<rparr>)"

section \<open>The policy provider\<close>

text \<open>The loop over the peers: it collects errors until a peer answers.\<close>

primrec query_peers :: "(peer \<Rightarrow> bytes res) \<Rightarrow> peer list \<Rightarrow> goerr list \<times> bytes option" where
  "query_peers q [] = ([], None)"
| "query_peers q (p # ps) = (case q p of
     Inl err \<Rightarrow> (let (errs, response) = query_peers q ps in (err # errs, response))
   | Inr payload \<Rightarrow> ([], Some payload))"

definition queryChaincode :: "policy_env \<Rightarrow> string \<Rightarrow> peer list res \<Rightarrow> string \<Rightarrow> string \<Rightarrow> bytes list \<Rightarrow> bytes res" where
  "queryChaincode env channelID getPeers ccID ccFcn ccArgs = (case pe_channel_New env of
     Some err \<Rightarrow> Inl (withMessage err ''Unable to create channel client'')
   | None \<Rightarrow> (case getPeers of
       Inl err \<Rightarrow> Inl (StatusErr ClientStatus NoPeersFound (pe_text env err) [])
     | Inr targetPeers \<Rightarrow>
        (let (queryErrors, response) = query_peers (pe_Query env ccID ccFcn ccArgs) targetPeers
         in if length queryErrors = length targetPeers
            then Inl (errorNew (Sprintf ''Error querying peers for channel %s: %s''
              [FS channelID, FS (join [CHR 0x0A] (map (pe_text env) queryErrors))]))
            else Inr (case response of None \<Rightarrow> [] | Some b \<Rightarrow> b))))"

definition unmarshalPolicy :: "policy_env \<Rightarrow> bytes \<Rightarrow> SigPolicyEnv res" where
  "unmarshalPolicy env policy = (case pe_Envelope env policy of
     Inl err \<Rightarrow> Inl (withMessage err ''error unmarshalling SignaturePolicyEnvelope'')
   | Inr e \<Rightarrow> Inr e)"

text \<open>
  \<open>ccDataMap\<close> is looked up by the chaincode ID and written under the resolver key. Of the chaincode data only the
  policy is used.
\<close>

definition GetChaincodePolicy :: "policy_env \<Rightarrow> string \<Rightarrow> peer list res \<Rightarrow> string \<Rightarrow> (string \<times> bytes) list
    \<Rightarrow> SigPolicyEnv res \<times> (string \<times> bytes) list" where
  "GetChaincodePolicy env channelID getPeers chaincodeID ccDataMap =
    (if chaincodeID = [] then (Inl (errorNew ''Must provide chaincode ID''), ccDataMap)
     else (case map_of ccDataMap chaincodeID of
       Some policy \<Rightarrow> (unmarshalPolicy env policy, ccDataMap)
     | None \<Rightarrow>
        (case queryChaincode env channelID getPeers ''lscc'' ''getccdata'' [string_bytes channelID, string_bytes chaincodeID] of
           Inl err \<Rightarrow> (Inl (WithMsg err ''error querying chaincode data for chaincode [%s] on channel [%s]''
             [FS chaincodeID, FS channelID]), ccDataMap)
         | Inr response \<Rightarrow> (case pe_ChaincodeData env response of
             Inl err \<Rightarrow> (Inl (withMessage err ''Error unmarshalling chaincode data''), ccDataMap)
           | Inr policy \<Rightarrow> (unmarshalPolicy env policy, (rk_key (newResolverKey channelID [chaincodeID]), policy) # ccDataMap)))))"

section \<open>The service\<close>

text \<open>\<open>ds_resolvers\<close> is the cache of resolvers by key, of which each has its group retriever; \<open>ds_lbp\<close> is the state of the policy.\<close>

record 's selectionService =
  ds_channelID :: string
  ds_resolvers :: "(string \<times> GroupRetriever) list"
  ds_lbp :: 's
  ds_ccDataMap :: "(string \<times> bytes) list"

definition newService :: "string \<Rightarrow> 's \<Rightarrow> 's selectionService res" where
  "newService channelID lbp =
    (if channelID = [] then Inl (withMessage (errorNew ''Must provide channel ID for cc policy provider'') ''Failed to create cc policy provider'')
     else Inr \<lparr>ds_channelID = channelID, ds_resolvers = [], ds_lbp = lbp, ds_ccDataMap = []\<rparr>)"

text \<open>\<open>queried\<close> gives for each chaincode what the discovery service answers when its policy is queried.\<close>

definition getPolicyGroupForCC :: "policy_env \<Rightarrow> (string \<Rightarrow> peer list res) \<Rightarrow> string \<Rightarrow> string \<Rightarrow> 's selectionService
    \<Rightarrow> GroupRetriever res \<times> 's selectionService" where
  "getPolicyGroupForCC env queried channelID ccID s =
    (case GetChaincodePolicy env (ds_channelID s) (queried ccID) ccID (ds_ccDataMap s) of
       (Inl err, m) \<Rightarrow> (Inl (WithMsg err ''error querying chaincode [%s] on channel [%s]'' [FS ccID, FS channelID]), s\<lparr>ds_ccDataMap := m\<rparr>)
     | (Inr sigPolicyEnv, m) \<Rightarrow> (CompileSignaturePolicy (pe_codec env) sigPolicyEnv, s\<lparr>ds_ccDataMap := m\<rparr>))"

text \<open>The loop of \<open>createPGResolver\<close>.\<close>

primrec policy_groups :: "policy_env \<Rightarrow> (string \<Rightarrow> peer list res) \<Rightarrow> string \<Rightarrow> string list \<Rightarrow> 's selectionService
    \<Rightarrow> GroupRetriever list res \<times> 's selectionService" where
  "policy_groups env queried channelID [] s = (Inr [], s)"
| "policy_groups env queried channelID (ccID # ids) s = (case getPolicyGroupForCC env queried channelID ccID s of
     (Inl err, s1) \<Rightarrow> (Inl (WithMsg err ''error retrieving signature policy for chaincode [%s] on channel [%s]'' [FS ccID, FS channelID]), s1)
   | (Inr policyGroup, s1) \<Rightarrow> (case policy_groups env queried channelID ids s1 of
         (Inl err, s2) \<Rightarrow> (Inl err, s2)
       | (Inr policyGroups, s2) \<Rightarrow> (Inr (policyGroup # policyGroups), s2)))"

text \<open>The aggregate retriever runs the retrievers of the policies and asks for all of their groups.\<close>

definition aggregate :: "GroupRetriever list \<Rightarrow> GroupRetriever" where
  "aggregate policyGroups = (\<lambda>peerRetriever. obind (run_pfuncs policyGroups peerRetriever) (\<lambda>r. case r of
     Inl err \<Rightarrow> Ok (Inl err)
   | Inr groups \<Rightarrow> Nof (NewGroupOfGroups groups) (int (length policyGroups))))"

definition createPGResolver :: "policy_env \<Rightarrow> (string \<Rightarrow> peer list res) \<Rightarrow> resolverKey \<Rightarrow> 's selectionService
    \<Rightarrow> GroupRetriever res \<times> 's selectionService" where
  "createPGResolver env queried key s = (case policy_groups env queried (rk_channelID key) (rk_chaincodeIDs key) s of
     (Inl err, s1) \<Rightarrow> (Inl err, s1)
   | (Inr policyGroups, s1) \<Rightarrow> (Inr (aggregate policyGroups), s1))"

definition getPeerGroupResolver :: "policy_env \<Rightarrow> (string \<Rightarrow> peer list res) \<Rightarrow> string list \<Rightarrow> 's selectionService
    \<Rightarrow> GroupRetriever res \<times> 's selectionService" where
  "getPeerGroupResolver env queried chaincodeIDs s =
    (let key = newResolverKey (ds_channelID s) chaincodeIDs
     in case map_of (ds_resolvers s) (rk_key key) of
       Some resolver \<Rightarrow> (Inr resolver, s)
     | None \<Rightarrow> (case createPGResolver env queried key s of
         (Inl err, s1) \<Rightarrow> (Inl err, s1)
       | (Inr resolver, s1) \<Rightarrow> (Inr resolver, s1\<lparr>ds_resolvers := (rk_key key, resolver) # ds_resolvers s1\<rparr>)))"

text \<open>The filter and the sorter are options of the call; \<open>r\<close> is the draw of the load balance policy.\<close>

definition GetEndorsersForChaincode :: "policy_env \<Rightarrow> 's LoadBalancePolicy \<Rightarrow> nat \<Rightarrow> (string \<Rightarrow> peer list res) \<Rightarrow> peer list res \<Rightarrow> (peer \<Rightarrow> bool) option
    \<Rightarrow> (peer list \<Rightarrow> peer list) option \<Rightarrow> string list \<Rightarrow> 's selectionService \<Rightarrow> (peer list res \<times> 's selectionService) outcome" where
  "GetEndorsersForChaincode env lbp r queried getPeers peerFilter peerSorter chaincodes s =
    (if length chaincodes = 0 then Ok (Inl (errorNew ''no chaincode IDs provided''), s)
     else (case getPeerGroupResolver env queried chaincodes s of
       (Inl err, s1) \<Rightarrow> Ok (Inl (WithMsg err ''Error getting peer group resolver for chaincodes [%v] on channel [%s]''
           [FS (''['' @ join '' '' (sort_by string_less chaincodes) @ '']''), FS (ds_channelID s)]), s1)
     | (Inr resolver, s1) \<Rightarrow> (case getPeers of
         Inl err \<Rightarrow> Ok (Inl err, s1)
       | Inr peers \<Rightarrow>
          (let peers1 = (case peerFilter of None \<Rightarrow> peers | Some f \<Rightarrow> filter f peers);
               peers2 = (case peerSorter of None \<Rightarrow> peers1 | Some sorter \<Rightarrow> sorter peers1)
           in obind (Resolve resolver lbp r (ds_lbp s1) peers2) (\<lambda>(res, lb). case res of
                Inl err \<Rightarrow> Ok (Inl err, s1\<lparr>ds_lbp := lb\<rparr>)
              | Inr peerGroup \<Rightarrow> (case Peers peerGroup of
                  None \<Rightarrow> Panic
                | Some ps \<Rightarrow> Ok (Inr ps, s1\<lparr>ds_lbp := lb\<rparr>)))))))"

text \<open>The absolute expiration of the cache drops a resolver.\<close>

definition expireResolver :: "string \<Rightarrow> 's selectionService \<Rightarrow> 's selectionService" where
  "expireResolver key s = s\<lparr>ds_resolvers := filter (\<lambda>e. fst e \<noteq> key) (ds_resolvers s)\<rparr>"

end
