(* ===== verification/Dynamic_Theorems.thy ===== *)
theory Dynamic_Theorems
  imports Dynamic_Selection PgResolver_Theorems
begin

text \<open>
  Dynamic selection implements the endorsement policies: the endorsers of a request satisfy the signature
  policies of all of its chaincodes, however the resolvers are cached; and the mistaken key of the policy cache.
\<close>

section \<open>Keys\<close>

definition colon_free :: "string list \<Rightarrow> bool" where
  "colon_free ids \<longleftrightarrow> list_all (\<lambda>s. CHR '':'' \<notin> set s) ids"

lemma join_ids_inj: "colon_free xs \<Longrightarrow> colon_free ys \<Longrightarrow> xs \<noteq> [] \<Longrightarrow> ys \<noteq> [] \<Longrightarrow> join_ids xs = join_ids ys \<Longrightarrow> xs = ys"
proof (induction xs arbitrary: ys)
  case (Cons x xs)
  obtain y ys' where ys: "ys = y # ys'" using Cons.prems(4) by (cases ys) auto
  have colon: "takeWhile (\<lambda>c. c \<noteq> CHR '':'') (z @ (if zs \<noteq> [] then '':'' else []) @ join_ids zs) = z
      \<and> dropWhile (\<lambda>c. c \<noteq> CHR '':'') (z @ (if zs \<noteq> [] then '':'' else []) @ join_ids zs) = (if zs \<noteq> [] then '':'' else []) @ join_ids zs"
    if "CHR '':'' \<notin> set z" for z zs
    using that by (cases "zs = []") (auto simp: takeWhile_append dropWhile_append)
  have free: "CHR '':'' \<notin> set x" "CHR '':'' \<notin> set y" "colon_free xs" "colon_free ys'"
    using Cons.prems(1,2) by (simp_all add: colon_free_def ys)
  have e: "x @ (if xs \<noteq> [] then '':'' else []) @ join_ids xs = y @ (if ys' \<noteq> [] then '':'' else []) @ join_ids ys'"
    using Cons.prems(5) by (simp add: ys)
  have "x = y" using colon [OF free(1), of xs] colon [OF free(2), of ys'] e by metis
  moreover have "(if xs \<noteq> [] then '':'' else []) @ join_ids xs = (if ys' \<noteq> [] then '':'' else []) @ join_ids ys'"
    using colon [OF free(1), of xs] colon [OF free(2), of ys'] e by metis
  then have "xs = [] \<longleftrightarrow> ys' = []" "join_ids xs = join_ids ys'" by (auto split: if_splits)
  ultimately show ?case using Cons.IH [OF free(3,4)] ys by (cases "xs = []") auto
qed simp

lemma key_inj:
  assumes "rk_key (newResolverKey ch xs) = rk_key (newResolverKey ch ys)" "colon_free xs" "colon_free ys" "xs \<noteq> []" "ys \<noteq> []"
  shows "set xs = set ys"
proof -
  have "join_ids (sort_by string_less xs) = join_ids (sort_by string_less ys)" using assms(1) by (simp add: newResolverKey_def Let_def)
  moreover have "sort_by string_less zs \<noteq> []" if "zs \<noteq> []" for zs :: "string list" using that by (metis set_empty set_sort_by)
  moreover have "colon_free (sort_by string_less zs)" if "colon_free zs" for zs using that by (simp add: colon_free_def list_all_iff)
  ultimately have "sort_by string_less xs = sort_by string_less ys" using assms(2-5) by (intro join_ids_inj) auto
  then show ?thesis by (metis set_sort_by)
qed

section \<open>The policies of the chaincodes\<close>

text \<open>
  \<open>provides\<close>: what a peer answers about a chaincode leads to its policy, which is well-formed. \<open>proper\<close>: a name
  that has no colon and does not itself start with the channel's name and a dash.
\<close>

definition provides :: "policy_env \<Rightarrow> string \<Rightarrow> (string \<Rightarrow> SigPolicyEnv) \<Rightarrow> bool" where
  "provides env ch policyOf \<longleftrightarrow> (\<forall>cc p b pol. pe_Query env ''lscc'' ''getccdata'' [string_bytes ch, string_bytes cc] p = Inr b
      \<longrightarrow> pe_ChaincodeData env b = Inr pol \<longrightarrow> pe_Envelope env pol = Inr (policyOf cc))
    \<and> (\<forall>cc. policy_ok (pe_codec env) (spe_Identities (policyOf cc)) (spe_Rule (policyOf cc)))"

definition proper :: "string \<Rightarrow> string \<Rightarrow> bool" where
  "proper ch cc \<longleftrightarrow> CHR '':'' \<notin> set cc \<and> take (length ch + 1) cc \<noteq> ch @ ''-''"

definition cc_satisfied :: "policy_env \<Rightarrow> (string \<Rightarrow> SigPolicyEnv) \<Rightarrow> peer set \<Rightarrow> string \<Rightarrow> bool" where
  "cc_satisfied env policyOf P cc \<longleftrightarrow> satisfied (pe_codec env) (spe_Identities (policyOf cc)) P (spe_Rule (policyOf cc))"

text \<open>The endorsers can give the signatures of the policy of the chaincode; a policy that names an organization at most once.\<close>

definition cc_signed :: "policy_env \<Rightarrow> (string \<Rightarrow> SigPolicyEnv) \<Rightarrow> peer set \<Rightarrow> string \<Rightarrow> bool" where
  "cc_signed env policyOf P cc \<longleftrightarrow> can_sign (pe_codec env) (spe_Identities (policyOf cc)) P (spe_Rule (policyOf cc))"

definition cc_once :: "policy_env \<Rightarrow> (string \<Rightarrow> SigPolicyEnv) \<Rightarrow> string \<Rightarrow> bool" where
  "cc_once env policyOf cc \<longleftrightarrow> each_once (pe_codec env) (spe_Identities (policyOf cc)) (spe_Rule (policyOf cc))"

definition data_ok :: "policy_env \<Rightarrow> string \<Rightarrow> (string \<Rightarrow> SigPolicyEnv) \<Rightarrow> (string \<times> bytes) list \<Rightarrow> bool" where
  "data_ok env ch policyOf m \<longleftrightarrow> (\<forall>(k, pol)\<in>set m. \<exists>cc. k = ch @ ''-'' @ cc \<and> pe_Envelope env pol = Inr (policyOf cc))"

definition resolvers_ok :: "policy_env \<Rightarrow> string \<Rightarrow> (string \<Rightarrow> SigPolicyEnv) \<Rightarrow> (string \<times> GroupRetriever) list \<Rightarrow> bool" where
  "resolvers_ok env ch policyOf m \<longleftrightarrow> (\<forall>(k, f)\<in>set m. \<forall>ids. ids \<noteq> [] \<longrightarrow> list_all (proper ch) ids
      \<longrightarrow> k = rk_key (newResolverKey ch ids) \<longrightarrow> retrieves_sat (\<lambda>P. \<forall>cc\<in>set ids. cc_satisfied env policyOf P cc) f)"

lemma query_peers_answer:
  "query_peers q ps = (errs, r) \<Longrightarrow> length errs \<noteq> length ps \<Longrightarrow> \<exists>p b. r = Some b \<and> q p = Inr b"
proof (induction ps arbitrary: errs r)
  case (Cons p ps)
  then show ?case by (auto split: sum.splits prod.splits)
qed simp

lemma GetChaincodePolicy_ok:
  assumes "provides env ch policyOf" "data_ok env ch policyOf m" "proper ch cc"
    and "GetChaincodePolicy env ch getPeers cc m = (r, m')"
  shows "data_ok env ch policyOf m' \<and> (\<forall>e. r = Inr e \<longrightarrow> e = policyOf cc)"
proof -
  have none: "map_of m cc = None"
  proof (rule ccontr)
    assume "map_of m cc \<noteq> None"
    then obtain y where "(cc, y) \<in> set m" by (auto dest: map_of_SomeD)
    then obtain d where "cc = ch @ ''-'' @ d" using assms(2) unfolding data_ok_def by blast
    then show False using assms(3) by (simp add: proper_def)
  qed
  have key: "rk_key (newResolverKey ch [cc]) = ch @ ''-'' @ cc" by (simp add: newResolverKey_def sort_by_def Let_def)
  show ?thesis
  proof (cases "queryChaincode env ch getPeers ''lscc'' ''getccdata'' [string_bytes ch, string_bytes cc]")
    case (Inl err)
    then show ?thesis using assms(2,4) none by (auto simp: GetChaincodePolicy_def split: if_splits)
  next
    case (Inr b)
    then obtain p where "pe_Query env ''lscc'' ''getccdata'' [string_bytes ch, string_bytes cc] p = Inr b"
      by (auto simp: queryChaincode_def Let_def split: option.splits sum.splits prod.splits if_splits dest: query_peers_answer)
    then have "pe_Envelope env pol = Inr (policyOf cc)" if "pe_ChaincodeData env b = Inr pol" for pol
      using assms(1) that unfolding provides_def by blast
    then show ?thesis
      using assms(2,4) none Inr key
      by (auto simp: GetChaincodePolicy_def unmarshalPolicy_def data_ok_def split: if_splits sum.splits)
  qed
qed

lemma CompileSignaturePolicy_ok:
  assumes "provides env ch policyOf" "CompileSignaturePolicy (pe_codec env) (policyOf cc) = Inr f"
  shows "retrieves_sat (\<lambda>P. cc_satisfied env policyOf P cc) f"
proof -
  have "policy_ok (pe_codec env) (spe_Identities (policyOf cc)) (spe_Rule (policyOf cc))" using assms(1) by (simp add: provides_def)
  then show ?thesis
    using compile_retrieves(1) assms(2) by (fastforce simp: CompileSignaturePolicy_def cc_satisfied_def split: sum.splits)
qed

lemma policy_groups_ok:
  assumes "provides env (ds_channelID s) policyOf" "list_all (proper (ds_channelID s)) ids"
    and "data_ok env (ds_channelID s) policyOf (ds_ccDataMap s)" "policy_groups env queried ch ids s = (r, s')"
  shows "(\<exists>m. s' = s\<lparr>ds_ccDataMap := m\<rparr>) \<and> data_ok env (ds_channelID s) policyOf (ds_ccDataMap s')
    \<and> (\<forall>fs. r = Inr fs \<longrightarrow> list_all2 retrieves_sat (map (\<lambda>cc P. cc_satisfied env policyOf P cc) ids) fs)"
  using assms
proof (induction ids arbitrary: s r s')
  case Nil
  then show ?case by (auto intro: exI [of _ "ds_ccDataMap s"])
next
  case (Cons cc ids)
  obtain g m where g: "GetChaincodePolicy env (ds_channelID s) (queried cc) cc (ds_ccDataMap s) = (g, m)"
    by (cases "GetChaincodePolicy env (ds_channelID s) (queried cc) cc (ds_ccDataMap s)")
  then have m: "data_ok env (ds_channelID s) policyOf m" "\<And>e. g = Inr e \<Longrightarrow> e = policyOf cc"
    using GetChaincodePolicy_ok [OF Cons.prems(1,3) _ g] Cons.prems(2) by auto
  let ?s = "s\<lparr>ds_ccDataMap := m\<rparr>"
  obtain r2 s2 where r2: "policy_groups env queried ch ids ?s = (r2, s2)" by (cases "policy_groups env queried ch ids ?s")
  have IH: "(\<exists>m. s2 = ?s\<lparr>ds_ccDataMap := m\<rparr>) \<and> data_ok env (ds_channelID s) policyOf (ds_ccDataMap s2)
    \<and> (\<forall>fs. r2 = Inr fs \<longrightarrow> list_all2 retrieves_sat (map (\<lambda>cc P. cc_satisfied env policyOf P cc) ids) fs)"
    using Cons.IH [of ?s r2 s2] Cons.prems(1,2) m(1) r2 by simp
  show ?case
  proof (cases g)
    case (Inl err)
    then show ?thesis using Cons.prems(4) g m(1) by (auto simp: getPolicyGroupForCC_def)
  next
    case (Inr e)
    then have e: "e = policyOf cc" using m(2) by simp
    show ?thesis
    proof (cases "CompileSignaturePolicy (pe_codec env) (policyOf cc)")
      case (Inl err)
      then show ?thesis using Cons.prems(4) g m(1) Inr e by (auto simp: getPolicyGroupForCC_def)
    next
      case f: (Inr f)
      have "retrieves_sat (\<lambda>P. cc_satisfied env policyOf P cc) f" by (rule CompileSignaturePolicy_ok [OF Cons.prems(1) f])
      then show ?thesis
        using Cons.prems(4) g Inr e f r2 IH by (auto simp: getPolicyGroupForCC_def split: sum.splits)
    qed
  qed
qed

lemma filter_all_iff: "length xs \<le> length (filter P xs) \<longleftrightarrow> (\<forall>x\<in>set xs. P x)"
  using length_filter_less [of _ xs P] by (auto simp: filter_id_conv not_le [symmetric])

lemma aggregate_ok:
  assumes "list_all2 retrieves_sat (map (\<lambda>cc P. cc_satisfied env policyOf P cc) ids) fs" "ids \<noteq> []"
  shows "retrieves_sat (\<lambda>P. \<forall>cc\<in>set ids. cc_satisfied env policyOf P cc) (aggregate fs)"
proof -
  let ?Ss = "map (\<lambda>cc P. cc_satisfied env policyOf P cc) ids"
  have l: "length fs = length ids" using list_all2_lengthD [OF assms(1)] by simp
  have "aggregate fs = nOutOf_retriever (int (length fs)) fs" by (simp add: aggregate_def nOutOf_retriever_def fun_eq_iff)
  moreover have "int (length fs) \<le> int (length (filter (\<lambda>S. S P) ?Ss)) \<longleftrightarrow> (\<forall>cc\<in>set ids. cc_satisfied env policyOf P cc)" for P
    using l by (simp add: filter_map comp_def filter_all_iff)
  ultimately show ?thesis using nOutOf_retrieves [OF assms(1), of "int (length fs)"] assms(2) l by simp
qed

section \<open>The service\<close>

definition service_ok :: "policy_env \<Rightarrow> (string \<Rightarrow> SigPolicyEnv) \<Rightarrow> 's selectionService \<Rightarrow> bool" where
  "service_ok env policyOf s \<longleftrightarrow> data_ok env (ds_channelID s) policyOf (ds_ccDataMap s)
     \<and> resolvers_ok env (ds_channelID s) policyOf (ds_resolvers s)"

lemma resolver_ok:
  assumes "provides env (ds_channelID s) policyOf" "service_ok env policyOf s" "ids \<noteq> []" "list_all (proper (ds_channelID s)) ids"
    and "getPeerGroupResolver env queried ids s = (r, s')"
  shows "service_ok env policyOf s' \<and> ds_channelID s' = ds_channelID s \<and> ds_lbp s' = ds_lbp s
    \<and> (\<forall>f. r = Inr f \<longrightarrow> retrieves_sat (\<lambda>P. \<forall>cc\<in>set ids. cc_satisfied env policyOf P cc) f)"
proof -
  let ?ch = "ds_channelID s"
  define key where "key = newResolverKey ?ch ids"
  have k: "set (rk_chaincodeIDs key) = set ids" "rk_chaincodeIDs key \<noteq> []" "list_all (proper ?ch) (rk_chaincodeIDs key)"
    using assms(3,4) set_sort_by [of string_less ids] by (auto simp: key_def newResolverKey_def list_all_iff Let_def simp flip: set_empty)
  show ?thesis
  proof (cases "map_of (ds_resolvers s) (rk_key key)")
    case (Some f)
    then have "(rk_key key, f) \<in> set (ds_resolvers s)" by (rule map_of_SomeD)
    then have "retrieves_sat (\<lambda>P. \<forall>cc\<in>set ids. cc_satisfied env policyOf P cc) f"
      using assms(2-4) unfolding service_ok_def resolvers_ok_def key_def by blast
    then show ?thesis using assms(2,5) Some by (auto simp: getPeerGroupResolver_def key_def Let_def)
  next
    case None
    obtain g s1 where g: "policy_groups env queried (rk_channelID key) (rk_chaincodeIDs key) s = (g, s1)"
      by (cases "policy_groups env queried (rk_channelID key) (rk_chaincodeIDs key) s")
    have P: "(\<exists>m. s1 = s\<lparr>ds_ccDataMap := m\<rparr>) \<and> data_ok env ?ch policyOf (ds_ccDataMap s1)
      \<and> (\<forall>fs. g = Inr fs \<longrightarrow> list_all2 retrieves_sat (map (\<lambda>cc P. cc_satisfied env policyOf P cc) (rk_chaincodeIDs key)) fs)"
      using policy_groups_ok [OF assms(1) k(3) _ g] assms(2) by (simp add: service_ok_def)
    then obtain m where m: "s1 = s\<lparr>ds_ccDataMap := m\<rparr>" by blast
    show ?thesis
    proof (cases g)
      case (Inl err)
      then show ?thesis
        using assms(2,5) None g P [THEN conjunct2] m by (auto simp: getPeerGroupResolver_def createPGResolver_def key_def [symmetric] service_ok_def Let_def)
    next
      case (Inr fs)
      have sat: "retrieves_sat (\<lambda>P. \<forall>cc\<in>set ids. cc_satisfied env policyOf P cc) (aggregate fs)"
        using aggregate_ok [OF _ k(2)] P Inr k(1) by auto
      have same: "set js = set ids" if "js \<noteq> []" "list_all (proper ?ch) js" "rk_key key = rk_key (newResolverKey ?ch js)" for js
      proof (rule key_inj [of ?ch])
        show "rk_key (newResolverKey ?ch js) = rk_key (newResolverKey ?ch ids)" using that(3) by (simp add: key_def)
        show "colon_free js" "colon_free ids" using that(2) assms(4) by (auto simp: colon_free_def list_all_iff proper_def)
      qed (use that(1) assms(3) in auto)
      have "resolvers_ok env ?ch policyOf ((rk_key key, aggregate fs) # ds_resolvers s)"
        using assms(2) sat same unfolding service_ok_def resolvers_ok_def by auto
      then show ?thesis
        using assms(5) None g P [THEN conjunct2] m Inr sat
        by (auto simp: getPeerGroupResolver_def createPGResolver_def key_def [symmetric] service_ok_def Let_def)
    qed
  qed
qed

context load_balance_policy
begin

lemma endorsers_ok:
  assumes "provides env (ds_channelID s) policyOf" "service_ok env policyOf s" "good (ds_lbp s)"
    and "list_all (proper (ds_channelID s)) ids"
  shows "\<exists>res s'. GetEndorsersForChaincode env lbp r queried getPeers flt sorter ids s = Ok (res, s')
    \<and> service_ok env policyOf s' \<and> good (ds_lbp s') \<and> ds_channelID s' = ds_channelID s
    \<and> (\<forall>ps. res = Inr ps \<longrightarrow> ids \<noteq> [] \<and> (\<exists>peers. getPeers = Inr peers \<and>
        (let avail = (case sorter of None \<Rightarrow> id | Some f \<Rightarrow> f) (case flt of None \<Rightarrow> peers | Some f \<Rightarrow> filter f peers)
         in set ps \<subseteq> set avail \<and> (if \<forall>cc\<in>set ids. cc_satisfied env policyOf (set avail) cc
              then \<forall>cc\<in>set ids. cc_satisfied env policyOf (set ps) cc else ps = []))))"
proof (cases "ids = []")
  case True
  then show ?thesis using assms(2,3) by (simp add: GetEndorsersForChaincode_def)
next
  case False
  obtain x s1 where x: "getPeerGroupResolver env queried ids s = (x, s1)" by (cases "getPeerGroupResolver env queried ids s")
  note R = resolver_ok [OF assms(1,2) False assms(4) x]
  show ?thesis
  proof (cases x)
    case (Inl err)
    then show ?thesis using False x R assms(3) by (simp add: GetEndorsersForChaincode_def)
  next
    case (Inr f)
    show ?thesis
    proof (cases getPeers)
      case (Inl err)
      then show ?thesis using False x R assms(3) Inr by (simp add: GetEndorsersForChaincode_def)
    next
      case p: (Inr peers)
      let ?avail = "(case sorter of None \<Rightarrow> id | Some f \<Rightarrow> f) (case flt of None \<Rightarrow> peers | Some f \<Rightarrow> filter f peers)"
      have avail: "(case sorter of None \<Rightarrow> (case flt of None \<Rightarrow> peers | Some f \<Rightarrow> filter f peers)
        | Some f \<Rightarrow> f (case flt of None \<Rightarrow> peers | Some f \<Rightarrow> filter f peers)) = ?avail"
        by (cases sorter) simp_all
      have f: "retrieves_sat (\<lambda>P. \<forall>cc\<in>set ids. cc_satisfied env policyOf P cc) f" using R Inr by blast
      have "good (ds_lbp s1)" using R assms(3) by simp
      from resolves_sat [OF f this, of r ?avail] obtain pg ps lb where
        pg: "Resolve f lbp r (ds_lbp s1) ?avail = Ok (Inr pg, lb)" "good lb" "Peers pg = Some ps" "set ps \<subseteq> set ?avail"
        "if \<forall>cc\<in>set ids. cc_satisfied env policyOf (set ?avail) cc then \<forall>cc\<in>set ids. cc_satisfied env policyOf (set ps) cc else ps = []"
        by blast
      have "GetEndorsersForChaincode env lbp r queried getPeers flt sorter ids s = Ok (Inr ps, s1\<lparr>ds_lbp := lb\<rparr>)"
        using False x Inr p pg(1,3) unfolding GetEndorsersForChaincode_def avail by (simp add: avail Let_def)
      then show ?thesis using R pg False p by (auto simp: service_ok_def Let_def)
    qed
  qed
qed

end

text \<open>The life of a service: calls for chaincodes with proper names, with whatever peers answer, and expirations.\<close>

inductive ds_step :: "policy_env \<Rightarrow> 's LoadBalancePolicy \<Rightarrow> 's selectionService \<Rightarrow> 's selectionService \<Rightarrow> bool"
  for env lbp where
  ds_call: "ds_step env lbp s s'" if "list_all (proper (ds_channelID s)) ids"
    "GetEndorsersForChaincode env lbp r queried getPeers flt sorter ids s = Ok (res, s')"
| ds_expire: "ds_step env lbp s (expireResolver key s)"

lemma expire_ok: "service_ok env policyOf s \<Longrightarrow> service_ok env policyOf (expireResolver key s)"
  by (auto simp: service_ok_def resolvers_ok_def expireResolver_def)

context load_balance_policy
begin

lemma run_ok:
  assumes "(ds_step env lbp)\<^sup>*\<^sup>* s0 s" "provides env (ds_channelID s0) policyOf" "service_ok env policyOf s0" "good (ds_lbp s0)"
  shows "service_ok env policyOf s \<and> good (ds_lbp s) \<and> ds_channelID s = ds_channelID s0"
  using assms(1)
proof (induction rule: rtranclp_induct)
  case base
  then show ?case using assms by simp
next
  case (step s s')
  from step.hyps(2) show ?case
  proof cases
    case (ds_call ids r queried getPeers flt sorter res)
    then show ?thesis
      using endorsers_ok [of env s policyOf ids r queried getPeers flt sorter] step.IH assms(2) by auto
  next
    case (ds_expire key)
    then show ?thesis using step.IH expire_ok by (auto simp: expireResolver_def)
  qed
qed

lemma selects:
  assumes "provides env ch policyOf" "newService ch l0 = Inr s0" "good l0" "(ds_step env lbp)\<^sup>*\<^sup>* s0 s" "list_all (proper ch) ids"
  shows "\<exists>res s'. GetEndorsersForChaincode env lbp r queried getPeers flt sorter ids s = Ok (res, s')
    \<and> (\<forall>ps. res = Inr ps \<longrightarrow> (\<exists>peers. getPeers = Inr peers \<and>
        (let avail = (case sorter of None \<Rightarrow> id | Some f \<Rightarrow> f) (case flt of None \<Rightarrow> peers | Some f \<Rightarrow> filter f peers)
         in set ps \<subseteq> set avail \<and> (if \<forall>cc\<in>set ids. cc_satisfied env policyOf (set avail) cc
              then \<forall>cc\<in>set ids. cc_satisfied env policyOf (set ps) cc else ps = []))))"
proof -
  have s0: "ds_channelID s0 = ch" "ds_lbp s0 = l0" "service_ok env policyOf s0"
    using assms(2) by (auto simp: newService_def service_ok_def data_ok_def resolvers_ok_def split: if_splits)
  then have "service_ok env policyOf s" "good (ds_lbp s)" "ds_channelID s = ch"
    using run_ok [OF assms(4), of policyOf] assms(1,3) by auto
  then show ?thesis using endorsers_ok [of env s policyOf ids r queried getPeers flt sorter] assms(1,5) by blast
qed

end

section \<open>Properties\<close>

text \<open>
  C12: Dynamic selection implements the endorsement policies by organization. Whatever calls and expirations came
  before, a call for some chaincodes returns without a panic, and endorsers it returns are available peers (those of the
  discovery service that the filter accepts, as the sorter leaves them) whose organizations satisfy the
  signature policies of all the chaincodes; if those of the available peers cannot, it returns no peer. Where a policy
  names every organization at most once, the endorsers can give all its signatures, each of them one, whenever
  the available peers can give those of all the policies; where it asks several of one organization they may
  be too few (\<open>two_signatures_of_one_org\<close>). Peers that answer the query for a chaincode's policy answer with the same,
  well-formed policy, and the names of the chaincodes of this call and of earlier ones have no colon and do not start
  with the channel's name and a dash, without which the cache can give the policy of another chaincode
  (\<open>policy_of_another_chaincode\<close>).
\<close>
theorem dynamic_endorsers_satisfy:
  assumes "provides env ch policyOf" "newService ch () = Inr s0" "(ds_step env randomLBP_Choose)\<^sup>*\<^sup>* s0 s"
    and "list_all (proper ch) ids"
  shows "\<exists>res s'. GetEndorsersForChaincode env randomLBP_Choose r queried getPeers flt sorter ids s = Ok (res, s')
    \<and> (\<forall>ps. res = Inr ps \<longrightarrow> (\<exists>peers. getPeers = Inr peers \<and>
        (let avail = (case sorter of None \<Rightarrow> id | Some f \<Rightarrow> f) (case flt of None \<Rightarrow> peers | Some f \<Rightarrow> filter f peers)
         in set ps \<subseteq> set avail \<and> (if \<forall>cc\<in>set ids. cc_satisfied env policyOf (set avail) cc
              then \<forall>cc\<in>set ids. cc_satisfied env policyOf (set ps) cc else ps = [])
           \<and> (avail \<noteq> [] \<and> (\<forall>cc\<in>set ids. cc_once env policyOf cc \<and> cc_signed env policyOf (set avail) cc)
              \<longrightarrow> (\<forall>cc\<in>set ids. cc_signed env policyOf (set ps) cc)))))"
proof -
  let ?avail = "\<lambda>peers. (case sorter of None \<Rightarrow> id | Some f \<Rightarrow> f) (case flt of None \<Rightarrow> peers | Some f \<Rightarrow> filter f peers)"
  have sig: "\<forall>cc\<in>set ids. cc_signed env policyOf (set ps) cc"
    if c: "if \<forall>cc\<in>set ids. cc_satisfied env policyOf A cc then \<forall>cc\<in>set ids. cc_satisfied env policyOf (set ps) cc else ps = []"
      and a: "A \<noteq> {}" "\<forall>cc\<in>set ids. cc_once env policyOf cc \<and> cc_signed env policyOf A cc" for A ps
  proof -
    have A: "\<forall>cc\<in>set ids. cc_satisfied env policyOf A cc"
    proof
      fix cc assume cc: "cc \<in> set ids"
      then have "each_once (pe_codec env) (spe_Identities (policyOf cc)) (spe_Rule (policyOf cc))"
        "can_sign (pe_codec env) (spe_Identities (policyOf cc)) A (spe_Rule (policyOf cc))"
        using a(2) by (auto simp: cc_once_def cc_signed_def)
      then show "cc_satisfied env policyOf A cc" using signed_iff [OF _ a(1)] by (simp add: cc_satisfied_def)
    qed
    then have all: "\<forall>cc\<in>set ids. cc_satisfied env policyOf (set ps) cc" using c by simp
    show ?thesis
    proof
      fix cc assume cc: "cc \<in> set ids"
      have "satisfied (pe_codec env) (spe_Identities (policyOf cc)) A (spe_Rule (policyOf cc))"
        "satisfied (pe_codec env) (spe_Identities (policyOf cc)) (set ps) (spe_Rule (policyOf cc))"
        "each_once (pe_codec env) (spe_Identities (policyOf cc)) (spe_Rule (policyOf cc))"
        "can_sign (pe_codec env) (spe_Identities (policyOf cc)) A (spe_Rule (policyOf cc))"
        using A all a(2) cc by (auto simp: cc_once_def cc_signed_def cc_satisfied_def)
      then show "cc_signed env policyOf (set ps) cc"
        using choice_signed [of _ _ A _ ps] a(1) unfolding cc_signed_def by (metis (full_types))
    qed
  qed
  obtain res s' where r: "GetEndorsersForChaincode env randomLBP_Choose r queried getPeers flt sorter ids s = Ok (res, s')"
    "\<forall>ps. res = Inr ps \<longrightarrow> (\<exists>peers. getPeers = Inr peers \<and> (set ps \<subseteq> set (?avail peers)
       \<and> (if \<forall>cc\<in>set ids. cc_satisfied env policyOf (set (?avail peers)) cc
          then \<forall>cc\<in>set ids. cc_satisfied env policyOf (set ps) cc else ps = [])))"
    using random_lbp.selects [OF assms(1,2) TrueI assms(3,4), of r queried getPeers flt sorter] unfolding Let_def by blast
  have "\<exists>peers. getPeers = Inr peers \<and> (let avail = ?avail peers in set ps \<subseteq> set avail
      \<and> (if \<forall>cc\<in>set ids. cc_satisfied env policyOf (set avail) cc
          then \<forall>cc\<in>set ids. cc_satisfied env policyOf (set ps) cc else ps = [])
      \<and> (avail \<noteq> [] \<and> (\<forall>cc\<in>set ids. cc_once env policyOf cc \<and> cc_signed env policyOf (set avail) cc)
              \<longrightarrow> (\<forall>cc\<in>set ids. cc_signed env policyOf (set ps) cc)))" if "res = Inr ps" for ps
  proof -
    obtain peers where p: "getPeers = Inr peers" "set ps \<subseteq> set (?avail peers)"
      "if \<forall>cc\<in>set ids. cc_satisfied env policyOf (set (?avail peers)) cc
          then \<forall>cc\<in>set ids. cc_satisfied env policyOf (set ps) cc else ps = []"
      using r(2) \<open>res = Inr ps\<close> by blast
    have "\<forall>cc\<in>set ids. cc_signed env policyOf (set ps) cc"
      if "?avail peers \<noteq> [] \<and> (\<forall>cc\<in>set ids. cc_once env policyOf cc \<and> cc_signed env policyOf (set (?avail peers)) cc)"
      by (rule sig [OF p(3)]) (use that in simp_all)
    then show ?thesis using p unfolding Let_def by blast
  qed
  then show ?thesis using r(1) by blast
qed

text \<open>An environment in which every chaincode has the policy of the example of the resolver.\<close>

definition ex_penv :: policy_env where
  "ex_penv = \<lparr>pe_channel_New = None, pe_Query = (\<lambda>cc fcn args p. if peer_URL p = ''p2'' then Inl (ExtErr ''down'') else Inr []),
     pe_ChaincodeData = Inr, pe_Envelope = (\<lambda>b. Inr ex_env), pe_codec = ex_pcodec, pe_text = (\<lambda>e. ''error'')\<rparr>"

definition ex_service :: "unit selectionService" where
  "ex_service = \<lparr>ds_channelID = ''ch'', ds_resolvers = [], ds_lbp = (), ds_ccDataMap = []\<rparr>"

lemma ex_provides: "provides ex_penv ''ch'' (\<lambda>cc. ex_env)"
  using ex_policy_ok by (simp add: provides_def ex_penv_def)

theorem dynamic_endorsers_satisfy_witness:
  "\<exists>ps s'. GetEndorsersForChaincode ex_penv randomLBP_Choose 0 (\<lambda>cc. Inr ex_peers) (Inr ex_peers) None None [''cc2'', ''cc1''] ex_service
      = Ok (Inr ps, s') \<and> can_sign ex_pcodec ex_ids (set ps) (spe_Rule ex_env) \<and> set ps \<subseteq> set ex_peers"
proof -
  let ?call = "GetEndorsersForChaincode ex_penv randomLBP_Choose 0 (\<lambda>cc. Inr ex_peers) (Inr ex_peers) None None [''cc2'', ''cc1''] ex_service"
  have ok: "case ?call of Ok (Inr ps, s') \<Rightarrow> True | _ \<Rightarrow> False" by code_simp
  have new: "newService ''ch'' () = Inr ex_service" by (simp add: newService_def ex_service_def)
  have pn: "list_all (proper ''ch'') [''cc2'', ''cc1'']" by (simp add: proper_def)
  have eq: "cc_signed ex_penv (\<lambda>cc. ex_env) P cc = can_sign ex_pcodec ex_ids P (spe_Rule ex_env)" for P cc
    by (simp add: cc_signed_def ex_penv_def ex_env_def)
  have "spe_Identities ex_env = ex_ids" by (simp add: ex_env_def)
  then have "cc_once ex_penv (\<lambda>cc. ex_env) cc" "cc_signed ex_penv (\<lambda>cc. ex_env) (set ex_peers) cc" for cc
    using ex_signed eq by (simp_all add: cc_once_def ex_penv_def)
  moreover have "ex_peers \<noteq> []" by (simp add: ex_peers_def)
  ultimately have all: "ex_peers \<noteq> [] \<and> (\<forall>cc\<in>set [''cc2'', ''cc1'']. cc_once ex_penv (\<lambda>cc. ex_env) cc
      \<and> cc_signed ex_penv (\<lambda>cc. ex_env) (set ex_peers) cc)" by blast
  obtain ps s' where ps: "?call = Ok (Inr ps, s')" using ok by (auto split: outcome.splits sum.splits)
  have "set ps \<subseteq> set ex_peers \<and> (\<forall>cc\<in>set [''cc2'', ''cc1'']. cc_signed ex_penv (\<lambda>cc. ex_env) (set ps) cc)"
    using dynamic_endorsers_satisfy [OF ex_provides new rtranclp.rtrancl_refl pn, of 0 "\<lambda>cc. Inr ex_peers" "Inr ex_peers" None None] ps all
    by (simp only: Let_def option.case id_apply outcome.inject prod.inject sum.inject) blast
  then have "cc_signed ex_penv (\<lambda>cc. ex_env) (set ps) ''cc1''" "set ps \<subseteq> set ex_peers" by simp_all
  then show ?thesis using ps eq by blast
qed

text \<open>
  The policy cache never helps: it is written under the key of the channel and the chaincode but read under the
  name of the chaincode, so that for a chaincode with a proper name the answer does not depend on it, and every
  call queries the peers again.
\<close>
theorem policy_cache_unused:
  assumes "data_ok env ch policyOf m" "proper ch cc"
  shows "fst (GetChaincodePolicy env ch getPeers cc m) = fst (GetChaincodePolicy env ch getPeers cc [])"
proof -
  have "map_of m cc = None"
  proof (rule ccontr)
    assume "map_of m cc \<noteq> None"
    then obtain y where "(cc, y) \<in> set m" by (auto dest: map_of_SomeD)
    then obtain d where "cc = ch @ ''-'' @ d" using assms(1) unfolding data_ok_def by blast
    then show False using assms(2) by (simp add: proper_def)
  qed
  then show ?thesis by (auto simp: GetChaincodePolicy_def split: sum.splits)
qed

theorem policy_cache_unused_witness:
  "fst (GetChaincodePolicy ex_penv ''ch'' (Inl (ExtErr ''no peers'')) ''cc1'' [(''ch-cc1'', [])])
    = fst (GetChaincodePolicy ex_penv ''ch'' (Inl (ExtErr ''no peers'')) ''cc1'' [])"
  by (rule policy_cache_unused [of _ _ "\<lambda>cc. ex_env"]) (simp_all add: data_ok_def ex_penv_def proper_def)

text \<open>
  For the same reason a chaincode whose name is that of the channel, a dash and the name of another chaincode gets the
  policy of that other one, once it has been asked for.
\<close>
theorem policy_of_another_chaincode:
  assumes "GetChaincodePolicy env ch getPeers cc m = (Inr pol, m')" "m' \<noteq> m"
  shows "fst (GetChaincodePolicy env ch getPeers' (ch @ ''-'' @ cc) m') = Inr pol"
proof -
  have key: "rk_key (newResolverKey ch [cc]) = ch @ ''-'' @ cc" by (simp add: newResolverKey_def sort_by_def Let_def)
  then obtain policy where "m' = (ch @ ''-'' @ cc, policy) # m" "unmarshalPolicy env policy = Inr pol"
    using assms by (auto simp: GetChaincodePolicy_def split: if_splits option.splits sum.splits)
  then show ?thesis by (simp add: GetChaincodePolicy_def)
qed

theorem policy_of_another_chaincode_witness:
  "fst (GetChaincodePolicy ex_penv ''ch'' (Inl (ExtErr ''no peers'')) ''ch-cc1'' [(''ch-cc1'', [])]) = Inr ex_env"
  using policy_of_another_chaincode [of ex_penv "''ch''" "Inr ex_peers" "''cc1''" "[]" ex_env "[(''ch-cc1'', [])]"]
  by (simp add: GetChaincodePolicy_def queryChaincode_def ex_penv_def ex_peers_def mkPeer_def unmarshalPolicy_def
      newResolverKey_def sort_by_def Let_def)

end
