(* ===== verification/MSP.thy ===== *)
theory MSP
  imports Prelude
begin

text \<open>
  The membership service provider (internal/.../fabric-gm/msp): identities (identities.go), their validation
  (mspimplvalidate.go) and the principals they satisfy (mspimpl.go). Parsing certificates, verifying their
  chains, the encodings and the crypto suite are the fields of the record \<open>msp_env\<close>; a Go value \<open>nil\<close> of a byte
  slice and an empty one are both the empty list.

  An \<open>identity\<close> has a pointer to the MSP that made it, and most methods of an MSP take an identity that may
  belong to another one. The functions below take that MSP as the argument \<open>own\<close> and the receiver as \<open>msp\<close>.
\<close>

section \<open>Certificates\<close>

text \<open>Times are in nanoseconds; \<open>None\<close> is the zero time. \<open>x_SM2\<close>: the signature algorithm is SM2WithSM3.\<close>

record certificate =
  x_Raw :: bytes
  x_IsCA :: bool
  x_SerialNumber :: int
  x_NotBefore :: int
  x_NotAfter :: "int option"
  x_OrganizationalUnit :: "string list"
  x_Extensions :: "(nat list \<times> bytes) list"
  x_SM2 :: bool
  x_Signature :: bytes

record VerifyOptions =
  vo_Roots :: "certificate list"
  vo_Intermediates :: "certificate list"
  vo_DNSName :: string
  vo_KeyUsages :: "int list"
  vo_CurrentTime :: "int option"

record CertificateList =
  crl_Raw :: bytes
  crl_Extensions :: "(nat list \<times> bytes) list"
  crl_Revoked :: "int list"

record pem_block =
  pem_Type :: string
  pem_Headers :: "(string \<times> string) list"
  pem_Bytes :: bytes

record pubkey =
  key_SKI :: bytes
  key_Bytes :: bytes

section \<open>Messages\<close>

datatype MSPRoleType = MSPRole_MEMBER | MSPRole_ADMIN | MSPRole_CLIENT | MSPRole_PEER | MSPRole_ORDERER | MSPRole_Other int

record MSPRole =
  mr_MspIdentifier :: string
  mr_Role :: MSPRoleType

record OrganizationUnit =
  ou_MspIdentifier :: string
  ou_Identifier :: string
  ou_Certifiers :: bytes

datatype classification =
  MSPPrincipal_ROLE | MSPPrincipal_ORGANIZATION_UNIT | MSPPrincipal_IDENTITY | MSPPrincipal_ANONYMITY | MSPPrincipal_COMBINED
| MSPPrincipal_Other int

record principal =
  p_Classification :: classification
  p_Principal :: bytes

record SerializedIdentity =
  si_Mspid :: string
  si_IdBytes :: bytes

record OUConfig =
  oc_Certificate :: bytes
  oc_Identifier :: string

record NodeOUs =
  no_Enable :: bool
  no_Client :: "OUConfig option"
  no_Peer :: "OUConfig option"
  no_Admin :: "OUConfig option"
  no_Orderer :: "OUConfig option"

record CryptoConfig =
  cc_SignatureHashFamily :: string
  cc_IdentityIdentifierHashFunction :: string

text \<open>A private signer is its key identifier and its key material.\<close>

record SigningIdentityInfo =
  sii_PublicSigner :: bytes
  sii_PrivateSigner :: "(string \<times> bytes) option"

record FabricMSPConfig =
  mc_Name :: string
  mc_RootCerts :: "bytes list"
  mc_IntermediateCerts :: "bytes list"
  mc_Admins :: "bytes list"
  mc_RevocationList :: "bytes list"
  mc_SigningIdentity :: "SigningIdentityInfo option"
  mc_OrganizationalUnitIdentifiers :: "OUConfig list"
  mc_CryptoConfig :: "CryptoConfig option"
  mc_TlsRootCerts :: "bytes list"
  mc_TlsIntermediateCerts :: "bytes list"
  mc_FabricNodeOus :: "NodeOUs option"

section \<open>What the code calls\<close>

text \<open>
  \<open>e_GetHash\<close> is the hash object of the suite: the digest of everything written to it. \<open>e_DER_string\<close> and
  \<open>e_DER_aki\<close> read an octet string and the key identifier of an authority key identifier; \<open>e_DER_sig\<close> and
  \<open>e_DER_unsig\<close> write and read the two numbers of a signature.
\<close>

record msp_env =
  e_pem_Decode :: "bytes \<Rightarrow> (pem_block \<times> bytes) option"
  e_pem_Encode :: "pem_block \<Rightarrow> bytes option"
  e_ParseCertificate :: "bytes \<Rightarrow> certificate res"
  e_ParseCRL :: "bytes \<Rightarrow> CertificateList res"
  e_Verify_chain :: "certificate \<Rightarrow> VerifyOptions \<Rightarrow> certificate list list res"
  e_Equal :: "certificate \<Rightarrow> certificate \<Rightarrow> bool"
  e_CheckCRLSignature :: "certificate \<Rightarrow> CertificateList \<Rightarrow> goerr option"
  e_DER_string :: "bytes \<Rightarrow> bytes res"
  e_DER_aki :: "bytes \<Rightarrow> bytes res"
  e_DER_unsig :: "bytes \<Rightarrow> (int \<times> int) res"
  e_DER_sig :: "int \<times> int \<Rightarrow> bytes res"
  e_un_SerializedIdentity :: "bytes \<Rightarrow> SerializedIdentity res"
  e_SerializedIdentity :: "SerializedIdentity \<Rightarrow> bytes res"
  e_un_MSPRole :: "bytes \<Rightarrow> MSPRole res"
  e_MSPRole :: "MSPRole \<Rightarrow> bytes res"
  e_un_OrganizationUnit :: "bytes \<Rightarrow> OrganizationUnit res"
  e_un_Anonymity :: "bytes \<Rightarrow> int res"
  e_un_CombinedPrincipal :: "bytes \<Rightarrow> principal list res"
  e_un_FabricMSPConfig :: "bytes \<Rightarrow> FabricMSPConfig res"
  e_KeyImport_cert :: "certificate \<Rightarrow> pubkey res"
  e_KeyImport_private :: "bytes \<Rightarrow> pubkey res"
  e_GetKey :: "bytes \<Rightarrow> pubkey res"
  e_Hash :: "bytes \<Rightarrow> bytes res"
  e_GetHash :: "(bytes \<Rightarrow> bytes) res"
  e_Verify :: "pubkey \<Rightarrow> bytes \<Rightarrow> bytes \<Rightarrow> bool res"
  e_NewCspSigner :: "pubkey \<Rightarrow> pubkey res"
  e_Sign :: "pubkey \<Rightarrow> bytes \<Rightarrow> bytes res"
  e_text :: "goerr \<Rightarrow> string"

section \<open>Results that may also panic\<close>

text \<open>Going on with a value, and returning an error after a change of it.\<close>

definition gbind :: "'a res outcome \<Rightarrow> ('a \<Rightarrow> 'b res outcome) \<Rightarrow> 'b res outcome" where
  "gbind m f = obind m (\<lambda>r. case r of Inl err \<Rightarrow> Ok (Inl err) | Inr a \<Rightarrow> f a)"

definition wrap :: "(goerr \<Rightarrow> goerr) \<Rightarrow> 'a res \<Rightarrow> 'a res" where
  "wrap w r = (case r of Inl err \<Rightarrow> Inl (w err) | Inr a \<Rightarrow> Inr a)"

primrec gmapM :: "('a \<Rightarrow> 'b res outcome) \<Rightarrow> 'a list \<Rightarrow> 'b list res outcome" where
  "gmapM f [] = Ok (Inr [])"
| "gmapM f (x # xs) = gbind (f x) (\<lambda>y. gbind (gmapM f xs) (\<lambda>ys. Ok (Inr (y # ys))))"

lemma gbind_simps [simp]:
  "gbind Panic f = Panic" "gbind Blocked f = Blocked" "gbind (Ok (Inl err)) f = Ok (Inl err)" "gbind (Ok (Inr a)) f = f a"
  by (simp_all add: gbind_def)

lemma wrap_simps [simp]: "wrap w (Inl err) = Inl (w err)" "wrap w (Inr a) = Inr a"
  by (simp_all add: wrap_def)

lemma gbind_eq_Inr: "gbind m f = Ok (Inr b) \<longleftrightarrow> (\<exists>a. m = Ok (Inr a) \<and> f a = Ok (Inr b))"
proof (cases m)
  case (Ok r)
  then show ?thesis by (cases r) simp_all
qed simp_all

lemma wrap_eq_Inr [simp]: "wrap w r = Inr a \<longleftrightarrow> r = Inr a"
  by (cases r) simp_all

section \<open>State\<close>

text \<open>
  The versions are numbered as in the code. The function pointers that \<open>newBccspMsp\<close> sets depend on the version
  only, so they are the functions \<open>internal...\<close> below. \<open>ouIdentifiers\<close> is in the order of the configuration.
\<close>

abbreviation (input) MSPv1_0 :: nat where "MSPv1_0 \<equiv> 0"
abbreviation (input) MSPv1_1 :: nat where "MSPv1_1 \<equiv> 1"
abbreviation (input) MSPv1_3 :: nat where "MSPv1_3 \<equiv> 2"
abbreviation (input) MSPv1_4_3 :: nat where "MSPv1_4_3 \<equiv> 3"

record OUIdentifier =
  oui_CertifiersIdentifier :: bytes
  oui_Identifier :: string

record identity =
  id_Mspid :: string
  id_Id :: string
  id_cert :: certificate
  id_pk :: pubkey
  id_validated :: bool
  id_validationErr :: "goerr option"

text \<open>The identities that the code meets behind its interface \<open>Identity\<close>: its own type, and any other, of which it asks the name of the MSP.\<close>

datatype Identity = BccspIdentity identity | OtherIdentity string

record signingidentity =
  sid_identity :: identity
  sid_signer :: pubkey

record bccspmsp =
  msp_version :: nat
  msp_rootCerts :: "identity list"
  msp_intermediateCerts :: "identity list"
  msp_tlsRootCerts :: "bytes list"
  msp_tlsIntermediateCerts :: "bytes list"
  msp_internalNodes :: "bytes list"
  msp_signer :: "signingidentity option"
  msp_admins :: "identity list"
  msp_name :: string
  msp_opts :: "VerifyOptions option"
  msp_CRL :: "CertificateList list"
  msp_ouIdentifiers :: "(string \<times> bytes list) list"
  msp_cryptoConfig :: "CryptoConfig option"
  msp_ouEnforcement :: bool
  msp_clientOU :: "OUIdentifier option"
  msp_peerOU :: "OUIdentifier option"
  msp_adminOU :: "OUIdentifier option"
  msp_ordererOU :: "OUIdentifier option"

definition newBccspMsp :: "nat \<Rightarrow> bccspmsp res" where
  "newBccspMsp version =
    (if version \<le> MSPv1_4_3
     then Inr \<lparr>msp_version = version, msp_rootCerts = [], msp_intermediateCerts = [], msp_tlsRootCerts = [],
       msp_tlsIntermediateCerts = [], msp_internalNodes = [], msp_signer = None, msp_admins = [], msp_name = [],
       msp_opts = None, msp_CRL = [], msp_ouIdentifiers = [], msp_cryptoConfig = None, msp_ouEnforcement = False,
       msp_clientOU = None, msp_peerOU = None, msp_adminOU = None, msp_ordererOU = None\<rparr>
     else Inl (ErrorF ''Invalid MSP version [%v]'' [FN version]))"

definition msp_New :: "nat \<Rightarrow> bccspmsp res" where
  "msp_New version =
    (if version \<le> MSPv1_4_3 then newBccspMsp version
     else Inl (ErrorF ''Invalid *BCCSPNewOpts. Version not recognized [%v]'' [FN version]))"

definition id_GetMSPIdentifier :: "Identity \<Rightarrow> string" where
  "id_GetMSPIdentifier i = (case i of BccspIdentity j \<Rightarrow> id_Mspid j | OtherIdentity m \<Rightarrow> m)"

section \<open>Certificates and keys\<close>

definition getCertFromPem :: "msp_env \<Rightarrow> bytes \<Rightarrow> certificate res" where
  "getCertFromPem env idBytes =
    (if idBytes = [] then Inl (errorNew ''getCertFromPem error: nil idBytes'')
     else (case e_pem_Decode env idBytes of
       None \<Rightarrow> Inl (ErrorF ''getCertFromPem error: could not decode pem bytes [%v]'' [FS (bytes_text idBytes)])
     | Some (pemCert, rest) \<Rightarrow>
         wrap (\<lambda>err. withMessage err ''getCertFromPem error: failed to parse x509 cert'') (e_ParseCertificate env (pem_Bytes pemCert))))"

text \<open>\<open>GetHashOpt\<close> of the bccsp package knows SM3 only. The ECDSA part of \<open>sanitizeCert\<close> is commented out.\<close>

definition GetHashOpt :: "string \<Rightarrow> goerr option" where
  "GetHashOpt hashFunction = (if hashFunction = ''SM3'' then None else Some (ErrorF ''hash function not recognized [%s]'' [FS hashFunction]))"

definition sanitizeCert :: "certificate \<Rightarrow> certificate res" where
  "sanitizeCert cert = Inr cert"

text \<open>An MSP that is not set up has no \<open>cryptoConfig\<close>, of which a field is read.\<close>

definition newIdentity :: "msp_env \<Rightarrow> bccspmsp \<Rightarrow> certificate \<Rightarrow> pubkey \<Rightarrow> identity res outcome" where
  "newIdentity env msp cert0 pk = gbind (Ok (sanitizeCert cert0)) (\<lambda>cert.
     case msp_cryptoConfig msp of
       None \<Rightarrow> Panic
     | Some cc \<Rightarrow> (case GetHashOpt (cc_IdentityIdentifierHashFunction cc) of
         Some err \<Rightarrow> Ok (Inl (withMessage err ''failed getting hash function options''))
       | None \<Rightarrow>
           gbind (Ok (wrap (\<lambda>err. withMessage err ''failed hashing raw certificate to compute the id of the IdentityIdentifier'') (e_Hash env (x_Raw cert))))
             (\<lambda>digest. Ok (Inr \<lparr>id_Mspid = msp_name msp, id_Id = EncodeToString digest, id_cert = cert, id_pk = pk,
                id_validated = False, id_validationErr = None\<rparr>))))"

definition getIdentityFromConf :: "msp_env \<Rightarrow> bccspmsp \<Rightarrow> bytes \<Rightarrow> (identity \<times> pubkey) res outcome" where
  "getIdentityFromConf env msp idBytes =
     gbind (Ok (getCertFromPem env idBytes)) (\<lambda>cert.
     gbind (Ok (e_KeyImport_cert env cert)) (\<lambda>certPubK.
     gbind (newIdentity env msp cert certPubK) (\<lambda>mspId. Ok (Inr (mspId, certPubK)))))"

definition newSigningIdentity :: "msp_env \<Rightarrow> bccspmsp \<Rightarrow> certificate \<Rightarrow> pubkey \<Rightarrow> pubkey \<Rightarrow> signingidentity res outcome" where
  "newSigningIdentity env msp cert pk signer =
     gbind (newIdentity env msp cert pk) (\<lambda>mspId. Ok (Inr \<lparr>sid_identity = mspId, sid_signer = signer\<rparr>))"

definition getSigningIdentityFromConf :: "msp_env \<Rightarrow> bccspmsp \<Rightarrow> SigningIdentityInfo \<Rightarrow> signingidentity res outcome" where
  "getSigningIdentityFromConf env msp sidInfo =
     gbind (getIdentityFromConf env msp (sii_PublicSigner sidInfo)) (\<lambda>(idPub, pubKey).
     gbind (Ok (case e_GetKey env (key_SKI pubKey) of
         Inr privKey \<Rightarrow> Inr privKey
       | Inl _ \<Rightarrow> (case sii_PrivateSigner sidInfo of
           None \<Rightarrow> Inl (errorNew ''KeyMaterial not found in SigningIdentityInfo'')
         | Some (keyIdentifier, keyMaterial) \<Rightarrow>
             if keyMaterial = [] then Inl (errorNew ''KeyMaterial not found in SigningIdentityInfo'')
             else (case e_pem_Decode env keyMaterial of
               None \<Rightarrow> Inl (ErrorF ''%s: wrong PEM encoding'' [FS keyIdentifier])
             | Some (pemKey, rest) \<Rightarrow>
                 wrap (\<lambda>err. withMessage err ''getIdentityFromBytes error: Failed to import EC private key'')
                   (e_KeyImport_private env (pem_Bytes pemKey)))))) (\<lambda>privKey.
     gbind (Ok (wrap (\<lambda>err. withMessage err ''getIdentityFromBytes error: Failed initializing bccspCryptoSigner'') (e_NewCspSigner env privKey)))
       (\<lambda>peerSigner. newSigningIdentity env msp (id_cert idPub) (id_pk idPub) peerSigner)))"

section \<open>Certification chains\<close>

text \<open>The current time of the options is set so that no certificate is seen as expired.\<close>

definition getValidityOptsForCert :: "VerifyOptions \<Rightarrow> certificate \<Rightarrow> VerifyOptions" where
  "getValidityOptsForCert opts cert = \<lparr>vo_Roots = vo_Roots opts, vo_Intermediates = vo_Intermediates opts,
     vo_DNSName = vo_DNSName opts, vo_KeyUsages = vo_KeyUsages opts, vo_CurrentTime = Some (x_NotBefore cert + 1000000000)\<rparr>"

definition getUniqueValidationChain :: "msp_env \<Rightarrow> bccspmsp \<Rightarrow> certificate \<Rightarrow> VerifyOptions \<Rightarrow> certificate list res" where
  "getUniqueValidationChain env msp cert opts =
    (if msp_opts msp = None then Inl (errorNew ''the supplied identity has no verify options'')
     else (case e_Verify_chain env cert opts of
       Inl err \<Rightarrow> Inl (withMessage err ''the supplied identity is not valid'')
     | Inr [chain] \<Rightarrow> Inr chain
     | Inr cs \<Rightarrow> Inl (ErrorF ''this MSP only supports a single validation chain, got %d'' [FN (length cs)])))"

text \<open>\<open>getValidityOptsForCert\<close> reads the options of the MSP before anything else is done.\<close>

definition getValidationChain :: "msp_env \<Rightarrow> bccspmsp \<Rightarrow> certificate \<Rightarrow> bool \<Rightarrow> certificate list res outcome" where
  "getValidationChain env msp cert isIntermediateChain = (case msp_opts msp of
     None \<Rightarrow> Panic
   | Some opts \<Rightarrow>
      gbind (Ok (wrap (\<lambda>err. withMessage err ''failed getting validation chain'')
          (getUniqueValidationChain env msp cert (getValidityOptsForCert opts cert)))) (\<lambda>validationChain.
        if length validationChain < 2
        then Ok (Inl (ErrorF ''expected a chain of length at least 2, got %d'' [FN (length validationChain)]))
        else (let parentPosition = (if isIntermediateChain then 0 else 1) in
          if x_Raw (validationChain ! parentPosition) \<in> set (msp_internalNodes msp)
          then Ok (Inl (ErrorF ''invalid validation chain. Parent certificate should be a leaf of the certification tree [%v]'' [FS (bytes_text (x_Raw cert))]))
          else Ok (Inr validationChain))))"

definition getCertificationChainForBCCSPIdentity :: "msp_env \<Rightarrow> bccspmsp \<Rightarrow> identity \<Rightarrow> certificate list res outcome" where
  "getCertificationChainForBCCSPIdentity env msp i =
    (if msp_opts msp = None then Ok (Inl (errorNew ''Invalid msp instance''))
     else if x_IsCA (id_cert i)
     then Ok (Inl (errorNew (''An X509 certificate with Basic Constraint: '' @ ''Certificate Authority equals true cannot be used as an identity'')))
     else getValidationChain env msp (id_cert i) False)"

definition getCertificationChainIdentifierFromChain :: "msp_env \<Rightarrow> bccspmsp \<Rightarrow> certificate list \<Rightarrow> bytes res outcome" where
  "getCertificationChainIdentifierFromChain env msp chain = (case msp_cryptoConfig msp of
     None \<Rightarrow> Panic
   | Some cc \<Rightarrow> (case GetHashOpt (cc_IdentityIdentifierHashFunction cc) of
       Some err \<Rightarrow> Ok (Inl (withMessage err ''failed getting hash function options''))
     | None \<Rightarrow>
         gbind (Ok (wrap (\<lambda>err. withMessage err ''failed getting hash function when computing certification chain identifier'') (e_GetHash env)))
           (\<lambda>hf. Ok (Inr (hf (concat (map x_Raw chain)))))))"

definition getCertificationChainIdentifier :: "msp_env \<Rightarrow> bccspmsp \<Rightarrow> identity \<Rightarrow> bytes res outcome" where
  "getCertificationChainIdentifier env msp i =
     gbind (obind (getCertificationChainForBCCSPIdentity env msp i)
       (\<lambda>r. Ok (wrap (\<lambda>err. WithMsg err ''failed getting certification chain for [%v]'' [FS (id_Id i)]) r)))
     (\<lambda>chain. getCertificationChainIdentifierFromChain env msp (drop 1 chain))"

text \<open>The organizational units of an identity, by the MSP that owns it; an error of the chain leaves none.\<close>

definition GetOrganizationalUnits :: "msp_env \<Rightarrow> bccspmsp \<Rightarrow> identity \<Rightarrow> OUIdentifier list outcome" where
  "GetOrganizationalUnits env own i = obind (getCertificationChainIdentifier env own i) (\<lambda>r. case r of
     Inl err \<Rightarrow> Ok []
   | Inr cid \<Rightarrow> Ok (map (\<lambda>unit. \<lparr>oui_CertifiersIdentifier = cid, oui_Identifier = unit\<rparr>) (x_OrganizationalUnit (id_cert i))))"

section \<open>Revocation\<close>

fun find_ext :: "nat list \<Rightarrow> (nat list \<times> bytes) list \<Rightarrow> bytes option" where
  "find_ext oid [] = None"
| "find_ext oid ((k, v) # exts) = (if k = oid then Some v else find_ext oid exts)"

definition getAuthorityKeyIdentifierFromCrl :: "msp_env \<Rightarrow> CertificateList \<Rightarrow> bytes res" where
  "getAuthorityKeyIdentifierFromCrl env crl = (case find_ext [2, 5, 29, 35] (crl_Extensions crl) of
     Some v \<Rightarrow> wrap (\<lambda>err. withMessage err ''failed to unmarshal AKI'') (e_DER_aki env v)
   | None \<Rightarrow> Inl (errorNew ''authorityKeyIdentifier not found in certificate''))"

definition getSubjectKeyIdentifierFromCert :: "msp_env \<Rightarrow> certificate \<Rightarrow> bytes res" where
  "getSubjectKeyIdentifierFromCert env cert = (case find_ext [2, 5, 29, 14] (x_Extensions cert) of
     Some v \<Rightarrow> wrap (\<lambda>err. withMessage err ''failed to unmarshal Subject Key Identifier'') (e_DER_string env v)
   | None \<Rightarrow> Inl (errorNew ''subjectKeyIdentifier not found in certificate''))"

text \<open>The loop over the entries of a list that may revoke the certificate: an entry counts if the signer has signed the list.\<close>

definition revokes :: "msp_env \<Rightarrow> certificate \<Rightarrow> certificate \<Rightarrow> CertificateList \<Rightarrow> bool" where
  "revokes env signer cert crl \<longleftrightarrow>
     list_ex (\<lambda>rc. rc = x_SerialNumber cert \<and> e_CheckCRLSignature env signer crl = None) (crl_Revoked crl)"

fun check_crls :: "msp_env \<Rightarrow> certificate \<Rightarrow> bytes \<Rightarrow> certificate \<Rightarrow> CertificateList list \<Rightarrow> goerr option" where
  "check_crls env signer SKI cert [] = None"
| "check_crls env signer SKI cert (crl # crls) = (case getAuthorityKeyIdentifierFromCrl env crl of
     Inl err \<Rightarrow> Some (withMessage err ''could not obtain Authority Key Identifier for crl'')
   | Inr aki \<Rightarrow> if aki = SKI \<and> revokes env signer cert crl then Some (errorNew ''The certificate has been revoked'')
                else check_crls env signer SKI cert crls)"

definition validateCertAgainstChain :: "msp_env \<Rightarrow> bccspmsp \<Rightarrow> certificate \<Rightarrow> certificate list \<Rightarrow> goerr option outcome" where
  "validateCertAgainstChain env msp cert validationChain = (case validationChain of
     _ # signer # _ \<Rightarrow> (case getSubjectKeyIdentifierFromCert env signer of
         Inl err \<Rightarrow> Ok (Some (withMessage err ''could not obtain Subject Key Identifier for signer cert''))
       | Inr SKI \<Rightarrow> Ok (check_crls env signer SKI cert (msp_CRL msp)))
   | _ \<Rightarrow> Panic)"

definition validateCAIdentity :: "msp_env \<Rightarrow> bccspmsp \<Rightarrow> identity \<Rightarrow> goerr option outcome" where
  "validateCAIdentity env msp i =
    (if \<not> x_IsCA (id_cert i) then Ok (Some (errorNew ''Only CA identities can be validated''))
     else (case msp_opts msp of
       None \<Rightarrow> Panic
     | Some opts \<Rightarrow> (case getUniqueValidationChain env msp (id_cert i) (getValidityOptsForCert opts (id_cert i)) of
           Inl err \<Rightarrow> Ok (Some (withMessage err ''could not obtain certification chain''))
         | Inr validationChain \<Rightarrow> if length validationChain = 1 then Ok None
             else validateCertAgainstChain env msp (id_cert i) validationChain)))"

definition validateTLSCAIdentity :: "msp_env \<Rightarrow> bccspmsp \<Rightarrow> certificate \<Rightarrow> VerifyOptions \<Rightarrow> goerr option outcome" where
  "validateTLSCAIdentity env msp cert opts =
    (if \<not> x_IsCA cert then Ok (Some (errorNew ''Only CA identities can be validated''))
     else (case getUniqueValidationChain env msp cert opts of
         Inl err \<Rightarrow> Ok (Some (withMessage err ''could not obtain certification chain''))
       | Inr validationChain \<Rightarrow> if length validationChain = 1 then Ok None
           else validateCertAgainstChain env msp cert validationChain))"

section \<open>Organizational units\<close>

definition hexUpper :: "bytes \<Rightarrow> string" where
  "hexUpper bs = map (\<lambda>c. if of_char c \<ge> (97::nat) then char_of (of_char c - 32 :: nat) else c) (EncodeToString bs)"

text \<open>
  The slice \<open>[0:8]\<close> of the certifier identifier needs eight bytes. Only units that \<open>GetOrganizationalUnits\<close> has made are printed, and
  their identifiers are digests of the configured hash, of 32 bytes or more, so that the first eight are always there.
\<close>

definition OUIDs_String :: "OUIdentifier list \<Rightarrow> string" where
  "OUIDs_String o' = ''['' @ join '' '' (map (\<lambda>ou. oui_Identifier ou @ ''('' @ hexUpper (take 8 (oui_CertifiersIdentifier ou)) @ '')'') o') @ '']''"

definition validateIdentityOUsV1 :: "msp_env \<Rightarrow> bccspmsp \<Rightarrow> bccspmsp \<Rightarrow> identity \<Rightarrow> goerr option outcome" where
  "validateIdentityOUsV1 env own msp i =
    (if length (msp_ouIdentifiers msp) > 0
     then obind (GetOrganizationalUnits env own i) (\<lambda>ous.
       let found = list_ex (\<lambda>ou. case map_of (msp_ouIdentifiers msp) (oui_Identifier ou) of
             None \<Rightarrow> False
           | Some certificationIDs \<Rightarrow> oui_CertifiersIdentifier ou \<in> set certificationIDs) ous
       in if found then Ok None
          else if length ous = 0 then Ok (Some (errorNew ''the identity certificate does not contain an Organizational Unit (OU)''))
          else Ok (Some (ErrorF ''none of the identity's organizational units %s are in MSP %s'' [FS (OUIDs_String ous), FS (msp_name msp)])))
     else Ok None)"

text \<open>
  The loop that counts the special units of an identity: \<open>nodeOU\<close> finds the unit of the MSP with a name. The loop ends
  early with an error for a certifier that does not match, and at the second special unit.
\<close>

fun count_roles :: "(string \<Rightarrow> OUIdentifier option outcome) \<Rightarrow> OUIdentifier list \<Rightarrow> nat \<Rightarrow> nat option outcome" where
  "count_roles nodeOU [] counter = Ok (Some counter)"
| "count_roles nodeOU (ou # ous) counter = obind (nodeOU (oui_Identifier ou)) (\<lambda>node. case node of
     None \<Rightarrow> count_roles nodeOU ous counter
   | Some n \<Rightarrow>
       if length (oui_CertifiersIdentifier n) \<noteq> 0 \<and> oui_CertifiersIdentifier n \<noteq> oui_CertifiersIdentifier ou then Ok None
       else if counter + 1 > 1 then Ok (Some (counter + 1))
       else count_roles nodeOU ous (counter + 1))"

text \<open>The switch statement evaluates its cases in order, and reads a field of each unit of the MSP it comes to.\<close>

definition nodeOU_V11 :: "bccspmsp \<Rightarrow> string \<Rightarrow> OUIdentifier option outcome" where
  "nodeOU_V11 msp unit = (case msp_clientOU msp of
     None \<Rightarrow> Panic
   | Some c \<Rightarrow> if unit = oui_Identifier c then Ok (Some c)
       else (case msp_peerOU msp of
         None \<Rightarrow> Panic
       | Some p \<Rightarrow> if unit = oui_Identifier p then Ok (Some p) else Ok None))"

definition validateIdentityOUsV11 :: "msp_env \<Rightarrow> bccspmsp \<Rightarrow> bccspmsp \<Rightarrow> identity \<Rightarrow> goerr option outcome" where
  "validateIdentityOUsV11 env own msp i = obind (validateIdentityOUsV1 env own msp i) (\<lambda>r. case r of
     Some err \<Rightarrow> Ok (Some err)
   | None \<Rightarrow>
      if \<not> msp_ouEnforcement msp then Ok None
      else obind (GetOrganizationalUnits env own i) (\<lambda>ous.
        obind (count_roles (nodeOU_V11 msp) ous 0) (\<lambda>r. Ok (case r of
          None \<Rightarrow> Some (ErrorF ''certifiersIdentifier does not match: %v, MSP: [%s]'' [FS (OUIDs_String ous), FS (msp_name msp)])
        | Some counter \<Rightarrow>
            if counter = 0
            then Some (ErrorF ''the identity does not have an OU that resolves to client or peer. OUs: %s, MSP: [%s]'' [FS (OUIDs_String ous), FS (msp_name msp)])
            else if counter > 1
            then Some (ErrorF ''the identity must be a client or a peer identity to be valid, not a combination of them. OUs: %s, MSP: [%s]''
              [FS (OUIDs_String ous), FS (msp_name msp)])
            else None))))"

definition validOUs :: "bccspmsp \<Rightarrow> string \<Rightarrow> OUIdentifier option" where
  "validOUs msp = fold (\<lambda>ou m. case ou of None \<Rightarrow> m | Some n \<Rightarrow> m(oui_Identifier n \<mapsto> n))
     [msp_clientOU msp, msp_peerOU msp, msp_adminOU msp, msp_ordererOU msp] (\<lambda>_. None)"

definition validateIdentityOUsV142 :: "msp_env \<Rightarrow> bccspmsp \<Rightarrow> bccspmsp \<Rightarrow> identity \<Rightarrow> goerr option outcome" where
  "validateIdentityOUsV142 env own msp i = obind (validateIdentityOUsV1 env own msp i) (\<lambda>r. case r of
     Some err \<Rightarrow> Ok (Some err)
   | None \<Rightarrow>
      if \<not> msp_ouEnforcement msp then Ok None
      else obind (GetOrganizationalUnits env own i) (\<lambda>ous.
        obind (count_roles (\<lambda>unit. Ok (validOUs msp unit)) ous 0) (\<lambda>r. Ok (case r of
          None \<Rightarrow> Some (ErrorF ''certifiersIdentifier does not match: %s, MSP: [%s]'' [FS (OUIDs_String ous), FS (msp_name msp)])
        | Some counter \<Rightarrow>
            if counter = 0
            then Some (ErrorF ''the identity does not have an OU that resolves to client, peer, orderer, or admin role. OUs: %s, MSP: [%s]''
              [FS (OUIDs_String ous), FS (msp_name msp)])
            else if counter > 1
            then Some (ErrorF ''the identity must have a client, a peer, an orderer, or an admin OU role to be valid, not a combination of them. OUs: %s, MSP: [%s]''
              [FS (OUIDs_String ous), FS (msp_name msp)])
            else None))))"

section \<open>Validation\<close>

definition internalValidateIdentityOus :: "msp_env \<Rightarrow> bccspmsp \<Rightarrow> bccspmsp \<Rightarrow> identity \<Rightarrow> goerr option outcome" where
  "internalValidateIdentityOus env own msp i =
    (if msp_version msp = MSPv1_0 then validateIdentityOUsV1 env own msp i
     else if msp_version msp = MSPv1_1 \<or> msp_version msp = MSPv1_3 then validateIdentityOUsV11 env own msp i
     else validateIdentityOUsV142 env own msp i)"

text \<open>The result of a validation is kept in the identity, under its lock.\<close>

definition validateIdentity :: "msp_env \<Rightarrow> bccspmsp \<Rightarrow> bccspmsp \<Rightarrow> identity \<Rightarrow> (goerr option \<times> identity) outcome" where
  "validateIdentity env own msp i =
    (if id_validated i then Ok (id_validationErr i, i)
     else (let i1 = i\<lparr>id_validated := True\<rparr>; failed = (\<lambda>err. Ok (Some err, i1\<lparr>id_validationErr := Some err\<rparr>)) in
       obind (getCertificationChainForBCCSPIdentity env msp i1) (\<lambda>r. case r of
         Inl err \<Rightarrow> failed (withMessage err ''could not obtain certification chain'')
       | Inr validationChain \<Rightarrow>
           obind (validateCertAgainstChain env msp (id_cert i1) validationChain) (\<lambda>r. case r of
             Some err \<Rightarrow> failed (withMessage err ''could not validate identity against certification chain'')
           | None \<Rightarrow> obind (internalValidateIdentityOus env own msp i1) (\<lambda>r. case r of
                 Some err \<Rightarrow> failed (withMessage err ''could not validate identity's OUs'')
               | None \<Rightarrow> Ok (None, i1))))))"

definition msp_Validate :: "msp_env \<Rightarrow> bccspmsp \<Rightarrow> bccspmsp \<Rightarrow> Identity \<Rightarrow> (goerr option \<times> Identity) outcome" where
  "msp_Validate env own msp id' = (case id' of
     BccspIdentity i \<Rightarrow> obind (validateIdentity env own msp i) (\<lambda>(err, i1). Ok (err, BccspIdentity i1))
   | OtherIdentity m \<Rightarrow> Ok (Some (errorNew ''identity type not recognized''), id'))"

section \<open>Roles\<close>

definition role_name :: "MSPRoleType \<Rightarrow> string" where
  "role_name r = (case r of MSPRole_MEMBER \<Rightarrow> ''MEMBER'' | MSPRole_ADMIN \<Rightarrow> ''ADMIN'' | MSPRole_CLIENT \<Rightarrow> ''CLIENT''
     | MSPRole_PEER \<Rightarrow> ''PEER'' | MSPRole_ORDERER \<Rightarrow> ''ORDERER'' | MSPRole_Other n \<Rightarrow> decInt n)"

definition role_number :: "MSPRoleType \<Rightarrow> int" where
  "role_number r = (case r of MSPRole_MEMBER \<Rightarrow> 0 | MSPRole_ADMIN \<Rightarrow> 1 | MSPRole_CLIENT \<Rightarrow> 2
     | MSPRole_PEER \<Rightarrow> 3 | MSPRole_ORDERER \<Rightarrow> 4 | MSPRole_Other n \<Rightarrow> n)"

definition role_OU :: "bccspmsp \<Rightarrow> MSPRoleType \<Rightarrow> OUIdentifier option res" where
  "role_OU msp mspRole = (case mspRole of
     MSPRole_CLIENT \<Rightarrow> Inr (msp_clientOU msp)
   | MSPRole_PEER \<Rightarrow> Inr (msp_peerOU msp)
   | MSPRole_ADMIN \<Rightarrow> Inr (msp_adminOU msp)
   | MSPRole_ORDERER \<Rightarrow> Inr (msp_ordererOU msp)
   | _ \<Rightarrow> Inl (errorNew ''Invalid MSPRoleType. It must be CLIENT, PEER, ADMIN or ORDERER''))"

definition hasOURoleInternal :: "msp_env \<Rightarrow> bccspmsp \<Rightarrow> bccspmsp \<Rightarrow> identity \<Rightarrow> MSPRoleType \<Rightarrow> goerr option outcome" where
  "hasOURoleInternal env own msp i mspRole = (case role_OU msp mspRole of
     Inl err \<Rightarrow> Ok (Some err)
   | Inr None \<Rightarrow> Ok (Some (ErrorF ''cannot test for classification, node ou for type [%s], not defined, msp: [%s]''
       [FS (role_name mspRole), FS (msp_name msp)]))
   | Inr (Some nodeOU) \<Rightarrow> obind (GetOrganizationalUnits env own i) (\<lambda>ous.
       if list_ex (\<lambda>ou. oui_Identifier ou = oui_Identifier nodeOU) ous then Ok None
       else Ok (Some (ErrorF ''The identity does not contain OU [%s], MSP: [%s]'' [FS (role_name mspRole), FS (msp_name msp)]))))"

definition hasOURole :: "msp_env \<Rightarrow> bccspmsp \<Rightarrow> bccspmsp \<Rightarrow> Identity \<Rightarrow> MSPRoleType \<Rightarrow> goerr option outcome" where
  "hasOURole env own msp id' mspRole =
    (if \<not> msp_ouEnforcement msp then Ok (Some (errorNew ''NodeOUs not activated. Cannot tell apart identities.''))
     else (case id' of
       BccspIdentity i \<Rightarrow> hasOURoleInternal env own msp i mspRole
     | OtherIdentity m \<Rightarrow> Ok (Some (errorNew ''Identity type not recognized''))))"

definition isInAdmins :: "bccspmsp \<Rightarrow> identity \<Rightarrow> bool" where
  "isInAdmins msp i \<longleftrightarrow> list_ex (\<lambda>admincert. x_Raw (id_cert i) = x_Raw (id_cert admincert)) (msp_admins msp)"

section \<open>Deserializing\<close>

definition deserializeIdentityInternal :: "msp_env \<Rightarrow> bccspmsp \<Rightarrow> bytes \<Rightarrow> identity res outcome" where
  "deserializeIdentityInternal env msp serializedIdentity = (case e_pem_Decode env serializedIdentity of
     None \<Rightarrow> Ok (Inl (errorNew ''could not decode the PEM structure''))
   | Some (bl, rest) \<Rightarrow>
       gbind (Ok (wrap (\<lambda>err. withMessage err ''parseCertificate failed'') (e_ParseCertificate env (pem_Bytes bl)))) (\<lambda>cert.
       gbind (Ok (wrap (\<lambda>err. withMessage err ''failed to import certificate's public key'') (e_KeyImport_cert env cert))) (\<lambda>pub.
       newIdentity env msp cert pub)))"

definition msp_DeserializeIdentity :: "msp_env \<Rightarrow> bccspmsp \<Rightarrow> bytes \<Rightarrow> identity res outcome" where
  "msp_DeserializeIdentity env msp serializedID =
     gbind (Ok (wrap (\<lambda>err. withMessage err ''could not deserialize a SerializedIdentity'') (e_un_SerializedIdentity env serializedID))) (\<lambda>sId.
       if si_Mspid sId \<noteq> msp_name msp
       then Ok (Inl (ErrorF ''expected MSP ID %s, received %s'' [FS (msp_name msp), FS (si_Mspid sId)]))
       else deserializeIdentityInternal env msp (si_IdBytes sId))"

section \<open>Principals\<close>

text \<open>
  A principal may be combined of principals, to any depth. The recursion of \<open>collectPrincipals\<close> is the one of the
  code, with the value \<open>None\<close> for a recursion that does not end; \<open>collect_all\<close> is its loop over the parts.
\<close>

primrec collect_all :: "('a \<Rightarrow> 'b list res option) \<Rightarrow> 'a list \<Rightarrow> 'b list res option" where
  "collect_all f [] = Some (Inr [])"
| "collect_all f (cp # cps) = Option.bind (f cp) (\<lambda>r. case r of
     Inl err \<Rightarrow> Some (Inl err)
   | Inr internalSlice \<Rightarrow> Option.bind (collect_all f cps) (\<lambda>r. case r of
       Inl err \<Rightarrow> Some (Inl err)
     | Inr principalsSlice \<Rightarrow> Some (Inr (internalSlice @ principalsSlice))))"

lemma collect_all_mono [partial_function_mono]:
  assumes "\<And>y. mono_option (C y)"
  shows "mono_option (\<lambda>f. collect_all (\<lambda>y. C y f) ys)"
proof (induction ys)
  case (Cons y ys)
  have "mono_option (\<lambda>f. case r of Inl err \<Rightarrow> Some (Inl err)
      | Inr xs \<Rightarrow> Option.bind (collect_all (\<lambda>y. C y f) ys) (\<lambda>r. case r of Inl err \<Rightarrow> Some (Inl err) | Inr zs \<Rightarrow> Some (Inr (xs @ zs))))" for r
    by (cases r) (auto intro!: partial_function_mono Cons.IH)
  then show ?case unfolding collect_all.simps by (intro bind_mono assms)
qed (auto intro!: partial_function_mono)

partial_function (option) collectPrincipals :: "msp_env \<Rightarrow> nat \<Rightarrow> principal \<Rightarrow> principal list res option" where
  "collectPrincipals env mspVersion p = (case p_Classification p of
     MSPPrincipal_COMBINED \<Rightarrow>
       if mspVersion \<le> MSPv1_1 then Some (Inl (ErrorF ''invalid principal type %d'' [FI 4]))
       else (case e_un_CombinedPrincipal env (p_Principal p) of
         Inl err \<Rightarrow> Some (Inl (withMessage err ''could not unmarshal CombinedPrincipal from principal''))
       | Inr principals \<Rightarrow>
           if length principals = 0 then Some (Inl (errorNew ''No principals in CombinedPrincipal''))
           else collect_all (\<lambda>cp. collectPrincipals env mspVersion cp) principals)
   | _ \<Rightarrow> Some (Inr [p]))"

text \<open>\<open>different_msp\<close> is the error for a principal of another MSP.\<close>

definition different_msp :: "string \<Rightarrow> Identity \<Rightarrow> goerr" where
  "different_msp mspid id' =
     ErrorF ''the identity is a member of a different MSP (expected %s, got %s)'' [FS mspid, FS (id_GetMSPIdentifier id')]"

text \<open>A valid identity with the role, as \<open>satisfiesPrincipalInternal...\<close> checks it; \<open>msg\<close> is the message of its second error.\<close>

definition validate_role :: "msp_env \<Rightarrow> bccspmsp \<Rightarrow> bccspmsp \<Rightarrow> Identity \<Rightarrow> MSPRoleType \<Rightarrow> (goerr \<Rightarrow> goerr) \<Rightarrow> (goerr option \<times> Identity) outcome" where
  "validate_role env own msp id' role msg = obind (msp_Validate env own msp id') (\<lambda>(r, id1). case r of
     Some err \<Rightarrow> Ok (Some (WithMsg err ''The identity is not valid under this MSP [%s]'' [FS (msp_name msp)]), id1)
   | None \<Rightarrow> obind (hasOURole env own msp id1 role) (\<lambda>r. Ok (case r of Some err \<Rightarrow> Some (msg err) | None \<Rightarrow> None, id1)))"

definition not_role :: "bccspmsp \<Rightarrow> MSPRoleType \<Rightarrow> goerr \<Rightarrow> goerr" where
  "not_role msp role err = WithMsg err ''The identity is not a [%s] under this MSP [%s]'' [FS (role_name role), FS (msp_name msp)]"

definition satisfies_role :: "msp_env \<Rightarrow> bccspmsp \<Rightarrow> bccspmsp \<Rightarrow> Identity \<Rightarrow> MSPRole \<Rightarrow> (goerr option \<times> Identity) outcome" where
  "satisfies_role env own msp id' mspRole =
    (if mr_MspIdentifier mspRole \<noteq> msp_name msp then Ok (Some (different_msp (mr_MspIdentifier mspRole) id'), id')
     else (case mr_Role mspRole of
       MSPRole_MEMBER \<Rightarrow> msp_Validate env own msp id'
     | MSPRole_ADMIN \<Rightarrow> (case id' of
           OtherIdentity m \<Rightarrow> Panic
         | BccspIdentity i \<Rightarrow> Ok (if isInAdmins msp i then None else Some (errorNew ''This identity is not an admin''), id'))
     | MSPRole_CLIENT \<Rightarrow> validate_role env own msp id' MSPRole_CLIENT (not_role msp MSPRole_CLIENT)
     | MSPRole_PEER \<Rightarrow> validate_role env own msp id' MSPRole_PEER (not_role msp MSPRole_PEER)
     | role \<Rightarrow> Ok (Some (ErrorF ''invalid MSP role type %d'' [FI (role_number role)]), id')))"

definition satisfies_identity :: "msp_env \<Rightarrow> bccspmsp \<Rightarrow> Identity \<Rightarrow> principal \<Rightarrow> (goerr option \<times> Identity) outcome" where
  "satisfies_identity env msp id' p = obind (msp_DeserializeIdentity env msp (p_Principal p)) (\<lambda>r. case r of
     Inl err \<Rightarrow> Ok (Some (withMessage err ''invalid identity principal, not a certificate''), id')
   | Inr principalId \<Rightarrow> (case id' of
         OtherIdentity m \<Rightarrow> Panic
       | BccspIdentity i \<Rightarrow>
           if x_Raw (id_cert i) = x_Raw (id_cert principalId)
           then obind (validateIdentity env msp msp principalId) (\<lambda>(err, pid). Ok (err, id'))
           else Ok (Some (errorNew ''The identities do not match''), id')))"

text \<open>Only an identity of the MSP's own type is valid, so that the last branch has one.\<close>

definition satisfies_unit :: "msp_env \<Rightarrow> bccspmsp \<Rightarrow> bccspmsp \<Rightarrow> Identity \<Rightarrow> OrganizationUnit \<Rightarrow> (goerr option \<times> Identity) outcome" where
  "satisfies_unit env own msp id' OU =
    (if ou_MspIdentifier OU \<noteq> msp_name msp then Ok (Some (different_msp (ou_MspIdentifier OU) id'), id')
     else obind (msp_Validate env own msp id') (\<lambda>(r, id1). case r of
       Some err \<Rightarrow> Ok (Some err, id1)
     | None \<Rightarrow> (case id1 of
         OtherIdentity m \<Rightarrow> Ok (None, id1)
       | BccspIdentity i \<Rightarrow> obind (GetOrganizationalUnits env own i) (\<lambda>ous.
           Ok (if list_ex (\<lambda>ou. oui_Identifier ou = ou_Identifier OU \<and> oui_CertifiersIdentifier ou = ou_Certifiers OU) ous
               then None else Some (errorNew ''The identities do not match''), id1)))))"

definition satisfiesPrincipalInternalPreV13 :: "msp_env \<Rightarrow> bccspmsp \<Rightarrow> bccspmsp \<Rightarrow> Identity \<Rightarrow> principal \<Rightarrow> (goerr option \<times> Identity) outcome" where
  "satisfiesPrincipalInternalPreV13 env own msp id' p = (case p_Classification p of
     MSPPrincipal_ROLE \<Rightarrow> (case e_un_MSPRole env (p_Principal p) of
         Inl err \<Rightarrow> Ok (Some (withMessage err ''could not unmarshal MSPRole from principal''), id')
       | Inr mspRole \<Rightarrow> satisfies_role env own msp id' mspRole)
   | MSPPrincipal_IDENTITY \<Rightarrow> satisfies_identity env msp id' p
   | MSPPrincipal_ORGANIZATION_UNIT \<Rightarrow> (case e_un_OrganizationUnit env (p_Principal p) of
         Inl err \<Rightarrow> Ok (Some (withMessage err ''could not unmarshal OrganizationUnit from principal''), id')
       | Inr OU \<Rightarrow> satisfies_unit env own msp id' OU)
   | MSPPrincipal_ANONYMITY \<Rightarrow> Ok (Some (ErrorF ''invalid principal type %d'' [FI 3]), id')
   | MSPPrincipal_COMBINED \<Rightarrow> Ok (Some (ErrorF ''invalid principal type %d'' [FI 4]), id')
   | MSPPrincipal_Other n \<Rightarrow> Ok (Some (ErrorF ''invalid principal type %d'' [FI n]), id'))"

definition satisfiesPrincipalInternalV13 :: "msp_env \<Rightarrow> bccspmsp \<Rightarrow> bccspmsp \<Rightarrow> Identity \<Rightarrow> principal \<Rightarrow> (goerr option \<times> Identity) outcome" where
  "satisfiesPrincipalInternalV13 env own msp id' p = (case p_Classification p of
     MSPPrincipal_COMBINED \<Rightarrow> Ok (Some (errorNew ''SatisfiesPrincipalInternal shall not be called with a CombinedPrincipal''), id')
   | MSPPrincipal_ANONYMITY \<Rightarrow> Ok (case e_un_Anonymity env (p_Principal p) of
         Inl err \<Rightarrow> Some (withMessage err ''could not unmarshal MSPIdentityAnonymity from principal'')
       | Inr anon \<Rightarrow>
           if anon = 1 then Some (errorNew ''Principal is anonymous, but X.509 MSP does not support anonymous identities'')
           else if anon = 0 then None
           else Some (ErrorF ''Unknown principal anonymity type: %d'' [FI anon]), id')
   | _ \<Rightarrow> satisfiesPrincipalInternalPreV13 env own msp id' p)"

definition satisfiesPrincipalInternalV142 :: "msp_env \<Rightarrow> bccspmsp \<Rightarrow> bccspmsp \<Rightarrow> Identity \<Rightarrow> principal \<Rightarrow> (goerr option \<times> Identity) outcome" where
  "satisfiesPrincipalInternalV142 env own msp id' p = (case id' of
     OtherIdentity m \<Rightarrow> Ok (Some (errorNew ''invalid identity type, expected *identity''), id')
   | BccspIdentity i \<Rightarrow>
      if p_Classification p = MSPPrincipal_ROLE \<and> msp_ouEnforcement msp
      then (case e_un_MSPRole env (p_Principal p) of
          Inl err \<Rightarrow> Ok (Some (withMessage err ''could not unmarshal MSPRole from principal''), id')
        | Inr mspRole \<Rightarrow>
            if mr_MspIdentifier mspRole \<noteq> msp_name msp then Ok (Some (different_msp (mr_MspIdentifier mspRole) id'), id')
            else if mr_Role mspRole = MSPRole_ADMIN
            then (if isInAdmins msp i then Ok (None, id')
                  else validate_role env own msp id' MSPRole_ADMIN
                    (\<lambda>err. WithMsg err ''The identity is not an admin under this MSP [%s]'' [FS (msp_name msp)]))
            else if mr_Role mspRole = MSPRole_ORDERER
            then validate_role env own msp id' MSPRole_ORDERER (not_role msp MSPRole_ORDERER)
            else satisfiesPrincipalInternalV13 env own msp id' p)
      else satisfiesPrincipalInternalV13 env own msp id' p)"

definition internalSatisfiesPrincipalInternal :: "msp_env \<Rightarrow> bccspmsp \<Rightarrow> bccspmsp \<Rightarrow> Identity \<Rightarrow> principal \<Rightarrow> (goerr option \<times> Identity) outcome" where
  "internalSatisfiesPrincipalInternal env own msp id' p =
    (if msp_version msp = MSPv1_0 \<or> msp_version msp = MSPv1_1 then satisfiesPrincipalInternalPreV13 env own msp id' p
     else if msp_version msp = MSPv1_3 then satisfiesPrincipalInternalV13 env own msp id' p
     else satisfiesPrincipalInternalV142 env own msp id' p)"

primrec satisfy_each :: "msp_env \<Rightarrow> bccspmsp \<Rightarrow> bccspmsp \<Rightarrow> principal list \<Rightarrow> Identity \<Rightarrow> (goerr option \<times> Identity) outcome" where
  "satisfy_each env own msp [] id' = Ok (None, id')"
| "satisfy_each env own msp (p # ps) id' = obind (internalSatisfiesPrincipalInternal env own msp id' p) (\<lambda>(r, id1). case r of
     Some err \<Rightarrow> Ok (Some err, id1)
   | None \<Rightarrow> satisfy_each env own msp ps id1)"

definition SatisfiesPrincipal :: "msp_env \<Rightarrow> bccspmsp \<Rightarrow> bccspmsp \<Rightarrow> Identity \<Rightarrow> principal \<Rightarrow> (goerr option \<times> Identity) outcome option" where
  "SatisfiesPrincipal env own msp id' p = map_option (\<lambda>r. case r of
     Inl err \<Rightarrow> Ok (Some err, id')
   | Inr principals \<Rightarrow> satisfy_each env own msp principals id') (collectPrincipals env (msp_version msp) p)"

end
