(* ===== verification/MSP_Setup.thy ===== *)
theory MSP_Setup
  imports MSP "HOL-Library.AList"
begin

text \<open>
  Setting up an MSP from its configuration (mspimplsetup.go, Setup of mspimpl.go), for each version. A step takes the MSP
  to its next state; after an error the caller drops the MSP, so that an error has no state here.
\<close>

section \<open>Crypto and certificate authorities\<close>

definition setupCrypto :: "FabricMSPConfig \<Rightarrow> bccspmsp \<Rightarrow> bccspmsp" where
  "setupCrypto conf msp =
    (let cc = (case mc_CryptoConfig conf of
           None \<Rightarrow> \<lparr>cc_SignatureHashFamily = ''SM3'', cc_IdentityIdentifierHashFunction = ''SM3''\<rparr>
         | Some c \<Rightarrow> c);
         cc1 = (if cc_SignatureHashFamily cc = [] then cc\<lparr>cc_SignatureHashFamily := ''SM3''\<rparr> else cc);
         cc2 = (if cc_IdentityIdentifierHashFunction cc1 = [] then cc1\<lparr>cc_IdentityIdentifierHashFunction := ''SM3''\<rparr> else cc1)
     in msp\<lparr>msp_cryptoConfig := Some cc2\<rparr>)"

definition no_options :: VerifyOptions where
  "no_options = \<lparr>vo_Roots = [], vo_Intermediates = [], vo_DNSName = [], vo_KeyUsages = [], vo_CurrentTime = None\<rparr>"

definition identities_of :: "msp_env \<Rightarrow> bccspmsp \<Rightarrow> bytes list \<Rightarrow> identity list res outcome" where
  "identities_of env msp certs = gmapM (\<lambda>c. gbind (getIdentityFromConf env msp c) (\<lambda>(i, k). Ok (Inr i))) certs"

definition setupCAs :: "msp_env \<Rightarrow> FabricMSPConfig \<Rightarrow> bccspmsp \<Rightarrow> bccspmsp res outcome" where
  "setupCAs env conf msp =
    (if length (mc_RootCerts conf) = 0 then Ok (Inl (errorNew ''expected at least one CA certificate''))
     else gbind (gmapM (\<lambda>v. Ok (getCertFromPem env v)) (mc_RootCerts conf)) (\<lambda>roots.
          gbind (gmapM (\<lambda>v. Ok (getCertFromPem env v)) (mc_IntermediateCerts conf)) (\<lambda>intermediates.
          let msp1 = msp\<lparr>msp_opts := Some (no_options\<lparr>vo_Roots := roots, vo_Intermediates := intermediates\<rparr>)\<rparr> in
          gbind (identities_of env msp1 (mc_RootCerts conf)) (\<lambda>rootCerts.
          gbind (identities_of env msp1 (mc_IntermediateCerts conf)) (\<lambda>intermediateCerts.
          Ok (Inr (msp1\<lparr>msp_rootCerts := rootCerts, msp_intermediateCerts := intermediateCerts,
            msp_opts := Some (no_options\<lparr>vo_Roots := map id_cert rootCerts, vo_Intermediates := map id_cert intermediateCerts\<rparr>)\<rparr>)))))))"

definition setupCRLs :: "msp_env \<Rightarrow> FabricMSPConfig \<Rightarrow> bccspmsp \<Rightarrow> bccspmsp res outcome" where
  "setupCRLs env conf msp =
     gbind (gmapM (\<lambda>crlbytes. Ok (wrap (\<lambda>err. withMessage err ''could not parse RevocationList'') (e_ParseCRL env crlbytes))) (mc_RevocationList conf))
       (\<lambda>crls. Ok (Inr (msp\<lparr>msp_CRL := crls\<rparr>)))"

text \<open>The checks of one certificate of an authority, and the loop over all of them; \<open>validate\<close> is the validation of the certificate.\<close>

definition check_CA :: "msp_env \<Rightarrow> goerr option outcome \<Rightarrow> certificate \<Rightarrow> unit res outcome" where
  "check_CA env validate cert =
    (if \<not> x_IsCA cert then Ok (Inl (ErrorF ''CA Certificate did not have the CA attribute, (SN: %x)'' [FI (x_SerialNumber cert)]))
     else (case getSubjectKeyIdentifierFromCert env cert of
       Inl err \<Rightarrow> Ok (Inl (WithMsg err ''CA Certificate problem with Subject Key Identifier extension, (SN: %x)'' [FI (x_SerialNumber cert)]))
     | Inr _ \<Rightarrow> obind validate (\<lambda>r. Ok (case r of
         Some err \<Rightarrow> Inl (WithMsg err ''CA Certificate is not valid, (SN: %s)'' [FI (x_SerialNumber cert)])
       | None \<Rightarrow> Inr ()))))"

definition finalizeSetupCAs :: "msp_env \<Rightarrow> bccspmsp \<Rightarrow> bccspmsp res outcome" where
  "finalizeSetupCAs env msp =
     gbind (gmapM (\<lambda>i. check_CA env (validateCAIdentity env msp i) (id_cert i)) (msp_rootCerts msp @ msp_intermediateCerts msp)) (\<lambda>_.
     case msp_opts msp of
       None \<Rightarrow> if msp_intermediateCerts msp = [] then Ok (Inr (msp\<lparr>msp_internalNodes := []\<rparr>)) else Panic
     | Some opts \<Rightarrow>
         gbind (gmapM (\<lambda>i. Ok (wrap (\<lambda>err. WithMsg err ''failed getting validation chain, (SN: %s)'' [FI (x_SerialNumber (id_cert i))])
             (getUniqueValidationChain env msp (id_cert i) (getValidityOptsForCert opts (id_cert i))))) (msp_intermediateCerts msp))
           (\<lambda>cs. Ok (Inr (msp\<lparr>msp_internalNodes := concat (map (\<lambda>chain. map x_Raw (drop 1 chain)) cs)\<rparr>))))"

definition setupTLSCAs :: "msp_env \<Rightarrow> FabricMSPConfig \<Rightarrow> bccspmsp \<Rightarrow> bccspmsp res outcome" where
  "setupTLSCAs env conf msp =
     gbind (gmapM (\<lambda>c. Ok (getCertFromPem env c)) (mc_TlsRootCerts conf)) (\<lambda>rootCerts.
     gbind (gmapM (\<lambda>c. Ok (getCertFromPem env c)) (mc_TlsIntermediateCerts conf)) (\<lambda>intermediateCerts.
     let msp1 = msp\<lparr>msp_tlsRootCerts := mc_TlsRootCerts conf, msp_tlsIntermediateCerts := mc_TlsIntermediateCerts conf\<rparr>;
         opts = no_options\<lparr>vo_Roots := rootCerts, vo_Intermediates := intermediateCerts\<rparr> in
     gbind (gmapM (\<lambda>cert. check_CA env (validateTLSCAIdentity env msp1 cert opts) cert) (rootCerts @ intermediateCerts)) (\<lambda>_.
     Ok (Inr msp1))))"

section \<open>Administrators and the signer\<close>

definition setupAdminsPreV142 :: "msp_env \<Rightarrow> FabricMSPConfig \<Rightarrow> bccspmsp \<Rightarrow> bccspmsp res outcome" where
  "setupAdminsPreV142 env conf msp =
     gbind (identities_of env msp (mc_Admins conf)) (\<lambda>admins. Ok (Inr (msp\<lparr>msp_admins := admins\<rparr>)))"

definition setupAdminsV142 :: "msp_env \<Rightarrow> FabricMSPConfig \<Rightarrow> bccspmsp \<Rightarrow> bccspmsp res outcome" where
  "setupAdminsV142 env conf msp = gbind (setupAdminsPreV142 env conf msp) (\<lambda>msp1.
     if length (msp_admins msp1) = 0 \<and> (\<not> msp_ouEnforcement msp1 \<or> msp_adminOU msp1 = None)
     then Ok (Inl (errorNew ''administrators must be declared when no admin ou classification is set''))
     else Ok (Inr msp1))"

definition setupAdmins :: "msp_env \<Rightarrow> FabricMSPConfig \<Rightarrow> bccspmsp \<Rightarrow> bccspmsp res outcome" where
  "setupAdmins env conf msp =
    (if msp_version msp \<le> MSPv1_3 then setupAdminsPreV142 env conf msp else setupAdminsV142 env conf msp)"

definition setupSigningIdentity :: "msp_env \<Rightarrow> int \<Rightarrow> FabricMSPConfig \<Rightarrow> bccspmsp \<Rightarrow> bccspmsp res outcome" where
  "setupSigningIdentity env now conf msp = (case mc_SigningIdentity conf of
     None \<Rightarrow> Ok (Inr msp)
   | Some info \<Rightarrow> gbind (getSigningIdentityFromConf env msp info) (\<lambda>sid.
       case x_NotAfter (id_cert (sid_identity sid)) of
         None \<Rightarrow> Ok (Inr (msp\<lparr>msp_signer := Some sid\<rparr>))
       | Some t \<Rightarrow> if t > now then Ok (Inr (msp\<lparr>msp_signer := Some sid\<rparr>))
           else Ok (Inl (ErrorF ''signing identity expired %v ago'' [FI (now - t)]))))"

section \<open>Organizational units\<close>

definition getCertifiersIdentifier :: "msp_env \<Rightarrow> bccspmsp \<Rightarrow> bytes \<Rightarrow> bytes res outcome" where
  "getCertifiersIdentifier env msp certRaw =
     gbind (Ok (wrap (\<lambda>err. ErrorF ''Failed getting certificate for [%v]: [%s]'' [FS (bytes_text certRaw), FS (e_text env err)])
         (getCertFromPem env certRaw))) (\<lambda>cert0.
     gbind (Ok (wrap (\<lambda>err. ErrorF ''sanitizeCert failed %s'' [FS (e_text env err)]) (sanitizeCert cert0))) (\<lambda>cert.
     let root = list_ex (\<lambda>v. e_Equal env (id_cert v) cert) (msp_rootCerts msp) in
     if \<not> root \<and> \<not> list_ex (\<lambda>v. e_Equal env (id_cert v) cert) (msp_intermediateCerts msp)
     then Ok (Inl (ErrorF ''Failed adding OU. Certificate [%v] not in root or intermediate certs.'' [FS (bytes_text (x_Raw cert))]))
     else gbind (if root then Ok (Inr [cert])
         else obind (getValidationChain env msp cert True) (\<lambda>r. Ok (wrap (\<lambda>err. ErrorF ''Failed computing validation chain for [%v]. [%s]''
           [FS (bytes_text (x_Raw cert)), FS (e_text env err)]) r))) (\<lambda>chain.
       obind (getCertificationChainIdentifierFromChain env msp chain) (\<lambda>r. Ok (wrap (\<lambda>err.
         ErrorF ''Failed computing Certifiers Identifier for [%v]. [%s]'' [FS (bytes_text certRaw), FS (e_text env err)]) r)))))"

definition setupOUs :: "msp_env \<Rightarrow> FabricMSPConfig \<Rightarrow> bccspmsp \<Rightarrow> bccspmsp res outcome" where
  "setupOUs env conf msp =
     gbind (gmapM (\<lambda>ou. gbind (obind (getCertifiersIdentifier env msp (oc_Certificate ou))
         (\<lambda>r. Ok (wrap (\<lambda>err. WithMsg err ''failed getting certificate for [%v]'' [FS (oc_Identifier ou)]) r)))
         (\<lambda>cid. Ok (Inr (oc_Identifier ou, cid)))) (mc_OrganizationalUnitIdentifiers conf)) (\<lambda>pairs.
     Ok (Inr (msp\<lparr>msp_ouIdentifiers := fold (\<lambda>(unit, cid) m.
         let ids = (case map_of m unit of None \<Rightarrow> [] | Some l \<Rightarrow> l) in
         if cid \<in> set ids then m else AList.update unit (ids @ [cid]) m) pairs []\<rparr>)))"

text \<open>The unit of one role: its name, and the identifier of its certifiers if a certificate is given.\<close>

definition setupNodeOU :: "msp_env \<Rightarrow> bccspmsp \<Rightarrow> OUConfig \<Rightarrow> OUIdentifier res outcome" where
  "setupNodeOU env msp c =
    (if length (oc_Certificate c) = 0 then Ok (Inr \<lparr>oui_CertifiersIdentifier = [], oui_Identifier = oc_Identifier c\<rparr>)
     else gbind (getCertifiersIdentifier env msp (oc_Certificate c))
       (\<lambda>cid. Ok (Inr \<lparr>oui_CertifiersIdentifier = cid, oui_Identifier = oc_Identifier c\<rparr>)))"

definition setupNodeOUs :: "msp_env \<Rightarrow> FabricMSPConfig \<Rightarrow> bccspmsp \<Rightarrow> bccspmsp res outcome" where
  "setupNodeOUs env conf msp = (case mc_FabricNodeOus conf of
     None \<Rightarrow> Ok (Inr (msp\<lparr>msp_ouEnforcement := False\<rparr>))
   | Some no \<Rightarrow>
      (case no_Client no of
         None \<Rightarrow> Ok (Inl (errorNew ''Failed setting up NodeOUs. ClientOU must be different from nil.''))
       | Some client \<Rightarrow> if length (oc_Identifier client) = 0 then Ok (Inl (errorNew ''Failed setting up NodeOUs. ClientOU must be different from nil.''))
         else (case no_Peer no of
           None \<Rightarrow> Ok (Inl (errorNew ''Failed setting up NodeOUs. PeerOU must be different from nil.''))
         | Some peer \<Rightarrow> if length (oc_Identifier peer) = 0 then Ok (Inl (errorNew ''Failed setting up NodeOUs. PeerOU must be different from nil.''))
           else gbind (setupNodeOU env msp client) (\<lambda>clientOU.
                gbind (setupNodeOU env msp peer) (\<lambda>peerOU.
                Ok (Inr (msp\<lparr>msp_ouEnforcement := no_Enable no, msp_clientOU := Some clientOU, msp_peerOU := Some peerOU\<rparr>)))))))"

definition setupOptOU :: "msp_env \<Rightarrow> bccspmsp \<Rightarrow> OUConfig option \<Rightarrow> OUIdentifier option res outcome" where
  "setupOptOU env msp c = (case c of
     None \<Rightarrow> Ok (Inr None)
   | Some c1 \<Rightarrow> gbind (setupNodeOU env msp c1) (\<lambda>ou. Ok (Inr (Some ou))))"

definition setupNodeOUsV142 :: "msp_env \<Rightarrow> FabricMSPConfig \<Rightarrow> bccspmsp \<Rightarrow> bccspmsp res outcome" where
  "setupNodeOUsV142 env conf msp = (case mc_FabricNodeOus conf of
     None \<Rightarrow> Ok (Inr (msp\<lparr>msp_ouEnforcement := False\<rparr>))
   | Some no \<Rightarrow>
      gbind (setupOptOU env msp (no_Client no)) (\<lambda>clientOU.
      gbind (setupOptOU env msp (no_Peer no)) (\<lambda>peerOU.
      gbind (setupOptOU env msp (no_Admin no)) (\<lambda>adminOU.
      gbind (setupOptOU env msp (no_Orderer no)) (\<lambda>ordererOU.
      Ok (Inr (msp\<lparr>msp_ouEnforcement := no_Enable no \<and> \<not> (clientOU = None \<and> peerOU = None \<and> adminOU = None \<and> ordererOU = None),
        msp_clientOU := clientOU, msp_peerOU := peerOU, msp_adminOU := adminOU, msp_ordererOU := ordererOU\<rparr>)))))))"

section \<open>Checking the administrators\<close>

text \<open>The checks may validate an administrator, which is then kept with the result of its validation.\<close>

definition postSetupV1 :: "msp_env \<Rightarrow> bccspmsp \<Rightarrow> bccspmsp res outcome" where
  "postSetupV1 env msp =
     gbind (gmapM (\<lambda>(n, admin). obind (validateIdentity env msp msp admin) (\<lambda>(r, admin1). case r of
         Some err \<Rightarrow> Ok (Inl (WithMsg err ''admin %d is invalid'' [FN n]))
       | None \<Rightarrow> Ok (Inr admin1))) (enumerate 0 (msp_admins msp)))
       (\<lambda>admins. Ok (Inr (msp\<lparr>msp_admins := admins\<rparr>)))"

text \<open>\<open>returned\<close> is a call that ends; that it does for a principal that is a role.\<close>

definition returned :: "'a outcome option \<Rightarrow> 'a outcome" where
  "returned m = (case m of None \<Rightarrow> Blocked | Some a \<Rightarrow> a)"

definition postSetupV11 :: "msp_env \<Rightarrow> bccspmsp \<Rightarrow> bccspmsp res outcome" where
  "postSetupV11 env msp =
    (if \<not> msp_ouEnforcement msp then postSetupV1 env msp
     else gbind (Ok (wrap (\<lambda>err. withMessage err ''failed creating MSPRole_CLIENT'')
         (e_MSPRole env \<lparr>mr_MspIdentifier = msp_name msp, mr_Role = MSPRole_CLIENT\<rparr>))) (\<lambda>principalBytes.
       gbind (gmapM (\<lambda>(n, admin).
           obind (returned (SatisfiesPrincipal env msp msp (BccspIdentity admin)
             \<lparr>p_Classification = MSPPrincipal_ROLE, p_Principal = principalBytes\<rparr>)) (\<lambda>(r, admin1). case r of
             Some err \<Rightarrow> Ok (Inl (WithMsg err ''admin %d is invalid'' [FN n]))
           | None \<Rightarrow> Ok (Inr (case admin1 of BccspIdentity a \<Rightarrow> a | OtherIdentity _ \<Rightarrow> admin)))) (enumerate 0 (msp_admins msp)))
         (\<lambda>admins. Ok (Inr (msp\<lparr>msp_admins := admins\<rparr>)))))"

definition postSetupV142 :: "msp_env \<Rightarrow> bccspmsp \<Rightarrow> bccspmsp res outcome" where
  "postSetupV142 env msp =
    (if \<not> msp_ouEnforcement msp then postSetupV1 env msp
     else gbind (gmapM (\<lambda>(n, admin).
         obind (hasOURole env msp msp (BccspIdentity admin) MSPRole_CLIENT) (\<lambda>err1.
         obind (hasOURole env msp msp (BccspIdentity admin) MSPRole_ADMIN) (\<lambda>err2. Ok (case (err1, err2) of
           (Some e1, Some e2) \<Rightarrow> Inl (ErrorF ''admin %d is invalid [%s,%s]'' [FN n, FS (e_text env e1), FS (e_text env e2)])
         | _ \<Rightarrow> Inr ())))) (enumerate 0 (msp_admins msp)))
       (\<lambda>_. Ok (Inr msp)))"

section \<open>The whole setup\<close>

definition preSetupV1 :: "msp_env \<Rightarrow> int \<Rightarrow> FabricMSPConfig \<Rightarrow> bccspmsp \<Rightarrow> bccspmsp res outcome" where
  "preSetupV1 env now conf msp =
     gbind (setupCAs env conf (setupCrypto conf msp)) (\<lambda>m1.
     gbind (setupAdmins env conf m1) (\<lambda>m2.
     gbind (setupCRLs env conf m2) (\<lambda>m3.
     gbind (finalizeSetupCAs env m3) (\<lambda>m4.
     gbind (setupSigningIdentity env now conf m4) (\<lambda>m5.
     gbind (setupTLSCAs env conf m5) (\<lambda>m6.
     setupOUs env conf m6))))))"

definition preSetupV142 :: "msp_env \<Rightarrow> int \<Rightarrow> FabricMSPConfig \<Rightarrow> bccspmsp \<Rightarrow> bccspmsp res outcome" where
  "preSetupV142 env now conf msp =
     gbind (setupCAs env conf (setupCrypto conf msp)) (\<lambda>m1.
     gbind (setupCRLs env conf m1) (\<lambda>m2.
     gbind (finalizeSetupCAs env m2) (\<lambda>m3.
     gbind (setupSigningIdentity env now conf m3) (\<lambda>m4.
     gbind (setupTLSCAs env conf m4) (\<lambda>m5.
     gbind (setupOUs env conf m5) (\<lambda>m6.
     gbind (setupNodeOUsV142 env conf m6) (\<lambda>m7.
     setupAdmins env conf m7)))))))"

definition setupV1 :: "msp_env \<Rightarrow> int \<Rightarrow> FabricMSPConfig \<Rightarrow> bccspmsp \<Rightarrow> bccspmsp res outcome" where
  "setupV1 env now conf msp = gbind (preSetupV1 env now conf msp) (postSetupV1 env)"

definition setupV11 :: "msp_env \<Rightarrow> int \<Rightarrow> FabricMSPConfig \<Rightarrow> bccspmsp \<Rightarrow> bccspmsp res outcome" where
  "setupV11 env now conf msp =
     gbind (preSetupV1 env now conf msp) (\<lambda>m1. gbind (setupNodeOUs env conf m1) (postSetupV11 env))"

definition setupV142 :: "msp_env \<Rightarrow> int \<Rightarrow> FabricMSPConfig \<Rightarrow> bccspmsp \<Rightarrow> bccspmsp res outcome" where
  "setupV142 env now conf msp = gbind (preSetupV142 env now conf msp) (postSetupV142 env)"

definition internalSetup :: "msp_env \<Rightarrow> int \<Rightarrow> FabricMSPConfig \<Rightarrow> bccspmsp \<Rightarrow> bccspmsp res outcome" where
  "internalSetup env now conf msp =
    (if msp_version msp = MSPv1_0 then setupV1 env now conf msp
     else if msp_version msp = MSPv1_1 \<or> msp_version msp = MSPv1_3 then setupV11 env now conf msp
     else setupV142 env now conf msp)"

definition msp_Setup :: "msp_env \<Rightarrow> int \<Rightarrow> bytes \<Rightarrow> bccspmsp \<Rightarrow> bccspmsp res outcome" where
  "msp_Setup env now config msp =
     gbind (Ok (wrap (\<lambda>err. withMessage err ''failed unmarshalling fabric msp config'') (e_un_FabricMSPConfig env config))) (\<lambda>conf.
     internalSetup env now conf (msp\<lparr>msp_name := mc_Name conf\<rparr>))"

end
