(* ===== verification/Membership.thy ===== *)
theory Membership
  imports MSP_Setup
begin

text \<open>
  Identities at work (the rest of identities.go and of mspimpl.go), the manager of the MSPs of a channel
  (mspmgrimpl.go), and the membership of a channel, by which the client checks who has endorsed
  (pkg/fab/channel/membership/membership.go).
\<close>

section \<open>Signatures of an identity\<close>

definition id_getHashOpt :: "string \<Rightarrow> goerr option" where
  "id_getHashOpt hashFamily =
    (if hashFamily = ''SM3'' then GetHashOpt ''SM3'' else Some (ErrorF ''hash familiy not recognized [%s]'' [FS hashFamily]))"

text \<open>The digest that \<open>Verify\<close> and \<open>Sign\<close> take of a message, with the family that the MSP of the identity is configured with.\<close>

definition id_digest :: "msp_env \<Rightarrow> bccspmsp \<Rightarrow> bytes \<Rightarrow> bytes res outcome" where
  "id_digest env own msg = (case msp_cryptoConfig own of
     None \<Rightarrow> Panic
   | Some cc \<Rightarrow> (case id_getHashOpt (cc_SignatureHashFamily cc) of
       Some err \<Rightarrow> Ok (Inl (withMessage err ''failed getting hash function options''))
     | None \<Rightarrow> Ok (wrap (\<lambda>err. withMessage err ''failed computing digest'') (e_Hash env msg))))"

definition id_Verify :: "msp_env \<Rightarrow> bccspmsp \<Rightarrow> identity \<Rightarrow> bytes \<Rightarrow> bytes \<Rightarrow> goerr option outcome" where
  "id_Verify env own i msg sig = obind (id_digest env own msg) (\<lambda>r. Ok (case r of
     Inl err \<Rightarrow> Some err
   | Inr digest \<Rightarrow> (case e_Verify env (id_pk i) sig digest of
       Inl err \<Rightarrow> Some (withMessage err ''could not determine the validity of the signature'')
     | Inr valid \<Rightarrow> if valid then None else Some (errorNew ''The signature is invalid''))))"

definition sid_Sign :: "msp_env \<Rightarrow> bccspmsp \<Rightarrow> signingidentity \<Rightarrow> bytes \<Rightarrow> bytes res outcome" where
  "sid_Sign env own sid msg = gbind (id_digest env own msg) (\<lambda>digest. Ok (e_Sign env (sid_signer sid) digest))"

definition id_Serialize :: "msp_env \<Rightarrow> identity \<Rightarrow> bytes res" where
  "id_Serialize env i = (case e_pem_Encode env \<lparr>pem_Type = ''CERTIFICATE'', pem_Headers = [], pem_Bytes = x_Raw (id_cert i)\<rparr> of
     None \<Rightarrow> Inl (errorNew ''encoding of identity failed'')
   | Some pemBytes \<Rightarrow> wrap (\<lambda>err. WithMsg err ''could not marshal a SerializedIdentity structure for identity %s'' [FS (id_Id i)])
       (e_SerializedIdentity env \<lparr>si_Mspid = id_Mspid i, si_IdBytes = pemBytes\<rparr>))"

section \<open>Well-formed identities\<close>

definition UnmarshalSM2Signature :: "msp_env \<Rightarrow> bytes \<Rightarrow> (int \<times> int) res" where
  "UnmarshalSM2Signature env raw = (case e_DER_unsig env raw of
     Inl err \<Rightarrow> Inl (ErrorF ''failed unmashalling signature [%s]'' [FS (e_text env err)])
   | Inr (r, s) \<Rightarrow>
       if \<not> r > 0 then Inl (errorNew ''invalid signature. R must be larger than zero'')
       else if \<not> s > 0 then Inl (errorNew ''invalid signature. S must be larger than zero'')
       else Inr (r, s))"

definition isIdentitySignedInCanonicalForm :: "msp_env \<Rightarrow> bytes \<Rightarrow> string \<Rightarrow> bytes \<Rightarrow> goerr option" where
  "isIdentitySignedInCanonicalForm env sig mspID pemEncodedIdentity = (case UnmarshalSM2Signature env sig of
     Inl err \<Rightarrow> Some err
   | Inr rs \<Rightarrow> (case e_DER_sig env rs of
       Inl err \<Rightarrow> Some err
     | Inr expectedSig \<Rightarrow> if expectedSig \<noteq> sig
         then Some (ErrorF ''identity %s for MSP %s has a non canonical signature'' [FS (map (\<lambda>b. char_of (unat b)) pemEncodedIdentity), FS mspID])
         else None))"

definition msp_IsWellFormed :: "msp_env \<Rightarrow> SerializedIdentity \<Rightarrow> goerr option" where
  "msp_IsWellFormed env sid = (case e_pem_Decode env (si_IdBytes sid) of
     None \<Rightarrow> Some (errorNew ''PEM decoding resulted in an empty block'')
   | Some (bl, rest) \<Rightarrow>
       if length rest > 0
       then Some (ErrorF ''identity %s for MSP %s has trailing bytes'' [FS (map (\<lambda>b. char_of (unat b)) (si_IdBytes sid)), FS (si_Mspid sid)])
       else if pem_Type bl \<noteq> ''CERTIFICATE'' \<and> pem_Type bl \<noteq> []
       then Some (ErrorF ''pem type is %s, should be 'CERTIFICATE' or missing'' [FS (pem_Type bl)])
       else (case e_ParseCertificate env (pem_Bytes bl) of
         Inl err \<Rightarrow> Some err
       | Inr cert \<Rightarrow> if \<not> x_SM2 cert then None
           else isIdentitySignedInCanonicalForm env (x_Signature cert) (si_Mspid sid) (si_IdBytes sid)))"

section \<open>The manager\<close>

text \<open>Every MSP of the repository is a \<open>bccspmsp\<close>, whose provider type is \<open>FABRIC\<close>, 0.\<close>

record mspManager =
  mm_mspsMap :: "(string \<times> bccspmsp) list"
  mm_mspsByProviders :: "(nat \<times> bccspmsp list) list"
  mm_up :: bool

definition NewMSPManager :: mspManager where
  "NewMSPManager = \<lparr>mm_mspsMap = [], mm_mspsByProviders = [], mm_up = False\<rparr>"

definition mgr_add :: "bccspmsp \<Rightarrow> mspManager \<Rightarrow> mspManager" where
  "mgr_add msp mgr = mgr\<lparr>mm_mspsMap := AList.update (msp_name msp) msp (mm_mspsMap mgr),
     mm_mspsByProviders := AList.update 0 ((case map_of (mm_mspsByProviders mgr) 0 of None \<Rightarrow> [] | Some l \<Rightarrow> l) @ [msp]) (mm_mspsByProviders mgr)\<rparr>"

definition mgr_Setup :: "bccspmsp list \<Rightarrow> mspManager \<Rightarrow> mspManager" where
  "mgr_Setup msps mgr =
    (if mm_up mgr then mgr
     else (fold mgr_add msps (mgr\<lparr>mm_mspsMap := [], mm_mspsByProviders := []\<rparr>))\<lparr>mm_up := True\<rparr>)"

text \<open>An identity comes with the MSP that owns it.\<close>

definition mgr_DeserializeIdentity :: "msp_env \<Rightarrow> mspManager \<Rightarrow> bytes \<Rightarrow> (bccspmsp \<times> identity) res outcome" where
  "mgr_DeserializeIdentity env mgr serializedID =
     gbind (Ok (wrap (\<lambda>err. withMessage err ''could not deserialize a SerializedIdentity'') (e_un_SerializedIdentity env serializedID))) (\<lambda>sId.
       case map_of (mm_mspsMap mgr) (si_Mspid sId) of
         None \<Rightarrow> Ok (Inl (ErrorF ''MSP %s is not defined on channel'' [FS (si_Mspid sId)]))
       | Some msp \<Rightarrow> gbind (deserializeIdentityInternal env msp (si_IdBytes sId)) (\<lambda>i. Ok (Inr (msp, i))))"

definition mgr_IsWellFormed :: "msp_env \<Rightarrow> mspManager \<Rightarrow> SerializedIdentity \<Rightarrow> goerr option" where
  "mgr_IsWellFormed env mgr sid =
    (if list_ex (\<lambda>_. msp_IsWellFormed env sid = None) (mm_mspsByProviders mgr) then None
     else Some (errorNew ''no MSP provider recognizes the identity''))"

section \<open>The membership of a channel\<close>

definition ValidateCertificateDates :: "int \<Rightarrow> certificate \<Rightarrow> goerr option" where
  "ValidateCertificateDates now cert =
    (if now < x_NotBefore cert then Some (errorNew ''Certificate provided is not valid until later date'')
     else (case x_NotAfter cert of
       None \<Rightarrow> Some (errorNew ''Certificate provided has expired'')
     | Some t \<Rightarrow> if now > t then Some (errorNew ''Certificate provided has expired'') else None))"

definition areCertDatesValid :: "msp_env \<Rightarrow> int \<Rightarrow> bytes \<Rightarrow> goerr option" where
  "areCertDatesValid env now serializedID = (case e_un_SerializedIdentity env serializedID of
     Inl err \<Rightarrow> Some (withMessage err ''could not deserialize a SerializedIdentity'')
   | Inr sID \<Rightarrow> (case e_pem_Decode env (si_IdBytes sID) of
       None \<Rightarrow> Some (errorNew ''could not decode the PEM structure'')
     | Some (bl, rest) \<Rightarrow> (case e_ParseCertificate env (pem_Bytes bl) of
         Inl err \<Rightarrow> Some err
       | Inr cert \<Rightarrow> ValidateCertificateDates now cert)))"

text \<open>\<open>strings.ToLower\<close>, for ASCII letters\<close>

definition ToLower :: "string \<Rightarrow> string" where
  "ToLower s = map (\<lambda>c. if (65::nat) \<le> of_char c \<and> of_char c \<le> (90::nat) then char_of (of_char c + 32 :: nat) else c) s"

record identityImpl =
  ii_mspManager :: mspManager
  ii_msps :: "string list"

definition mem_Validate :: "msp_env \<Rightarrow> int \<Rightarrow> identityImpl \<Rightarrow> bytes \<Rightarrow> goerr option outcome" where
  "mem_Validate env now ii serializedID = (case areCertDatesValid env now serializedID of
     Some err \<Rightarrow> Ok (Some err)
   | None \<Rightarrow> obind (mgr_DeserializeIdentity env (ii_mspManager ii) serializedID) (\<lambda>r. case r of
       Inl err \<Rightarrow> Ok (Some err)
     | Inr (msp, i) \<Rightarrow> obind (validateIdentity env msp msp i) (\<lambda>(err, i1). Ok err)))"

definition mem_Verify :: "msp_env \<Rightarrow> identityImpl \<Rightarrow> bytes \<Rightarrow> bytes \<Rightarrow> bytes \<Rightarrow> goerr option outcome" where
  "mem_Verify env ii serializedID msg sig = obind (mgr_DeserializeIdentity env (ii_mspManager ii) serializedID) (\<lambda>r. case r of
     Inl err \<Rightarrow> Ok (Some err)
   | Inr (msp, i) \<Rightarrow> id_Verify env msp i msg sig)"

definition ContainsMSP :: "identityImpl \<Rightarrow> string \<Rightarrow> bool" where
  "ContainsMSP ii msp \<longleftrightarrow> list_ex (\<lambda>v. v = ToLower msp) (ii_msps ii)"

section \<open>Loading the MSPs of a channel\<close>

definition getFabricConfig :: "msp_env \<Rightarrow> bytes \<Rightarrow> FabricMSPConfig res" where
  "getFabricConfig env config = (case e_un_FabricMSPConfig env config of
     Inl err \<Rightarrow> Inl (withMessage err ''unmarshal FabricMSPConfig from config failed'')
   | Inr fabricConfig \<Rightarrow>
       if mc_Name fabricConfig = [] then Inl (errorNew ''MSP Configuration missing name'')
       else if length (mc_RootCerts fabricConfig) = 0
       then Inl (errorNew ''MSP Configuration missing root certificates required for validating signing certificates'')
       else Inr fabricConfig)"

text \<open>A configuration is its type, which is 0 for \<open>FABRIC\<close>, and its bytes.\<close>

definition load_one :: "msp_env \<Rightarrow> int \<Rightarrow> int \<times> bytes \<Rightarrow> bccspmsp res outcome" where
  "load_one env now = (\<lambda>(mspType, config).
     if mspType \<noteq> 0 then Ok (Inl (ErrorF ''MSP type not supported: %v'' [FI mspType]))
     else if length config = 0 then Ok (Inl (errorNew ''MSP configuration missing the payload in the 'Config' property''))
     else gbind (Ok (getFabricConfig env config)) (\<lambda>fabricConfig.
          gbind (Ok (wrap (\<lambda>err. withMessage err ''instantiate MSP failed'') (msp_New MSPv1_4_3))) (\<lambda>newMSP.
          obind (msp_Setup env now config newMSP) (\<lambda>r. Ok (wrap (\<lambda>err. withMessage err ''configure MSP failed'') r)))))"

definition loadMSPs :: "msp_env \<Rightarrow> int \<Rightarrow> (int \<times> bytes) list \<Rightarrow> bccspmsp list res outcome" where
  "loadMSPs env now mspConfigs = gmapM (load_one env now) mspConfigs"

text \<open>The certificates in a chain of PEM blocks; the value is \<open>None\<close> if the decoder never comes to an end.\<close>

partial_function (option) pem_certs :: "msp_env \<Rightarrow> int \<Rightarrow> bytes \<Rightarrow> certificate list option" where
  "pem_certs env now pemCerts =
    (if pemCerts = [] then Some []
     else (case e_pem_Decode env pemCerts of
       None \<Rightarrow> Some []
     | Some (block, rest) \<Rightarrow> Option.bind (pem_certs env now rest) (\<lambda>certs.
         if pem_Type block \<noteq> ''CERTIFICATE'' \<or> length (pem_Headers block) \<noteq> 0 then Some certs
         else (case e_ParseCertificate env (pem_Bytes block) of
           Inl err \<Rightarrow> Some certs
         | Inr cert \<Rightarrow> if ValidateCertificateDates now cert = None then Some (cert # certs) else Some certs))))"

text \<open>What \<open>addCertsToConfig\<close> adds to the pool of the configuration.\<close>

primrec addCertsToConfig :: "msp_env \<Rightarrow> int \<Rightarrow> bytes list \<Rightarrow> certificate list option" where
  "addCertsToConfig env now [] = Some []"
| "addCertsToConfig env now (pemCerts # l) =
     Option.bind (pem_certs env now pemCerts) (\<lambda>cs. map_option (\<lambda>ds. cs @ ds) (addCertsToConfig env now l))"

text \<open>
  \<open>createMSPManager\<close> and \<open>New\<close>: the membership, and what is added to the pool of TLS certificates for each name of an MSP.
  \<open>poolGet\<close> is the error of the pool.
\<close>

definition membership_New :: "msp_env \<Rightarrow> int \<Rightarrow> goerr option \<Rightarrow> (int \<times> bytes) list \<Rightarrow> (identityImpl \<times> certificate list option list) res outcome" where
  "membership_New env now poolGet cfgMSPs =
     gbind (if length cfgMSPs > 0
       then gbind (obind (loadMSPs env now cfgMSPs) (\<lambda>r. Ok (wrap (\<lambda>err. withMessage err ''load MSPs from config failed'') r))) (\<lambda>msps.
         let certsByMsp = fold (\<lambda>m. AList.update (msp_name m) (msp_tlsRootCerts m @ msp_tlsIntermediateCerts m)) msps [] in
         Ok (Inr (mgr_Setup msps NewMSPManager, map (\<lambda>e. ToLower (fst e)) certsByMsp, map (\<lambda>e. addCertsToConfig env now (snd e)) certsByMsp)))
       else Ok (Inr (NewMSPManager, [], []))) (\<lambda>(mspManager, mspNames, pool).
     case poolGet of
       Some err \<Rightarrow> Ok (Inl err)
     | None \<Rightarrow> Ok (Inr (\<lparr>ii_mspManager = mspManager, ii_msps = mspNames\<rparr>, pool)))"

end
