(* ===== verification/MSP_Theorems.thy ===== *)
theory MSP_Theorems
  imports Membership
begin

text \<open>
  What it means for an identity to be valid and to satisfy a principal: the code keeps the result of a validation in
  the identity and hands the identity from check to check, and is here shown to decide predicates on its certificate.
\<close>

section \<open>The verdict on an identity\<close>

definition fresh :: "identity \<Rightarrow> identity" where
  "fresh i = i\<lparr>id_validated := False, id_validationErr := None\<rparr>"

definition judged :: "identity \<Rightarrow> goerr option \<Rightarrow> identity" where
  "judged i r = i\<lparr>id_validated := True, id_validationErr := r\<rparr>"

lemma fresh_judged [simp]: "fresh (judged i r) = fresh i" "judged (judged i r) r' = judged i r'"
  by (simp_all add: fresh_def judged_def)

lemma fresh_fields [simp]: "id_cert (fresh i) = id_cert i" "id_Id (fresh i) = id_Id i" "id_pk (fresh i) = id_pk i" "id_Mspid (fresh i) = id_Mspid i"
  by (simp_all add: fresh_def)

lemma judged_fields [simp]:
  "id_cert (judged i r) = id_cert i" "id_validated (judged i r)" "id_validationErr (judged i r) = r"
  "id_Id (judged i r) = id_Id i" "id_pk (judged i r) = id_pk i" "id_Mspid (judged i r) = id_Mspid i"
  by (simp_all add: judged_def)

lemma chain_fresh [simp]: "getCertificationChainForBCCSPIdentity env msp (fresh i) = getCertificationChainForBCCSPIdentity env msp i"
  by (simp add: getCertificationChainForBCCSPIdentity_def)

lemma units_fresh [simp]: "GetOrganizationalUnits env own (fresh i) = GetOrganizationalUnits env own i"
  by (simp add: GetOrganizationalUnits_def getCertificationChainIdentifier_def cong: sum.case_cong)

lemma role_fresh [simp]: "hasOURoleInternal env own msp (fresh i) r = hasOURoleInternal env own msp i r"
  by (simp add: hasOURoleInternal_def cong: sum.case_cong option.case_cong)

lemma ous_fresh [simp]: "internalValidateIdentityOus env own msp (fresh i) = internalValidateIdentityOus env own msp i"
  by (simp add: internalValidateIdentityOus_def validateIdentityOUsV1_def validateIdentityOUsV11_def validateIdentityOUsV142_def)

lemma admins_fresh [simp]: "isInAdmins msp (fresh i) = isInAdmins msp i"
  by (simp add: isInAdmins_def)

text \<open>The result of a first validation.\<close>

definition verdict :: "msp_env \<Rightarrow> bccspmsp \<Rightarrow> bccspmsp \<Rightarrow> identity \<Rightarrow> goerr option outcome" where
  "verdict env own msp i = obind (getCertificationChainForBCCSPIdentity env msp i) (\<lambda>r. case r of
     Inl err \<Rightarrow> Ok (Some (withMessage err ''could not obtain certification chain''))
   | Inr validationChain \<Rightarrow>
       obind (validateCertAgainstChain env msp (id_cert i) validationChain) (\<lambda>r. case r of
         Some err \<Rightarrow> Ok (Some (withMessage err ''could not validate identity against certification chain''))
       | None \<Rightarrow> obind (internalValidateIdentityOus env own msp i) (\<lambda>r. Ok (case r of
             Some err \<Rightarrow> Some (withMessage err ''could not validate identity's OUs'')
           | None \<Rightarrow> None))))"

lemma verdict_fresh [simp]: "verdict env own msp (fresh i) = verdict env own msp i"
  by (simp add: verdict_def cong: sum.case_cong option.case_cong)

definition valid :: "msp_env \<Rightarrow> bccspmsp \<Rightarrow> bccspmsp \<Rightarrow> identity \<Rightarrow> bool" where
  "valid env own msp i \<longleftrightarrow> verdict env own msp i = Ok None"

text \<open>What an identity remembers is the verdict of this MSP.\<close>

definition coherent :: "msp_env \<Rightarrow> bccspmsp \<Rightarrow> bccspmsp \<Rightarrow> identity \<Rightarrow> bool" where
  "coherent env own msp i \<longleftrightarrow>
     (if id_validated i then verdict env own msp i = Ok (id_validationErr i) else id_validationErr i = None)"

lemma coherent_fresh [simp]: "coherent env own msp (fresh i)"
  by (simp add: coherent_def fresh_def)

lemma verdict_cong: "fresh i = fresh j \<Longrightarrow> verdict env own msp i = verdict env own msp j"
  by (metis verdict_fresh)

lemma coherent_judged: "verdict env own msp i = Ok r \<Longrightarrow> coherent env own msp (judged i r)"
  using verdict_cong [of "judged i r" i env own msp] by (simp add: coherent_def)

lemma validate_unfold:
  assumes "\<not> id_validated i" "id_validationErr i = None"
  shows "validateIdentity env own msp i = obind (verdict env own msp i) (\<lambda>r. Ok (r, judged i r))"
proof -
  let ?i = "i\<lparr>id_validated := True\<rparr>"
  have f: "fresh ?i = fresh i" by (simp add: fresh_def)
  have "getCertificationChainForBCCSPIdentity env msp ?i = getCertificationChainForBCCSPIdentity env msp i"
    "internalValidateIdentityOus env own msp ?i = internalValidateIdentityOus env own msp i"
    using chain_fresh [of env msp ?i] chain_fresh [of env msp i] ous_fresh [of env own msp ?i] ous_fresh [of env own msp i] by (simp_all add: f)
  moreover have "?i = judged i None" using assms(2) by (simp add: judged_def)
  moreover have "?i\<lparr>id_validationErr := Some err\<rparr> = judged i (Some err)" for err by (simp add: judged_def)
  ultimately show ?thesis using assms(1)
    by (auto simp: validateIdentity_def verdict_def Let_def obind_assoc intro!: obind_cong split: sum.splits option.splits)
qed

lemma validate_eq:
  assumes "coherent env own msp i"
  shows "validateIdentity env own msp i = obind (verdict env own msp i) (\<lambda>r. Ok (r, judged i r))"
proof (cases "id_validated i")
  case True
  then have "judged i (id_validationErr i) = i" by (simp add: judged_def)
  then show ?thesis using assms True by (simp add: validateIdentity_def coherent_def)
next
  case False
  then show ?thesis using assms by (intro validate_unfold) (simp_all add: coherent_def)
qed

section \<open>What a principal grants\<close>

definition has_role :: "msp_env \<Rightarrow> bccspmsp \<Rightarrow> bccspmsp \<Rightarrow> identity \<Rightarrow> MSPRoleType \<Rightarrow> bool" where
  "has_role env own msp i r \<longleftrightarrow> msp_ouEnforcement msp \<and> hasOURoleInternal env own msp i r = Ok None"

definition role_granted :: "msp_env \<Rightarrow> bccspmsp \<Rightarrow> bccspmsp \<Rightarrow> identity \<Rightarrow> MSPRoleType \<Rightarrow> bool" where
  "role_granted env own msp i r = (case r of
     MSPRole_MEMBER \<Rightarrow> valid env own msp i
   | MSPRole_ADMIN \<Rightarrow> isInAdmins msp i \<or> msp_version msp > MSPv1_3 \<and> valid env own msp i \<and> has_role env own msp i MSPRole_ADMIN
   | MSPRole_ORDERER \<Rightarrow> msp_version msp > MSPv1_3 \<and> valid env own msp i \<and> has_role env own msp i MSPRole_ORDERER
   | MSPRole_Other n \<Rightarrow> False
   | _ \<Rightarrow> valid env own msp i \<and> has_role env own msp i r)"

definition grants :: "msp_env \<Rightarrow> bccspmsp \<Rightarrow> bccspmsp \<Rightarrow> identity \<Rightarrow> principal \<Rightarrow> bool" where
  "grants env own msp i p = (case p_Classification p of
     MSPPrincipal_ROLE \<Rightarrow> (case e_un_MSPRole env (p_Principal p) of
         Inl err \<Rightarrow> False
       | Inr r \<Rightarrow> mr_MspIdentifier r = msp_name msp \<and> role_granted env own msp i (mr_Role r))
   | MSPPrincipal_IDENTITY \<Rightarrow> (\<exists>j. msp_DeserializeIdentity env msp (p_Principal p) = Ok (Inr j)
       \<and> x_Raw (id_cert i) = x_Raw (id_cert j) \<and> valid env msp msp j)
   | MSPPrincipal_ORGANIZATION_UNIT \<Rightarrow> (case e_un_OrganizationUnit env (p_Principal p) of
         Inl err \<Rightarrow> False
       | Inr u \<Rightarrow> ou_MspIdentifier u = msp_name msp \<and> valid env own msp i
           \<and> (\<exists>ous ou. GetOrganizationalUnits env own i = Ok ous \<and> ou \<in> set ous
                \<and> oui_Identifier ou = ou_Identifier u \<and> oui_CertifiersIdentifier ou = ou_Certifiers u))
   | MSPPrincipal_ANONYMITY \<Rightarrow> msp_version msp > MSPv1_1 \<and> e_un_Anonymity env (p_Principal p) = Inr 0
   | _ \<Rightarrow> False)"

lemma valid_fresh [simp]: "valid env own msp (fresh i) = valid env own msp i"
  by (simp add: valid_def)

lemma role_granted_fresh [simp]: "role_granted env own msp (fresh i) r = role_granted env own msp i r"
  by (cases r) (simp_all add: role_granted_def has_role_def)

lemma grants_fresh [simp]: "grants env own msp (fresh i) p = grants env own msp i p"
  by (simp add: grants_def cong: classification.case_cong sum.case_cong)

section \<open>The code decides it\<close>

text \<open>
  \<open>decides env own msp i m P\<close>: the check \<open>m\<close> of the identity \<open>i\<close> succeeds exactly if \<open>P\<close>, and leaves the identity as it
  was, but for what it remembers.
\<close>

definition tracks :: "msp_env \<Rightarrow> bccspmsp \<Rightarrow> bccspmsp \<Rightarrow> identity \<Rightarrow> Identity \<Rightarrow> bool" where
  "tracks env own msp i id1 \<longleftrightarrow> (\<exists>j. id1 = BccspIdentity j \<and> fresh j = fresh i \<and> coherent env own msp j)"

definition decides :: "msp_env \<Rightarrow> bccspmsp \<Rightarrow> bccspmsp \<Rightarrow> identity \<Rightarrow> (goerr option \<times> Identity) outcome \<Rightarrow> bool \<Rightarrow> bool" where
  "decides env own msp i m P \<longleftrightarrow>
     (case m of Ok (r, id1) \<Rightarrow> tracks env own msp i id1 \<and> (r = None) = P | _ \<Rightarrow> \<not> P)"

lemma decides_Ok: "tracks env own msp i id1 \<Longrightarrow> (r = None) = P \<Longrightarrow> decides env own msp i (Ok (r, id1)) P"
  by (simp add: decides_def)

lemma decides_Panic: "\<not> P \<Longrightarrow> decides env own msp i Panic P"
  by (simp add: decides_def)

lemma tracks_refl: "coherent env own msp i \<Longrightarrow> tracks env own msp i (BccspIdentity i)"
  by (simp add: tracks_def)

lemma decides_iff: "decides env own msp i m P \<Longrightarrow> (\<exists>id1. m = Ok (None, id1)) = P"
  by (auto simp: decides_def split: outcome.splits prod.splits)

lemma decides_cong: "decides env own msp i m P \<Longrightarrow> P = Q \<Longrightarrow> decides env own msp i m Q"
  by simp

lemma decides_then:
  assumes "decides env own msp i m P"
    and "\<And>id1. tracks env own msp i id1 \<Longrightarrow> decides env own msp i (f id1) Q"
  shows "decides env own msp i (obind m (\<lambda>(r, id1). case r of Some err \<Rightarrow> Ok (Some (g err), id1) | None \<Rightarrow> f id1)) (P \<and> Q)"
proof (cases m)
  case (Ok x)
  obtain r id1 where x: "x = (r, id1)" by (cases x)
  have d: "tracks env own msp i id1" "(r = None) = P" using assms(1) by (simp_all add: Ok x decides_def)
  show ?thesis
  proof (cases r)
    case None
    then show ?thesis using assms(2) [OF d(1)] d(2) by (simp add: Ok x)
  next
    case (Some err)
    then show ?thesis using d by (simp add: Ok x decides_def)
  qed
qed (use assms(1) in \<open>simp_all add: decides_def\<close>)

lemma decides_Validate:
  assumes "tracks env own msp i id1"
  shows "decides env own msp i (msp_Validate env own msp id1) (valid env own msp i)"
proof -
  obtain j where j: "id1 = BccspIdentity j" "fresh j = fresh i" "coherent env own msp j" using assms by (auto simp: tracks_def)
  have v: "verdict env own msp j = verdict env own msp i" using j(2) by (rule verdict_cong)
  show ?thesis
  proof (cases "verdict env own msp i")
    case (Ok r)
    then have "tracks env own msp i (BccspIdentity (judged j r))" using j v coherent_judged [of env own msp j r] by (simp add: tracks_def)
    then show ?thesis using Ok by (simp add: decides_def msp_Validate_def j(1) validate_eq [OF j(3)] v valid_def)
  qed (simp_all add: decides_def msp_Validate_def j(1) validate_eq [OF j(3)] v valid_def)
qed

lemma decides_hasOURole:
  assumes "tracks env own msp i id1"
  shows "decides env own msp i (obind (hasOURole env own msp id1 r) (\<lambda>e. Ok (case e of Some err \<Rightarrow> Some (g err) | None \<Rightarrow> None, id1)))
     (has_role env own msp i r)"
proof -
  obtain j where j: "id1 = BccspIdentity j" "fresh j = fresh i" using assms by (auto simp: tracks_def)
  then have "hasOURoleInternal env own msp j r = hasOURoleInternal env own msp i r" by (metis role_fresh)
  then show ?thesis using assms
    by (cases "hasOURoleInternal env own msp i r")
      (auto simp: decides_def hasOURole_def has_role_def j(1) split: option.splits)
qed

lemma decides_validate_role:
  assumes "coherent env own msp i"
  shows "decides env own msp i (validate_role env own msp (BccspIdentity i) r msg) (valid env own msp i \<and> has_role env own msp i r)"
  unfolding validate_role_def
  by (intro decides_then decides_Validate decides_hasOURole tracks_refl assms)

lemma decides_role:
  assumes "coherent env own msp i" "msp_version msp \<le> MSPv1_3 \<or> \<not> msp_ouEnforcement msp
      \<or> mr_Role r \<noteq> MSPRole_ADMIN \<and> mr_Role r \<noteq> MSPRole_ORDERER"
  shows "decides env own msp i (satisfies_role env own msp (BccspIdentity i) r)
     (mr_MspIdentifier r = msp_name msp \<and> role_granted env own msp i (mr_Role r))"
proof (cases "mr_MspIdentifier r = msp_name msp")
  case True
  have "decides env own msp i (satisfies_role env own msp (BccspIdentity i) r) (role_granted env own msp i (mr_Role r))"
  proof (cases "mr_Role r")
    case MSPRole_MEMBER
    then show ?thesis using True decides_Validate [OF tracks_refl [OF assms(1)]] by (simp add: satisfies_role_def role_granted_def)
  next
    case MSPRole_ADMIN
    then show ?thesis using True assms by (auto simp: satisfies_role_def role_granted_def has_role_def intro!: decides_Ok tracks_refl)
  next
    case MSPRole_ORDERER
    then show ?thesis using True assms by (auto simp: satisfies_role_def role_granted_def has_role_def intro!: decides_Ok tracks_refl)
  qed (use True decides_validate_role [OF assms(1)] in \<open>auto simp: satisfies_role_def role_granted_def intro!: decides_Ok tracks_refl assms\<close>)
  then show ?thesis using True by simp
qed (use assms(1) in \<open>auto simp: satisfies_role_def intro!: decides_Ok tracks_refl\<close>)

lemma decides_identity:
  assumes "coherent env own msp i"
  shows "decides env own msp i (satisfies_identity env msp (BccspIdentity i) p)
     (\<exists>j. msp_DeserializeIdentity env msp (p_Principal p) = Ok (Inr j) \<and> x_Raw (id_cert i) = x_Raw (id_cert j) \<and> valid env msp msp j)"
proof (cases "msp_DeserializeIdentity env msp (p_Principal p)")
  case (Ok r)
  then show ?thesis
  proof (cases r)
    case (Inr j)
    have "coherent env msp msp j"
      using Ok Inr unfolding msp_DeserializeIdentity_def deserializeIdentityInternal_def newIdentity_def
      by (auto simp: gbind_eq_Inr coherent_def split: if_splits option.splits prod.splits)
    then have "validateIdentity env msp msp j = obind (verdict env msp msp j) (\<lambda>r. Ok (r, judged j r))" by (rule validate_eq)
    then show ?thesis using Ok Inr tracks_refl [OF assms]
      by (cases "verdict env msp msp j") (auto simp: satisfies_identity_def decides_def valid_def)
  qed (use tracks_refl [OF assms] in \<open>simp add: satisfies_identity_def decides_def\<close>)
qed (simp_all add: satisfies_identity_def decides_def)

lemma decides_unit:
  assumes "coherent env own msp i"
  shows "decides env own msp i (satisfies_unit env own msp (BccspIdentity i) u) (ou_MspIdentifier u = msp_name msp \<and> valid env own msp i
     \<and> (\<exists>ous ou. GetOrganizationalUnits env own i = Ok ous \<and> ou \<in> set ous
          \<and> oui_Identifier ou = ou_Identifier u \<and> oui_CertifiersIdentifier ou = ou_Certifiers u))"
proof (cases "ou_MspIdentifier u = msp_name msp")
  case True
  let ?Q = "\<exists>ous ou. GetOrganizationalUnits env own i = Ok ous \<and> ou \<in> set ous
          \<and> oui_Identifier ou = ou_Identifier u \<and> oui_CertifiersIdentifier ou = ou_Certifiers u"
  let ?f = "\<lambda>id1. case id1 of OtherIdentity m \<Rightarrow> Ok (None, id1)
       | BccspIdentity i \<Rightarrow> obind (GetOrganizationalUnits env own i) (\<lambda>ous.
           Ok (if list_ex (\<lambda>ou. oui_Identifier ou = ou_Identifier u \<and> oui_CertifiersIdentifier ou = ou_Certifiers u) ous
               then None else Some (errorNew ''The identities do not match''), id1))"
  have f: "decides env own msp i (?f id1) ?Q" if t: "tracks env own msp i id1" for id1
  proof -
    obtain j where j: "id1 = BccspIdentity j" "fresh j = fresh i" using t by (auto simp: tracks_def)
    then have "GetOrganizationalUnits env own j = GetOrganizationalUnits env own i" by (metis units_fresh)
    then show ?thesis using t j(1) by (cases "GetOrganizationalUnits env own i") (auto simp: decides_def list_ex_iff)
  qed
  show ?thesis
    using True decides_then [OF decides_Validate [OF tracks_refl [OF assms]] f, where g = "\<lambda>e. e"] by (simp add: satisfies_unit_def)
qed (use assms in \<open>auto simp: satisfies_unit_def intro!: decides_Ok tracks_refl\<close>)

lemma decides_PreV13:
  assumes "coherent env own msp i" "msp_version msp \<le> MSPv1_3 \<or> \<not> msp_ouEnforcement msp
      \<or> (\<forall>r. p_Classification p = MSPPrincipal_ROLE \<and> e_un_MSPRole env (p_Principal p) = Inr r
           \<longrightarrow> mr_Role r \<noteq> MSPRole_ADMIN \<and> mr_Role r \<noteq> MSPRole_ORDERER)" "p_Classification p \<noteq> MSPPrincipal_ANONYMITY"
  shows "decides env own msp i (satisfiesPrincipalInternalPreV13 env own msp (BccspIdentity i) p) (grants env own msp i p)"
proof (cases "p_Classification p")
  case MSPPrincipal_ROLE
  then show ?thesis using assms decides_role [OF assms(1)]
    by (cases "e_un_MSPRole env (p_Principal p)")
      (auto simp: satisfiesPrincipalInternalPreV13_def grants_def intro!: decides_Ok tracks_refl)
next
  case MSPPrincipal_ORGANIZATION_UNIT
  then show ?thesis using assms(1) decides_unit [OF assms(1)]
    by (cases "e_un_OrganizationUnit env (p_Principal p)")
      (auto simp: satisfiesPrincipalInternalPreV13_def grants_def intro!: decides_Ok tracks_refl)
next
  case MSPPrincipal_IDENTITY
  then show ?thesis using decides_identity [OF assms(1)] by (simp add: satisfiesPrincipalInternalPreV13_def grants_def)
qed (use assms in \<open>auto simp: satisfiesPrincipalInternalPreV13_def grants_def intro!: decides_Ok tracks_refl\<close>)

lemma decides_V13:
  assumes "coherent env own msp i" "msp_version msp > MSPv1_1" "msp_version msp \<le> MSPv1_3 \<or> \<not> msp_ouEnforcement msp
      \<or> (\<forall>r. p_Classification p = MSPPrincipal_ROLE \<and> e_un_MSPRole env (p_Principal p) = Inr r
           \<longrightarrow> mr_Role r \<noteq> MSPRole_ADMIN \<and> mr_Role r \<noteq> MSPRole_ORDERER)"
  shows "decides env own msp i (satisfiesPrincipalInternalV13 env own msp (BccspIdentity i) p) (grants env own msp i p)"
proof (cases "p_Classification p")
  case MSPPrincipal_ANONYMITY
  then show ?thesis using assms
    by (cases "e_un_Anonymity env (p_Principal p)")
      (auto simp: satisfiesPrincipalInternalV13_def grants_def intro!: decides_Ok tracks_refl)
next
  case MSPPrincipal_COMBINED
  then show ?thesis using assms by (auto simp: satisfiesPrincipalInternalV13_def grants_def intro!: decides_Ok tracks_refl)
qed (use decides_PreV13 [OF assms(1,3)] in \<open>simp_all add: satisfiesPrincipalInternalV13_def\<close>)

lemma decides_V142:
  assumes "coherent env own msp i" "msp_version msp > MSPv1_3"
  shows "decides env own msp i (satisfiesPrincipalInternalV142 env own msp (BccspIdentity i) p) (grants env own msp i p)"
proof (cases "p_Classification p = MSPPrincipal_ROLE \<and> msp_ouEnforcement msp")
  case True
  show ?thesis
  proof (cases "e_un_MSPRole env (p_Principal p)")
    case (Inr r)
    note role = decides_validate_role [OF assms(1)]
    consider (other) "mr_MspIdentifier r \<noteq> msp_name msp" | (adm) "mr_MspIdentifier r = msp_name msp" "mr_Role r = MSPRole_ADMIN"
      | (ord) "mr_MspIdentifier r = msp_name msp" "mr_Role r = MSPRole_ORDERER"
      | (rest) "mr_MspIdentifier r = msp_name msp" "mr_Role r \<noteq> MSPRole_ADMIN" "mr_Role r \<noteq> MSPRole_ORDERER" by blast
    then show ?thesis
    proof cases
      case other
      then show ?thesis using True Inr assms(1) by (auto simp: satisfiesPrincipalInternalV142_def grants_def intro!: decides_Ok tracks_refl)
    next
      case adm
      show ?thesis
      proof (cases "isInAdmins msp i")
        case True
        then show ?thesis using \<open>p_Classification p = _ \<and> _\<close> adm Inr assms(1)
          by (auto simp: satisfiesPrincipalInternalV142_def grants_def role_granted_def intro!: decides_Ok tracks_refl)
      next
        case False
        then show ?thesis using True adm Inr assms(2) role [of MSPRole_ADMIN]
          by (simp add: satisfiesPrincipalInternalV142_def grants_def role_granted_def)
      qed
    next
      case ord
      then show ?thesis using True Inr assms(2) role [of MSPRole_ORDERER]
        by (simp add: satisfiesPrincipalInternalV142_def grants_def role_granted_def)
    next
      case rest
      then show ?thesis using True Inr decides_V13 [OF assms(1), of p] assms(2) by (simp add: satisfiesPrincipalInternalV142_def)
    qed
  qed (use True assms(1) in \<open>auto simp: satisfiesPrincipalInternalV142_def grants_def intro!: decides_Ok tracks_refl\<close>)
next
  case False
  then show ?thesis using decides_V13 [OF assms(1), of p] assms(2) by (auto simp: satisfiesPrincipalInternalV142_def)
qed

lemma decides_internal:
  assumes "coherent env own msp i"
  shows "decides env own msp i (internalSatisfiesPrincipalInternal env own msp (BccspIdentity i) p) (grants env own msp i p)"
proof -
  consider "msp_version msp \<le> MSPv1_1" | "msp_version msp = MSPv1_3" | "msp_version msp > MSPv1_3" by linarith
  then show ?thesis
  proof cases
    case 1
    then have v: "msp_version msp = 0 \<or> msp_version msp = 1" by auto
    show ?thesis
    proof (cases "p_Classification p = MSPPrincipal_ANONYMITY")
      case True
      then show ?thesis using 1 v assms
        by (auto simp: internalSatisfiesPrincipalInternal_def satisfiesPrincipalInternalPreV13_def grants_def intro!: decides_Ok tracks_refl)
    next
      case False
      then show ?thesis using 1 v decides_PreV13 [OF assms, of p] by (auto simp: internalSatisfiesPrincipalInternal_def)
    qed
  qed (use decides_V13 [OF assms, of p] decides_V142 [OF assms, of p] in \<open>simp_all add: internalSatisfiesPrincipalInternal_def\<close>)
qed

lemma decides_tracked: "fresh j = fresh i \<Longrightarrow> decides env own msp j m P \<Longrightarrow> decides env own msp i m P"
  by (simp add: decides_def tracks_def split: outcome.splits prod.splits)

lemma decides_each:
  assumes "tracks env own msp i id1"
  shows "decides env own msp i (satisfy_each env own msp ps id1) (\<forall>p\<in>set ps. grants env own msp i p)"
  using assms
proof (induction ps arbitrary: id1)
  case Nil
  then show ?case by (simp add: decides_Ok)
next
  case (Cons p ps)
  obtain j where j: "id1 = BccspIdentity j" "fresh j = fresh i" "coherent env own msp j" using Cons.prems by (auto simp: tracks_def)
  have g: "grants env own msp j p = grants env own msp i p" using j(2) by (metis grants_fresh)
  have d: "decides env own msp i (internalSatisfiesPrincipalInternal env own msp id1 p) (grants env own msp i p)"
    unfolding j(1) by (rule decides_cong [OF decides_tracked [OF j(2) decides_internal [OF j(3)]] g])
  show ?case using decides_then [OF d Cons.IH, where g = "\<lambda>e. e"] by simp
qed

section \<open>Combined principals\<close>

lemma collect_all_Cons_iff:
  "collect_all f (cp # cps) = Some (Inr ps) \<longleftrightarrow> (\<exists>qs rs. f cp = Some (Inr qs) \<and> collect_all f cps = Some (Inr rs) \<and> ps = qs @ rs)"
proof (cases "f cp")
  case (Some r)
  then show ?thesis
  proof (cases r)
    case (Inr qs)
    then show ?thesis
    proof (cases "collect_all f cps")
      case (Some r')
      then show ?thesis using Inr \<open>f cp = Some r\<close> by (cases r') auto
    qed (use Inr \<open>f cp = Some r\<close> in simp)
  qed simp
qed simp

lemma collect_all_Some_iff:
  "collect_all f cps = Some (Inr ps) \<longleftrightarrow> (\<exists>pss. list_all2 (\<lambda>cp qs. f cp = Some (Inr qs)) cps pss \<and> ps = concat pss)"
proof (induction cps arbitrary: ps)
  case (Cons cp cps)
  have c: "(\<exists>pss. list_all2 R (cp # cps) pss \<and> ps = concat pss) \<longleftrightarrow> (\<exists>qs pss. R cp qs \<and> list_all2 R cps pss \<and> ps = qs @ concat pss)" for R :: "'b \<Rightarrow> 'a list \<Rightarrow> bool"
  proof
    assume "\<exists>qs pss. R cp qs \<and> list_all2 R cps pss \<and> ps = qs @ concat pss"
    then obtain qs pss where "list_all2 R (cp # cps) (qs # pss) \<and> ps = concat (qs # pss)" by auto
    then show "\<exists>pss. list_all2 R (cp # cps) pss \<and> ps = concat pss" by blast
  next
    assume "\<exists>pss. list_all2 R (cp # cps) pss \<and> ps = concat pss"
    then obtain qs pss where "R cp qs" "list_all2 R cps pss" "ps = concat (qs # pss)" unfolding list_all2_Cons1 by blast
    then show "\<exists>qs pss. R cp qs \<and> list_all2 R cps pss \<and> ps = qs @ concat pss" by auto
  qed
  show ?case unfolding collect_all_Cons_iff Cons.IH c by auto
qed auto

lemma collect_leaf: "p_Classification p \<noteq> MSPPrincipal_COMBINED \<Longrightarrow> collectPrincipals env v p = Some (Inr [p])"
  by (subst collectPrincipals.simps) (cases "p_Classification p"; simp)

lemma collect_combined:
  assumes "p_Classification p = MSPPrincipal_COMBINED"
  shows "collectPrincipals env v p = Some (Inr ps) \<longleftrightarrow> v > MSPv1_1 \<and> (\<exists>cps pss. e_un_CombinedPrincipal env (p_Principal p) = Inr cps \<and> cps \<noteq> []
    \<and> list_all2 (\<lambda>cp qs. collectPrincipals env v cp = Some (Inr qs)) cps pss \<and> ps = concat pss)"
  by (subst collectPrincipals.simps) (auto simp: assms collect_all_Some_iff split: sum.splits)

text \<open>\<open>satisfied_by\<close>: the identity satisfies the principal.\<close>

definition satisfied_by :: "msp_env \<Rightarrow> bccspmsp \<Rightarrow> bccspmsp \<Rightarrow> identity \<Rightarrow> principal \<Rightarrow> bool" where
  "satisfied_by env own msp i p \<longleftrightarrow> (\<exists>id1. SatisfiesPrincipal env own msp (BccspIdentity i) p = Some (Ok (None, id1)))"

lemma satisfied_collect:
  assumes "coherent env own msp i"
  shows "satisfied_by env own msp i p \<longleftrightarrow>
    (\<exists>ps. collectPrincipals env (msp_version msp) p = Some (Inr ps) \<and> (\<forall>q\<in>set ps. grants env own msp i q))"
proof (cases "collectPrincipals env (msp_version msp) p")
  case (Some r)
  then show ?thesis
  proof (cases r)
    case (Inr ps)
    then show ?thesis
      using Some decides_iff [OF decides_each [OF tracks_refl [OF assms], of ps]] by (simp add: satisfied_by_def SatisfiesPrincipal_def)
  qed (simp add: satisfied_by_def SatisfiesPrincipal_def)
qed (simp add: satisfied_by_def SatisfiesPrincipal_def)

lemma all2_grants:
  assumes "list_all2 (\<lambda>cp qs. f cp = Some (Inr qs)) cps pss"
  shows "(\<forall>q\<in>set (concat pss). P q) \<longleftrightarrow> (\<forall>cp\<in>set cps. \<exists>qs. f cp = Some (Inr qs) \<and> (\<forall>q\<in>set qs. P q))"
  using assms by (induction rule: list_all2_induct) auto

lemma all2_exists: "(\<forall>cp\<in>set cps. \<exists>qs. f cp = Some (Inr qs)) \<Longrightarrow> \<exists>pss. list_all2 (\<lambda>cp qs. f cp = Some (Inr qs)) cps pss"
  by (rule exI [of _ "map (\<lambda>cp. SOME qs. f cp = Some (Inr qs)) cps"]) (auto simp: list_all2_conv_all_nth intro: someI_ex)

lemma satisfied_unfold:
  assumes "coherent env own msp i"
  shows "satisfied_by env own msp i p \<longleftrightarrow>
    (if p_Classification p = MSPPrincipal_COMBINED
     then msp_version msp > MSPv1_1 \<and> (\<exists>cps. e_un_CombinedPrincipal env (p_Principal p) = Inr cps \<and> cps \<noteq> []
        \<and> (\<forall>cp\<in>set cps. satisfied_by env own msp i cp))
     else grants env own msp i p)"
proof (cases "p_Classification p = MSPPrincipal_COMBINED")
  case True
  let ?f = "collectPrincipals env (msp_version msp)"
  have "(\<exists>pss. list_all2 (\<lambda>cp qs. ?f cp = Some (Inr qs)) cps pss \<and> (\<forall>q\<in>set (concat pss). grants env own msp i q))
      \<longleftrightarrow> (\<forall>cp\<in>set cps. \<exists>qs. ?f cp = Some (Inr qs) \<and> (\<forall>q\<in>set qs. grants env own msp i q))" for cps
    using all2_grants [of ?f cps _ "grants env own msp i"] all2_exists [of cps ?f] by blast
  then have key: "(\<exists>pss. list_all2 (\<lambda>cp qs. ?f cp = Some (Inr qs)) cps pss \<and> (\<forall>q\<in>set (concat pss). grants env own msp i q))
      \<longleftrightarrow> (\<forall>cp\<in>set cps. satisfied_by env own msp i cp)" for cps
    unfolding satisfied_collect [OF assms] .
  have "satisfied_by env own msp i p \<longleftrightarrow> msp_version msp > MSPv1_1 \<and> (\<exists>cps. e_un_CombinedPrincipal env (p_Principal p) = Inr cps \<and> cps \<noteq> []
      \<and> (\<exists>pss. list_all2 (\<lambda>cp qs. ?f cp = Some (Inr qs)) cps pss \<and> (\<forall>q\<in>set (concat pss). grants env own msp i q)))"
    unfolding satisfied_collect [OF assms] collect_combined [OF True] by blast
  then show ?thesis unfolding key using True by simp
next
  case False
  then show ?thesis by (simp add: satisfied_collect [OF assms] collect_leaf)
qed

text \<open>A combined principal is encoded with its parts in it, which are shorter than the whole.\<close>

definition parts_shorter :: "msp_env \<Rightarrow> bool" where
  "parts_shorter env \<longleftrightarrow> (\<forall>b cps. e_un_CombinedPrincipal env b = Inr cps \<longrightarrow> (\<forall>cp\<in>set cps. length (p_Principal cp) < length b))"

lemma collect_all_returns: "(\<And>cp. cp \<in> set cps \<Longrightarrow> f cp \<noteq> None) \<Longrightarrow> collect_all f cps \<noteq> None"
proof (induction cps)
  case (Cons cp cps)
  then obtain r where "f cp = Some r" by fastforce
  moreover obtain r' where "collect_all f cps = Some r'" using Cons by fastforce
  ultimately show ?case by (auto split: sum.splits)
qed simp

lemma collect_returns: "parts_shorter env \<Longrightarrow> collectPrincipals env v p \<noteq> None"
proof (induction "length (p_Principal p)" arbitrary: p rule: less_induct)
  case less
  show ?case
  proof (cases "p_Classification p = MSPPrincipal_COMBINED")
    case True
    show ?thesis
    proof (cases "e_un_CombinedPrincipal env (p_Principal p)")
      case (Inr cps)
      then have "collectPrincipals env v cp \<noteq> None" if "cp \<in> set cps" for cp
        using less that unfolding parts_shorter_def by blast
      then show ?thesis using True Inr collect_all_returns [of cps "collectPrincipals env v"]
        by (subst collectPrincipals.simps) auto
    qed (subst collectPrincipals.simps, simp add: True)
  qed (simp add: collect_leaf)
qed

end
