(* ===== verification/MSP_Properties.thy ===== *)
theory MSP_Properties
  imports MSP_Theorems
begin

text \<open>
  What a valid identity is, that it has one role, what the setup of an MSP establishes, and the properties of the MSP and
  of the membership of a channel.
\<close>

section \<open>A valid identity is trusted\<close>

text \<open>One chain leads to a trusted authority, the signer is a leaf of the tree of authorities, and no list of the signer revokes the certificate.\<close>

definition trusted :: "msp_env \<Rightarrow> bccspmsp \<Rightarrow> certificate \<Rightarrow> bool" where
  "trusted env msp cert \<longleftrightarrow> \<not> x_IsCA cert \<and> (\<exists>opts c0 signer rest ski.
     msp_opts msp = Some opts \<and> e_Verify_chain env cert (getValidityOptsForCert opts cert) = Inr [c0 # signer # rest]
     \<and> x_Raw signer \<notin> set (msp_internalNodes msp) \<and> getSubjectKeyIdentifierFromCert env signer = Inr ski
     \<and> (\<forall>crl\<in>set (msp_CRL msp). \<exists>aki. getAuthorityKeyIdentifierFromCrl env crl = Inr aki \<and> (aki = ski \<longrightarrow> \<not> revokes env signer cert crl)))"

lemma unique_chain_iff:
  "getUniqueValidationChain env msp cert opts = Inr chain \<longleftrightarrow> msp_opts msp \<noteq> None \<and> e_Verify_chain env cert opts = Inr [chain]"
  by (auto simp: getUniqueValidationChain_def split: sum.splits list.splits)

lemma getValidationChain_iff:
  "getValidationChain env msp cert False = Ok (Inr chain) \<longleftrightarrow> (\<exists>opts c0 signer rest. msp_opts msp = Some opts \<and> chain = c0 # signer # rest
     \<and> e_Verify_chain env cert (getValidityOptsForCert opts cert) = Inr [chain] \<and> x_Raw signer \<notin> set (msp_internalNodes msp))"
proof (cases "msp_opts msp")
  case (Some opts)
  have "getValidationChain env msp cert False = Ok (Inr chain) \<longleftrightarrow> e_Verify_chain env cert (getValidityOptsForCert opts cert) = Inr [chain]
      \<and> \<not> length chain < 2 \<and> x_Raw (chain ! 1) \<notin> set (msp_internalNodes msp)"
  proof (cases "getUniqueValidationChain env msp cert (getValidityOptsForCert opts cert)")
    case (Inl err)
    then have "e_Verify_chain env cert (getValidityOptsForCert opts cert) \<noteq> Inr [chain]"
      using unique_chain_iff [of env msp cert "getValidityOptsForCert opts cert" chain] Some by auto
    then show ?thesis using Inl by (simp add: getValidationChain_def Some)
  next
    case (Inr c)
    then have "e_Verify_chain env cert (getValidityOptsForCert opts cert) = Inr [c]" using unique_chain_iff by blast
    then show ?thesis using Inr by (auto simp: getValidationChain_def Some Let_def)
  qed
  moreover have "\<not> length chain < 2 \<longleftrightarrow> (\<exists>c0 signer rest. chain = c0 # signer # rest)" by (cases chain; cases "tl chain") auto
  ultimately show ?thesis using Some by auto
qed (simp add: getValidationChain_def)

lemma check_crls_None:
  "check_crls env signer ski cert crls = None \<longleftrightarrow>
    (\<forall>crl\<in>set crls. \<exists>aki. getAuthorityKeyIdentifierFromCrl env crl = Inr aki \<and> (aki = ski \<longrightarrow> \<not> revokes env signer cert crl))"
  by (induction crls) (auto split: sum.splits)

lemma against_chain_None:
  "validateCertAgainstChain env msp cert (c0 # signer # rest) = Ok None \<longleftrightarrow> (\<exists>ski. getSubjectKeyIdentifierFromCert env signer = Inr ski
     \<and> (\<forall>crl\<in>set (msp_CRL msp). \<exists>aki. getAuthorityKeyIdentifierFromCrl env crl = Inr aki \<and> (aki = ski \<longrightarrow> \<not> revokes env signer cert crl)))"
  by (auto simp: validateCertAgainstChain_def check_crls_None split: sum.splits)

lemma verdict_None_iff:
  "verdict env own msp i = Ok None \<longleftrightarrow> (\<exists>chain. getCertificationChainForBCCSPIdentity env msp i = Ok (Inr chain)
     \<and> validateCertAgainstChain env msp (id_cert i) chain = Ok None \<and> internalValidateIdentityOus env own msp i = Ok None)"
proof (cases "getCertificationChainForBCCSPIdentity env msp i")
  case (Ok r)
  then show ?thesis by (cases r) (auto simp: verdict_def obind_eq_Ok split: option.splits)
qed (simp_all add: verdict_def)

lemma valid_iff: "valid env own msp i \<longleftrightarrow> trusted env msp (id_cert i) \<and> internalValidateIdentityOus env own msp i = Ok None"
proof
  assume "valid env own msp i"
  then obtain chain where c: "getCertificationChainForBCCSPIdentity env msp i = Ok (Inr chain)"
    "validateCertAgainstChain env msp (id_cert i) chain = Ok None" "internalValidateIdentityOus env own msp i = Ok None"
    unfolding valid_def verdict_None_iff by blast
  then have nca: "\<not> x_IsCA (id_cert i)" "getValidationChain env msp (id_cert i) False = Ok (Inr chain)"
    by (auto simp: getCertificationChainForBCCSPIdentity_def split: if_splits)
  then obtain opts c0 signer rest where "msp_opts msp = Some opts" "chain = c0 # signer # rest"
    "e_Verify_chain env (id_cert i) (getValidityOptsForCert opts (id_cert i)) = Inr [chain]" "x_Raw signer \<notin> set (msp_internalNodes msp)"
    unfolding getValidationChain_iff by blast
  then show "trusted env msp (id_cert i) \<and> internalValidateIdentityOus env own msp i = Ok None"
    using nca(1) c(2,3) unfolding trusted_def by (simp add: against_chain_None)
next
  assume a: "trusted env msp (id_cert i) \<and> internalValidateIdentityOus env own msp i = Ok None"
  then obtain opts c0 signer rest ski where o: "msp_opts msp = Some opts" "\<not> x_IsCA (id_cert i)"
    "e_Verify_chain env (id_cert i) (getValidityOptsForCert opts (id_cert i)) = Inr [c0 # signer # rest]"
    "x_Raw signer \<notin> set (msp_internalNodes msp)" "getSubjectKeyIdentifierFromCert env signer = Inr ski"
    "\<forall>crl\<in>set (msp_CRL msp). \<exists>aki. getAuthorityKeyIdentifierFromCrl env crl = Inr aki \<and> (aki = ski \<longrightarrow> \<not> revokes env signer (id_cert i) crl)"
    unfolding trusted_def by blast
  then have "getCertificationChainForBCCSPIdentity env msp i = Ok (Inr (c0 # signer # rest))"
    using getValidationChain_iff [of env msp "id_cert i" "c0 # signer # rest"] by (simp add: getCertificationChainForBCCSPIdentity_def)
  moreover have "validateCertAgainstChain env msp (id_cert i) (c0 # signer # rest) = Ok None" using o(5,6) unfolding against_chain_None by blast
  ultimately show "valid env own msp i" using a unfolding valid_def verdict_None_iff by blast
qed

section \<open>Roles exclude each other\<close>

definition special :: "bccspmsp \<Rightarrow> OUIdentifier \<Rightarrow> bool" where
  "special msp ou \<longleftrightarrow> validOUs msp (oui_Identifier ou) \<noteq> None"

lemma count_roles_special:
  assumes "count_roles (\<lambda>u. Ok (validOUs msp u)) ous n = Ok (Some k)" "n \<le> 1"
  shows "k = min 2 (n + length (filter (special msp) ous))"
  using assms
proof (induction ous arbitrary: n)
  case (Cons ou ous)
  show ?case
  proof (cases "special msp ou")
    case True
    then obtain node where node: "validOUs msp (oui_Identifier ou) = Some node" unfolding special_def by blast
    then show ?thesis
    proof (cases "n = 0")
      case True
      then have "count_roles (\<lambda>u. Ok (validOUs msp u)) ous 1 = Ok (Some k)" using Cons.prems node by (auto split: if_splits)
      from Cons.IH [OF this] show ?thesis using True \<open>special msp ou\<close> by simp
    next
      case False
      then have "k = 2" "n = 1" using Cons.prems node by (auto split: if_splits)
      then show ?thesis using \<open>special msp ou\<close> by simp
    qed
  next
    case False
    then have "validOUs msp (oui_Identifier ou) = None" unfolding special_def by simp
    then show ?thesis using Cons.IH [of n] Cons.prems False by simp
  qed
qed simp

lemma validOUs_None: "validOUs msp u = None \<longleftrightarrow>
    (\<forall>n. msp_clientOU msp = Some n \<or> msp_peerOU msp = Some n \<or> msp_adminOU msp = Some n \<or> msp_ordererOU msp = Some n \<longrightarrow> oui_Identifier n \<noteq> u)"
  by (auto simp: validOUs_def split: option.splits)

lemma special_iff: "special msp ou \<longleftrightarrow> (\<exists>r n. role_OU msp r = Inr (Some n) \<and> oui_Identifier n = oui_Identifier ou)"
proof -
  have "(\<exists>r. role_OU msp r = Inr (Some n)) \<longleftrightarrow>
      msp_clientOU msp = Some n \<or> msp_peerOU msp = Some n \<or> msp_adminOU msp = Some n \<or> msp_ordererOU msp = Some n" (is "_ \<longleftrightarrow> ?R") for n
  proof
    assume "\<exists>r. role_OU msp r = Inr (Some n)"
    then obtain r where "role_OU msp r = Inr (Some n)" by blast
    then show ?R by (cases r) (simp_all add: role_OU_def)
  next
    have "role_OU msp MSPRole_CLIENT = Inr (msp_clientOU msp)" "role_OU msp MSPRole_PEER = Inr (msp_peerOU msp)"
      "role_OU msp MSPRole_ADMIN = Inr (msp_adminOU msp)" "role_OU msp MSPRole_ORDERER = Inr (msp_ordererOU msp)" by (simp_all add: role_OU_def)
    then show "?R \<Longrightarrow> \<exists>r. role_OU msp r = Inr (Some n)" by metis
  qed
  then show ?thesis unfolding special_def validOUs_None by blast
qed

definition unit_names :: "bccspmsp \<Rightarrow> string list" where
  "unit_names msp = concat (map (\<lambda>ou. case ou of None \<Rightarrow> [] | Some n \<Rightarrow> [oui_Identifier n])
     [msp_clientOU msp, msp_peerOU msp, msp_adminOU msp, msp_ordererOU msp])"

lemma role_of_name:
  assumes "distinct (unit_names msp)" "role_OU msp r1 = Inr (Some n1)" "role_OU msp r2 = Inr (Some n2)" "oui_Identifier n1 = oui_Identifier n2"
  shows "r1 = r2"
  using assms by (cases r1; cases r2) (auto simp: role_OU_def unit_names_def)

lemma has_role_iff:
  "has_role env own msp i r \<longleftrightarrow> msp_ouEnforcement msp \<and> (\<exists>n ous ou. role_OU msp r = Inr (Some n)
     \<and> GetOrganizationalUnits env own i = Ok ous \<and> ou \<in> set ous \<and> oui_Identifier ou = oui_Identifier n)"
  by (auto simp: has_role_def hasOURoleInternal_def obind_eq_Ok list_ex_iff split: sum.splits option.splits)

lemma one_special:
  assumes "validateIdentityOUsV142 env own msp i = Ok None" "msp_ouEnforcement msp"
  shows "\<exists>ous u. GetOrganizationalUnits env own i = Ok ous \<and> filter (special msp) ous = [u]"
proof -
  obtain ous k where k: "GetOrganizationalUnits env own i = Ok ous" "count_roles (\<lambda>u. Ok (validOUs msp u)) ous 0 = Ok (Some k)" "k = 1"
    using assms by (auto simp: validateIdentityOUsV142_def obind_eq_Ok split: option.splits if_splits)
  then have "length (filter (special msp) ous) = 1" using count_roles_special [OF k(2)] by simp
  then show ?thesis using k(1) by (auto simp: length_Suc_conv)
qed

lemma one_role_of_valid:
  assumes "valid env own msp i" "msp_version msp > MSPv1_3" "msp_ouEnforcement msp" "distinct (unit_names msp)"
  shows "\<exists>!r. has_role env own msp i r"
proof -
  have "validateIdentityOUsV142 env own msp i = Ok None"
    using assms(1,2) by (simp add: valid_iff internalValidateIdentityOus_def)
  then obtain ous u where u: "GetOrganizationalUnits env own i = Ok ous" "filter (special msp) ous = [u]"
    using one_special assms(3) by blast
  have only: "ou = u" if "ou \<in> set ous" "special msp ou" for ou
    using that arg_cong [OF u(2), of set] by auto
  have "special msp u" "u \<in> set ous" using arg_cong [OF u(2), of set] by auto
  then obtain r where "has_role env own msp i r" using u(1) assms(3) unfolding special_iff has_role_iff by metis
  moreover have "r1 = r2" if h: "has_role env own msp i r1" "has_role env own msp i r2" for r1 r2
  proof -
    obtain n1 o1 where r1: "role_OU msp r1 = Inr (Some n1)" "o1 \<in> set ous" "oui_Identifier o1 = oui_Identifier n1"
      using h(1) u(1) unfolding has_role_iff by auto
    obtain n2 o2 where r2: "role_OU msp r2 = Inr (Some n2)" "o2 \<in> set ous" "oui_Identifier o2 = oui_Identifier n2"
      using h(2) u(1) unfolding has_role_iff by auto
    have "special msp o1" using r1 unfolding special_iff by metis
    moreover have "special msp o2" using r2 unfolding special_iff by metis
    ultimately have "o1 = o2" using only r1(2) r2(2) by blast
    then show ?thesis using role_of_name [OF assms(4) r1(1) r2(1)] r1(3) r2(3) by simp
  qed
  ultimately show ?thesis by blast
qed

end
