(* ===== verification/MSP_Setup_Theorems.thy ===== *)
theory MSP_Setup_Theorems
  imports MSP_Properties
begin

text \<open>
  The setup of an MSP always returns, and an MSP that it returns is fit for use: its authorities and administrators have been
  checked, and no later operation panics.
\<close>

section \<open>Results that are errors or satisfy a condition\<close>

definition yields :: "'a res outcome \<Rightarrow> ('a \<Rightarrow> bool) \<Rightarrow> bool" where
  "yields m P \<longleftrightarrow> twp m (\<lambda>r. case r of Inl err \<Rightarrow> True | Inr a \<Rightarrow> P a)"

lemma yields_simps [simp]:
  "\<not> yields Panic P" "\<not> yields Blocked P" "yields (Ok (Inl err)) P" "yields (Ok (Inr a)) P = P a"
  by (simp_all add: yields_def)

lemma yields_gbind: "yields m P \<Longrightarrow> (\<And>a. P a \<Longrightarrow> yields (f a) Q) \<Longrightarrow> yields (gbind m f) Q"
  by (cases m) (auto simp: yields_def gbind_def split: sum.splits)

lemma yields_mono: "yields m P \<Longrightarrow> (\<And>a. P a \<Longrightarrow> Q a) \<Longrightarrow> yields m Q"
  by (cases m) (auto simp: yields_def split: sum.splits)

lemma yields_Ok: "(\<And>a. r = Inr a \<Longrightarrow> P a) \<Longrightarrow> yields (Ok r) P"
  by (cases r) simp_all

lemma yields_wrap: "yields (obind m (\<lambda>r. Ok (wrap w r))) P = yields m P"
proof (cases m)
  case (Ok r)
  then show ?thesis by (cases r) simp_all
qed simp_all

lemma yields_gmapM:
  assumes "\<And>x. x \<in> set xs \<Longrightarrow> yields (f x) (R x)"
  shows "yields (gmapM f xs) (list_all2 R xs)"
  using assms
proof (induction xs)
  case (Cons x xs)
  have "yields (gmapM f xs) (list_all2 R xs)" using Cons by simp
  then show ?case using Cons.prems [of x]
    by (auto intro!: yields_gbind [where P = "R x"] yields_gbind [where P = "list_all2 R xs"])
qed simp

section \<open>What is needed to work without a panic\<close>

definition ready :: "bccspmsp \<Rightarrow> bool" where
  "ready m \<longleftrightarrow> msp_opts m \<noteq> None \<and> (\<exists>cc. msp_cryptoConfig m = Some cc \<and> cc_IdentityIdentifierHashFunction cc = ''SM3'')"

text \<open>Of the units that the version 1.1 enforces, the code reads the names without a check.\<close>

definition units_set :: "bccspmsp \<Rightarrow> bool" where
  "units_set m \<longleftrightarrow> (msp_version m = 1 \<or> msp_version m = 2) \<and> msp_ouEnforcement m \<longrightarrow> msp_clientOU m \<noteq> None \<and> msp_peerOU m \<noteq> None"

text \<open>Every chain that the verification of a certificate finds contains the certificate.\<close>

definition chains_nonempty :: "msp_env \<Rightarrow> bool" where
  "chains_nonempty env \<longleftrightarrow> (\<forall>cert opts cs. e_Verify_chain env cert opts = Inr cs \<longrightarrow> (\<forall>c\<in>set cs. c \<noteq> []))"

lemma newIdentity_yields: "msp_cryptoConfig m \<noteq> None \<Longrightarrow>
    yields (newIdentity env m cert pk) (\<lambda>i. id_cert i = cert \<and> id_pk i = pk \<and> \<not> id_validated i \<and> id_validationErr i = None \<and> id_Mspid i = msp_name m
      \<and> (\<exists>cc. msp_cryptoConfig m = Some cc \<and> cc_IdentityIdentifierHashFunction cc = ''SM3''))"
  by (auto simp: newIdentity_def sanitizeCert_def GetHashOpt_def split: option.splits intro!: yields_gbind [where P = "\<lambda>_. True"] yields_Ok)

lemma identity_of_conf_yields: "msp_cryptoConfig m \<noteq> None \<Longrightarrow>
    yields (getIdentityFromConf env m b) (\<lambda>(i, k). getCertFromPem env b = Inr (id_cert i) \<and> \<not> id_validated i \<and> id_validationErr i = None
      \<and> (\<exists>cc. msp_cryptoConfig m = Some cc \<and> cc_IdentityIdentifierHashFunction cc = ''SM3''))"
  unfolding getIdentityFromConf_def
  by (rule yields_gbind [where P = "\<lambda>c. getCertFromPem env b = Inr c"], simp add: yields_Ok,
      rule yields_gbind [where P = "\<lambda>_. True"], simp add: yields_Ok, rule yields_gbind, rule newIdentity_yields, auto)

definition made_from :: "msp_env \<Rightarrow> bytes \<Rightarrow> identity \<Rightarrow> bool" where
  "made_from env b i \<longleftrightarrow> getCertFromPem env b = Inr (id_cert i) \<and> \<not> id_validated i \<and> id_validationErr i = None"

lemma identities_of_yields:
  assumes "msp_cryptoConfig m \<noteq> None"
  shows "yields (identities_of env m bs) (\<lambda>is. list_all2 (made_from env) bs is
    \<and> (bs \<noteq> [] \<longrightarrow> (\<exists>cc. msp_cryptoConfig m = Some cc \<and> cc_IdentityIdentifierHashFunction cc = ''SM3'')))"
proof -
  have "yields (gbind (getIdentityFromConf env m c) (\<lambda>(i, k). Ok (Inr i)))
      (\<lambda>i. made_from env c i \<and> (\<exists>cc. msp_cryptoConfig m = Some cc \<and> cc_IdentityIdentifierHashFunction cc = ''SM3''))" for c
    by (rule yields_gbind [OF identity_of_conf_yields [OF assms]]) (auto simp: made_from_def)
  from yields_gmapM [OF this] show ?thesis unfolding identities_of_def
    by (rule yields_mono) (auto elim: list_all2_mono simp: neq_Nil_conv list_all2_Cons1)
qed

section \<open>The steps\<close>

definition CAs_set :: "msp_env \<Rightarrow> FabricMSPConfig \<Rightarrow> bccspmsp \<Rightarrow> bool" where
  "CAs_set env conf m \<longleftrightarrow> msp_rootCerts m \<noteq> [] \<and> list_all2 (made_from env) (mc_RootCerts conf) (msp_rootCerts m)
     \<and> list_all2 (made_from env) (mc_IntermediateCerts conf) (msp_intermediateCerts m)
     \<and> msp_opts m = Some (no_options\<lparr>vo_Roots := map id_cert (msp_rootCerts m), vo_Intermediates := map id_cert (msp_intermediateCerts m)\<rparr>)"

lemma setupCAs_yields:
  assumes "msp_cryptoConfig m \<noteq> None"
  shows "yields (setupCAs env conf m) (\<lambda>m'. ready m' \<and> CAs_set env conf m' \<and> msp_version m' = msp_version m \<and> msp_name m' = msp_name m
    \<and> msp_ouEnforcement m' = msp_ouEnforcement m \<and> msp_cryptoConfig m' = msp_cryptoConfig m)"
proof (cases "mc_RootCerts conf = []")
  case False
  have c: "msp_cryptoConfig (m\<lparr>msp_opts := o'\<rparr>) \<noteq> None" for o' using assms by simp
  show ?thesis
    unfolding setupCAs_def Let_def using False
    by (auto simp: ready_def CAs_set_def intro!: yields_gbind [where P = "\<lambda>_. True", OF yields_mono [OF yields_gmapM [where R = "\<lambda>_ _. True"]]]
        yields_gbind [OF identities_of_yields [OF c]] yields_Ok)
qed (simp add: setupCAs_def)

lemma setupCRLs_yields: "yields (setupCRLs env conf m) (\<lambda>m'. m' = m\<lparr>msp_CRL := msp_CRL m'\<rparr>)"
  unfolding setupCRLs_def
  by (rule yields_gbind [OF yields_gmapM [where R = "\<lambda>_ _. True"]]) (auto intro: yields_Ok)

lemma setupAdminsPre_yields:
  "msp_cryptoConfig m \<noteq> None \<Longrightarrow> yields (setupAdminsPreV142 env conf m) (\<lambda>m'. m' = m\<lparr>msp_admins := msp_admins m'\<rparr> \<and> list_all2 (made_from env) (mc_Admins conf) (msp_admins m'))"
  unfolding setupAdminsPreV142_def by (rule yields_gbind [OF identities_of_yields]) auto

lemma setupAdmins_yields:
  "msp_cryptoConfig m \<noteq> None \<Longrightarrow> yields (setupAdmins env conf m) (\<lambda>m'. m' = m\<lparr>msp_admins := msp_admins m'\<rparr> \<and> list_all2 (made_from env) (mc_Admins conf) (msp_admins m')
    \<and> (msp_version m > MSPv1_3 \<longrightarrow> msp_admins m' \<noteq> [] \<or> msp_ouEnforcement m \<and> msp_adminOU m \<noteq> None))"
  unfolding setupAdmins_def setupAdminsV142_def
  by (auto intro!: yields_mono [OF setupAdminsPre_yields] yields_gbind [OF setupAdminsPre_yields])

text \<open>An authority that has passed the checks of the setup.\<close>

definition CA_checked :: "msp_env \<Rightarrow> bccspmsp \<Rightarrow> identity \<Rightarrow> bool" where
  "CA_checked env m i \<longleftrightarrow> x_IsCA (id_cert i) \<and> (\<exists>ski. getSubjectKeyIdentifierFromCert env (id_cert i) = Inr ski)
     \<and> validateCAIdentity env m i = Ok None"

definition nodes_marked :: "msp_env \<Rightarrow> bccspmsp \<Rightarrow> bool" where
  "nodes_marked env m \<longleftrightarrow> (\<forall>i\<in>set (msp_intermediateCerts m). \<forall>opts chain. msp_opts m = Some opts
     \<and> e_Verify_chain env (id_cert i) (getValidityOptsForCert opts (id_cert i)) = Inr [chain]
     \<longrightarrow> x_Raw ` set (drop 1 chain) \<subseteq> set (msp_internalNodes m))"

lemma against_chain_returns: "\<not> length chain < 2 \<Longrightarrow> \<exists>r. validateCertAgainstChain env m cert chain = Ok r"
  by (cases chain; cases "tl chain") (auto simp: validateCertAgainstChain_def split: sum.splits)

lemma unique_chain_nonempty: "chains_nonempty env \<Longrightarrow> getUniqueValidationChain env m cert opts = Inr chain \<Longrightarrow> chain \<noteq> []"
  unfolding unique_chain_iff chains_nonempty_def by fastforce

lemma validateCAIdentity_returns:
  assumes "chains_nonempty env" "msp_opts m \<noteq> None"
  shows "\<exists>r. validateCAIdentity env m i = Ok r"
proof -
  have "\<not> length c < 2" if "getUniqueValidationChain env m cert o' = Inr c" "length c \<noteq> Suc 0" for c cert o'
    using unique_chain_nonempty [OF assms(1) that(1)] that(2) by (cases c) auto
  then show ?thesis using assms(2) against_chain_returns [of _ env m "id_cert i"]
    by (auto simp: validateCAIdentity_def split: option.splits sum.splits)
qed

lemma validateTLSCAIdentity_returns: "chains_nonempty env \<Longrightarrow> \<exists>r. validateTLSCAIdentity env m cert opts = Ok r"
  using unique_chain_nonempty [of env m cert opts] against_chain_returns [of _ env m cert]
  by (fastforce simp: validateTLSCAIdentity_def length_Suc_conv neq_Nil_conv split: sum.splits)

lemma check_CA_yields: "\<exists>r. v = Ok r \<Longrightarrow> yields (check_CA env v cert)
    (\<lambda>_. x_IsCA cert \<and> (\<exists>ski. getSubjectKeyIdentifierFromCert env cert = Inr ski) \<and> v = Ok None)"
  by (auto simp: check_CA_def split: sum.splits option.splits)

lemma list_all2_unit: "list_all2 (\<lambda>x _. P x) xs ys \<Longrightarrow> \<forall>x\<in>set xs. P x"
  by (induction rule: list_all2_induct) auto

lemma finalizeSetupCAs_yields:
  assumes "chains_nonempty env" "msp_opts m \<noteq> None"
  shows "yields (finalizeSetupCAs env m) (\<lambda>m'. m' = m\<lparr>msp_internalNodes := msp_internalNodes m'\<rparr> \<and> nodes_marked env m'
    \<and> (\<forall>i\<in>set (msp_rootCerts m @ msp_intermediateCerts m). CA_checked env m i))"
proof -
  obtain opts where o: "msp_opts m = Some opts" using assms(2) by blast
  have c: "yields (check_CA env (validateCAIdentity env m i) (id_cert i)) (\<lambda>_. CA_checked env m i)" for i
    using check_CA_yields [OF validateCAIdentity_returns [OF assms, of i], of env "id_cert i"] by (simp add: CA_checked_def)
  have u: "yields (Ok (wrap w (getUniqueValidationChain env m (id_cert i) (getValidityOptsForCert opts (id_cert i)))))
      (\<lambda>chain. e_Verify_chain env (id_cert i) (getValidityOptsForCert opts (id_cert i)) = Inr [chain])" for i w
    by (rule yields_Ok) (simp add: unique_chain_iff)
  show ?thesis unfolding finalizeSetupCAs_def o option.case
  proof (rule yields_gbind [OF yields_gmapM [where R = "\<lambda>i _. CA_checked env m i", OF c]], rule yields_gbind [OF yields_gmapM [OF u]])
    fix us cs
    assume us: "list_all2 (\<lambda>i _. CA_checked env m i) (msp_rootCerts m @ msp_intermediateCerts m) (us :: unit list)"
      and cs: "list_all2 (\<lambda>i chain. e_Verify_chain env (id_cert i) (getValidityOptsForCert opts (id_cert i)) = Inr [chain]) (msp_intermediateCerts m) cs"
    have "nodes_marked env (m\<lparr>msp_internalNodes := concat (map (\<lambda>chain. map x_Raw (drop 1 chain)) cs)\<rparr>)"
      using cs by (fastforce simp: nodes_marked_def o list_all2_conv_all_nth in_set_conv_nth)
    then show "yields (Ok (Inr (m\<lparr>msp_internalNodes := concat (map (\<lambda>chain. map x_Raw (drop 1 chain)) cs)\<rparr>)))
      (\<lambda>m'. m' = m\<lparr>msp_internalNodes := msp_internalNodes m'\<rparr> \<and> nodes_marked env m' \<and> (\<forall>i\<in>set (msp_rootCerts m @ msp_intermediateCerts m). CA_checked env m i))"
      using list_all2_unit [OF us] by simp
  qed
qed

lemma setupTLSCAs_yields: "chains_nonempty env \<Longrightarrow>
    yields (setupTLSCAs env conf m) (\<lambda>m'. m' = m\<lparr>msp_tlsRootCerts := mc_TlsRootCerts conf, msp_tlsIntermediateCerts := mc_TlsIntermediateCerts conf\<rparr>)"
  unfolding setupTLSCAs_def Let_def
  by (rule yields_gbind [OF yields_gmapM [where R = "\<lambda>_ _. True"]], simp add: yields_Ok,
      rule yields_gbind [OF yields_gmapM [where R = "\<lambda>_ _. True"]], simp add: yields_Ok,
      rule yields_gbind [OF yields_gmapM [where R = "\<lambda>_ _. True"]], rule yields_mono, rule check_CA_yields, rule validateTLSCAIdentity_returns, auto)

lemma getSigningIdentity_yields: "msp_cryptoConfig m \<noteq> None \<Longrightarrow> yields (getSigningIdentityFromConf env m info) (\<lambda>_. True)"
  unfolding getSigningIdentityFromConf_def newSigningIdentity_def
  by (rule yields_gbind [OF identity_of_conf_yields], assumption, clarsimp, rule yields_gbind [where P = "\<lambda>_. True"], simp add: yields_Ok,
      rule yields_gbind [where P = "\<lambda>_. True"], simp add: yields_Ok, rule yields_gbind [OF newIdentity_yields], auto)

lemma setupSigningIdentity_yields: "msp_cryptoConfig m \<noteq> None \<Longrightarrow>
    yields (setupSigningIdentity env now conf m) (\<lambda>m'. m' = m\<lparr>msp_signer := msp_signer m'\<rparr>)"
  unfolding setupSigningIdentity_def
  by (cases "mc_SigningIdentity conf") (auto intro!: yields_gbind [OF getSigningIdentity_yields] split: option.splits)

lemma getValidationChain_yields: "msp_opts m \<noteq> None \<Longrightarrow> yields (getValidationChain env m cert b) (\<lambda>chain. \<not> length chain < 2)"
  unfolding getValidationChain_def by (auto simp: Let_def intro!: yields_gbind [where P = "\<lambda>_. True"] yields_Ok split: option.splits)

lemma chain_identifier_yields: "msp_cryptoConfig m \<noteq> None \<Longrightarrow> yields (getCertificationChainIdentifierFromChain env m chain) (\<lambda>_. True)"
  unfolding getCertificationChainIdentifierFromChain_def
  by (auto intro!: yields_gbind [where P = "\<lambda>_. True"] yields_Ok split: option.splits)

lemma ready_fields: "ready m \<Longrightarrow> msp_opts m \<noteq> None" "ready m \<Longrightarrow> msp_cryptoConfig m \<noteq> None"
  by (auto simp: ready_def)

lemma getCertifiersIdentifier_yields: "ready m \<Longrightarrow> yields (getCertifiersIdentifier env m b) (\<lambda>_. True)"
  unfolding getCertifiersIdentifier_def Let_def
  by (auto simp: yields_wrap intro!: yields_gbind [where P = "\<lambda>_. True"] yields_Ok chain_identifier_yields ready_fields
      yields_mono [OF getValidationChain_yields])

lemma setupOUs_yields: "ready m \<Longrightarrow> yields (setupOUs env conf m) (\<lambda>m'. m' = m\<lparr>msp_ouIdentifiers := msp_ouIdentifiers m'\<rparr>)"
  unfolding setupOUs_def
  by (rule yields_gbind [OF yields_gmapM [where R = "\<lambda>_ _. True"]])
    (auto simp: yields_wrap intro!: yields_gbind [where P = "\<lambda>_. True"] getCertifiersIdentifier_yields)

lemma setupNodeOU_yields: "ready m \<Longrightarrow> yields (setupNodeOU env m c) (\<lambda>ou. oui_Identifier ou = oc_Identifier c)"
  unfolding setupNodeOU_def by (auto intro!: yields_gbind [OF getCertifiersIdentifier_yields])

lemma setupOptOU_yields: "ready m \<Longrightarrow> yields (setupOptOU env m c) (\<lambda>ou. map_option oui_Identifier ou = map_option oc_Identifier c)"
  unfolding setupOptOU_def by (auto intro!: yields_gbind [OF setupNodeOU_yields] split: option.splits)

definition units_only :: "bccspmsp \<Rightarrow> bccspmsp \<Rightarrow> bool" where
  "units_only m m' \<longleftrightarrow> m' = m\<lparr>msp_ouEnforcement := msp_ouEnforcement m', msp_clientOU := msp_clientOU m', msp_peerOU := msp_peerOU m',
     msp_adminOU := msp_adminOU m', msp_ordererOU := msp_ordererOU m'\<rparr>"

lemma setupNodeOUs_yields: "ready m \<Longrightarrow> yields (setupNodeOUs env conf m) (\<lambda>m'. units_only m m' \<and> units_set m')"
  unfolding setupNodeOUs_def
  by (auto simp: units_only_def units_set_def intro!: yields_gbind [OF setupNodeOU_yields] split: option.splits)

lemma setupNodeOUsV142_yields: "ready m \<Longrightarrow> yields (setupNodeOUsV142 env conf m) (\<lambda>m'. units_only m m')"
  unfolding setupNodeOUsV142_def
  by (auto simp: units_only_def intro!: yields_gbind [OF setupOptOU_yields] split: option.splits)

section \<open>Nothing panics afterwards\<close>

lemma chain_returns: "ready m \<Longrightarrow> \<exists>r. getCertificationChainForBCCSPIdentity env m i = Ok r"
  using getValidationChain_yields [of m env "id_cert i" False]
  by (cases "getValidationChain env m (id_cert i) False") (auto simp: getCertificationChainForBCCSPIdentity_def ready_def)

lemma chain_long: "getCertificationChainForBCCSPIdentity env m i = Ok (Inr chain) \<Longrightarrow> \<not> length chain < 2"
  by (auto simp: getCertificationChainForBCCSPIdentity_def getValidationChain_iff split: if_splits)

lemma units_return: "ready own \<Longrightarrow> \<exists>ous. GetOrganizationalUnits env own i = Ok ous"
proof -
  assume r: "ready own"
  obtain c where c: "getCertificationChainForBCCSPIdentity env own i = Ok c" using chain_returns [OF r] by blast
  show ?thesis
  proof (cases c)
    case (Inr chain)
    have "yields (getCertificationChainIdentifierFromChain env own (drop 1 chain)) (\<lambda>_. True)"
      by (rule chain_identifier_yields [OF ready_fields(2) [OF r]])
    then obtain r where "getCertificationChainIdentifierFromChain env own (drop 1 chain) = Ok r"
      by (cases "getCertificationChainIdentifierFromChain env own (drop 1 chain)") auto
    then show ?thesis using c Inr by (cases r) (simp_all add: GetOrganizationalUnits_def getCertificationChainIdentifier_def)
  qed (simp add: GetOrganizationalUnits_def getCertificationChainIdentifier_def c)
qed

lemma count_roles_returns: "(\<And>u. \<exists>r. f u = Ok r) \<Longrightarrow> \<exists>r. count_roles f ous n = Ok r"
proof (induction ous arbitrary: n)
  case (Cons ou ous)
  then obtain r where "f (oui_Identifier ou) = Ok r" by blast
  then show ?case using Cons by (auto split: option.splits)
qed simp

lemma ous_return:
  assumes "ready own" "units_set m"
  shows "\<exists>r. internalValidateIdentityOus env own m i = Ok r"
proof -
  obtain ous where o: "GetOrganizationalUnits env own i = Ok ous" using units_return [OF assms(1)] by blast
  have v1: "\<exists>r. validateIdentityOUsV1 env own m i = Ok r" by (simp add: validateIdentityOUsV1_def o Let_def)
  then obtain r1 where r1: "validateIdentityOUsV1 env own m i = Ok r1" by blast
  have "\<exists>r. nodeOU_V11 m u = Ok r" if "msp_clientOU m \<noteq> None" "msp_peerOU m \<noteq> None" for u
    using that by (auto simp: nodeOU_V11_def)
  then have "\<exists>r. count_roles (nodeOU_V11 m) ous 0 = Ok r" if "msp_clientOU m \<noteq> None" "msp_peerOU m \<noteq> None"
    using that count_roles_returns [of "nodeOU_V11 m"] by blast
  moreover have "\<exists>r. count_roles (\<lambda>u. Ok (validOUs m u)) ous 0 = Ok r" by (rule count_roles_returns) simp
  ultimately show ?thesis using assms(2) r1 o
    by (cases r1) (auto simp: internalValidateIdentityOus_def validateIdentityOUsV11_def validateIdentityOUsV142_def units_set_def)
qed

lemma verdict_returns:
  assumes "ready own" "ready m" "units_set m"
  shows "\<exists>r. verdict env own m i = Ok r"
proof -
  obtain c where c: "getCertificationChainForBCCSPIdentity env m i = Ok c" using chain_returns [OF assms(2)] by blast
  show ?thesis
  proof (cases c)
    case (Inr chain)
    then obtain r where "validateCertAgainstChain env m (id_cert i) chain = Ok r"
      using against_chain_returns [OF chain_long] c by blast
    moreover obtain o' where "internalValidateIdentityOus env own m i = Ok o'" using ous_return [OF assms(1,3)] by blast
    ultimately show ?thesis using c Inr by (cases r; cases o') (simp_all add: verdict_def)
  qed (simp add: verdict_def c)
qed

lemma hasOURole_returns: "ready own \<Longrightarrow> \<exists>r. hasOURole env own m (BccspIdentity i) role = Ok r"
  using units_return [of own env i] by (auto simp: hasOURole_def hasOURoleInternal_def split: sum.splits option.splits)

section \<open>The checks at the end of the setup\<close>

lemma admins_irrelevant [simp]:
  "getCertificationChainForBCCSPIdentity env (m\<lparr>msp_admins := a\<rparr>) i = getCertificationChainForBCCSPIdentity env m i"
  "GetOrganizationalUnits env (m\<lparr>msp_admins := a\<rparr>) i = GetOrganizationalUnits env m i"
proof -
  have "getUniqueValidationChain env (m\<lparr>msp_admins := a\<rparr>) c o' = getUniqueValidationChain env m c o'" for c o'
    by (simp add: getUniqueValidationChain_def)
  then show c: "getCertificationChainForBCCSPIdentity env (m\<lparr>msp_admins := a\<rparr>) i = getCertificationChainForBCCSPIdentity env m i"
    by (simp add: getCertificationChainForBCCSPIdentity_def getValidationChain_def Let_def cong: option.case_cong if_cong)
  have "getCertificationChainIdentifierFromChain env (m\<lparr>msp_admins := a\<rparr>) ch = getCertificationChainIdentifierFromChain env m ch" for ch
    by (simp add: getCertificationChainIdentifierFromChain_def)
  then show "GetOrganizationalUnits env (m\<lparr>msp_admins := a\<rparr>) i = GetOrganizationalUnits env m i"
    by (simp add: GetOrganizationalUnits_def getCertificationChainIdentifier_def c)
qed

lemma verdict_admins [simp]: "verdict env (m\<lparr>msp_admins := a\<rparr>) (m\<lparr>msp_admins := a\<rparr>) i = verdict env m m i"
proof -
  let ?m = "m\<lparr>msp_admins := a\<rparr>"
  have "validateIdentityOUsV1 env ?m ?m i = validateIdentityOUsV1 env m m i"
    by (simp add: validateIdentityOUsV1_def Let_def cong: option.case_cong if_cong)
  moreover have "nodeOU_V11 ?m = nodeOU_V11 m" "validOUs ?m = validOUs m" by (simp_all add: nodeOU_V11_def validOUs_def fun_eq_iff cong: option.case_cong if_cong)
  ultimately have "internalValidateIdentityOus env ?m ?m i = internalValidateIdentityOus env m m i"
    by (simp add: internalValidateIdentityOus_def validateIdentityOUsV11_def validateIdentityOUsV142_def cong: option.case_cong if_cong)
  moreover have "validateCertAgainstChain env ?m c ch = validateCertAgainstChain env m c ch" for c ch
    by (simp add: validateCertAgainstChain_def cong: list.case_cong sum.case_cong)
  ultimately show ?thesis by (simp add: verdict_def cong: option.case_cong sum.case_cong)
qed

lemma has_role_admins [simp]: "has_role env (m\<lparr>msp_admins := a\<rparr>) (m\<lparr>msp_admins := a\<rparr>) i r = has_role env m m i r"
  by (simp add: has_role_iff role_OU_def cong: MSPRoleType.case_cong)

definition admin_ok :: "msp_env \<Rightarrow> bccspmsp \<Rightarrow> identity \<Rightarrow> bool" where
  "admin_ok env m a \<longleftrightarrow> coherent env m m a \<and>
     (if msp_version m > MSPv1_3 \<and> msp_ouEnforcement m then has_role env m m a MSPRole_CLIENT \<or> has_role env m m a MSPRole_ADMIN
      else valid env m m a)"

lemma admin_ok_admins [simp]: "admin_ok env (m\<lparr>msp_admins := as\<rparr>) a = admin_ok env m a"
  by (simp add: admin_ok_def coherent_def valid_def)

text \<open>Encoding a role and decoding it gives it back.\<close>

definition role_codec :: "msp_env \<Rightarrow> bool" where
  "role_codec env \<longleftrightarrow> (\<forall>r b. e_MSPRole env r = Inr b \<longrightarrow> e_un_MSPRole env b = Inr r)"

lemma enumerate_set: "(n, a) \<in> set (enumerate 0 xs) \<Longrightarrow> a \<in> set xs"
  by (auto simp: in_set_enumerate_eq)

lemma all2_enumerate: "list_all2 (\<lambda>(n, a) b. P b) (enumerate 0 xs) ys \<Longrightarrow> \<forall>b\<in>set ys. P b"
  by (auto simp: list_all2_conv_all_nth in_set_conv_nth)

lemma all2_enumerate_unit: "list_all2 (\<lambda>(n, a) _. P a) (enumerate 0 xs) us \<Longrightarrow> \<forall>a\<in>set xs. P a"
  by (auto simp: list_all2_conv_all_nth in_set_conv_nth nth_enumerate_eq)

lemma postSetupV1_yields:
  assumes "ready m" "units_set m" "\<forall>a\<in>set (msp_admins m). coherent env m m a"
  shows "yields (postSetupV1 env m) (\<lambda>m'. m' = m\<lparr>msp_admins := msp_admins m'\<rparr> \<and> (\<forall>a\<in>set (msp_admins m'). valid env m m a \<and> coherent env m m a))"
proof -
  have step: "yields (obind (validateIdentity env m m a) (\<lambda>(r, admin1). case r of
         Some err \<Rightarrow> Ok (Inl (WithMsg err ''admin %d is invalid'' [FN n]))
       | None \<Rightarrow> Ok (Inr admin1))) (\<lambda>b. valid env m m b \<and> coherent env m m b)" if a: "a \<in> set (msp_admins m)" for n a
  proof -
    obtain r where r: "verdict env m m a = Ok r" using verdict_returns [OF assms(1,1,2)] by blast
    have f: "verdict env m m (judged a r) = verdict env m m a" by (rule verdict_cong) simp
    show ?thesis using coherent_judged [OF r] f r assms(3) a by (cases r) (auto simp: validate_eq valid_def)
  qed
  then have "yields (gmapM (\<lambda>(n, admin). obind (validateIdentity env m m admin) (\<lambda>(r, admin1). case r of
         Some err \<Rightarrow> Ok (Inl (WithMsg err ''admin %d is invalid'' [FN n]))
       | None \<Rightarrow> Ok (Inr admin1))) (enumerate 0 (msp_admins m)))
      (list_all2 (\<lambda>(n, a) b. valid env m m b \<and> coherent env m m b) (enumerate 0 (msp_admins m)))"
    by (intro yields_gmapM) (auto dest: enumerate_set)
  then show ?thesis unfolding postSetupV1_def
    by (rule yields_gbind) (auto dest: all2_enumerate)
qed

lemma validate_role_returns:
  assumes "ready m" "units_set m" "coherent env m m a"
  shows "\<exists>r id1. validate_role env m m (BccspIdentity a) role msg = Ok (r, id1)"
proof -
  obtain r where r: "verdict env m m a = Ok r" using verdict_returns [OF assms(1,1,2)] by blast
  obtain h where "hasOURole env m m (BccspIdentity (judged a r)) role = Ok h" using hasOURole_returns [OF assms(1)] by blast
  then show ?thesis by (cases r) (simp_all add: validate_role_def msp_Validate_def validate_eq [OF assms(3)] r)
qed

lemma client_principal:
  assumes "msp_version m = 1 \<or> msp_version m = 2" "e_un_MSPRole env b = Inr \<lparr>mr_MspIdentifier = msp_name m, mr_Role = MSPRole_CLIENT\<rparr>"
  shows "returned (SatisfiesPrincipal env m m (BccspIdentity a) \<lparr>p_Classification = MSPPrincipal_ROLE, p_Principal = b\<rparr>)
    = obind (validate_role env m m (BccspIdentity a) MSPRole_CLIENT (not_role m MSPRole_CLIENT)) (\<lambda>(r, id1). case r of Some err \<Rightarrow> Ok (Some err, id1) | None \<Rightarrow> Ok (None, id1))"
  using assms by (auto simp: returned_def SatisfiesPrincipal_def collect_leaf internalSatisfiesPrincipalInternal_def
      satisfiesPrincipalInternalV13_def satisfiesPrincipalInternalPreV13_def satisfies_role_def cong: option.case_cong)

lemma postSetupV11_yields:
  assumes "ready m" "units_set m" "\<forall>a\<in>set (msp_admins m). coherent env m m a" "role_codec env" "msp_version m = 1 \<or> msp_version m = 2"
  shows "yields (postSetupV11 env m) (\<lambda>m'. m' = m\<lparr>msp_admins := msp_admins m'\<rparr> \<and> (\<forall>a\<in>set (msp_admins m'). valid env m m a \<and> coherent env m m a))"
proof (cases "msp_ouEnforcement m")
  case True
  let ?role = "\<lparr>mr_MspIdentifier = msp_name m, mr_Role = MSPRole_CLIENT\<rparr>"
  show ?thesis
  proof (cases "e_MSPRole env ?role")
    case (Inr b)
    then have un: "e_un_MSPRole env b = Inr ?role" using assms(4) by (simp add: role_codec_def)
    let ?check = "\<lambda>n a. obind (returned (SatisfiesPrincipal env m m (BccspIdentity a) \<lparr>p_Classification = MSPPrincipal_ROLE, p_Principal = b\<rparr>))
      (\<lambda>(r, admin1). case r of Some err \<Rightarrow> Ok (Inl (WithMsg err ''admin %d is invalid'' [FN n]))
         | None \<Rightarrow> Ok (Inr (case admin1 of BccspIdentity a' \<Rightarrow> a' | OtherIdentity _ \<Rightarrow> a)))"
    have step: "yields (?check n a) (\<lambda>b. valid env m m b \<and> coherent env m m b)" if a: "a \<in> set (msp_admins m)" for n a
    proof -
      have c: "coherent env m m a" using assms(3) a by blast
      obtain r id1 where v: "validate_role env m m (BccspIdentity a) MSPRole_CLIENT (not_role m MSPRole_CLIENT) = Ok (r, id1)"
        using validate_role_returns [OF assms(1,2) c] by blast
      have "decides env m m a (Ok (r, id1)) (valid env m m a \<and> has_role env m m a MSPRole_CLIENT)"
        using decides_validate_role [OF c] v by metis
      then obtain j where "id1 = BccspIdentity j" "fresh j = fresh a" "coherent env m m j" "r = None \<longrightarrow> valid env m m a"
        by (auto simp: decides_def tracks_def)
      moreover from this have "valid env m m j = valid env m m a" by (metis valid_fresh)
      ultimately show ?thesis using v by (cases r) (simp_all add: client_principal [OF assms(5) un])
    qed
    then have "yields (gmapM (\<lambda>(n, a). ?check n a) (enumerate 0 (msp_admins m)))
      (list_all2 (\<lambda>(n, a) b. valid env m m b \<and> coherent env m m b) (enumerate 0 (msp_admins m)))"
      by (intro yields_gmapM) (auto dest: enumerate_set)
    then show ?thesis using True Inr
      by (auto simp: postSetupV11_def dest: all2_enumerate elim!: yields_gbind)
  qed (simp add: postSetupV11_def True)
qed (use postSetupV1_yields [OF assms(1-3)] in \<open>simp add: postSetupV11_def\<close>)

lemma postSetupV142_yields:
  assumes "ready m" "units_set m" "\<forall>a\<in>set (msp_admins m). coherent env m m a" "msp_version m > MSPv1_3"
  shows "yields (postSetupV142 env m) (\<lambda>m'. m' = m\<lparr>msp_admins := msp_admins m'\<rparr> \<and> (\<forall>a\<in>set (msp_admins m'). admin_ok env m a))"
proof (cases "msp_ouEnforcement m")
  case True
  let ?check = "\<lambda>n a. obind (hasOURole env m m (BccspIdentity a) MSPRole_CLIENT) (\<lambda>err1.
         obind (hasOURole env m m (BccspIdentity a) MSPRole_ADMIN) (\<lambda>err2. Ok (case (err1, err2) of
           (Some e1, Some e2) \<Rightarrow> Inl (ErrorF ''admin %d is invalid [%s,%s]'' [FN n, FS (e_text env e1), FS (e_text env e2)])
         | _ \<Rightarrow> Inr ())))"
  have step: "yields (?check n a) (\<lambda>_. admin_ok env m a)" if a: "a \<in> set (msp_admins m)" for n a
  proof -
    have "coherent env m m a" using assms(3) a by blast
    moreover obtain e1 where e1: "hasOURole env m m (BccspIdentity a) MSPRole_CLIENT = Ok e1" using hasOURole_returns [OF assms(1)] by blast
    moreover obtain e2 where "hasOURole env m m (BccspIdentity a) MSPRole_ADMIN = Ok e2" using hasOURole_returns [OF assms(1)] by blast
    ultimately show ?thesis using True assms(4)
      by (cases e1; cases e2) (simp_all add: admin_ok_def has_role_def hasOURole_def)
  qed
  have "yields (gmapM (\<lambda>(n, a). ?check n a) (enumerate 0 (msp_admins m)))
      (list_all2 (\<lambda>(n, a) _. admin_ok env m a) (enumerate 0 (msp_admins m)))"
    using step by (intro yields_gmapM) (auto dest: enumerate_set)
  moreover have "\<forall>a\<in>set (msp_admins m). admin_ok env m a"
    if "list_all2 (\<lambda>(n, a) _. admin_ok env m a) (enumerate 0 (msp_admins m)) (us :: unit list)" for us
    using that by (rule all2_enumerate_unit)
  ultimately show ?thesis using True by (auto simp: postSetupV142_def elim!: yields_gbind)
next
  case False
  then show ?thesis using yields_mono [OF postSetupV1_yields [OF assms(1-3)]] by (simp add: postSetupV142_def admin_ok_def)
qed

section \<open>The whole setup\<close>

text \<open>The authorities of an MSP are those of its configuration, and have been checked.\<close>

definition CAs_ok :: "msp_env \<Rightarrow> FabricMSPConfig \<Rightarrow> bccspmsp \<Rightarrow> bool" where
  "CAs_ok env conf m \<longleftrightarrow> ready m \<and> CAs_set env conf m \<and> nodes_marked env m
     \<and> (\<forall>i\<in>set (msp_rootCerts m @ msp_intermediateCerts m). CA_checked env m i)"

lemma CA_checked_cong: "msp_opts m' = msp_opts m \<Longrightarrow> msp_CRL m' = msp_CRL m \<Longrightarrow> CA_checked env m' i = CA_checked env m i"
proof -
  assume o: "msp_opts m' = msp_opts m" and c: "msp_CRL m' = msp_CRL m"
  have gu: "getUniqueValidationChain env m' = getUniqueValidationChain env m" by (simp add: getUniqueValidationChain_def o fun_eq_iff)
  have va: "validateCertAgainstChain env m' = validateCertAgainstChain env m" by (simp add: validateCertAgainstChain_def c fun_eq_iff cong: list.case_cong sum.case_cong)
  show ?thesis unfolding CA_checked_def validateCAIdentity_def o gu va ..
qed

lemma CAs_ok_cong:
  assumes "msp_opts m' = msp_opts m" "msp_CRL m' = msp_CRL m" "msp_cryptoConfig m' = msp_cryptoConfig m" "msp_rootCerts m' = msp_rootCerts m"
    "msp_intermediateCerts m' = msp_intermediateCerts m" "msp_internalNodes m' = msp_internalNodes m"
  shows "CAs_ok env conf m' = CAs_ok env conf m"
  using assms CA_checked_cong [OF assms(1,2)] by (simp add: CAs_ok_def ready_def CAs_set_def nodes_marked_def)

lemma CAs_ok_ready: "CAs_ok env conf m \<Longrightarrow> ready m"
  by (simp add: CAs_ok_def)

text \<open>What the steps before the organizational units leave, from the version, the name and the enforcement they start with.\<close>

definition staged :: "msp_env \<Rightarrow> FabricMSPConfig \<Rightarrow> bccspmsp \<Rightarrow> bccspmsp \<Rightarrow> bool" where
  "staged env conf m0 m \<longleftrightarrow> CAs_ok env conf m \<and> msp_version m = msp_version m0 \<and> msp_name m = msp_name m0 \<and> msp_ouEnforcement m = msp_ouEnforcement m0"

lemma staged_ready: "staged env conf m0 m \<Longrightarrow> ready m"
  by (auto simp: staged_def intro: CAs_ok_ready)

lemma staged_cong:
  assumes "staged env conf m0 m" "msp_opts m' = msp_opts m" "msp_CRL m' = msp_CRL m" "msp_cryptoConfig m' = msp_cryptoConfig m" "msp_rootCerts m' = msp_rootCerts m"
    "msp_intermediateCerts m' = msp_intermediateCerts m" "msp_internalNodes m' = msp_internalNodes m" "msp_version m' = msp_version m"
    "msp_name m' = msp_name m" "msp_ouEnforcement m' = msp_ouEnforcement m"
  shows "staged env conf m0 m'"
  using assms CAs_ok_cong [of m' m env conf] by (simp add: staged_def)

lemma from_CAs_yields:
  assumes "chains_nonempty env" "ready m" "CAs_set env conf m" "msp_version m = msp_version m0" "msp_name m = msp_name m0" "msp_ouEnforcement m = msp_ouEnforcement m0"
  shows "yields (gbind (setupCRLs env conf m) (\<lambda>m3. gbind (finalizeSetupCAs env m3) (\<lambda>m4.
     gbind (setupSigningIdentity env now conf m4) (\<lambda>m5. gbind (setupTLSCAs env conf m5) (\<lambda>m6. setupOUs env conf m6)))))
     (\<lambda>m'. staged env conf m0 m' \<and> msp_admins m' = msp_admins m)"
proof (rule yields_gbind [OF setupCRLs_yields])
  fix m3 assume m3: "m3 = m\<lparr>msp_CRL := msp_CRL m3\<rparr>"
  obtain c where c: "m3 = m\<lparr>msp_CRL := c\<rparr>" using m3 by blast
  have r3: "ready m3" "CAs_set env conf m3" using assms(2,3) by (simp_all add: c ready_def CAs_set_def)
  show "yields (gbind (finalizeSetupCAs env m3) (\<lambda>m4. gbind (setupSigningIdentity env now conf m4) (\<lambda>m5. gbind (setupTLSCAs env conf m5) (\<lambda>m6. setupOUs env conf m6))))
     (\<lambda>m'. staged env conf m0 m' \<and> msp_admins m' = msp_admins m)"
  proof (rule yields_gbind [OF finalizeSetupCAs_yields [OF assms(1) ready_fields(1) [OF r3(1)]]])
    fix m4 assume m4: "m4 = m3\<lparr>msp_internalNodes := msp_internalNodes m4\<rparr> \<and> nodes_marked env m4
      \<and> (\<forall>i\<in>set (msp_rootCerts m3 @ msp_intermediateCerts m3). CA_checked env m3 i)"
    then obtain n where n: "m4 = m3\<lparr>msp_internalNodes := n\<rparr>" by blast
    have "CA_checked env m4 i = CA_checked env m3 i" for i by (rule CA_checked_cong) (simp_all add: n)
    then have s4: "staged env conf m0 m4" "msp_admins m4 = msp_admins m"
      using m4 r3 assms(4-6) by (auto simp: staged_def CAs_ok_def n c ready_def CAs_set_def)
    show "yields (gbind (setupSigningIdentity env now conf m4) (\<lambda>m5. gbind (setupTLSCAs env conf m5) (\<lambda>m6. setupOUs env conf m6)))
      (\<lambda>m'. staged env conf m0 m' \<and> msp_admins m' = msp_admins m)"
    proof (rule yields_gbind [OF setupSigningIdentity_yields [OF ready_fields(2) [OF staged_ready [OF s4(1)]]]])
      fix m5 assume "m5 = m4\<lparr>msp_signer := msp_signer m5\<rparr>"
      then obtain x where x: "m5 = m4\<lparr>msp_signer := x\<rparr>" by blast
      have s5: "staged env conf m0 m5" by (rule staged_cong [OF s4(1)]) (simp_all add: x)
      show "yields (gbind (setupTLSCAs env conf m5) (\<lambda>m6. setupOUs env conf m6)) (\<lambda>m'. staged env conf m0 m' \<and> msp_admins m' = msp_admins m)"
      proof (rule yields_gbind [OF setupTLSCAs_yields [OF assms(1)]])
        fix m6 assume m6: "m6 = m5\<lparr>msp_tlsRootCerts := mc_TlsRootCerts conf, msp_tlsIntermediateCerts := mc_TlsIntermediateCerts conf\<rparr>"
        have s6: "staged env conf m0 m6" by (rule staged_cong [OF s5]) (simp_all add: m6)
        then have r6: "ready m6" by (auto simp: staged_def intro: CAs_ok_ready)
        show "yields (setupOUs env conf m6) (\<lambda>m'. staged env conf m0 m' \<and> msp_admins m' = msp_admins m)"
        proof (rule yields_mono [OF setupOUs_yields [OF r6]])
          fix m7 assume "m7 = m6\<lparr>msp_ouIdentifiers := msp_ouIdentifiers m7\<rparr>"
          then obtain y where y: "m7 = m6\<lparr>msp_ouIdentifiers := y\<rparr>" by blast
          have "staged env conf m0 m7" by (rule staged_cong [OF s6]) (simp_all add: y)
          then show "staged env conf m0 m7 \<and> msp_admins m7 = msp_admins m" using s4(2) by (simp add: y m6 x)
        qed
      qed
    qed
  qed
qed

text \<open>An MSP that has been set up.\<close>

definition set_up :: "msp_env \<Rightarrow> FabricMSPConfig \<Rightarrow> nat \<Rightarrow> bccspmsp \<Rightarrow> bool" where
  "set_up env conf v m \<longleftrightarrow> msp_version m = v \<and> CAs_ok env conf m \<and> units_set m \<and> msp_name m = mc_Name conf \<and> (\<forall>a\<in>set (msp_admins m). admin_ok env m a)"

text \<open>No one has asked for a validation of the identity yet.\<close>

definition untouched :: "identity \<Rightarrow> bool" where
  "untouched a \<longleftrightarrow> \<not> id_validated a \<and> id_validationErr a = None"

lemma untouched_coherent: "untouched a \<Longrightarrow> coherent env own m a"
  by (simp add: untouched_def coherent_def)

lemma made_untouched: "list_all2 (made_from env) bs as \<Longrightarrow> \<forall>a\<in>set as. untouched a"
  by (auto simp: list_all2_conv_all_nth in_set_conv_nth made_from_def untouched_def)

lemma set_up_admins:
  "CAs_ok env conf m \<Longrightarrow> units_set m \<Longrightarrow> msp_version m = v \<Longrightarrow> msp_name m = mc_Name conf \<Longrightarrow> \<forall>a\<in>set as. admin_ok env m a \<Longrightarrow> set_up env conf v (m\<lparr>msp_admins := as\<rparr>)"
  using CAs_ok_cong [of "m\<lparr>msp_admins := as\<rparr>" m env conf] by (simp add: set_up_def units_set_def)

lemma gbind_assoc: "gbind (gbind m f) g = gbind m (\<lambda>a. gbind (f a) g)"
  by (cases m) (auto simp: gbind_def split: sum.splits)

lemma setupCAs_staged:
  "yields (setupCAs env conf (setupCrypto conf m0)) (\<lambda>m. ready m \<and> CAs_set env conf m \<and> msp_version m = msp_version m0 \<and> msp_name m = msp_name m0
     \<and> msp_ouEnforcement m = msp_ouEnforcement m0)"
  by (rule yields_mono [OF setupCAs_yields]) (simp_all add: setupCrypto_def Let_def)

lemma preSetupV1_yields:
  assumes "chains_nonempty env" "msp_version m0 \<le> MSPv1_3"
  shows "yields (preSetupV1 env now conf m0) (\<lambda>m. staged env conf m0 m \<and> (\<forall>a\<in>set (msp_admins m). untouched a))"
proof -
  have "yields (gbind (setupAdmins env conf m1) (\<lambda>m2. gbind (setupCRLs env conf m2) (\<lambda>m3. gbind (finalizeSetupCAs env m3) (\<lambda>m4.
     gbind (setupSigningIdentity env now conf m4) (\<lambda>m5. gbind (setupTLSCAs env conf m5) (\<lambda>m6. setupOUs env conf m6))))))
     (\<lambda>m. staged env conf m0 m \<and> (\<forall>a\<in>set (msp_admins m). untouched a))"
    if m1: "ready m1" "CAs_set env conf m1" "msp_version m1 = msp_version m0" "msp_name m1 = msp_name m0" "msp_ouEnforcement m1 = msp_ouEnforcement m0" for m1
  proof (rule yields_gbind [OF setupAdmins_yields [OF ready_fields(2) [OF m1(1)]]])
    fix m2 assume "m2 = m1\<lparr>msp_admins := msp_admins m2\<rparr> \<and> list_all2 (made_from env) (mc_Admins conf) (msp_admins m2)
      \<and> (msp_version m1 > MSPv1_3 \<longrightarrow> msp_admins m2 \<noteq> [] \<or> msp_ouEnforcement m1 \<and> msp_adminOU m1 \<noteq> None)"
    then obtain as where m2: "m2 = m1\<lparr>msp_admins := as\<rparr>" "list_all2 (made_from env) (mc_Admins conf) as" by fastforce
    have "yields (gbind (setupCRLs env conf m2) (\<lambda>m3. gbind (finalizeSetupCAs env m3) (\<lambda>m4.
       gbind (setupSigningIdentity env now conf m4) (\<lambda>m5. gbind (setupTLSCAs env conf m5) (\<lambda>m6. setupOUs env conf m6)))))
       (\<lambda>m'. staged env conf m0 m' \<and> msp_admins m' = msp_admins m2)"
      by (rule from_CAs_yields [OF assms(1)]) (use m1 in \<open>simp_all add: m2 ready_def CAs_set_def\<close>)
    then show "yields (gbind (setupCRLs env conf m2) (\<lambda>m3. gbind (finalizeSetupCAs env m3) (\<lambda>m4.
       gbind (setupSigningIdentity env now conf m4) (\<lambda>m5. gbind (setupTLSCAs env conf m5) (\<lambda>m6. setupOUs env conf m6)))))
       (\<lambda>m. staged env conf m0 m \<and> (\<forall>a\<in>set (msp_admins m). untouched a))"
      by (rule yields_mono) (use made_untouched [OF m2(2)] in \<open>simp add: m2(1)\<close>)
  qed
  then show ?thesis unfolding preSetupV1_def by (intro yields_gbind [OF setupCAs_staged]) blast
qed

lemma preSetupV142_yields:
  assumes "chains_nonempty env" "msp_version m0 > MSPv1_3"
  shows "yields (preSetupV142 env now conf m0) (\<lambda>m. CAs_ok env conf m \<and> units_set m \<and> msp_version m = msp_version m0 \<and> msp_name m = msp_name m0
    \<and> (\<forall>a\<in>set (msp_admins m). untouched a))"
proof -
  have tail: "yields (gbind (setupNodeOUsV142 env conf m6) (\<lambda>m7. setupAdmins env conf m7))
      (\<lambda>m. CAs_ok env conf m \<and> units_set m \<and> msp_version m = msp_version m0 \<and> msp_name m = msp_name m0 \<and> (\<forall>a\<in>set (msp_admins m). untouched a))"
    if s: "staged env conf m0 m6" for m6
  proof (rule yields_gbind [OF setupNodeOUsV142_yields [OF staged_ready [OF s]]])
    fix m7 assume "units_only m6 m7"
    then obtain e c p a o' where u: "m7 = m6\<lparr>msp_ouEnforcement := e, msp_clientOU := c, msp_peerOU := p, msp_adminOU := a, msp_ordererOU := o'\<rparr>"
      unfolding units_only_def by blast
    have ok: "CAs_ok env conf m7" using s CAs_ok_cong [of m7 m6 env conf] by (simp add: u staged_def)
    show "yields (setupAdmins env conf m7) (\<lambda>m. CAs_ok env conf m \<and> units_set m \<and> msp_version m = msp_version m0 \<and> msp_name m = msp_name m0
        \<and> (\<forall>a\<in>set (msp_admins m). untouched a))"
    proof (rule yields_mono [OF setupAdmins_yields [OF ready_fields(2) [OF CAs_ok_ready [OF ok]]]])
      fix m assume "m = m7\<lparr>msp_admins := msp_admins m\<rparr> \<and> list_all2 (made_from env) (mc_Admins conf) (msp_admins m)
        \<and> (msp_version m7 > MSPv1_3 \<longrightarrow> msp_admins m \<noteq> [] \<or> msp_ouEnforcement m7 \<and> msp_adminOU m7 \<noteq> None)"
      then obtain as where m: "m = m7\<lparr>msp_admins := as\<rparr>" "list_all2 (made_from env) (mc_Admins conf) as" by fastforce
      show "CAs_ok env conf m \<and> units_set m \<and> msp_version m = msp_version m0 \<and> msp_name m = msp_name m0 \<and> (\<forall>a\<in>set (msp_admins m). untouched a)"
        using s ok made_untouched [OF m(2)] CAs_ok_cong [of m m7 env conf] assms(2) by (simp add: m(1) u units_set_def staged_def)
    qed
  qed
  have "yields (gbind (setupCRLs env conf m1) (\<lambda>m2. gbind (finalizeSetupCAs env m2) (\<lambda>m3. gbind (setupSigningIdentity env now conf m3) (\<lambda>m4.
     gbind (setupTLSCAs env conf m4) (\<lambda>m5. gbind (setupOUs env conf m5) (\<lambda>m6. gbind (setupNodeOUsV142 env conf m6) (\<lambda>m7. setupAdmins env conf m7)))))))
     (\<lambda>m. CAs_ok env conf m \<and> units_set m \<and> msp_version m = msp_version m0 \<and> msp_name m = msp_name m0 \<and> (\<forall>a\<in>set (msp_admins m). untouched a))"
    if m1: "ready m1" "CAs_set env conf m1" "msp_version m1 = msp_version m0" "msp_name m1 = msp_name m0" "msp_ouEnforcement m1 = msp_ouEnforcement m0" for m1
    using yields_gbind [OF from_CAs_yields [OF assms(1) m1, of now] tail] by (simp add: gbind_assoc)
  then show ?thesis unfolding preSetupV142_def by (intro yields_gbind [OF setupCAs_staged]) blast
qed

lemma internalSetup_yields:
  assumes "chains_nonempty env" "role_codec env" "msp_name m0 = mc_Name conf" "\<not> msp_ouEnforcement m0"
  shows "yields (internalSetup env now conf m0) (set_up env conf (msp_version m0))"
proof -
  have v1: "yields (postSetupV1 env m) (set_up env conf (msp_version m0))"
    if m: "CAs_ok env conf m" "units_set m" "msp_version m = msp_version m0" "msp_name m = mc_Name conf" "\<forall>a\<in>set (msp_admins m). coherent env m m a"
      "\<not> (msp_version m > MSPv1_3 \<and> msp_ouEnforcement m)" for m
  proof (rule yields_mono [OF postSetupV1_yields [OF CAs_ok_ready [OF m(1)] m(2,5)]])
    fix m' assume "m' = m\<lparr>msp_admins := msp_admins m'\<rparr> \<and> (\<forall>a\<in>set (msp_admins m'). valid env m m a \<and> coherent env m m a)"
    moreover from this have "\<forall>a\<in>set (msp_admins m'). admin_ok env m a" using m(6) by (auto simp: admin_ok_def)
    ultimately show "set_up env conf (msp_version m0) m'" using set_up_admins [OF m(1-4)] by metis
  qed
  consider (v0) "msp_version m0 = 0" | (v11) "msp_version m0 = 1 \<or> msp_version m0 = 2" | (v142) "msp_version m0 > 2" by linarith
  then show ?thesis
  proof cases
    case v0
    have "yields (postSetupV1 env m) (set_up env conf (msp_version m0))"
      if m: "staged env conf m0 m \<and> (\<forall>a\<in>set (msp_admins m). untouched a)" for m
      by (rule v1) (use m v0 assms(3) untouched_coherent in \<open>auto simp: staged_def units_set_def\<close>)
    then have "yields (setupV1 env now conf m0) (set_up env conf (msp_version m0))" unfolding setupV1_def
      using v0 by (intro yields_gbind [OF preSetupV1_yields [OF assms(1)]]) auto
    then show ?thesis using v0 by (simp add: internalSetup_def)
  next
    case v11
    have "yields (gbind (setupNodeOUs env conf m1) (postSetupV11 env)) (set_up env conf (msp_version m0))"
      if m1: "staged env conf m0 m1" "\<forall>a\<in>set (msp_admins m1). untouched a" for m1
    proof (rule yields_gbind [OF setupNodeOUs_yields [OF staged_ready [OF m1(1)]]])
      fix m assume "units_only m1 m \<and> units_set m"
      then have "units_only m1 m" and us: "units_set m" by auto
      then obtain e c p a o' where u: "m = m1\<lparr>msp_ouEnforcement := e, msp_clientOU := c, msp_peerOU := p, msp_adminOU := a, msp_ordererOU := o'\<rparr>"
        unfolding units_only_def by blast
      have m: "CAs_ok env conf m" "msp_version m = msp_version m0" "msp_name m = mc_Name conf"
        using m1(1) CAs_ok_cong [of m m1 env conf] assms(3) by (simp_all add: u staged_def)
      have co: "\<forall>a\<in>set (msp_admins m). coherent env m m a" using m1(2) untouched_coherent by (simp add: u)
      show "yields (postSetupV11 env m) (set_up env conf (msp_version m0))"
      proof (rule yields_mono [OF postSetupV11_yields [OF CAs_ok_ready [OF m(1)] us co assms(2)]], use m v11 in simp)
        fix m' assume "m' = m\<lparr>msp_admins := msp_admins m'\<rparr> \<and> (\<forall>a\<in>set (msp_admins m'). valid env m m a \<and> coherent env m m a)"
        moreover from this have "\<forall>a\<in>set (msp_admins m'). admin_ok env m a" using m v11 by (auto simp: admin_ok_def)
        ultimately show "set_up env conf (msp_version m0) m'" using set_up_admins [OF m(1) us m(2,3)] by metis
      qed
    qed
    then have "yields (setupV11 env now conf m0) (set_up env conf (msp_version m0))"
      unfolding setupV11_def using v11 by (intro yields_gbind [OF preSetupV1_yields [OF assms(1)]]) auto
    then show ?thesis using v11 by (auto simp: internalSetup_def)
  next
    case v142
    have "yields (postSetupV142 env m) (set_up env conf (msp_version m0))"
      if m: "CAs_ok env conf m" "units_set m" "msp_version m = msp_version m0" "msp_name m = msp_name m0" "\<forall>a\<in>set (msp_admins m). untouched a" for m
    proof (rule yields_mono [OF postSetupV142_yields [OF CAs_ok_ready [OF m(1)] m(2)]])
      show "\<forall>a\<in>set (msp_admins m). coherent env m m a" using m(5) untouched_coherent by blast
      show "msp_version m > MSPv1_3" using m(3) v142 by simp
      fix m' assume "m' = m\<lparr>msp_admins := msp_admins m'\<rparr> \<and> (\<forall>a\<in>set (msp_admins m'). admin_ok env m a)"
      then show "set_up env conf (msp_version m0) m'" using set_up_admins [OF m(1-3)] m(4) assms(3) by metis
    qed
    then have "yields (setupV142 env now conf m0) (set_up env conf (msp_version m0))"
      unfolding setupV142_def using v142 by (intro yields_gbind [OF preSetupV142_yields [OF assms(1)]]) auto
    then show ?thesis using v142 by (simp add: internalSetup_def)
  qed
qed

lemma Setup_yields:
  assumes "chains_nonempty env" "role_codec env" "msp_New v = Inr m0"
  shows "yields (msp_Setup env now config m0) (\<lambda>m. \<exists>conf. e_un_FabricMSPConfig env config = Inr conf \<and> set_up env conf v m)"
proof -
  have m0: "\<not> msp_ouEnforcement m0" "msp_version m0 = v" using assms(3) by (auto simp: msp_New_def newBccspMsp_def split: if_splits)
  show ?thesis unfolding msp_Setup_def
  proof (rule yields_gbind [where P = "\<lambda>conf. e_un_FabricMSPConfig env config = Inr conf"])
    fix conf assume c: "e_un_FabricMSPConfig env config = Inr conf"
    have "yields (internalSetup env now conf (m0\<lparr>msp_name := mc_Name conf\<rparr>)) (set_up env conf v)"
      using internalSetup_yields [OF assms(1,2), of "m0\<lparr>msp_name := mc_Name conf\<rparr>" conf now] m0 by simp
    then show "yields (internalSetup env now conf (m0\<lparr>msp_name := mc_Name conf\<rparr>)) (\<lambda>m. \<exists>conf. e_un_FabricMSPConfig env config = Inr conf \<and> set_up env conf v m)"
      using c by (rule_tac yields_mono) auto
  qed (rule yields_Ok, simp)
qed

end
