(* ===== verification/Membership_Theorems.thy ===== *)
theory Membership_Theorems
  imports MSP_Setup_Theorems
begin

text \<open>
  The managers of a membership: what is known of every MSP of a manager, and of an identity that a manager has read.
\<close>

section \<open>The membership of a channel\<close>

text \<open>Every MSP of the manager is set up, from a configuration with its name, and found under that name.\<close>

definition mgr_ok :: "msp_env \<Rightarrow> mspManager \<Rightarrow> bool" where
  "mgr_ok env mgr \<longleftrightarrow> (\<forall>n m. map_of (mm_mspsMap mgr) n = Some m \<longrightarrow> msp_name m = n \<and> (\<exists>conf. set_up env conf MSPv1_4_3 m))"

lemma load_one_yields:
  assumes "chains_nonempty env" "role_codec env"
  shows "yields (load_one env now cfg) (\<lambda>m. \<exists>conf. set_up env conf MSPv1_4_3 m)"
proof -
  obtain t b where cfg: "cfg = (t, b)" by (cases cfg)
  obtain m0 where m0: "msp_New MSPv1_4_3 = Inr m0" by (simp add: msp_New_def newBccspMsp_def)
  have "yields (msp_Setup env now b m0) (\<lambda>m. \<exists>conf. set_up env conf MSPv1_4_3 m)"
    by (rule yields_mono [OF Setup_yields [OF assms m0]]) blast
  then show ?thesis
    by (auto simp: load_one_def cfg m0 yields_wrap intro!: yields_gbind [where P = "\<lambda>_. True"] yields_Ok)
qed

lemma mgr_add_map: "mm_mspsMap (mgr_add m mgr) = AList.update (msp_name m) m (mm_mspsMap mgr)"
  by (simp add: mgr_add_def)

lemma mgr_ok_add: "mgr_ok env mgr \<Longrightarrow> set_up env conf MSPv1_4_3 m \<Longrightarrow> mgr_ok env (mgr_add m mgr)"
  by (auto simp: mgr_ok_def mgr_add_map update_conv split: if_splits)

lemma mgr_ok_fold: "mgr_ok env mgr \<Longrightarrow> \<forall>m\<in>set ms. \<exists>conf. set_up env conf MSPv1_4_3 m \<Longrightarrow> mgr_ok env (fold mgr_add ms mgr)"
proof (induction ms arbitrary: mgr)
  case (Cons m ms)
  then obtain conf where "set_up env conf MSPv1_4_3 m" by auto
  then show ?case using Cons mgr_ok_add [of env mgr conf m] by simp
qed simp

lemma mgr_Setup_ok: "\<forall>m\<in>set ms. \<exists>conf. set_up env conf MSPv1_4_3 m \<Longrightarrow> mgr_ok env (mgr_Setup ms NewMSPManager)"
  using mgr_ok_fold [of env NewMSPManager ms] by (simp add: mgr_Setup_def mgr_ok_def NewMSPManager_def)

lemma membership_yields:
  assumes "chains_nonempty env" "role_codec env"
  shows "yields (membership_New env now e cfg) (\<lambda>(ii, pool). mgr_ok env (ii_mspManager ii))"
proof -
  have all: "list_all2 (\<lambda>_ m. P m) xs ms \<Longrightarrow> \<forall>m\<in>set ms. P m" for P :: "bccspmsp \<Rightarrow> bool" and xs :: "(int \<times> bytes) list" and ms
    by (auto simp: list_all2_conv_all_nth in_set_conv_nth)
  have ld: "yields (loadMSPs env now cfg) (list_all2 (\<lambda>_ m. \<exists>conf. set_up env conf MSPv1_4_3 m) cfg)"
    unfolding loadMSPs_def by (intro yields_gmapM load_one_yields assms)
  have l: "yields (obind (loadMSPs env now cfg) (\<lambda>r. Ok (wrap w r))) (\<lambda>ms. \<forall>m\<in>set ms. \<exists>conf. set_up env conf MSPv1_4_3 m)" for w
    unfolding yields_wrap by (rule yields_mono [OF ld]) (rule all)
  show ?thesis unfolding membership_New_def
    by (rule yields_gbind [where P = "\<lambda>(mgr, names, pool). mgr_ok env mgr"])
      (auto simp: Let_def mgr_ok_def [of env NewMSPManager] NewMSPManager_def [THEN arg_cong, of mm_mspsMap] mgr_Setup_ok
        intro!: yields_gbind [OF l] split: option.splits)
qed

lemma set_up_ready: "set_up env conf v m \<Longrightarrow> ready m \<and> units_set m"
  by (auto simp: set_up_def intro: CAs_ok_ready)

lemma deserialize_yields:
  assumes "mgr_ok env mgr"
  shows "yields (mgr_DeserializeIdentity env mgr b) (\<lambda>(m, i). coherent env m m i \<and> (\<exists>sid conf bl rest.
     e_un_SerializedIdentity env b = Inr sid \<and> map_of (mm_mspsMap mgr) (si_Mspid sid) = Some m \<and> msp_name m = si_Mspid sid
     \<and> set_up env conf MSPv1_4_3 m \<and> e_pem_Decode env (si_IdBytes sid) = Some (bl, rest)
     \<and> e_ParseCertificate env (pem_Bytes bl) = Inr (id_cert i) \<and> e_KeyImport_cert env (id_cert i) = Inr (id_pk i)))"
proof -
  have d: "yields (deserializeIdentityInternal env m c) (\<lambda>i. coherent env m m i \<and> (\<exists>bl rest. e_pem_Decode env c = Some (bl, rest)
     \<and> e_ParseCertificate env (pem_Bytes bl) = Inr (id_cert i) \<and> e_KeyImport_cert env (id_cert i) = Inr (id_pk i)))"
    if m: "msp_cryptoConfig m \<noteq> None" for m c
    unfolding deserializeIdentityInternal_def
  proof (cases "e_pem_Decode env c")
    case (Some x)
    obtain bl rest where x: "x = (bl, rest)" by (cases x)
    have "yields (gbind (Ok (wrap w1 (e_ParseCertificate env (pem_Bytes bl)))) (\<lambda>cert. gbind (Ok (wrap w2 (e_KeyImport_cert env cert))) (newIdentity env m cert)))
      (\<lambda>i. coherent env m m i \<and> e_ParseCertificate env (pem_Bytes bl) = Inr (id_cert i) \<and> e_KeyImport_cert env (id_cert i) = Inr (id_pk i))" for w1 w2
    proof (rule yields_gbind [where P = "\<lambda>cert. e_ParseCertificate env (pem_Bytes bl) = Inr cert"], rule yields_Ok, simp)
      fix cert assume p: "e_ParseCertificate env (pem_Bytes bl) = Inr cert"
      show "yields (gbind (Ok (wrap w2 (e_KeyImport_cert env cert))) (newIdentity env m cert))
        (\<lambda>i. coherent env m m i \<and> e_ParseCertificate env (pem_Bytes bl) = Inr (id_cert i) \<and> e_KeyImport_cert env (id_cert i) = Inr (id_pk i))"
      proof (rule yields_gbind [where P = "\<lambda>k. e_KeyImport_cert env cert = Inr k"], rule yields_Ok, simp)
        fix k assume "e_KeyImport_cert env cert = Inr k"
        then show "yields (newIdentity env m cert k)
          (\<lambda>i. coherent env m m i \<and> e_ParseCertificate env (pem_Bytes bl) = Inr (id_cert i) \<and> e_KeyImport_cert env (id_cert i) = Inr (id_pk i))"
          using p by (intro yields_mono [OF newIdentity_yields [OF m]]) (auto simp: coherent_def)
      qed
    qed
    then show "yields (case e_pem_Decode env c of None \<Rightarrow> Ok (Inl (errorNew ''could not decode the PEM structure''))
      | Some (bl, rest) \<Rightarrow> gbind (Ok (wrap (\<lambda>err. withMessage err ''parseCertificate failed'') (e_ParseCertificate env (pem_Bytes bl))))
          (\<lambda>cert. gbind (Ok (wrap (\<lambda>err. withMessage err ''failed to import certificate's public key'') (e_KeyImport_cert env cert))) (newIdentity env m cert)))
      (\<lambda>i. coherent env m m i \<and> (\<exists>bl rest. e_pem_Decode env c = Some (bl, rest)
        \<and> e_ParseCertificate env (pem_Bytes bl) = Inr (id_cert i) \<and> e_KeyImport_cert env (id_cert i) = Inr (id_pk i)))"
      by (simp add: Some x)
  qed simp
  show ?thesis unfolding mgr_DeserializeIdentity_def
  proof (rule yields_gbind [where P = "\<lambda>sid. e_un_SerializedIdentity env b = Inr sid"], rule yields_Ok, simp)
    fix sid assume sid: "e_un_SerializedIdentity env b = Inr sid"
    show "yields (case map_of (mm_mspsMap mgr) (si_Mspid sid) of
         None \<Rightarrow> Ok (Inl (ErrorF ''MSP %s is not defined on channel'' [FS (si_Mspid sid)]))
       | Some msp \<Rightarrow> gbind (deserializeIdentityInternal env msp (si_IdBytes sid)) (\<lambda>i. Ok (Inr (msp, i))))
      (\<lambda>(m, i). coherent env m m i \<and> (\<exists>sid conf bl rest.
         e_un_SerializedIdentity env b = Inr sid \<and> map_of (mm_mspsMap mgr) (si_Mspid sid) = Some m \<and> msp_name m = si_Mspid sid
         \<and> set_up env conf MSPv1_4_3 m \<and> e_pem_Decode env (si_IdBytes sid) = Some (bl, rest)
         \<and> e_ParseCertificate env (pem_Bytes bl) = Inr (id_cert i) \<and> e_KeyImport_cert env (id_cert i) = Inr (id_pk i)))"
    proof (cases "map_of (mm_mspsMap mgr) (si_Mspid sid)")
      case (Some m)
      then obtain conf where m: "msp_name m = si_Mspid sid" "set_up env conf MSPv1_4_3 m" using assms unfolding mgr_ok_def by blast
      show ?thesis unfolding Some option.case
        by (rule yields_gbind [OF d [OF ready_fields(2)]]) (use m sid Some set_up_ready [OF m(2)] in auto)
    qed simp
  qed
qed

end
