(* ===== verification/Membership_Properties.thy ===== *)
theory Membership_Properties
  imports Membership_Theorems Invoke_Theorems
begin

text \<open>
  The properties of the MSP and of the membership of a channel: what a principal means, that an identity has one role, what
  the setup establishes, and what the client knows of an endorsement that it has verified.
\<close>

section \<open>An environment for the examples\<close>

text \<open>
  A certificate is read from its first byte: 1 is the root, 2 a client, 3 an administrator whose serial number is revoked, 4 a
  certificate with two roles. Encodings are lists of such bytes.
\<close>

definition ex_x509 :: "8 word \<Rightarrow> bool \<Rightarrow> int \<Rightarrow> string list \<Rightarrow> certificate" where
  "ex_x509 b ca sn ous = \<lparr>x_Raw = [b], x_IsCA = ca, x_SerialNumber = sn, x_NotBefore = 0, x_NotAfter = Some 100, x_OrganizationalUnit = ous,
     x_Extensions = [([2, 5, 29, 14], [9])], x_SM2 = True, x_Signature = []\<rparr>"

definition ex_cert :: "bytes \<Rightarrow> certificate res" where
  "ex_cert b = (case b of
     [] \<Rightarrow> Inl (ExtErr ''no certificate'')
   | x # _ \<Rightarrow> if x = 1 then Inr (ex_x509 1 True 1 []) else if x = 2 then Inr (ex_x509 2 False 2 [''client''])
       else if x = 3 then Inr (ex_x509 3 False 7 [''admin'']) else if x = 4 then Inr (ex_x509 4 False 4 [''client'', ''peer''])
       else Inl (ExtErr ''no certificate''))"

definition ex_role :: "bytes \<Rightarrow> MSPRole res" where
  "ex_role b = (case b of
     [x] \<Rightarrow> if x = 0 then Inr \<lparr>mr_MspIdentifier = ''Org1'', mr_Role = MSPRole_MEMBER\<rparr>
       else if x = 1 then Inr \<lparr>mr_MspIdentifier = ''Org1'', mr_Role = MSPRole_ADMIN\<rparr>
       else if x = 2 then Inr \<lparr>mr_MspIdentifier = ''Org1'', mr_Role = MSPRole_CLIENT\<rparr>
       else if x = 3 then Inr \<lparr>mr_MspIdentifier = ''Org1'', mr_Role = MSPRole_PEER\<rparr>
       else if x = 4 then Inr \<lparr>mr_MspIdentifier = ''Org1'', mr_Role = MSPRole_ORDERER\<rparr>
       else Inl (ExtErr ''role'')
   | _ \<Rightarrow> Inl (ExtErr ''role''))"

definition ex_conf :: FabricMSPConfig where
  "ex_conf = \<lparr>mc_Name = ''Org1'', mc_RootCerts = [[1]], mc_IntermediateCerts = [], mc_Admins = [[3]], mc_RevocationList = [[8]],
     mc_SigningIdentity = None, mc_OrganizationalUnitIdentifiers = [], mc_CryptoConfig = None, mc_TlsRootCerts = [[1]], mc_TlsIntermediateCerts = [],
     mc_FabricNodeOus = Some \<lparr>no_Enable = True, no_Client = Some \<lparr>oc_Certificate = [], oc_Identifier = ''client''\<rparr>,
       no_Peer = Some \<lparr>oc_Certificate = [], oc_Identifier = ''peer''\<rparr>, no_Admin = Some \<lparr>oc_Certificate = [], oc_Identifier = ''admin''\<rparr>,
       no_Orderer = None\<rparr>\<rparr>"

definition ex_menv :: msp_env where
  "ex_menv = \<lparr>
     e_pem_Decode = (\<lambda>b. if b = [] then None else Some (\<lparr>pem_Type = ''CERTIFICATE'', pem_Headers = [], pem_Bytes = b\<rparr>, [])),
     e_pem_Encode = (\<lambda>p. Some (pem_Bytes p)),
     e_ParseCertificate = ex_cert,
     e_ParseCRL = (\<lambda>b. Inr \<lparr>crl_Raw = b, crl_Extensions = [([2, 5, 29, 35], [9])], crl_Revoked = [7]\<rparr>),
     e_Verify_chain = (\<lambda>c o'. case vo_Roots o' of [] \<Rightarrow> Inl (ExtErr ''unknown authority'')
       | r # _ \<Rightarrow> Inr [if x_IsCA c then [c] else [c, r]]),
     e_Equal = (\<lambda>c d. x_Raw c = x_Raw d),
     e_CheckCRLSignature = (\<lambda>c l. None),
     e_DER_string = Inr, e_DER_aki = Inr,
     e_DER_unsig = (\<lambda>b. Inl (ExtErr ''asn1'')), e_DER_sig = (\<lambda>rs. Inl (ExtErr ''asn1'')),
     e_un_SerializedIdentity = (\<lambda>b. Inr \<lparr>si_Mspid = ''Org1'', si_IdBytes = b\<rparr>),
     e_SerializedIdentity = (\<lambda>s. Inr (si_IdBytes s)),
     e_un_MSPRole = ex_role,
     e_MSPRole = (\<lambda>r. if mr_MspIdentifier r \<noteq> ''Org1'' then Inl (ExtErr ''role'')
       else case mr_Role r of MSPRole_MEMBER \<Rightarrow> Inr [0] | MSPRole_ADMIN \<Rightarrow> Inr [1] | MSPRole_CLIENT \<Rightarrow> Inr [2] | MSPRole_PEER \<Rightarrow> Inr [3]
         | MSPRole_ORDERER \<Rightarrow> Inr [4] | MSPRole_Other n \<Rightarrow> Inl (ExtErr ''role'')),
     e_un_OrganizationUnit = (\<lambda>b. Inl (ExtErr ''unit'')), e_un_Anonymity = (\<lambda>b. Inr 0),
     e_un_CombinedPrincipal = (\<lambda>b. case b of x # y # ys \<Rightarrow> Inr (map (\<lambda>z. \<lparr>p_Classification = MSPPrincipal_ROLE, p_Principal = [z]\<rparr>) (y # ys))
       | _ \<Rightarrow> Inl (ExtErr ''principals'')),
     e_un_FabricMSPConfig = (\<lambda>b. if b = [0] then Inr ex_conf else Inl (ExtErr ''config'')),
     e_KeyImport_cert = (\<lambda>c. Inr \<lparr>key_SKI = x_Raw c, key_Bytes = x_Raw c\<rparr>),
     e_KeyImport_private = (\<lambda>b. Inl (ExtErr ''key'')), e_GetKey = (\<lambda>b. Inl (ExtErr ''key'')),
     e_Hash = Inr, e_GetHash = Inr (\<lambda>b. b),
     e_Verify = (\<lambda>k sig d. Inr (sig = key_Bytes k @ d)),
     e_NewCspSigner = Inr, e_Sign = (\<lambda>k d. Inr (key_Bytes k @ d)),
     e_text = (\<lambda>e. ''error'')\<rparr>"

lemma ex_laws: "chains_nonempty ex_menv" "role_codec ex_menv" "parts_shorter ex_menv"
proof -
  show "chains_nonempty ex_menv" by (auto simp: chains_nonempty_def ex_menv_def split: list.splits if_splits)
  show "role_codec ex_menv" by (auto simp: role_codec_def ex_menv_def ex_role_def split: MSPRoleType.splits if_splits)
  show "parts_shorter ex_menv" by (auto simp: parts_shorter_def ex_menv_def split: list.splits)
qed

lemma ex_menv_conf: "e_un_FabricMSPConfig ex_menv [0] = Inr ex_conf"
  by (simp add: ex_menv_def)

lemma ex_conf_named: "mc_Name ex_conf = ''Org1''" "mc_RootCerts ex_conf = [[1]]"
  by (simp_all add: ex_conf_def)

definition ex_msp :: bccspmsp where
  "ex_msp = (case msp_Setup ex_menv 50 [0] (projr (msp_New 3)) of Ok (Inr m) \<Rightarrow> m | _ \<Rightarrow> projr (msp_New 3))"

lemma ex_msp_setup: "msp_Setup ex_menv 50 [0] (projr (msp_New 3)) = Ok (Inr ex_msp)"
proof -
  have "case msp_Setup ex_menv 50 [0] (projr (msp_New 3)) of Ok (Inr m) \<Rightarrow> True | _ \<Rightarrow> False" by code_simp
  then show ?thesis by (auto simp: ex_msp_def split: outcome.splits sum.splits)
qed

definition ex_member :: identity where
  "ex_member = \<lparr>id_Mspid = ''Org1'', id_Id = ''02'', id_cert = ex_x509 2 False 2 [''client''],
     id_pk = \<lparr>key_SKI = [2], key_Bytes = [2]\<rparr>, id_validated = False, id_validationErr = None\<rparr>"

lemma ex_member_coherent: "coherent env own m ex_member"
  by (simp add: coherent_def ex_member_def)

section \<open>Properties\<close>

text \<open>
  C8: What it means to satisfy a principal. The code collects the parts of combined principals and runs one check after the
  other, each of which may leave a remembered result in the identity. For an identity that remembers no wrong result
  this decides a predicate: a combined principal is satisfied if all of its parts are, at every depth, and any other
  one if \<open>grants\<close> holds of the certificate, with the roles that the version of the MSP knows.
\<close>
theorem principal_semantics:
  assumes "coherent env own msp i"
  shows "satisfied_by env own msp i p \<longleftrightarrow>
    (if p_Classification p = MSPPrincipal_COMBINED
     then msp_version msp > MSPv1_1 \<and> (\<exists>cps. e_un_CombinedPrincipal env (p_Principal p) = Inr cps \<and> cps \<noteq> []
        \<and> (\<forall>cp\<in>set cps. satisfied_by env own msp i cp))
     else grants env own msp i p)"
  by (rule satisfied_unfold [OF assms])

theorem principal_semantics_witness:
  "\<not> satisfied_by ex_menv ex_msp ex_msp ex_member \<lparr>p_Classification = MSPPrincipal_COMBINED, p_Principal = [9, 2, 3]\<rparr>
   \<and> satisfied_by ex_menv ex_msp ex_msp ex_member \<lparr>p_Classification = MSPPrincipal_COMBINED, p_Principal = [9, 0, 2]\<rparr>"
proof -
  let ?P = "\<lambda>b. \<lparr>p_Classification = MSPPrincipal_COMBINED, p_Principal = b\<rparr>"
  let ?r = "\<lambda>x. \<lparr>p_Classification = MSPPrincipal_ROLE, p_Principal = [x]\<rparr>"
  have sat: "satisfied_by ex_menv ex_msp ex_msp ex_member (?r x) =
      (\<exists>id1. satisfy_each ex_menv ex_msp ex_msp [?r x] (BccspIdentity ex_member) = Ok (None, id1))" for x
    by (simp add: satisfied_by_def SatisfiesPrincipal_def collect_leaf del: satisfy_each.simps)
  have "case satisfy_each ex_menv ex_msp ex_msp [?r 3] (BccspIdentity ex_member) of Ok (None, id1) \<Rightarrow> False | _ \<Rightarrow> True" by code_simp
  then have n: "\<not> satisfied_by ex_menv ex_msp ex_msp ex_member (?r 3)" unfolding sat by auto
  have "case satisfy_each ex_menv ex_msp ex_msp [?r 0] (BccspIdentity ex_member) of Ok (None, id1) \<Rightarrow> True | _ \<Rightarrow> False" by code_simp
  then have m: "satisfied_by ex_menv ex_msp ex_msp ex_member (?r 0)" unfolding sat by (auto split: outcome.splits prod.splits option.splits)
  have "case satisfy_each ex_menv ex_msp ex_msp [?r 2] (BccspIdentity ex_member) of Ok (None, id1) \<Rightarrow> True | _ \<Rightarrow> False" by code_simp
  then have c: "satisfied_by ex_menv ex_msp ex_msp ex_member (?r 2)" unfolding sat by (auto split: outcome.splits prod.splits option.splits)
  have v: "msp_version ex_msp = 3" by code_simp
  have p: "e_un_CombinedPrincipal ex_menv [9, x, y] = Inr [?r x, ?r y]" for x y by (simp add: ex_menv_def)
  show ?thesis
    using principal_semantics [OF ex_member_coherent, of ex_menv ex_msp ex_msp "?P [9, 2, 3]"]
      principal_semantics [OF ex_member_coherent, of ex_menv ex_msp ex_msp "?P [9, 0, 2]"] n m c
    by (simp add: p v)
qed

text \<open>
  C17: There is no limit to the nesting of combined principals, but a check always ends: the parts of a principal are encoded in
  it, and so shorter than the whole.
\<close>
theorem principals_return:
  assumes "parts_shorter env"
  shows "SatisfiesPrincipal env own msp id' p \<noteq> None"
  using collect_returns [OF assms, of "msp_version msp" p] by (auto simp: SatisfiesPrincipal_def)

theorem principals_return_witness:
  "SatisfiesPrincipal ex_menv ex_msp ex_msp (BccspIdentity ex_member) \<lparr>p_Classification = MSPPrincipal_COMBINED, p_Principal = [9, 2, 3]\<rparr> \<noteq> None"
  by (rule principals_return [OF ex_laws(3)])

text \<open>
  C15: In an MSP of a version above 1.3 that enforces node OUs and whose four roles have different OU names, an identity that
  satisfies a role other than administrator has exactly one role of the MSP: none can act as a client and as a peer or an
  orderer, and none is without a role. That the names differ is asked of the configuration, as the setup does not check it; and what
  the identity remembers of an earlier validation is that of this MSP, since a result another MSP has left in it is taken over
  unchecked (finding at mspimplvalidate.go:26).
\<close>
theorem one_role:
  assumes "coherent env own msp i" "msp_version msp > MSPv1_3" "msp_ouEnforcement msp" "distinct (unit_names msp)"
    and "satisfied_by env own msp i p" "p_Classification p = MSPPrincipal_ROLE" "e_un_MSPRole env (p_Principal p) = Inr r" "mr_Role r \<noteq> MSPRole_ADMIN"
  shows "(\<exists>!x. has_role env own msp i x) \<and> (mr_Role r = MSPRole_MEMBER \<or> has_role env own msp i (mr_Role r))"
proof -
  have g: "role_granted env own msp i (mr_Role r)"
    using assms(5,6,7) by (simp add: satisfied_unfold [OF assms(1)] grants_def)
  then have "valid env own msp i \<and> (mr_Role r = MSPRole_MEMBER \<or> has_role env own msp i (mr_Role r))"
    using assms(8) by (cases "mr_Role r") (simp_all add: role_granted_def)
  then show ?thesis using one_role_of_valid [OF _ assms(2-4)] by blast
qed

theorem one_role_witness: "(\<exists>!x. has_role ex_menv ex_msp ex_msp ex_member x) \<and> has_role ex_menv ex_msp ex_msp ex_member MSPRole_CLIENT"
proof -
  let ?p = "\<lparr>p_Classification = MSPPrincipal_ROLE, p_Principal = [2]\<rparr>"
  have "case satisfy_each ex_menv ex_msp ex_msp [?p] (BccspIdentity ex_member) of Ok (None, id1) \<Rightarrow> True | _ \<Rightarrow> False" by code_simp
  then have s: "satisfied_by ex_menv ex_msp ex_msp ex_member ?p"
    by (auto simp: satisfied_by_def SatisfiesPrincipal_def collect_leaf simp del: satisfy_each.simps split: outcome.splits prod.splits option.splits)
  have v: "msp_version ex_msp > 2" "msp_ouEnforcement ex_msp" "distinct (unit_names ex_msp)" by code_simp+
  have r: "e_un_MSPRole ex_menv [2] = Inr \<lparr>mr_MspIdentifier = ''Org1'', mr_Role = MSPRole_CLIENT\<rparr>" by (simp add: ex_menv_def ex_role_def)
  show ?thesis using one_role [OF ex_member_coherent v s, of "\<lparr>mr_MspIdentifier = ''Org1'', mr_Role = MSPRole_CLIENT\<rparr>"] by (simp add: r)
qed

text \<open>
  C14: The setup of an MSP returns for every configuration, without a panic, and an MSP that it returns is well formed: it has its
  name, its options and the hash function of its identities, its authorities are those of the configuration, have the CA
  attribute and a subject key identifier and are valid, the inner nodes of the tree of authorities are marked, the units
  that version 1.1 reads unchecked are there, and the administrators are valid, or with the node OUs of version 1.4.3 have
  the role of a client or of an administrator.
\<close>
theorem setup_well_formed:
  assumes "chains_nonempty env" "role_codec env" "msp_New v = Inr m0"
  shows "case msp_Setup env now config m0 of
      Ok (Inr m) \<Rightarrow> (\<exists>conf. e_un_FabricMSPConfig env config = Inr conf \<and> set_up env conf v m)
    | Ok (Inl err) \<Rightarrow> True
    | _ \<Rightarrow> False"
  using Setup_yields [OF assms, of now config] by (auto simp: yields_def split: outcome.splits sum.splits)

theorem setup_well_formed_witness: "set_up ex_menv ex_conf 3 ex_msp \<and> length (msp_admins ex_msp) = 1"
proof -
  have "msp_New 3 = Inr (projr (msp_New 3))" by (simp add: msp_New_def newBccspMsp_def)
  from setup_well_formed [OF ex_laws(1,2) this, where now = 50 and config = "[0]"] have "set_up ex_menv ex_conf 3 ex_msp"
    by (simp add: ex_msp_setup ex_menv_conf)
  moreover have "length (msp_admins ex_msp) = 1" by code_simp
  ultimately show ?thesis by blast
qed

lemma membership_total:
  assumes "chains_nonempty env" "role_codec env" "membership_New env now poolGet cfg = Ok (Inr (ii, pool))"
  shows "(\<exists>r. mem_Validate env t ii b = Ok r) \<and> (\<exists>r. mem_Verify env ii b msg sig = Ok r)"
proof -
  have ok: "mgr_ok env (ii_mspManager ii)" using membership_yields [OF assms(1,2), of now poolGet cfg] assms(3) by simp
  obtain d where d: "mgr_DeserializeIdentity env (ii_mspManager ii) b = Ok d" "yields (Ok d) (\<lambda>(m, i). coherent env m m i \<and> ready m \<and> units_set m)"
    using yields_mono [OF deserialize_yields [OF ok, of b], of "\<lambda>(m, i). coherent env m m i \<and> ready m \<and> units_set m"] set_up_ready
    by (cases "mgr_DeserializeIdentity env (ii_mspManager ii) b") fastforce+
  show ?thesis
  proof (cases d)
    case (Inl err)
    then show ?thesis using d(1) by (simp add: mem_Validate_def mem_Verify_def split: option.splits)
  next
    case (Inr mi)
    obtain m i where mi: "mi = (m, i)" by (cases mi)
    have m: "coherent env m m i" "ready m" "units_set m" using d(2) by (simp_all add: Inr mi)
    obtain r where "verdict env m m i = Ok r" using verdict_returns [OF m(2,2,3)] by blast
    then have "\<exists>r. mem_Validate env t ii b = Ok r" using d(1) by (simp add: mem_Validate_def Inr mi validate_eq [OF m(1)] split: option.splits)
    moreover have "\<exists>r. mem_Verify env ii b msg sig = Ok r"
      using d(1) ready_fields(2) [OF m(2)] by (auto simp: mem_Verify_def Inr mi id_Verify_def id_digest_def split: option.splits)
    ultimately show ?thesis by blast
  qed
qed

text \<open>
  C16: The membership of a channel never panics, whatever the serialized identity, message and signature are: its MSPs have been
  set up, which gives their identities all that a validation reads.
\<close>
theorem membership_never_panics:
  assumes "chains_nonempty env" "role_codec env" "membership_New env now poolGet cfg = Ok (Inr (ii, pool))"
  shows "(\<exists>r. mem_Validate env t ii b = Ok r) \<and> (\<exists>r. mem_Verify env ii b msg sig = Ok r)"
  by (rule membership_total [OF assms])

definition ex_membership :: identityImpl where
  "ex_membership = \<lparr>ii_mspManager = \<lparr>mm_mspsMap = [(''Org1'', ex_msp)], mm_mspsByProviders = [(0, [ex_msp])], mm_up = True\<rparr>, ii_msps = [''org1'']\<rparr>"

lemma ex_membership_New: "\<exists>pool. membership_New ex_menv 50 None [(0, [0])] = Ok (Inr (ex_membership, pool))"
proof -
  have l: "loadMSPs ex_menv 50 [(0, [0])] = Ok (Inr [ex_msp])"
    using ex_msp_setup ex_conf_named by (simp add: loadMSPs_def load_one_def getFabricConfig_def ex_menv_conf msp_New_def newBccspMsp_def)
  have n: "msp_name ex_msp = ''Org1''" by code_simp
  have o: "ToLower ''Org1'' = ''org1''" by code_simp
  show ?thesis
    unfolding membership_New_def l by (simp add: Let_def n ex_membership_def mgr_Setup_def mgr_add_def NewMSPManager_def o)
qed

theorem membership_never_panics_witness: "\<exists>r. mem_Validate ex_menv 50 ex_membership [2] = Ok r"
  using ex_membership_New membership_never_panics [OF ex_laws(1,2)] by blast

text \<open>
  C7: What a verified endorsement is: when the signature verifier of the client, with the membership of the channel, accepts a
  response, the endorser's identity names an MSP of the channel that is set up, its certificate is within its dates, it is
  trusted by that MSP and keeps its rules for organizational units, and the signature over the payload and the identity
  verifies with the key of that certificate.
\<close>
theorem endorsement_trusted:
  assumes "chains_nonempty menv" "role_codec menv" "membership_New menv now poolGet cfg = Ok (Inr (ii, pool))"
    and "\<forall>b. mem_Validate menv t ii b = Ok (cl_Validate (ie_cl env) b)"
    and "\<forall>b msg sig. mem_Verify menv ii b msg sig = Ok (cl_Verify (ie_cl env) b msg sig)"
    and "tpr_ProposalResponse response = Some res" "pr_Response res = Some rs" "\<not> failed_status (ie_pc env) (r_Status rs)"
    and "Verify env response = Ok None"
  shows "\<exists>e sid conf m i bl rest digest. pr_Endorsement res = Some e \<and> e_un_SerializedIdentity menv (en_Endorser e) = Inr sid
    \<and> map_of (mm_mspsMap (ii_mspManager ii)) (si_Mspid sid) = Some m \<and> msp_name m = si_Mspid sid \<and> set_up menv conf MSPv1_4_3 m
    \<and> e_pem_Decode menv (si_IdBytes sid) = Some (bl, rest) \<and> e_ParseCertificate menv (pem_Bytes bl) = Inr (id_cert i)
    \<and> ValidateCertificateDates t (id_cert i) = None \<and> trusted menv m (id_cert i) \<and> internalValidateIdentityOus menv m m i = Ok None
    \<and> e_KeyImport_cert menv (id_cert i) = Inr (id_pk i) \<and> e_Hash menv (bytes_of (pr_Payload res) @ en_Endorser e) = Inr digest
    \<and> e_Verify menv (id_pk i) (en_Signature e) digest = Inr True"
proof -
  obtain e where e: "pr_Endorsement res = Some e" "cl_Validate (ie_cl env) (en_Endorser e) = None"
    "cl_Verify (ie_cl env) (en_Endorser e) (bytes_of (pr_Payload res) @ en_Endorser e) (en_Signature e) = None"
    using assms(6-9) by (auto simp: Verify_def Let_def split: option.splits)
  have va: "mem_Validate menv t ii (en_Endorser e) = Ok None" using assms(4) e(2) by metis
  have ve: "mem_Verify menv ii (en_Endorser e) (bytes_of (pr_Payload res) @ en_Endorser e) (en_Signature e) = Ok None" using assms(5) e(3) by metis
  have ok: "mgr_ok menv (ii_mspManager ii)" using membership_yields [OF assms(1,2), of now poolGet cfg] assms(3) by simp
  obtain m i where d: "mgr_DeserializeIdentity menv (ii_mspManager ii) (en_Endorser e) = Ok (Inr (m, i))"
    using ve unfolding mem_Verify_def obind_eq_Ok by (auto split: sum.splits) (metis old.sum.exhaust surj_pair)
  from deserialize_yields [OF ok, of "en_Endorser e"] obtain sid conf bl rest where i: "coherent menv m m i"
    "e_un_SerializedIdentity menv (en_Endorser e) = Inr sid" "map_of (mm_mspsMap (ii_mspManager ii)) (si_Mspid sid) = Some m" "msp_name m = si_Mspid sid"
    "set_up menv conf MSPv1_4_3 m" "e_pem_Decode menv (si_IdBytes sid) = Some (bl, rest)"
    "e_ParseCertificate menv (pem_Bytes bl) = Inr (id_cert i)" "e_KeyImport_cert menv (id_cert i) = Inr (id_pk i)"
    by (auto simp: d)
  have dates: "ValidateCertificateDates t (id_cert i) = None" using va i(2,6,7) by (auto simp: mem_Validate_def areCertDatesValid_def split: option.splits)
  have "valid menv m m i"
    using va d by (auto simp: mem_Validate_def validate_eq [OF i(1)] valid_def obind_eq_Ok split: option.splits)
  then have tr: "trusted menv m (id_cert i)" "internalValidateIdentityOus menv m m i = Ok None" by (simp_all add: valid_iff)
  obtain digest where "e_Hash menv (bytes_of (pr_Payload res) @ en_Endorser e) = Inr digest" "e_Verify menv (id_pk i) (en_Signature e) digest = Inr True"
    using ve d by (auto simp: mem_Verify_def id_Verify_def id_digest_def obind_eq_Ok wrap_def split: option.splits sum.splits if_splits)
  then show ?thesis using e(1) i dates tr by blast
qed

definition ex_trust :: "(nat cworld, int, bytes, bytes) invokeEnv" where
  "ex_trust = \<lparr>ie_wire = ex_wire, ie_pc = ex_codec, ie_rw = id_codec, ie_cl = ex_cl\<lparr>
     cl_Validate := \<lambda>b. (case mem_Validate ex_menv 50 ex_membership b of Ok r \<Rightarrow> r | _ \<Rightarrow> None),
     cl_Verify := \<lambda>b msg sig. (case mem_Verify ex_menv ex_membership b msg sig of Ok r \<Rightarrow> r | _ \<Rightarrow> None)\<rparr>\<rparr>"

lemma ex_trust_cl:
  "mem_Validate ex_menv 50 ex_membership b = Ok (cl_Validate (ie_cl ex_trust) b)"
  "mem_Verify ex_menv ex_membership b msg sig = Ok (cl_Verify (ie_cl ex_trust) b msg sig)"
proof -
  obtain pool where n: "membership_New ex_menv 50 None [(0, [0])] = Ok (Inr (ex_membership, pool))" using ex_membership_New by blast
  show "mem_Validate ex_menv 50 ex_membership b = Ok (cl_Validate (ie_cl ex_trust) b)"
    "mem_Verify ex_menv ex_membership b msg sig = Ok (cl_Verify (ie_cl ex_trust) b msg sig)"
    using membership_total [OF ex_laws(1,2) n, of 50 b msg sig] by (auto simp: ex_trust_def)
qed

definition ex_endorsed :: TransactionProposalResponse where
  "ex_endorsed = ex_response\<lparr>tpr_ProposalResponse := Some \<lparr>pr_Response = Some \<lparr>r_Status = 200, r_Message = [], r_Payload = [7]\<rparr>,
     pr_Payload = Some [7], pr_Endorsement = Some \<lparr>en_Endorser = [2], en_Signature = [2, 7, 2]\<rparr>\<rparr>\<rparr>"

lemma ex_endorsed_parts:
  "tpr_ProposalResponse ex_endorsed = Some \<lparr>pr_Response = Some \<lparr>r_Status = 200, r_Message = [], r_Payload = [7]\<rparr>,
     pr_Payload = Some [7], pr_Endorsement = Some \<lparr>en_Endorser = [2], en_Signature = [2, 7, 2]\<rparr>\<rparr>"
  "failed_status (ie_pc ex_trust) 200 = False"
  "e_un_SerializedIdentity ex_menv b = Inr \<lparr>si_Mspid = ''Org1'', si_IdBytes = b\<rparr>"
  "e_pem_Decode ex_menv [2] = Some (\<lparr>pem_Type = ''CERTIFICATE'', pem_Headers = [], pem_Bytes = [2]\<rparr>, [])"
  by (simp_all add: ex_endorsed_def ex_trust_def ex_codec_def failed_status_def ex_menv_def)

theorem endorsement_trusted_witness: "\<exists>c. trusted ex_menv ex_msp c \<and> e_ParseCertificate ex_menv [2] = Inr c"
proof -
  obtain pool where n: "membership_New ex_menv 50 None [(0, [0])] = Ok (Inr (ex_membership, pool))" using ex_membership_New by blast
  have "case Verify ex_trust ex_endorsed of Ok None \<Rightarrow> True | _ \<Rightarrow> False" by code_simp
  then have v: "Verify ex_trust ex_endorsed = Ok None" by (auto split: outcome.splits option.splits)
  let ?R = "\<lparr>pr_Response = Some \<lparr>r_Status = 200, r_Message = [], r_Payload = [7]\<rparr>,
     pr_Payload = Some [7], pr_Endorsement = Some \<lparr>en_Endorser = [2], en_Signature = [2, 7, 2]\<rparr>\<rparr>"
  have cl: "\<forall>b. mem_Validate ex_menv 50 ex_membership b = Ok (cl_Validate (ie_cl ex_trust) b)"
    "\<forall>b msg sig. mem_Verify ex_menv ex_membership b msg sig = Ok (cl_Verify (ie_cl ex_trust) b msg sig)" using ex_trust_cl by simp_all
  have s: "pr_Response ?R = Some \<lparr>r_Status = 200, r_Message = [], r_Payload = [7]\<rparr>" "\<not> failed_status (ie_pc ex_trust) (r_Status \<lparr>r_Status = 200, r_Message = [], r_Payload = [7]\<rparr>)"
    by (simp_all add: ex_endorsed_parts)
  obtain e sid m bl rest and i :: identity where r: "pr_Endorsement ?R = Some e" "e_un_SerializedIdentity ex_menv (en_Endorser e) = Inr sid"
    "map_of (mm_mspsMap (ii_mspManager ex_membership)) (si_Mspid sid) = Some m" "trusted ex_menv m (id_cert i)"
    "e_pem_Decode ex_menv (si_IdBytes sid) = Some (bl, rest)" "e_ParseCertificate ex_menv (pem_Bytes bl) = Inr (id_cert i)"
    using endorsement_trusted [OF ex_laws(1,2) n cl ex_endorsed_parts(1) s v] by blast
  have "en_Endorser e = [2]" using r(1) by auto
  then have "sid = \<lparr>si_Mspid = ''Org1'', si_IdBytes = [2]\<rparr>" using r(2) by (simp add: ex_endorsed_parts)
  then have "m = ex_msp" "pem_Bytes bl = [2]" using r(3,5) by (auto simp: ex_endorsed_parts ex_membership_def)
  then show ?thesis using r(4,6) by auto
qed

section \<open>Two divergences\<close>

text \<open>
  An administrator need not be checked again because setup has checked it, says the code; with node OUs of version 1.4.3,
  setup only looks at its role. So a revoked administrator passes setup and has the role of an administrator.
\<close>
theorem revoked_admin_accepted:
  "\<exists>a. msp_admins ex_msp = [a] \<and> satisfied_by ex_menv ex_msp ex_msp a \<lparr>p_Classification = MSPPrincipal_ROLE, p_Principal = [1]\<rparr>
     \<and> \<not> valid ex_menv ex_msp ex_msp a"
proof -
  obtain a where a: "msp_admins ex_msp = [a]"
  proof -
    have "length (msp_admins ex_msp) = 1" by code_simp
    then show ?thesis using that by (cases "msp_admins ex_msp") auto
  qed
  have ad: "a = hd (msp_admins ex_msp)" using a by simp
  have "case satisfy_each ex_menv ex_msp ex_msp [\<lparr>p_Classification = MSPPrincipal_ROLE, p_Principal = [1]\<rparr>] (BccspIdentity (hd (msp_admins ex_msp))) of
    Ok (None, id1) \<Rightarrow> True | _ \<Rightarrow> False" by code_simp
  then have "satisfied_by ex_menv ex_msp ex_msp a \<lparr>p_Classification = MSPPrincipal_ROLE, p_Principal = [1]\<rparr>" unfolding ad
    by (auto simp: satisfied_by_def SatisfiesPrincipal_def collect_leaf simp del: satisfy_each.simps split: outcome.splits prod.splits option.splits)
  moreover have "case verdict ex_menv ex_msp ex_msp (hd (msp_admins ex_msp)) of Ok None \<Rightarrow> False | _ \<Rightarrow> True" by code_simp
  then have "\<not> valid ex_menv ex_msp ex_msp a" unfolding valid_def ad by auto
  ultimately show ?thesis using a by blast
qed

text \<open>
  An identity remembers that it is valid, but not for which MSP: one that any MSP has accepted is a member for every other.
\<close>
theorem foreign_identity_accepted:
  assumes "id_validated i" "id_validationErr i = None" "e_un_MSPRole env b = Inr \<lparr>mr_MspIdentifier = msp_name msp, mr_Role = MSPRole_MEMBER\<rparr>"
  shows "satisfied_by env own msp i \<lparr>p_Classification = MSPPrincipal_ROLE, p_Principal = b\<rparr>"
  using assms by (auto simp: satisfied_by_def SatisfiesPrincipal_def collect_leaf internalSatisfiesPrincipalInternal_def satisfiesPrincipalInternalPreV13_def
    satisfiesPrincipalInternalV13_def satisfiesPrincipalInternalV142_def satisfies_role_def msp_Validate_def validateIdentity_def)

end
