(* ===== verification/Ledger.thy ===== *)
theory Ledger
  imports Invoke_Handlers Fabric_Selection
begin

text \<open>
  Queries of the system chaincodes of a channel: pkg/fab/channel (ledger.go, qscc.go, cscc.go, responsevalidator.go), and the
  ledger client above it (pkg/client/ledger: ledger.go, opts.go).

  The record \<open>netEnv\<close> is what a query needs of its context: the encoders and the signer, the random source, the time, and a
  target as a function that may change the world \<open>'w\<close>. A message that is decoded and not looked into is of a type \<open>'m\<close> with
  its decoder as an argument; \<open>proto.Equal\<close> of decoded messages is equality.
\<close>

section \<open>The network of a query\<close>

record 'w netEnv =
  ne_wire :: wire
  ne_pc :: pcodec
  ne_ctx :: "clientCtx option"
  ne_random :: "bytes res"
  ne_timestamp :: "int res"
  ne_process :: "'w process"
  ne_arrival :: "ProposalProcessor list \<Rightarrow> ProposalProcessor list"
  ne_Block :: "bytes \<Rightarrow> block res"

record ResponseVerifier =
  rv_Verify :: "TransactionProposalResponse \<Rightarrow> goerr option outcome"
  rv_Match :: "TransactionProposalResponse list \<Rightarrow> goerr option outcome"

definition StatusOK :: "32 word" where
  "StatusOK = 200"

primrec filter_loop :: "wire \<Rightarrow> ResponseVerifier option \<Rightarrow> TransactionProposalResponse list \<Rightarrow> TransactionProposalResponse list
    \<Rightarrow> goerr option \<Rightarrow> (TransactionProposalResponse list \<times> goerr option) outcome" where
  "filter_loop wr verifier [] acc errs = Ok (acc, errs)"
| "filter_loop wr verifier (response # rs) acc errs =
    (if tpr_Status response = StatusOK
     then (case verifier of
         None \<Rightarrow> filter_loop wr verifier rs (acc @ [response]) errs
       | Some v \<Rightarrow> obind (rv_Verify v response) (\<lambda>r. case r of
           Some err \<Rightarrow> filter_loop wr verifier rs acc (multi_Append errs (Some (ErrorF ''failed to verify response from %s: %s''
             [FS (tpr_Endorser response), FS (errorText wr err)])))
         | None \<Rightarrow> filter_loop wr verifier rs (acc @ [response]) errs))
     else filter_loop wr verifier rs acc (multi_Append errs (Some (ErrorF ''bad status from %s (%d)''
            [FS (tpr_Endorser response), FI (sint (tpr_Status response))]))))"

definition filterResponses :: "wire \<Rightarrow> TransactionProposalResponse list \<Rightarrow> goerr option \<Rightarrow> ResponseVerifier option
    \<Rightarrow> (TransactionProposalResponse list \<times> goerr option) outcome" where
  "filterResponses wr responses errs verifier = filter_loop wr verifier responses [] errs"

definition queryChaincode :: "'w netEnv \<Rightarrow> string \<Rightarrow> ChaincodeInvokeRequest \<Rightarrow> ProposalProcessor list \<Rightarrow> ResponseVerifier option
    \<Rightarrow> 'w \<Rightarrow> ((TransactionProposalResponse list \<times> goerr option) \<times> 'w) outcome" where
  "queryChaincode env channelID request targets verifier w = (case ne_ctx env of
     None \<Rightarrow> Ok (([], Some (errorNew ''failed get client context from reqContext for signProposal'')), w)
   | Some ctx \<Rightarrow> (case wrap_err ''creation of transaction ID failed'' (NewHeader ctx (ne_random env) channelID []) of
       Inl err \<Rightarrow> Ok (([], Some err), w)
     | Inr txh \<Rightarrow> obind (CreateChaincodeInvokeProposal (ne_pc env) (ne_timestamp env) txh request) (\<lambda>r.
         case wrap_err ''NewProposal failed'' r of
           Inl err \<Rightarrow> Ok (([], Some err), w)
         | Inr tp \<Rightarrow> (case SendProposal (ne_pc env) (Some ctx) (ne_process env) (ne_arrival env) (Some tp) (map Some targets) w of
             ((tprs, errs), w1) \<Rightarrow> obind (filterResponses (ne_wire env) tprs errs verifier) (\<lambda>fr. Ok (fr, w1))))))"

section \<open>The requests\<close>

definition sysRequest :: "string \<Rightarrow> string \<Rightarrow> bytes list \<Rightarrow> ChaincodeInvokeRequest" where
  "sysRequest cc fcn args = \<lparr>ir_ChaincodeID = cc, ir_Lang = 0, ir_TransientMap = [], ir_Fcn = fcn, ir_Args = args, ir_IsInit = False\<rparr>"

definition createTransactionByIDInvokeRequest :: "string \<Rightarrow> string \<Rightarrow> ChaincodeInvokeRequest" where
  "createTransactionByIDInvokeRequest channelID transactionID =
     sysRequest ''qscc'' ''GetTransactionByID'' [string_bytes channelID, string_bytes transactionID]"

definition createChannelInfoInvokeRequest :: "string \<Rightarrow> ChaincodeInvokeRequest" where
  "createChannelInfoInvokeRequest channelID = sysRequest ''qscc'' ''GetChainInfo'' [string_bytes channelID]"

definition createBlockByHashInvokeRequest :: "string \<Rightarrow> bytes \<Rightarrow> ChaincodeInvokeRequest" where
  "createBlockByHashInvokeRequest channelID blockHash = sysRequest ''qscc'' ''GetBlockByHash'' [string_bytes channelID, blockHash]"

definition createBlockByNumberInvokeRequest :: "string \<Rightarrow> 64 word \<Rightarrow> ChaincodeInvokeRequest" where
  "createBlockByNumberInvokeRequest channelID blockNumber =
     sysRequest ''qscc'' ''GetBlockByNumber'' [string_bytes channelID, string_bytes (dec (unat blockNumber))]"

definition createBlockByTxIDInvokeRequest :: "string \<Rightarrow> string \<Rightarrow> ChaincodeInvokeRequest" where
  "createBlockByTxIDInvokeRequest channelID transactionID =
     sysRequest ''qscc'' ''GetBlockByTxID'' [string_bytes channelID, string_bytes transactionID]"

definition createConfigBlockInvokeRequest :: "string \<Rightarrow> ChaincodeInvokeRequest" where
  "createConfigBlockInvokeRequest channelID = sysRequest ''cscc'' ''GetConfigBlock'' [string_bytes channelID]"

definition createChaincodeInvokeRequest :: ChaincodeInvokeRequest where
  "createChaincodeInvokeRequest = sysRequest ''lscc'' ''getchaincodes'' []"

definition createCollectionsConfigInvokeRequest :: "string \<Rightarrow> ChaincodeInvokeRequest" where
  "createCollectionsConfigInvokeRequest chaincodeName = sysRequest ''lscc'' ''getcollectionsconfig'' [string_bytes chaincodeName]"

section \<open>The answers\<close>

record BlockchainInfo =
  bci_Height :: "64 word"
  bci_CurrentBlockHash :: bytes
  bci_PreviousBlockHash :: bytes

record BlockchainInfoResponse =
  bir_Endorser :: string
  bir_Status :: "32 word"
  bir_BCI :: BlockchainInfo

text \<open>\<open>tpr.ProposalResponse.GetResponse().Payload\<close>: the getter accepts a nil response, the selection does not.\<close>

definition response_payload :: "TransactionProposalResponse \<Rightarrow> bytes outcome" where
  "response_payload tpr = (case Option.bind (tpr_ProposalResponse tpr) pr_Response of None \<Rightarrow> Panic | Some r \<Rightarrow> Ok (r_Payload r))"

text \<open>The body that \<open>createBlockchainInfo\<close>, \<open>createProcessedTransaction\<close> and the other converters share.\<close>

definition createMessage :: "(bytes \<Rightarrow> 'm res) \<Rightarrow> TransactionProposalResponse \<Rightarrow> 'm res outcome" where
  "createMessage um tpr = obind (response_payload tpr) (\<lambda>b. Ok (wrap_err ''unmarshal of transaction proposal response failed'' (um b)))"

definition createCommonBlock :: "'w netEnv \<Rightarrow> TransactionProposalResponse \<Rightarrow> block res outcome" where
  "createCommonBlock env tpr = createMessage (ne_Block env) tpr"

primrec decode_all :: "(TransactionProposalResponse \<Rightarrow> 'm res outcome) \<Rightarrow> TransactionProposalResponse list \<Rightarrow> 'm list \<Rightarrow> goerr option
    \<Rightarrow> ('m list \<times> goerr option) outcome" where
  "decode_all create [] responses errs = Ok (responses, errs)"
| "decode_all create (tpr # tprs) responses errs = obind (create tpr) (\<lambda>r. case r of
     Inl err \<Rightarrow> decode_all create tprs responses (multi_Append errs (Some (withMessage err (''From target: '' @ tpr_Endorser tpr))))
   | Inr m \<Rightarrow> decode_all create tprs (responses @ [m]) errs)"

definition getConfigBlocks :: "'w netEnv \<Rightarrow> TransactionProposalResponse list \<Rightarrow> (block list \<times> goerr option) outcome" where
  "getConfigBlocks env tprs = decode_all (createCommonBlock env) tprs [] None"

section \<open>ledger.go of the channel\<close>

text \<open>The queries that collect the errors of the targets and of the decoding in one list.\<close>

definition query_messages :: "'w netEnv \<Rightarrow> string \<Rightarrow> ChaincodeInvokeRequest \<Rightarrow> (TransactionProposalResponse \<Rightarrow> 'm res outcome)
    \<Rightarrow> ProposalProcessor list \<Rightarrow> ResponseVerifier option \<Rightarrow> 'w \<Rightarrow> (('m list \<times> goerr option) \<times> 'w) outcome" where
  "query_messages env ch cir create targets verifier w =
     obind (queryChaincode env ch cir targets verifier w) (\<lambda>((tprs, errs), w1).
     obind (decode_all create tprs [] errs) (\<lambda>r. Ok (r, w1)))"

definition createBlockchainInfo :: "(bytes \<Rightarrow> BlockchainInfo res) \<Rightarrow> TransactionProposalResponse \<Rightarrow> BlockchainInfoResponse res outcome" where
  "createBlockchainInfo um tpr = obind (createMessage um tpr) (\<lambda>r. Ok (rbind r (\<lambda>bci.
     Inr \<lparr>bir_Endorser = tpr_Endorser tpr, bir_Status = tpr_Status tpr, bir_BCI = bci\<rparr>)))"

definition ledger_QueryInfo :: "'w netEnv \<Rightarrow> (bytes \<Rightarrow> BlockchainInfo res) \<Rightarrow> string \<Rightarrow> ProposalProcessor list \<Rightarrow> ResponseVerifier option
    \<Rightarrow> 'w \<Rightarrow> ((BlockchainInfoResponse list \<times> goerr option) \<times> 'w) outcome" where
  "ledger_QueryInfo env um ch targets verifier w =
     query_messages env ch (createChannelInfoInvokeRequest ch) (createBlockchainInfo um) targets verifier w"

definition ledger_QueryTransaction :: "'w netEnv \<Rightarrow> (bytes \<Rightarrow> 'm res) \<Rightarrow> string \<Rightarrow> string \<Rightarrow> ProposalProcessor list \<Rightarrow> ResponseVerifier option
    \<Rightarrow> 'w \<Rightarrow> (('m list \<times> goerr option) \<times> 'w) outcome" where
  "ledger_QueryTransaction env um ch transactionID targets verifier w =
     query_messages env ch (createTransactionByIDInvokeRequest ch transactionID) (createMessage um) targets verifier w"

definition QueryInstantiatedChaincodes :: "'w netEnv \<Rightarrow> (bytes \<Rightarrow> 'm res) \<Rightarrow> string \<Rightarrow> ProposalProcessor list \<Rightarrow> ResponseVerifier option
    \<Rightarrow> 'w \<Rightarrow> (('m list \<times> goerr option) \<times> 'w) outcome" where
  "QueryInstantiatedChaincodes env um ch targets verifier w =
     query_messages env ch createChaincodeInvokeRequest (createMessage um) targets verifier w"

definition QueryCollectionsConfig :: "'w netEnv \<Rightarrow> (bytes \<Rightarrow> 'm res) \<Rightarrow> string \<Rightarrow> string \<Rightarrow> ProposalProcessor list \<Rightarrow> ResponseVerifier option
    \<Rightarrow> 'w \<Rightarrow> (('m list \<times> goerr option) \<times> 'w) outcome" where
  "QueryCollectionsConfig env um ch chaincodeName targets verifier w =
     query_messages env ch (createCollectionsConfigInvokeRequest chaincodeName) (createMessage um) targets verifier w"

text \<open>The queries for blocks, whose decoding errors are appended as one error.\<close>

definition query_blocks :: "'w netEnv \<Rightarrow> string \<Rightarrow> ChaincodeInvokeRequest \<Rightarrow> ProposalProcessor list \<Rightarrow> ResponseVerifier option
    \<Rightarrow> 'w \<Rightarrow> ((block list \<times> goerr option) \<times> 'w) outcome" where
  "query_blocks env ch cir targets verifier w =
     obind (queryChaincode env ch cir targets verifier w) (\<lambda>((tprs, errs), w1).
     obind (getConfigBlocks env tprs) (\<lambda>(responses, errors). Ok ((responses, multi_Append errs errors), w1)))"

definition ledger_QueryBlockByHash :: "'w netEnv \<Rightarrow> string \<Rightarrow> bytes \<Rightarrow> ProposalProcessor list \<Rightarrow> ResponseVerifier option
    \<Rightarrow> 'w \<Rightarrow> ((block list \<times> goerr option) \<times> 'w) outcome" where
  "ledger_QueryBlockByHash env ch blockHash targets verifier w =
    (if length blockHash = 0 then Ok (([], Some (errorNew ''blockHash is required'')), w)
     else query_blocks env ch (createBlockByHashInvokeRequest ch blockHash) targets verifier w)"

definition ledger_QueryBlockByTxID :: "'w netEnv \<Rightarrow> string \<Rightarrow> string \<Rightarrow> ProposalProcessor list \<Rightarrow> ResponseVerifier option
    \<Rightarrow> 'w \<Rightarrow> ((block list \<times> goerr option) \<times> 'w) outcome" where
  "ledger_QueryBlockByTxID env ch txID targets verifier w =
    (if txID = [] then Ok (([], Some (errorNew ''txID is required'')), w)
     else query_blocks env ch (createBlockByTxIDInvokeRequest ch txID) targets verifier w)"

definition ledger_QueryBlock :: "'w netEnv \<Rightarrow> string \<Rightarrow> 64 word \<Rightarrow> ProposalProcessor list \<Rightarrow> ResponseVerifier option
    \<Rightarrow> 'w \<Rightarrow> ((block list \<times> goerr option) \<times> 'w) outcome" where
  "ledger_QueryBlock env ch blockNumber targets verifier w =
     query_blocks env ch (createBlockByNumberInvokeRequest ch blockNumber) targets verifier w"

text \<open>A nil verifier panics when its method is called.\<close>

definition ledger_QueryConfigBlock :: "'w netEnv \<Rightarrow> string \<Rightarrow> ProposalProcessor list \<Rightarrow> ResponseVerifier option
    \<Rightarrow> 'w \<Rightarrow> (block res \<times> 'w) outcome" where
  "ledger_QueryConfigBlock env ch targets verifier w =
    (if length targets = 0 then Ok (Inl (errorNew ''target(s) required''), w)
     else obind (queryChaincode env ch (createConfigBlockInvokeRequest ch) targets verifier w) (\<lambda>((tprs, err), w1).
       case (err, tprs) of
         (Some e, []) \<Rightarrow> Ok (Inl (withMessage e ''queryChaincode failed''), w1)
       | _ \<Rightarrow> (case verifier of
           None \<Rightarrow> Panic
         | Some v \<Rightarrow> obind (rv_Match v tprs) (\<lambda>matchErr. case matchErr of
             Some e \<Rightarrow> Ok (Inl e, w1)
           | None \<Rightarrow> (case tprs of [] \<Rightarrow> Panic | t # _ \<Rightarrow> obind (createCommonBlock env t) (\<lambda>r. Ok (r, w1)))))))"

section \<open>responsevalidator.go\<close>

primrec match_rest :: "'w netEnv \<Rightarrow> bytes list option \<Rightarrow> TransactionProposalResponse list \<Rightarrow> goerr option outcome" where
  "match_rest env data [] = Ok None"
| "match_rest env data (tpr # tprs) = obind (createCommonBlock env tpr) (\<lambda>r. case r of
     Inl err \<Rightarrow> Ok (Some err)
   | Inr b \<Rightarrow> if data \<noteq> blk_Data b
       then Ok (Some (withStack (asError (status_New EndorserClientStatus EndorsementMismatch ''payloads for config block do not match'' []))))
       else match_rest env data tprs)"

text \<open>An empty slice that a decoder returns is nil.\<close>

definition tprv_Match :: "'w netEnv \<Rightarrow> int \<Rightarrow> TransactionProposalResponse list \<Rightarrow> goerr option outcome" where
  "tprv_Match env minResponses tprs =
    (if minResponses \<le> 0 then Ok (Some (errorNew ''minimum Responses has to be greater than zero''))
     else if int (length tprs) < minResponses
     then Ok (Some (ErrorF ''required minimum %d endorsments got %d'' [FI minResponses, FN (length tprs)]))
     else (case tprs of
       [] \<Rightarrow> Panic
     | t # ts \<Rightarrow> obind (createCommonBlock env t) (\<lambda>r. case r of
         Inl err \<Rightarrow> Ok (Some err)
       | Inr b \<Rightarrow> (case blk_Data b of
           None \<Rightarrow> Ok (Some (errorNew ''config block data is nil''))
         | Some d \<Rightarrow> if d = [] then Ok (Some (errorNew ''config block data is nil''))
             else if length d \<noteq> 1 then Ok (Some (errorNew ''config block must contain one transaction''))
             else match_rest env (blk_Data b) ts))))"

definition TransactionProposalResponseVerifier :: "'w netEnv \<Rightarrow> int \<Rightarrow> ResponseVerifier" where
  "TransactionProposalResponseVerifier env minResponses = \<lparr>rv_Verify = (\<lambda>r. Ok None), rv_Match = tprv_Match env minResponses\<rparr>"

end
