(* ===== verification/Resource.thy ===== *)
theory Resource
  imports Ledger Config_Update
begin

text \<open>
  The requests of resource management (pkg/fab/resource: resource.go, block.go, config.go, cscc.go, lscc.go): creating and
  joining channels, fetching blocks from an orderer, installing chaincodes and querying a peer.

  Encoders and decoders of protocol buffers are the record \<open>rescodec\<close>; \<open>resEnv\<close> has the orderers and the retrying beside the
  network of a query. An orderer is given by its URL. Retrying that never ends is the outcome \<open>Blocked\<close>.
\<close>

section \<open>Messages\<close>

record ConfigSignature =
  cs_SignatureHeader :: bytes
  cs_Signature :: bytes

datatype seek_pos = SeekNewest | SeekSpecified "64 word"

record ChaincodeInfo =
  cci_Name :: string
  cci_Version :: string
  cci_Path :: string

record 'p rescodec =
  rc_Envelope :: "bytes \<Rightarrow> SignedEnvelope res"
  rc_Payload :: "bytes \<Rightarrow> payload res"
  rc_ChannelHeaderType :: "bytes \<Rightarrow> int res"
  rc_ConfigEnvelope :: "bytes \<Rightarrow> 'p ConfigGroup option option res" \<comment> \<open>the \<open>ChannelGroup\<close> of the \<open>Config\<close>, each may be nil\<close>
  rc_ConfigUpdateEnvelope :: "bytes \<Rightarrow> (bytes \<times> ConfigSignature list) res"
  rc_Metadata :: "bytes \<Rightarrow> bytes res"
  rc_LastConfig :: "bytes \<Rightarrow> 64 word res"
  rc_ChannelQueryResponse :: "bytes \<Rightarrow> string list res"
  rc_ChaincodeQueryResponse :: "bytes \<Rightarrow> ChaincodeInfo list res"
  rc_e_SeekInfo :: "seek_pos \<Rightarrow> bytes res"
  rc_e_ConfigUpdateEnvelope :: "bytes \<Rightarrow> ConfigSignature list \<Rightarrow> bytes res"
  rc_e_Block :: "block \<Rightarrow> bytes res"
  rc_e_CDS :: "int \<Rightarrow> ChaincodeInfo \<Rightarrow> bytes \<Rightarrow> bytes res"

definition HeaderType_CONFIG :: int where
  "HeaderType_CONFIG = 1"

definition HeaderType_CONFIG_UPDATE :: int where
  "HeaderType_CONFIG_UPDATE = 2"

definition HeaderType_DELIVER_SEEK_INFO :: int where
  "HeaderType_DELIVER_SEEK_INFO = 5"

definition BlockMetadataIndex_LAST_CONFIG :: nat where
  "BlockMetadataIndex_LAST_CONFIG = 1"

record ('w, 'f, 'p) resEnv =
  re_net :: "'w netEnv"
  re_codec :: "'p rescodec"
  re_cv :: "'f dur_conv"
  re_TLSCertHash :: "bytes res"
  re_now :: int
  re_tsProto :: "int \<Rightarrow> int res"
  re_draw :: "nat \<Rightarrow> nat"
  re_deliver :: "string \<Rightarrow> SignedEnvelope \<Rightarrow> 'w \<Rightarrow> delivery \<times> 'w"
  re_broadcast :: "'w broadcast"

text \<open>The invoker with the options of a request.\<close>

definition retrying :: "('w, 'f::{linorder,times}, 'p) resEnv \<Rightarrow> 'f Opts \<Rightarrow> ('w \<Rightarrow> ('v res \<times> 'w) outcome) \<Rightarrow> 'w \<Rightarrow> ('v res \<times> 'w) outcome" where
  "retrying env opts m w = (case invoke_retry (ne_wire (re_net env)) (re_cv env) opts m w of None \<Rightarrow> Blocked | Some r \<Rightarrow> r)"

text \<open>Steps of a request with the world.\<close>

definition rstep :: "('a res \<times> 'w) outcome \<Rightarrow> ('a \<Rightarrow> 'w \<Rightarrow> ('b res \<times> 'w) outcome) \<Rightarrow> ('b res \<times> 'w) outcome" where
  "rstep m f = obind m (\<lambda>(r, w). case r of Inl e \<Rightarrow> Ok (Inl e, w) | Inr x \<Rightarrow> f x w)"

definition rpure :: "'a res \<Rightarrow> 'w \<Rightarrow> ('a res \<times> 'w) outcome" where
  "rpure r w = Ok (r, w)"

section \<open>config.go\<close>

text \<open>The header and the bytes that a creator signs: \<open>random\<close> is the nonce.\<close>

definition GetConfigSignatureData :: "pcodec \<Rightarrow> bytes res \<Rightarrow> bytes res \<Rightarrow> bytes \<Rightarrow> (SignatureHeader \<times> bytes \<times> bytes) res" where
  "GetConfigSignatureData pc serialize random config =
     rbind (wrap_err ''failed to get user context's identity'' serialize) (\<lambda>creatorBytes.
     rbind (wrap_err ''nonce creation failed'' random) (\<lambda>nonce.
     let sh = \<lparr>sh_Nonce = nonce, sh_Creator = creatorBytes\<rparr> in
     rbind (wrap_err ''marshal signatureHeader failed'' (e_SignatureHeader pc sh)) (\<lambda>shBytes.
       Inr (sh, shBytes, shBytes @ config))))"

definition CreateConfigSignature :: "pcodec \<Rightarrow> clientCtx \<Rightarrow> bytes res \<Rightarrow> bytes \<Rightarrow> ConfigSignature res outcome" where
  "CreateConfigSignature pc ctx random config = (case GetConfigSignatureData pc (cx_Serialize ctx) random config of
     Inl e \<Rightarrow> Ok (Inl e)
   | Inr (sh, shBytes, signingBytes) \<Rightarrow> (case cx_Sign ctx of
       None \<Rightarrow> Panic
     | Some sign \<Rightarrow> Ok (rbind (wrap_err ''signing of channel config failed'' (sign signingBytes)) (\<lambda>signature.
         Inr \<lparr>cs_SignatureHeader = shBytes, cs_Signature = signature\<rparr>))))"

definition ExtractChannelConfig :: "'p rescodec \<Rightarrow> bytes \<Rightarrow> bytes res" where
  "ExtractChannelConfig rc configEnvelope =
     rbind (wrap_err ''unmarshal config envelope failed'' (rc_Envelope rc configEnvelope)) (\<lambda>envelope.
     rbind (wrap_err ''unmarshal envelope payload failed'' (rc_Payload rc (se_Payload envelope))) (\<lambda>payload.
     rbind (wrap_err ''unmarshal config update envelope'' (rc_ConfigUpdateEnvelope rc (pl_Data payload))) (\<lambda>(configUpdate, sigs).
       Inr configUpdate)))"

text \<open>\<open>CreateConfigEnvelope\<close> and \<open>CreateConfigUpdateEnvelope\<close> differ in the message; a payload without a header panics.\<close>

definition config_payload :: "'p rescodec \<Rightarrow> (bytes \<Rightarrow> 'm res) \<Rightarrow> bytes \<Rightarrow> 'm res outcome" where
  "config_payload rc um data =
    (case rbind (wrap_err ''unmarshal envelope from config block failed'' (rc_Envelope rc data)) (\<lambda>envelope.
       wrap_err ''unmarshal payload from envelope failed'' (rc_Payload rc (se_Payload envelope))) of
       Inl e \<Rightarrow> Ok (Inl e)
     | Inr payload \<Rightarrow> (case pl_ChannelHeader payload of
         None \<Rightarrow> Panic
       | Some h \<Rightarrow> Ok (rbind (wrap_err ''unmarshal payload from envelope failed'' (rc_ChannelHeaderType rc h)) (\<lambda>typ.
           if typ \<noteq> HeaderType_CONFIG then Inl (errorNew (''block must be of type 'CONFIG'' @ [CHR 0x27]))
           else wrap_err ''unmarshal config envelope failed'' (um (pl_Data payload))))))"

definition CreateConfigEnvelope :: "'p rescodec \<Rightarrow> bytes \<Rightarrow> 'p ConfigGroup option option res outcome" where
  "CreateConfigEnvelope rc data = config_payload rc (rc_ConfigEnvelope rc) data"

definition CreateConfigUpdateEnvelope :: "'p rescodec \<Rightarrow> bytes \<Rightarrow> (bytes \<times> ConfigSignature list) res outcome" where
  "CreateConfigUpdateEnvelope rc data = config_payload rc (rc_ConfigUpdateEnvelope rc) data"

definition GetLastConfigFromBlock :: "'p rescodec \<Rightarrow> block \<Rightarrow> 64 word res outcome" where
  "GetLastConfigFromBlock rc blk = (case blk_Metadata blk of
     None \<Rightarrow> Ok (Inl (errorNew ''block metadata is nil''))
   | Some md \<Rightarrow>
       if BlockMetadataIndex_LAST_CONFIG < length md
       then Ok (rbind (wrap_err ''unmarshal block metadata failed'' (rc_Metadata rc (md ! BlockMetadataIndex_LAST_CONFIG))) (\<lambda>v.
         wrap_err ''unmarshal last config from metadata failed'' (rc_LastConfig rc v)))
       else Panic)"

section \<open>block.go\<close>

definition retrieveBlock :: "('w, 'f::{linorder,times}, 'p) resEnv \<Rightarrow> string list \<Rightarrow> string \<Rightarrow> seek_pos \<Rightarrow> 'f Opts \<Rightarrow> 'w
    \<Rightarrow> (block option res \<times> 'w) outcome" where
  "retrieveBlock env orderers ch pos opts w =
    (let net = re_net env; pc = ne_pc net in
     case ne_ctx net of
       None \<Rightarrow> Ok (Inl (errorNew ''failed get client context from reqContext for signPayload''), w)
     | Some ctx \<Rightarrow>
        (case rbind (wrap_err ''generating TX ID failed'' (NewHeader ctx (ne_random net) ch [])) (\<lambda>th.
              rbind (wrap_err ''failed to get tls cert hash'' (re_TLSCertHash env)) (\<lambda>hash.
              rbind (wrap_err ''CreateChannelHeader failed'' (CreateChannelHeader pc (re_now env) (re_tsProto env) HeaderType_DELIVER_SEEK_INFO
                 \<lparr>cho_TxnHeader = th, cho_Epoch = 0, cho_ChaincodeID = [], cho_Timestamp = 0, cho_TLSCertHash = hash\<rparr>)) (\<lambda>seekInfoHeader.
              rbind (wrap_err ''marshal seek info failed'' (e_ChannelHeader pc seekInfoHeader)) (\<lambda>chBytes.
              rbind (wrap_err ''CreateSignatureHeader failed'' (CreateSignatureHeader th)) (\<lambda>sh.
              rbind (wrap_err ''marshal signature header failed'' (e_SignatureHeader pc sh)) (\<lambda>shBytes.
              rbind (wrap_err ''marshal seek info failed'' (rc_e_SeekInfo (re_codec env) pos)) (\<lambda>seekInfoBytes.
                Inr \<lparr>py_Header = \<lparr>hd_ChannelHeader = chBytes, hd_SignatureHeader = shBytes\<rparr>, py_Data = seekInfoBytes\<rparr>))))))) of
           Inl e \<Rightarrow> Ok (Inl e, w)
         | Inr payload \<Rightarrow> retrying env opts
             (\<lambda>w1. obind (SendPayload pc (Some ctx) (re_deliver env) (re_draw env) payload orderers w1) (\<lambda>((resp, err), w2).
                Ok (case err of Some e \<Rightarrow> Inl e | None \<Rightarrow> Inr (case resp of None \<Rightarrow> None | Some b \<Rightarrow> b), w2))) w))"

section \<open>resource.go: channels\<close>

record CreateChannelRequest =
  ccr_Name :: string
  ccr_Orderer :: "string option"
  ccr_Envelope :: "bytes option"
  ccr_Config :: "bytes option"
  ccr_Signatures :: "ConfigSignature list option"

definition SignChannelConfig :: "pcodec \<Rightarrow> clientCtx \<Rightarrow> bytes res \<Rightarrow> bytes option \<Rightarrow> clientCtx option \<Rightarrow> ConfigSignature res outcome" where
  "SignChannelConfig pc ctx random config signer = (case config of
     None \<Rightarrow> Ok (Inl (errorNew ''channel configuration required''))
   | Some c \<Rightarrow> CreateConfigSignature pc (case signer of None \<Rightarrow> ctx | Some s \<Rightarrow> s) random c)"

definition createOrUpdateChannel :: "('w, 'f, 'p) resEnv \<Rightarrow> TransactionHeader \<Rightarrow> bytes \<Rightarrow> ConfigSignature list \<Rightarrow> string \<Rightarrow> 'w
    \<Rightarrow> (unit res \<times> 'w) outcome" where
  "createOrUpdateChannel env txh config signatures orderer w =
    (let net = re_net env; pc = ne_pc net in
     case wrap_err ''marshal configUpdateEnvelope failed'' (rc_e_ConfigUpdateEnvelope (re_codec env) config signatures) of
       Inl e \<Rightarrow> Ok (Inl e, w)
     | Inr envBytes \<Rightarrow> (case ne_ctx net of
         None \<Rightarrow> Ok (Inl (errorNew ''failed get client context from reqContext for Creating ChannelHeader''), w)
       | Some ctx \<Rightarrow>
          (case rbind (wrap_err ''failed to get tls cert hash'' (re_TLSCertHash env)) (\<lambda>hash.
                rbind (wrap_err ''CreateChannelHeader failed'' (CreateChannelHeader pc (re_now env) (re_tsProto env) HeaderType_CONFIG_UPDATE
                   \<lparr>cho_TxnHeader = txh, cho_Epoch = 0, cho_ChaincodeID = [], cho_Timestamp = 0, cho_TLSCertHash = hash\<rparr>)) (\<lambda>channelHeader.
                wrap_err ''CreatePayload failed'' (CreatePayload pc txh channelHeader envBytes))) of
             Inl e \<Rightarrow> Ok (Inl e, w)
           | Inr payload \<Rightarrow> obind (BroadcastPayload pc (Some ctx) (re_broadcast env) (re_draw env) payload [orderer] w) (\<lambda>((r, err), w1).
               Ok (case err of Some e \<Rightarrow> Inl (withMessage e ''SendEnvelope failed'') | None \<Rightarrow> Inr (), w1)))))"

text \<open>The transaction identifier is empty where the code returns \<open>fab.EmptyTransactionID\<close>.\<close>

definition createChannelFromEnvelope :: "('w, 'f, 'p) resEnv \<Rightarrow> bytes \<Rightarrow> string \<Rightarrow> 'w \<Rightarrow> (string \<times> goerr option) \<times> 'w" where
  "createChannelFromEnvelope env envelope orderer w =
    (case wrap_err ''signed envelope not valid'' (wrap_err ''unmarshal request envelope failed'' (rc_Envelope (re_codec env) envelope)) of
       Inl e \<Rightarrow> (([], Some e), w)
     | Inr se \<Rightarrow> (case re_broadcast env orderer se w of
         (Inl e, w1) \<Rightarrow> (([], Some (withMessage e ''failed broadcast to orderer'')), w1)
       | (Inr _, w1) \<Rightarrow> (([], None), w1)))"

definition CreateChannel :: "('w, 'f::{linorder,times}, 'p) resEnv \<Rightarrow> CreateChannelRequest \<Rightarrow> 'f Opts \<Rightarrow> 'w
    \<Rightarrow> ((string \<times> goerr option) \<times> 'w) outcome" where
  "CreateChannel env request opts w = (case ccr_Orderer request of
     None \<Rightarrow> Ok (([], Some (errorNew ''missing orderer request parameter for the initialize channel'')), w)
   | Some orderer \<Rightarrow>
       if ccr_Name request = [] then Ok (([], Some (errorNew ''missing name request parameter for the new channel'')), w)
       else (case ccr_Envelope request of
         Some envelope \<Rightarrow> Ok (createChannelFromEnvelope env envelope orderer w)
       | None \<Rightarrow> (case (ccr_Config request, ccr_Signatures request) of
           (None, _) \<Rightarrow> Ok (([], Some (errorNew ''missing envelope request parameter containing the configuration of the new channel'')), w)
         | (_, None) \<Rightarrow> Ok (([], Some (errorNew ''missing signatures request parameter for the new channel'')), w)
         | (Some config, Some signatures) \<Rightarrow> (case ne_ctx (re_net env) of
             None \<Rightarrow> Ok (([], Some (errorNew ''creation of transaction header failed, failed to extract client context from reqContext'')), w)
           | Some ctx \<Rightarrow> (case wrap_err ''creation of transaction header failed'' (NewHeader ctx (ne_random (re_net env)) (ccr_Name request) []) of
               Inl e \<Rightarrow> Ok (([], Some e), w)
             | Inr txh \<Rightarrow> obind (retrying env opts (createOrUpdateChannel env txh config signatures orderer) w) (\<lambda>(r, w1).
                 Ok ((th_id txh, case r of Inl e \<Rightarrow> Some e | Inr _ \<Rightarrow> None), w1)))))))"

definition GenesisBlockFromOrderer :: "('w, 'f::{linorder,times}, 'p) resEnv \<Rightarrow> string \<Rightarrow> string \<Rightarrow> 'f Opts \<Rightarrow> 'w
    \<Rightarrow> (block option res \<times> 'w) outcome" where
  "GenesisBlockFromOrderer env ch orderer opts w = retrieveBlock env [orderer] ch (SeekSpecified 0) opts w"

text \<open>The log messages read the number of a block, which panics if the block or its header is nil.\<close>

definition LastConfigFromOrderer :: "('w, 'f::{linorder,times}, 'p) resEnv \<Rightarrow> string \<Rightarrow> string \<Rightarrow> 'f Opts \<Rightarrow> 'w
    \<Rightarrow> (block res \<times> 'w) outcome" where
  "LastConfigFromOrderer env ch orderer opts w =
     rstep (retrieveBlock env [orderer] ch SeekNewest opts w) (\<lambda>newest w1. case newest of
       None \<Rightarrow> Panic
     | Some b \<Rightarrow> if blk_Number b = None then Panic
         else rstep (obind (GetLastConfigFromBlock (re_codec env) b) (\<lambda>r. rpure (wrap_err ''GetLastConfigFromBlock failed'' r) w1)) (\<lambda>index w2.
           rstep (obind (retrieveBlock env [orderer] ch (SeekSpecified index) opts w2) (\<lambda>(r, w3). rpure (wrap_err ''retrieve block failed'' r) w3))
             (\<lambda>config w3. case config of
                None \<Rightarrow> Panic
              | Some c \<Rightarrow> (case (blk_Number c, blk_Data c) of
                  (Some n, Some d) \<Rightarrow> if length d \<noteq> 1 then Ok (Inl (errorNew ''apiconfig block must contain one transaction''), w3) else Ok (Inr c, w3)
                | _ \<Rightarrow> Panic))))"

section \<open>resource.go: peers\<close>

definition validateResponse :: "TransactionProposalResponse \<Rightarrow> goerr option" where
  "validateResponse response =
    (if tpr_Status response \<noteq> StatusOK
     then Some (ErrorF ''bad status from %s (%d)'' [FS (tpr_Endorser response), FI (sint (tpr_Status response))]) else None)"

text \<open>A call of \<open>SendProposal\<close> as an invocation: its responses are lost if any target has failed.\<close>

definition send_invocation :: "'w netEnv \<Rightarrow> clientCtx \<Rightarrow> TransactionProposal \<Rightarrow> ProposalProcessor list \<Rightarrow> 'w
    \<Rightarrow> (TransactionProposalResponse list res \<times> 'w) outcome" where
  "send_invocation net ctx tp targets w =
    (case SendProposal (ne_pc net) (Some ctx) (ne_process net) (ne_arrival net) (Some tp) (map Some targets) w of
       ((resps, err), w1) \<Rightarrow> Ok (case err of Some e \<Rightarrow> Inl e | None \<Rightarrow> Inr resps, w1))"

definition queryChaincodeWithTarget :: "('w, 'f::{linorder,times}, 'p) resEnv \<Rightarrow> ChaincodeInvokeRequest \<Rightarrow> ProposalProcessor \<Rightarrow> 'f Opts \<Rightarrow> 'w
    \<Rightarrow> (bytes res \<times> 'w) outcome" where
  "queryChaincodeWithTarget env request target opts w = (case ne_ctx (re_net env) of
     None \<Rightarrow> Ok (Inl (errorNew ''failed get client context from reqContext for txn header''), w)
   | Some ctx \<Rightarrow> (case wrap_err ''create transaction ID failed'' (NewHeader ctx (ne_random (re_net env)) [] []) of
       Inl e \<Rightarrow> Ok (Inl e, w)
     | Inr txh \<Rightarrow> obind (CreateChaincodeInvokeProposal (ne_pc (re_net env)) (ne_timestamp (re_net env)) txh request) (\<lambda>r.
         case wrap_err ''NewProposal failed'' r of
           Inl e \<Rightarrow> Ok (Inl e, w)
         | Inr tp \<Rightarrow> obind (retrying env opts (send_invocation (re_net env) ctx tp [target]) w) (\<lambda>(r, w1).
             case wrap_err ''SendProposal failed'' r of
               Inl e \<Rightarrow> Ok (Inl e, w1)
             | Inr tprs \<Rightarrow> (case tprs of
                 [] \<Rightarrow> Panic
               | tpr # _ \<Rightarrow> (case validateResponse tpr of
                   Some e \<Rightarrow> Ok (Inl (withMessage e ''transaction proposal failed''), w1)
                 | None \<Rightarrow> obind (response_payload tpr) (\<lambda>b. Ok (Inr b, w1))))))))"

text \<open>The goroutines of \<open>JoinChannel\<close>, in the order in which they append their errors.\<close>

primrec join_each :: "('t \<Rightarrow> 'w \<Rightarrow> ('a res \<times> 'w) outcome) \<Rightarrow> 't list \<Rightarrow> goerr list \<Rightarrow> 'w \<Rightarrow> (goerr list \<times> 'w) outcome" where
  "join_each f [] errs w = Ok (errs, w)"
| "join_each f (t # ts) errs w = obind (f t w) (\<lambda>(r, w1). join_each f ts (case r of Inl e \<Rightarrow> errs @ [e] | Inr _ \<Rightarrow> errs) w1)"

definition createJoinChannelInvokeRequest :: "'p rescodec \<Rightarrow> block \<Rightarrow> ChaincodeInvokeRequest res" where
  "createJoinChannelInvokeRequest rc genesisBlock =
     rbind (wrap_err ''marshal genesis block failed'' (rc_e_Block rc genesisBlock)) (\<lambda>b. Inr (sysRequest ''cscc'' ''JoinChain'' [b]))"

definition JoinChannel :: "('w, 'f::{linorder,times}, 'p) resEnv \<Rightarrow> block option \<Rightarrow> ProposalProcessor list \<Rightarrow> 'f Opts \<Rightarrow> 'w
    \<Rightarrow> (goerr option \<times> 'w) outcome" where
  "JoinChannel env genesisBlock targets opts w = (case genesisBlock of
     None \<Rightarrow> Ok (Some (errorNew ''missing block input parameter with the required genesis block''), w)
   | Some g \<Rightarrow> (case wrap_err ''creation of join channel invoke request failed'' (createJoinChannelInvokeRequest (re_codec env) g) of
       Inl e \<Rightarrow> Ok (Some e, w)
     | Inr cir \<Rightarrow> obind (join_each (\<lambda>t. queryChaincodeWithTarget env cir t opts) (ne_arrival (re_net env) targets) [] w) (\<lambda>(errs, w1).
         Ok (ToError errs, w1))))"

definition peer_query :: "('w, 'f::{linorder,times}, 'p) resEnv \<Rightarrow> ChaincodeInvokeRequest \<Rightarrow> string \<Rightarrow> string \<Rightarrow> (bytes \<Rightarrow> 'm res)
    \<Rightarrow> ProposalProcessor option \<Rightarrow> 'f Opts \<Rightarrow> 'w \<Rightarrow> ('m res \<times> 'w) outcome" where
  "peer_query env cir failed failed_um um p opts w = (case p of
     None \<Rightarrow> Ok (Inl (errorNew ''peer required''), w)
   | Some t \<Rightarrow> obind (queryChaincodeWithTarget env cir t opts w) (\<lambda>(r, w1).
       Ok (rbind (wrap_err failed r) (\<lambda>b. wrap_err failed_um (um b)), w1)))"

definition QueryChannels :: "('w, 'f::{linorder,times}, 'p) resEnv \<Rightarrow> ProposalProcessor option \<Rightarrow> 'f Opts \<Rightarrow> 'w \<Rightarrow> (string list res \<times> 'w) outcome" where
  "QueryChannels env p opts w = peer_query env (sysRequest ''cscc'' ''GetChannels'' []) ''cscc.GetChannels failed''
     ''unmarshal ChannelQueryResponse failed'' (rc_ChannelQueryResponse (re_codec env)) p opts w"

definition QueryInstalledChaincodes :: "('w, 'f::{linorder,times}, 'p) resEnv \<Rightarrow> ProposalProcessor option \<Rightarrow> 'f Opts \<Rightarrow> 'w
    \<Rightarrow> (ChaincodeInfo list res \<times> 'w) outcome" where
  "QueryInstalledChaincodes env p opts w = peer_query env (sysRequest ''lscc'' ''getinstalledchaincodes'' []) ''lscc.getinstalledchaincodes failed''
     ''unmarshal ChaincodeQueryResponse failed'' (rc_ChaincodeQueryResponse (re_codec env)) p opts w"

record InstallChaincodeRequest =
  icr_Info :: ChaincodeInfo
  icr_Package :: "(int \<times> bytes) option"

definition CreateChaincodeInstallProposal :: "('w, 'f, 'p) resEnv \<Rightarrow> TransactionHeader \<Rightarrow> ChaincodeInfo \<Rightarrow> int \<times> bytes
    \<Rightarrow> TransactionProposal res outcome" where
  "CreateChaincodeInstallProposal env txh info pkg =
    (case wrap_err ''creating lscc install invocation request failed''
        (wrap_err ''marshal of chaincode deployment spec failed'' (rc_e_CDS (re_codec env) (fst pkg) info (snd pkg))) of
       Inl e \<Rightarrow> Ok (Inl e)
     | Inr b \<Rightarrow> CreateChaincodeInvokeProposal (ne_pc (re_net env)) (ne_timestamp (re_net env)) txh (sysRequest ''lscc'' ''install'' [b]))"

definition InstallChaincode :: "('w, 'f::{linorder,times}, 'p) resEnv \<Rightarrow> InstallChaincodeRequest \<Rightarrow> ProposalProcessor list \<Rightarrow> 'f Opts \<Rightarrow> 'w
    \<Rightarrow> ((TransactionProposalResponse list \<times> string) res \<times> 'w) outcome" where
  "InstallChaincode env req targets opts w =
    (if cci_Name (icr_Info req) = [] then Ok (Inl (errorNew ''chaincode name required''), w)
     else if cci_Path (icr_Info req) = [] then Ok (Inl (errorNew ''chaincode path required''), w)
     else if cci_Version (icr_Info req) = [] then Ok (Inl (errorNew ''chaincode version required''), w)
     else (case icr_Package req of
       None \<Rightarrow> Ok (Inl (errorNew ''chaincode package is required''), w)
     | Some pkg \<Rightarrow> (case ne_ctx (re_net env) of
         None \<Rightarrow> Ok (Inl (errorNew ''failed get client context from reqContext for txn header''), w)
       | Some ctx \<Rightarrow> (case wrap_err ''create transaction ID failed'' (NewHeader ctx (ne_random (re_net env)) [] []) of
           Inl e \<Rightarrow> Ok (Inl e, w)
         | Inr txh \<Rightarrow> obind (CreateChaincodeInstallProposal env txh (icr_Info req) pkg) (\<lambda>r.
             case wrap_err ''creation of install chaincode proposal failed'' r of
               Inl e \<Rightarrow> Ok (Inl e, w)
             | Inr tp \<Rightarrow> obind (retrying env opts (send_invocation (re_net env) ctx tp targets) w) (\<lambda>(r, w1).
                 Ok (rbind r (\<lambda>resps. Inr (resps, tp_TxnID tp)), w1)))))))"

text \<open>\<open>None\<close> is a nil \<open>Config\<close>.\<close>

definition ExtractConfigFromBlock :: "'p rescodec \<Rightarrow> block option \<Rightarrow> 'p ConfigGroup option option res" where
  "ExtractConfigFromBlock rc blk = (case Option.bind blk blk_Data of
     None \<Rightarrow> Inl (errorNew ''invalid block'')
   | Some [] \<Rightarrow> Inl (errorNew ''invalid block'')
   | Some (blockPayload # _) \<Rightarrow>
       rbind (rc_Envelope rc blockPayload) (\<lambda>envelope.
       rbind (rc_Payload rc (se_Payload envelope)) (\<lambda>payload.
       rc_ConfigEnvelope rc (pl_Data payload))))"

end
