(* ===== verification/Lifecycle.thy ===== *)
theory Lifecycle
  imports Resource PgResolver
begin

text \<open>
  The requests of the chaincode lifecycle (pkg/fab/resource/lifecycle.go): installing, querying, and the proposals to approve, check and
  commit the definition of a chaincode.

  The record \<open>lifecodec\<close> has the encoders of the arguments and the decoders of the results. Collections are passed on as bytes. The
  oneof of an application policy is the type \<open>appPolicy\<close>, absent if a message has none.
\<close>

section \<open>Messages\<close>

datatype appPolicy = SignaturePolicyType SigPolicyEnv | ChannelConfigPolicyReference string

text \<open>
  The requests to check the readiness of and to commit a definition have the same fields; the request to approve has the package
  identifier beside them. The same records describe definitions in results.
\<close>

record CommitChaincodeRequest =
  dr_Name :: string
  dr_Version :: string
  dr_Sequence :: "64 word"
  dr_EndorsementPlugin :: string
  dr_ValidationPlugin :: string
  dr_SignaturePolicy :: "SigPolicyEnv option"
  dr_ChannelConfigPolicy :: string
  dr_CollectionConfig :: "bytes list"
  dr_InitRequired :: bool

record ApproveChaincodeRequest = CommitChaincodeRequest +
  ar_PackageID :: string

record definitionArgs =
  da_Name :: string
  da_Version :: string
  da_Sequence :: "64 word"
  da_EndorsementPlugin :: string
  da_ValidationPlugin :: string
  da_ValidationParameter :: bytes
  da_InitRequired :: bool
  da_Collections :: "bytes list"

datatype ChaincodeSource = LocalPackage string | Unavailable

record definitionResult =
  df_Name :: string
  df_Version :: string
  df_Sequence :: "64 word"
  df_EndorsementPlugin :: string
  df_ValidationPlugin :: string
  df_ValidationParameter :: bytes
  df_InitRequired :: bool
  df_Collections :: "bytes list option"
  df_Approvals :: "(string \<times> bool) list"
  df_Source :: "ChaincodeSource option option" \<comment> \<open>the source and its type may each be absent\<close>

record CCReference =
  cr_Name :: string
  cr_Version :: string

record LifecycleInstalledCC =
  li_PackageID :: string
  li_Label :: string
  li_References :: "(string \<times> CCReference list) list"

record lifecodec =
  lf_e_Install :: "bytes \<Rightarrow> bytes res"
  lf_e_QueryInstalled :: "bytes res"
  lf_e_GetPackage :: "string \<Rightarrow> bytes res"
  lf_e_Approve :: "definitionArgs \<Rightarrow> ChaincodeSource \<Rightarrow> bytes res"
  lf_e_Commit :: "definitionArgs \<Rightarrow> bytes res"
  lf_e_Readiness :: "definitionArgs \<Rightarrow> bytes res"
  lf_e_QueryDefinition :: "string \<Rightarrow> bytes res"
  lf_e_QueryDefinitions :: "bytes res"
  lf_e_QueryApproved :: "string \<Rightarrow> 64 word \<Rightarrow> bytes res"
  lf_e_Policy :: "appPolicy \<Rightarrow> bytes res"
  lf_d_Policy :: "bytes \<Rightarrow> appPolicy option res"
  lf_d_Install :: "bytes \<Rightarrow> string res" \<comment> \<open>the \<open>PackageId\<close> of the result\<close>
  lf_d_QueryInstalled :: "bytes \<Rightarrow> LifecycleInstalledCC list res"
  lf_d_GetPackage :: "bytes \<Rightarrow> bytes res"
  lf_d_Approved :: "bytes \<Rightarrow> definitionResult res"
  lf_d_Readiness :: "bytes \<Rightarrow> (string \<times> bool) list res"
  lf_d_Definition :: "bytes \<Rightarrow> definitionResult res"
  lf_d_Definitions :: "bytes \<Rightarrow> definitionResult list res"
  lf_SM3 :: "bytes \<Rightarrow> bytes"

definition lifecycleCC :: string where
  "lifecycleCC = ''_lifecycle''"

section \<open>Policies\<close>

text \<open>Nil bytes are empty.\<close>

definition MarshalApplicationPolicy :: "lifecodec \<Rightarrow> SigPolicyEnv option \<Rightarrow> string \<Rightarrow> bytes res" where
  "MarshalApplicationPolicy lf signaturePolicy channelConfigPolicy =
    (if signaturePolicy = None \<and> channelConfigPolicy = [] then Inr []
     else if signaturePolicy \<noteq> None \<and> channelConfigPolicy \<noteq> []
     then Inl (errorNew ''cannot specify both signature policy and channel config policy'')
     else wrap_err ''failed to marshal application policy'' (lf_e_Policy lf (case signaturePolicy of
         Some p \<Rightarrow> SignaturePolicyType p
       | None \<Rightarrow> ChannelConfigPolicyReference channelConfigPolicy)))"

definition UnmarshalApplicationPolicy :: "lifecodec \<Rightarrow> bytes \<Rightarrow> (SigPolicyEnv option \<times> string) res" where
  "UnmarshalApplicationPolicy lf policyBytes =
     rbind (wrap_err ''failed to unmarshal application policy'' (lf_d_Policy lf policyBytes)) (\<lambda>policy. case policy of
       Some (SignaturePolicyType p) \<Rightarrow> Inr (Some p, [])
     | Some (ChannelConfigPolicyReference r) \<Rightarrow> Inr (None, r)
     | None \<Rightarrow> Inl (ErrorF ''unsupported policy type %T'' [FS ''<nil>'']))"

section \<open>Proposals\<close>

text \<open>\<open>txn.CreateChaincodeInvokeProposal\<close> for a function of the lifecycle chaincode.\<close>

definition lifecycleProposal :: "'w netEnv \<Rightarrow> TransactionHeader \<Rightarrow> string \<Rightarrow> bytes \<Rightarrow> TransactionProposal res outcome" where
  "lifecycleProposal net txh fcn argsBytes =
     CreateChaincodeInvokeProposal (ne_pc net) (ne_timestamp net) txh (sysRequest lifecycleCC fcn [argsBytes])"

definition argsProposal :: "'w netEnv \<Rightarrow> TransactionHeader \<Rightarrow> string \<Rightarrow> bytes res \<Rightarrow> TransactionProposal res outcome" where
  "argsProposal net txh fcn args = (case args of Inl e \<Rightarrow> Ok (Inl e) | Inr b \<Rightarrow> lifecycleProposal net txh fcn b)"

definition createInstallProposal :: "'w netEnv \<Rightarrow> lifecodec \<Rightarrow> TransactionHeader \<Rightarrow> bytes \<Rightarrow> TransactionProposal res outcome" where
  "createInstallProposal net lf txh installPkg = argsProposal net txh ''InstallChaincode''
     (wrap_err ''creating lscc install invocation request failed'' (wrap_err ''failed to marshal InstallChaincodeArgs'' (lf_e_Install lf installPkg)))"

definition createQueryInstalledProposal :: "'w netEnv \<Rightarrow> lifecodec \<Rightarrow> TransactionHeader \<Rightarrow> TransactionProposal res outcome" where
  "createQueryInstalledProposal net lf txh = argsProposal net txh ''QueryInstalledChaincodes''
     (wrap_err ''failed to marshal InstallChaincodeArgs'' (lf_e_QueryInstalled lf))"

definition createGetInstalledPackageProposal :: "'w netEnv \<Rightarrow> lifecodec \<Rightarrow> TransactionHeader \<Rightarrow> string \<Rightarrow> TransactionProposal res outcome" where
  "createGetInstalledPackageProposal net lf txh packageID = argsProposal net txh ''GetInstalledChaincodePackage''
     (wrap_err ''failed to marshal GetInstalledChaincodePackageArgs'' (lf_e_GetPackage lf packageID))"

definition definition_args :: "lifecodec \<Rightarrow> ('x) CommitChaincodeRequest_scheme \<Rightarrow> definitionArgs res" where
  "definition_args lf req =
     rbind (wrap_err ''create application policy failed'' (MarshalApplicationPolicy lf (dr_SignaturePolicy req) (dr_ChannelConfigPolicy req)))
       (\<lambda>policyBytes. Inr \<lparr>da_Name = dr_Name req, da_Version = dr_Version req, da_Sequence = dr_Sequence req,
          da_EndorsementPlugin = dr_EndorsementPlugin req, da_ValidationPlugin = dr_ValidationPlugin req,
          da_ValidationParameter = policyBytes, da_InitRequired = dr_InitRequired req, da_Collections = dr_CollectionConfig req\<rparr>)"

definition CreateApproveProposal :: "'w netEnv \<Rightarrow> lifecodec \<Rightarrow> TransactionHeader \<Rightarrow> ApproveChaincodeRequest \<Rightarrow> TransactionProposal res outcome" where
  "CreateApproveProposal net lf txh req =
    (let ccsrc = (if ar_PackageID req \<noteq> [] then LocalPackage (ar_PackageID req) else Unavailable) in
     argsProposal net txh ''ApproveChaincodeDefinitionForMyOrg'' (rbind (definition_args lf req) (\<lambda>args. lf_e_Approve lf args ccsrc)))"

definition CreateCommitProposal :: "'w netEnv \<Rightarrow> lifecodec \<Rightarrow> TransactionHeader \<Rightarrow> CommitChaincodeRequest \<Rightarrow> TransactionProposal res outcome" where
  "CreateCommitProposal net lf txh req = argsProposal net txh ''CommitChaincodeDefinition'' (rbind (definition_args lf req) (lf_e_Commit lf))"

definition CreateCheckCommitReadinessProposal :: "'w netEnv \<Rightarrow> lifecodec \<Rightarrow> TransactionHeader \<Rightarrow> CommitChaincodeRequest
    \<Rightarrow> TransactionProposal res outcome" where
  "CreateCheckCommitReadinessProposal net lf txh req =
     argsProposal net txh ''CheckCommitReadiness'' (rbind (definition_args lf req) (lf_e_Readiness lf))"

definition CreateQueryCommittedProposal :: "'w netEnv \<Rightarrow> lifecodec \<Rightarrow> TransactionHeader \<Rightarrow> string \<Rightarrow> TransactionProposal res outcome" where
  "CreateQueryCommittedProposal net lf txh name =
    (if name \<noteq> [] then argsProposal net txh ''QueryChaincodeDefinition'' (lf_e_QueryDefinition lf name)
     else argsProposal net txh ''QueryChaincodeDefinitions'' (lf_e_QueryDefinitions lf))"

definition createQueryApprovedDefinitionProposal :: "'w netEnv \<Rightarrow> lifecodec \<Rightarrow> TransactionHeader \<Rightarrow> string \<Rightarrow> 64 word
    \<Rightarrow> TransactionProposal res outcome" where
  "createQueryApprovedDefinitionProposal net lf txh name sequence =
     argsProposal net txh ''QueryApprovedChaincodeDefinition'' (lf_e_QueryApproved lf name sequence)"

section \<open>Requests\<close>

text \<open>The steps that the requests share: a transaction header for the channel, a proposal, and sending it with the retry options.\<close>

definition lifecycleSend :: "('w, 'f::{linorder,times}, 'p) resEnv \<Rightarrow> string \<Rightarrow> string \<Rightarrow> (TransactionHeader \<Rightarrow> TransactionProposal res outcome)
    \<Rightarrow> ProposalProcessor list \<Rightarrow> 'f Opts \<Rightarrow> 'w \<Rightarrow> (TransactionProposalResponse list res \<times> 'w) outcome" where
  "lifecycleSend env channelID failed create targets opts w = (case ne_ctx (re_net env) of
     None \<Rightarrow> Ok (Inl (errorNew ''failed get client context from reqContext for txn header''), w)
   | Some ctx \<Rightarrow> (case wrap_err ''create transaction ID failed'' (NewHeader ctx (ne_random (re_net env)) channelID []) of
       Inl e \<Rightarrow> Ok (Inl e, w)
     | Inr txh \<Rightarrow> obind (create txh) (\<lambda>r. case wrap_err failed r of
         Inl e \<Rightarrow> Ok (Inl e, w)
       | Inr tp \<Rightarrow> retrying env opts (send_invocation (re_net env) ctx tp targets) w)))"

text \<open>A result with the response that carried it. The responses of \<open>Install\<close> are decoded in their order.\<close>

primrec install_results :: "lifecodec \<Rightarrow> TransactionProposalResponse list \<Rightarrow> (TransactionProposalResponse \<times> string) list
    \<Rightarrow> (TransactionProposalResponse \<times> string) list res outcome" where
  "install_results lf [] acc = Ok (Inr acc)"
| "install_results lf (r # rs) acc = obind (response_payload r) (\<lambda>b.
     case wrap_err ''failed to unmarshal install chaincode result'' (lf_d_Install lf b) of
       Inl e \<Rightarrow> Ok (Inl e)
     | Inr packageID \<Rightarrow> install_results lf rs (acc @ [(r, packageID)]))"

definition lifecycle_Install :: "('w, 'f::{linorder,times}, 'p) resEnv \<Rightarrow> lifecodec \<Rightarrow> bytes \<Rightarrow> ProposalProcessor list \<Rightarrow> 'f Opts \<Rightarrow> 'w
    \<Rightarrow> ((TransactionProposalResponse \<times> string) list res \<times> 'w) outcome" where
  "lifecycle_Install env lf installPkg targets opts w =
    (if length installPkg = 0 then Ok (Inl (errorNew ''chaincode package is required''), w)
     else obind (lifecycleSend env [] ''creation of install chaincode proposal failed'' (\<lambda>txh. createInstallProposal (re_net env) lf txh installPkg)
          targets opts w) (\<lambda>(r, w1). case r of
            Inl e \<Rightarrow> Ok (Inl e, w1)
          | Inr response \<Rightarrow> obind (install_results lf response []) (\<lambda>x. Ok (x, w1))))"

text \<open>The queries of one target decode the payload of its response.\<close>

definition query_target :: "(TransactionProposalResponse list res \<times> 'w) outcome \<Rightarrow> (bytes \<Rightarrow> 'm res)
    \<Rightarrow> ((TransactionProposalResponse \<times> 'm) res \<times> 'w) outcome" where
  "query_target sent um = obind sent (\<lambda>(r, w1). case r of
     Inl e \<Rightarrow> Ok (Inl e, w1)
   | Inr tpResponses \<Rightarrow> (case tpResponses of
       [] \<Rightarrow> Panic
     | tpr # _ \<Rightarrow> obind (response_payload tpr) (\<lambda>b.
         Ok (rbind (wrap_err ''failed to unmarshal proposal response's response payload'' (um b)) (\<lambda>m. Inr (tpr, m)), w1))))"

text \<open>The references of an installed chaincode are copied.\<close>

definition toInstalledChaincodes :: "LifecycleInstalledCC list \<Rightarrow> LifecycleInstalledCC list" where
  "toInstalledChaincodes ccs = map (\<lambda>ic. \<lparr>li_PackageID = li_PackageID ic, li_Label = li_Label ic,
     li_References = map (\<lambda>(channelID, refs). (channelID, map (\<lambda>cc. \<lparr>cr_Name = cr_Name cc, cr_Version = cr_Version cc\<rparr>) refs)) (li_References ic)\<rparr>) ccs"

definition lifecycle_QueryInstalled :: "('w, 'f::{linorder,times}, 'p) resEnv \<Rightarrow> lifecodec \<Rightarrow> ProposalProcessor \<Rightarrow> 'f Opts \<Rightarrow> 'w
    \<Rightarrow> ((TransactionProposalResponse \<times> LifecycleInstalledCC list) res \<times> 'w) outcome" where
  "lifecycle_QueryInstalled env lf target opts w =
     query_target (lifecycleSend env [] ''creation of query installed chaincodes proposal failed'' (createQueryInstalledProposal (re_net env) lf)
       [target] opts w) (\<lambda>b. rbind (lf_d_QueryInstalled lf b) (\<lambda>ccs. Inr (toInstalledChaincodes ccs)))"

definition GetInstalledPackage :: "('w, 'f::{linorder,times}, 'p) resEnv \<Rightarrow> lifecodec \<Rightarrow> string \<Rightarrow> ProposalProcessor \<Rightarrow> 'f Opts \<Rightarrow> 'w
    \<Rightarrow> (bytes res \<times> 'w) outcome" where
  "GetInstalledPackage env lf packageID target opts w =
     obind (query_target (lifecycleSend env [] ''creation of get installed chaincode package proposal failed''
         (\<lambda>txh. createGetInstalledPackageProposal (re_net env) lf txh packageID) [target] opts w) (lf_d_GetPackage lf))
       (\<lambda>(r, w1). Ok (rbind r (\<lambda>(tpr, pkg). Inr pkg), w1))"

definition toApprovedChaincodes :: "lifecodec \<Rightarrow> string \<Rightarrow> definitionResult \<Rightarrow> ApproveChaincodeRequest res" where
  "toApprovedChaincodes lf ccName result =
    (let collConfig = (case df_Collections result of Some c \<Rightarrow> c | None \<Rightarrow> []);
         packageID = (case df_Source result of Some (Some (LocalPackage p)) \<Rightarrow> p | _ \<Rightarrow> [])
     in rbind (UnmarshalApplicationPolicy lf (df_ValidationParameter result)) (\<lambda>(signaturePolicy, channelConfigPolicy).
       Inr \<lparr>dr_Name = ccName, dr_Version = df_Version result, dr_Sequence = df_Sequence result, dr_EndorsementPlugin = df_EndorsementPlugin result,
         dr_ValidationPlugin = df_ValidationPlugin result, dr_SignaturePolicy = signaturePolicy, dr_ChannelConfigPolicy = channelConfigPolicy,
         dr_CollectionConfig = collConfig, dr_InitRequired = df_InitRequired result, ar_PackageID = packageID\<rparr>))"

definition QueryApproved :: "('w, 'f::{linorder,times}, 'p) resEnv \<Rightarrow> lifecodec \<Rightarrow> string \<Rightarrow> string \<Rightarrow> 64 word \<Rightarrow> ProposalProcessor \<Rightarrow> 'f Opts \<Rightarrow> 'w
    \<Rightarrow> ((TransactionProposalResponse \<times> ApproveChaincodeRequest) res \<times> 'w) outcome" where
  "QueryApproved env lf channelID name sequence target opts w =
     obind (query_target (lifecycleSend env channelID ''creation of query approved chaincodes proposal failed''
         (\<lambda>txh. createQueryApprovedDefinitionProposal (re_net env) lf txh name sequence) [target] opts w) (lf_d_Approved lf))
       (\<lambda>(r, w1). Ok (rbind r (\<lambda>(tpr, result). rbind (toApprovedChaincodes lf name result) (\<lambda>approvedCC. Inr (tpr, approvedCC))), w1))"

end
