(* ===== verification/Ledger_Client.thy ===== *)
theory Ledger_Client
  imports Ledger
begin

text \<open>
  The ledger client (pkg/client/ledger: ledger.go, opts.go): choosing the targets of a query, asking them, and requiring that
  enough of them agree.

  A slice is an option where the code tests it for nil. The peer filters are functions, the draws of the random source are the
  function \<open>d\<close>. The timeouts of a request and its parent context bound the answers of the targets, which are a parameter.
\<close>

section \<open>Options\<close>

record requestOptions =
  lo_Targets :: "peer list option"
  lo_TargetFilter :: "(peer \<Rightarrow> bool) option"
  lo_MaxTargets :: int
  lo_MinTargets :: int

type_synonym RequestOption = "requestOptions \<Rightarrow> requestOptions res"

text \<open>A call without targets leaves the nil slice.\<close>

definition WithTargets :: "peer option list \<Rightarrow> RequestOption" where
  "WithTargets targets opts =
    (if None \<in> set targets then Inl (errorNew ''target is nil'')
     else Inr (opts\<lparr>lo_Targets := (if targets = [] then None else Some (map the targets))\<rparr>))"

text \<open>\<open>peerConfig\<close> is \<open>comm.NetworkPeerConfig\<close>, \<open>createPeer\<close> the infrastructure provider.\<close>

primrec endpoint_peers :: "(string \<Rightarrow> 'c res) \<Rightarrow> ('c \<Rightarrow> peer option res) \<Rightarrow> string list \<Rightarrow> peer option list \<Rightarrow> peer option list res" where
  "endpoint_peers peerConfig createPeer [] targets = Inr targets"
| "endpoint_peers peerConfig createPeer (url # urls) targets = rbind (peerConfig url) (\<lambda>peerCfg.
     rbind (wrap_err ''creating peer from config failed'' (createPeer peerCfg)) (\<lambda>p.
       endpoint_peers peerConfig createPeer urls (targets @ [p])))"

definition WithTargetEndpoints :: "(string \<Rightarrow> 'c res) \<Rightarrow> ('c \<Rightarrow> peer option res) \<Rightarrow> string list \<Rightarrow> RequestOption" where
  "WithTargetEndpoints peerConfig createPeer keys opts =
     rbind (endpoint_peers peerConfig createPeer keys []) (\<lambda>targets. WithTargets targets opts)"

definition WithTargetFilter :: "(peer \<Rightarrow> bool) option \<Rightarrow> RequestOption" where
  "WithTargetFilter targetFilter opts = Inr (opts\<lparr>lo_TargetFilter := targetFilter\<rparr>)"

definition WithMaxTargets :: "int \<Rightarrow> RequestOption" where
  "WithMaxTargets n opts = Inr (opts\<lparr>lo_MaxTargets := n\<rparr>)"

definition WithMinTargets :: "int \<Rightarrow> RequestOption" where
  "WithMinTargets n opts = Inr (opts\<lparr>lo_MinTargets := n\<rparr>)"

primrec read_options :: "RequestOption list \<Rightarrow> requestOptions \<Rightarrow> requestOptions res" where
  "read_options [] opts = Inr opts"
| "read_options (option # options) opts = rbind (wrap_err ''Failed to read request opts'' (option opts)) (read_options options)"

definition prepareRequestOpts :: "RequestOption list \<Rightarrow> requestOptions res" where
  "prepareRequestOpts options =
     rbind (read_options options \<lparr>lo_Targets = None, lo_TargetFilter = None, lo_MaxTargets = 0, lo_MinTargets = 0\<rparr>) (\<lambda>opts0.
       let opts1 = (if lo_MaxTargets opts0 = 0 then opts0\<lparr>lo_MaxTargets := 1\<rparr> else opts0);
           opts2 = (if lo_MinTargets opts1 = 0 then opts1\<lparr>lo_MinTargets := 1\<rparr> else opts1)
       in Inr (if lo_MinTargets opts2 > lo_MaxTargets opts2 then opts2\<lparr>lo_MaxTargets := lo_MinTargets opts2\<rparr> else opts2))"

section \<open>The client\<close>

record 'w ledgerClient =
  lc_env :: "'w netEnv"
  lc_channel :: string
  lc_filter :: "(peer \<Rightarrow> bool) option"
  lc_verifier :: ResponseVerifier
  lc_GetPeers :: "peer list res"

text \<open>The verifier of signatures, which matches nothing. \<open>senv\<close> holds the membership of the channel.\<close>

definition SignatureVerifier :: "('v, 'f, 'kv, 'h) invokeEnv \<Rightarrow> ResponseVerifier" where
  "SignatureVerifier senv = \<lparr>rv_Verify = Verify senv, rv_Match = (\<lambda>response. Ok None)\<rparr>"

text \<open>What \<open>New\<close> reads of the channel context: the services that it may fail to give, and the MSP of the user.\<close>

record channelServices =
  cs_ChannelService :: bool
  cs_Membership :: "ResponseVerifier res"
  cs_Discovery :: "peer list res res"
  cs_LedgerQuery :: "peer \<Rightarrow> bool"
  cs_MSPID :: string

definition mspFilter :: "string \<Rightarrow> peer \<Rightarrow> bool" where
  "mspFilter mspID p \<longleftrightarrow> peer_MSPID p = mspID"

definition WithDefaultTargetFilter :: "(peer \<Rightarrow> bool) option \<Rightarrow> 'w ledgerClient \<Rightarrow> 'w ledgerClient res" where
  "WithDefaultTargetFilter flt c = Inr (c\<lparr>lc_filter := flt\<rparr>)"

primrec client_options :: "('c \<Rightarrow> 'c res) list \<Rightarrow> 'c \<Rightarrow> 'c res" where
  "client_options [] c = Inr c"
| "client_options (opt # opts) c = rbind (opt c) (client_options opts)"

text \<open>The verifier of signatures is made of the membership; the discovery service is filtered by the endpoint filter.\<close>

definition ledger_New :: "'w netEnv \<Rightarrow> string \<Rightarrow> channelServices res \<Rightarrow> ('w ledgerClient \<Rightarrow> 'w ledgerClient res) list \<Rightarrow> 'w ledgerClient res" where
  "ledger_New env ch channelProvider opts = rbind channelProvider (\<lambda>cs.
     if \<not> cs_ChannelService cs then Inl (errorNew ''channel service not initialized'')
     else rbind (wrap_err ''membership creation failed'' (cs_Membership cs)) (\<lambda>verifier.
          rbind (cs_Discovery cs) (\<lambda>getPeers.
          rbind (client_options opts \<lparr>lc_env = env, lc_channel = ch, lc_filter = None, lc_verifier = verifier,
               lc_GetPeers = rbind getPeers (\<lambda>peers. Inr (filter (cs_LedgerQuery cs) peers))\<rparr>) (\<lambda>c.
          if lc_filter c = None
          then if cs_MSPID cs = [] then Inl (errorNew ''mspID not available in user context'')
               else Inr (c\<lparr>lc_filter := Some (mspFilter (cs_MSPID cs))\<rparr>)
          else Inr c))))"

section \<open>Targets\<close>

definition filterTargets :: "peer list \<Rightarrow> (peer \<Rightarrow> bool) option \<Rightarrow> peer list" where
  "filterTargets peers flt = (case flt of None \<Rightarrow> peers | Some f \<Rightarrow> filter f peers)"

definition swap :: "'a list \<Rightarrow> nat \<Rightarrow> nat \<Rightarrow> 'a list" where
  "swap a i j = a[i := a ! j, j := a ! i]"

definition shuffle :: "(nat \<Rightarrow> nat) \<Rightarrow> 'a list \<Rightarrow> 'a list" where
  "shuffle d a = fold (\<lambda>i a'. swap a' i (rand_Intn (d i) (i + 1))) [0..<length a] a"

definition no_targets :: goerr where
  "no_targets = withStack (asError (status_New ClientStatus NoPeersFound ''no targets available'' []))"

definition calculateTargets :: "'w ledgerClient \<Rightarrow> (nat \<Rightarrow> nat) \<Rightarrow> requestOptions \<Rightarrow> peer list res outcome" where
  "calculateTargets c d opts =
    (if lo_Targets opts \<noteq> None \<and> lo_TargetFilter opts \<noteq> None
     then Ok (Inl (errorNew ''If targets are provided, filter cannot be provided''))
     else (case (case lo_Targets opts of
         Some ts \<Rightarrow> Inr (ts, lo_TargetFilter opts)
       | None \<Rightarrow> rbind (lc_GetPeers c) (\<lambda>ps. Inr (ps, if lo_TargetFilter opts = None then lc_filter c else lo_TargetFilter opts))) of
         Inl err \<Rightarrow> Ok (Inl err)
       | Inr (ps, targetFilter) \<Rightarrow>
          let targets = filterTargets ps targetFilter in
          if length targets = 0 then Ok (Inl no_targets)
          else if int (length targets) < lo_MinTargets opts
          then Ok (Inl (ErrorF ''Error getting minimum number of targets. %d available, %d required'' [FN (length targets), FI (lo_MinTargets opts)]))
          else let numOfTargets = (if int (length targets) < lo_MaxTargets opts then int (length targets) else lo_MaxTargets opts) in
            if numOfTargets < 0 then Panic else Ok (Inr (take (nat numOfTargets) (shuffle d targets)))))"

definition prepareRequestParams :: "'w ledgerClient \<Rightarrow> (nat \<Rightarrow> nat) \<Rightarrow> RequestOption list \<Rightarrow> (peer list \<times> requestOptions) res outcome" where
  "prepareRequestParams c d options = (case wrap_err ''failed to get opts'' (prepareRequestOpts options) of
     Inl err \<Rightarrow> Ok (Inl err)
   | Inr opts \<Rightarrow> obind (calculateTargets c d opts) (\<lambda>r. Ok (rbind (wrap_err ''failed to determine target peers'' r) (\<lambda>targets. Inr (targets, opts)))))"

section \<open>Queries\<close>

text \<open>The part that the queries share: the parameters, the query of the ledger, and an error if nothing has come back.\<close>

definition client_query :: "'w ledgerClient \<Rightarrow> (nat \<Rightarrow> nat) \<Rightarrow> RequestOption list \<Rightarrow> string
    \<Rightarrow> (ProposalProcessor list \<Rightarrow> 'w \<Rightarrow> (('m list \<times> goerr option) \<times> 'w) outcome)
    \<Rightarrow> ('m list \<Rightarrow> requestOptions \<Rightarrow> goerr option \<Rightarrow> 'r res outcome) \<Rightarrow> 'w \<Rightarrow> ('r res \<times> 'w) outcome" where
  "client_query c d options name ask finish w = obind (prepareRequestParams c d options) (\<lambda>r.
     case wrap_err (name @ '' failed to prepare request parameters'') r of
       Inl err \<Rightarrow> Ok (Inl err, w)
     | Inr (targets, opts) \<Rightarrow> obind (ask (map PeerProcessor targets) w) (\<lambda>((responses, err), w1).
         case (err, responses) of
           (Some e, []) \<Rightarrow> Ok (Inl (withMessage e (name @ '' failed'')), w1)
         | _ \<Rightarrow> obind (finish responses opts err) (\<lambda>r. Ok (r, w1))))"

fun highest :: "BlockchainInfoResponse \<Rightarrow> BlockchainInfoResponse list \<Rightarrow> BlockchainInfoResponse" where
  "highest response [] = response"
| "highest response (r # rs) = (if bci_Height (bir_BCI r) > bci_Height (bir_BCI response) then highest r rs else highest response rs)"

text \<open>An empty list of responses panics, unless the minimum excludes it. The text of a peer in the error is left out.\<close>

definition client_QueryInfo :: "'w ledgerClient \<Rightarrow> (bytes \<Rightarrow> BlockchainInfo res) \<Rightarrow> (nat \<Rightarrow> nat) \<Rightarrow> RequestOption list \<Rightarrow> 'w
    \<Rightarrow> (BlockchainInfoResponse res \<times> 'w) outcome" where
  "client_QueryInfo c um d options = client_query c d options ''QueryInfo''
     (\<lambda>ts. ledger_QueryInfo (lc_env c) um (lc_channel c) ts (Some (lc_verifier c)))
     (\<lambda>responses opts err.
        if int (length responses) < lo_MinTargets opts
        then Ok (Inl (ErrorF ''Number of responses %d is less than MinTargets %d. Targets: %v, Error: %s''
          [FN (length responses), FI (lo_MinTargets opts), FS [],
           FS (case err of None \<Rightarrow> ''%!s(<nil>)'' | Some e \<Rightarrow> errorText (ne_wire (lc_env c)) e)]))
        else (case responses of [] \<Rightarrow> Panic | r # rs \<Rightarrow> Ok (Inr (highest r rs))))"

definition matchBlockData :: "block list \<Rightarrow> int \<Rightarrow> block res outcome" where
  "matchBlockData responses minTargets =
    (if int (length responses) < minTargets
     then Ok (Inl (ErrorF ''Number of responses %d is less than MinTargets %d'' [FN (length responses), FI minTargets]))
     else (case responses of
       [] \<Rightarrow> Panic
     | r # rs \<Rightarrow> if list_ex (\<lambda>b. blk_Data b \<noteq> blk_Data r) rs then Ok (Inl (errorNew ''Block data does not match'')) else Ok (Inr r)))"

definition client_QueryBlockByHash :: "'w ledgerClient \<Rightarrow> (nat \<Rightarrow> nat) \<Rightarrow> bytes \<Rightarrow> RequestOption list \<Rightarrow> 'w \<Rightarrow> (block res \<times> 'w) outcome" where
  "client_QueryBlockByHash c d blockHash options = client_query c d options ''QueryBlockByHash''
     (\<lambda>ts. ledger_QueryBlockByHash (lc_env c) (lc_channel c) blockHash ts (Some (lc_verifier c)))
     (\<lambda>responses opts err. matchBlockData responses (lo_MinTargets opts))"

definition client_QueryBlockByTxID :: "'w ledgerClient \<Rightarrow> (nat \<Rightarrow> nat) \<Rightarrow> string \<Rightarrow> RequestOption list \<Rightarrow> 'w \<Rightarrow> (block res \<times> 'w) outcome" where
  "client_QueryBlockByTxID c d txID options = client_query c d options ''QueryBlockByTxID''
     (\<lambda>ts. ledger_QueryBlockByTxID (lc_env c) (lc_channel c) txID ts (Some (lc_verifier c)))
     (\<lambda>responses opts err. matchBlockData responses (lo_MinTargets opts))"

definition client_QueryBlock :: "'w ledgerClient \<Rightarrow> (nat \<Rightarrow> nat) \<Rightarrow> 64 word \<Rightarrow> RequestOption list \<Rightarrow> 'w \<Rightarrow> (block res \<times> 'w) outcome" where
  "client_QueryBlock c d blockNumber options = client_query c d options ''QueryBlock''
     (\<lambda>ts. ledger_QueryBlock (lc_env c) (lc_channel c) blockNumber ts (Some (lc_verifier c)))
     (\<lambda>responses opts err. matchBlockData responses (lo_MinTargets opts))"

definition client_QueryTransaction :: "'w ledgerClient \<Rightarrow> (bytes \<Rightarrow> 'm res) \<Rightarrow> (nat \<Rightarrow> nat) \<Rightarrow> string \<Rightarrow> RequestOption list \<Rightarrow> 'w
    \<Rightarrow> ('m res \<times> 'w) outcome" where
  "client_QueryTransaction c um d transactionID options = client_query c d options ''QueryTransaction''
     (\<lambda>ts. ledger_QueryTransaction (lc_env c) um (lc_channel c) transactionID ts (Some (lc_verifier c)))
     (\<lambda>responses opts err.
        if int (length responses) < lo_MinTargets opts
        then Ok (Inl (ErrorF ''QueryTransaction: Number of responses %d is less than MinTargets %d'' [FN (length responses), FI (lo_MinTargets opts)]))
        else (case responses of
          [] \<Rightarrow> Panic
        | r # rs \<Rightarrow> if list_ex (\<lambda>m. r \<noteq> m) rs then Ok (Inl (errorNew ''Payloads for QueryTransaction do not match'')) else Ok (Inr r)))"

definition client_QueryConfigBlock :: "'w ledgerClient \<Rightarrow> (nat \<Rightarrow> nat) \<Rightarrow> RequestOption list \<Rightarrow> 'w \<Rightarrow> (block res \<times> 'w) outcome" where
  "client_QueryConfigBlock c d options w = obind (prepareRequestParams c d options) (\<lambda>r.
     case wrap_err ''QueryConfigBlock failed to prepare request parameters'' r of
       Inl err \<Rightarrow> Ok (Inl err, w)
     | Inr (targets, opts) \<Rightarrow>
         ledger_QueryConfigBlock (lc_env c) (lc_channel c) (map PeerProcessor targets) (Some (lc_verifier c)) w)"

end
