(* ===== verification/Channel_Config.thy ===== *)
theory Channel_Config
  imports Resource Ledger_Client "HOL-Library.AList"
begin

text \<open>
  The configuration of a channel (pkg/fab/chconfig/chconfig.go): which peers or orderer it is fetched from and how many must
  agree, what is read out of the configuration block, and the capabilities of the channel.

  A map of the configuration tree is an association list in the order of iteration. The counterpart of the tree that the code
  builds for the versions is the tree \<open>cc_versions\<close>. A message of which the code only passes on its value is of bytes.
\<close>

section \<open>The configuration\<close>

record OrgAnchorPeer =
  oap_Org :: string
  oap_Host :: string
  oap_Port :: "32 word"

text \<open>An \<open>MSPConfig\<close> is its type and its bytes.\<close>

type_synonym MSPConfig = "int \<times> bytes"

record 'p ChannelCfg =
  cc_id :: string
  cc_blockNumber :: "64 word"
  cc_msps :: "MSPConfig list"
  cc_anchorPeers :: "OrgAnchorPeer list"
  cc_orderers :: "string list"
  cc_versions :: "'p ConfigGroup"
  cc_capabilities :: "(string \<times> string list) list"

text \<open>The decoders of the values that are read.\<close>

record valcodec =
  vc_AnchorPeers :: "bytes \<Rightarrow> (string \<times> 32 word) list res"
  vc_MSPConfig :: "bytes \<Rightarrow> MSPConfig res"
  vc_OrdererAddresses :: "bytes \<Rightarrow> string list res"
  vc_Capabilities :: "bytes \<Rightarrow> string list res"

section \<open>Capabilities\<close>

definition digit :: "char \<Rightarrow> bool" where
  "digit c \<longleftrightarrow> (48::nat) \<le> of_char c \<and> of_char c \<le> (57::nat)"

text \<open>The regular expression \<open>^V(\d+(_\d+?)*)$\<close>: a V, and numbers with an underscore between them.\<close>

fun parts :: "string \<Rightarrow> string list" where
  "parts [] = [[]]"
| "parts (c # s) = (if c = CHR ''_'' then [] # parts s else case parts s of [] \<Rightarrow> [[c]] | p # ps \<Rightarrow> (c # p) # ps)"

definition isVersionCapability :: "string \<Rightarrow> bool" where
  "isVersionCapability capability = (case capability of
     [] \<Rightarrow> False
   | c # s \<Rightarrow> c = CHR ''V'' \<and> list_all (\<lambda>p. p \<noteq> [] \<and> list_all digit p) (parts s))"

definition HasCapability :: "'p ChannelCfg \<Rightarrow> string \<Rightarrow> string \<Rightarrow> bool" where
  "HasCapability cfg group' capability = (case map_of (cc_capabilities cfg) group' of
     None \<Rightarrow> False
   | Some groupCapabilities \<Rightarrow>
       if capability \<in> set groupCapabilities then True
       else isVersionCapability capability
         \<and> list_ex (\<lambda>c. isVersionCapability c \<and> string_less capability c) groupCapabilities)"

section \<open>Reading the configuration tree\<close>

definition loadAnchorPeers :: "valcodec \<Rightarrow> bytes \<Rightarrow> string \<Rightarrow> 'p ChannelCfg \<Rightarrow> 'p ChannelCfg res" where
  "loadAnchorPeers vc v org cfg = rbind (wrap_err ''unmarshal anchor peers from config failed'' (vc_AnchorPeers vc v)) (\<lambda>aps.
     Inr (cfg\<lparr>cc_anchorPeers := cc_anchorPeers cfg @ map (\<lambda>(h, p). \<lparr>oap_Org = org, oap_Host = h, oap_Port = p\<rparr>) aps\<rparr>))"

definition loadMSPKey :: "valcodec \<Rightarrow> bytes \<Rightarrow> 'p ChannelCfg \<Rightarrow> 'p ChannelCfg res" where
  "loadMSPKey vc v cfg = rbind (wrap_err ''unmarshal MSPConfig from config failed'' (vc_MSPConfig vc v)) (\<lambda>mspConfig.
     if fst mspConfig \<noteq> 0 then Inl (ErrorF ''unsupported MSP type (%v)'' [FI (fst mspConfig)])
     else Inr (cfg\<lparr>cc_msps := cc_msps cfg @ [mspConfig]\<rparr>))"

definition loadOrdererAddressesKey :: "valcodec \<Rightarrow> bytes \<Rightarrow> 'p ChannelCfg \<Rightarrow> 'p ChannelCfg res" where
  "loadOrdererAddressesKey vc v cfg = rbind (wrap_err ''unmarshal orderer addresses from config failed'' (vc_OrdererAddresses vc v)) (\<lambda>adrs.
     Inr (cfg\<lparr>cc_orderers := cc_orderers cfg @ adrs\<rparr>))"

definition loadCapabilities :: "valcodec \<Rightarrow> bytes \<Rightarrow> string \<Rightarrow> 'p ChannelCfg \<Rightarrow> 'p ChannelCfg res" where
  "loadCapabilities vc v groupName cfg = rbind (wrap_err ''unmarshal capabilities from config failed'' (vc_Capabilities vc v)) (\<lambda>caps.
     Inr (cfg\<lparr>cc_capabilities := AList.update groupName caps (cc_capabilities cfg)\<rparr>))"

definition loadConfigValue :: "valcodec \<Rightarrow> string \<Rightarrow> ConfigValue \<Rightarrow> string \<Rightarrow> string \<Rightarrow> 'p ChannelCfg \<Rightarrow> ('p ChannelCfg \<times> ConfigValue) res" where
  "loadConfigValue vc key v groupName org cfg = rbind
     (if key = ''AnchorPeers'' then loadAnchorPeers vc (cva_Value v) org cfg
      else if key = ''MSP'' then loadMSPKey vc (cva_Value v) cfg
      else if key = ''Capabilities'' then loadCapabilities vc (cva_Value v) groupName cfg
      else if key = ''OrdererAddresses'' then loadOrdererAddressesKey vc (cva_Value v) cfg
      else Inr cfg) (\<lambda>cfg1. Inr (cfg1, \<lparr>cva_Version = cva_Version v, cva_ModPolicy = [], cva_Value = cva_Value v\<rparr>))"

primrec load_values :: "valcodec \<Rightarrow> (string \<times> ConfigValue) list \<Rightarrow> string \<Rightarrow> string \<Rightarrow> 'p ChannelCfg
    \<Rightarrow> ('p ChannelCfg \<times> (string \<times> ConfigValue) list) res" where
  "load_values vc [] name org cfg = Inr (cfg, [])"
| "load_values vc (kv # kvs) name org cfg = rbind (loadConfigValue vc (fst kv) (snd kv) name org cfg) (\<lambda>(cfg1, v1).
     rbind (load_values vc kvs name org cfg1) (\<lambda>(cfg2, vs). Inr (cfg2, (fst kv, v1) # vs)))"

text \<open>The groups are read before the values; the name of a group is also the organization of its values.\<close>

fun loadConfig :: "valcodec \<Rightarrow> 'p ConfigGroup \<Rightarrow> string \<Rightarrow> string \<Rightarrow> 'p ChannelCfg \<Rightarrow> ('p ChannelCfg \<times> 'p ConfigGroup) res"
and load_groups :: "valcodec \<Rightarrow> (string \<times> 'p ConfigGroup) list \<Rightarrow> 'p ChannelCfg \<Rightarrow> ('p ChannelCfg \<times> (string \<times> 'p ConfigGroup) list) res" where
  "loadConfig vc (ConfigGroup ver md ps vs gs) name org cfg =
     rbind (load_groups vc gs cfg) (\<lambda>(cfg1, vgs).
     rbind (load_values vc vs name org cfg1) (\<lambda>(cfg2, vvs). Inr (cfg2, ConfigGroup ver md ps vvs vgs)))"
| "load_groups vc [] cfg = Inr (cfg, [])"
| "load_groups vc ((key, g) # gs) cfg =
     rbind (loadConfig vc g key key cfg) (\<lambda>(cfg1, vg).
     rbind (load_groups vc gs cfg1) (\<lambda>(cfg2, vgs). Inr (cfg2, (key, vg) # vgs)))"

text \<open>Nil data, a block without a transaction and a nil \<open>Config\<close> panic.\<close>

definition extractConfig :: "'p rescodec \<Rightarrow> valcodec \<Rightarrow> string \<Rightarrow> block \<Rightarrow> 'p ChannelCfg res outcome" where
  "extractConfig rc vc channelID blk = (case blk_Number blk of
     None \<Rightarrow> Ok (Inl (errorNew ''expected header in block''))
   | Some n \<Rightarrow> (case blk_Data blk of
       Some (d # _) \<Rightarrow> obind (CreateConfigEnvelope rc d) (\<lambda>r. case r of
           Inl e \<Rightarrow> Ok (Inl e)
         | Inr None \<Rightarrow> Panic
         | Inr (Some group') \<Rightarrow>
             let config = \<lparr>cc_id = channelID, cc_blockNumber = n, cc_msps = [], cc_anchorPeers = [], cc_orderers = [],
                   cc_versions = NewConfigGroup, cc_capabilities = []\<rparr> in
             Ok (case group' of
                None \<Rightarrow> Inr config
              | Some g \<Rightarrow> rbind (wrap_err ''load config items from config group failed'' (loadConfig vc g [] [] config))
                  (\<lambda>(cfg, versions). Inr (cfg\<lparr>cc_versions := versions\<rparr>))))
     | _ \<Rightarrow> Panic))"

section \<open>Options\<close>

text \<open>The retryable codes are nil where the code tests it: an option. The remaining options of the retry are in \<open>co_Retry\<close>.\<close>

record 'f Opts =
  co_Orderer :: "string option"
  co_Targets :: "peer list option"
  co_MinResponses :: int
  co_MaxTargets :: int
  co_Retry :: "'f Retry.Opts"
  co_Codes :: "codes option"

record 'f QueryChannelConfigPolicy =
  qp_MinResponses :: int
  qp_MaxTargets :: int
  qp_RetryOpts :: "'f Retry.Opts"

definition applyDefaultOpts :: "'f::zero \<Rightarrow> 'f Opts \<Rightarrow> 'f Opts" where
  "applyDefaultOpts f2_0 opts =
    (let r = co_Retry opts;
         r1 = (if Attempts r = 0 then r\<lparr>Attempts := 3\<rparr> else r);
         r2 = (if InitialBackoff r1 = 0 then r1\<lparr>InitialBackoff := 500 * Millisecond\<rparr> else r1);
         r3 = (if BackoffFactor r2 = 0 then r2\<lparr>BackoffFactor := f2_0\<rparr> else r2);
         r4 = (if MaxBackoff r3 = 0 then r3\<lparr>MaxBackoff := 60 * Second\<rparr> else r3)
     in opts\<lparr>co_Retry := r4, co_Codes := (if co_Codes opts = None then Some ChannelConfigRetryableCodes else co_Codes opts)\<rparr>)"

definition resolveOptsFromConfig :: "'f::zero \<Rightarrow> 'f QueryChannelConfigPolicy \<Rightarrow> 'f Opts \<Rightarrow> 'f Opts" where
  "resolveOptsFromConfig f2_0 policy opts =
    (if co_MaxTargets opts \<noteq> 0 \<and> co_MinResponses opts \<noteq> 0 \<and> co_Codes opts \<noteq> None then opts
     else let o1 = (if co_MaxTargets opts = 0 then opts\<lparr>co_MaxTargets := qp_MaxTargets policy\<rparr> else opts);
              o2 = (if co_MinResponses o1 = 0 then o1\<lparr>co_MinResponses := qp_MinResponses policy\<rparr> else o1);
              o3 = (if co_Codes o2 = None then o2\<lparr>co_Retry := qp_RetryOpts policy, co_Codes := Some ChannelConfigRetryableCodes\<rparr> else o2)
          in applyDefaultOpts f2_0 o3)"

text \<open>The options for \<open>retry.New\<close>: nil codes are no codes.\<close>

definition retryOpts :: "'f Opts \<Rightarrow> 'f Retry.Opts" where
  "retryOpts opts = (co_Retry opts)\<lparr>RetryableCodes := (case co_Codes opts of None \<Rightarrow> [] | Some c \<Rightarrow> c)\<rparr>"

type_synonym 'f Option = "'f Opts \<Rightarrow> 'f Opts res"

definition cfg_WithPeers :: "peer list option \<Rightarrow> 'f Option" where
  "cfg_WithPeers peers opts = Inr (opts\<lparr>co_Targets := peers\<rparr>)"

definition cfg_WithMinResponses :: "int \<Rightarrow> 'f Option" where
  "cfg_WithMinResponses n opts = Inr (opts\<lparr>co_MinResponses := n\<rparr>)"

definition cfg_WithOrderer :: "string option \<Rightarrow> 'f Option" where
  "cfg_WithOrderer orderer opts = Inr (opts\<lparr>co_Orderer := orderer\<rparr>)"

definition cfg_WithMaxTargets :: "int \<Rightarrow> 'f Option" where
  "cfg_WithMaxTargets n opts = Inr (opts\<lparr>co_MaxTargets := n\<rparr>)"

definition cfg_WithRetryOpts :: "'f Retry.Opts \<Rightarrow> codes option \<Rightarrow> 'f Option" where
  "cfg_WithRetryOpts r codes opts = Inr (opts\<lparr>co_Retry := r, co_Codes := codes\<rparr>)"

primrec prepareOpts :: "'f Option list \<Rightarrow> 'f Opts \<Rightarrow> 'f Opts res" where
  "prepareOpts [] opts = Inr opts"
| "prepareOpts (option # options) opts = rbind (wrap_err ''Failed to read query config opts'' (option opts)) (prepareOpts options)"

record 'f ChannelConfig =
  cf_channelID :: string
  cf_opts :: "'f Opts"

definition chconfig_New :: "string \<Rightarrow> 'f::zero Option list \<Rightarrow> 'f ChannelConfig res" where
  "chconfig_New channelID options =
     rbind (prepareOpts options \<lparr>co_Orderer = None, co_Targets = None, co_MinResponses = 0, co_MaxTargets = 0,
         co_Retry = \<lparr>Attempts = 0, InitialBackoff = 0, MaxBackoff = 0, BackoffFactor = 0, RetryableCodes = []\<rparr>, co_Codes = None\<rparr>)
       (\<lambda>opts. Inr \<lparr>cf_channelID = channelID, cf_opts = opts\<rparr>)"

section \<open>Fetching the configuration block\<close>

text \<open>What the targets are chosen from: the configured peers of the channel and the organization of the client.\<close>

record ('w, 'f, 'p) cfgEnv =
  ce_res :: "('w, 'f, 'p) resEnv"
  ce_values :: valcodec
  ce_policy :: "'f QueryChannelConfigPolicy"
  ce_f2_0 :: 'f
  ce_channelPeers :: "peer option res list" \<comment> \<open>the results of \<open>CreatePeerFromConfig\<close>\<close>
  ce_MSPID :: string
  ce_rand :: "nat \<Rightarrow> nat"

definition randomMaxTargets :: "(nat \<Rightarrow> nat) \<Rightarrow> 'a list \<Rightarrow> int \<Rightarrow> 'a list outcome" where
  "randomMaxTargets d targets max' =
    (if int (length targets) \<le> max' then Ok targets
     else if max' < 0 then Panic else Ok (take (nat max') (shuffle d targets)))"

text \<open>\<open>errors.WithMessage\<close> of a nil error is nil: a nil peer without an error gives no targets and no error.\<close>

primrec own_peers :: "string \<Rightarrow> peer option res list \<Rightarrow> peer list \<Rightarrow> peer list option res" where
  "own_peers mspID [] targets = Inr (Some targets)"
| "own_peers mspID (r # rs) targets = (case r of
     Inl e \<Rightarrow> Inl (withMessage e ''NewPeer failed'')
   | Inr None \<Rightarrow> Inr None
   | Inr (Some p) \<Rightarrow> own_peers mspID rs (if peer_MSPID p = mspID then targets @ [p] else targets))"

definition calculateTargetsFromConfig :: "('w, 'f, 'p) cfgEnv \<Rightarrow> string \<Rightarrow> 'f Opts \<Rightarrow> peer list res outcome" where
  "calculateTargetsFromConfig env channelID opts =
    (if length (ce_channelPeers env) = 0 then Ok (Inl (ErrorF ''no channel peers configured for channel [%s]'' [FS channelID]))
     else (case own_peers (ce_MSPID env) (ce_channelPeers env) [] of
       Inl e \<Rightarrow> Ok (Inl e)
     | Inr None \<Rightarrow> Ok (Inr [])
     | Inr (Some targets) \<Rightarrow> obind (randomMaxTargets (ce_rand env) targets (co_MaxTargets opts)) (\<lambda>ts. Ok (Inr ts))))"

definition queryBlockFromPeers :: "('w, 'f::{linorder,times,zero}, 'p) cfgEnv \<Rightarrow> 'f ChannelConfig \<Rightarrow> 'w \<Rightarrow> (block res \<times> 'w) outcome" where
  "queryBlockFromPeers env c w =
    (if ne_ctx (re_net (ce_res env)) = None
     then Ok (Inl (errorNew ''failed get client context from reqContext for signPayload''), w)
     else let opts = resolveOptsFromConfig (ce_f2_0 env) (ce_policy env) (cf_opts c); net = re_net (ce_res env) in
       obind (case co_Targets opts of None \<Rightarrow> calculateTargetsFromConfig env (cf_channelID c) opts | Some ts \<Rightarrow> Ok (Inr ts)) (\<lambda>r. case r of
         Inl e \<Rightarrow> Ok (Inl e, w)
       | Inr targets \<Rightarrow> obind (retrying (ce_res env) (retryOpts opts)
            (ledger_QueryConfigBlock net (cf_channelID c) (map PeerProcessor targets)
               (Some (TransactionProposalResponseVerifier net (co_MinResponses opts)))) w)
            (\<lambda>(r, w1). Ok (wrap_err ''QueryBlockConfig failed'' r, w1))))"

definition queryBlockFromOrderer :: "('w, 'f::{linorder,times,zero}, 'p) cfgEnv \<Rightarrow> 'f ChannelConfig \<Rightarrow> string \<Rightarrow> 'w \<Rightarrow> (block res \<times> 'w) outcome" where
  "queryBlockFromOrderer env c orderer w =
     LastConfigFromOrderer (ce_res env) (cf_channelID c) orderer (retryOpts (cf_opts c)) w"

definition chconfig_QueryBlock :: "('w, 'f::{linorder,times,zero}, 'p) cfgEnv \<Rightarrow> 'f ChannelConfig \<Rightarrow> 'w \<Rightarrow> (block res \<times> 'w) outcome" where
  "chconfig_QueryBlock env c w = (case co_Orderer (cf_opts c) of
     Some orderer \<Rightarrow> queryBlockFromOrderer env c orderer w
   | None \<Rightarrow> queryBlockFromPeers env c w)"

definition chconfig_Query :: "('w, 'f::{linorder,times,zero}, 'p) cfgEnv \<Rightarrow> 'f ChannelConfig \<Rightarrow> 'w \<Rightarrow> ('p ChannelCfg res \<times> 'w) outcome" where
  "chconfig_Query env c w = obind (case co_Orderer (cf_opts c) of
       Some orderer \<Rightarrow> obind (queryBlockFromOrderer env c orderer w) (\<lambda>(r, w1). Ok (wrap_err ''LastConfigFromOrderer failed'' r, w1))
     | None \<Rightarrow> obind (queryBlockFromPeers env c w) (\<lambda>(r, w1). Ok (wrap_err ''QueryBlockConfig failed'' r, w1)))
     (\<lambda>(r, w1). case r of
        Inl e \<Rightarrow> Ok (Inl e, w1)
      | Inr blk \<Rightarrow> obind (extractConfig (re_codec (ce_res env)) (ce_values env) (cf_channelID c) blk) (\<lambda>cfg. Ok (cfg, w1)))"

text \<open>\<open>QueryConfig\<close> of the ledger client (pkg/client/ledger/ledger.go).\<close>

definition client_QueryConfig :: "('w, 'f::{linorder,times,zero}, 'p) cfgEnv \<Rightarrow> 'w ledgerClient \<Rightarrow> (nat \<Rightarrow> nat) \<Rightarrow> RequestOption list \<Rightarrow> 'w
    \<Rightarrow> ('p ChannelCfg res \<times> 'w) outcome" where
  "client_QueryConfig env c d options w = obind (prepareRequestParams c d options) (\<lambda>r.
     case wrap_err ''QueryConfig failed to prepare request parameters'' r of
       Inl err \<Rightarrow> Ok (Inl err, w)
     | Inr (targets, opts) \<Rightarrow>
        (case wrap_err ''QueryConfig failed'' (chconfig_New (lc_channel c) [cfg_WithPeers (Some targets), cfg_WithMinResponses (lo_MinTargets opts)]) of
           Inl err \<Rightarrow> Ok (Inl err, w)
         | Inr cfg \<Rightarrow> chconfig_Query env cfg w))"

end
