(* ===== verification/Resmgmt.thy ===== *)
theory Resmgmt
  imports Resource Channel_Config PgResolver
begin

text \<open>
  The resource management client (pkg/client/resmgmt: resmgmt.go, opts.go, lscc.go): choosing the peers of an operation, joining
  channels, installing, instantiating and upgrading chaincodes, and creating channels with signed configurations.

  The services of a channel are the record \<open>chServices\<close>: whether discovery, membership, transactor and events can be had, and as
  \<open>sv_env\<close> what they do. The results of the local discovery service are two results in one: of making the local context and of
  asking it. The timeouts of a request bound the answers of peers and orderers, which are parameters.
\<close>

section \<open>The client and its options\<close>

record ('w, 'f, 'kv, 'h) chServices =
  sv_Discovery :: "peer list res res"
  sv_Membership :: "unit res"
  sv_Transactor :: "unit res"
  sv_EventService :: "unit res"
  sv_env :: "('w, 'f, 'kv, 'h) invokeEnv"

record ('w, 'f, 'kv, 'h, 'p) rmEnv =
  rm_res :: "('w, 'f, 'p) resEnv"
  rm_MSPID :: string
  rm_filter :: "(peer \<Rightarrow> bool) option"
  rm_LocalPeers :: "peer list res res"
  rm_NewChannel :: "string \<Rightarrow> ('w, 'f, 'kv, 'h) chServices res"
  rm_ChannelService :: "string \<Rightarrow> ('w, 'f, 'kv, 'h) chServices res"
  rm_ChannelOrderers :: "string \<Rightarrow> string list"
  rm_OrderersConfig :: "string list"
  rm_CreateOrderer :: "string \<Rightarrow> string res"
  rm_OrdererConfig :: "string \<Rightarrow> string \<times> bool \<times> bool" \<comment> \<open>the configuration, whether it is found, whether it is ignored\<close>
  rm_draw :: nat
  rm_LangName :: "int \<Rightarrow> string"
  rm_e_Deploy :: "int \<Rightarrow> ChaincodeInfo \<Rightarrow> bytes list \<Rightarrow> bytes res"
  rm_e_Policy :: "SigPolicyEnv \<Rightarrow> bytes res"
  rm_e_Collections :: "bytes list \<Rightarrow> bytes res"
  rm_d_Signature :: "bytes \<Rightarrow> ConfigSignature res"
  rm_e_Signature :: "ConfigSignature \<Rightarrow> bytes res"

record 'f requestOptions =
  ro_Targets :: "peer list"
  ro_TargetFilter :: "(peer \<Rightarrow> bool) option"
  ro_Orderer :: "string option"
  ro_Retry :: "'f Retry.Opts"
  ro_Signatures :: "ConfigSignature list option"

type_synonym 'f RequestOption = "'f requestOptions \<Rightarrow> 'f requestOptions res"

definition WithTargets :: "peer option list \<Rightarrow> 'f RequestOption" where
  "WithTargets targets opts =
    (if None \<in> set targets then Inl (errorNew ''target is nil'') else Inr (opts\<lparr>ro_Targets := map the targets\<rparr>))"

definition WithTargetEndpoints :: "(string \<Rightarrow> 'c res) \<Rightarrow> ('c \<Rightarrow> peer option res) \<Rightarrow> string list \<Rightarrow> 'f RequestOption" where
  "WithTargetEndpoints peerConfig createPeer keys opts =
     rbind (endpoint_peers peerConfig createPeer keys []) (\<lambda>targets. WithTargets targets opts)"

definition WithTargetFilter :: "(peer \<Rightarrow> bool) option \<Rightarrow> 'f RequestOption" where
  "WithTargetFilter targetFilter opts = Inr (opts\<lparr>ro_TargetFilter := targetFilter\<rparr>)"

definition WithOrderer :: "string option \<Rightarrow> 'f RequestOption" where
  "WithOrderer orderer opts = Inr (opts\<lparr>ro_Orderer := orderer\<rparr>)"

definition WithOrdererEndpoint :: "('w, 'f, 'kv, 'h, 'p) rmEnv \<Rightarrow> string \<Rightarrow> 'f RequestOption" where
  "WithOrdererEndpoint env key opts = (case rm_OrdererConfig env key of (ordererCfg, found, ignoreOrderer) \<Rightarrow>
     if ignoreOrderer then Inl (ErrorF ''orderer url : %s is explicitly ignored by EntityMatchers config - can't add orderer'' [FS key])
     else if \<not> found then Inl (ErrorF ''orderer not found for url : %s'' [FS key])
     else rbind (wrap_err ''creating orderer from config failed'' (rm_CreateOrderer env ordererCfg)) (\<lambda>orderer.
          WithOrderer (Some orderer) opts))"

definition WithConfigSignatures :: "ConfigSignature list option \<Rightarrow> 'f RequestOption" where
  "WithConfigSignatures signatures opts = Inr (opts\<lparr>ro_Signatures := signatures\<rparr>)"

definition rm_WithRetry :: "'f Retry.Opts \<Rightarrow> 'f RequestOption" where
  "rm_WithRetry r opts = Inr (opts\<lparr>ro_Retry := r\<rparr>)"

primrec read_opts :: "'f RequestOption list \<Rightarrow> 'f requestOptions \<Rightarrow> 'f requestOptions res" where
  "read_opts [] opts = Inr opts"
| "read_opts (option # options) opts = rbind (wrap_err ''failed to read opts in resmgmt'' (option opts)) (read_opts options)"

definition prepareRequestOpts :: "'f::zero RequestOption list \<Rightarrow> 'f requestOptions res" where
  "prepareRequestOpts options =
     rbind (read_opts options \<lparr>ro_Targets = [], ro_TargetFilter = None, ro_Orderer = None, ro_Retry = zeroOpts, ro_Signatures = None\<rparr>)
       (\<lambda>opts. if length (ro_Targets opts) > 0 \<and> ro_TargetFilter opts \<noteq> None
         then Inl (errorNew ''If targets are provided, filter cannot be provided'') else Inr opts)"

section \<open>Targets\<close>

definition no_targets :: goerr where
  "no_targets = withStack (asError (status_New ClientStatus NoPeersFound ''no targets available'' []))"

text \<open>Default targets are the peers of a discovery service that pass the client's filter.\<close>

definition getDefaultTargets :: "('w, 'f, 'kv, 'h, 'p) rmEnv \<Rightarrow> peer list res \<Rightarrow> peer list res" where
  "getDefaultTargets env discovered = rbind (wrap_err ''failed to discover peers'' discovered) (\<lambda>peers. Inr (filterTargets peers (rm_filter env)))"

text \<open>\<open>errors.WithMessage\<close> of the nil error is nil: without a local target there is neither a target nor an error.\<close>

definition resolveDefaultTargets :: "('w, 'f, 'kv, 'h, 'p) rmEnv \<Rightarrow> 'f requestOptions \<Rightarrow> peer list res" where
  "resolveDefaultTargets env opts =
    (if length (ro_Targets opts) \<noteq> 0 then Inr (ro_Targets opts)
     else rbind (wrap_err ''failed to create local context'' (rm_LocalPeers env)) (getDefaultTargets env))"

definition calculateTargets :: "('w, 'f, 'kv, 'h, 'p) rmEnv \<Rightarrow> peer list \<Rightarrow> (peer \<Rightarrow> bool) option \<Rightarrow> peer list res" where
  "calculateTargets env targets flt =
    (if length targets = 0
     then rbind (wrap_err ''failed to create local context'' (rm_LocalPeers env)) (\<lambda>discovered.
          rbind discovered (\<lambda>peers. Inr (filterTargets peers (if flt = None then rm_filter env else flt))))
     else Inr (filterTargets targets flt))"

definition getCCProposalTargets :: "('w, 'f, 'kv, 'h, 'p) rmEnv \<Rightarrow> string \<Rightarrow> 'f requestOptions \<Rightarrow> peer list res" where
  "getCCProposalTargets env channelID opts =
     rbind (wrap_err ''failed to create channel context'' (rm_NewChannel env channelID)) (\<lambda>chCtx.
     rbind (wrap_err ''failed to get discovery service'' (sv_Discovery chCtx)) (\<lambda>discovery.
     rbind (if length (ro_Targets opts) = 0
            then wrap_err ''failed to get default targets for cc proposal'' (getDefaultTargets env discovery) else Inr (ro_Targets opts)) (\<lambda>ts.
     rbind (wrap_err ''failed to determine target peers for cc proposal'' (calculateTargets env ts (ro_TargetFilter opts))) (\<lambda>targets.
       if length targets = 0 then Inl no_targets else Inr targets))))"

definition ordererConfig :: "('w, 'f, 'kv, 'h, 'p) rmEnv \<Rightarrow> string \<Rightarrow> string res" where
  "ordererConfig env channelID =
    (let chOrderers = rm_ChannelOrderers env channelID; orderers = rm_OrderersConfig env in
     if length chOrderers > 0 then Inr (chOrderers ! rand_Intn (rm_draw env) (length chOrderers))
     else if length orderers = 0 then Inl (errorNew ''no orderers found'')
     else Inr (orderers ! rand_Intn (rm_draw env) (length orderers)))"

definition requestOrderer :: "('w, 'f, 'kv, 'h, 'p) rmEnv \<Rightarrow> 'f requestOptions \<Rightarrow> string \<Rightarrow> string res" where
  "requestOrderer env opts channelID = (case ro_Orderer opts of
     Some orderer \<Rightarrow> Inr orderer
   | None \<Rightarrow> rbind (wrap_err ''orderer not found'' (ordererConfig env channelID)) (\<lambda>cfg.
       wrap_err ''failed to create orderer from config'' (rm_CreateOrderer env cfg)))"

section \<open>Joining a channel\<close>

definition rm_JoinChannel :: "('w, 'f::{linorder,times,zero}, 'kv, 'h, 'p) rmEnv \<Rightarrow> string \<Rightarrow> 'f RequestOption list \<Rightarrow> 'w
    \<Rightarrow> (goerr option \<times> 'w) outcome" where
  "rm_JoinChannel env channelID options w =
    (if channelID = [] then Ok (Some (errorNew ''must provide channel ID''), w)
     else (case rbind (wrap_err ''failed to get opts for JoinChannel'' (prepareRequestOpts options)) (\<lambda>opts.
         rbind (wrap_err ''failed to determine target peers for JoinChannel'' (calculateTargets env (ro_Targets opts) (ro_TargetFilter opts))) (\<lambda>targets.
         rbind (if length targets = 0 then Inl no_targets else Inr ()) (\<lambda>_.
         rbind (wrap_err ''failed to find orderer for request'' (requestOrderer env opts channelID)) (\<lambda>orderer.
           Inr (opts, targets, orderer))))) of
       Inl e \<Rightarrow> Ok (Some e, w)
     | Inr (opts, targets, orderer) \<Rightarrow>
         obind (GenesisBlockFromOrderer (rm_res env) channelID orderer (ro_Retry opts) w) (\<lambda>(r, w1).
         case wrap_err ''genesis block retrieval failed'' r of
           Inl e \<Rightarrow> Ok (Some e, w1)
         | Inr genesisBlock \<Rightarrow> obind (JoinChannel (rm_res env) genesisBlock (map PeerProcessor targets) (ro_Retry opts) w1) (\<lambda>(err, w2).
             Ok (map_option (\<lambda>e. withMessage e ''join channel failed'') err, w2)))))"

section \<open>Installing chaincodes\<close>

record InstallCCResponse =
  ir_Target :: string
  ir_Status :: "32 word"
  ir_Info :: string

definition checkRequiredInstallCCParams :: "InstallChaincodeRequest \<Rightarrow> goerr option" where
  "checkRequiredInstallCCParams req =
    (if cci_Name (icr_Info req) = [] \<or> cci_Version (icr_Info req) = [] \<or> cci_Path (icr_Info req) = [] \<or> icr_Package req = None
     then Some (errorNew ''Chaincode name, version, path and chaincode package are required'') else None)"

definition isChaincodeInstalled :: "('w, 'f::{linorder,times,zero}, 'kv, 'h, 'p) rmEnv \<Rightarrow> InstallChaincodeRequest \<Rightarrow> peer \<Rightarrow> 'f Retry.Opts \<Rightarrow> 'w
    \<Rightarrow> (bool res \<times> 'w) outcome" where
  "isChaincodeInstalled env req p retry w =
     obind (QueryInstalledChaincodes (rm_res env) (Some (PeerProcessor p)) retry w) (\<lambda>(r, w1).
       Ok (rbind r (\<lambda>chaincodes. Inr (list_ex (\<lambda>cc. cci_Name cc = cci_Name (icr_Info req) \<and> cci_Version cc = cci_Version (icr_Info req)
         \<and> cci_Path cc = cci_Path (icr_Info req)) chaincodes)), w1))"

primrec adjustTargets :: "('w, 'f::{linorder,times,zero}, 'kv, 'h, 'p) rmEnv \<Rightarrow> peer list \<Rightarrow> InstallChaincodeRequest \<Rightarrow> 'f Retry.Opts
    \<Rightarrow> InstallCCResponse list \<Rightarrow> peer list \<Rightarrow> goerr list \<Rightarrow> 'w \<Rightarrow> ((InstallCCResponse list \<times> peer list \<times> goerr list) \<times> 'w) outcome" where
  "adjustTargets env [] req retry responses newTargets errs w = Ok ((responses, newTargets, errs), w)"
| "adjustTargets env (target # ts) req retry responses newTargets errs w =
     obind (isChaincodeInstalled env req target retry w) (\<lambda>(r, w1). case r of
       Inl err \<Rightarrow> adjustTargets env ts req retry responses newTargets
         (errs @ [ErrorF ''unable to verify if cc is installed on %s. Got error: %s'' [FS (peer_URL target), FS (errorText (ne_wire (re_net (rm_res env))) err)]]) w1
     | Inr installed \<Rightarrow>
         if installed
         then adjustTargets env ts req retry (responses @ [\<lparr>ir_Target = peer_URL target, ir_Status = 0, ir_Info = ''already installed''\<rparr>]) newTargets errs w1
         else adjustTargets env ts req retry responses (newTargets @ [target]) errs w1)"

text \<open>The request is sent without the retry options, and without the responses so far if it fails.\<close>

definition sendInstallCCRequest :: "('w, 'f::{linorder,times,zero}, 'kv, 'h, 'p) rmEnv \<Rightarrow> InstallChaincodeRequest \<Rightarrow> peer list
    \<Rightarrow> InstallCCResponse list \<Rightarrow> 'w \<Rightarrow> ((InstallCCResponse list \<times> goerr option) \<times> 'w) outcome" where
  "sendInstallCCRequest env req newTargets responses w =
     obind (InstallChaincode (rm_res env) req (map PeerProcessor newTargets) zeroOpts w) (\<lambda>(r, w1).
     case wrap_err ''installing chaincode failed'' r of
       Inl e \<Rightarrow> Ok (([], Some e), w1)
     | Inr (tprs, txid) \<Rightarrow> Ok ((responses @ map (\<lambda>v. \<lparr>ir_Target = tpr_Endorser v, ir_Status = tpr_Status v, ir_Info = []\<rparr>) tprs, None), w1))"

definition InstallCC :: "('w, 'f::{linorder,times,zero}, 'kv, 'h, 'p) rmEnv \<Rightarrow> InstallChaincodeRequest \<Rightarrow> 'f RequestOption list \<Rightarrow> 'w
    \<Rightarrow> ((InstallCCResponse list \<times> goerr option) \<times> 'w) outcome" where
  "InstallCC env req options w = (case checkRequiredInstallCCParams req of
     Some e \<Rightarrow> Ok (([], Some e), w)
   | None \<Rightarrow> (case rbind (wrap_err ''failed to get opts for InstallCC'' (prepareRequestOpts options)) (\<lambda>opts.
         rbind (wrap_err ''failed to get default targets for InstallCC'' (resolveDefaultTargets env opts)) (\<lambda>defaultTargets.
         rbind (wrap_err ''failed to determine target peers for install cc'' (calculateTargets env defaultTargets (ro_TargetFilter opts))) (\<lambda>targets.
           if length targets = 0 then Inl no_targets else Inr (opts, targets)))) of
       Inl e \<Rightarrow> Ok (([], Some e), w)
     | Inr (opts, targets) \<Rightarrow>
         obind (adjustTargets env targets req (ro_Retry opts) [] [] [] w) (\<lambda>((responses, newTargets, errs), w1).
         if length newTargets = 0 then Ok ((responses, ToError errs), w1)
         else obind (sendInstallCCRequest env req newTargets responses w1) (\<lambda>((responses1, err), w2).
              Ok ((responses1, ToError (case err of None \<Rightarrow> errs | Some e \<Rightarrow> errs @ [e])), w2)))))"

section \<open>Instantiating and upgrading\<close>

record InstantiateCCRequest =
  ic_Info :: ChaincodeInfo
  ic_Lang :: int
  ic_Args :: "bytes list"
  ic_Policy :: "SigPolicyEnv option"
  ic_CollConfig :: "bytes list option"

datatype chaincodeProposalType = InstantiateChaincode | UpgradeChaincode

definition ChaincodeSpec_GOLANG :: int where
  "ChaincodeSpec_GOLANG = 1"

text \<open>The request with its default language, or what it lacks.\<close>

definition checkRequiredCCProposalParams :: "('w, 'f, 'kv, 'h, 'p) rmEnv \<Rightarrow> string \<Rightarrow> InstantiateCCRequest \<Rightarrow> InstantiateCCRequest res" where
  "checkRequiredCCProposalParams env channelID req =
    (if channelID = [] then Inl (errorNew ''must provide channel ID'')
     else if cci_Name (ic_Info req) = [] \<or> cci_Version (ic_Info req) = [] \<or> cci_Path (ic_Info req) = [] \<or> ic_Policy req = None
     then Inl (errorNew ''Chaincode name, version, path and policy are required'')
     else Inr (if ic_Lang req = 0 \<or> rm_LangName env (ic_Lang req) = [] then req\<lparr>ic_Lang := ChaincodeSpec_GOLANG\<rparr> else req))"

definition createChaincodeDeployProposal :: "('w, 'f, 'kv, 'h, 'p) rmEnv \<Rightarrow> TransactionHeader \<Rightarrow> chaincodeProposalType \<Rightarrow> string
    \<Rightarrow> InstantiateCCRequest \<Rightarrow> TransactionProposal res outcome" where
  "createChaincodeDeployProposal env txh deploy channelID cc =
    (case rbind (wrap_err ''marshal of chaincode deployment spec failed'' (rm_e_Deploy env (ic_Lang cc) (ic_Info cc) (ic_Args cc))) (\<lambda>ccdsBytes.
       rbind (wrap_err ''marshal of chaincode policy failed'' (case ic_Policy cc of None \<Rightarrow> Inr [] | Some p \<Rightarrow> rm_e_Policy env p)) (\<lambda>policyBytes.
       rbind (case ic_CollConfig cc of None \<Rightarrow> Inr []
              | Some cs \<Rightarrow> rbind (wrap_err ''marshal of collection policy failed'' (rm_e_Collections env cs)) (\<lambda>b. Inr [b])) (\<lambda>coll.
         Inr ([string_bytes channelID, ccdsBytes, policyBytes, string_bytes ''escc'', string_bytes ''vscc''] @ coll)))) of
       Inl e \<Rightarrow> Ok (Inl e)
     | Inr args \<Rightarrow> CreateChaincodeInvokeProposal (ne_pc (re_net (rm_res env))) (ne_timestamp (re_net (rm_res env))) txh
         ((sysRequest ''lscc'' (case deploy of InstantiateChaincode \<Rightarrow> ''deploy'' | UpgradeChaincode \<Rightarrow> ''upgrade'') args)\<lparr>ir_Lang := ic_Lang cc\<rparr>))"

text \<open>The client context is there; the transaction identifier comes with an error of the proposal.\<close>

definition createTP :: "('w, 'f, 'kv, 'h, 'p) rmEnv \<Rightarrow> clientCtx \<Rightarrow> InstantiateCCRequest \<Rightarrow> string \<Rightarrow> chaincodeProposalType
    \<Rightarrow> (TransactionProposal res \<times> string) outcome" where
  "createTP env ctx req channelID deploy =
    (case wrap_err ''create transaction ID failed'' (NewHeader ctx (ne_random (re_net (rm_res env))) channelID []) of
       Inl e \<Rightarrow> Ok (Inl e, [])
     | Inr txh \<Rightarrow> obind (createChaincodeDeployProposal env txh deploy channelID req) (\<lambda>r.
         Ok (wrap_err ''creating chaincode deploy transaction proposal failed'' r, th_id txh)))"

definition verifyTPSignature :: "('w, 'f, 'kv, 'h) chServices \<Rightarrow> TransactionProposalResponse list \<Rightarrow> goerr option outcome" where
  "verifyTPSignature sv responses = (case wrap_err ''membership creation failed'' (sv_Membership sv) of
     Inl e \<Rightarrow> Ok (Some e)
   | Inr _ \<Rightarrow> obind (sv_validate (sv_env sv) responses) (\<lambda>err. Ok (map_option (\<lambda>e. withMessage e ''Failed to verify signature'') err)))"

text \<open>The registration is removed at the end; a receive from the closed channel of the status reads a nil event.\<close>

definition sendTransactionAndCheckEvent :: "('w, 'f, 'kv, 'h) invokeEnv \<Rightarrow> TransactionProposal \<Rightarrow> TransactionProposalResponse list \<Rightarrow> 'w
    \<Rightarrow> ((string \<times> goerr option) \<times> 'w) outcome" where
  "sendTransactionAndCheckEvent env tp responses w = (case cl_RegisterTxStatusEvent (ie_cl env) (tp_TxnID tp) w of
     (Inl err, w1) \<Rightarrow> Ok ((tp_TxnID tp, Some (withMessage err ''error registering for TxStatus event'')), w1)
   | (Inr reg, w1) \<Rightarrow> obind (obind (createAndSendTransaction env (Some tp) responses w1) (\<lambda>(r, w2). case r of
         Inl err \<Rightarrow> Ok ((tp_TxnID tp, Some (withMessage err ''CreateAndSendTransaction failed'')), w2)
       | Inr _ \<Rightarrow> obind (cl_AwaitTxStatus (ie_cl env) reg w2) (\<lambda>(a, w3). case a of
           NotifierClosed \<Rightarrow> Panic
         | CtxDone \<Rightarrow> Ok ((tp_TxnID tp, Some (errorNew ''instantiateOrUpgradeCC timed out or cancelled'')), w3)
         | TxStatus code \<Rightarrow> Ok ((tp_TxnID tp, if code = TxValidationCode_VALID then None
             else Some (asError (status_New EventServerStatus (word_of_int code) ''instantiateOrUpgradeCC failed'' []))), w3))))
       (\<lambda>(r, w4). Ok (r, cl_Unregister (ie_cl env) reg w4)))"

definition sendCCProposal :: "('w, 'f, 'kv, 'h, 'p) rmEnv \<Rightarrow> clientCtx \<Rightarrow> chaincodeProposalType \<Rightarrow> string \<Rightarrow> InstantiateCCRequest
    \<Rightarrow> 'f requestOptions \<Rightarrow> 'w \<Rightarrow> ((string \<times> goerr option) \<times> 'w) outcome" where
  "sendCCProposal env ctx deploy channelID req0 opts w =
    (case rbind (checkRequiredCCProposalParams env channelID req0) (\<lambda>req.
       rbind (getCCProposalTargets env channelID opts) (\<lambda>targets.
       rbind (wrap_err ''Unable to get channel service'' (rm_ChannelService env channelID)) (\<lambda>sv.
       rbind (wrap_err ''get channel transactor failed'' (sv_Transactor sv)) (\<lambda>_. Inr (req, targets, sv))))) of
       Inl e \<Rightarrow> Ok (([], Some e), w)
     | Inr (req, targets, sv) \<Rightarrow> obind (createTP env ctx req channelID deploy) (\<lambda>(r, txnID). case r of
         Inl e \<Rightarrow> Ok ((txnID, Some e), w)
       | Inr tp \<Rightarrow> (case cl_SendTransactionProposal (ie_cl (sv_env sv)) (Some tp) (PeersToTxnProcessors targets) w of
           ((responses, err), w1) \<Rightarrow> (case err of
             Some e \<Rightarrow> Ok ((tp_TxnID tp, Some (withMessage e ''sending deploy transaction proposal failed'')), w1)
           | None \<Rightarrow> obind (verifyTPSignature sv responses) (\<lambda>verr. case verr of
               Some e \<Rightarrow> Ok ((tp_TxnID tp, Some (withMessage e ''sending deploy transaction proposal failed to verify signature'')), w1)
             | None \<Rightarrow> (case wrap_err ''unable to get event service'' (sv_EventService sv) of
                 Inl e \<Rightarrow> Ok ((tp_TxnID tp, Some e), w1)
               | Inr _ \<Rightarrow> sendTransactionAndCheckEvent (sv_env sv) tp responses w1))))))"

definition InstantiateCC :: "('w, 'f::zero, 'kv, 'h, 'p) rmEnv \<Rightarrow> clientCtx \<Rightarrow> string \<Rightarrow> InstantiateCCRequest \<Rightarrow> 'f RequestOption list \<Rightarrow> 'w
    \<Rightarrow> ((string \<times> goerr option) \<times> 'w) outcome" where
  "InstantiateCC env ctx channelID req options w = (case wrap_err ''failed to get opts for InstantiateCC'' (prepareRequestOpts options) of
     Inl e \<Rightarrow> Ok (([], Some e), w)
   | Inr opts \<Rightarrow> sendCCProposal env ctx InstantiateChaincode channelID req opts w)"

definition UpgradeCC :: "('w, 'f::zero, 'kv, 'h, 'p) rmEnv \<Rightarrow> clientCtx \<Rightarrow> string \<Rightarrow> InstantiateCCRequest \<Rightarrow> 'f RequestOption list \<Rightarrow> 'w
    \<Rightarrow> ((string \<times> goerr option) \<times> 'w) outcome" where
  "UpgradeCC env ctx channelID req options w = (case wrap_err ''failed to get opts for UpgradeCC'' (prepareRequestOpts options) of
     Inl e \<Rightarrow> Ok (([], Some e), w)
   | Inr opts \<Rightarrow> sendCCProposal env ctx UpgradeChaincode channelID req opts w)"

end
