(* ===== verification/Resmgmt_Channels.thy ===== *)
theory Resmgmt_Channels
  imports Resmgmt
begin

text \<open>
  The rest of pkg/client/resmgmt/resmgmt.go: creating and updating channels with signed configurations, and the queries.

  An \<open>io.Reader\<close> is the list of what its reads return, after which it is at the end. A signing identity is a client context.
\<close>

section \<open>Readers\<close>

datatype read_end = RNil | REof | RErr goerr

type_synonym reader = "(bytes \<times> read_end) list"

text \<open>\<open>readConfigSignatureArray\<close> stops at the first read without bytes.\<close>

primrec readConfigSignatureArray :: "reader \<Rightarrow> bytes \<Rightarrow> bytes res" where
  "readConfigSignatureArray [] arr = Inr arr"
| "readConfigSignatureArray (r # rs) arr = (case snd r of
     RErr e \<Rightarrow> Inl (withMessage e ''Failed to read config signature data from reader'')
   | _ \<Rightarrow> if fst r = [] then Inr arr else readConfigSignatureArray rs (arr @ fst r))"

text \<open>\<open>ioutil.ReadAll\<close>\<close>

primrec ReadAll :: "reader \<Rightarrow> bytes \<Rightarrow> bytes res" where
  "ReadAll [] arr = Inr arr"
| "ReadAll (r # rs) arr = (case snd r of RErr e \<Rightarrow> Inl e | REof \<Rightarrow> Inr (arr @ fst r) | RNil \<Rightarrow> ReadAll rs (arr @ fst r))"

definition MarshalConfigSignature :: "('w, 'f, 'kv, 'h, 'p) rmEnv \<Rightarrow> ConfigSignature \<Rightarrow> bytes res" where
  "MarshalConfigSignature env signature = wrap_err ''failed to marshal signature'' (rm_e_Signature env signature)"

definition UnmarshalConfigSignature :: "('w, 'f, 'kv, 'h, 'p) rmEnv \<Rightarrow> reader \<Rightarrow> ConfigSignature res" where
  "UnmarshalConfigSignature env r = rbind (wrap_err ''reading ConfigSiganture array failed'' (readConfigSignatureArray r [])) (\<lambda>arr.
     wrap_err ''Failed to unmarshal config signature'' (rm_d_Signature env arr))"

definition createConfigSignatureOption :: "('w, 'f, 'kv, 'h, 'p) rmEnv \<Rightarrow> reader \<Rightarrow> 'f RequestOption" where
  "createConfigSignatureOption env r opts = rbind (readConfigSignatureArray r []) (\<lambda>arr. rbind (rm_d_Signature env arr) (\<lambda>sig.
     Inr (opts\<lparr>ro_Signatures := Some ((case ro_Signatures opts of None \<Rightarrow> [] | Some l \<Rightarrow> l) @ [sig])\<rparr>)))"

definition extractChConfigTx :: "('w, 'f, 'kv, 'h, 'p) rmEnv \<Rightarrow> reader option \<Rightarrow> bytes res" where
  "extractChConfigTx env r = (case r of
     None \<Rightarrow> Inl (errorNew ''must provide a non empty channel config file'')
   | Some rd \<Rightarrow> rbind (wrap_err ''reading channel config file failed'' (ReadAll rd [])) (\<lambda>configTx.
       wrap_err ''extracting channel config from ConfigTx failed'' (ExtractChannelConfig (re_codec (rm_res env)) configTx)))"

section \<open>Signing a configuration\<close>

primrec createCfgSigFromIDs :: "('w, 'f, 'kv, 'h, 'p) rmEnv \<Rightarrow> bytes \<Rightarrow> clientCtx list \<Rightarrow> ConfigSignature list \<Rightarrow> ConfigSignature list res outcome" where
  "createCfgSigFromIDs env chConfig [] acc = Ok (Inr acc)"
| "createCfgSigFromIDs env chConfig (signer # signers) acc =
     obind (CreateConfigSignature (ne_pc (re_net (rm_res env))) signer (ne_random (re_net (rm_res env))) chConfig) (\<lambda>r.
       case wrap_err ''signing configuration failed'' r of
         Inl e \<Rightarrow> Ok (Inl e)
       | Inr sig \<Rightarrow> createCfgSigFromIDs env chConfig signers (acc @ [sig]))"

text \<open>\<open>ctx\<close> is the user of the client, who signs if no identity is given. A nil identity is left out.\<close>

definition getConfigSignatures :: "('w, 'f, 'kv, 'h, 'p) rmEnv \<Rightarrow> clientCtx option \<Rightarrow> clientCtx option list \<Rightarrow> bytes \<Rightarrow> ConfigSignature list res outcome" where
  "getConfigSignatures env ctx signingIdentities chConfig =
    (if length signingIdentities > 0 then createCfgSigFromIDs env chConfig (map the (filter (\<lambda>i. i \<noteq> None) signingIdentities)) []
     else (case ctx of
       Some c \<Rightarrow> createCfgSigFromIDs env chConfig [c] []
     | None \<Rightarrow> Ok (Inl (errorNew ''must provide signing user''))))"

definition CreateConfigSignatureFromReader :: "('w, 'f, 'kv, 'h, 'p) rmEnv \<Rightarrow> clientCtx \<Rightarrow> reader option \<Rightarrow> ConfigSignature res outcome" where
  "CreateConfigSignatureFromReader env signer channelConfig =
    (case wrap_err ''extracting channel config failed'' (extractChConfigTx env channelConfig) of
       Inl e \<Rightarrow> Ok (Inl e)
     | Inr chConfig \<Rightarrow> obind (createCfgSigFromIDs env chConfig [signer] []) (\<lambda>r. Ok (rbind r (\<lambda>sigs.
         if length sigs \<noteq> 1 then Inl (errorNew ''creating a config signature for 1 identity did not return 1 signature'') else Inr (sigs ! 0)))))"

text \<open>\<open>file\<close> is the result of opening the named file.\<close>

definition rm_CreateConfigSignature :: "('w, 'f, 'kv, 'h, 'p) rmEnv \<Rightarrow> clientCtx \<Rightarrow> string \<Rightarrow> reader res \<Rightarrow> ConfigSignature res outcome" where
  "rm_CreateConfigSignature env signer path file =
    (if path = [] then Ok (Inl (errorNew ''must provide a channel config path''))
     else (case wrap_err ''opening channel config file failed'' file of
       Inl e \<Rightarrow> Ok (Inl e)
     | Inr r \<Rightarrow> CreateConfigSignatureFromReader env signer (Some r)))"

definition CreateConfigSignatureDataFromReader :: "('w, 'f, 'kv, 'h, 'p) rmEnv \<Rightarrow> clientCtx \<Rightarrow> reader option
    \<Rightarrow> (SignatureHeader \<times> bytes \<times> bytes) res" where
  "CreateConfigSignatureDataFromReader env signer channelConfig =
     rbind (wrap_err ''extracting channel config failed'' (extractChConfigTx env channelConfig)) (\<lambda>chConfig.
       GetConfigSignatureData (ne_pc (re_net (rm_res env))) (cx_Serialize signer) (ne_random (re_net (rm_res env))) chConfig)"

definition CreateConfigSignatureData :: "('w, 'f, 'kv, 'h, 'p) rmEnv \<Rightarrow> clientCtx \<Rightarrow> string \<Rightarrow> reader res
    \<Rightarrow> (SignatureHeader \<times> bytes \<times> bytes) res" where
  "CreateConfigSignatureData env signer path file =
    (if path = [] then Inl (errorNew ''must provide a channel config path'')
     else rbind (wrap_err ''opening channel config file failed'' file) (\<lambda>r. CreateConfigSignatureDataFromReader env signer (Some r)))"

section \<open>Saving a channel\<close>

record SaveChannelRequest =
  sr_ChannelID :: string
  sr_ChannelConfig :: "reader option"
  sr_ChannelConfigPath :: string
  sr_SigningIdentities :: "clientCtx option list"

definition signAndSubmitChannelConfigTx :: "('w, 'f::{linorder,times,zero}, 'kv, 'h, 'p) rmEnv \<Rightarrow> string \<Rightarrow> clientCtx option list
    \<Rightarrow> 'f requestOptions \<Rightarrow> bytes \<Rightarrow> string \<Rightarrow> 'w \<Rightarrow> (string res \<times> 'w) outcome" where
  "signAndSubmitChannelConfigTx env channelID ids opts chConfigTx orderer w =
     obind (case ro_Signatures opts of Some s \<Rightarrow> Ok (Inr s)
            | None \<Rightarrow> getConfigSignatures env (ne_ctx (re_net (rm_res env))) ids chConfigTx) (\<lambda>r. case r of
       Inl e \<Rightarrow> Ok (Inl e, w)
     | Inr sigs \<Rightarrow> obind (CreateChannel (rm_res env) \<lparr>ccr_Name = channelID, ccr_Orderer = Some orderer, ccr_Envelope = None,
           ccr_Config = Some chConfigTx, ccr_Signatures = (if sigs = [] \<and> ro_Signatures opts = None then None else Some sigs)\<rparr> (ro_Retry opts) w)
         (\<lambda>((txID, err), w1). Ok (case err of Some e \<Rightarrow> Inl (withMessage e ''create channel failed'') | None \<Rightarrow> Inr txID, w1)))"

text \<open>\<open>file\<close> is the result of opening the file of the request, if it names one.\<close>

definition SaveChannel :: "('w, 'f::{linorder,times,zero}, 'kv, 'h, 'p) rmEnv \<Rightarrow> SaveChannelRequest \<Rightarrow> reader res \<Rightarrow> 'f RequestOption list \<Rightarrow> 'w
    \<Rightarrow> (string res \<times> 'w) outcome" where
  "SaveChannel env req file options w =
    (case rbind (prepareRequestOpts options) (\<lambda>opts.
       rbind (if sr_ChannelConfigPath req \<noteq> [] then rbind (wrap_err ''opening channel config file failed'' file) (\<lambda>r. Inr (Some r))
              else Inr (sr_ChannelConfig req)) (\<lambda>channelConfig.
       rbind (if sr_ChannelID req = [] \<or> channelConfig = None then Inl (errorNew ''must provide channel ID and channel config'') else Inr ()) (\<lambda>_.
       rbind (wrap_err ''extracting channel config from ConfigTx failed'' (extractChConfigTx env channelConfig)) (\<lambda>chConfig.
       rbind (wrap_err ''failed to find orderer for request'' (requestOrderer env opts (sr_ChannelID req))) (\<lambda>orderer.
         Inr (opts, chConfig, orderer)))))) of
       Inl e \<Rightarrow> Ok (Inl e, w)
     | Inr (opts, chConfig, orderer) \<Rightarrow>
         obind (signAndSubmitChannelConfigTx env (sr_ChannelID req) (sr_SigningIdentities req) opts chConfig orderer w)
           (\<lambda>(r, w1). Ok (wrap_err ''create channel failed'' r, w1)))"

record 'p Config =
  cfg_Sequence :: "64 word"
  cfg_ChannelGroup :: "'p ConfigGroup option"

text \<open>The update with the channel's name.\<close>

definition CalculateConfigUpdate :: "string \<Rightarrow> 'p Config option \<Rightarrow> 'p Config option \<Rightarrow> (string \<times> 'p ConfigUpdate) res" where
  "CalculateConfigUpdate channelID currentConfig newConfig = (case (currentConfig, newConfig) of
     (Some cur, Some new) \<Rightarrow>
       if channelID = [] then Inl (errorNew ''must provide channel ID and current and new channel config'')
       else if cfg_Sequence cur \<noteq> cfg_Sequence new then Inl (errorNew ''channel config sequence mismatch'')
       else rbind (wrap_err ''config update computation failed'' (Compute (cfg_ChannelGroup cur) (cfg_ChannelGroup new))) (\<lambda>u. Inr (channelID, u))
   | _ \<Rightarrow> Inl (errorNew ''must provide channel ID and current and new channel config''))"

section \<open>Queries\<close>

definition rm_QueryInstalledChaincodes :: "('w, 'f::{linorder,times,zero}, 'kv, 'h, 'p) rmEnv \<Rightarrow> 'f RequestOption list \<Rightarrow> 'w
    \<Rightarrow> (ChaincodeInfo list res \<times> 'w) outcome" where
  "rm_QueryInstalledChaincodes env options w = (case prepareRequestOpts options of
     Inl e \<Rightarrow> Ok (Inl e, w)
   | Inr opts \<Rightarrow> (case ro_Targets opts of
       [p] \<Rightarrow> QueryInstalledChaincodes (rm_res env) (Some (PeerProcessor p)) (ro_Retry opts) w
     | _ \<Rightarrow> Ok (Inl (errorNew ''only one target is supported''), w)))"

definition rm_QueryChannels :: "('w, 'f::{linorder,times,zero}, 'kv, 'h, 'p) rmEnv \<Rightarrow> 'f RequestOption list \<Rightarrow> 'w
    \<Rightarrow> (string list res \<times> 'w) outcome" where
  "rm_QueryChannels env options w = (case prepareRequestOpts options of
     Inl e \<Rightarrow> Ok (Inl e, w)
   | Inr opts \<Rightarrow> (case ro_Targets opts of
       [p] \<Rightarrow> QueryChannels (rm_res env) (Some (PeerProcessor p)) (ro_Retry opts) w
     | _ \<Rightarrow> Ok (Inl (errorNew ''only one target is supported''), w)))"

definition selectRandomChannelPeer :: "('w, 'f, 'kv, 'h, 'p) rmEnv \<Rightarrow> ('w, 'f, 'kv, 'h) chServices \<Rightarrow> peer res" where
  "selectRandomChannelPeer env sv =
     rbind (wrap_err ''failed to get discovery service'' (sv_Discovery sv)) (\<lambda>discovery.
     rbind (wrap_err ''failed to get default target for query instantiated chaincodes'' (getDefaultTargets env discovery)) (\<lambda>ts.
       let targets = filter (mspFilter (rm_MSPID env)) ts in
       if length targets = 0 then Inl (ErrorF ''no targets in MSP [%s]'' [FS (rm_MSPID env)])
       else Inr (targets ! rand_Intn (rm_draw env) (length targets))))"

text \<open>
  \<open>QueryInstantiatedChaincodes\<close> and \<open>QueryCollectionsConfig\<close> ask one peer: \<open>ask\<close> is the query of the ledger, with a verifier of
  signatures.
\<close>

definition query_one_peer :: "('w, 'f::zero, 'kv, 'h, 'p) rmEnv \<Rightarrow> string \<Rightarrow> 'f RequestOption list
    \<Rightarrow> (ProposalProcessor list \<Rightarrow> ResponseVerifier \<Rightarrow> 'w \<Rightarrow> (('m list \<times> goerr option) \<times> 'w) outcome) \<Rightarrow> 'w \<Rightarrow> ('m res \<times> 'w) outcome" where
  "query_one_peer env channelID options ask w =
    (case rbind (prepareRequestOpts options) (\<lambda>opts.
       rbind (wrap_err ''failed to create channel context'' (rm_NewChannel env channelID)) (\<lambda>chCtx.
       rbind (case ro_Targets opts of t # _ \<Rightarrow> Inr t | [] \<Rightarrow> selectRandomChannelPeer env chCtx) (\<lambda>target.
       rbind (wrap_err ''membership creation failed'' (sv_Membership chCtx)) (\<lambda>_. Inr (chCtx, target))))) of
       Inl e \<Rightarrow> Ok (Inl e, w)
     | Inr (chCtx, target) \<Rightarrow>
         obind (ask [PeerProcessor target] \<lparr>rv_Verify = Verify (sv_env chCtx), rv_Match = (\<lambda>rs. Ok None)\<rparr> w) (\<lambda>((responses, err), w1). case err of
           Some e \<Rightarrow> Ok (Inl e, w1)
         | None \<Rightarrow> (case responses of [] \<Rightarrow> Panic | m # _ \<Rightarrow> Ok (Inr m, w1))))"

definition rm_QueryInstantiatedChaincodes :: "('w, 'f::zero, 'kv, 'h, 'p) rmEnv \<Rightarrow> string \<Rightarrow> 'f RequestOption list \<Rightarrow> 'w
    \<Rightarrow> (ChaincodeInfo list res \<times> 'w) outcome" where
  "rm_QueryInstantiatedChaincodes env channelID options w = query_one_peer env channelID options
     (\<lambda>ts v. QueryInstantiatedChaincodes (re_net (rm_res env)) (rc_ChaincodeQueryResponse (re_codec (rm_res env))) channelID ts (Some v)) w"

definition rm_QueryCollectionsConfig :: "('w, 'f::zero, 'kv, 'h, 'p) rmEnv \<Rightarrow> (bytes \<Rightarrow> 'm res) \<Rightarrow> string \<Rightarrow> string \<Rightarrow> 'f RequestOption list \<Rightarrow> 'w
    \<Rightarrow> ('m res \<times> 'w) outcome" where
  "rm_QueryCollectionsConfig env um channelID chaincodeName options w = query_one_peer env channelID options
     (\<lambda>ts v. QueryCollectionsConfig (re_net (rm_res env)) um channelID chaincodeName ts (Some v)) w"

definition getChannelConfig :: "('w, 'f::zero, 'kv, 'h, 'p) rmEnv \<Rightarrow> string \<Rightarrow> 'f requestOptions \<Rightarrow> 'f ChannelConfig res" where
  "getChannelConfig env channelID opts =
     rbind (wrap_err ''failed to find orderer for request'' (requestOrderer env opts channelID)) (\<lambda>orderer.
       chconfig_New channelID [cfg_WithOrderer (Some orderer)])"

definition QueryConfigBlockFromOrderer :: "('w, 'f::{linorder,times,zero}, 'kv, 'h, 'p) rmEnv \<Rightarrow> ('w, 'f, 'p) cfgEnv \<Rightarrow> string
    \<Rightarrow> 'f RequestOption list \<Rightarrow> 'w \<Rightarrow> (block res \<times> 'w) outcome" where
  "QueryConfigBlockFromOrderer env cenv channelID options w =
    (case rbind (prepareRequestOpts options) (\<lambda>opts. wrap_err ''QueryConfig failed'' (getChannelConfig env channelID opts)) of
       Inl e \<Rightarrow> Ok (Inl e, w)
     | Inr c \<Rightarrow> chconfig_QueryBlock cenv c w)"

definition QueryConfigFromOrderer :: "('w, 'f::{linorder,times,zero}, 'kv, 'h, 'p) rmEnv \<Rightarrow> ('w, 'f, 'p) cfgEnv \<Rightarrow> string
    \<Rightarrow> 'f RequestOption list \<Rightarrow> 'w \<Rightarrow> ('p ChannelCfg res \<times> 'w) outcome" where
  "QueryConfigFromOrderer env cenv channelID options w =
    (case rbind (prepareRequestOpts options) (\<lambda>opts. wrap_err ''QueryConfig failed'' (getChannelConfig env channelID opts)) of
       Inl e \<Rightarrow> Ok (Inl e, w)
     | Inr c \<Rightarrow> chconfig_Query cenv c w)"

end
