(* ===== verification/Lifecycle_Client.thy ===== *)
theory Lifecycle_Client
  imports Lifecycle Resmgmt_Channels
begin

text \<open>
  The client of the chaincode lifecycle (pkg/client/resmgmt: lifecycleclient.go, lifecycleprocessor.go) and the identifier of a package
  (pkg/fab/ccpackager/lifecycle/packager.go).

  The functions that the processor is made with are those of the resource management client. The messages that an error prints are
  left out of its text.
\<close>

section \<open>The processor: checks\<close>

record LifecycleInstallCCRequest =
  lir_Label :: string
  lir_Package :: bytes

record LifecycleInstallCCResponse =
  lis_Target :: string
  lis_Status :: "32 word"
  lis_PackageID :: string

record LifecycleChaincodeDefinition = CommitChaincodeRequest +
  cd_Approvals :: "(string \<times> bool) list"

definition verifyInstallParams :: "LifecycleInstallCCRequest \<Rightarrow> goerr option" where
  "verifyInstallParams req = (if lir_Label req = [] then Some (errorNew ''label is required'')
     else if length (lir_Package req) = 0 then Some (errorNew ''package is required'') else None)"

text \<open>\<open>verifyApproveParams\<close>, \<open>verifyCheckCommitReadinessParams\<close> and \<open>verifyCommitParams\<close>\<close>

definition verifyDefinitionParams :: "string \<Rightarrow> 'x CommitChaincodeRequest_scheme \<Rightarrow> goerr option" where
  "verifyDefinitionParams channelID req = (if channelID = [] then Some (errorNew ''channel ID is required'')
     else if dr_Name req = [] then Some (errorNew ''name is required'')
     else if dr_Version req = [] then Some (errorNew ''version is required'') else None)"

definition verifyQueryApprovedParams :: "string \<Rightarrow> string \<Rightarrow> goerr option" where
  "verifyQueryApprovedParams channelID name = (if channelID = [] then Some (errorNew ''channel ID is required'')
     else if name = [] then Some (errorNew ''name is required'') else None)"

section \<open>The processor: installing\<close>

definition ComputePackageID :: "lifecodec \<Rightarrow> string \<Rightarrow> bytes \<Rightarrow> string" where
  "ComputePackageID lf label pkgBytes = label @ '':'' @ EncodeToString (lf_SM3 lf pkgBytes)"

definition processor_install :: "('w, 'f::{linorder,times,zero}, 'p) resEnv \<Rightarrow> lifecodec \<Rightarrow> bytes \<Rightarrow> peer list \<Rightarrow> 'w
    \<Rightarrow> (LifecycleInstallCCResponse list res \<times> 'w) outcome" where
  "processor_install env lf installPkg targets w =
     obind (lifecycle_Install env lf installPkg (map PeerProcessor targets) zeroOpts w) (\<lambda>(r, w1). Ok (rbind r (\<lambda>tpResponses.
       Inr (map (\<lambda>(v, packageID). \<lparr>lis_Target = tpr_Endorser v, lis_Status = tpr_Status v, lis_PackageID = packageID\<rparr>) tpResponses)), w1))"

definition processor_toInstalledChaincodes :: "LifecycleInstalledCC list \<Rightarrow> LifecycleInstalledCC list" where
  "processor_toInstalledChaincodes ccs = map (\<lambda>ic. \<lparr>li_PackageID = li_PackageID ic, li_Label = li_Label ic,
     li_References = map (\<lambda>(channelID, refs). (channelID, map (\<lambda>cc. \<lparr>cr_Name = cr_Name cc, cr_Version = cr_Version cc\<rparr>) refs)) (li_References ic)\<rparr>) ccs"

definition processor_queryInstalled :: "('w, 'f::{linorder,times,zero}, 'p) resEnv \<Rightarrow> lifecodec \<Rightarrow> peer \<Rightarrow> 'w
    \<Rightarrow> (LifecycleInstalledCC list res \<times> 'w) outcome" where
  "processor_queryInstalled env lf target w =
     obind (lifecycle_QueryInstalled env lf (PeerProcessor target) zeroOpts w) (\<lambda>(r, w1).
       Ok (rbind (wrap_err ''querying for installed chaincodes failed'' r) (\<lambda>(tpr, ccs). Inr (processor_toInstalledChaincodes ccs)), w1))"

definition processor_queryApproved :: "('w, 'f::{linorder,times,zero}, 'p) resEnv \<Rightarrow> lifecodec \<Rightarrow> string \<Rightarrow> string \<Rightarrow> 64 word \<Rightarrow> peer \<Rightarrow> 'w
    \<Rightarrow> (ApproveChaincodeRequest res \<times> 'w) outcome" where
  "processor_queryApproved env lf channelID name sequence target w = (case verifyQueryApprovedParams channelID name of
     Some e \<Rightarrow> Ok (Inl e, w)
   | None \<Rightarrow> obind (QueryApproved env lf channelID name sequence (PeerProcessor target) zeroOpts w) (\<lambda>(r, w1).
       Ok (rbind (wrap_err ''querying for installed chaincode failed'' r) (\<lambda>(tpr, d). Inr d), w1)))"

definition isInstalled :: "('w, 'f::{linorder,times,zero}, 'p) resEnv \<Rightarrow> lifecodec \<Rightarrow> LifecycleInstallCCRequest \<Rightarrow> ProposalProcessor \<Rightarrow> 'f Retry.Opts
    \<Rightarrow> 'w \<Rightarrow> (bool res \<times> 'w) outcome" where
  "isInstalled env lf req p retry w =
    (let packageID = ComputePackageID lf (lir_Label req) (lir_Package req) in
     obind (GetInstalledPackage env lf packageID p retry w) (\<lambda>(r, w1). Ok (case r of
       Inl err \<Rightarrow> if sublist (''chaincode install package '' @ [CHR 0x27] @ packageID @ [CHR 0x27] @ '' not found'') (errorText (ne_wire (re_net env)) err)
         then Inr False else Inl err
     | Inr _ \<Rightarrow> Inr True, w1)))"

primrec adjustTargetsForInstall :: "('w, 'f::{linorder,times,zero}, 'p) resEnv \<Rightarrow> lifecodec \<Rightarrow> peer list \<Rightarrow> LifecycleInstallCCRequest
    \<Rightarrow> 'f Retry.Opts \<Rightarrow> peer list \<Rightarrow> goerr list \<Rightarrow> 'w \<Rightarrow> ((peer list \<times> goerr list) \<times> 'w) outcome" where
  "adjustTargetsForInstall env lf [] req retry newTargets errs w = Ok ((newTargets, errs), w)"
| "adjustTargetsForInstall env lf (target # ts) req retry newTargets errs w =
     obind (isInstalled env lf req (PeerProcessor target) retry w) (\<lambda>(r, w1). case r of
       Inl err \<Rightarrow> adjustTargetsForInstall env lf ts req retry newTargets
         (errs @ [ErrorF ''unable to verify if cc is installed on %s. Got error: %s'' [FS (peer_URL target), FS (errorText (ne_wire (re_net env)) err)]]) w1
     | Inr installed \<Rightarrow> adjustTargetsForInstall env lf ts req retry (if installed then newTargets else newTargets @ [target]) errs w1)"

section \<open>The processor: definitions\<close>

definition prepare :: "('w, 'f, 'kv, 'h, 'p) rmEnv \<Rightarrow> clientCtx \<Rightarrow> string \<Rightarrow> 'f requestOptions
    \<Rightarrow> (peer list \<times> ('w, 'f, 'kv, 'h) chServices \<times> TransactionHeader) res" where
  "prepare env ctx channelID opts =
     rbind (getCCProposalTargets env channelID opts) (\<lambda>targets.
     rbind (wrap_err ''Unable to get channel service'' (rm_ChannelService env channelID)) (\<lambda>sv.
     rbind (wrap_err ''get channel transactor failed'' (sv_Transactor sv)) (\<lambda>_.
     rbind (wrap_err ''create transaction ID failed'' (NewHeader ctx (ne_random (re_net (rm_res env))) channelID [])) (\<lambda>txh.
       Inr (targets, sv, txh)))))"

text \<open>
  \<open>approve\<close> and \<open>commit\<close> after their proposal \<open>create\<close>: the targets endorse it, the responses are verified, and the transaction is sent and
  awaited. \<open>what\<close> is the word that their errors differ in.
\<close>

definition endorse_and_commit :: "('w, 'f, 'kv, 'h, 'p) rmEnv \<Rightarrow> clientCtx \<Rightarrow> string \<Rightarrow> string \<Rightarrow> 'f requestOptions
    \<Rightarrow> (TransactionHeader \<Rightarrow> TransactionProposal res outcome) \<Rightarrow> 'w \<Rightarrow> ((string \<times> goerr option) \<times> 'w) outcome" where
  "endorse_and_commit env ctx what channelID opts create w =
    (case rbind (prepare env ctx channelID opts) (\<lambda>(targets, sv, txh).
        rbind (wrap_err ''unable to get event service'' (sv_EventService sv)) (\<lambda>_. Inr (targets, sv, txh))) of
       Inl e \<Rightarrow> Ok (([], Some e), w)
     | Inr (targets, sv, txh) \<Rightarrow> obind (create txh) (\<lambda>r. case wrap_err (''creation of '' @ what @ '' chaincode proposal failed'') r of
         Inl e \<Rightarrow> Ok (([], Some e), w)
       | Inr tp \<Rightarrow> (case cl_SendTransactionProposal (ie_cl (sv_env sv)) (Some tp) (PeersToTxnProcessors targets) w of
           ((responses, err), w1) \<Rightarrow> (case err of
             Some e \<Rightarrow> Ok ((tp_TxnID tp, Some (withMessage e (''sending '' @ what @ '' transaction proposal failed''))), w1)
           | None \<Rightarrow> obind (verifyTPSignature sv responses) (\<lambda>verr. case verr of
               Some e \<Rightarrow> Ok ((tp_TxnID tp, Some (withMessage e (''sending '' @ what @ '' transaction proposal failed to verify signature''))), w1)
             | None \<Rightarrow> sendTransactionAndCheckEvent (sv_env sv) tp responses w1)))))"

definition processor_approve :: "('w, 'f, 'kv, 'h, 'p) rmEnv \<Rightarrow> lifecodec \<Rightarrow> clientCtx \<Rightarrow> string \<Rightarrow> ApproveChaincodeRequest \<Rightarrow> 'f requestOptions \<Rightarrow> 'w
    \<Rightarrow> ((string \<times> goerr option) \<times> 'w) outcome" where
  "processor_approve env lf ctx channelID req opts w = (case verifyDefinitionParams channelID req of
     Some e \<Rightarrow> Ok (([], Some e), w)
   | None \<Rightarrow> endorse_and_commit env ctx ''approve'' channelID opts (\<lambda>txh. CreateApproveProposal (re_net (rm_res env)) lf txh req) w)"

definition processor_commit :: "('w, 'f, 'kv, 'h, 'p) rmEnv \<Rightarrow> lifecodec \<Rightarrow> clientCtx \<Rightarrow> string \<Rightarrow> CommitChaincodeRequest \<Rightarrow> 'f requestOptions \<Rightarrow> 'w
    \<Rightarrow> ((string \<times> goerr option) \<times> 'w) outcome" where
  "processor_commit env lf ctx channelID req opts w = (case verifyDefinitionParams channelID req of
     Some e \<Rightarrow> Ok (([], Some e), w)
   | None \<Rightarrow> endorse_and_commit env ctx ''commit'' channelID opts (\<lambda>txh. CreateCommitProposal (re_net (rm_res env)) lf txh req) w)"

definition get_response :: "TransactionProposalResponse \<Rightarrow> Response outcome" where
  "get_response tpr = (case Option.bind (tpr_ProposalResponse tpr) pr_Response of None \<Rightarrow> Panic | Some r \<Rightarrow> Ok r)"

primrec responses_match :: "(bytes \<Rightarrow> 'm res) \<Rightarrow> TransactionProposalResponse list \<Rightarrow> ('m \<times> 32 word) option \<Rightarrow> goerr option outcome" where
  "responses_match um [] last' = Ok None"
| "responses_match um (r # rs) last' = obind (get_response r) (\<lambda>resp. case um (r_Payload resp) of
     Inl err \<Rightarrow> Ok (Some err)
   | Inr m \<Rightarrow> (case last' of
       None \<Rightarrow> responses_match um rs (Some (m, r_Status resp))
     | Some (lastResponse, lastStatus) \<Rightarrow>
         if lastStatus \<noteq> r_Status resp
         then Ok (Some (ErrorF ''status in responses from endorsers do not match: [%d] and [%d]'' [FI (sint lastStatus), FI (sint (r_Status resp))]))
         else if lastResponse \<noteq> m then Ok (Some (ErrorF ''responses from endorsers do not match: [%+v] and [%+v]'' [FS [], FS []]))
         else responses_match um rs (Some (m, r_Status resp))))"

definition verifyResponsesMatch :: "TransactionProposalResponse list \<Rightarrow> (bytes \<Rightarrow> 'm res) \<Rightarrow> goerr option outcome" where
  "verifyResponsesMatch responses um = responses_match um responses None"

text \<open>The queries of the definitions: every target must have given the same answer \<open>um\<close>, of which the first is decoded by \<open>result\<close>.\<close>

definition query_definitions :: "('w, 'f, 'kv, 'h, 'p) rmEnv \<Rightarrow> clientCtx \<Rightarrow> string \<Rightarrow> 'f requestOptions
    \<Rightarrow> (TransactionHeader \<Rightarrow> TransactionProposal res outcome) \<Rightarrow> string \<Rightarrow> string \<Rightarrow> string \<Rightarrow> (bytes \<Rightarrow> 'm res) \<Rightarrow> (bytes \<Rightarrow> 'r res) \<Rightarrow> 'w
    \<Rightarrow> ('r res \<times> 'w) outcome" where
  "query_definitions env ctx channelID opts create failed failed_send failed_verify um result w = (case prepare env ctx channelID opts of
     Inl e \<Rightarrow> Ok (Inl e, w)
   | Inr (targets, sv, txh) \<Rightarrow> obind (create txh) (\<lambda>r. case wrap_err failed r of
       Inl e \<Rightarrow> Ok (Inl e, w)
     | Inr tp \<Rightarrow> (case cl_SendTransactionProposal (ie_cl (sv_env sv)) (Some tp) (PeersToTxnProcessors targets) w of
         ((responses, err), w1) \<Rightarrow> (case err of
           Some e \<Rightarrow> Ok (Inl (withMessage e failed_send), w1)
         | None \<Rightarrow> (case responses of
             [] \<Rightarrow> Ok (Inl (errorNew ''no responses''), w1)
           | first # _ \<Rightarrow> obind (verifyTPSignature sv responses) (\<lambda>verr. case verr of
               Some e \<Rightarrow> Ok (Inl (withMessage e failed_verify), w1)
             | None \<Rightarrow> obind (verifyResponsesMatch responses um) (\<lambda>merr. case merr of
                 Some e \<Rightarrow> Ok (Inl e, w1)
               | None \<Rightarrow> obind (get_response first) (\<lambda>resp. Ok (result (r_Payload resp), w1)))))))))"

definition checkCommitReadiness :: "('w, 'f, 'kv, 'h, 'p) rmEnv \<Rightarrow> lifecodec \<Rightarrow> clientCtx \<Rightarrow> string \<Rightarrow> CommitChaincodeRequest \<Rightarrow> 'f requestOptions \<Rightarrow> 'w
    \<Rightarrow> ((string \<times> bool) list res \<times> 'w) outcome" where
  "checkCommitReadiness env lf ctx channelID req opts w = (case verifyDefinitionParams channelID req of
     Some e \<Rightarrow> Ok (Inl e, w)
   | None \<Rightarrow> query_definitions env ctx channelID opts (\<lambda>txh. CreateCheckCommitReadinessProposal (re_net (rm_res env)) lf txh req)
       ''creation of check chaincode commit readiness proposal failed'' ''sending approve transaction proposal failed''
       ''sending approve transaction proposal failed to verify signature'' (lf_d_Readiness lf)
       (\<lambda>b. wrap_err ''failed to unmarshal proposal response's response payload'' (lf_d_Readiness lf b)) w)"

definition to_definition :: "lifecodec \<Rightarrow> string \<Rightarrow> (string \<times> bool) list \<Rightarrow> definitionResult \<Rightarrow> LifecycleChaincodeDefinition res" where
  "to_definition lf name approvals result =
     rbind (UnmarshalApplicationPolicy lf (df_ValidationParameter result)) (\<lambda>(signaturePolicy, channelConfigPolicy).
       Inr \<lparr>dr_Name = name, dr_Version = df_Version result, dr_Sequence = df_Sequence result, dr_EndorsementPlugin = df_EndorsementPlugin result,
         dr_ValidationPlugin = df_ValidationPlugin result, dr_SignaturePolicy = signaturePolicy, dr_ChannelConfigPolicy = channelConfigPolicy,
         dr_CollectionConfig = (case df_Collections result of Some c \<Rightarrow> c | None \<Rightarrow> []), dr_InitRequired = df_InitRequired result,
         cd_Approvals = approvals\<rparr>)"

definition unmarshalChaincodeDefinition :: "lifecodec \<Rightarrow> string \<Rightarrow> bytes \<Rightarrow> LifecycleChaincodeDefinition res" where
  "unmarshalChaincodeDefinition lf name payload =
     rbind (wrap_err ''failed to unmarshal proposal response's response payload'' (lf_d_Definition lf payload)) (\<lambda>result.
       to_definition lf name (df_Approvals result) result)"

primrec to_definitions :: "lifecodec \<Rightarrow> definitionResult list \<Rightarrow> LifecycleChaincodeDefinition list res" where
  "to_definitions lf [] = Inr []"
| "to_definitions lf (def # defs) = rbind (to_definition lf (df_Name def) [] def) (\<lambda>d. rbind (to_definitions lf defs) (\<lambda>ds. Inr (d # ds)))"

definition unmarshalChaincodeDefinitions :: "lifecodec \<Rightarrow> bytes \<Rightarrow> LifecycleChaincodeDefinition list res" where
  "unmarshalChaincodeDefinitions lf payload =
     rbind (wrap_err ''failed to unmarshal proposal response's response payload'' (lf_d_Definitions lf payload)) (to_definitions lf)"

text \<open>A definition, or the definitions sorted by their names, later names first.\<close>

definition unmarshalInOrderCCDefResults :: "lifecodec \<Rightarrow> string \<Rightarrow> bytes \<Rightarrow> (definitionResult + definitionResult list) res" where
  "unmarshalInOrderCCDefResults lf name payload =
    (if name \<noteq> []
     then rbind (wrap_err (''failed to unmarshal payload with name '' @ name @ '' into QueryChaincodeDefinitionResult'') (lf_d_Definition lf payload))
       (\<lambda>result. Inr (Inl result))
     else rbind (wrap_err ''failed to unmarshal payload into QueryChaincodeDefinitionsResult'' (lf_d_Definitions lf payload))
       (\<lambda>defs. Inr (Inr (sort_by (\<lambda>i j. string_less (df_Name j) (df_Name i)) defs))))"

definition queryCommitted :: "('w, 'f, 'kv, 'h, 'p) rmEnv \<Rightarrow> lifecodec \<Rightarrow> clientCtx \<Rightarrow> string \<Rightarrow> string \<Rightarrow> 'f requestOptions \<Rightarrow> 'w
    \<Rightarrow> (LifecycleChaincodeDefinition list res \<times> 'w) outcome" where
  "queryCommitted env lf ctx channelID name opts w =
    (if channelID = [] then Ok (Inl (errorNew ''channel ID is required''), w)
     else query_definitions env ctx channelID opts (\<lambda>txh. CreateQueryCommittedProposal (re_net (rm_res env)) lf txh name)
       ''creation of query chaincode definitions proposal failed'' ''sending commit transaction proposal failed''
       ''sending query committed transaction proposal failed to verify signature'' (unmarshalInOrderCCDefResults lf name)
       (\<lambda>payload. if name \<noteq> [] then rbind (unmarshalChaincodeDefinition lf name payload) (\<lambda>d. Inr [d])
          else unmarshalChaincodeDefinitions lf payload) w)"

section \<open>The client\<close>

definition LifecycleInstallCC :: "('w, 'f::{linorder,times,zero}, 'kv, 'h, 'p) rmEnv \<Rightarrow> lifecodec \<Rightarrow> LifecycleInstallCCRequest
    \<Rightarrow> 'f RequestOption list \<Rightarrow> 'w \<Rightarrow> ((LifecycleInstallCCResponse list \<times> goerr option) \<times> 'w) outcome" where
  "LifecycleInstallCC env lf req options w = (case verifyInstallParams req of
     Some e \<Rightarrow> Ok (([], Some e), w)
   | None \<Rightarrow> (case rbind (wrap_err ''failed to get opts for LifecycleInstallCC'' (prepareRequestOpts options)) (\<lambda>opts.
         rbind (wrap_err ''failed to get default targets for InstallCC'' (resolveDefaultTargets env opts)) (\<lambda>defaultTargets.
         rbind (wrap_err ''failed to determine target peers for install cc'' (calculateTargets env defaultTargets (ro_TargetFilter opts))) (\<lambda>targets.
           if length targets = 0 then Inl no_targets else Inr (opts, targets)))) of
       Inl e \<Rightarrow> Ok (([], Some e), w)
     | Inr (opts, targets) \<Rightarrow>
         obind (adjustTargetsForInstall (rm_res env) lf targets req (ro_Retry opts) [] [] w) (\<lambda>((newTargets, errs), w1).
         if length newTargets = 0 then Ok (([], ToError errs), w1)
         else obind (processor_install (rm_res env) lf (lir_Package req) newTargets w1) (\<lambda>(r, w2). case r of
              Inl e \<Rightarrow> Ok (([], ToError (errs @ [e])), w2)
            | Inr responses \<Rightarrow> Ok ((responses, ToError errs), w2)))))"

text \<open>The queries of an installed chaincode accept exactly one target; they do not use the retry options.\<close>

definition one_target :: "'f::zero RequestOption list \<Rightarrow> string \<Rightarrow> (peer \<Rightarrow> 'w \<Rightarrow> ('r res \<times> 'w) outcome) \<Rightarrow> 'w \<Rightarrow> ('r res \<times> 'w) outcome" where
  "one_target options failed ask w = (case wrap_err failed (prepareRequestOpts options) of
     Inl e \<Rightarrow> Ok (Inl e, w)
   | Inr opts \<Rightarrow> (case ro_Targets opts of [p] \<Rightarrow> ask p w | _ \<Rightarrow> Ok (Inl (errorNew ''only one target is supported''), w)))"

definition LifecycleQueryInstalledCC :: "('w, 'f::{linorder,times,zero}, 'kv, 'h, 'p) rmEnv \<Rightarrow> lifecodec \<Rightarrow> 'f RequestOption list \<Rightarrow> 'w
    \<Rightarrow> (LifecycleInstalledCC list res \<times> 'w) outcome" where
  "LifecycleQueryInstalledCC env lf options w =
     one_target options ''failed to get opts for QueryInstalledCC'' (processor_queryInstalled (rm_res env) lf) w"

definition LifecycleGetInstalledCCPackage :: "('w, 'f::{linorder,times,zero}, 'kv, 'h, 'p) rmEnv \<Rightarrow> lifecodec \<Rightarrow> string \<Rightarrow> 'f RequestOption list \<Rightarrow> 'w
    \<Rightarrow> (bytes res \<times> 'w) outcome" where
  "LifecycleGetInstalledCCPackage env lf packageID options w = one_target options ''failed to get opts for GetInstalledCCPackage'' (\<lambda>p w.
     GetInstalledPackage (rm_res env) lf packageID (PeerProcessor p) zeroOpts w) w"

definition LifecycleQueryApprovedCC :: "('w, 'f::{linorder,times,zero}, 'kv, 'h, 'p) rmEnv \<Rightarrow> lifecodec \<Rightarrow> string \<Rightarrow> string \<Rightarrow> 64 word
    \<Rightarrow> 'f RequestOption list \<Rightarrow> 'w \<Rightarrow> (ApproveChaincodeRequest res \<times> 'w) outcome" where
  "LifecycleQueryApprovedCC env lf channelID name sequence options w =
     one_target options ''failed to get opts for QueryApprovedCCDefinition'' (processor_queryApproved (rm_res env) lf channelID name sequence) w"

definition LifecycleApproveCC :: "('w, 'f::zero, 'kv, 'h, 'p) rmEnv \<Rightarrow> lifecodec \<Rightarrow> clientCtx \<Rightarrow> string \<Rightarrow> ApproveChaincodeRequest
    \<Rightarrow> 'f RequestOption list \<Rightarrow> 'w \<Rightarrow> ((string \<times> goerr option) \<times> 'w) outcome" where
  "LifecycleApproveCC env lf ctx channelID req options w = (case wrap_err ''failed to get opts for ApproveCC'' (prepareRequestOpts options) of
     Inl e \<Rightarrow> Ok (([], Some e), w)
   | Inr opts \<Rightarrow> processor_approve env lf ctx channelID req opts w)"

definition LifecycleCommitCC :: "('w, 'f::zero, 'kv, 'h, 'p) rmEnv \<Rightarrow> lifecodec \<Rightarrow> clientCtx \<Rightarrow> string \<Rightarrow> CommitChaincodeRequest
    \<Rightarrow> 'f RequestOption list \<Rightarrow> 'w \<Rightarrow> ((string \<times> goerr option) \<times> 'w) outcome" where
  "LifecycleCommitCC env lf ctx channelID req options w = (case wrap_err ''failed to get opts for CommitCC'' (prepareRequestOpts options) of
     Inl e \<Rightarrow> Ok (([], Some e), w)
   | Inr opts \<Rightarrow> processor_commit env lf ctx channelID req opts w)"

definition LifecycleCheckCCCommitReadiness :: "('w, 'f::zero, 'kv, 'h, 'p) rmEnv \<Rightarrow> lifecodec \<Rightarrow> clientCtx \<Rightarrow> string \<Rightarrow> CommitChaincodeRequest
    \<Rightarrow> 'f RequestOption list \<Rightarrow> 'w \<Rightarrow> ((string \<times> bool) list res \<times> 'w) outcome" where
  "LifecycleCheckCCCommitReadiness env lf ctx channelID req options w =
    (case wrap_err ''failed to get opts for CheckCCCommitReadiness'' (prepareRequestOpts options) of
       Inl e \<Rightarrow> Ok (Inl e, w)
     | Inr opts \<Rightarrow> checkCommitReadiness env lf ctx channelID req opts w)"

definition LifecycleQueryCommittedCC :: "('w, 'f::zero, 'kv, 'h, 'p) rmEnv \<Rightarrow> lifecodec \<Rightarrow> clientCtx \<Rightarrow> string \<Rightarrow> string
    \<Rightarrow> 'f RequestOption list \<Rightarrow> 'w \<Rightarrow> (LifecycleChaincodeDefinition list res \<times> 'w) outcome" where
  "LifecycleQueryCommittedCC env lf ctx channelID name options w =
    (case wrap_err ''failed to get opts for QueryCommittedCC'' (prepareRequestOpts options) of
       Inl e \<Rightarrow> Ok (Inl e, w)
     | Inr opts \<Rightarrow> queryCommitted env lf ctx channelID name opts w)"

end
