(* ===== verification/Ledger_Theorems.thy ===== *)
theory Ledger_Theorems
  imports Invoke_Theorems Ledger_Client "HOL-Library.Sublist"
begin

text \<open>
  What the ledger client guarantees: which peers are asked, that a block returned is one that enough of them agree on, and that a
  query does not panic.
\<close>

section \<open>When a step succeeds\<close>

named_theorems Ok_cases "the ways in which a step is Ok"

lemma case_sum_Ok [Ok_cases]:
  "(case x of Inl e \<Rightarrow> f e | Inr v \<Rightarrow> g v) = Ok r \<longleftrightarrow> (\<exists>e. x = Inl e \<and> f e = Ok r) \<or> (\<exists>v. x = Inr v \<and> g v = Ok r)"
  by (cases x) simp_all

lemma case_option_Ok [Ok_cases]:
  "(case x of None \<Rightarrow> f | Some v \<Rightarrow> g v) = Ok r \<longleftrightarrow> x = None \<and> f = Ok r \<or> (\<exists>v. x = Some v \<and> g v = Ok r)"
  by (cases x) simp_all

lemma case_list_Ok [Ok_cases]:
  "(case x of [] \<Rightarrow> f | v # vs \<Rightarrow> g v vs) = Ok r \<longleftrightarrow> x = [] \<and> f = Ok r \<or> (\<exists>v vs. x = v # vs \<and> g v vs = Ok r)"
  by (cases x) simp_all

lemma case_prod_Ok [Ok_cases]: "(case x of (a, b) \<Rightarrow> f a b) = Ok r \<longleftrightarrow> (\<exists>a b. x = (a, b) \<and> f a b = Ok r)"
  by (cases x) simp

lemma if_Ok [Ok_cases]: "(if b then x else y) = Ok r \<longleftrightarrow> b \<and> x = Ok r \<or> \<not> b \<and> y = Ok r"
  by simp

lemmas Ok_simps = obind_eq_Ok rbind_eq_Inr Ok_cases

section \<open>Answers of targets\<close>

text \<open>The verifier of a query accepts a response.\<close>

definition accepted_by :: "ResponseVerifier option \<Rightarrow> TransactionProposalResponse \<Rightarrow> bool" where
  "accepted_by verifier r \<longleftrightarrow> tpr_Status r = StatusOK \<and> (case verifier of None \<Rightarrow> True | Some v \<Rightarrow> rv_Verify v r = Ok None)"

text \<open>A target has answered, in some state of the world, with an accepted response that is decoded as \<open>m\<close>.\<close>

definition answered :: "'w netEnv \<Rightarrow> ResponseVerifier option \<Rightarrow> (TransactionProposalResponse \<Rightarrow> 'm res outcome) \<Rightarrow> ProposalProcessor
    \<Rightarrow> 'm \<Rightarrow> bool" where
  "answered env v create p m \<longleftrightarrow> (\<exists>sp w1 r w2. ne_process env p sp w1 = (Inr r, w2) \<and> accepted_by v r \<and> create r = Ok (Inr m))"

lemma list_all2_subseq:
  assumes "subseq ys zs" "list_all2 P xs zs"
  shows "\<exists>us. subseq us xs \<and> list_all2 P us ys"
  using assms
proof (induction arbitrary: xs)
  case (list_emb_Nil zs)
  then show ?case by (intro exI [of _ "[]"]) simp
next
  case (list_emb_Cons ys zs z)
  then show ?case by (auto simp: list_all2_Cons2)
next
  case (list_emb_Cons2 y z ys zs)
  then obtain x xs' where x: "xs = x # xs'" "P x z" "list_all2 P xs' zs" by (auto simp: list_all2_Cons2)
  then obtain us where "subseq us xs'" "list_all2 P us ys" using list_emb_Cons2.IH by blast
  then show ?case using list_emb_Cons2.hyps(1) x(1,2) by (intro exI [of _ "x # us"]) simp
qed

lemma subset_of_subseq: "subseq xs ys \<Longrightarrow> set xs \<subseteq> set ys"
  by (metis set_nths_subset subseq_conv_nths)

lemma multi_Append_Some [simp]: "multi_Append errs (Some e) \<noteq> None"
  by (cases errs) (auto simp: multi_Append_def multi_New_def split: goerr.splits)

lemma filter_loop_Ok:
  "filter_loop wr v rs acc errs = Ok (out, errs') \<Longrightarrow>
     \<exists>ks. out = acc @ ks \<and> subseq ks rs \<and> (\<forall>r \<in> set ks. accepted_by v r) \<and> (errs' = None \<longrightarrow> errs = None \<and> ks = rs)"
proof (induction rs arbitrary: acc errs)
  case (Cons r rs)
  show ?case
  proof (cases "accepted_by v r")
    case True
    then have "filter_loop wr v rs (acc @ [r]) errs = Ok (out, errs')" using Cons.prems by (auto simp: accepted_by_def split: option.splits)
    from Cons.IH [OF this] True show ?thesis by (metis append.assoc append_Cons append_Nil set_ConsD subseq_Cons2)
  next
    case False
    then obtain e where "filter_loop wr v rs acc (multi_Append errs (Some e)) = Ok (out, errs')"
      using Cons.prems by (auto simp: accepted_by_def obind_eq_Ok split: option.splits if_splits)
    from Cons.IH [OF this] show ?thesis using list_emb_Cons by fastforce
  qed
qed simp

lemma decode_all_Ok:
  "decode_all create rs acc errs = Ok (out, errs') \<Longrightarrow>
     \<exists>ks ms. out = acc @ ms \<and> subseq ks rs \<and> list_all2 (\<lambda>r m. create r = Ok (Inr m)) ks ms"
proof (induction rs arbitrary: acc errs)
  case (Cons r rs)
  then obtain x where x: "create r = Ok x" by (auto simp: obind_eq_Ok)
  show ?case
  proof (cases x)
    case (Inl e)
    then obtain ks ms where "out = acc @ ms" "subseq ks rs" "list_all2 (\<lambda>r m. create r = Ok (Inr m)) ks ms"
      using Cons.IH Cons.prems x by fastforce
    then show ?thesis using list_emb_Cons by fastforce
  next
    case (Inr m)
    then obtain ks ms where "out = (acc @ [m]) @ ms" "subseq ks rs" "list_all2 (\<lambda>r m. create r = Ok (Inr m)) ks ms"
      using Cons.IH Cons.prems x by fastforce
    then show ?thesis using Inr x by (intro exI [of _ "r # ks"] exI [of _ "m # ms"]) simp
  qed
qed simp

lemma collect_answers:
  "collect f ps resps errs w = ((resps', errs'), w') \<Longrightarrow>
     \<exists>qs rs. resps' = resps @ rs \<and> subseq qs ps \<and> list_all2 (\<lambda>p r. \<exists>w1 w2. f p w1 = (Inr r, w2)) qs rs"
proof (induction ps arbitrary: resps errs w)
  case (Cons p ps)
  obtain x w1 where f: "f p w = (x, w1)" by fastforce
  show ?case
  proof (cases x)
    case (Inl e)
    then show ?thesis using Cons f list_emb_Cons by fastforce
  next
    case (Inr r)
    then obtain qs rs where "resps' = (resps @ [r]) @ rs" "subseq qs ps" "list_all2 (\<lambda>p r. \<exists>w1 w2. f p w1 = (Inr r, w2)) qs rs"
      using Cons f by fastforce
    then show ?thesis using f Inr by (intro exI [of _ "p # qs"] exI [of _ "r # rs"]) auto
  qed
qed simp

lemma SendProposal_answers:
  assumes "SendProposal pc ctx process arrival (Some pp) (map Some (map PeerProcessor ts)) w = ((resps, errs), w')"
    and "\<And>xs. mset (arrival xs) = mset xs"
  shows "\<exists>qs. distinct (map peer_URL qs) \<and> set qs \<subseteq> set ts
    \<and> list_all2 (\<lambda>p r. \<exists>sp w1 w2. process (PeerProcessor p) sp w1 = (Inr r, w2)) qs resps"
proof (cases "resps = []")
  case False
  obtain us where us: "getTargetsWithoutDuplicates (map PeerProcessor ts) = map PeerProcessor us" "distinct (map peer_URL us)"
      "subseq (map PeerProcessor us) (map PeerProcessor ts)"
    using dedup_peers by blast
  obtain sp qs' where q: "subseq qs' (arrival (map PeerProcessor us))"
      "list_all2 (\<lambda>p r. \<exists>w1 w2. process p sp w1 = (Inr r, w2)) qs' resps"
  proof -
    obtain sp errs' where "collect (\<lambda>p. process p sp) (arrival (map PeerProcessor us)) [] [] w = ((resps, errs'), w')"
      using assms(1) False us(1) by (auto simp: SendProposal_def o_def split: if_splits option.splits sum.splits prod.splits)
    from collect_answers [OF this] show ?thesis using that by auto
  qed
  have m: "mset (arrival (map PeerProcessor us)) = mset (map PeerProcessor us)" by (rule assms(2))
  have "set qs' \<subseteq> PeerProcessor ` set us" using subset_of_subseq [OF q(1)] mset_eq_setD [OF m] by simp
  then have "\<forall>y \<in> set qs'. \<exists>x. y = PeerProcessor x" by blast
  then obtain qs where qs: "qs' = map PeerProcessor qs" using ex_map_conv by metis
  then have sub: "set qs \<subseteq> set us" using \<open>set qs' \<subseteq> PeerProcessor ` set us\<close> by auto
  have "distinct us" using us(2) by (simp add: distinct_map)
  then have "distinct (arrival (map PeerProcessor us))" using mset_eq_imp_distinct_iff [OF m] by (simp add: distinct_map inj_on_def)
  then have "distinct qs'" using q(1) subseq_conv_nths distinct_nthsI by metis
  then have "distinct (map peer_URL qs)" using qs us(2) inj_on_subset [OF _ sub, of peer_URL] by (simp add: distinct_map)
  moreover have "set qs \<subseteq> set ts" using sub subset_of_subseq [OF us(3)] by auto
  moreover have "list_all2 (\<lambda>p r. \<exists>sp w1 w2. process (PeerProcessor p) sp w1 = (Inr r, w2)) qs resps"
    using q(2) qs by (auto simp: list_all2_map1 elim!: list_all2_mono)
  ultimately show ?thesis by blast
qed (intro exI [of _ "[]"], simp)

section \<open>Targets\<close>

lemma swap_mset: "i < length a \<Longrightarrow> j < length a \<Longrightarrow> mset (swap a i j) = mset a"
  by (simp add: swap_def mset_swap)

lemma shuffle_mset [simp]: "mset (shuffle d a) = mset a"
proof -
  have "mset (fold (\<lambda>i a'. swap a' i (rand_Intn (d i) (i + 1))) is a') = mset a'" if "\<forall>i \<in> set is. i < length a'" for "is" a'
    using that
  proof (induction "is" arbitrary: a')
    case (Cons i "is")
    have "rand_Intn (d i) (i + 1) < length a'" using Cons.prems rand_Intn_less [of "i + 1" "d i"]
      by (simp add: order.strict_trans2 less_eq_Suc_le)
    then have m: "mset (swap a' i (rand_Intn (d i) (i + 1))) = mset a'" using Cons.prems by (simp add: swap_mset)
    then have "length (swap a' i (rand_Intn (d i) (i + 1))) = length a'" by (metis size_mset)
    then show ?case using Cons.IH [of "swap a' i (rand_Intn (d i) (i + 1))"] Cons.prems m by simp
  qed simp
  from this [of "[0..<length a]" a] show ?thesis by (simp add: shuffle_def)
qed

lemma shuffle_length [simp]: "length (shuffle d a) = length a"
  by (metis shuffle_mset size_mset)

lemma shuffle_Nil [simp]: "shuffle d a = [] \<longleftrightarrow> a = []"
  by (metis length_0_conv shuffle_length)

text \<open>The peers that a request with these options may be sent to.\<close>

definition candidates :: "'w ledgerClient \<Rightarrow> requestOptions \<Rightarrow> peer list res" where
  "candidates c opts = (case lo_Targets opts of
     Some ts \<Rightarrow> Inr ts
   | None \<Rightarrow> rbind (lc_GetPeers c) (\<lambda>ps. Inr (filterTargets ps (if lo_TargetFilter opts = None then lc_filter c else lo_TargetFilter opts))))"

definition chosen :: "requestOptions \<Rightarrow> peer list \<Rightarrow> (nat \<Rightarrow> nat) \<Rightarrow> peer list res outcome" where
  "chosen opts targets d = (if length targets = 0 then Ok (Inl no_targets)
     else if int (length targets) < lo_MinTargets opts
     then Ok (Inl (ErrorF ''Error getting minimum number of targets. %d available, %d required'' [FN (length targets), FI (lo_MinTargets opts)]))
     else if lo_MaxTargets opts < 0 then Panic else Ok (Inr (take (nat (lo_MaxTargets opts)) (shuffle d targets))))"

lemma calculateTargets_chosen:
  "calculateTargets c d opts =
    (if lo_Targets opts \<noteq> None \<and> lo_TargetFilter opts \<noteq> None
     then Ok (Inl (errorNew ''If targets are provided, filter cannot be provided''))
     else (case candidates c opts of Inl err \<Rightarrow> Ok (Inl err) | Inr targets \<Rightarrow> chosen opts targets d))"
proof -
  have t: "(let n = (if int (length ps) < k then int (length ps) else k) in if n < 0 then Panic else Ok (Inr (take (nat n) (shuffle d ps))))
    = (if k < 0 then Panic else Ok (Inr (take (nat k) (shuffle d ps))))" for k and ps :: "peer list"
    by (auto simp: Let_def)
  show ?thesis
    by (cases "lo_Targets opts"; cases "lo_TargetFilter opts"; cases "lc_GetPeers c")
      (simp_all add: calculateTargets_def candidates_def chosen_def t Let_def [of "filterTargets _ _"] filterTargets_def)
qed

section \<open>Queries\<close>

lemma queryChaincode_answers:
  assumes "queryChaincode env ch req (map PeerProcessor ts) v w = Ok ((tprs, errs), w')"
    and "\<And>xs. mset (ne_arrival env xs) = mset xs"
  shows "\<exists>qs. distinct (map peer_URL qs) \<and> set qs \<subseteq> set ts
    \<and> list_all2 (\<lambda>p r. (\<exists>sp w1 w2. ne_process env (PeerProcessor p) sp w1 = (Inr r, w2)) \<and> accepted_by v r) qs tprs"
proof (cases "tprs = []")
  case False
  obtain ctx tp rs errs1 errs2 w1 where
    1: "SendProposal (ne_pc env) (Some ctx) (ne_process env) (ne_arrival env) (Some tp) (map Some (map PeerProcessor ts)) w = ((rs, errs1), w1)" and
    2: "filter_loop (ne_wire env) v rs [] errs1 = Ok (tprs, errs2)"
    using assms(1) False
    by (auto simp: queryChaincode_def filterResponses_def Ok_simps)
  obtain ks where ks: "tprs = ks" "subseq ks rs" "\<forall>r \<in> set ks. accepted_by v r" using filter_loop_Ok [OF 2] by auto
  obtain qs where qs: "distinct (map peer_URL qs)" "set qs \<subseteq> set ts"
    "list_all2 (\<lambda>p r. \<exists>sp w1 w2. ne_process env (PeerProcessor p) sp w1 = (Inr r, w2)) qs rs"
    using SendProposal_answers [OF 1 assms(2)] by blast
  obtain us where us: "subseq us qs" "list_all2 (\<lambda>p r. \<exists>sp w1 w2. ne_process env (PeerProcessor p) sp w1 = (Inr r, w2)) us ks"
    using list_all2_subseq [OF ks(2) qs(3)] by blast
  have "distinct (map peer_URL us)"
    using us(1) qs(1) by (metis distinct_nthsI nths_map subseq_conv_nths)
  moreover have "list_all2 (\<lambda>p r. (\<exists>sp w1 w2. ne_process env (PeerProcessor p) sp w1 = (Inr r, w2)) \<and> accepted_by v r) us tprs"
    using us(2) ks(1,3) unfolding list_all2_conv_all_nth by simp
  ultimately show ?thesis using subset_of_subseq [OF us(1)] qs(2) by blast
qed (intro exI [of _ "[]"], simp)

lemma decoded_answers:
  assumes "queryChaincode env ch req (map PeerProcessor ts) v w = Ok ((tprs, errs), w')" "decode_all create tprs [] errs1 = Ok (ms, errs2)"
    and "\<And>xs. mset (ne_arrival env xs) = mset xs"
  shows "\<exists>qs. distinct (map peer_URL qs) \<and> set qs \<subseteq> set ts \<and> list_all2 (\<lambda>p. answered env v create (PeerProcessor p)) qs ms"
proof -
  obtain ks where ks: "subseq ks tprs" "list_all2 (\<lambda>r m. create r = Ok (Inr m)) ks ms" using decode_all_Ok [OF assms(2)] by auto
  obtain qs where qs: "distinct (map peer_URL qs)" "set qs \<subseteq> set ts"
    "list_all2 (\<lambda>p r. (\<exists>sp w1 w2. ne_process env (PeerProcessor p) sp w1 = (Inr r, w2)) \<and> accepted_by v r) qs tprs"
    using queryChaincode_answers [OF assms(1,3)] by blast
  obtain us where us: "subseq us qs"
    "list_all2 (\<lambda>p r. (\<exists>sp w1 w2. ne_process env (PeerProcessor p) sp w1 = (Inr r, w2)) \<and> accepted_by v r) us ks"
    using list_all2_subseq [OF ks(1) qs(3)] by blast
  have "list_all2 (\<lambda>p. answered env v create (PeerProcessor p)) us ms"
    by (rule list_all2_trans [OF _ us(2) ks(2)]) (auto simp: answered_def)
  moreover have "distinct (map peer_URL us)" using us(1) qs(1) by (metis distinct_nthsI nths_map subseq_conv_nths)
  ultimately show ?thesis using subset_of_subseq [OF us(1)] qs(2) by blast
qed

lemma query_blocks_answers:
  assumes "query_blocks env ch cir (map PeerProcessor ts) v w = Ok ((bs, errs), w')" "\<And>xs. mset (ne_arrival env xs) = mset xs"
  shows "\<exists>qs. distinct (map peer_URL qs) \<and> set qs \<subseteq> set ts \<and> list_all2 (\<lambda>p. answered env v (createCommonBlock env) (PeerProcessor p)) qs bs"
proof -
  obtain tprs errs1 w1 errs2 where "queryChaincode env ch cir (map PeerProcessor ts) v w = Ok ((tprs, errs1), w1)"
    "decode_all (createCommonBlock env) tprs [] None = Ok (bs, errs2)"
    using assms(1) by (auto simp: query_blocks_def getConfigBlocks_def obind_eq_Ok)
  then show ?thesis by (rule decoded_answers [OF _ _ assms(2)])
qed

lemma matchBlockData_Inr:
  "matchBlockData bs n = Ok (Inr b) \<Longrightarrow> n \<le> int (length bs) \<and> bs \<noteq> [] \<and> b = hd bs \<and> (\<forall>b' \<in> set bs. blk_Data b' = blk_Data b)"
  by (auto simp: matchBlockData_def list_ex_iff split: if_splits list.splits)

text \<open>The chosen targets agree on a block: at least the required number of different peers, all of them asked and accepted.\<close>

definition agreed :: "'w ledgerClient \<Rightarrow> RequestOption list \<Rightarrow> block \<Rightarrow> bool" where
  "agreed c options b \<longleftrightarrow> (\<exists>opts ps qs bs. prepareRequestOpts options = Inr opts \<and> candidates c opts = Inr ps
     \<and> distinct (map peer_URL qs) \<and> set qs \<subseteq> set ps
     \<and> list_all2 (\<lambda>p. answered (lc_env c) (Some (lc_verifier c)) (createCommonBlock (lc_env c)) (PeerProcessor p)) qs bs
     \<and> lo_MinTargets opts \<le> int (length bs) \<and> int (length bs) \<le> lo_MaxTargets opts \<and> b \<in> set bs \<and> (\<forall>b' \<in> set bs. blk_Data b' = blk_Data b))"

lemma client_query_agreed:
  assumes "client_query c d options name ask (\<lambda>responses opts err. matchBlockData responses (lo_MinTargets opts)) w = Ok (Inr b, w')"
    and "\<And>ts w bs errs w'. ask (map PeerProcessor ts) w = Ok ((bs, errs), w') \<Longrightarrow>
       bs = [] \<or> (\<exists>cir. query_blocks (lc_env c) (lc_channel c) cir (map PeerProcessor ts) (Some (lc_verifier c)) w = Ok ((bs, errs), w'))"
    and "\<And>xs. mset (ne_arrival (lc_env c) xs) = mset xs"
  shows "agreed c options b"
proof -
  obtain opts ts bs errs w1 where 1: "prepareRequestOpts options = Inr opts" "calculateTargets c d opts = Ok (Inr ts)"
    "ask (map PeerProcessor ts) w = Ok ((bs, errs), w1)" "matchBlockData bs (lo_MinTargets opts) = Ok (Inr b)"
    using assms(1) by (auto simp: client_query_def prepareRequestParams_def Ok_simps)
  obtain ps where ps: "candidates c opts = Inr ps" "chosen opts ps d = Ok (Inr ts)"
    using 1(2) by (auto simp: calculateTargets_chosen split: if_splits sum.splits)
  note m = matchBlockData_Inr [OF 1(4)]
  obtain cir where "query_blocks (lc_env c) (lc_channel c) cir (map PeerProcessor ts) (Some (lc_verifier c)) w = Ok ((bs, errs), w1)"
    using assms(2) [OF 1(3)] m by blast
  from query_blocks_answers [OF this assms(3)] obtain qs where qs: "distinct (map peer_URL qs)" "set qs \<subseteq> set ts"
    "list_all2 (\<lambda>p. answered (lc_env c) (Some (lc_verifier c)) (createCommonBlock (lc_env c)) (PeerProcessor p)) qs bs" by blast
  have ts: "ts = take (nat (lo_MaxTargets opts)) (shuffle d ps)" "0 \<le> lo_MaxTargets opts"
    using ps(2) by (auto simp: chosen_def split: if_splits)
  have "set ts \<subseteq> set ps" using set_take_subset ts(1) mset_eq_setD [OF shuffle_mset] by metis
  then have sub: "set qs \<subseteq> set ps" using qs(2) by blast
  have "length qs \<le> length ts"
    using qs(1,2) by (metis card_mono card_length distinct_card distinct_map List.finite_set order_trans)
  moreover have "int (length ts) \<le> lo_MaxTargets opts" unfolding ts(1) using ts(2) by (simp add: min_le_iff_disj)
  ultimately have "int (length bs) \<le> lo_MaxTargets opts" using list_all2_lengthD [OF qs(3)] by linarith
  moreover have "b \<in> set bs" using m by simp
  ultimately show ?thesis using 1(1) ps(1) qs(1,3) sub m unfolding agreed_def by blast
qed


text \<open>Three peers, of which one is down, and two must agree.\<close>

definition ex_net :: "'w netEnv" where
  "ex_net = \<lparr>ne_wire = ex_wire, ne_pc = ex_codec, ne_ctx = Some ex_ctx, ne_random = Inr [1, 2], ne_timestamp = Inr 0,
     ne_process = (\<lambda>p sp w. case p of
        PeerProcessor q \<Rightarrow> (if peer_ref q = 1 then Inl (errorNew ''down'') else Inr ex_response, w)
      | OtherProcessor n \<Rightarrow> (Inl (errorNew ''unknown''), w)),
     ne_arrival = rev, ne_Block = (\<lambda>b. Inr \<lparr>blk_Number = Some 5, blk_Data = Some [b], blk_Metadata = None\<rparr>)\<rparr>"

definition ex_three :: "peer list" where
  "ex_three = [mkPeer 0 ''grpc://p0'' ''Org1'' None, mkPeer 1 ''grpc://p1'' ''Org1'' None, mkPeer 2 ''grpc://p2'' ''Org1'' None]"

definition ex_verifier :: ResponseVerifier where
  "ex_verifier = \<lparr>rv_Verify = (\<lambda>r. Ok None), rv_Match = (\<lambda>rs. Ok None)\<rparr>"

definition ex_ledger :: "unit ledgerClient" where
  "ex_ledger = \<lparr>lc_env = ex_net, lc_channel = ''ch'', lc_filter = Some (mspFilter ''Org1''), lc_verifier = ex_verifier,
     lc_GetPeers = Inr ex_three\<rparr>"

definition ex_block :: block where
  "ex_block = \<lparr>blk_Number = Some 5, blk_Data = Some [[9]], blk_Metadata = None\<rparr>"

lemma ex_query_block: "(case client_QueryBlock ex_ledger (\<lambda>i. 0) 5 [WithMinTargets 2, WithMaxTargets 3] () of
    Ok (Inr b, w) \<Rightarrow> b = ex_block | _ \<Rightarrow> False)"
  by code_simp


section \<open>No query panics\<close>

lemma collect_length:
  "collect f ps resps errs w = ((resps', errs'), w') \<Longrightarrow> length resps' + length errs' = length resps + length errs + length ps"
  by (induction ps arbitrary: resps errs w) (auto split: prod.split_asm sum.split_asm)

lemma SendProposal_something:
  assumes "SendProposal pc (Some ctx) process arrival (Some pp) (map Some (map PeerProcessor ts)) w = ((resps, errs), w')" "ts \<noteq> []"
    and "\<And>xs. mset (arrival xs) = mset xs"
  shows "resps \<noteq> [] \<or> errs \<noteq> None"
proof -
  obtain us where us: "getTargetsWithoutDuplicates (map PeerProcessor ts) = map PeerProcessor us" "peer_URL ` set us = peer_URL ` set ts"
    using dedup_peers [of ts] by auto
  have "length (arrival (map PeerProcessor us)) = length us" using assms(3) [of "map PeerProcessor us"] by (metis length_map size_mset)
  then have "length (arrival (map PeerProcessor us)) \<noteq> 0" using us(2) assms(2) by auto
  then show ?thesis using assms(1) us(1)
    by (auto simp: SendProposal_def o_def split: if_split_asm sum.split_asm prod.split_asm dest!: collect_length)
qed

text \<open>
  What the queries rely on: encoders that do not fail where the code panics, an arrival of the answers that neither drops nor adds one,
  and answers with status 200 that carry a response, of which the peer has taken the status.
\<close>

definition well_behaved :: "'w ledgerClient \<Rightarrow> bool" where
  "well_behaved c \<longleftrightarrow> (\<forall>txh req. CreateChaincodeInvokeProposal (ne_pc (lc_env c)) (ne_timestamp (lc_env c)) txh req \<in> range Ok)
     \<and> (\<forall>xs. mset (ne_arrival (lc_env c) xs) = mset xs)
     \<and> (\<forall>p sp w r w'. ne_process (lc_env c) p sp w = (Inr r, w') \<longrightarrow> tpr_Status r = StatusOK \<longrightarrow>
          response_payload r \<in> range Ok)"

text \<open>The verifier of signatures panics exactly where there is no response.\<close>

lemma SignatureVerifier_returns:
  "rv_Verify (SignatureVerifier senv) r \<in> range Ok \<longleftrightarrow> response_payload r \<in> range Ok"
  by (auto simp: SignatureVerifier_def Verify_def response_payload_def NewFromProposalResponse_def Let_def split: option.split)

lemma SignatureVerifier_Match [simp]: "rv_Match (SignatureVerifier senv) rs = Ok None"
  by (simp add: SignatureVerifier_def)

lemma filter_loop_total:
  assumes "\<forall>r \<in> set rs. tpr_Status r = StatusOK \<longrightarrow> rv_Verify v r \<in> range Ok"
  shows "\<exists>out errs'. filter_loop wr (Some v) rs acc errs = Ok (out, errs')"
  using assms
proof (induction rs arbitrary: acc errs)
  case (Cons r rs)
  show ?case
  proof (cases "tpr_Status r = StatusOK")
    case True
    then obtain e where "rv_Verify v r = Ok e" using Cons.prems by auto
    then show ?thesis using Cons by (auto split: option.split)
  qed (use Cons in auto)
qed simp

lemma queryChaincode_total:
  assumes "well_behaved c" "lc_verifier c = SignatureVerifier senv" "ts \<noteq> []"
  shows "\<exists>tprs errs w'. queryChaincode (lc_env c) ch req (map PeerProcessor ts) (Some (lc_verifier c)) w = Ok ((tprs, errs), w')
     \<and> (tprs = [] \<longrightarrow> errs \<noteq> None) \<and> (\<forall>r \<in> set tprs. response_payload r \<in> range Ok)"
proof (cases "\<exists>ctx txh tp. ne_ctx (lc_env c) = Some ctx \<and> NewHeader ctx (ne_random (lc_env c)) ch [] = Inr txh
    \<and> CreateChaincodeInvokeProposal (ne_pc (lc_env c)) (ne_timestamp (lc_env c)) txh req = Ok (Inr tp)")
  case True
  let ?env = "lc_env c"
  obtain ctx txh tp where 1: "ne_ctx ?env = Some ctx" "NewHeader ctx (ne_random ?env) ch [] = Inr txh"
    "CreateChaincodeInvokeProposal (ne_pc ?env) (ne_timestamp ?env) txh req = Ok (Inr tp)" using True by blast
  obtain rs errs1 w1 where 2: "SendProposal (ne_pc ?env) (Some ctx) (ne_process ?env) (ne_arrival ?env) (Some tp)
    (map Some (map PeerProcessor ts)) w = ((rs, errs1), w1)" by (metis surj_pair)
  have arr: "mset (ne_arrival ?env xs) = mset xs" for xs using assms(1) unfolding well_behaved_def by blast
  obtain qs where qs: "list_all2 (\<lambda>p r. \<exists>sp w1 w2. ne_process ?env (PeerProcessor p) sp w1 = (Inr r, w2)) qs rs"
    using SendProposal_answers [OF 2 arr] by blast
  have pay: "response_payload r \<in> range Ok" if r: "r \<in> set rs" "tpr_Status r = StatusOK" for r
  proof -
    obtain i where "i < length rs" "rs ! i = r" using r(1) by (meson in_set_conv_nth)
    then obtain p sp w1 w2 where "ne_process ?env p sp w1 = (Inr r, w2)" using list_all2_nthD2 [OF qs] by blast
    then show ?thesis using assms(1) r(2) unfolding well_behaved_def by blast
  qed
  have verified: "\<forall>r \<in> set rs. tpr_Status r = StatusOK \<longrightarrow> rv_Verify (lc_verifier c) r \<in> range Ok"
    unfolding assms(2) SignatureVerifier_returns using pay by blast
  obtain out errs2 where 3: "filter_loop (ne_wire ?env) (Some (lc_verifier c)) rs [] errs1 = Ok (out, errs2)"
    using filter_loop_total [OF verified] by blast
  have q: "queryChaincode ?env ch req (map PeerProcessor ts) (Some (lc_verifier c)) w = Ok ((out, errs2), w1)"
    using 1 2 3 by (simp add: queryChaincode_def filterResponses_def)
  moreover have "out = [] \<longrightarrow> errs2 \<noteq> None"
    using SendProposal_something [OF 2 assms(3) arr] filter_loop_Ok [OF 3] by auto
  moreover have "\<forall>r \<in> set out. response_payload r \<in> range Ok"
  proof -
    obtain ks where ks: "out = ks" "subseq ks rs" "\<forall>r \<in> set ks. accepted_by (Some (lc_verifier c)) r" using filter_loop_Ok [OF 3] by auto
    then show ?thesis using pay subset_of_subseq [OF ks(2)] unfolding accepted_by_def by blast
  qed
  ultimately show ?thesis by blast
next
  case False
  show ?thesis
  proof (cases "ne_ctx (lc_env c)")
    case (Some ctx)
    show ?thesis
    proof (cases "NewHeader ctx (ne_random (lc_env c)) ch []")
      case (Inr txh)
      obtain x where x: "CreateChaincodeInvokeProposal (ne_pc (lc_env c)) (ne_timestamp (lc_env c)) txh req = Ok x"
        using assms(1) unfolding well_behaved_def by blast
      obtain e where "x = Inl e" using False Some Inr x by (cases x) auto
      then show ?thesis using Some Inr x by (simp add: queryChaincode_def)
    qed (simp add: queryChaincode_def Some)
  qed (simp add: queryChaincode_def)
qed

lemma decode_all_total:
  assumes "\<forall>r \<in> set rs. create r \<in> range Ok"
  shows "\<exists>out errs'. decode_all create rs acc errs = Ok (out, errs') \<and> (errs \<noteq> None \<longrightarrow> errs' \<noteq> None)
    \<and> (out = [] \<longrightarrow> rs = [] \<or> errs' \<noteq> None)"
  using assms
proof (induction rs arbitrary: acc errs)
  case (Cons r rs)
  then obtain x where x: "create r = Ok x" by auto
  show ?case
  proof (cases x)
    case (Inl e)
    then show ?thesis using Cons.IH [of acc "multi_Append errs (Some (withMessage e (''From target: '' @ tpr_Endorser r)))"] Cons.prems x by fastforce
  next
    case (Inr m)
    obtain out errs' where d: "decode_all create rs (acc @ [m]) errs = Ok (out, errs')" "errs \<noteq> None \<longrightarrow> errs' \<noteq> None"
      using Cons.IH [of "acc @ [m]" errs] Cons.prems by auto
    moreover have "out \<noteq> []" using decode_all_Ok [OF d(1)] by auto
    ultimately show ?thesis using Inr x by simp
  qed
qed simp

definition something :: "(('m list \<times> goerr option) \<times> 'w) outcome \<Rightarrow> bool" where
  "something r \<longleftrightarrow> (\<exists>ms errs w'. r = Ok ((ms, errs), w') \<and> (ms = [] \<longrightarrow> errs \<noteq> None))"

lemma something_error [simp]: "something (Ok (([], Some e), w))"
  by (simp add: something_def)

lemma query_messages_total:
  assumes "well_behaved c" "lc_verifier c = SignatureVerifier senv" "ts \<noteq> []" "\<And>r. response_payload r \<in> range Ok \<Longrightarrow> create r \<in> range Ok"
  shows "something (query_messages (lc_env c) ch cir create (map PeerProcessor ts) (Some (lc_verifier c)) w)"
proof -
  obtain tprs errs w' where q: "queryChaincode (lc_env c) ch cir (map PeerProcessor ts) (Some (lc_verifier c)) w = Ok ((tprs, errs), w')"
    "tprs = [] \<longrightarrow> errs \<noteq> None" "\<forall>r \<in> set tprs. response_payload r \<in> range Ok"
    using queryChaincode_total [OF assms(1-3), of ch cir w] by (elim exE conjE) (rule that)
  obtain out errs' where "decode_all create tprs [] errs = Ok (out, errs')" "errs \<noteq> None \<longrightarrow> errs' \<noteq> None"
    "out = [] \<longrightarrow> tprs = [] \<or> errs' \<noteq> None"
    using decode_all_total [of tprs create "[]" errs] q(3) assms(4) by (auto 0 3)
  then show ?thesis using q(1,2) by (auto simp: query_messages_def something_def)
qed

lemma multi_Append_None: "multi_Append errs None = None \<longleftrightarrow> errs = None"
  by (cases errs) (auto simp: multi_Append_def multi_New_def split: goerr.splits)

lemma multi_Append_eq_None [simp]: "multi_Append errs e = None \<longleftrightarrow> errs = None \<and> e = None"
  by (cases e) (simp_all add: multi_Append_None)

lemma query_blocks_total:
  assumes "well_behaved c" "lc_verifier c = SignatureVerifier senv" "ts \<noteq> []"
  shows "something (query_blocks (lc_env c) ch cir (map PeerProcessor ts) (Some (lc_verifier c)) w)"
proof -
  obtain tprs errs w' where q: "queryChaincode (lc_env c) ch cir (map PeerProcessor ts) (Some (lc_verifier c)) w = Ok ((tprs, errs), w')"
    "tprs = [] \<longrightarrow> errs \<noteq> None" "\<forall>r \<in> set tprs. response_payload r \<in> range Ok"
    using queryChaincode_total [OF assms, of ch cir w] by (elim exE conjE) (rule that)
  have "\<forall>r \<in> set tprs. createCommonBlock (lc_env c) r \<in> range Ok" using q(3) by (auto simp: createCommonBlock_def createMessage_def)
  from decode_all_total [OF this, of "[]" None] obtain out errs' where
    "decode_all (createCommonBlock (lc_env c)) tprs [] None = Ok (out, errs')" "out = [] \<longrightarrow> tprs = [] \<or> errs' \<noteq> None" by blast
  moreover have "multi_Append errs errs' \<noteq> None \<longleftrightarrow> \<not> (errs = None \<and> errs' = None)" by (simp only: multi_Append_eq_None)
  ultimately show ?thesis using q(1,2) unfolding something_def
    by (intro exI [of _ out] exI [of _ "multi_Append errs errs'"] exI [of _ w']) (auto simp: query_blocks_def getConfigBlocks_def)
qed

lemma prepareRequestParams_total:
  assumes "\<And>opts. prepareRequestOpts options = Inr opts \<Longrightarrow> lo_MaxTargets opts > 0"
  shows "\<exists>p. prepareRequestParams c d options = Ok p \<and> (\<forall>ts opts. p = Inr (ts, opts) \<longrightarrow> ts \<noteq> [])"
proof (cases "prepareRequestOpts options")
  case (Inr opts)
  have "calculateTargets c d opts \<in> range Ok"
    using assms [OF Inr] by (auto simp: calculateTargets_chosen chosen_def split: sum.split)
  then obtain r where r: "calculateTargets c d opts = Ok r" by blast
  have "ts \<noteq> []" if good: "r = Inr ts" for ts
  proof -
    obtain ps where "chosen opts ps d = Ok (Inr ts)" using r good by (auto simp: calculateTargets_chosen Ok_simps)
    then have "ts = take (nat (lo_MaxTargets opts)) (shuffle d ps)" "ps \<noteq> []" by (auto simp: chosen_def split: if_split_asm)
    then show ?thesis using assms [OF Inr] by simp
  qed
  then show ?thesis using Inr r by (cases r) (auto simp: prepareRequestParams_def)
qed (simp add: prepareRequestParams_def)

lemma client_query_total:
  assumes "\<And>ts w. ts \<noteq> [] \<Longrightarrow> something (ask (map PeerProcessor ts) w)"
    and "\<And>ms opts errs. ms \<noteq> [] \<Longrightarrow> finish ms opts errs \<in> range Ok"
    and "\<And>opts. prepareRequestOpts options = Inr opts \<Longrightarrow> lo_MaxTargets opts > 0"
  shows "client_query c d options name ask finish w \<in> range Ok"
proof -
  obtain p where p: "prepareRequestParams c d options = Ok p" "\<forall>ts opts. p = Inr (ts, opts) \<longrightarrow> ts \<noteq> []"
    using prepareRequestParams_total [OF assms(3)] by blast
  show ?thesis
  proof (cases p)
    case (Inr x)
    obtain ts opts where x: "x = (ts, opts)" by fastforce
    obtain ms errs w' where a: "ask (map PeerProcessor ts) w = Ok ((ms, errs), w')" "ms = [] \<longrightarrow> errs \<noteq> None"
      using assms(1) [of ts w] p(2) Inr x unfolding something_def by blast
    show ?thesis
    proof (cases ms)
      case Nil
      then show ?thesis using a p(1) Inr x by (auto simp: client_query_def)
    next
      case (Cons m ms')
      then obtain r where "finish ms opts errs = Ok r" using assms(2) [of ms opts errs] by auto
      then show ?thesis using a p(1) Inr x Cons by (cases errs) (auto simp: client_query_def)
    qed
  qed (use p(1) in \<open>simp add: client_query_def\<close>)
qed

lemma QueryConfigBlock_total:
  assumes "well_behaved c" "lc_verifier c = SignatureVerifier senv" "\<And>opts. prepareRequestOpts options = Inr opts \<Longrightarrow> lo_MaxTargets opts > 0"
  shows "client_QueryConfigBlock c d options w \<in> range Ok"
proof -
  obtain p where p: "prepareRequestParams c d options = Ok p" "\<And>ts opts. p = Inr (ts, opts) \<Longrightarrow> ts \<noteq> []"
    using prepareRequestParams_total [OF assms(3)] by blast
  have "ledger_QueryConfigBlock (lc_env c) (lc_channel c) (map PeerProcessor ts) (Some (lc_verifier c)) w \<in> range Ok" if ne: "ts \<noteq> []" for ts
  proof -
    obtain tprs errs w' where q: "queryChaincode (lc_env c) (lc_channel c) (createConfigBlockInvokeRequest (lc_channel c))
        (map PeerProcessor ts) (Some (lc_verifier c)) w = Ok ((tprs, errs), w')"
      "tprs = [] \<longrightarrow> errs \<noteq> None" "\<forall>r \<in> set tprs. response_payload r \<in> range Ok"
      using queryChaincode_total [OF assms(1,2) ne, of "lc_channel c" "createConfigBlockInvokeRequest (lc_channel c)" w] by (elim exE conjE) (rule that)
    show ?thesis
    proof (cases tprs)
      case Nil
      then show ?thesis using q(1,2) by (auto simp: ledger_QueryConfigBlock_def)
    next
      case (Cons t tprs')
      then obtain b where b: "createCommonBlock (lc_env c) t = Ok b" using q(3) by (auto simp: createCommonBlock_def createMessage_def)
      show ?thesis using q(1) b ne Cons by (cases errs) (simp_all add: ledger_QueryConfigBlock_def assms(2))
    qed
  qed
  then show ?thesis using p by (cases p) (auto simp: client_QueryConfigBlock_def)
qed

text \<open>
  C29: With the verifier of signatures that \<open>New\<close> installs, none of \<open>QueryBlock\<close>, \<open>QueryBlockByHash\<close>, \<open>QueryBlockByTxID\<close>, \<open>QueryInfo\<close>,
  \<open>QueryTransaction\<close> and \<open>QueryConfigBlock\<close> panics, provided that the options, if they are accepted, allow at least one target, that the
  encoding of the proposal does not panic, that the answers received are those of the peers in some order, and that an answer with
  status 200 carries a response: the verifier and the decoders are called only on answers with a response, and the lists of answers, of
  responses and of blocks are read only where they are not empty.
\<close>
theorem ledger_queries_return:
  assumes "well_behaved c" "lc_verifier c = SignatureVerifier senv"
    and "\<And>opts. prepareRequestOpts options = Inr opts \<Longrightarrow> lo_MaxTargets opts > 0"
  shows "client_QueryBlock c d n options w \<in> range Ok \<and> client_QueryBlockByHash c d h options w \<in> range Ok
    \<and> client_QueryBlockByTxID c d t options w \<in> range Ok \<and> client_QueryInfo c um d options w \<in> range Ok
    \<and> client_QueryTransaction c umt d t options w \<in> range Ok \<and> client_QueryConfigBlock c d options w \<in> range Ok"
proof (intro conjI)
  note total = client_query_total [OF _ _ assms(3)]
  note blocks = query_blocks_total [OF assms(1,2)]
  have m: "bs \<noteq> [] \<Longrightarrow> matchBlockData bs k \<in> range Ok" for bs k by (auto simp: matchBlockData_def split: list.split)
  have c: "response_payload r \<in> range Ok \<Longrightarrow> createMessage um' r \<in> range Ok" for r and um' :: "bytes \<Rightarrow> 'x res"
    by (auto simp: createMessage_def)
  show "client_QueryBlock c d n options w \<in> range Ok" unfolding client_QueryBlock_def
    by (rule total) (simp_all add: ledger_QueryBlock_def blocks m)
  show "client_QueryBlockByHash c d h options w \<in> range Ok" unfolding client_QueryBlockByHash_def
    by (rule total) (simp_all add: ledger_QueryBlockByHash_def blocks m)
  show "client_QueryBlockByTxID c d t options w \<in> range Ok" unfolding client_QueryBlockByTxID_def
    by (rule total) (simp_all add: ledger_QueryBlockByTxID_def blocks m)
  have i: "response_payload r \<in> range Ok \<Longrightarrow> createBlockchainInfo um r \<in> range Ok" for r
    using c [of r um] by (auto simp: createBlockchainInfo_def)
  show "client_QueryInfo c um d options w \<in> range Ok" unfolding client_QueryInfo_def
    by (rule total) (auto simp: ledger_QueryInfo_def query_messages_total [OF assms(1,2) _ i] split: list.split)
  show "client_QueryTransaction c umt d t options w \<in> range Ok" unfolding client_QueryTransaction_def
    by (rule total) (auto simp: ledger_QueryTransaction_def query_messages_total [OF assms(1,2) _ c] split: list.split)
  show "client_QueryConfigBlock c d options w \<in> range Ok" by (rule QueryConfigBlock_total [OF assms])
qed

lemma ex_proposal: "CreateChaincodeInvokeProposal ex_codec (Inr 0) txh req \<in> range Ok"
  by (cases txh; cases req)
    (simp add: CreateChaincodeInvokeProposal_def CreateChaincodeProposalWithTxIDNonceAndTransient_def ex_codec_def MarshalOrPanic_def Let_def)

text \<open>The client of the example with the verifier of signatures, over a membership that knows the signature of the answers.\<close>

definition ex_verified :: "unit ledgerClient" where
  "ex_verified = ex_ledger\<lparr>lc_verifier := SignatureVerifier (cx_env ex_client)\<rparr>"

theorem ledger_queries_return_witness:
  "client_QueryBlock ex_verified (\<lambda>i. 0) 5 [WithMinTargets 2] () \<in> range Ok"
proof -
  have "well_behaved ex_verified"
    unfolding well_behaved_def
    by (auto simp: ex_verified_def ex_ledger_def ex_net_def ex_response_def response_payload_def intro: ex_proposal
      split: ProposalProcessor.split_asm if_split_asm)
  moreover have "lc_verifier ex_verified = SignatureVerifier (cx_env ex_client)" by (simp add: ex_verified_def)
  moreover have "lo_MaxTargets opts > 0" if "prepareRequestOpts [WithMinTargets 2] = Inr opts" for opts
    using that by (auto simp: prepareRequestOpts_def WithMinTargets_def Let_def)
  ultimately show ?thesis using ledger_queries_return [of ex_verified "cx_env ex_client" "[WithMinTargets 2]" "\<lambda>i. 0" 5 "()" "[]" "[]"
    "\<lambda>b. Inr \<lparr>bci_Height = 1, bci_CurrentBlockHash = [], bci_PreviousBlockHash = []\<rparr>" "\<lambda>b. Inr b"] by blast
qed

end
