(* ===== verification/Config_Theorems.thy ===== *)
theory Config_Theorems
  imports Ledger_Theorems Invoke_Theorems Resmgmt_Channels
begin

text \<open>
  What the configuration of a channel is made of: every setting of the tree that a block carries, in a block that enough peers agree
  on; and when a channel has the capabilities of a version.
\<close>

section \<open>The settings of a tree\<close>

text \<open>A setting: the group it is in, its key and its bytes. Subgroups come first, and the name of a group is also its organization.\<close>

type_synonym setting = "string \<times> string \<times> string \<times> bytes"

fun settings :: "'p ConfigGroup \<Rightarrow> string \<Rightarrow> string \<Rightarrow> setting list"
and group_settings :: "(string \<times> 'p ConfigGroup) list \<Rightarrow> setting list" where
  "settings (ConfigGroup ver md ps vs gs) name org = group_settings gs @ map (\<lambda>(k, v). (org, name, k, cva_Value v)) vs"
| "group_settings [] = []"
| "group_settings ((k, g) # gs) = settings g k k @ group_settings gs"

fun blank :: "'p ConfigGroup \<Rightarrow> 'p ConfigGroup"
and blank_groups :: "(string \<times> 'p ConfigGroup) list \<Rightarrow> (string \<times> 'p ConfigGroup) list" where
  "blank (ConfigGroup ver md ps vs gs) = ConfigGroup ver md ps (map (\<lambda>(k, v). (k, v\<lparr>cva_ModPolicy := []\<rparr>)) vs) (blank_groups gs)"
| "blank_groups [] = []"
| "blank_groups ((k, g) # gs) = (k, blank g) # blank_groups gs"

text \<open>What a setting contributes.\<close>

definition anchors_of :: "valcodec \<Rightarrow> setting \<Rightarrow> OrgAnchorPeer list" where
  "anchors_of vc s = (case s of (org, name, k, b) \<Rightarrow> if k = ''AnchorPeers''
     then (case vc_AnchorPeers vc b of Inr aps \<Rightarrow> map (\<lambda>(h, p). \<lparr>oap_Org = org, oap_Host = h, oap_Port = p\<rparr>) aps | Inl _ \<Rightarrow> []) else [])"

definition msps_of :: "valcodec \<Rightarrow> setting \<Rightarrow> MSPConfig list" where
  "msps_of vc s = (case s of (org, name, k, b) \<Rightarrow> if k = ''MSP'' then (case vc_MSPConfig vc b of Inr m \<Rightarrow> [m] | Inl _ \<Rightarrow> []) else [])"

definition orderers_of :: "valcodec \<Rightarrow> setting \<Rightarrow> string list" where
  "orderers_of vc s = (case s of (org, name, k, b) \<Rightarrow> if k = ''OrdererAddresses''
     then (case vc_OrdererAddresses vc b of Inr as \<Rightarrow> as | Inl _ \<Rightarrow> []) else [])"

definition caps_of :: "valcodec \<Rightarrow> setting \<Rightarrow> (string \<times> string list) list" where
  "caps_of vc s = (case s of (org, name, k, b) \<Rightarrow> if k = ''Capabilities''
     then (case vc_Capabilities vc b of Inr cs \<Rightarrow> [(name, cs)] | Inl _ \<Rightarrow> []) else [])"

text \<open>A setting of these keys must decode, and an MSP must be of the type FABRIC, which is 0.\<close>

definition readable :: "valcodec \<Rightarrow> setting \<Rightarrow> bool" where
  "readable vc s \<longleftrightarrow> (case s of (org, name, k, b) \<Rightarrow>
     if k = ''AnchorPeers'' then \<not> isl (vc_AnchorPeers vc b)
     else if k = ''MSP'' then (case vc_MSPConfig vc b of Inr m \<Rightarrow> fst m = 0 | Inl _ \<Rightarrow> False)
     else if k = ''Capabilities'' then \<not> isl (vc_Capabilities vc b)
     else if k = ''OrdererAddresses'' then \<not> isl (vc_OrdererAddresses vc b) else True)"

definition add_settings :: "valcodec \<Rightarrow> setting list \<Rightarrow> 'p ChannelCfg \<Rightarrow> 'p ChannelCfg" where
  "add_settings vc ss cfg = cfg\<lparr>cc_msps := cc_msps cfg @ concat (map (msps_of vc) ss),
     cc_anchorPeers := cc_anchorPeers cfg @ concat (map (anchors_of vc) ss),
     cc_orderers := cc_orderers cfg @ concat (map (orderers_of vc) ss),
     cc_capabilities := fold (\<lambda>(n, c). AList.update n c) (concat (map (caps_of vc) ss)) (cc_capabilities cfg)\<rparr>"

lemma add_settings_Nil [simp]: "add_settings vc [] cfg = cfg"
  by (simp add: add_settings_def)

lemma add_settings_append: "add_settings vc (xs @ ys) cfg = add_settings vc ys (add_settings vc xs cfg)"
  by (simp add: add_settings_def)

lemma loadConfigValue_setting:
  assumes "readable vc (org, name, k, cva_Value v)"
  shows "loadConfigValue vc k v name org cfg = Inr (add_settings vc [(org, name, k, cva_Value v)] cfg, v\<lparr>cva_ModPolicy := []\<rparr>)"
  using assms
  by (auto simp: loadConfigValue_def readable_def add_settings_def anchors_of_def msps_of_def orderers_of_def caps_of_def
      loadAnchorPeers_def loadMSPKey_def loadCapabilities_def loadOrdererAddressesKey_def isl_def
      split: sum.split prod.split if_split_asm sum.split_asm)

lemma loadConfigValue_fails:
  "\<not> readable vc (org, name, k, cva_Value v) \<Longrightarrow> \<exists>e. loadConfigValue vc k v name org cfg = Inl e"
  by (auto simp: loadConfigValue_def readable_def loadAnchorPeers_def loadMSPKey_def loadCapabilities_def loadOrdererAddressesKey_def
      isl_def split: sum.split_asm if_split_asm)

definition loaded :: "valcodec \<Rightarrow> setting list \<Rightarrow> 'p ChannelCfg \<Rightarrow> 'v \<Rightarrow> ('p ChannelCfg \<times> 'v) res \<Rightarrow> bool" where
  "loaded vc ss cfg v r \<longleftrightarrow> (if list_all (readable vc) ss then r = Inr (add_settings vc ss cfg, v) else isl r)"

lemma loaded_rbind:
  assumes "loaded vc ss cfg v r" "\<And>cfg. loaded vc ts cfg u (q cfg)"
  shows "loaded vc (ss @ ts) cfg (f v u) (rbind r (\<lambda>(cfg1, x). rbind (q cfg1) (\<lambda>(cfg2, y). Inr (cfg2, f x y))))"
proof (cases "list_all (readable vc) ss")
  case True
  then have r: "r = Inr (add_settings vc ss cfg, v)" using assms(1) by (simp add: loaded_def)
  show ?thesis
  proof (cases "list_all (readable vc) ts")
    case t: True
    then show ?thesis using True r assms(2) [of "add_settings vc ss cfg"] by (simp add: loaded_def add_settings_append)
  next
    case False
    then obtain e where "q (add_settings vc ss cfg) = Inl e" using assms(2) [of "add_settings vc ss cfg"] by (auto simp: loaded_def isl_def)
    then show ?thesis using False r by (simp add: loaded_def)
  qed
next
  case False
  then obtain e where "r = Inl e" using assms(1) by (auto simp: loaded_def isl_def)
  then show ?thesis using False by (simp add: loaded_def)
qed

lemma loadConfigValue_loaded:
  "loaded vc [(org, name, k, cva_Value v)] cfg (v\<lparr>cva_ModPolicy := []\<rparr>) (loadConfigValue vc k v name org cfg)"
  using loadConfigValue_setting [of vc org name k v cfg] loadConfigValue_fails [of vc org name k v cfg]
  by (auto simp: loaded_def)

lemma load_values_loaded:
  "loaded vc (map (\<lambda>(k, v). (org, name, k, cva_Value v)) vs) cfg (map (\<lambda>(k, v). (k, v\<lparr>cva_ModPolicy := []\<rparr>)) vs) (load_values vc vs name org cfg)"
proof (induction vs arbitrary: cfg)
  case (Cons kv vs)
  obtain k v where kv: "kv = (k, v)" by fastforce
  from loaded_rbind [where f = "\<lambda>x y. (k, x) # y", OF loadConfigValue_loaded Cons.IH] show ?case by (simp add: kv)
qed (simp add: loaded_def)

lemma loadConfig_loaded:
  "loaded vc (settings g name org) cfg (blank g) (loadConfig vc g name org cfg)"
  "loaded vc (group_settings gs) cfg (blank_groups gs) (load_groups vc gs cfg)"
proof (induction g name org and gs arbitrary: cfg and cfg rule: settings_group_settings.induct)
  case (1 ver md ps vs gs name org)
  from loaded_rbind [where f = "\<lambda>x y. ConfigGroup ver md ps y x", OF this load_values_loaded] show ?case by simp
next
  case 2
  show ?case by (simp add: loaded_def)
next
  case (3 k g gs)
  from loaded_rbind [where f = "\<lambda>x y. (k, x) # y", OF 3] show ?case by simp
qed

text \<open>
  C23: The configuration that is extracted from a block whose configuration envelope carries the tree \<open>g\<close>: every anchor peer, MSP and
  orderer address of the tree in the order of its settings, each anchor peer under its organization, the capabilities of the groups,
  the tree itself as the versions (with the modification policies of the values left blank), and the number of the block. It is
  extracted exactly when all these settings can be decoded and the MSPs are of the type FABRIC.
\<close>
theorem channel_config_exact:
  assumes "blk_Number b = Some n" "blk_Data b = Some (d # ds)" "CreateConfigEnvelope rc d = Ok (Inr (Some (Some g)))"
  shows "(if list_all (readable vc) (settings g [] [])
     then extractConfig rc vc channelID b = Ok (Inr \<lparr>cc_id = channelID, cc_blockNumber = n,
         cc_msps = concat (map (msps_of vc) (settings g [] [])), cc_anchorPeers = concat (map (anchors_of vc) (settings g [] [])),
         cc_orderers = concat (map (orderers_of vc) (settings g [] [])), cc_versions = blank g,
         cc_capabilities = fold (\<lambda>(n, c). AList.update n c) (concat (map (caps_of vc) (settings g [] []))) []\<rparr>)
     else (\<exists>e. extractConfig rc vc channelID b = Ok (Inl e)))"
proof -
  let ?cfg = "\<lparr>cc_id = channelID, cc_blockNumber = n, cc_msps = [], cc_anchorPeers = [], cc_orderers = [],
    cc_versions = NewConfigGroup, cc_capabilities = []\<rparr>"
  from loadConfig_loaded(1) [of vc g "[]" "[]" ?cfg] assms show ?thesis
    by (auto simp: extractConfig_def loaded_def add_settings_def isl_def)
qed

text \<open>A tree with an organization that has an anchor peer and an MSP, and with an orderer and capabilities at the top.\<close>

definition ex_values :: valcodec where
  "ex_values = \<lparr>vc_AnchorPeers = (\<lambda>b. Inr [(''peer0'', 7051)]), vc_MSPConfig = (\<lambda>b. Inr (0, b)),
     vc_OrdererAddresses = (\<lambda>b. Inr [''orderer0'']), vc_Capabilities = (\<lambda>b. Inr [''V1_3''])\<rparr>"

definition ex_tree :: "unit ConfigGroup" where
  "ex_tree = ConfigGroup 3 ''Admins'' []
     [(''OrdererAddresses'', \<lparr>cva_Version = 1, cva_ModPolicy = ''Admins'', cva_Value = [1]\<rparr>),
      (''Capabilities'', \<lparr>cva_Version = 0, cva_ModPolicy = ''Admins'', cva_Value = [2]\<rparr>)]
     [(''Org1'', ConfigGroup 0 [] [] [(''MSP'', \<lparr>cva_Version = 2, cva_ModPolicy = [], cva_Value = [5]\<rparr>),
         (''AnchorPeers'', \<lparr>cva_Version = 0, cva_ModPolicy = [], cva_Value = [6]\<rparr>)] [])]"

definition ex_rescodec :: "unit rescodec" where
  "ex_rescodec = \<lparr>rc_Envelope = (\<lambda>b. Inr \<lparr>se_Payload = b, se_Signature = []\<rparr>),
     rc_Payload = (\<lambda>b. Inr \<lparr>pl_ChannelHeader = Some b, pl_Data = b\<rparr>), rc_ChannelHeaderType = (\<lambda>b. Inr 1),
     rc_ConfigEnvelope = (\<lambda>b. Inr (Some (Some ex_tree))), rc_ConfigUpdateEnvelope = (\<lambda>b. Inr (b, [])),
     rc_Metadata = Inr, rc_LastConfig = (\<lambda>b. Inr 7), rc_ChannelQueryResponse = (\<lambda>b. Inr []),
     rc_ChaincodeQueryResponse = (\<lambda>b. Inr []), rc_e_SeekInfo = (\<lambda>p. Inr []), rc_e_ConfigUpdateEnvelope = (\<lambda>b s. Inr b),
     rc_e_Block = (\<lambda>b. Inr []), rc_e_CDS = (\<lambda>l i b. Inr b)\<rparr>"

theorem channel_config_exact_witness:
  "extractConfig ex_rescodec ex_values ''ch'' ex_block = Ok (Inr \<lparr>cc_id = ''ch'', cc_blockNumber = 5, cc_msps = [(0, [5])],
     cc_anchorPeers = [\<lparr>oap_Org = ''Org1'', oap_Host = ''peer0'', oap_Port = 7051\<rparr>], cc_orderers = [''orderer0''],
     cc_versions = blank ex_tree, cc_capabilities = [([], [''V1_3''])]\<rparr>)"
  using channel_config_exact [of ex_block 5 "[9]" "[]" ex_rescodec ex_tree ex_values "''ch''"]
  by (simp add: ex_block_def ex_rescodec_def CreateConfigEnvelope_def config_payload_def HeaderType_CONFIG_def readable_def
      msps_of_def anchors_of_def orderers_of_def caps_of_def ex_values_def ex_tree_def)

section \<open>Versions\<close>

definition version :: "nat \<Rightarrow> nat \<Rightarrow> string" where
  "version m n = [CHR ''V'', char_of (48 + m), CHR ''_'', char_of (48 + n)]"

lemma digit_char: "(n::nat) < 10 \<Longrightarrow> digit (char_of (48 + n)) \<and> char_of (48 + n) \<noteq> CHR ''_'' \<and> (of_char (char_of (48 + n)) :: nat) = 48 + n"
  by (auto simp: digit_def of_char_of char_of_eq_iff take_bit_nat_eq_self)

lemma version_is_version: "m < 10 \<Longrightarrow> n < 10 \<Longrightarrow> isVersionCapability (version m n)"
  using digit_char [of m] digit_char [of n] by (simp add: isVersionCapability_def version_def)

lemma version_less:
  assumes "m < 10" "n < 10" "m' < 10" "n' < 10"
  shows "string_less (version m n) (version m' n') \<longleftrightarrow> m < m' \<or> m = m' \<and> n < n'"
  using assms digit_char [of m] digit_char [of n] digit_char [of m'] digit_char [of n'] by (auto simp: version_def)

lemma version_eq:
  assumes "m < 10" "n < 10" "m' < 10" "n' < 10"
  shows "version m n = version m' n' \<longleftrightarrow> m = m' \<and> n = n'"
  using assms digit_char [of m] digit_char [of n] digit_char [of m'] digit_char [of n'] by (auto simp: version_def)

text \<open>
  With versions of one digit in each part, a group has the capability of a version exactly when it has that of this version or of a
  later one.
\<close>
theorem version_capability_order:
  assumes "map_of (cc_capabilities cfg) grp = Some (map (\<lambda>(m, n). version m n) vs)" "\<forall>(m, n) \<in> set vs. m < 10 \<and> n < 10"
    and "m < 10" "n < 10"
  shows "HasCapability cfg grp (version m n) \<longleftrightarrow> (\<exists>(m', n') \<in> set vs. m < m' \<or> m = m' \<and> n \<le> n')"
proof -
  have e: "version m n = version m' n' \<longleftrightarrow> m = m' \<and> n = n'"
    "isVersionCapability (version m' n') \<and> string_less (version m n) (version m' n') \<longleftrightarrow> m < m' \<or> m = m' \<and> n < n'"
    if "(m', n') \<in> set vs" for m' n'
    using that assms(2-4) version_eq [of m n m' n'] version_less [of m n m' n'] version_is_version [of m' n'] by auto
  have "HasCapability cfg grp (version m n) \<longleftrightarrow> (\<exists>(m', n') \<in> set vs. version m n = version m' n'
      \<or> isVersionCapability (version m' n') \<and> string_less (version m n) (version m' n'))"
    using assms version_is_version [of m n] by (auto simp: HasCapability_def list_ex_iff image_iff case_prod_beta)
  also have "\<dots> \<longleftrightarrow> (\<exists>(m', n') \<in> set vs. m < m' \<or> m = m' \<and> n \<le> n')"
    using e by (fastforce simp: le_less)
  finally show ?thesis .
qed

theorem version_capability_order_witness:
  "HasCapability \<lparr>cc_id = ''ch'', cc_blockNumber = 5, cc_msps = [], cc_anchorPeers = [], cc_orderers = [],
     cc_versions = ex_tree, cc_capabilities = [(''Application'', [version 1 3])]\<rparr> ''Application'' (version 1 2)"
  using version_capability_order [of "\<lparr>cc_id = ''ch'', cc_blockNumber = 5, cc_msps = [], cc_anchorPeers = [], cc_orderers = [],
     cc_versions = ex_tree, cc_capabilities = [(''Application'', [version 1 3])]\<rparr>" "''Application''" "[(1, 3)]" 1 2] by simp

text \<open>With more digits the comparison of the texts is not that of the numbers: version 1.10 does not imply version 1.2.\<close>

lemma version_capability_textual:
  "\<not> HasCapability \<lparr>cc_id = ''ch'', cc_blockNumber = 5, cc_msps = [], cc_anchorPeers = [], cc_orderers = [],
     cc_versions = ex_tree, cc_capabilities = [(''Application'', [''V1_10''])]\<rparr> ''Application'' ''V1_2''"
  by (simp add: HasCapability_def isVersionCapability_def)

section \<open>The block of the configuration\<close>

text \<open>A value that the invoker returns is one of the invocation.\<close>

lemma retrying_last:
  assumes "retrying env opts m w = Ok (Inr v, w')"
  shows "\<exists>w0. m w0 = Ok (Inr v, w')"
proof -
  obtain h where 1: "Invoke (Required (ne_wire (re_net env)) (re_cv env)) None (as_invocation m) (retry_New (ne_wire (re_net env)) opts) w
      = Some (Inr (Ok v), h, w')"
    using assms by (auto simp: retrying_def invoke_retry_def obind_eq_Ok split: option.split_asm sum.split_asm)
  obtain w0 where "as_invocation m w0 = (Inr (Ok v), w')" using Invoke_last [OF 1] by blast
  then show ?thesis by (auto simp: as_invocation_def split: outcome.split_asm sum.split_asm prod.split_asm)
qed

lemma match_rest_None:
  "match_rest env data ts = Ok None \<longleftrightarrow> (\<forall>t \<in> set ts. \<exists>b. createCommonBlock env t = Ok (Inr b) \<and> blk_Data b = data)"
  by (induction ts) (auto simp: Ok_simps)

lemma tprv_Match_None:
  assumes "tprv_Match env n tprs = Ok None"
  shows "0 < n \<and> n \<le> int (length tprs) \<and> tprs \<noteq> []
    \<and> (\<exists>d. \<forall>t \<in> set tprs. \<exists>b. createCommonBlock env t = Ok (Inr b) \<and> blk_Data b = Some [d])"
proof -
  obtain t ts b d where 1: "0 < n" "n \<le> int (length tprs)" "tprs = t # ts" "createCommonBlock env t = Ok (Inr b)" "blk_Data b = Some d"
    "length d = 1" "match_rest env (blk_Data b) ts = Ok None"
    using assms by (auto simp: tprv_Match_def Ok_simps)
  obtain x where "d = [x]" using 1(6) by (cases d) auto
  then show ?thesis using 1 by (auto simp: match_rest_None)
qed

text \<open>
  Different peers have agreed on the block: as many as the policy asks for, chosen among the given targets or among the peers of the
  client's organization, each of which has answered with status 200 a block with the data of the one returned, a single transaction.
\<close>

definition config_agreed :: "('w, 'f::zero, 'p) cfgEnv \<Rightarrow> 'f ChannelConfig \<Rightarrow> block \<Rightarrow> bool" where
  "config_agreed env c b \<longleftrightarrow> (\<exists>qs bs opts. opts = resolveOptsFromConfig (ce_f2_0 env) (ce_policy env) (cf_opts c)
     \<and> distinct (map peer_URL qs)
     \<and> (\<forall>p \<in> set qs. case co_Targets opts of Some ts \<Rightarrow> p \<in> set ts
          | None \<Rightarrow> Inr (Some p) \<in> set (ce_channelPeers env) \<and> peer_MSPID p = ce_MSPID env)
     \<and> list_all2 (\<lambda>p. answered (re_net (ce_res env)) None (createCommonBlock (re_net (ce_res env))) (PeerProcessor p)) qs bs
     \<and> 0 < co_MinResponses opts \<and> co_MinResponses opts \<le> int (length bs) \<and> b \<in> set bs
     \<and> (\<exists>d. \<forall>b' \<in> set bs. blk_Data b' = Some [d]))"

lemma own_peers_spec:
  "own_peers mspID rs acc = Inr (Some ts) \<Longrightarrow> set ts \<subseteq> set acc \<union> {p. Inr (Some p) \<in> set rs \<and> peer_MSPID p = mspID}"
  by (induction rs arbitrary: acc) (fastforce split: sum.split_asm option.split_asm if_split_asm)+

lemma randomMaxTargets_subset: "randomMaxTargets d ts k = Ok us \<Longrightarrow> set us \<subseteq> set ts"
  using mset_eq_setD [OF shuffle_mset, of d ts] set_take_subset [of "nat k" "shuffle d ts"]
  by (auto simp: randomMaxTargets_def split: if_split_asm)

lemma config_targets:
  assumes "(case co_Targets opts of None \<Rightarrow> calculateTargetsFromConfig env ch opts | Some ts \<Rightarrow> Ok (Inr ts)) = Ok (Inr ts)" "p \<in> set ts"
  shows "case co_Targets opts of Some ts \<Rightarrow> p \<in> set ts
     | None \<Rightarrow> Inr (Some p) \<in> set (ce_channelPeers env) \<and> peer_MSPID p = ce_MSPID env"
proof (cases "co_Targets opts")
  case None
  then have "ts = [] \<or> (\<exists>us. own_peers (ce_MSPID env) (ce_channelPeers env) [] = Inr (Some us) \<and> set ts \<subseteq> set us)"
    using assms(1) by (auto simp: calculateTargetsFromConfig_def Ok_simps dest: randomMaxTargets_subset)
  then show ?thesis using None assms(2) own_peers_spec [of "ce_MSPID env" "ce_channelPeers env" "[]"] by fastforce
qed (use assms in simp)

lemma query_config_agreed:
  assumes "ledger_QueryConfigBlock env ch (map PeerProcessor ts) (Some (TransactionProposalResponseVerifier env n)) w = Ok (Inr b, w')"
    and "\<And>xs. mset (ne_arrival env xs) = mset xs"
  shows "\<exists>qs bs. distinct (map peer_URL qs) \<and> set qs \<subseteq> set ts
     \<and> list_all2 (\<lambda>p. answered env None (createCommonBlock env) (PeerProcessor p)) qs bs
     \<and> 0 < n \<and> n \<le> int (length bs) \<and> b \<in> set bs \<and> (\<exists>d. \<forall>b' \<in> set bs. blk_Data b' = Some [d])"
proof -
  obtain tprs errs w1 t where 1: "queryChaincode env ch (createConfigBlockInvokeRequest ch) (map PeerProcessor ts)
      (Some (TransactionProposalResponseVerifier env n)) w = Ok ((tprs, errs), w1)" "tprv_Match env n tprs = Ok None"
    "tprs \<noteq> []" "createCommonBlock env (hd tprs) = Ok (Inr b)"
    using assms(1) by (auto simp: ledger_QueryConfigBlock_def Ok_simps TransactionProposalResponseVerifier_def)
  note m = tprv_Match_None [OF 1(2)]
  then obtain d where d: "\<forall>t \<in> set tprs. \<exists>b. createCommonBlock env t = Ok (Inr b) \<and> blk_Data b = Some [d]" by blast
  obtain f where f: "\<forall>t \<in> set tprs. createCommonBlock env t = Ok (Inr (f t)) \<and> blk_Data (f t) = Some [d]"
    using bchoice [OF d] by blast
  obtain qs where qs: "distinct (map peer_URL qs)" "set qs \<subseteq> set ts"
    "list_all2 (\<lambda>p r. (\<exists>sp w1 w2. ne_process env (PeerProcessor p) sp w1 = (Inr r, w2))
       \<and> accepted_by (Some (TransactionProposalResponseVerifier env n)) r) qs tprs"
    using queryChaincode_answers [OF 1(1) assms(2)] by blast
  have "list_all2 (\<lambda>p. answered env None (createCommonBlock env) (PeerProcessor p)) qs (map f tprs)"
    unfolding list_all2_map2 by (rule list.rel_mono_strong [OF qs(3)]) (use f in \<open>force simp: answered_def accepted_by_def\<close>)
  moreover have "b = f (hd tprs)" using 1(3,4) f by auto
  ultimately show ?thesis using qs(1,2) m f 1(3) by (intro exI [of _ qs] exI [of _ "map f tprs"]) auto
qed

text \<open>
  C22: A configuration block that is fetched from peers is one that they agree on.
\<close>
theorem config_block_agreed:
  assumes "queryBlockFromPeers env c w = Ok (Inr b, w')" "\<And>xs. mset (ne_arrival (re_net (ce_res env)) xs) = mset xs"
  shows "config_agreed env c b"
proof -
  let ?opts = "resolveOptsFromConfig (ce_f2_0 env) (ce_policy env) (cf_opts c)" and ?net = "re_net (ce_res env)"
  obtain ts w1 where 1: "(case co_Targets ?opts of None \<Rightarrow> calculateTargetsFromConfig env (cf_channelID c) ?opts | Some ts \<Rightarrow> Ok (Inr ts)) = Ok (Inr ts)"
    "retrying (ce_res env) (retryOpts ?opts) (ledger_QueryConfigBlock ?net (cf_channelID c) (map PeerProcessor ts)
        (Some (TransactionProposalResponseVerifier ?net (co_MinResponses ?opts)))) w = Ok (Inr b, w1)"
    using assms(1) unfolding queryBlockFromPeers_def Let_def by (auto simp: obind_eq_Ok if_Ok case_sum_Ok)
  from retrying_last [OF 1(2)] query_config_agreed [OF _ assms(2)] obtain qs bs where
    "distinct (map peer_URL qs)" "set qs \<subseteq> set ts" "list_all2 (\<lambda>p. answered ?net None (createCommonBlock ?net) (PeerProcessor p)) qs bs"
    "0 < co_MinResponses ?opts" "co_MinResponses ?opts \<le> int (length bs)" "b \<in> set bs" "\<exists>d. \<forall>b' \<in> set bs. blk_Data b' = Some [d]"
    by meson
  moreover have "\<forall>p \<in> set qs. case co_Targets ?opts of Some ts \<Rightarrow> p \<in> set ts
      | None \<Rightarrow> Inr (Some p) \<in> set (ce_channelPeers env) \<and> peer_MSPID p = ce_MSPID env"
    using config_targets [OF 1(1)] \<open>set qs \<subseteq> set ts\<close> by blast
  ultimately show ?thesis unfolding config_agreed_def by blast
qed

definition ex_res :: "('w, int, unit) resEnv" where
  "ex_res = \<lparr>re_net = ex_net, re_codec = ex_rescodec, re_cv = ex_dur, re_TLSCertHash = Inr [], re_now = 0, re_tsProto = Inr,
     re_draw = (\<lambda>n. 0), re_deliver = (\<lambda>r e w. (\<lparr>dl_events = [Inl ex_block], dl_closed = True, dl_left = []\<rparr>, w)),
     re_broadcast = (\<lambda>r e w. (Inr 200, w))\<rparr>"

definition ex_cfg_env :: "(unit, int, unit) cfgEnv" where
  "ex_cfg_env = \<lparr>ce_res = ex_res, ce_values = ex_values,
     ce_policy = \<lparr>qp_MinResponses = 2, qp_MaxTargets = 3,
       qp_RetryOpts = \<lparr>Attempts = 3, InitialBackoff = 5, MaxBackoff = 9, BackoffFactor = 2, RetryableCodes = []\<rparr>\<rparr>,
     ce_f2_0 = 2, ce_channelPeers = map (\<lambda>p. Inr (Some p)) ex_three, ce_MSPID = ''Org1'', ce_rand = (\<lambda>i. 0)\<rparr>"

definition ex_cfg :: "int ChannelConfig" where
  "ex_cfg = (case chconfig_New ''ch'' [] of Inr c \<Rightarrow> c)"

lemma retrying_code [code]:
  "retrying env opts m w = (case m w of
     Ok (Inr v, w') \<Rightarrow> Ok (Inr v, w')
   | _ \<Rightarrow> (case invoke_retry (ne_wire (re_net env)) (re_cv env) opts m w of None \<Rightarrow> Blocked | Some r \<Rightarrow> r))"
  by (auto simp: retrying_def invoke_retry_def as_invocation_def Invoke.simps split: outcome.split sum.split)

lemma ex_config_block: "(case queryBlockFromPeers ex_cfg_env ex_cfg () of Ok (Inr b, w) \<Rightarrow> b = ex_block | _ \<Rightarrow> False)"
  by code_simp

theorem config_block_agreed_witness: "config_agreed ex_cfg_env ex_cfg ex_block"
proof -
  obtain w' where "queryBlockFromPeers ex_cfg_env ex_cfg () = Ok (Inr ex_block, w')"
    using ex_config_block by (auto split: outcome.splits sum.splits prod.splits)
  then show ?thesis using config_block_agreed [of ex_cfg_env ex_cfg "()" ex_block w'] by (simp add: ex_cfg_env_def ex_res_def ex_net_def)
qed

end
