(* ===== verification/Resmgmt_Theorems.thy ===== *)
theory Resmgmt_Theorems
  imports Config_Theorems
begin

text \<open>
  What the resource management client guarantees: a deployment that succeeds is endorsed, verified and committed; a channel is joined
  by every target with the genesis block of the orderer; a chaincode is sent to exactly the targets that lack it; and a signature of a
  configuration survives being written and read back.
\<close>

section \<open>An example\<close>

text \<open>A client of a channel with the peers \<open>ex_three\<close>, of which the second is down.\<close>

definition ex_services :: "(nat cworld, int, bytes, bytes) chServices" where
  "ex_services = \<lparr>sv_Discovery = Inr (Inr ex_three), sv_Membership = Inr (), sv_Transactor = Inr (), sv_EventService = Inr (),
     sv_env = cx_env ex_client\<rparr>"

definition ex_rm :: "(nat cworld, int, bytes, bytes, unit) rmEnv" where
  "ex_rm = \<lparr>rm_res = ex_res, rm_MSPID = ''Org1'', rm_filter = None, rm_LocalPeers = Inr (Inr ex_three), rm_NewChannel = (\<lambda>c. Inr ex_services),
     rm_ChannelService = (\<lambda>c. Inr ex_services), rm_ChannelOrderers = (\<lambda>c. [''orderer0'']), rm_OrderersConfig = [], rm_CreateOrderer = Inr,
     rm_OrdererConfig = (\<lambda>k. (k, True, False)), rm_draw = 0, rm_LangName = (\<lambda>l. ''GOLANG''), rm_e_Deploy = (\<lambda>l i a. Inr [1]),
     rm_e_Policy = (\<lambda>p. Inr [2]), rm_e_Collections = (\<lambda>c. Inr [3]),
     rm_d_Signature = (\<lambda>b. Inr \<lparr>cs_SignatureHeader = take 2 b, cs_Signature = drop 2 b\<rparr>),
     rm_e_Signature = (\<lambda>s. Inr (cs_SignatureHeader s @ cs_Signature s))\<rparr>"

definition ex_targets :: "peer option list" where
  "ex_targets = [Some (mkPeer 0 ''grpc://p0'' ''Org1'' None), Some (mkPeer 2 ''grpc://p2'' ''Org1'' None)]"

definition ex_info :: ChaincodeInfo where
  "ex_info = \<lparr>cci_Name = ''cc'', cci_Version = ''1'', cci_Path = ''path''\<rparr>"

definition ex_install :: InstallChaincodeRequest where
  "ex_install = \<lparr>icr_Info = ex_info, icr_Package = Some (1, [4])\<rparr>"

definition ex_instantiate :: InstantiateCCRequest where
  "ex_instantiate = \<lparr>ic_Info = ex_info, ic_Lang = 0, ic_Args = [], ic_Policy = Some \<lparr>spe_Rule = None, spe_Identities = []\<rparr>, ic_CollConfig = None\<rparr>"

section \<open>Instantiating and upgrading\<close>

lemma case_awaited_Ok [Ok_cases]:
  "(case a of TxStatus c \<Rightarrow> f c | NotifierClosed \<Rightarrow> Panic | CtxDone \<Rightarrow> g) = Ok r \<longleftrightarrow> (\<exists>c. a = TxStatus c \<and> f c = Ok r) \<or> a = CtxDone \<and> g = Ok r"
  by (cases a) simp_all

lemma guard_Inr [simp]: "(if b then Inl e else Inr x) = Inr y \<longleftrightarrow> \<not> b \<and> x = y"
  by simp

lemma sendTransaction_success:
  assumes "sendTransactionAndCheckEvent env tp rs w = Ok ((txid, None), w')" "cl_CreateTransaction (ie_cl env) = txn_New (ie_pc env)"
  shows "sent_and_valid env (Some tp) txid rs w'"
proof -
  obtain reg w1 where 1: "cl_RegisterTxStatusEvent (ie_cl env) (tp_TxnID tp) w = (Inr reg, w1)"
    using assms(1) by (auto simp: sendTransactionAndCheckEvent_def Ok_simps)
  obtain u w2 w3 where 2: "createAndSendTransaction env (Some tp) rs w1 = Ok (Inr u, w2)"
    "cl_AwaitTxStatus (ie_cl env) reg w2 = Ok (TxStatus TxValidationCode_VALID, w3)" "w' = cl_Unregister (ie_cl env) reg w3" "txid = tp_TxnID tp"
    using assms(1) 1 by (auto simp: sendTransactionAndCheckEvent_def Ok_simps case_awaited_Ok split: if_split_asm)
  obtain t o' where 3: "txn_New (ie_pc env) (Some tp) rs = Ok (Inr t)" "cl_SendTransaction (ie_cl env) t w1 = Ok ((o', None), w2)"
    using createAndSendTransaction_Inr [OF 2(1)] assms(2) by auto
  show ?thesis unfolding sent_and_valid_def 2(4) by (intro exI conjI) (rule refl 1 2(2,3) 3)+
qed

text \<open>
  What an instantiation or an upgrade asks of the life cycle chaincode: the function \<open>fcn\<close> with the channel, the encoded
  deployment of the request's chaincode in its language (Go, if none is given), its encoded policy, the system
  chaincodes for endorsement and validation, and its encoded collections if it has any.
\<close>

definition deploy_request :: "('w, 'f, 'kv, 'h, 'p) rmEnv \<Rightarrow> string \<Rightarrow> string \<Rightarrow> InstantiateCCRequest \<Rightarrow> ChaincodeInvokeRequest \<Rightarrow> bool" where
  "deploy_request env fcn channelID req cir \<longleftrightarrow> (\<exists>lang deployment policy pol colls.
     lang = (if ic_Lang req = 0 \<or> rm_LangName env (ic_Lang req) = [] then 1 else ic_Lang req)
     \<and> rm_e_Deploy env lang (ic_Info req) (ic_Args req) = Inr deployment
     \<and> ic_Policy req = Some policy \<and> rm_e_Policy env policy = Inr pol
     \<and> (case ic_CollConfig req of None \<Rightarrow> colls = [] | Some cs \<Rightarrow> \<exists>b. rm_e_Collections env cs = Inr b \<and> colls = [b])
     \<and> cir = \<lparr>ir_ChaincodeID = ''lscc'', ir_Lang = lang, ir_TransientMap = [], ir_Fcn = fcn,
         ir_Args = string_bytes channelID # deployment # pol # string_bytes ''escc'' # string_bytes ''vscc'' # colls, ir_IsInit = False\<rparr>)"

lemma createTP_request:
  assumes "createTP env ctx req' channelID deploy = Ok (Inr tp, txid)" "checkRequiredCCProposalParams env channelID req = Inr req'"
  shows "\<exists>txh cir. NewHeader ctx (ne_random (re_net (rm_res env))) channelID [] = Inr txh
    \<and> deploy_request env (case deploy of InstantiateChaincode \<Rightarrow> ''deploy'' | UpgradeChaincode \<Rightarrow> ''upgrade'') channelID req cir
    \<and> CreateChaincodeInvokeProposal (ne_pc (re_net (rm_res env))) (ne_timestamp (re_net (rm_res env))) txh cir = Ok (Inr tp)"
proof -
  have req': "req' = req\<lparr>ic_Lang := (if ic_Lang req = 0 \<or> rm_LangName env (ic_Lang req) = [] then 1 else ic_Lang req)\<rparr>" "ic_Policy req \<noteq> None"
    using assms(2) by (auto simp: checkRequiredCCProposalParams_def ChaincodeSpec_GOLANG_def split: if_split_asm)
  obtain txh where 1: "NewHeader ctx (ne_random (re_net (rm_res env))) channelID [] = Inr txh"
    "createChaincodeDeployProposal env txh deploy channelID req' = Ok (Inr tp)"
    using assms(1) by (auto simp: createTP_def Ok_simps)
  obtain policy where p: "ic_Policy req = Some policy" "ic_Policy req' = Some policy" using req' by auto
  obtain ds pol colls where 2: "rm_e_Deploy env (ic_Lang req') (ic_Info req') (ic_Args req') = Inr ds" "rm_e_Policy env policy = Inr pol"
    "(case ic_CollConfig req' of None \<Rightarrow> Inr []
        | Some cs \<Rightarrow> rbind (wrap_err ''marshal of collection policy failed'' (rm_e_Collections env cs)) (\<lambda>b. Inr [b])) = Inr colls"
    "CreateChaincodeInvokeProposal (ne_pc (re_net (rm_res env))) (ne_timestamp (re_net (rm_res env))) txh
       ((sysRequest ''lscc'' (case deploy of InstantiateChaincode \<Rightarrow> ''deploy'' | UpgradeChaincode \<Rightarrow> ''upgrade'')
         ([string_bytes channelID, ds, pol, string_bytes ''escc'', string_bytes ''vscc''] @ colls))\<lparr>ir_Lang := ic_Lang req'\<rparr>) = Ok (Inr tp)"
    using 1(2) p(2) by (auto simp: createChaincodeDeployProposal_def Ok_simps)
  have "case ic_CollConfig req of None \<Rightarrow> colls = [] | Some cs \<Rightarrow> \<exists>b. rm_e_Collections env cs = Inr b \<and> colls = [b]"
    using 2(3) req'(1) by (auto simp: rbind_eq_Inr split: option.splits)
  then have "deploy_request env (case deploy of InstantiateChaincode \<Rightarrow> ''deploy'' | UpgradeChaincode \<Rightarrow> ''upgrade'') channelID req
     ((sysRequest ''lscc'' (case deploy of InstantiateChaincode \<Rightarrow> ''deploy'' | UpgradeChaincode \<Rightarrow> ''upgrade'')
         ([string_bytes channelID, ds, pol, string_bytes ''escc'', string_bytes ''vscc''] @ colls))\<lparr>ir_Lang := ic_Lang req'\<rparr>)"
    using 2(1,2) p(1) req'(1) unfolding deploy_request_def
    by (intro exI [of _ "ic_Lang req'"] exI [of _ ds] exI [of _ policy] exI [of _ pol] exI [of _ colls]) (simp add: sysRequest_def)
  then show ?thesis using 1(1) 2(4) by blast
qed

text \<open>
  C18: An instantiation or an upgrade that returns without an error has been endorsed and committed: the proposal made of the request,
  which calls \<open>deploy\<close> for an instantiation and \<open>upgrade\<close> for an upgrade with the channel, chaincode, policy and collections of the request,
  was sent to the targets of the options, all of their responses are successful and verified, and the transaction made of them was
  sent to the orderers after registering for its status, and was received as valid.
\<close>
theorem deployment_commits:
  assumes "(operation, fcn) \<in> {(InstantiateCC, ''deploy''), (UpgradeCC, ''upgrade'')}"
    and "operation env ctx channelID req options w = Ok ((txid, None), w')"
    and "rm_ChannelService env channelID = Inr sv" "cl_CreateTransaction (ie_cl (sv_env sv)) = txn_New (ie_pc (sv_env sv))"
  shows "\<exists>opts targets txh cir tp responses w1. prepareRequestOpts options = Inr opts \<and> getCCProposalTargets env channelID opts = Inr targets
    \<and> NewHeader ctx (ne_random (re_net (rm_res env))) channelID [] = Inr txh \<and> deploy_request env fcn channelID req cir
    \<and> CreateChaincodeInvokeProposal (ne_pc (re_net (rm_res env))) (ne_timestamp (re_net (rm_res env))) txh cir = Ok (Inr tp)
    \<and> cl_SendTransactionProposal (ie_cl (sv_env sv)) (Some tp) (PeersToTxnProcessors targets) w = ((responses, None), w1)
    \<and> (\<forall>r \<in> set responses. successful (ie_pc (sv_env sv)) r \<and> verified (sv_env sv) r)
    \<and> sent_and_valid (sv_env sv) (Some tp) txid responses w'"
proof -
  obtain deploy opts where 1: "prepareRequestOpts options = Inr opts" "sendCCProposal env ctx deploy channelID req opts w = Ok ((txid, None), w')"
    and fcn: "fcn = (case deploy of InstantiateChaincode \<Rightarrow> ''deploy'' | UpgradeChaincode \<Rightarrow> ''upgrade'')"
  proof -
    consider "operation = InstantiateCC" "fcn = ''deploy''" | "operation = UpgradeCC" "fcn = ''upgrade''" using assms(1) by auto
    then show thesis
    proof cases
      case 1
      then show ?thesis using assms(2) that [of _ InstantiateChaincode] by (auto simp: InstantiateCC_def Ok_simps)
    next
      case 2
      then show ?thesis using assms(2) that [of _ UpgradeChaincode] by (auto simp: UpgradeCC_def Ok_simps)
    qed
  qed
  obtain req' targets tp txnID responses w1 where 2: "getCCProposalTargets env channelID opts = Inr targets"
    "cl_SendTransactionProposal (ie_cl (sv_env sv)) (Some tp) (PeersToTxnProcessors targets) w = ((responses, None), w1)"
    "verifyTPSignature sv responses = Ok None" "sendTransactionAndCheckEvent (sv_env sv) tp responses w1 = Ok ((txid, None), w')"
    "checkRequiredCCProposalParams env channelID req = Inr req'" "createTP env ctx req' channelID deploy = Ok (Inr tp, txnID)"
    using 1(2) assms(3) by (auto simp: sendCCProposal_def Ok_simps)
  have "sv_validate (sv_env sv) responses = Ok None" using 2(3) by (auto simp: verifyTPSignature_def Ok_simps)
  then have "\<forall>r \<in> set responses. successful (ie_pc (sv_env sv)) r \<and> verified (sv_env sv) r" using sv_validate_None by blast
  then show ?thesis
    using 1(1) 2(1,2) createTP_request [OF 2(6,5)] sendTransaction_success [OF 2(4) assms(4)] unfolding fcn by blast
qed

lemma ex_instantiate_run: "(case InstantiateCC ex_rm ex_ctx ''ch'' ex_instantiate [WithTargets ex_targets] ex_world of
    Ok ((t, None), w) \<Rightarrow> t = ''070201'' | _ \<Rightarrow> False)"
  by code_simp

theorem deployment_commits_witness:
  "\<exists>w' tp cir. InstantiateCC ex_rm ex_ctx ''ch'' ex_instantiate [WithTargets ex_targets] ex_world = Ok ((''070201'', None), w')
    \<and> deploy_request ex_rm ''deploy'' ''ch'' ex_instantiate cir \<and> (\<exists>responses. sent_and_valid (cx_env ex_client) (Some tp) ''070201'' responses w')"
proof -
  obtain w' where r: "InstantiateCC ex_rm ex_ctx ''ch'' ex_instantiate [WithTargets ex_targets] ex_world = Ok ((''070201'', None), w')"
    using ex_instantiate_run by (auto split: outcome.splits option.splits prod.splits)
  have "rm_ChannelService ex_rm ''ch'' = Inr ex_services" by (simp add: ex_rm_def)
  moreover have "cl_CreateTransaction (ie_cl (sv_env ex_services)) = txn_New (ie_pc (sv_env ex_services))"
    by (simp add: ex_services_def ex_client_def ex_cl_def)
  moreover have "sv_env ex_services = cx_env ex_client" by (simp add: ex_services_def)
  moreover have "(InstantiateCC, ''deploy'') \<in> {(InstantiateCC, ''deploy''), (UpgradeCC, ''upgrade'')}" by simp
  ultimately show ?thesis using deployment_commits [of InstantiateCC "''deploy''", OF _ r] r by metis
qed

section \<open>Joining a channel\<close>

text \<open>A peer has answered a request with the status 200, the request being signed by the client.\<close>

definition accepts_request :: "('w, 'f, 'p) resEnv \<Rightarrow> ChaincodeInvokeRequest \<Rightarrow> ProposalProcessor \<Rightarrow> bool" where
  "accepts_request env req p \<longleftrightarrow> (\<exists>ctx txh tp sp w0 r w1. ne_ctx (re_net env) = Some ctx
     \<and> CreateChaincodeInvokeProposal (ne_pc (re_net env)) (ne_timestamp (re_net env)) txh req = Ok (Inr tp)
     \<and> signProposal (ne_pc (re_net env)) ctx (tp_Proposal tp) = Inr sp
     \<and> ne_process (re_net env) p sp w0 = (Inr r, w1) \<and> tpr_Status r = StatusOK)"

lemma send_invocation_single:
  assumes "send_invocation net ctx tp [p] w = Ok (Inr (r # rs), w')" "\<And>xs. mset (ne_arrival net xs) = mset xs"
  shows "\<exists>sp w0 w1. signProposal (ne_pc net) ctx (tp_Proposal tp) = Inr sp \<and> ne_process net p sp w0 = (Inr r, w1)"
proof -
  have d: "getTargetsWithoutDuplicates [p] = [p]" by (cases p) (simp_all add: getTargetsWithoutDuplicates_def)
  have a: "ne_arrival net [p] = [p]" using assms(2) [of "[p]"] by simp
  show ?thesis using assms(1) d a
    by (auto simp: send_invocation_def SendProposal_def Ok_simps split: prod.split_asm sum.split_asm option.split_asm)
qed

lemma query_target_accepts:
  assumes "queryChaincodeWithTarget env req p opts w = Ok (Inr b, w')" "\<And>xs. mset (ne_arrival (re_net env) xs) = mset xs"
  shows "accepts_request env req p"
proof -
  obtain ctx txh tp r rs w1 where 1: "ne_ctx (re_net env) = Some ctx"
    "CreateChaincodeInvokeProposal (ne_pc (re_net env)) (ne_timestamp (re_net env)) txh req = Ok (Inr tp)"
    "retrying env opts (send_invocation (re_net env) ctx tp [p]) w = Ok (Inr (r # rs), w1)" "validateResponse r = None"
    using assms(1) by (auto simp: queryChaincodeWithTarget_def Ok_simps)
  obtain w0 where "send_invocation (re_net env) ctx tp [p] w0 = Ok (Inr (r # rs), w1)" using retrying_last [OF 1(3)] by blast
  from send_invocation_single [OF this assms(2)] obtain sp w2 w3 where
    "signProposal (ne_pc (re_net env)) ctx (tp_Proposal tp) = Inr sp" "ne_process (re_net env) p sp w2 = (Inr r, w3)" by blast
  moreover have "tpr_Status r = StatusOK" using 1(4) by (simp add: validateResponse_def split: if_split_asm)
  ultimately show ?thesis unfolding accepts_request_def using 1(1,2) by blast
qed

lemma join_each_none:
  "join_each f ts errs w = Ok ([], w') \<Longrightarrow> errs = [] \<and> (\<forall>t \<in> set ts. \<exists>w0 a w1. f t w0 = Ok (Inr a, w1))"
proof (induction ts arbitrary: errs w)
  case (Cons t ts)
  then obtain r w1 where 1: "f t w = Ok (r, w1)" by (auto simp: Ok_simps)
  with Cons show ?case by (cases r) fastforce+
qed simp

text \<open>
  When a channel is joined without an error, there is at least one target, and every target has accepted the request to join with the
  genesis block that the orderer has returned.
\<close>
theorem join_complete:
  assumes "rm_JoinChannel env channelID options w = Ok (None, w')" "\<And>xs. mset (ne_arrival (re_net (rm_res env)) xs) = mset xs"
  shows "\<exists>opts targets orderer g cir w1. prepareRequestOpts options = Inr opts \<and> targets \<noteq> []
    \<and> calculateTargets env (ro_Targets opts) (ro_TargetFilter opts) = Inr targets
    \<and> requestOrderer env opts channelID = Inr orderer
    \<and> GenesisBlockFromOrderer (rm_res env) channelID orderer (ro_Retry opts) w = Ok (Inr (Some g), w1)
    \<and> createJoinChannelInvokeRequest (re_codec (rm_res env)) g = Inr cir
    \<and> (\<forall>p \<in> set targets. accepts_request (rm_res env) cir (PeerProcessor p))"
proof -
  let ?r = "rm_res env"
  obtain opts targets orderer g w1 where 1: "prepareRequestOpts options = Inr opts" "targets \<noteq> []"
    "calculateTargets env (ro_Targets opts) (ro_TargetFilter opts) = Inr targets" "requestOrderer env opts channelID = Inr orderer"
    "GenesisBlockFromOrderer ?r channelID orderer (ro_Retry opts) w = Ok (Inr g, w1)"
    "JoinChannel ?r g (map PeerProcessor targets) (ro_Retry opts) w1 = Ok (None, w')"
    using assms(1) by (auto simp: rm_JoinChannel_def Ok_simps split: if_split_asm)
  obtain b cir where 2: "g = Some b" "createJoinChannelInvokeRequest (re_codec ?r) b = Inr cir"
    "join_each (\<lambda>t. queryChaincodeWithTarget ?r cir t (ro_Retry opts)) (ne_arrival (re_net ?r) (map PeerProcessor targets)) [] w1 = Ok ([], w')"
    using 1(6) by (auto simp: JoinChannel_def Ok_simps)
  have "accepts_request ?r cir t" if "t \<in> set (ne_arrival (re_net ?r) (map PeerProcessor targets))" for t
    using join_each_none [OF 2(3)] that query_target_accepts [OF _ assms(2)] by blast
  moreover have "set (ne_arrival (re_net ?r) (map PeerProcessor targets)) = PeerProcessor ` set targets"
    using mset_eq_setD [OF assms(2)] by simp
  ultimately show ?thesis using 1(1-5) 2(1,2) by blast
qed

lemma ex_join_run: "(case rm_JoinChannel ex_rm ''ch'' [WithTargets ex_targets] ex_world of Ok (None, w) \<Rightarrow> True | _ \<Rightarrow> False)"
  by code_simp

theorem join_complete_witness:
  "\<exists>g cir p. createJoinChannelInvokeRequest (re_codec (rm_res ex_rm)) g = Inr cir \<and> accepts_request (rm_res ex_rm) cir (PeerProcessor p)"
proof -
  obtain w' where r: "rm_JoinChannel ex_rm ''ch'' [WithTargets ex_targets] ex_world = Ok (None, w')"
    using ex_join_run by (auto split: outcome.splits option.splits prod.splits)
  have "mset (ne_arrival (re_net (rm_res ex_rm)) xs) = mset xs" for xs by (simp add: ex_rm_def ex_res_def ex_net_def)
  from join_complete [OF r this] show ?thesis by (metis list.set_intros(1) neq_Nil_conv)
qed

section \<open>Installing a chaincode\<close>

text \<open>The targets that have, and those that lack the chaincode, with what each has answered.\<close>

definition having :: "(peer \<times> bool res) list \<Rightarrow> peer list" where
  "having rs = map fst (filter (\<lambda>(t, r). r = Inr True) rs)"

definition lacking :: "(peer \<times> bool res) list \<Rightarrow> peer list" where
  "lacking rs = map fst (filter (\<lambda>(t, r). r = Inr False) rs)"

definition already :: "peer \<Rightarrow> InstallCCResponse" where
  "already t = \<lparr>ir_Target = peer_URL t, ir_Status = 0, ir_Info = ''already installed''\<rparr>"

text \<open>The targets are asked one after another, each in the state of the network that the one before has left.\<close>

primrec asked :: "('w, 'f::{linorder,times,zero}, 'kv, 'h, 'p) rmEnv \<Rightarrow> InstallChaincodeRequest \<Rightarrow> 'f Retry.Opts \<Rightarrow> (peer \<times> bool res) list
    \<Rightarrow> 'w \<Rightarrow> 'w \<Rightarrow> bool" where
  "asked env req retry [] w w' \<longleftrightarrow> w' = w"
| "asked env req retry (q # rs) w w' \<longleftrightarrow>
     (\<exists>w1. isChaincodeInstalled env req (fst q) retry w = Ok (snd q, w1) \<and> asked env req retry rs w1 w')"

lemma adjustTargets_spec:
  assumes "adjustTargets env ts req retry rsp nts errs w = Ok ((rsp', nts', errs'), w')"
  shows "\<exists>rs. map fst rs = ts \<and> asked env req retry rs w w'
    \<and> rsp' = rsp @ map already (having rs) \<and> nts' = nts @ lacking rs
    \<and> length errs' = length errs + length (filter (\<lambda>(t, r). isl r) rs)"
  using assms
proof (induction ts arbitrary: rsp nts errs w)
  case (Cons t ts)
  obtain r w1 where 1: "isChaincodeInstalled env req t retry w = Ok (r, w1)" using Cons.prems by (auto simp: Ok_simps)
  obtain rsp1 nts1 errs1 where 2: "adjustTargets env ts req retry rsp1 nts1 errs1 w1 = Ok ((rsp', nts', errs'), w')"
    "rsp1 = rsp @ map already (having [(t, r)])" "nts1 = nts @ lacking [(t, r)]" "length errs1 = length errs + (if isl r then 1 else 0)"
    using Cons.prems 1 by (cases r) (auto simp: having_def lacking_def already_def split: if_split_asm)
  from Cons.IH [OF 2(1)] obtain rs where 3: "map fst rs = ts" "asked env req retry rs w1 w'"
    "rsp' = rsp1 @ map already (having rs)" "nts' = nts1 @ lacking rs" "length errs' = length errs1 + length (filter (\<lambda>(t, r). isl r) rs)"
    by blast
  show ?case using 1 2(2-4) 3 by (intro exI [of _ "(t, r) # rs"]) (auto simp: having_def lacking_def)
qed (intro exI [of _ "[]"], simp add: having_def lacking_def)

text \<open>
  C30: An installation that succeeds has asked every target, one after the other in their order, whether it has the chaincode, and all of
  them have answered; the targets are the ones of the options, or the default ones if these name none, that the filter of the options
  accepts. The targets that have it are reported as such; if any lacks it, the package has then been sent to exactly those, and their
  responses are reported after the others.
\<close>
theorem install_complete:
  assumes "InstallCC env req options w = Ok ((responses, None), w')"
  shows "\<exists>opts ts0 targets rs w1. prepareRequestOpts options = Inr opts \<and> resolveDefaultTargets env opts = Inr ts0
    \<and> calculateTargets env ts0 (ro_TargetFilter opts) = Inr targets \<and> targets \<noteq> []
    \<and> map fst rs = targets \<and> asked env req (ro_Retry opts) rs w w1 \<and> (\<forall>(t, r) \<in> set rs. \<exists>b. r = Inr b)
    \<and> mset targets = mset (having rs) + mset (lacking rs)
    \<and> (lacking rs = [] \<and> w' = w1 \<and> responses = map already (having rs)
       \<or> (\<exists>tprs txid. lacking rs \<noteq> [] \<and> InstallChaincode (rm_res env) req (map PeerProcessor (lacking rs)) zeroOpts w1 = Ok (Inr (tprs, txid), w')
          \<and> responses = map already (having rs) @ map (\<lambda>v. \<lparr>ir_Target = tpr_Endorser v, ir_Status = tpr_Status v, ir_Info = []\<rparr>) tprs))"
proof -
  obtain opts ts0 targets rsp nts errs w1 where 1: "prepareRequestOpts options = Inr opts" "targets \<noteq> []"
    "resolveDefaultTargets env opts = Inr ts0" "calculateTargets env ts0 (ro_TargetFilter opts) = Inr targets" and
    adj: "adjustTargets env targets req (ro_Retry opts) [] [] [] w = Ok ((rsp, nts, errs), w1)" and
    2: "(if length nts = 0 then Ok ((rsp, ToError errs), w1)
         else obind (sendInstallCCRequest env req nts rsp w1) (\<lambda>((responses1, err), w2).
              Ok ((responses1, ToError (case err of None \<Rightarrow> errs | Some e \<Rightarrow> errs @ [e])), w2))) = Ok ((responses, None), w')"
    using assms by (auto simp: InstallCC_def obind_eq_Ok case_option_Ok case_sum_Ok case_prod_Ok rbind_eq_Inr)
  from adjustTargets_spec [OF adj] obtain rs where 3: "map fst rs = targets"
    "asked env req (ro_Retry opts) rs w w1"
    "rsp = map already (having rs)" "nts = lacking rs" "length errs = length (filter (\<lambda>(t, r). isl r) rs)" by auto
  have "errs = []" using 2 by (auto simp: Ok_simps split: if_split_asm option.split_asm)
  then have l: "\<forall>(t, r) \<in> set rs. \<not> isl r" using 3(5) by (auto simp: filter_empty_conv)
  have two: "\<not> isl r \<Longrightarrow> r = Inr True \<or> r = Inr False" for r :: "bool res" by (cases r) auto
  have ans: "\<forall>(t, r) \<in> set rs. r = Inr True \<or> r = Inr False" using l two by auto
  then have "mset (map fst rs) = mset (having rs) + mset (lacking rs)" by (induction rs) (auto simp: having_def lacking_def)
  then have m: "mset targets = mset (having rs) + mset (lacking rs)" by (simp only: 3(1))
  have "lacking rs = [] \<and> w' = w1 \<and> responses = map already (having rs)
       \<or> (\<exists>tprs txid. lacking rs \<noteq> [] \<and> InstallChaincode (rm_res env) req (map PeerProcessor (lacking rs)) zeroOpts w1 = Ok (Inr (tprs, txid), w')
          \<and> responses = map already (having rs) @ map (\<lambda>v. \<lparr>ir_Target = tpr_Endorser v, ir_Status = tpr_Status v, ir_Info = []\<rparr>) tprs)"
    using 2 3(3,4) by (auto simp: sendInstallCCRequest_def Ok_simps split: if_split_asm option.split_asm)
  moreover have "\<forall>(t, r) \<in> set rs. \<exists>b. r = Inr b" using ans by auto
  ultimately show ?thesis using 1 3(1,2) m by blast
qed

lemma ex_install_run: "(case InstallCC ex_rm ex_install [WithTargets ex_targets] ex_world of
    Ok ((rs, None), w) \<Rightarrow> map ir_Target rs = [''p0'', ''p0''] | _ \<Rightarrow> False)"
  by code_simp

theorem install_complete_witness:
  "\<exists>responses w' rs. InstallCC ex_rm ex_install [WithTargets ex_targets] ex_world = Ok ((responses, None), w') \<and> length responses = 2
    \<and> mset (map fst rs) = mset (having rs) + mset (lacking rs)"
proof -
  obtain responses w' where r: "InstallCC ex_rm ex_install [WithTargets ex_targets] ex_world = Ok ((responses, None), w')"
    "map ir_Target responses = [''p0'', ''p0'']"
    using ex_install_run by (auto split: outcome.splits option.splits prod.splits)
  have "length responses = 2" using arg_cong [OF r(2), of length] by simp
  moreover obtain rs :: "(peer \<times> bool res) list" where "mset (map fst rs) = mset (having rs) + mset (lacking rs)"
    using install_complete [OF r(1)] by (elim exE conjE) metis
  ultimately show ?thesis using r(1) by blast
qed

section \<open>Signatures\<close>

lemma read_chunks:
  assumes "\<forall>x \<in> set r. fst x \<noteq> [] \<and> (snd x = RNil \<or> snd x = REof)"
  shows "readConfigSignatureArray r arr = Inr (arr @ concat (map fst r))"
  using assms by (induction r arbitrary: arr) (auto split: read_end.split)

text \<open>
  A signature of a configuration that is marshalled and read back, in whatever chunks a reader returns its bytes, is the same, and it
  is added to the signatures of the request: provided the decoder inverts the encoder, and no read returns without bytes before the end.
\<close>
theorem signature_round_trip:
  assumes "MarshalConfigSignature env sig = Inr b" "rm_d_Signature env b = Inr sig"
    and "concat (map fst r) = b" "\<forall>x \<in> set r. fst x \<noteq> [] \<and> (snd x = RNil \<or> snd x = REof)"
  shows "UnmarshalConfigSignature env r = Inr sig \<and> createConfigSignatureOption env r opts
    = Inr (opts\<lparr>ro_Signatures := Some ((case ro_Signatures opts of None \<Rightarrow> [] | Some l \<Rightarrow> l) @ [sig])\<rparr>)"
  using read_chunks [OF assms(4), of "[]"] assms(2,3) by (simp add: UnmarshalConfigSignature_def createConfigSignatureOption_def)

theorem signature_round_trip_witness:
  "UnmarshalConfigSignature ex_rm [([5, 6, 7], RNil), ([8], REof)] = Inr \<lparr>cs_SignatureHeader = [5, 6], cs_Signature = [7, 8]\<rparr>"
  using signature_round_trip [of ex_rm "\<lparr>cs_SignatureHeader = [5, 6], cs_Signature = [7, 8]\<rparr>" "[5, 6, 7, 8]" "[([5, 6, 7], RNil), ([8], REof)]"]
  by (simp add: MarshalConfigSignature_def ex_rm_def)

text \<open>A reader may return no byte and no error before its end: what follows is not read.\<close>

lemma empty_read_truncates: "readConfigSignatureArray [([1], RNil), ([], RNil), ([2], REof)] [] = Inr [1]"
  by simp

end
