(* ===== verification/Lifecycle_Theorems.thy ===== *)
theory Lifecycle_Theorems
  imports Lifecycle_Client Resmgmt_Theorems
begin

text \<open>
  What the chaincode lifecycle guarantees: an approval or a commit that succeeds is endorsed, verified and committed; the answer to a
  query is one that all targets gave; a definition that is approved is read back as it was; and a package is sent to exactly the targets
  that lack it.
\<close>

section \<open>Approving and committing\<close>

lemma prepare_Inr:
  "prepare env ctx channelID opts = Inr (targets, sv, txh) \<longleftrightarrow> getCCProposalTargets env channelID opts = Inr targets
     \<and> rm_ChannelService env channelID = Inr sv \<and> sv_Transactor sv = Inr () \<and> NewHeader ctx (ne_random (re_net (rm_res env))) channelID [] = Inr txh"
  by (auto simp: prepare_def rbind_eq_Inr)

lemma verifyTPSignature_None:
  "verifyTPSignature sv rs = Ok None \<longleftrightarrow> sv_Membership sv = Inr () \<and> (\<forall>r \<in> set rs. successful (ie_pc (sv_env sv)) r \<and> verified (sv_env sv) r)"
  by (auto simp: verifyTPSignature_def Ok_simps sv_validate_None)

text \<open>
  C19: An approval or a commit that returns without an error has been endorsed: the proposal for the definition was sent to the targets, all
  of their responses are successful and verified, and the transaction made of them was sent to the orderers after registering for its
  status, and was received as valid.
\<close>
theorem lifecycle_commits:
  assumes "LifecycleApproveCC env lf ctx channelID areq options w = Ok ((txid, None), w')
      \<or> LifecycleCommitCC env lf ctx channelID creq options w = Ok ((txid, None), w')"
    and "rm_ChannelService env channelID = Inr sv" "cl_CreateTransaction (ie_cl (sv_env sv)) = txn_New (ie_pc (sv_env sv))"
  shows "\<exists>opts targets txh tp responses w1. prepareRequestOpts options = Inr opts \<and> getCCProposalTargets env channelID opts = Inr targets
    \<and> (CreateApproveProposal (re_net (rm_res env)) lf txh areq = Ok (Inr tp) \<or> CreateCommitProposal (re_net (rm_res env)) lf txh creq = Ok (Inr tp))
    \<and> cl_SendTransactionProposal (ie_cl (sv_env sv)) (Some tp) (PeersToTxnProcessors targets) w = ((responses, None), w1)
    \<and> (\<forall>r \<in> set responses. successful (ie_pc (sv_env sv)) r \<and> verified (sv_env sv) r)
    \<and> sent_and_valid (sv_env sv) (Some tp) txid responses w'"
proof -
  obtain opts what create where 1: "prepareRequestOpts options = Inr opts" "endorse_and_commit env ctx what channelID opts create w = Ok ((txid, None), w')"
    "create = (\<lambda>txh. CreateApproveProposal (re_net (rm_res env)) lf txh areq) \<or> create = (\<lambda>txh. CreateCommitProposal (re_net (rm_res env)) lf txh creq)"
    using assms(1) by (auto simp: LifecycleApproveCC_def LifecycleCommitCC_def processor_approve_def processor_commit_def Ok_simps)
  obtain targets txh tp responses w1 where 2: "getCCProposalTargets env channelID opts = Inr targets" "create txh = Ok (Inr tp)"
    "cl_SendTransactionProposal (ie_cl (sv_env sv)) (Some tp) (PeersToTxnProcessors targets) w = ((responses, None), w1)"
    "verifyTPSignature sv responses = Ok None" "sendTransactionAndCheckEvent (sv_env sv) tp responses w1 = Ok ((txid, None), w')"
    using 1(2) assms(2) by (auto simp: endorse_and_commit_def Ok_simps prepare_Inr)
  have "CreateApproveProposal (re_net (rm_res env)) lf txh areq = Ok (Inr tp) \<or> CreateCommitProposal (re_net (rm_res env)) lf txh creq = Ok (Inr tp)"
    using 1(3) 2(2) by auto
  then show ?thesis using 1(1) 2(1,3) verifyTPSignature_None [of sv responses] 2(4) sendTransaction_success [OF 2(5) assms(3)] by blast
qed

section \<open>Queries of definitions\<close>

lemma get_response_Ok: "get_response r = Ok x \<longleftrightarrow> Option.bind (tpr_ProposalResponse r) pr_Response = Some x"
  by (auto simp: get_response_def split: option.split)

lemma responses_match_None:
  "responses_match um rs (Some (m, s)) = Ok None \<longleftrightarrow> (\<forall>r \<in> set rs. \<exists>x. get_response r = Ok x \<and> um (r_Payload x) = Inr m \<and> r_Status x = s)"
  by (induction rs) (auto simp: Ok_simps)

lemma verifyResponsesMatch_None:
  "verifyResponsesMatch (r # rs) um = Ok None \<longleftrightarrow>
     (\<exists>m s. \<forall>r \<in> set (r # rs). \<exists>x. get_response r = Ok x \<and> um (r_Payload x) = Inr m \<and> r_Status x = s)"
  unfolding verifyResponsesMatch_def by (auto simp: Ok_simps responses_match_None)

lemma query_definitions_agreed:
  assumes "query_definitions env ctx channelID opts create failed failed_send failed_verify um result w = Ok (Inr v, w')"
    and "rm_ChannelService env channelID = Inr sv"
  shows "\<exists>targets txh tp responses m s x. getCCProposalTargets env channelID opts = Inr targets
    \<and> NewHeader ctx (ne_random (re_net (rm_res env))) channelID [] = Inr txh \<and> create txh = Ok (Inr tp)
    \<and> cl_SendTransactionProposal (ie_cl (sv_env sv)) (Some tp) (PeersToTxnProcessors targets) w = ((responses, None), w')
    \<and> responses \<noteq> [] \<and> (\<forall>r \<in> set responses. successful (ie_pc (sv_env sv)) r \<and> verified (sv_env sv) r)
    \<and> (\<forall>r \<in> set responses. \<exists>x. get_response r = Ok x \<and> um (r_Payload x) = Inr m \<and> r_Status x = s)
    \<and> get_response (hd responses) = Ok x \<and> result (r_Payload x) = Inr v"
proof -
  obtain targets sv' txh where p: "prepare env ctx channelID opts = Inr (targets, sv', txh)"
    using assms(1) by (cases "prepare env ctx channelID opts") (auto simp: query_definitions_def)
  then have pr: "getCCProposalTargets env channelID opts = Inr targets" "sv' = sv"
    "NewHeader ctx (ne_random (re_net (rm_res env))) channelID [] = Inr txh" using assms(2) by (simp_all add: prepare_Inr)
  obtain tp where c: "create txh = Ok (Inr tp)" using assms(1) p by (auto simp: query_definitions_def Ok_simps)
  obtain responses err w1 where s: "cl_SendTransactionProposal (ie_cl (sv_env sv)) (Some tp) (PeersToTxnProcessors targets) w = ((responses, err), w1)"
    by (metis surj_pair)
  have e: "err = None" using assms(1) p pr(2) c s by (cases err) (simp_all add: query_definitions_def)
  obtain r rs where n: "responses = r # rs" using assms(1) p pr(2) c s e by (cases responses) (simp_all add: query_definitions_def)
  obtain x where 1: "verifyTPSignature sv (r # rs) = Ok None" "verifyResponsesMatch (r # rs) um = Ok None" "get_response r = Ok x"
    "result (r_Payload x) = Inr v" "w1 = w'"
    using assms(1) p pr(2) c s e n by (auto simp: query_definitions_def obind_eq_Ok case_option_Ok)
  obtain m s where a: "\<forall>r \<in> set (r # rs). \<exists>x. get_response r = Ok x \<and> um (r_Payload x) = Inr m \<and> r_Status x = s"
    using verifyResponsesMatch_None [THEN iffD1, OF 1(2)] by (elim exE) (rule that)
  have v: "\<forall>r \<in> set (r # rs). successful (ie_pc (sv_env sv)) r \<and> verified (sv_env sv) r" using 1(1) verifyTPSignature_None by blast
  show ?thesis
  proof (intro exI conjI)
    show "getCCProposalTargets env channelID opts = Inr targets"
      "cl_SendTransactionProposal (ie_cl (sv_env sv)) (Some tp) (PeersToTxnProcessors targets) w = ((r # rs, None), w')" using pr(1) s e n 1(5) by simp_all
    show "NewHeader ctx (ne_random (re_net (rm_res env))) channelID [] = Inr txh" "create txh = Ok (Inr tp)" by (rule pr(3), rule c)
    show "get_response (hd (r # rs)) = Ok x" "r # rs \<noteq> []" using 1(3) by simp_all
    show "\<forall>r \<in> set (r # rs). successful (ie_pc (sv_env sv)) r \<and> verified (sv_env sv) r" by (rule v)
    show "\<forall>r \<in> set (r # rs). \<exists>x. get_response r = Ok x \<and> um (r_Payload x) = Inr m \<and> r_Status x = s" by (rule a)
    show "result (r_Payload x) = Inr v" by (rule 1(4))
  qed
qed

text \<open>
  C20: A query for committed chaincodes that returns definitions has sent its proposal, made for the name that was asked for, to the targets
  of the options. There is at least one answer; all the answers that came back are successful and verified, have the same status and, up
  to the order of the definitions, the same content; and the definitions are those of the first answer.
\<close>
theorem committed_query_agreed:
  assumes "LifecycleQueryCommittedCC env lf ctx channelID name options w = Ok (Inr defs, w')" "rm_ChannelService env channelID = Inr sv"
  shows "\<exists>opts targets txh tp responses m s x. prepareRequestOpts options = Inr opts \<and> getCCProposalTargets env channelID opts = Inr targets
    \<and> NewHeader ctx (ne_random (re_net (rm_res env))) channelID [] = Inr txh
    \<and> CreateQueryCommittedProposal (re_net (rm_res env)) lf txh name = Ok (Inr tp)
    \<and> cl_SendTransactionProposal (ie_cl (sv_env sv)) (Some tp) (PeersToTxnProcessors targets) w = ((responses, None), w')
    \<and> responses \<noteq> [] \<and> (\<forall>r \<in> set responses. successful (ie_pc (sv_env sv)) r \<and> verified (sv_env sv) r)
    \<and> (\<forall>r \<in> set responses. \<exists>y. get_response r = Ok y \<and> unmarshalInOrderCCDefResults lf name (r_Payload y) = Inr m \<and> r_Status y = s)
    \<and> get_response (hd responses) = Ok x
    \<and> (if name \<noteq> [] then \<exists>d. defs = [d] \<and> unmarshalChaincodeDefinition lf name (r_Payload x) = Inr d
       else unmarshalChaincodeDefinitions lf (r_Payload x) = Inr defs)"
proof -
  let ?result = "\<lambda>payload. if name \<noteq> [] then rbind (unmarshalChaincodeDefinition lf name payload) (\<lambda>d. Inr [d])
    else unmarshalChaincodeDefinitions lf payload"
  obtain opts where o: "prepareRequestOpts options = Inr opts" and q: "queryCommitted env lf ctx channelID name opts w = Ok (Inr defs, w')"
    using assms(1) by (auto simp: LifecycleQueryCommittedCC_def Ok_simps)
  have "channelID \<noteq> []" using q by (auto simp: queryCommitted_def)
  from query_definitions_agreed [OF q [unfolded queryCommitted_def if_not_P [OF this]] assms(2)]
  obtain targets txh tp responses m s x where 0: "getCCProposalTargets env channelID opts = Inr targets"
    "NewHeader ctx (ne_random (re_net (rm_res env))) channelID [] = Inr txh"
    "CreateQueryCommittedProposal (re_net (rm_res env)) lf txh name = Ok (Inr tp)"
    "cl_SendTransactionProposal (ie_cl (sv_env sv)) (Some tp) (PeersToTxnProcessors targets) w = ((responses, None), w')" and
    1: "responses \<noteq> []" "\<forall>r \<in> set responses. successful (ie_pc (sv_env sv)) r \<and> verified (sv_env sv) r"
    "\<forall>r \<in> set responses. \<exists>y. get_response r = Ok y \<and> unmarshalInOrderCCDefResults lf name (r_Payload y) = Inr m \<and> r_Status y = s"
    "get_response (hd responses) = Ok x" "?result (r_Payload x) = Inr defs" by (elim exE conjE) (rule that)
  have "if name \<noteq> [] then \<exists>d. defs = [d] \<and> unmarshalChaincodeDefinition lf name (r_Payload x) = Inr d
     else unmarshalChaincodeDefinitions lf (r_Payload x) = Inr defs"
    using 1(5) by (auto simp: rbind_eq_Inr split: if_split_asm)
  then show ?thesis using o 0 1(1-4) by blast
qed

section \<open>Definitions\<close>

lemma policy_round_trip:
  assumes "MarshalApplicationPolicy lf sp cp = Inr b" "sp \<noteq> None \<or> cp \<noteq> []" "\<And>p b. lf_e_Policy lf p = Inr b \<Longrightarrow> lf_d_Policy lf b = Inr (Some p)"
  shows "UnmarshalApplicationPolicy lf b = Inr (sp, cp)"
  using assms by (cases sp) (auto simp: MarshalApplicationPolicy_def UnmarshalApplicationPolicy_def split: if_split_asm)

text \<open>The definition that a peer keeps of an approval: the arguments and the source that it has decoded, field by field.\<close>

fun kept_definition :: "definitionArgs \<times> ChaincodeSource \<Rightarrow> definitionResult" where
  "kept_definition (a, source) = \<lparr>df_Name = da_Name a, df_Version = da_Version a, df_Sequence = da_Sequence a,
     df_EndorsementPlugin = da_EndorsementPlugin a, df_ValidationPlugin = da_ValidationPlugin a,
     df_ValidationParameter = da_ValidationParameter a, df_InitRequired = da_InitRequired a, df_Collections = Some (da_Collections a),
     df_Approvals = [], df_Source = Some (Some source)\<rparr>"

lemma QueryApproved_decoded:
  assumes "QueryApproved env lf ch name sequence target opts w = Ok (Inr (tpr, d), w')" "response_payload tpr = Ok answer"
  shows "\<exists>result. lf_d_Approved lf answer = Inr result \<and> toApprovedChaincodes lf name result = Inr d"
  using assms by (auto simp: QueryApproved_def query_target_def Ok_simps split: list.split_asm)

text \<open>
  C21: A chaincode definition survives its approval. The proposal that approves a definition with a signature policy or a
  reference to a channel policy carries encoded arguments from which the definition can be read back: the definition that a peer keeps of
  the arguments and the source that it decodes from them is translated to the very request, and a query for the approved definition that
  a peer answers with it returns the request; no field, and not the ID of the package, is lost or mixed up on the way. The
  encodings of policies and of arguments are taken to be read back as they were written.
\<close>
theorem definition_round_trip:
  assumes "dr_SignaturePolicy req \<noteq> None \<or> dr_ChannelConfigPolicy req \<noteq> []" "\<And>p b. lf_e_Policy lf p = Inr b \<Longrightarrow> lf_d_Policy lf b = Inr (Some p)"
    and "\<And>a source b. lf_e_Approve lf a source = Inr b \<Longrightarrow> decode b = (a, source)"
    and "CreateApproveProposal net lf txh req = Ok (Inr tp)"
  shows "\<exists>b. CreateChaincodeInvokeProposal (ne_pc net) (ne_timestamp net) txh
        (sysRequest ''_lifecycle'' ''ApproveChaincodeDefinitionForMyOrg'' [b]) = Ok (Inr tp)
    \<and> toApprovedChaincodes lf (dr_Name req) (kept_definition (decode b)) = Inr req
    \<and> (\<forall>env ch sequence target opts w tpr answer d w'. QueryApproved env lf ch (dr_Name req) sequence target opts w = Ok (Inr (tpr, d), w')
        \<and> response_payload tpr = Ok answer \<and> lf_d_Approved lf answer = Inr (kept_definition (decode b)) \<longrightarrow> d = req)"
proof -
  let ?source = "if ar_PackageID req \<noteq> [] then LocalPackage (ar_PackageID req) else Unavailable"
  obtain a b where 1: "definition_args lf req = Inr a" "lf_e_Approve lf a ?source = Inr b"
    "lifecycleProposal net txh ''ApproveChaincodeDefinitionForMyOrg'' b = Ok (Inr tp)"
    using assms(4) by (auto simp: CreateApproveProposal_def argsProposal_def Let_def rbind_eq_Inr split: sum.split_asm)
  obtain pol where pol: "MarshalApplicationPolicy lf (dr_SignaturePolicy req) (dr_ChannelConfigPolicy req) = Inr pol"
    using 1(1) by (auto simp: definition_args_def rbind_eq_Inr)
  have d: "decode b = (a, ?source)" by (rule assms(3) [OF 1(2)])
  have req: "toApprovedChaincodes lf (dr_Name req) (kept_definition (decode b)) = Inr req"
    using policy_round_trip [OF pol assms(1,2)] 1(1) pol
    by (auto simp: d definition_args_def toApprovedChaincodes_def Let_def)
  have "d' = req" if "QueryApproved env lf ch (dr_Name req) sequence target opts w = Ok (Inr (tpr, d'), w')"
    "response_payload tpr = Ok answer" "lf_d_Approved lf answer = Inr (kept_definition (decode b))" for env ch sequence target opts w tpr answer d' w'
    using QueryApproved_decoded [OF that(1,2)] that(3) req by auto
  then have "\<forall>env ch sequence target opts w tpr answer d w'. QueryApproved env lf ch (dr_Name req) sequence target opts w = Ok (Inr (tpr, d), w')
        \<and> response_payload tpr = Ok answer \<and> lf_d_Approved lf answer = Inr (kept_definition (decode b)) \<longrightarrow> d = req"
    by (intro allI impI) (elim conjE)
  then show ?thesis using 1(3) req unfolding lifecycleProposal_def lifecycleCC_def by blast
qed

text \<open>A definition with both policies is not sent.\<close>

lemma both_policies_refused:
  assumes "dr_SignaturePolicy req \<noteq> None" "dr_ChannelConfigPolicy req \<noteq> []"
  shows "\<exists>e. CreateApproveProposal net lf txh req = Ok (Inl e)"
  using assms
  by (auto simp: CreateApproveProposal_def argsProposal_def definition_args_def MarshalApplicationPolicy_def wrap_err_def Let_def)

text \<open>Without a policy the bytes are empty, and an empty policy is not accepted back.\<close>

lemma default_policy_unreadable:
  assumes "lf_d_Policy lf [] = Inr None"
  shows "\<exists>b e. MarshalApplicationPolicy lf None [] = Inr b \<and> UnmarshalApplicationPolicy lf b = Inl e"
  using assms by (simp add: MarshalApplicationPolicy_def UnmarshalApplicationPolicy_def)

section \<open>Installing\<close>

lemma adjustTargetsForInstall_spec:
  assumes "adjustTargetsForInstall env lf ts req retry nts errs w = Ok ((nts', errs'), w')"
  shows "\<exists>rs. map fst rs = ts \<and> (\<forall>(t, r) \<in> set rs. \<exists>w0 w1. isInstalled env lf req (PeerProcessor t) retry w0 = Ok (r, w1))
    \<and> nts' = nts @ lacking rs \<and> length errs' = length errs + length (filter (\<lambda>(t, r). isl r) rs)"
  using assms
proof (induction ts arbitrary: nts errs w)
  case (Cons t ts)
  obtain r w1 where 1: "isInstalled env lf req (PeerProcessor t) retry w = Ok (r, w1)" using Cons.prems by (auto simp: Ok_simps)
  obtain nts1 errs1 where 2: "adjustTargetsForInstall env lf ts req retry nts1 errs1 w1 = Ok ((nts', errs'), w')"
    "nts1 = nts @ lacking [(t, r)]" "length errs1 = length errs + (if isl r then 1 else 0)"
    using Cons.prems 1 by (cases r) (auto simp: lacking_def split: if_split_asm)
  from Cons.IH [OF 2(1)] obtain rs where 3: "map fst rs = ts"
    "\<forall>(t, r) \<in> set rs. \<exists>w0 w1. isInstalled env lf req (PeerProcessor t) retry w0 = Ok (r, w1)"
    "nts' = nts1 @ lacking rs" "length errs' = length errs1 + length (filter (\<lambda>(t, r). isl r) rs)"
    by blast
  show ?case using 1 2(2,3) 3 by (intro exI [of _ "(t, r) # rs"]) (auto simp: lacking_def)
qed (intro exI [of _ "[]"], simp add: lacking_def)

section \<open>Examples\<close>

definition ex_lifecodec :: lifecodec where
  "ex_lifecodec = \<lparr>lf_e_Install = Inr, lf_e_QueryInstalled = Inr [], lf_e_GetPackage = (\<lambda>i. Inr []), lf_e_Approve = (\<lambda>a s. Inr [1]),
     lf_e_Commit = (\<lambda>a. Inr [2]), lf_e_Readiness = (\<lambda>a. Inr [3]), lf_e_QueryDefinition = (\<lambda>n. Inr [4]), lf_e_QueryDefinitions = Inr [5],
     lf_e_QueryApproved = (\<lambda>n s. Inr [6]),
     lf_e_Policy = (\<lambda>p. case p of ChannelConfigPolicyReference r \<Rightarrow> Inr (string_bytes r) | SignaturePolicyType s \<Rightarrow> Inl (errorNew ''none'')),
     lf_d_Policy = (\<lambda>b. Inr (Some (ChannelConfigPolicyReference (map (\<lambda>w. char_of (unat w)) b)))),
     lf_d_Install = (\<lambda>b. Inr ''id''), lf_d_QueryInstalled = (\<lambda>b. Inr []), lf_d_GetPackage = Inr,
     lf_d_Approved = (\<lambda>b. Inl (errorNew ''none'')), lf_d_Readiness = (\<lambda>b. Inr [(''Org1'', True)]),
     lf_d_Definition = (\<lambda>b. Inl (errorNew ''none'')), lf_d_Definitions = (\<lambda>b. Inr []), lf_SM3 = rev\<rparr>"

definition ex_definition :: ApproveChaincodeRequest where
  "ex_definition = \<lparr>dr_Name = ''cc'', dr_Version = ''1'', dr_Sequence = 1, dr_EndorsementPlugin = ''escc'', dr_ValidationPlugin = ''vscc'',
     dr_SignaturePolicy = None, dr_ChannelConfigPolicy = ''Admins'', dr_CollectionConfig = [], dr_InitRequired = True, ar_PackageID = ''cc:01''\<rparr>"

lemma ex_approve_run: "(case LifecycleApproveCC ex_rm ex_lifecodec ex_ctx ''ch'' ex_definition [Resmgmt.WithTargets ex_targets] ex_world of
    Ok ((t, None), w) \<Rightarrow> t = ''070201'' | _ \<Rightarrow> False)"
  by code_simp

theorem lifecycle_commits_witness:
  "\<exists>w' tp responses. LifecycleApproveCC ex_rm ex_lifecodec ex_ctx ''ch'' ex_definition [Resmgmt.WithTargets ex_targets] ex_world = Ok ((''070201'', None), w')
    \<and> sent_and_valid (cx_env ex_client) (Some tp) ''070201'' responses w'"
proof -
  obtain w' where r: "LifecycleApproveCC ex_rm ex_lifecodec ex_ctx ''ch'' ex_definition [Resmgmt.WithTargets ex_targets] ex_world = Ok ((''070201'', None), w')"
    using ex_approve_run by (auto split: outcome.splits option.splits prod.splits)
  have "rm_ChannelService ex_rm ''ch'' = Inr ex_services" by (simp add: ex_rm_def)
  moreover have "cl_CreateTransaction (ie_cl (sv_env ex_services)) = txn_New (ie_pc (sv_env ex_services))"
    by (simp add: ex_services_def ex_client_def ex_cl_def)
  moreover have "sv_env ex_services = cx_env ex_client" by (simp add: ex_services_def)
  ultimately show ?thesis using lifecycle_commits [OF disjI1 [OF r]] r by metis
qed

lemma ex_committed_run: "(case LifecycleQueryCommittedCC ex_rm ex_lifecodec ex_ctx ''ch'' [] [Resmgmt.WithTargets ex_targets] ex_world of
    Ok (Inr ds, w) \<Rightarrow> ds = [] | _ \<Rightarrow> False)"
  by code_simp

theorem committed_query_agreed_witness:
  "\<exists>responses x. responses \<noteq> [] \<and> get_response (hd responses) = Ok x \<and> unmarshalChaincodeDefinitions ex_lifecodec (r_Payload x) = Inr []"
proof -
  obtain w' where r: "LifecycleQueryCommittedCC ex_rm ex_lifecodec ex_ctx ''ch'' [] [Resmgmt.WithTargets ex_targets] ex_world = Ok (Inr [], w')"
    using ex_committed_run by (auto split: outcome.splits sum.splits prod.splits)
  have "rm_ChannelService ex_rm ''ch'' = Inr ex_services" by (simp add: ex_rm_def)
  from committed_query_agreed [OF r this] show ?thesis by (elim exE conjE) (auto split: if_split_asm)
qed

lemma chars_of_string_bytes: "map (\<lambda>w. char_of (unat w)) (string_bytes s) = s"
proof -
  have "char_of (unat (of_char c :: 8 word)) = c" for c :: char
  proof -
    have "unat (of_char c :: 8 word) = unat (of_nat (of_char c) :: 8 word)" by (simp only: of_nat_of_char)
    also have "\<dots> = of_char c" by (simp only: unsigned_of_nat) (simp add: take_bit_nat_eq_self)
    finally have "unat (of_char c :: 8 word) = (of_char c :: nat)" .
    then show ?thesis by simp
  qed
  then show ?thesis by (simp add: string_bytes_def o_def)
qed

text \<open>Encodings of the arguments of the example, which is all that is encoded, and of what the peer keeps of it.\<close>

definition ex_args :: definitionArgs where
  "ex_args = \<lparr>da_Name = ''cc'', da_Version = ''1'', da_Sequence = 1, da_EndorsementPlugin = ''escc'', da_ValidationPlugin = ''vscc'',
     da_ValidationParameter = string_bytes ''Admins'', da_InitRequired = True, da_Collections = []\<rparr>"

definition ex_approval :: lifecodec where
  "ex_approval = ex_lifecodec\<lparr>
     lf_e_Approve := (\<lambda>a source. if (a, source) = (ex_args, LocalPackage ''cc:01'') then Inr [1] else Inl (errorNew ''other'')),
     lf_d_Approved := (\<lambda>b. Inr (kept_definition (ex_args, LocalPackage ''cc:01'')))\<rparr>"

lemma ex_approval_create:
  "case NewHeader ex_ctx (ne_random (re_net (rm_res ex_rm))) ''ch'' [] of Inl e \<Rightarrow> False
   | Inr txh \<Rightarrow> (case CreateApproveProposal (re_net (rm_res ex_rm)) ex_approval txh ex_definition of Ok (Inr tp) \<Rightarrow> True | _ \<Rightarrow> False)"
  by code_simp

theorem definition_round_trip_witness:
  "\<exists>txh tp b. CreateApproveProposal (re_net (rm_res ex_rm)) ex_approval txh ex_definition = Ok (Inr tp)
    \<and> CreateChaincodeInvokeProposal (ne_pc (re_net (rm_res ex_rm))) (ne_timestamp (re_net (rm_res ex_rm))) txh
        (sysRequest ''_lifecycle'' ''ApproveChaincodeDefinitionForMyOrg'' [b]) = Ok (Inr tp)
    \<and> toApprovedChaincodes ex_approval ''cc'' (kept_definition (ex_args, LocalPackage ''cc:01'')) = Inr ex_definition"
proof -
  have p: "lf_d_Policy ex_approval b = Inr (Some p)" if "lf_e_Policy ex_approval p = Inr b" for p b
    using that chars_of_string_bytes by (auto simp: ex_approval_def ex_lifecodec_def split: appPolicy.split_asm)
  have a: "(ex_args, LocalPackage ''cc:01'') = (a, source)" if "lf_e_Approve ex_approval a source = Inr b" for a source b
    using that by (auto simp: ex_approval_def split: if_split_asm)
  obtain txh where h: "case CreateApproveProposal (re_net (rm_res ex_rm)) ex_approval txh ex_definition of Ok (Inr tp) \<Rightarrow> True | _ \<Rightarrow> False"
    using ex_approval_create by (cases "NewHeader ex_ctx (ne_random (re_net (rm_res ex_rm))) ''ch'' []") auto
  obtain r where r: "CreateApproveProposal (re_net (rm_res ex_rm)) ex_approval txh ex_definition = Ok r"
    using h by (cases "CreateApproveProposal (re_net (rm_res ex_rm)) ex_approval txh ex_definition") auto
  obtain tp where c: "CreateApproveProposal (re_net (rm_res ex_rm)) ex_approval txh ex_definition = Ok (Inr tp)"
    using h r by (cases r) auto
  have n: "dr_Name ex_definition = ''cc''" and pol: "dr_SignaturePolicy ex_definition \<noteq> None \<or> dr_ChannelConfigPolicy ex_definition \<noteq> []"
    by (simp_all add: ex_definition_def)
  have "\<exists>b. CreateChaincodeInvokeProposal (ne_pc (re_net (rm_res ex_rm))) (ne_timestamp (re_net (rm_res ex_rm))) txh
        (sysRequest ''_lifecycle'' ''ApproveChaincodeDefinitionForMyOrg'' [b]) = Ok (Inr tp)
    \<and> toApprovedChaincodes ex_approval (dr_Name ex_definition) (kept_definition (ex_args, LocalPackage ''cc:01'')) = Inr ex_definition
    \<and> (\<forall>env ch sequence target opts w tpr answer d w'.
        QueryApproved env ex_approval ch (dr_Name ex_definition) sequence target opts w = Ok (Inr (tpr, d), w')
        \<and> response_payload tpr = Ok answer \<and> lf_d_Approved ex_approval answer = Inr (kept_definition (ex_args, LocalPackage ''cc:01''))
        \<longrightarrow> d = ex_definition)"
    by (rule definition_round_trip [where decode = "\<lambda>b. (ex_args, LocalPackage ''cc:01'')", OF pol _ _ c]) (fact p, fact a)
  then show ?thesis unfolding n by (elim exE conjE) (intro exI conjI, rule c)
qed

end
