(* ===== verification/Config_Lookup.thy ===== *)
theory Config_Lookup
  imports Transactions Retry "HOL-Library.Sublist"
begin

text \<open>
  What reading the configuration rests on: values and their lookup in several backends (pkg/core/config/lookup), the substitution of
  variables in paths (pkg/util/pathvar), certificates in files or in the configuration and the addresses of endpoints
  (pkg/core/config/endpoint), and the pool of certificates of authorities (pkg/core/config/comm/tls).

  The decoders of mapstructure and the conversions of cast are third-party code, and so are x509, the key pairs and the crypto suite: they
  are fields of \<open>configEnv\<close>, with the environment of the process, its files and compiled regular expressions \<open>'re\<close>. Lower case is that of
  ASCII. A pointer to a certificate is a value of \<open>'c\<close>, which \<open>cf_Equal\<close> compares by content.
\<close>

section \<open>Values, and their lookup\<close>

datatype cval = CNil | CBool bool | CInt int | CDuration int | CString string | CMap "(string \<times> cval) list" | COther nat

type_synonym options = "(string \<times> cval) list"
type_synonym backend = "string \<Rightarrow> cval option"

record pemBlock =
  pb_Type :: string
  pb_Headers :: "(string \<times> string) list"
  pb_Bytes :: bytes

record ('re, 'c, 't) configEnv =
  cf_wire :: wire
  cf_LookupEnv :: "string \<Rightarrow> string option"
  cf_ProjectPath :: string
  cf_GoPath :: string
  cf_CryptoConfigPath :: string
  cf_ReadFile :: "string \<Rightarrow> bytes res"
  cf_Compile :: "string \<Rightarrow> 're res"
  cf_MatchString :: "'re \<Rightarrow> string \<Rightarrow> bool"
  cf_ReplaceAllString :: "'re \<Rightarrow> string \<Rightarrow> string \<Rightarrow> string"
  cf_ToBool :: "cval \<Rightarrow> bool"
  cf_ToString :: "cval \<Rightarrow> string"
  cf_ToInt :: "cval \<Rightarrow> int"
  cf_ToDuration :: "cval \<Rightarrow> int"
  cf_Decode :: "bytes \<Rightarrow> (pemBlock \<times> bytes) option"                    \<comment> \<open>\<open>pem.Decode\<close>: the first block, and the rest\<close>
  cf_ParseCertificate :: "bytes \<Rightarrow> 'c res"
  cf_Equal :: "'c \<Rightarrow> 'c \<Rightarrow> bool"
  cf_RawSubject :: "'c \<Rightarrow> bytes"
  cf_SystemCertPool :: "'c list res"
  cf_TLSKeyPair :: "bytes \<Rightarrow> bytes \<Rightarrow> 't res"
  cf_KeyPairFromCert :: "bytes \<Rightarrow> 't res option"              \<comment> \<open>\<open>None\<close>: the crypto suite has no private key for the certificate\<close>

definition ToLower :: "string \<Rightarrow> string" where
  "ToLower s = map (\<lambda>c. let n = of_char c :: nat in if 65 \<le> n \<and> n \<le> 90 then char_of (n + 32) else c) s"

definition EqualFold :: "string \<Rightarrow> string \<Rightarrow> bool" where
  "EqualFold s t \<longleftrightarrow> ToLower s = ToLower t"

abbreviation Contains :: "string \<Rightarrow> string \<Rightarrow> bool" where
  "Contains s sub \<equiv> sublist sub s"

text \<open>A \<open>ConfigLookup\<close> is the list of its backends, of which some may be nil.\<close>

type_synonym ConfigLookup = "backend option list"

fun config_Lookup :: "ConfigLookup \<Rightarrow> string \<Rightarrow> cval option" where
  "config_Lookup [] key = None"
| "config_Lookup (None # backends) key = config_Lookup backends key"
| "config_Lookup (Some b # backends) key = (case b key of Some v \<Rightarrow> Some v | None \<Rightarrow> config_Lookup backends key)"

definition GetBool :: "('re, 'c, 't) configEnv \<Rightarrow> ConfigLookup \<Rightarrow> string \<Rightarrow> bool" where
  "GetBool env lk key = (case config_Lookup lk key of None \<Rightarrow> False | Some v \<Rightarrow> cf_ToBool env v)"

definition GetString :: "('re, 'c, 't) configEnv \<Rightarrow> ConfigLookup \<Rightarrow> string \<Rightarrow> string" where
  "GetString env lk key = (case config_Lookup lk key of None \<Rightarrow> [] | Some v \<Rightarrow> cf_ToString env v)"

definition GetLowerString :: "('re, 'c, 't) configEnv \<Rightarrow> ConfigLookup \<Rightarrow> string \<Rightarrow> string" where
  "GetLowerString env lk key = (case config_Lookup lk key of None \<Rightarrow> [] | Some v \<Rightarrow> ToLower (cf_ToString env v))"

definition GetInt :: "('re, 'c, 't) configEnv \<Rightarrow> ConfigLookup \<Rightarrow> string \<Rightarrow> int" where
  "GetInt env lk key = (case config_Lookup lk key of None \<Rightarrow> 0 | Some v \<Rightarrow> cf_ToInt env v)"

definition GetDuration :: "('re, 'c, 't) configEnv \<Rightarrow> ConfigLookup \<Rightarrow> string \<Rightarrow> int" where
  "GetDuration env lk key = (case config_Lookup lk key of None \<Rightarrow> 0 | Some v \<Rightarrow> cf_ToDuration env v)"

text \<open>\<open>decode\<close> is the decoder for the type of the result, with its hooks; without a value the result keeps its zero value.\<close>

definition UnmarshalKey :: "ConfigLookup \<Rightarrow> string \<Rightarrow> (cval \<Rightarrow> 'a res) \<Rightarrow> 'a \<Rightarrow> 'a res" where
  "UnmarshalKey lk key decode zero = (case config_Lookup lk key of None \<Rightarrow> Inr zero | Some v \<Rightarrow> decode v)"

section \<open>Variables in paths\<close>

text \<open>\<open>strings.Split\<close> at a separator that is not empty: the text up to its first occurrence, and the text behind it.\<close>

fun cut :: "string \<Rightarrow> string \<Rightarrow> (string \<times> string) option" where
  "cut sep [] = (if sep = [] then Some ([], []) else None)"
| "cut sep (c # s) = (if prefix sep (c # s) then Some ([], drop (length sep) (c # s))
     else (case cut sep s of None \<Rightarrow> None | Some (a, b) \<Rightarrow> Some (c # a, b)))"

lemma cut_Some: "cut sep s = Some (a, b) \<Longrightarrow> s = a @ sep @ b"
  by (induction sep s arbitrary: a b rule: cut.induct) (auto simp: prefix_def split: if_split_asm option.split_asm)

lemma cut_None: "cut sep s = None \<longleftrightarrow> \<not> sublist sep s"
  by (induction sep s rule: cut.induct) (auto split: option.split simp: sublist_Cons_right)

function Split :: "string \<Rightarrow> string \<Rightarrow> string list" where
  "Split s sep = (if sep = [] then [s] else (case cut sep s of None \<Rightarrow> [s] | Some (a, b) \<Rightarrow> a # Split b sep))"
  by pat_completeness auto
termination
  by (relation "measure (length \<circ> fst)") (auto dest!: cut_Some)

declare Split.simps [simp del]

definition lookupVar :: "('re, 'c, 't) configEnv \<Rightarrow> string \<Rightarrow> string option" where
  "lookupVar env v = (if v = ''FABRIC_SDK_GO_PROJECT_PATH'' then Some (cf_ProjectPath env)
     else if v = ''GOPATH'' then Some (cf_GoPath env)
     else if v = ''CRYPTOCONFIG_FIXTURES_PATH'' then Some (cf_CryptoConfigPath env)
     else cf_LookupEnv env v)"

definition substVar :: "('re, 'c, 't) configEnv \<Rightarrow> string \<Rightarrow> string \<Rightarrow> string \<Rightarrow> string \<times> string" where
  "substVar env s noMatch sep = (case cut sep s of
     None \<Rightarrow> (noMatch, s)
   | Some (name, rest) \<Rightarrow> (case lookupVar env name of None \<Rightarrow> (noMatch, s) | Some v \<Rightarrow> (v, rest)))"

definition Subst :: "('re, 'c, 't) configEnv \<Rightarrow> string \<Rightarrow> string" where
  "Subst env path = (case Split path ''${'' of
     [] \<Rightarrow> []
   | first # splits \<Rightarrow> first @ concat (map (\<lambda>s. case substVar env s ''${'' ''}'' of (subst, rest) \<Rightarrow> subst @ rest) splits))"

section \<open>Addresses and certificates of endpoints\<close>

definition IsTLSEnabled :: "string \<Rightarrow> bool" where
  "IsTLSEnabled url = (let tlsURL = ToLower url in prefix ''https://'' tlsURL \<or> prefix ''grpcs://'' tlsURL)"

text \<open>The regular expression \<open>.*(?i)s://\<close> is found where \<open>s://\<close> or \<open>S://\<close> is.\<close>

definition AttemptSecured :: "string \<Rightarrow> bool \<Rightarrow> bool" where
  "AttemptSecured url allowInSecure =
    (if Contains url ''s://'' \<or> Contains url ''S://'' then True
     else if Contains url ''://'' then False
     else \<not> allowInSecure)"

record TLSConfig =
  tc_Path :: string
  tc_Pem :: string
  tc_bytes :: bytes

record TLSKeyPair =
  kp_Key :: TLSConfig
  kp_Cert :: TLSConfig

record MutualTLSConfig =
  mt_Pem :: "string list"
  mt_Path :: string
  mt_Client :: TLSKeyPair

definition no_tls :: TLSConfig where
  "no_tls = \<lparr>tc_Path = [], tc_Pem = [], tc_bytes = []\<rparr>"

definition LoadBytes :: "('re, 'c, 't) configEnv \<Rightarrow> TLSConfig \<Rightarrow> TLSConfig res" where
  "LoadBytes env cfg =
    (if tc_Pem cfg \<noteq> [] then Inr (cfg\<lparr>tc_bytes := string_bytes (tc_Pem cfg)\<rparr>)
     else if tc_Path cfg \<noteq> [] then (case cf_ReadFile env (tc_Path cfg) of
         Inl err \<Rightarrow> Inl (WithMsg err ''failed to load pem bytes from path %s'' [FS (tc_Path cfg)])
       | Inr bs \<Rightarrow> Inr (cfg\<lparr>tc_bytes := bs\<rparr>))
     else Inr cfg)"

definition TLSCert :: "('re, 'c, 't) configEnv \<Rightarrow> TLSConfig \<Rightarrow> ('c option \<times> bool) res" where
  "TLSCert env cfg = (case cf_Decode env (tc_bytes cfg) of
     Some (block, rest) \<Rightarrow> rbind (wrap_err ''certificate parsing failed'' (cf_ParseCertificate env (pb_Bytes block))) (\<lambda>pub. Inr (Some pub, True))
   | None \<Rightarrow> Inr (None, False))"

text \<open>The substitution of variables in the path of a certificate, before it is read.\<close>

definition resolve_path :: "('re, 'c, 't) configEnv \<Rightarrow> TLSConfig \<Rightarrow> TLSConfig" where
  "resolve_path env cfg = cfg\<lparr>tc_Path := Subst env (tc_Path cfg)\<rparr>"

definition resolve_pair :: "('re, 'c, 't) configEnv \<Rightarrow> TLSKeyPair \<Rightarrow> TLSKeyPair" where
  "resolve_pair env kp = \<lparr>kp_Key = resolve_path env (kp_Key kp), kp_Cert = resolve_path env (kp_Cert kp)\<rparr>"

definition load_pair :: "('re, 'c, 't) configEnv \<Rightarrow> string \<Rightarrow> string \<Rightarrow> TLSKeyPair \<Rightarrow> TLSKeyPair res" where
  "load_pair env key_failed cert_failed kp =
     rbind (wrap_err key_failed (LoadBytes env (kp_Key kp))) (\<lambda>key.
     rbind (wrap_err cert_failed (LoadBytes env (kp_Cert kp))) (\<lambda>cert. Inr \<lparr>kp_Key = key, kp_Cert = cert\<rparr>))"

section \<open>The pool of certificates\<close>

text \<open>
  The index of a certificate by its subject is a map to positions in the queue. \<open>system\<close> is what \<open>x509.SystemCertPool\<close> gives when it is
  called. \<open>pool_Get\<close> and \<open>pool_Add\<close> are calls that run alone, as those of the loading of a configuration do, before anyone else has the pool;
  concurrent calls are the steps further below.
\<close>

record 'c certPool =
  cp_certPool :: "'c list"
  cp_certs :: "'c list"
  cp_certsByName :: "bytes \<Rightarrow> nat list"
  cp_dirty :: bool
  cp_systemCertPool :: bool

definition loadSystemCertPool :: "'c list res \<Rightarrow> bool \<Rightarrow> 'c list res" where
  "loadSystemCertPool system useSystemCertPool = (if useSystemCertPool then system else Inr [])"

definition NewCertPool :: "'c list res \<Rightarrow> bool \<Rightarrow> 'c certPool res" where
  "NewCertPool system useSystemCertPool = rbind (loadSystemCertPool system useSystemCertPool) (\<lambda>c.
     Inr \<lparr>cp_certPool = c, cp_certs = [], cp_certsByName = (\<lambda>_. []), cp_dirty = False, cp_systemCertPool = useSystemCertPool\<rparr>)"

definition swapCertPool :: "'c list res \<Rightarrow> 'c certPool \<Rightarrow> 'c certPool res" where
  "swapCertPool system c = rbind (loadSystemCertPool system (cp_systemCertPool c)) (\<lambda>newCertPool.
     Inr (c\<lparr>cp_certPool := newCertPool @ cp_certs c\<rparr>))"

definition pool_Get :: "'c list res \<Rightarrow> 'c certPool \<Rightarrow> 'c list res \<times> 'c certPool" where
  "pool_Get system c =
    (if cp_dirty c then (case swapCertPool system (c\<lparr>cp_dirty := False\<rparr>) of
         Inl err \<Rightarrow> (Inl err, c\<lparr>cp_dirty := False\<rparr>)
       | Inr c1 \<Rightarrow> (Inr (cp_certPool c1), c1))
     else (Inr (cp_certPool c), c))"

primrec removeDuplicates :: "'c list \<Rightarrow> 'c list \<Rightarrow> 'c list" where
  "removeDuplicates encountered [] = []"
| "removeDuplicates encountered (c # certs) =
    (if c \<in> set encountered then removeDuplicates encountered certs else c # removeDuplicates (c # encountered) certs)"

definition filterCerts :: "('re, 'c, 't) configEnv \<Rightarrow> 'c certPool \<Rightarrow> 'c option list \<Rightarrow> 'c list" where
  "filterCerts env c certs = removeDuplicates []
     (filter (\<lambda>cert. \<not> list_ex (\<lambda>p. cf_Equal env (cp_certs c ! p) cert) (cp_certsByName c (cf_RawSubject env cert))) (List.map_filter (\<lambda>x. x) certs))"

definition add_cert :: "('re, 'c, 't) configEnv \<Rightarrow> 'c \<Rightarrow> 'c certPool \<Rightarrow> 'c certPool" where
  "add_cert env newCert c = (let name = cf_RawSubject env newCert in
     c\<lparr>cp_certsByName := (cp_certsByName c)(name := cp_certsByName c name @ [length (cp_certs c)]), cp_certs := cp_certs c @ [newCert]\<rparr>)"

definition pool_Add :: "('re, 'c, 't) configEnv \<Rightarrow> 'c option list \<Rightarrow> 'c certPool \<Rightarrow> 'c certPool" where
  "pool_Add env certs c =
    (if certs = [] then c
     else let certsToBeAdded = filterCerts env c certs
       in if certsToBeAdded \<noteq> [] then (fold (add_cert env) certsToBeAdded c)\<lparr>cp_dirty := True\<rparr> else c)"

text \<open>
  Concurrent calls. A step is what a call does between two points at which others can come in between: the sections under the lock, and the
  compare-and-swap of the dirty flag, for which \<open>Get\<close> does not take the lock. (A \<open>Get\<close> that clears the flag while an \<open>Add\<close> holds the lock
  clears it before the \<open>Add\<close> sets it, as if it had come before the \<open>Add\<close>.) A call of \<open>Add\<close> is to filter its certificates, to store those that it
  has found missing, or done; one of \<open>Get\<close> is to check the flag, to load the system's certificates, to swap the pool, to read it, or done.
\<close>

datatype 'c pool_call =
  AddFilter "'c option list" | AddStore "'c option list" "'c list" | AddDone "'c option list"
| GetCheck | GetLoad | GetSwap "'c list" | GetRead | GetDone "'c list res"

record 'c pools =
  ps_pool :: "'c certPool"
  ps_calls :: "'c pool_call list"

definition pool_call_step :: "('re, 'c, 't) configEnv \<Rightarrow> nat \<Rightarrow> 'c list res \<Rightarrow> 'c pools \<Rightarrow> 'c pools option" where
  "pool_call_step env i system s = (let c = ps_pool s; to = (\<lambda>p c'. Some (s\<lparr>ps_pool := c', ps_calls := (ps_calls s)[i := p]\<rparr>)) in
     case ps_calls s ! i of
       AddFilter certs \<Rightarrow> if certs = [] then to (AddDone certs) c
         else (let certsToBeAdded = filterCerts env c certs
           in if certsToBeAdded \<noteq> [] then to (AddStore certs certsToBeAdded) c else to (AddDone certs) c)
     | AddStore certs certsToBeAdded \<Rightarrow> to (AddDone certs) ((fold (add_cert env) certsToBeAdded c)\<lparr>cp_dirty := True\<rparr>)
     | GetCheck \<Rightarrow> if cp_dirty c then to GetLoad (c\<lparr>cp_dirty := False\<rparr>) else to GetRead c
     | GetLoad \<Rightarrow> (case loadSystemCertPool system (cp_systemCertPool c) of
         Inl err \<Rightarrow> to (GetDone (Inl err)) c
       | Inr newCertPool \<Rightarrow> to (GetSwap newCertPool) c)
     | GetSwap newCertPool \<Rightarrow> to GetRead (c\<lparr>cp_certPool := newCertPool @ cp_certs c\<rparr>)
     | GetRead \<Rightarrow> to (GetDone (Inr (cp_certPool c))) c
     | _ \<Rightarrow> None)"

inductive ps_step :: "('re, 'c, 't) configEnv \<Rightarrow> 'c pools \<Rightarrow> 'c pools \<Rightarrow> bool" for env where
  ps_add: "ps_step env s (s\<lparr>ps_calls := ps_calls s @ [AddFilter certs]\<rparr>)"
| ps_get: "ps_step env s (s\<lparr>ps_calls := ps_calls s @ [GetCheck]\<rparr>)"
| ps_call: "ps_step env s s'" if "i < length (ps_calls s)" "pool_call_step env i system s = Some s'"

section \<open>Lemmas\<close>

lemma Split_code: "sep \<noteq> [] \<Longrightarrow> Split s sep = (case cut sep s of None \<Rightarrow> [s] | Some (a, b) \<Rightarrow> a # Split b sep)"
  by (simp add: Split.simps)

lemma Split_not_Nil [simp]: "Split s sep \<noteq> []"
  by (subst Split.simps) (auto split: option.split)

end
