(* ===== verification/Endpoint_Config.thy ===== *)
theory Endpoint_Config
  imports Config_Lookup
begin

text \<open>
  The configuration of the endpoints, pkg/fab/endpointconfig.go: what is configured is decoded, certificates are loaded, defaults are
  filled in, entity matchers rename, replace or ignore endpoints, and the peers and orderers of organizations and channels are looked up.

  A Go map that is iterated over is an association list in the order of the iteration. The map of options of an endpoint may be nil. The
  options of endpoints that have none are those of the default endpoint, the same map, which no one changes after it is loaded.
\<close>

section \<open>The configured entities\<close>

record ClientConfig =
  ecl_Organization :: string
  ecl_TLSCerts :: TLSKeyPair

text \<open>\<open>OrdererConfig\<close> and \<open>PeerConfig\<close> have the same fields, both as they are configured and as they are provided.\<close>

record NodeEntity =
  en_URL :: string
  en_GRPCOptions :: "options option"
  en_TLSCACerts :: TLSConfig

record 'c NodeConfig =
  nd_URL :: string
  nd_GRPCOptions :: "options option"
  nd_TLSCACert :: "'c option"

record 'u OrganizationConfig =
  og_MSPID :: string
  og_CryptoPath :: string
  og_Users :: "(string \<times> 'u) list"
  og_Peers :: "string list"
  og_CertificateAuthorities :: "string list"

record CertKeyPair =
  ck_Cert :: bytes
  ck_Key :: bytes

record 'f DiscoveryPolicy =
  dp_MinResponses :: int
  dp_MaxTargets :: int
  dp_RetryOpts :: "'f Opts"

record 'f QueryChannelConfigPolicy =
  qc_MinResponses :: int
  qc_MaxTargets :: int
  qc_RetryOpts :: "'f Opts"

record EventServicePolicy =
  es_ResolverStrategy :: string
  es_MinBlockHeightResolverMode :: string
  es_Balancer :: string
  es_BlockHeightLagThreshold :: int
  es_PeerMonitor :: string
  es_ReconnectBlockHeightLagThreshold :: int
  es_PeerMonitorPeriod :: int

record 'f ChannelPolicies =
  po_QueryChannelConfig :: "'f QueryChannelConfigPolicy"
  po_Discovery :: "'f DiscoveryPolicy"
  po_Selection :: SelectionPolicy
  po_EventService :: EventServicePolicy

record PeerChannelConfig =
  pcc_EndorsingPeer :: bool
  pcc_ChaincodeQuery :: bool
  pcc_LedgerQuery :: bool
  pcc_EventSource :: bool

record 'f ChannelEndpointConfig =
  che_Orderers :: "string list"
  che_Peers :: "(string \<times> PeerChannelConfig) list"
  che_Policies :: "'f ChannelPolicies"

record MatchConfig =
  ma_Pattern :: string
  ma_URLSubstitutionExp :: string
  ma_SSLTargetOverrideURLSubstitutionExp :: string
  ma_MappedHost :: string
  ma_MappedName :: string
  ma_IgnoreEndpoint :: bool

record 'f endpointConfigEntity =
  ee_Client :: ClientConfig
  ee_Channels :: "(string \<times> 'f ChannelEndpointConfig) list"
  ee_Organizations :: "(string \<times> TLSKeyPair OrganizationConfig) list"
  ee_Orderers :: "(string \<times> NodeEntity) list"
  ee_Peers :: "(string \<times> NodeEntity) list"

section \<open>What is provided\<close>

record ('c, 'f) NetworkConfig =
  nc_Channels :: "(string \<times> 'f ChannelEndpointConfig) list"
  nc_Organizations :: "(string \<times> CertKeyPair OrganizationConfig) list"
  nc_Orderers :: "(string \<times> 'c NodeConfig) list"
  nc_Peers :: "(string \<times> 'c NodeConfig) list"

record 'c NetworkPeer =
  np_PeerConfig :: "'c NodeConfig"
  np_MSPID :: string

record 'c ConfigChannelPeer =
  ccp_PeerChannelConfig :: PeerChannelConfig
  ccp_NetworkPeer :: "'c NetworkPeer"

type_synonym 're matcherEntry = "'re \<times> MatchConfig"

record ('re, 'c, 't, 'f) EndpointConfig =
  ec_backend :: ConfigLookup
  ec_networkConfig :: "('c, 'f) NetworkConfig option"
  ec_tlsCertPool :: "'c certPool option"
  ec_entityMatchers :: "(string \<times> MatchConfig list) list option"
  ec_peerConfigsByOrg :: "(string \<times> 'c NodeConfig list) list"
  ec_networkPeers :: "'c NetworkPeer list"
  ec_ordererConfigs :: "'c NodeConfig list"
  ec_channelPeersByChannel :: "(string \<times> 'c ConfigChannelPeer list) list"
  ec_channelOrderersByChannel :: "(string \<times> 'c NodeConfig list) list"
  ec_tlsClientCerts :: "'t option list"                                 \<comment> \<open>\<open>None\<close>: the empty certificate\<close>
  ec_peerMatchers :: "'re matcherEntry list"
  ec_ordererMatchers :: "'re matcherEntry list"
  ec_channelMatchers :: "'re matcherEntry list"
  ec_defaultPeerConfig :: "'c NodeConfig"
  ec_defaultOrdererConfig :: "'c NodeConfig"
  ec_defaultChannelPolicies :: "'f ChannelPolicies"
  ec_defaultChannel :: "'f ChannelEndpointConfig option"

text \<open>The decoders of mapstructure for the entities. The decoder of channels calls a hook for every value that it decodes.\<close>

datatype target = PeerChannelConfigs | APeerChannelConfig | OtherTarget

record 'f decoders =
  de_Client :: "cval \<Rightarrow> ClientConfig res"
  de_Channels :: "(target \<Rightarrow> cval \<Rightarrow> cval) \<Rightarrow> cval \<Rightarrow> (string \<times> 'f ChannelEndpointConfig) list res"
  de_Organizations :: "cval \<Rightarrow> (string \<times> TLSKeyPair OrganizationConfig) list res"
  de_Nodes :: "cval \<Rightarrow> (string \<times> NodeEntity) list res"
  de_Matchers :: "cval \<Rightarrow> (string \<times> MatchConfig list) list res"

definition setDefault :: "string \<Rightarrow> cval \<Rightarrow> options \<Rightarrow> options" where
  "setDefault key defaultVal dataMap = (if map_of dataMap key = None then dataMap @ [(key, defaultVal)] else dataMap)"

definition peerChannelConfigHook :: "target \<Rightarrow> cval \<Rightarrow> cval" where
  "peerChannelConfigHook t data = (case (t, data) of
     (PeerChannelConfigs, CMap dataMap) \<Rightarrow> CMap (map (\<lambda>(k, v). (k, if v = CNil then CMap [] else v)) dataMap)
   | (APeerChannelConfig, CMap dataMap) \<Rightarrow> CMap (setDefault ''eventsource'' (CBool True) (setDefault ''ledgerquery'' (CBool True)
       (setDefault ''chaincodequery'' (CBool True) (setDefault ''endorsingpeer'' (CBool True) dataMap))))
   | _ \<Rightarrow> data)"

section \<open>Timeouts\<close>

datatype TimeoutType = PeerConnection | EventReg | QueryTimeout | ExecuteTimeout | OrdererConnection | OrdererResponse
  | DiscoveryGreylistExpiry | ConnectionIdle | CacheSweepInterval | EventServiceIdle | PeerResponse | ResMgmtTimeout
  | ChannelConfigRefresh | ChannelMembershipRefresh | DiscoveryConnection | DiscoveryResponse | DiscoveryServiceRefresh
  | SelectionServiceRefresh | OtherTimeout int

definition Minute :: int where "Minute = 60 * Second"

definition timeout_of :: "('re, 'c, 't) configEnv \<Rightarrow> ConfigLookup \<Rightarrow> string \<Rightarrow> int \<Rightarrow> int" where
  "timeout_of env lk key dflt = (let timeout = GetDuration env lk key in if timeout = 0 then dflt else timeout)"

definition getTimeout :: "('re, 'c, 't) configEnv \<Rightarrow> ConfigLookup \<Rightarrow> TimeoutType \<Rightarrow> int" where
  "getTimeout env lk tType = (let t = timeout_of env lk in case tType of
     PeerConnection \<Rightarrow> t ''client.peer.timeout.connection'' (10 * Second)
   | PeerResponse \<Rightarrow> t ''client.peer.timeout.response'' (3 * Minute)
   | DiscoveryGreylistExpiry \<Rightarrow> t ''client.peer.timeout.discovery.greylistExpiry'' (10 * Second)
   | EventReg \<Rightarrow> t ''client.eventService.timeout.registrationResponse'' (15 * Second)
   | OrdererConnection \<Rightarrow> t ''client.orderer.timeout.connection'' (15 * Second)
   | OrdererResponse \<Rightarrow> t ''client.orderer.timeout.response'' (2 * Minute)
   | DiscoveryConnection \<Rightarrow> t ''client.discovery.timeout.connection'' (15 * Second)
   | DiscoveryResponse \<Rightarrow> t ''client.discovery.timeout.response'' (15 * Second)
   | QueryTimeout \<Rightarrow> t ''client.global.timeout.query'' (3 * Minute)
   | ExecuteTimeout \<Rightarrow> t ''client.global.timeout.execute'' (3 * Minute)
   | ResMgmtTimeout \<Rightarrow> t ''client.global.timeout.resmgmt'' (3 * Minute)
   | ConnectionIdle \<Rightarrow> t ''client.global.cache.connectionIdle'' (30 * Second)
   | EventServiceIdle \<Rightarrow> t ''client.global.cache.eventServiceIdle'' (2 * Minute)
   | ChannelConfigRefresh \<Rightarrow> t ''client.global.cache.channelConfig'' (90 * Second)
   | ChannelMembershipRefresh \<Rightarrow> t ''client.global.cache.channelMembership'' (60 * Second)
   | DiscoveryServiceRefresh \<Rightarrow> t ''client.global.cache.discovery'' (5 * Second)
   | SelectionServiceRefresh \<Rightarrow> t ''client.global.cache.selection'' (5 * Second)
   | CacheSweepInterval \<Rightarrow> t ''client.cache.interval.sweep'' (15 * Second)
   | OtherTimeout n \<Rightarrow> 0)"

section \<open>Entity matchers\<close>

primrec groupAllMatchers :: "('re, 'c, 't) configEnv \<Rightarrow> MatchConfig list \<Rightarrow> 're matcherEntry list res" where
  "groupAllMatchers env [] = Inr []"
| "groupAllMatchers env (v # matchers) =
     rbind (cf_Compile env (ma_Pattern v)) (\<lambda>regex. rbind (groupAllMatchers env matchers) (\<lambda>es. Inr ((regex, v) # es)))"

definition matchers_for :: "(string \<times> MatchConfig list) list \<Rightarrow> string \<Rightarrow> MatchConfig list" where
  "matchers_for ms k = (case map_of ms k of None \<Rightarrow> [] | Some l \<Rightarrow> l)"

definition compileAllMatchers :: "('re, 'c, 't) configEnv \<Rightarrow> (string \<times> MatchConfig list) list \<Rightarrow> ('re, 'c, 't, 'f) EndpointConfig
    \<Rightarrow> ('re, 'c, 't, 'f) EndpointConfig res" where
  "compileAllMatchers env ms c =
     rbind (if matchers_for ms ''channel'' \<noteq> [] then groupAllMatchers env (matchers_for ms ''channel'') else Inr (ec_channelMatchers c)) (\<lambda>chs.
     rbind (if matchers_for ms ''orderer'' \<noteq> [] then groupAllMatchers env (matchers_for ms ''orderer'') else Inr (ec_ordererMatchers c)) (\<lambda>os.
     rbind (if matchers_for ms ''peer'' \<noteq> [] then groupAllMatchers env (matchers_for ms ''peer'') else Inr (ec_peerMatchers c)) (\<lambda>ps.
       Inr (c\<lparr>ec_channelMatchers := chs, ec_ordererMatchers := os, ec_peerMatchers := ps\<rparr>))))"

definition compileMatchers :: "('re, 'c, 't) configEnv \<Rightarrow> 'f decoders \<Rightarrow> ('re, 'c, 't, 'f) EndpointConfig \<Rightarrow> ('re, 'c, 't, 'f) EndpointConfig res" where
  "compileMatchers env de c =
     rbind (wrap_err ''failed to parse 'entMatchers' config item'' (UnmarshalKey (ec_backend c) ''entityMatchers'' (de_Matchers de) [])) (\<lambda>ms.
       if ms = [] then Inr c
       else rbind (compileAllMatchers env ms c) (\<lambda>c1. Inr (c1\<lparr>ec_entityMatchers := Some ms\<rparr>)))"

text \<open>The first matcher whose expression matches.\<close>

definition matching :: "('re, 'c, 't) configEnv \<Rightarrow> 're matcherEntry list \<Rightarrow> string \<Rightarrow> 're matcherEntry option" where
  "matching env matchers s = find (\<lambda>(regex, m). cf_MatchString env regex s) matchers"

definition regexMatchAndReplace :: "('re, 'c, 't) configEnv \<Rightarrow> 're \<Rightarrow> string \<Rightarrow> string \<Rightarrow> string" where
  "regexMatchAndReplace env regex src repl = (if Contains repl ''$'' then cf_ReplaceAllString env regex src repl else repl)"

definition isPeerToBeIgnored :: "('re, 'c, 't) configEnv \<Rightarrow> ('re, 'c, 't, 'f) EndpointConfig \<Rightarrow> string \<Rightarrow> bool" where
  "isPeerToBeIgnored env c peerName = (case matching env (ec_peerMatchers c) peerName of None \<Rightarrow> False | Some (r, m) \<Rightarrow> ma_IgnoreEndpoint m)"

definition isOrdererToBeIgnored :: "('re, 'c, 't) configEnv \<Rightarrow> ('re, 'c, 't, 'f) EndpointConfig \<Rightarrow> string \<Rightarrow> bool" where
  "isOrdererToBeIgnored env c ordererName = (case matching env (ec_ordererMatchers c) ordererName of None \<Rightarrow> False | Some (r, m) \<Rightarrow> ma_IgnoreEndpoint m)"

definition findMatchingPeer :: "('re, 'c, 't) configEnv \<Rightarrow> ('re, 'c, 't, 'f) EndpointConfig \<Rightarrow> string \<Rightarrow> string option" where
  "findMatchingPeer env c peerName = (case matching env (ec_peerMatchers c) peerName of None \<Rightarrow> None | Some (r, m) \<Rightarrow> Some (ma_MappedHost m))"

definition mappedChannelName :: "('re, 'c, 't) configEnv \<Rightarrow> ('re, 'c, 't, 'f) EndpointConfig \<Rightarrow> ('c, 'f) NetworkConfig \<Rightarrow> string \<Rightarrow> string" where
  "mappedChannelName env c networkConfig channelName =
    (if map_of (nc_Channels networkConfig) (ToLower channelName) \<noteq> None then channelName
     else if length (ec_channelMatchers c) = 0 then ''_default''
     else case matching env (ec_channelMatchers c) channelName of Some (r, m) \<Rightarrow> ma_MappedName m | None \<Rightarrow> ''_default'')"

text \<open>
  A matched endpoint is a copy of the mapped host, with a map of its own. The code finds an endpoint in the network configuration, which is
  the argument \<open>nc\<close>: \<open>ec_networkConfig\<close> is not nil when these run.
\<close>

definition getDefaultMatchingURL :: "string \<Rightarrow> string" where
  "getDefaultMatchingURL searchKey = (if Contains searchKey '':'' then searchKey else [])"

definition set_opt :: "string \<Rightarrow> cval \<Rightarrow> options \<Rightarrow> options" where
  "set_opt k v os = (if map_of os k = None then os @ [(k, v)] else map (\<lambda>(k', v'). (k', if k' = k then v else v')) os)"

definition mapped_node :: "(string \<times> 'c NodeConfig) list \<Rightarrow> 'c NodeConfig \<Rightarrow> string \<Rightarrow> 'c NodeConfig" where
  "mapped_node nodes dflt host =
    (let nd = (case map_of nodes (ToLower host) of Some p \<Rightarrow> p | None \<Rightarrow> dflt)
     in nd\<lparr>nd_GRPCOptions := Some (case nd_GRPCOptions nd of None \<Rightarrow> [] | Some os \<Rightarrow> os)\<rparr>)"

definition getMappedPeer :: "('re, 'c, 't, 'f) EndpointConfig \<Rightarrow> ('c, 'f) NetworkConfig \<Rightarrow> string \<Rightarrow> 'c NodeConfig" where
  "getMappedPeer c nc host = mapped_node (nc_Peers nc) (ec_defaultPeerConfig c) host"

definition getMappedOrderer :: "('re, 'c, 't, 'f) EndpointConfig \<Rightarrow> ('c, 'f) NetworkConfig \<Rightarrow> string \<Rightarrow> 'c NodeConfig" where
  "getMappedOrderer c nc host = mapped_node (nc_Orderers nc) (ec_defaultOrdererConfig c) host"

definition substitute :: "('re, 'c, 't) configEnv \<Rightarrow> 're matcherEntry \<Rightarrow> string \<Rightarrow> 'c NodeConfig \<Rightarrow> 'c NodeConfig" where
  "substitute env matcher searchKey nd = (case matcher of (regex, m) \<Rightarrow>
     let n1 = (if ma_URLSubstitutionExp m \<noteq> [] then nd\<lparr>nd_URL := regexMatchAndReplace env regex searchKey (ma_URLSubstitutionExp m)\<rparr> else nd);
         n2 = (if ma_SSLTargetOverrideURLSubstitutionExp m \<noteq> []
               then n1\<lparr>nd_GRPCOptions := map_option (set_opt ''ssl-target-name-override''
                      (CString (regexMatchAndReplace env regex searchKey (ma_SSLTargetOverrideURLSubstitutionExp m)))) (nd_GRPCOptions n1)\<rparr> else n1)
     in if nd_URL n2 = [] then n2\<lparr>nd_URL := getDefaultMatchingURL searchKey\<rparr> else n2)"

definition matchPeer :: "('re, 'c, 't) configEnv \<Rightarrow> ('re, 'c, 't, 'f) EndpointConfig \<Rightarrow> ('c, 'f) NetworkConfig \<Rightarrow> string \<Rightarrow> 're matcherEntry
    \<Rightarrow> 'c NodeConfig option" where
  "matchPeer env c nc peerSearchKey matcher = (case matcher of (regex, m) \<Rightarrow>
     if ma_IgnoreEndpoint m then None
     else Some (substitute env matcher peerSearchKey (getMappedPeer c nc (regexMatchAndReplace env regex peerSearchKey (ma_MappedHost m)))))"

definition tryMatchingPeerConfig :: "('re, 'c, 't) configEnv \<Rightarrow> ('re, 'c, 't, 'f) EndpointConfig \<Rightarrow> ('c, 'f) NetworkConfig \<Rightarrow> string \<Rightarrow> bool
    \<Rightarrow> 'c NodeConfig option" where
  "tryMatchingPeerConfig env c nc peerSearchKey searchByURL = (case matching env (ec_peerMatchers c) peerSearchKey of
     Some matcher \<Rightarrow> matchPeer env c nc peerSearchKey matcher
   | None \<Rightarrow> (case map_of (nc_Peers nc) (ToLower peerSearchKey) of
       Some p \<Rightarrow> Some p
     | None \<Rightarrow> (case if searchByURL then find (\<lambda>(k, p). EqualFold (nd_URL p) peerSearchKey) (nc_Peers nc) else None of
         Some (k, p) \<Rightarrow> Some p
       | None \<Rightarrow> if searchByURL \<and> Contains peerSearchKey '':'' then Some ((ec_defaultPeerConfig c)\<lparr>nd_URL := peerSearchKey\<rparr>) else None)))"

text \<open>The result for an orderer says in addition whether it is ignored.\<close>

definition matchOrderer :: "('re, 'c, 't) configEnv \<Rightarrow> ('re, 'c, 't, 'f) EndpointConfig \<Rightarrow> ('c, 'f) NetworkConfig \<Rightarrow> string \<Rightarrow> 're matcherEntry
    \<Rightarrow> 'c NodeConfig option \<times> bool" where
  "matchOrderer env c nc ordererSearchKey matcher = (case matcher of (regex, m) \<Rightarrow>
     if ma_IgnoreEndpoint m then (None, True)
     else (Some (substitute env matcher ordererSearchKey
         (getMappedOrderer c nc (regexMatchAndReplace env regex ordererSearchKey (ma_MappedHost m)))), False))"

definition tryMatchingOrdererConfig :: "('re, 'c, 't) configEnv \<Rightarrow> ('re, 'c, 't, 'f) EndpointConfig \<Rightarrow> ('c, 'f) NetworkConfig \<Rightarrow> string \<Rightarrow> bool
    \<Rightarrow> 'c NodeConfig option \<times> bool" where
  "tryMatchingOrdererConfig env c nc ordererSearchKey searchByURL = (case matching env (ec_ordererMatchers c) ordererSearchKey of
     Some matcher \<Rightarrow> matchOrderer env c nc ordererSearchKey matcher
   | None \<Rightarrow> (case map_of (nc_Orderers nc) (ToLower ordererSearchKey) of
       Some p \<Rightarrow> (Some p, False)
     | None \<Rightarrow> (case if searchByURL then find (\<lambda>p. EqualFold (nd_URL p) ordererSearchKey) (ec_ordererConfigs c) else None of
         Some p \<Rightarrow> (Some p, False)
       | None \<Rightarrow> if searchByURL \<and> Contains ordererSearchKey '':'' then (Some ((ec_defaultOrdererConfig c)\<lparr>nd_URL := ordererSearchKey\<rparr>), False)
           else (None, False))))"

end
