(* ===== verification/Endpoint_Load.thy ===== *)
theory Endpoint_Load
  imports Endpoint_Config "HOL-Library.AList"
begin

text \<open>
  Loading the configuration of the endpoints (pkg/fab/endpointconfig.go): defaults, the network configuration, and the dictionaries of
  peers and orderers; and the operations of the configuration that is loaded.
\<close>

section \<open>Channel policies\<close>

definition no_retry :: "'f::zero Opts" where
  "no_retry = \<lparr>Attempts = 0, InitialBackoff = 0, MaxBackoff = 0, BackoffFactor = 0, RetryableCodes = []\<rparr>"

definition defaultDiscoveryRetryableCodes :: "wire \<Rightarrow> codes" where
  "defaultDiscoveryRetryableCodes w = [(GRPCTransportStatus, [w_Unavailable w]), (DiscoveryServerStatus, [QueryEndorsers])]"

text \<open>\<open>f1_75\<close> is the floating point number 1.75.\<close>

definition defaultDiscoveryRetryOpts :: "wire \<Rightarrow> 'f \<Rightarrow> 'f Opts" where
  "defaultDiscoveryRetryOpts w f1_75 = \<lparr>Attempts = 6, InitialBackoff = 500 * Millisecond, MaxBackoff = 5 * Second, BackoffFactor = f1_75,
     RetryableCodes = defaultDiscoveryRetryableCodes w\<rparr>"

definition defaultChannelPolicies :: "wire \<Rightarrow> 'f \<Rightarrow> 'f::zero ChannelPolicies" where
  "defaultChannelPolicies w f1_75 = \<lparr>
     po_QueryChannelConfig = \<lparr>qc_MinResponses = 1, qc_MaxTargets = 2, qc_RetryOpts = no_retry\<rparr>,
     po_Discovery = \<lparr>dp_MinResponses = 1, dp_MaxTargets = 2, dp_RetryOpts = defaultDiscoveryRetryOpts w f1_75\<rparr>,
     po_Selection = \<lparr>SortingStrategy = ''BlockHeightPriority'', pol_Balancer = ''Random'', pol_BlockHeightLagThreshold = 5\<rparr>,
     po_EventService = \<lparr>es_ResolverStrategy = ''PreferOrg'', es_MinBlockHeightResolverMode = ''ResolveByThreshold'', es_Balancer = ''Random'',
       es_BlockHeightLagThreshold = 5, es_PeerMonitor = [], es_ReconnectBlockHeightLagThreshold = 10, es_PeerMonitorPeriod = 5 * Second\<rparr>\<rparr>"

definition isEmpty :: "'f::zero Opts \<Rightarrow> bool" where
  "isEmpty opts \<longleftrightarrow> Attempts opts = 0 \<and> InitialBackoff opts = 0 \<and> BackoffFactor opts = 0 \<and> MaxBackoff opts = 0 \<and> length (RetryableCodes opts) = 0"

definition addMissingRetryOpts :: "'f::zero Opts \<Rightarrow> 'f Opts \<Rightarrow> 'f Opts" where
  "addMissingRetryOpts opts defaultOpts = opts\<lparr>
     InitialBackoff := (if InitialBackoff opts = 0 then InitialBackoff defaultOpts else InitialBackoff opts),
     BackoffFactor := (if BackoffFactor opts = 0 then BackoffFactor defaultOpts else BackoffFactor opts),
     MaxBackoff := (if MaxBackoff opts = 0 then MaxBackoff defaultOpts else MaxBackoff opts),
     RetryableCodes := (if length (RetryableCodes opts) = 0 then RetryableCodes defaultOpts else RetryableCodes opts)\<rparr>"

text \<open>The value that is configured, or the default if it is the zero value.\<close>

definition or_default :: "'a \<Rightarrow> 'a \<Rightarrow> 'a \<Rightarrow> 'a" where
  "or_default zero dflt v = (if v = zero then dflt else v)"

definition addMissingDiscoveryPolicyInfo :: "'f::zero DiscoveryPolicy \<Rightarrow> 'f DiscoveryPolicy \<Rightarrow> 'f DiscoveryPolicy" where
  "addMissingDiscoveryPolicyInfo dflt policy = \<lparr>
     dp_MinResponses = or_default 0 (dp_MinResponses dflt) (dp_MinResponses policy),
     dp_MaxTargets = or_default 0 (dp_MaxTargets dflt) (dp_MaxTargets policy),
     dp_RetryOpts = (if isEmpty (dp_RetryOpts policy) then dp_RetryOpts dflt
       else addMissingRetryOpts (dp_RetryOpts policy) (dp_RetryOpts dflt))\<rparr>"

definition addMissingSelectionPolicyInfo :: "SelectionPolicy \<Rightarrow> SelectionPolicy \<Rightarrow> SelectionPolicy" where
  "addMissingSelectionPolicyInfo dflt policy = \<lparr>
     SortingStrategy = or_default [] (SortingStrategy dflt) (SortingStrategy policy),
     pol_Balancer = or_default [] (pol_Balancer dflt) (pol_Balancer policy),
     pol_BlockHeightLagThreshold = or_default 0 5 (pol_BlockHeightLagThreshold policy)\<rparr>"

definition addMissingQueryChannelConfigPolicyInfo :: "'f::zero QueryChannelConfigPolicy \<Rightarrow> 'f QueryChannelConfigPolicy
    \<Rightarrow> 'f QueryChannelConfigPolicy" where
  "addMissingQueryChannelConfigPolicyInfo dflt policy = \<lparr>
     qc_MinResponses = or_default 0 (qc_MinResponses dflt) (qc_MinResponses policy),
     qc_MaxTargets = or_default 0 (qc_MaxTargets dflt) (qc_MaxTargets policy),
     qc_RetryOpts = (if isEmpty (qc_RetryOpts policy) then qc_RetryOpts dflt
       else addMissingRetryOpts (qc_RetryOpts policy) (qc_RetryOpts dflt))\<rparr>"

definition addMissingEventServicePolicyInfo :: "EventServicePolicy \<Rightarrow> EventServicePolicy \<Rightarrow> EventServicePolicy" where
  "addMissingEventServicePolicyInfo dflt policy = \<lparr>
     es_ResolverStrategy = or_default [] (es_ResolverStrategy dflt) (es_ResolverStrategy policy),
     es_MinBlockHeightResolverMode = or_default [] (es_MinBlockHeightResolverMode dflt) (es_MinBlockHeightResolverMode policy),
     es_Balancer = or_default [] (es_Balancer dflt) (es_Balancer policy),
     es_BlockHeightLagThreshold = or_default 0 (es_BlockHeightLagThreshold dflt) (es_BlockHeightLagThreshold policy),
     es_PeerMonitor = or_default [] (es_PeerMonitor dflt) (es_PeerMonitor policy),
     es_ReconnectBlockHeightLagThreshold =
       or_default 0 (es_ReconnectBlockHeightLagThreshold dflt) (es_ReconnectBlockHeightLagThreshold policy),
     es_PeerMonitorPeriod = or_default 0 (es_PeerMonitorPeriod dflt) (es_PeerMonitorPeriod policy)\<rparr>"

definition addMissingChannelPoliciesItems :: "'f::zero ChannelPolicies \<Rightarrow> 'f ChannelEndpointConfig \<Rightarrow> 'f ChannelPolicies" where
  "addMissingChannelPoliciesItems dflt chNwCfg = (let policies = che_Policies chNwCfg in \<lparr>
     po_QueryChannelConfig = addMissingQueryChannelConfigPolicyInfo (po_QueryChannelConfig dflt) (po_QueryChannelConfig policies),
     po_Discovery = addMissingDiscoveryPolicyInfo (po_Discovery dflt) (po_Discovery policies),
     po_Selection = addMissingSelectionPolicyInfo (po_Selection dflt) (po_Selection policies),
     po_EventService = addMissingEventServicePolicyInfo (po_EventService dflt) (po_EventService policies)\<rparr>)"

definition loadDefaultDiscoveryPolicy :: "wire \<Rightarrow> 'f DiscoveryPolicy \<Rightarrow> 'f DiscoveryPolicy" where
  "loadDefaultDiscoveryPolicy w policy = \<lparr>
     dp_MinResponses = or_default 0 1 (dp_MinResponses policy),
     dp_MaxTargets = or_default 0 2 (dp_MaxTargets policy),
     dp_RetryOpts = (if length (RetryableCodes (dp_RetryOpts policy)) = 0
       then (dp_RetryOpts policy)\<lparr>RetryableCodes := defaultDiscoveryRetryableCodes w\<rparr> else dp_RetryOpts policy)\<rparr>"

definition loadDefaultSelectionPolicy :: "SelectionPolicy \<Rightarrow> SelectionPolicy" where
  "loadDefaultSelectionPolicy policy = \<lparr>
     SortingStrategy = or_default [] ''BlockHeightPriority'' (SortingStrategy policy),
     pol_Balancer = or_default [] ''RoundRobin'' (pol_Balancer policy),
     pol_BlockHeightLagThreshold = or_default 0 5 (pol_BlockHeightLagThreshold policy)\<rparr>"

definition loadDefaultQueryChannelPolicy :: "'f QueryChannelConfigPolicy \<Rightarrow> 'f QueryChannelConfigPolicy" where
  "loadDefaultQueryChannelPolicy policy = policy\<lparr>
     qc_MaxTargets := or_default 0 2 (qc_MaxTargets policy), qc_MinResponses := or_default 0 1 (qc_MinResponses policy)\<rparr>"

definition loadDefaultEventServicePolicy :: "EventServicePolicy \<Rightarrow> EventServicePolicy" where
  "loadDefaultEventServicePolicy policy = policy\<lparr>
     es_ResolverStrategy := or_default [] ''PreferOrg'' (es_ResolverStrategy policy),
     es_MinBlockHeightResolverMode := or_default [] ''ResolveByThreshold'' (es_MinBlockHeightResolverMode policy),
     es_Balancer := or_default [] ''Random'' (es_Balancer policy),
     es_BlockHeightLagThreshold := or_default 0 5 (es_BlockHeightLagThreshold policy),
     es_ReconnectBlockHeightLagThreshold := or_default 0 10 (es_ReconnectBlockHeightLagThreshold policy),
     es_PeerMonitorPeriod := or_default 0 (5 * Second) (es_PeerMonitorPeriod policy)\<rparr>"

definition loadDefaultChannelPolicies :: "wire \<Rightarrow> 'f \<Rightarrow> 'f::zero endpointConfigEntity \<Rightarrow> 'f ChannelPolicies" where
  "loadDefaultChannelPolicies w f1_75 configEntity =
    (let policies = (case map_of (ee_Channels configEntity) ''_default'' of
         None \<Rightarrow> defaultChannelPolicies w f1_75 | Some defaultChannel \<Rightarrow> che_Policies defaultChannel)
     in \<lparr>po_QueryChannelConfig = loadDefaultQueryChannelPolicy (po_QueryChannelConfig policies),
         po_Discovery = loadDefaultDiscoveryPolicy w (po_Discovery policies),
         po_Selection = loadDefaultSelectionPolicy (po_Selection policies),
         po_EventService = loadDefaultEventServicePolicy (po_EventService policies)\<rparr>)"

section \<open>Default endpoints\<close>

text \<open>Setting an option that is missing panics if the map of options is nil.\<close>

definition default_options :: options where
  "default_options = [(''keep-alive-time'', CInt 0), (''keep-alive-timeout'', CDuration (20 * Second)),
     (''keep-alive-permit'', CBool False), (''fail-fast'', CBool False), (''allow-insecure'', CBool False)]"

definition fill_option :: "string \<times> cval \<Rightarrow> options option \<Rightarrow> options option outcome" where
  "fill_option d os = (case os of
     None \<Rightarrow> Panic
   | Some l \<Rightarrow> Ok (Some (setDefault (fst d) (snd d) l)))"

definition loadDefaultNode :: "('re, 'c, 't) configEnv \<Rightarrow> string \<Rightarrow> (string \<times> NodeEntity) list \<Rightarrow> 'c NodeConfig res outcome" where
  "loadDefaultNode env failed entities =
    (let entity = (case map_of entities ''_default'' of Some e \<Rightarrow> e | None \<Rightarrow> \<lparr>en_URL = [], en_GRPCOptions = Some [], en_TLSCACerts = no_tls\<rparr>)
     in obind (ofold fill_option default_options (en_GRPCOptions entity)) (\<lambda>os.
          Ok (rbind (wrap_err failed (TLSCert env (en_TLSCACerts entity))) (\<lambda>(cert, found).
            Inr \<lparr>nd_URL = [], nd_GRPCOptions = os, nd_TLSCACert = cert\<rparr>))))"

definition loadDefaultOrderer :: "('re, 'c, 't) configEnv \<Rightarrow> 'f endpointConfigEntity \<Rightarrow> 'c NodeConfig res outcome" where
  "loadDefaultOrderer env configEntity = loadDefaultNode env ''failed to load default orderer network config'' (ee_Orderers configEntity)"

definition loadDefaultPeer :: "('re, 'c, 't) configEnv \<Rightarrow> 'f endpointConfigEntity \<Rightarrow> 'c NodeConfig res outcome" where
  "loadDefaultPeer env configEntity = loadDefaultNode env ''failed to load default peer network config'' (ee_Peers configEntity)"

definition loadDefaultConfigItems :: "('re, 'c, 't) configEnv \<Rightarrow> 'f \<Rightarrow> 'f::zero endpointConfigEntity \<Rightarrow> ('re, 'c, 't, 'f) EndpointConfig
    \<Rightarrow> ('re, 'c, 't, 'f) EndpointConfig res outcome" where
  "loadDefaultConfigItems env f1_75 configEntity c =
     obind (loadDefaultOrderer env configEntity) (\<lambda>r. case wrap_err ''failed to load default orderer'' r of
       Inl e \<Rightarrow> Ok (Inl e)
     | Inr o' \<Rightarrow> obind (loadDefaultPeer env configEntity) (\<lambda>r. case wrap_err ''failed to load default peer'' r of
         Inl e \<Rightarrow> Ok (Inl e)
       | Inr p \<Rightarrow> Ok (Inr (c\<lparr>ec_defaultOrdererConfig := o', ec_defaultPeerConfig := p,
             ec_defaultChannelPolicies := loadDefaultChannelPolicies (cf_wire env) f1_75 configEntity\<rparr>))))"

section \<open>The network configuration\<close>

definition loadChannelEndpointConfig :: "('re, 'c, 't) configEnv \<Rightarrow> ('re, 'c, 't, 'f::zero) EndpointConfig \<Rightarrow> 'f ChannelEndpointConfig
    \<Rightarrow> 'f ChannelEndpointConfig option \<Rightarrow> 'f ChannelEndpointConfig" where
  "loadChannelEndpointConfig env c chNwCfg defChNwCfg =
    (let peers = (if che_Peers chNwCfg = [] then (case defChNwCfg of None \<Rightarrow> [] | Some d \<Rightarrow> che_Peers d) else che_Peers chNwCfg);
         orderers = (if che_Orderers chNwCfg = [] then (case defChNwCfg of None \<Rightarrow> [] | Some d \<Rightarrow> che_Orderers d) else che_Orderers chNwCfg)
     in \<lparr>che_Orderers = filter (\<lambda>n. \<not> isOrdererToBeIgnored env c n) orderers,
         che_Peers = filter (\<lambda>(n, p). \<not> isPeerToBeIgnored env c n) peers,
         che_Policies = addMissingChannelPoliciesItems (ec_defaultChannelPolicies c) chNwCfg\<rparr>)"

text \<open>What is missing in a peer or an orderer is taken from the default.\<close>

definition add_missing :: "int \<Rightarrow> 'c NodeConfig \<Rightarrow> string \<Rightarrow> 'c NodeConfig \<Rightarrow> 'c NodeConfig" where
  "add_missing port dflt name config =
    (let c1 = (if nd_URL config = [] then config\<lparr>nd_URL := (if nd_URL dflt = [] then name @ '':'' @ decInt port else nd_URL dflt)\<rparr> else config);
         c2 = (if nd_TLSCACert c1 = None then c1\<lparr>nd_TLSCACert := nd_TLSCACert dflt\<rparr> else c1)
     in case nd_GRPCOptions c2 of
          None \<Rightarrow> c2\<lparr>nd_GRPCOptions := nd_GRPCOptions dflt\<rparr>
        | Some os \<Rightarrow> if os = [] then c2\<lparr>nd_GRPCOptions := nd_GRPCOptions dflt\<rparr>
            else c2\<lparr>nd_GRPCOptions := Some (fold (\<lambda>(k, v). setDefault k v) (case nd_GRPCOptions dflt of None \<Rightarrow> [] | Some d \<Rightarrow> d) os)\<rparr>)"

definition addMissingPeerConfigItems :: "('re, 'c, 't, 'f) EndpointConfig \<Rightarrow> string \<Rightarrow> 'c NodeConfig \<Rightarrow> 'c NodeConfig" where
  "addMissingPeerConfigItems c name config = add_missing 7051 (ec_defaultPeerConfig c) name config"

definition addMissingOrdererConfigItems :: "('re, 'c, 't, 'f) EndpointConfig \<Rightarrow> string \<Rightarrow> 'c NodeConfig \<Rightarrow> 'c NodeConfig" where
  "addMissingOrdererConfigItems c name config = add_missing 7050 (ec_defaultOrdererConfig c) name config"

primrec loadAllPeerConfigs :: "('re, 'c, 't) configEnv \<Rightarrow> ('re, 'c, 't, 'f) EndpointConfig \<Rightarrow> (string \<times> NodeEntity) list
    \<Rightarrow> (string \<times> 'c NodeConfig) list res" where
  "loadAllPeerConfigs env c [] = Inr []"
| "loadAllPeerConfigs env c (p # entityPeers) = (case p of (name, peerConfig) \<Rightarrow>
     if name = ''_default'' \<or> isPeerToBeIgnored env c name then loadAllPeerConfigs env c entityPeers
     else rbind (wrap_err ''failed to load peer network config'' (TLSCert env (en_TLSCACerts peerConfig))) (\<lambda>(tlsCert, found).
       rbind (loadAllPeerConfigs env c entityPeers) (\<lambda>peers. Inr ((name, addMissingPeerConfigItems c name
         \<lparr>nd_URL = en_URL peerConfig, nd_GRPCOptions = en_GRPCOptions peerConfig, nd_TLSCACert = tlsCert\<rparr>) # peers))))"

primrec loadAllOrdererConfigs :: "('re, 'c, 't) configEnv \<Rightarrow> ('re, 'c, 't, 'f) EndpointConfig \<Rightarrow> (string \<times> NodeEntity) list
    \<Rightarrow> (string \<times> 'c NodeConfig) list res" where
  "loadAllOrdererConfigs env c [] = Inr []"
| "loadAllOrdererConfigs env c (p # entityOrderers) = (case p of (name, ordererConfig) \<Rightarrow>
     if name = ''_default'' \<or> isOrdererToBeIgnored env c name then loadAllOrdererConfigs env c entityOrderers
     else rbind (wrap_err ''failed to load orderer network config'' (TLSCert env (en_TLSCACerts ordererConfig))) (\<lambda>(tlsCert, found).
       rbind (loadAllOrdererConfigs env c entityOrderers) (\<lambda>orderers. Inr ((name, addMissingOrdererConfigItems c name
         \<lparr>nd_URL = en_URL ordererConfig, nd_GRPCOptions = en_GRPCOptions ordererConfig, nd_TLSCACert = tlsCert\<rparr>) # orderers))))"

definition loadNetworkConfig :: "('re, 'c, 't) configEnv \<Rightarrow> 'f \<Rightarrow> 'f::zero endpointConfigEntity \<Rightarrow> ('re, 'c, 't, 'f) EndpointConfig
    \<Rightarrow> ('c, 'f) NetworkConfig res" where
  "loadNetworkConfig env f1_75 configEntity c =
    (let defChNwCfg = map_of (ee_Channels configEntity) ''_default'';
         dflt = (case defChNwCfg of
           Some d \<Rightarrow> loadChannelEndpointConfig env c d None
         | None \<Rightarrow> \<lparr>che_Orderers = [], che_Peers = [], che_Policies = defaultChannelPolicies (cf_wire env) f1_75\<rparr>);
         channels = map (\<lambda>(chID, chNwCfg). (chID, loadChannelEndpointConfig env c chNwCfg defChNwCfg))
           (filter (\<lambda>(chID, chNwCfg). chID \<noteq> ''_default'') (ee_Channels configEntity));
         orgs = map (\<lambda>(orgName, org). (orgName, \<lparr>og_MSPID = og_MSPID org, og_CryptoPath = og_CryptoPath org,
             og_Users = map (\<lambda>(user, kp). (user, \<lparr>ck_Cert = tc_bytes (kp_Cert kp), ck_Key = tc_bytes (kp_Key kp)\<rparr>)) (og_Users org),
             og_Peers = og_Peers org, og_CertificateAuthorities = og_CertificateAuthorities org\<rparr>)) (ee_Organizations configEntity)
     in rbind (loadAllOrdererConfigs env c (ee_Orderers configEntity)) (\<lambda>orderers.
        rbind (loadAllPeerConfigs env c (ee_Peers configEntity)) (\<lambda>peers.
          Inr \<lparr>nc_Channels = (''_default'', dflt) # channels, nc_Organizations = orgs, nc_Orderers = orderers, nc_Peers = peers\<rparr>)))"

section \<open>Certificates of the configured entities\<close>

text \<open>A loop over a map whose body replaces the value of the key.\<close>

primrec map_values :: "('a \<Rightarrow> 'b res) \<Rightarrow> (string \<times> 'a) list \<Rightarrow> (string \<times> 'b) list res" where
  "map_values f [] = Inr []"
| "map_values f (x # xs) = rbind (f (snd x)) (\<lambda>y. rbind (map_values f xs) (\<lambda>ys. Inr ((fst x, y) # ys)))"

definition loadClientTLSConfig :: "('re, 'c, 't) configEnv \<Rightarrow> ClientConfig \<Rightarrow> ClientConfig res" where
  "loadClientTLSConfig env client =
     rbind (load_pair env ''failed to load client key'' ''failed to load client cert'' (resolve_pair env (ecl_TLSCerts client))) (\<lambda>kp.
       Inr \<lparr>ecl_Organization = ToLower (ecl_Organization client), ecl_TLSCerts = kp\<rparr>)"

definition loadOrgTLSConfig :: "('re, 'c, 't) configEnv \<Rightarrow> (string \<times> TLSKeyPair OrganizationConfig) list
    \<Rightarrow> (string \<times> TLSKeyPair OrganizationConfig) list res" where
  "loadOrgTLSConfig env organizations = map_values (\<lambda>orgConfig.
     rbind (map_values (\<lambda>kp. load_pair env ''failed to load org key'' ''failed to load org cert'' (resolve_pair env kp)) (og_Users orgConfig)) (\<lambda>users.
       Inr (orgConfig\<lparr>og_Users := users\<rparr>))) organizations"

definition load_node_cert :: "('re, 'c, 't) configEnv \<Rightarrow> string \<Rightarrow> NodeEntity \<Rightarrow> NodeEntity res" where
  "load_node_cert env failed nd =
     rbind (wrap_err failed (LoadBytes env (resolve_path env (en_TLSCACerts nd)))) (\<lambda>cert. Inr (nd\<lparr>en_TLSCACerts := cert\<rparr>))"

definition loadOrdererPeerTLSConfig :: "('re, 'c, 't) configEnv \<Rightarrow> 'f endpointConfigEntity \<Rightarrow> 'f endpointConfigEntity res" where
  "loadOrdererPeerTLSConfig env configEntity =
     rbind (map_values (load_node_cert env ''failed to load orderer cert'') (ee_Orderers configEntity)) (\<lambda>orderers.
     rbind (map_values (load_node_cert env ''failed to load peer cert'') (ee_Peers configEntity)) (\<lambda>peers.
       Inr (configEntity\<lparr>ee_Orderers := orderers, ee_Peers := peers\<rparr>)))"

definition loadPrivateKeyFromConfig :: "('re, 'c, 't) configEnv \<Rightarrow> ClientConfig \<Rightarrow> bytes \<Rightarrow> 't option list res" where
  "loadPrivateKeyFromConfig env client cb = (case cf_TLSKeyPair env cb (tc_bytes (kp_Key (ecl_TLSCerts client))) of
     Inl err \<Rightarrow> Inl (ErrorF ''Error loading cert/key pair as TLS client credentials: %s'' [FS (errorText (cf_wire env) err)])
   | Inr t \<Rightarrow> Inr [Some t])"

definition loadTLSClientCerts :: "('re, 'c, 't) configEnv \<Rightarrow> ClientConfig \<Rightarrow> 't option list res" where
  "loadTLSClientCerts env client = (let cb = tc_bytes (kp_Cert (ecl_TLSCerts client)) in
     if length cb = 0 then Inr [None]
     else case cf_KeyPairFromCert env cb of
       None \<Rightarrow> wrap_err ''failed to load TLS client certs'' (loadPrivateKeyFromConfig env client cb)
     | Some r \<Rightarrow> rbind (wrap_err ''failed to load TLS client certs, failed to get X509KeyPair'' r) (\<lambda>t. Inr [Some t]))"

definition loadAllTLSConfig :: "('re, 'c, 't) configEnv \<Rightarrow> 'f endpointConfigEntity \<Rightarrow> ('f endpointConfigEntity \<times> 't option list) res" where
  "loadAllTLSConfig env configEntity =
     rbind (wrap_err ''failed to load client TLSConfig '' (loadClientTLSConfig env (ee_Client configEntity))) (\<lambda>client.
     rbind (wrap_err ''failed to load org TLSConfig '' (loadOrgTLSConfig env (ee_Organizations configEntity))) (\<lambda>orgs.
     rbind (wrap_err ''failed to load orderer/peer TLSConfig ''
       (loadOrdererPeerTLSConfig env (configEntity\<lparr>ee_Client := client, ee_Organizations := orgs\<rparr>))) (\<lambda>e1.
     rbind (wrap_err ''failed to load TLS client certs '' (loadTLSClientCerts env client)) (\<lambda>certs. Inr (e1, certs)))))"

section \<open>The dictionaries\<close>

definition verifyPeerConfig :: "('re, 'c, 't) configEnv \<Rightarrow> ConfigLookup \<Rightarrow> 'c NodeConfig \<Rightarrow> string \<Rightarrow> bool \<Rightarrow> goerr option" where
  "verifyPeerConfig env lk p peerName tlsEnabled =
    (if nd_URL p = [] then Some (ErrorF ''URL does not exist or empty for peer %s'' [FS peerName])
     else if tlsEnabled \<and> nd_TLSCACert p = None \<and> \<not> GetBool env lk ''client.tlsCerts.systemCertPool''
     then Some (ErrorF ''tls.certificate does not exist or empty for peer %s'' [FS peerName])
     else None)"

definition org_peers :: "('re, 'c, 't) configEnv \<Rightarrow> ('re, 'c, 't, 'f) EndpointConfig \<Rightarrow> ('c, 'f) NetworkConfig \<Rightarrow> string list \<Rightarrow> 'c NodeConfig list" where
  "org_peers env c nc orgPeers = List.map_filter (\<lambda>peerName. case tryMatchingPeerConfig env c nc peerName False of
     None \<Rightarrow> None
   | Some p \<Rightarrow> if verifyPeerConfig env (ec_backend c) p peerName (IsTLSEnabled (nd_URL p)) \<noteq> None then None else Some p) orgPeers"

definition loadPeerConfigsByOrg :: "('re, 'c, 't) configEnv \<Rightarrow> ('re, 'c, 't, 'f) EndpointConfig \<Rightarrow> ('c, 'f) NetworkConfig
    \<Rightarrow> (string \<times> 'c NodeConfig list) list" where
  "loadPeerConfigsByOrg env c nc =
     fold (\<lambda>(orgName, orgConfig). AList.update (ToLower orgName) (org_peers env c nc (og_Peers orgConfig))) (nc_Organizations nc) []"

definition loadNetworkPeers :: "('c, 'f) NetworkConfig \<Rightarrow> (string \<times> 'c NodeConfig list) list \<Rightarrow> 'c NetworkPeer list" where
  "loadNetworkPeers nc peerConfigsByOrg = concat (map (\<lambda>(org, peerConfigs). case map_of (nc_Organizations nc) org of
     None \<Rightarrow> []
   | Some orgConfig \<Rightarrow> map (\<lambda>p. \<lparr>np_PeerConfig = p, np_MSPID = og_MSPID orgConfig\<rparr>) peerConfigs) peerConfigsByOrg)"

definition allows_insecure :: "'c NodeConfig \<Rightarrow> bool" where
  "allows_insecure nd \<longleftrightarrow> (case nd_GRPCOptions nd of None \<Rightarrow> False | Some os \<Rightarrow> map_of os ''allow-insecure'' = Some (CBool True))"

primrec load_orderers :: "('re, 'c, 't) configEnv \<Rightarrow> ('re, 'c, 't, 'f) EndpointConfig \<Rightarrow> ('c, 'f) NetworkConfig \<Rightarrow> string list
    \<Rightarrow> 'c NodeConfig list res" where
  "load_orderers env c nc [] = Inr []"
| "load_orderers env c nc (name # names) = (case tryMatchingOrdererConfig env c nc name False of
     (None, i) \<Rightarrow> load_orderers env c nc names
   | (Some matchedOrderer, i) \<Rightarrow>
       if i then load_orderers env c nc names
       else if nd_TLSCACert matchedOrderer = None \<and> \<not> GetBool env (ec_backend c) ''client.tlsCerts.systemCertPool''
           \<and> AttemptSecured (nd_URL matchedOrderer) (allows_insecure matchedOrderer)
       then Inl (ErrorF ''Orderer has no certs configured. Make sure TLSCACerts.Pem or TLSCACerts.Path is set for %s'' [FS (nd_URL matchedOrderer)])
       else rbind (load_orderers env c nc names) (\<lambda>os. Inr (matchedOrderer # os)))"

definition loadOrdererConfigs :: "('re, 'c, 't) configEnv \<Rightarrow> ('re, 'c, 't, 'f) EndpointConfig \<Rightarrow> ('c, 'f) NetworkConfig \<Rightarrow> 'c NodeConfig list res" where
  "loadOrdererConfigs env c nc = load_orderers env c nc (map fst (nc_Orderers nc))"

text \<open>The organization of a peer: the last one that names it or a peer that is mapped to it; in each organization the first such peer.\<close>

definition names_peer :: "('re, 'c, 't) configEnv \<Rightarrow> ('re, 'c, 't, 'f) EndpointConfig \<Rightarrow> string \<Rightarrow> string \<Rightarrow> bool" where
  "names_peer env c name orgPeer \<longleftrightarrow> EqualFold orgPeer name \<or>
     (case findMatchingPeer env c orgPeer of None \<Rightarrow> False | Some p \<Rightarrow> EqualFold p name)"

definition peerMSPID :: "('re, 'c, 't) configEnv \<Rightarrow> ('re, 'c, 't, 'f) EndpointConfig \<Rightarrow> ('c, 'f) NetworkConfig \<Rightarrow> string \<Rightarrow> string option" where
  "peerMSPID env c nc name =
    (let mspID = fold (\<lambda>(k, org) mspID. if list_ex (names_peer env c name) (og_Peers org) then og_MSPID org else mspID) (nc_Organizations nc) []
     in if mspID \<noteq> [] then Some mspID else None)"

primrec load_channel_peers :: "('re, 'c, 't) configEnv \<Rightarrow> ('re, 'c, 't, 'f) EndpointConfig \<Rightarrow> ('c, 'f) NetworkConfig \<Rightarrow> (string \<times> PeerChannelConfig) list
    \<Rightarrow> 'c ConfigChannelPeer list res" where
  "load_channel_peers env c nc [] = Inr []"
| "load_channel_peers env c nc (x # ps) = (case tryMatchingPeerConfig env c nc (ToLower (fst x)) False of
     None \<Rightarrow> load_channel_peers env c nc ps
   | Some p \<Rightarrow> (case verifyPeerConfig env (ec_backend c) p (fst x) (IsTLSEnabled (nd_URL p)) of
       Some err \<Rightarrow> Inl err
     | None \<Rightarrow> (case peerMSPID env c nc (fst x) of
         None \<Rightarrow> Inl (ErrorF ''unable to find MSP ID for peer : %s'' [FS (fst x)])
       | Some mspID \<Rightarrow> rbind (load_channel_peers env c nc ps) (\<lambda>peers.
           Inr (\<lparr>ccp_PeerChannelConfig = snd x, ccp_NetworkPeer = \<lparr>np_PeerConfig = p, np_MSPID = mspID\<rparr>\<rparr> # peers)))))"

primrec load_by_channel :: "('ch \<Rightarrow> 'a list res) \<Rightarrow> (string \<times> 'ch) list \<Rightarrow> (string \<times> 'a list) list \<Rightarrow> (string \<times> 'a list) list res" where
  "load_by_channel f [] m = Inr m"
| "load_by_channel f (x # chs) m = rbind (f (snd x)) (\<lambda>l. load_by_channel f chs (AList.update (ToLower (fst x)) l m))"

definition loadChannelPeers :: "('re, 'c, 't) configEnv \<Rightarrow> ('re, 'c, 't, 'f) EndpointConfig \<Rightarrow> ('c, 'f) NetworkConfig
    \<Rightarrow> (string \<times> 'c ConfigChannelPeer list) list res" where
  "loadChannelPeers env c nc = load_by_channel (\<lambda>ch. load_channel_peers env c nc (che_Peers ch)) (nc_Channels nc) []"

primrec load_channel_orderers :: "('re, 'c, 't) configEnv \<Rightarrow> ('re, 'c, 't, 'f) EndpointConfig \<Rightarrow> ('c, 'f) NetworkConfig \<Rightarrow> string list
    \<Rightarrow> 'c NodeConfig list res" where
  "load_channel_orderers env c nc [] = Inr []"
| "load_channel_orderers env c nc (ordererName # names) = (case tryMatchingOrdererConfig env c nc (ToLower ordererName) False of
     (orderer, ignoreOrderer) \<Rightarrow>
       if ignoreOrderer then load_channel_orderers env c nc names
       else case orderer of
         None \<Rightarrow> Inl (ErrorF ''Could not find Orderer Config for channel orderer [%s]'' [FS ordererName])
       | Some o' \<Rightarrow> rbind (load_channel_orderers env c nc names) (\<lambda>os. Inr (o' # os)))"

definition loadChannelOrderers :: "('re, 'c, 't) configEnv \<Rightarrow> ('re, 'c, 't, 'f) EndpointConfig \<Rightarrow> ('c, 'f) NetworkConfig
    \<Rightarrow> (string \<times> 'c NodeConfig list) list res" where
  "loadChannelOrderers env c nc = load_by_channel (\<lambda>ch. load_channel_orderers env c nc (che_Orderers ch)) (nc_Channels nc) []"

definition loadTLSCerts :: "'c NetworkPeer list \<Rightarrow> 'c NodeConfig list \<Rightarrow> 'c option list" where
  "loadTLSCerts networkPeers ordererConfigs =
     filter (\<lambda>c. c \<noteq> None) (map (\<lambda>p. nd_TLSCACert (np_PeerConfig p)) networkPeers) @ filter (\<lambda>c. c \<noteq> None) (map nd_TLSCACert ordererConfigs)"

definition loadTLSCertPool :: "('re, 'c, 't) configEnv \<Rightarrow> ('re, 'c, 't, 'f) EndpointConfig \<Rightarrow> 'c certPool res" where
  "loadTLSCertPool env c =
     rbind (wrap_err ''failed to create cert pool''
         (NewCertPool (cf_SystemCertPool env) (GetBool env (ec_backend c) ''client.tlsCerts.systemCertPool''))) (\<lambda>pool.
       case pool_Get (cf_SystemCertPool env) (pool_Add env (loadTLSCerts (ec_networkPeers c) (ec_ordererConfigs c)) pool) of
         (Inl err, p) \<Rightarrow> Inl (withMessage err ''cert pool load failed'')
       | (Inr x, p) \<Rightarrow> Inr p)"

definition loadDefaultChannel :: "wire \<Rightarrow> 'f \<Rightarrow> ('re, 'c, 't, 'f::zero) EndpointConfig \<Rightarrow> ('c, 'f) NetworkConfig \<Rightarrow> ('re, 'c, 't, 'f) EndpointConfig" where
  "loadDefaultChannel w f1_75 c nc = (case map_of (nc_Channels nc) ''_default'' of
     Some defChCfg \<Rightarrow> c\<lparr>ec_defaultChannel := Some defChCfg, ec_networkConfig := Some (nc\<lparr>nc_Channels := AList.delete ''_default'' (nc_Channels nc)\<rparr>)\<rparr>
   | None \<Rightarrow> c\<lparr>ec_defaultChannel := Some \<lparr>che_Orderers = [], che_Peers = [], che_Policies = defaultChannelPolicies w f1_75\<rparr>\<rparr>)"

section \<open>Loading\<close>

definition load_dictionaries :: "('re, 'c, 't) configEnv \<Rightarrow> ('re, 'c, 't, 'f) EndpointConfig \<Rightarrow> ('c, 'f) NetworkConfig
    \<Rightarrow> ('re, 'c, 't, 'f) EndpointConfig res" where
  "load_dictionaries env c0 nc =
    (let byOrg = loadPeerConfigsByOrg env c0 nc;
         c = c0\<lparr>ec_networkConfig := Some nc, ec_peerConfigsByOrg := byOrg, ec_networkPeers := loadNetworkPeers nc byOrg\<rparr>
     in rbind (wrap_err ''failed to load orderer configs'' (loadOrdererConfigs env c nc)) (\<lambda>os. let c1 = c\<lparr>ec_ordererConfigs := os\<rparr> in
        rbind (wrap_err ''failed to load channel peers'' (loadChannelPeers env c1 nc)) (\<lambda>chPeers.
        rbind (wrap_err ''failed to load channel orderers'' (loadChannelOrderers env c1 nc)) (\<lambda>chOrderers.
        rbind (wrap_err ''failed to load TLS cert pool'' (loadTLSCertPool env c1)) (\<lambda>pool.
          Inr (c1\<lparr>ec_channelPeersByChannel := chPeers, ec_channelOrderersByChannel := chOrderers, ec_tlsCertPool := Some pool\<rparr>))))))"

definition loadEndpointConfigEntities :: "('re, 'c, 't) configEnv \<Rightarrow> 'f decoders \<Rightarrow> 'f \<Rightarrow> 'f::zero endpointConfigEntity \<Rightarrow> ('re, 'c, 't, 'f) EndpointConfig
    \<Rightarrow> ('re, 'c, 't, 'f) EndpointConfig res outcome" where
  "loadEndpointConfigEntities env de f1_75 configEntity c =
    (case rbind (compileMatchers env de c) (\<lambda>c1.
        rbind (wrap_err ''failed to load network TLSConfig'' (loadAllTLSConfig env configEntity)) (\<lambda>(entity, certs). Inr (c1, entity, certs))) of
       Inl e \<Rightarrow> Ok (Inl e)
     | Inr (c1, entity, certs) \<Rightarrow> obind (loadDefaultConfigItems env f1_75 entity (c1\<lparr>ec_tlsClientCerts := certs\<rparr>)) (\<lambda>r.
         Ok (rbind (wrap_err ''failed to network config'' r) (\<lambda>c2.
             rbind (wrap_err ''failed to network config'' (loadNetworkConfig env f1_75 entity c2)) (\<lambda>nc.
             rbind (load_dictionaries env c2 nc) (\<lambda>c3. Inr (loadDefaultChannel (cf_wire env) f1_75 c3 nc)))))))"

definition no_client :: ClientConfig where
  "no_client = \<lparr>ecl_Organization = [], ecl_TLSCerts = \<lparr>kp_Key = no_tls, kp_Cert = no_tls\<rparr>\<rparr>"

definition loadEndpointConfiguration :: "('re, 'c, 't) configEnv \<Rightarrow> 'f decoders \<Rightarrow> 'f \<Rightarrow> ('re, 'c, 't, 'f::zero) EndpointConfig
    \<Rightarrow> ('re, 'c, 't, 'f) EndpointConfig res outcome" where
  "loadEndpointConfiguration env de f1_75 c = (let lk = ec_backend c in
    (case rbind (wrap_err ''failed to parse 'client' config item to endpointConfigurationEntity.Client type''
         (UnmarshalKey lk ''client'' (de_Client de) no_client)) (\<lambda>client.
       rbind (wrap_err ''failed to parse 'channels' config item to endpointConfigurationEntity.Channels type''
         (UnmarshalKey lk ''channels'' (de_Channels de peerChannelConfigHook) [])) (\<lambda>channels.
       rbind (wrap_err ''failed to parse 'organizations' config item to endpointConfigurationEntity.Organizations type''
         (UnmarshalKey lk ''organizations'' (de_Organizations de) [])) (\<lambda>orgs.
       rbind (wrap_err ''failed to parse 'orderers' config item to endpointConfigurationEntity.Orderers type''
         (UnmarshalKey lk ''orderers'' (de_Nodes de) [])) (\<lambda>orderers.
       rbind (wrap_err ''failed to parse 'peers' config item to endpointConfigurationEntity.Peers type''
         (UnmarshalKey lk ''peers'' (de_Nodes de) [])) (\<lambda>peers.
         Inr \<lparr>ee_Client = client, ee_Channels = channels, ee_Organizations = orgs, ee_Orderers = orderers, ee_Peers = peers\<rparr>))))) of
       Inl e \<Rightarrow> Ok (Inl e)
     | Inr entity \<Rightarrow> obind (loadEndpointConfigEntities env de f1_75 entity c) (\<lambda>r. Ok (wrap_err ''failed to load channel configs'' r))))"

definition no_policies :: "'f::zero ChannelPolicies" where
  "no_policies = \<lparr>po_QueryChannelConfig = \<lparr>qc_MinResponses = 0, qc_MaxTargets = 0, qc_RetryOpts = no_retry\<rparr>,
     po_Discovery = \<lparr>dp_MinResponses = 0, dp_MaxTargets = 0, dp_RetryOpts = no_retry\<rparr>,
     po_Selection = \<lparr>SortingStrategy = [], pol_Balancer = [], pol_BlockHeightLagThreshold = 0\<rparr>,
     po_EventService = \<lparr>es_ResolverStrategy = [], es_MinBlockHeightResolverMode = [], es_Balancer = [], es_BlockHeightLagThreshold = 0,
       es_PeerMonitor = [], es_ReconnectBlockHeightLagThreshold = 0, es_PeerMonitorPeriod = 0\<rparr>\<rparr>"

definition no_node :: "'c NodeConfig" where
  "no_node = \<lparr>nd_URL = [], nd_GRPCOptions = None, nd_TLSCACert = None\<rparr>"

definition new_config :: "ConfigLookup \<Rightarrow> ('re, 'c, 't, 'f::zero) EndpointConfig" where
  "new_config backends = \<lparr>ec_backend = backends, ec_networkConfig = None, ec_tlsCertPool = None, ec_entityMatchers = None, ec_peerConfigsByOrg = [],
     ec_networkPeers = [], ec_ordererConfigs = [], ec_channelPeersByChannel = [], ec_channelOrderersByChannel = [], ec_tlsClientCerts = [],
     ec_peerMatchers = [], ec_ordererMatchers = [], ec_channelMatchers = [], ec_defaultPeerConfig = no_node, ec_defaultOrdererConfig = no_node,
     ec_defaultChannelPolicies = no_policies, ec_defaultChannel = None\<rparr>"

definition ConfigFromBackend :: "('re, 'c, 't) configEnv \<Rightarrow> 'f decoders \<Rightarrow> 'f \<Rightarrow> ConfigLookup \<Rightarrow> ('re, 'c, 't, 'f::zero) EndpointConfig res outcome" where
  "ConfigFromBackend env de f1_75 coreBackend = obind (loadEndpointConfiguration env de f1_75 (new_config coreBackend)) (\<lambda>r.
     Ok (wrap_err ''network configuration load failed'' r))"

section \<open>The operations\<close>

text \<open>Those that read the network configuration panic if it is nil.\<close>

definition with_network :: "('re, 'c, 't, 'f) EndpointConfig \<Rightarrow> (('c, 'f) NetworkConfig \<Rightarrow> 'a) \<Rightarrow> 'a outcome" where
  "with_network c f = (case ec_networkConfig c of None \<Rightarrow> Panic | Some nc \<Rightarrow> Ok (f nc))"

definition list_at :: "(string \<times> 'a list) list \<Rightarrow> string \<Rightarrow> 'a list" where
  "list_at m k = (case map_of m k of None \<Rightarrow> [] | Some l \<Rightarrow> l)"

definition PeersConfig :: "('re, 'c, 't, 'f) EndpointConfig \<Rightarrow> string \<Rightarrow> 'c NodeConfig list option" where
  "PeersConfig c org = map_of (ec_peerConfigsByOrg c) (ToLower org)"

definition config_PeerConfig :: "('re, 'c, 't) configEnv \<Rightarrow> ('re, 'c, 't, 'f) EndpointConfig \<Rightarrow> string \<Rightarrow> 'c NodeConfig option outcome" where
  "config_PeerConfig env c nameOrURL = with_network c (\<lambda>nc. tryMatchingPeerConfig env c nc nameOrURL True)"

definition config_OrdererConfig :: "('re, 'c, 't) configEnv \<Rightarrow> ('re, 'c, 't, 'f) EndpointConfig \<Rightarrow> string \<Rightarrow> ('c NodeConfig option \<times> bool) outcome" where
  "config_OrdererConfig env c nameOrURL = with_network c (\<lambda>nc. tryMatchingOrdererConfig env c nc nameOrURL True)"

definition ChannelConfig :: "('re, 'c, 't) configEnv \<Rightarrow> ('re, 'c, 't, 'f) EndpointConfig \<Rightarrow> string \<Rightarrow> 'f ChannelEndpointConfig option outcome" where
  "ChannelConfig env c name = with_network c (\<lambda>nc. let mapped = mappedChannelName env c nc name in
     if mapped = ''_default'' then ec_defaultChannel c
     else case map_of (nc_Channels nc) (ToLower mapped) of None \<Rightarrow> ec_defaultChannel c | Some ch \<Rightarrow> Some ch)"

definition ChannelPeers :: "('re, 'c, 't) configEnv \<Rightarrow> ('re, 'c, 't, 'f) EndpointConfig \<Rightarrow> string \<Rightarrow> 'c ConfigChannelPeer list outcome" where
  "ChannelPeers env c name = with_network c (\<lambda>nc. list_at (ec_channelPeersByChannel c) (ToLower (mappedChannelName env c nc name)))"

definition ChannelOrderers :: "('re, 'c, 't) configEnv \<Rightarrow> ('re, 'c, 't, 'f) EndpointConfig \<Rightarrow> string \<Rightarrow> 'c NodeConfig list outcome" where
  "ChannelOrderers env c name = with_network c (\<lambda>nc. list_at (ec_channelOrderersByChannel c) (ToLower (mappedChannelName env c nc name)))"

definition CryptoConfigPath :: "('re, 'c, 't) configEnv \<Rightarrow> ('re, 'c, 't, 'f) EndpointConfig \<Rightarrow> string" where
  "CryptoConfigPath env c = Subst env (GetString env (ec_backend c) ''client.cryptoconfig.path'')"

end
