(* ===== verification/Identity_Config.thy ===== *)
theory Identity_Config
  imports Endpoint_Load
begin

text \<open>
  The configuration of identities, pkg/msp/identityconfig.go: the client, the certificate authorities (CAs) with their matchers, certificates
  and addresses, the pool of their certificates and the paths of the stores.

  The options of a CA are a Go map, and a CA that is matched keeps the map of the CA that it is mapped to: a map is a reference to a heap of
  options, which loading changes.
\<close>

section \<open>State\<close>

record IdentityTLSConfig =
  it_Client :: TLSKeyPair
  it_SystemCertPool :: bool

record ClientEntity =
  ie_Organization :: string
  ie_LoggingLevel :: string
  ie_CryptoConfigPath :: string
  ie_TLSCerts :: IdentityTLSConfig
  ie_CredentialStorePath :: string
  ie_CryptoStorePath :: string

record EnrollCredentials =
  er_EnrollID :: string
  er_EnrollSecret :: string

record CAEntity =
  ca_ID :: string
  ca_URL :: string
  ca_GRPCOptions :: "nat option"
  ca_TLSCACerts :: MutualTLSConfig
  ca_Registrar :: EnrollCredentials
  ca_CAName :: string

record IdentityClient =
  icl_Organization :: string
  icl_LoggingLevel :: string
  icl_CryptoConfigPath :: string
  icl_TLSKey :: bytes
  icl_TLSCert :: bytes
  icl_CredentialStorePath :: string
  icl_CryptoStorePath :: string

record MSPCAConfig =
  mca_ID :: string
  mca_URL :: string
  mca_GRPCOptions :: "nat option"
  mca_Registrar :: EnrollCredentials
  mca_CAName :: string
  mca_TLSCAServerCerts :: "bytes list"
  mca_TLSCAClientCert :: bytes
  mca_TLSCAClientKey :: bytes

record ('re, 'c) IdentityConfig =
  ic_client :: "IdentityClient option"
  ic_caConfigs :: "(string \<times> MSPCAConfig) list"
  ic_backend :: ConfigLookup
  ic_caKeyStorePath :: string
  ic_credentialStorePath :: string
  ic_caMatchers :: "'re matcherEntry list"
  ic_tlsCertPool :: "'c certPool option"
  ic_heap :: "options list"

text \<open>The decoders; that of the CAs gives the maps it has made.\<close>

record idDecoders =
  di_Client :: "cval \<Rightarrow> ClientEntity res"
  di_Organizations :: "cval \<Rightarrow> (string \<times> TLSKeyPair OrganizationConfig) list res"
  di_CAs :: "cval \<Rightarrow> ((string \<times> CAEntity) list \<times> options list) res"
  di_Matchers :: "cval \<Rightarrow> (string \<times> MatchConfig list) list res"

section \<open>Certificates\<close>

definition id_loadClientTLSConfig :: "('re, 'c, 't) configEnv \<Rightarrow> ClientEntity \<Rightarrow> (ClientEntity \<times> IdentityClient) res" where
  "id_loadClientTLSConfig env client =
     rbind (load_pair env ''failed to load client key'' ''failed to load client cert'' (resolve_pair env (it_Client (ie_TLSCerts client)))) (\<lambda>kp.
       let org = ToLower (ie_Organization client)
       in Inr (client\<lparr>ie_Organization := org, ie_TLSCerts := (ie_TLSCerts client)\<lparr>it_Client := kp\<rparr>\<rparr>,
         \<lparr>icl_Organization = org, icl_LoggingLevel = ie_LoggingLevel client, icl_CryptoConfigPath = ie_CryptoConfigPath client,
          icl_TLSKey = tc_bytes (kp_Key kp), icl_TLSCert = tc_bytes (kp_Cert kp), icl_CredentialStorePath = ie_CredentialStorePath client,
          icl_CryptoStorePath = ie_CryptoStorePath client\<rparr>))"

definition loadCATLSConfig :: "('re, 'c, 't) configEnv \<Rightarrow> (string \<times> CAEntity) list \<Rightarrow> (string \<times> CAEntity) list res" where
  "loadCATLSConfig env cas = map_values (\<lambda>caConfig.
     let certs = ca_TLSCACerts caConfig in
     rbind (load_pair env ''failed to load ca key'' ''failed to load ca cert'' (resolve_pair env (mt_Client certs))) (\<lambda>kp.
       Inr (caConfig\<lparr>ca_TLSCACerts := certs\<lparr>mt_Path := Subst env (mt_Path certs), mt_Client := kp\<rparr>\<rparr>))) cas"

primrec read_certs :: "('re, 'c, 't) configEnv \<Rightarrow> string list \<Rightarrow> bytes list res" where
  "read_certs env [] = Inr []"
| "read_certs env (p # ps) = rbind (wrap_err ''failed to load server certs'' (cf_ReadFile env (Subst env p))) (\<lambda>b.
     rbind (read_certs env ps) (\<lambda>bs. Inr (b # bs)))"

definition getServerCerts :: "('re, 'c, 't) configEnv \<Rightarrow> ConfigLookup \<Rightarrow> CAEntity \<Rightarrow> bytes list res" where
  "getServerCerts env lk caConfig = (let certs = ca_TLSCACerts caConfig in
     if GetBool env lk ''client.tlsCerts.systemCertPool'' \<and> length (mt_Pem certs) = 0 \<and> length (mt_Path certs) = 0 then Inr []
     else if length (mt_Pem certs) > 0 then Inr (map string_bytes (mt_Pem certs))
     else if mt_Path certs \<noteq> [] then read_certs env (Split (mt_Path certs) '','')
     else Inr [])"

text \<open>Every block is shorter than what is decoded, so that \<open>length pemCerts\<close> is enough fuel.\<close>

primrec append_pem :: "('re, 'c, 't) configEnv \<Rightarrow> nat \<Rightarrow> 'c certPool \<Rightarrow> bytes \<Rightarrow> bool \<Rightarrow> bool \<times> 'c certPool" where
  "append_pem env 0 c pemCerts ok = (ok, c)"
| "append_pem env (Suc n) c pemCerts ok =
    (if length pemCerts = 0 then (ok, c)
     else case cf_Decode env pemCerts of
       None \<Rightarrow> (ok, c)
     | Some (block, rest) \<Rightarrow>
         if pb_Type block \<noteq> ''CERTIFICATE'' \<or> length (pb_Headers block) \<noteq> 0 then append_pem env n c rest ok
         else case cf_ParseCertificate env (pb_Bytes block) of
           Inl err \<Rightarrow> append_pem env n c rest ok
         | Inr cert \<Rightarrow> append_pem env n (pool_Add env [Some cert] c) rest True)"

definition appendCertsFromPEM :: "('re, 'c, 't) configEnv \<Rightarrow> 'c certPool \<Rightarrow> bytes \<Rightarrow> bool \<times> 'c certPool" where
  "appendCertsFromPEM env c pemCerts = append_pem env (length pemCerts) c pemCerts False"

primrec add_ca_certs :: "('re, 'c, 't) configEnv \<Rightarrow> bytes list \<Rightarrow> 'c certPool \<Rightarrow> 'c certPool res" where
  "add_ca_certs env [] c = Inr c"
| "add_ca_certs env (cacert # certs) c = (case appendCertsFromPEM env c cacert of (ok, c1) \<Rightarrow>
     if ok then add_ca_certs env certs c1 else Inl (errorNew ''Failed to process certificate''))"

primrec add_cas :: "('re, 'c, 't) configEnv \<Rightarrow> bool \<Rightarrow> (string \<times> MSPCAConfig) list \<Rightarrow> 'c certPool \<Rightarrow> 'c certPool res" where
  "add_cas env useSystemCertPool [] c = Inr c"
| "add_cas env useSystemCertPool (x # cas) c =
    (if length (mca_TLSCAServerCerts (snd x)) = 0 \<and> \<not> useSystemCertPool
     then Inl (ErrorF ''Org '%s' doesn't have defined tlsCACerts'' [FS (mca_ID (snd x))])
     else rbind (add_ca_certs env (mca_TLSCAServerCerts (snd x)) c) (add_cas env useSystemCertPool cas))"

definition id_loadTLSCertPool :: "('re, 'c, 't) configEnv \<Rightarrow> bool \<Rightarrow> (string \<times> MSPCAConfig) list \<Rightarrow> 'c certPool res" where
  "id_loadTLSCertPool env useSystemCertPool cas =
     rbind (wrap_err ''failed to create cert pool'' (NewCertPool (cf_SystemCertPool env) useSystemCertPool)) (\<lambda>pool.
     rbind (add_cas env useSystemCertPool cas pool) (\<lambda>pool1.
       case pool_Get (cf_SystemCertPool env) pool1 of
         (Inl err, p) \<Rightarrow> Inl (withMessage err ''cert pool load failed'')
       | (Inr x, p) \<Rightarrow> Inr p))"

section \<open>Matching\<close>

definition id_compileMatchers :: "('re, 'c, 't) configEnv \<Rightarrow> idDecoders \<Rightarrow> ConfigLookup \<Rightarrow> 're matcherEntry list res" where
  "id_compileMatchers env de lk =
     rbind (wrap_err ''failed to parse 'entMatchers' config item'' (UnmarshalKey lk ''entityMatchers'' (di_Matchers de) [])) (\<lambda>ms.
       groupAllMatchers env (matchers_for ms ''certificateauthority''))"

text \<open>The map of a CA, which is made if it is nil.\<close>

definition options_ref :: "nat option \<Rightarrow> options list \<Rightarrow> nat \<times> options list" where
  "options_ref r h = (case r of Some n \<Rightarrow> (n, h) | None \<Rightarrow> (length h, h @ [[]]))"

definition findMatchingCAConfig :: "('re, 'c, 't) configEnv \<Rightarrow> (string \<times> CAEntity) list \<Rightarrow> string \<Rightarrow> 're matcherEntry \<Rightarrow> options list
    \<Rightarrow> CAEntity option \<times> options list" where
  "findMatchingCAConfig env cas caID matcher h = (case matcher of (regex, m) \<Rightarrow>
     if ma_IgnoreEndpoint m then (None, h)
     else case map_of cas (ToLower (regexMatchAndReplace env regex caID (ma_MappedHost m))) of
       None \<Rightarrow> (None, h)
     | Some ca0 \<Rightarrow>
         let ca1 = (if ma_URLSubstitutionExp m \<noteq> [] then ca0\<lparr>ca_URL := regexMatchAndReplace env regex caID (ma_URLSubstitutionExp m)\<rparr> else ca0)
         in (case options_ref (ca_GRPCOptions ca1) h of (n, h1) \<Rightarrow>
           (Some (ca1\<lparr>ca_GRPCOptions := Some n\<rparr>),
            if ma_SSLTargetOverrideURLSubstitutionExp m \<noteq> []
            then h1[n := set_opt ''ssl-target-name-override''
                (CString (regexMatchAndReplace env regex caID (ma_SSLTargetOverrideURLSubstitutionExp m))) (h1 ! n)]
            else h1)))"

definition tryMatchingCAConfig :: "('re, 'c, 't) configEnv \<Rightarrow> 're matcherEntry list \<Rightarrow> (string \<times> CAEntity) list \<Rightarrow> string \<Rightarrow> options list
    \<Rightarrow> CAEntity option \<times> options list" where
  "tryMatchingCAConfig env matchers cas caID h = (case matching env matchers caID of
     Some matcher \<Rightarrow> findMatchingCAConfig env cas caID matcher h
   | None \<Rightarrow> (case map_of cas (ToLower caID) of
       None \<Rightarrow> (None, h)
     | Some caConfig \<Rightarrow> (case options_ref (ca_GRPCOptions caConfig) h of (n, h1) \<Rightarrow> (Some (caConfig\<lparr>ca_GRPCOptions := Some n\<rparr>), h1))))"

definition getMSPCAConfig :: "('re, 'c, 't) configEnv \<Rightarrow> ConfigLookup \<Rightarrow> CAEntity \<Rightarrow> MSPCAConfig res" where
  "getMSPCAConfig env lk caConfig = rbind (getServerCerts env lk caConfig) (\<lambda>serverCerts.
     Inr \<lparr>mca_ID = ca_ID caConfig,
       mca_URL = (if ca_URL caConfig = [] then ''https://'' @ ca_ID caConfig @ '':'' @ decInt 7054 else ca_URL caConfig),
       mca_GRPCOptions = ca_GRPCOptions caConfig, mca_Registrar = ca_Registrar caConfig, mca_CAName = ca_CAName caConfig,
       mca_TLSCAServerCerts = serverCerts, mca_TLSCAClientCert = tc_bytes (kp_Cert (mt_Client (ca_TLSCACerts caConfig))),
       mca_TLSCAClientKey = tc_bytes (kp_Key (mt_Client (ca_TLSCACerts caConfig)))\<rparr>)"

primrec load_cas :: "('re, 'c, 't) configEnv \<Rightarrow> ConfigLookup \<Rightarrow> 're matcherEntry list \<Rightarrow> (string \<times> CAEntity) list \<Rightarrow> string list
    \<Rightarrow> (string \<times> MSPCAConfig) list \<Rightarrow> options list \<Rightarrow> ((string \<times> MSPCAConfig) list \<times> options list) res" where
  "load_cas env lk matchers cas [] configs h = Inr (configs, h)"
| "load_cas env lk matchers cas (caID # caIDs) configs h = (case tryMatchingCAConfig env matchers cas (ToLower caID) h of
     (None, h1) \<Rightarrow> load_cas env lk matchers cas caIDs configs h1
   | (Some matchedCaConfig, h1) \<Rightarrow> rbind (getMSPCAConfig env lk matchedCaConfig) (\<lambda>mspCAConfig.
       load_cas env lk matchers cas caIDs (AList.update (ToLower caID) mspCAConfig configs) h1))"

definition loadAllCAConfigs :: "('re, 'c, 't) configEnv \<Rightarrow> ConfigLookup \<Rightarrow> 're matcherEntry list \<Rightarrow> (string \<times> CAEntity) list \<Rightarrow> options list
    \<Rightarrow> ((string \<times> MSPCAConfig) list \<times> options list) res" where
  "loadAllCAConfigs env lk matchers cas h = load_cas env lk matchers cas (map fst cas) [] h"

section \<open>Loading, and the operations\<close>

definition no_identity_client :: ClientEntity where
  "no_identity_client = \<lparr>ie_Organization = [], ie_LoggingLevel = [], ie_CryptoConfigPath = [],
     ie_TLSCerts = \<lparr>it_Client = \<lparr>kp_Key = no_tls, kp_Cert = no_tls\<rparr>, it_SystemCertPool = False\<rparr>, ie_CredentialStorePath = [], ie_CryptoStorePath = []\<rparr>"

definition loadIdentityConfigEntities :: "('re, 'c, 't) configEnv \<Rightarrow> idDecoders \<Rightarrow> ConfigLookup \<Rightarrow> ('re, 'c) IdentityConfig res" where
  "loadIdentityConfigEntities env de lk =
     rbind (wrap_err ''failed to parse 'client' config item to identityConfigEntity.Client type''
       (UnmarshalKey lk ''client'' (di_Client de) no_identity_client)) (\<lambda>client.
     rbind (wrap_err ''failed to parse 'organizations' config item to identityConfigEntity.Organizations type''
       (UnmarshalKey lk ''organizations'' (di_Organizations de) [])) (\<lambda>organizations.
     rbind (wrap_err ''failed to parse 'certificateAuthorities' config item to identityConfigEntity.CertificateAuthorities type''
       (UnmarshalKey lk ''certificateAuthorities'' (di_CAs de) ([], []))) (\<lambda>(cas0, h).
     let cas1 = map (\<lambda>(caID, ca). (caID, ca\<lparr>ca_ID := caID\<rparr>)) cas0 in
     rbind (wrap_err ''failed to compile certificate authority matchers'' (id_compileMatchers env de lk)) (\<lambda>matchers.
     rbind (wrap_err ''failed to load client TLSConfig '' (id_loadClientTLSConfig env client)) (\<lambda>(entity, cl).
     rbind (wrap_err ''failed to load CA TLSConfig '' (loadCATLSConfig env cas1)) (\<lambda>cas.
     rbind (wrap_err ''failed to load all CA configs '' (loadAllCAConfigs env lk matchers cas h)) (\<lambda>(configs, h1).
     rbind (wrap_err ''failed to load TLS Cert Pool'' (id_loadTLSCertPool env (it_SystemCertPool (ie_TLSCerts entity)) configs)) (\<lambda>pool.
       Inr \<lparr>ic_client = Some cl, ic_caConfigs = configs, ic_backend = lk,
         ic_caKeyStorePath = Subst env (GetString env lk ''client.credentialStore.cryptoStore.path''),
         ic_credentialStorePath = Subst env (GetString env lk ''client.credentialStore.path''),
         ic_caMatchers = matchers, ic_tlsCertPool = Some pool, ic_heap = h1\<rparr>))))))))"

definition identity_ConfigFromBackend :: "('re, 'c, 't) configEnv \<Rightarrow> idDecoders \<Rightarrow> ConfigLookup \<Rightarrow> ('re, 'c) IdentityConfig res" where
  "identity_ConfigFromBackend env de coreBackend =
     wrap_err ''failed to create identity config from backends'' (loadIdentityConfigEntities env de coreBackend)"

definition CAConfig :: "('re, 'c) IdentityConfig \<Rightarrow> string \<Rightarrow> MSPCAConfig option" where
  "CAConfig c caID = map_of (ic_caConfigs c) (ToLower caID)"

definition CAClientCert :: "('re, 'c) IdentityConfig \<Rightarrow> string \<Rightarrow> bytes option" where
  "CAClientCert c caID = map_option mca_TLSCAClientCert (map_of (ic_caConfigs c) (ToLower caID))"

definition CAClientKey :: "('re, 'c) IdentityConfig \<Rightarrow> string \<Rightarrow> bytes option" where
  "CAClientKey c caID = map_option mca_TLSCAClientKey (map_of (ic_caConfigs c) (ToLower caID))"

definition CAServerCerts :: "('re, 'c) IdentityConfig \<Rightarrow> string \<Rightarrow> bytes list option" where
  "CAServerCerts c caID = map_option mca_TLSCAServerCerts (map_of (ic_caConfigs c) (ToLower caID))"

end
