(* ===== verification/Endpoint_Theorems.thy ===== *)
theory Endpoint_Theorems
  imports Endpoint_Load Retry_Theorems
begin

text \<open>
  What a configuration of endpoints guarantees once it is loaded: peers and orderers that can be connected to, complete policies for
  every channel, and endpoint options in layers; the pool of certificates one call after another; and substitution in paths.
\<close>

section \<open>Dictionaries\<close>

lemma set_update: "x \<in> set (AList.update k v al) \<Longrightarrow> x = (k, v) \<or> x \<in> set al"
  by (induction al) (auto split: if_split_asm)

lemma update_all: "\<lbrakk>\<forall>l \<in> snd ` set m. P l; P v\<rbrakk> \<Longrightarrow> \<forall>l \<in> snd ` set (AList.update k' v m). P l"
  by (fastforce dest!: set_update)

lemma load_by_channel_all:
  assumes "load_by_channel f chs m = Inr m'" "\<forall>l \<in> snd ` set m. P l" "\<And>ch l. f ch = Inr l \<Longrightarrow> P l"
  shows "\<forall>l \<in> snd ` set m'. P l"
  using assms(1,2)
proof (induction chs arbitrary: m)
  case (Cons x chs)
  then obtain l where l: "f (snd x) = Inr l" "load_by_channel f chs (AList.update (ToLower (fst x)) l m) = Inr m'"
    by (auto simp: rbind_eq_Inr)
  show ?case by (rule Cons.IH [OF l(2) update_all [OF Cons.prems(2) assms(3) [OF l(1)]]])
qed simp

lemma list_at_all: "\<forall>l \<in> snd ` set m. \<forall>x \<in> set l. P x \<Longrightarrow> \<forall>x \<in> set (list_at m k). P x"
  by (cases "map_of m k") (force simp: list_at_def dest: map_of_SomeD)+

section \<open>Endpoints that can be connected to\<close>

text \<open>
  A peer with an address and, if its address asks for TLS, a certificate or the system's certificates; an orderer that has a certificate, or
  the system's, unless its connection is not secured.
\<close>

definition peer_usable :: "('re, 'c, 't) configEnv \<Rightarrow> ConfigLookup \<Rightarrow> 'c NodeConfig \<Rightarrow> bool" where
  "peer_usable env lk p \<longleftrightarrow> nd_URL p \<noteq> [] \<and> (IsTLSEnabled (nd_URL p) \<longrightarrow> nd_TLSCACert p \<noteq> None \<or> GetBool env lk ''client.tlsCerts.systemCertPool'')"

definition orderer_usable :: "('re, 'c, 't) configEnv \<Rightarrow> ConfigLookup \<Rightarrow> 'c NodeConfig \<Rightarrow> bool" where
  "orderer_usable env lk p \<longleftrightarrow> nd_TLSCACert p \<noteq> None \<or> GetBool env lk ''client.tlsCerts.systemCertPool''
     \<or> \<not> AttemptSecured (nd_URL p) (allows_insecure p)"

lemma verifyPeerConfig_None: "verifyPeerConfig env lk p n (IsTLSEnabled (nd_URL p)) = None \<longleftrightarrow> peer_usable env lk p"
  by (auto simp: verifyPeerConfig_def peer_usable_def)

definition channel_peer_ok :: "('re, 'c, 't) configEnv \<Rightarrow> ConfigLookup \<Rightarrow> 'c ConfigChannelPeer \<Rightarrow> bool" where
  "channel_peer_ok env lk cp \<longleftrightarrow> peer_usable env lk (np_PeerConfig (ccp_NetworkPeer cp)) \<and> np_MSPID (ccp_NetworkPeer cp) \<noteq> []"

lemma load_channel_peers_ok:
  assumes "load_channel_peers env c nc ps = Inr l"
  shows "\<forall>cp \<in> set l. channel_peer_ok env (ec_backend c) cp"
  using assms
proof (induction ps arbitrary: l)
  case (Cons x ps)
  show ?case
  proof (cases "tryMatchingPeerConfig env c nc (ToLower (fst x)) False")
    case (Some p)
    with Cons.prems obtain m l' where "verifyPeerConfig env (ec_backend c) p (fst x) (IsTLSEnabled (nd_URL p)) = None"
      "peerMSPID env c nc (fst x) = Some m" "load_channel_peers env c nc ps = Inr l'"
      "l = \<lparr>ccp_PeerChannelConfig = snd x, ccp_NetworkPeer = \<lparr>np_PeerConfig = p, np_MSPID = m\<rparr>\<rparr> # l'"
      by (auto simp: rbind_eq_Inr split: option.split_asm)
    with Cons.IH show ?thesis
      by (auto simp: verifyPeerConfig_None channel_peer_ok_def peerMSPID_def Let_def split: if_split_asm)
  qed (use Cons in simp)
qed simp

lemma load_orderers_ok:
  assumes "load_orderers env c nc names = Inr l"
  shows "\<forall>p \<in> set l. orderer_usable env (ec_backend c) p"
  using assms
proof (induction names arbitrary: l)
  case (Cons n names)
  obtain r i where r: "tryMatchingOrdererConfig env c nc n False = (r, i)" by fastforce
  show ?case
  proof (cases "r = None \<or> i")
    case True
    with Cons r show ?thesis by (auto split: option.split_asm)
  next
    case False
    with Cons.prems r obtain p l' where "r = Some p" "load_orderers env c nc names = Inr l'" "l = p # l'" "orderer_usable env (ec_backend c) p"
      by (auto simp: rbind_eq_Inr orderer_usable_def split: if_split_asm)
    with Cons.IH show ?thesis by simp
  qed
qed simp

lemma org_peers_ok: "\<forall>p \<in> set (org_peers env c nc ns). peer_usable env (ec_backend c) p"
proof (induction ns)
  case (Cons n ns)
  then show ?case
    by (simp add: org_peers_def List.map_filter_simps split: option.split) (metis option.distinct(1) option.inject verifyPeerConfig_None)
qed (simp add: org_peers_def List.map_filter_simps)

lemma fold_update_all:
  "\<lbrakk>\<forall>l \<in> snd ` set m. P l; \<And>x. P (g x)\<rbrakk> \<Longrightarrow> \<forall>l \<in> snd ` set (fold (\<lambda>x. AList.update (h x) (g x)) xs m). P l"
proof (induction xs arbitrary: m)
  case (Cons x xs)
  have "\<forall>l \<in> snd ` set (AList.update (h x) (g x) m). P l" by (rule update_all [OF Cons.prems])
  then show ?case using Cons.IH Cons.prems(2) by simp
qed simp

lemma loadPeerConfigsByOrg_ok: "\<forall>l \<in> snd ` set (loadPeerConfigsByOrg env c nc). \<forall>p \<in> set l. peer_usable env (ec_backend c) p"
  unfolding loadPeerConfigsByOrg_def case_prod_unfold
  by (rule fold_update_all) (simp_all add: org_peers_ok)

section \<open>Complete policies\<close>

definition policies_complete :: "'f ChannelPolicies \<Rightarrow> bool" where
  "policies_complete p \<longleftrightarrow>
     qc_MinResponses (po_QueryChannelConfig p) \<noteq> 0 \<and> qc_MaxTargets (po_QueryChannelConfig p) \<noteq> 0
   \<and> dp_MinResponses (po_Discovery p) \<noteq> 0 \<and> dp_MaxTargets (po_Discovery p) \<noteq> 0 \<and> RetryableCodes (dp_RetryOpts (po_Discovery p)) \<noteq> []
   \<and> SortingStrategy (po_Selection p) \<noteq> [] \<and> pol_Balancer (po_Selection p) \<noteq> [] \<and> pol_BlockHeightLagThreshold (po_Selection p) \<noteq> 0
   \<and> es_ResolverStrategy (po_EventService p) \<noteq> [] \<and> es_MinBlockHeightResolverMode (po_EventService p) \<noteq> []
   \<and> es_Balancer (po_EventService p) \<noteq> [] \<and> es_BlockHeightLagThreshold (po_EventService p) \<noteq> 0
   \<and> es_ReconnectBlockHeightLagThreshold (po_EventService p) \<noteq> 0 \<and> es_PeerMonitorPeriod (po_EventService p) \<noteq> 0"

lemma defaultChannelPolicies_complete: "policies_complete (defaultChannelPolicies w f)"
  by (simp add: policies_complete_def defaultChannelPolicies_def defaultDiscoveryRetryOpts_def defaultDiscoveryRetryableCodes_def
      Second_def Millisecond_def)

lemma loadDefaultChannelPolicies_complete: "policies_complete (loadDefaultChannelPolicies w f e)"
  by (simp add: policies_complete_def loadDefaultChannelPolicies_def loadDefaultDiscoveryPolicy_def loadDefaultSelectionPolicy_def
      loadDefaultQueryChannelPolicy_def loadDefaultEventServicePolicy_def or_default_def defaultDiscoveryRetryableCodes_def
      Second_def Millisecond_def Let_def)

lemma addMissing_complete:
  assumes "policies_complete d"
  shows "policies_complete (addMissingChannelPoliciesItems d ch)"
  using assms
  by (simp add: policies_complete_def addMissingChannelPoliciesItems_def addMissingDiscoveryPolicyInfo_def addMissingSelectionPolicyInfo_def
      addMissingQueryChannelConfigPolicyInfo_def addMissingEventServicePolicyInfo_def addMissingRetryOpts_def or_default_def Let_def)

section \<open>The steps of loading\<close>

lemma wrap_err_Inr: "wrap_err m r = Inr x \<longleftrightarrow> r = Inr x" by simp

lemma loadDefaultConfigItems_Inr:
  assumes "loadDefaultConfigItems env f e c = Ok (Inr c')"
  shows "\<exists>o' p. loadDefaultPeer env e = Ok (Inr p) \<and> loadDefaultOrderer env e = Ok (Inr o')
    \<and> c' = c\<lparr>ec_defaultOrdererConfig := o', ec_defaultPeerConfig := p, ec_defaultChannelPolicies := loadDefaultChannelPolicies (cf_wire env) f e\<rparr>"
proof -
  obtain r where r: "loadDefaultOrderer env e = Ok r" using assms by (auto simp: loadDefaultConfigItems_def obind_eq_Ok)
  then obtain o' where o': "r = Inr o'" using assms by (cases r) (auto simp: loadDefaultConfigItems_def)
  obtain q where q: "loadDefaultPeer env e = Ok q" using assms r o' by (auto simp: loadDefaultConfigItems_def obind_eq_Ok)
  then obtain p where "q = Inr p" using assms r o' by (cases q) (auto simp: loadDefaultConfigItems_def)
  with assms r o' q show ?thesis by (auto simp: loadDefaultConfigItems_def)
qed

lemma compileMatchers_frame:
  assumes "compileMatchers env de c = Inr c'"
  shows "ec_backend c' = ec_backend c"
  using assms unfolding compileMatchers_def compileAllMatchers_def
  by (auto simp: rbind_eq_Inr split: if_split_asm)

lemma loadNetworkConfig_ok:
  assumes "loadNetworkConfig env f e c = Inr nc" "policies_complete (ec_defaultChannelPolicies c)"
  shows "\<forall>ch \<in> snd ` set (nc_Channels nc). policies_complete (che_Policies ch)" "map_of (nc_Channels nc) ''_default'' \<noteq> None"
  using assms
  by (auto simp: loadNetworkConfig_def Let_def rbind_eq_Inr loadChannelEndpointConfig_def addMissing_complete
      defaultChannelPolicies_complete split: option.split)

lemma load_dictionaries_ok:
  assumes "load_dictionaries env c0 nc = Inr c"
  shows "ec_networkConfig c = Some nc" "ec_peerMatchers c = ec_peerMatchers c0" "ec_channelMatchers c = ec_channelMatchers c0"
    "\<forall>l \<in> snd ` set (ec_channelPeersByChannel c). \<forall>cp \<in> set l. channel_peer_ok env (ec_backend c0) cp"
    "\<forall>l \<in> snd ` set (ec_channelOrderersByChannel c). True"
    "\<forall>p \<in> set (ec_ordererConfigs c). orderer_usable env (ec_backend c0) p"
    "\<forall>l \<in> snd ` set (ec_peerConfigsByOrg c). \<forall>p \<in> set l. peer_usable env (ec_backend c0) p"
proof -
  define byOrg where "byOrg = loadPeerConfigsByOrg env c0 nc"
  define c1 where "c1 = c0\<lparr>ec_networkConfig := Some nc, ec_peerConfigsByOrg := byOrg, ec_networkPeers := loadNetworkPeers nc byOrg\<rparr>"
  obtain os chPeers chOrderers pool where os: "loadOrdererConfigs env c1 nc = Inr os"
    and ps: "loadChannelPeers env (c1\<lparr>ec_ordererConfigs := os\<rparr>) nc = Inr chPeers"
    and c: "c = c1\<lparr>ec_ordererConfigs := os, ec_channelPeersByChannel := chPeers, ec_channelOrderersByChannel := chOrderers, ec_tlsCertPool := Some pool\<rparr>"
    using assms unfolding load_dictionaries_def Let_def byOrg_def [symmetric] c1_def [symmetric] by (auto simp: rbind_eq_Inr)
  show "ec_networkConfig c = Some nc" "ec_peerMatchers c = ec_peerMatchers c0" "ec_channelMatchers c = ec_channelMatchers c0"
    "\<forall>l \<in> snd ` set (ec_channelOrderersByChannel c). True" by (simp_all add: c c1_def)
  show "\<forall>p \<in> set (ec_ordererConfigs c). orderer_usable env (ec_backend c0) p"
    using load_orderers_ok [OF os [unfolded loadOrdererConfigs_def]] by (simp add: c c1_def)
  show "\<forall>l \<in> snd ` set (ec_peerConfigsByOrg c). \<forall>p \<in> set l. peer_usable env (ec_backend c0) p"
    using loadPeerConfigsByOrg_ok [of env c0 nc] by (simp add: c c1_def byOrg_def)
  have "\<forall>l \<in> snd ` set chPeers. \<forall>cp \<in> set l. channel_peer_ok env (ec_backend c0) cp"
    by (rule load_by_channel_all [OF ps [unfolded loadChannelPeers_def]]) (simp, drule load_channel_peers_ok, simp add: c1_def)
  then show "\<forall>l \<in> snd ` set (ec_channelPeersByChannel c). \<forall>cp \<in> set l. channel_peer_ok env (ec_backend c0) cp" by (simp add: c)
qed

text \<open>A successful load: the parts of the state that the later theorems speak about.\<close>

lemma load_entities_steps:
  assumes "loadEndpointConfigEntities env de f e c = Ok (Inr c')"
  shows "\<exists>c1 e1 certs o' p c2 nc c3. compileMatchers env de c = Inr c1 \<and> loadAllTLSConfig env e = Inr (e1, certs)
    \<and> loadDefaultPeer env e1 = Ok (Inr p) \<and> loadDefaultOrderer env e1 = Ok (Inr o')
    \<and> c2 = c1\<lparr>ec_tlsClientCerts := certs, ec_defaultOrdererConfig := o', ec_defaultPeerConfig := p,
         ec_defaultChannelPolicies := loadDefaultChannelPolicies (cf_wire env) f e1\<rparr>
    \<and> loadNetworkConfig env f e1 c2 = Inr nc \<and> load_dictionaries env c2 nc = Inr c3 \<and> c' = loadDefaultChannel (cf_wire env) f c3 nc"
proof -
  obtain c1 where c1: "compileMatchers env de c = Inr c1"
    using assms by (cases "compileMatchers env de c") (auto simp: loadEndpointConfigEntities_def)
  obtain e1 certs where e1: "loadAllTLSConfig env e = Inr (e1, certs)"
    using assms c1 by (cases "loadAllTLSConfig env e") (auto simp: loadEndpointConfigEntities_def)
  obtain r where r: "loadDefaultConfigItems env f e1 (c1\<lparr>ec_tlsClientCerts := certs\<rparr>) = Ok r"
    using assms c1 e1 by (auto simp: loadEndpointConfigEntities_def obind_eq_Ok)
  then obtain c2 where c2: "r = Inr c2" using assms c1 e1 by (cases r) (auto simp: loadEndpointConfigEntities_def)
  show ?thesis
    using assms c1 e1 r c2 loadDefaultConfigItems_Inr [OF r [unfolded c2]]
    by (auto simp: loadEndpointConfigEntities_def rbind_eq_Inr)
qed

lemma loadEndpointConfiguration_entity:
  assumes "loadEndpointConfiguration env de f c = Ok (Inr c')"
  shows "\<exists>e. loadEndpointConfigEntities env de f e c = Ok (Inr c')"
  using assms unfolding loadEndpointConfiguration_def Let_def
  by (auto simp: obind_eq_Ok split: sum.split_asm)

section \<open>A loaded configuration is usable\<close>

lemma channel_config_complete:
  assumes "c' = loadDefaultChannel w f c nc" "ec_networkConfig c = Some nc"
    "\<forall>ch \<in> snd ` set (nc_Channels nc). policies_complete (che_Policies ch)"
  shows "\<exists>nc' ch. ec_networkConfig c' = Some nc' \<and> ec_defaultChannel c' = Some ch \<and> policies_complete (che_Policies ch)
    \<and> (\<forall>ch \<in> snd ` set (nc_Channels nc'). policies_complete (che_Policies ch))"
proof (cases "map_of (nc_Channels nc) ''_default''")
  case None
  with assms show ?thesis by (simp add: loadDefaultChannel_def defaultChannelPolicies_complete)
next
  case (Some d)
  then have "policies_complete (che_Policies d)" using assms(3) by (force dest: map_of_SomeD)
  moreover have "\<forall>ch \<in> snd ` set (AList.delete ''_default'' (nc_Channels nc)). policies_complete (che_Policies ch)"
    using assms(3) by (simp add: AList.delete_eq)
  ultimately show ?thesis using assms Some by (simp add: loadDefaultChannel_def)
qed

lemma loaded_steps:
  assumes "ConfigFromBackend env de f lk = Ok (Inr c)"
  shows "\<exists>nc ch. ec_networkConfig c = Some nc \<and> ec_defaultChannel c = Some ch \<and> policies_complete (che_Policies ch)
    \<and> (\<forall>ch \<in> snd ` set (nc_Channels nc). policies_complete (che_Policies ch))
    \<and> (\<forall>l \<in> snd ` set (ec_channelPeersByChannel c). \<forall>cp \<in> set l. channel_peer_ok env lk cp)
    \<and> (\<forall>p \<in> set (ec_ordererConfigs c). orderer_usable env lk p)
    \<and> (\<forall>l \<in> snd ` set (ec_peerConfigsByOrg c). \<forall>p \<in> set l. peer_usable env lk p)"
proof -
  obtain e where e: "loadEndpointConfigEntities env de f e (new_config lk) = Ok (Inr c)"
    using assms by (auto simp: ConfigFromBackend_def obind_eq_Ok dest: loadEndpointConfiguration_entity)
  obtain c1 e1 certs o' p c2 nc c3 where s: "compileMatchers env de (new_config lk) = Inr c1"
    "c2 = c1\<lparr>ec_tlsClientCerts := certs, ec_defaultOrdererConfig := o', ec_defaultPeerConfig := p,
       ec_defaultChannelPolicies := loadDefaultChannelPolicies (cf_wire env) f e1\<rparr>"
    "loadNetworkConfig env f e1 c2 = Inr nc" "load_dictionaries env c2 nc = Inr c3" "c = loadDefaultChannel (cf_wire env) f c3 nc"
    using load_entities_steps [OF e] by auto
  have lk: "ec_backend c2 = lk" using compileMatchers_frame [OF s(1)] by (simp add: s(2) new_config_def)
  note d = load_dictionaries_ok [OF s(4), unfolded lk]
  have "\<forall>ch \<in> snd ` set (nc_Channels nc). policies_complete (che_Policies ch)"
    by (rule loadNetworkConfig_ok(1) [OF s(3)]) (simp add: s(2) loadDefaultChannelPolicies_complete)
  note ch = channel_config_complete [OF s(5) d(1) this]
  have same: "ec_channelPeersByChannel c = ec_channelPeersByChannel c3" "ec_ordererConfigs c = ec_ordererConfigs c3"
    "ec_peerConfigsByOrg c = ec_peerConfigsByOrg c3"
    by (simp_all add: s(5) loadDefaultChannel_def split: option.split)
  from ch d(4,6,7) show ?thesis unfolding same by blast
qed

text \<open>
  C24: A configuration that is loaded can be used: for every channel, configured or not, it gives a configuration with complete policies and
  peers that have an address, an MSP and, where TLS is asked for, a certificate or those of the system; so have the peers of every
  organization; and every orderer in the list of the configured orderers has a certificate, or the system's, or a connection that is not
  secured. The look-ups of a channel's configuration, peers and orderers, and those of peers and orderers by name or address, return. The orderers
  that a channel names are not checked when they are loaded (\<open>channel_orderer_unchecked\<close>).
\<close>
theorem loaded_configuration_usable:
  assumes "ConfigFromBackend env de f1_75 lk = Ok (Inr c)"
  shows "\<exists>ch peers. ChannelConfig env c name = Ok (Some ch) \<and> policies_complete (che_Policies ch)
    \<and> ChannelPeers env c name = Ok peers \<and> (\<forall>cp \<in> set peers. channel_peer_ok env lk cp)
    \<and> (\<forall>p \<in> set (ec_ordererConfigs c). orderer_usable env lk p)
    \<and> (\<forall>ps. PeersConfig c org = Some ps \<longrightarrow> (\<forall>p \<in> set ps. peer_usable env lk p))
    \<and> ChannelOrderers env c name \<in> range Ok \<and> config_PeerConfig env c key \<in> range Ok \<and> config_OrdererConfig env c key \<in> range Ok"
proof -
  obtain nc d where s: "ec_networkConfig c = Some nc" "ec_defaultChannel c = Some d" "policies_complete (che_Policies d)"
    "\<forall>ch \<in> snd ` set (nc_Channels nc). policies_complete (che_Policies ch)"
    "\<forall>l \<in> snd ` set (ec_channelPeersByChannel c). \<forall>cp \<in> set l. channel_peer_ok env lk cp"
    "\<forall>p \<in> set (ec_ordererConfigs c). orderer_usable env lk p" "\<forall>l \<in> snd ` set (ec_peerConfigsByOrg c). \<forall>p \<in> set l. peer_usable env lk p"
    using loaded_steps [OF assms] by auto
  have "\<exists>ch. ChannelConfig env c name = Ok (Some ch) \<and> policies_complete (che_Policies ch)"
    using s(1-4) by (force simp: ChannelConfig_def with_network_def Let_def split: option.split dest: map_of_SomeD)
  moreover have "\<exists>peers. ChannelPeers env c name = Ok peers \<and> (\<forall>cp \<in> set peers. channel_peer_ok env lk cp)"
    using s(1) list_at_all [OF s(5)] by (simp add: ChannelPeers_def with_network_def)
  moreover have "\<forall>ps. PeersConfig c org = Some ps \<longrightarrow> (\<forall>p \<in> set ps. peer_usable env lk p)"
    using s(7) by (force simp: PeersConfig_def dest: map_of_SomeD)
  moreover have "ChannelOrderers env c name \<in> range Ok \<and> config_PeerConfig env c key \<in> range Ok \<and> config_OrdererConfig env c key \<in> range Ok"
    using s(1) by (simp add: ChannelOrderers_def config_PeerConfig_def config_OrdererConfig_def with_network_def)
  ultimately show ?thesis using s(6) by blast
qed

text \<open>
  An orderer without a certificate for a connection that has to be secured is refused when the configured orderers are loaded, but
  taken over as the orderer of a channel: this check is made for the list of the orderers only. A channel can name it by a name that a
  matcher maps to it.
\<close>

lemma channel_orderer_unchecked:
  assumes "tryMatchingOrdererConfig env c nc (ToLower name) False = (Some p, False)" "\<not> orderer_usable env (ec_backend c) p"
  shows "load_channel_orderers env c nc [name] = Inr [p] \<and> isl (load_orderers env c nc [ToLower name])"
  using assms by (simp add: orderer_usable_def)

section \<open>Options in layers\<close>

definition options_of :: "options option \<Rightarrow> string \<rightharpoonup> cval" where
  "options_of os = map_of (case os of None \<Rightarrow> [] | Some l \<Rightarrow> l)"

lemma map_of_setDefault: "map_of (setDefault k v os) = [k \<mapsto> v] ++ map_of os"
  by (auto simp: setDefault_def map_add_def fun_eq_iff split: option.split)

lemma map_of_fold_setDefault: "map_of (fold (\<lambda>(k, v). setDefault k v) d os) = map_of d ++ map_of os"
  by (induction d arbitrary: os) (auto simp: map_of_setDefault map_add_def fun_eq_iff split: option.split)

lemma fill_options: "ofold fill_option d os = (case os of None \<Rightarrow> if d = [] then Ok None else Panic | Some l \<Rightarrow> Ok (Some (fold (\<lambda>(k, v). setDefault k v) d l)))"
  by (induction d arbitrary: os) (auto simp: fill_option_def case_prod_unfold split: option.split)

lemma default_options_some: "default_options \<noteq> []"
  by (simp add: default_options_def)

definition configured_default :: "(string \<times> NodeEntity) list \<Rightarrow> options option" where
  "configured_default es = (case map_of es ''_default'' of None \<Rightarrow> Some [] | Some e \<Rightarrow> en_GRPCOptions e)"

lemma loadDefaultNode_Inr:
  assumes "loadDefaultNode env m es = Ok (Inr p)"
  shows "nd_URL p = []" "options_of (nd_GRPCOptions p) = map_of default_options ++ options_of (configured_default es)"
    "configured_default es \<noteq> None"
proof -
  have "ofold fill_option default_options (configured_default es) = Ok (nd_GRPCOptions p) \<and> nd_URL p = []"
    using assms unfolding loadDefaultNode_def Let_def configured_default_def
    by (cases "map_of es ''_default''") (auto simp: obind_eq_Ok rbind_eq_Inr)
  then show "nd_URL p = []" "options_of (nd_GRPCOptions p) = map_of default_options ++ options_of (configured_default es)"
    "configured_default es \<noteq> None"
    unfolding fill_options
    by (cases "configured_default es", auto simp: options_of_def default_options_some map_of_fold_setDefault dest!: sym [of _ "nd_GRPCOptions p"])+
qed

lemma loadDefaultNode_panics: "loadDefaultNode env m es = Panic \<longleftrightarrow> configured_default es = None"
  unfolding loadDefaultNode_def Let_def configured_default_def fill_options
  by (cases "map_of es ''_default''") (auto simp: default_options_some split: option.splits)

lemma add_missing_options:
  assumes "options_of (nd_GRPCOptions d) = dm"
  shows "options_of (nd_GRPCOptions (add_missing port d n p)) = dm ++ options_of (nd_GRPCOptions p)"
  using assms by (auto simp: add_missing_def options_of_def Let_def map_of_fold_setDefault split: option.split)

lemma add_missing_URL:
  assumes "nd_URL d = []"
  shows "nd_URL (add_missing port d n p) = (if nd_URL p = [] then n @ '':'' @ decInt port else nd_URL p)"
  using assms by (auto simp: add_missing_def Let_def split: option.split)

text \<open>What the options depend on: the name, the address and the options that are configured.\<close>

definition node_view :: "(string \<times> NodeEntity) list \<Rightarrow> (string \<times> string \<times> options option) list" where
  "node_view es = map (\<lambda>(n, e). (n, en_URL e, en_GRPCOptions e)) es"

lemma peer_port: "decInt 7051 = ''7051''"
  by (simp add: decInt_def dec.simps char_of_def bit_0)

lemma peer_configs_layered:
  assumes "loadAllPeerConfigs env c es = Inr ps" "nd_URL (ec_defaultPeerConfig c) = []" "options_of (nd_GRPCOptions (ec_defaultPeerConfig c)) = dm"
  shows "map (\<lambda>(n, p). (n, nd_URL p, options_of (nd_GRPCOptions p))) ps
    = map (\<lambda>(n, u, os). (n, if u = [] then n @ '':7051'' else u, dm ++ options_of os))
        (filter (\<lambda>(n, u, os). n \<noteq> ''_default'' \<and> \<not> isPeerToBeIgnored env c n) (node_view es))"
  using assms(1)
proof (induction es arbitrary: ps)
  case (Cons x es)
  obtain n e where x: "x = (n, e)" by fastforce
  show ?case
  proof (cases "n = ''_default'' \<or> isPeerToBeIgnored env c n")
    case True
    with Cons x show ?thesis by (auto simp: node_view_def)
  next
    case False
    obtain cert ps' where ps: "loadAllPeerConfigs env c es = Inr ps'" "ps = (n, addMissingPeerConfigItems c n
        \<lparr>nd_URL = en_URL e, nd_GRPCOptions = en_GRPCOptions e, nd_TLSCACert = cert\<rparr>) # ps'"
      using Cons.prems x False by (auto simp: rbind_eq_Inr split: prod.split_asm)
    show ?thesis
      using Cons.IH [OF ps(1)] False
      by (simp add: ps(2) x node_view_def addMissingPeerConfigItems_def add_missing_URL [OF assms(2)] add_missing_options [OF assms(3)] peer_port)
  qed
qed (simp add: node_view_def)

lemma load_node_certs_view: "map_values (load_node_cert env m) xs = Inr ys \<Longrightarrow> node_view ys = node_view xs"
  by (induction xs arbitrary: ys) (auto simp: node_view_def rbind_eq_Inr load_node_cert_def)

lemma loadAllTLSConfig_nodes:
  assumes "loadAllTLSConfig env e = Inr (e', certs)"
  shows "node_view (ee_Peers e') = node_view (ee_Peers e)"
  using assms by (auto simp: loadAllTLSConfig_def loadOrdererPeerTLSConfig_def rbind_eq_Inr dest!: load_node_certs_view)

lemma configured_default_view: "configured_default es = (case map_of (node_view es) ''_default'' of None \<Rightarrow> Some [] | Some (u, os) \<Rightarrow> os)"
  by (induction es) (auto simp: configured_default_def node_view_def)

text \<open>
  C25: The peers that are provided are those that are configured, without the default and those that a matcher ignores. A peer without an
  address has its name and the default port. An option is that of the peer, or else that of the default peer, or else the one that is built in.
\<close>
theorem peer_options_layered:
  assumes "loadEndpointConfigEntities env de f1_75 e c0 = Ok (Inr c)"
  shows "\<exists>nc. ec_networkConfig c = Some nc \<and> map (\<lambda>(n, p). (n, nd_URL p, options_of (nd_GRPCOptions p))) (nc_Peers nc)
    = map (\<lambda>(n, p). (n, if en_URL p = [] then n @ '':7051'' else en_URL p,
          map_of default_options ++ options_of (configured_default (ee_Peers e)) ++ options_of (en_GRPCOptions p)))
        (filter (\<lambda>(n, p). n \<noteq> ''_default'' \<and> \<not> isPeerToBeIgnored env c n) (ee_Peers e))"
proof -
  obtain c1 e1 certs o' p c2 nc c3 where s: "loadAllTLSConfig env e = Inr (e1, certs)" "loadDefaultPeer env e1 = Ok (Inr p)"
    "c2 = c1\<lparr>ec_tlsClientCerts := certs, ec_defaultOrdererConfig := o', ec_defaultPeerConfig := p,
       ec_defaultChannelPolicies := loadDefaultChannelPolicies (cf_wire env) f1_75 e1\<rparr>"
    "loadNetworkConfig env f1_75 e1 c2 = Inr nc" "load_dictionaries env c2 nc = Inr c3" "c = loadDefaultChannel (cf_wire env) f1_75 c3 nc"
    using load_entities_steps [OF assms] by auto
  note view = loadAllTLSConfig_nodes [OF s(1)]
  note p = loadDefaultNode_Inr [OF s(2) [unfolded loadDefaultPeer_def], unfolded configured_default_view view, folded configured_default_view]
  have "loadAllPeerConfigs env c2 (ee_Peers e1) = Inr (nc_Peers nc)"
    using s(4) by (auto simp: loadNetworkConfig_def Let_def rbind_eq_Inr)
  note layered = peer_configs_layered [OF this, of "map_of default_options ++ options_of (configured_default (ee_Peers e))", unfolded view]
  obtain nc' where nc': "ec_networkConfig c = Some nc'" "nc_Peers nc' = nc_Peers nc" "ec_peerMatchers c = ec_peerMatchers c2"
    using load_dictionaries_ok(1,2) [OF s(5)] by (cases "map_of (nc_Channels nc) ''_default''") (auto simp: s(6) loadDefaultChannel_def)
  have ign: "isPeerToBeIgnored env c2 = isPeerToBeIgnored env c" by (simp add: isPeerToBeIgnored_def nc'(3) fun_eq_iff)
  have d: "nd_URL (ec_defaultPeerConfig c2) = []"
    "options_of (nd_GRPCOptions (ec_defaultPeerConfig c2)) = map_of default_options ++ options_of (configured_default (ee_Peers e))"
    using p(1,2) by (simp_all add: s(3))
  show ?thesis
    using layered [OF d] by (simp add: nc' ign node_view_def filter_map o_def case_prod_unfold cong: if_cong)
qed

text \<open>A default endpoint that is configured without options makes the load panic.\<close>

lemma default_without_options_panics:
  assumes "compileMatchers env de c = Inr c1" "loadAllTLSConfig env e = Inr (e1, certs)" "configured_default (ee_Orderers e1) = None"
  shows "loadEndpointConfigEntities env de f e c = Panic"
  using assms by (simp add: loadEndpointConfigEntities_def loadDefaultConfigItems_def loadDefaultOrderer_def loadDefaultNode_panics obind_eq_Panic)

text \<open>A channel without a lag threshold does not get the one of the default channel.\<close>

lemma selection_lag_not_inherited:
  assumes "pol_BlockHeightLagThreshold (po_Selection (che_Policies ch)) = 0"
  shows "pol_BlockHeightLagThreshold (po_Selection (addMissingChannelPoliciesItems d ch)) = 5"
  using assms by (simp add: addMissingChannelPoliciesItems_def addMissingSelectionPolicyInfo_def or_default_def Let_def)

section \<open>The pool of certificates\<close>

definition pool_inv :: "'c certPool \<Rightarrow> bool" where
  "pool_inv c \<longleftrightarrow> (\<forall>name. \<forall>i \<in> set (cp_certsByName c name). i < length (cp_certs c)) \<and> (\<not> cp_dirty c \<longrightarrow> set (cp_certs c) \<subseteq> set (cp_certPool c))"

lemma set_removeDuplicates: "set (removeDuplicates seen cs) = set cs - set seen"
  by (induction cs arbitrary: seen) auto

lemma add_certs_fields:
  assumes "\<forall>name. \<forall>i \<in> set (cp_certsByName c name). i < length (cp_certs c)"
  shows "cp_certs (fold (add_cert env) cs c) = cp_certs c @ cs
    \<and> (\<forall>name. \<forall>i \<in> set (cp_certsByName (fold (add_cert env) cs c) name). i < length (cp_certs c) + length cs)"
  using assms
proof (induction cs arbitrary: c)
  case (Cons x cs)
  have "\<forall>name. \<forall>i \<in> set (cp_certsByName (add_cert env x c) name). i < length (cp_certs (add_cert env x c))"
    using Cons.prems by (auto simp: add_cert_def Let_def less_Suc_eq)
  from Cons.IH [OF this] show ?case by (simp add: add_cert_def Let_def)
qed simp

lemma pool_Add_certs:
  assumes "pool_inv c"
  shows "\<exists>cs. cp_certs (pool_Add env certs c) = cp_certs c @ cs" "pool_inv (pool_Add env certs c)"
  using assms add_certs_fields [of c env "filterCerts env c certs"]
  by (auto simp: pool_Add_def pool_inv_def Let_def)

lemma pool_Add_has:
  assumes "pool_inv c" "Some x \<in> set certs"
  shows "\<exists>y \<in> set (cp_certs (pool_Add env certs c)). y = x \<or> cf_Equal env y x"
proof (cases "x \<in> set (filterCerts env c certs)")
  case True
  then have "filterCerts env c certs \<noteq> []" "certs \<noteq> []" using assms(2) by auto
  then show ?thesis using True add_certs_fields [of c env "filterCerts env c certs"] assms(1) by (force simp: pool_Add_def pool_inv_def Let_def)
next
  case False
  have "x \<in> set (List.map_filter (\<lambda>x. x) certs)" using assms(2) by (force simp: List.map_filter_def)
  with False obtain p where p: "p \<in> set (cp_certsByName c (cf_RawSubject env x))" "cf_Equal env (cp_certs c ! p) x"
    by (auto simp: filterCerts_def set_removeDuplicates list_ex_iff)
  with assms(1) have "cp_certs c ! p \<in> set (cp_certs c)" by (simp add: pool_inv_def)
  with p(2) show ?thesis using pool_Add_certs(1) [OF assms(1), of env certs] by auto
qed

lemma pool_Get_inv:
  assumes "pool_inv c" "system = Inr s"
  shows "pool_inv (snd (pool_Get system c))" "cp_certs (snd (pool_Get system c)) = cp_certs c"
    "\<exists>l. fst (pool_Get system c) = Inr l \<and> set (cp_certs c) \<subseteq> set l"
  using assms by (auto simp: pool_Get_def pool_inv_def swapCertPool_def loadSystemCertPool_def)

lemma NewCertPool_inv: "NewCertPool system b = Inr c \<Longrightarrow> pool_inv c"
  by (auto simp: NewCertPool_def rbind_eq_Inr pool_inv_def)

text \<open>If the system's certificates cannot be loaded once, the pool stays as it was, and later calls do not try again.\<close>

lemma failed_get_forgets:
  assumes "cp_dirty c" "cp_systemCertPool c"
  shows "fst (pool_Get (Inl e) c) = Inl e" "fst (pool_Get system (snd (pool_Get (Inl e) c))) = Inr (cp_certPool c)"
  using assms by (simp_all add: pool_Get_def swapCertPool_def loadSystemCertPool_def)

section \<open>Paths\<close>

lemma cut_append: "\<not> sublist sep pre \<Longrightarrow> hd sep \<notin> set (tl sep) \<Longrightarrow> sep \<noteq> [] \<Longrightarrow> cut sep (pre @ sep @ t) = Some (pre, t)"
proof (induction pre)
  case Nil
  then show ?case by (cases sep) auto
next
  case (Cons c pre)
  have "\<not> prefix sep (c # pre @ sep @ t)"
  proof
    assume "prefix sep (c # pre @ sep @ t)"
    then have "prefix sep ((c # pre) @ sep @ t)" by simp
    then consider "prefix sep (c # pre)" | us where "sep = (c # pre) @ us" "prefix us (sep @ t)"
      by (auto simp: prefix_append simp del: append_Cons)
    then show False
    proof cases
      case 1
      then show ?thesis using Cons.prems(1) prefix_imp_sublist by blast
    next
      case 2
      then have "us \<noteq> []" using Cons.prems(1) by auto
      then obtain u us' where u: "us = u # us'" by (cases us) auto
      then have "u = hd sep" using 2(2) Cons.prems(3) by (cases sep) auto
      moreover have "u \<in> set (tl sep)" using 2(1) u by simp
      ultimately show ?thesis using Cons.prems(2) by simp
    qed
  qed
  moreover have "\<not> sublist sep pre" using Cons.prems(1) by (auto simp: sublist_Cons_right)
  ultimately show ?case using Cons.IH Cons.prems by simp
qed

lemma cut_skip:
  "\<lbrakk>\<not> sublist ''${'' w; w = [] \<or> last w \<noteq> CHR ''$''\<rbrakk>
    \<Longrightarrow> cut ''${'' (w @ s) = (case cut ''${'' s of None \<Rightarrow> None | Some (x, y) \<Rightarrow> Some (w @ x, y))"
proof (induction w)
  case (Cons c w)
  have "\<not> prefix ''${'' (c # w @ s)" using Cons.prems by (cases w) (auto simp: sublist_Cons_right split: if_split_asm)
  moreover have "\<not> sublist ''${'' w" "w = [] \<or> last w \<noteq> CHR ''$''" using Cons.prems by (auto simp: sublist_Cons_right split: if_split_asm)
  ultimately show ?case using Cons.IH by (simp split: option.split)
qed (simp split: option.split)

lemma Subst_plain: "\<not> sublist ''${'' path \<Longrightarrow> Subst env path = path"
  by (simp add: Subst_def Split_code cut_None [symmetric])

text \<open>A variable in a path is replaced by its value; if it has none, it stays as it is. The rest of the path is treated alike.\<close>

lemma Subst_variable:
  assumes "\<not> sublist ''${'' pre" "\<not> sublist ''${'' v" "CHR ''}'' \<notin> set v"
  shows "Subst env (pre @ ''${'' @ v @ ''}'' @ rest)
    = pre @ (case lookupVar env v of Some x \<Rightarrow> x | None \<Rightarrow> ''${'' @ v @ ''}'') @ Subst env rest"
proof -
  have s1: "Split (pre @ ''${'' @ v @ ''}'' @ rest) ''${'' = pre # Split (v @ ''}'' @ rest) ''${''"
    using cut_append [OF assms(1), of "v @ ''}'' @ rest"] by (simp add: Split_code [of "''${''" "pre @ _"])
  obtain a as where r: "Split rest ''${'' = a # as" by (cases "Split rest ''${''") auto
  have nc: "\<not> sublist ''${'' ''}''" by (simp add: sublist_Cons_right)
  have nv: "\<not> sublist ''${'' (v @ ''}'')" using assms(2) nc by (auto simp: sublist_append prefix_Cons suffix_def Cons_eq_append_conv append_eq_Cons_conv)
  have c: "cut ''${'' ((v @ ''}'') @ rest) = (case cut ''${'' rest of None \<Rightarrow> None | Some (x, y) \<Rightarrow> Some ((v @ ''}'') @ x, y))"
    by (rule cut_skip [OF nv]) simp
  have s2: "Split (v @ ''}'' @ rest) ''${'' = (v @ ''}'' @ a) # as"
    using c r by (simp add: Split_code [of "''${''" "v @ _"] Split_code [of "''${''" rest] split: option.split_asm prod.split prod.split_asm)
  have "\<not> sublist ''}'' v" using assms(3) by (auto simp: sublist_def)
  then have "cut ''}'' (v @ ''}'' @ a) = Some (v, a)" using cut_append [of "''}''" v a] by simp
  then show ?thesis unfolding Subst_def s1 s2 r by (simp add: substVar_def split: option.split)
qed

section \<open>A configuration\<close>

text \<open>
  A channel with a peer and an orderer, a peer that a matcher ignores and a default peer; certificates are numbers, and a regular
  expression matches the text that it is.
\<close>

definition ex_conf_env :: "(string, nat, nat) configEnv" where
  "ex_conf_env = \<lparr>cf_wire = ex_wire, cf_LookupEnv = (\<lambda>_. None), cf_ProjectPath = ''/p'', cf_GoPath = ''/go'', cf_CryptoConfigPath = ''/crypto'',
     cf_ReadFile = (\<lambda>_. Inr []), cf_Compile = Inr, cf_MatchString = (=), cf_ReplaceAllString = (\<lambda>r s t. t), cf_ToBool = (\<lambda>v. v = CBool True),
     cf_ToString = (\<lambda>_. []), cf_ToInt = (\<lambda>_. 0), cf_ToDuration = (\<lambda>_. 0),
     cf_Decode = (\<lambda>bs. if bs = [] then None else Some (\<lparr>pb_Type = ''CERTIFICATE'', pb_Headers = [], pb_Bytes = bs\<rparr>, [])),
     cf_ParseCertificate = (\<lambda>bs. Inr (length bs)), cf_Equal = (=), cf_RawSubject = (\<lambda>_. []), cf_SystemCertPool = Inr [],
     cf_TLSKeyPair = (\<lambda>_ _. Inr 0), cf_KeyPairFromCert = (\<lambda>_. None)\<rparr>"

definition ex_peers :: "(string \<times> NodeEntity) list" where
  "ex_peers = [(''p1'', \<lparr>en_URL = ''grpcs://p1'', en_GRPCOptions = Some [(''fail-fast'', CBool True)], en_TLSCACerts = no_tls\<lparr>tc_Pem := ''pem''\<rparr>\<rparr>),
     (''p2'', \<lparr>en_URL = ''p2:7051'', en_GRPCOptions = None, en_TLSCACerts = no_tls\<rparr>),
     (''_default'', \<lparr>en_URL = [], en_GRPCOptions = Some [(''keep-alive-time'', CInt 1)], en_TLSCACerts = no_tls\<rparr>)]"

definition ex_decoders :: "int decoders" where
  "ex_decoders = \<lparr>de_Client = (\<lambda>_. Inr no_client),
     de_Channels = (\<lambda>hook _. Inr [(''ch'', \<lparr>che_Orderers = [''o1''], che_Peers = [(''p1'', \<lparr>pcc_EndorsingPeer = True, pcc_ChaincodeQuery = True,
       pcc_LedgerQuery = True, pcc_EventSource = False\<rparr>), (''p2'', \<lparr>pcc_EndorsingPeer = True, pcc_ChaincodeQuery = True,
       pcc_LedgerQuery = True, pcc_EventSource = False\<rparr>)], che_Policies = no_policies\<rparr>)]),
     de_Organizations = (\<lambda>_. Inr [(''org1'', \<lparr>og_MSPID = ''Org1MSP'', og_CryptoPath = [], og_Users = [], og_Peers = [''p1''], og_CertificateAuthorities = []\<rparr>)]),
     de_Nodes = (\<lambda>v. Inr (if v = CInt 1 then ex_peers else [(''o1'', \<lparr>en_URL = ''o1:7050'', en_GRPCOptions = Some [(''allow-insecure'', CBool True)],
       en_TLSCACerts = no_tls\<rparr>)])),
     de_Matchers = (\<lambda>_. Inr [(''peer'', [\<lparr>ma_Pattern = ''p2'', ma_URLSubstitutionExp = [], ma_SSLTargetOverrideURLSubstitutionExp = [],
       ma_MappedHost = [], ma_MappedName = [], ma_IgnoreEndpoint = True\<rparr>])])\<rparr>"

definition ex_backend :: ConfigLookup where
  "ex_backend = [None, Some (\<lambda>k. if k = ''peers'' then Some (CInt 1)
     else if k \<in> {''channels'', ''organizations'', ''orderers'', ''entityMatchers''} then Some (CInt 2) else None)]"

lemma ex_conf_run: "(case ConfigFromBackend ex_conf_env ex_decoders 2 ex_backend of
    Ok (Inr c) \<Rightarrow> map (\<lambda>(ch, ps). (ch, map (\<lambda>p. nd_URL (np_PeerConfig (ccp_NetworkPeer p))) ps)) (ec_channelPeersByChannel c)
        = [(''_default'', []), (''ch'', [''grpcs://p1''])] \<and> map nd_URL (ec_ordererConfigs c) = [''o1:7050''] | _ \<Rightarrow> False)"
  by code_simp

theorem loaded_configuration_usable_witness:
  "\<exists>c ch peers. ConfigFromBackend ex_conf_env ex_decoders 2 ex_backend = Ok (Inr c) \<and> ChannelConfig ex_conf_env c ''other'' = Ok (Some ch)
    \<and> policies_complete (che_Policies ch) \<and> ChannelPeers ex_conf_env c ''ch'' = Ok peers"
proof -
  obtain c where c: "ConfigFromBackend ex_conf_env ex_decoders 2 ex_backend = Ok (Inr c)"
    using ex_conf_run by (auto split: outcome.splits sum.splits)
  show ?thesis using loaded_configuration_usable [OF c, of "''other''"] loaded_configuration_usable [OF c, of "''ch''"] c by blast
qed

definition ex_entity :: "int endpointConfigEntity" where
  "ex_entity = \<lparr>ee_Client = no_client, ee_Channels = [], ee_Organizations = [], ee_Orderers = [], ee_Peers = ex_peers\<rparr>"

lemma ex_entity_run: "(case loadEndpointConfigEntities ex_conf_env ex_decoders 2 ex_entity (new_config ex_backend) of
    Ok (Inr c) \<Rightarrow> length (ec_peerMatchers c) = 1 | _ \<Rightarrow> False)"
  by code_simp

theorem peer_options_layered_witness:
  "\<exists>c nc. loadEndpointConfigEntities ex_conf_env ex_decoders 2 ex_entity (new_config ex_backend) = Ok (Inr c) \<and> ec_networkConfig c = Some nc
    \<and> map fst (nc_Peers nc) = map fst (filter (\<lambda>(n, p). n \<noteq> ''_default'' \<and> \<not> isPeerToBeIgnored ex_conf_env c n) ex_peers)"
proof -
  obtain c where c: "loadEndpointConfigEntities ex_conf_env ex_decoders 2 ex_entity (new_config ex_backend) = Ok (Inr c)"
    using ex_entity_run by (auto split: outcome.splits sum.splits)
  from peer_options_layered [OF c] obtain nc where nc: "ec_networkConfig c = Some nc"
    and eq: "map (\<lambda>(n, p). (n, nd_URL p, options_of (nd_GRPCOptions p))) (nc_Peers nc)
      = map (\<lambda>(n, p). (n, if en_URL p = [] then n @ '':7051'' else en_URL p,
          map_of default_options ++ options_of (configured_default (ee_Peers ex_entity)) ++ options_of (en_GRPCOptions p)))
        (filter (\<lambda>(n, p). n \<noteq> ''_default'' \<and> \<not> isPeerToBeIgnored ex_conf_env c n) (ee_Peers ex_entity))"
    by (elim exE conjE) (rule that)
  have "map fst (nc_Peers nc) = map fst (filter (\<lambda>(n, p). n \<noteq> ''_default'' \<and> \<not> isPeerToBeIgnored ex_conf_env c n) (ee_Peers ex_entity))"
    using arg_cong [OF eq, of "map fst"] by (simp add: o_def case_prod_unfold)
  then show ?thesis using c nc by (auto simp: ex_entity_def)
qed

end
