(* ===== verification/Identity_Theorems.thy ===== *)
theory Identity_Theorems
  imports Identity_Config Endpoint_Theorems
begin

text \<open>
  What a configuration of identities guarantees once it is loaded: every CA has an address and, without the system's certificates,
  certificates of its own, which can be read and are in the pool. The options of CAs that are mapped to the same host are shared.
\<close>

section \<open>Certificates in a PEM text\<close>

primrec pem_certs :: "('re, 'c, 't) configEnv \<Rightarrow> nat \<Rightarrow> bytes \<Rightarrow> 'c list" where
  "pem_certs env 0 bs = []"
| "pem_certs env (Suc n) bs = (if bs = [] then [] else case cf_Decode env bs of
     None \<Rightarrow> []
   | Some (block, rest) \<Rightarrow>
       (if pb_Type block = ''CERTIFICATE'' \<and> pb_Headers block = [] then case cf_ParseCertificate env (pb_Bytes block) of Inl e \<Rightarrow> [] | Inr c \<Rightarrow> [c] else [])
       @ pem_certs env n rest)"

lemma append_pem_certs:
  "append_pem env n c bs ok = (ok \<or> pem_certs env n bs \<noteq> [], fold (\<lambda>x. pool_Add env [Some x]) (pem_certs env n bs) c)"
  by (induction n arbitrary: c bs ok) (auto split: option.split sum.split)

lemma pem_certs_Nil [simp]: "pem_certs env n [] = []"
  by (cases n) simp_all

lemma pem_certs_fuel:
  assumes "\<And>bs block rest. cf_Decode env bs = Some (block, rest) \<Longrightarrow> length rest < length bs" "length bs \<le> n"
  shows "pem_certs env n bs = pem_certs env (length bs) bs"
proof -
  have "pem_certs env n bs = pem_certs env m bs" if "length bs \<le> n" "length bs \<le> m" for n m bs
    using that
  proof (induction n arbitrary: m bs)
    case (Suc n)
    show ?case
    proof (cases "bs = [] \<or> cf_Decode env bs = None")
      case True
      then show ?thesis by (cases m; cases "bs = []") auto
    next
      case False
      then obtain block rest where d: "cf_Decode env bs = Some (block, rest)" by auto
      obtain m' where m: "m = Suc m'" using Suc.prems False by (cases m) auto
      have "pem_certs env n rest = pem_certs env m' rest"
        by (rule Suc.IH) (use assms(1) [OF d] Suc.prems m in simp_all)
      then show ?thesis by (simp add: d m)
    qed
  qed simp
  then show ?thesis using assms(2) by blast
qed

section \<open>What the pool has\<close>

definition has_cert :: "('re, 'c, 't) configEnv \<Rightarrow> 'c list \<Rightarrow> 'c \<Rightarrow> bool" where
  "has_cert env l x \<longleftrightarrow> (\<exists>y \<in> set l. y = x \<or> cf_Equal env y x)"

lemma has_cert_mono: "has_cert env l x \<Longrightarrow> set l \<subseteq> set l' \<Longrightarrow> has_cert env l' x"
  by (auto simp: has_cert_def)

lemma pool_Add_extends:
  assumes "pool_inv c"
  shows "pool_inv (pool_Add env [Some x] c)" "set (cp_certs c) \<subseteq> set (cp_certs (pool_Add env [Some x] c))"
    "has_cert env (cp_certs (pool_Add env [Some x] c)) x"
  using pool_Add_certs [OF assms, of env "[Some x]"] pool_Add_has [OF assms, of x "[Some x]" env] by (auto simp: has_cert_def)

lemma add_all_certs:
  assumes "pool_inv c"
  shows "pool_inv (fold (\<lambda>x. pool_Add env [Some x]) xs c) \<and> set (cp_certs c) \<subseteq> set (cp_certs (fold (\<lambda>x. pool_Add env [Some x]) xs c))
    \<and> (\<forall>x \<in> set xs. has_cert env (cp_certs (fold (\<lambda>x. pool_Add env [Some x]) xs c)) x)"
  using assms
proof (induction xs arbitrary: c)
  case (Cons x xs)
  note a = pool_Add_extends [OF Cons.prems, of env x]
  show ?case using Cons.IH [OF a(1)] a(2,3) by (auto intro: has_cert_mono)
qed simp

text \<open>The certificates of a list of PEM texts.\<close>

definition certs_in :: "('re, 'c, 't) configEnv \<Rightarrow> 'c list \<Rightarrow> bytes \<Rightarrow> bool" where
  "certs_in env l bs \<longleftrightarrow> pem_certs env (length bs) bs \<noteq> [] \<and> (\<forall>x \<in> set (pem_certs env (length bs) bs). has_cert env l x)"

lemma certs_in_mono: "certs_in env l bs \<Longrightarrow> set l \<subseteq> set l' \<Longrightarrow> certs_in env l' bs"
  by (auto simp: certs_in_def intro: has_cert_mono)

lemma add_ca_certs_ok:
  assumes "add_ca_certs env bss c = Inr c'" "pool_inv c"
  shows "pool_inv c' \<and> set (cp_certs c) \<subseteq> set (cp_certs c') \<and> (\<forall>bs \<in> set bss. certs_in env (cp_certs c') bs)"
  using assms
proof (induction bss arbitrary: c)
  case (Cons bs bss)
  define c1 where "c1 = fold (\<lambda>x. pool_Add env [Some x]) (pem_certs env (length bs) bs) c"
  have ok: "pem_certs env (length bs) bs \<noteq> []" "add_ca_certs env bss c1 = Inr c'"
    using Cons.prems(1) by (auto simp: appendCertsFromPEM_def append_pem_certs c1_def split: if_split_asm)
  note a = add_all_certs [OF Cons.prems(2), of env "pem_certs env (length bs) bs", folded c1_def]
  have c1: "certs_in env (cp_certs c1) bs" using a ok(1) by (simp add: certs_in_def)
  have "pool_inv c1" using a by blast
  from Cons.IH [OF ok(2) this] a c1 show ?case by (auto intro: certs_in_mono)
qed simp

lemma add_cas_ok:
  assumes "add_cas env sys cas c = Inr c'" "pool_inv c"
  shows "pool_inv c' \<and> set (cp_certs c) \<subseteq> set (cp_certs c')
    \<and> (\<forall>ca \<in> snd ` set cas. (mca_TLSCAServerCerts ca \<noteq> [] \<or> sys) \<and> (\<forall>bs \<in> set (mca_TLSCAServerCerts ca). certs_in env (cp_certs c') bs))"
  using assms
proof (induction cas arbitrary: c)
  case (Cons x cas)
  then obtain c1 where c1: "mca_TLSCAServerCerts (snd x) \<noteq> [] \<or> sys" "add_ca_certs env (mca_TLSCAServerCerts (snd x)) c = Inr c1"
    "add_cas env sys cas c1 = Inr c'"
    by (auto simp: rbind_eq_Inr split: if_split_asm)
  note a = add_ca_certs_ok [OF c1(2) Cons.prems(2)]
  from a have "pool_inv c1" by blast
  from Cons.IH [OF c1(3) this] a c1(1) show ?case by (auto intro: certs_in_mono)
qed simp

lemma system_flag_kept:
  "cp_systemCertPool (pool_Add env certs c) = cp_systemCertPool c" "cp_systemCertPool (snd (pool_Get system c)) = cp_systemCertPool c"
proof -
  have "cp_systemCertPool (fold (add_cert env) cs c) = cp_systemCertPool c" for cs
    by (induction cs arbitrary: c) (simp_all add: add_cert_def Let_def)
  then show "cp_systemCertPool (pool_Add env certs c) = cp_systemCertPool c" by (simp add: pool_Add_def Let_def)
  show "cp_systemCertPool (snd (pool_Get system c)) = cp_systemCertPool c"
    by (auto simp: pool_Get_def swapCertPool_def rbind_def split: sum.split)
qed

lemma add_cas_system:
  assumes "add_cas env sys cas c = Inr c'"
  shows "cp_systemCertPool c' = cp_systemCertPool c"
proof -
  have f: "cp_systemCertPool (fold (\<lambda>x. pool_Add env [Some x]) xs c) = cp_systemCertPool c" for xs c
    by (induction xs arbitrary: c) (simp_all add: system_flag_kept)
  have "cp_systemCertPool c' = cp_systemCertPool c" if "add_ca_certs env bss c = Inr c'" for bss c c'
    using that by (induction bss arbitrary: c) (auto simp: appendCertsFromPEM_def append_pem_certs f split: if_split_asm)
  then show ?thesis using assms by (induction cas arbitrary: c) (force simp: rbind_eq_Inr split: if_split_asm)+
qed

lemma id_loadTLSCertPool_ok:
  assumes "id_loadTLSCertPool env sys cas = Inr pool"
  shows "\<forall>ca \<in> snd ` set cas. (mca_TLSCAServerCerts ca = [] \<longrightarrow> cp_systemCertPool pool)
    \<and> (\<forall>bs \<in> set (mca_TLSCAServerCerts ca). certs_in env (cp_certPool pool) bs)"
proof -
  obtain p0 p1 where p: "NewCertPool (cf_SystemCertPool env) sys = Inr p0" "add_cas env sys cas p0 = Inr p1"
    using assms by (auto simp: id_loadTLSCertPool_def rbind_eq_Inr)
  obtain r p2 where "pool_Get (cf_SystemCertPool env) p1 = (r, p2)" by fastforce
  then obtain l where l: "pool_Get (cf_SystemCertPool env) p1 = (Inr l, pool)"
    using assms p by (cases r) (auto simp: id_loadTLSCertPool_def)
  note a = add_cas_ok [OF p(2) NewCertPool_inv [OF p(1)]]
  have "set (cp_certs p1) \<subseteq> set (cp_certPool pool)"
    using l a by (auto simp: pool_Get_def pool_inv_def swapCertPool_def rbind_eq_Inr split: if_split_asm sum.split_asm)
  moreover have "cp_systemCertPool pool = sys"
    using system_flag_kept(2) [of "cf_SystemCertPool env" p1] add_cas_system [OF p(2)] p(1) by (auto simp: l NewCertPool_def rbind_eq_Inr)
  ultimately show ?thesis using a by (blast intro: certs_in_mono)
qed

lemma load_cas_URL:
  assumes "load_cas env lk ms cas ids configs h = Inr (configs', h')" "\<forall>ca \<in> snd ` set configs. mca_URL ca \<noteq> []"
  shows "\<forall>ca \<in> snd ` set configs'. mca_URL ca \<noteq> []"
  using assms
proof (induction ids arbitrary: configs h)
  case (Cons i ids)
  obtain r h1 where r: "tryMatchingCAConfig env ms cas (ToLower i) h = (r, h1)" by fastforce
  show ?case
  proof (cases r)
    case None
    with Cons r show ?thesis by auto
  next
    case (Some e)
    with Cons.prems(1) r obtain mc where mc: "getMSPCAConfig env lk e = Inr mc"
      "load_cas env lk ms cas ids (AList.update (ToLower i) mc configs) h1 = Inr (configs', h')"
      by (auto simp: rbind_eq_Inr)
    have "mca_URL mc \<noteq> []" using mc(1) by (auto simp: getMSPCAConfig_def rbind_eq_Inr split: if_split_asm)
    with Cons.IH [OF mc(2) update_all [OF Cons.prems(2)]] show ?thesis by blast
  qed
qed simp

text \<open>
  C26: Every CA of a configuration that is loaded has an address and, unless the system's certificates are used, certificates. Each of its
  PEM texts has a certificate, and the pool that is given has all that they have.
\<close>
theorem loaded_CAs_trusted:
  assumes "identity_ConfigFromBackend env de lk = Inr c" "CAConfig c caID = Some ca"
  shows "mca_URL ca \<noteq> [] \<and> (\<exists>pool. ic_tlsCertPool c = Some pool
    \<and> (mca_TLSCAServerCerts ca = [] \<longrightarrow> cp_systemCertPool pool) \<and> (\<forall>bs \<in> set (mca_TLSCAServerCerts ca). certs_in env (cp_certPool pool) bs))"
proof -
  obtain ms cas h h1 sys pool where s: "loadAllCAConfigs env lk ms cas h = Inr (ic_caConfigs c, h1)"
    "id_loadTLSCertPool env sys (ic_caConfigs c) = Inr pool" "ic_tlsCertPool c = Some pool"
    using assms(1) unfolding identity_ConfigFromBackend_def loadIdentityConfigEntities_def Let_def
    by (auto simp: rbind_eq_Inr split: prod.split_asm)
  have ca: "ca \<in> snd ` set (ic_caConfigs c)" using assms(2) by (force simp: CAConfig_def dest: map_of_SomeD)
  have "mca_URL ca \<noteq> []" using load_cas_URL [OF s(1) [unfolded loadAllCAConfigs_def]] ca by auto
  then show ?thesis using id_loadTLSCertPool_ok [OF s(2)] ca s(3) by blast
qed

section \<open>Shared options\<close>

text \<open>Two CAs, of which the second is mapped to the first with a host name of its own; both have a certificate in the configuration.\<close>

definition ex_ca :: CAEntity where
  "ex_ca = \<lparr>ca_ID = [], ca_URL = ''https://ca1'', ca_GRPCOptions = Some 0, ca_TLSCACerts = \<lparr>mt_Pem = [''pem''], mt_Path = [],
     mt_Client = \<lparr>kp_Key = no_tls, kp_Cert = no_tls\<rparr>\<rparr>, ca_Registrar = \<lparr>er_EnrollID = [], er_EnrollSecret = []\<rparr>, ca_CAName = []\<rparr>"

definition ex_id_decoders :: idDecoders where
  "ex_id_decoders = \<lparr>di_Client = (\<lambda>_. Inr no_identity_client), di_Organizations = (\<lambda>_. Inr []),
     di_CAs = (\<lambda>_. Inr ([(''ca1'', ex_ca), (''ca2'', ex_ca\<lparr>ca_GRPCOptions := Some 1\<rparr>)], [[], []])),
     di_Matchers = (\<lambda>_. Inr [(''certificateauthority'', [\<lparr>ma_Pattern = ''ca2'', ma_URLSubstitutionExp = ''https://x'',
       ma_SSLTargetOverrideURLSubstitutionExp = ''ca2.org'', ma_MappedHost = ''ca1'', ma_MappedName = [], ma_IgnoreEndpoint = False\<rparr>])])\<rparr>"

definition ex_id_backend :: ConfigLookup where
  "ex_id_backend = [Some (\<lambda>k. if k \<in> {''certificateAuthorities'', ''entityMatchers''} then Some CNil else None)]"

lemma ex_id_run: "(case identity_ConfigFromBackend ex_conf_env ex_id_decoders ex_id_backend of
    Inr c \<Rightarrow> (case CAConfig c ''ca2'' of Some ca \<Rightarrow> mca_URL ca = ''https://x'' | None \<Rightarrow> False)
      \<and> (case CAConfig c ''ca1'' of Some ca \<Rightarrow> mca_GRPCOptions ca = Some 0 | None \<Rightarrow> False)
      \<and> ic_heap c ! 0 = [(''ssl-target-name-override'', CString ''ca2.org'')] | Inl e \<Rightarrow> False)"
  by code_simp

text \<open>The host name that a matcher gives to the second CA becomes that of the first, too: they share their options.\<close>

lemma override_shared:
  "\<exists>c ca. identity_ConfigFromBackend ex_conf_env ex_id_decoders ex_id_backend = Inr c \<and> CAConfig c ''ca1'' = Some ca
    \<and> mca_GRPCOptions ca = Some 0 \<and> ic_heap c ! 0 = [(''ssl-target-name-override'', CString ''ca2.org'')]"
  using ex_id_run by (auto split: sum.splits option.splits)

theorem loaded_CAs_trusted_witness:
  "\<exists>c ca pool. identity_ConfigFromBackend ex_conf_env ex_id_decoders ex_id_backend = Inr c \<and> CAConfig c ''ca2'' = Some ca
    \<and> mca_URL ca \<noteq> [] \<and> ic_tlsCertPool c = Some pool"
proof -
  obtain c ca where c: "identity_ConfigFromBackend ex_conf_env ex_id_decoders ex_id_backend = Inr c" "CAConfig c ''ca2'' = Some ca"
    using ex_id_run by (auto split: sum.splits option.splits)
  from loaded_CAs_trusted [OF c] c show ?thesis by blast
qed

end
