(* ===== verification/Cert_Pool_Theorems.thy ===== *)
theory Cert_Pool_Theorems
  imports Endpoint_Theorems Interleaving
begin

text \<open>
  The pool of certificates under concurrent calls: what a \<open>Get\<close> finds of the certificates of completed calls of \<open>Add\<close>, under
  which condition, and that without it a \<open>Get\<close> can miss them.
\<close>

section \<open>The invariant\<close>

abbreviation ps_run :: "('re, 'c, 't) configEnv \<Rightarrow> 'c pools \<Rightarrow> 'c pools \<Rightarrow> bool" where
  "ps_run env \<equiv> (ps_step env)\<^sup>*\<^sup>*"

text \<open>A \<open>Get\<close> between its check and its swap; one that has failed.\<close>

fun swapping :: "'c pool_call \<Rightarrow> bool" where
  "swapping GetLoad \<longleftrightarrow> True" | "swapping (GetSwap l) \<longleftrightarrow> True" | "swapping p \<longleftrightarrow> False"

fun has_failed :: "'c pool_call \<Rightarrow> bool" where
  "has_failed (GetDone (Inl e)) \<longleftrightarrow> True" | "has_failed p \<longleftrightarrow> False"

text \<open>The certificate, or one with the same content.\<close>

definition has_cert_of :: "('re, 'c, 't) configEnv \<Rightarrow> 'c set \<Rightarrow> 'c \<Rightarrow> bool" where
  "has_cert_of env C x \<longleftrightarrow> (\<exists>y\<in>C. y = x \<or> cf_Equal env y x)"

lemma has_cert_of_mono: "has_cert_of env C x \<Longrightarrow> C \<subseteq> C' \<Longrightarrow> has_cert_of env C' x"
  by (auto simp: has_cert_of_def)

text \<open>What a call of \<open>Add\<close> knows of its certificates: they are in the queue, or it is about to store them.\<close>

fun adds_ok :: "('re, 'c, 't) configEnv \<Rightarrow> 'c set \<Rightarrow> 'c pool_call \<Rightarrow> bool" where
  "adds_ok env C (AddStore certs new) \<longleftrightarrow> (\<forall>x. Some x \<in> set certs \<longrightarrow> x \<in> set new \<or> has_cert_of env C x)"
| "adds_ok env C (AddDone certs) \<longleftrightarrow> (\<forall>x. Some x \<in> set certs \<longrightarrow> has_cert_of env C x)"
| "adds_ok env C p \<longleftrightarrow> True"

lemma adds_ok_mono: "adds_ok env C p \<Longrightarrow> C \<subseteq> C' \<Longrightarrow> adds_ok env C' p"
  by (cases p) (auto intro: has_cert_of_mono)

definition index_ok :: "'c certPool \<Rightarrow> bool" where
  "index_ok c \<longleftrightarrow> (\<forall>name. \<forall>i \<in> set (cp_certsByName c name). i < length (cp_certs c))"

text \<open>The pool that is given has all of the queue, or it is known to be out of date, or a \<open>Get\<close> is about to swap it, or one has failed to.\<close>

definition current :: "'c pools \<Rightarrow> bool" where
  "current s \<longleftrightarrow> set (cp_certs (ps_pool s)) \<subseteq> set (cp_certPool (ps_pool s)) \<or> cp_dirty (ps_pool s)
     \<or> (\<exists>p\<in>set (ps_calls s). swapping p \<or> has_failed p)"

definition pools_inv :: "('re, 'c, 't) configEnv \<Rightarrow> 'c pools \<Rightarrow> bool" where
  "pools_inv env s \<longleftrightarrow> index_ok (ps_pool s) \<and> current s \<and> (\<forall>p\<in>set (ps_calls s). adds_ok env (set (cp_certs (ps_pool s))) p)"

lemma filterCerts_finds:
  assumes "index_ok c" "Some x \<in> set certs" "x \<notin> set (filterCerts env c certs)"
  shows "has_cert_of env (set (cp_certs c)) x"
proof -
  have "x \<in> set (List.map_filter (\<lambda>x. x) certs)" using assms(2) by (force simp: List.map_filter_def)
  with assms(3) obtain p where p: "p \<in> set (cp_certsByName c (cf_RawSubject env x))" "cf_Equal env (cp_certs c ! p) x"
    by (auto simp: filterCerts_def set_removeDuplicates list_ex_iff)
  with assms(1) have "cp_certs c ! p \<in> set (cp_certs c)" by (simp add: index_ok_def)
  with p(2) show ?thesis by (auto simp: has_cert_of_def)
qed

text \<open>A step of a call: what the pool and the call become.\<close>

definition moves :: "nat \<Rightarrow> 'c pool_call \<Rightarrow> 'c certPool \<Rightarrow> 'c pools \<Rightarrow> 'c pools" where
  "moves i p c s = s\<lparr>ps_pool := c, ps_calls := (ps_calls s)[i := p]\<rparr>"

lemma moves_simps [simp]:
  "ps_pool (moves i p c s) = c" "ps_calls (moves i p c s) = (ps_calls s)[i := p]" "moves i p c (moves i q d s) = moves i p c s"
  by (simp_all add: moves_def)

lemma call_step_simps:
  "ps_calls s ! i = GetCheck \<Longrightarrow> pool_call_step env i system s = Some (if cp_dirty (ps_pool s)
     then moves i GetLoad ((ps_pool s)\<lparr>cp_dirty := False\<rparr>) s else moves i GetRead (ps_pool s) s)"
  "ps_calls s ! i = GetLoad \<Longrightarrow> loadSystemCertPool system (cp_systemCertPool (ps_pool s)) = Inl e
     \<Longrightarrow> pool_call_step env i system s = Some (moves i (GetDone (Inl e)) (ps_pool s) s)"
  "ps_calls s ! i = GetLoad \<Longrightarrow> loadSystemCertPool system (cp_systemCertPool (ps_pool s)) = Inr l
     \<Longrightarrow> pool_call_step env i system s = Some (moves i (GetSwap l) (ps_pool s) s)"
  "ps_calls s ! i = GetSwap l \<Longrightarrow>
     pool_call_step env i system s = Some (moves i GetRead ((ps_pool s)\<lparr>cp_certPool := l @ cp_certs (ps_pool s)\<rparr>) s)"
  "ps_calls s ! i = GetRead \<Longrightarrow> pool_call_step env i system s = Some (moves i (GetDone (Inr (cp_certPool (ps_pool s)))) (ps_pool s) s)"
  "ps_calls s ! i = AddFilter certs \<Longrightarrow> pool_call_step env i system s =
     Some (moves i (if certs = [] \<or> filterCerts env (ps_pool s) certs = [] then AddDone certs
       else AddStore certs (filterCerts env (ps_pool s) certs)) (ps_pool s) s)"
  "ps_calls s ! i = AddStore certs new \<Longrightarrow>
     pool_call_step env i system s = Some (moves i (AddDone certs) ((fold (add_cert env) new (ps_pool s))\<lparr>cp_dirty := True\<rparr>) s)"
  by (simp_all add: pool_call_step_def moves_def Let_def)

lemma call_cases:
  assumes "pool_call_step env i system s = Some s'"
  obtains certs where "ps_calls s ! i = AddFilter certs" "\<forall>x. Some x \<in> set certs \<longrightarrow> x \<notin> set (filterCerts env (ps_pool s) certs)"
      "s' = moves i (AddDone certs) (ps_pool s) s"
  | certs where "ps_calls s ! i = AddFilter certs" "s' = moves i (AddStore certs (filterCerts env (ps_pool s) certs)) (ps_pool s) s"
  | certs new where "ps_calls s ! i = AddStore certs new" "s' = moves i (AddDone certs) ((fold (add_cert env) new (ps_pool s))\<lparr>cp_dirty := True\<rparr>) s"
  | "ps_calls s ! i = GetCheck" "cp_dirty (ps_pool s)" "s' = moves i GetLoad ((ps_pool s)\<lparr>cp_dirty := False\<rparr>) s"
  | "ps_calls s ! i = GetCheck" "\<not> cp_dirty (ps_pool s)" "s' = moves i GetRead (ps_pool s) s"
  | e where "ps_calls s ! i = GetLoad" "s' = moves i (GetDone (Inl e)) (ps_pool s) s"
  | l where "ps_calls s ! i = GetLoad" "s' = moves i (GetSwap l) (ps_pool s) s"
  | l where "ps_calls s ! i = GetSwap l" "s' = moves i GetRead ((ps_pool s)\<lparr>cp_certPool := l @ cp_certs (ps_pool s)\<rparr>) s"
  | "ps_calls s ! i = GetRead" "s' = moves i (GetDone (Inr (cp_certPool (ps_pool s)))) (ps_pool s) s"
  using assms
  by (cases "ps_calls s ! i")
    (auto simp: pool_call_step_def moves_def Let_def split: if_split_asm sum.split_asm)

lemma stays: "p \<in> set ps \<Longrightarrow> i < length ps \<Longrightarrow> p \<noteq> ps ! i \<Longrightarrow> p \<in> set (ps[i := q])"
  by (metis in_set_conv_nth length_list_update nth_list_update_neq)

text \<open>The queue only grows, and the pool that is given gets the whole queue when it is swapped.\<close>

lemma call_pool:
  assumes "pool_call_step env i system s = Some s'" "index_ok (ps_pool s)"
  shows "index_ok (ps_pool s')" "set (cp_certs (ps_pool s)) \<subseteq> set (cp_certs (ps_pool s'))"
    "cp_certPool (ps_pool s') = cp_certPool (ps_pool s)
      \<or> set (cp_certs (ps_pool s)) \<subseteq> set (cp_certPool (ps_pool s')) \<and> cp_certs (ps_pool s') = cp_certs (ps_pool s)"
proof -
  have f: "cp_certs (fold (add_cert env) cs (ps_pool s)) = cp_certs (ps_pool s) @ cs" "index_ok (fold (add_cert env) cs (ps_pool s))"
    "cp_certPool (fold (add_cert env) cs (ps_pool s)) = cp_certPool (ps_pool s)" for cs
  proof -
    show "cp_certs (fold (add_cert env) cs (ps_pool s)) = cp_certs (ps_pool s) @ cs" "index_ok (fold (add_cert env) cs (ps_pool s))"
      using add_certs_fields [of "ps_pool s" env cs] assms(2) by (auto simp: index_ok_def)
    show "cp_certPool (fold (add_cert env) cs (ps_pool s)) = cp_certPool (ps_pool s)"
      by (induction cs arbitrary: s rule: rev_induct) (simp_all add: add_cert_def Let_def)
  qed
  show "index_ok (ps_pool s')" "set (cp_certs (ps_pool s)) \<subseteq> set (cp_certs (ps_pool s'))"
    "cp_certPool (ps_pool s') = cp_certPool (ps_pool s)
      \<or> set (cp_certs (ps_pool s)) \<subseteq> set (cp_certPool (ps_pool s')) \<and> cp_certs (ps_pool s') = cp_certs (ps_pool s)"
    using assms(1)
    by (rule call_cases; use assms(2) f in \<open>simp add: moves_def index_ok_def\<close>)+
qed

lemma call_inv:
  assumes "pool_call_step env i system s = Some s'" "i < length (ps_calls s)" "pools_inv env s"
  shows "pools_inv env s'"
proof -
  have ix: "index_ok (ps_pool s)" and old: "\<forall>p\<in>set (ps_calls s). adds_ok env (set (cp_certs (ps_pool s))) p"
    and cur: "current s" using assms(3) by (simp_all add: pools_inv_def)
  note cp = call_pool [OF assms(1) ix]
  have i: "adds_ok env (set (cp_certs (ps_pool s))) (ps_calls s ! i)" using old assms(2) by simp
  have keep: "\<exists>q\<in>set (ps_calls s'). swapping q \<or> has_failed q"
    if ex: "\<exists>p\<in>set (ps_calls s). swapping p \<or> has_failed p" and u: "ps_calls s' = (ps_calls s)[i := q]"
      and h: "swapping (ps_calls s ! i) \<longrightarrow> swapping q \<or> has_failed q" "\<not> has_failed (ps_calls s ! i)" for q
  proof -
    obtain p where p: "p \<in> set (ps_calls s)" "swapping p \<or> has_failed p" using ex by blast
    show ?thesis
    proof (cases "p = ps_calls s ! i")
      case True
      then have "swapping q \<or> has_failed q" using p(2) h by blast
      then show ?thesis using assms(2) u by (metis set_update_memI)
    next
      case False
      then show ?thesis using stays [OF p(1) assms(2), of q] p(2) u by auto
    qed
  qed
  have new: "(\<exists>p. ps_calls s' = (ps_calls s)[i := p] \<and> adds_ok env (set (cp_certs (ps_pool s'))) p) \<and> current s'"
    using assms(1)
  proof (rule call_cases)
    fix certs assume a: "ps_calls s ! i = AddFilter certs" "\<forall>x. Some x \<in> set certs \<longrightarrow> x \<notin> set (filterCerts env (ps_pool s) certs)"
      "s' = moves i (AddDone certs) (ps_pool s) s"
    have "\<forall>x. Some x \<in> set certs \<longrightarrow> has_cert_of env (set (cp_certs (ps_pool s))) x" using filterCerts_finds [OF ix] a(2) by blast
    then show ?thesis using a cur keep [of "AddDone certs"] by (auto simp: moves_def current_def)
  next
    fix certs assume a: "ps_calls s ! i = AddFilter certs" "s' = moves i (AddStore certs (filterCerts env (ps_pool s) certs)) (ps_pool s) s"
    have "\<forall>x. Some x \<in> set certs \<longrightarrow> x \<in> set (filterCerts env (ps_pool s) certs) \<or> has_cert_of env (set (cp_certs (ps_pool s))) x"
      using filterCerts_finds [OF ix] by blast
    then show ?thesis using a cur keep [of "AddStore certs (filterCerts env (ps_pool s) certs)"] by (auto simp: moves_def current_def)
  next
    fix certs fresh assume a: "ps_calls s ! i = AddStore certs fresh"
      "s' = moves i (AddDone certs) ((fold (add_cert env) fresh (ps_pool s))\<lparr>cp_dirty := True\<rparr>) s"
    have q: "set (cp_certs (ps_pool s')) = set (cp_certs (ps_pool s)) \<union> set fresh"
      using add_certs_fields [of "ps_pool s" env fresh] ix by (simp add: a(2) moves_def index_ok_def)
    have "has_cert_of env (set (cp_certs (ps_pool s'))) x" if "Some x \<in> set certs" for x
      using i that unfolding a(1) q by (auto simp: has_cert_of_def)
    then show ?thesis using a(2) by (auto simp: moves_def current_def)
  next
    assume a: "ps_calls s ! i = GetCheck" "cp_dirty (ps_pool s)" "s' = moves i GetLoad ((ps_pool s)\<lparr>cp_dirty := False\<rparr>) s"
    have "GetLoad \<in> set (ps_calls s')" using assms(2) by (simp add: a(3) moves_def set_update_memI)
    then have "current s'" unfolding current_def by (metis swapping.simps(1))
    then show ?thesis using a(3) by (auto simp: moves_def)
  next
    assume a: "ps_calls s ! i = GetCheck" "\<not> cp_dirty (ps_pool s)" "s' = moves i GetRead (ps_pool s) s"
    then show ?thesis using cur keep [of GetRead] by (auto simp: moves_def current_def)
  next
    fix e assume a: "ps_calls s ! i = GetLoad" "s' = moves i (GetDone (Inl e)) (ps_pool s) s"
    then show ?thesis using cur keep [of "GetDone (Inl e)"] by (auto simp: moves_def current_def)
  next
    fix l assume a: "ps_calls s ! i = GetLoad" "s' = moves i (GetSwap l) (ps_pool s) s"
    then show ?thesis using cur keep [of "GetSwap l"] by (auto simp: moves_def current_def)
  next
    fix l assume a: "ps_calls s ! i = GetSwap l" "s' = moves i GetRead ((ps_pool s)\<lparr>cp_certPool := l @ cp_certs (ps_pool s)\<rparr>) s"
    then show ?thesis by (auto simp: moves_def current_def)
  next
    assume a: "ps_calls s ! i = GetRead" "s' = moves i (GetDone (Inr (cp_certPool (ps_pool s)))) (ps_pool s) s"
    then show ?thesis using cur keep [of "GetDone (Inr (cp_certPool (ps_pool s)))"] by (auto simp: moves_def current_def)
  qed
  then obtain p where p: "ps_calls s' = (ps_calls s)[i := p]" "adds_ok env (set (cp_certs (ps_pool s'))) p" by blast
  have "\<forall>p\<in>set (ps_calls s'). adds_ok env (set (cp_certs (ps_pool s'))) p"
    using old p adds_ok_mono [OF _ cp(2)] set_update_subset_insert [of "ps_calls s" i p] by (metis insertE subsetD)
  then show ?thesis using cp(1) new by (simp add: pools_inv_def)
qed

lemma ps_step_inv: "ps_step env s s' \<Longrightarrow> pools_inv env s \<Longrightarrow> pools_inv env s'"
proof (induction rule: ps_step.induct)
  case (ps_call i s system s')
  then show ?case by (blast intro: call_inv)
qed (auto simp: pools_inv_def current_def)

lemma ps_run_inv: "ps_run env s s' \<Longrightarrow> pools_inv env s \<Longrightarrow> pools_inv env s'"
  by (induction rule: rtranclp_induct) (blast intro: ps_step_inv)+

text \<open>A new pool without calls.\<close>

definition new_pools :: "'c certPool \<Rightarrow> 'c pools" where
  "new_pools c = \<lparr>ps_pool = c, ps_calls = []\<rparr>"

lemma new_pools_inv: "NewCertPool system b = Inr c \<Longrightarrow> pools_inv env (new_pools c)"
  by (auto simp: NewCertPool_def rbind_eq_Inr pools_inv_def new_pools_def index_ok_def current_def)

section \<open>After the check\<close>

text \<open>What a \<open>Get\<close> that has checked the flag makes of certificates \<open>K\<close>: it will swap them in, finds them in the pool, or has returned them.\<close>

fun gets :: "'c set \<Rightarrow> 'c set \<Rightarrow> 'c pool_call \<Rightarrow> bool" where
  "gets K C GetLoad \<longleftrightarrow> True" | "gets K C (GetSwap l) \<longleftrightarrow> True" | "gets K C GetRead \<longleftrightarrow> K \<subseteq> C"
| "gets K C (GetDone (Inr l)) \<longleftrightarrow> K \<subseteq> set l" | "gets K C (GetDone (Inl e)) \<longleftrightarrow> True" | "gets K C p \<longleftrightarrow> False"

definition checked :: "'c set \<Rightarrow> nat \<Rightarrow> 'c pools \<Rightarrow> bool" where
  "checked K i s \<longleftrightarrow> index_ok (ps_pool s) \<and> i < length (ps_calls s) \<and> K \<subseteq> set (cp_certs (ps_pool s))
     \<and> gets K (set (cp_certPool (ps_pool s))) (ps_calls s ! i)"

lemma gets_mono: "gets K C p \<Longrightarrow> K \<subseteq> C \<longrightarrow> K \<subseteq> C' \<Longrightarrow> gets K C' p"
proof (cases p)
  case (GetDone r)
  then show "gets K C p \<Longrightarrow> gets K C' p" by (cases r) simp_all
qed auto

lemma checked_call:
  assumes "pool_call_step env j system s = Some s'" "j < length (ps_calls s)" "checked K i s"
  shows "checked K i s'"
proof -
  have ix: "index_ok (ps_pool s)" and K: "K \<subseteq> set (cp_certs (ps_pool s))" and i: "i < length (ps_calls s)"
    and g: "gets K (set (cp_certPool (ps_pool s))) (ps_calls s ! i)" using assms(3) by (simp_all add: checked_def)
  note cp = call_pool [OF assms(1) ix]
  have pool: "K \<subseteq> set (cp_certPool (ps_pool s)) \<longrightarrow> K \<subseteq> set (cp_certPool (ps_pool s'))" using cp(3) K by auto
  have "gets K (set (cp_certPool (ps_pool s'))) (ps_calls s' ! i) \<and> length (ps_calls s') = length (ps_calls s)"
  proof (cases "j = i")
    case False
    have "ps_calls s' ! i = ps_calls s ! i \<and> length (ps_calls s') = length (ps_calls s)"
      using assms(1) by (rule call_cases) (use False in \<open>simp_all add: moves_def\<close>)
    then show ?thesis using gets_mono [OF g pool] by simp
  next
    case True
    show ?thesis using assms(1) by (rule call_cases) (use True g K i in \<open>auto simp: moves_def\<close>)
  qed
  then show ?thesis using cp(1,2) K i by (auto simp: checked_def)
qed

lemma checked_step: "ps_step env s s' \<Longrightarrow> checked K i s \<Longrightarrow> checked K i s'"
proof (induction rule: ps_step.induct)
  case (ps_call j s system s')
  then show ?case by (blast intro: checked_call)
qed (auto simp: checked_def nth_append)

lemma checked_run: "ps_run env s s' \<Longrightarrow> checked K i s \<Longrightarrow> checked K i s'"
  by (induction rule: rtranclp_induct) (blast intro: checked_step)+

lemma check_step:
  assumes "pool_call_step env i system s = Some s'" "ps_calls s ! i = GetCheck" "i < length (ps_calls s)" "pools_inv env s"
    "\<forall>p\<in>set (ps_calls s). \<not> swapping p \<and> \<not> has_failed p"
  shows "checked (set (cp_certs (ps_pool s))) i s'"
  using assms(1)
  by (rule call_cases) (use assms(2-) in \<open>auto simp: moves_def checked_def pools_inv_def current_def index_ok_def\<close>)

section \<open>Properties\<close>

text \<open>
  C27: Whatever calls of \<open>Add\<close> and \<open>Get\<close> go on at the same time, in whichever order their steps interleave: a \<open>Get\<close> that checks the
  dirty flag while no other \<open>Get\<close> is between its check and its swap, and before which none has failed to load the system's certificates,
  returns a pool with every certificate of every \<open>Add\<close> that had returned by then, or one with the same content, whatever the others do
  after the check. While another \<open>Get\<close> is between its check and its swap it can miss them (\<open>get_misses_added\<close>).
\<close>
theorem pool_has_added:
  assumes "NewCertPool system0 useSystem = Inr c0" "ps_run env (new_pools c0) s1"
    and "AddDone certs \<in> set (ps_calls s1)" "Some x \<in> set certs"
    and "i < length (ps_calls s1)" "ps_calls s1 ! i = GetCheck" "\<forall>p\<in>set (ps_calls s1). \<not> swapping p \<and> \<not> has_failed p"
    and "pool_call_step env i system s1 = Some s2" "ps_run env s2 s3" "ps_calls s3 ! i = GetDone (Inr l)"
  shows "\<exists>y\<in>set l. y = x \<or> cf_Equal env y x"
proof -
  have inv: "pools_inv env s1" by (rule ps_run_inv [OF assms(2) new_pools_inv [OF assms(1)]])
  then have "has_cert_of env (set (cp_certs (ps_pool s1))) x" using assms(3,4) by (fastforce simp: pools_inv_def)
  moreover have "checked (set (cp_certs (ps_pool s1))) i s3"
    by (rule checked_run [OF assms(9) check_step [OF assms(8,6,5) inv assms(7)]])
  then have "set (cp_certs (ps_pool s1)) \<subseteq> set l" using assms(10) by (simp add: checked_def)
  ultimately show ?thesis by (auto simp: has_cert_of_def)
qed

text \<open>A call that runs alone is \<open>pool_Get\<close> or \<open>pool_Add\<close>.\<close>

lemma one_pool_call: "i < length (ps_calls s) \<Longrightarrow> pool_call_step env i system s = Some s' \<Longrightarrow> ps_run env s s'"
  by (blast intro: ps_call)

lemma get_alone:
  assumes "i < length (ps_calls s)" "ps_calls s ! i = GetCheck" "pool_Get system (ps_pool s) = (r, c')"
  shows "ps_run env s (moves i (GetDone r) c' s)"
proof -
  let ?clean = "(ps_pool s)\<lparr>cp_dirty := False\<rparr>"
  have read: "ps_run env (moves i GetRead c s) (moves i (GetDone (Inr (cp_certPool c))) c s)" for c
    using call_step_simps(5) [of "moves i GetRead c s" i env "Inr []"] assms(1) by (intro one_pool_call [of i _ _ "Inr []"]) simp_all
  show ?thesis
  proof (cases "cp_dirty (ps_pool s)")
    case False
    have "ps_run env s (moves i GetRead (ps_pool s) s)"
      by (rule one_pool_call [OF assms(1)], subst call_step_simps(1) [OF assms(2)]) (use False in simp)
    then show ?thesis using rtranclp_trans [OF _ read] assms(3) False by (auto simp: pool_Get_def)
  next
    case True
    have 1: "ps_run env s (moves i GetLoad ?clean s)"
      by (rule one_pool_call [OF assms(1)], subst call_step_simps(1) [OF assms(2)]) (use True in simp)
    show ?thesis
    proof (cases "loadSystemCertPool system (cp_systemCertPool (ps_pool s))")
      case (Inl e)
      have "ps_run env (moves i GetLoad ?clean s) (moves i (GetDone (Inl e)) ?clean s)"
        using call_step_simps(2) [of "moves i GetLoad ?clean s" i system e env] assms(1) Inl by (intro one_pool_call [of i _ _ system]) simp_all
      moreover have "r = Inl e" "c' = ?clean" using assms(3) True Inl by (auto simp: pool_Get_def swapCertPool_def)
      ultimately show ?thesis using rtranclp_trans [OF 1] by simp
    next
      case (Inr l)
      let ?c = "?clean\<lparr>cp_certPool := l @ cp_certs (ps_pool s)\<rparr>"
      have 2: "ps_run env (moves i GetLoad ?clean s) (moves i (GetSwap l) ?clean s)"
        using call_step_simps(3) [of "moves i GetLoad ?clean s" i system l env] assms(1) Inr by (intro one_pool_call [of i _ _ system]) simp_all
      have 3: "ps_run env (moves i (GetSwap l) ?clean s) (moves i GetRead ?c s)"
        using call_step_simps(4) [of "moves i (GetSwap l) ?clean s" i l env "Inr []"] assms(1) by (intro one_pool_call [of i _ _ "Inr []"]) simp_all
      have "r = Inr (cp_certPool ?c)" "c' = ?c" using assms(3) True Inr by (auto simp: pool_Get_def swapCertPool_def)
      then show ?thesis using rtranclp_trans [OF rtranclp_trans [OF rtranclp_trans [OF 1 2] 3] read] by simp
    qed
  qed
qed

lemma add_alone:
  assumes "i < length (ps_calls s)" "ps_calls s ! i = AddFilter certs"
  shows "ps_run env s (moves i (AddDone certs) (pool_Add env certs (ps_pool s)) s)"
proof -
  let ?new = "filterCerts env (ps_pool s) certs"
  consider "certs = [] \<or> ?new = []" | "certs \<noteq> []" "?new \<noteq> []" by blast
  then show ?thesis
  proof cases
    case 1
    show ?thesis by (rule one_pool_call [of _ _ _ "Inr []"]) (use assms 1 in \<open>auto simp: call_step_simps pool_Add_def\<close>)
  next
    case 2
    have "ps_run env s (moves i (AddStore certs ?new) (ps_pool s) s)"
      by (rule one_pool_call [OF assms(1)], subst call_step_simps(6) [OF assms(2)]) (use 2 in simp)
    moreover have "ps_run env (moves i (AddStore certs ?new) (ps_pool s) s) (moves i (AddDone certs) (pool_Add env certs (ps_pool s)) s)"
      using call_step_simps(7) [of "moves i (AddStore certs ?new) (ps_pool s) s" i certs ?new env "Inr []"] assms(1) 2
      by (intro one_pool_call [of i _ _ "Inr []"]) (simp_all add: pool_Add_def)
    ultimately show ?thesis by (rule rtranclp_trans)
  qed
qed

section \<open>Computed runs\<close>

datatype 'c pool_act = ActAdd "'c option list" | ActGet | ActCall nat "'c list res"

fun act_ps :: "('re, 'c, 't) configEnv \<Rightarrow> 'c pool_act \<Rightarrow> 'c pools \<Rightarrow> 'c pools option" where
  "act_ps env (ActAdd certs) s = Some (s\<lparr>ps_calls := ps_calls s @ [AddFilter certs]\<rparr>)"
| "act_ps env ActGet s = Some (s\<lparr>ps_calls := ps_calls s @ [GetCheck]\<rparr>)"
| "act_ps env (ActCall i system) s = (if i < length (ps_calls s) then pool_call_step env i system s else None)"

lemma run_ps: "run_steps (act_ps env) as s = Some s' \<Longrightarrow> ps_run env s s'"
proof (rule run_steps_star)
  fix a s s'
  assume "act_ps env a s = Some s'"
  then show "ps_step env s s'" by (cases a) (auto split: if_splits intro: ps_step.intros)
qed

definition ex_pool :: "nat certPool" where
  "ex_pool = \<lparr>cp_certPool = [], cp_certs = [], cp_certsByName = \<lambda>_. [], cp_dirty = False, cp_systemCertPool = False\<rparr>"

lemma ex_pool_New: "NewCertPool (Inr []) False = Inr ex_pool"
  by (simp add: NewCertPool_def loadSystemCertPool_def ex_pool_def)

lemmas ps_defs = pool_call_step_def new_pools_def ex_pool_def filterCerts_def add_cert_def loadSystemCertPool_def List.map_filter_def Let_def

text \<open>A certificate is added; a \<open>Get\<close> has checked the flag when another \<open>Add\<close> comes in between.\<close>

theorem pool_has_added_witness:
  "\<exists>s. ps_run ex_conf_env (new_pools ex_pool) s \<and> (\<exists>l. ps_calls s ! 1 = GetDone (Inr l) \<and> (\<exists>y. y \<in> set l \<and> (y = 3 \<or> cf_Equal ex_conf_env y 3)))"
proof -
  obtain s1 where s1: "run_steps (act_ps ex_conf_env) [ActAdd [None, Some 3], ActGet, ActCall 0 (Inr []), ActCall 0 (Inr [])] (new_pools ex_pool) = Some s1"
    "ps_calls s1 = [AddDone [None, Some 3], GetCheck]"
    by (simp add: ps_defs)
  have a: "AddDone [None, Some 3] \<in> set (ps_calls s1)" "Some 3 \<in> set [None, Some (3::nat)]" "1 < length (ps_calls s1)" "ps_calls s1 ! 1 = GetCheck"
    "\<forall>p\<in>set (ps_calls s1). \<not> swapping p \<and> \<not> has_failed p" by (simp_all add: s1(2))
  obtain s2 where s2: "pool_call_step ex_conf_env 1 (Inr []) s1 = Some s2"
    using call_step_simps(1) [OF a(4)] by blast
  obtain s3 l where s3: "run_steps (act_ps ex_conf_env) [ActAdd [Some 4], ActCall 2 (Inr []), ActCall 1 (Inr []), ActCall 1 (Inr []), ActCall 1 (Inr [])] s2 = Some s3"
    "ps_calls s3 ! 1 = GetDone (Inr l)"
    using s1 s2 by (auto simp: ps_defs ex_conf_env_def)
  have "ps_run ex_conf_env (new_pools ex_pool) s3"
    using run_ps [OF s1(1)] one_pool_call [OF a(3) s2] run_ps [OF s3(1)] by (meson rtranclp_trans)
  then show ?thesis
    using pool_has_added [OF ex_pool_New run_ps [OF s1(1)] a s2 run_ps [OF s3(1)] s3(2)] s3(2) by blast
qed

text \<open>
  Without the condition a certificate is missed: after an \<open>Add\<close> has returned, a first \<open>Get\<close> clears the flag, and a second one, finding it
  clear, returns the pool without the certificate before the first has swapped it.
\<close>
theorem get_misses_added:
  "\<exists>s. ps_run ex_conf_env (new_pools ex_pool) s
    \<and> ps_calls s = [AddDone [Some 3], GetLoad, GetDone (Inr [])]"
proof -
  obtain s where "run_steps (act_ps ex_conf_env) [ActAdd [Some 3], ActCall 0 (Inr []), ActCall 0 (Inr []), ActGet, ActCall 1 (Inr []),
      ActGet, ActCall 2 (Inr []), ActCall 2 (Inr [])] (new_pools ex_pool) = Some s"
    "ps_calls s = [AddDone [Some 3], GetLoad, GetDone (Inr [])]"
    by (simp add: ps_defs)
  then show ?thesis using run_ps by blast
qed

end
