(* ===== verification/Spec2Isabelle.thy ===== *)
theory Spec2Isabelle
  imports Dispatcher_Theorems PgResolver_Theorems Retry_Theorems Client_Properties Event_Client
    Resolver_Theorems Selection_Theorems Invoke_Properties Service_Properties Config_Update_Theorems
    Connector_Theorems Lazy_Ref_Theorems Lazy_Cache_Theorems Dynamic_Theorems
    Membership_Properties Lifecycle_Theorems Identity_Theorems Cert_Pool_Theorems
begin

text \<open>
  A model of the client-side core of fabric-sdk-go-gm, the Go SDK of Hyperledger Fabric.

  \<^bold>\<open>The program's parts.\<close> An application gets its events from an event client, which keeps a connection to
  one peer and hands everything that arrives to an event dispatcher, a goroutine that owns the
  registrations and publishes blocks, filtered blocks, chaincode events and transaction statuses on
  the channels of the registered consumers. The client chooses its peer with a peer resolver. A
  transaction is endorsed by peers that a selection service chooses: from the endorsement
  descriptors that peers return (fabric selection), or from the signature policies themselves
  (dynamic selection). The channel client runs a request through a chain of handlers: select and ask
  endorsers, compare and verify their answers, send the transaction to an orderer, wait for its status.
  The chain is repeated by an invoker that retries on certain statuses.

  \<^bold>\<open>Theories and code.\<close>
  Prelude: outcomes (panic, blocked, value), Go errors, loops with state; it models no file.
  Channels: buffered channels, their consumers and closing; the send statements of the dispatcher.
  Block_Filter: blocks, txflags/validation_flags.go, the unmarshalling wrappers of protoutil,
  toFilteredBlock of pkg/fab/events/service/dispatcher/dispatcher.go, the block filters.
  Event_Types: events.go, registrations.go and opts.go of the dispatchers.
  Dispatcher: service/dispatcher/dispatcher.go. The record \<open>disp\<close> is the struct Dispatcher, \<open>runtime\<close> the
  channels, the log of answers and the clock around it; \<open>dispatch_loop\<close> is the goroutine of Start.
  Dispatcher_Publish, Dispatcher_Safety, Dispatcher_Properties: plans of what a block publishes, the
  invariant \<open>disp_inv\<close> and its preservation by every handler for well-formed blocks, and delivery in order, also of
  blocks that are not, up to the one at which the dispatcher panics;
  Dispatcher_Theorems: the properties.
  Client_Dispatcher: client/dispatcher/dispatcher.go and deliverclient/dispatcher/dispatcher.go, whose
  structs extend the one of the dispatcher, as the record \<open>cdisp\<close> extends \<open>disp\<close>. Client_Theorems lifts
  the invariant to them through the locale \<open>event_loop\<close>; Client_Properties has the properties.
  Event_Client: client/client.go, the connection state machine.
  Event_Service: service/service.go. Its calls are steps of a system with the dispatcher (\<open>svc_step\<close>);
  Service_Theorems has the safety of all interleavings in the locale \<open>served_dispatcher\<close>, Service_Answers what
  is answered to whom, Service_Properties the properties.
  Peers, Balancing, Peer_Resolvers: peers, the rolling counter, balancers and sorters, the four peer
  resolvers, the greylist, the selection filter and static selection; Resolver_Theorems.
  Fabric_Selection: fabricselection.go with the choice of a layout in the discovery client and the
  collection of the answers in pkg/fab/discovery/discovery.go; Selection_Theorems.
  PgResolver: the peer group resolver of dynamic selection. PgResolver_Groups relates groups to sets of
  organizations, PgResolver_Theorems shows that the organizations of a chosen group satisfy the policy, that one signature of
  each peer does when no organization is named twice, and that it does not for two signatures of one organization.
  Status, Retry, Retry_Theorems: statuses, multi-errors and the invoker with its back-off.
  Transactions: pkg/fab/txn (env.go, proposal.go, txn.go) with what it calls of protoutil. Endpoints:
  pkg/fab/peer/peerendorser.go and pkg/fab/orderer/orderer.go. Transaction_Theorems: the properties.
  RWSets: rwset_proto_util.go, both directions and their round trips.
  Invoke_Handlers: pkg/client/channel/invoke, the selection options and the signature verifier; the record
  \<open>RequestContext\<close> is the struct that the handlers change and \<open>Handle\<close> runs a chain. Channel_Client: Query, Execute
  and InvokeHandler of pkg/client/channel/chclient.go with their options. Invoke_Theorems shows what a
  successful Execute or Query has done, Invoke_Properties the retries, the merging of invocation chains and
  the error paths.
  Config_Update: configtxlator/update/update.go, the update between two configuration trees;
  Config_Update_Theorems has its specification by applying the update and the property.
  Dynamic_Selection: dynamicselection.go and ccpolicyprovider.go, which build a resolver from the policies of
  the chaincodes; Dynamic_Theorems shows in which sense the chosen endorsers satisfy
  all of them.
  Interleaving: runs of goroutines over a list of their states. On it Connector (pkg/fab/comm/connector.go, users and
  janitors), Lazy_Ref (lazyref.go, callers and timers) and Lazy_Cache (lazycache.go and futurevalue.go) are step
  relations; their theories of theorems have the invariants of all interleavings and the races that the code has. A cache may
  hold lazy references, of which every Get takes the current value (\<open>cache_value\<close>).
  MSP: the membership service provider of internal/.../fabric-gm/msp: identities and their validation
  (mspimplvalidate.go), roles and principals (mspimpl.go). MSP_Setup: mspimplsetup.go. Membership: verifying and signing
  (identities.go), the manager (mspmgrimpl.go) and pkg/fab/channel/membership. The record \<open>bccspmsp\<close> is the struct and
  \<open>msp_env\<close> what they call of x509, asn1, protocol buffers and the crypto suite. MSP_Theorems has the meaning of principals
  and shows that the code decides it, MSP_Properties the roles, MSP_Setup_Theorems what setup establishes (\<open>set_up\<close>),
  Membership_Theorems what a manager's identities have, Membership_Properties the properties.
  Ledger: pkg/fab/channel, the queries of the system chaincodes; Ledger_Client: pkg/client/ledger, which chooses targets and
  requires that enough of them agree (Ledger_Theorems: what they agree on, and the conditions under which its queries do not panic). Resource:
  pkg/fab/resource without configtx.go (lifecycle.go is in Lifecycle); Channel_Config: chconfig.go, from the configuration block to the
  configuration of a channel (Config_Theorems: every setting of the tree is read, in a block that peers agree on, and the order of
  version capabilities). Resmgmt, Resmgmt_Channels: resmgmt.go, opts.go and lscc.go of pkg/client/resmgmt (Resmgmt_Theorems: what a
  successful deployment, installation or join has done, and signatures of configurations written and read back).
  Lifecycle: resource/lifecycle.go, the requests of the chaincode lifecycle of Fabric 2; Lifecycle_Client: lifecycleclient.go and
  lifecycleprocessor.go of pkg/client/resmgmt, which install, approve, commit and query definitions (Lifecycle_Theorems: what a
  successful approval or commit has done, what the answers to a query agree on, and definitions sent in a proposal and read back).
  Config_Lookup: configured values and their lookup, variables in paths, certificates of endpoints and the pool of certificates
  (certpool.go), whose calls interleave between their atomic parts (\<open>pool_call_step\<close>); loading the configuration runs them alone
  (\<open>pool_Add\<close>, \<open>pool_Get\<close>). Cert_Pool_Theorems: what a Get finds of the certificates added, and the interleaving in which it misses them.
  Endpoint_Config, Endpoint_Load: pkg/fab/endpointconfig.go; the record \<open>EndpointConfig\<close> is the struct, \<open>tryMatchingPeerConfig\<close> and its
  like match entities, \<open>loadEndpointConfigEntities\<close> loads them (Endpoint_Theorems: what is loaded is usable,
  and the layers of options). Identity_Config: pkg/msp/identityconfig.go, where the options of certificate authorities are a heap of maps
  (Identity_Theorems: the certificates of every authority are in the pool, and options that are shared by mistake).

  \<^bold>\<open>Interfaces.\<close> Locales state what a client relies on: \<open>load_balance_policy\<close> (peer group policies),
  \<open>retry_handler\<close> (the handler behind the invoker), \<open>event_loop\<close> (a dispatcher whose handlers keep an
  invariant), \<open>peer_chooser\<close> (event client policies), \<open>peer_balancer\<close> and \<open>peer_sorter\<close> (selection),
  \<open>group_chooser\<close> (the filter that the discovery client calls), \<open>encoding\<close> and \<open>rwset_codec\<close> (the protocol buffer
  encoders behind read-write sets), \<open>served_dispatcher\<close> (a dispatcher behind the event service). Each is interpreted on the code's own
  definitions.

  \<^bold>\<open>Conventions.\<close> A goroutine that owns state is a function on the record of its state; what other
  goroutines, the network or the random source do are arguments. A Go map that is iterated over is an
  association list, whose order is the iteration order. A run time panic is the outcome \<open>Panic\<close>; waiting
  for ever is \<open>Blocked\<close>. Block numbers are 64-bit words, so that the dispatcher's "no block yet"
  (the maximal number) and its wrap-around are those of the code.

  \<^bold>\<open>Bounds and fuel.\<close> Only the loop over the blocks of a PEM text (\<open>append_pem\<close>) has fuel, the length of the text: every block is
  shorter than the text it is read from (\<open>pem_certs_fuel\<close>). Loops that may not end (\<open>Invoke\<close>, \<open>connect_loop\<close>) are partial
  functions into an option; their termination is proved from the number of attempts. The loop of the
  rolling counter runs over the list of its iterations, whose length is arbitrary.

  \<^bold>\<open>Not modelled.\<close> The decoding of configured values into records (reflection and third-party libraries), cryptography, certificate parsing, key stores
  and the clients of certificate authorities, gRPC transport, genesis blocks, chaincode packaging, metrics and
  logging. Protocol buffer encoding and decoding, hashing and signing are parameters (the records \<open>codec\<close>,
  \<open>pcodec\<close>, \<open>rwcodec\<close>, \<open>clientCtx\<close>, \<open>msp_env\<close>, \<open>configEnv\<close>). The timeout of a request is an argument of \<open>InvokeHandler\<close>: whether the context
  ends first.
\<close>

end
